(* ===== verification/Lpf_Base.thy ===== *)
theory Lpf_Base
  imports Main "HOL-Library.Word"
begin

unbundle bit_operations_syntax

text \<open>
  Prelude of the development: the machine types of the C code, the errno values, the C library
  and kernel helpers every component uses (bounded string copies, decimal printing, user-space
  buffers, atomic counters, device-tree lookups, bus iteration), and generic lemmas.

  Conventions. A C \<open>int\<close> that carries a return code is an \<open>int\<close>; a \<open>u8\<close>, \<open>u32\<close> or \<open>u64\<close>
  field is a word of that width, so that its arithmetic wraps and its comparisons are unsigned.
  A \<open>char\<close> buffer that holds a C string is the list of characters before its terminating NUL.
  A pointer that the code compares with \<open>NULL\<close> is an option.
\<close>

section \<open>Machine types and errno\<close>

type_synonym u8 = "8 word"
type_synonym u32 = "32 word"
type_synonym u64 = "64 word"

abbreviation (input) ENOENT :: int where "ENOENT \<equiv> 2"
abbreviation (input) EINTR :: int where "EINTR \<equiv> 4"
abbreviation (input) EIO :: int where "EIO \<equiv> 5"
abbreviation (input) E2BIG :: int where "E2BIG \<equiv> 7"
abbreviation (input) EBADF :: int where "EBADF \<equiv> 9"
abbreviation (input) EAGAIN :: int where "EAGAIN \<equiv> 11"
abbreviation (input) ENOMEM :: int where "ENOMEM \<equiv> 12"
abbreviation (input) EFAULT :: int where "EFAULT \<equiv> 14"
abbreviation (input) EBUSY :: int where "EBUSY \<equiv> 16"
abbreviation (input) ENODEV :: int where "ENODEV \<equiv> 19"
abbreviation (input) EINVAL :: int where "EINVAL \<equiv> 22"
abbreviation (input) ENOTTY :: int where "ENOTTY \<equiv> 25"
abbreviation (input) ENOSPC :: int where "ENOSPC \<equiv> 28"
abbreviation (input) ERANGE :: int where "ERANGE \<equiv> 34"
abbreviation (input) EMSGSIZE :: int where "EMSGSIZE \<equiv> 90"
abbreviation (input) EOPNOTSUPP :: int where "EOPNOTSUPP \<equiv> 95"
abbreviation (input) ETIMEDOUT :: int where "ETIMEDOUT \<equiv> 110"

section \<open>C strings\<close>

text \<open>
  \<open>strscpy (dst, src, n)\<close> and the code's \<open>strncpy\<close> followed by writing the last NUL both leave at
  most \<open>n - 1\<close> characters of the source in the buffer.
\<close>

definition strscpy :: "nat \<Rightarrow> string \<Rightarrow> string" where
  "strscpy n s = take (n - 1) s"

lemma length_strscpy: "0 < n \<Longrightarrow> length (strscpy n s) < n"
  by (auto simp: strscpy_def min_def)

lemma strscpy_id [simp]: "length s < n \<Longrightarrow> strscpy n s = s"
  by (simp add: strscpy_def)

lemma strscpy_idem [simp]: "strscpy n (strscpy n s) = strscpy n s"
  by (simp add: strscpy_def min_def)

text \<open>Decimal printing of \<open>%u\<close> and \<open>%d\<close>.\<close>

definition dec_char :: "nat \<Rightarrow> char" where
  "dec_char d = char_of (48 + d)"

fun dec_digits :: "nat \<Rightarrow> string" where
  "dec_digits n = (if n < 10 then [dec_char n]
                   else dec_digits (n div 10) @ [dec_char (n mod 10)])"

declare dec_digits.simps [simp del]

definition dec_int :: "int \<Rightarrow> string" where
  "dec_int i = (if i < 0 then CHR ''-'' # dec_digits (nat (- i)) else dec_digits (nat i))"

definition dec_val :: "string \<Rightarrow> nat" where
  "dec_val s = foldl (\<lambda>v c. 10 * v + (of_char c - 48)) 0 s"

lemma of_char_dec_char: "d < 10 \<Longrightarrow> (of_char (dec_char d) :: nat) = 48 + d"
  by (simp add: dec_char_def)

lemma dec_val_digits: "dec_val (dec_digits n) = n"
proof (induction n rule: dec_digits.induct)
  case (1 n)
  show ?case
  proof (cases "n < 10")
    case True
    then show ?thesis by (subst dec_digits.simps) (simp add: dec_val_def of_char_dec_char)
  next
    case False
    with 1 have "dec_val (dec_digits (n div 10)) = n div 10" by simp
    with False show ?thesis
      by (subst dec_digits.simps) (simp add: dec_val_def of_char_dec_char)
  qed
qed

lemma dec_digits_inject [simp]: "dec_digits m = dec_digits n \<longleftrightarrow> m = n"
  by (metis dec_val_digits)

lemma dec_int_inject: "0 \<le> i \<Longrightarrow> 0 \<le> j \<Longrightarrow> dec_int i = dec_int j \<longleftrightarrow> i = j"
  by (auto simp: dec_int_def)

lemma length_dec_digits: "n < 10 ^ Suc k \<Longrightarrow> length (dec_digits n) \<le> Suc k"
proof (induction k arbitrary: n)
  case 0
  then show ?case by (subst dec_digits.simps) simp
next
  case (Suc k)
  then have "n div 10 < 10 ^ Suc k" by (simp add: less_mult_imp_div_less)
  then have "length (dec_digits (n div 10)) \<le> Suc k" by (rule Suc.IH)
  then show ?case by (subst dec_digits.simps) simp
qed

section \<open>User-space buffers\<close>

text \<open>
  The buffer an ioctl argument points to: its content, and whether \<open>copy_from_user\<close> and
  \<open>copy_to_user\<close> succeed on it. A failing \<open>copy_to_user\<close> leaves the model's content unchanged
  (the kernel leaves a prefix of the bytes; the code never reads it back).
\<close>

record 'a user_buf =
  ub_val :: 'a
  ub_readable :: bool
  ub_writable :: bool

definition copy_from_user :: "'a user_buf \<Rightarrow> 'a option" where
  "copy_from_user b = (if ub_readable b then Some (ub_val b) else None)"

definition copy_to_user :: "'a user_buf \<Rightarrow> 'a \<Rightarrow> bool \<times> 'a user_buf" where
  "copy_to_user b v = (if ub_writable b then (True, b\<lparr>ub_val := v\<rparr>) else (False, b))"

text \<open>A buffer of the process itself, which both directions can access.\<close>

definition rw_buf :: "'a \<Rightarrow> 'a user_buf" where
  "rw_buf v = \<lparr>ub_val = v, ub_readable = True, ub_writable = True\<rparr>"

lemma rw_buf_access [simp]:
  "copy_from_user (rw_buf v) = Some v" "copy_to_user (rw_buf v) u = (True, rw_buf u)"
  "ub_val (rw_buf v) = v" "ub_readable (rw_buf v)" "ub_writable (rw_buf v)"
  by (simp_all add: rw_buf_def copy_from_user_def copy_to_user_def)

section \<open>Kernel helpers\<close>

definition atomic_dec_if_positive :: "int \<Rightarrow> int" where
  "atomic_dec_if_positive c = (if 0 < c then c - 1 else c)"

lemma atomic_dec_if_positive_nonneg: "0 \<le> c \<Longrightarrow> 0 \<le> atomic_dec_if_positive c"
  by (simp add: atomic_dec_if_positive_def)

text \<open>
  What the Open Firmware accessors answer on one node: \<open>of_property_read_u32\<close> and
  \<open>of_property_read_string\<close> either return 0 and set the value (\<open>Some\<close>) or return an error
  (\<open>None\<close>).
\<close>

record dt_node =
  dt_name :: string
  dt_u32 :: "string \<Rightarrow> u32 option"
  dt_str :: "string \<Rightarrow> string option"
  dt_bool :: "string \<Rightarrow> bool"

text \<open>
  \<open>bus_for_each_dev\<close> and \<open>driver_for_each_device\<close>: call the function on each device in bus order
  with the shared context, until it returns a nonzero value.
\<close>

fun bus_for_each :: "('d \<Rightarrow> 'c \<Rightarrow> int \<times> 'c) \<Rightarrow> 'd list \<Rightarrow> 'c \<Rightarrow> int \<times> 'c" where
  "bus_for_each f [] c = (0, c)"
| "bus_for_each f (d # ds) c =
     (case f d c of (r, c') \<Rightarrow> if r \<noteq> 0 then (r, c') else bus_for_each f ds c')"

section \<open>Generic lemmas\<close>

lemma list_split_at:
  assumes "i < length xs"
  obtains ys zs where "xs = ys @ xs ! i # zs" and "\<And>x. xs[i := x] = ys @ x # zs"
  using assms id_take_nth_drop [of i xs] upd_conv_take_nth_drop [of i xs] by metis

lemma unat_Suc_less:
  fixes i n :: "'a :: len word"
  assumes "i < n"
  shows "unat (i + 1) = Suc (unat i)"
proof -
  have "unat i < unat n" using assms by (simp add: word_less_nat_alt)
  moreover have "unat n < 2 ^ LENGTH('a)" by (rule unsigned_less)
  ultimately have "unat i + 1 < 2 ^ LENGTH('a)" by linarith
  then show ?thesis by (simp add: unat_word_ariths)
qed

lemma mod_eight_diff:
  fixes i k :: nat
  shows "i < 8 \<Longrightarrow> k < 7 \<Longrightarrow> (Suc i mod 8 + 8 - Suc k) mod 8 = (i + 8 - k) mod 8"
  by (cases "i = 7") (auto simp: mod_if)

end
