(* ===== verification/Pdm_Uapi.thy ===== *)
theory Pdm_Uapi
  imports Lpf_Base
begin

unbundle bit_operations_syntax

text \<open>
  The ioctl ABI shared by the kernel modules and the PDI library: \<open>src/uapi/pdm/pdm_manager.h\<close>,
  \<open>pdm_led.h\<close> and \<open>pdm_mcu.h\<close>. Each C struct is a record with the fields in their C order; the
  command numbers are computed the way \<open>linux/ioctl.h\<close> packs them, from the magic letter, the
  number, the direction and the size of the argument struct.
\<close>

section \<open>Command numbers\<close>

abbreviation (input) IOC_WRITE :: nat where "IOC_WRITE \<equiv> 1"
abbreviation (input) IOC_READ :: nat where "IOC_READ \<equiv> 2"
abbreviation (input) IOC_RW :: nat where "IOC_RW \<equiv> 3"

definition ioc :: "nat \<Rightarrow> char \<Rightarrow> nat \<Rightarrow> nat \<Rightarrow> u32" where
  "ioc dir magic nr sz =
     of_nat (dir * 2 ^ 30 + sz * 2 ^ 16 + of_char magic * 2 ^ 8 + nr)"

section \<open>pdm_manager.h\<close>

abbreviation (input) PDM_MANAGER_ABI_VERSION :: u32 where "PDM_MANAGER_ABI_VERSION \<equiv> 0x00010000"
abbreviation (input) PDM_MANAGER_NAME_LEN :: nat where "PDM_MANAGER_NAME_LEN \<equiv> 64"

abbreviation (input) PDM_MANAGER_DEVICE_TYPE_INVALID :: u32 where "PDM_MANAGER_DEVICE_TYPE_INVALID \<equiv> 0"
abbreviation (input) PDM_MANAGER_DEVICE_TYPE_MCU :: u32 where "PDM_MANAGER_DEVICE_TYPE_MCU \<equiv> 1"
abbreviation (input) PDM_MANAGER_DEVICE_TYPE_LED :: u32 where "PDM_MANAGER_DEVICE_TYPE_LED \<equiv> 2"

abbreviation (input) PDM_MANAGER_DEVICE_STATE_REGISTERED :: u32
  where "PDM_MANAGER_DEVICE_STATE_REGISTERED \<equiv> 0"
abbreviation (input) PDM_MANAGER_DEVICE_STATE_BOUND :: u32
  where "PDM_MANAGER_DEVICE_STATE_BOUND \<equiv> 1"
abbreviation (input) PDM_MANAGER_DEVICE_STATE_ERROR :: u32
  where "PDM_MANAGER_DEVICE_STATE_ERROR \<equiv> 2"

abbreviation (input) PDM_MANAGER_DEVICE_CAP_NONE :: u64 where "PDM_MANAGER_DEVICE_CAP_NONE \<equiv> 0"

record pdm_manager_info =
  mi_abi_version :: u32
  mi_version_major :: u32
  mi_version_minor :: u32
  mi_version_patch :: u32
  mi_open_count :: u32
  mi_device_count :: u32

record pdm_manager_device_info =
  di_type :: u32
  di_index :: u32
  di_state :: u32
  di_last_error :: int
  di_error_count :: u32
  di_capabilities :: u64
  di_name :: string
  di_driver_name :: string

definition pdm_manager_device_info_zero :: pdm_manager_device_info where
  "pdm_manager_device_info_zero = \<lparr>di_type = 0, di_index = 0, di_state = 0, di_last_error = 0,
     di_error_count = 0, di_capabilities = 0, di_name = [], di_driver_name = []\<rparr>"

record pdm_manager_device_query =
  dq_match_index :: u32
  dq_reserved :: u32
  dq_required_capabilities :: u64
  dq_info :: pdm_manager_device_info

record pdm_manager_device_name_query =
  nq_name :: string
  nq_info :: pdm_manager_device_info

text \<open>
  One ioctl on \<open>/dev/pdm_manager\<close>: the command together with the user buffer it points to.
\<close>

datatype pdm_manager_request =
    MGR_GET_INFO "pdm_manager_info user_buf"
  | MGR_GET_DEVICE "pdm_manager_device_query user_buf"
  | MGR_GET_DEVICE_BY_NAME "pdm_manager_device_name_query user_buf"
  | MGR_GET_DEVICE_BY_CAPABILITY "pdm_manager_device_query user_buf"
  | MGR_UNKNOWN u32

fun pdm_manager_ioc :: "pdm_manager_request \<Rightarrow> u32" where
  "pdm_manager_ioc (MGR_GET_INFO _) = ioc IOC_READ CHR ''C'' 1 24"
| "pdm_manager_ioc (MGR_GET_DEVICE _) = ioc IOC_RW CHR ''C'' 2 176"
| "pdm_manager_ioc (MGR_GET_DEVICE_BY_NAME _) = ioc IOC_RW CHR ''C'' 3 224"
| "pdm_manager_ioc (MGR_GET_DEVICE_BY_CAPABILITY _) = ioc IOC_RW CHR ''C'' 4 176"
| "pdm_manager_ioc (MGR_UNKNOWN c) = c"

section \<open>pdm_led.h\<close>

abbreviation (input) PDM_LED_ABI_VERSION :: u32 where "PDM_LED_ABI_VERSION \<equiv> 0x00010000"
abbreviation (input) PDM_LED_DEVICE_TYPE :: u32 where "PDM_LED_DEVICE_TYPE \<equiv> 2"
abbreviation (input) PDM_LED_CAP_NONE :: u64 where "PDM_LED_CAP_NONE \<equiv> 0"
abbreviation (input) PDM_LED_CAP_GPIO :: u64 where "PDM_LED_CAP_GPIO \<equiv> 0x100"
abbreviation (input) PDM_LED_CAP_PWM :: u64 where "PDM_LED_CAP_PWM \<equiv> 0x200"
abbreviation (input) PDM_LED_CAP_USER_IOCTL :: u64 where "PDM_LED_CAP_USER_IOCTL \<equiv> 0x10000"

record pdm_led_info =
  li_abi_version :: u32
  li_version_major :: u32
  li_version_minor :: u32
  li_version_patch :: u32
  li_open_count :: u32
  li_max_devices :: u32

record pdm_led_state =
  ls_index :: u32
  ls_brightness :: u32
  ls_max_brightness :: u32
  ls_enabled :: u32

record pdm_led_brightness =
  lb_index :: u32
  lb_brightness :: u32

datatype pdm_led_request =
    LED_GET_INFO "pdm_led_info user_buf"
  | LED_GET_STATE "pdm_led_state user_buf"
  | LED_SET_BRIGHTNESS "pdm_led_brightness user_buf"
  | LED_ENABLE "u32 user_buf"
  | LED_DISABLE "u32 user_buf"
  | LED_UNKNOWN u32

fun pdm_led_ioc :: "pdm_led_request \<Rightarrow> u32" where
  "pdm_led_ioc (LED_GET_INFO _) = ioc IOC_READ CHR ''L'' 1 24"
| "pdm_led_ioc (LED_GET_STATE _) = ioc IOC_RW CHR ''L'' 2 16"
| "pdm_led_ioc (LED_SET_BRIGHTNESS _) = ioc IOC_WRITE CHR ''L'' 3 8"
| "pdm_led_ioc (LED_ENABLE _) = ioc IOC_WRITE CHR ''L'' 4 4"
| "pdm_led_ioc (LED_DISABLE _) = ioc IOC_WRITE CHR ''L'' 5 4"
| "pdm_led_ioc (LED_UNKNOWN c) = c"

section \<open>pdm_mcu.h\<close>

abbreviation (input) PDM_MCU_ABI_VERSION :: u32 where "PDM_MCU_ABI_VERSION \<equiv> 0x00010000"
abbreviation (input) PDM_MCU_MAX_TRANSFER_SIZE :: nat where "PDM_MCU_MAX_TRANSFER_SIZE \<equiv> 256"
abbreviation (input) PDM_MCU_DEVICE_TYPE :: u32 where "PDM_MCU_DEVICE_TYPE \<equiv> 1"
abbreviation (input) PDM_MCU_CAP_TRANSPORT_CAN :: u64 where "PDM_MCU_CAP_TRANSPORT_CAN \<equiv> 1"
abbreviation (input) PDM_MCU_CAP_TRANSPORT_UART :: u64 where "PDM_MCU_CAP_TRANSPORT_UART \<equiv> 2"
abbreviation (input) PDM_MCU_CAP_TRANSPORT_I2C :: u64 where "PDM_MCU_CAP_TRANSPORT_I2C \<equiv> 4"
abbreviation (input) PDM_MCU_CAP_TRANSPORT_SPI :: u64 where "PDM_MCU_CAP_TRANSPORT_SPI \<equiv> 8"
abbreviation (input) PDM_MCU_CAP_USER_IOCTL :: u64 where "PDM_MCU_CAP_USER_IOCTL \<equiv> 0x10000"
abbreviation (input) PDM_MCU_CMD_F_NEED_RESPONSE :: u32 where "PDM_MCU_CMD_F_NEED_RESPONSE \<equiv> 1"

abbreviation (input) PDM_MCU_STATE_UNINITIALIZED :: u32 where "PDM_MCU_STATE_UNINITIALIZED \<equiv> 0"
abbreviation (input) PDM_MCU_STATE_INIT :: u32 where "PDM_MCU_STATE_INIT \<equiv> 1"
abbreviation (input) PDM_MCU_STATE_READY :: u32 where "PDM_MCU_STATE_READY \<equiv> 2"
abbreviation (input) PDM_MCU_STATE_BUSY :: u32 where "PDM_MCU_STATE_BUSY \<equiv> 3"
abbreviation (input) PDM_MCU_STATE_ERROR :: u32 where "PDM_MCU_STATE_ERROR \<equiv> 4"
abbreviation (input) PDM_MCU_STATE_OFFLINE :: u32 where "PDM_MCU_STATE_OFFLINE \<equiv> 5"

record pdm_mcu_info =
  ui_abi_version :: u32
  ui_version_major :: u32
  ui_version_minor :: u32
  ui_version_patch :: u32
  ui_open_count :: u32
  ui_max_devices :: u32

text \<open>
  The protocol layer fills the version and status structs byte by byte from the wire, so they
  are records of their scalar fields together with their image in the memory of a little-endian
  host, in both directions (\<open>pdm_mcu_version_bytes\<close> and \<open>pdm_mcu_version_of_bytes\<close>, and the same for
  the status). Byte 28 to 31 of the status struct are
  padding in front of the 64-bit timestamp.
\<close>

definition le32 :: "u8 list \<Rightarrow> nat \<Rightarrow> u32" where
  "le32 bs off = (ucast (bs ! off) OR push_bit 8 (ucast (bs ! (off + 1))))
     OR (push_bit 16 (ucast (bs ! (off + 2))) OR push_bit 24 (ucast (bs ! (off + 3))))"

definition le64 :: "u8 list \<Rightarrow> nat \<Rightarrow> u64" where
  "le64 bs off = ucast (le32 bs off) OR push_bit 32 (ucast (le32 bs (off + 4)))"

definition le32_bytes :: "u32 \<Rightarrow> u8 list" where
  "le32_bytes v = [ucast v, ucast (drop_bit 8 v), ucast (drop_bit 16 v), ucast (drop_bit 24 v)]"

definition le64_bytes :: "u64 \<Rightarrow> u8 list" where
  "le64_bytes v = le32_bytes (ucast v) @ le32_bytes (ucast (drop_bit 32 v))"

record pdm_mcu_version =
  mv_index :: u32
  mv_major :: u8
  mv_minor :: u8
  mv_patch :: u8
  mv_build :: u8
  mv_string :: "u8 list"

abbreviation (input) PDM_MCU_VERSION_SIZE :: nat where "PDM_MCU_VERSION_SIZE \<equiv> 40"

definition pdm_mcu_version_of_bytes :: "u8 list \<Rightarrow> pdm_mcu_version" where
  "pdm_mcu_version_of_bytes bs = \<lparr>mv_index = le32 bs 0, mv_major = bs ! 4, mv_minor = bs ! 5,
     mv_patch = bs ! 6, mv_build = bs ! 7, mv_string = take 32 (drop 8 bs)\<rparr>"

definition pdm_mcu_version_bytes :: "pdm_mcu_version \<Rightarrow> u8 list" where
  "pdm_mcu_version_bytes v = le32_bytes (mv_index v) @ [mv_major v, mv_minor v, mv_patch v, mv_build v] @ mv_string v"

record pdm_mcu_status =
  ms_index :: u32
  ms_online :: u32
  ms_state :: u32
  ms_uptime_sec :: u32
  ms_error_code :: u32
  ms_temperature :: int
  ms_voltage_mv :: u32
  ms_timestamp_us :: u64

abbreviation (input) PDM_MCU_STATUS_SIZE :: nat where "PDM_MCU_STATUS_SIZE \<equiv> 40"

definition pdm_mcu_status_of_bytes :: "u8 list \<Rightarrow> pdm_mcu_status" where
  "pdm_mcu_status_of_bytes bs = \<lparr>ms_index = le32 bs 0, ms_online = le32 bs 4,
     ms_state = le32 bs 8, ms_uptime_sec = le32 bs 12, ms_error_code = le32 bs 16,
     ms_temperature = sint (le32 bs 20), ms_voltage_mv = le32 bs 24,
     ms_timestamp_us = le64 bs 32\<rparr>"

definition pdm_mcu_status_bytes :: "pdm_mcu_status \<Rightarrow> u8 list" where
  "pdm_mcu_status_bytes st = le32_bytes (ms_index st) @ le32_bytes (ms_online st) @
     le32_bytes (ms_state st) @ le32_bytes (ms_uptime_sec st) @ le32_bytes (ms_error_code st) @
     le32_bytes (word_of_int (ms_temperature st)) @ le32_bytes (ms_voltage_mv st) @
     replicate 4 0 @ le64_bytes (ms_timestamp_us st)"

record pdm_mcu_command =
  mc_index :: u32
  mc_command :: u32
  mc_flags :: u32
  mc_tx_len :: u32
  mc_rx_len :: u32
  mc_actual_rx_len :: u32
  mc_tx_data :: "u8 list"
  mc_rx_data :: "u8 list"

datatype pdm_mcu_request =
    MCU_GET_INFO "pdm_mcu_info user_buf"
  | MCU_GET_VERSION "pdm_mcu_version user_buf"
  | MCU_GET_STATUS "pdm_mcu_status user_buf"
  | MCU_RESET "u32 user_buf"
  | MCU_COMMAND "pdm_mcu_command user_buf"
  | MCU_UNKNOWN u32

fun pdm_mcu_ioc :: "pdm_mcu_request \<Rightarrow> u32" where
  "pdm_mcu_ioc (MCU_GET_INFO _) = ioc IOC_READ CHR ''M'' 1 24"
| "pdm_mcu_ioc (MCU_GET_VERSION _) = ioc IOC_RW CHR ''M'' 2 40"
| "pdm_mcu_ioc (MCU_GET_STATUS _) = ioc IOC_RW CHR ''M'' 3 40"
| "pdm_mcu_ioc (MCU_RESET _) = ioc IOC_WRITE CHR ''M'' 4 4"
| "pdm_mcu_ioc (MCU_COMMAND _) = ioc IOC_RW CHR ''M'' 5 536"
| "pdm_mcu_ioc (MCU_UNKNOWN c) = c"

end
