(* ===== verification/Pdi.thy ===== *)
theory Pdi
  imports Pdm_Uapi
begin

unbundle bit_operations_syntax

text \<open>
  The PDI user library, \<open>src/user/pdi\<close>: discovery (\<open>pdi_discovery.c\<close>), the LED and the MCU client
  (\<open>pdi_led.c\<close>, \<open>pdi_mcu.c\<close>), the error helpers and the syscall table they share.

  A process has its \<open>errno\<close> and whatever the system calls act on, of type \<open>'s\<close>. The syscall table is
  a record of three functions on the process; \<open>ioctl\<close> takes the request number together with the
  struct its argument points to, and gives the struct back as the call left it. A context or an
  output struct is \<open>None\<close> for a \<open>NULL\<close> pointer.
\<close>

section \<open>Errors (pdi_error.h)\<close>

record 's pdi_process =
  ps_errno :: int
  ps_sys :: 's

abbreviation (input) PDI_SUCCESS :: int where "PDI_SUCCESS \<equiv> 0"
abbreviation (input) PDI_FAILURE :: int where "PDI_FAILURE \<equiv> - 1"

definition pdi_fail_errno :: "int \<Rightarrow> 's pdi_process \<Rightarrow> int \<times> 's pdi_process" where
  "pdi_fail_errno err p = (PDI_FAILURE, p\<lparr>ps_errno := if 0 < err then err else EIO\<rparr>)"

definition pdi_fail_invalid_arg :: "'s pdi_process \<Rightarrow> int \<times> 's pdi_process" where
  "pdi_fail_invalid_arg = pdi_fail_errno EINVAL"

definition pdi_fail_bad_context :: "'s pdi_process \<Rightarrow> int \<times> 's pdi_process" where
  "pdi_fail_bad_context = pdi_fail_errno EBADF"

definition pdi_fail_no_device :: "'s pdi_process \<Rightarrow> int \<times> 's pdi_process" where
  "pdi_fail_no_device = pdi_fail_errno ENODEV"

definition pdi_result_from_syscall :: "int \<Rightarrow> int" where
  "pdi_result_from_syscall ret = (if ret < 0 then PDI_FAILURE else PDI_SUCCESS)"

fun pdi_check_ptr :: "'a option \<Rightarrow> 's pdi_process \<Rightarrow> int \<times> 's pdi_process" where
  "pdi_check_ptr (Some _) p = (PDI_SUCCESS, p)"
| "pdi_check_ptr None p = pdi_fail_invalid_arg p"

definition pdi_check_fd :: "int \<Rightarrow> 's pdi_process \<Rightarrow> int \<times> 's pdi_process" where
  "pdi_check_fd fd p = (if 0 \<le> fd then (PDI_SUCCESS, p) else pdi_fail_bad_context p)"

section \<open>System calls (pdi_syscall.c)\<close>

datatype pdi_request = CTL_REQ pdm_manager_request | LED_REQ pdm_led_request | MCU_REQ pdm_mcu_request

record 's pdi_syscall_ops =
  so_open :: "string \<Rightarrow> u32 \<Rightarrow> 's pdi_process \<Rightarrow> int \<times> 's pdi_process"
  so_close :: "int \<Rightarrow> 's pdi_process \<Rightarrow> int \<times> 's pdi_process"
  so_ioctl :: "int \<Rightarrow> pdi_request \<Rightarrow> 's pdi_process \<Rightarrow> int \<times> pdi_request \<times> 's pdi_process"

abbreviation (input) O_RDWR_CLOEXEC :: u32 where "O_RDWR_CLOEXEC \<equiv> 0x00080002"

text \<open>
  The table in use: the default one forwards to the C library, a test may set another. The functions
  below take the table in use as their argument \<open>ops\<close>.
\<close>

definition g_pdi_syscall_default_ops ::
  "(string \<Rightarrow> u32 \<Rightarrow> 's pdi_process \<Rightarrow> int \<times> 's pdi_process) \<Rightarrow>
   (int \<Rightarrow> 's pdi_process \<Rightarrow> int \<times> 's pdi_process) \<Rightarrow>
   (int \<Rightarrow> pdi_request \<Rightarrow> 's pdi_process \<Rightarrow> int \<times> pdi_request \<times> 's pdi_process) \<Rightarrow> 's pdi_syscall_ops" where
  "g_pdi_syscall_default_ops libc_open libc_close libc_ioctl =
     \<lparr>so_open = libc_open, so_close = libc_close, so_ioctl = libc_ioctl\<rparr>"

definition pdi_syscall_set_ops ::
  "'s pdi_syscall_ops \<Rightarrow> 's pdi_syscall_ops option \<Rightarrow> 's pdi_syscall_ops" where
  "pdi_syscall_set_ops default_ops ops = (case ops of None \<Rightarrow> default_ops | Some t \<Rightarrow> t)"

definition pdi_syscall_reset_ops :: "'s pdi_syscall_ops \<Rightarrow> 's pdi_syscall_ops" where
  "pdi_syscall_reset_ops default_ops = default_ops"

definition pdi_syscall_open ::
  "'s pdi_syscall_ops \<Rightarrow> string \<Rightarrow> u32 \<Rightarrow> 's pdi_process \<Rightarrow> int \<times> 's pdi_process" where
  "pdi_syscall_open ops path flags p = so_open ops path flags p"

definition pdi_syscall_close :: "'s pdi_syscall_ops \<Rightarrow> int \<Rightarrow> 's pdi_process \<Rightarrow> int \<times> 's pdi_process" where
  "pdi_syscall_close ops fd p = so_close ops fd p"

definition pdi_syscall_ioctl ::
  "'s pdi_syscall_ops \<Rightarrow> int \<Rightarrow> pdi_request \<Rightarrow> 's pdi_process \<Rightarrow> int \<times> pdi_request \<times> 's pdi_process" where
  "pdi_syscall_ioctl ops fd req p = so_ioctl ops fd req p"

text \<open>What the argument struct holds after a call; a call never changes which struct it is.\<close>

fun arg_manager_info :: "pdi_request \<Rightarrow> pdm_manager_info \<Rightarrow> pdm_manager_info" where
  "arg_manager_info (CTL_REQ (MGR_GET_INFO b)) _ = ub_val b"
| "arg_manager_info _ old = old"

fun arg_device_query :: "pdi_request \<Rightarrow> pdm_manager_device_query \<Rightarrow> pdm_manager_device_query" where
  "arg_device_query (CTL_REQ (MGR_GET_DEVICE b)) _ = ub_val b"
| "arg_device_query (CTL_REQ (MGR_GET_DEVICE_BY_CAPABILITY b)) _ = ub_val b"
| "arg_device_query _ old = old"

fun arg_name_query :: "pdi_request \<Rightarrow> pdm_manager_device_name_query \<Rightarrow> pdm_manager_device_name_query" where
  "arg_name_query (CTL_REQ (MGR_GET_DEVICE_BY_NAME b)) _ = ub_val b"
| "arg_name_query _ old = old"

fun arg_led_info :: "pdi_request \<Rightarrow> pdm_led_info \<Rightarrow> pdm_led_info" where
  "arg_led_info (LED_REQ (LED_GET_INFO b)) _ = ub_val b"
| "arg_led_info _ old = old"

fun arg_led_state :: "pdi_request \<Rightarrow> pdm_led_state \<Rightarrow> pdm_led_state" where
  "arg_led_state (LED_REQ (LED_GET_STATE b)) _ = ub_val b"
| "arg_led_state _ old = old"

fun arg_mcu_info :: "pdi_request \<Rightarrow> pdm_mcu_info \<Rightarrow> pdm_mcu_info" where
  "arg_mcu_info (MCU_REQ (MCU_GET_INFO b)) _ = ub_val b"
| "arg_mcu_info _ old = old"

fun arg_mcu_version :: "pdi_request \<Rightarrow> pdm_mcu_version \<Rightarrow> pdm_mcu_version" where
  "arg_mcu_version (MCU_REQ (MCU_GET_VERSION b)) _ = ub_val b"
| "arg_mcu_version _ old = old"

fun arg_mcu_status :: "pdi_request \<Rightarrow> pdm_mcu_status \<Rightarrow> pdm_mcu_status" where
  "arg_mcu_status (MCU_REQ (MCU_GET_STATUS b)) _ = ub_val b"
| "arg_mcu_status _ old = old"

fun arg_mcu_command :: "pdi_request \<Rightarrow> pdm_mcu_command \<Rightarrow> pdm_mcu_command" where
  "arg_mcu_command (MCU_REQ (MCU_COMMAND b)) _ = ub_val b"
| "arg_mcu_command _ old = old"

section \<open>Discovery (pdi_discovery.c)\<close>

record pdi_ctl_context =
  cc_fd :: int

definition PDI_CTL_DEFAULT_DEVICE :: string where
  "PDI_CTL_DEFAULT_DEVICE = ''/dev/pdm_manager''"

definition pdi_ctl_ioctl_checked ::
  "'s pdi_syscall_ops \<Rightarrow> pdi_ctl_context option \<Rightarrow> pdi_request \<Rightarrow> 's pdi_process \<Rightarrow>
   int \<times> pdi_request \<times> 's pdi_process" where
  "pdi_ctl_ioctl_checked ops ctx req p =
     (let (r, p) = pdi_check_ptr ctx p
      in if r < 0 then (PDI_FAILURE, req, p)
         else let (r, p) = pdi_check_fd (cc_fd (the ctx)) p
              in if r < 0 then (PDI_FAILURE, req, p)
                 else let (ret, req', p) = pdi_syscall_ioctl ops (cc_fd (the ctx)) req p
                      in (pdi_result_from_syscall ret, req', p))"

definition pdi_ctl_open ::
  "'s pdi_syscall_ops \<Rightarrow> pdi_ctl_context option \<Rightarrow> string option \<Rightarrow> 's pdi_process \<Rightarrow>
   int \<times> pdi_ctl_context option \<times> 's pdi_process" where
  "pdi_ctl_open ops ctx device_path p =
     (let (r, p) = pdi_check_ptr ctx p
      in if r < 0 then (PDI_FAILURE, ctx, p)
         else let path = (case device_path of Some dp \<Rightarrow> dp | None \<Rightarrow> PDI_CTL_DEFAULT_DEVICE);
                  (fd, p) = pdi_syscall_open ops path O_RDWR_CLOEXEC p;
                  ctx = Some ((the ctx)\<lparr>cc_fd := fd\<rparr>)
              in if fd < 0 then (PDI_FAILURE, ctx, p) else (PDI_SUCCESS, ctx, p))"

definition pdi_ctl_close ::
  "'s pdi_syscall_ops \<Rightarrow> pdi_ctl_context option \<Rightarrow> 's pdi_process \<Rightarrow>
   int \<times> pdi_ctl_context option \<times> 's pdi_process" where
  "pdi_ctl_close ops ctx p =
     (let (r, p) = pdi_check_ptr ctx p
      in if r < 0 then (PDI_FAILURE, ctx, p)
         else let (r, p) = pdi_check_fd (cc_fd (the ctx)) p
              in if r < 0 then (PDI_FAILURE, ctx, p)
                 else let (ret, p) = pdi_syscall_close ops (cc_fd (the ctx)) p
                      in (pdi_result_from_syscall ret, Some ((the ctx)\<lparr>cc_fd := - 1\<rparr>), p))"

definition pdi_ctl_get_info ::
  "'s pdi_syscall_ops \<Rightarrow> pdi_ctl_context option \<Rightarrow> pdm_manager_info option \<Rightarrow> 's pdi_process \<Rightarrow>
   int \<times> pdm_manager_info option \<times> 's pdi_process" where
  "pdi_ctl_get_info ops ctx info p =
     (let (r, p) = pdi_check_ptr info p
      in if r < 0 then (PDI_FAILURE, info, p)
         else let (ret, req, p) = pdi_ctl_ioctl_checked ops ctx (CTL_REQ (MGR_GET_INFO (rw_buf (the info)))) p
              in (ret, Some (arg_manager_info req (the info)), p))"

definition device_query_zero :: pdm_manager_device_query where
  "device_query_zero = \<lparr>dq_match_index = 0, dq_reserved = 0, dq_required_capabilities = 0,
     dq_info = pdm_manager_device_info_zero\<rparr>"

definition name_query_zero :: pdm_manager_device_name_query where
  "name_query_zero = \<lparr>nq_name = [], nq_info = pdm_manager_device_info_zero\<rparr>"

text \<open>
  The loop of \<open>pdi_list_devices\<close> from index \<open>i\<close>. The result is the return value of a failing first
  call (\<open>Some\<close>), or the index the loop ended at; \<open>devices\<close> is the array of the caller, or \<open>None\<close>.
  The array must have room for \<open>requested\<close> entries.
\<close>

function pdi_list_devices_loop ::
  "'s pdi_syscall_ops \<Rightarrow> pdi_ctl_context option \<Rightarrow> u32 \<Rightarrow> u32 \<Rightarrow>
   pdm_manager_device_info list option \<Rightarrow> 's pdi_process \<Rightarrow>
   int option \<times> u32 \<times> pdm_manager_device_info list option \<times> 's pdi_process" where
  "pdi_list_devices_loop ops ctx requested i devices p =
     (if \<not> i < requested then (None, i, devices, p)
      else let query = device_query_zero\<lparr>dq_match_index := i\<rparr>;
               (ret, req, p) = pdi_ctl_ioctl_checked ops ctx (CTL_REQ (MGR_GET_DEVICE (rw_buf query))) p;
               query = arg_device_query req query
           in if ret < 0 then (if i = 0 then (Some ret, i, devices, p) else (None, i, devices, p))
              else pdi_list_devices_loop ops ctx requested (i + 1)
                     (map_option (\<lambda>ds. ds[unat i := dq_info query]) devices) p)"
  by pat_completeness auto

termination
proof (relation "measure (\<lambda>(ops, ctx, requested, i, devices, p). unat requested - unat i)", goal_cases)
  case (2 ops ctx requested i)
  then have "unat i < unat requested" by (simp add: word_less_nat_alt)
  moreover have "unat (i + 1) = Suc (unat i)" using 2 by (intro unat_Suc_less) simp
  ultimately show ?case by simp
qed simp

declare pdi_list_devices_loop.simps [simp del]

definition pdi_list_devices ::
  "'s pdi_syscall_ops \<Rightarrow> pdi_ctl_context option \<Rightarrow> pdm_manager_device_info list option \<Rightarrow> u32 option \<Rightarrow>
   's pdi_process \<Rightarrow> int \<times> pdm_manager_device_info list option \<times> u32 option \<times> 's pdi_process" where
  "pdi_list_devices ops ctx devices count p =
     (let (r, p) = pdi_check_ptr count p
      in if r < 0 then (PDI_FAILURE, devices, count, p)
         else case pdi_list_devices_loop ops ctx (the count) 0 devices p of
                (Some ret, _, devices, p) \<Rightarrow> (ret, devices, count, p)
              | (None, i, devices, p) \<Rightarrow> (PDI_SUCCESS, devices, Some i, p))"

definition pdi_get_device_by_name ::
  "'s pdi_syscall_ops \<Rightarrow> pdi_ctl_context option \<Rightarrow> string option \<Rightarrow> pdm_manager_device_info option \<Rightarrow>
   's pdi_process \<Rightarrow> int \<times> pdm_manager_device_info option \<times> 's pdi_process" where
  "pdi_get_device_by_name ops ctx name info p =
     (let (r, p) = pdi_check_ptr name p
      in if r < 0 then (PDI_FAILURE, info, p)
         else let (r, p) = pdi_check_ptr info p
              in if r < 0 then (PDI_FAILURE, info, p)
                 else let query = name_query_zero\<lparr>nq_name := strscpy PDM_MANAGER_NAME_LEN (the name)\<rparr>;
                          (ret, req, p) = pdi_ctl_ioctl_checked ops ctx
                              (CTL_REQ (MGR_GET_DEVICE_BY_NAME (rw_buf query))) p
                      in if ret < 0 then (ret, info, p)
                         else (PDI_SUCCESS, Some (nq_info (arg_name_query req query)), p))"

definition pdi_get_device_by_capability ::
  "'s pdi_syscall_ops \<Rightarrow> pdi_ctl_context option \<Rightarrow> u64 \<Rightarrow> u32 \<Rightarrow> pdm_manager_device_info option \<Rightarrow>
   's pdi_process \<Rightarrow> int \<times> pdm_manager_device_info option \<times> 's pdi_process" where
  "pdi_get_device_by_capability ops ctx required_capabilities match_index info p =
     (let (r, p) = pdi_check_ptr info p
      in if r < 0 then (PDI_FAILURE, info, p)
         else if required_capabilities = PDM_MANAGER_DEVICE_CAP_NONE
         then (case pdi_fail_invalid_arg p of (ret, p) \<Rightarrow> (ret, info, p))
         else let query = device_query_zero\<lparr>dq_match_index := match_index,
                            dq_required_capabilities := required_capabilities\<rparr>;
                  (ret, req, p) = pdi_ctl_ioctl_checked ops ctx
                      (CTL_REQ (MGR_GET_DEVICE_BY_CAPABILITY (rw_buf query))) p
              in if ret < 0 then (ret, info, p)
                 else (PDI_SUCCESS, Some (dq_info (arg_device_query req query)), p))"

abbreviation (input) PDI_DEVICE_PATH_LEN :: nat where "PDI_DEVICE_PATH_LEN \<equiv> 64"

text \<open>
  The two clients. \<open>snprintf\<close> of the node path cannot fail, and gives the length of the whole path.
  In \<open>open_by_name\<close> the context of discovery and the info struct are locals without an initial
  value, which the code writes before it reads them.
\<close>

section \<open>The LED client (pdi_led.c)\<close>

record pdi_led_context =
  lc_fd :: int

definition PDI_LED_DEFAULT_DEVICE :: string where
  "PDI_LED_DEFAULT_DEVICE = ''/dev/pdm/led0''"

definition pdi_led_ioctl_checked ::
  "'s pdi_syscall_ops \<Rightarrow> pdi_led_context option \<Rightarrow> pdi_request \<Rightarrow> 's pdi_process \<Rightarrow>
   int \<times> pdi_request \<times> 's pdi_process" where
  "pdi_led_ioctl_checked ops ctx req p =
     (let (r, p) = pdi_check_ptr ctx p
      in if r < 0 then (PDI_FAILURE, req, p)
         else let (r, p) = pdi_check_fd (lc_fd (the ctx)) p
              in if r < 0 then (PDI_FAILURE, req, p)
                 else let (ret, req', p) = pdi_syscall_ioctl ops (lc_fd (the ctx)) req p
                      in (pdi_result_from_syscall ret, req', p))"

definition pdi_led_open ::
  "'s pdi_syscall_ops \<Rightarrow> pdi_led_context option \<Rightarrow> string option \<Rightarrow> 's pdi_process \<Rightarrow>
   int \<times> pdi_led_context option \<times> 's pdi_process" where
  "pdi_led_open ops ctx device_path p =
     (let (r, p) = pdi_check_ptr ctx p
      in if r < 0 then (PDI_FAILURE, ctx, p)
         else let path = (case device_path of Some dp \<Rightarrow> dp | None \<Rightarrow> PDI_LED_DEFAULT_DEVICE);
                  (fd, p) = pdi_syscall_open ops path O_RDWR_CLOEXEC p;
                  ctx = Some ((the ctx)\<lparr>lc_fd := fd\<rparr>)
              in if fd < 0 then (PDI_FAILURE, ctx, p) else (PDI_SUCCESS, ctx, p))"

definition pdi_led_device_path :: "u32 \<Rightarrow> string" where
  "pdi_led_device_path index = ''/dev/pdm/led'' @ dec_digits (unat index)"

definition pdi_led_open_by_name ::
  "'s pdi_syscall_ops \<Rightarrow> pdi_led_context option \<Rightarrow> string option \<Rightarrow> 's pdi_process \<Rightarrow>
   int \<times> pdi_led_context option \<times> 's pdi_process" where
  "pdi_led_open_by_name ops ctx name p =
     (let (r, p) = pdi_check_ptr ctx p
      in if r < 0 then (PDI_FAILURE, ctx, p)
         else let ctx = Some ((the ctx)\<lparr>lc_fd := - 1\<rparr>);
                  (r, p) = pdi_check_ptr name p
              in if r < 0 then (PDI_FAILURE, ctx, p)
                 else let (ret, ctl, p) = pdi_ctl_open ops (Some \<lparr>cc_fd = - 1\<rparr>) None p
                      in if ret < 0 then (ret, ctx, p)
                         else let (ret, info, p) = pdi_get_device_by_name ops ctl name
                                    (Some pdm_manager_device_info_zero) p;
                                  (_, _, p) = pdi_ctl_close ops ctl p
                              in if ret < 0 then (ret, ctx, p)
                                 else if di_type (the info) \<noteq> PDM_MANAGER_DEVICE_TYPE_LED
                                 then (case pdi_fail_no_device p of (ret, p) \<Rightarrow> (ret, ctx, p))
                                 else let path = pdi_led_device_path (di_index (the info))
                                      in if PDI_DEVICE_PATH_LEN \<le> length path
                                         then (case pdi_fail_invalid_arg p of (ret, p) \<Rightarrow> (ret, ctx, p))
                                         else pdi_led_open ops ctx (Some path) p)"

definition pdi_led_close ::
  "'s pdi_syscall_ops \<Rightarrow> pdi_led_context option \<Rightarrow> 's pdi_process \<Rightarrow>
   int \<times> pdi_led_context option \<times> 's pdi_process" where
  "pdi_led_close ops ctx p =
     (let (r, p) = pdi_check_ptr ctx p
      in if r < 0 then (PDI_FAILURE, ctx, p)
         else let (r, p) = pdi_check_fd (lc_fd (the ctx)) p
              in if r < 0 then (PDI_FAILURE, ctx, p)
                 else let (ret, p) = pdi_syscall_close ops (lc_fd (the ctx)) p
                      in (pdi_result_from_syscall ret, Some ((the ctx)\<lparr>lc_fd := - 1\<rparr>), p))"

definition pdi_led_get_info ::
  "'s pdi_syscall_ops \<Rightarrow> pdi_led_context option \<Rightarrow> pdm_led_info option \<Rightarrow> 's pdi_process \<Rightarrow>
   int \<times> pdm_led_info option \<times> 's pdi_process" where
  "pdi_led_get_info ops ctx info p =
     (let (r, p) = pdi_check_ptr info p
      in if r < 0 then (PDI_FAILURE, info, p)
         else let (ret, req, p) = pdi_led_ioctl_checked ops ctx (LED_REQ (LED_GET_INFO (rw_buf (the info)))) p
              in (ret, Some (arg_led_info req (the info)), p))"

definition pdi_led_get_state ::
  "'s pdi_syscall_ops \<Rightarrow> pdi_led_context option \<Rightarrow> pdm_led_state option \<Rightarrow> 's pdi_process \<Rightarrow>
   int \<times> pdm_led_state option \<times> 's pdi_process" where
  "pdi_led_get_state ops ctx state p =
     (let (r, p) = pdi_check_ptr state p
      in if r < 0 then (PDI_FAILURE, state, p)
         else let (ret, req, p) = pdi_led_ioctl_checked ops ctx (LED_REQ (LED_GET_STATE (rw_buf (the state)))) p
              in (ret, Some (arg_led_state req (the state)), p))"

definition pdi_led_set_brightness ::
  "'s pdi_syscall_ops \<Rightarrow> pdi_led_context option \<Rightarrow> u32 \<Rightarrow> u32 \<Rightarrow> 's pdi_process \<Rightarrow> int \<times> 's pdi_process" where
  "pdi_led_set_brightness ops ctx index brightness p =
     (let (ret, _, p) = pdi_led_ioctl_checked ops ctx (LED_REQ (LED_SET_BRIGHTNESS (rw_buf \<lparr>lb_index = index, lb_brightness = brightness\<rparr>))) p
      in (ret, p))"

definition pdi_led_enable ::
  "'s pdi_syscall_ops \<Rightarrow> pdi_led_context option \<Rightarrow> u32 \<Rightarrow> 's pdi_process \<Rightarrow> int \<times> 's pdi_process" where
  "pdi_led_enable ops ctx index p =
     (let (ret, _, p) = pdi_led_ioctl_checked ops ctx (LED_REQ (LED_ENABLE (rw_buf index))) p
      in (ret, p))"

definition pdi_led_disable ::
  "'s pdi_syscall_ops \<Rightarrow> pdi_led_context option \<Rightarrow> u32 \<Rightarrow> 's pdi_process \<Rightarrow> int \<times> 's pdi_process" where
  "pdi_led_disable ops ctx index p =
     (let (ret, _, p) = pdi_led_ioctl_checked ops ctx (LED_REQ (LED_DISABLE (rw_buf index))) p
      in (ret, p))"

section \<open>The MCU client (pdi_mcu.c)\<close>

record pdi_mcu_context =
  uc_fd :: int

definition PDI_MCU_DEFAULT_DEVICE :: string where
  "PDI_MCU_DEFAULT_DEVICE = ''/dev/pdm/mcu0''"

definition pdi_mcu_ioctl_checked ::
  "'s pdi_syscall_ops \<Rightarrow> pdi_mcu_context option \<Rightarrow> pdi_request \<Rightarrow> 's pdi_process \<Rightarrow>
   int \<times> pdi_request \<times> 's pdi_process" where
  "pdi_mcu_ioctl_checked ops ctx req p =
     (let (r, p) = pdi_check_ptr ctx p
      in if r < 0 then (PDI_FAILURE, req, p)
         else let (r, p) = pdi_check_fd (uc_fd (the ctx)) p
              in if r < 0 then (PDI_FAILURE, req, p)
                 else let (ret, req', p) = pdi_syscall_ioctl ops (uc_fd (the ctx)) req p
                      in (pdi_result_from_syscall ret, req', p))"

definition pdi_mcu_open ::
  "'s pdi_syscall_ops \<Rightarrow> pdi_mcu_context option \<Rightarrow> string option \<Rightarrow> 's pdi_process \<Rightarrow>
   int \<times> pdi_mcu_context option \<times> 's pdi_process" where
  "pdi_mcu_open ops ctx device_path p =
     (let (r, p) = pdi_check_ptr ctx p
      in if r < 0 then (PDI_FAILURE, ctx, p)
         else let path = (case device_path of Some dp \<Rightarrow> dp | None \<Rightarrow> PDI_MCU_DEFAULT_DEVICE);
                  (fd, p) = pdi_syscall_open ops path O_RDWR_CLOEXEC p;
                  ctx = Some ((the ctx)\<lparr>uc_fd := fd\<rparr>)
              in if fd < 0 then (PDI_FAILURE, ctx, p) else (PDI_SUCCESS, ctx, p))"

definition pdi_mcu_device_path :: "u32 \<Rightarrow> string" where
  "pdi_mcu_device_path index = ''/dev/pdm/mcu'' @ dec_digits (unat index)"

definition pdi_mcu_open_by_name ::
  "'s pdi_syscall_ops \<Rightarrow> pdi_mcu_context option \<Rightarrow> string option \<Rightarrow> 's pdi_process \<Rightarrow>
   int \<times> pdi_mcu_context option \<times> 's pdi_process" where
  "pdi_mcu_open_by_name ops ctx name p =
     (let (r, p) = pdi_check_ptr ctx p
      in if r < 0 then (PDI_FAILURE, ctx, p)
         else let ctx = Some ((the ctx)\<lparr>uc_fd := - 1\<rparr>);
                  (r, p) = pdi_check_ptr name p
              in if r < 0 then (PDI_FAILURE, ctx, p)
                 else let (ret, ctl, p) = pdi_ctl_open ops (Some \<lparr>cc_fd = - 1\<rparr>) None p
                      in if ret < 0 then (ret, ctx, p)
                         else let (ret, info, p) = pdi_get_device_by_name ops ctl name
                                    (Some pdm_manager_device_info_zero) p;
                                  (_, _, p) = pdi_ctl_close ops ctl p
                              in if ret < 0 then (ret, ctx, p)
                                 else if di_type (the info) \<noteq> PDM_MANAGER_DEVICE_TYPE_MCU
                                 then (case pdi_fail_no_device p of (ret, p) \<Rightarrow> (ret, ctx, p))
                                 else let path = pdi_mcu_device_path (di_index (the info))
                                      in if PDI_DEVICE_PATH_LEN \<le> length path
                                         then (case pdi_fail_invalid_arg p of (ret, p) \<Rightarrow> (ret, ctx, p))
                                         else pdi_mcu_open ops ctx (Some path) p)"

definition pdi_mcu_close ::
  "'s pdi_syscall_ops \<Rightarrow> pdi_mcu_context option \<Rightarrow> 's pdi_process \<Rightarrow>
   int \<times> pdi_mcu_context option \<times> 's pdi_process" where
  "pdi_mcu_close ops ctx p =
     (let (r, p) = pdi_check_ptr ctx p
      in if r < 0 then (PDI_FAILURE, ctx, p)
         else let (r, p) = pdi_check_fd (uc_fd (the ctx)) p
              in if r < 0 then (PDI_FAILURE, ctx, p)
                 else let (ret, p) = pdi_syscall_close ops (uc_fd (the ctx)) p
                      in (pdi_result_from_syscall ret, Some ((the ctx)\<lparr>uc_fd := - 1\<rparr>), p))"

definition pdi_mcu_get_info ::
  "'s pdi_syscall_ops \<Rightarrow> pdi_mcu_context option \<Rightarrow> pdm_mcu_info option \<Rightarrow> 's pdi_process \<Rightarrow>
   int \<times> pdm_mcu_info option \<times> 's pdi_process" where
  "pdi_mcu_get_info ops ctx info p =
     (let (r, p) = pdi_check_ptr info p
      in if r < 0 then (PDI_FAILURE, info, p)
         else let (ret, req, p) = pdi_mcu_ioctl_checked ops ctx (MCU_REQ (MCU_GET_INFO (rw_buf (the info)))) p
              in (ret, Some (arg_mcu_info req (the info)), p))"

definition pdi_mcu_get_version ::
  "'s pdi_syscall_ops \<Rightarrow> pdi_mcu_context option \<Rightarrow> pdm_mcu_version option \<Rightarrow> 's pdi_process \<Rightarrow>
   int \<times> pdm_mcu_version option \<times> 's pdi_process" where
  "pdi_mcu_get_version ops ctx version p =
     (let (r, p) = pdi_check_ptr version p
      in if r < 0 then (PDI_FAILURE, version, p)
         else let (ret, req, p) = pdi_mcu_ioctl_checked ops ctx (MCU_REQ (MCU_GET_VERSION (rw_buf (the version)))) p
              in (ret, Some (arg_mcu_version req (the version)), p))"

definition pdi_mcu_get_status ::
  "'s pdi_syscall_ops \<Rightarrow> pdi_mcu_context option \<Rightarrow> pdm_mcu_status option \<Rightarrow> 's pdi_process \<Rightarrow>
   int \<times> pdm_mcu_status option \<times> 's pdi_process" where
  "pdi_mcu_get_status ops ctx status p =
     (let (r, p) = pdi_check_ptr status p
      in if r < 0 then (PDI_FAILURE, status, p)
         else let (ret, req, p) = pdi_mcu_ioctl_checked ops ctx (MCU_REQ (MCU_GET_STATUS (rw_buf (the status)))) p
              in (ret, Some (arg_mcu_status req (the status)), p))"

definition pdi_mcu_reset ::
  "'s pdi_syscall_ops \<Rightarrow> pdi_mcu_context option \<Rightarrow> u32 \<Rightarrow> 's pdi_process \<Rightarrow> int \<times> 's pdi_process" where
  "pdi_mcu_reset ops ctx index p =
     (let (ret, _, p) = pdi_mcu_ioctl_checked ops ctx (MCU_REQ (MCU_RESET (rw_buf index))) p
      in (ret, p))"

definition pdi_mcu_command ::
  "'s pdi_syscall_ops \<Rightarrow> pdi_mcu_context option \<Rightarrow> pdm_mcu_command option \<Rightarrow> 's pdi_process \<Rightarrow>
   int \<times> pdm_mcu_command option \<times> 's pdi_process" where
  "pdi_mcu_command ops ctx command p =
     (let (r, p) = pdi_check_ptr command p
      in if r < 0 then (PDI_FAILURE, command, p)
         else let (ret, req, p) = pdi_mcu_ioctl_checked ops ctx (MCU_REQ (MCU_COMMAND (rw_buf (the command)))) p
              in (ret, Some (arg_mcu_command req (the command)), p))"

end
