(* ===== verification/Pdm_Device.thy ===== *)
theory Pdm_Device
  imports Pdm_Uapi
begin

unbundle bit_operations_syntax

text \<open>
  The PDM device and its instance ids: \<open>src/kernel/pdm/bus/pdm_device.c\<close> and the inline functions
  of \<open>src/kernel/include/pdm/bus/pdm_device.h\<close>.

  The id allocators are a list indexed by device type, as the static array is. The kernel's IDA is
  not part of the repository: its operations are the argument \<open>'ida ida_api\<close> of the functions that
  call it, and \<open>ida_laws\<close> states what its documentation promises.
\<close>

section \<open>The kernel's id allocator\<close>

record 'ida ida_api =
  ida_init :: "'ida"
  ida_alloc_range :: "'ida \<Rightarrow> nat \<Rightarrow> nat \<Rightarrow> int \<times> 'ida"
  ida_alloc :: "'ida \<Rightarrow> int \<times> 'ida"
  ida_free :: "'ida \<Rightarrow> nat \<Rightarrow> 'ida"
  ida_destroy :: "'ida \<Rightarrow> 'ida"

text \<open>
  \<open>ids s\<close> is the set of ids in use. An allocation either returns a negative errno and changes
  nothing, or an id of the range that was free and is now in use; \<open>ida_free\<close> releases one id;
  \<open>ida_destroy\<close> releases all of them.
\<close>

definition ida_laws :: "'ida ida_api \<Rightarrow> ('ida \<Rightarrow> nat set) \<Rightarrow> bool" where
  "ida_laws api ids \<longleftrightarrow>
     ids (ida_init api) = {}
   \<and> (\<forall>s lo hi nid s'. ida_alloc_range api s lo hi = (nid, s') \<longrightarrow>
        (if 0 \<le> nid then lo \<le> nat nid \<and> nat nid \<le> hi \<and> nat nid \<notin> ids s
                          \<and> ids s' = insert (nat nid) (ids s)
         else ids s' = ids s))
   \<and> (\<forall>s nid s'. ida_alloc api s = (nid, s') \<longrightarrow>
        (if 0 \<le> nid then nat nid \<notin> ids s \<and> ids s' = insert (nat nid) (ids s)
         else ids s' = ids s))
   \<and> (\<forall>s n. ids (ida_free api s n) = ids s - {n})
   \<and> (\<forall>s. ids (ida_destroy api s) = {})"

lemma ida_laws_range:
  "ida_laws api ids \<Longrightarrow> ida_alloc_range api s lo hi = (nid, s') \<Longrightarrow> 0 \<le> nid \<Longrightarrow>
   lo \<le> nat nid \<and> nat nid \<le> hi \<and> nat nid \<notin> ids s \<and> ids s' = insert (nat nid) (ids s)"
  by (auto simp: ida_laws_def)

lemma ida_laws_range_fail:
  "ida_laws api ids \<Longrightarrow> ida_alloc_range api s lo hi = (nid, s') \<Longrightarrow> nid < 0 \<Longrightarrow> ids s' = ids s"
  by (auto simp: ida_laws_def)

lemma ida_laws_alloc:
  "ida_laws api ids \<Longrightarrow> ida_alloc api s = (nid, s') \<Longrightarrow> 0 \<le> nid \<Longrightarrow>
   nat nid \<notin> ids s \<and> ids s' = insert (nat nid) (ids s)"
  by (auto simp: ida_laws_def)

lemma ida_laws_alloc_fail:
  "ida_laws api ids \<Longrightarrow> ida_alloc api s = (nid, s') \<Longrightarrow> nid < 0 \<Longrightarrow> ids s' = ids s"
  by (auto simp: ida_laws_def)

lemma ida_laws_free: "ida_laws api ids \<Longrightarrow> ids (ida_free api s n) = ids s - {n}"
  by (simp add: ida_laws_def)

lemma ida_laws_init: "ida_laws api ids \<Longrightarrow> ids (ida_init api) = {}"
  by (simp add: ida_laws_def)

text \<open>
  A first-fit allocator over a list of ids. The witnesses instantiate the parameter with it; no
  property is about it.
\<close>

fun first_free :: "nat \<Rightarrow> nat list \<Rightarrow> nat \<Rightarrow> nat option" where
  "first_free lo used 0 = None"
| "first_free lo used (Suc k) =
     (if lo \<in> set used then first_free (Suc lo) used k else Some lo)"

definition list_ida :: "nat list ida_api" where
  "list_ida = \<lparr>ida_init = [],
     ida_alloc_range = (\<lambda>s lo hi. case first_free lo s (min (Suc hi - lo) (Suc (length s))) of
        None \<Rightarrow> (- ENOSPC, s) | Some n \<Rightarrow> (int n, n # s)),
     ida_alloc = (\<lambda>s. case first_free 0 s (Suc (length s)) of
        None \<Rightarrow> (- ENOSPC, s) | Some n \<Rightarrow> (int n, n # s)),
     ida_free = (\<lambda>s n. filter (\<lambda>m. m \<noteq> n) s),
     ida_destroy = (\<lambda>s. [])\<rparr>"

lemma first_free_Some:
  "first_free lo used k = Some n \<Longrightarrow> lo \<le> n \<and> n < lo + k \<and> n \<notin> set used"
  by (induction lo used k rule: first_free.induct) (auto split: if_splits)

lemma list_ida_laws: "ida_laws list_ida set"
  by (auto simp: ida_laws_def list_ida_def Let_def split: option.splits dest!: first_free_Some)

section \<open>Data\<close>

record 'ida pdm_id_allocator =
  al_ida :: "'ida"
  al_name :: "string option"
  al_count :: int

text \<open>Slot 0 of the static array is not initialised, so its name is \<open>NULL\<close>.\<close>

definition pdm_id_allocators :: "'ida \<Rightarrow> 'ida pdm_id_allocator list" where
  "pdm_id_allocators i =
     [\<lparr>al_ida = i, al_name = None, al_count = 0\<rparr>,
      \<lparr>al_ida = i, al_name = Some ''mcu'', al_count = 0\<rparr>,
      \<lparr>al_ida = i, al_name = Some ''led'', al_count = 0\<rparr>]"

abbreviation (input) PDM_ERROR_HISTORY_SIZE :: nat where "PDM_ERROR_HISTORY_SIZE \<equiv> 8"

abbreviation (input) PDM_ERROR_TYPE_PROBE :: u32 where "PDM_ERROR_TYPE_PROBE \<equiv> 0"
abbreviation (input) PDM_ERROR_TYPE_RUNTIME :: u32 where "PDM_ERROR_TYPE_RUNTIME \<equiv> 1"
abbreviation (input) PDM_ERROR_TYPE_PM :: u32 where "PDM_ERROR_TYPE_PM \<equiv> 2"

record pdm_error_record =
  er_code :: int
  er_type :: u32
  er_time :: u64
  er_count :: u32

text \<open>
  \<open>struct pdm_device\<close> with the members of the embedded \<open>struct device\<close> that the code reads or
  writes: name, parent, OF node, bound driver and driver data (a pointer, as an address).
\<close>

record pdm_device =
  pd_name :: string
  pd_parent :: "nat option"
  pd_of_node :: "dt_node option"
  pd_driver :: "string option"
  pd_drvdata :: "nat option"
  pd_compatible :: "string option"
  pd_config_data :: "nat option"
  pd_type :: u32
  pd_capabilities :: u64
  pd_state :: u32
  pd_last_error :: int
  pd_error_count :: u32
  pd_errors :: "pdm_error_record list"
  pd_error_write_index :: nat
  pd_total_error_count :: u32
  pd_id :: int
  pd_requested_id :: int
  pd_id_allocated :: bool

definition pdm_error_record_zero :: pdm_error_record where
  "pdm_error_record_zero = \<lparr>er_code = 0, er_type = 0, er_time = 0, er_count = 0\<rparr>"

section \<open>Instance ids\<close>

definition pdm_id_get_allocator :: "'ida pdm_id_allocator list \<Rightarrow> u32 \<Rightarrow> nat option" where
  "pdm_id_get_allocator als ty =
     (if length als \<le> unat ty then None
      else if al_name (als ! unat ty) = None then None
      else Some (unat ty))"

definition pdm_id_alloc ::
  "'ida ida_api \<Rightarrow> 'ida pdm_id_allocator list \<Rightarrow> u32 \<Rightarrow> int \<Rightarrow> int \<times> 'ida pdm_id_allocator list" where
  "pdm_id_alloc api als ty requested =
     (case pdm_id_get_allocator als ty of
        None \<Rightarrow> (- EINVAL, als)
      | Some k \<Rightarrow>
          let al = als ! k;
              (nid, ida') = (if 0 \<le> requested
                            then ida_alloc_range api (al_ida al) (nat requested) (nat requested)
                            else ida_alloc api (al_ida al));
              al' = al\<lparr>al_ida := ida'\<rparr>
          in if 0 \<le> nid then (nid, als[k := al'\<lparr>al_count := al_count al' + 1\<rparr>])
             else (nid, als[k := al']))"

definition pdm_id_free ::
  "'ida ida_api \<Rightarrow> 'ida pdm_id_allocator list \<Rightarrow> u32 \<Rightarrow> int \<Rightarrow> 'ida pdm_id_allocator list" where
  "pdm_id_free api als ty nid =
     (if nid < 0 then als
      else case pdm_id_get_allocator als ty of
        None \<Rightarrow> als
      | Some k \<Rightarrow>
          let al = als ! k
          in als[k := al\<lparr>al_ida := ida_free api (al_ida al) (nat nid),
                         al_count := atomic_dec_if_positive (al_count al)\<rparr>])"

definition pdm_id_init ::
  "'ida ida_api \<Rightarrow> 'ida pdm_id_allocator list \<Rightarrow> int \<times> 'ida pdm_id_allocator list" where
  "pdm_id_init api als =
     (0, map (\<lambda>al. if al_name al \<noteq> None then al\<lparr>al_ida := ida_init api\<rparr> else al) als)"

definition pdm_id_destroy ::
  "'ida ida_api \<Rightarrow> 'ida pdm_id_allocator list \<Rightarrow> 'ida pdm_id_allocator list" where
  "pdm_id_destroy api als =
     map (\<lambda>al. if al_name al \<noteq> None then al\<lparr>al_ida := ida_destroy api (al_ida al)\<rparr> else al) als"

section \<open>Device lifecycle\<close>

definition pdm_device_set_state :: "pdm_device \<Rightarrow> u32 \<Rightarrow> pdm_device" where
  "pdm_device_set_state d st = d\<lparr>pd_state := st\<rparr>"

text \<open>\<open>kzalloc\<close> clears the struct; \<open>None\<close> when it returns \<open>NULL\<close>.\<close>

definition pdm_device_alloc :: "bool \<Rightarrow> pdm_device option" where
  "pdm_device_alloc kzalloc_ok =
     (if kzalloc_ok then Some
        \<lparr>pd_name = [], pd_parent = None, pd_of_node = None, pd_driver = None, pd_drvdata = None,
         pd_compatible = None, pd_config_data = None,
         pd_type = PDM_MANAGER_DEVICE_TYPE_INVALID, pd_capabilities = 0,
         pd_state = PDM_MANAGER_DEVICE_STATE_REGISTERED, pd_last_error = 0, pd_error_count = 0,
         pd_errors = replicate PDM_ERROR_HISTORY_SIZE pdm_error_record_zero,
         pd_error_write_index = 0, pd_total_error_count = 0,
         pd_id = -1, pd_requested_id = -1, pd_id_allocated = False\<rparr>
      else None)"

fun pdm_device_set_requested_id :: "pdm_device option \<Rightarrow> int \<Rightarrow> pdm_device option" where
  "pdm_device_set_requested_id None nid = None"
| "pdm_device_set_requested_id (Some d) nid =
     (let d1 = d\<lparr>pd_requested_id := nid\<rparr>
      in Some (if \<not> pd_id_allocated d1 then d1\<lparr>pd_id := nid\<rparr> else d1))"

fun pdm_device_bind ::
  "'ida ida_api \<Rightarrow> 'ida pdm_id_allocator list \<Rightarrow> pdm_device option \<Rightarrow> u32 \<Rightarrow> u64 \<Rightarrow>
   int \<times> 'ida pdm_id_allocator list \<times> pdm_device option" where
  "pdm_device_bind api als None ty caps = (- EINVAL, als, None)"
| "pdm_device_bind api als (Some d) ty caps =
     (if pd_id_allocated d then
        (if pd_type d \<noteq> ty then (- EBUSY, als, Some d)
         else (0, als, Some (d\<lparr>pd_capabilities := pd_capabilities d OR caps\<rparr>)))
      else
        let (nid, als') = pdm_id_alloc api als ty (pd_requested_id d)
        in if nid < 0 then (nid, als', Some d)
           else (0, als', Some (pdm_device_set_state
                   (d\<lparr>pd_id := nid, pd_id_allocated := True, pd_type := ty,
                      pd_capabilities := pd_capabilities d OR caps\<rparr>)
                   PDM_MANAGER_DEVICE_STATE_REGISTERED)))"

fun pdm_device_unbind ::
  "'ida ida_api \<Rightarrow> 'ida pdm_id_allocator list \<Rightarrow> pdm_device option \<Rightarrow>
   'ida pdm_id_allocator list \<times> pdm_device option" where
  "pdm_device_unbind api als None = (als, None)"
| "pdm_device_unbind api als (Some d) =
     (if \<not> pd_id_allocated d then (als, Some d)
      else (pdm_id_free api als (pd_type d) (pd_id d),
            Some (pdm_device_set_state
              (d\<lparr>pd_id_allocated := False, pd_id := pd_requested_id d,
                 pd_type := PDM_MANAGER_DEVICE_TYPE_INVALID,
                 pd_capabilities := PDM_MANAGER_DEVICE_CAP_NONE\<rparr>)
              PDM_MANAGER_DEVICE_STATE_REGISTERED)))"

text \<open>
  \<open>dev_set_name\<close> and \<open>device_add\<close> belong to the driver core: their results are arguments. After a
  failure of either, \<open>put_device\<close> drops the only reference, and \<open>pdm_device_release\<close> frees the
  device (\<open>None\<close>).
\<close>

definition pdm_device_release ::
  "'ida ida_api \<Rightarrow> 'ida pdm_id_allocator list \<Rightarrow> pdm_device \<Rightarrow> 'ida pdm_id_allocator list" where
  "pdm_device_release api als d = fst (pdm_device_unbind api als (Some d))"

fun pdm_device_register ::
  "'ida ida_api \<Rightarrow> int \<Rightarrow> int \<Rightarrow> 'ida pdm_id_allocator list \<Rightarrow> pdm_device option \<Rightarrow> string option \<Rightarrow>
   int \<times> 'ida pdm_id_allocator list \<times> pdm_device option" where
  "pdm_device_register api set_name_ret add_ret als (Some d) (Some name) =
     (if set_name_ret \<noteq> 0 then (set_name_ret, pdm_device_release api als d, None)
      else if add_ret \<noteq> 0 then (add_ret, pdm_device_release api als (d\<lparr>pd_name := name\<rparr>), None)
      else (0, als, Some (d\<lparr>pd_name := name\<rparr>)))"
| "pdm_device_register api set_name_ret add_ret als dev name = (- EINVAL, als, dev)"

section \<open>Error history\<close>

fun pdm_device_record_error_type ::
  "u64 \<Rightarrow> pdm_device option \<Rightarrow> int \<Rightarrow> u32 \<Rightarrow> pdm_device option" where
  "pdm_device_record_error_type now None err ty = None"
| "pdm_device_record_error_type now (Some d) err ty =
     (if err = 0 then Some d
      else
        let idx = pd_error_write_index d;
            rec = pd_errors d ! idx;
            d1 = (if er_code rec = err \<and> er_type rec = ty
                  then d\<lparr>pd_errors := (pd_errors d)
                           [idx := rec\<lparr>er_count := er_count rec + 1, er_time := now\<rparr>]\<rparr>
                  else let idx' = (idx + 1) mod PDM_ERROR_HISTORY_SIZE
                       in d\<lparr>pd_errors := (pd_errors d)
                              [idx' := \<lparr>er_code = err, er_type = ty, er_time = now, er_count = 1\<rparr>],
                            pd_error_write_index := idx'\<rparr>)
        in Some (d1\<lparr>pd_last_error := err,
                    pd_error_count := pd_error_count d1 + 1,
                    pd_total_error_count := pd_total_error_count d1 + 1,
                    pd_state := PDM_MANAGER_DEVICE_STATE_ERROR\<rparr>))"

definition pdm_device_record_error :: "u64 \<Rightarrow> pdm_device option \<Rightarrow> int \<Rightarrow> pdm_device option" where
  "pdm_device_record_error now d err = pdm_device_record_error_type now d err PDM_ERROR_TYPE_RUNTIME"

end
