(* ===== verification/Pdm_Manager.thy ===== *)
theory Pdm_Manager
  imports Pdm_Device
begin

unbundle bit_operations_syntax

text \<open>
  \<open>/dev/pdm_manager\<close>, the second half of \<open>src/kernel/pdm/bus/pdm_cdev.c\<close>: which devices are
  visible to user space and the four discovery commands.

  The devices of the bus are a list in bus order, which \<open>bus_for_each_dev\<close> walks. The context the
  match functions share holds the info struct it points to by value; the caller copies it back into
  its query. The specification each command is proved against is a function of the list of
  visible devices.
\<close>

section \<open>Visibility and the info struct\<close>

fun pdm_manager_device_visible :: "pdm_device option \<Rightarrow> bool" where
  "pdm_manager_device_visible None = False"
| "pdm_manager_device_visible (Some d) =
     (if \<not> pd_id_allocated d \<or> pd_type d = PDM_MANAGER_DEVICE_TYPE_INVALID then False
      else pd_state d = PDM_MANAGER_DEVICE_STATE_BOUND \<or> pd_state d = PDM_MANAGER_DEVICE_STATE_ERROR)"

declare pdm_manager_device_visible.simps [simp del]

definition pdm_manager_fill_device_info ::
  "pdm_device \<Rightarrow> pdm_manager_device_info \<Rightarrow> pdm_manager_device_info" where
  "pdm_manager_fill_device_info d info =
     (let info = pdm_manager_device_info_zero
            \<lparr>di_type := pd_type d, di_index := of_int (pd_id d), di_state := pd_state d,
             di_last_error := pd_last_error d, di_error_count := pd_error_count d,
             di_capabilities := pd_capabilities d,
             di_name := strscpy PDM_MANAGER_NAME_LEN (pd_name d)\<rparr>
      in case pd_driver d of
           Some drv \<Rightarrow> info\<lparr>di_driver_name := strscpy PDM_MANAGER_NAME_LEN drv\<rparr>
         | None \<Rightarrow> info)"

section \<open>Match functions\<close>

record pdm_manager_match_ctx =
  mx_info :: pdm_manager_device_info
  mx_name :: string
  mx_required_capabilities :: u64
  mx_match_index :: u32
  mx_seen :: u32
  mx_found :: bool

definition pdm_manager_match_ctx_zero :: "pdm_manager_device_info \<Rightarrow> pdm_manager_match_ctx" where
  "pdm_manager_match_ctx_zero info = \<lparr>mx_info = info, mx_name = [], mx_required_capabilities = 0,
     mx_match_index = 0, mx_seen = 0, mx_found = False\<rparr>"

definition pdm_manager_match_device ::
  "pdm_device \<Rightarrow> pdm_manager_match_ctx \<Rightarrow> int \<times> pdm_manager_match_ctx" where
  "pdm_manager_match_device d ctx =
     (if \<not> pdm_manager_device_visible (Some d) then (0, ctx)
      else let ctx' = ctx\<lparr>mx_seen := mx_seen ctx + 1\<rparr>
           in if mx_seen ctx = mx_match_index ctx
              then (1, ctx'\<lparr>mx_info := pdm_manager_fill_device_info d (mx_info ctx), mx_found := True\<rparr>)
              else (0, ctx'))"

definition pdm_manager_match_by_name ::
  "pdm_device \<Rightarrow> pdm_manager_match_ctx \<Rightarrow> int \<times> pdm_manager_match_ctx" where
  "pdm_manager_match_by_name d ctx =
     (if \<not> pdm_manager_device_visible (Some d) then (0, ctx)
      else if pd_name d = mx_name ctx
      then (1, ctx\<lparr>mx_info := pdm_manager_fill_device_info d (mx_info ctx), mx_found := True\<rparr>)
      else (0, ctx))"

definition pdm_manager_match_by_capability ::
  "pdm_device \<Rightarrow> pdm_manager_match_ctx \<Rightarrow> int \<times> pdm_manager_match_ctx" where
  "pdm_manager_match_by_capability d ctx =
     (if \<not> pdm_manager_device_visible (Some d) then (0, ctx)
      else if pd_capabilities d AND mx_required_capabilities ctx = mx_required_capabilities ctx
      then let ctx' = ctx\<lparr>mx_seen := mx_seen ctx + 1\<rparr>
           in if mx_seen ctx = mx_match_index ctx
              then (1, ctx'\<lparr>mx_info := pdm_manager_fill_device_info d (mx_info ctx), mx_found := True\<rparr>)
              else (0, ctx')
      else (0, ctx))"

definition pdm_manager_count_visible :: "pdm_device \<Rightarrow> u32 \<Rightarrow> int \<times> u32" where
  "pdm_manager_count_visible d count =
     (if pdm_manager_device_visible (Some d) then (0, count + 1) else (0, count))"

section \<open>Commands\<close>

definition pdm_manager_do_get_info ::
  "pdm_device list \<Rightarrow> int \<Rightarrow> pdm_manager_info user_buf \<Rightarrow> int \<times> pdm_manager_info user_buf" where
  "pdm_manager_do_get_info devs open_count uinfo =
     (let device_count = snd (bus_for_each pdm_manager_count_visible devs 0);
          info = \<lparr>mi_abi_version = PDM_MANAGER_ABI_VERSION, mi_version_major = 1,
                  mi_version_minor = 0, mi_version_patch = 0, mi_open_count = of_int open_count,
                  mi_device_count = device_count\<rparr>;
          (ok, uinfo') = copy_to_user uinfo info
      in if ok then (0, uinfo') else (- EFAULT, uinfo'))"

definition pdm_manager_do_get_device ::
  "pdm_device list \<Rightarrow> pdm_manager_device_query user_buf \<Rightarrow> int \<times> pdm_manager_device_query user_buf" where
  "pdm_manager_do_get_device devs uquery =
     (case copy_from_user uquery of
        None \<Rightarrow> (- EFAULT, uquery)
      | Some query \<Rightarrow>
          let ctx = (pdm_manager_match_ctx_zero (dq_info query))\<lparr>mx_match_index := dq_match_index query\<rparr>;
              ctx = snd (bus_for_each pdm_manager_match_device devs ctx)
          in if \<not> mx_found ctx then (- ENODEV, uquery)
             else let (ok, uquery') = copy_to_user uquery (query\<lparr>dq_info := mx_info ctx\<rparr>)
                  in if ok then (0, uquery') else (- EFAULT, uquery'))"

definition pdm_manager_do_get_device_by_name ::
  "pdm_device list \<Rightarrow> pdm_manager_device_name_query user_buf \<Rightarrow>
   int \<times> pdm_manager_device_name_query user_buf" where
  "pdm_manager_do_get_device_by_name devs uquery =
     (case copy_from_user uquery of
        None \<Rightarrow> (- EFAULT, uquery)
      | Some query0 \<Rightarrow>
          let query = query0\<lparr>nq_name := strscpy PDM_MANAGER_NAME_LEN (nq_name query0)\<rparr>;
              ctx = (pdm_manager_match_ctx_zero (nq_info query))\<lparr>mx_name := nq_name query\<rparr>;
              ctx = snd (bus_for_each pdm_manager_match_by_name devs ctx)
          in if \<not> mx_found ctx then (- ENODEV, uquery)
             else let (ok, uquery') = copy_to_user uquery (query\<lparr>nq_info := mx_info ctx\<rparr>)
                  in if ok then (0, uquery') else (- EFAULT, uquery'))"

definition pdm_manager_do_get_device_by_capability ::
  "pdm_device list \<Rightarrow> pdm_manager_device_query user_buf \<Rightarrow> int \<times> pdm_manager_device_query user_buf" where
  "pdm_manager_do_get_device_by_capability devs uquery =
     (case copy_from_user uquery of
        None \<Rightarrow> (- EFAULT, uquery)
      | Some query \<Rightarrow>
          let ctx = (pdm_manager_match_ctx_zero (dq_info query))
                      \<lparr>mx_match_index := dq_match_index query,
                       mx_required_capabilities := dq_required_capabilities query\<rparr>;
              ctx = snd (bus_for_each pdm_manager_match_by_capability devs ctx)
          in if \<not> mx_found ctx then (- ENODEV, uquery)
             else let (ok, uquery') = copy_to_user uquery (query\<lparr>dq_info := mx_info ctx\<rparr>)
                  in if ok then (0, uquery') else (- EFAULT, uquery'))"

text \<open>The reply of the ioctl is its return value and the request with its buffer as the call left it.\<close>

fun pdm_manager_ioctl ::
  "pdm_device list \<Rightarrow> int \<Rightarrow> pdm_manager_request \<Rightarrow> int \<times> pdm_manager_request" where
  "pdm_manager_ioctl devs oc (MGR_GET_INFO u) =
     (case pdm_manager_do_get_info devs oc u of (r, u') \<Rightarrow> (r, MGR_GET_INFO u'))"
| "pdm_manager_ioctl devs oc (MGR_GET_DEVICE u) =
     (case pdm_manager_do_get_device devs u of (r, u') \<Rightarrow> (r, MGR_GET_DEVICE u'))"
| "pdm_manager_ioctl devs oc (MGR_GET_DEVICE_BY_NAME u) =
     (case pdm_manager_do_get_device_by_name devs u of (r, u') \<Rightarrow> (r, MGR_GET_DEVICE_BY_NAME u'))"
| "pdm_manager_ioctl devs oc (MGR_GET_DEVICE_BY_CAPABILITY u) =
     (case pdm_manager_do_get_device_by_capability devs u of
        (r, u') \<Rightarrow> (r, MGR_GET_DEVICE_BY_CAPABILITY u'))"
| "pdm_manager_ioctl devs oc (MGR_UNKNOWN c) = (- ENOTTY, MGR_UNKNOWN c)"

definition pdm_manager_open :: "int \<Rightarrow> int \<times> int" where
  "pdm_manager_open open_count = (0, open_count + 1)"

definition pdm_manager_release :: "int \<Rightarrow> int \<times> int" where
  "pdm_manager_release open_count = (0, atomic_dec_if_positive open_count)"

section \<open>The specification\<close>

definition visible_devices :: "pdm_device list \<Rightarrow> pdm_device list" where
  "visible_devices devs = filter (\<lambda>d. pdm_manager_device_visible (Some d)) devs"

definition capable_devices :: "u64 \<Rightarrow> pdm_device list \<Rightarrow> pdm_device list" where
  "capable_devices req devs = filter (\<lambda>d. pd_capabilities d AND req = req) (visible_devices devs)"

definition device_info_of :: "pdm_device \<Rightarrow> pdm_manager_device_info" where
  "device_info_of d = pdm_manager_fill_device_info d pdm_manager_device_info_zero"

text \<open>
  What a query command answers when its lookup finds the device \<open>found\<close> (or none), the new content
  of the buffer being \<open>upd\<close> of the info struct.
\<close>

definition query_reply ::
  "'a user_buf \<Rightarrow> pdm_device option \<Rightarrow> (pdm_manager_device_info \<Rightarrow> 'a) \<Rightarrow> int \<times> 'a user_buf" where
  "query_reply b found upd =
     (if \<not> ub_readable b then (- EFAULT, b)
      else case found of None \<Rightarrow> (- ENODEV, b)
        | Some d \<Rightarrow> if ub_writable b then (0, b\<lparr>ub_val := upd (device_info_of d)\<rparr>) else (- EFAULT, b))"

definition list_at :: "'a list \<Rightarrow> nat \<Rightarrow> 'a option" where
  "list_at xs i = (if i < length xs then Some (xs ! i) else None)"

lemma list_at_simps [simp]:
  "list_at [] i = None" "list_at (x # xs) 0 = Some x" "list_at (x # xs) (Suc i) = list_at xs i"
  by (simp_all add: list_at_def)

lemma fill_device_info_fresh [simp]: "pdm_manager_fill_device_info d info = device_info_of d"
  by (simp add: pdm_manager_fill_device_info_def device_info_of_def)

lemma count_visible_fold:
  "bus_for_each pdm_manager_count_visible devs n = (0, n + of_nat (length (visible_devices devs)))"
  by (induction devs arbitrary: n) (simp_all add: pdm_manager_count_visible_def visible_devices_def)

text \<open>
  The indexed searches: with \<open>seen\<close> devices counted so far and the index not yet reached, the walk
  stops at the device that many places further in the filtered list.
\<close>

fun found_ctx ::
  "pdm_manager_device_info \<Rightarrow> pdm_device option \<Rightarrow> bool \<times> pdm_manager_device_info" where
  "found_ctx info None = (False, info)"
| "found_ctx info (Some d) = (True, device_info_of d)"

lemma unat_diff_step:
  fixes s m :: u32
  assumes "s \<noteq> m"
  shows "unat (m - s) = Suc (unat (m - (s + 1)))"
proof -
  have "m - s \<noteq> 0" using assms by simp
  then have "unat (m - s) = Suc (unat (m - s - 1))" using unat_minus_one [of "m - s"]
    by (metis One_nat_def Suc_pred unat_gt_0)
  then show ?thesis by (simp add: diff_diff_eq)
qed

lemma visible_devices_simps [simp]:
  "visible_devices [] = []"
  "visible_devices (d # ds) =
     (if pdm_manager_device_visible (Some d) then d # visible_devices ds else visible_devices ds)"
  by (simp_all add: visible_devices_def)

lemma capable_devices_simps [simp]:
  "capable_devices req [] = []"
  "capable_devices req (d # ds) =
     (if pdm_manager_device_visible (Some d) \<and> pd_capabilities d AND req = req
      then d # capable_devices req ds else capable_devices req ds)"
  by (simp_all add: capable_devices_def)

lemma match_device_cases:
  "\<not> pdm_manager_device_visible (Some d) \<Longrightarrow> pdm_manager_match_device d ctx = (0, ctx)"
  "pdm_manager_device_visible (Some d) \<Longrightarrow> mx_seen ctx = mx_match_index ctx \<Longrightarrow>
   pdm_manager_match_device d ctx = (1, ctx\<lparr>mx_seen := mx_seen ctx + 1, mx_info := device_info_of d,
      mx_found := True\<rparr>)"
  "pdm_manager_device_visible (Some d) \<Longrightarrow> mx_seen ctx \<noteq> mx_match_index ctx \<Longrightarrow>
   pdm_manager_match_device d ctx = (0, ctx\<lparr>mx_seen := mx_seen ctx + 1\<rparr>)"
  by (simp_all add: pdm_manager_match_device_def Let_def)

lemma match_capability_cases:
  "\<not> (pdm_manager_device_visible (Some d) \<and>
      pd_capabilities d AND mx_required_capabilities ctx = mx_required_capabilities ctx) \<Longrightarrow>
   pdm_manager_match_by_capability d ctx = (0, ctx)"
  "pdm_manager_device_visible (Some d) \<Longrightarrow>
   pd_capabilities d AND mx_required_capabilities ctx = mx_required_capabilities ctx \<Longrightarrow>
   pdm_manager_match_by_capability d ctx = pdm_manager_match_device d ctx"
  by (simp_all add: pdm_manager_match_by_capability_def pdm_manager_match_device_def Let_def
     )

lemma match_name_cases:
  "\<not> (pdm_manager_device_visible (Some d) \<and> pd_name d = mx_name ctx) \<Longrightarrow>
   pdm_manager_match_by_name d ctx = (0, ctx)"
  "pdm_manager_device_visible (Some d) \<Longrightarrow> pd_name d = mx_name ctx \<Longrightarrow>
   pdm_manager_match_by_name d ctx = (1, ctx\<lparr>mx_info := device_info_of d, mx_found := True\<rparr>)"
  by (simp_all add: pdm_manager_match_by_name_def)

lemma match_device_walk:
  assumes "\<not> mx_found ctx"
  shows "(\<lambda>c. (mx_found c, mx_info c)) (snd (bus_for_each pdm_manager_match_device devs ctx)) =
         found_ctx (mx_info ctx) (list_at (visible_devices devs) (unat (mx_match_index ctx - mx_seen ctx)))"
  using assms
proof (induction devs arbitrary: ctx)
  case Nil
  then show ?case by simp
next
  case (Cons d devs)
  consider "\<not> pdm_manager_device_visible (Some d)"
    | "pdm_manager_device_visible (Some d)" "mx_seen ctx = mx_match_index ctx"
    | "pdm_manager_device_visible (Some d)" "mx_seen ctx \<noteq> mx_match_index ctx" by blast
  then show ?case
  proof cases
    case 3
    have "\<not> mx_found (ctx\<lparr>mx_seen := mx_seen ctx + 1\<rparr>)" using Cons.prems by simp
    from Cons.IH [OF this] 3 show ?thesis
      by (simp add: match_device_cases unat_diff_step)
  qed (use Cons in \<open>simp_all add: match_device_cases\<close>)
qed

lemma match_capability_walk:
  assumes "\<not> mx_found ctx"
  shows "(\<lambda>c. (mx_found c, mx_info c)) (snd (bus_for_each pdm_manager_match_by_capability devs ctx)) =
         found_ctx (mx_info ctx) (list_at (capable_devices (mx_required_capabilities ctx) devs)
                                (unat (mx_match_index ctx - mx_seen ctx)))"
  using assms
proof (induction devs arbitrary: ctx)
  case Nil
  then show ?case by simp
next
  case (Cons d devs)
  let ?fits = "pdm_manager_device_visible (Some d) \<and>
    pd_capabilities d AND mx_required_capabilities ctx = mx_required_capabilities ctx"
  consider "\<not> ?fits" | ?fits "mx_seen ctx = mx_match_index ctx" | ?fits "mx_seen ctx \<noteq> mx_match_index ctx"
    by blast
  then show ?case
  proof cases
    case 1
    with Cons show ?thesis by (auto simp: match_capability_cases(1) [OF 1])
  next
    case 2
    then show ?thesis by (simp add: match_capability_cases(2) match_device_cases)
  next
    case 3
    have "\<not> mx_found (ctx\<lparr>mx_seen := mx_seen ctx + 1\<rparr>)" using Cons.prems by simp
    from Cons.IH [OF this] 3 show ?thesis
      by (simp add: match_capability_cases(2) match_device_cases unat_diff_step)
  qed
qed

lemma match_name_walk:
  assumes "\<not> mx_found ctx"
  shows "(\<lambda>c. (mx_found c, mx_info c)) (snd (bus_for_each pdm_manager_match_by_name devs ctx)) =
         found_ctx (mx_info ctx) (find (\<lambda>d. pd_name d = mx_name ctx) (visible_devices devs))"
proof (induction devs)
  case Nil
  with assms show ?case by simp
next
  case (Cons d devs)
  show ?case
  proof (cases "pdm_manager_device_visible (Some d) \<and> pd_name d = mx_name ctx")
    case True
    then show ?thesis by (simp add: match_name_cases(2))
  next
    case False
    with Cons show ?thesis by (auto simp: match_name_cases(1) [OF False])
  qed
qed

lemma walk_found: "(\<lambda>c. (mx_found c, mx_info c)) ctx = found_ctx info found \<Longrightarrow>
    mx_found ctx = (found \<noteq> None) \<and> (\<forall>d. found = Some d \<longrightarrow> mx_info ctx = device_info_of d)"
  by (cases found) auto

lemma query_reply_ok:
  "query_reply \<lparr>ub_val = v, ub_readable = True, ub_writable = True\<rparr> found upd =
     (case found of None \<Rightarrow> (- ENODEV, \<lparr>ub_val = v, ub_readable = True, ub_writable = True\<rparr>)
      | Some d \<Rightarrow> (0, \<lparr>ub_val = upd (device_info_of d), ub_readable = True, ub_writable = True\<rparr>))"
  by (simp add: query_reply_def split: option.split)

lemma do_get_device_eq:
  "pdm_manager_do_get_device devs b =
     query_reply b (list_at (visible_devices devs) (unat (dq_match_index (ub_val b))))
       (\<lambda>info. (ub_val b)\<lparr>dq_info := info\<rparr>)"
proof -
  let ?ctx = "(pdm_manager_match_ctx_zero (dq_info (ub_val b)))\<lparr>mx_match_index := dq_match_index (ub_val b)\<rparr>"
  have "(\<lambda>c. (mx_found c, mx_info c)) (snd (bus_for_each pdm_manager_match_device devs ?ctx)) =
      found_ctx (mx_info ?ctx) (list_at (visible_devices devs) (unat (dq_match_index (ub_val b))))"
    by (subst match_device_walk) (simp_all add: pdm_manager_match_ctx_zero_def)
  from walk_found [OF this] show ?thesis
    by (auto simp: pdm_manager_do_get_device_def query_reply_def copy_from_user_def copy_to_user_def
        Let_def split: option.split)
qed

section \<open>The commands against the specification\<close>

text \<open>
  \<open>GET_DEVICE\<close> with index \<open>i\<close> answers with the \<open>i\<close>-th visible device of the bus, in bus order, and
  \<open>-ENODEV\<close> exactly when there are not that many; the counter's 32-bit wrap-around is never
  reached. An inaccessible buffer is \<open>-EFAULT\<close> and unchanged.
\<close>

lemma manager_get_device:
  "pdm_manager_ioctl devs oc (MGR_GET_DEVICE b) =
     map_prod (\<lambda>r. r) MGR_GET_DEVICE
       (query_reply b (list_at (visible_devices devs) (unat (dq_match_index (ub_val b))))
          (\<lambda>info. (ub_val b)\<lparr>dq_info := info\<rparr>))"
  by (simp add: do_get_device_eq case_prod_unfold map_prod_def)

text \<open>
  \<open>GET_DEVICE_BY_NAME\<close> answers with the first visible device that carries the name, cut to 63
  characters, that the user passed.
\<close>

lemma manager_get_device_by_name:
  "pdm_manager_ioctl devs oc (MGR_GET_DEVICE_BY_NAME b) =
     map_prod (\<lambda>r. r) MGR_GET_DEVICE_BY_NAME
       (query_reply b (find (\<lambda>d. pd_name d = take 63 (nq_name (ub_val b))) (visible_devices devs))
          (\<lambda>info. \<lparr>nq_name = take 63 (nq_name (ub_val b)), nq_info = info\<rparr>))"
proof -
  let ?n = "take 63 (nq_name (ub_val b))"
  let ?q = "(ub_val b)\<lparr>nq_name := strscpy 64 (nq_name (ub_val b))\<rparr>"
  let ?ctx = "(pdm_manager_match_ctx_zero (nq_info ?q))\<lparr>mx_name := nq_name ?q\<rparr>"
  have n: "nq_name ?q = ?n" by (simp add: strscpy_def)
  have "(\<lambda>c. (mx_found c, mx_info c)) (snd (bus_for_each pdm_manager_match_by_name devs ?ctx)) =
      found_ctx (mx_info ?ctx) (find (\<lambda>d. pd_name d = ?n) (visible_devices devs))"
    by (subst match_name_walk) (simp_all add: pdm_manager_match_ctx_zero_def n strscpy_def)
  from walk_found [OF this] have
    "pdm_manager_do_get_device_by_name devs b =
       query_reply b (find (\<lambda>d. pd_name d = ?n) (visible_devices devs))
          (\<lambda>info. \<lparr>nq_name = ?n, nq_info = info\<rparr>)"
    by (auto simp: pdm_manager_do_get_device_by_name_def query_reply_def copy_from_user_def
        copy_to_user_def Let_def strscpy_def split: option.split)
  then show ?thesis by (simp add: case_prod_unfold map_prod_def)
qed

text \<open>
  \<open>GET_DEVICE_BY_CAPABILITY\<close> answers with the \<open>i\<close>-th among the visible devices that have every
  requested capability.
\<close>

lemma manager_get_device_by_capability:
  "pdm_manager_ioctl devs oc (MGR_GET_DEVICE_BY_CAPABILITY b) =
     map_prod (\<lambda>r. r) MGR_GET_DEVICE_BY_CAPABILITY
       (query_reply b
          (list_at (capable_devices (dq_required_capabilities (ub_val b)) devs)
             (unat (dq_match_index (ub_val b))))
          (\<lambda>info. (ub_val b)\<lparr>dq_info := info\<rparr>))"
proof -
  let ?ctx = "(pdm_manager_match_ctx_zero (dq_info (ub_val b)))
     \<lparr>mx_match_index := dq_match_index (ub_val b),
      mx_required_capabilities := dq_required_capabilities (ub_val b)\<rparr>"
  have "(\<lambda>c. (mx_found c, mx_info c)) (snd (bus_for_each pdm_manager_match_by_capability devs ?ctx)) =
      found_ctx (mx_info ?ctx) (list_at (capable_devices (dq_required_capabilities (ub_val b)) devs)
        (unat (dq_match_index (ub_val b))))"
    by (subst match_capability_walk) (simp_all add: pdm_manager_match_ctx_zero_def)
  from walk_found [OF this] show ?thesis
    by (auto simp: pdm_manager_do_get_device_by_capability_def query_reply_def copy_from_user_def
        copy_to_user_def Let_def split: option.split)
qed

section \<open>Properties\<close>

text \<open>
  C13. Enumeration is complete: the count that \<open>GET_INFO\<close> reports is the number of visible devices,
  and asking for the indices below it, one after another, returns each visible device once, in
  order, while the index equal to the count is refused.
\<close>

theorem manager_enumeration:
  assumes "length (visible_devices devs) < 2 ^ 32"
  shows "(\<exists>info. pdm_manager_ioctl devs oc (MGR_GET_INFO \<lparr>ub_val = i0, ub_readable = r, ub_writable = True\<rparr>)
            = (0, MGR_GET_INFO \<lparr>ub_val = info, ub_readable = r, ub_writable = True\<rparr>) \<and>
          unat (mi_device_count info) = length (visible_devices devs)) \<and>
         map (\<lambda>i. pdm_manager_do_get_device devs
                \<lparr>ub_val = q\<lparr>dq_match_index := of_nat i\<rparr>, ub_readable = True, ub_writable = True\<rparr>)
             [0..<Suc (length (visible_devices devs))] =
         map (\<lambda>(i, d). (0, \<lparr>ub_val = q\<lparr>dq_match_index := of_nat i, dq_info := device_info_of d\<rparr>,
                           ub_readable = True, ub_writable = True\<rparr>))
             (enumerate 0 (visible_devices devs)) @
         [(- ENODEV, \<lparr>ub_val = q\<lparr>dq_match_index := of_nat (length (visible_devices devs))\<rparr>,
                      ub_readable = True, ub_writable = True\<rparr>)]"
proof -
  let ?n = "length (visible_devices devs)"
  let ?b = "\<lambda>q. \<lparr>ub_val = q, ub_readable = True, ub_writable = True\<rparr>"
  have idx: "unat (of_nat i :: u32) = i" if "i \<le> ?n" for i
    using that assms by (simp add: unat_of_nat)
  have one: "pdm_manager_do_get_device devs (?b (q\<lparr>dq_match_index := of_nat i\<rparr>)) =
      (case list_at (visible_devices devs) i of
         None \<Rightarrow> (- ENODEV, ?b (q\<lparr>dq_match_index := of_nat i\<rparr>))
       | Some d \<Rightarrow> (0, ?b (q\<lparr>dq_match_index := of_nat i, dq_info := device_info_of d\<rparr>)))"
    if "i \<le> ?n" for i
    using idx [OF that] by (simp add: do_get_device_eq query_reply_ok)
  have "map (\<lambda>i. pdm_manager_do_get_device devs (?b (q\<lparr>dq_match_index := of_nat i\<rparr>))) [0..<?n] =
      map (\<lambda>(i, d). (0, ?b (q\<lparr>dq_match_index := of_nat i, dq_info := device_info_of d\<rparr>)))
        (enumerate 0 (visible_devices devs))"
    by (rule nth_equalityI) (simp_all add: one list_at_def nth_enumerate_eq)
  moreover have "pdm_manager_do_get_device devs (?b (q\<lparr>dq_match_index := of_nat ?n\<rparr>)) =
      (- ENODEV, ?b (q\<lparr>dq_match_index := of_nat ?n\<rparr>))"
    by (simp add: one list_at_def)
  ultimately show ?thesis
    by (simp add: pdm_manager_do_get_info_def copy_to_user_def count_visible_fold idx Let_def)
qed

text \<open>Two bound devices around one that is only registered.\<close>

definition example_device :: "string \<Rightarrow> u32 \<Rightarrow> u32 \<Rightarrow> int \<Rightarrow> pdm_device" where
  "example_device name ty st n =
     (the (pdm_device_alloc True))\<lparr>pd_name := name, pd_type := ty, pd_state := st, pd_id := n,
       pd_id_allocated := True\<rparr>"

definition example_bus :: "pdm_device list" where
  "example_bus = [example_device ''led@0'' 2 1 0, example_device ''mcu@0'' 1 0 0, example_device ''mcu@1'' 1 2 7]"

lemma example_bus_visible:
  "visible_devices example_bus = [example_device ''led@0'' 2 1 0, example_device ''mcu@1'' 1 2 7]"
  by (simp add: example_bus_def example_device_def pdm_device_alloc_def pdm_manager_device_visible.simps)

definition example_query :: "u32 \<Rightarrow> pdm_manager_device_query" where
  "example_query i = \<lparr>dq_match_index = i, dq_reserved = 0, dq_required_capabilities = 0,
     dq_info = pdm_manager_device_info_zero\<rparr>"

theorem manager_enumeration_witness:
  "pdm_manager_do_get_device example_bus
     \<lparr>ub_val = example_query 1, ub_readable = True, ub_writable = True\<rparr> =
   (0, \<lparr>ub_val = (example_query 1)\<lparr>dq_info := device_info_of (example_device ''mcu@1'' 1 2 7)\<rparr>,
        ub_readable = True, ub_writable = True\<rparr>)"
  using manager_enumeration [of example_bus 0 undefined False "example_query 0"]
  by (simp add: example_bus_visible example_query_def)

end
