(* ===== verification/Pdm_Instance.thy ===== *)
theory Pdm_Instance
  imports Pdm_Uapi
begin

text \<open>
  Driver instances: the mutex and the online flag that guard the hardware of a bound device,
  \<open>src/kernel/include/pdm/registry/pdm_driver.h\<close> and its variant without a character device,
  \<open>src/kernel/include/pdm/core/pdm_instance.h\<close>.

  The mutex is a flag: taken or free. A call that has to wait for it is \<open>None\<close>; it goes on when
  another thread has released the mutex. The second part lets any number of threads run ioctl
  handlers against one thread that removes the device, one atomic step at a time.
\<close>

section \<open>The operations\<close>

record pdm_driver_instance =
  in_lock :: bool
  in_online :: bool

definition mutex_lock :: "'a pdm_driver_instance_scheme \<Rightarrow> 'a pdm_driver_instance_scheme option" where
  "mutex_lock i = (if in_lock i then None else Some (i\<lparr>in_lock := True\<rparr>))"

definition mutex_unlock :: "'a pdm_driver_instance_scheme \<Rightarrow> 'a pdm_driver_instance_scheme" where
  "mutex_unlock i = i\<lparr>in_lock := False\<rparr>"

definition pdm_driver_init :: "'a pdm_driver_instance_scheme \<Rightarrow> 'a pdm_driver_instance_scheme" where
  "pdm_driver_init i = i\<lparr>in_lock := False, in_online := True\<rparr>"

definition pdm_driver_claim ::
  "'a pdm_driver_instance_scheme \<Rightarrow> (int \<times> 'a pdm_driver_instance_scheme) option" where
  "pdm_driver_claim i =
     (case mutex_lock i of
        None \<Rightarrow> None
      | Some i1 \<Rightarrow> if \<not> in_online i1 then Some (- ENODEV, mutex_unlock i1) else Some (0, i1))"

definition pdm_driver_release :: "'a pdm_driver_instance_scheme \<Rightarrow> 'a pdm_driver_instance_scheme" where
  "pdm_driver_release i = mutex_unlock i"

definition pdm_driver_shutdown ::
  "'a pdm_driver_instance_scheme \<Rightarrow> 'a pdm_driver_instance_scheme option" where
  "pdm_driver_shutdown i =
     (case mutex_lock i of None \<Rightarrow> None | Some i1 \<Rightarrow> Some (i1\<lparr>in_online := False\<rparr>))"

text \<open>The device counter of a driver, an \<open>atomic_t\<close>.\<close>

definition pdm_driver_count_inc :: "int \<Rightarrow> int" where
  "pdm_driver_count_inc c = c + 1"

definition pdm_driver_count_dec :: "int \<Rightarrow> int" where
  "pdm_driver_count_dec c = atomic_dec_if_positive c"

definition pdm_driver_count_get :: "int \<Rightarrow> u32" where
  "pdm_driver_count_get c = of_int c"

text \<open>\<open>pdm_instance.h\<close>: the same protocol with a check of the instance pointer.\<close>

fun pdm_instance_claim ::
  "'a pdm_driver_instance_scheme option \<Rightarrow> (int \<times> 'a pdm_driver_instance_scheme option) option" where
  "pdm_instance_claim None = Some (- EINVAL, None)"
| "pdm_instance_claim (Some i) =
     (case mutex_lock i of
        None \<Rightarrow> None
      | Some i1 \<Rightarrow> if \<not> in_online i1 then Some (- ENODEV, Some (mutex_unlock i1))
                  else Some (0, Some i1))"

fun pdm_instance_release ::
  "'a pdm_driver_instance_scheme option \<Rightarrow> 'a pdm_driver_instance_scheme option" where
  "pdm_instance_release None = None"
| "pdm_instance_release (Some i) = Some (mutex_unlock i)"

fun pdm_instance_init ::
  "'a pdm_driver_instance_scheme option \<Rightarrow> 'a pdm_driver_instance_scheme option" where
  "pdm_instance_init None = None"
| "pdm_instance_init (Some i) = Some (i\<lparr>in_lock := False, in_online := True\<rparr>)"

fun pdm_instance_shutdown ::
  "'a pdm_driver_instance_scheme option \<Rightarrow> 'a pdm_driver_instance_scheme option option" where
  "pdm_instance_shutdown None = Some None"
| "pdm_instance_shutdown (Some i) =
     (case mutex_lock i of None \<Rightarrow> None | Some i1 \<Rightarrow> Some (Some (i1\<lparr>in_online := False\<rparr>)))"

lemma claim_cases:
  "pdm_driver_claim i = Some (ret, i') \<longleftrightarrow>
     \<not> in_lock i \<and> (if in_online i then ret = 0 \<and> i' = i\<lparr>in_lock := True\<rparr>
                    else ret = - ENODEV \<and> i' = i\<lparr>in_lock := False\<rparr>)"
  by (auto simp: pdm_driver_claim_def mutex_lock_def mutex_unlock_def)

lemma claim_online [simp]:
  "\<not> in_lock i \<Longrightarrow> in_online i \<Longrightarrow> pdm_driver_claim i = Some (0, i\<lparr>in_lock := True\<rparr>)"
  by (simp add: pdm_driver_claim_def mutex_lock_def)

lemma claim_offline [simp]:
  "\<not> in_lock i \<Longrightarrow> \<not> in_online i \<Longrightarrow> pdm_driver_claim i = Some (- ENODEV, i)"
  by (simp add: pdm_driver_claim_def mutex_lock_def mutex_unlock_def)

lemma claim_blocked [simp]: "in_lock i \<Longrightarrow> pdm_driver_claim i = None"
  by (simp add: pdm_driver_claim_def mutex_lock_def)

lemma shutdown_free [simp]:
  "\<not> in_lock i \<Longrightarrow> pdm_driver_shutdown i = Some (i\<lparr>in_lock := True, in_online := False\<rparr>)"
  by (simp add: pdm_driver_shutdown_def mutex_lock_def)

lemma release_fields [simp]:
  "in_lock (pdm_driver_release i) = False" "in_online (pdm_driver_release i) = in_online i"
  by (simp_all add: pdm_driver_release_def mutex_unlock_def)

section \<open>Threads\<close>

text \<open>
  Where a thread stands: outside, inside a claimed section (between \<open>pdm_driver_claim\<close> and
  \<open>pdm_driver_release\<close>), or removing the device (after \<open>pdm_driver_shutdown\<close>, before its
  \<open>mutex_unlock\<close>). \<open>is_up\<close> says whether the hardware resource of the instance exists: the backend's
  \<open>cleanup\<close> takes it away.
\<close>

datatype pc = Outside | Claimed | Removing

record inst_sys =
  sy_inst :: pdm_driver_instance
  sy_up :: bool
  sy_pc :: "nat \<Rightarrow> pc"

inductive inst_step :: "inst_sys \<Rightarrow> inst_sys \<Rightarrow> bool" where
  claim: "sy_pc s t = Outside \<Longrightarrow> pdm_driver_claim (sy_inst s) = Some (ret, i) \<Longrightarrow>
     inst_step s (s\<lparr>sy_inst := i, sy_pc := (sy_pc s)(t := if ret = 0 then Claimed else Outside)\<rparr>)"
| release: "sy_pc s t = Claimed \<Longrightarrow>
     inst_step s (s\<lparr>sy_inst := pdm_driver_release (sy_inst s), sy_pc := (sy_pc s)(t := Outside)\<rparr>)"
| shutdown: "sy_pc s t = Outside \<Longrightarrow> pdm_driver_shutdown (sy_inst s) = Some i \<Longrightarrow>
     inst_step s (s\<lparr>sy_inst := i, sy_pc := (sy_pc s)(t := Removing)\<rparr>)"
| cleanup: "sy_pc s t = Removing \<Longrightarrow> inst_step s (s\<lparr>sy_up := False\<rparr>)"
| unlock: "sy_pc s t = Removing \<Longrightarrow>
     inst_step s (s\<lparr>sy_inst := mutex_unlock (sy_inst s), sy_pc := (sy_pc s)(t := Outside)\<rparr>)"

inductive_cases inst_stepE: "inst_step s t"

definition inst_init :: inst_sys where
  "inst_init = \<lparr>sy_inst = pdm_driver_init \<lparr>in_lock = False, in_online = False\<rparr>,
     sy_up = True, sy_pc = (\<lambda>_. Outside)\<rparr>"

inductive inst_reachable :: "inst_sys \<Rightarrow> bool" where
  inst_start: "inst_reachable inst_init"
| inst_next: "inst_reachable s \<Longrightarrow> inst_step s t \<Longrightarrow> inst_reachable t"

text \<open>
  The lock is taken exactly when one thread is inside; a thread inside a claimed section finds the
  instance online; a removing thread finds it offline; while the instance is online the hardware
  is there.
\<close>

definition inst_inv :: "inst_sys \<Rightarrow> bool" where
  "inst_inv s \<longleftrightarrow>
     (in_lock (sy_inst s) \<longleftrightarrow> (\<exists>t. sy_pc s t \<noteq> Outside)) \<and>
     (\<forall>t u. sy_pc s t \<noteq> Outside \<and> sy_pc s u \<noteq> Outside \<longrightarrow> t = u) \<and>
     (\<forall>t. sy_pc s t = Claimed \<longrightarrow> in_online (sy_inst s)) \<and>
     (\<forall>t. sy_pc s t = Removing \<longrightarrow> \<not> in_online (sy_inst s)) \<and>
     (in_online (sy_inst s) \<longrightarrow> sy_up s)"

lemma inst_inv_init: "inst_inv inst_init"
  by (simp add: inst_inv_def inst_init_def pdm_driver_init_def)

lemma inst_inv_claim:
  assumes inv: "inst_inv s" and out: "sy_pc s t = Outside"
    and call: "pdm_driver_claim (sy_inst s) = Some (ret, i)"
  shows "inst_inv (s\<lparr>sy_inst := i, sy_pc := (sy_pc s)(t := if ret = 0 then Claimed else Outside)\<rparr>)"
proof -
  have free: "\<not> in_lock (sy_inst s)" using call by (simp add: claim_cases)
  then have all: "sy_pc s u = Outside" for u using inv by (auto simp: inst_inv_def)
  show ?thesis
    using call inv all by (cases "in_online (sy_inst s)") (auto simp: claim_cases inst_inv_def)
qed

lemma inst_inv_leave:
  assumes inv: "inst_inv s" and t: "sy_pc s t \<noteq> Outside"
    and i: "in_lock i = False" "in_online i = in_online (sy_inst s)"
  shows "inst_inv (s\<lparr>sy_inst := i, sy_pc := (sy_pc s)(t := Outside)\<rparr>)"
proof -
  have "sy_pc s u = Outside" if "u \<noteq> t" for u
    using inv t that unfolding inst_inv_def by metis
  then have "((sy_pc s)(t := Outside)) u = Outside" for u by simp
  with inv i show ?thesis by (simp add: inst_inv_def)
qed

lemma inst_inv_shutdown:
  assumes inv: "inst_inv s" and call: "pdm_driver_shutdown (sy_inst s) = Some i"
  shows "inst_inv (s\<lparr>sy_inst := i, sy_pc := (sy_pc s)(t := Removing)\<rparr>)"
proof -
  have free: "\<not> in_lock (sy_inst s)"
    using call by (auto simp: pdm_driver_shutdown_def mutex_lock_def split: if_splits)
  then have all: "sy_pc s u = Outside" for u using inv by (auto simp: inst_inv_def)
  have "i = (sy_inst s)\<lparr>in_lock := True, in_online := False\<rparr>" using call free by simp
  with all show ?thesis by (auto simp: inst_inv_def)
qed

lemma inst_step_inv: "inst_step s t \<Longrightarrow> inst_inv s \<Longrightarrow> inst_inv t"
proof (induction rule: inst_step.induct)
  case (claim s t ret i)
  then show ?case by (blast intro: inst_inv_claim)
next
  case (release s t)
  then show ?case by (intro inst_inv_leave) auto
next
  case (shutdown s t i)
  then show ?case by (blast intro: inst_inv_shutdown)
next
  case (cleanup s t)
  then have "\<not> in_online (sy_inst s)" by (auto simp: inst_inv_def)
  with cleanup show ?case by (auto simp: inst_inv_def)
next
  case (unlock s t)
  then show ?case by (intro inst_inv_leave) (auto simp: mutex_unlock_def)
qed

lemma inst_reachable_inv: "inst_reachable s \<Longrightarrow> inst_inv s"
  by (induction rule: inst_reachable.induct) (auto intro: inst_inv_init inst_step_inv)

section \<open>Properties\<close>

text \<open>
  C2. Whatever the interleaving of ioctl handlers and removal, at most one thread is between
  taking and releasing the instance, and a handler inside its claimed section always finds the
  hardware resource present: no handler touches the backend after its cleanup.
\<close>

theorem no_use_after_cleanup:
  assumes "inst_reachable s" and "sy_pc s t = Claimed"
  shows "sy_up s \<and> in_online (sy_inst s) \<and> (\<forall>u. sy_pc s u \<noteq> Outside \<longrightarrow> u = t)"
proof -
  have inv: "inst_inv s" using assms(1) by (rule inst_reachable_inv)
  with assms(2) have "in_online (sy_inst s)" by (auto simp: inst_inv_def)
  moreover from this inv have "sy_up s" by (simp add: inst_inv_def)
  moreover have "u = t" if "sy_pc s u \<noteq> Outside" for u
    using inv assms(2) that unfolding inst_inv_def by (metis pc.distinct(1))
  ultimately show ?thesis by blast
qed

lemma claimed_reachable:
  "inst_reachable (inst_init\<lparr>sy_inst := \<lparr>in_lock = True, in_online = True\<rparr>,
     sy_pc := (sy_pc inst_init)(3 := Claimed)\<rparr>)"
  using inst_next [OF inst_start inst_step.claim
      [of inst_init 3 0 "\<lparr>in_lock = True, in_online = True\<rparr>"]]
  by (simp add: inst_init_def pdm_driver_init_def)

theorem no_use_after_cleanup_witness:
  "sy_up (inst_init\<lparr>sy_inst := \<lparr>in_lock = True, in_online = True\<rparr>,
     sy_pc := (sy_pc inst_init)(3 := Claimed)\<rparr>)"
  using no_use_after_cleanup [OF claimed_reachable, of 3] by simp

lemma offline_step:
  assumes "inst_step s t" and "\<not> in_online (sy_inst s)"
  shows "\<not> in_online (sy_inst t)"
  using assms
proof (induction rule: inst_step.induct)
  case (shutdown s t i)
  then show ?case by (auto simp: pdm_driver_shutdown_def split: option.splits)
qed (auto simp: claim_cases mutex_unlock_def)

text \<open>
  Once the remover has let go of the mutex, the instance stays offline: every later claim, in
  any state the system can then reach, is refused with \<open>-ENODEV\<close> or has to wait.
\<close>

theorem offline_forever:
  assumes "\<not> in_online (sy_inst s)" and "inst_step\<^sup>*\<^sup>* s t"
  shows "pdm_driver_claim (sy_inst t) = None \<or> pdm_driver_claim (sy_inst t) = Some (- ENODEV, sy_inst t)"
proof -
  have "\<not> in_online (sy_inst t)"
    using assms(2,1) by (induction rule: rtranclp_induct) (auto dest: offline_step)
  then show ?thesis by (cases "in_lock (sy_inst t)") auto
qed

theorem offline_forever_witness:
  "pdm_driver_claim \<lparr>in_lock = False, in_online = False\<rparr> =
     Some (-19, \<lparr>in_lock = False, in_online = False\<rparr>)"
  using offline_forever [of "inst_init\<lparr>sy_inst := \<lparr>in_lock = False, in_online = False\<rparr>\<rparr>"
      "inst_init\<lparr>sy_inst := \<lparr>in_lock = False, in_online = False\<rparr>\<rparr>"] by simp

end
