(* ===== verification/Pdm_Led_Backend.thy ===== *)
theory Pdm_Led_Backend
  imports Pdm_Instance "HOL-Library.Multiset"
begin

unbundle bit_operations_syntax

text \<open>
  LED instances and the backends that drive them: \<open>src/kernel/pdm/drivers/led/pdm_led_internal.h\<close>,
  the memory backend of \<open>pdm_led.c\<close>, \<open>pdm_led_gpio.c\<close> and \<open>pdm_led_pwm.c\<close>.

  The pointer \<open>inst->ops\<close> is the backend's type, and a table maps it to the operations, so that an
  instance is plain data. The union of the hardware handles is one optional address. GPIO and PWM
  belong to the kernel: what \<open>gpiod_get\<close>, \<open>pwm_get\<close>, \<open>pwm_init_state\<close>,
  \<open>pwm_set_relative_duty_cycle\<close> and \<open>pwm_apply_might_sleep\<close> answer is the argument \<open>led_hw_api\<close>.
  The state of the hardware records which handles are held, the level of each line and the state of
  each PWM channel; a PWM state that the chip refuses does not take effect.
\<close>

section \<open>Data\<close>

abbreviation (input) PDM_LED_DEFAULT_MAX_BRIGHTNESS :: u32 where "PDM_LED_DEFAULT_MAX_BRIGHTNESS \<equiv> 255"

datatype pdm_led_backend_type = PDM_LED_BACKEND_MEMORY | PDM_LED_BACKEND_GPIO | PDM_LED_BACKEND_PWM

record pdm_led_instance = pdm_driver_instance +
  le_pdm_dev :: nat
  le_ops :: "pdm_led_backend_type option"
  le_brightness :: u32
  le_max_brightness :: u32
  le_enabled :: u32
  le_hw :: "nat option"

text \<open>\<open>'w\<close> is the state of the hardware.\<close>

record 'w pdm_led_backend_ops =
  lo_type :: pdm_led_backend_type
  lo_name :: string
  lo_capability :: u64
  lo_setup :: "'w \<Rightarrow> pdm_led_instance \<Rightarrow> int \<times> 'w \<times> pdm_led_instance"
  lo_cleanup :: "('w \<Rightarrow> pdm_led_instance \<Rightarrow> 'w \<times> pdm_led_instance) option"
  lo_apply :: "('w \<Rightarrow> pdm_led_instance \<Rightarrow> int \<times> 'w \<times> pdm_led_instance) option"

section \<open>The hardware\<close>

record pwm_state =
  ps_period :: u64
  ps_duty_cycle :: u64
  ps_enabled :: bool

datatype led_resource = GPIO_LINE nat | PWM_CHANNEL nat

record led_hw =
  lw_held :: "led_resource multiset"
  lw_line :: "nat \<Rightarrow> int"
  lw_pwm :: "nat \<Rightarrow> pwm_state"

record led_hw_api =
  ha_gpiod_get :: "led_hw \<Rightarrow> nat \<Rightarrow> string option \<Rightarrow> int + nat"
  ha_pwm_get :: "led_hw \<Rightarrow> nat \<Rightarrow> int + nat"
  ha_pwm_init_state :: "nat \<Rightarrow> pwm_state \<Rightarrow> pwm_state"
  ha_relative_duty :: "u64 \<Rightarrow> u32 \<Rightarrow> u32 \<Rightarrow> int \<times> u64"
  ha_pwm_apply :: "led_hw \<Rightarrow> nat \<Rightarrow> pwm_state \<Rightarrow> int"

text \<open>\<open>GPIOD_OUT_LOW\<close> makes a line that was obtained an output at level 0.\<close>

definition gpiod_get :: "led_hw_api \<Rightarrow> led_hw \<Rightarrow> nat \<Rightarrow> string option \<Rightarrow> (int + nat) \<times> led_hw" where
  "gpiod_get api w dev con =
     (case ha_gpiod_get api w dev con of
        Inl err \<Rightarrow> (Inl err, w)
      | Inr g \<Rightarrow> (Inr g, w\<lparr>lw_held := lw_held w + {#GPIO_LINE g#}, lw_line := (lw_line w)(g := 0)\<rparr>))"

definition gpiod_set_value :: "led_hw \<Rightarrow> nat \<Rightarrow> int \<Rightarrow> led_hw" where
  "gpiod_set_value w g v = w\<lparr>lw_line := (lw_line w)(g := v)\<rparr>"

definition gpiod_put :: "led_hw \<Rightarrow> nat \<Rightarrow> led_hw" where
  "gpiod_put w g = w\<lparr>lw_held := lw_held w - {#GPIO_LINE g#}\<rparr>"

definition pwm_get :: "led_hw_api \<Rightarrow> led_hw \<Rightarrow> nat \<Rightarrow> (int + nat) \<times> led_hw" where
  "pwm_get api w dev =
     (case ha_pwm_get api w dev of
        Inl err \<Rightarrow> (Inl err, w)
      | Inr p \<Rightarrow> (Inr p, w\<lparr>lw_held := lw_held w + {#PWM_CHANNEL p#}\<rparr>))"

definition pwm_apply :: "led_hw_api \<Rightarrow> led_hw \<Rightarrow> nat \<Rightarrow> pwm_state \<Rightarrow> int \<times> led_hw" where
  "pwm_apply api w p st =
     (let ret = ha_pwm_apply api w p st
      in if ret = 0 then (0, w\<lparr>lw_pwm := (lw_pwm w)(p := st)\<rparr>) else (ret, w))"

definition pwm_put :: "led_hw \<Rightarrow> nat \<Rightarrow> led_hw" where
  "pwm_put w p = w\<lparr>lw_held := lw_held w - {#PWM_CHANNEL p#}\<rparr>"

definition pwm_set_relative_duty_cycle ::
  "led_hw_api \<Rightarrow> pwm_state \<Rightarrow> u32 \<Rightarrow> u32 \<Rightarrow> int \<times> pwm_state" where
  "pwm_set_relative_duty_cycle api st duty scale =
     (case ha_relative_duty api (ps_period st) duty scale of
        (ret, cycle) \<Rightarrow> if ret = 0 then (0, st\<lparr>ps_duty_cycle := cycle\<rparr>) else (ret, st))"

section \<open>The memory backend\<close>

definition pdm_led_memory_setup :: "led_hw \<Rightarrow> pdm_led_instance \<Rightarrow> int \<times> led_hw \<times> pdm_led_instance" where
  "pdm_led_memory_setup w inst = (0, w, inst)"

definition pdm_led_memory_cleanup :: "led_hw \<Rightarrow> pdm_led_instance \<Rightarrow> led_hw \<times> pdm_led_instance" where
  "pdm_led_memory_cleanup w inst = (w, inst)"

definition pdm_led_memory_apply :: "led_hw \<Rightarrow> pdm_led_instance \<Rightarrow> int \<times> led_hw \<times> pdm_led_instance" where
  "pdm_led_memory_apply w inst = (0, w, inst)"

definition pdm_led_memory_ops :: "led_hw pdm_led_backend_ops" where
  "pdm_led_memory_ops = \<lparr>lo_type = PDM_LED_BACKEND_MEMORY, lo_name = ''memory'',
     lo_capability = PDM_LED_CAP_NONE, lo_setup = pdm_led_memory_setup,
     lo_cleanup = Some pdm_led_memory_cleanup, lo_apply = Some pdm_led_memory_apply\<rparr>"

section \<open>The GPIO backend\<close>

definition pdm_led_gpio_setup ::
  "led_hw_api \<Rightarrow> led_hw \<Rightarrow> pdm_led_instance \<Rightarrow> int \<times> led_hw \<times> pdm_led_instance" where
  "pdm_led_gpio_setup api w inst =
     (let (gpiod, w1) = gpiod_get api w (le_pdm_dev inst) (Some ''led'');
          (gpiod, w1) = (if gpiod = Inl (- ENOENT) then gpiod_get api w1 (le_pdm_dev inst) None
                         else (gpiod, w1))
      in case gpiod of
           Inl err \<Rightarrow> (err, w1, inst)
         | Inr g \<Rightarrow> (0, w1, inst\<lparr>le_hw := Some g\<rparr>))"

definition pdm_led_gpio_cleanup :: "led_hw \<Rightarrow> pdm_led_instance \<Rightarrow> led_hw \<times> pdm_led_instance" where
  "pdm_led_gpio_cleanup w inst =
     (case le_hw inst of
        None \<Rightarrow> (w, inst)
      | Some g \<Rightarrow> (gpiod_put (gpiod_set_value w g 0) g, inst\<lparr>le_hw := None\<rparr>))"

definition pdm_led_gpio_apply :: "led_hw \<Rightarrow> pdm_led_instance \<Rightarrow> int \<times> led_hw \<times> pdm_led_instance" where
  "pdm_led_gpio_apply w inst =
     (case le_hw inst of
        None \<Rightarrow> (- ENODEV, w, inst)
      | Some g \<Rightarrow>
          let v = (if le_enabled inst \<noteq> 0 \<and> le_brightness inst \<noteq> 0 then 1 else 0)
          in (0, gpiod_set_value w g v, inst))"

definition pdm_led_gpio_ops :: "led_hw_api \<Rightarrow> led_hw pdm_led_backend_ops" where
  "pdm_led_gpio_ops api = \<lparr>lo_type = PDM_LED_BACKEND_GPIO, lo_name = ''gpio'',
     lo_capability = PDM_LED_CAP_GPIO, lo_setup = pdm_led_gpio_setup api,
     lo_cleanup = Some pdm_led_gpio_cleanup, lo_apply = Some pdm_led_gpio_apply\<rparr>"

section \<open>The PWM backend\<close>

definition pdm_led_pwm_setup ::
  "led_hw_api \<Rightarrow> led_hw \<Rightarrow> pdm_led_instance \<Rightarrow> int \<times> led_hw \<times> pdm_led_instance" where
  "pdm_led_pwm_setup api w inst =
     (case pwm_get api w (le_pdm_dev inst) of
        (Inl err, w1) \<Rightarrow> (err, w1, inst)
      | (Inr p, w1) \<Rightarrow> (0, w1, inst\<lparr>le_hw := Some p\<rparr>))"

definition pdm_led_pwm_cleanup ::
  "led_hw_api \<Rightarrow> led_hw \<Rightarrow> pdm_led_instance \<Rightarrow> led_hw \<times> pdm_led_instance" where
  "pdm_led_pwm_cleanup api w inst =
     (case le_hw inst of
        None \<Rightarrow> (w, inst)
      | Some p \<Rightarrow>
          let st = (lw_pwm w p)\<lparr>ps_enabled := False, ps_duty_cycle := 0\<rparr>;
              (_, w1) = pwm_apply api w p st
          in (pwm_put w1 p, inst\<lparr>le_hw := None\<rparr>))"

definition pdm_led_pwm_apply ::
  "led_hw_api \<Rightarrow> led_hw \<Rightarrow> pdm_led_instance \<Rightarrow> int \<times> led_hw \<times> pdm_led_instance" where
  "pdm_led_pwm_apply api w inst =
     (case le_hw inst of
        None \<Rightarrow> (- ENODEV, w, inst)
      | Some p \<Rightarrow>
          let st = ha_pwm_init_state api p (lw_pwm w p)
          in if ps_period st = 0 then (- EINVAL, w, inst)
             else if le_enabled inst = 0 \<or> le_brightness inst = 0 then
               (case pwm_apply api w p (st\<lparr>ps_enabled := False, ps_duty_cycle := 0\<rparr>) of
                  (ret, w1) \<Rightarrow> (ret, w1, inst))
             else
               (case pwm_set_relative_duty_cycle api (st\<lparr>ps_enabled := True\<rparr>)
                       (le_brightness inst) (le_max_brightness inst) of
                  (ret, st1) \<Rightarrow>
                    if ret \<noteq> 0 then (ret, w, inst)
                    else case pwm_apply api w p st1 of (ret, w1) \<Rightarrow> (ret, w1, inst)))"

definition pdm_led_pwm_ops :: "led_hw_api \<Rightarrow> led_hw pdm_led_backend_ops" where
  "pdm_led_pwm_ops api = \<lparr>lo_type = PDM_LED_BACKEND_PWM, lo_name = ''pwm'',
     lo_capability = PDM_LED_CAP_PWM, lo_setup = pdm_led_pwm_setup api,
     lo_cleanup = Some (pdm_led_pwm_cleanup api), lo_apply = Some (pdm_led_pwm_apply api)\<rparr>"

text \<open>What the pointer \<open>inst->ops\<close> leads to.\<close>

fun pdm_led_ops :: "led_hw_api \<Rightarrow> pdm_led_backend_type \<Rightarrow> led_hw pdm_led_backend_ops" where
  "pdm_led_ops api PDM_LED_BACKEND_MEMORY = pdm_led_memory_ops"
| "pdm_led_ops api PDM_LED_BACKEND_GPIO = pdm_led_gpio_ops api"
| "pdm_led_ops api PDM_LED_BACKEND_PWM = pdm_led_pwm_ops api"

section \<open>The contract of a backend\<close>

text \<open>
  \<open>held\<close> is what the hardware state says is in use, \<open>res\<close> what an instance holds of it, and \<open>mirrors\<close>
  that the hardware emits what the instance's brightness and enable flag say.
\<close>

locale led_backend =
  fixes setup_fn :: "'w \<Rightarrow> pdm_led_instance \<Rightarrow> int \<times> 'w \<times> pdm_led_instance"
    and cleanup_fn :: "'w \<Rightarrow> pdm_led_instance \<Rightarrow> 'w \<times> pdm_led_instance"
    and apply_fn :: "'w \<Rightarrow> pdm_led_instance \<Rightarrow> int \<times> 'w \<times> pdm_led_instance"
    and held :: "'w \<Rightarrow> 'r multiset"
    and res :: "pdm_led_instance \<Rightarrow> 'r multiset"
    and mirrors :: "pdm_led_instance \<Rightarrow> 'w \<Rightarrow> bool"
  assumes setup_frame: "setup_fn w i = (ret, w', i') \<Longrightarrow> i' = i\<lparr>le_hw := le_hw i'\<rparr>"
    and setup_held: "setup_fn w i = (ret, w', i') \<Longrightarrow> res i = {#} \<Longrightarrow> held w' = held w + res i'"
    and setup_failed: "setup_fn w i = (ret, w', i') \<Longrightarrow> ret \<noteq> 0 \<Longrightarrow> i' = i"
    and cleanup_frame: "cleanup_fn w i = (w', i') \<Longrightarrow> i' = i\<lparr>le_hw := le_hw i'\<rparr>"
    and cleanup_held: "cleanup_fn w i = (w', i') \<Longrightarrow> held w' = held w - res i \<and> res i' = {#}"
    and apply_frame: "apply_fn w i = (ret, w', i') \<Longrightarrow> i' = i \<and> held w' = held w"
    and apply_ok: "apply_fn w i = (ret, w', i') \<Longrightarrow> ret = 0 \<Longrightarrow> mirrors i w'"
    and apply_failed: "apply_fn w i = (ret, w', i') \<Longrightarrow> ret \<noteq> 0 \<Longrightarrow> w' = w"
    and res_fields: "le_hw i = le_hw j \<Longrightarrow> res i = res j"
    and mirrors_fields: "le_hw i = le_hw j \<Longrightarrow> le_brightness i = le_brightness j \<Longrightarrow>
          le_max_brightness i = le_max_brightness j \<Longrightarrow> le_enabled i = le_enabled j \<Longrightarrow>
          mirrors i w = mirrors j w"
begin

text \<open>
  Bringing a backend up as the probe does, and undoing it when the first apply fails, leaves nothing
  held.
\<close>

lemma setup_apply_cleanup:
  assumes "res i = {#}" and "setup_fn w i = (0, w1, i1)" and "apply_fn w1 i1 = (ret, w2, i2)"
    and "cleanup_fn w2 i2 = (w3, i3)"
  shows "held w3 = held w \<and> i3 = i\<lparr>le_hw := le_hw i3\<rparr> \<and> res i3 = {#}"
proof -
  have "i2 = i1" "held w2 = held w1" using apply_frame [OF assms(3)] by simp_all
  moreover have "held w1 = held w + res i1" using setup_held [OF assms(2,1)] .
  moreover have "i1 = i\<lparr>le_hw := le_hw i1\<rparr>" using setup_frame [OF assms(2)] .
  ultimately show ?thesis
    using cleanup_held [OF assms(4)] cleanup_frame [OF assms(4)] by (metis add_diff_cancel_right'
        pdm_led_instance.surjective pdm_led_instance.update_convs(6))
qed

end

text \<open>The instances of the three backends.\<close>

definition led_lit :: "pdm_led_instance \<Rightarrow> bool" where
  "led_lit i \<longleftrightarrow> le_enabled i \<noteq> 0 \<and> le_brightness i \<noteq> 0"

fun led_res :: "pdm_led_backend_type \<Rightarrow> pdm_led_instance \<Rightarrow> led_resource multiset" where
  "led_res PDM_LED_BACKEND_MEMORY i = {#}"
| "led_res PDM_LED_BACKEND_GPIO i = (case le_hw i of None \<Rightarrow> {#} | Some g \<Rightarrow> {#GPIO_LINE g#})"
| "led_res PDM_LED_BACKEND_PWM i = (case le_hw i of None \<Rightarrow> {#} | Some p \<Rightarrow> {#PWM_CHANNEL p#})"

fun led_shows :: "led_hw_api \<Rightarrow> pdm_led_backend_type \<Rightarrow> pdm_led_instance \<Rightarrow> led_hw \<Rightarrow> bool" where
  "led_shows api PDM_LED_BACKEND_MEMORY i w = True"
| "led_shows api PDM_LED_BACKEND_GPIO i w =
     (case le_hw i of None \<Rightarrow> False | Some g \<Rightarrow> lw_line w g = (if led_lit i then 1 else 0))"
| "led_shows api PDM_LED_BACKEND_PWM i w =
     (case le_hw i of None \<Rightarrow> False
      | Some p \<Rightarrow>
          ps_period (lw_pwm w p) \<noteq> 0 \<and> ps_enabled (lw_pwm w p) = led_lit i \<and>
          (if led_lit i
           then ha_relative_duty api (ps_period (lw_pwm w p)) (le_brightness i) (le_max_brightness i)
                = (0, ps_duty_cycle (lw_pwm w p))
           else ps_duty_cycle (lw_pwm w p) = 0))"

interpretation memory: led_backend pdm_led_memory_setup pdm_led_memory_cleanup pdm_led_memory_apply
    lw_held "led_res PDM_LED_BACKEND_MEMORY" "led_shows api PDM_LED_BACKEND_MEMORY"
  by unfold_locales
     (auto simp: pdm_led_memory_setup_def pdm_led_memory_cleanup_def pdm_led_memory_apply_def)

interpretation gpio: led_backend "pdm_led_gpio_setup api" pdm_led_gpio_cleanup pdm_led_gpio_apply
    lw_held "led_res PDM_LED_BACKEND_GPIO" "led_shows api PDM_LED_BACKEND_GPIO"
  by unfold_locales
     (auto simp: pdm_led_gpio_setup_def pdm_led_gpio_cleanup_def pdm_led_gpio_apply_def gpiod_get_def
        gpiod_set_value_def gpiod_put_def led_lit_def split: option.splits sum.splits prod.splits if_splits)

interpretation pwm: led_backend "pdm_led_pwm_setup api" "pdm_led_pwm_cleanup api" "pdm_led_pwm_apply api"
    lw_held "led_res PDM_LED_BACKEND_PWM" "led_shows api PDM_LED_BACKEND_PWM"
  by unfold_locales
     (auto simp: pdm_led_pwm_setup_def pdm_led_pwm_cleanup_def pdm_led_pwm_apply_def pwm_get_def
        pwm_apply_def pwm_put_def pwm_set_relative_duty_cycle_def Let_def led_lit_def
        split: option.splits sum.splits prod.splits if_splits)

end
