(* ===== verification/Pdm_Registry.thy ===== *)
theory Pdm_Registry
  imports Pdm_Uapi
begin

text \<open>
  The two registries that live in linker sections: peripheral backends
  (\<open>src/kernel/pdm/registry/pdm_backend_registry.c\<close>) and bus drivers
  (\<open>src/kernel/pdm/registry/pdm_driver_registry.c\<close>). A section is the list of its entries. The
  \<open>init\<close> and \<open>exit\<close> functions of the entries work on a world \<open>'w\<close>.

  Both registries promise the same: initialise the entries in order, and on the first invalid or
  failing entry undo exactly those initialised so far, in reverse order. The locale
  \<open>section_registry\<close> states that interface; both registries interpret it.
\<close>

section \<open>Backend entries\<close>

abbreviation (input) PDM_BACKEND_CLASS_TRANSPORT :: u32 where "PDM_BACKEND_CLASS_TRANSPORT \<equiv> 0"
abbreviation (input) PDM_BACKEND_CLASS_CONTROL :: u32 where "PDM_BACKEND_CLASS_CONTROL \<equiv> 1"

text \<open>\<open>'ops\<close> is the type of the operations table the entry points to.\<close>

record ('w, 'ops) pdm_backend_entry =
  be_name :: "string option"
  be_device_type :: u32
  be_class :: u32
  be_matches :: "string list option"
  be_ops :: "'ops option"
  be_init :: "('w \<Rightarrow> int \<times> 'w) option"
  be_exit :: "('w \<Rightarrow> 'w) option"

text \<open>
  The scan of an \<open>of_device_id\<close> table, which ends at an entry whose compatible string is empty.
\<close>

fun of_match_scan :: "string list \<Rightarrow> string \<Rightarrow> bool" where
  "of_match_scan [] compatible = False"
| "of_match_scan (m # ms) compatible =
     (if m = [] then False else if m = compatible then True else of_match_scan ms compatible)"

lemma of_match_scan_iff: "[] \<notin> set ms \<Longrightarrow> of_match_scan ms compatible \<longleftrightarrow> compatible \<in> set ms"
  by (induction ms) auto

fun pdm_backend_entry_matches ::
  "('w, 'ops) pdm_backend_entry option \<Rightarrow> string option \<Rightarrow> bool" where
  "pdm_backend_entry_matches (Some e) (Some compatible) =
     (case be_matches e of None \<Rightarrow> False | Some ms \<Rightarrow> of_match_scan ms compatible)"
| "pdm_backend_entry_matches e compatible = False"

fun pdm_backend_entries_exit_count ::
  "('w, 'ops) pdm_backend_entry list \<Rightarrow> nat \<Rightarrow> 'w \<Rightarrow> 'w" where
  "pdm_backend_entries_exit_count es 0 w = w"
| "pdm_backend_entries_exit_count es (Suc count) w =
     (case be_exit (es ! count) of
        None \<Rightarrow> pdm_backend_entries_exit_count es count w
      | Some ex \<Rightarrow> pdm_backend_entries_exit_count es count (ex w))"

text \<open>The loop of \<open>pdm_backend_entries_init\<close>: return code, entries initialised, world.\<close>

fun pdm_backend_init_loop ::
  "('w, 'ops) pdm_backend_entry list \<Rightarrow> nat \<Rightarrow> 'w \<Rightarrow> int \<times> nat \<times> 'w" where
  "pdm_backend_init_loop [] count w = (0, count, w)"
| "pdm_backend_init_loop (e # es) count w =
     (if be_name e = None \<or> be_matches e = None \<or> be_ops e = None \<or>
         (be_init e \<noteq> None) \<noteq> (be_exit e \<noteq> None)
      then (- EINVAL, count, w)
      else case be_init e of
        None \<Rightarrow> pdm_backend_init_loop es (count + 1) w
      | Some ini \<Rightarrow>
          let (ret, w') = ini w
          in if ret \<noteq> 0 then (ret, count, w') else pdm_backend_init_loop es (count + 1) w')"

text \<open>The second component is the new value of \<open>pdm_backend_entries_initialized\<close>.\<close>

definition pdm_backend_entries_init ::
  "('w, 'ops) pdm_backend_entry list \<Rightarrow> 'w \<Rightarrow> int \<times> nat \<times> 'w" where
  "pdm_backend_entries_init es w =
     (let (ret, count, w') = pdm_backend_init_loop es 0 w
      in if ret = 0 then (0, count, w')
         else (ret, 0, pdm_backend_entries_exit_count es count w'))"

definition pdm_backend_entries_exit ::
  "('w, 'ops) pdm_backend_entry list \<Rightarrow> nat \<Rightarrow> 'w \<Rightarrow> nat \<times> 'w" where
  "pdm_backend_entries_exit es initialized w =
     (0, pdm_backend_entries_exit_count es initialized w)"

fun pdm_backend_find ::
  "('w, 'ops) pdm_backend_entry list \<Rightarrow> u32 \<Rightarrow> u32 \<Rightarrow> string option \<Rightarrow>
   ('w, 'ops) pdm_backend_entry option" where
  "pdm_backend_find [] ty cls compatible = None"
| "pdm_backend_find (e # es) ty cls compatible =
     (if be_device_type e \<noteq> ty \<or> be_class e \<noteq> cls then pdm_backend_find es ty cls compatible
      else if pdm_backend_entry_matches (Some e) compatible then Some e
      else pdm_backend_find es ty cls compatible)"

lemma pdm_backend_find_None_compatible [simp]: "pdm_backend_find es ty cls None = None"
  by (induction es) auto

lemma pdm_backend_find_Some:
  "pdm_backend_find es ty cls compatible = Some e \<Longrightarrow>
   e \<in> set es \<and> be_device_type e = ty \<and> be_class e = cls \<and> pdm_backend_entry_matches (Some e) compatible"
  by (induction es) (auto split: if_splits)

section \<open>Driver entries\<close>

record 'w pdm_driver_entry =
  dn_name :: "string option"
  dn_init :: "('w \<Rightarrow> int \<times> 'w) option"
  dn_exit :: "('w \<Rightarrow> 'w) option"

fun pdm_driver_entries_exit_count :: "'w pdm_driver_entry list \<Rightarrow> nat \<Rightarrow> 'w \<Rightarrow> 'w" where
  "pdm_driver_entries_exit_count es 0 w = w"
| "pdm_driver_entries_exit_count es (Suc count) w =
     (case dn_exit (es ! count) of
        None \<Rightarrow> pdm_driver_entries_exit_count es count w
      | Some ex \<Rightarrow> pdm_driver_entries_exit_count es count (ex w))"

fun pdm_driver_init_loop :: "'w pdm_driver_entry list \<Rightarrow> nat \<Rightarrow> 'w \<Rightarrow> int \<times> nat \<times> 'w" where
  "pdm_driver_init_loop [] count w = (0, count, w)"
| "pdm_driver_init_loop (e # es) count w =
     (if dn_name e = None \<or> dn_init e = None \<or> dn_exit e = None then (- EINVAL, count, w)
      else let (ret, w') = the (dn_init e) w
           in if ret \<noteq> 0 then (ret, count, w') else pdm_driver_init_loop es (count + 1) w')"

definition pdm_driver_entries_init :: "'w pdm_driver_entry list \<Rightarrow> 'w \<Rightarrow> int \<times> nat \<times> 'w" where
  "pdm_driver_entries_init es w =
     (let (ret, count, w') = pdm_driver_init_loop es 0 w
      in if ret = 0 then (0, count, w')
         else (ret, 0, pdm_driver_entries_exit_count es count w'))"

definition pdm_driver_entries_exit :: "'w pdm_driver_entry list \<Rightarrow> nat \<Rightarrow> 'w \<Rightarrow> nat \<times> 'w" where
  "pdm_driver_entries_exit es initialized w =
     (0, pdm_driver_entries_exit_count es initialized w)"

section \<open>The interface of a registry\<close>

text \<open>
  The reference semantics: start the entries one after the other until one is invalid or its start
  fails; \<open>stop_all\<close> stops the first \<open>n\<close>, the latest first.
\<close>

fun start_all :: "('e \<Rightarrow> bool) \<Rightarrow> ('e \<Rightarrow> 'w \<Rightarrow> int \<times> 'w) \<Rightarrow> 'e list \<Rightarrow> nat \<Rightarrow> 'w \<Rightarrow> int \<times> nat \<times> 'w"
  where
  "start_all valid start [] n w = (0, n, w)"
| "start_all valid start (e # es) n w =
     (if \<not> valid e then (- EINVAL, n, w)
      else case start e w of (ret, w') \<Rightarrow>
        if ret \<noteq> 0 then (ret, n, w') else start_all valid start es (Suc n) w')"

definition stop_all :: "('e \<Rightarrow> 'w \<Rightarrow> 'w) \<Rightarrow> 'e list \<Rightarrow> nat \<Rightarrow> 'w \<Rightarrow> 'w" where
  "stop_all stop es n w = foldr stop (take n es) w"

text \<open>
  The entries \<open>es\<close> clean up after themselves: the stop of a valid entry undoes its successful start,
  and a start that fails changes nothing.
\<close>

definition undoable ::
  "('e \<Rightarrow> bool) \<Rightarrow> ('e \<Rightarrow> 'w \<Rightarrow> int \<times> 'w) \<Rightarrow> ('e \<Rightarrow> 'w \<Rightarrow> 'w) \<Rightarrow> 'e list \<Rightarrow> bool" where
  "undoable valid start stop es \<longleftrightarrow>
     (\<forall>e \<in> set es. valid e \<longrightarrow> (\<forall>v v'. start e v = (0, v') \<longrightarrow> stop e v' = v)) \<and>
     (\<forall>e \<in> set es. \<forall>v v' r. start e v = (r, v') \<longrightarrow> r \<noteq> 0 \<longrightarrow> v' = v)"

locale section_registry =
  fixes valid :: "'e \<Rightarrow> bool"
    and start :: "'e \<Rightarrow> 'w \<Rightarrow> int \<times> 'w"
    and stop :: "'e \<Rightarrow> 'w \<Rightarrow> 'w"
    and init_entries :: "'e list \<Rightarrow> 'w \<Rightarrow> int \<times> nat \<times> 'w"
    and exit_count :: "'e list \<Rightarrow> nat \<Rightarrow> 'w \<Rightarrow> 'w"
  assumes exit_count_0: "exit_count es 0 w = w"
    and exit_count_Suc: "exit_count es (Suc n) w = exit_count es n (stop (es ! n) w)"
    and init_entries_start: "init_entries es w =
      (case start_all valid start es 0 w of (ret, n, w') \<Rightarrow>
         if ret = 0 then (0, n, w') else (ret, 0, exit_count es n w'))"
begin

lemma exit_count_stop_all: "n \<le> length es \<Longrightarrow> exit_count es n w = stop_all stop es n w"
proof (induction n arbitrary: w)
  case 0
  then show ?case by (simp add: exit_count_0 stop_all_def)
next
  case (Suc n)
  then show ?case by (simp add: exit_count_Suc stop_all_def take_Suc_conv_app_nth)
qed

lemma start_all_count:
  "start_all valid start es k w = (ret, n, w') \<Longrightarrow>
   k \<le> n \<and> n \<le> k + length es \<and> (ret = 0 \<longrightarrow> n = k + length es) \<and> (ret \<noteq> 0 \<longrightarrow> n < k + length es)"
proof (induction es arbitrary: k w)
  case Nil
  then show ?case by simp
next
  case (Cons e es)
  then show ?case
    by (cases "start e w") (fastforce split: if_splits)
qed

text \<open>Stopping what was started leads back to the world before.\<close>

lemma start_all_undo:
  assumes "undoable valid start stop es" and "start_all valid start es k w = (ret, n, w')"
  shows "stop_all stop es (n - k) w' = w"
  using assms
proof (induction es arbitrary: k w)
  case Nil
  then show ?case by (simp add: stop_all_def)
next
  case (Cons e es)
  obtain r v where s: "start e w = (r, v)" by (cases "start e w")
  show ?case
  proof (cases "valid e \<and> r = 0")
    case False
    then have "n = k" "w' = (if valid e then v else w)"
      using Cons.prems(2) s by (auto split: if_splits)
    then show ?thesis
      using False Cons.prems(1) s by (cases "valid e") (simp_all add: stop_all_def undoable_def)
  next
    case True
    then have rest: "start_all valid start es (Suc k) v = (ret, n, w')"
      using Cons.prems(2) s by simp
    have "undoable valid start stop es" using Cons.prems(1) by (simp add: undoable_def)
    then have "stop_all stop es (n - Suc k) w' = v" using rest by (rule Cons.IH)
    moreover have "Suc k \<le> n" using start_all_count [OF rest] by simp
    then have "n - k = Suc (n - Suc k)" by simp
    moreover have "stop e v = w" using Cons.prems(1) True s by (simp add: undoable_def)
    ultimately show ?thesis by (simp add: stop_all_def)
  qed
qed

lemma init_failure_restores:
  assumes "undoable valid start stop es" and "init_entries es w = (ret, n, w')" and "ret \<noteq> 0"
  shows "n = 0 \<and> w' = w"
proof -
  obtain r m v where run: "start_all valid start es 0 w = (r, m, v)"
    by (cases "start_all valid start es 0 w")
  then have "m \<le> length es" using start_all_count [OF run] by simp
  then have "n = 0 \<and> w' = stop_all stop es m v"
    using assms(2,3) by (simp add: init_entries_start run exit_count_stop_all split: if_splits)
  with start_all_undo [OF assms(1) run] show ?thesis by simp
qed

lemma exit_restores:
  assumes "undoable valid start stop es" and "init_entries es w = (0, n, w')"
  shows "n = length es \<and> exit_count es n w' = w"
proof -
  obtain r m v where run: "start_all valid start es 0 w = (r, m, v)"
    by (cases "start_all valid start es 0 w")
  then have "r = 0 \<and> n = m \<and> w' = v"
    using assms(2) by (simp add: init_entries_start split: if_splits)
  moreover from this have "m = length es" using start_all_count [OF run] by simp
  ultimately show ?thesis
    using start_all_undo [OF assms(1) run] by (simp add: exit_count_stop_all)
qed

end

section \<open>Both registries implement it\<close>

definition backend_valid :: "('w, 'ops) pdm_backend_entry \<Rightarrow> bool" where
  "backend_valid e \<longleftrightarrow> be_name e \<noteq> None \<and> be_matches e \<noteq> None \<and> be_ops e \<noteq> None \<and>
     ((be_init e \<noteq> None) = (be_exit e \<noteq> None))"

definition backend_start :: "('w, 'ops) pdm_backend_entry \<Rightarrow> 'w \<Rightarrow> int \<times> 'w" where
  "backend_start e w = (case be_init e of None \<Rightarrow> (0, w) | Some ini \<Rightarrow> ini w)"

definition backend_stop :: "('w, 'ops) pdm_backend_entry \<Rightarrow> 'w \<Rightarrow> 'w" where
  "backend_stop e w = (case be_exit e of None \<Rightarrow> w | Some ex \<Rightarrow> ex w)"

lemma backend_loop_Cons:
  "pdm_backend_init_loop (e # es) n w =
     (if \<not> backend_valid e then (- EINVAL, n, w)
      else case backend_start e w of (ret, w') \<Rightarrow>
        if ret \<noteq> 0 then (ret, n, w') else pdm_backend_init_loop es (Suc n) w')"
  by (cases "be_init e"; cases "be_exit e")
     (auto simp: backend_valid_def backend_start_def split: prod.split)

lemma backend_loop_start_all:
  "pdm_backend_init_loop es n w = start_all backend_valid backend_start es n w"
proof (induction es arbitrary: n w)
  case (Cons e es)
  then show ?case by (simp only: backend_loop_Cons start_all.simps)
qed simp

interpretation backends: section_registry backend_valid backend_start backend_stop
  pdm_backend_entries_init pdm_backend_entries_exit_count
  by unfold_locales
     (simp_all add: backend_stop_def pdm_backend_entries_init_def backend_loop_start_all
       split: option.split prod.split)

definition driver_valid :: "'w pdm_driver_entry \<Rightarrow> bool" where
  "driver_valid e \<longleftrightarrow> dn_name e \<noteq> None \<and> dn_init e \<noteq> None \<and> dn_exit e \<noteq> None"

definition driver_start :: "'w pdm_driver_entry \<Rightarrow> 'w \<Rightarrow> int \<times> 'w" where
  "driver_start e w = the (dn_init e) w"

definition driver_stop :: "'w pdm_driver_entry \<Rightarrow> 'w \<Rightarrow> 'w" where
  "driver_stop e w = (case dn_exit e of None \<Rightarrow> w | Some ex \<Rightarrow> ex w)"

lemma driver_loop_start_all:
  "pdm_driver_init_loop es n w = start_all driver_valid driver_start es n w"
  by (induction es n w rule: pdm_driver_init_loop.induct)
     (simp_all add: driver_valid_def driver_start_def Let_def split: prod.split)

interpretation drivers: section_registry driver_valid driver_start driver_stop
  pdm_driver_entries_init pdm_driver_entries_exit_count
  by unfold_locales
     (simp_all add: driver_stop_def pdm_driver_entries_init_def driver_loop_start_all
       split: option.split prod.split)

section \<open>Properties\<close>

text \<open>
  The backend registry is all or nothing: when every entry's exit undoes its init, a failing
  \<open>pdm_backend_entries_init\<close> leaves no entry initialised and the world as it was, and after a
  successful one all entries are initialised and \<open>pdm_backend_entries_exit\<close> leads back.
\<close>

theorem backend_registry_all_or_nothing:
  assumes "undoable backend_valid backend_start backend_stop es"
    and "pdm_backend_entries_init es w = (ret, n, w')"
  shows "(ret \<noteq> 0 \<longrightarrow> n = 0 \<and> w' = w) \<and>
         (ret = 0 \<longrightarrow> n = length es \<and> pdm_backend_entries_exit es n w' = (0, w))"
  using backends.init_failure_restores [OF assms] backends.exit_restores [OF assms(1)] assms(2)
  by (auto simp: pdm_backend_entries_exit_def)

text \<open>
  The driver registry is all or nothing in the same sense.
\<close>

lemma driver_registry_all_or_nothing:
  assumes "undoable driver_valid driver_start driver_stop es"
    and "pdm_driver_entries_init es w = (ret, n, w')"
  shows "(ret \<noteq> 0 \<longrightarrow> n = 0 \<and> w' = w) \<and>
         (ret = 0 \<longrightarrow> n = length es \<and> pdm_driver_entries_exit es n w' = (0, w))"
  using drivers.init_failure_restores [OF assms] drivers.exit_restores [OF assms(1)] assms(2)
  by (auto simp: pdm_driver_entries_exit_def)

text \<open>
  A stack of registered names as the world: each init pushes its name and each exit pops one, so
  only the reverse order leads back. The third entry fails.
\<close>

definition stack_backend :: "nat \<Rightarrow> int \<Rightarrow> (nat list, unit) pdm_backend_entry" where
  "stack_backend k ret = \<lparr>be_name = Some ''b'', be_device_type = 1, be_class = 0,
     be_matches = Some [''x''], be_ops = Some (),
     be_init = Some (\<lambda>w. if ret = 0 then (0, k # w) else (ret, w)), be_exit = Some tl\<rparr>"

definition stack_driver :: "nat \<Rightarrow> int \<Rightarrow> nat list pdm_driver_entry" where
  "stack_driver k ret = \<lparr>dn_name = Some ''d'',
     dn_init = Some (\<lambda>w. if ret = 0 then (0, k # w) else (ret, w)), dn_exit = Some tl\<rparr>"

theorem backend_registry_all_or_nothing_witness:
  "pdm_backend_entries_init [stack_backend 1 0, stack_backend 2 0, stack_backend 3 (-19)] [7] =
     (-19, 0, [7])"
proof -
  let ?es = "[stack_backend 1 0, stack_backend 2 0, stack_backend 3 (-19)]"
  have "undoable backend_valid backend_start backend_stop ?es"
    by (auto simp: undoable_def backend_start_def backend_stop_def stack_backend_def)
  moreover have init: "fst (pdm_backend_entries_init ?es [7]) = -19"
    by (simp add: pdm_backend_entries_init_def stack_backend_def)
  ultimately show ?thesis
    using backend_registry_all_or_nothing [of ?es "[7]"]
    by (metis neg_equal_0_iff_equal prod.collapse zero_neq_numeral)
qed

lemma driver_registry_all_or_nothing_witness:
  "pdm_driver_entries_init [stack_driver 1 0, stack_driver 2 (-16)] [] = (-16, 0, [])"
proof -
  let ?es = "[stack_driver 1 0, stack_driver 2 (-16)]"
  have "undoable driver_valid driver_start driver_stop ?es"
    by (auto simp: undoable_def driver_start_def driver_stop_def stack_driver_def)
  moreover have init: "fst (pdm_driver_entries_init ?es []) = -16"
    by (simp add: pdm_driver_entries_init_def stack_driver_def)
  ultimately show ?thesis
    using driver_registry_all_or_nothing [of ?es "[]"]
    by (metis neg_equal_0_iff_equal prod.collapse zero_neq_numeral)
qed

end
