(* ===== verification/Pdm_Cdev.thy ===== *)
theory Pdm_Cdev
  imports Pdm_Device Pdm_Instance
begin

unbundle bit_operations_syntax

text \<open>
  Character devices of driver instances, the first half of \<open>src/kernel/pdm/bus/pdm_cdev.c\<close>:
  registration, the default open and release handlers, unregistration, and the release function
  that runs when the last reference is dropped.

  A \<open>pdm_cdev\<close> is embedded in its driver instance, so the release callback frees the memory both
  live in; \<open>cs_freed\<close> records that. The reference count is that of \<open>client->dev\<close>, as far as this code
  takes and drops it. A file is a number; \<open>cs_files\<close> are the files whose \<open>private_data\<close> points to
  the client. \<open>cs_pdm_refs\<close> counts the references held on the PDM device, and the minor numbers come
  from the IDA parameter.
\<close>

section \<open>State\<close>

abbreviation (input) PDM_CDEV_NAME_LEN :: nat where "PDM_CDEV_NAME_LEN \<equiv> 64"
abbreviation (input) PDM_CDEV_NODE_LEN :: nat where "PDM_CDEV_NODE_LEN \<equiv> 64"
abbreviation (input) PDM_CDEV_MINORS :: nat where "PDM_CDEV_MINORS \<equiv> 1048576"

record pdm_cdev =
  cd_pdm_dev :: bool
  cd_refs :: nat
  cd_release :: bool
  cd_open_count :: int
  cd_minor :: int
  cd_registered :: bool
  cd_name :: string
  cd_nodename :: string

definition pdm_cdev_zero :: pdm_cdev where
  "pdm_cdev_zero = \<lparr>cd_pdm_dev = False, cd_refs = 0, cd_release = False, cd_open_count = 0,
     cd_minor = 0, cd_registered = False, cd_name = [], cd_nodename = []\<rparr>"

record 'ida cdev_sys =
  cs_ida :: "'ida"
  cs_client :: pdm_cdev
  cs_pdm_refs :: nat
  cs_files :: "nat set"
  cs_freed :: bool

section \<open>References\<close>

definition pdm_cdev_device_release :: "'ida ida_api \<Rightarrow> 'ida cdev_sys \<Rightarrow> 'ida cdev_sys" where
  "pdm_cdev_device_release api s =
     (let release = cd_release (cs_client s);
          s1 = (if cd_pdm_dev (cs_client s)
                then s\<lparr>cs_pdm_refs := cs_pdm_refs s - 1, cs_client := (cs_client s)\<lparr>cd_pdm_dev := False\<rparr>\<rparr>
                else s);
          s2 = (if 0 \<le> cd_minor (cs_client s1)
                then s1\<lparr>cs_ida := ida_free api (cs_ida s1) (nat (cd_minor (cs_client s1))),
                        cs_client := (cs_client s1)\<lparr>cd_minor := -1\<rparr>\<rparr>
                else s1)
      in if release then s2\<lparr>cs_freed := True\<rparr> else s2)"

definition put_client :: "'ida ida_api \<Rightarrow> 'ida cdev_sys \<Rightarrow> 'ida cdev_sys" where
  "put_client api s =
     (let s1 = s\<lparr>cs_client := (cs_client s)\<lparr>cd_refs := cd_refs (cs_client s) - 1\<rparr>\<rparr>
      in if cd_refs (cs_client s1) = 0 then pdm_cdev_device_release api s1 else s1)"

section \<open>Operations\<close>

text \<open>
  The path of the node below \<open>/dev\<close> and its mode, from the configured string: none, one that
  \<open>kstrtouint\<close> cannot parse, or one with a value. The name of the device is its node name.
\<close>

definition pdm_cdev_devnode_mode :: "u32 option option \<Rightarrow> u32" where
  "pdm_cdev_devnode_mode config =
     (let mode = (case config of Some (Some m) \<Rightarrow> m | _ \<Rightarrow> 432) in mode AND 511)"

definition pdm_cdev_devnode :: "pdm_cdev \<Rightarrow> string" where
  "pdm_cdev_devnode c = ''pdm/'' @ cd_nodename c"

text \<open>
  The pointers to the client and the PDM device are the state; the other three pointers are
  options. The results of \<open>dev_set_name\<close> and \<open>cdev_device_add\<close> are arguments.
\<close>

definition pdm_cdev_register ::
  "'ida ida_api \<Rightarrow> int \<Rightarrow> int \<Rightarrow> 'ida cdev_sys \<Rightarrow> string option \<Rightarrow> string option \<Rightarrow> nat option \<Rightarrow> bool \<Rightarrow>
   int \<times> 'ida cdev_sys" where
  "pdm_cdev_register api set_name_ret add_ret s name nodename fops release =
     (if name = None \<or> nodename = None \<or> fops = None then (- EINVAL, s)
      else if CHR ''/'' \<in> set (the nodename) then (- EINVAL, s)
      else
        let (minor, ida') = ida_alloc_range api (cs_ida s) 0 (PDM_CDEV_MINORS - 1);
            s1 = s\<lparr>cs_ida := ida'\<rparr>
        in if minor < 0 then (minor, s1)
           else
             let c = pdm_cdev_zero
                       \<lparr>cd_name := strscpy PDM_CDEV_NAME_LEN (the name),
                        cd_nodename := strscpy PDM_CDEV_NODE_LEN (the nodename),
                        cd_open_count := 0, cd_minor := minor, cd_refs := 1, cd_pdm_dev := True\<rparr>;
                 s2 = s1\<lparr>cs_client := c, cs_pdm_refs := cs_pdm_refs s1 + 1\<rparr>
             in if set_name_ret \<noteq> 0 then (set_name_ret, put_client api s2)
                else if add_ret \<noteq> 0 then (add_ret, put_client api s2)
                else (0, s2\<lparr>cs_client := c\<lparr>cd_release := release, cd_registered := True\<rparr>\<rparr>))"

definition pdm_cdev_unregister :: "'ida ida_api \<Rightarrow> 'ida cdev_sys \<Rightarrow> 'ida cdev_sys" where
  "pdm_cdev_unregister api s =
     (if \<not> cd_registered (cs_client s) then s
      else put_client api (s\<lparr>cs_client := (cs_client s)\<lparr>cd_registered := False\<rparr>\<rparr>))"

text \<open>
  \<open>get_device\<close> returns its argument, so a file that reaches the client can always open it. The file
  is \<open>None\<close> when the inode or the file pointer is \<open>NULL\<close>.
\<close>

fun pdm_cdev_default_open :: "'ida cdev_sys \<Rightarrow> nat option \<Rightarrow> int \<times> 'ida cdev_sys" where
  "pdm_cdev_default_open s None = (- EINVAL, s)"
| "pdm_cdev_default_open s (Some f) =
     (0, s\<lparr>cs_client := (cs_client s)\<lparr>cd_refs := cd_refs (cs_client s) + 1,
                                     cd_open_count := cd_open_count (cs_client s) + 1\<rparr>,
          cs_files := insert f (cs_files s)\<rparr>)"

definition pdm_cdev_from_file :: "'ida cdev_sys \<Rightarrow> nat option \<Rightarrow> pdm_cdev option" where
  "pdm_cdev_from_file s filp =
     (case filp of None \<Rightarrow> None
      | Some f \<Rightarrow> if f \<in> cs_files s then Some (cs_client s) else None)"

definition pdm_cdev_default_release ::
  "'ida ida_api \<Rightarrow> 'ida cdev_sys \<Rightarrow> nat option \<Rightarrow> int \<times> 'ida cdev_sys" where
  "pdm_cdev_default_release api s filp =
     (case pdm_cdev_from_file s filp of
        None \<Rightarrow> (0, s)
      | Some c \<Rightarrow>
          (0, put_client api
            (s\<lparr>cs_client := c\<lparr>cd_open_count := atomic_dec_if_positive (cd_open_count c)\<rparr>,
               cs_files := cs_files s - {the filp}\<rparr>)))"

fun pdm_cdev_open_count :: "pdm_cdev option \<Rightarrow> u32" where
  "pdm_cdev_open_count None = 0"
| "pdm_cdev_open_count (Some c) = of_int (cd_open_count c)"

section \<open>Lifetime\<close>

text \<open>
  What can happen to a registered client: a file that is not open yet opens the node (only while it
  is registered: \<open>cdev_device_del\<close> removes it), an open file is closed, the driver unregisters.
\<close>

inductive cdev_step :: "'ida ida_api \<Rightarrow> 'ida cdev_sys \<Rightarrow> 'ida cdev_sys \<Rightarrow> bool" for api where
  cdev_open: "cd_registered (cs_client s) \<Longrightarrow> f \<notin> cs_files s \<Longrightarrow>
     pdm_cdev_default_open s (Some f) = (0, t) \<Longrightarrow> cdev_step api s t"
| cdev_close: "f \<in> cs_files s \<Longrightarrow>
     pdm_cdev_default_release api s (Some f) = (0, t) \<Longrightarrow> cdev_step api s t"
| cdev_unreg: "cd_registered (cs_client s) \<Longrightarrow> cdev_step api s (pdm_cdev_unregister api s)"

text \<open>
  The references are the registration and the open files. While there is one, the memory is there,
  the minor number is reserved and the PDM device is held; when the last goes, all three are given
  back.
\<close>

definition cdev_inv :: "('ida \<Rightarrow> nat set) \<Rightarrow> nat \<Rightarrow> nat \<Rightarrow> 'ida cdev_sys \<Rightarrow> bool" where
  "cdev_inv ids m refs s \<longleftrightarrow>
     finite (cs_files s) \<and>
     cd_refs (cs_client s) = (if cd_registered (cs_client s) then 1 else 0) + card (cs_files s) \<and>
     cd_open_count (cs_client s) = int (card (cs_files s)) \<and>
     cd_release (cs_client s) \<and>
     (if cd_refs (cs_client s) = 0
      then cs_freed s \<and> \<not> cd_pdm_dev (cs_client s) \<and> cs_pdm_refs s = refs \<and> m \<notin> ids (cs_ida s)
      else \<not> cs_freed s \<and> cd_pdm_dev (cs_client s) \<and> cs_pdm_refs s = refs + 1 \<and>
           cd_minor (cs_client s) = int m \<and> m \<in> ids (cs_ida s))"

lemma put_client_inv:
  assumes laws: "ida_laws api ids" and "finite (cs_files s)"
    and "cd_refs (cs_client s) = Suc ((if cd_registered (cs_client s) then 1 else 0) + card (cs_files s))"
    and "cd_open_count (cs_client s) = int (card (cs_files s))" and "cd_release (cs_client s)"
    and "\<not> cs_freed s" and "cd_pdm_dev (cs_client s)" and "cs_pdm_refs s = refs + 1"
    and "cd_minor (cs_client s) = int m" and "m \<in> ids (cs_ida s)"
  shows "cdev_inv ids m refs (put_client api s)"
  using assms
  by (simp add: put_client_def pdm_cdev_device_release_def cdev_inv_def Let_def ida_laws_free)

lemma cdev_inv_live:
  assumes "cdev_inv ids m refs s" and "cd_registered (cs_client s) \<or> cs_files s \<noteq> {}"
  shows "0 < cd_refs (cs_client s)"
  using assms by (auto simp: cdev_inv_def card_gt_0_iff)

lemma cdev_inv_close:
  assumes laws: "ida_laws api ids" and inv: "cdev_inv ids m refs s" and f: "f \<in> cs_files s"
    and call: "pdm_cdev_default_release api s (Some f) = (0, t)"
  shows "cdev_inv ids m refs t"
proof -
  let ?c = "cs_client s"
  let ?s1 = "s\<lparr>cs_client := ?c\<lparr>cd_open_count := atomic_dec_if_positive (cd_open_count ?c)\<rparr>,
               cs_files := cs_files s - {f}\<rparr>"
  have t: "t = put_client api ?s1"
    using call f by (simp add: pdm_cdev_default_release_def pdm_cdev_from_file_def)
  have live: "cd_refs ?c \<noteq> 0" using cdev_inv_live [OF inv] f by auto
  obtain n where n: "card (cs_files s) = Suc n" "card (cs_files s - {f}) = n"
    using inv card.remove [OF _ f] unfolding cdev_inv_def by blast
  show ?thesis
    unfolding t by (rule put_client_inv [OF laws])
      (use live inv n in \<open>simp_all add: cdev_inv_def atomic_dec_if_positive_def split: if_splits\<close>)
qed

lemma cdev_inv_unreg:
  assumes laws: "ida_laws api ids" and inv: "cdev_inv ids m refs s" and reg: "cd_registered (cs_client s)"
  shows "cdev_inv ids m refs (pdm_cdev_unregister api s)"
proof -
  have live: "cd_refs (cs_client s) \<noteq> 0" using cdev_inv_live [OF inv] reg by auto
  have eq: "pdm_cdev_unregister api s =
      put_client api (s\<lparr>cs_client := (cs_client s)\<lparr>cd_registered := False\<rparr>\<rparr>)"
    using reg by (simp add: pdm_cdev_unregister_def)
  show ?thesis
    unfolding eq by (rule put_client_inv [OF laws])
      (use live inv reg in \<open>simp_all add: cdev_inv_def\<close>)
qed

lemma cdev_step_inv:
  assumes "cdev_step api s t" and laws: "ida_laws api ids" and "cdev_inv ids m refs s"
  shows "cdev_inv ids m refs t"
  using assms
proof (induction rule: cdev_step.induct)
  case (cdev_open s f t)
  then have "cd_refs (cs_client s) \<noteq> 0" using cdev_inv_live by blast
  with cdev_open show ?case by (auto simp: cdev_inv_def)
next
  case (cdev_close f s t)
  then show ?case by (blast intro: cdev_inv_close)
next
  case (cdev_unreg s)
  then show ?case by (blast intro: cdev_inv_unreg)
qed

text \<open>What a registration leaves behind.\<close>

lemma register_ok_inv:
  assumes laws: "ida_laws api ids" and "cs_files s = {}" and "\<not> cs_freed s"
    and call: "pdm_cdev_register api r1 r2 s name nodename fops True = (0, t)"
  shows "cdev_inv ids (nat (cd_minor (cs_client t))) (cs_pdm_refs s) t \<and> cd_registered (cs_client t)"
proof -
  obtain minor i where ida: "ida_alloc_range api (cs_ida s) 0 1048575 = (minor, i)" by fastforce
  have "0 \<le> minor \<Longrightarrow> nat minor \<in> ids i" using ida_laws_range [OF laws ida] by simp
  with call assms(2,3) ida show ?thesis
    by (auto simp: pdm_cdev_register_def cdev_inv_def Let_def split: if_splits)
qed

lemma register_ok_ids:
  assumes laws: "ida_laws api ids"
    and call: "pdm_cdev_register api r1 r2 s name nodename fops rel = (0, t)"
  shows "0 \<le> cd_minor (cs_client t) \<and> nat (cd_minor (cs_client t)) \<notin> ids (cs_ida s) \<and>
     ids (cs_ida t) = insert (nat (cd_minor (cs_client t))) (ids (cs_ida s)) \<and>
     cs_files t = cs_files s \<and> cs_freed t = cs_freed s \<and> cs_pdm_refs t = cs_pdm_refs s + 1 \<and>
     cd_refs (cs_client t) = 1 \<and> cd_registered (cs_client t) \<and> cd_release (cs_client t) = rel \<and>
     cd_pdm_dev (cs_client t) \<and> cd_open_count (cs_client t) = 0"
proof -
  obtain minor i where ida: "ida_alloc_range api (cs_ida s) 0 1048575 = (minor, i)" by fastforce
  have "0 \<le> minor \<Longrightarrow> nat minor \<notin> ids (cs_ida s) \<and> ids i = insert (nat minor) (ids (cs_ida s))"
    using ida_laws_range [OF laws ida] by simp
  with call ida show ?thesis
    by (auto simp: pdm_cdev_register_def Let_def split: if_splits)
qed

text \<open>Unregistering a node that no file holds open gives everything back at once.\<close>

lemma unregister_closed:
  assumes laws: "ida_laws api ids"
    and "cd_registered (cs_client s)" "cd_refs (cs_client s) = 1" "cd_release (cs_client s)"
      "cd_pdm_dev (cs_client s)" "0 \<le> cd_minor (cs_client s)"
  shows "cs_freed (pdm_cdev_unregister api s) \<and>
     cs_pdm_refs (pdm_cdev_unregister api s) = cs_pdm_refs s - 1 \<and>
     ids (cs_ida (pdm_cdev_unregister api s)) = ids (cs_ida s) - {nat (cd_minor (cs_client s))}"
  using assms by (simp add: pdm_cdev_unregister_def put_client_def pdm_cdev_device_release_def Let_def
      ida_laws_free)

section \<open>Properties\<close>

text \<open>
  C15. Lifetime of a registered node. In every state reached by opens, closes and unregistration
  the instance memory is freed exactly when the node is unregistered and its last file is closed;
  until then the minor number is reserved and one reference on the PDM device is held, and at that
  point both are given back. The open count is the number of open files.
\<close>

theorem cdev_lifetime:
  assumes "ida_laws api ids" and "cs_files s = {}" and "\<not> cs_freed s"
    and "pdm_cdev_register api r1 r2 s name nodename fops True = (0, t)"
    and "(cdev_step api)\<^sup>*\<^sup>* t u"
  shows "(cs_freed u \<longleftrightarrow> \<not> cd_registered (cs_client u) \<and> cs_files u = {}) \<and>
         (\<not> cs_freed u \<longrightarrow> cs_pdm_refs u = cs_pdm_refs s + 1 \<and>
            nat (cd_minor (cs_client t)) \<in> ids (cs_ida u)) \<and>
         (cs_freed u \<longrightarrow> cs_pdm_refs u = cs_pdm_refs s \<and>
            nat (cd_minor (cs_client t)) \<notin> ids (cs_ida u)) \<and>
         pdm_cdev_open_count (Some (cs_client u)) = of_nat (card (cs_files u))"
proof -
  have "cdev_inv ids (nat (cd_minor (cs_client t))) (cs_pdm_refs s) t"
    using register_ok_inv [OF assms(1-4)] by simp
  then have "cdev_inv ids (nat (cd_minor (cs_client t))) (cs_pdm_refs s) u"
    using assms(5) by (induction rule: rtranclp_induct [OF assms(5)]) (auto intro: cdev_step_inv assms(1))
  then show ?thesis by (auto simp: cdev_inv_def split: if_splits)
qed

lemma put_unreleased:
  assumes "cd_refs (cs_client s) = 1" "\<not> cd_release (cs_client s)" "cd_pdm_dev (cs_client s)"
    "0 \<le> cd_minor (cs_client s)"
  shows "cs_ida (put_client api s) = ida_free api (cs_ida s) (nat (cd_minor (cs_client s)))"
    and "cs_pdm_refs (put_client api s) = cs_pdm_refs s - 1"
    and "cs_freed (put_client api s) = cs_freed s"
    and "cs_files (put_client api s) = cs_files s"
  using assms by (simp_all add: put_client_def pdm_cdev_device_release_def Let_def)

lemma register_failure:
  assumes "ida_laws api ids"
    and "pdm_cdev_register api r1 r2 s name nodename fops rel = (ret, t)" and "ret \<noteq> 0"
  shows "ids (cs_ida t) = ids (cs_ida s) \<and> cs_pdm_refs t = cs_pdm_refs s \<and>
         cs_freed t = cs_freed s \<and> cs_files t = cs_files s"
proof -
  obtain minor i where ida: "ida_alloc_range api (cs_ida s) 0 (PDM_CDEV_MINORS - 1) = (minor, i)" by fastforce
  note reg = pdm_cdev_register_def Let_def ida case_prod_conv if_True if_False
  show ?thesis
  proof (cases "minor < 0")
    case True
    then have eq: "pdm_cdev_register api r1 r2 s name nodename fops rel =
        (if name = None \<or> nodename = None \<or> fops = None then (- EINVAL, s)
         else if CHR ''/'' \<in> set (the nodename) then (- EINVAL, s) else (minor, s\<lparr>cs_ida := i\<rparr>))"
      by (simp only: reg True)
    have "ids i = ids (cs_ida s)" using ida_laws_range_fail [OF assms(1) ida True] .
    with assms(2) show ?thesis unfolding eq by (auto split: if_splits)
  next
    case False
    then have fresh: "nat minor \<notin> ids (cs_ida s)" "ids i = insert (nat minor) (ids (cs_ida s))"
      using ida_laws_range [OF assms(1) ida] by simp_all
    define c where "c = pdm_cdev_zero\<lparr>cd_name := strscpy 64 (the name), cd_nodename := strscpy 64 (the nodename),
      cd_open_count := 0, cd_minor := minor, cd_refs := 1, cd_pdm_dev := True\<rparr>"
    define u where "u = s\<lparr>cs_ida := i, cs_client := c, cs_pdm_refs := cs_pdm_refs s + 1\<rparr>"
    have c: "cd_refs c = 1" "\<not> cd_release c" "cd_pdm_dev c" "cd_minor c = minor"
      by (simp_all add: c_def pdm_cdev_zero_def)
    have "ids (cs_ida (put_client api u)) = ids (cs_ida s) \<and> cs_pdm_refs (put_client api u) = cs_pdm_refs s \<and>
        cs_freed (put_client api u) = cs_freed s \<and> cs_files (put_client api u) = cs_files s"
      using put_unreleased [of u api] c False fresh by (simp add: u_def ida_laws_free [OF assms(1)])
    moreover have "pdm_cdev_register api r1 r2 s name nodename fops rel =
        (if name = None \<or> nodename = None \<or> fops = None then (- EINVAL, s)
         else if CHR ''/'' \<in> set (the nodename) then (- EINVAL, s)
         else if r1 \<noteq> 0 then (r1, put_client api u) else if r2 \<noteq> 0 then (r2, put_client api u)
         else (0, u\<lparr>cs_client := c\<lparr>cd_release := rel, cd_registered := True\<rparr>\<rparr>))"
      unfolding u_def c_def by (simp only: reg False) simp
    ultimately show ?thesis using assms(2,3) by (auto split: if_splits)
  qed
qed

text \<open>
  A registration that fails leaves no trace: the ids in use and the references on the PDM
  device are those of before, and the instance memory is not freed, so freeing it remains the
  caller's task.
\<close>

theorem cdev_register_failure:
  assumes "ida_laws api ids"
    and "pdm_cdev_register api r1 r2 s name nodename fops rel = (ret, t)" and "ret \<noteq> 0"
  shows "ids (cs_ida t) = ids (cs_ida s) \<and> cs_pdm_refs t = cs_pdm_refs s \<and>
         cs_freed t = cs_freed s \<and> cs_files t = cs_files s"
  using assms by (rule register_failure)

definition cdev_sys0 :: "nat list cdev_sys" where
  "cdev_sys0 = \<lparr>cs_ida = [0], cs_client = pdm_cdev_zero, cs_pdm_refs = 1, cs_files = {}, cs_freed = False\<rparr>"

definition led0_registered :: "int \<times> nat list cdev_sys" where
  "led0_registered =
     pdm_cdev_register list_ida 0 0 cdev_sys0 (Some ''pdm-led'') (Some ''led0'') (Some 1) True"

lemma led0_registered_eq:
  "pdm_cdev_register list_ida 0 0 cdev_sys0 (Some ''pdm-led'') (Some ''led0'') (Some 1) True =
     (0, snd led0_registered)"
  by (simp add: led0_registered_def pdm_cdev_register_def cdev_sys0_def list_ida_def Let_def)

text \<open>Open the node, unregister it while it is open, close it.\<close>

definition led0_open :: "nat list cdev_sys" where
  "led0_open = snd (pdm_cdev_default_open (snd led0_registered) (Some 3))"

definition led0_gone :: "nat list cdev_sys" where
  "led0_gone = pdm_cdev_unregister list_ida led0_open"

definition led0_closed :: "nat list cdev_sys" where
  "led0_closed = snd (pdm_cdev_default_release list_ida led0_gone (Some 3))"

lemma led0_evals:
  "cd_registered (cs_client (snd led0_registered))" "cs_files (snd led0_registered) = {}"
  "cd_registered (cs_client led0_open)" "cs_files led0_gone = {3}"
  "\<not> cd_registered (cs_client led0_closed)" "cs_files led0_closed = {}"
  "cd_minor (cs_client (snd led0_registered)) = 1" "cs_pdm_refs cdev_sys0 = 1"
  by (simp_all add: led0_registered_def led0_open_def led0_gone_def led0_closed_def
      pdm_cdev_register_def cdev_sys0_def list_ida_def pdm_cdev_unregister_def put_client_def
      pdm_cdev_default_release_def pdm_cdev_from_file_def pdm_cdev_device_release_def Let_def)

lemma led0_run: "(cdev_step list_ida)\<^sup>*\<^sup>* (snd led0_registered) led0_closed"
proof -
  have "cdev_step list_ida (snd led0_registered) led0_open"
    by (rule cdev_open [where f = 3]) (simp_all add: led0_evals led0_open_def)
  moreover have "cdev_step list_ida led0_open led0_gone"
    unfolding led0_gone_def by (rule cdev_unreg) (rule led0_evals)
  moreover have "cdev_step list_ida led0_gone led0_closed"
    by (rule cdev_close [where f = 3])
       (simp_all add: led0_evals led0_closed_def pdm_cdev_default_release_def split: option.split)
  ultimately show ?thesis by (meson converse_rtranclp_into_rtranclp rtranclp.rtrancl_refl)
qed

theorem cdev_lifetime_witness:
  "cs_freed led0_closed \<and> cs_pdm_refs led0_closed = 1 \<and> 1 \<notin> set (cs_ida led0_closed)"
proof -
  have "cs_files cdev_sys0 = {}" "\<not> cs_freed cdev_sys0" by (simp_all add: cdev_sys0_def)
  from cdev_lifetime [OF list_ida_laws this led0_registered_eq led0_run] show ?thesis
    by (simp add: led0_evals)
qed

theorem cdev_register_failure_witness:
  "\<exists>t. pdm_cdev_register list_ida 0 (-5) cdev_sys0 (Some ''pdm-led'') (Some ''led0'') (Some 1) True
         = (-5, t) \<and> set (cs_ida t) = {0}"
proof -
  let ?r = "pdm_cdev_register list_ida 0 (-5) cdev_sys0 (Some ''pdm-led'') (Some ''led0'') (Some 1) True"
  have "fst ?r = -5"
    by (simp add: pdm_cdev_register_def cdev_sys0_def list_ida_def Let_def)
  then have eq: "?r = (-5, snd ?r)" by (metis prod.collapse)
  from cdev_register_failure [OF list_ida_laws eq] eq show ?thesis
    by (auto simp: cdev_sys0_def intro!: exI [of _ "snd ?r"])
qed

end
