(* ===== verification/Pdm_Ids.thy ===== *)
theory Pdm_Ids
  imports Pdm_Device
begin

unbundle bit_operations_syntax

text \<open>
  All devices and the id allocators together. A step is one call of \<open>pdm_device.c\<close> on one device:
  allocation, a requested id, bind, unbind, an error record, or the release of a device. The
  invariant ties the allocators to the devices; it gives the uniqueness of instance ids, on which
  the names of the nodes under \<open>/dev/pdm\<close> rest, and the meaning of the allocators' counters.
\<close>

section \<open>The system and its steps\<close>

record 'ida id_sys =
  is_als :: "'ida pdm_id_allocator list"
  is_devs :: "pdm_device list"

definition id_sys_init :: "'ida ida_api \<Rightarrow> 'ida \<Rightarrow> 'ida id_sys" where
  "id_sys_init api i0 = \<lparr>is_als = snd (pdm_id_init api (pdm_id_allocators i0)), is_devs = []\<rparr>"

inductive id_step :: "'ida ida_api \<Rightarrow> 'ida id_sys \<Rightarrow> 'ida id_sys \<Rightarrow> bool" for api where
  step_alloc: "pdm_device_alloc True = Some d \<Longrightarrow>
     id_step api s (s\<lparr>is_devs := is_devs s @ [d]\<rparr>)"
| step_request: "i < length (is_devs s) \<Longrightarrow>
     pdm_device_set_requested_id (Some (is_devs s ! i)) n = Some d' \<Longrightarrow>
     id_step api s (s\<lparr>is_devs := (is_devs s)[i := d']\<rparr>)"
| step_bind: "i < length (is_devs s) \<Longrightarrow>
     pdm_device_bind api (is_als s) (Some (is_devs s ! i)) ty caps = (ret, als', Some d') \<Longrightarrow>
     id_step api s (s\<lparr>is_als := als', is_devs := (is_devs s)[i := d']\<rparr>)"
| step_unbind: "i < length (is_devs s) \<Longrightarrow>
     pdm_device_unbind api (is_als s) (Some (is_devs s ! i)) = (als', Some d') \<Longrightarrow>
     id_step api s (s\<lparr>is_als := als', is_devs := (is_devs s)[i := d']\<rparr>)"
| step_error: "i < length (is_devs s) \<Longrightarrow>
     pdm_device_record_error_type now (Some (is_devs s ! i)) err ety = Some d' \<Longrightarrow>
     id_step api s (s\<lparr>is_devs := (is_devs s)[i := d']\<rparr>)"
| step_release: "is_devs s = ds @ d # es \<Longrightarrow>
     id_step api s (s\<lparr>is_als := pdm_device_release api (is_als s) d, is_devs := ds @ es\<rparr>)"

inductive id_reachable :: "'ida ida_api \<Rightarrow> 'ida \<Rightarrow> 'ida id_sys \<Rightarrow> bool" for api i0 where
  reach_init: "id_reachable api i0 (id_sys_init api i0)"
| reach_step: "id_reachable api i0 s \<Longrightarrow> id_step api s t \<Longrightarrow> id_reachable api i0 t"

section \<open>What the allocators show\<close>

definition als_names :: "'ida pdm_id_allocator list \<Rightarrow> bool" where
  "als_names als \<longleftrightarrow> map al_name als = [None, Some ''mcu'', Some ''led'']"

definition als_view :: "('ida \<Rightarrow> nat set) \<Rightarrow> 'ida pdm_id_allocator list \<Rightarrow> nat \<Rightarrow> nat set \<times> int" where
  "als_view ids als k = (ids (al_ida (als ! k)), al_count (als ! k))"

lemma als_names_length: "als_names als \<Longrightarrow> length als = 3"
  unfolding als_names_def by (drule arg_cong [of _ _ length]) simp

lemma als_names_nth:
  assumes "als_names als"
  shows "al_name (als ! 0) = None \<and> al_name (als ! Suc 0) = Some ''mcu'' \<and> al_name (als ! 2) = Some ''led''"
proof -
  have "map al_name als ! k = [None, Some ''mcu'', Some ''led''] ! k" for k
    using assms by (simp add: als_names_def)
  from this [of 0] this [of 1] this [of 2] als_names_length [OF assms] show ?thesis by simp
qed

lemma als_names_update:
  assumes "als_names als" and "al_name al = al_name (als ! k)"
  shows "als_names (als[k := al])"
proof (cases "k < length als")
  case True
  then have "map al_name (als[k := al]) = map al_name als"
    by (metis assms(2) list_update_id map_update nth_map)
  with assms(1) show ?thesis by (simp add: als_names_def)
qed (use assms in \<open>simp add: list_update_beyond\<close>)

lemma get_allocator_iff:
  assumes "als_names als"
  shows "pdm_id_get_allocator als ty = (if unat ty \<in> {1, 2} then Some (unat ty) else None)"
proof -
  have "length als = 3" using assms by (rule als_names_length)
  moreover have "unat ty < 3 \<Longrightarrow> unat ty \<in> {0, 1, 2}" by auto
  ultimately show ?thesis
    using als_names_nth [OF assms] by (auto simp: pdm_id_get_allocator_def not_le)
qed

lemma als_view_update:
  "k < length als \<Longrightarrow>
   als_view ids (als[k := al]) j = (if j = k then (ids (al_ida al), al_count al) else als_view ids als j)"
  by (simp add: als_view_def)

lemma pdm_id_alloc_view:
  assumes laws: "ida_laws api ids" and names: "als_names als"
    and call: "pdm_id_alloc api als ty req = (nid, als')"
  shows "als_names als'"
    and "nid < 0 \<Longrightarrow> als_view ids als' j = als_view ids als j"
    and "0 \<le> nid \<Longrightarrow> unat ty \<in> {1, 2} \<and> (0 \<le> req \<longrightarrow> nid = req) \<and>
           nat nid \<notin> fst (als_view ids als (unat ty)) \<and>
           als_view ids als' j =
             (if j = unat ty then (insert (nat nid) (fst (als_view ids als j)), snd (als_view ids als j) + 1)
              else als_view ids als j)"
proof -
  define k where "k = unat ty"
  define al where "al = als ! k"
  consider (none) "k \<notin> {1, 2}" | (some) "k \<in> {1, 2}" by blast
  then have "als_names als' \<and> (nid < 0 \<longrightarrow> als_view ids als' j = als_view ids als j) \<and>
     (0 \<le> nid \<longrightarrow> k \<in> {1, 2} \<and> (0 \<le> req \<longrightarrow> nid = req) \<and> nat nid \<notin> fst (als_view ids als k) \<and>
           als_view ids als' j =
             (if j = k then (insert (nat nid) (fst (als_view ids als j)), snd (als_view ids als j) + 1)
              else als_view ids als j))"
  proof cases
    case none
    with call names show ?thesis by (auto simp: pdm_id_alloc_def get_allocator_iff k_def)
  next
    case some
    then have klen: "k < length als" using als_names_length [OF names] by auto
    define call_res where "call_res = (if 0 \<le> req
        then ida_alloc_range api (al_ida al) (nat req) (nat req) else ida_alloc api (al_ida al))"
    obtain n i' where res: "call_res = (n, i')" by (cases call_res)
    have als': "nid = n" "als' = als[k := (if 0 \<le> n then al\<lparr>al_ida := i', al_count := al_count al + 1\<rparr>
                                  else al\<lparr>al_ida := i'\<rparr>)]"
      using call some res
      by (simp_all add: pdm_id_alloc_def get_allocator_iff [OF names] k_def [symmetric] Let_def
          call_res_def [symmetric] al_def [symmetric] split: if_splits)
    have ok: "0 \<le> n \<Longrightarrow> nat n \<notin> ids (al_ida al) \<and> ids i' = insert (nat n) (ids (al_ida al)) \<and> (0 \<le> req \<longrightarrow> n = req)"
      using res ida_laws_range [OF laws, of "al_ida al" "nat req" "nat req"]
        ida_laws_alloc [OF laws, of "al_ida al"]
      by (auto simp: call_res_def split: if_splits)
    have bad: "n < 0 \<Longrightarrow> ids i' = ids (al_ida al)"
      using res ida_laws_range_fail [OF laws] ida_laws_alloc_fail [OF laws]
      by (auto simp: call_res_def split: if_splits)
    have "als_names als'"
      unfolding als' by (rule als_names_update [OF names]) (simp add: al_def)
    moreover have "als_view ids als' j =
        (if j = k then (ids i', if 0 \<le> n then al_count al + 1 else al_count al)
         else als_view ids als j)"
      unfolding als'(2) using klen by (simp add: als_view_update)
    moreover have "als_view ids als k = (ids (al_ida al), al_count al)"
      by (simp add: als_view_def al_def)
    ultimately show ?thesis
      using ok bad some als'(1) by (cases "0 \<le> n"; cases "j = k") simp_all
  qed
  then show "als_names als'"
    and "nid < 0 \<Longrightarrow> als_view ids als' j = als_view ids als j"
    and "0 \<le> nid \<Longrightarrow> unat ty \<in> {1, 2} \<and> (0 \<le> req \<longrightarrow> nid = req) \<and>
           nat nid \<notin> fst (als_view ids als (unat ty)) \<and>
           als_view ids als' j =
             (if j = unat ty then (insert (nat nid) (fst (als_view ids als j)), snd (als_view ids als j) + 1)
              else als_view ids als j)"
    by (auto simp: k_def)
qed

lemma pdm_id_free_view:
  assumes "ida_laws api ids" and names: "als_names als" and "0 \<le> nid" and ty: "unat ty \<in> {1, 2}"
  shows "als_names (pdm_id_free api als ty nid)"
    and "als_view ids (pdm_id_free api als ty nid) j =
           (if j = unat ty then (fst (als_view ids als j) - {nat nid},
                                 atomic_dec_if_positive (snd (als_view ids als j)))
            else als_view ids als j)"
proof -
  have "unat ty < length als" using als_names_length [OF names] ty by auto
  with assms show "als_names (pdm_id_free api als ty nid)"
    and "als_view ids (pdm_id_free api als ty nid) j =
           (if j = unat ty then (fst (als_view ids als j) - {nat nid},
                                 atomic_dec_if_positive (snd (als_view ids als j)))
            else als_view ids als j)"
    by (auto simp: pdm_id_free_def get_allocator_iff Let_def als_view_update ida_laws_free
        intro: als_names_update) (auto simp: als_view_def)
qed

section \<open>The invariant\<close>

text \<open>The ids of type \<open>k\<close> held by the devices, in bus order.\<close>

definition bound_id :: "nat \<Rightarrow> pdm_device \<Rightarrow> nat list" where
  "bound_id k d = (if pd_id_allocated d \<and> unat (pd_type d) = k then [nat (pd_id d)] else [])"

definition bound_ids :: "nat \<Rightarrow> pdm_device list \<Rightarrow> nat list" where
  "bound_ids k ds = concat (map (bound_id k) ds)"

definition dev_ok :: "pdm_device \<Rightarrow> bool" where
  "dev_ok d \<longleftrightarrow> (pd_id_allocated d \<longrightarrow> 0 \<le> pd_id d \<and> unat (pd_type d) \<in> {1, 2})"

definition id_inv :: "('ida \<Rightarrow> nat set) \<Rightarrow> 'ida id_sys \<Rightarrow> bool" where
  "id_inv ids s \<longleftrightarrow> als_names (is_als s) \<and> (\<forall>d \<in> set (is_devs s). dev_ok d) \<and>
     (\<forall>k \<in> {1, 2}. distinct (bound_ids k (is_devs s)) \<and>
        als_view ids (is_als s) k =
          (set (bound_ids k (is_devs s)), int (length (bound_ids k (is_devs s)))))"

lemma id_inv_init:
  assumes "ida_laws api ids"
  shows "id_inv ids (id_sys_init api i0)"
  using assms
  by (auto simp: id_inv_def id_sys_init_def pdm_id_init_def pdm_id_allocators_def als_names_def
      als_view_def bound_ids_def ida_laws_init)

text \<open>Replacing one device by one that holds the same id keeps the invariant.\<close>

lemma bound_ids_simps [simp]:
  "bound_ids k [] = []"
  "bound_ids k (d # ds) = bound_id k d @ bound_ids k ds"
  "bound_ids k (ds @ es) = bound_ids k ds @ bound_ids k es"
  by (simp_all add: bound_ids_def)

lemma bound_ids_same:
  assumes "i < length ds" and "\<And>k. bound_id k d' = bound_id k (ds ! i)"
  shows "bound_ids k (ds[i := d']) = bound_ids k ds"
proof -
  from assms(1) obtain ys zs where "ds = ys @ ds ! i # zs" "ds[i := d'] = ys @ d' # zs"
    by (metis list_split_at)
  with assms(2) show ?thesis by (metis bound_ids_simps(2,3))
qed

lemma id_inv_same:
  assumes "id_inv ids s" and "i < length (is_devs s)" and "\<And>k. bound_id k d' = bound_id k (is_devs s ! i)"
    and "dev_ok d'"
  shows "id_inv ids (s\<lparr>is_devs := (is_devs s)[i := d']\<rparr>)"
  using assms set_update_subset_insert [of "is_devs s" i d']
  by (auto simp: id_inv_def bound_ids_same)

text \<open>Binding a free device.\<close>

lemma id_inv_bind:
  assumes inv: "id_inv ids s" and laws: "ida_laws api ids"
    and i: "i < length (is_devs s)" and free: "\<not> pd_id_allocated (is_devs s ! i)"
    and call: "pdm_id_alloc api (is_als s) ty req = (nid, als')" and nid: "0 \<le> nid"
    and d': "pd_id_allocated d'" "pd_id d' = nid" "pd_type d' = ty"
  shows "id_inv ids (s\<lparr>is_als := als', is_devs := (is_devs s)[i := d']\<rparr>)"
proof -
  have names: "als_names (is_als s)" using inv by (simp add: id_inv_def)
  note view = pdm_id_alloc_view [OF laws names call]
  from i obtain ys zs where
    split: "is_devs s = ys @ is_devs s ! i # zs" "(is_devs s)[i := d'] = ys @ d' # zs"
    by (metis list_split_at)
  have before: "bound_ids k (is_devs s) = bound_ids k ys @ bound_ids k zs" for k
    using free by (subst split(1)) (simp add: bound_id_def)
  have after: "bound_ids k ((is_devs s)[i := d']) =
      bound_ids k ys @ (if unat ty = k then [nat nid] else []) @ bound_ids k zs" for k
    using d' by (simp add: split(2) bound_id_def)
  have new: "unat ty \<in> {1, 2} \<Longrightarrow> nat nid \<notin> set (bound_ids (unat ty) (is_devs s))"
    using inv view(3) [OF nid] by (auto simp: id_inv_def)
  have "dev_ok d'" using d' nid view(3) [OF nid] by (auto simp: dev_ok_def)
  with inv have "\<forall>d \<in> set ((is_devs s)[i := d']). dev_ok d"
    using set_update_subset_insert [of "is_devs s" i d'] by (auto simp: id_inv_def)
  moreover have "distinct (bound_ids k ((is_devs s)[i := d'])) \<and>
        als_view ids als' k = (set (bound_ids k ((is_devs s)[i := d'])),
                               int (length (bound_ids k ((is_devs s)[i := d']))))"
    if "k \<in> {1, 2}" for k
    using inv that new view(3) [OF nid, of k] before [of k] after [of k]
    by (auto simp: id_inv_def)
  ultimately show ?thesis using view(1) by (auto simp: id_inv_def)
qed

text \<open>Giving an id back, by an unbind or by the release of the device.\<close>

lemma id_inv_unbind:
  assumes inv: "id_inv ids s" and laws: "ida_laws api ids"
    and devs: "is_devs s = ys @ d # zs" and bound: "pd_id_allocated d"
    and es: "\<And>k. bound_ids k es = []" "\<forall>e \<in> set es. dev_ok e"
  shows "id_inv ids (s\<lparr>is_als := pdm_id_free api (is_als s) (pd_type d) (pd_id d),
                       is_devs := ys @ es @ zs\<rparr>)"
proof -
  have names: "als_names (is_als s)" using inv by (simp add: id_inv_def)
  have ok: "0 \<le> pd_id d" "unat (pd_type d) \<in> {1, 2}"
    using inv devs bound by (auto simp: id_inv_def dev_ok_def)
  note view = pdm_id_free_view [OF laws names ok]
  have before: "bound_ids k (is_devs s) =
      bound_ids k ys @ (if unat (pd_type d) = k then [nat (pd_id d)] else []) @ bound_ids k zs" for k
    using devs bound by (simp add: bound_id_def)
  have after: "bound_ids k (ys @ es @ zs) = bound_ids k ys @ bound_ids k zs" for k
    using es(1) [of k] by simp
  have "distinct (bound_ids k (ys @ es @ zs)) \<and>
        als_view ids (pdm_id_free api (is_als s) (pd_type d) (pd_id d)) k =
          (set (bound_ids k (ys @ es @ zs)), int (length (bound_ids k (ys @ es @ zs))))"
    if "k \<in> {1, 2}" for k
  proof -
    have "distinct (bound_ids k (is_devs s))"
      and "als_view ids (is_als s) k =
        (set (bound_ids k (is_devs s)), int (length (bound_ids k (is_devs s))))"
      using inv that by (auto simp: id_inv_def)
    then show ?thesis
      unfolding view(2) before after by (auto simp: atomic_dec_if_positive_def)
  qed
  then show ?thesis
    using inv view(1) devs es(2) by (auto simp: id_inv_def)
qed

section \<open>Every step keeps the invariant\<close>

lemma record_error_ids:
  assumes "pdm_device_record_error_type now (Some d) err ety = Some d'"
  shows "pd_id d' = pd_id d \<and> pd_id_allocated d' = pd_id_allocated d \<and> pd_type d' = pd_type d \<and>
         pd_requested_id d' = pd_requested_id d \<and> pd_drvdata d' = pd_drvdata d \<and>
         pd_compatible d' = pd_compatible d \<and> pd_capabilities d' = pd_capabilities d \<and>
         pd_name d' = pd_name d"
  using assms by (auto simp: Let_def split: if_splits)

lemma id_inv_keep_als:
  assumes "id_inv ids s" and "als_names als'" and "\<And>k. als_view ids als' k = als_view ids (is_als s) k"
  shows "id_inv ids (s\<lparr>is_als := als'\<rparr>)"
  using assms by (simp add: id_inv_def)

lemma dev_ok_update [simp]:
  "dev_ok (d\<lparr>pd_capabilities := c\<rparr>) = dev_ok d"
  "dev_ok (d\<lparr>pd_requested_id := n\<rparr>) = dev_ok d"
  "\<not> pd_id_allocated d \<Longrightarrow> dev_ok (d\<lparr>pd_requested_id := n, pd_id := m\<rparr>) = dev_ok d"
  by (simp_all add: dev_ok_def)

lemma bound_id_update [simp]:
  "bound_id k (d\<lparr>pd_capabilities := c\<rparr>) = bound_id k d"
  "bound_id k (d\<lparr>pd_requested_id := n\<rparr>) = bound_id k d"
  "\<not> pd_id_allocated d \<Longrightarrow> bound_id k (d\<lparr>pd_requested_id := n, pd_id := m\<rparr>) = bound_id k d"
  by (simp_all add: bound_id_def)

lemma bind_allocated:
  assumes "pd_id_allocated d" and "pdm_device_bind api als (Some d) ty caps = (ret, als', Some d')"
  shows "als' = als \<and> bound_id k d' = bound_id k d \<and> (dev_ok d \<longrightarrow> dev_ok d')"
proof -
  have "als' = als \<and> (d' = d \<or> d' = d\<lparr>pd_capabilities := pd_capabilities d OR caps\<rparr>)"
    using assms by (simp split: if_splits)
  then show ?thesis by (elim conjE disjE) simp_all
qed

lemma set_requested_same:
  assumes "pdm_device_set_requested_id (Some d) n = Some d'"
  shows "bound_id k d' = bound_id k d \<and> (dev_ok d \<longrightarrow> dev_ok d')"
proof (cases "pd_id_allocated d")
  case True
  with assms have "d' = d\<lparr>pd_requested_id := n\<rparr>" by simp
  then show ?thesis by simp
next
  case False
  with assms have "d' = d\<lparr>pd_requested_id := n, pd_id := n\<rparr>" by simp
  with False show ?thesis by simp
qed

lemma id_inv_bind_call:
  assumes inv: "id_inv ids s" and laws: "ida_laws api ids" and i: "i < length (is_devs s)"
    and call: "pdm_device_bind api (is_als s) (Some (is_devs s ! i)) ty caps = (ret, als', Some d')"
  shows "id_inv ids (s\<lparr>is_als := als', is_devs := (is_devs s)[i := d']\<rparr>)"
proof (cases "pd_id_allocated (is_devs s ! i)")
  case True
  from bind_allocated [OF this call]
  have als': "als' = is_als s" and same: "bound_id k d' = bound_id k (is_devs s ! i)"
      and ok: "dev_ok (is_devs s ! i) \<Longrightarrow> dev_ok d'" for k
    by simp_all
  have "dev_ok d'" using inv i ok by (simp add: id_inv_def)
  with same have "id_inv ids (s\<lparr>is_devs := (is_devs s)[i := d']\<rparr>)"
    by (rule id_inv_same [OF inv i])
  then show ?thesis by (simp add: als')
next
  case False
  obtain nid als1 where alloc:
    "pdm_id_alloc api (is_als s) ty (pd_requested_id (is_devs s ! i)) = (nid, als1)" by fastforce
  have names: "als_names (is_als s)" using inv by (simp add: id_inv_def)
  show ?thesis
  proof (cases "nid < 0")
    case True
    with False call alloc have eqs: "als' = als1" "d' = is_devs s ! i" by auto
    have "id_inv ids (s\<lparr>is_als := als1\<rparr>)"
      using pdm_id_alloc_view(1,2) [OF laws names alloc] True by (intro id_inv_keep_als [OF inv])
    then show ?thesis by (simp add: eqs list_update_id)
  next
    case nonneg: False
    with False call alloc have "als' = als1" "pd_id_allocated d'" "pd_id d' = nid" "pd_type d' = ty"
      by (auto simp: pdm_device_set_state_def)
    with id_inv_bind [OF inv laws i False alloc] nonneg show ?thesis by simp
  qed
qed

lemma id_inv_unbind_call:
  assumes inv: "id_inv ids s" and laws: "ida_laws api ids" and i: "i < length (is_devs s)"
    and call: "pdm_device_unbind api (is_als s) (Some (is_devs s ! i)) = (als', Some d')"
  shows "id_inv ids (s\<lparr>is_als := als', is_devs := (is_devs s)[i := d']\<rparr>)"
proof (cases "pd_id_allocated (is_devs s ! i)")
  case False
  with call have eqs: "als' = is_als s" "d' = is_devs s ! i" by auto
  from inv show ?thesis by (simp add: eqs list_update_id)
next
  case True
  from i obtain ys zs where split: "is_devs s = ys @ is_devs s ! i # zs"
      "(is_devs s)[i := d'] = ys @ [d'] @ zs"
    by (metis append_Cons append_Nil list_split_at)
  have "bound_ids k [d'] = []" "dev_ok d'" for k
    using True call by (auto simp: bound_id_def dev_ok_def pdm_device_set_state_def)
  then show ?thesis
    using id_inv_unbind [OF inv laws split(1) True, of "[d']"] True call split(2) by auto
qed

lemma id_inv_release:
  assumes inv: "id_inv ids s" and laws: "ida_laws api ids" and devs: "is_devs s = ds @ d # es"
  shows "id_inv ids (s\<lparr>is_als := pdm_device_release api (is_als s) d, is_devs := ds @ es\<rparr>)"
proof (cases "pd_id_allocated d")
  case True
  then show ?thesis
    using id_inv_unbind [OF inv laws devs True, of "[]"] by (simp add: pdm_device_release_def)
next
  case False
  then have "bound_ids k (is_devs s) = bound_ids k (ds @ es)" for k
    by (simp add: devs bound_id_def)
  with inv False devs show ?thesis by (auto simp: id_inv_def pdm_device_release_def)
qed

theorem id_step_inv:
  assumes "id_step api s t" and "ida_laws api ids" and "id_inv ids s"
  shows "id_inv ids t"
  using assms
proof (induction rule: id_step.induct)
  case (step_alloc d s)
  then have "bound_ids k (is_devs s @ [d]) = bound_ids k (is_devs s)" "dev_ok d" for k
    by (auto simp: pdm_device_alloc_def bound_id_def dev_ok_def)
  with step_alloc show ?case by (auto simp: id_inv_def)
next
  case (step_request i s n d')
  have "dev_ok (is_devs s ! i)" using step_request(1,4) by (simp add: id_inv_def)
  with set_requested_same [OF step_request(2)]
  have "dev_ok d'" "bound_id k d' = bound_id k (is_devs s ! i)" for k
    by simp_all
  then show ?case by (intro id_inv_same [OF step_request(4,1)])
next
  case (step_error i s now err ety d')
  have "dev_ok (is_devs s ! i)" using step_error(1,4) by (simp add: id_inv_def)
  with record_error_ids [OF step_error(2)]
  have "dev_ok d'" "bound_id k d' = bound_id k (is_devs s ! i)" for k
    by (auto simp: bound_id_def dev_ok_def)
  then show ?case by (intro id_inv_same [OF step_error(4,1)])
qed (blast intro: id_inv_bind_call id_inv_unbind_call id_inv_release)+

lemma id_reachable_inv:
  "id_reachable api i0 s \<Longrightarrow> ida_laws api ids \<Longrightarrow> id_inv ids s"
  by (induction rule: id_reachable.induct) (auto intro: id_inv_init id_step_inv)

section \<open>Properties\<close>

lemma bound_ids_distinct_nth:
  assumes dist: "distinct (bound_ids k ds)" and ij: "i < j" "j < length ds"
    and b: "bound_id k (ds ! i) = [m]" "bound_id k (ds ! j) = [n]"
  shows "m \<noteq> n"
proof -
  have "ds = take j ds @ ds ! j # drop (Suc j) ds" using ij by (simp add: id_take_nth_drop)
  then have "bound_ids k ds = bound_ids k (take j ds) @ [n] @ bound_ids k (drop (Suc j) ds)"
    using b(2) by (metis bound_ids_simps(2,3))
  moreover have "ds ! i \<in> set (take j ds)" using ij by (auto simp: in_set_conv_nth)
  then have "m \<in> set (bound_ids k (take j ds))"
    using b(1) by (force simp: bound_ids_def)
  ultimately show ?thesis using dist by auto
qed

text \<open>
  C1. Instance ids are unique: in every state that calls of \<open>pdm_device.c\<close> can reach, two
  different devices that are bound with the same type have different ids.
\<close>

theorem instance_ids_unique:
  assumes "ida_laws api ids" and "id_reachable api i0 s"
    and "i < length (is_devs s)" and "j < length (is_devs s)" and "i \<noteq> j"
    and "pd_id_allocated (is_devs s ! i)" and "pd_id_allocated (is_devs s ! j)"
    and "pd_type (is_devs s ! i) = pd_type (is_devs s ! j)"
  shows "pd_id (is_devs s ! i) \<noteq> pd_id (is_devs s ! j)"
proof -
  define k where "k = unat (pd_type (is_devs s ! i))"
  have inv: "id_inv ids s" using assms(1,2) by (metis id_reachable_inv)
  have k: "k \<in> {1, 2}" using inv assms(3,6) by (auto simp: id_inv_def dev_ok_def k_def)
  then have dist: "distinct (bound_ids k (is_devs s))" using inv unfolding id_inv_def by blast
  have b: "bound_id k (is_devs s ! i) = [nat (pd_id (is_devs s ! i))]"
          "bound_id k (is_devs s ! j) = [nat (pd_id (is_devs s ! j))]"
    using assms(6-8) by (auto simp: bound_id_def k_def)
  show ?thesis
  proof (cases "i < j")
    case True
    from bound_ids_distinct_nth [OF dist True assms(4) b] show ?thesis by auto
  next
    case False
    with assms(5) have "j < i" by simp
    from bound_ids_distinct_nth [OF dist this assms(3) b(2,1)] show ?thesis by auto
  qed
qed

text \<open>
  The counter of an allocator is the number of devices bound with its type.
\<close>

theorem allocator_count_exact:
  assumes "ida_laws api ids" and "id_reachable api i0 s" and "ty = 1 \<or> ty = 2"
  shows "al_count (is_als s ! unat ty) =
         int (length (filter (\<lambda>d. pd_id_allocated d \<and> pd_type d = ty) (is_devs s)))"
proof -
  have "id_inv ids s" using assms(1,2) by (metis id_reachable_inv)
  moreover have "unat ty \<in> {1, 2}" using assms(3) by auto
  moreover have "length (bound_ids (unat ty) ds) =
      length (filter (\<lambda>d. pd_id_allocated d \<and> pd_type d = ty) ds)" for ds
    by (induction ds) (auto simp: bound_id_def word_unat_eq_iff)
  ultimately show ?thesis by (auto simp: id_inv_def als_view_def)
qed

text \<open>
  A bind that fails changes neither the device nor the set of ids in use, and a bind of a free
  device that asks for a specific id either gets exactly that id or fails.
\<close>

lemma bind_requested_id:
  assumes "ida_laws api ids" and "als_names als"
    and "\<not> pd_id_allocated d"
    and "pdm_device_bind api als (Some d) ty caps = (ret, als', Some d')"
  shows "(ret = 0 \<longrightarrow> pd_id_allocated d' \<and> pd_type d' = ty \<and> pd_id d' \<ge> 0 \<and>
            (0 \<le> pd_requested_id d \<longrightarrow> pd_id d' = pd_requested_id d)) \<and>
         (ret \<noteq> 0 \<longrightarrow> ret < 0 \<and> d' = d \<and> (\<forall>k. als_view ids als' k = als_view ids als k))"
proof -
  obtain nid als1 where alloc: "pdm_id_alloc api als ty (pd_requested_id d) = (nid, als1)"
    by fastforce
  note view = pdm_id_alloc_view [OF assms(1,2) alloc]
  show ?thesis
    using assms(3,4) alloc view by (auto simp: pdm_device_set_state_def split: if_splits)
qed

text \<open>
  Unbinding undoes a bind: the ids in use and the counter are those of before, and the device
  is free again, with the requested id, no type and no capabilities.
\<close>

theorem unbind_undoes_bind:
  assumes "ida_laws api ids" and "als_names als" and "\<not> pd_id_allocated d"
    and "0 \<le> al_count (als ! unat ty)"
    and "pdm_device_bind api als (Some d) ty caps = (0, als', Some d')"
    and "pdm_device_unbind api als' (Some d') = (als'', Some d'')"
  shows "als_view ids als'' k = als_view ids als k \<and>
         d'' = d\<lparr>pd_id := pd_requested_id d, pd_type := PDM_MANAGER_DEVICE_TYPE_INVALID,
                 pd_capabilities := 0, pd_state := PDM_MANAGER_DEVICE_STATE_REGISTERED\<rparr>"
proof -
  obtain nid als1 where alloc: "pdm_id_alloc api als ty (pd_requested_id d) = (nid, als1)"
    by fastforce
  note view = pdm_id_alloc_view [OF assms(1,2) alloc]
  have nid: "0 \<le> nid" and d': "als' = als1" "d' = pdm_device_set_state
      (d\<lparr>pd_id := nid, pd_id_allocated := True, pd_type := ty,
         pd_capabilities := pd_capabilities d OR caps\<rparr>) PDM_MANAGER_DEVICE_STATE_REGISTERED"
    using assms(3,5) alloc by (auto split: if_splits)
  have ty: "unat ty \<in> {1, 2}" using view(3) [OF nid] by simp
  have "als_view ids (pdm_id_free api als1 ty nid) k = als_view ids als k"
    using pdm_id_free_view(2) [OF assms(1) view(1) nid ty, of k] view(3) [OF nid, of k] assms(4)
    by (cases "k = unat ty") (auto simp: atomic_dec_if_positive_def als_view_def)
  then show ?thesis
    using assms(3,6) d' by (auto simp: pdm_device_set_state_def)
qed

section \<open>Witnesses\<close>

text \<open>Two devices bound as LEDs through the first-fit allocator.\<close>

definition new_device :: pdm_device where
  "new_device = the (pdm_device_alloc True)"

definition bind_at :: "nat \<Rightarrow> nat list id_sys \<Rightarrow> nat list id_sys" where
  "bind_at i s = (case pdm_device_bind list_ida (is_als s) (Some (is_devs s ! i)) 2 0 of
     (ret, als', d') \<Rightarrow> s\<lparr>is_als := als', is_devs := (is_devs s)[i := the d']\<rparr>)"

definition two_leds :: "nat list id_sys" where
  "two_leds = bind_at 1 (bind_at 0 ((id_sys_init list_ida [])\<lparr>is_devs := [new_device, new_device]\<rparr>))"

lemma bind_returns_device:
  obtains ret als' d' where "pdm_device_bind api als (Some d) ty caps = (ret, als', Some d')"
  by (cases "pd_id_allocated d"; cases "pd_type d = ty";
      cases "pdm_id_alloc api als ty (pd_requested_id d)"; cases "fst (pdm_id_alloc api als ty (pd_requested_id d)) < 0")
     simp_all

lemma length_bind_at [simp]: "length (is_devs (bind_at i s)) = length (is_devs s)"
  by (simp add: bind_at_def split: prod.splits)

lemma bind_at_step:
  assumes "i < length (is_devs s)"
  shows "id_step list_ida s (bind_at i s)"
proof -
  obtain ret als' d' where
    "pdm_device_bind list_ida (is_als s) (Some (is_devs s ! i)) 2 0 = (ret, als', Some d')"
    by (rule bind_returns_device)
  with assms show ?thesis using step_bind [OF assms] by (simp add: bind_at_def)
qed

lemma two_leds_reachable: "id_reachable list_ida [] two_leds"
proof -
  have d: "pdm_device_alloc True = Some new_device"
    by (simp add: new_device_def pdm_device_alloc_def)
  let ?s0 = "id_sys_init list_ida []"
  have "id_reachable list_ida [] (?s0\<lparr>is_devs := [new_device]\<rparr>)"
    using reach_step [OF reach_init step_alloc [OF d]] by (simp add: id_sys_init_def)
  then have "id_reachable list_ida [] (?s0\<lparr>is_devs := [new_device, new_device]\<rparr>)"
    using reach_step [OF _ step_alloc [OF d]] by fastforce
  then have "id_reachable list_ida [] (bind_at 0 (?s0\<lparr>is_devs := [new_device, new_device]\<rparr>))"
    by (rule reach_step) (simp add: bind_at_step)
  then show ?thesis
    unfolding two_leds_def
    by (rule reach_step) (simp add: bind_at_step)
qed

lemma two_leds_eval:
  "length (is_devs two_leds) = 2"
  "map pd_id_allocated (is_devs two_leds) = [True, True]"
  "map pd_type (is_devs two_leds) = [2, 2]"
  by code_simp+

lemma two_leds_nth:
  "pd_id_allocated (is_devs two_leds ! 0)" "pd_id_allocated (is_devs two_leds ! 1)"
  "pd_type (is_devs two_leds ! 0) = 2" "pd_type (is_devs two_leds ! 1) = 2"
  by code_simp+

theorem instance_ids_unique_witness:
  "pd_id (is_devs two_leds ! 0) \<noteq> pd_id (is_devs two_leds ! 1)"
  by (rule instance_ids_unique [OF list_ida_laws two_leds_reachable])
     (use two_leds_eval two_leds_nth in simp_all)

theorem allocator_count_exact_witness:
  "al_count (is_als two_leds ! unat (2 :: u32)) =
     int (length (filter (\<lambda>d. pd_id_allocated d \<and> pd_type d = 2) (is_devs two_leds)))"
  by (rule allocator_count_exact [OF list_ida_laws two_leds_reachable]) simp

definition mcu_taken :: "nat list pdm_id_allocator list" where
  "mcu_taken = (pdm_id_allocators [])[1 := \<lparr>al_ida = [4], al_name = Some ''mcu'', al_count = 1\<rparr>]"

lemma mcu_taken_names: "als_names mcu_taken"
  by (simp add: mcu_taken_def pdm_id_allocators_def als_names_def)

text \<open>Asking for MCU id 4, which is taken, fails and leaves everything as it is.\<close>

definition wants_four :: pdm_device where
  "wants_four = new_device\<lparr>pd_requested_id := 4, pd_id := 4\<rparr>"

lemma wants_four_free: "\<not> pd_id_allocated wants_four"
  by code_simp

lemma wants_four_bind:
  "pdm_device_bind list_ida mcu_taken (Some wants_four) 1 0 = (- ENOSPC, mcu_taken, Some wants_four)"
  by (simp add: wants_four_def new_device_def pdm_device_alloc_def pdm_id_alloc_def
      pdm_id_get_allocator_def mcu_taken_def pdm_id_allocators_def list_ida_def)

lemma bind_requested_id_witness:
  "pdm_device_bind list_ida mcu_taken (Some wants_four) 1 0 = (- ENOSPC, mcu_taken, Some wants_four) \<and>
   als_view set mcu_taken 1 = als_view set mcu_taken 1"
  using bind_requested_id [OF list_ida_laws mcu_taken_names wants_four_free wants_four_bind]
    wants_four_bind by simp

definition wants_five :: pdm_device where
  "wants_five = new_device\<lparr>pd_requested_id := 5, pd_id := 5\<rparr>"

lemma wants_five_free: "\<not> pd_id_allocated wants_five"
  by code_simp

definition five_bound :: "int \<times> nat list pdm_id_allocator list \<times> pdm_device option" where
  "five_bound = pdm_device_bind list_ida mcu_taken (Some wants_five) 1 7"

definition five_unbound :: "nat list pdm_id_allocator list \<times> pdm_device option" where
  "five_unbound = pdm_device_unbind list_ida (fst (snd five_bound)) (snd (snd five_bound))"

lemma five_bound_eq:
  "pdm_device_bind list_ida mcu_taken (Some wants_five) 1 7 =
     (0, fst (snd five_bound), Some (the (snd (snd five_bound))))"
  "pdm_device_unbind list_ida (fst (snd five_bound)) (Some (the (snd (snd five_bound)))) =
     (fst five_unbound, Some (the (snd five_unbound)))"
  by (simp_all add: five_bound_def five_unbound_def wants_five_def new_device_def
      pdm_device_alloc_def pdm_id_alloc_def pdm_id_get_allocator_def mcu_taken_def
      pdm_id_allocators_def list_ida_def)

theorem unbind_undoes_bind_witness:
  "als_view set (fst five_unbound) 1 = ({4}, 1) \<and> pd_id (the (snd five_unbound)) = 5"
proof -
  have "0 \<le> al_count (mcu_taken ! unat (1 :: u32))"
    by (simp add: mcu_taken_def pdm_id_allocators_def)
  note undo = unbind_undoes_bind
    [OF list_ida_laws mcu_taken_names wants_five_free this five_bound_eq, of 1]
  have "als_view set mcu_taken 1 = ({4}, 1)"
    by (simp add: als_view_def mcu_taken_def pdm_id_allocators_def)
  with undo show ?thesis by (simp add: wants_five_def)
qed

end
