(* ===== verification/Pdm_Bus.thy ===== *)
theory Pdm_Bus
  imports Pdm_Manager Pdm_Ids
begin

unbundle bit_operations_syntax

text \<open>
  The PDM bus type: \<open>src/kernel/pdm/bus/pdm_bus.c\<close> and \<open>struct pdm_driver\<close> of
  \<open>src/kernel/include/pdm/bus/pdm_bus.h\<close>.

  A driver is a record of optional callbacks over a state \<open>'w\<close> of its own (instances, hardware,
  counters). \<open>dev->driver\<close> is the optional driver argument: the driver core sets it before it
  calls the bus. What \<open>driver_register\<close> and \<open>of_driver_match_device\<close> answer is an argument, as
  neither is part of the repository.

  What the bus needs of a driver is the locale \<open>pdm_driver_contract\<close>; the LED and the MCU driver
  interpret it.
\<close>

section \<open>Drivers\<close>

record 'w pdm_driver =
  dv_name :: "string option"
  dv_of_match_table :: "string list option"
  dv_alias_of_match_table :: "string list option"
  dv_owner :: nat
  dv_on_pdm_bus :: bool
  dv_device_type :: u32
  dv_capabilities :: u64
  dv_match :: "(pdm_device option \<Rightarrow> bool) option"
  dv_probe :: "('w \<Rightarrow> pdm_device \<Rightarrow> int \<times> 'w \<times> pdm_device) option"
  dv_remove :: "('w \<Rightarrow> pdm_device \<Rightarrow> 'w \<times> pdm_device) option"
  dv_suspend :: "('w \<Rightarrow> pdm_device \<Rightarrow> int \<times> 'w \<times> pdm_device) option"
  dv_resume :: "('w \<Rightarrow> pdm_device \<Rightarrow> int \<times> 'w \<times> pdm_device) option"

section \<open>Probe and remove\<close>

fun pdm_bus_device_probe ::
  "'ida ida_api \<Rightarrow> u64 \<Rightarrow> 'ida pdm_id_allocator list \<Rightarrow> 'w \<Rightarrow> pdm_device option \<Rightarrow>
   'w pdm_driver option \<Rightarrow> int \<times> 'ida pdm_id_allocator list \<times> 'w \<times> pdm_device option" where
  "pdm_bus_device_probe api now als w (Some d) (Some drv) =
     (case dv_probe drv of
        None \<Rightarrow> (- ENODEV, als, w, Some d)
      | Some probe \<Rightarrow>
          (case pdm_device_bind api als (Some d) (dv_device_type drv) (dv_capabilities drv) of
             (ret, als1, dev1) \<Rightarrow>
               if ret \<noteq> 0 then (ret, als1, w, pdm_device_record_error now dev1 ret)
               else
                 (case probe w (the dev1) of
                    (ret, w1, d2) \<Rightarrow>
                      if ret \<noteq> 0 then
                        (case pdm_device_unbind api als1 (pdm_device_record_error now (Some d2) ret) of
                           (als2, dev3) \<Rightarrow> (ret, als2, w1, dev3))
                      else (0, als1, w1,
                            Some ((pdm_device_set_state d2 PDM_MANAGER_DEVICE_STATE_BOUND)
                                    \<lparr>pd_last_error := 0\<rparr>)))))"
| "pdm_bus_device_probe api now als w dev drv = (- EINVAL, als, w, dev)"

fun pdm_bus_device_remove ::
  "'ida ida_api \<Rightarrow> 'ida pdm_id_allocator list \<Rightarrow> 'w \<Rightarrow> pdm_device option \<Rightarrow>
   'w pdm_driver option \<Rightarrow> 'ida pdm_id_allocator list \<times> 'w \<times> pdm_device option" where
  "pdm_bus_device_remove api als w (Some d) (Some drv) =
     (let (w1, d1) = (case dv_remove drv of None \<Rightarrow> (w, d) | Some remove \<Rightarrow> remove w d);
          (als1, dev2) = pdm_device_unbind api als (Some d1)
      in (als1, w1, dev2))"
| "pdm_bus_device_remove api als w dev drv = (als, w, dev)"

section \<open>Matching\<close>

text \<open>The match table is an array of compatible strings that an empty one ends.\<close>

fun compatible_scan :: "string list \<Rightarrow> string \<Rightarrow> int" where
  "compatible_scan [] compatible = 0"
| "compatible_scan (m # ms) compatible =
     (if m = [] then 0 else if m = compatible then 1 else compatible_scan ms compatible)"

definition pdm_bus_match_compatible :: "pdm_device \<Rightarrow> 'w pdm_driver \<Rightarrow> int" where
  "pdm_bus_match_compatible d drv =
     (case (pd_compatible d, dv_of_match_table drv) of
        (Some compatible, Some table) \<Rightarrow> compatible_scan table compatible
      | _ \<Rightarrow> 0)"

fun pdm_bus_device_match_impl ::
  "(dt_node \<Rightarrow> 'w pdm_driver \<Rightarrow> bool) \<Rightarrow> pdm_device option \<Rightarrow> 'w pdm_driver option \<Rightarrow> int" where
  "pdm_bus_device_match_impl of_driver_match (Some d) (Some drv) =
     (case dv_match drv of
        Some match \<Rightarrow> if match (Some d) then 1 else 0
      | None \<Rightarrow>
          if (case pd_of_node d of None \<Rightarrow> False | Some np \<Rightarrow> of_driver_match np drv) then 1
          else pdm_bus_match_compatible d drv)"
| "pdm_bus_device_match_impl of_driver_match dev drv = 0"

section \<open>Power management\<close>

fun pdm_bus_device_suspend ::
  "'w \<Rightarrow> pdm_device option \<Rightarrow> 'w pdm_driver option \<Rightarrow> int \<times> 'w \<times> pdm_device option" where
  "pdm_bus_device_suspend w (Some d) (Some drv) =
     (case dv_suspend drv of
        Some suspend \<Rightarrow> (case suspend w d of (ret, w', d') \<Rightarrow> (ret, w', Some d'))
      | None \<Rightarrow> (0, w, Some d))"
| "pdm_bus_device_suspend w dev drv = (0, w, dev)"

fun pdm_bus_device_resume ::
  "'w \<Rightarrow> pdm_device option \<Rightarrow> 'w pdm_driver option \<Rightarrow> int \<times> 'w \<times> pdm_device option" where
  "pdm_bus_device_resume w (Some d) (Some drv) =
     (case dv_resume drv of
        Some resume \<Rightarrow> (case resume w d of (ret, w', d') \<Rightarrow> (ret, w', Some d'))
      | None \<Rightarrow> (0, w, Some d))"
| "pdm_bus_device_resume w dev drv = (0, w, dev)"

section \<open>Lookup, iteration, driver registration\<close>

definition pdm_bus_device_match_parent :: "pdm_device \<Rightarrow> nat option \<Rightarrow> int" where
  "pdm_bus_device_match_parent d parent = (if pd_parent d = parent then 1 else 0)"

text \<open>\<open>bus_find_device\<close> returns the first device the match function accepts.\<close>

definition pdm_bus_find_device_by_parent :: "pdm_device list \<Rightarrow> nat option \<Rightarrow> pdm_device option" where
  "pdm_bus_find_device_by_parent devs parent =
     find (\<lambda>d. pdm_bus_device_match_parent d parent \<noteq> 0) devs"

definition pdm_bus_for_each_dev ::
  "(pdm_device \<Rightarrow> 'c \<Rightarrow> int \<times> 'c) \<Rightarrow> pdm_device list \<Rightarrow> 'c \<Rightarrow> int \<times> 'c" where
  "pdm_bus_for_each_dev fn devs data = bus_for_each fn devs data"

fun pdm_bus_register_driver ::
  "int \<Rightarrow> nat \<Rightarrow> 'w pdm_driver option \<Rightarrow> int \<times> 'w pdm_driver option" where
  "pdm_bus_register_driver driver_register_ret owner None = (- EINVAL, None)"
| "pdm_bus_register_driver driver_register_ret owner (Some drv) =
     (if dv_name drv = None then (- EINVAL, Some drv)
      else
        let drv1 = (if dv_alias_of_match_table drv \<noteq> None \<and> dv_of_match_table drv = None
                    then drv\<lparr>dv_of_match_table := dv_alias_of_match_table drv\<rparr> else drv);
            drv2 = drv1\<lparr>dv_owner := owner, dv_on_pdm_bus := True\<rparr>
        in if driver_register_ret \<noteq> 0 then (driver_register_ret, Some drv2) else (0, Some drv2))"

section \<open>What the bus needs of a driver\<close>

text \<open>The members of a device that belong to the bus, which a driver's callbacks leave alone.\<close>

definition bus_view :: "pdm_device \<Rightarrow> int \<times> int \<times> bool \<times> u32" where
  "bus_view d = (pd_id d, pd_requested_id d, pd_id_allocated d, pd_type d)"

text \<open>What holds of a device that no driver is bound to.\<close>

definition unbound :: "pdm_device \<Rightarrow> bool" where
  "unbound d \<longleftrightarrow> \<not> pd_id_allocated d \<and> pd_id d = pd_requested_id d"

lemma record_error_bus_view:
  "pdm_device_record_error now (Some d) err = Some d' \<Longrightarrow> bus_view d' = bus_view d"
  by (auto simp: pdm_device_record_error_def bus_view_def Let_def split: if_splits)

lemma record_error_some:
  "\<exists>d'. pdm_device_record_error now (Some d) err = Some d' \<and> bus_view d' = bus_view d"
  by (cases "pdm_device_record_error now (Some d) err")
     (auto simp: record_error_bus_view pdm_device_record_error_def Let_def split: if_splits)

text \<open>Binding a device that is not bound, and unbinding one that is, over the bus view.\<close>

definition with_id :: "pdm_device \<Rightarrow> int \<Rightarrow> u32 \<Rightarrow> u64 \<Rightarrow> pdm_device" where
  "with_id d nid ty caps = pdm_device_set_state
     (d\<lparr>pd_id := nid, pd_id_allocated := True, pd_type := ty, pd_capabilities := pd_capabilities d OR caps\<rparr>)
     PDM_MANAGER_DEVICE_STATE_REGISTERED"

lemma bus_view_with_id [simp]: "bus_view (with_id d nid ty caps) = (nid, pd_requested_id d, True, ty)"
  by (simp add: with_id_def bus_view_def pdm_device_set_state_def)

lemma bind_fresh:
  assumes laws: "ida_laws api ids" and names: "als_names als" and fresh: "\<not> pd_id_allocated d"
  obtains (bound) nid als' where
      "pdm_device_bind api als (Some d) ty caps = (0, als', Some (with_id d nid ty caps))"
      "als_names als'" "0 \<le> nid" "unat ty \<in> {1, 2}" "0 \<le> pd_requested_id d \<longrightarrow> nid = pd_requested_id d"
      "nat nid \<notin> fst (als_view ids als (unat ty))"
      "als_view ids als' = (als_view ids als)(unat ty :=
         (insert (nat nid) (fst (als_view ids als (unat ty))), snd (als_view ids als (unat ty)) + 1))"
    | (refused) ret als' where
      "pdm_device_bind api als (Some d) ty caps = (ret, als', Some d)" "ret < 0"
      "als_names als'" "als_view ids als' = als_view ids als"
proof -
  obtain nid als1 where alloc: "pdm_id_alloc api als ty (pd_requested_id d) = (nid, als1)"
    by fastforce
  note view = pdm_id_alloc_view [OF laws names alloc]
  show thesis
  proof (cases "nid < 0")
    case True
    with fresh alloc view(1,2) show thesis by (intro refused [of nid als1]) auto
  next
    case False
    with fresh alloc have "pdm_device_bind api als (Some d) ty caps = (0, als1, Some (with_id d nid ty caps))"
      by (simp add: with_id_def)
    moreover have "als_view ids als1 = (als_view ids als)(unat ty :=
         (insert (nat nid) (fst (als_view ids als (unat ty))), snd (als_view ids als (unat ty)) + 1))"
      using False view(3) by (intro ext) auto
    ultimately show thesis using False view(1) view(3) by (intro bound [of als1 nid]) auto
  qed
qed

lemma unbind_view:
  assumes laws: "ida_laws api ids" and names: "als_names als"
    and view: "bus_view d = (nid, req, True, ty)" and nid: "0 \<le> nid" and ty: "unat ty \<in> {1, 2}"
  obtains als' d' where "pdm_device_unbind api als (Some d) = (als', Some d')"
    "als_names als'" "unbound d'" "\<not> pdm_manager_device_visible (Some d')"
    "pd_state d' = PDM_MANAGER_DEVICE_STATE_REGISTERED" "pd_last_error d' = pd_last_error d"
    "pd_requested_id d' = req"
    "als_view ids als' = (als_view ids als)(unat ty :=
       (fst (als_view ids als (unat ty)) - {nat nid}, atomic_dec_if_positive (snd (als_view ids als (unat ty)))))"
proof -
  let ?als' = "pdm_id_free api als ty nid"
  have fields: "pd_id d = nid" "pd_requested_id d = req" "pd_id_allocated d" "pd_type d = ty"
    using view by (simp_all add: bus_view_def)
  note free = pdm_id_free_view [OF laws names nid ty]
  show thesis
    using fields free(1) free(2)
    by (intro that [of ?als' "pdm_device_set_state (d\<lparr>pd_id_allocated := False, pd_id := req,
          pd_type := 0, pd_capabilities := 0\<rparr>) 0"])
       (auto simp: pdm_device_set_state_def unbound_def pdm_manager_device_visible.simps)
qed

text \<open>
  The contract: the callbacks leave the bus's members of the device alone, and a probe that fails
  leaves the whole device as it was.
\<close>

locale pdm_driver_contract =
  fixes probe :: "'w \<Rightarrow> pdm_device \<Rightarrow> int \<times> 'w \<times> pdm_device"
    and remove :: "'w \<Rightarrow> pdm_device \<Rightarrow> 'w \<times> pdm_device"
  assumes probe_frame: "probe w d = (ret, w', d') \<Longrightarrow> bus_view d' = bus_view d"
    and probe_failed: "probe w d = (ret, w', d') \<Longrightarrow> ret \<noteq> 0 \<Longrightarrow> d' = d"
    and remove_frame: "remove w d = (w', d') \<Longrightarrow> bus_view d' = bus_view d"
begin

lemma bus_probe_ok:
  assumes laws: "ida_laws api ids" and names: "als_names als" and fresh: "unbound d"
    and drv: "dv_probe drv = Some probe"
    and call: "pdm_bus_device_probe api now als w (Some d) (Some drv) = (0, als', w', Some d')"
  shows "pdm_manager_device_visible (Some d') \<and> pd_state d' = PDM_MANAGER_DEVICE_STATE_BOUND \<and>
         pd_last_error d' = 0 \<and> pd_type d' = dv_device_type drv \<and> 0 \<le> pd_id d' \<and>
         (0 \<le> pd_requested_id d \<longrightarrow> pd_id d' = pd_requested_id d) \<and>
         nat (pd_id d') \<notin> fst (als_view ids als (unat (dv_device_type drv))) \<and>
         nat (pd_id d') \<in> fst (als_view ids als' (unat (dv_device_type drv))) \<and>
         (\<exists>d2. probe w (with_id d (pd_id d') (dv_device_type drv) (dv_capabilities drv)) = (0, w', d2))"
proof -
  let ?ty = "dv_device_type drv" and ?caps = "dv_capabilities drv"
  have "\<not> pd_id_allocated d" using fresh by (simp add: unbound_def)
  from laws names this show ?thesis
  proof (cases rule: bind_fresh [where ty = ?ty and caps = ?caps])
    case (bound nid als1)
    obtain r w1 d2 where p: "probe w (with_id d nid ?ty ?caps) = (r, w1, d2)" using prod_cases3 by blast
    have view: "bus_view d2 = (nid, pd_requested_id d, True, ?ty)" using probe_frame [OF p] by simp
    have "r = 0"
      using call drv p bound(1) by (auto split: if_splits prod.splits)
    then have d': "d' = (pdm_device_set_state d2 1)\<lparr>pd_last_error := 0\<rparr>" "als' = als1" "w' = w1"
      using call drv p bound(1) by auto
    have "?ty \<noteq> 0" using bound(4) by auto
    with d' view bound p \<open>r = 0\<close> show ?thesis
      by (auto simp: pdm_device_set_state_def bus_view_def pdm_manager_device_visible.simps)
  next
    case (refused ret1 als1)
    with call drv show ?thesis by auto
  qed
qed

lemma bus_probe_failed:
  assumes laws: "ida_laws api ids" and names: "als_names als" and fresh: "unbound d"
    and count: "0 \<le> snd (als_view ids als (unat (dv_device_type drv)))"
    and drv: "dv_probe drv = Some probe"
    and call: "pdm_bus_device_probe api now als w (Some d) (Some drv) = (ret, als', w', Some d')"
    and ret: "ret \<noteq> 0"
  shows "unbound d' \<and> \<not> pdm_manager_device_visible (Some d') \<and> pd_requested_id d' = pd_requested_id d \<and>
         als_view ids als' = als_view ids als"
proof -
  let ?ty = "dv_device_type drv" and ?caps = "dv_capabilities drv"
  have free: "\<not> pd_id_allocated d" using fresh by (simp add: unbound_def)
  from laws names free show ?thesis
  proof (cases rule: bind_fresh [where ty = ?ty and caps = ?caps])
    case (bound nid als1)
    obtain r w1 d2 where p: "probe w (with_id d nid ?ty ?caps) = (r, w1, d2)" using prod_cases3 by blast
    have r: "r = ret" "r \<noteq> 0" using call drv p bound(1) ret by (auto split: if_splits prod.splits)
    obtain d3 where err: "pdm_device_record_error now (Some d2) r = Some d3" "bus_view d3 = bus_view d2"
      using record_error_some by blast
    have view: "bus_view d3 = (nid, pd_requested_id d, True, ?ty)" using err(2) probe_frame [OF p] by simp
    from laws bound(2) view bound(3,4) show ?thesis
    proof (rule unbind_view)
      fix als2 d4 assume un: "pdm_device_unbind api als1 (Some d3) = (als2, Some d4)" "unbound d4"
        "\<not> pdm_manager_device_visible (Some d4)" "pd_requested_id d4 = pd_requested_id d"
        "als_view ids als2 = (als_view ids als1)(unat ?ty :=
           (fst (als_view ids als1 (unat ?ty)) - {nat nid}, atomic_dec_if_positive (snd (als_view ids als1 (unat ?ty)))))"
      have "als_view ids als2 = als_view ids als"
        using un(5) bound(6,7) count by (intro ext) (auto simp: atomic_dec_if_positive_def prod_eq_iff)
      moreover have "als' = als2" "d' = d4"
        using call drv p bound(1) r err(1) un(1) by auto
      ultimately show ?thesis using un by simp
    qed
  next
    case (refused ret1 als1)
    obtain d3 where err: "pdm_device_record_error now (Some d) ret1 = Some d3" "bus_view d3 = bus_view d"
      using record_error_some by blast
    have "als' = als1" "d' = d3" using call drv refused err(1) by auto
    with err(2) refused fresh show ?thesis
      by (simp add: bus_view_def unbound_def pdm_manager_device_visible.simps)
  qed
qed

lemma bus_remove:
  assumes laws: "ida_laws api ids" and names: "als_names als"
    and bound: "pd_id_allocated d" "0 \<le> pd_id d" "unat (pd_type d) \<in> {1, 2}"
    and drv: "dv_remove drv = Some remove"
    and call: "pdm_bus_device_remove api als w (Some d) (Some drv) = (als', w', Some d')"
  shows "unbound d' \<and> \<not> pdm_manager_device_visible (Some d') \<and> w' = fst (remove w d) \<and>
         als_view ids als' = (als_view ids als)(unat (pd_type d) :=
           (fst (als_view ids als (unat (pd_type d))) - {nat (pd_id d)},
            atomic_dec_if_positive (snd (als_view ids als (unat (pd_type d))))))"
proof -
  obtain w1 d1 where r: "remove w d = (w1, d1)" by fastforce
  have view: "bus_view d1 = (pd_id d, pd_requested_id d, True, pd_type d)"
    using remove_frame [OF r] bound(1) by (simp add: bus_view_def)
  from laws names view bound(2,3) show ?thesis
  proof (rule unbind_view)
    fix als2 d2 assume "pdm_device_unbind api als (Some d1) = (als2, Some d2)" "unbound d2"
      "\<not> pdm_manager_device_visible (Some d2)"
      "als_view ids als2 = (als_view ids als)(unat (pd_type d) :=
         (fst (als_view ids als (unat (pd_type d))) - {nat (pd_id d)},
          atomic_dec_if_positive (snd (als_view ids als (unat (pd_type d))))))"
    with call drv r show ?thesis by (simp del: pdm_device_unbind.simps)
  qed
qed

end

section \<open>Properties\<close>

lemma compatible_scan_iff:
  "compatible_scan table c = (if c \<noteq> [] \<and> c \<in> set (takeWhile (\<lambda>m. m \<noteq> []) table) then 1 else 0)"
  by (induction table c rule: compatible_scan.induct) auto

text \<open>
  How a device and a driver match: a driver with a match callback decides alone; without one the
  device tree may match, and otherwise the device's compatible string has to be in the part of the
  driver's table before its first empty entry. A device without a compatible string never matches
  by it.
\<close>

theorem bus_match_spec:
  "pdm_bus_device_match_impl ofm (Some d) (Some drv) =
     of_bool (case dv_match drv of
        Some match \<Rightarrow> match (Some d)
      | None \<Rightarrow> (\<exists>np. pd_of_node d = Some np \<and> ofm np drv) \<or>
          (\<exists>c table. pd_compatible d = Some c \<and> c \<noteq> [] \<and> dv_of_match_table drv = Some table \<and>
             c \<in> set (takeWhile (\<lambda>m. m \<noteq> []) table)))"
  by (auto simp: pdm_bus_match_compatible_def compatible_scan_iff split: option.split)

end
