(* ===== verification/Pdm_Led.thy ===== *)
theory Pdm_Led
  imports Pdm_Led_Backend Pdm_Registry Pdm_Cdev Pdm_Bus
begin

unbundle bit_operations_syntax

text \<open>
  The LED driver, \<open>src/kernel/pdm/drivers/led/pdm_led.c\<close>: matching, device-tree configuration, the
  ioctl handlers, probe and remove.

  The handlers work on the hardware state and one instance; a handler that has to wait for the
  mutex is \<open>None\<close>. They are proved over any table of backends that keeps the contract
  \<open>led_backend\<close>, and the table of the code is an instance. Probe and remove work on the driver's
  whole state \<open>led_sys\<close>: the hardware, the minor numbers, the references on PDM devices, the device
  counter and the memory of the instances.
\<close>

section \<open>Matching and configuration\<close>

definition pdm_led_is_generic_compatible :: "string option \<Rightarrow> bool" where
  "pdm_led_is_generic_compatible compatible =
     (case compatible of None \<Rightarrow> True | Some c \<Rightarrow> c = ''pdm,led'' \<or> c = ''vendor,pdm-led'')"

definition pdm_led_match ::
  "('w, 'ops) pdm_backend_entry list \<Rightarrow> pdm_device option \<Rightarrow> bool" where
  "pdm_led_match entries dev =
     (case dev of
        None \<Rightarrow> False
      | Some d \<Rightarrow>
          if pdm_led_is_generic_compatible (pd_compatible d) then True
          else pdm_backend_find entries PDM_LED_DEVICE_TYPE PDM_BACKEND_CLASS_CONTROL (pd_compatible d)
               \<noteq> None)"

definition pdm_led_read_dt_config ::
  "dt_node option \<Rightarrow> pdm_led_instance \<Rightarrow> int \<times> pdm_led_instance" where
  "pdm_led_read_dt_config node inst0 =
     (let inst = inst0\<lparr>le_max_brightness := PDM_LED_DEFAULT_MAX_BRIGHTNESS,
                       le_brightness := 0, le_enabled := 0\<rparr>
      in case node of
        None \<Rightarrow> (0, inst)
      | Some np \<Rightarrow>
          if dt_u32 np ''max-brightness'' = Some 0 then (- EINVAL, inst)
          else
            let inst = (case dt_u32 np ''max-brightness'' of
                          Some m \<Rightarrow> inst\<lparr>le_max_brightness := m\<rparr> | None \<Rightarrow> inst)
            in if (case dt_u32 np ''default-brightness'' of
                     Some b \<Rightarrow> le_max_brightness inst < b | None \<Rightarrow> False) then (- ERANGE, inst)
            else
              let inst = (case dt_u32 np ''default-brightness'' of
                            Some b \<Rightarrow> inst\<lparr>le_brightness := b\<rparr> | None \<Rightarrow> inst)
              in case dt_str np ''default-state'' of
                   Some st \<Rightarrow>
                     if st = ''on'' then
                       let inst = inst\<lparr>le_enabled := 1\<rparr>
                       in (0, if le_brightness inst = 0
                              then inst\<lparr>le_brightness := le_max_brightness inst\<rparr> else inst)
                     else if st = ''off'' then (0, inst\<lparr>le_enabled := 0\<rparr>)
                     else if st = ''keep'' then
                       (0, inst\<lparr>le_enabled := if le_brightness inst \<noteq> 0 then 1 else 0\<rparr>)
                     else (- EINVAL, inst)
                 | None \<Rightarrow> (0, if le_brightness inst \<noteq> 0 then inst\<lparr>le_enabled := 1\<rparr> else inst))"

section \<open>Handlers\<close>

definition pdm_led_get_info ::
  "pdm_cdev \<Rightarrow> int \<Rightarrow> pdm_led_info user_buf \<Rightarrow> int \<times> pdm_led_info user_buf" where
  "pdm_led_get_info client device_count arg =
     (let info = \<lparr>li_abi_version = PDM_LED_ABI_VERSION, li_version_major = 1, li_version_minor = 0,
                  li_version_patch = 0, li_open_count = pdm_cdev_open_count (Some client),
                  li_max_devices = pdm_driver_count_get device_count\<rparr>;
          (ok, arg') = copy_to_user arg info
      in if ok then (0, arg') else (- EFAULT, arg'))"

definition pdm_led_get_state ::
  "pdm_led_instance \<Rightarrow> pdm_led_state user_buf \<Rightarrow>
   (int \<times> pdm_led_instance \<times> pdm_led_state user_buf) option" where
  "pdm_led_get_state inst arg =
     (case copy_from_user arg of
        None \<Rightarrow> Some (- EFAULT, inst, arg)
      | Some st \<Rightarrow>
          (case pdm_driver_claim inst of
             None \<Rightarrow> None
           | Some (ret, inst1) \<Rightarrow>
               if ret \<noteq> 0 then Some (ret, inst1, arg)
               else
                 let st1 = st\<lparr>ls_brightness := le_brightness inst1,
                              ls_max_brightness := le_max_brightness inst1,
                              ls_enabled := le_enabled inst1\<rparr>;
                     inst2 = pdm_driver_release inst1;
                     (ok, arg') = copy_to_user arg st1
                 in if ok then Some (0, inst2, arg') else Some (- EFAULT, inst2, arg')))"

definition pdm_led_apply_locked ::
  "(pdm_led_backend_type \<Rightarrow> 'w pdm_led_backend_ops) \<Rightarrow> 'w \<Rightarrow> pdm_led_instance \<Rightarrow>
   int \<times> 'w \<times> pdm_led_instance" where
  "pdm_led_apply_locked ops_of w inst =
     (case le_ops inst of
        None \<Rightarrow> (- EOPNOTSUPP, w, inst)
      | Some t \<Rightarrow> (case lo_apply (ops_of t) of
            None \<Rightarrow> (- EOPNOTSUPP, w, inst)
          | Some apply_fn \<Rightarrow> apply_fn w inst))"

definition pdm_led_set_brightness ::
  "(pdm_led_backend_type \<Rightarrow> 'w pdm_led_backend_ops) \<Rightarrow> 'w \<Rightarrow> pdm_led_instance \<Rightarrow>
   pdm_led_brightness user_buf \<Rightarrow> (int \<times> 'w \<times> pdm_led_instance) option" where
  "pdm_led_set_brightness ops_of w inst arg =
     (case copy_from_user arg of
        None \<Rightarrow> Some (- EFAULT, w, inst)
      | Some br \<Rightarrow>
          if le_max_brightness inst < lb_brightness br then Some (- ERANGE, w, inst)
          else
            (case pdm_driver_claim inst of
               None \<Rightarrow> None
             | Some (ret, inst1) \<Rightarrow>
                 if ret \<noteq> 0 then Some (ret, w, inst1)
                 else
                   let old_brightness = le_brightness inst1;
                       old_enabled = le_enabled inst1;
                       inst2 = inst1\<lparr>le_brightness := lb_brightness br\<rparr>;
                       inst3 = (if lb_brightness br \<noteq> 0 then inst2\<lparr>le_enabled := 1\<rparr> else inst2)
                   in case pdm_led_apply_locked ops_of w inst3 of
                        (ret, w1, inst4) \<Rightarrow>
                          let inst5 = (if ret \<noteq> 0
                                then inst4\<lparr>le_brightness := old_brightness, le_enabled := old_enabled\<rparr>
                                else inst4)
                          in Some (ret, w1, pdm_driver_release inst5)))"

definition pdm_led_set_enabled ::
  "(pdm_led_backend_type \<Rightarrow> 'w pdm_led_backend_ops) \<Rightarrow> 'w \<Rightarrow> pdm_led_instance \<Rightarrow> u32 user_buf \<Rightarrow> bool \<Rightarrow>
   (int \<times> 'w \<times> pdm_led_instance) option" where
  "pdm_led_set_enabled ops_of w inst arg enabled =
     (case copy_from_user arg of
        None \<Rightarrow> Some (- EFAULT, w, inst)
      | Some _ \<Rightarrow>
          (case pdm_driver_claim inst of
             None \<Rightarrow> None
           | Some (ret, inst1) \<Rightarrow>
               if ret \<noteq> 0 then Some (ret, w, inst1)
               else
                 let old_enabled = le_enabled inst1;
                     inst2 = inst1\<lparr>le_enabled := if enabled then 1 else 0\<rparr>
                 in case pdm_led_apply_locked ops_of w inst2 of
                      (ret, w1, inst3) \<Rightarrow>
                        let inst4 = (if ret \<noteq> 0 then inst3\<lparr>le_enabled := old_enabled\<rparr> else inst3)
                        in Some (ret, w1, pdm_driver_release inst4)))"

text \<open>
  The client is \<open>None\<close> when the file has no private data. The result is the return value, the
  hardware, the instance and the request with its buffer.
\<close>

fun pdm_led_ioctl ::
  "(pdm_led_backend_type \<Rightarrow> 'w pdm_led_backend_ops) \<Rightarrow> int \<Rightarrow> pdm_cdev option \<Rightarrow> 'w \<Rightarrow>
   pdm_led_instance \<Rightarrow> pdm_led_request \<Rightarrow> (int \<times> 'w \<times> pdm_led_instance \<times> pdm_led_request) option" where
  "pdm_led_ioctl ops_of cnt None w inst req = Some (- ENODEV, w, inst, req)"
| "pdm_led_ioctl ops_of cnt (Some client) w inst (LED_GET_INFO arg) =
     (case pdm_led_get_info client cnt arg of (ret, arg') \<Rightarrow> Some (ret, w, inst, LED_GET_INFO arg'))"
| "pdm_led_ioctl ops_of cnt (Some client) w inst (LED_GET_STATE arg) =
     (case pdm_led_get_state inst arg of
        None \<Rightarrow> None | Some (ret, inst', arg') \<Rightarrow> Some (ret, w, inst', LED_GET_STATE arg'))"
| "pdm_led_ioctl ops_of cnt (Some client) w inst (LED_SET_BRIGHTNESS arg) =
     (case pdm_led_set_brightness ops_of w inst arg of
        None \<Rightarrow> None | Some (ret, w', inst') \<Rightarrow> Some (ret, w', inst', LED_SET_BRIGHTNESS arg))"
| "pdm_led_ioctl ops_of cnt (Some client) w inst (LED_ENABLE arg) =
     (case pdm_led_set_enabled ops_of w inst arg True of
        None \<Rightarrow> None | Some (ret, w', inst') \<Rightarrow> Some (ret, w', inst', LED_ENABLE arg))"
| "pdm_led_ioctl ops_of cnt (Some client) w inst (LED_DISABLE arg) =
     (case pdm_led_set_enabled ops_of w inst arg False of
        None \<Rightarrow> None | Some (ret, w', inst') \<Rightarrow> Some (ret, w', inst', LED_DISABLE arg))"
| "pdm_led_ioctl ops_of cnt (Some client) w inst (LED_UNKNOWN c) =
     Some (- ENOTTY, w, inst, LED_UNKNOWN c)"

section \<open>The invariant of a LED, over any table of backends\<close>

definition led_config_ok :: "pdm_led_instance \<Rightarrow> bool" where
  "led_config_ok i \<longleftrightarrow> le_max_brightness i \<noteq> 0 \<and> le_brightness i \<le> le_max_brightness i \<and>
     le_enabled i \<in> {0, 1}"

text \<open>What a request asks of the brightness and the enable flag.\<close>

fun led_request_effect :: "pdm_led_request \<Rightarrow> u32 \<times> u32 \<Rightarrow> u32 \<times> u32" where
  "led_request_effect (LED_SET_BRIGHTNESS arg) (b, e) =
     (lb_brightness (ub_val arg), if lb_brightness (ub_val arg) \<noteq> 0 then 1 else e)"
| "led_request_effect (LED_ENABLE arg) (b, e) = (b, 1)"
| "led_request_effect (LED_DISABLE arg) (b, e) = (b, 0)"
| "led_request_effect req (b, e) = (b, e)"

lemma led_config_ok_effect:
  assumes "led_config_ok i"
    and "\<And>arg. req = LED_SET_BRIGHTNESS arg \<Longrightarrow> lb_brightness (ub_val arg) \<le> le_max_brightness i"
    and "led_request_effect req (le_brightness i, le_enabled i) = (b, e)"
  shows "led_config_ok (i\<lparr>le_brightness := b, le_enabled := e\<rparr>)"
  using assms by (cases req) (auto simp: led_config_ok_def split: if_splits)

text \<open>
  An instance at rest: its mutex is free, its configuration is sound, and while it is online the
  hardware shows it.
\<close>

definition led_at_rest ::
  "(pdm_led_backend_type \<Rightarrow> pdm_led_instance \<Rightarrow> 'w \<Rightarrow> bool) \<Rightarrow> pdm_led_backend_type \<Rightarrow>
   pdm_led_instance \<Rightarrow> 'w \<Rightarrow> bool" where
  "led_at_rest mirrors t i w \<longleftrightarrow>
     \<not> in_lock i \<and> le_ops i = Some t \<and> led_config_ok i \<and> (in_online i \<longrightarrow> mirrors t i w)"

text \<open>
  A session is a list of requests on one open file. The specification of a LED is a pair of
  brightness and enable flag: \<open>led_reply_ok\<close> says what a reply may be in a state of the
  specification, and a trace is allowed when every reply is, each successful request having its
  effect.
\<close>

fun led_session ::
  "(pdm_led_backend_type \<Rightarrow> 'w pdm_led_backend_ops) \<Rightarrow> int \<Rightarrow> pdm_cdev \<Rightarrow> 'w \<Rightarrow> pdm_led_instance \<Rightarrow>
   pdm_led_request list \<Rightarrow>
   ((pdm_led_request \<times> int \<times> pdm_led_request) list \<times> 'w \<times> pdm_led_instance) option" where
  "led_session ops_of cnt client w inst [] = Some ([], w, inst)"
| "led_session ops_of cnt client w inst (req # reqs) =
     (case pdm_led_ioctl ops_of cnt (Some client) w inst req of
        None \<Rightarrow> None
      | Some (ret, w1, inst1, req') \<Rightarrow>
          (case led_session ops_of cnt client w1 inst1 reqs of
             None \<Rightarrow> None
           | Some (tr, w2, inst2) \<Rightarrow> Some ((req, ret, req') # tr, w2, inst2)))"

fun led_reply_ok ::
  "u32 \<Rightarrow> u32 \<times> u32 \<Rightarrow> pdm_led_request \<times> int \<times> pdm_led_request \<Rightarrow> bool" where
  "led_reply_ok m (b, e) (LED_GET_STATE arg, ret, req') \<longleftrightarrow>
     (\<exists>arg'. req' = LED_GET_STATE arg' \<and>
       (ret = 0 \<longrightarrow> ub_val arg' = (ub_val arg)\<lparr>ls_brightness := b, ls_max_brightness := m, ls_enabled := e\<rparr>))"
| "led_reply_ok m (b, e) (LED_SET_BRIGHTNESS arg, ret, req') \<longleftrightarrow>
     req' = LED_SET_BRIGHTNESS arg \<and> (ret = 0 \<longrightarrow> lb_brightness (ub_val arg) \<le> m) \<and>
     (ub_readable arg \<and> m < lb_brightness (ub_val arg) \<longrightarrow> ret = - ERANGE)"
| "led_reply_ok m (b, e) (LED_GET_INFO arg, ret, req') \<longleftrightarrow> ret = (if ub_writable arg then 0 else - EFAULT)"
| "led_reply_ok m (b, e) (LED_UNKNOWN c, ret, req') \<longleftrightarrow> ret = - ENOTTY"
| "led_reply_ok m (b, e) (req, ret, req') \<longleftrightarrow> req' = req"

fun led_trace_ok ::
  "u32 \<Rightarrow> u32 \<times> u32 \<Rightarrow> (pdm_led_request \<times> int \<times> pdm_led_request) list \<Rightarrow> u32 \<times> u32 \<Rightarrow> bool" where
  "led_trace_ok m be [] be' \<longleftrightarrow> be' = be"
| "led_trace_ok m be ((req, ret, req') # tr) be' \<longleftrightarrow>
     led_reply_ok m be (req, ret, req') \<and>
     led_trace_ok m (if ret = 0 then led_request_effect req be else be) tr be'"

locale led_backends =
  fixes ops_of :: "pdm_led_backend_type \<Rightarrow> 'w pdm_led_backend_ops"
    and held :: "'w \<Rightarrow> 'r multiset"
    and res :: "pdm_led_backend_type \<Rightarrow> pdm_led_instance \<Rightarrow> 'r multiset"
    and mirrors :: "pdm_led_backend_type \<Rightarrow> pdm_led_instance \<Rightarrow> 'w \<Rightarrow> bool"
    and cleanup_of :: "pdm_led_backend_type \<Rightarrow> 'w \<Rightarrow> pdm_led_instance \<Rightarrow> 'w \<times> pdm_led_instance"
    and apply_of :: "pdm_led_backend_type \<Rightarrow> 'w \<Rightarrow> pdm_led_instance \<Rightarrow> int \<times> 'w \<times> pdm_led_instance"
  assumes cleanup_op: "lo_cleanup (ops_of t) = Some (cleanup_of t)"
    and apply_op: "lo_apply (ops_of t) = Some (apply_of t)"
    and backend: "led_backend (lo_setup (ops_of t)) (cleanup_of t) (apply_of t) held (res t) (mirrors t)"
begin

lemmas apply_frame = led_backend.apply_frame [OF backend]
lemmas apply_ok = led_backend.apply_ok [OF backend]
lemmas apply_failed = led_backend.apply_failed [OF backend]
lemmas mirrors_fields = led_backend.mirrors_fields [OF backend]

text \<open>
  An update under the lock: apply the new values, take them back if that fails. It returns, and
  either everything is as before or the new values are in force and shown.
\<close>

lemma apply_update:
  assumes rest: "led_at_rest mirrors t i w" and on: "in_online i"
    and ap: "pdm_led_apply_locked ops_of w (i\<lparr>in_lock := True, le_brightness := b, le_enabled := e\<rparr>) = (ret, w1, i1)"
  shows "i1 = i\<lparr>in_lock := True, le_brightness := b, le_enabled := e\<rparr> \<and> held w1 = held w \<and>
         (ret \<noteq> 0 \<longrightarrow> w1 = w) \<and> (ret = 0 \<longrightarrow> mirrors t (i\<lparr>le_brightness := b, le_enabled := e\<rparr>) w1)"
proof -
  let ?i = "i\<lparr>in_lock := True, le_brightness := b, le_enabled := e\<rparr>"
  have ap': "apply_of t w ?i = (ret, w1, i1)"
    using ap rest by (simp add: pdm_led_apply_locked_def apply_op led_at_rest_def)
  have "mirrors t ?i w1 = mirrors t (i\<lparr>le_brightness := b, le_enabled := e\<rparr>) w1"
    by (rule mirrors_fields) simp_all
  with apply_frame [OF ap'] apply_ok [OF ap'] apply_failed [OF ap'] show ?thesis by auto
qed

lemma led_update_eq:
  "i' = i\<lparr>le_brightness := b, le_enabled := e\<rparr> \<Longrightarrow>
   i' = i\<lparr>le_brightness := le_brightness i', le_enabled := le_enabled i'\<rparr>"
  by simp

lemma unlocked_update: "\<not> in_lock i \<Longrightarrow> i\<lparr>in_lock := False\<rparr> = i"
  by simp

lemma set_brightness_spec:
  assumes rest: "led_at_rest mirrors t i w" and on: "in_online i"
  shows "\<exists>ret w' i'. pdm_led_set_brightness ops_of w i arg = Some (ret, w', i') \<and> held w' = held w \<and>
     (ret \<noteq> 0 \<longrightarrow> w' = w \<and> i' = i) \<and>
     (ret = 0 \<longrightarrow> ub_readable arg \<and> lb_brightness (ub_val arg) \<le> le_max_brightness i \<and>
        (\<exists>b e. led_request_effect (LED_SET_BRIGHTNESS arg) (le_brightness i, le_enabled i) = (b, e) \<and>
          i' = i\<lparr>le_brightness := b, le_enabled := e\<rparr> \<and> mirrors t i' w'))"
proof -
  have free: "\<not> in_lock i" using rest by (simp add: led_at_rest_def)
  let ?v = "lb_brightness (ub_val arg)"
  let ?e = "if ?v \<noteq> 0 then 1 else le_enabled i"
  obtain ret w1 i1 where ap: "pdm_led_apply_locked ops_of w
      (i\<lparr>in_lock := True, le_brightness := ?v, le_enabled := ?e\<rparr>) = (ret, w1, i1)"
    using prod_cases3 by blast
  note up = apply_update [OF rest on ap]
  have "pdm_led_set_brightness ops_of w i arg =
     (if \<not> ub_readable arg then Some (- EFAULT, w, i)
      else if le_max_brightness i < ?v then Some (- ERANGE, w, i)
      else Some (ret, w1, if ret \<noteq> 0 then i else i\<lparr>le_brightness := ?v, le_enabled := ?e\<rparr>))"
    using free on ap up
    by (cases "?v = 0") (auto simp: pdm_led_set_brightness_def copy_from_user_def Let_def
        pdm_driver_release_def mutex_unlock_def)
  with up show ?thesis by auto
qed

lemma set_enabled_spec:
  assumes rest: "led_at_rest mirrors t i w" and on: "in_online i"
  shows "\<exists>ret w' i'. pdm_led_set_enabled ops_of w i arg en = Some (ret, w', i') \<and> held w' = held w \<and>
     (ret \<noteq> 0 \<longrightarrow> w' = w \<and> i' = i) \<and>
     (ret = 0 \<longrightarrow> ub_readable arg \<and> i' = i\<lparr>le_enabled := if en then 1 else 0\<rparr> \<and> mirrors t i' w')"
proof -
  have free: "\<not> in_lock i" using rest by (simp add: led_at_rest_def)
  let ?e = "if en then 1 else 0 :: u32"
  obtain ret w1 i1 where ap: "pdm_led_apply_locked ops_of w
      (i\<lparr>in_lock := True, le_brightness := le_brightness i, le_enabled := ?e\<rparr>) = (ret, w1, i1)"
    using prod_cases3 by blast
  note up = apply_update [OF rest on ap]
  have "pdm_led_set_enabled ops_of w i arg en =
     (if \<not> ub_readable arg then Some (- EFAULT, w, i)
      else Some (ret, w1, if ret \<noteq> 0 then i else i\<lparr>le_enabled := ?e\<rparr>))"
    using free on ap up
    by (auto simp: pdm_led_set_enabled_def copy_from_user_def Let_def pdm_driver_release_def
        mutex_unlock_def)
  with up show ?thesis by auto
qed

lemma get_state_spec:
  assumes "led_at_rest mirrors t i w"
  shows "\<exists>ret arg'. pdm_led_get_state i arg = Some (ret, i, arg') \<and>
     (ret = 0 \<longrightarrow> ub_val arg' = (ub_val arg)\<lparr>ls_brightness := le_brightness i,
        ls_max_brightness := le_max_brightness i, ls_enabled := le_enabled i\<rparr>)"
  using assms
  by (cases "in_online i") (auto simp: pdm_led_get_state_def led_at_rest_def copy_from_user_def
      copy_to_user_def Let_def pdm_driver_release_def mutex_unlock_def)

lemma offline_update:
  assumes "led_at_rest mirrors t i w" and "\<not> in_online i"
  shows "\<exists>ret. ret \<noteq> 0 \<and> pdm_led_set_brightness ops_of w i arg = Some (ret, w, i) \<and>
      (ub_readable arg \<and> le_max_brightness i < lb_brightness (ub_val arg) \<longrightarrow> ret = - ERANGE)"
    and "\<exists>ret. ret \<noteq> 0 \<and> pdm_led_set_enabled ops_of w i arg1 en = Some (ret, w, i)"
  using assms
  by (auto simp: pdm_led_set_brightness_def pdm_led_set_enabled_def led_at_rest_def copy_from_user_def)

lemma range_error:
  "ub_readable arg \<Longrightarrow> le_max_brightness i < lb_brightness (ub_val arg) \<Longrightarrow>
   pdm_led_set_brightness ops_of w i arg = Some (- ERANGE, w, i)"
  by (simp add: pdm_led_set_brightness_def copy_from_user_def)

text \<open>One request: the handler returns, and what it does is a step of the specification.\<close>

definition ioctl_step ::
  "pdm_led_backend_type \<Rightarrow> int \<Rightarrow> pdm_cdev \<Rightarrow> 'w \<Rightarrow> pdm_led_instance \<Rightarrow> pdm_led_request \<Rightarrow> int \<Rightarrow> 'w \<Rightarrow>
   pdm_led_instance \<Rightarrow> pdm_led_request \<Rightarrow> bool" where
  "ioctl_step t cnt client w i req ret w' i' req' \<longleftrightarrow>
     pdm_led_ioctl ops_of cnt (Some client) w i req = Some (ret, w', i', req') \<and>
     led_at_rest mirrors t i' w' \<and> held w' = held w \<and> (ret \<noteq> 0 \<longrightarrow> w' = w \<and> i' = i) \<and>
     i' = i\<lparr>le_brightness := le_brightness i', le_enabled := le_enabled i'\<rparr> \<and>
     led_reply_ok (le_max_brightness i) (le_brightness i, le_enabled i) (req, ret, req') \<and>
     (le_brightness i', le_enabled i') =
       (if ret = 0 then led_request_effect req (le_brightness i, le_enabled i)
        else (le_brightness i, le_enabled i))"

lemma step_same:
  assumes "led_at_rest mirrors t i w"
    and "pdm_led_ioctl ops_of cnt (Some client) w i req = Some (ret, w, i, req')"
    and "led_reply_ok (le_max_brightness i) (le_brightness i, le_enabled i) (req, ret, req')"
    and "ret = 0 \<Longrightarrow> led_request_effect req (le_brightness i, le_enabled i) = (le_brightness i, le_enabled i)"
  shows "ioctl_step t cnt client w i req ret w i req'"
  using assms by (simp add: ioctl_step_def)

lemma step_update:
  assumes "led_at_rest mirrors t i w"
    and "pdm_led_ioctl ops_of cnt (Some client) w i req = Some (ret, w', i', req')"
    and "ret = 0"
    and "led_reply_ok (le_max_brightness i) (le_brightness i, le_enabled i) (req, ret, req')"
    and "led_request_effect req (le_brightness i, le_enabled i) = (b, e)"
    and "i' = i\<lparr>le_brightness := b, le_enabled := e\<rparr>" and "mirrors t i' w'" and "held w' = held w"
    and "led_config_ok i'"
  shows "ioctl_step t cnt client w i req ret w' i' req'"
  using assms by (simp add: ioctl_step_def led_at_rest_def)

lemma set_enabled_step:
  assumes rest: "led_at_rest mirrors t i w" and req: "req = (if en then LED_ENABLE arg else LED_DISABLE arg)"
  shows "\<exists>ret w' i' req'. ioctl_step t cnt client w i req ret w' i' req'"
proof (cases "in_online i")
  case False
  with offline_update(2) [OF rest False, of arg en] obtain ret where
    "ret \<noteq> 0" "pdm_led_set_enabled ops_of w i arg en = Some (ret, w, i)" by blast
  then have "ioctl_step t cnt client w i req ret w i req"
    by (intro step_same [OF rest]) (cases en; simp add: req)+
  then show ?thesis by blast
next
  case True
  from set_enabled_spec [OF rest True, of arg en] obtain ret w' i' where
    s: "pdm_led_set_enabled ops_of w i arg en = Some (ret, w', i')" "held w' = held w"
    "ret \<noteq> 0 \<longrightarrow> w' = w \<and> i' = i"
    "ret = 0 \<longrightarrow> i' = i\<lparr>le_enabled := if en then 1 else 0\<rparr> \<and> mirrors t i' w'"
    by blast
  have "ioctl_step t cnt client w i req ret w' i' req"
  proof (cases "ret = 0")
    case True
    with s(4) have m: "mirrors t i' w'" and "i' = i\<lparr>le_enabled := if en then 1 else 0\<rparr>" by blast+
    then have i': "i' = i\<lparr>le_brightness := le_brightness i, le_enabled := if en then 1 else 0\<rparr>" by simp
    have ok: "led_config_ok i'"
      unfolding i' using rest by (simp add: led_at_rest_def led_config_ok_def)
    show ?thesis
      by (rule step_update [OF rest _ True _ _ i' m s(2) ok]) (use s(1) True in \<open>cases en; simp add: req\<close>)+
  next
    case False
    with s(3) have same: "w' = w" "i' = i" by simp_all
    show ?thesis
      unfolding same by (rule step_same [OF rest]) (use s(1) False same in \<open>cases en; simp add: req\<close>)+
  qed
  then show ?thesis by blast
qed

lemma set_brightness_step:
  assumes rest: "led_at_rest mirrors t i w" and req: "req = LED_SET_BRIGHTNESS arg"
  shows "\<exists>ret w' i' req'. ioctl_step t cnt client w i req ret w' i' req'"
proof (cases "in_online i")
  case False
  with offline_update(1) [OF rest False, of arg] obtain ret where
    "ret \<noteq> 0" "pdm_led_set_brightness ops_of w i arg = Some (ret, w, i)"
    "ub_readable arg \<and> le_max_brightness i < lb_brightness (ub_val arg) \<longrightarrow> ret = - ERANGE" by blast
  then have "ioctl_step t cnt client w i req ret w i req"
    by (intro step_same [OF rest]) (simp_all add: req)
  then show ?thesis by blast
next
  case True
  from set_brightness_spec [OF rest True, of arg] obtain ret w' i' b e where
    s: "pdm_led_set_brightness ops_of w i arg = Some (ret, w', i')" "held w' = held w"
    "ret \<noteq> 0 \<longrightarrow> w' = w \<and> i' = i"
    "ret = 0 \<longrightarrow> lb_brightness (ub_val arg) \<le> le_max_brightness i \<and>
       led_request_effect req (le_brightness i, le_enabled i) = (b, e) \<and>
       i' = i\<lparr>le_brightness := b, le_enabled := e\<rparr> \<and> mirrors t i' w'"
    unfolding req by blast
  have err: "ub_readable arg \<and> le_max_brightness i < lb_brightness (ub_val arg) \<longrightarrow> ret = - ERANGE"
    using s(1) range_error [of arg i w] by auto
  have "ioctl_step t cnt client w i req ret w' i' req"
  proof (cases "ret = 0")
    case True
    with s(4) have up: "lb_brightness (ub_val arg) \<le> le_max_brightness i"
      "led_request_effect req (le_brightness i, le_enabled i) = (b, e)"
      "i' = i\<lparr>le_brightness := b, le_enabled := e\<rparr>" "mirrors t i' w'" by blast+
    have "led_config_ok i'"
      unfolding up(3) by (rule led_config_ok_effect [of i req b e]) (use rest up(1,2) in \<open>auto simp: req led_at_rest_def\<close>)
    with s(1,2) True err up(1) show ?thesis
      by (intro step_update [OF rest _ True _ up(2,3,4)]) (simp_all add: req)
  next
    case False
    with s(3) have same: "w' = w" "i' = i" by simp_all
    show ?thesis
      unfolding same by (rule step_same [OF rest]) (use s(1) err False same in \<open>simp_all add: req\<close>)
  qed
  then show ?thesis by blast
qed

lemma ioctl_spec:
  assumes rest: "led_at_rest mirrors t i w"
  shows "\<exists>ret w' i' req'. ioctl_step t cnt client w i req ret w' i' req'"
proof (cases req)
  case (LED_GET_INFO arg)
  obtain ret arg' where info: "pdm_led_get_info client cnt arg = (ret, arg')" by fastforce
  with LED_GET_INFO have "ioctl_step t cnt client w i req ret w i (LED_GET_INFO arg')"
    by (intro step_same [OF rest])
       (auto simp: pdm_led_get_info_def copy_to_user_def Let_def split: if_splits)
  then show ?thesis by blast
next
  case (LED_GET_STATE arg)
  from get_state_spec [OF rest, of arg] obtain ret arg' where
    "pdm_led_get_state i arg = Some (ret, i, arg')"
    "ret = 0 \<longrightarrow> ub_val arg' = (ub_val arg)\<lparr>ls_brightness := le_brightness i,
        ls_max_brightness := le_max_brightness i, ls_enabled := le_enabled i\<rparr>" by blast
  with LED_GET_STATE have "ioctl_step t cnt client w i req ret w i (LED_GET_STATE arg')"
    by (intro step_same [OF rest]) simp_all
  then show ?thesis by blast
next
  case (LED_UNKNOWN c)
  then have "ioctl_step t cnt client w i req (- ENOTTY) w i req"
    by (intro step_same [OF rest]) simp_all
  then show ?thesis by blast
next
  case (LED_SET_BRIGHTNESS arg)
  with rest show ?thesis by (rule set_brightness_step)
next
  case (LED_ENABLE arg)
  with rest show ?thesis by (intro set_enabled_step [where en = True]) simp_all
next
  case (LED_DISABLE arg)
  with rest show ?thesis by (intro set_enabled_step [where en = False]) simp_all
qed

lemma session_spec:
  assumes "led_at_rest mirrors t i w"
  shows "\<exists>tr w' i'. led_session ops_of cnt client w i reqs = Some (tr, w', i') \<and>
     led_at_rest mirrors t i' w' \<and> held w' = held w \<and> map fst tr = reqs \<and>
     i' = i\<lparr>le_brightness := le_brightness i', le_enabled := le_enabled i'\<rparr> \<and>
     led_trace_ok (le_max_brightness i) (le_brightness i, le_enabled i) tr (le_brightness i', le_enabled i')"
  using assms
proof (induction reqs arbitrary: i w)
  case Nil
  then show ?case by simp
next
  case (Cons req reqs)
  from ioctl_spec [OF Cons.prems, of cnt client req] obtain ret w1 i1 req' where
    one: "pdm_led_ioctl ops_of cnt (Some client) w i req = Some (ret, w1, i1, req')"
      "led_at_rest mirrors t i1 w1" "held w1 = held w"
      "i1 = i\<lparr>le_brightness := le_brightness i1, le_enabled := le_enabled i1\<rparr>"
      "led_reply_ok (le_max_brightness i) (le_brightness i, le_enabled i) (req, ret, req')"
      "(le_brightness i1, le_enabled i1) =
       (if ret = 0 then led_request_effect req (le_brightness i, le_enabled i)
        else (le_brightness i, le_enabled i))"
    unfolding ioctl_step_def by blast
  from Cons.IH [OF one(2)] obtain tr w2 i2 where
    rest: "led_session ops_of cnt client w1 i1 reqs = Some (tr, w2, i2)" "led_at_rest mirrors t i2 w2"
      "held w2 = held w1" "map fst tr = reqs"
      "i2 = i1\<lparr>le_brightness := le_brightness i2, le_enabled := le_enabled i2\<rparr>"
      "led_trace_ok (le_max_brightness i1) (le_brightness i1, le_enabled i1) tr (le_brightness i2, le_enabled i2)"
    by blast
  have max: "le_max_brightness i1 = le_max_brightness i"
    by (subst one(4)) simp
  have i2: "i2 = i\<lparr>le_brightness := le_brightness i2, le_enabled := le_enabled i2\<rparr>"
    by (subst rest(5), subst one(4)) simp
  have "led_trace_ok (le_max_brightness i) (le_brightness i, le_enabled i) ((req, ret, req') # tr)
      (le_brightness i2, le_enabled i2)"
    using one(5,6) rest(6) by (simp add: max)
  with one(1,3) rest(1-4) i2 show ?case
    by (intro exI [of _ "(req, ret, req') # tr"] exI [of _ w2] exI [of _ i2]) simp
qed

end

text \<open>The table of the code.\<close>

fun led_cleanup_of ::
  "led_hw_api \<Rightarrow> pdm_led_backend_type \<Rightarrow> led_hw \<Rightarrow> pdm_led_instance \<Rightarrow> led_hw \<times> pdm_led_instance" where
  "led_cleanup_of api PDM_LED_BACKEND_MEMORY = pdm_led_memory_cleanup"
| "led_cleanup_of api PDM_LED_BACKEND_GPIO = pdm_led_gpio_cleanup"
| "led_cleanup_of api PDM_LED_BACKEND_PWM = pdm_led_pwm_cleanup api"

fun led_apply_of ::
  "led_hw_api \<Rightarrow> pdm_led_backend_type \<Rightarrow> led_hw \<Rightarrow> pdm_led_instance \<Rightarrow> int \<times> led_hw \<times> pdm_led_instance" where
  "led_apply_of api PDM_LED_BACKEND_MEMORY = pdm_led_memory_apply"
| "led_apply_of api PDM_LED_BACKEND_GPIO = pdm_led_gpio_apply"
| "led_apply_of api PDM_LED_BACKEND_PWM = pdm_led_pwm_apply api"

lemmas led_ops_defs = pdm_led_memory_ops_def pdm_led_gpio_ops_def pdm_led_pwm_ops_def

interpretation leds: led_backends "pdm_led_ops api" lw_held led_res "led_shows api"
    "led_cleanup_of api" "led_apply_of api"
proof (rule led_backends.intro)
  fix t
  show "lo_cleanup (pdm_led_ops api t) = Some (led_cleanup_of api t)"
    and "lo_apply (pdm_led_ops api t) = Some (led_apply_of api t)"
    by (cases t; simp add: led_ops_defs)+
  show "led_backend (lo_setup (pdm_led_ops api t)) (led_cleanup_of api t) (led_apply_of api t)
      lw_held (led_res t) (led_shows api t)"
    by (cases t) (simp_all add: led_ops_defs memory.led_backend_axioms gpio.led_backend_axioms
        pwm.led_backend_axioms)
qed

section \<open>Properties\<close>

text \<open>
  C3. A LED at rest answers any list of requests: no handler blocks, the mutex is free afterwards,
  and the trace of replies is one the specification allows. Every state it reports is the one the
  successful requests so far put it in, a brightness above the maximum is \<open>-ERANGE\<close>, failed requests
  have no effect, and at the end the hardware shows the state the specification is in.
\<close>

theorem led_session_refines:
  assumes "led_at_rest (led_shows api) t i w"
  shows "\<exists>tr w' i'. led_session (pdm_led_ops api) cnt client w i reqs = Some (tr, w', i') \<and>
     map fst tr = reqs \<and>
     led_trace_ok (le_max_brightness i) (le_brightness i, le_enabled i) tr (le_brightness i', le_enabled i') \<and>
     led_at_rest (led_shows api) t i' w' \<and> lw_held w' = lw_held w"
  using leds.session_spec [OF assms, of cnt client reqs] by blast

text \<open>A GPIO LED on line 4, and a session that turns it on, asks too much of it, and reads it back.\<close>

definition example_hw_api :: led_hw_api where
  "example_hw_api = \<lparr>ha_gpiod_get = (\<lambda>w dev con. if con = None then Inr 4 else Inl (- ENOENT)),
     ha_pwm_get = (\<lambda>w dev. Inr 2),
     ha_pwm_init_state = (\<lambda>p st. st\<lparr>ps_period := 1000, ps_duty_cycle := 0\<rparr>),
     ha_relative_duty = (\<lambda>p b m. if m = 0 \<or> m < b then (- EINVAL, 0)
        else (0, of_nat ((unat b * unat p + unat m div 2) div unat m))),
     ha_pwm_apply = (\<lambda>w p st. 0)\<rparr>"

definition example_hw :: led_hw where
  "example_hw = \<lparr>lw_held = {#GPIO_LINE 4#}, lw_line = (\<lambda>_. 0),
     lw_pwm = (\<lambda>_. \<lparr>ps_period = 0, ps_duty_cycle = 0, ps_enabled = False\<rparr>)\<rparr>"

definition example_led :: pdm_led_instance where
  "example_led = \<lparr>in_lock = False, in_online = True, le_pdm_dev = 0, le_ops = Some PDM_LED_BACKEND_GPIO,
     le_brightness = 0, le_max_brightness = 255, le_enabled = 0, le_hw = Some 4\<rparr>"

lemma example_led_at_rest: "led_at_rest (led_shows example_hw_api) PDM_LED_BACKEND_GPIO example_led example_hw"
  by (simp add: led_at_rest_def led_config_ok_def example_led_def example_hw_def led_lit_def)

theorem led_session_refines_witness:
  "\<exists>tr w' i'. led_session (pdm_led_ops example_hw_api) 1 pdm_cdev_zero example_hw example_led
      [LED_SET_BRIGHTNESS (rw_buf \<lparr>lb_index = 0, lb_brightness = 200\<rparr>),
       LED_SET_BRIGHTNESS (rw_buf \<lparr>lb_index = 0, lb_brightness = 256\<rparr>)] = Some (tr, w', i') \<and>
     led_at_rest (led_shows example_hw_api) PDM_LED_BACKEND_GPIO i' w'"
  using led_session_refines [OF example_led_at_rest] by blast

text \<open>
  A device-tree configuration that is accepted is sound: the maximum is not 0, the brightness
  does not exceed it and the enable flag is 0 or 1. \<open>default-state = "on"\<close> gives a LED that shines,
  and without a default state it is enabled exactly when it has a brightness.
\<close>

theorem led_dt_config_sound:
  assumes "pdm_led_read_dt_config node i = (0, i')"
  shows "led_config_ok i' \<and>
     (case node of None \<Rightarrow> le_brightness i' = 0 \<and> le_enabled i' = 0 \<and> le_max_brightness i' = 255
      | Some np \<Rightarrow>
         (dt_str np ''default-state'' = Some ''on'' \<longrightarrow> led_lit i') \<and>
         (dt_str np ''default-state'' = Some ''off'' \<longrightarrow> \<not> led_lit i') \<and>
         (dt_str np ''default-state'' \<in> {None, Some ''keep''} \<longrightarrow>
            le_enabled i' = (if le_brightness i' \<noteq> 0 then 1 else 0)) \<and>
         (\<forall>m. dt_u32 np ''max-brightness'' = Some m \<longrightarrow> le_max_brightness i' = m))"
proof (cases node)
  case None
  with assms show ?thesis by (auto simp: pdm_led_read_dt_config_def Let_def led_config_ok_def)
next
  case (Some np)
  with assms show ?thesis
    by (auto simp: pdm_led_read_dt_config_def Let_def led_config_ok_def led_lit_def not_less
        split: if_splits option.splits)
qed

definition example_led_node :: dt_node where
  "example_led_node = \<lparr>dt_name = ''led'', dt_u32 = (\<lambda>p. if p = ''max-brightness'' then Some 100 else None),
     dt_str = (\<lambda>p. if p = ''default-state'' then Some ''on'' else None), dt_bool = (\<lambda>_. False)\<rparr>"

theorem led_dt_config_sound_witness:
  "led_lit (example_led\<lparr>le_max_brightness := 100, le_brightness := 100, le_enabled := 1\<rparr>)"
  using led_dt_config_sound [of "Some example_led_node" example_led
      "example_led\<lparr>le_max_brightness := 100, le_brightness := 100, le_enabled := 1\<rparr>"]
  by (simp add: pdm_led_read_dt_config_def example_led_node_def Let_def)

text \<open>
  What a PWM LED shows, when \<open>pwm_set_relative_duty_cycle\<close> rounds as it documents: after an apply
  that succeeds the channel is enabled exactly when the LED is lit, and its duty cycle is the period
  scaled by brightness over maximum, to the nearest, so full brightness is the whole period and the
  duty cycle never exceeds it.
\<close>

theorem pwm_brightness_exact:
  assumes "\<And>p b m. m \<noteq> 0 \<Longrightarrow> b \<le> m \<Longrightarrow> unat b * unat p + unat m div 2 < 2 ^ 64 \<Longrightarrow>
      ha_relative_duty api p b m = (0, of_nat ((unat b * unat p + unat m div 2) div unat m))"
    and "pdm_led_pwm_apply api w i = (0, w', i')" and "led_config_ok i" and "le_hw i = Some ch"
    and "unat (le_max_brightness i) * unat (ps_period (lw_pwm w' ch)) + unat (le_max_brightness i) div 2 < 2 ^ 64"
  shows "ps_enabled (lw_pwm w' ch) = led_lit i \<and>
     unat (ps_duty_cycle (lw_pwm w' ch)) =
       (if led_lit i then (unat (le_brightness i) * unat (ps_period (lw_pwm w' ch))
                            + unat (le_max_brightness i) div 2) div unat (le_max_brightness i) else 0) \<and>
     ps_duty_cycle (lw_pwm w' ch) \<le> ps_period (lw_pwm w' ch)"
proof -
  define p b m d where "p = unat (ps_period (lw_pwm w' ch))" and "b = unat (le_brightness i)"
    and "m = unat (le_max_brightness i)" and "d = ps_duty_cycle (lw_pwm w' ch)"
  have shown: "led_shows api PDM_LED_BACKEND_PWM i w'"
    using pwm.apply_ok [OF assms(2)] by simp
  have cfg: "0 < m" "b \<le> m" using assms(3) by (simp_all add: led_config_ok_def m_def b_def unat_gt_0 word_le_nat_alt)
  have le: "b * p \<le> m * p" using cfg by simp
  have "(b * p + m div 2) div m \<le> (m * p + m div 2) div m" using le by (intro div_le_mono) simp
  also have "\<dots> = p" using cfg by simp
  finally have quot: "(b * p + m div 2) div m \<le> p" .
  show ?thesis
  proof (cases "led_lit i")
    case False
    with shown assms(4) show ?thesis by simp
  next
    case True
    have "unat (le_brightness i) * p + m div 2 < 2 ^ 64"
      using assms(5) le unfolding p_def m_def b_def by linarith
    with cfg have "ha_relative_duty api (ps_period (lw_pwm w' ch)) (le_brightness i) (le_max_brightness i) =
        (0, of_nat ((b * p + m div 2) div m))"
      using assms(1) [of "le_max_brightness i" "le_brightness i" "ps_period (lw_pwm w' ch)"] assms(3)
      by (simp add: p_def b_def m_def led_config_ok_def)
    then have d: "d = of_nat ((b * p + m div 2) div m)"
      using shown assms(4) True by (simp add: d_def)
    have "p < 2 ^ 64" unfolding p_def using unsigned_less [of "ps_period (lw_pwm w' ch)"] by simp
    with quot have "(b * p + m div 2) div m < 2 ^ 64" by linarith
    then have u: "unat d = (b * p + m div 2) div m" unfolding d by (simp add: unat_of_nat)
    then have "d \<le> ps_period (lw_pwm w' ch)" using quot by (simp add: word_le_nat_alt p_def)
    with u True shown assms(4) show ?thesis by (simp add: d_def p_def b_def m_def)
  qed
qed

definition example_pwm_led :: pdm_led_instance where
  "example_pwm_led = example_led\<lparr>le_ops := Some PDM_LED_BACKEND_PWM, le_hw := Some 2,
     le_brightness := 51, le_enabled := 1\<rparr>"

lemma example_pwm_apply:
  "pdm_led_pwm_apply example_hw_api example_hw example_pwm_led =
     (0, example_hw\<lparr>lw_pwm := (lw_pwm example_hw)
          (2 := \<lparr>ps_period = 1000, ps_duty_cycle = 200, ps_enabled = True\<rparr>)\<rparr>, example_pwm_led)"
  by (simp add: pdm_led_pwm_apply_def example_hw_api_def example_hw_def example_pwm_led_def example_led_def
      pwm_set_relative_duty_cycle_def pwm_apply_def Let_def)

theorem pwm_brightness_exact_witness:
  "ps_enabled \<lparr>ps_period = 1000, ps_duty_cycle = 200, ps_enabled = True\<rparr> = led_lit example_pwm_led"
  using pwm_brightness_exact [OF _ example_pwm_apply, of 2]
  by (simp add: example_hw_api_def example_pwm_led_def example_led_def led_config_ok_def)

end
