(* ===== verification/Pdm_Mcu_Transport.thy ===== *)
theory Pdm_Mcu_Transport
  imports Pdm_Instance Pdm_Device "HOL-Library.Multiset"
begin

unbundle bit_operations_syntax

text \<open>
  MCU instances and the four transports: \<open>pdm_mcu_internal.h\<close>, \<open>pdm_mcu_uart.c\<close> with
  \<open>pdm_mcu_uart_serdev.c\<close>, \<open>pdm_mcu_can.c\<close>, \<open>pdm_mcu_i2c.c\<close> and \<open>pdm_mcu_spi.c\<close> under
  \<open>src/kernel/pdm/drivers/mcu/\<close>.

  The buses belong to the kernel. Their state is the type variable \<open>'e\<close>, and what their operations
  do with it is the argument \<open>'e mcu_api\<close>. \<open>mcu_world\<close> adds what this code owns: the sockets, network
  devices and serial ports held, and the bus devices, by address. The members of the union
  \<open>transport\<close> are fields side by side; an instance uses one of them, the one of its \<open>ops\<close>.

  A transfer that does not return is \<open>None\<close>. The UART loops poll the clock, so they are
  \<open>partial_function (option)\<close>, and that they return is a theorem under the laws of the clock.
\<close>

section \<open>Data\<close>

abbreviation (input) PDM_MCU_DEFAULT_RX_TIMEOUT_MS :: u32 where "PDM_MCU_DEFAULT_RX_TIMEOUT_MS \<equiv> 100"
abbreviation (input) PDM_MCU_DEFAULT_BAUDRATE :: u32 where "PDM_MCU_DEFAULT_BAUDRATE \<equiv> 115200"
abbreviation (input) PDM_MCU_UART_RX_FIFO_SIZE :: nat where "PDM_MCU_UART_RX_FIFO_SIZE \<equiv> 512"
abbreviation (input) PDM_MCU_MAX_PREFIX_BYTES :: u32 where "PDM_MCU_MAX_PREFIX_BYTES \<equiv> 4"
abbreviation (input) PDM_MCU_TRANSPORT_ID_BYTES :: u32 where "PDM_MCU_TRANSPORT_ID_BYTES \<equiv> 4"
abbreviation (input) CAN_MAX_DLEN :: u32 where "CAN_MAX_DLEN \<equiv> 8"
abbreviation (input) CAN_SFF_MASK :: u32 where "CAN_SFF_MASK \<equiv> 0x7FF"
abbreviation (input) CAN_EFF_MASK :: u32 where "CAN_EFF_MASK \<equiv> 0x1FFFFFFF"
abbreviation (input) CAN_EFF_FLAG :: u32 where "CAN_EFF_FLAG \<equiv> 0x80000000"

datatype pdm_mcu_backend_type =
  PDM_MCU_BACKEND_UART | PDM_MCU_BACKEND_CAN | PDM_MCU_BACKEND_I2C | PDM_MCU_BACKEND_SPI

record pdm_mcu_xfer =
  xf_command :: u32
  xf_tx :: "u8 list"
  xf_tx_len :: u32
  xf_rx :: "u8 list"
  xf_rx_len :: u32
  xf_actual_rx_len :: u32

record mcu_uart =
  ua_serdev :: "nat option"
  ua_bus_dev :: "nat option"
  ua_rx_fifo :: "u8 list"
  ua_baudrate :: u32
  ua_rx_timeout_ms :: u32

record mcu_can =
  ca_sock :: "nat option"
  ca_netdev :: "nat option"
  ca_rx_timeout_ms :: u32
  ca_extended_id :: bool

text \<open>The I2C and the SPI transport keep the same three members.\<close>

record mcu_prefixed =
  px_client :: "nat option"
  px_rx_timeout_ms :: u32
  px_command_bytes :: u8

record pdm_mcu_instance = pdm_driver_instance +
  mu_addr :: nat
  mu_ops :: "pdm_mcu_backend_type option"
  mu_state :: u32
  mu_last_error :: int
  mu_uart :: mcu_uart
  mu_can :: mcu_can
  mu_i2c :: mcu_prefixed
  mu_spi :: mcu_prefixed

text \<open>The union \<open>bus\<close> holds one address; \<open>bd_type\<close> says what it points to.\<close>

record pdm_mcu_bus_device =
  bd_type :: pdm_mcu_backend_type
  bd_pdm_dev :: "string option"
  bd_inst :: "nat option"
  bd_bus :: "nat option"

record can_frame =
  cf_can_id :: u32
  cf_len :: u8
  cf_data :: "u8 list"

datatype i2c_msg = I2C_WR "u8 list" | I2C_RD nat
datatype spi_transfer = SPI_TX "u8 list" | SPI_RX nat
datatype mcu_resource = NETDEV nat | SOCK nat | SERDEV nat

section \<open>The buses\<close>

text \<open>
  \<open>CAN_MTU\<close>, the size of a CAN frame, is what a complete \<open>kernel_sendmsg\<close> or \<open>kernel_recvmsg\<close>
  returns. \<open>ma_serdev_open\<close> and the like return their C result.
\<close>

abbreviation (input) CAN_MTU :: int where "CAN_MTU \<equiv> 16"

record 'e mcu_api =
  ma_i2c_transfer :: "nat \<Rightarrow> i2c_msg list \<Rightarrow> 'e \<Rightarrow> int \<times> u8 list \<times> 'e"
  ma_spi_sync :: "nat \<Rightarrow> spi_transfer list \<Rightarrow> 'e \<Rightarrow> int \<times> u8 list \<times> 'e"
  ma_sendmsg :: "nat \<Rightarrow> can_frame \<Rightarrow> 'e \<Rightarrow> int \<times> 'e"
  ma_recvmsg :: "nat \<Rightarrow> 'e \<Rightarrow> int \<times> can_frame \<times> 'e"
  ma_parse_phandle :: "dt_node \<Rightarrow> string \<Rightarrow> nat option"
  ma_net_device_by_node :: "nat \<Rightarrow> nat option"
  ma_sock_create :: "'e \<Rightarrow> int + nat"
  ma_bind :: "nat \<Rightarrow> nat \<Rightarrow> 'e \<Rightarrow> int"
  ma_serdev_open :: "nat \<Rightarrow> 'e \<Rightarrow> int"
  ma_set_baudrate :: "nat \<Rightarrow> u32 \<Rightarrow> u32"
  ma_serdev_write :: "nat \<Rightarrow> u8 list \<Rightarrow> 'e \<Rightarrow> int \<times> 'e"
  ma_wait_until_sent :: "nat \<Rightarrow> nat \<Rightarrow> 'e \<Rightarrow> 'e"
  ma_wait_event :: "nat \<Rightarrow> 'e \<Rightarrow> int \<times> u8 list \<times> 'e"
  ma_jiffies :: "'e \<Rightarrow> nat"
  ma_msleep :: "'e \<Rightarrow> 'e"
  ma_msecs_to_jiffies :: "u32 \<Rightarrow> nat"

record 'e mcu_world =
  mw_ext :: "'e"
  mw_held :: "mcu_resource multiset"
  mw_bus_devs :: "nat \<Rightarrow> pdm_mcu_bus_device"

section \<open>Encodings\<close>

definition pdm_mcu_uart_encode_be32 :: "u32 \<Rightarrow> u8 list" where
  "pdm_mcu_uart_encode_be32 v =
     [ucast (drop_bit 24 v), ucast (drop_bit 16 v), ucast (drop_bit 8 v), ucast v]"

text \<open>The loop over the prefix bytes, the most significant first.\<close>

definition pdm_mcu_i2c_encode_prefix :: "u32 \<Rightarrow> u8 \<Rightarrow> u8 list" where
  "pdm_mcu_i2c_encode_prefix v bytes =
     map (\<lambda>i. ucast (drop_bit (8 * (unat bytes - i - 1)) v)) [0..<unat bytes]"

definition pdm_mcu_spi_encode_prefix :: "u32 \<Rightarrow> u8 \<Rightarrow> u8 list" where
  "pdm_mcu_spi_encode_prefix v bytes =
     map (\<lambda>i. ucast (drop_bit (8 * (unat bytes - i - 1)) v)) [0..<unat bytes]"

definition pdm_mcu_i2c_prefix_bytes :: "dt_node option \<Rightarrow> string \<Rightarrow> string \<Rightarrow> u8 \<Rightarrow> u8" where
  "pdm_mcu_i2c_prefix_bytes node plain_name pdm_name default_value =
     (case node of
        None \<Rightarrow> default_value
      | Some np \<Rightarrow>
          (case dt_u32 np pdm_name of
             Some v \<Rightarrow> ucast (min v PDM_MCU_MAX_PREFIX_BYTES)
           | None \<Rightarrow> (case dt_u32 np plain_name of
                Some v \<Rightarrow> ucast (min v PDM_MCU_MAX_PREFIX_BYTES)
              | None \<Rightarrow> default_value)))"

definition pdm_mcu_spi_prefix_bytes :: "dt_node option \<Rightarrow> string \<Rightarrow> string \<Rightarrow> u8 \<Rightarrow> u8" where
  "pdm_mcu_spi_prefix_bytes node plain_name pdm_name default_value =
     (case node of
        None \<Rightarrow> default_value
      | Some np \<Rightarrow>
          (case dt_u32 np pdm_name of
             Some v \<Rightarrow> ucast (min v PDM_MCU_MAX_PREFIX_BYTES)
           | None \<Rightarrow> (case dt_u32 np plain_name of
                Some v \<Rightarrow> ucast (min v PDM_MCU_MAX_PREFIX_BYTES)
              | None \<Rightarrow> default_value)))"

definition pdm_mcu_can_make_id :: "pdm_mcu_instance \<Rightarrow> u32 \<Rightarrow> u32" where
  "pdm_mcu_can_make_id inst nid =
     (if ca_extended_id (mu_can inst) \<or> CAN_SFF_MASK < nid then (nid AND CAN_EFF_MASK) OR CAN_EFF_FLAG
      else nid AND CAN_SFF_MASK)"

definition pdm_mcu_can_strip_id :: "u32 \<Rightarrow> u32" where
  "pdm_mcu_can_strip_id can_id =
     (if can_id AND CAN_EFF_FLAG \<noteq> 0 then can_id AND CAN_EFF_MASK else can_id AND CAN_SFF_MASK)"

text \<open>\<open>memcpy\<close> of bytes to the start of a buffer.\<close>

definition put_bytes :: "u8 list \<Rightarrow> u8 list \<Rightarrow> u8 list" where
  "put_bytes bs buf = bs @ drop (length bs) buf"

section \<open>CAN\<close>

definition pdm_mcu_can_send_frame ::
  "'e mcu_api \<Rightarrow> 'e mcu_world \<Rightarrow> pdm_mcu_instance \<Rightarrow> u32 \<Rightarrow> u8 list \<Rightarrow> u32 \<Rightarrow> int \<times> 'e mcu_world" where
  "pdm_mcu_can_send_frame api w inst nid data len =
     (case ca_sock (mu_can inst) of
        None \<Rightarrow> (- ENODEV, w)
      | Some sock \<Rightarrow>
          if CAN_MAX_DLEN < len then (- EMSGSIZE, w)
          else
            let frame = \<lparr>cf_can_id = pdm_mcu_can_make_id inst nid, cf_len = ucast len,
                         cf_data = put_bytes (take (unat len) data) (replicate 8 0)\<rparr>;
                (ret, e) = ma_sendmsg api sock frame (mw_ext w);
                w' = w\<lparr>mw_ext := e\<rparr>
            in if ret < 0 then (ret, w') else (if ret = CAN_MTU then 0 else - EIO, w'))"

text \<open>The result: return value, world, the id received, the buffer and its length.\<close>

definition pdm_mcu_can_recv_frame ::
  "'e mcu_api \<Rightarrow> 'e mcu_world \<Rightarrow> pdm_mcu_instance \<Rightarrow> u32 \<Rightarrow> u8 list \<Rightarrow> u32 \<Rightarrow>
   int \<times> 'e mcu_world \<times> u32 \<times> u8 list \<times> u32" where
  "pdm_mcu_can_recv_frame api w inst nid data len =
     (case ca_sock (mu_can inst) of
        None \<Rightarrow> (- ENODEV, w, nid, data, len)
      | Some sock \<Rightarrow>
          if of_nat PDM_MCU_MAX_TRANSFER_SIZE < len then (- EMSGSIZE, w, nid, data, len)
          else
            let (ret, frame, e) = ma_recvmsg api sock (mw_ext w);
                w' = w\<lparr>mw_ext := e\<rparr>
            in if ret < 0 then (ret, w', nid, data, len)
               else if ret \<noteq> CAN_MTU then (- EIO, w', nid, data, len)
               else if len < ucast (cf_len frame) then (- EMSGSIZE, w', nid, data, len)
               else (0, w', pdm_mcu_can_strip_id (cf_can_id frame),
                     put_bytes (take (unat (cf_len frame)) (cf_data frame)) data, ucast (cf_len frame)))"

definition pdm_mcu_can_find_netdev :: "'e mcu_api \<Rightarrow> dt_node option \<Rightarrow> nat option" where
  "pdm_mcu_can_find_netdev api node =
     (case node of
        None \<Rightarrow> None
      | Some np \<Rightarrow>
          let can_np = ma_parse_phandle api np ''can-controller'';
              can_np = (if can_np = None then ma_parse_phandle api np ''can'' else can_np)
          in case can_np of None \<Rightarrow> None | Some n \<Rightarrow> ma_net_device_by_node api n)"

definition pdm_mcu_can_setup ::
  "'e mcu_api \<Rightarrow> 'e mcu_world \<Rightarrow> pdm_device \<Rightarrow> pdm_mcu_instance \<Rightarrow> int \<times> 'e mcu_world \<times> pdm_mcu_instance" where
  "pdm_mcu_can_setup api w d inst =
     (case pdm_mcu_can_find_netdev api (pd_of_node d) of
        None \<Rightarrow> (- ENODEV, w, inst)
      | Some netdev \<Rightarrow>
          let w1 = w\<lparr>mw_held := mw_held w + {#NETDEV netdev#}\<rparr>;
              can = (mu_can inst)\<lparr>ca_rx_timeout_ms := PDM_MCU_DEFAULT_RX_TIMEOUT_MS\<rparr>;
              can = (case pd_of_node d of
                  None \<Rightarrow> can
                | Some np \<Rightarrow>
                    (case dt_u32 np ''rx-timeout-ms'' of
                       Some v \<Rightarrow> can\<lparr>ca_rx_timeout_ms := v\<rparr> | None \<Rightarrow> can)
                    \<lparr>ca_extended_id := dt_bool np ''can-extended-id''\<rparr>)
          in case ma_sock_create api (mw_ext w1) of
               Inl err \<Rightarrow> (err, w1\<lparr>mw_held := mw_held w1 - {#NETDEV netdev#}\<rparr>, inst\<lparr>mu_can := can\<rparr>)
             | Inr sock \<Rightarrow>
                 let w2 = w1\<lparr>mw_held := mw_held w1 + {#SOCK sock#}\<rparr>;
                     ret = ma_bind api sock netdev (mw_ext w2)
                 in if ret \<noteq> 0 then
                      (ret, w2\<lparr>mw_held := mw_held w2 - {#SOCK sock#} - {#NETDEV netdev#}\<rparr>,
                       inst\<lparr>mu_can := can\<lparr>ca_sock := None\<rparr>\<rparr>)
                    else (0, w2, inst\<lparr>mu_can := can\<lparr>ca_sock := Some sock, ca_netdev := Some netdev\<rparr>\<rparr>))"

definition pdm_mcu_can_cleanup ::
  "'e mcu_world \<Rightarrow> pdm_mcu_instance \<Rightarrow> 'e mcu_world \<times> pdm_mcu_instance" where
  "pdm_mcu_can_cleanup w inst =
     (let (w1, inst1) = (case ca_sock (mu_can inst) of
            None \<Rightarrow> (w, inst)
          | Some s \<Rightarrow> (w\<lparr>mw_held := mw_held w - {#SOCK s#}\<rparr>, inst\<lparr>mu_can := (mu_can inst)\<lparr>ca_sock := None\<rparr>\<rparr>))
      in case ca_netdev (mu_can inst1) of
           None \<Rightarrow> (w1, inst1)
         | Some n \<Rightarrow> (w1\<lparr>mw_held := mw_held w1 - {#NETDEV n#}\<rparr>,
                      inst1\<lparr>mu_can := (mu_can inst1)\<lparr>ca_netdev := None\<rparr>\<rparr>))"

text \<open>The id of the frame received overwrites the local \<open>command\<close> and is not looked at.\<close>

definition pdm_mcu_can_cmd_xfer ::
  "'e mcu_api \<Rightarrow> 'e mcu_world \<Rightarrow> pdm_mcu_instance \<Rightarrow> u32 \<Rightarrow> u8 list \<Rightarrow> u32 \<Rightarrow> u8 list \<Rightarrow> u32 \<Rightarrow>
   int \<times> 'e mcu_world \<times> u8 list \<times> u32" where
  "pdm_mcu_can_cmd_xfer api w inst command tx tx_len rx rx_len =
     (case pdm_mcu_can_send_frame api w inst command tx tx_len of
        (ret, w1) \<Rightarrow>
          if ret \<noteq> 0 then (ret, w1, rx, rx_len)
          else if rx_len = 0 then (0, w1, rx, rx_len)
          else (case pdm_mcu_can_recv_frame api w1 inst command rx rx_len of
                  (ret, w2, _, rx', rx_len') \<Rightarrow> (ret, w2, rx', rx_len')))"

definition pdm_mcu_can_xfer ::
  "'e mcu_api \<Rightarrow> 'e mcu_world \<Rightarrow> pdm_mcu_instance \<Rightarrow> pdm_mcu_xfer \<Rightarrow>
   int \<times> 'e mcu_world \<times> pdm_mcu_xfer" where
  "pdm_mcu_can_xfer api w inst x =
     (case pdm_mcu_can_cmd_xfer api w inst (xf_command x) (xf_tx x) (xf_tx_len x) (xf_rx x) (xf_rx_len x) of
        (ret, w', rx, len) \<Rightarrow>
          if ret \<noteq> 0 then (ret, w', x\<lparr>xf_rx := rx\<rparr>)
          else (0, w', x\<lparr>xf_rx := rx, xf_actual_rx_len := len\<rparr>))"

section \<open>I2C and SPI\<close>

definition bus_dev_of :: "'e mcu_world \<Rightarrow> pdm_device \<Rightarrow> pdm_mcu_bus_device option" where
  "bus_dev_of w d = (case pd_config_data d of None \<Rightarrow> None | Some a \<Rightarrow> Some (mw_bus_devs w a))"

definition set_bus_dev_inst :: "'e mcu_world \<Rightarrow> nat option \<Rightarrow> nat option \<Rightarrow> 'e mcu_world" where
  "set_bus_dev_inst w a i =
     (case a of None \<Rightarrow> w
      | Some a \<Rightarrow> w\<lparr>mw_bus_devs := (mw_bus_devs w)(a := (mw_bus_devs w a)\<lparr>bd_inst := i\<rparr>)\<rparr>)"

definition pdm_mcu_i2c_bus_xfer ::
  "'e mcu_api \<Rightarrow> 'e mcu_world \<Rightarrow> pdm_mcu_instance \<Rightarrow> u8 list \<Rightarrow> u32 \<Rightarrow> u8 list \<Rightarrow> u32 \<Rightarrow>
   int \<times> 'e mcu_world \<times> u8 list" where
  "pdm_mcu_i2c_bus_xfer api w inst tx tx_len rx rx_len =
     (case px_client (mu_i2c inst) of
        None \<Rightarrow> (- ENODEV, w, rx)
      | Some client \<Rightarrow>
          if tx_len = 0 \<and> rx_len = 0 then (0, w, rx)
          else
            let msgs = (if tx_len \<noteq> 0 then [I2C_WR (take (unat tx_len) tx)] else []) @
                       (if rx_len \<noteq> 0 then [I2C_RD (unat rx_len)] else []);
                (ret, bs, e) = ma_i2c_transfer api client msgs (mw_ext w);
                w' = w\<lparr>mw_ext := e\<rparr>;
                rx' = put_bytes (take (unat rx_len) bs) rx
            in if ret < 0 then (ret, w', rx')
               else (if ret = int (length msgs) then 0 else - EIO, w', rx'))"

definition pdm_mcu_i2c_setup ::
  "'e mcu_world \<Rightarrow> pdm_device \<Rightarrow> pdm_mcu_instance \<Rightarrow> int \<times> 'e mcu_world \<times> pdm_mcu_instance" where
  "pdm_mcu_i2c_setup w d inst =
     (case bus_dev_of w d of
        None \<Rightarrow> (- ENODEV, w, inst)
      | Some bd \<Rightarrow>
          if bd_type bd \<noteq> PDM_MCU_BACKEND_I2C \<or> bd_bus bd = None then (- ENODEV, w, inst)
          else
            let px = \<lparr>px_client = bd_bus bd, px_rx_timeout_ms = PDM_MCU_DEFAULT_RX_TIMEOUT_MS,
                      px_command_bytes = pdm_mcu_i2c_prefix_bytes (pd_of_node d) ''command-bytes''
                        ''pdm,command-bytes'' 1\<rparr>;
                px = (case pd_of_node d of
                        None \<Rightarrow> px
                      | Some np \<Rightarrow> (case dt_u32 np ''rx-timeout-ms'' of
                          Some v \<Rightarrow> px\<lparr>px_rx_timeout_ms := v\<rparr> | None \<Rightarrow> px))
            in (0, set_bus_dev_inst w (pd_config_data d) (Some (mu_addr inst)), inst\<lparr>mu_i2c := px\<rparr>))"

definition pdm_mcu_i2c_cleanup ::
  "'e mcu_world \<Rightarrow> pdm_device \<Rightarrow> pdm_mcu_instance \<Rightarrow> 'e mcu_world \<times> pdm_mcu_instance" where
  "pdm_mcu_i2c_cleanup w d inst =
     (case bus_dev_of w d of
        None \<Rightarrow> w
      | Some bd \<Rightarrow> if bd_inst bd = Some (mu_addr inst) then set_bus_dev_inst w (pd_config_data d) None else w,
      inst\<lparr>mu_i2c := (mu_i2c inst)\<lparr>px_client := None\<rparr>\<rparr>)"

definition pdm_mcu_i2c_cmd_xfer ::
  "'e mcu_api \<Rightarrow> 'e mcu_world \<Rightarrow> pdm_mcu_instance \<Rightarrow> u32 \<Rightarrow> u8 list \<Rightarrow> u32 \<Rightarrow> u8 list \<Rightarrow> u32 \<Rightarrow>
   int \<times> 'e mcu_world \<times> u8 list \<times> u32" where
  "pdm_mcu_i2c_cmd_xfer api w inst command tx tx_len rx rx_len =
     (let prefix = px_command_bytes (mu_i2c inst); expect = rx_len
      in if prefix = 0 then (- EOPNOTSUPP, w, rx, rx_len)
         else if of_nat PDM_MCU_MAX_TRANSFER_SIZE + PDM_MCU_MAX_PREFIX_BYTES < tx_len + ucast prefix
         then (- EMSGSIZE, w, rx, rx_len)
         else if of_nat PDM_MCU_MAX_TRANSFER_SIZE < expect then (- EMSGSIZE, w, rx, rx_len)
         else
           let buf = pdm_mcu_i2c_encode_prefix command prefix @ take (unat tx_len) tx
           in case pdm_mcu_i2c_bus_xfer api w inst buf (tx_len + ucast prefix) rx expect of
                (ret, w', rx') \<Rightarrow> if ret \<noteq> 0 then (ret, w', rx', rx_len) else (0, w', rx', expect))"

definition pdm_mcu_i2c_xfer ::
  "'e mcu_api \<Rightarrow> 'e mcu_world \<Rightarrow> pdm_mcu_instance \<Rightarrow> pdm_mcu_xfer \<Rightarrow>
   int \<times> 'e mcu_world \<times> pdm_mcu_xfer" where
  "pdm_mcu_i2c_xfer api w inst x =
     (case pdm_mcu_i2c_cmd_xfer api w inst (xf_command x) (xf_tx x) (xf_tx_len x) (xf_rx x) (xf_rx_len x) of
        (ret, w', rx, len) \<Rightarrow>
          if ret \<noteq> 0 then (ret, w', x\<lparr>xf_rx := rx\<rparr>)
          else (0, w', x\<lparr>xf_rx := rx, xf_actual_rx_len := len\<rparr>))"

definition pdm_mcu_spi_bus_xfer ::
  "'e mcu_api \<Rightarrow> 'e mcu_world \<Rightarrow> pdm_mcu_instance \<Rightarrow> u8 list \<Rightarrow> u32 \<Rightarrow> u8 list \<Rightarrow> u32 \<Rightarrow>
   int \<times> 'e mcu_world \<times> u8 list" where
  "pdm_mcu_spi_bus_xfer api w inst tx tx_len rx rx_len =
     (case px_client (mu_spi inst) of
        None \<Rightarrow> (- ENODEV, w, rx)
      | Some spi \<Rightarrow>
          if tx_len = 0 \<and> rx_len = 0 then (0, w, rx)
          else
            let xfers = (if tx_len \<noteq> 0 then [SPI_TX (take (unat tx_len) tx)] else []) @
                        (if rx_len \<noteq> 0 then [SPI_RX (unat rx_len)] else []);
                (ret, bs, e) = ma_spi_sync api spi xfers (mw_ext w)
            in (ret, w\<lparr>mw_ext := e\<rparr>, put_bytes (take (unat rx_len) bs) rx))"

definition pdm_mcu_spi_setup ::
  "'e mcu_world \<Rightarrow> pdm_device \<Rightarrow> pdm_mcu_instance \<Rightarrow> int \<times> 'e mcu_world \<times> pdm_mcu_instance" where
  "pdm_mcu_spi_setup w d inst =
     (case bus_dev_of w d of
        None \<Rightarrow> (- ENODEV, w, inst)
      | Some bd \<Rightarrow>
          if bd_type bd \<noteq> PDM_MCU_BACKEND_SPI \<or> bd_bus bd = None then (- ENODEV, w, inst)
          else
            let px = \<lparr>px_client = bd_bus bd, px_rx_timeout_ms = PDM_MCU_DEFAULT_RX_TIMEOUT_MS,
                      px_command_bytes = pdm_mcu_spi_prefix_bytes (pd_of_node d) ''command-bytes''
                        ''pdm,command-bytes'' 1\<rparr>;
                px = (case pd_of_node d of
                        None \<Rightarrow> px
                      | Some np \<Rightarrow> (case dt_u32 np ''rx-timeout-ms'' of
                          Some v \<Rightarrow> px\<lparr>px_rx_timeout_ms := v\<rparr> | None \<Rightarrow> px))
            in (0, set_bus_dev_inst w (pd_config_data d) (Some (mu_addr inst)), inst\<lparr>mu_spi := px\<rparr>))"

definition pdm_mcu_spi_cleanup ::
  "'e mcu_world \<Rightarrow> pdm_device \<Rightarrow> pdm_mcu_instance \<Rightarrow> 'e mcu_world \<times> pdm_mcu_instance" where
  "pdm_mcu_spi_cleanup w d inst =
     (case bus_dev_of w d of
        None \<Rightarrow> w
      | Some bd \<Rightarrow> if bd_inst bd = Some (mu_addr inst) then set_bus_dev_inst w (pd_config_data d) None else w,
      inst\<lparr>mu_spi := (mu_spi inst)\<lparr>px_client := None\<rparr>\<rparr>)"

definition pdm_mcu_spi_cmd_xfer ::
  "'e mcu_api \<Rightarrow> 'e mcu_world \<Rightarrow> pdm_mcu_instance \<Rightarrow> u32 \<Rightarrow> u8 list \<Rightarrow> u32 \<Rightarrow> u8 list \<Rightarrow> u32 \<Rightarrow>
   int \<times> 'e mcu_world \<times> u8 list \<times> u32" where
  "pdm_mcu_spi_cmd_xfer api w inst command tx tx_len rx rx_len =
     (let prefix = px_command_bytes (mu_spi inst); expect = rx_len
      in if prefix = 0 then (- EOPNOTSUPP, w, rx, rx_len)
         else if of_nat PDM_MCU_MAX_TRANSFER_SIZE + PDM_MCU_MAX_PREFIX_BYTES < tx_len + ucast prefix
         then (- EMSGSIZE, w, rx, rx_len)
         else if of_nat PDM_MCU_MAX_TRANSFER_SIZE < expect then (- EMSGSIZE, w, rx, rx_len)
         else
           let buf = pdm_mcu_spi_encode_prefix command prefix @ take (unat tx_len) tx
           in case pdm_mcu_spi_bus_xfer api w inst buf (tx_len + ucast prefix) rx expect of
                (ret, w', rx') \<Rightarrow> if ret \<noteq> 0 then (ret, w', rx', rx_len) else (0, w', rx', expect))"

definition pdm_mcu_spi_xfer ::
  "'e mcu_api \<Rightarrow> 'e mcu_world \<Rightarrow> pdm_mcu_instance \<Rightarrow> pdm_mcu_xfer \<Rightarrow>
   int \<times> 'e mcu_world \<times> pdm_mcu_xfer" where
  "pdm_mcu_spi_xfer api w inst x =
     (case pdm_mcu_spi_cmd_xfer api w inst (xf_command x) (xf_tx x) (xf_tx_len x) (xf_rx x) (xf_rx_len x) of
        (ret, w', rx, len) \<Rightarrow>
          if ret \<noteq> 0 then (ret, w', x\<lparr>xf_rx := rx\<rparr>)
          else (0, w', x\<lparr>xf_rx := rx, xf_actual_rx_len := len\<rparr>))"

section \<open>UART\<close>

text \<open>
  \<open>jiffies\<close> is a natural number: the 64-bit counter does not wrap in the life of a system, so
  \<open>time_after\<close> is the order.
\<close>

definition pdm_mcu_uart_serdev_deadline :: "'e mcu_api \<Rightarrow> 'e \<Rightarrow> u32 \<Rightarrow> nat" where
  "pdm_mcu_uart_serdev_deadline api e timeout_ms =
     ma_jiffies api e + ma_msecs_to_jiffies api (if timeout_ms \<noteq> 0 then timeout_ms else 1)"

text \<open>\<open>kfifo_in\<close> copies what fits.\<close>

definition kfifo_in :: "u8 list \<Rightarrow> u8 list \<Rightarrow> nat \<times> u8 list" where
  "kfifo_in fifo data =
     (let copied = take (PDM_MCU_UART_RX_FIFO_SIZE - length fifo) data
      in (length copied, fifo @ copied))"

text \<open>
  The receive callback of the serial port; \<open>inst\<close> is the instance the bus device points to. Its
  result is the number of bytes taken.
\<close>

definition pdm_mcu_serdev_receive_buf ::
  "pdm_mcu_bus_device option \<Rightarrow> pdm_mcu_instance \<Rightarrow> u8 list \<Rightarrow> nat \<times> pdm_mcu_instance" where
  "pdm_mcu_serdev_receive_buf bus_dev inst data =
     (if (case bus_dev of None \<Rightarrow> True | Some bd \<Rightarrow> bd_inst bd = None) then (0, inst)
      else case kfifo_in (ua_rx_fifo (mu_uart inst)) data of
             (copied, fifo) \<Rightarrow> (copied, inst\<lparr>mu_uart := (mu_uart inst)\<lparr>ua_rx_fifo := fifo\<rparr>\<rparr>))"

definition pdm_mcu_uart_hw_flow_control :: "dt_node option \<Rightarrow> bool" where
  "pdm_mcu_uart_hw_flow_control node =
     (case node of
        None \<Rightarrow> False
      | Some np \<Rightarrow> if dt_bool np ''uart-has-rtscts'' then True
                   else dt_str np ''flow-control'' = Some ''hw'')"

text \<open>The loop of \<open>pdm_mcu_uart_write_bus\<close>; the result is its return value and the bus.\<close>

partial_function (option) uart_write_loop ::
  "'e mcu_api \<Rightarrow> nat \<Rightarrow> u32 \<Rightarrow> nat \<Rightarrow> u8 list \<Rightarrow> nat \<Rightarrow> 'e \<Rightarrow> (int \<times> 'e) option" where
  "uart_write_loop api serdev timeout deadline buf done_n e =
     (if length buf \<le> done_n then Some (int done_n, e)
      else
        let (ret, e1) = ma_serdev_write api serdev (drop done_n buf) e
        in if 0 < ret then
             uart_write_loop api serdev timeout deadline buf (done_n + nat ret)
               (ma_wait_until_sent api serdev (ma_msecs_to_jiffies api timeout) e1)
           else if ret \<noteq> 0 \<and> ret \<noteq> - EAGAIN then Some (ret, e1)
           else if deadline < ma_jiffies api e1 then
             Some (if done_n \<noteq> 0 then int done_n else - ETIMEDOUT, e1)
           else uart_write_loop api serdev timeout deadline buf done_n (ma_msleep api e1))"

definition pdm_mcu_uart_write_bus ::
  "'e mcu_api \<Rightarrow> 'e mcu_world \<Rightarrow> pdm_mcu_instance \<Rightarrow> u8 list \<Rightarrow> (int \<times> 'e mcu_world) option" where
  "pdm_mcu_uart_write_bus api w inst buf =
     (case ua_serdev (mu_uart inst) of
        None \<Rightarrow> Some (- ENODEV, w)
      | Some serdev \<Rightarrow>
          let timeout = ua_rx_timeout_ms (mu_uart inst);
              deadline = pdm_mcu_uart_serdev_deadline api (mw_ext w) timeout
          in case uart_write_loop api serdev timeout deadline buf 0 (mw_ext w) of
               None \<Rightarrow> None
             | Some (ret, e) \<Rightarrow> Some (ret, w\<lparr>mw_ext := e\<rparr>))"

text \<open>
  The loop of \<open>pdm_mcu_uart_read_bus\<close>; \<open>acc\<close> are the bytes copied to the buffer so far. While the
  reader sleeps, the receive callback may put the bytes that \<open>ma_wait_event\<close> names into the FIFO.
\<close>

partial_function (option) uart_read_loop ::
  "'e mcu_api \<Rightarrow> nat \<Rightarrow> nat \<Rightarrow> u8 list \<Rightarrow> 'e \<Rightarrow> u8 list \<Rightarrow> (int \<times> u8 list \<times> 'e \<times> u8 list) option" where
  "uart_read_loop api deadline len fifo e acc =
     (if len \<le> length acc then Some (int (length acc), fifo, e, acc)
      else
        let copied = take (len - length acc) fifo
        in if copied \<noteq> [] then uart_read_loop api deadline len (drop (length copied) fifo) e (acc @ copied)
           else if deadline \<le> ma_jiffies api e then
             Some (if acc \<noteq> [] then int (length acc) else - ETIMEDOUT, fifo, e, acc)
           else
             let wait_left = max 1 (deadline - ma_jiffies api e);
                 (ret, arrived, e1) = ma_wait_event api wait_left e;
                 fifo1 = snd (kfifo_in fifo arrived)
             in if ret < 0 then Some (ret, fifo1, e1, acc)
                else if ret = 0 \<and> deadline \<le> ma_jiffies api e1 then
                  Some (if acc \<noteq> [] then int (length acc) else - ETIMEDOUT, fifo1, e1, acc)
                else uart_read_loop api deadline len fifo1 e1 acc)"

text \<open>The result: return value, world, instance (its FIFO) and the buffer.\<close>

definition pdm_mcu_uart_read_bus ::
  "'e mcu_api \<Rightarrow> 'e mcu_world \<Rightarrow> pdm_mcu_instance \<Rightarrow> u8 list \<Rightarrow> nat \<Rightarrow>
   (int \<times> 'e mcu_world \<times> pdm_mcu_instance \<times> u8 list) option" where
  "pdm_mcu_uart_read_bus api w inst buf len =
     (if ua_serdev (mu_uart inst) = None then Some (- ENODEV, w, inst, buf)
      else if len = 0 then Some (0, w, inst, buf)
      else
        let deadline = pdm_mcu_uart_serdev_deadline api (mw_ext w) (ua_rx_timeout_ms (mu_uart inst))
        in case uart_read_loop api deadline len (ua_rx_fifo (mu_uart inst)) (mw_ext w) [] of
             None \<Rightarrow> None
           | Some (ret, fifo, e, acc) \<Rightarrow>
               Some (ret, w\<lparr>mw_ext := e\<rparr>, inst\<lparr>mu_uart := (mu_uart inst)\<lparr>ua_rx_fifo := fifo\<rparr>\<rparr>,
                     put_bytes acc buf))"

definition pdm_mcu_uart_setup_bus ::
  "'e mcu_api \<Rightarrow> 'e mcu_world \<Rightarrow> pdm_device \<Rightarrow> pdm_mcu_instance \<Rightarrow> int \<times> 'e mcu_world \<times> pdm_mcu_instance" where
  "pdm_mcu_uart_setup_bus api w d inst =
     (case bus_dev_of w d of
        None \<Rightarrow> (- ENODEV, w, inst)
      | Some bd \<Rightarrow>
          if bd_type bd \<noteq> PDM_MCU_BACKEND_UART \<or> bd_bus bd = None then (- ENODEV, w, inst)
          else
            let serdev = the (bd_bus bd);
                ua = \<lparr>ua_serdev = Some serdev, ua_bus_dev = pd_config_data d, ua_rx_fifo = [],
                      ua_baudrate = PDM_MCU_DEFAULT_BAUDRATE,
                      ua_rx_timeout_ms = PDM_MCU_DEFAULT_RX_TIMEOUT_MS\<rparr>;
                ua = (case pd_of_node d of
                    None \<Rightarrow> ua
                  | Some np \<Rightarrow>
                      let ua = (case dt_u32 np ''rx-timeout-ms'' of
                                  Some v \<Rightarrow> ua\<lparr>ua_rx_timeout_ms := v\<rparr> | None \<Rightarrow> ua)
                      in case dt_u32 np ''current-speed'' of
                           Some v \<Rightarrow> ua\<lparr>ua_baudrate := v\<rparr>
                         | None \<Rightarrow> (case dt_u32 np ''baudrate'' of
                             Some v \<Rightarrow> ua\<lparr>ua_baudrate := v\<rparr> | None \<Rightarrow> ua));
                w1 = set_bus_dev_inst w (pd_config_data d) (Some (mu_addr inst));
                ret = ma_serdev_open api serdev (mw_ext w1)
            in if ret \<noteq> 0 then (ret, set_bus_dev_inst w1 (pd_config_data d) None, inst\<lparr>mu_uart := ua\<rparr>)
               else
                 let v = ma_set_baudrate api serdev (ua_baudrate ua);
                     ua = (if v \<noteq> 0 then ua\<lparr>ua_baudrate := v\<rparr> else ua)
                 in (0, w1\<lparr>mw_held := mw_held w1 + {#SERDEV serdev#}\<rparr>, inst\<lparr>mu_uart := ua\<rparr>))"

definition pdm_mcu_uart_cleanup_bus ::
  "'e mcu_world \<Rightarrow> pdm_mcu_instance \<Rightarrow> 'e mcu_world \<times> pdm_mcu_instance" where
  "pdm_mcu_uart_cleanup_bus w inst =
     (case ua_serdev (mu_uart inst) of
        None \<Rightarrow> (w, inst)
      | Some serdev \<Rightarrow>
          let w1 = set_bus_dev_inst w (ua_bus_dev (mu_uart inst)) None
          in (w1\<lparr>mw_held := mw_held w1 - {#SERDEV serdev#}\<rparr>,
              inst\<lparr>mu_uart := (mu_uart inst)\<lparr>ua_serdev := None, ua_bus_dev := None\<rparr>\<rparr>))"

definition pdm_mcu_uart_write_exact ::
  "'e mcu_api \<Rightarrow> 'e mcu_world \<Rightarrow> pdm_mcu_instance \<Rightarrow> u8 list \<Rightarrow> u32 \<Rightarrow> (int \<times> 'e mcu_world) option" where
  "pdm_mcu_uart_write_exact api w inst buf len =
     (case pdm_mcu_uart_write_bus api w inst (take (unat len) buf) of
        None \<Rightarrow> None
      | Some (ret, w') \<Rightarrow> if ret < 0 then Some (ret, w')
                         else Some (if ret = int (unat len) then 0 else - EIO, w'))"

definition pdm_mcu_uart_cmd_xfer ::
  "'e mcu_api \<Rightarrow> 'e mcu_world \<Rightarrow> pdm_mcu_instance \<Rightarrow> u32 \<Rightarrow> u8 list \<Rightarrow> u32 \<Rightarrow> u8 list \<Rightarrow> u32 \<Rightarrow>
   (int \<times> 'e mcu_world \<times> pdm_mcu_instance \<times> u8 list \<times> u32) option" where
  "pdm_mcu_uart_cmd_xfer api w inst command tx tx_len rx rx_len =
     (let expect = rx_len
      in if of_nat PDM_MCU_MAX_TRANSFER_SIZE + PDM_MCU_TRANSPORT_ID_BYTES < tx_len + PDM_MCU_TRANSPORT_ID_BYTES
         then Some (- EMSGSIZE, w, inst, rx, rx_len)
         else if of_nat PDM_MCU_MAX_TRANSFER_SIZE < expect then Some (- EMSGSIZE, w, inst, rx, rx_len)
         else
           let buf = pdm_mcu_uart_encode_be32 command @ take (unat tx_len) tx
           in case pdm_mcu_uart_write_exact api w inst buf (tx_len + PDM_MCU_TRANSPORT_ID_BYTES) of
                None \<Rightarrow> None
              | Some (ret, w1) \<Rightarrow>
                  if ret \<noteq> 0 then Some (ret, w1, inst, rx, rx_len)
                  else if expect = 0 then Some (0, w1, inst, rx, 0)
                  else (case pdm_mcu_uart_read_bus api w1 inst rx (unat expect) of
                          None \<Rightarrow> None
                        | Some (ret, w2, inst', rx') \<Rightarrow>
                            if ret < 0 then Some (ret, w2, inst', rx', rx_len)
                            else Some (0, w2, inst', rx', of_int ret)))"

definition pdm_mcu_uart_xfer ::
  "'e mcu_api \<Rightarrow> 'e mcu_world \<Rightarrow> pdm_mcu_instance \<Rightarrow> pdm_mcu_xfer \<Rightarrow>
   (int \<times> 'e mcu_world \<times> pdm_mcu_instance \<times> pdm_mcu_xfer) option" where
  "pdm_mcu_uart_xfer api w inst x =
     (case pdm_mcu_uart_cmd_xfer api w inst (xf_command x) (xf_tx x) (xf_tx_len x) (xf_rx x) (xf_rx_len x) of
        None \<Rightarrow> None
      | Some (ret, w', inst', rx, len) \<Rightarrow>
          if ret \<noteq> 0 then Some (ret, w', inst', x\<lparr>xf_rx := rx\<rparr>)
          else Some (0, w', inst', x\<lparr>xf_rx := rx, xf_actual_rx_len := len\<rparr>))"

section \<open>The UART loops end\<close>

text \<open>
  What the serial port and the clock promise: a write takes no more bytes than it is given, the
  clock does not go back, sleeping takes time, and a wait that is not interrupted either takes time
  or ends because bytes have arrived.
\<close>

definition serdev_laws :: "'e mcu_api \<Rightarrow> bool" where
  "serdev_laws api \<longleftrightarrow>
     (\<forall>s bs e ret e'. ma_serdev_write api s bs e = (ret, e') \<longrightarrow>
        ret \<le> int (length bs) \<and> ma_jiffies api e \<le> ma_jiffies api e') \<and>
     (\<forall>s t e. ma_jiffies api e \<le> ma_jiffies api (ma_wait_until_sent api s t e)) \<and>
     (\<forall>e. ma_jiffies api e < ma_jiffies api (ma_msleep api e)) \<and>
     (\<forall>t e ret bs e'. ma_wait_event api t e = (ret, bs, e') \<longrightarrow> ma_jiffies api e \<le> ma_jiffies api e' \<and>
        (0 \<le> ret \<longrightarrow> ma_jiffies api e < ma_jiffies api e' \<or> bs \<noteq> []))"

lemma uart_write_loop_ends:
  assumes laws: "serdev_laws api" and "done_n \<le> length buf"
  shows "\<exists>ret e'. uart_write_loop api serdev timeout deadline buf done_n e = Some (ret, e') \<and>
     ret \<le> int (length buf)"
  using assms(2)
proof (induction "(length buf - done_n) + (Suc deadline - ma_jiffies api e)" arbitrary: done_n e
    rule: less_induct)
  case less
  show ?case
  proof (cases "length buf \<le> done_n")
    case True
    with less.prems show ?thesis by (simp add: uart_write_loop.simps)
  next
    case False
    obtain ret e1 where wr: "ma_serdev_write api serdev (drop done_n buf) e = (ret, e1)" by fastforce
    have ret: "ret \<le> int (length buf - done_n)" "ma_jiffies api e \<le> ma_jiffies api e1"
      using laws wr unfolding serdev_laws_def by (metis length_drop)+
    consider "0 < ret" | "ret \<le> 0" "ret \<noteq> 0 \<and> ret \<noteq> - EAGAIN"
      | "ret \<le> 0" "\<not> (ret \<noteq> 0 \<and> ret \<noteq> - EAGAIN)" "deadline < ma_jiffies api e1"
      | "ret \<le> 0" "\<not> (ret \<noteq> 0 \<and> ret \<noteq> - EAGAIN)" "ma_jiffies api e1 \<le> deadline" by linarith
    then show ?thesis
    proof cases
      case 1
      let ?e = "ma_wait_until_sent api serdev (ma_msecs_to_jiffies api timeout) e1"
      have "ma_jiffies api e1 \<le> ma_jiffies api ?e" using laws by (simp add: serdev_laws_def)
      with 1 ret False have
        "(length buf - (done_n + nat ret)) + (Suc deadline - ma_jiffies api ?e)
           < (length buf - done_n) + (Suc deadline - ma_jiffies api e)"
        "done_n + nat ret \<le> length buf" by linarith+
      from less.hyps [OF this] show ?thesis
        using False wr 1 by (subst uart_write_loop.simps) simp
    next
      case 4
      have "ma_jiffies api e1 < ma_jiffies api (ma_msleep api e1)" using laws by (simp add: serdev_laws_def)
      with 4 ret have "(length buf - done_n) + (Suc deadline - ma_jiffies api (ma_msleep api e1))
           < (length buf - done_n) + (Suc deadline - ma_jiffies api e)" by linarith
      from less.hyps [OF this less.prems] show ?thesis
        using False wr 4 by (subst uart_write_loop.simps) auto
    qed (use False wr less.prems in \<open>subst uart_write_loop.simps, simp\<close>)+
  qed
qed

lemma kfifo_in_arrived: "bs \<noteq> [] \<Longrightarrow> snd (kfifo_in [] bs) \<noteq> []"
  by (simp add: kfifo_in_def Let_def)

lemma uart_read_loop_ends:
  assumes laws: "serdev_laws api" and "length acc \<le> len"
  shows "\<exists>ret fifo' e' acc'. uart_read_loop api deadline len fifo e acc = Some (ret, fifo', e', acc') \<and>
     length acc' \<le> len \<and> (0 \<le> ret \<longrightarrow> ret = int (length acc'))"
  using assms(2)
proof (induction "2 * (len - length acc) + (if fifo = [] then 1 else 0) + 2 * (deadline - ma_jiffies api e)"
    arbitrary: fifo e acc rule: less_induct)
  case less
  let ?copied = "take (len - length acc) fifo"
  consider "len \<le> length acc" | "\<not> len \<le> length acc" "?copied \<noteq> []"
    | "\<not> len \<le> length acc" "?copied = []" "deadline \<le> ma_jiffies api e"
    | "\<not> len \<le> length acc" "?copied = []" "ma_jiffies api e < deadline" by linarith
  then show ?case
  proof cases
    case 1
    with less.prems show ?thesis by (simp add: uart_read_loop.simps)
  next
    case 2
    have "0 < length ?copied" using 2(2) by simp
    moreover have "length ?copied \<le> len - length acc" by simp
    ultimately have "2 * (len - length (acc @ ?copied)) + 1 < 2 * (len - length acc)"
      unfolding length_append by linarith
    then have "2 * (len - length (acc @ ?copied)) + (if drop (length ?copied) fifo = [] then 1 else 0)
         + 2 * (deadline - ma_jiffies api e)
       < 2 * (len - length acc) + (if fifo = [] then 1 else 0) + 2 * (deadline - ma_jiffies api e)"
      by (auto split: if_splits)
    moreover have "length (acc @ ?copied) \<le> len" using 2 by auto
    ultimately show ?thesis
      using less.hyps [of "acc @ ?copied" "drop (length ?copied) fifo" e] 2
      by (subst uart_read_loop.simps) (simp add: Let_def)
  next
    case 3
    with less.prems show ?thesis by (subst uart_read_loop.simps) (simp add: Let_def)
  next
    case 4
    then have fifo: "fifo = []" by simp
    obtain ret bs e1 where ev: "ma_wait_event api (max 1 (deadline - ma_jiffies api e)) e = (ret, bs, e1)"
      using prod_cases3 by blast
    have t: "ma_jiffies api e \<le> ma_jiffies api e1" "0 \<le> ret \<Longrightarrow> ma_jiffies api e < ma_jiffies api e1 \<or> bs \<noteq> []"
      using laws ev unfolding serdev_laws_def by blast+
    let ?fifo = "snd (kfifo_in fifo bs)"
    show ?thesis
    proof (cases "ret < 0 \<or> (ret = 0 \<and> deadline \<le> ma_jiffies api e1)")
      case True
      with 4 ev less.prems show ?thesis by (subst uart_read_loop.simps) (auto simp: Let_def)
    next
      case False
      then have "2 * (len - length acc) + (if ?fifo = [] then 1 else 0) + 2 * (deadline - ma_jiffies api e1)
         < 2 * (len - length acc) + (if fifo = [] then 1 else 0) + 2 * (deadline - ma_jiffies api e)"
        using t 4 fifo kfifo_in_arrived [of bs] by (cases "bs = []") (auto simp: fifo kfifo_in_def Let_def)
      from less.hyps [OF this less.prems] show ?thesis
        using 4 ev False by (subst uart_read_loop.simps) (auto simp: Let_def)
    qed
  qed
qed

end
