(* ===== verification/Pdm_Mcu_Ops.thy ===== *)
theory Pdm_Mcu_Ops
  imports Pdm_Mcu_Transport Pdm_Registry
begin

unbundle bit_operations_syntax

text \<open>
  The operation tables of the four MCU transports, their entries in the backend section, and the
  contract \<open>mcu_transport\<close> that the protocol layer and the driver rely on, interpreted by each of
  them. The last part holds the properties of the command and CAN id encodings.
\<close>

section \<open>The tables\<close>

record 'e pdm_mcu_transport_ops =
  to_name :: string
  to_capability :: u64
  to_max_tx_size :: u32
  to_max_rx_size :: u32
  to_setup :: "'e mcu_world \<Rightarrow> pdm_device \<Rightarrow> pdm_mcu_instance \<Rightarrow> int \<times> 'e mcu_world \<times> pdm_mcu_instance"
  to_cleanup :: "('e mcu_world \<Rightarrow> pdm_device \<Rightarrow> pdm_mcu_instance \<Rightarrow> 'e mcu_world \<times> pdm_mcu_instance) option"
  to_xfer :: "('e mcu_world \<Rightarrow> pdm_mcu_instance \<Rightarrow> pdm_mcu_xfer \<Rightarrow>
     (int \<times> 'e mcu_world \<times> pdm_mcu_instance \<times> pdm_mcu_xfer) option) option"

text \<open>The transfers that always return and leave the instance alone, in the common shape.\<close>

definition plain_xfer ::
  "('e mcu_world \<Rightarrow> pdm_mcu_instance \<Rightarrow> pdm_mcu_xfer \<Rightarrow> int \<times> 'e mcu_world \<times> pdm_mcu_xfer) \<Rightarrow>
   'e mcu_world \<Rightarrow> pdm_mcu_instance \<Rightarrow> pdm_mcu_xfer \<Rightarrow>
   (int \<times> 'e mcu_world \<times> pdm_mcu_instance \<times> pdm_mcu_xfer) option" where
  "plain_xfer f w inst x = (case f w inst x of (ret, w', x') \<Rightarrow> Some (ret, w', inst, x'))"

definition pdm_mcu_can_ops :: "'e mcu_api \<Rightarrow> 'e pdm_mcu_transport_ops" where
  "pdm_mcu_can_ops api = \<lparr>to_name = ''can'', to_capability = PDM_MCU_CAP_TRANSPORT_CAN,
     to_max_tx_size = CAN_MAX_DLEN, to_max_rx_size = CAN_MAX_DLEN,
     to_setup = pdm_mcu_can_setup api, to_cleanup = Some (\<lambda>w d inst. pdm_mcu_can_cleanup w inst),
     to_xfer = Some (plain_xfer (pdm_mcu_can_xfer api))\<rparr>"

definition pdm_mcu_i2c_ops :: "'e mcu_api \<Rightarrow> 'e pdm_mcu_transport_ops" where
  "pdm_mcu_i2c_ops api = \<lparr>to_name = ''i2c'', to_capability = PDM_MCU_CAP_TRANSPORT_I2C,
     to_max_tx_size = of_nat PDM_MCU_MAX_TRANSFER_SIZE, to_max_rx_size = of_nat PDM_MCU_MAX_TRANSFER_SIZE,
     to_setup = pdm_mcu_i2c_setup, to_cleanup = Some pdm_mcu_i2c_cleanup,
     to_xfer = Some (plain_xfer (pdm_mcu_i2c_xfer api))\<rparr>"

definition pdm_mcu_spi_ops :: "'e mcu_api \<Rightarrow> 'e pdm_mcu_transport_ops" where
  "pdm_mcu_spi_ops api = \<lparr>to_name = ''spi'', to_capability = PDM_MCU_CAP_TRANSPORT_SPI,
     to_max_tx_size = of_nat PDM_MCU_MAX_TRANSFER_SIZE, to_max_rx_size = of_nat PDM_MCU_MAX_TRANSFER_SIZE,
     to_setup = pdm_mcu_spi_setup, to_cleanup = Some pdm_mcu_spi_cleanup,
     to_xfer = Some (plain_xfer (pdm_mcu_spi_xfer api))\<rparr>"

definition pdm_mcu_uart_ops :: "'e mcu_api \<Rightarrow> 'e pdm_mcu_transport_ops" where
  "pdm_mcu_uart_ops api = \<lparr>to_name = ''uart'', to_capability = PDM_MCU_CAP_TRANSPORT_UART,
     to_max_tx_size = of_nat PDM_MCU_MAX_TRANSFER_SIZE, to_max_rx_size = of_nat PDM_MCU_MAX_TRANSFER_SIZE,
     to_setup = pdm_mcu_uart_setup_bus api, to_cleanup = Some (\<lambda>w d inst. pdm_mcu_uart_cleanup_bus w inst),
     to_xfer = Some (pdm_mcu_uart_xfer api)\<rparr>"

fun pdm_mcu_ops :: "'e mcu_api \<Rightarrow> pdm_mcu_backend_type \<Rightarrow> 'e pdm_mcu_transport_ops" where
  "pdm_mcu_ops api PDM_MCU_BACKEND_UART = pdm_mcu_uart_ops api"
| "pdm_mcu_ops api PDM_MCU_BACKEND_CAN = pdm_mcu_can_ops api"
| "pdm_mcu_ops api PDM_MCU_BACKEND_I2C = pdm_mcu_i2c_ops api"
| "pdm_mcu_ops api PDM_MCU_BACKEND_SPI = pdm_mcu_spi_ops api"

text \<open>
  The entries of the backend section. Those of the I2C, SPI and UART transports register a driver
  with the bus of the kernel when they start; these calls are arguments.
\<close>

definition pdm_mcu_can_entry :: "('w, pdm_mcu_backend_type) pdm_backend_entry" where
  "pdm_mcu_can_entry = \<lparr>be_name = Some ''mcu_can'', be_device_type = PDM_MCU_DEVICE_TYPE,
     be_class = PDM_BACKEND_CLASS_TRANSPORT,
     be_matches = Some [''pdm,mcu-can'', ''vendor,pdm-mcu-can'', []],
     be_ops = Some PDM_MCU_BACKEND_CAN, be_init = None, be_exit = None\<rparr>"

definition pdm_mcu_i2c_entry ::
  "('w \<Rightarrow> int \<times> 'w) \<Rightarrow> ('w \<Rightarrow> 'w) \<Rightarrow> ('w, pdm_mcu_backend_type) pdm_backend_entry" where
  "pdm_mcu_i2c_entry driver_register driver_unregister = \<lparr>be_name = Some ''mcu_i2c'', be_device_type = PDM_MCU_DEVICE_TYPE,
     be_class = PDM_BACKEND_CLASS_TRANSPORT,
     be_matches = Some [''pdm,mcu-i2c'', ''vendor,pdm-mcu-i2c'', []],
     be_ops = Some PDM_MCU_BACKEND_I2C, be_init = Some driver_register,
     be_exit = Some driver_unregister\<rparr>"

definition pdm_mcu_spi_entry ::
  "('w \<Rightarrow> int \<times> 'w) \<Rightarrow> ('w \<Rightarrow> 'w) \<Rightarrow> ('w, pdm_mcu_backend_type) pdm_backend_entry" where
  "pdm_mcu_spi_entry driver_register driver_unregister = \<lparr>be_name = Some ''mcu_spi'', be_device_type = PDM_MCU_DEVICE_TYPE,
     be_class = PDM_BACKEND_CLASS_TRANSPORT,
     be_matches = Some [''pdm,mcu-spi'', ''vendor,pdm-mcu-spi'', []],
     be_ops = Some PDM_MCU_BACKEND_SPI, be_init = Some driver_register,
     be_exit = Some driver_unregister\<rparr>"

definition pdm_mcu_uart_entry ::
  "('w \<Rightarrow> int \<times> 'w) \<Rightarrow> ('w \<Rightarrow> 'w) \<Rightarrow> ('w, pdm_mcu_backend_type) pdm_backend_entry" where
  "pdm_mcu_uart_entry driver_register driver_unregister = \<lparr>be_name = Some ''mcu_uart'', be_device_type = PDM_MCU_DEVICE_TYPE,
     be_class = PDM_BACKEND_CLASS_TRANSPORT,
     be_matches = Some [''pdm,mcu-uart'', ''vendor,pdm-mcu-uart'', []],
     be_ops = Some PDM_MCU_BACKEND_UART, be_init = Some driver_register,
     be_exit = Some driver_unregister\<rparr>"

definition pdm_mcu_backend_entries ::
  "(pdm_mcu_backend_type \<Rightarrow> 'w \<Rightarrow> int \<times> 'w) \<Rightarrow> (pdm_mcu_backend_type \<Rightarrow> 'w \<Rightarrow> 'w) \<Rightarrow>
   ('w, pdm_mcu_backend_type) pdm_backend_entry list" where
  "pdm_mcu_backend_entries reg unreg =
     [pdm_mcu_can_entry,
      pdm_mcu_i2c_entry (reg PDM_MCU_BACKEND_I2C) (unreg PDM_MCU_BACKEND_I2C),
      pdm_mcu_spi_entry (reg PDM_MCU_BACKEND_SPI) (unreg PDM_MCU_BACKEND_SPI),
      pdm_mcu_uart_entry (reg PDM_MCU_BACKEND_UART) (unreg PDM_MCU_BACKEND_UART)]"

lemma put_bytes_length [simp]: "length bs \<le> length buf \<Longrightarrow> length (put_bytes bs buf) = length buf"
  by (simp add: put_bytes_def)

lemma put_bytes_Nil [simp]: "put_bytes [] buf = buf"
  by (simp add: put_bytes_def)

lemma put_bytes_drop: "length bs \<le> n \<Longrightarrow> drop n (put_bytes bs buf) = drop n buf"
  by (simp add: put_bytes_def)

text \<open>What an answer may do to the buffer: overwrite its first bytes, at most \<open>n\<close> of them.\<close>

definition prefix_written :: "nat \<Rightarrow> u8 list \<Rightarrow> u8 list \<Rightarrow> bool" where
  "prefix_written n buf buf' \<longleftrightarrow> (\<exists>bs. length bs \<le> n \<and> buf' = put_bytes bs buf)"

lemma prefix_written_same [simp]: "prefix_written n buf buf"
  unfolding prefix_written_def by (intro exI [of _ "[]"]) (simp add: put_bytes_def)

lemma prefix_written_put: "length bs \<le> n \<Longrightarrow> prefix_written n buf (put_bytes bs buf)"
  unfolding prefix_written_def by blast

lemma prefix_written_take [simp]: "prefix_written n buf (put_bytes (take n bs) buf)"
  by (rule prefix_written_put) simp

lemma prefix_written_props:
  "prefix_written n buf buf' \<Longrightarrow> n \<le> length buf \<Longrightarrow> length buf' = length buf \<and> drop n buf' = drop n buf"
  unfolding prefix_written_def by (auto simp: put_bytes_drop)

section \<open>The contract of a transport\<close>

text \<open>The members of an instance that a transport leaves alone.\<close>

definition mcu_core :: "pdm_mcu_instance \<Rightarrow> bool \<times> bool \<times> nat \<times> pdm_mcu_backend_type option \<times> u32 \<times> int" where
  "mcu_core i = (in_lock i, in_online i, mu_addr i, mu_ops i, mu_state i, mu_last_error i)"

text \<open>\<open>spi_sync_transfer\<close> returns 0 or a negative error.\<close>

definition mcu_bus_laws :: "'e mcu_api \<Rightarrow> bool" where
  "mcu_bus_laws api \<longleftrightarrow> serdev_laws api \<and> (\<forall>s xs e. fst (ma_spi_sync api s xs e) \<le> 0)"

locale mcu_transport =
  fixes good :: bool
    and setup_fn :: "'w \<Rightarrow> pdm_device \<Rightarrow> pdm_mcu_instance \<Rightarrow> int \<times> 'w \<times> pdm_mcu_instance"
    and cleanup_fn :: "'w \<Rightarrow> pdm_device \<Rightarrow> pdm_mcu_instance \<Rightarrow> 'w \<times> pdm_mcu_instance"
    and xfer_fn :: "'w \<Rightarrow> pdm_mcu_instance \<Rightarrow> pdm_mcu_xfer \<Rightarrow> (int \<times> 'w \<times> pdm_mcu_instance \<times> pdm_mcu_xfer) option"
    and held :: "'w \<Rightarrow> 'r multiset"
    and res :: "pdm_mcu_instance \<Rightarrow> 'r multiset"
  assumes setup_frame: "setup_fn w d i = (ret, w', i') \<Longrightarrow> mcu_core i' = mcu_core i"
    and setup_held: "setup_fn w d i = (ret, w', i') \<Longrightarrow> res i = {#} \<Longrightarrow>
          held w' = held w + (if ret = 0 then res i' else {#})"
    and cleanup_frame: "cleanup_fn w d i = (w', i') \<Longrightarrow> mcu_core i' = mcu_core i"
    and cleanup_held: "cleanup_fn w d i = (w', i') \<Longrightarrow> held w' = held w - res i"
    and xfer_returns: "good \<Longrightarrow> \<exists>r. xfer_fn w i x = Some r"
    and xfer_frame: "xfer_fn w i x = Some (ret, w', i', x') \<Longrightarrow>
          mcu_core i' = mcu_core i \<and> res i' = res i \<and> held w' = held w"
    and xfer_buf: "xfer_fn w i x = Some (ret, w', i', x') \<Longrightarrow> good \<Longrightarrow>
          prefix_written (unat (xf_rx_len x)) (xf_rx x) (xf_rx x')"
    and xfer_len: "xfer_fn w i x = Some (0, w', i', x') \<Longrightarrow> good \<Longrightarrow> xf_actual_rx_len x' \<le> xf_rx_len x"
    and xfer_ret: "xfer_fn w i x = Some (ret, w', i', x') \<Longrightarrow> good \<Longrightarrow> ret \<le> 0"
    and res_core: "res (i\<lparr>mu_state := st, mu_last_error := err\<rparr>) = res i"
      "res (i\<lparr>in_lock := b\<rparr>) = res i" "res (i\<lparr>in_online := b\<rparr>) = res i"
begin

text \<open>Undoing a setup that succeeded gives back what it took.\<close>

lemma setup_cleanup:
  assumes "setup_fn w d i = (0, w1, i1)" and "res i = {#}" and "cleanup_fn w1 d i1 = (w2, i2)"
  shows "held w2 = held w"
  using setup_held [OF assms(1,2)] cleanup_held [OF assms(3)] by simp

end

section \<open>CAN, I2C and SPI keep it\<close>

definition can_res :: "pdm_mcu_instance \<Rightarrow> mcu_resource multiset" where
  "can_res i = (case ca_sock (mu_can i) of None \<Rightarrow> {#} | Some s \<Rightarrow> {#SOCK s#}) +
               (case ca_netdev (mu_can i) of None \<Rightarrow> {#} | Some n \<Rightarrow> {#NETDEV n#})"

definition uart_res :: "pdm_mcu_instance \<Rightarrow> mcu_resource multiset" where
  "uart_res i = (case ua_serdev (mu_uart i) of None \<Rightarrow> {#} | Some s \<Rightarrow> {#SERDEV s#})"

fun mcu_res :: "pdm_mcu_backend_type \<Rightarrow> pdm_mcu_instance \<Rightarrow> mcu_resource multiset" where
  "mcu_res PDM_MCU_BACKEND_UART i = uart_res i"
| "mcu_res PDM_MCU_BACKEND_CAN i = can_res i"
| "mcu_res PDM_MCU_BACKEND_I2C i = {#}"
| "mcu_res PDM_MCU_BACKEND_SPI i = {#}"

lemma unat_u8_u32 [simp]: "unat (ucast n :: u32) = unat (n :: u8)"
proof -
  have "unat n < 2 ^ 8" using unsigned_less [of n] by simp
  then show ?thesis by (simp add: unsigned_ucast_eq take_bit_nat_eq_self)
qed

lemma word_le_take: "ucast (n :: u8) \<le> (len :: u32) \<Longrightarrow> length (take (unat n) xs) \<le> unat len"
  by (simp add: word_le_nat_alt)

lemma send_frame_world:
  "pdm_mcu_can_send_frame api w i nid data len = (ret, w') \<Longrightarrow> mw_held w' = mw_held w \<and> ret \<le> 0"
  by (auto simp: pdm_mcu_can_send_frame_def Let_def split: option.splits if_splits prod.splits)

lemma recv_frame_world:
  assumes "pdm_mcu_can_recv_frame api w i nid data len = (ret, w', nid', data', len')"
  shows "mw_held w' = mw_held w \<and> ret \<le> 0 \<and> len' \<le> len \<and>
    prefix_written (unat len) data data'"
  using assms
  by (auto simp: pdm_mcu_can_recv_frame_def Let_def not_less simp del: length_take
      split: option.splits if_splits prod.splits intro!: prefix_written_put word_le_take)

lemma can_xfer_world:
  assumes "pdm_mcu_can_xfer api w i x = (ret, w', x')"
  shows "mw_held w' = mw_held w \<and> ret \<le> 0 \<and> (ret = 0 \<longrightarrow> xf_actual_rx_len x' \<le> xf_rx_len x) \<and>
    prefix_written (unat (xf_rx_len x)) (xf_rx x) (xf_rx x')"
proof -
  obtain r1 w1 where s: "pdm_mcu_can_send_frame api w i (xf_command x) (xf_tx x) (xf_tx_len x) = (r1, w1)"
    by fastforce
  obtain r2 w2 nid2 rx2 len2 where r: "pdm_mcu_can_recv_frame api w1 i (xf_command x) (xf_rx x) (xf_rx_len x)
      = (r2, w2, nid2, rx2, len2)" using prod_cases5 by blast
  show ?thesis
    using assms s r send_frame_world [OF s] recv_frame_world [OF r]
    by (auto simp: pdm_mcu_can_xfer_def pdm_mcu_can_cmd_xfer_def split: if_splits)
qed

lemma i2c_bus_world:
  assumes "pdm_mcu_i2c_bus_xfer api w i b l rx len = (r, w', rx')"
  shows "mw_held w' = mw_held w \<and> (True \<longrightarrow> r \<le> 0) \<and> prefix_written (unat len) rx rx'"
  using assms
  by (auto simp: pdm_mcu_i2c_bus_xfer_def Let_def split: option.splits if_splits prod.splits)

lemma spi_bus_world:
  assumes "pdm_mcu_spi_bus_xfer api w i b l rx len = (r, w', rx')"
  shows "mw_held w' = mw_held w \<and> (mcu_bus_laws api \<longrightarrow> r \<le> 0) \<and>
    prefix_written (unat len) rx rx'"
proof -
  have law: "mcu_bus_laws api \<Longrightarrow> ma_spi_sync api s xs e = (r, bs, e') \<Longrightarrow> r \<le> 0" for s xs e r bs e'
    unfolding mcu_bus_laws_def by (metis fst_conv)
  show ?thesis
    using assms law
    by (auto simp: pdm_mcu_spi_bus_xfer_def Let_def split: option.splits if_splits prod.splits)
qed

lemma set_bus_dev_held [simp]: "mw_held (set_bus_dev_inst w a i) = mw_held w"
  by (simp add: set_bus_dev_inst_def split: option.split)

lemma prefixed_simps [simp]:
  "mcu_core (i\<lparr>mu_i2c := px\<rparr>) = mcu_core i" "mcu_core (i\<lparr>mu_spi := px\<rparr>) = mcu_core i"
  "mcu_core (i\<lparr>mu_can := c\<rparr>) = mcu_core i" "mcu_core (i\<lparr>mu_uart := u\<rparr>) = mcu_core i"
  by (simp_all add: mcu_core_def)

section \<open>UART keeps it\<close>

lemma uart_write_held:
  assumes "pdm_mcu_uart_write_exact api w i buf len = Some (ret, w')"
  shows "mw_held w' = mw_held w \<and> ret \<le> 0"
  using assms
  by (auto simp: pdm_mcu_uart_write_exact_def pdm_mcu_uart_write_bus_def Let_def
      split: option.splits if_splits prod.splits)

lemma uart_write_returns:
  assumes "serdev_laws api"
  shows "\<exists>ret w'. pdm_mcu_uart_write_exact api w i buf len = Some (ret, w')"
proof -
  have "\<exists>r. pdm_mcu_uart_write_bus api w i (take (unat len) buf) = Some r"
  proof (cases "ua_serdev (mu_uart i)")
    case None
    then show ?thesis by (simp add: pdm_mcu_uart_write_bus_def)
  next
    case (Some s)
    with uart_write_loop_ends [OF assms, of 0 "take (unat len) buf" s "ua_rx_timeout_ms (mu_uart i)"
        "pdm_mcu_uart_serdev_deadline api (mw_ext w) (ua_rx_timeout_ms (mu_uart i))" "mw_ext w"]
    show ?thesis by (auto simp: pdm_mcu_uart_write_bus_def Let_def)
  qed
  then show ?thesis by (auto simp: pdm_mcu_uart_write_exact_def)
qed

lemma uart_read_returns:
  assumes "serdev_laws api"
  shows "\<exists>ret w' i' buf'. pdm_mcu_uart_read_bus api w i buf len = Some (ret, w', i', buf') \<and>
     prefix_written len buf buf' \<and> ret \<le> int len"
proof (cases "ua_serdev (mu_uart i) = None \<or> len = 0")
  case True
  then show ?thesis by (auto simp: pdm_mcu_uart_read_bus_def)
next
  case False
  let ?dl = "pdm_mcu_uart_serdev_deadline api (mw_ext w) (ua_rx_timeout_ms (mu_uart i))"
  obtain ret fifo' e' acc' where loop:
    "uart_read_loop api ?dl len (ua_rx_fifo (mu_uart i)) (mw_ext w) [] = Some (ret, fifo', e', acc')"
    "length acc' \<le> len" "0 \<le> ret \<longrightarrow> ret = int (length acc')"
    using uart_read_loop_ends [OF assms, of "[]" len ?dl "ua_rx_fifo (mu_uart i)" "mw_ext w"] by auto
  have "ret \<le> int len" using loop(2,3) by (cases "0 \<le> ret") auto
  with loop False show ?thesis
    by (auto simp: pdm_mcu_uart_read_bus_def Let_def intro: prefix_written_put)
qed

lemma uart_read_frame:
  assumes "pdm_mcu_uart_read_bus api w i buf len = Some (ret, w', i', buf')"
  shows "mw_held w' = mw_held w \<and> mcu_core i' = mcu_core i \<and> uart_res i' = uart_res i"
  using assms
  by (auto simp: pdm_mcu_uart_read_bus_def Let_def uart_res_def split: option.splits if_splits prod.splits)

lemma uart_cmd_xfer_frame:
  assumes "pdm_mcu_uart_cmd_xfer api w i command tx tx_len rx rx_len = Some (ret, w', i', rx', len')"
  shows "mw_held w' = mw_held w \<and> mcu_core i' = mcu_core i \<and> uart_res i' = uart_res i \<and> ret \<le> 0"
proof (cases "of_nat 256 + 4 < tx_len + 4 \<or> of_nat 256 < rx_len")
  case True
  with assms show ?thesis by (auto simp: pdm_mcu_uart_cmd_xfer_def Let_def split: if_splits)
next
  case False
  let ?buf = "pdm_mcu_uart_encode_be32 command @ take (unat tx_len) tx"
  obtain r1 w1 where wr: "pdm_mcu_uart_write_exact api w i ?buf (tx_len + 4) = Some (r1, w1)"
    using assms False by (auto simp: pdm_mcu_uart_cmd_xfer_def Let_def split: option.splits)
  note h1 = uart_write_held [OF wr]
  show ?thesis
  proof (cases "r1 \<noteq> 0 \<or> rx_len = 0")
    case True
    with assms False wr h1 show ?thesis
      by (auto simp: pdm_mcu_uart_cmd_xfer_def Let_def split: if_splits)
  next
    case rd: False
    obtain r2 w2 i2 rx2 where rd2: "pdm_mcu_uart_read_bus api w1 i rx (unat rx_len) = Some (r2, w2, i2, rx2)"
      using assms False wr rd by (auto simp: pdm_mcu_uart_cmd_xfer_def Let_def split: option.splits)
    from assms False wr rd rd2 h1 uart_read_frame [OF rd2] show ?thesis
      by (auto simp: pdm_mcu_uart_cmd_xfer_def Let_def split: if_splits)
  qed
qed

lemma uart_xfer_frame:
  assumes "pdm_mcu_uart_xfer api w i x = Some (ret, w', i', x')"
  shows "mw_held w' = mw_held w \<and> mcu_core i' = mcu_core i \<and> uart_res i' = uart_res i \<and> ret \<le> 0"
proof -
  obtain r w1 i1 rx len where c: "pdm_mcu_uart_cmd_xfer api w i (xf_command x) (xf_tx x) (xf_tx_len x)
      (xf_rx x) (xf_rx_len x) = Some (r, w1, i1, rx, len)"
    using assms by (auto simp: pdm_mcu_uart_xfer_def split: option.splits)
  with assms uart_cmd_xfer_frame [OF c] show ?thesis
    by (auto simp: pdm_mcu_uart_xfer_def split: if_splits)
qed

lemma uart_xfer_returns:
  assumes laws: "serdev_laws api"
  shows "\<exists>ret w' i' x'. pdm_mcu_uart_xfer api w i x = Some (ret, w', i', x') \<and>
     prefix_written (unat (xf_rx_len x)) (xf_rx x) (xf_rx x') \<and>
     (ret = 0 \<longrightarrow> xf_actual_rx_len x' \<le> xf_rx_len x)"
proof -
  let ?buf = "pdm_mcu_uart_encode_be32 (xf_command x) @ take (unat (xf_tx_len x)) (xf_tx x)"
  obtain r1 w1 where wr: "pdm_mcu_uart_write_exact api w i ?buf (xf_tx_len x + 4) = Some (r1, w1)"
    using uart_write_returns [OF laws, where w = w and i = i and buf = ?buf and len = "xf_tx_len x + 4"]
    by (elim exE)
  obtain r2 w2 i2 rx2 where rd: "pdm_mcu_uart_read_bus api w1 i (xf_rx x) (unat (xf_rx_len x)) = Some (r2, w2, i2, rx2)"
    "prefix_written (unat (xf_rx_len x)) (xf_rx x) rx2" "r2 \<le> int (unat (xf_rx_len x))"
    using uart_read_returns [OF laws, where w = w1 and i = i and buf = "xf_rx x" and len = "unat (xf_rx_len x)"]
    by (elim exE conjE)
  have "(of_int r2 :: u32) \<le> xf_rx_len x" if pos: "0 \<le> r2"
  proof -
    obtain n where n: "r2 = int n" using pos by (rule nonneg_int_cases)
    with rd(3) have "n \<le> unat (xf_rx_len x)" by (simp only: of_nat_le_iff)
    moreover have "unat (of_nat n :: u32) \<le> n" by (simp only: unat_of_nat mod_less_eq_dividend)
    ultimately show ?thesis unfolding n of_int_of_nat_eq word_le_nat_alt by (rule le_trans [rotated])
  qed
  note len = this
  let ?long = "260 < xf_tx_len x + 4 \<or> 256 < xf_rx_len x"
  consider ?long | "\<not> ?long" "r1 \<noteq> 0" | "\<not> ?long" "r1 = 0" "xf_rx_len x = 0"
    | "\<not> ?long" "r1 = 0" "xf_rx_len x \<noteq> 0" by blast
  then show ?thesis
  proof cases
    case 1
    then show ?thesis
      by (cases "260 < xf_tx_len x + 4") (simp_all add: pdm_mcu_uart_xfer_def pdm_mcu_uart_cmd_xfer_def Let_def)
  next
    case 4
    with wr rd(1,2) len show ?thesis
      by (cases "r2 < 0") (simp_all add: pdm_mcu_uart_xfer_def pdm_mcu_uart_cmd_xfer_def Let_def)
  qed (use wr in \<open>simp_all add: pdm_mcu_uart_xfer_def pdm_mcu_uart_cmd_xfer_def Let_def\<close>)
qed

section \<open>The interpretations\<close>

lemma mcu_res_core:
  "mcu_res t (i\<lparr>mu_state := st, mu_last_error := err\<rparr>) = mcu_res t i"
  "mcu_res t (i\<lparr>in_lock := b\<rparr>) = mcu_res t i" "mcu_res t (i\<lparr>in_online := b\<rparr>) = mcu_res t i"
  by (cases t, simp_all add: can_res_def uart_res_def)+

lemma i2c_xfer_world:
  assumes "pdm_mcu_i2c_xfer api w i x = (ret, w', x')"
  shows "mw_held w' = mw_held w \<and> (True \<longrightarrow> ret \<le> 0) \<and>
    (ret = 0 \<longrightarrow> xf_actual_rx_len x' \<le> xf_rx_len x) \<and>
    prefix_written (unat (xf_rx_len x)) (xf_rx x) (xf_rx x')"
proof -
  let ?px = "px_command_bytes (mu_i2c i)"
  obtain r w1 rx1 where b: "pdm_mcu_i2c_bus_xfer api w i
      (pdm_mcu_i2c_encode_prefix (xf_command x) ?px @ take (unat (xf_tx_len x)) (xf_tx x))
      (xf_tx_len x + ucast ?px) (xf_rx x) (xf_rx_len x) = (r, w1, rx1)"
    using prod_cases3 by blast
  note facts = i2c_bus_world [OF b]
  let ?long = "260 < xf_tx_len x + ucast ?px"
  show ?thesis
  proof (cases "?px = 0 \<or> ?long \<or> 256 < xf_rx_len x")
    case True
    with assms show ?thesis
      by (cases "?px = 0"; cases ?long) (auto simp: pdm_mcu_i2c_xfer_def pdm_mcu_i2c_cmd_xfer_def Let_def)
  next
    case False
    with assms b facts show ?thesis
      by (cases "r = 0") (auto simp: pdm_mcu_i2c_xfer_def pdm_mcu_i2c_cmd_xfer_def Let_def)
  qed
qed

lemma spi_xfer_world:
  assumes "pdm_mcu_spi_xfer api w i x = (ret, w', x')"
  shows "mw_held w' = mw_held w \<and> (mcu_bus_laws api \<longrightarrow> ret \<le> 0) \<and>
    (ret = 0 \<longrightarrow> xf_actual_rx_len x' \<le> xf_rx_len x) \<and>
    prefix_written (unat (xf_rx_len x)) (xf_rx x) (xf_rx x')"
proof -
  let ?px = "px_command_bytes (mu_spi i)"
  obtain r w1 rx1 where b: "pdm_mcu_spi_bus_xfer api w i
      (pdm_mcu_spi_encode_prefix (xf_command x) ?px @ take (unat (xf_tx_len x)) (xf_tx x))
      (xf_tx_len x + ucast ?px) (xf_rx x) (xf_rx_len x) = (r, w1, rx1)"
    using prod_cases3 by blast
  note facts = spi_bus_world [OF b]
  let ?long = "260 < xf_tx_len x + ucast ?px"
  show ?thesis
  proof (cases "?px = 0 \<or> ?long \<or> 256 < xf_rx_len x")
    case True
    with assms show ?thesis
      by (cases "?px = 0"; cases ?long) (auto simp: pdm_mcu_spi_xfer_def pdm_mcu_spi_cmd_xfer_def Let_def)
  next
    case False
    with assms b facts show ?thesis
      by (cases "r = 0") (auto simp: pdm_mcu_spi_xfer_def pdm_mcu_spi_cmd_xfer_def Let_def)
  qed
qed

lemma plain_xfer_iff:
  "plain_xfer f w i x = Some (ret, w', i', x') \<longleftrightarrow> f w i x = (ret, w', x') \<and> i' = i"
  by (auto simp: plain_xfer_def split: prod.splits)

lemma plain_xfer_some: "\<exists>r. plain_xfer f w i x = Some r"
  by (cases "f w i x") (simp add: plain_xfer_def)

interpretation can: mcu_transport "mcu_bus_laws api" "pdm_mcu_can_setup api"
    "\<lambda>w d i. pdm_mcu_can_cleanup w i" "plain_xfer (pdm_mcu_can_xfer api)" mw_held "mcu_res PDM_MCU_BACKEND_CAN"
proof (unfold_locales, goal_cases)
  case 5
  show ?case by (rule plain_xfer_some)
qed (auto simp: pdm_mcu_can_setup_def pdm_mcu_can_cleanup_def Let_def can_res_def plain_xfer_iff
        ac_simps split: option.splits sum.splits if_splits dest!: can_xfer_world)

interpretation i2c: mcu_transport "mcu_bus_laws api" pdm_mcu_i2c_setup
    pdm_mcu_i2c_cleanup "plain_xfer (pdm_mcu_i2c_xfer api)" mw_held "mcu_res PDM_MCU_BACKEND_I2C"
proof (unfold_locales, goal_cases)
  case 5
  show ?case by (rule plain_xfer_some)
qed (auto simp: pdm_mcu_i2c_setup_def pdm_mcu_i2c_cleanup_def Let_def plain_xfer_iff
        split: option.splits if_splits dest!: i2c_xfer_world)

interpretation spi: mcu_transport "mcu_bus_laws api" pdm_mcu_spi_setup
    pdm_mcu_spi_cleanup "plain_xfer (pdm_mcu_spi_xfer api)" mw_held "mcu_res PDM_MCU_BACKEND_SPI"
proof (unfold_locales, goal_cases)
  case 5
  show ?case by (rule plain_xfer_some)
qed (auto simp: pdm_mcu_spi_setup_def pdm_mcu_spi_cleanup_def Let_def plain_xfer_iff
        split: option.splits if_splits dest!: spi_xfer_world)

lemma uart_laws: "mcu_bus_laws api \<Longrightarrow> serdev_laws api"
  by (simp add: mcu_bus_laws_def)

lemma uart_setup_held:
  assumes "pdm_mcu_uart_setup_bus api w d i = (ret, w', i')"
  shows "mcu_core i' = mcu_core i \<and> mw_held w' = mw_held w + (if ret = 0 then uart_res i' else {#})"
  using assms
  by (auto simp: pdm_mcu_uart_setup_bus_def Let_def uart_res_def split: option.splits if_splits)

interpretation uart: mcu_transport "mcu_bus_laws api" "pdm_mcu_uart_setup_bus api"
    "\<lambda>w d i. pdm_mcu_uart_cleanup_bus w i" "pdm_mcu_uart_xfer api" mw_held "mcu_res PDM_MCU_BACKEND_UART"
proof unfold_locales
  fix w :: "'a mcu_world" and d i x ret w' i' x'
  show "mcu_bus_laws api \<Longrightarrow> \<exists>r. pdm_mcu_uart_xfer api w i x = Some r"
    using uart_xfer_returns [OF uart_laws] by blast
  show "pdm_mcu_uart_xfer api w i x = Some (ret, w', i', x') \<Longrightarrow> mcu_bus_laws api \<Longrightarrow>
      prefix_written (unat (xf_rx_len x)) (xf_rx x) (xf_rx x')"
    using uart_xfer_returns [OF uart_laws, of api w i x] by auto
  show "pdm_mcu_uart_xfer api w i x = Some (0, w', i', x') \<Longrightarrow> mcu_bus_laws api \<Longrightarrow>
      xf_actual_rx_len x' \<le> xf_rx_len x"
    using uart_xfer_returns [OF uart_laws, of api w i x] by auto
qed (auto simp: pdm_mcu_uart_cleanup_bus_def Let_def uart_res_def split: option.splits
    dest!: uart_setup_held uart_xfer_frame)

end
