(* ===== verification/Pdm_Mcu_Protocol.thy ===== *)
theory Pdm_Mcu_Protocol
  imports Pdm_Mcu_Ops
begin

unbundle bit_operations_syntax

text \<open>
  The MCU protocol, \<open>src/kernel/pdm/drivers/mcu/pdm_mcu_protocol.c\<close>: what the ioctl handlers ask of a
  transport. The lemmas hold over any table of transports that keeps the contract of
  \<open>Pdm_Mcu_Ops\<close>, and the table of the code is an instance.
\<close>

section \<open>The operations\<close>

abbreviation (input) PDM_MCU_PROTOCOL_CMD_GET_VERSION :: u32 where "PDM_MCU_PROTOCOL_CMD_GET_VERSION \<equiv> 1"
abbreviation (input) PDM_MCU_PROTOCOL_CMD_GET_STATUS :: u32 where "PDM_MCU_PROTOCOL_CMD_GET_STATUS \<equiv> 2"
abbreviation (input) PDM_MCU_PROTOCOL_CMD_RESET :: u32 where "PDM_MCU_PROTOCOL_CMD_RESET \<equiv> 3"

definition pdm_mcu_protocol_encode_be32 :: "u32 \<Rightarrow> u8 list" where
  "pdm_mcu_protocol_encode_be32 v =
     [ucast (drop_bit 24 v), ucast (drop_bit 16 v), ucast (drop_bit 8 v), ucast v]"

definition pdm_mcu_protocol_max_tx :: "'e pdm_mcu_transport_ops \<Rightarrow> u32" where
  "pdm_mcu_protocol_max_tx ops =
     (if to_max_tx_size ops \<noteq> 0 then min (to_max_tx_size ops) (of_nat PDM_MCU_MAX_TRANSFER_SIZE)
      else of_nat PDM_MCU_MAX_TRANSFER_SIZE)"

definition pdm_mcu_protocol_max_rx :: "'e pdm_mcu_transport_ops \<Rightarrow> u32" where
  "pdm_mcu_protocol_max_rx ops =
     (if to_max_rx_size ops \<noteq> 0 then min (to_max_rx_size ops) (of_nat PDM_MCU_MAX_TRANSFER_SIZE)
      else of_nat PDM_MCU_MAX_TRANSFER_SIZE)"

text \<open>
  A null pointer is \<open>None\<close>. The result: return value, world, instance, the receive buffer and what
  \<open>actual_rx_len\<close> points to.
\<close>

definition buf_of :: "u8 list option \<Rightarrow> u8 list" where
  "buf_of p = (case p of None \<Rightarrow> [] | Some b \<Rightarrow> b)"

definition pdm_mcu_protocol_xfer ::
  "'e pdm_mcu_transport_ops \<Rightarrow> 'e mcu_world \<Rightarrow> pdm_mcu_instance \<Rightarrow> u32 \<Rightarrow> u8 list option \<Rightarrow> u32 \<Rightarrow>
   u8 list option \<Rightarrow> u32 \<Rightarrow> u32 option \<Rightarrow>
   (int \<times> 'e mcu_world \<times> pdm_mcu_instance \<times> u8 list option \<times> u32 option) option" where
  "pdm_mcu_protocol_xfer ops w inst command tx tx_len rx rx_len actual_rx_len =
     (case to_xfer ops of
        None \<Rightarrow> Some (- EOPNOTSUPP, w, inst, rx, actual_rx_len)
      | Some xfer_fn \<Rightarrow>
          if (tx_len \<noteq> 0 \<and> tx = None) \<or> (rx_len \<noteq> 0 \<and> rx = None)
          then Some (- EINVAL, w, inst, rx, actual_rx_len)
          else if pdm_mcu_protocol_max_tx ops < tx_len \<or> pdm_mcu_protocol_max_rx ops < rx_len
          then Some (- EMSGSIZE, w, inst, rx, actual_rx_len)
          else
            (case xfer_fn w inst \<lparr>xf_command = command, xf_tx = buf_of tx, xf_tx_len = tx_len,
                    xf_rx = buf_of rx, xf_rx_len = rx_len, xf_actual_rx_len = 0\<rparr> of
               None \<Rightarrow> None
             | Some (ret, w', inst', xfer) \<Rightarrow>
                 let rx' = (case rx of None \<Rightarrow> None | Some _ \<Rightarrow> Some (xf_rx xfer))
                 in if ret \<noteq> 0 then Some (ret, w', inst', rx', actual_rx_len)
                    else if rx_len < xf_actual_rx_len xfer
                    then Some (- EMSGSIZE, w', inst', rx', actual_rx_len)
                    else Some (0, w', inst', rx',
                           case actual_rx_len of None \<Rightarrow> None | Some _ \<Rightarrow> Some (xf_actual_rx_len xfer))))"

definition pdm_mcu_protocol_encode_index :: "u32 \<Rightarrow> u8 list" where
  "pdm_mcu_protocol_encode_index index = pdm_mcu_protocol_encode_be32 index"

definition pdm_mcu_protocol_get_version ::
  "'e pdm_mcu_transport_ops \<Rightarrow> 'e mcu_world \<Rightarrow> pdm_mcu_instance \<Rightarrow> pdm_mcu_version \<Rightarrow>
   (int \<times> 'e mcu_world \<times> pdm_mcu_instance \<times> pdm_mcu_version) option" where
  "pdm_mcu_protocol_get_version ops w inst version =
     (let payload = pdm_mcu_protocol_encode_index (mv_index version);
          rx_len = of_nat PDM_MCU_VERSION_SIZE
      in case pdm_mcu_protocol_xfer ops w inst PDM_MCU_PROTOCOL_CMD_GET_VERSION (Some payload) 4
                (Some (pdm_mcu_version_bytes version)) rx_len (Some rx_len) of
           None \<Rightarrow> None
         | Some (ret, w', inst', rx, len) \<Rightarrow>
             let version' = pdm_mcu_version_of_bytes (buf_of rx)
             in if ret \<noteq> 0 then Some (ret, w', inst', version')
                else if the len < of_nat PDM_MCU_VERSION_SIZE then Some (- EIO, w', inst', version')
                else Some (0, w', inst', version'))"

definition pdm_mcu_protocol_get_status ::
  "'e pdm_mcu_transport_ops \<Rightarrow> 'e mcu_world \<Rightarrow> pdm_mcu_instance \<Rightarrow> pdm_mcu_status \<Rightarrow>
   (int \<times> 'e mcu_world \<times> pdm_mcu_instance \<times> pdm_mcu_status) option" where
  "pdm_mcu_protocol_get_status ops w inst status =
     (let payload = pdm_mcu_protocol_encode_index (ms_index status);
          rx_len = of_nat PDM_MCU_STATUS_SIZE
      in case pdm_mcu_protocol_xfer ops w inst PDM_MCU_PROTOCOL_CMD_GET_STATUS (Some payload) 4
                (Some (pdm_mcu_status_bytes status)) rx_len (Some rx_len) of
           None \<Rightarrow> None
         | Some (ret, w', inst', rx, len) \<Rightarrow>
             let status' = pdm_mcu_status_of_bytes (buf_of rx)
             in if ret \<noteq> 0 then Some (ret, w', inst', status')
                else if the len < of_nat PDM_MCU_STATUS_SIZE then Some (- EIO, w', inst', status')
                else Some (0, w', inst', status'))"

definition pdm_mcu_protocol_reset ::
  "'e pdm_mcu_transport_ops \<Rightarrow> 'e mcu_world \<Rightarrow> pdm_mcu_instance \<Rightarrow> u32 \<Rightarrow>
   (int \<times> 'e mcu_world \<times> pdm_mcu_instance) option" where
  "pdm_mcu_protocol_reset ops w inst index =
     (case pdm_mcu_protocol_xfer ops w inst PDM_MCU_PROTOCOL_CMD_RESET
             (Some (pdm_mcu_protocol_encode_index index)) 4 None 0 (Some 0) of
        None \<Rightarrow> None
      | Some (ret, w', inst', _, _) \<Rightarrow> Some (ret, w', inst'))"

definition pdm_mcu_protocol_command ::
  "'e pdm_mcu_transport_ops \<Rightarrow> 'e mcu_world \<Rightarrow> pdm_mcu_instance \<Rightarrow> pdm_mcu_command \<Rightarrow>
   (int \<times> 'e mcu_world \<times> pdm_mcu_instance \<times> pdm_mcu_command) option" where
  "pdm_mcu_protocol_command ops w inst command =
     (let rx_len = mc_rx_len command;
          need_response = (mc_flags command AND PDM_MCU_CMD_F_NEED_RESPONSE \<noteq> 0)
      in if mc_flags command AND NOT PDM_MCU_CMD_F_NEED_RESPONSE \<noteq> 0
         then Some (- EINVAL, w, inst, command)
         else if of_nat PDM_MCU_MAX_TRANSFER_SIZE < mc_tx_len command \<or>
                 of_nat PDM_MCU_MAX_TRANSFER_SIZE < mc_rx_len command
         then Some (- EMSGSIZE, w, inst, command)
         else if \<not> need_response \<and> mc_rx_len command \<noteq> 0 then Some (- EINVAL, w, inst, command)
         else
           (case pdm_mcu_protocol_xfer ops w inst (mc_command command) (Some (mc_tx_data command))
                   (mc_tx_len command)
                   (if need_response then Some (mc_rx_data command) else None)
                   (if need_response then rx_len else 0)
                   (if need_response then Some rx_len else None) of
              None \<Rightarrow> None
            | Some (ret, w', inst', rx, len) \<Rightarrow>
                let command' = (case rx of None \<Rightarrow> command | Some b \<Rightarrow> command\<lparr>mc_rx_data := b\<rparr>)
                in if ret \<noteq> 0 then Some (ret, w', inst', command')
                   else Some (0, w', inst',
                          command'\<lparr>mc_actual_rx_len := if need_response then the len else 0\<rparr>)))"

section \<open>What a command may be, and its answer\<close>

text \<open>The return value that the form of a command alone decides; 0 when it is sent.\<close>

definition mcu_command_check :: "pdm_mcu_command \<Rightarrow> int" where
  "mcu_command_check c =
     (if mc_flags c AND NOT PDM_MCU_CMD_F_NEED_RESPONSE \<noteq> 0 then - EINVAL
      else if of_nat PDM_MCU_MAX_TRANSFER_SIZE < mc_tx_len c \<or> of_nat PDM_MCU_MAX_TRANSFER_SIZE < mc_rx_len c
      then - EMSGSIZE
      else if mc_flags c AND PDM_MCU_CMD_F_NEED_RESPONSE = 0 \<and> mc_rx_len c \<noteq> 0 then - EINVAL
      else 0)"

lemma mcu_command_check_neg: "mcu_command_check c \<le> 0"
  by (simp add: mcu_command_check_def)

definition mcu_command_reply_ok :: "pdm_mcu_command \<Rightarrow> pdm_mcu_command \<Rightarrow> bool" where
  "mcu_command_reply_ok c c' \<longleftrightarrow> mcu_command_check c = 0 \<and>
     c' = c\<lparr>mc_rx_data := mc_rx_data c', mc_actual_rx_len := mc_actual_rx_len c'\<rparr> \<and>
     mc_actual_rx_len c' \<le> mc_rx_len c \<and>
     prefix_written (unat (mc_rx_len c)) (mc_rx_data c) (mc_rx_data c')"

section \<open>Over any table of transports\<close>

locale mcu_transports =
  fixes good :: bool
    and ops_of :: "pdm_mcu_backend_type \<Rightarrow> 'e pdm_mcu_transport_ops"
    and held :: "'e mcu_world \<Rightarrow> 'r multiset"
    and res :: "pdm_mcu_backend_type \<Rightarrow> pdm_mcu_instance \<Rightarrow> 'r multiset"
    and cleanup_of :: "pdm_mcu_backend_type \<Rightarrow> 'e mcu_world \<Rightarrow> pdm_device \<Rightarrow> pdm_mcu_instance \<Rightarrow>
          'e mcu_world \<times> pdm_mcu_instance"
    and xfer_of :: "pdm_mcu_backend_type \<Rightarrow> 'e mcu_world \<Rightarrow> pdm_mcu_instance \<Rightarrow> pdm_mcu_xfer \<Rightarrow>
          (int \<times> 'e mcu_world \<times> pdm_mcu_instance \<times> pdm_mcu_xfer) option"
  assumes cleanup_op: "to_cleanup (ops_of t) = Some (cleanup_of t)"
    and xfer_op: "to_xfer (ops_of t) = Some (xfer_of t)"
    and transport: "mcu_transport good (to_setup (ops_of t)) (cleanup_of t) (xfer_of t) held (res t)"
begin

lemmas xfer_returns = mcu_transport.xfer_returns [OF transport]
lemmas xfer_frame = mcu_transport.xfer_frame [OF transport]
lemmas xfer_buf = mcu_transport.xfer_buf [OF transport]
lemmas xfer_len = mcu_transport.xfer_len [OF transport]
lemmas xfer_ret = mcu_transport.xfer_ret [OF transport]
lemmas res_core = mcu_transport.res_core [OF transport]

text \<open>What an exchange leaves alone.\<close>

definition keeps ::
  "pdm_mcu_backend_type \<Rightarrow> 'e mcu_world \<Rightarrow> pdm_mcu_instance \<Rightarrow> 'e mcu_world \<Rightarrow> pdm_mcu_instance \<Rightarrow> bool" where
  "keeps t w i w' i' \<longleftrightarrow> mcu_core i' = mcu_core i \<and> res t i' = res t i \<and> held w' = held w"

lemma keeps_refl [simp]: "keeps t w i w i"
  by (simp add: keeps_def)

text \<open>Every exchange returns, and stays within the receive buffer.\<close>

lemma protocol_xfer_spec:
  assumes good
  shows "\<exists>ret w' i' rx' act'. pdm_mcu_protocol_xfer (ops_of t) w i c tx tx_len rx rx_len act
       = Some (ret, w', i', rx', act') \<and> ret \<le> 0 \<and> keeps t w i w' i' \<and>
     (rx = None \<longleftrightarrow> rx' = None) \<and> prefix_written (unat rx_len) (buf_of rx) (buf_of rx') \<and>
     (ret = 0 \<longrightarrow> (\<exists>n \<le> rx_len. act' = (case act of None \<Rightarrow> None | Some _ \<Rightarrow> Some n)))"
proof -
  let ?x = "\<lparr>xf_command = c, xf_tx = buf_of tx, xf_tx_len = tx_len, xf_rx = buf_of rx,
             xf_rx_len = rx_len, xf_actual_rx_len = 0\<rparr>"
  obtain r where "xfer_of t w i ?x = Some r" using xfer_returns [OF assms] by blast
  then obtain ret w' i' x' where x: "xfer_of t w i ?x = Some (ret, w', i', x')"
    using prod_cases4 by metis
  consider (bad) "(tx_len \<noteq> 0 \<and> tx = None) \<or> (rx_len \<noteq> 0 \<and> rx = None)"
    | (long) "\<not> ((tx_len \<noteq> 0 \<and> tx = None) \<or> (rx_len \<noteq> 0 \<and> rx = None))"
        "pdm_mcu_protocol_max_tx (ops_of t) < tx_len \<or> pdm_mcu_protocol_max_rx (ops_of t) < rx_len"
    | (sent) "\<not> ((tx_len \<noteq> 0 \<and> tx = None) \<or> (rx_len \<noteq> 0 \<and> rx = None))"
        "\<not> (pdm_mcu_protocol_max_tx (ops_of t) < tx_len \<or> pdm_mcu_protocol_max_rx (ops_of t) < rx_len)"
    by blast
  then show ?thesis
  proof cases
    case bad
    then show ?thesis by (simp only: pdm_mcu_protocol_xfer_def xfer_op option.case if_True) simp
  next
    case long
    then show ?thesis by (simp only: pdm_mcu_protocol_xfer_def xfer_op option.case if_True if_False) simp
  next
    case sent
    let ?rx = "case rx of None \<Rightarrow> None | Some _ \<Rightarrow> Some (xf_rx x')"
    have eq: "pdm_mcu_protocol_xfer (ops_of t) w i c tx tx_len rx rx_len act =
       (if ret \<noteq> 0 then Some (ret, w', i', ?rx, act)
        else if rx_len < xf_actual_rx_len x' then Some (- EMSGSIZE, w', i', ?rx, act)
        else Some (0, w', i', ?rx, case act of None \<Rightarrow> None | Some _ \<Rightarrow> Some (xf_actual_rx_len x')))"
      by (simp only: pdm_mcu_protocol_xfer_def xfer_op option.case sent if_False x prod.case Let_def)
    have k: "keeps t w i w' i'" using xfer_frame [OF x] by (simp add: keeps_def)
    have r: "ret \<le> 0" by (rule xfer_ret [OF x assms])
    have b: "prefix_written (unat rx_len) (buf_of rx) (buf_of ?rx)"
    proof (cases rx)
      case (Some b)
      with xfer_buf [OF x assms] show ?thesis by (simp add: buf_of_def)
    qed simp
    have n: "(rx = None) = (?rx = None)" by (cases rx) simp_all
    show ?thesis
    proof (cases "ret = 0")
      case True
      with x have "xf_actual_rx_len x' \<le> rx_len" using xfer_len [of t w i ?x] assms by fastforce
      with True eq k b n show ?thesis by (simp add: not_less) blast
    next
      case False
      with eq k b n r show ?thesis by simp
    qed
  qed
qed

lemma get_version_spec:
  assumes good
  shows "\<exists>ret w' i' v'. pdm_mcu_protocol_get_version (ops_of t) w i v = Some (ret, w', i', v') \<and>
     ret \<le> 0 \<and> keeps t w i w' i'"
  using protocol_xfer_spec [OF assms, where t = t and w = w and i = i and c = 1
      and tx = "Some (pdm_mcu_protocol_encode_index (mv_index v))" and tx_len = 4
      and rx = "Some (pdm_mcu_version_bytes v)" and rx_len = "of_nat PDM_MCU_VERSION_SIZE"
      and act = "Some (of_nat PDM_MCU_VERSION_SIZE)"]
  by (elim exE conjE) (simp add: pdm_mcu_protocol_get_version_def Let_def)

lemma get_status_spec:
  assumes good
  shows "\<exists>ret w' i' v'. pdm_mcu_protocol_get_status (ops_of t) w i v = Some (ret, w', i', v') \<and>
     ret \<le> 0 \<and> keeps t w i w' i'"
  using protocol_xfer_spec [OF assms, where t = t and w = w and i = i and c = 2
      and tx = "Some (pdm_mcu_protocol_encode_index (ms_index v))" and tx_len = 4
      and rx = "Some (pdm_mcu_status_bytes v)" and rx_len = "of_nat PDM_MCU_STATUS_SIZE"
      and act = "Some (of_nat PDM_MCU_STATUS_SIZE)"]
  by (elim exE conjE) (simp add: pdm_mcu_protocol_get_status_def Let_def)

lemma reset_spec:
  assumes good
  shows "\<exists>ret w' i'. pdm_mcu_protocol_reset (ops_of t) w i n = Some (ret, w', i') \<and>
     ret \<le> 0 \<and> keeps t w i w' i'"
  using protocol_xfer_spec [OF assms, where t = t and w = w and i = i and c = 3
      and tx = "Some (pdm_mcu_protocol_encode_index n)" and tx_len = 4
      and rx = None and rx_len = 0 and act = "Some 0"]
  by (elim exE conjE) (simp add: pdm_mcu_protocol_reset_def)

text \<open>A command that is refused for its form never reaches the bus.\<close>

lemma command_refused:
  assumes "mcu_command_check c \<noteq> 0"
  shows "pdm_mcu_protocol_command ops w i c = Some (mcu_command_check c, w, i, c)"
  using assms by (auto simp: pdm_mcu_protocol_command_def mcu_command_check_def Let_def split: if_splits)

lemma command_spec:
  assumes good
  shows "\<exists>ret w' i' c'. pdm_mcu_protocol_command (ops_of t) w i c = Some (ret, w', i', c') \<and>
     ret \<le> 0 \<and> keeps t w i w' i' \<and> (mcu_command_check c \<noteq> 0 \<longrightarrow> ret = mcu_command_check c) \<and>
     (ret = 0 \<longrightarrow> mcu_command_reply_ok c c')"
proof (cases "mcu_command_check c = 0")
  case False
  show ?thesis
    by (rule exI [of _ "mcu_command_check c"], rule exI [of _ w], rule exI [of _ i], rule exI [of _ c])
       (use False mcu_command_check_neg in \<open>simp add: command_refused\<close>)
next
  case ok: True
  let ?need = "mc_flags c AND PDM_MCU_CMD_F_NEED_RESPONSE \<noteq> 0"
  let ?rx = "if ?need then Some (mc_rx_data c) else None"
  let ?len = "if ?need then mc_rx_len c else 0"
  let ?act = "if ?need then Some (mc_rx_len c) else None"
  obtain ret w' i' rx' act' where x:
    "pdm_mcu_protocol_xfer (ops_of t) w i (mc_command c) (Some (mc_tx_data c)) (mc_tx_len c) ?rx ?len ?act
       = Some (ret, w', i', rx', act')"
    "ret \<le> 0" "keeps t w i w' i'" "?rx = None \<longleftrightarrow> rx' = None"
    "prefix_written (unat ?len) (buf_of ?rx) (buf_of rx')"
    "ret = 0 \<longrightarrow> (\<exists>n \<le> ?len. act' = (case ?act of None \<Rightarrow> None | Some _ \<Rightarrow> Some n))"
    using protocol_xfer_spec [OF assms, where t = t and w = w and i = i and c = "mc_command c"
      and tx = "Some (mc_tx_data c)" and tx_len = "mc_tx_len c" and rx = ?rx and rx_len = ?len and act = ?act]
    by (elim exE conjE)
  let ?c = "case rx' of None \<Rightarrow> c | Some b \<Rightarrow> c\<lparr>mc_rx_data := b\<rparr>"
  have eq: "pdm_mcu_protocol_command (ops_of t) w i c =
     (if ret \<noteq> 0 then Some (ret, w', i', ?c)
      else Some (0, w', i', ?c\<lparr>mc_actual_rx_len := if ?need then the act' else 0\<rparr>))"
    using ok x(1) by (cases ?need) (simp_all add: pdm_mcu_protocol_command_def mcu_command_check_def split: if_splits)
  have "mcu_command_reply_ok c (?c\<lparr>mc_actual_rx_len := if ?need then the act' else 0\<rparr>)" if r: "ret = 0"
  proof (cases ?need)
    case True
    with x(4) obtain b where b: "rx' = Some b" by (cases rx') simp_all
    from True r x(6) obtain n where n: "n \<le> mc_rx_len c" "act' = Some n" by auto
    from True b x(5) have "prefix_written (unat (mc_rx_len c)) (mc_rx_data c) b" by (simp add: buf_of_def)
    with b n True ok show ?thesis by (simp add: mcu_command_reply_ok_def)
  next
    case False
    with x(4) have "rx' = None" by simp
    with False ok show ?thesis by (auto simp: mcu_command_reply_ok_def mcu_command_check_def split: if_splits)
  qed
  with eq x ok show ?thesis by (cases "ret = 0") simp_all
qed

end

section \<open>The transports of the code\<close>

definition mcu_cleanup_of ::
  "'e mcu_api \<Rightarrow> pdm_mcu_backend_type \<Rightarrow> 'e mcu_world \<Rightarrow> pdm_device \<Rightarrow> pdm_mcu_instance \<Rightarrow>
   'e mcu_world \<times> pdm_mcu_instance" where
  "mcu_cleanup_of api t = the (to_cleanup (pdm_mcu_ops api t))"

definition mcu_xfer_of ::
  "'e mcu_api \<Rightarrow> pdm_mcu_backend_type \<Rightarrow> 'e mcu_world \<Rightarrow> pdm_mcu_instance \<Rightarrow> pdm_mcu_xfer \<Rightarrow>
   (int \<times> 'e mcu_world \<times> pdm_mcu_instance \<times> pdm_mcu_xfer) option" where
  "mcu_xfer_of api t = the (to_xfer (pdm_mcu_ops api t))"

lemmas mcu_ops_defs = pdm_mcu_can_ops_def pdm_mcu_i2c_ops_def pdm_mcu_spi_ops_def pdm_mcu_uart_ops_def

interpretation mcus: mcu_transports "mcu_bus_laws api" "pdm_mcu_ops api" mw_held mcu_res
    "mcu_cleanup_of api" "mcu_xfer_of api"
proof (rule mcu_transports.intro, goal_cases)
  case (1 t)
  then show ?case by (cases t) (simp_all add: mcu_cleanup_of_def mcu_ops_defs)
next
  case (2 t)
  then show ?case by (cases t) (simp_all add: mcu_xfer_of_def mcu_ops_defs)
next
  case (3 t)
  then show ?case
    by (cases t) (simp_all add: mcu_cleanup_of_def mcu_xfer_of_def mcu_ops_defs can.mcu_transport_axioms
        i2c.mcu_transport_axioms spi.mcu_transport_axioms uart.mcu_transport_axioms)
qed

end
