(* ===== verification/Pdm_Mcu_Wire.thy ===== *)
theory Pdm_Mcu_Wire
  imports Pdm_Mcu_Ops
begin

unbundle bit_operations_syntax

text \<open>
  What a command is on the wire: the identifier of a CAN frame, the prefix of an I2C or SPI
  message, and the four bytes that open a UART message; and that a UART exchange comes to an end.
\<close>

section \<open>CAN identifiers\<close>

lemma can_masks:
  "(0x7FF :: u32) = mask 11" "(0x1FFFFFFF :: u32) = mask 29" "(0x80000000 :: u32) = 2 ^ 31"
  by (simp_all add: mask_eq_exp_minus_1)

lemma can_small: "\<not> (0x7FF :: u32) < nid \<Longrightarrow> take_bit 11 nid = nid"
proof -
  assume "\<not> (0x7FF :: u32) < nid"
  then have "unat nid < 2 ^ 11" by (simp add: not_less word_le_nat_alt)
  then have "unat (take_bit 11 nid) = unat nid"
    by (simp only: unsigned_take_bit_eq take_bit_nat_eq_self)
  then show ?thesis by (simp only: word_unat_eq_iff)
qed

lemma flag_bits:
  fixes x :: u32
  assumes "m \<le> k"
  shows "((x AND mask m) OR 2 ^ k) AND 2 ^ k = 2 ^ k"
    and "((x AND mask m) OR 2 ^ k) AND mask m = x AND mask m"
    and "take_bit m x = x \<Longrightarrow> x AND 2 ^ k = 0"
proof -
  show "((x AND mask m) OR 2 ^ k) AND 2 ^ k = 2 ^ k" by (rule bit_eqI) (auto simp: bit_simps)
  show "((x AND mask m) OR 2 ^ k) AND mask m = x AND mask m"
    using assms by (intro bit_eqI) (auto simp: bit_simps)
  assume "take_bit m x = x"
  then have "bit x n \<longleftrightarrow> n < m \<and> bit x n" for n by (metis bit_take_bit_iff)
  with assms have "\<not> bit x k" by (meson not_less)
  then show "x AND 2 ^ k = 0" by (intro bit_eqI) (auto simp: bit_simps)
qed

lemma can_strip_make: "pdm_mcu_can_strip_id (pdm_mcu_can_make_id inst nid) = nid AND CAN_EFF_MASK"
proof (cases "ca_extended_id (mu_can inst) \<or> CAN_SFF_MASK < nid")
  case True
  have "(2 ^ 31 :: u32) \<noteq> 0" by simp
  with True flag_bits(1,2) [of 29 31 nid] show ?thesis
    unfolding pdm_mcu_can_strip_id_def pdm_mcu_can_make_id_def can_masks by simp
next
  case False
  then have s: "take_bit 11 nid = nid" using can_small by blast
  have "take_bit 29 nid = take_bit 29 (take_bit 11 nid)" by (simp only: s)
  also have "\<dots> = nid" by (simp only: take_bit_take_bit) (simp add: s)
  finally have n: "nid AND mask 29 = nid" by (simp only: take_bit_eq_mask [symmetric])
  have "nid AND mask 11 = nid" by (simp only: take_bit_eq_mask [symmetric] s)
  with n flag_bits(3) [of 11 31 nid] s False show ?thesis
    unfolding pdm_mcu_can_strip_id_def pdm_mcu_can_make_id_def can_masks by simp
qed


text \<open>
  The command carried by a CAN frame is read back as sent up to 29 bits: \<open>strip_id\<close> undoes
  \<open>make_id\<close> on both frame formats, and a command with a higher bit set arrives without it.
\<close>

theorem can_id_roundtrip:
  "pdm_mcu_can_strip_id (pdm_mcu_can_make_id inst nid) = nid AND CAN_EFF_MASK \<and>
   (pdm_mcu_can_strip_id (pdm_mcu_can_make_id inst nid) = nid \<longleftrightarrow> unat nid < 2 ^ 29)"
proof -
  have "unat (take_bit 29 nid) = unat nid mod 2 ^ 29"
    by (simp only: unsigned_take_bit_eq) (simp only: take_bit_eq_mod)
  then have "take_bit 29 nid = nid \<longleftrightarrow> unat nid mod 2 ^ 29 = unat nid" by (simp only: word_unat_eq_iff)
  also have "\<dots> \<longleftrightarrow> unat nid < 2 ^ 29" by (metis mod_less mod_less_divisor zero_less_numeral zero_less_power)
  finally show ?thesis unfolding can_strip_make can_masks take_bit_eq_mask [symmetric] by blast
qed

section \<open>Command prefixes\<close>

text \<open>The number that bytes denote, the most significant first.\<close>

definition be_value :: "u8 list \<Rightarrow> nat" where
  "be_value bs = foldl (\<lambda>a b. 256 * a + unat b) 0 bs"

lemma foldl_map_upt_Suc: "foldl f a (map g [0..<Suc n]) = f (foldl f a (map g [0..<n])) (g n)"
  by simp

lemma be_step: "unat (take_bit k (drop_bit 8 v :: u32)) * 256 + unat (ucast v :: u8) = unat (take_bit (k + 8) v)"
proof -
  have u8: "unat (ucast v :: u8) = take_bit 8 (unat v)" by (simp add: unsigned_ucast_eq)
  have "unat (take_bit (k + 8) v) = take_bit (k + 8) (unat v)" 
    by (simp add: unsigned_take_bit_eq)
  also have "\<dots> = unat v mod (256 * 2 ^ k)" by (simp add: take_bit_eq_mod power_add mult.commute)
  also have "\<dots> = 256 * (unat v div 256 mod 2 ^ k) + unat v mod 256" by (rule mod_mult2_eq)
  also have "unat v div 256 mod 2 ^ k = unat (take_bit k (drop_bit 8 v))"
    by (simp only: unsigned_take_bit_eq unat_drop_bit_eq) (simp add: drop_bit_eq_div take_bit_eq_mod)
  finally show ?thesis using u8 by (simp add: take_bit_eq_mod)
qed

lemma be_value_prefix:
  "be_value (map (\<lambda>i. ucast (drop_bit (8 * (n - i - 1)) v)) [0..<n]) = unat (take_bit (8 * n) (v :: u32))"
proof (induction n arbitrary: v)
  case 0
  then show ?case by (simp add: be_value_def)
next
  case (Suc n)
  let ?f = "\<lambda>w i. ucast (drop_bit (8 * (n - i - 1)) w) :: u8"
  have m: "map (\<lambda>i. ucast (drop_bit (8 * (Suc n - i - 1)) v)) [0..<n] = map (?f (drop_bit 8 v)) [0..<n]"
  proof (rule map_cong [OF refl])
    fix i assume "i \<in> set [0..<n]"
    then have "8 * (Suc n - i - 1) = 8 * (n - i - 1) + 8" by auto
    then show "ucast (drop_bit (8 * (Suc n - i - 1)) v) = ?f (drop_bit 8 v) i"
      by (simp only: drop_bit_drop_bit)
  qed
  have "be_value (map (\<lambda>i. ucast (drop_bit (8 * (Suc n - i - 1)) v)) [0..<Suc n])
      = 256 * be_value (map (?f (drop_bit 8 v)) [0..<n]) + unat (ucast v :: u8)"
    unfolding be_value_def foldl_map_upt_Suc m by simp
  with Suc.IH [of "drop_bit 8 v"] be_step [of "8 * n" v] show ?case
    by (simp add: add.commute)
qed

text \<open>
  On I2C and SPI a command is sent in as many bytes as the instance's prefix has, the most
  significant first, and is read back modulo \<open>256 ^ bytes\<close>: it survives exactly when it fits. On
  UART its four bytes carry it whole.
\<close>

theorem command_prefix_value:
  "length (pdm_mcu_i2c_encode_prefix v n) = unat n \<and>
   be_value (pdm_mcu_i2c_encode_prefix v n) = unat v mod 256 ^ unat n \<and>
   pdm_mcu_spi_encode_prefix v n = pdm_mcu_i2c_encode_prefix v n \<and>
   be_value (pdm_mcu_uart_encode_be32 v) = unat v"
proof -
  have pow: "256 ^ k = (2 ^ (8 * k) :: nat)" for k by (simp add: power_mult)
  have take: "unat (take_bit (8 * k) v) = unat v mod 256 ^ k" for k
    by (simp only: unsigned_take_bit_eq) (simp only: take_bit_eq_mod pow)
  have be32: "pdm_mcu_uart_encode_be32 v = map (\<lambda>i. ucast (drop_bit (8 * (4 - i - 1)) v)) [0..<4]"
    by (simp add: pdm_mcu_uart_encode_be32_def upt_rec)
  have "unat v < 256 ^ 4" using unsigned_less [of v] by simp
  then have "be_value (pdm_mcu_uart_encode_be32 v) = unat v"
    unfolding be32 be_value_prefix take by (rule mod_less)
  moreover have "be_value (pdm_mcu_i2c_encode_prefix v n) = unat v mod 256 ^ unat n"
    unfolding pdm_mcu_i2c_encode_prefix_def be_value_prefix take ..
  ultimately show ?thesis
    by (simp add: pdm_mcu_i2c_encode_prefix_def pdm_mcu_spi_encode_prefix_def)
qed

section \<open>UART exchanges\<close>

text \<open>
  C17. A UART exchange returns: the write loop and the read loop end whatever the port does, within
  the laws of its clock. The answer overwrites a prefix of the caller's buffer no longer than the
  length asked for, and a success reports at most that length.
\<close>

theorem uart_transfer_returns:
  assumes "serdev_laws api"
  shows "\<exists>ret w' i' x'. pdm_mcu_uart_xfer api w i x = Some (ret, w', i', x') \<and>
     prefix_written (unat (xf_rx_len x)) (xf_rx x) (xf_rx x') \<and>
     (ret = 0 \<longrightarrow> xf_actual_rx_len x' \<le> xf_rx_len x)"
  using assms by (rule uart_xfer_returns)

text \<open>A port at which one byte arrives per tick; the state of the buses is the clock.\<close>

definition example_mcu_api :: "nat mcu_api" where
  "example_mcu_api = \<lparr>ma_i2c_transfer = (\<lambda>s ms e. (int (length ms), replicate 40 7, e)),
     ma_spi_sync = (\<lambda>s xs e. (0, replicate 40 7, e)),
     ma_sendmsg = (\<lambda>s f e. (CAN_MTU, e)),
     ma_recvmsg = (\<lambda>s e. (CAN_MTU, \<lparr>cf_can_id = 1, cf_len = 2, cf_data = replicate 8 7\<rparr>, e)),
     ma_parse_phandle = (\<lambda>np p. Some 3), ma_net_device_by_node = Some,
     ma_sock_create = (\<lambda>e. Inr 0), ma_bind = (\<lambda>s n e. 0), ma_serdev_open = (\<lambda>s e. 0),
     ma_set_baudrate = (\<lambda>s b. b), ma_serdev_write = (\<lambda>s bs e. (int (length bs), e)),
     ma_wait_until_sent = (\<lambda>s t e. e), ma_wait_event = (\<lambda>t e. (1, [7], Suc e)),
     ma_jiffies = (\<lambda>e. e), ma_msleep = Suc, ma_msecs_to_jiffies = unat\<rparr>"

lemma example_mcu_laws: "mcu_bus_laws example_mcu_api"
  by (simp add: mcu_bus_laws_def serdev_laws_def example_mcu_api_def)

theorem uart_transfer_returns_witness:
  "\<exists>ret w' i' x'. pdm_mcu_uart_xfer example_mcu_api
      \<lparr>mw_ext = 0, mw_held = {#SERDEV 5#}, mw_bus_devs = \<lambda>a. \<lparr>bd_type = PDM_MCU_BACKEND_UART,
         bd_pdm_dev = Some ''mcu'', bd_inst = Some 1, bd_bus = Some 5\<rparr>\<rparr>
      \<lparr>in_lock = False, in_online = True, mu_addr = 1, mu_ops = Some PDM_MCU_BACKEND_UART, mu_state = 0,
         mu_last_error = 0,
         mu_uart = \<lparr>ua_serdev = Some 5, ua_bus_dev = Some 0, ua_rx_fifo = [1], ua_baudrate = 115200, ua_rx_timeout_ms = 100\<rparr>,
         mu_can = \<lparr>ca_sock = None, ca_netdev = None, ca_rx_timeout_ms = 0, ca_extended_id = False\<rparr>,
         mu_i2c = \<lparr>px_client = None, px_rx_timeout_ms = 0, px_command_bytes = 0\<rparr>,
         mu_spi = \<lparr>px_client = None, px_rx_timeout_ms = 0, px_command_bytes = 0\<rparr>\<rparr>
      \<lparr>xf_command = 3, xf_tx = [9], xf_tx_len = 1, xf_rx = replicate 4 0, xf_rx_len = 4, xf_actual_rx_len = 0\<rparr>
      = Some (ret, w', i', x') \<and>
     prefix_written 4 (replicate 4 0) (xf_rx x') \<and> (ret = 0 \<longrightarrow> xf_actual_rx_len x' \<le> 4)"
  using uart_transfer_returns [OF uart_laws [OF example_mcu_laws], where
      x = "\<lparr>xf_command = 3, xf_tx = [9], xf_tx_len = 1, xf_rx = replicate 4 0, xf_rx_len = 4, xf_actual_rx_len = 0\<rparr>"]
  by simp

end
