(* ===== verification/Pdm_Mcu.thy ===== *)
theory Pdm_Mcu
  imports Pdm_Mcu_Protocol Pdm_Mcu_Wire Pdm_Cdev Pdm_Bus
begin

unbundle bit_operations_syntax

text \<open>
  The MCU driver, \<open>src/kernel/pdm/drivers/mcu/pdm_mcu.c\<close>: matching, the state kept for discovery and
  the ioctl handlers. A handler works on \<open>mcu_ctx\<close>: the buses, the device that the instance belongs
  to, and the instance. A handler that has to wait for the mutex, or follows a null \<open>ops\<close>, is \<open>None\<close>.
\<close>

section \<open>Matching\<close>

fun pdm_mcu_default_compatible :: "pdm_mcu_backend_type \<Rightarrow> string" where
  "pdm_mcu_default_compatible PDM_MCU_BACKEND_UART = ''pdm,mcu-uart''"
| "pdm_mcu_default_compatible PDM_MCU_BACKEND_I2C = ''pdm,mcu-i2c''"
| "pdm_mcu_default_compatible PDM_MCU_BACKEND_SPI = ''pdm,mcu-spi''"
| "pdm_mcu_default_compatible PDM_MCU_BACKEND_CAN = ''pdm,mcu-can''"

text \<open>The cast to \<open>int\<close> makes an id from \<open>2 ^ 31\<close> on negative, which asks for no id.\<close>

definition pdm_mcu_bus_device_id :: "dt_node option \<Rightarrow> int" where
  "pdm_mcu_bus_device_id np =
     (case np of
        None \<Rightarrow> - 1
      | Some n \<Rightarrow> (case dt_u32 n ''pdm,id'' of
          Some v \<Rightarrow> sint v
        | None \<Rightarrow> (case dt_u32 n ''pdm,index'' of Some v \<Rightarrow> sint v | None \<Rightarrow> - 1)))"

definition strstarts :: "string \<Rightarrow> string \<Rightarrow> bool" where
  "strstarts str prefix \<longleftrightarrow> take (length prefix) str = prefix"

definition pdm_mcu_has_transport_compatible :: "string option \<Rightarrow> bool" where
  "pdm_mcu_has_transport_compatible compatible =
     (case compatible of None \<Rightarrow> False
      | Some c \<Rightarrow> strstarts c ''pdm,mcu-'' \<or> strstarts c ''vendor,pdm-mcu-'')"

definition pdm_mcu_match :: "pdm_device option \<Rightarrow> bool" where
  "pdm_mcu_match dev =
     (case dev of None \<Rightarrow> False | Some d \<Rightarrow> pdm_mcu_has_transport_compatible (pd_compatible d))"

section \<open>The state of an MCU\<close>

record 'e mcu_ctx =
  cx_world :: "'e mcu_world"
  cx_dev :: pdm_device
  cx_inst :: pdm_mcu_instance

definition pdm_mcu_update_state_locked :: "'e mcu_ctx \<Rightarrow> int \<Rightarrow> 'e mcu_ctx" where
  "pdm_mcu_update_state_locked cx ret =
     (let inst = cx_inst cx; d = cx_dev cx; online = in_online inst
      in if ret < 0 then
           let d' = d\<lparr>pd_last_error := ret, pd_error_count := pd_error_count d + 1\<rparr>
           in cx\<lparr>cx_inst := inst\<lparr>mu_state := if online then PDM_MCU_STATE_ERROR else PDM_MCU_STATE_OFFLINE,
                                 mu_last_error := ret\<rparr>,
                 cx_dev := if online then d'\<lparr>pd_state := PDM_MANAGER_DEVICE_STATE_ERROR\<rparr> else d'\<rparr>
         else
           let d' = d\<lparr>pd_last_error := 0\<rparr>
           in cx\<lparr>cx_inst := inst\<lparr>mu_state := if online then PDM_MCU_STATE_READY else PDM_MCU_STATE_OFFLINE,
                                 mu_last_error := 0\<rparr>,
                 cx_dev := if online then d'\<lparr>pd_state := PDM_MANAGER_DEVICE_STATE_BOUND\<rparr> else d'\<rparr>)"

definition pdm_mcu_claim_device :: "'e mcu_ctx \<Rightarrow> (int \<times> 'e mcu_ctx) option" where
  "pdm_mcu_claim_device cx =
     (case pdm_driver_claim (cx_inst cx) of
        None \<Rightarrow> None
      | Some (ret, inst) \<Rightarrow>
          if ret \<noteq> 0 then Some (ret, cx\<lparr>cx_inst := inst\<rparr>)
          else if mu_ops inst = None then Some (- EOPNOTSUPP, cx\<lparr>cx_inst := pdm_driver_release inst\<rparr>)
          else Some (0, cx\<lparr>cx_inst := inst\<rparr>))"

definition pdm_mcu_release_device :: "'e mcu_ctx \<Rightarrow> int \<Rightarrow> 'e mcu_ctx" where
  "pdm_mcu_release_device cx ret =
     (let cx1 = pdm_mcu_update_state_locked cx ret
      in cx1\<lparr>cx_inst := pdm_driver_release (cx_inst cx1)\<rparr>)"

section \<open>Handlers\<close>

definition pdm_mcu_get_info ::
  "pdm_cdev \<Rightarrow> int \<Rightarrow> pdm_mcu_info user_buf \<Rightarrow> int \<times> pdm_mcu_info user_buf" where
  "pdm_mcu_get_info client device_count arg =
     (let info = \<lparr>ui_abi_version = PDM_MCU_ABI_VERSION, ui_version_major = 1, ui_version_minor = 0,
                  ui_version_patch = 0, ui_open_count = pdm_cdev_open_count (Some client),
                  ui_max_devices = pdm_driver_count_get device_count\<rparr>;
          (ok, arg') = copy_to_user arg info
      in if ok then (0, arg') else (- EFAULT, arg'))"

definition pdm_mcu_get_version ::
  "(pdm_mcu_backend_type \<Rightarrow> 'e pdm_mcu_transport_ops) \<Rightarrow> 'e mcu_ctx \<Rightarrow> pdm_mcu_version user_buf \<Rightarrow>
   (int \<times> 'e mcu_ctx \<times> pdm_mcu_version user_buf) option" where
  "pdm_mcu_get_version ops_of cx arg =
     (case copy_from_user arg of
        None \<Rightarrow> Some (- EFAULT, cx, arg)
      | Some version \<Rightarrow>
          (case pdm_mcu_claim_device cx of
             None \<Rightarrow> None
           | Some (ret, cx1) \<Rightarrow>
               if ret \<noteq> 0 then Some (ret, cx1, arg)
               else
                 (case pdm_mcu_protocol_get_version (ops_of (the (mu_ops (cx_inst cx1)))) (cx_world cx1)
                         (cx_inst cx1) version of
                    None \<Rightarrow> None
                  | Some (ret, w, inst, version') \<Rightarrow>
                      let cx2 = pdm_mcu_release_device (cx1\<lparr>cx_world := w, cx_inst := inst\<rparr>) ret
                      in if ret \<noteq> 0 then Some (ret, cx2, arg)
                         else case copy_to_user arg version' of
                                (ok, arg') \<Rightarrow> Some (if ok then 0 else - EFAULT, cx2, arg'))))"

definition pdm_mcu_get_status ::
  "(pdm_mcu_backend_type \<Rightarrow> 'e pdm_mcu_transport_ops) \<Rightarrow> 'e mcu_ctx \<Rightarrow> pdm_mcu_status user_buf \<Rightarrow>
   (int \<times> 'e mcu_ctx \<times> pdm_mcu_status user_buf) option" where
  "pdm_mcu_get_status ops_of cx arg =
     (case copy_from_user arg of
        None \<Rightarrow> Some (- EFAULT, cx, arg)
      | Some status \<Rightarrow>
          (case pdm_mcu_claim_device cx of
             None \<Rightarrow> None
           | Some (ret, cx1) \<Rightarrow>
               if ret \<noteq> 0 then Some (ret, cx1, arg)
               else
                 (case pdm_mcu_protocol_get_status (ops_of (the (mu_ops (cx_inst cx1)))) (cx_world cx1)
                         (cx_inst cx1) status of
                    None \<Rightarrow> None
                  | Some (ret, w, inst, status') \<Rightarrow>
                      let cx2 = pdm_mcu_release_device (cx1\<lparr>cx_world := w, cx_inst := inst\<rparr>) ret
                      in if ret \<noteq> 0 then Some (ret, cx2, arg)
                         else case copy_to_user arg status' of
                                (ok, arg') \<Rightarrow> Some (if ok then 0 else - EFAULT, cx2, arg'))))"

definition pdm_mcu_reset ::
  "(pdm_mcu_backend_type \<Rightarrow> 'e pdm_mcu_transport_ops) \<Rightarrow> 'e mcu_ctx \<Rightarrow> u32 user_buf \<Rightarrow>
   (int \<times> 'e mcu_ctx) option" where
  "pdm_mcu_reset ops_of cx arg =
     (case copy_from_user arg of
        None \<Rightarrow> Some (- EFAULT, cx)
      | Some index \<Rightarrow>
          (case pdm_mcu_claim_device cx of
             None \<Rightarrow> None
           | Some (ret, cx1) \<Rightarrow>
               if ret \<noteq> 0 then Some (ret, cx1)
               else
                 (case pdm_mcu_protocol_reset (ops_of (the (mu_ops (cx_inst cx1)))) (cx_world cx1)
                         (cx_inst cx1) index of
                    None \<Rightarrow> None
                  | Some (ret, w, inst) \<Rightarrow>
                      Some (ret, pdm_mcu_release_device (cx1\<lparr>cx_world := w, cx_inst := inst\<rparr>) ret))))"

definition pdm_mcu_command_ioctl ::
  "(pdm_mcu_backend_type \<Rightarrow> 'e pdm_mcu_transport_ops) \<Rightarrow> 'e mcu_ctx \<Rightarrow> pdm_mcu_command user_buf \<Rightarrow>
   (int \<times> 'e mcu_ctx \<times> pdm_mcu_command user_buf) option" where
  "pdm_mcu_command_ioctl ops_of cx arg =
     (case copy_from_user arg of
        None \<Rightarrow> Some (- EFAULT, cx, arg)
      | Some command \<Rightarrow>
          (case pdm_mcu_claim_device cx of
             None \<Rightarrow> None
           | Some (ret, cx1) \<Rightarrow>
               if ret \<noteq> 0 then Some (ret, cx1, arg)
               else
                 (case pdm_mcu_protocol_command (ops_of (the (mu_ops (cx_inst cx1)))) (cx_world cx1)
                         (cx_inst cx1) command of
                    None \<Rightarrow> None
                  | Some (ret, w, inst, command') \<Rightarrow>
                      let cx2 = pdm_mcu_release_device (cx1\<lparr>cx_world := w, cx_inst := inst\<rparr>) ret
                      in if ret \<noteq> 0 then Some (ret, cx2, arg)
                         else case copy_to_user arg command' of
                                (ok, arg') \<Rightarrow> Some (if ok then 0 else - EFAULT, cx2, arg'))))"

fun pdm_mcu_ioctl ::
  "(pdm_mcu_backend_type \<Rightarrow> 'e pdm_mcu_transport_ops) \<Rightarrow> int \<Rightarrow> pdm_cdev option \<Rightarrow> 'e mcu_ctx \<Rightarrow>
   pdm_mcu_request \<Rightarrow> (int \<times> 'e mcu_ctx \<times> pdm_mcu_request) option" where
  "pdm_mcu_ioctl ops_of cnt None cx req = Some (- ENODEV, cx, req)"
| "pdm_mcu_ioctl ops_of cnt (Some client) cx (MCU_GET_INFO arg) =
     (case pdm_mcu_get_info client cnt arg of (ret, arg') \<Rightarrow> Some (ret, cx, MCU_GET_INFO arg'))"
| "pdm_mcu_ioctl ops_of cnt (Some client) cx (MCU_GET_VERSION arg) =
     (case pdm_mcu_get_version ops_of cx arg of
        None \<Rightarrow> None | Some (ret, cx', arg') \<Rightarrow> Some (ret, cx', MCU_GET_VERSION arg'))"
| "pdm_mcu_ioctl ops_of cnt (Some client) cx (MCU_GET_STATUS arg) =
     (case pdm_mcu_get_status ops_of cx arg of
        None \<Rightarrow> None | Some (ret, cx', arg') \<Rightarrow> Some (ret, cx', MCU_GET_STATUS arg'))"
| "pdm_mcu_ioctl ops_of cnt (Some client) cx (MCU_RESET arg) =
     (case pdm_mcu_reset ops_of cx arg of
        None \<Rightarrow> None | Some (ret, cx') \<Rightarrow> Some (ret, cx', MCU_RESET arg))"
| "pdm_mcu_ioctl ops_of cnt (Some client) cx (MCU_COMMAND arg) =
     (case pdm_mcu_command_ioctl ops_of cx arg of
        None \<Rightarrow> None | Some (ret, cx', arg') \<Rightarrow> Some (ret, cx', MCU_COMMAND arg'))"
| "pdm_mcu_ioctl ops_of cnt (Some client) cx (MCU_UNKNOWN c) = Some (- ENOTTY, cx, MCU_UNKNOWN c)"

section \<open>The specification of a session\<close>

text \<open>
  What discovery can know of an MCU is its last error and its error count. An exchange that
  succeeds clears the error, one that fails records it and counts.
\<close>

definition mcu_view :: "'e mcu_ctx \<Rightarrow> int \<times> u32" where
  "mcu_view cx = (pd_last_error (cx_dev cx), pd_error_count (cx_dev cx))"

text \<open>What no request changes of the device.\<close>

definition mcu_dev_identity :: "pdm_device \<Rightarrow> pdm_device" where
  "mcu_dev_identity d = d\<lparr>pd_last_error := 0, pd_error_count := 0, pd_state := 0\<rparr>"

lemma mcu_dev_identity_sel:
  "mcu_dev_identity d = mcu_dev_identity e \<Longrightarrow> pd_drvdata d = pd_drvdata e \<and> pd_name d = pd_name e \<and>
     pd_type d = pd_type e \<and> pd_id d = pd_id e \<and> pd_id_allocated d = pd_id_allocated e \<and>
     pd_capabilities d = pd_capabilities e \<and> pd_driver d = pd_driver e"
  by (cases d; cases e) (simp add: mcu_dev_identity_def)

definition mcu_at_rest :: "pdm_mcu_backend_type \<Rightarrow> 'e mcu_ctx \<Rightarrow> bool" where
  "mcu_at_rest t cx \<longleftrightarrow>
     \<not> in_lock (cx_inst cx) \<and> in_online (cx_inst cx) \<and> mu_ops (cx_inst cx) = Some t \<and>
     mu_last_error (cx_inst cx) = pd_last_error (cx_dev cx) \<and> pd_last_error (cx_dev cx) \<le> 0 \<and>
     (if pd_last_error (cx_dev cx) = 0
      then mu_state (cx_inst cx) = PDM_MCU_STATE_READY \<and> pd_state (cx_dev cx) = PDM_MANAGER_DEVICE_STATE_BOUND
      else mu_state (cx_inst cx) = PDM_MCU_STATE_ERROR \<and> pd_state (cx_dev cx) = PDM_MANAGER_DEVICE_STATE_ERROR)"

definition mcu_after :: "int \<Rightarrow> int \<times> u32 \<Rightarrow> int \<times> u32" where
  "mcu_after r v = (if r < 0 then (r, snd v + 1) else (0, snd v))"

text \<open>An exchange with result \<open>r\<close>: a success is reported unless the answer cannot be handed over.\<close>

definition mcu_exchange_ok :: "'a user_buf \<Rightarrow> bool \<Rightarrow> int \<times> u32 \<Rightarrow> int \<Rightarrow> int \<times> u32 \<Rightarrow> bool" where
  "mcu_exchange_ok arg handed v ret v' \<longleftrightarrow>
     (if ub_readable arg
      then \<exists>r \<le> 0. v' = mcu_after r v \<and> ret = (if r = 0 \<and> handed then 0 else if r = 0 then - EFAULT else r)
      else ret = - EFAULT \<and> v' = v)"

fun mcu_reply_ok :: "int \<times> u32 \<Rightarrow> pdm_mcu_request \<times> int \<times> pdm_mcu_request \<Rightarrow> int \<times> u32 \<Rightarrow> bool" where
  "mcu_reply_ok v (MCU_GET_INFO arg, ret, req') v' \<longleftrightarrow>
     v' = v \<and> ret = (if ub_writable arg then 0 else - EFAULT)"
| "mcu_reply_ok v (MCU_GET_VERSION arg, ret, req') v' \<longleftrightarrow>
     mcu_exchange_ok arg (ub_writable arg) v ret v' \<and>
     (\<exists>arg'. req' = MCU_GET_VERSION arg' \<and> (ret = 0 \<or> arg' = arg))"
| "mcu_reply_ok v (MCU_GET_STATUS arg, ret, req') v' \<longleftrightarrow>
     mcu_exchange_ok arg (ub_writable arg) v ret v' \<and>
     (\<exists>arg'. req' = MCU_GET_STATUS arg' \<and> (ret = 0 \<or> arg' = arg))"
| "mcu_reply_ok v (MCU_RESET arg, ret, req') v' \<longleftrightarrow> mcu_exchange_ok arg True v ret v' \<and> req' = MCU_RESET arg"
| "mcu_reply_ok v (MCU_COMMAND arg, ret, req') v' \<longleftrightarrow>
     mcu_exchange_ok arg (ub_writable arg) v ret v' \<and>
     (\<exists>arg'. req' = MCU_COMMAND arg' \<and>
        (if ret = 0 then mcu_command_reply_ok (ub_val arg) (ub_val arg') else arg' = arg)) \<and>
     (ub_readable arg \<and> mcu_command_check (ub_val arg) \<noteq> 0 \<longrightarrow> ret = mcu_command_check (ub_val arg))"
| "mcu_reply_ok v (MCU_UNKNOWN c, ret, req') v' \<longleftrightarrow> v' = v \<and> ret = - ENOTTY \<and> req' = MCU_UNKNOWN c"

fun mcu_session ::
  "(pdm_mcu_backend_type \<Rightarrow> 'e pdm_mcu_transport_ops) \<Rightarrow> int \<Rightarrow> pdm_cdev \<Rightarrow> 'e mcu_ctx \<Rightarrow>
   pdm_mcu_request list \<Rightarrow> ((pdm_mcu_request \<times> int \<times> pdm_mcu_request) list \<times> 'e mcu_ctx) option" where
  "mcu_session ops_of cnt client cx [] = Some ([], cx)"
| "mcu_session ops_of cnt client cx (req # reqs) =
     (case pdm_mcu_ioctl ops_of cnt (Some client) cx req of
        None \<Rightarrow> None
      | Some (ret, cx1, req') \<Rightarrow>
          (case mcu_session ops_of cnt client cx1 reqs of
             None \<Rightarrow> None
           | Some (tr, cx2) \<Rightarrow> Some ((req, ret, req') # tr, cx2)))"

fun mcu_trace_ok ::
  "int \<times> u32 \<Rightarrow> (pdm_mcu_request \<times> int \<times> pdm_mcu_request) list \<Rightarrow> int \<times> u32 \<Rightarrow> bool" where
  "mcu_trace_ok v [] v' \<longleftrightarrow> v' = v"
| "mcu_trace_ok v (x # tr) v' \<longleftrightarrow> (\<exists>v1. mcu_reply_ok v x v1 \<and> mcu_trace_ok v1 tr v')"

section \<open>Every handler is a step of it\<close>

lemma claim_at_rest:
  assumes "mcu_at_rest t cx"
  shows "pdm_mcu_claim_device cx = Some (0, cx\<lparr>cx_inst := (cx_inst cx)\<lparr>in_lock := True\<rparr>\<rparr>)"
  using assms by (simp add: pdm_mcu_claim_device_def mcu_at_rest_def)

lemma release_at_rest:
  assumes rest: "mcu_at_rest t cx"
    and core: "mcu_core i = mcu_core ((cx_inst cx)\<lparr>in_lock := True\<rparr>)" and "r \<le> 0"
    and cx': "cx' = pdm_mcu_release_device (cx\<lparr>cx_world := w, cx_inst := i\<rparr>) r"
  shows "mcu_at_rest t cx'" and "mcu_view cx' = mcu_after r (mcu_view cx)"
    and "cx_world cx' = w" and "in_online (cx_inst cx') \<and> mu_addr (cx_inst cx') = mu_addr (cx_inst cx) \<and>
      mcu_dev_identity (cx_dev cx') = mcu_dev_identity (cx_dev cx)"
  using assms by (auto simp: mcu_dev_identity_def pdm_mcu_release_device_def pdm_mcu_update_state_locked_def Let_def mcu_at_rest_def
      mcu_core_def mcu_view_def mcu_after_def pdm_driver_release_def mutex_unlock_def)

context mcu_transports
begin

lemmas res_simps [simp] = res_core

text \<open>What a request leaves alone, beside bringing the instance back to rest.\<close>

definition mcu_frame :: "pdm_mcu_backend_type \<Rightarrow> 'e mcu_ctx \<Rightarrow> 'e mcu_ctx \<Rightarrow> bool" where
  "mcu_frame t cx cx' \<longleftrightarrow> mcu_at_rest t cx' \<and> held (cx_world cx') = held (cx_world cx) \<and>
     res t (cx_inst cx') = res t (cx_inst cx) \<and> mu_addr (cx_inst cx') = mu_addr (cx_inst cx) \<and>
     mcu_dev_identity (cx_dev cx') = mcu_dev_identity (cx_dev cx)"

lemma frame_refl: "mcu_at_rest t cx \<Longrightarrow> mcu_frame t cx cx"
  by (simp add: mcu_frame_def)

lemma frame_trans: "mcu_frame t cx cx1 \<Longrightarrow> mcu_frame t cx1 cx2 \<Longrightarrow> mcu_frame t cx cx2"
  by (simp add: mcu_frame_def)

lemma res_released:
  "res t (cx_inst (pdm_mcu_release_device (cx\<lparr>cx_world := w, cx_inst := i\<rparr>) r)) = res t i"
  by (simp add: pdm_mcu_release_device_def pdm_mcu_update_state_locked_def Let_def
      pdm_driver_release_def mutex_unlock_def)

lemma exchange_done:
  "ub_readable arg \<Longrightarrow> r \<le> 0 \<Longrightarrow> v' = mcu_after r v \<Longrightarrow>
   ret = (if r = 0 \<and> handed then 0 else if r = 0 then - EFAULT else r) \<Longrightarrow> mcu_exchange_ok arg handed v ret v'"
  by (auto simp: mcu_exchange_ok_def)

text \<open>An exchange between claim and release.\<close>

lemma exchange_step:
  assumes rest: "mcu_at_rest t cx" and r: "r \<le> 0"
    and k: "keeps t (cx_world cx) ((cx_inst cx)\<lparr>in_lock := True\<rparr>) w i"
  shows "mcu_frame t cx (pdm_mcu_release_device (cx\<lparr>cx_world := w, cx_inst := i\<rparr>) r) \<and>
     mcu_view (pdm_mcu_release_device (cx\<lparr>cx_world := w, cx_inst := i\<rparr>) r) = mcu_after r (mcu_view cx)"
proof -
  have core: "mcu_core i = mcu_core ((cx_inst cx)\<lparr>in_lock := True\<rparr>)" using k by (simp add: keeps_def)
  note rel = release_at_rest [OF rest core r refl, of w]
  show ?thesis using rel k by (simp add: mcu_frame_def res_released keeps_def)
qed

lemma get_version_step:
  assumes rest: "mcu_at_rest t cx" and good
  shows "\<exists>ret cx' arg'. pdm_mcu_get_version ops_of cx arg = Some (ret, cx', arg') \<and> mcu_frame t cx cx' \<and>
     mcu_reply_ok (mcu_view cx) (MCU_GET_VERSION arg, ret, MCU_GET_VERSION arg') (mcu_view cx')"
proof (cases "ub_readable arg")
  case False
  then show ?thesis
    using frame_refl [OF rest] by (simp add: pdm_mcu_get_version_def copy_from_user_def mcu_exchange_ok_def)
next
  case True
  let ?i = "(cx_inst cx)\<lparr>in_lock := True\<rparr>"
  have t: "mu_ops (cx_inst cx) = Some t" using rest by (simp add: mcu_at_rest_def)
  obtain r w i v where x: "pdm_mcu_protocol_get_version (ops_of t) (cx_world cx) ?i (ub_val arg) = Some (r, w, i, v)"
    "r \<le> 0" "keeps t (cx_world cx) ?i w i" using get_version_spec [OF assms(2)] by blast
  define cx' where "cx' = pdm_mcu_release_device (cx\<lparr>cx_world := w, cx_inst := i\<rparr>) r"
  have st: "mcu_frame t cx cx'" "mcu_view cx' = mcu_after r (mcu_view cx)"
    using exchange_step [OF rest x(2,3)] by (simp_all add: cx'_def)
  have eq: "pdm_mcu_get_version ops_of cx arg =
     Some (if r = 0 \<and> ub_writable arg then 0 else if r = 0 then - EFAULT else r, cx',
           if r = 0 \<and> ub_writable arg then arg\<lparr>ub_val := v\<rparr> else arg)"
    by (simp add: pdm_mcu_get_version_def copy_from_user_def copy_to_user_def True t x(1) claim_at_rest [OF rest]
        cx'_def Let_def)
  note ex = exchange_done [OF True x(2) st(2) refl, of "ub_writable arg"]
  show ?thesis using eq st(1) ex True by (cases "r = 0"; cases "ub_writable arg") simp_all
qed

lemma get_status_step:
  assumes rest: "mcu_at_rest t cx" and good
  shows "\<exists>ret cx' arg'. pdm_mcu_get_status ops_of cx arg = Some (ret, cx', arg') \<and> mcu_frame t cx cx' \<and>
     mcu_reply_ok (mcu_view cx) (MCU_GET_STATUS arg, ret, MCU_GET_STATUS arg') (mcu_view cx')"
proof (cases "ub_readable arg")
  case False
  then show ?thesis
    using frame_refl [OF rest] by (simp add: pdm_mcu_get_status_def copy_from_user_def mcu_exchange_ok_def)
next
  case True
  let ?i = "(cx_inst cx)\<lparr>in_lock := True\<rparr>"
  have t: "mu_ops (cx_inst cx) = Some t" using rest by (simp add: mcu_at_rest_def)
  obtain r w i v where x: "pdm_mcu_protocol_get_status (ops_of t) (cx_world cx) ?i (ub_val arg) = Some (r, w, i, v)"
    "r \<le> 0" "keeps t (cx_world cx) ?i w i" using get_status_spec [OF assms(2)] by blast
  define cx' where "cx' = pdm_mcu_release_device (cx\<lparr>cx_world := w, cx_inst := i\<rparr>) r"
  have st: "mcu_frame t cx cx'" "mcu_view cx' = mcu_after r (mcu_view cx)"
    using exchange_step [OF rest x(2,3)] by (simp_all add: cx'_def)
  have eq: "pdm_mcu_get_status ops_of cx arg =
     Some (if r = 0 \<and> ub_writable arg then 0 else if r = 0 then - EFAULT else r, cx',
           if r = 0 \<and> ub_writable arg then arg\<lparr>ub_val := v\<rparr> else arg)"
    by (simp add: pdm_mcu_get_status_def copy_from_user_def copy_to_user_def True t x(1) claim_at_rest [OF rest]
        cx'_def Let_def)
  note ex = exchange_done [OF True x(2) st(2) refl, of "ub_writable arg"]
  show ?thesis using eq st(1) ex True by (cases "r = 0"; cases "ub_writable arg") simp_all
qed

lemma reset_step:
  assumes rest: "mcu_at_rest t cx" and good
  shows "\<exists>ret cx'. pdm_mcu_reset ops_of cx arg = Some (ret, cx') \<and> mcu_frame t cx cx' \<and>
     mcu_reply_ok (mcu_view cx) (MCU_RESET arg, ret, MCU_RESET arg) (mcu_view cx')"
proof (cases "ub_readable arg")
  case False
  then show ?thesis
    using frame_refl [OF rest] by (simp add: pdm_mcu_reset_def copy_from_user_def mcu_exchange_ok_def)
next
  case True
  let ?i = "(cx_inst cx)\<lparr>in_lock := True\<rparr>"
  have t: "mu_ops (cx_inst cx) = Some t" using rest by (simp add: mcu_at_rest_def)
  obtain r w i where x: "pdm_mcu_protocol_reset (ops_of t) (cx_world cx) ?i (ub_val arg) = Some (r, w, i)"
    "r \<le> 0" "keeps t (cx_world cx) ?i w i" using reset_spec [OF assms(2)] by blast
  define cx' where "cx' = pdm_mcu_release_device (cx\<lparr>cx_world := w, cx_inst := i\<rparr>) r"
  have st: "mcu_frame t cx cx'" "mcu_view cx' = mcu_after r (mcu_view cx)"
    using exchange_step [OF rest x(2,3)] by (simp_all add: cx'_def)
  show ?thesis
    using st exchange_done [OF True x(2) st(2) refl, of True]
    by (simp add: pdm_mcu_reset_def copy_from_user_def True t x(1) claim_at_rest [OF rest] cx'_def split: if_splits)
qed

lemma command_step:
  assumes rest: "mcu_at_rest t cx" and good
  shows "\<exists>ret cx' arg'. pdm_mcu_command_ioctl ops_of cx arg = Some (ret, cx', arg') \<and> mcu_frame t cx cx' \<and>
     mcu_reply_ok (mcu_view cx) (MCU_COMMAND arg, ret, MCU_COMMAND arg') (mcu_view cx')"
proof (cases "ub_readable arg")
  case False
  then show ?thesis
    using frame_refl [OF rest] by (simp add: pdm_mcu_command_ioctl_def copy_from_user_def mcu_exchange_ok_def)
next
  case True
  let ?i = "(cx_inst cx)\<lparr>in_lock := True\<rparr>"
  have t: "mu_ops (cx_inst cx) = Some t" using rest by (simp add: mcu_at_rest_def)
  obtain r w i c where x: "pdm_mcu_protocol_command (ops_of t) (cx_world cx) ?i (ub_val arg) = Some (r, w, i, c)"
    "r \<le> 0" "keeps t (cx_world cx) ?i w i"
    "mcu_command_check (ub_val arg) \<noteq> 0 \<longrightarrow> r = mcu_command_check (ub_val arg)"
    "r = 0 \<longrightarrow> mcu_command_reply_ok (ub_val arg) c" using command_spec [OF assms(2)] by blast
  define cx' where "cx' = pdm_mcu_release_device (cx\<lparr>cx_world := w, cx_inst := i\<rparr>) r"
  have st: "mcu_frame t cx cx'" "mcu_view cx' = mcu_after r (mcu_view cx)"
    using exchange_step [OF rest x(2,3)] by (simp_all add: cx'_def)
  have eq: "pdm_mcu_command_ioctl ops_of cx arg =
     Some (if r = 0 \<and> ub_writable arg then 0 else if r = 0 then - EFAULT else r, cx',
           if r = 0 \<and> ub_writable arg then arg\<lparr>ub_val := c\<rparr> else arg)"
    by (simp add: pdm_mcu_command_ioctl_def copy_from_user_def copy_to_user_def True t x(1) claim_at_rest [OF rest]
        cx'_def Let_def)
  note ex = exchange_done [OF True x(2) st(2) refl, of "ub_writable arg"]
  show ?thesis using eq st(1) ex x(4,5) True by (cases "r = 0"; cases "ub_writable arg") simp_all
qed

lemma ioctl_step:
  assumes rest: "mcu_at_rest t cx" and good
  shows "\<exists>ret cx' req'. pdm_mcu_ioctl ops_of cnt (Some client) cx req = Some (ret, cx', req') \<and>
     mcu_frame t cx cx' \<and> mcu_reply_ok (mcu_view cx) (req, ret, req') (mcu_view cx')"
proof (cases req)
  case (MCU_GET_INFO arg)
  then show ?thesis
    using frame_refl [OF rest] by (auto simp: pdm_mcu_get_info_def copy_to_user_def Let_def split: prod.split)
next
  case (MCU_GET_VERSION arg)
  with get_version_step [OF assms, of arg] show ?thesis by fastforce
next
  case (MCU_GET_STATUS arg)
  with get_status_step [OF assms, of arg] show ?thesis by fastforce
next
  case (MCU_RESET arg)
  with reset_step [OF assms, of arg] show ?thesis by fastforce
next
  case (MCU_COMMAND arg)
  with command_step [OF assms, of arg] show ?thesis by fastforce
next
  case (MCU_UNKNOWN c)
  with frame_refl [OF rest] show ?thesis by simp
qed

lemma session_spec:
  assumes "mcu_at_rest t cx" and good
  shows "\<exists>tr cx'. mcu_session ops_of cnt client cx reqs = Some (tr, cx') \<and> map fst tr = reqs \<and>
     mcu_frame t cx cx' \<and> mcu_trace_ok (mcu_view cx) tr (mcu_view cx')"
  using assms(1)
proof (induction reqs arbitrary: cx)
  case Nil
  then show ?case by (simp add: frame_refl)
next
  case (Cons req reqs)
  from ioctl_step [OF Cons.prems assms(2)] obtain ret cx1 req' where one:
    "pdm_mcu_ioctl ops_of cnt (Some client) cx req = Some (ret, cx1, req')" "mcu_frame t cx cx1"
    "mcu_reply_ok (mcu_view cx) (req, ret, req') (mcu_view cx1)" by blast
  then have "mcu_at_rest t cx1" by (simp add: mcu_frame_def)
  from Cons.IH [OF this] obtain tr cx2 where rest:
    "mcu_session ops_of cnt client cx1 reqs = Some (tr, cx2)" "map fst tr = reqs" "mcu_frame t cx1 cx2"
    "mcu_trace_ok (mcu_view cx1) tr (mcu_view cx2)" by blast
  have "mcu_trace_ok (mcu_view cx) ((req, ret, req') # tr) (mcu_view cx2)"
    unfolding mcu_trace_ok.simps using one(3) rest(4) by blast
  with one rest frame_trans [OF one(2) rest(3)] show ?case by simp
qed

end

section \<open>Structs on the wire\<close>

lemma le32_roundtrip:
  "le32 (xs @ le32_bytes v @ ys) (length xs) = v"
proof -
  have "le32 (xs @ le32_bytes v @ ys) (length xs) =
      (ucast (ucast v :: u8) OR push_bit 8 (ucast (ucast (drop_bit 8 v) :: u8))) OR
      (push_bit 16 (ucast (ucast (drop_bit 16 v) :: u8)) OR push_bit 24 (ucast (ucast (drop_bit 24 v) :: u8)))"
    by (simp add: le32_def le32_bytes_def nth_append)
  also have "\<dots> = v"
  proof (rule bit_eqI)
    fix n assume "possible_bit TYPE(32 word) n"
    then have "n < 32" by (simp add: possible_bit_def)
    then consider "n < 8" | "8 \<le> n" "n < 16" | "16 \<le> n" "n < 24" | "24 \<le> n" "n < 32" by linarith
    then show "bit (((ucast (ucast v :: u8) :: u32) OR push_bit 8 (ucast (ucast (drop_bit 8 v) :: u8))) OR
      (push_bit 16 (ucast (ucast (drop_bit 16 v) :: u8)) OR push_bit 24 (ucast (ucast (drop_bit 24 v) :: u8)))) n
      = bit v n"
      by cases (auto simp: bit_or_iff bit_push_bit_iff bit_ucast_iff bit_drop_bit_eq possible_bit_def)
  qed
  finally show ?thesis .
qed

lemma le32_bytes_length [simp]: "length (le32_bytes v) = 4"
  by (simp add: le32_bytes_def)

lemma version_roundtrip:
  assumes "length (mv_string v) = 32"
  shows "pdm_mcu_version_of_bytes (pdm_mcu_version_bytes v @ ys) = v"
    and "length (pdm_mcu_version_bytes v) = 40"
proof -
  have "le32 (pdm_mcu_version_bytes v @ ys) 0 = mv_index v"
    using le32_roundtrip [of "[]"] by (simp add: pdm_mcu_version_bytes_def)
  with assms show "pdm_mcu_version_of_bytes (pdm_mcu_version_bytes v @ ys) = v"
    by (simp add: pdm_mcu_version_of_bytes_def) (simp add: pdm_mcu_version_bytes_def nth_append)
  from assms show "length (pdm_mcu_version_bytes v) = 40" by (simp add: pdm_mcu_version_bytes_def)
qed

text \<open>An I2C exchange whose answer has the length asked for.\<close>

lemma i2c_exchange:
  assumes px: "px_client (mu_i2c i) = Some client" "px_command_bytes (mu_i2c i) \<in> {1, 2, 3, 4}"
    and sent: "\<And>msgs e. \<exists>e'. ma_i2c_transfer api client msgs e = (int (length msgs), bs, e')"
    and len: "length bs = unat n" "n \<noteq> 0" "n \<le> 256"
  shows "\<exists>w'. pdm_mcu_protocol_xfer (pdm_mcu_i2c_ops api) w i c (Some p) 4 (Some b) n (Some n) =
      Some (0, w', i, Some (put_bytes bs b), Some n)"
proof -
  let ?x = "\<lparr>xf_command = c, xf_tx = p, xf_tx_len = 4, xf_rx = b, xf_rx_len = n, xf_actual_rx_len = 0\<rparr>"
  let ?k = "ucast (px_command_bytes (mu_i2c i)) :: u32"
  have k: "?k \<in> {1, 2, 3, 4}" using px(2) by auto
  then have tx: "4 + ?k \<noteq> 0" "\<not> 260 < 4 + ?k" by auto
  let ?tx = "pdm_mcu_i2c_encode_prefix c (px_command_bytes (mu_i2c i)) @ take 4 p"
  obtain e' where tr: "ma_i2c_transfer api client [I2C_WR (take (unat (4 + ?k)) ?tx), I2C_RD (unat n)] (mw_ext w)
      = (int (length [I2C_WR (take (unat (4 + ?k)) ?tx), I2C_RD (unat n)]), bs, e')"
    using sent by blast
  have "pdm_mcu_i2c_bus_xfer api w i ?tx (4 + ?k) b n = (0, w\<lparr>mw_ext := e'\<rparr>, put_bytes bs b)"
    using px(1) tr tx(1) len by (simp add: pdm_mcu_i2c_bus_xfer_def Let_def)
  then have "pdm_mcu_i2c_xfer api w i ?x = (0, w\<lparr>mw_ext := e'\<rparr>, ?x\<lparr>xf_rx := put_bytes bs b, xf_actual_rx_len := n\<rparr>)"
    using px(2) tx(2) len(3) by (auto simp: pdm_mcu_i2c_xfer_def pdm_mcu_i2c_cmd_xfer_def Let_def not_less)
  then show ?thesis
    using len(3) by (simp add: pdm_mcu_protocol_xfer_def pdm_mcu_i2c_ops_def plain_xfer_def buf_of_def
        pdm_mcu_protocol_max_tx_def pdm_mcu_protocol_max_rx_def not_less)
qed

section \<open>Properties\<close>

text \<open>
  C4. An MCU at rest answers any list of requests, on each of the four transports: no handler
  blocks or hangs, the mutex is free afterwards, and the trace is one the specification allows.
  Discovery shows the result of the latest exchange and counts the failed ones, a command whose
  form is wrong gets the error that its form decides, an answer stays within the length asked for,
  and a request that fails leaves the caller's buffer alone.
\<close>

theorem mcu_session_refines:
  assumes "mcu_bus_laws api" and "mcu_at_rest t cx"
  shows "\<exists>tr cx'. mcu_session (pdm_mcu_ops api) cnt client cx reqs = Some (tr, cx') \<and> map fst tr = reqs \<and>
     mcu_at_rest t cx' \<and> mcu_trace_ok (mcu_view cx) tr (mcu_view cx') \<and>
     mw_held (cx_world cx') = mw_held (cx_world cx)"
  using mcus.session_spec [OF assms(2,1), of cnt client reqs] unfolding mcus.mcu_frame_def by blast

text \<open>
  C6. Over CAN the version and the status can never be read: the answer struct does not fit the
  8 bytes of a frame, so each attempt is \<open>-EMSGSIZE\<close> before anything is sent, and marks the device
  as failed.
\<close>

theorem can_structs_too_long:
  assumes rest: "mcu_at_rest PDM_MCU_BACKEND_CAN cx" and "ub_readable arg" and "ub_readable arg2"
  shows "\<exists>cx'. pdm_mcu_get_version (pdm_mcu_ops api) cx arg = Some (- EMSGSIZE, cx', arg) \<and>
     pdm_mcu_get_status (pdm_mcu_ops api) cx arg2 = Some (- EMSGSIZE, cx', arg2) \<and>
     cx_world cx' = cx_world cx \<and> mcu_view cx' = (- EMSGSIZE, snd (mcu_view cx) + 1) \<and>
     pd_state (cx_dev cx') = PDM_MANAGER_DEVICE_STATE_ERROR"
proof -
  have ops: "mu_ops (cx_inst cx) = Some PDM_MCU_BACKEND_CAN" "in_online (cx_inst cx)"
    using rest by (simp_all add: mcu_at_rest_def)
  have xfer: "pdm_mcu_protocol_xfer (pdm_mcu_can_ops api) w i c (Some p) 4 (Some b) 40 (Some 40) =
      Some (- EMSGSIZE, w, i, Some b, Some 40)" for w i c p b
    by (simp add: pdm_mcu_protocol_xfer_def pdm_mcu_can_ops_def pdm_mcu_protocol_max_tx_def
        pdm_mcu_protocol_max_rx_def)
  show ?thesis
    using assms(2,3) ops
    by (simp add: pdm_mcu_get_version_def pdm_mcu_get_status_def copy_from_user_def claim_at_rest [OF rest]
        pdm_mcu_protocol_get_version_def pdm_mcu_protocol_get_status_def xfer
        pdm_mcu_release_device_def pdm_mcu_update_state_locked_def Let_def mcu_view_def)
qed

text \<open>
  A version that an MCU sends over I2C reaches the user as it is: whatever the length of the
  command prefix, and whatever the caller's struct held, the result is 0 and the struct is the one
  whose bytes were sent.
\<close>

theorem i2c_version_delivered:
  assumes rest: "mcu_at_rest PDM_MCU_BACKEND_I2C cx"
    and px: "px_client (mu_i2c (cx_inst cx)) = Some client"
      "px_command_bytes (mu_i2c (cx_inst cx)) \<in> {1, 2, 3, 4}"
    and sent: "\<And>msgs e. \<exists>e'. ma_i2c_transfer api client msgs e = (int (length msgs), pdm_mcu_version_bytes v, e')"
    and len: "length (mv_string v) = 32" and "ub_readable arg" and "ub_writable arg"
  shows "\<exists>cx'. pdm_mcu_get_version (pdm_mcu_ops api) cx arg = Some (0, cx', arg\<lparr>ub_val := v\<rparr>) \<and>
     mcu_view cx' = (0, snd (mcu_view cx))"
proof -
  let ?i = "(cx_inst cx)\<lparr>in_lock := True\<rparr>"
  have ops: "mu_ops (cx_inst cx) = Some PDM_MCU_BACKEND_I2C" using rest by (simp add: mcu_at_rest_def)
  have "\<exists>w'. pdm_mcu_protocol_xfer (pdm_mcu_i2c_ops api) (cx_world cx) ?i 1
      (Some (pdm_mcu_protocol_encode_index (mv_index (ub_val arg)))) 4
      (Some (pdm_mcu_version_bytes (ub_val arg))) 40 (Some 40) =
      Some (0, w', ?i, Some (put_bytes (pdm_mcu_version_bytes v) (pdm_mcu_version_bytes (ub_val arg))), Some 40)"
    by (rule i2c_exchange [where client = client, OF _ _ sent])
       (use px version_roundtrip(2) [OF len] in simp_all)
  then obtain w' where x: "pdm_mcu_protocol_xfer (pdm_mcu_i2c_ops api) (cx_world cx) ?i 1
      (Some (pdm_mcu_protocol_encode_index (mv_index (ub_val arg)))) 4
      (Some (pdm_mcu_version_bytes (ub_val arg))) 40 (Some 40) =
      Some (0, w', ?i, Some (put_bytes (pdm_mcu_version_bytes v) (pdm_mcu_version_bytes (ub_val arg))), Some 40)" ..
  have v: "pdm_mcu_version_of_bytes (put_bytes (pdm_mcu_version_bytes v) b) = v" for b
    unfolding put_bytes_def by (rule version_roundtrip(1) [OF len])
  show ?thesis
    using assms(6,7) ops x
    by (simp add: pdm_mcu_get_version_def copy_from_user_def copy_to_user_def claim_at_rest [OF rest]
        pdm_mcu_protocol_get_version_def buf_of_def v Let_def pdm_mcu_release_device_def
        pdm_mcu_update_state_locked_def mcu_view_def)
qed

section \<open>Witnesses\<close>

text \<open>An MCU at rest on each transport, with client or serial port 5.\<close>

definition example_mcu_ctx :: "pdm_mcu_backend_type \<Rightarrow> nat mcu_ctx" where
  "example_mcu_ctx t = \<lparr>cx_world = \<lparr>mw_ext = 0, mw_held = {#SERDEV 5#}, mw_bus_devs = (\<lambda>a.
       \<lparr>bd_type = t, bd_pdm_dev = Some ''mcu'', bd_inst = Some 1, bd_bus = Some 5\<rparr>)\<rparr>,
     cx_dev = new_device\<lparr>pd_name := ''mcu'', pd_type := 1, pd_id := 0, pd_id_allocated := True,
       pd_state := PDM_MANAGER_DEVICE_STATE_BOUND\<rparr>,
     cx_inst = \<lparr>in_lock = False, in_online = True, mu_addr = 1, mu_ops = Some t,
       mu_state = PDM_MCU_STATE_READY, mu_last_error = 0,
       mu_uart = \<lparr>ua_serdev = Some 5, ua_bus_dev = Some 0, ua_rx_fifo = [], ua_baudrate = 115200,
         ua_rx_timeout_ms = 100\<rparr>,
       mu_can = \<lparr>ca_sock = Some 0, ca_netdev = Some 3, ca_rx_timeout_ms = 100, ca_extended_id = False\<rparr>,
       mu_i2c = \<lparr>px_client = Some 5, px_rx_timeout_ms = 100, px_command_bytes = 1\<rparr>,
       mu_spi = \<lparr>px_client = Some 5, px_rx_timeout_ms = 100, px_command_bytes = 1\<rparr>\<rparr>\<rparr>"

lemma example_mcu_at_rest: "mcu_at_rest t (example_mcu_ctx t)"
  by (simp add: mcu_at_rest_def example_mcu_ctx_def new_device_def pdm_device_alloc_def)

definition example_command :: pdm_mcu_command where
  "example_command = \<lparr>mc_index = 0, mc_command = 9, mc_flags = 1, mc_tx_len = 2, mc_rx_len = 4,
     mc_actual_rx_len = 0, mc_tx_data = replicate 256 1, mc_rx_data = replicate 256 0\<rparr>"

theorem mcu_session_refines_witness:
  "\<exists>tr cx'. mcu_session (pdm_mcu_ops example_mcu_api) 1 pdm_cdev_zero (example_mcu_ctx PDM_MCU_BACKEND_UART)
      [MCU_COMMAND (rw_buf example_command), MCU_RESET (rw_buf 0)] = Some (tr, cx') \<and>
     mcu_at_rest PDM_MCU_BACKEND_UART cx'"
  using mcu_session_refines [OF example_mcu_laws example_mcu_at_rest] by blast

definition example_version :: pdm_mcu_version where
  "example_version = \<lparr>mv_index = 0, mv_major = 2, mv_minor = 1, mv_patch = 0, mv_build = 7,
     mv_string = replicate 32 48\<rparr>"

definition example_status :: pdm_mcu_status where
  "example_status = \<lparr>ms_index = 0, ms_online = 1, ms_state = 2, ms_uptime_sec = 60, ms_error_code = 0,
     ms_temperature = 25000, ms_voltage_mv = 3300, ms_timestamp_us = 0\<rparr>"

theorem can_structs_too_long_witness:
  "\<exists>cx'. pdm_mcu_get_version (pdm_mcu_ops example_mcu_api) (example_mcu_ctx PDM_MCU_BACKEND_CAN)
       (rw_buf example_version) = Some (- EMSGSIZE, cx', rw_buf example_version)"
  using can_structs_too_long [OF example_mcu_at_rest, of "rw_buf example_version" "rw_buf example_status"
      example_mcu_api]
  by (auto simp: rw_buf_def)

definition version_api :: "nat mcu_api" where
  "version_api = example_mcu_api\<lparr>ma_i2c_transfer :=
     (\<lambda>s ms e. (int (length ms), pdm_mcu_version_bytes example_version, e))\<rparr>"

theorem i2c_version_delivered_witness:
  "\<exists>cx'. pdm_mcu_get_version (pdm_mcu_ops version_api) (example_mcu_ctx PDM_MCU_BACKEND_I2C)
       (rw_buf (example_version\<lparr>mv_major := 0\<rparr>)) = Some (0, cx', rw_buf example_version)"
  using i2c_version_delivered [OF example_mcu_at_rest, of 5 version_api example_version
      "rw_buf (example_version\<lparr>mv_major := 0\<rparr>)"]
  by (auto simp: rw_buf_def version_api_def example_version_def example_mcu_ctx_def)

end
