(* ===== verification/Pdi_Host.thy ===== *)
theory Pdi_Host
  imports Pdi Pdm_Manager Pdm_Led Pdm_Mcu
begin

unbundle bit_operations_syntax

text \<open>
  The PDI library on top of the kernel modules. Below the syscall table stand the C library and
  the file table of the process, modelled as POSIX documents \<open>open\<close>, \<open>close\<close> and \<open>ioctl\<close>: the lowest
  free file descriptor, \<open>-1\<close> with \<open>errno\<close> for a negative result of the kernel. Behind the nodes are
  the handlers of the manager, of the LEDs and of the MCUs, and the devices of the bus that all of
  them share: what an MCU handler records on its device is what discovery reports.

  The interface between library and kernel is a locale with the laws of the three calls on the
  manager node; the facts about discovery are proved in it and used here on the host.
\<close>

section \<open>The host\<close>

text \<open>A node under \<open>/dev\<close>: the manager, or a LED or an MCU by the number of its instance.\<close>

datatype pdi_node = NODE_CTL | NODE_LED nat | NODE_MCU nat

text \<open>
  An MCU instance knows the place of its device on the bus. \<open>ho_hung\<close> is set when a handler never
  returns, because it waits for a mutex that nobody will release.
\<close>

record ('ida, 'e) pdi_host =
  ho_nodes :: "string \<Rightarrow> pdi_node option"
  ho_files :: "int \<Rightarrow> pdi_node option"
  ho_devs :: "pdm_device list"
  ho_ctl_open :: int
  ho_hw :: led_hw
  ho_leds :: "nat \<Rightarrow> 'ida cdev_sys \<times> pdm_led_instance"
  ho_world :: "'e mcu_world"
  ho_mcus :: "nat \<Rightarrow> 'ida cdev_sys \<times> nat \<times> pdm_mcu_instance"
  ho_hung :: bool

record ('ida, 'e) pdi_kernel =
  hk_ida :: "'ida ida_api"
  hk_led :: led_hw_api
  hk_mcu :: "'e mcu_api"
  hk_led_count :: int
  hk_mcu_count :: int
  hk_open_max :: nat

type_synonym ('ida, 'e) host_process = "('ida, 'e) pdi_host pdi_process"

definition host_free_fd :: "('ida, 'e) pdi_kernel \<Rightarrow> ('ida, 'e) pdi_host \<Rightarrow> int option" where
  "host_free_fd k h = find (\<lambda>fd. ho_files h fd = None) (map int [0..<hk_open_max k])"

fun host_node_open :: "pdi_node \<Rightarrow> int \<Rightarrow> ('ida, 'e) pdi_host \<Rightarrow> int \<times> ('ida, 'e) pdi_host" where
  "host_node_open NODE_CTL fd h =
     (case pdm_manager_open (ho_ctl_open h) of (r, oc) \<Rightarrow> (r, h\<lparr>ho_ctl_open := oc\<rparr>))"
| "host_node_open (NODE_LED n) fd h =
     (case pdm_cdev_default_open (fst (ho_leds h n)) (Some (nat fd)) of
        (r, s) \<Rightarrow> (r, h\<lparr>ho_leds := (ho_leds h)(n := (s, snd (ho_leds h n)))\<rparr>))"
| "host_node_open (NODE_MCU n) fd h =
     (case pdm_cdev_default_open (fst (ho_mcus h n)) (Some (nat fd)) of
        (r, s) \<Rightarrow> (r, h\<lparr>ho_mcus := (ho_mcus h)(n := (s, snd (ho_mcus h n)))\<rparr>))"

fun host_node_release ::
  "('ida, 'e) pdi_kernel \<Rightarrow> pdi_node \<Rightarrow> int \<Rightarrow> ('ida, 'e) pdi_host \<Rightarrow> ('ida, 'e) pdi_host" where
  "host_node_release k NODE_CTL fd h = h\<lparr>ho_ctl_open := snd (pdm_manager_release (ho_ctl_open h))\<rparr>"
| "host_node_release k (NODE_LED n) fd h =
     h\<lparr>ho_leds := (ho_leds h)
        (n := (snd (pdm_cdev_default_release (hk_ida k) (fst (ho_leds h n)) (Some (nat fd))), snd (ho_leds h n)))\<rparr>"
| "host_node_release k (NODE_MCU n) fd h =
     h\<lparr>ho_mcus := (ho_mcus h)
        (n := (snd (pdm_cdev_default_release (hk_ida k) (fst (ho_mcus h n)) (Some (nat fd))), snd (ho_mcus h n)))\<rparr>"

fun pdi_ioc :: "pdi_request \<Rightarrow> u32" where
  "pdi_ioc (CTL_REQ r) = pdm_manager_ioc r"
| "pdi_ioc (LED_REQ r) = pdm_led_ioc r"
| "pdi_ioc (MCU_REQ r) = pdm_mcu_ioc r"

text \<open>
  The handler behind a node. A request of another node's interface carries a command number that
  the handler does not know.
\<close>

fun host_node_ioctl ::
  "('ida, 'e) pdi_kernel \<Rightarrow> pdi_node \<Rightarrow> int \<Rightarrow> pdi_request \<Rightarrow> ('ida, 'e) pdi_host \<Rightarrow>
   (int \<times> pdi_request \<times> ('ida, 'e) pdi_host) option" where
  "host_node_ioctl k NODE_CTL fd (CTL_REQ r) h =
     (case pdm_manager_ioctl (ho_devs h) (ho_ctl_open h) r of (ret, r') \<Rightarrow> Some (ret, CTL_REQ r', h))"
| "host_node_ioctl k NODE_CTL fd req h =
     Some (fst (pdm_manager_ioctl (ho_devs h) (ho_ctl_open h) (MGR_UNKNOWN (pdi_ioc req))), req, h)"
| "host_node_ioctl k (NODE_LED n) fd req h =
     (case ho_leds h n of
        (s, inst) \<Rightarrow>
          (case pdm_led_ioctl (pdm_led_ops (hk_led k)) (hk_led_count k) (pdm_cdev_from_file s (Some (nat fd)))
                  (ho_hw h) inst (case req of LED_REQ r \<Rightarrow> r | _ \<Rightarrow> LED_UNKNOWN (pdi_ioc req)) of
             None \<Rightarrow> None
           | Some (ret, hw, inst', r') \<Rightarrow>
               Some (ret, case req of LED_REQ _ \<Rightarrow> LED_REQ r' | _ \<Rightarrow> req,
                     h\<lparr>ho_hw := hw, ho_leds := (ho_leds h)(n := (s, inst'))\<rparr>)))"
| "host_node_ioctl k (NODE_MCU n) fd req h =
     (case ho_mcus h n of
        (s, j, inst) \<Rightarrow>
          (case pdm_mcu_ioctl (pdm_mcu_ops (hk_mcu k)) (hk_mcu_count k) (pdm_cdev_from_file s (Some (nat fd)))
                  \<lparr>cx_world = ho_world h, cx_dev = ho_devs h ! j, cx_inst = inst\<rparr>
                  (case req of MCU_REQ r \<Rightarrow> r | _ \<Rightarrow> MCU_UNKNOWN (pdi_ioc req)) of
             None \<Rightarrow> None
           | Some (ret, cx, r') \<Rightarrow>
               Some (ret, case req of MCU_REQ _ \<Rightarrow> MCU_REQ r' | _ \<Rightarrow> req,
                     h\<lparr>ho_world := cx_world cx, ho_devs := (ho_devs h)[j := cx_dev cx],
                       ho_mcus := (ho_mcus h)(n := (s, j, cx_inst cx))\<rparr>)))"

section \<open>The C library on it\<close>

definition libc_return :: "int \<Rightarrow> 's pdi_process \<Rightarrow> int \<times> 's pdi_process" where
  "libc_return ret p = (if ret < 0 then (- 1, p\<lparr>ps_errno := - ret\<rparr>) else (ret, p))"

abbreviation (input) EMFILE :: int where "EMFILE \<equiv> 24"

definition host_open ::
  "('ida, 'e) pdi_kernel \<Rightarrow> string \<Rightarrow> u32 \<Rightarrow> ('ida, 'e) host_process \<Rightarrow> int \<times> ('ida, 'e) host_process" where
  "host_open k path flags p =
     (case host_free_fd k (ps_sys p) of
        None \<Rightarrow> libc_return (- EMFILE) p
      | Some fd \<Rightarrow>
          (case ho_nodes (ps_sys p) path of
             None \<Rightarrow> libc_return (- ENOENT) p
           | Some node \<Rightarrow>
               (case host_node_open node fd (ps_sys p) of
                  (r, h) \<Rightarrow>
                    if r < 0 then libc_return r (p\<lparr>ps_sys := h\<rparr>)
                    else libc_return fd (p\<lparr>ps_sys := h\<lparr>ho_files := (ho_files h)(fd := Some node)\<rparr>\<rparr>))))"

definition host_close ::
  "('ida, 'e) pdi_kernel \<Rightarrow> int \<Rightarrow> ('ida, 'e) host_process \<Rightarrow> int \<times> ('ida, 'e) host_process" where
  "host_close k fd p =
     (case ho_files (ps_sys p) fd of
        None \<Rightarrow> libc_return (- EBADF) p
      | Some node \<Rightarrow>
          (let h = host_node_release k node fd (ps_sys p)
           in libc_return 0 (p\<lparr>ps_sys := h\<lparr>ho_files := (ho_files h)(fd := None)\<rparr>\<rparr>)))"

definition host_ioctl ::
  "('ida, 'e) pdi_kernel \<Rightarrow> int \<Rightarrow> pdi_request \<Rightarrow> ('ida, 'e) host_process \<Rightarrow>
   int \<times> pdi_request \<times> ('ida, 'e) host_process" where
  "host_ioctl k fd req p =
     (case ho_files (ps_sys p) fd of
        None \<Rightarrow> (case libc_return (- EBADF) p of (r, p) \<Rightarrow> (r, req, p))
      | Some node \<Rightarrow>
          (case host_node_ioctl k node fd req (ps_sys p) of
             None \<Rightarrow> (- 1, req, p\<lparr>ps_sys := (ps_sys p)\<lparr>ho_hung := True\<rparr>\<rparr>)
           | Some (ret, req', h) \<Rightarrow>
               (case libc_return ret (p\<lparr>ps_sys := h\<rparr>) of (r, p) \<Rightarrow> (r, req', p))))"

definition host_ops :: "('ida, 'e) pdi_kernel \<Rightarrow> ('ida, 'e) pdi_host pdi_syscall_ops" where
  "host_ops k = g_pdi_syscall_default_ops (host_open k) (host_close k) (host_ioctl k)"

lemma host_ops_simps [simp]:
  "so_open (host_ops k) = host_open k" "so_close (host_ops k) = host_close k"
  "so_ioctl (host_ops k) = host_ioctl k"
  by (simp_all add: host_ops_def g_pdi_syscall_default_ops_def)

section \<open>The interface of discovery\<close>

lemma query_reply_rw:
  "query_reply (rw_buf v) found upd =
     (case found of None \<Rightarrow> (- ENODEV, rw_buf v) | Some d \<Rightarrow> (0, rw_buf (upd (device_info_of d))))"
  by (simp add: query_reply_def rw_buf_def split: option.split)

text \<open>
  \<open>serves fd s\<close>: in the system \<open>s\<close> the descriptor is an open file of the manager. \<open>devices\<close> and
  \<open>opens\<close> are what the manager works on.
\<close>

locale pdi_manager =
  fixes ops :: "'s pdi_syscall_ops"
    and serves :: "int \<Rightarrow> 's \<Rightarrow> bool"
    and devices :: "'s \<Rightarrow> pdm_device list"
    and opens :: "'s \<Rightarrow> int"
  assumes serves_fd: "serves fd s \<Longrightarrow> 0 \<le> fd"
    and ioctl_law: "serves fd (ps_sys p) \<Longrightarrow>
      so_ioctl ops fd (CTL_REQ req) p =
        (case pdm_manager_ioctl (devices (ps_sys p)) (opens (ps_sys p)) req of
           (ret, req') \<Rightarrow> (case libc_return ret p of (r, p') \<Rightarrow> (r, CTL_REQ req', p')))"
begin

lemma ioctl_checked:
  assumes "serves (cc_fd ctx) (ps_sys p)"
  shows "pdi_ctl_ioctl_checked ops (Some ctx) (CTL_REQ req) p =
     (case pdm_manager_ioctl (devices (ps_sys p)) (opens (ps_sys p)) req of
        (ret, req') \<Rightarrow> (if ret < 0 then - 1 else 0, CTL_REQ req',
                        if ret < 0 then p\<lparr>ps_errno := - ret\<rparr> else p))"
  using serves_fd [OF assms]
  by (simp add: pdi_ctl_ioctl_checked_def pdi_check_fd_def pdi_syscall_ioctl_def ioctl_law [OF assms]
      libc_return_def pdi_result_from_syscall_def split: prod.split)

lemma get_device_checked:
  assumes "serves (cc_fd ctx) (ps_sys p)"
  shows "pdi_ctl_ioctl_checked ops (Some ctx) (CTL_REQ (MGR_GET_DEVICE (rw_buf q))) p =
     (case list_at (visible_devices (devices (ps_sys p))) (unat (dq_match_index q)) of
        None \<Rightarrow> (- 1, CTL_REQ (MGR_GET_DEVICE (rw_buf q)), p\<lparr>ps_errno := ENODEV\<rparr>)
      | Some d \<Rightarrow> (0, CTL_REQ (MGR_GET_DEVICE (rw_buf (q\<lparr>dq_info := device_info_of d\<rparr>))), p))"
  by (simp add: ioctl_checked [OF assms] manager_get_device query_reply_rw map_prod_def
      del: pdm_manager_ioctl.simps split: option.split)

text \<open>
  The loop from index \<open>i\<close>, when \<open>k\<close> devices will be listed in all: it fills the array from \<open>i\<close> on, and
  ends with \<open>errno\<close> set when it ran out of devices.
\<close>

lemma list_devices_loop:
  assumes serving: "serves (cc_fd ctx) (ps_sys p)"
    and vis: "vis = visible_devices (devices (ps_sys p))" and k: "k = min (unat requested) (length vis)"
    and "unat i \<le> k" and "i = 0 \<Longrightarrow> 0 < k \<or> requested = 0"
    and "\<And>ds. devs = Some ds \<Longrightarrow> unat requested \<le> length ds"
  shows "pdi_list_devices_loop ops (Some ctx) requested i devs p =
     (None, of_nat k,
      map_option (\<lambda>ds. take (unat i) ds @ map device_info_of (drop (unat i) (take k vis)) @ drop k ds) devs,
      if k < unat requested then p\<lparr>ps_errno := ENODEV\<rparr> else p)"
  using assms(4-)
proof (induction "k - unat i" arbitrary: i devs)
  case 0
  then have i: "unat i = k" by simp
  then have i': "of_nat k = i" by (simp flip: i)
  have array: "map_option (\<lambda>ds. take (unat i) ds @ map device_info_of (drop (unat i) (take k vis)) @ drop k ds) devs = devs"
    by (cases devs) (simp_all add: i)
  show ?case
  proof (cases "i < requested")
    case False
    then have "\<not> k < unat requested" using i by (simp add: word_less_nat_alt)
    with False show ?thesis
      by (subst pdi_list_devices_loop.simps) (simp add: i' array)
  next
    case True
    then have less: "k < unat requested" using i by (simp add: word_less_nat_alt)
    with k have none: "list_at vis (unat i) = None" by (simp add: list_at_def i)
    have "i \<noteq> 0" using "0.prems"(2) True i less by auto
    with True less none show ?thesis
      by (subst pdi_list_devices_loop.simps)
        (simp add: get_device_checked [OF serving] vis [symmetric] i' array)
  qed
next
  case (Suc m)
  then have ik: "unat i < k" by simp
  then have ir: "i < requested" and iv: "unat i < length vis" using k by (simp_all add: word_less_nat_alt)
  then have si: "unat (i + 1) = Suc (unat i)" by (intro unat_Suc_less)
  let ?x = "device_info_of (vis ! unat i)"
  have le: "unat (i + 1) \<le> k" and dec: "m = k - unat (i + 1)" and nz: "i + 1 = 0 \<Longrightarrow> 0 < k \<or> requested = 0"
    using Suc.hyps(2) ik si by auto
  have room: "unat requested \<le> length ds" if "map_option (\<lambda>ds. ds[unat i := ?x]) devs = Some ds" for ds
    using that Suc.prems(3) by auto
  have array: "map_option (\<lambda>ds. take (unat (i + 1)) ds @ map device_info_of (drop (unat (i + 1)) (take k vis)) @ drop k ds)
       (map_option (\<lambda>ds. ds[unat i := ?x]) devs) =
     map_option (\<lambda>ds. take (unat i) ds @ map device_info_of (drop (unat i) (take k vis)) @ drop k ds) devs"
  proof (cases devs)
    case (Some ds)
    then have "unat i < length ds" using Suc.prems(3) ir by (fastforce simp: word_less_nat_alt)
    moreover have "drop (unat i) (take k vis) = vis ! unat i # drop (Suc (unat i)) (take k vis)"
      using ik iv by (subst Cons_nth_drop_Suc [symmetric]) simp_all
    ultimately show ?thesis using Some ik by (simp add: si take_Suc_conv_app_nth)
  qed simp
  have one: "pdi_list_devices_loop ops (Some ctx) requested i devs p =
      pdi_list_devices_loop ops (Some ctx) requested (i + 1) (map_option (\<lambda>ds. ds[unat i := ?x]) devs) p"
    using ir iv by (subst pdi_list_devices_loop.simps)
      (simp add: get_device_checked [OF serving] vis [symmetric] list_at_def)
  show ?case unfolding one array [symmetric] by (rule Suc.hyps(1) [OF dec le nz room])
qed

text \<open>What listing \<open>n\<close> devices gives, from the visible ones and the array of the caller.\<close>

lemma list_devices:
  assumes serving: "serves (cc_fd ctx) (ps_sys p)"
    and vis: "vis = visible_devices (devices (ps_sys p))" and k: "k = min (unat n) (length vis)"
    and room: "\<And>ds. devs = Some ds \<Longrightarrow> unat n \<le> length ds"
  shows "pdi_list_devices ops (Some ctx) devs (Some n) p =
     (if n \<noteq> 0 \<and> vis = [] then (- 1, devs, Some n, p\<lparr>ps_errno := ENODEV\<rparr>)
      else (0, map_option (\<lambda>ds. map device_info_of (take k vis) @ drop k ds) devs, Some (of_nat k),
            if k < unat n then p\<lparr>ps_errno := ENODEV\<rparr> else p))"
proof (cases "n \<noteq> 0 \<and> vis = []")
  case True
  then have "0 < n" by (simp add: word_gt_0)
  with True have "pdi_list_devices_loop ops (Some ctx) n 0 devs p = (Some (- 1), 0, devs, p\<lparr>ps_errno := ENODEV\<rparr>)"
    by (subst pdi_list_devices_loop.simps) (simp add: get_device_checked [OF serving] vis [symmetric])
  with True show ?thesis by (simp add: pdi_list_devices_def)
next
  case False
  then have start: "0 < k \<or> n = 0" using k by (auto simp: unat_gt_0)
  have "pdi_list_devices_loop ops (Some ctx) n 0 devs p =
     (None, of_nat k, map_option (\<lambda>ds. map device_info_of (take k vis) @ drop k ds) devs,
      if k < unat n then p\<lparr>ps_errno := ENODEV\<rparr> else p)"
    using list_devices_loop [OF serving vis k, of 0 devs] start room by simp
  with False show ?thesis by (auto simp: pdi_list_devices_def)
qed

lemma get_by_name:
  assumes "serves (cc_fd ctx) (ps_sys p)"
  shows "pdi_get_device_by_name ops (Some ctx) (Some name) (Some info) p =
     (case find (\<lambda>d. pd_name d = take 63 name) (visible_devices (devices (ps_sys p))) of
        None \<Rightarrow> (- 1, Some info, p\<lparr>ps_errno := ENODEV\<rparr>)
      | Some d \<Rightarrow> (0, Some (device_info_of d), p))"
  by (simp add: pdi_get_device_by_name_def ioctl_checked [OF assms] manager_get_device_by_name query_reply_rw
      map_prod_def strscpy_def name_query_zero_def del: pdm_manager_ioctl.simps split: option.split)

lemma get_by_capability:
  assumes "serves (cc_fd ctx) (ps_sys p)"
  shows "pdi_get_device_by_capability ops (Some ctx) req i (Some info) p =
     (if req = 0 then (- 1, Some info, p\<lparr>ps_errno := EINVAL\<rparr>)
      else case list_at (capable_devices req (devices (ps_sys p))) (unat i) of
        None \<Rightarrow> (- 1, Some info, p\<lparr>ps_errno := ENODEV\<rparr>)
      | Some d \<Rightarrow> (0, Some (device_info_of d), p))"
  by (simp add: pdi_get_device_by_capability_def ioctl_checked [OF assms] manager_get_device_by_capability
      query_reply_rw map_prod_def device_query_zero_def pdi_fail_invalid_arg_def pdi_fail_errno_def
      del: pdm_manager_ioctl.simps split: option.split)

end

lemma device_path_fits:
  shows led_device_path_fits: "length (pdi_led_device_path n) < 64"
    and mcu_device_path_fits: "length (pdi_mcu_device_path n) < 64"
proof -
  have "unat n < 2 ^ 32" using unsigned_less [of n] by simp
  then have "unat n < 10 ^ Suc 9" by simp
  then have "length (dec_digits (unat n)) \<le> Suc 9" by (rule length_dec_digits)
  then show "length (pdi_led_device_path n) < 64" "length (pdi_mcu_device_path n) < 64"
    by (simp_all add: pdi_led_device_path_def pdi_mcu_device_path_def)
qed

lemma device_info_of_sel [simp]:
  "di_type (device_info_of d) = pd_type d" "di_index (device_info_of d) = of_int (pd_id d)"
  "di_state (device_info_of d) = pd_state d" "di_last_error (device_info_of d) = pd_last_error d"
  "di_error_count (device_info_of d) = pd_error_count d"
  unfolding device_info_of_def pdm_manager_fill_device_info_def by (simp_all add: Let_def split: option.split)

text \<open>
  Opening the manager's node by its default path and closing it again. In a \<open>sound\<close> system the
  first gives a descriptor that serves, the second takes the system restored to where it was.
\<close>

locale pdi_discovery = pdi_manager +
  fixes sound :: "'s \<Rightarrow> bool"
  assumes open_law: "sound (ps_sys p) \<Longrightarrow> so_open ops PDI_CTL_DEFAULT_DEVICE O_RDWR_CLOEXEC p = (fd, p') \<Longrightarrow>
      if fd < 0 then ps_sys p' = ps_sys p
      else serves fd (ps_sys p') \<and> devices (ps_sys p') = devices (ps_sys p) \<and> ps_errno p' = ps_errno p \<and>
           (\<forall>q. ps_sys q = ps_sys p' \<longrightarrow> so_close ops fd q = (0, q\<lparr>ps_sys := ps_sys p\<rparr>))"
begin

lemma opened:
  assumes "sound (ps_sys p)" and "so_open ops PDI_CTL_DEFAULT_DEVICE O_RDWR_CLOEXEC p = (fd, p1)" and "\<not> fd < 0"
  shows "pdi_get_device_by_name ops (Some \<lparr>cc_fd = fd\<rparr>) (Some name) (Some info) p1 =
     (case find (\<lambda>d. pd_name d = take 63 name) (visible_devices (devices (ps_sys p))) of
        None \<Rightarrow> (- 1, Some info, p1\<lparr>ps_errno := ENODEV\<rparr>)
      | Some d \<Rightarrow> (0, Some (device_info_of d), p1))"
    and "pdi_ctl_close ops (Some \<lparr>cc_fd = fd\<rparr>) p1 = (0, Some \<lparr>cc_fd = - 1\<rparr>, p)"
    and "pdi_ctl_close ops (Some \<lparr>cc_fd = fd\<rparr>) (p1\<lparr>ps_errno := e\<rparr>) = (0, Some \<lparr>cc_fd = - 1\<rparr>, p\<lparr>ps_errno := e\<rparr>)"
proof -
  from open_law [OF assms(1,2)] assms(3)
  have s: "serves fd (ps_sys p1)" and d: "devices (ps_sys p1) = devices (ps_sys p)"
    and e: "ps_errno p1 = ps_errno p"
    and c: "\<And>q. ps_sys q = ps_sys p1 \<Longrightarrow> so_close ops fd q = (0, q\<lparr>ps_sys := ps_sys p\<rparr>)" by simp_all
  have close: "pdi_ctl_close ops (Some \<lparr>cc_fd = fd\<rparr>) q = (0, Some \<lparr>cc_fd = - 1\<rparr>, q\<lparr>ps_sys := ps_sys p\<rparr>)"
    if "ps_sys q = ps_sys p1" for q
    using assms(3) c [OF that]
    by (simp add: pdi_ctl_close_def pdi_check_fd_def pdi_syscall_close_def pdi_result_from_syscall_def)
  from e have restored: "p1\<lparr>ps_sys := ps_sys p\<rparr> = p" by simp
  then have restored': "p1\<lparr>ps_errno := n, ps_sys := ps_sys p\<rparr> = p\<lparr>ps_errno := n\<rparr>" for n by simp
  show "pdi_get_device_by_name ops (Some \<lparr>cc_fd = fd\<rparr>) (Some name) (Some info) p1 =
     (case find (\<lambda>d. pd_name d = take 63 name) (visible_devices (devices (ps_sys p))) of
        None \<Rightarrow> (- 1, Some info, p1\<lparr>ps_errno := ENODEV\<rparr>)
      | Some d \<Rightarrow> (0, Some (device_info_of d), p1))"
    using get_by_name [of "\<lparr>cc_fd = fd\<rparr>"] s d by simp
  show "pdi_ctl_close ops (Some \<lparr>cc_fd = fd\<rparr>) p1 = (0, Some \<lparr>cc_fd = - 1\<rparr>, p)"
    using close [of p1] restored by simp
  show "pdi_ctl_close ops (Some \<lparr>cc_fd = fd\<rparr>) (p1\<lparr>ps_errno := e\<rparr>) = (0, Some \<lparr>cc_fd = - 1\<rparr>, p\<lparr>ps_errno := e\<rparr>)"
    using close [of "p1\<lparr>ps_errno := e\<rparr>"] restored' by simp
qed

lemma led_open_by_name:
  assumes "sound (ps_sys p)"
  shows "pdi_led_open_by_name ops (Some ctx) (Some name) p =
     (case so_open ops PDI_CTL_DEFAULT_DEVICE O_RDWR_CLOEXEC p of
        (fd, p1) \<Rightarrow>
          if fd < 0 then (- 1, Some (ctx\<lparr>lc_fd := - 1\<rparr>), p1)
          else case find (\<lambda>d. pd_name d = take 63 name) (visible_devices (devices (ps_sys p))) of
            None \<Rightarrow> (- 1, Some (ctx\<lparr>lc_fd := - 1\<rparr>), p\<lparr>ps_errno := ENODEV\<rparr>)
          | Some d \<Rightarrow>
              if pd_type d \<noteq> PDM_MANAGER_DEVICE_TYPE_LED
              then (- 1, Some (ctx\<lparr>lc_fd := - 1\<rparr>), p\<lparr>ps_errno := ENODEV\<rparr>)
              else pdi_led_open ops (Some (ctx\<lparr>lc_fd := - 1\<rparr>))
                     (Some (pdi_led_device_path (of_int (pd_id d)))) p)"
proof -
  obtain fd p1 where o: "so_open ops PDI_CTL_DEFAULT_DEVICE O_RDWR_CLOEXEC p = (fd, p1)" by fastforce
  note start = pdi_led_open_by_name_def pdi_ctl_open_def pdi_syscall_open_def o
  show ?thesis
  proof (cases "fd < 0")
    case True
    then show ?thesis by (simp add: start)
  next
    case False
    note s = opened [OF assms o False]
    show ?thesis
    proof (cases "find (\<lambda>d. pd_name d = take 63 name) (visible_devices (devices (ps_sys p)))")
      case None
      with False show ?thesis by (simp add: start s)
    next
      case (Some d)
      with False show ?thesis
        using led_device_path_fits [of "of_int (pd_id d)"]
        by (simp add: start s pdi_fail_no_device_def pdi_fail_errno_def not_le)
    qed
  qed
qed

lemma mcu_open_by_name:
  assumes "sound (ps_sys p)"
  shows "pdi_mcu_open_by_name ops (Some ctx) (Some name) p =
     (case so_open ops PDI_CTL_DEFAULT_DEVICE O_RDWR_CLOEXEC p of
        (fd, p1) \<Rightarrow>
          if fd < 0 then (- 1, Some (ctx\<lparr>uc_fd := - 1\<rparr>), p1)
          else case find (\<lambda>d. pd_name d = take 63 name) (visible_devices (devices (ps_sys p))) of
            None \<Rightarrow> (- 1, Some (ctx\<lparr>uc_fd := - 1\<rparr>), p\<lparr>ps_errno := ENODEV\<rparr>)
          | Some d \<Rightarrow>
              if pd_type d \<noteq> PDM_MANAGER_DEVICE_TYPE_MCU
              then (- 1, Some (ctx\<lparr>uc_fd := - 1\<rparr>), p\<lparr>ps_errno := ENODEV\<rparr>)
              else pdi_mcu_open ops (Some (ctx\<lparr>uc_fd := - 1\<rparr>))
                     (Some (pdi_mcu_device_path (of_int (pd_id d)))) p)"
proof -
  obtain fd p1 where o: "so_open ops PDI_CTL_DEFAULT_DEVICE O_RDWR_CLOEXEC p = (fd, p1)" by fastforce
  note start = pdi_mcu_open_by_name_def pdi_ctl_open_def pdi_syscall_open_def o
  show ?thesis
  proof (cases "fd < 0")
    case True
    then show ?thesis by (simp add: start)
  next
    case False
    note s = opened [OF assms o False]
    show ?thesis
    proof (cases "find (\<lambda>d. pd_name d = take 63 name) (visible_devices (devices (ps_sys p)))")
      case None
      with False show ?thesis by (simp add: start s)
    next
      case (Some d)
      with False show ?thesis
        using mcu_device_path_fits [of "of_int (pd_id d)"]
        by (simp add: start s pdi_fail_no_device_def pdi_fail_errno_def not_le)
    qed
  qed
qed

end

section \<open>The host provides it\<close>

definition host_sound :: "('ida, 'e) pdi_host \<Rightarrow> bool" where
  "host_sound h \<longleftrightarrow> ho_nodes h PDI_CTL_DEFAULT_DEVICE = Some NODE_CTL \<and> 0 \<le> ho_ctl_open h"

definition host_serves :: "int \<Rightarrow> ('ida, 'e) pdi_host \<Rightarrow> bool" where
  "host_serves fd h \<longleftrightarrow> 0 \<le> fd \<and> ho_files h fd = Some NODE_CTL"

lemma host_free_fd_Some:
  assumes "host_free_fd k h = Some fd"
  shows "0 \<le> fd \<and> ho_files h fd = None"
  using assms by (auto simp: host_free_fd_def find_Some_iff)

lemma host_open_ctl:
  assumes "host_sound (ps_sys p)"
  shows "host_open k PDI_CTL_DEFAULT_DEVICE fl p =
     (case host_free_fd k (ps_sys p) of
        None \<Rightarrow> (- 1, p\<lparr>ps_errno := EMFILE\<rparr>)
      | Some fd \<Rightarrow> (fd, p\<lparr>ps_sys := (ps_sys p)\<lparr>ho_ctl_open := ho_ctl_open (ps_sys p) + 1,
                        ho_files := (ho_files (ps_sys p))(fd := Some NODE_CTL)\<rparr>\<rparr>))"
  using assms host_free_fd_Some [of k "ps_sys p"]
  by (auto simp: host_open_def host_sound_def libc_return_def pdm_manager_open_def split: option.split)

interpretation host: pdi_discovery "host_ops k" host_serves ho_devs ho_ctl_open host_sound
proof (unfold_locales, goal_cases)
  case (1 fd s)
  then show ?case by (simp add: host_serves_def)
next
  case (2 fd p req)
  then show ?case by (simp add: host_serves_def host_ioctl_def split: prod.split)
next
  case (3 p fd p')
  then show ?case
    using host_free_fd_Some [of k "ps_sys p"]
    by (cases "host_free_fd k (ps_sys p)")
      (auto simp: host_open_ctl host_serves_def host_close_def libc_return_def pdm_manager_release_def
        atomic_dec_if_positive_def host_sound_def Let_def fun_upd_idem)
qed

section \<open>Requests on an open LED or MCU\<close>

definition host_led_open :: "int \<Rightarrow> nat \<Rightarrow> ('ida, 'e) pdi_host \<Rightarrow> bool" where
  "host_led_open fd n h \<longleftrightarrow> 0 \<le> fd \<and> ho_files h fd = Some (NODE_LED n) \<and> nat fd \<in> cs_files (fst (ho_leds h n))"

lemma led_request:
  assumes "host_led_open fd n (ps_sys p)"
    and "ho_leds (ps_sys p) n = (s, i)"
    and "pdm_led_ioctl (pdm_led_ops (hk_led k)) (hk_led_count k) (Some (cs_client s)) (ho_hw (ps_sys p)) i r =
           Some (ret, hw, i', r')"
  shows "pdi_led_ioctl_checked (host_ops k) (Some \<lparr>lc_fd = fd\<rparr>) (LED_REQ r) p =
     (if ret < 0 then - 1 else 0, LED_REQ r',
      p\<lparr>ps_errno := if ret < 0 then - ret else ps_errno p,
        ps_sys := (ps_sys p)\<lparr>ho_hw := hw, ho_leds := (ho_leds (ps_sys p))(n := (s, i'))\<rparr>\<rparr>)"
  using assms
  by (simp add: pdi_led_ioctl_checked_def pdi_check_fd_def pdi_syscall_ioctl_def host_ioctl_def host_led_open_def
      pdm_cdev_from_file_def libc_return_def pdi_result_from_syscall_def)

text \<open>The PWM calls of the kernel return 0 or a negative error, and so does every LED handler.\<close>

definition pwm_errors_negative :: "led_hw_api \<Rightarrow> bool" where
  "pwm_errors_negative api \<longleftrightarrow>
     (\<forall>w p st. ha_pwm_apply api w p st \<le> 0) \<and> (\<forall>p b m. fst (ha_relative_duty api p b m) \<le> 0)"

lemma led_apply_sign:
  assumes "pwm_errors_negative api" and "led_apply_of api t w i = (ret, w', i')"
  shows "ret \<le> 0"
proof (cases t)
  case PDM_LED_BACKEND_PWM
  have a: "ha_pwm_apply api w p st \<le> 0" and b: "ha_relative_duty api q x y = (r, c) \<Longrightarrow> r \<le> 0" for w p st q x y r c
    using assms(1) unfolding pwm_errors_negative_def by (blast, metis fst_conv)
  from assms(2) PDM_LED_BACKEND_PWM show ?thesis
    by (auto simp: pdm_led_pwm_apply_def pwm_apply_def pwm_set_relative_duty_cycle_def Let_def a
        split: option.splits if_splits prod.splits dest: b)
qed (use assms(2) in \<open>auto simp: pdm_led_memory_apply_def pdm_led_gpio_apply_def Let_def split: option.splits\<close>)

lemma set_brightness_sign:
  assumes neg: "pwm_errors_negative api" and "led_at_rest m t i w"
    and "pdm_led_set_brightness (pdm_led_ops api) w i arg = Some (ret, w', i')"
  shows "ret \<le> 0"
proof -
  have op: "le_ops i = Some t" "\<not> in_lock i" using assms(2) by (simp_all add: led_at_rest_def)
  show ?thesis
    using assms(3) op
    by (cases "in_online i") (auto simp: pdm_led_set_brightness_def Let_def pdm_led_apply_locked_def leds.apply_op
        split: option.splits if_splits prod.splits dest!: led_apply_sign [OF neg])
qed

lemma get_state_online:
  assumes "led_at_rest m t i w" and "in_online i"
  shows "pdm_led_get_state i (rw_buf st) = Some (0, i, rw_buf (st\<lparr>ls_brightness := le_brightness i,
        ls_max_brightness := le_max_brightness i, ls_enabled := le_enabled i\<rparr>))"
  using assms by (auto simp: pdm_led_get_state_def led_at_rest_def Let_def pdm_driver_release_def mutex_unlock_def)

definition host_mcu_open :: "int \<Rightarrow> nat \<Rightarrow> ('ida, 'e) pdi_host \<Rightarrow> bool" where
  "host_mcu_open fd n h \<longleftrightarrow> 0 \<le> fd \<and> ho_files h fd = Some (NODE_MCU n) \<and> nat fd \<in> cs_files (fst (ho_mcus h n))"

text \<open>The context that the handlers of MCU \<open>n\<close> work on.\<close>

definition host_mcu_ctx :: "('ida, 'e) pdi_host \<Rightarrow> nat \<Rightarrow> 'e mcu_ctx" where
  "host_mcu_ctx h n = \<lparr>cx_world = ho_world h, cx_dev = ho_devs h ! fst (snd (ho_mcus h n)),
     cx_inst = snd (snd (ho_mcus h n))\<rparr>"

lemma mcu_request:
  assumes "host_mcu_open fd n (ps_sys p)"
    and "ho_mcus (ps_sys p) n = (s, j, i)"
    and "pdm_mcu_ioctl (pdm_mcu_ops (hk_mcu k)) (hk_mcu_count k) (Some (cs_client s)) (host_mcu_ctx (ps_sys p) n) r =
           Some (ret, cx, r')"
  shows "pdi_mcu_ioctl_checked (host_ops k) (Some \<lparr>uc_fd = fd\<rparr>) (MCU_REQ r) p =
     (if ret < 0 then - 1 else 0, MCU_REQ r',
      p\<lparr>ps_errno := if ret < 0 then - ret else ps_errno p,
        ps_sys := (ps_sys p)\<lparr>ho_world := cx_world cx, ho_devs := (ho_devs (ps_sys p))[j := cx_dev cx],
                    ho_mcus := (ho_mcus (ps_sys p))(n := (s, j, cx_inst cx))\<rparr>\<rparr>)"
  using assms
  by (simp add: pdi_mcu_ioctl_checked_def pdi_check_fd_def pdi_syscall_ioctl_def host_ioctl_def host_mcu_open_def
      pdm_cdev_from_file_def libc_return_def pdi_result_from_syscall_def host_mcu_ctx_def)

lemma find_updated:
  assumes "j < length xs" and "P x" and "\<And>i. i < length xs \<Longrightarrow> i \<noteq> j \<Longrightarrow> \<not> P (xs ! i)"
  shows "find P (xs[j := x]) = Some x"
  using assms by (fastforce simp: find_Some_iff nth_list_update)

lemma find_filter: "find Q (filter P xs) = find (\<lambda>x. P x \<and> Q x) xs"
  by (induction xs) auto

section \<open>Properties\<close>

text \<open>
  Listing devices through the library, with the manager's node open: the call fills the array
  with the info structs of the first visible devices of the bus, in bus order, leaves the rest of
  the array alone and sets the count to how many it filled in. On a system that shows no device it
  fails with \<open>ENODEV\<close> and leaves count and array, unless the count was 0. A search by capability
  gives the device at the index among those that have all the capabilities, and rejects a search
  for none.
\<close>

theorem pdi_enumeration:
  assumes "host_serves (cc_fd c) (ps_sys p)" and "unat n \<le> length ds"
    and "vis = visible_devices (ho_devs (ps_sys p))" and "m = min (unat n) (length vis)"
  shows "pdi_list_devices (host_ops k) (Some c) (Some ds) (Some n) p =
       (if n \<noteq> 0 \<and> vis = [] then (- 1, Some ds, Some n, p\<lparr>ps_errno := ENODEV\<rparr>)
        else (0, Some (map device_info_of (take m vis) @ drop m ds), Some (of_nat m),
              if m < unat n then p\<lparr>ps_errno := ENODEV\<rparr> else p)) \<and>
     pdi_get_device_by_capability (host_ops k) (Some c) req i (Some info) p =
       (if req = 0 then (- 1, Some info, p\<lparr>ps_errno := EINVAL\<rparr>)
        else case list_at (capable_devices req (ho_devs (ps_sys p))) (unat i) of
          None \<Rightarrow> (- 1, Some info, p\<lparr>ps_errno := ENODEV\<rparr>)
        | Some d \<Rightarrow> (0, Some (device_info_of d), p))"
proof
  show "pdi_list_devices (host_ops k) (Some c) (Some ds) (Some n) p =
       (if n \<noteq> 0 \<and> vis = [] then (- 1, Some ds, Some n, p\<lparr>ps_errno := ENODEV\<rparr>)
        else (0, Some (map device_info_of (take m vis) @ drop m ds), Some (of_nat m),
              if m < unat n then p\<lparr>ps_errno := ENODEV\<rparr> else p))"
    using host.list_devices [OF assms(1,3,4), of "Some ds"] assms(2) by simp
qed (rule host.get_by_capability [OF assms(1)])

text \<open>
  C8. Opening a LED or an MCU by its name looks the name up, cut to 63 characters, among the visible
  devices, and opens the node of the first one found when it has the right type. Whatever the
  outcome, the descriptor used for the lookup is closed again: up to \<open>errno\<close> the process is as
  before, but for the node that a success opens.
\<close>

theorem pdi_open_by_name:
  assumes "host_sound (ps_sys p)"
    and "found = find (\<lambda>d. pd_name d = take 63 name) (visible_devices (ho_devs (ps_sys p)))"
  shows "pdi_led_open_by_name (host_ops k) (Some lc) (Some name) p =
       (if host_free_fd k (ps_sys p) = None then (- 1, Some (lc\<lparr>lc_fd := - 1\<rparr>), p\<lparr>ps_errno := EMFILE\<rparr>)
        else case found of
          None \<Rightarrow> (- 1, Some (lc\<lparr>lc_fd := - 1\<rparr>), p\<lparr>ps_errno := ENODEV\<rparr>)
        | Some d \<Rightarrow>
            if pd_type d = PDM_MANAGER_DEVICE_TYPE_LED
            then pdi_led_open (host_ops k) (Some (lc\<lparr>lc_fd := - 1\<rparr>))
                   (Some (''/dev/pdm/led'' @ dec_digits (unat (of_int (pd_id d) :: u32)))) p
            else (- 1, Some (lc\<lparr>lc_fd := - 1\<rparr>), p\<lparr>ps_errno := ENODEV\<rparr>)) \<and>
     pdi_mcu_open_by_name (host_ops k) (Some uc) (Some name) p =
       (if host_free_fd k (ps_sys p) = None then (- 1, Some (uc\<lparr>uc_fd := - 1\<rparr>), p\<lparr>ps_errno := EMFILE\<rparr>)
        else case found of
          None \<Rightarrow> (- 1, Some (uc\<lparr>uc_fd := - 1\<rparr>), p\<lparr>ps_errno := ENODEV\<rparr>)
        | Some d \<Rightarrow>
            if pd_type d = PDM_MANAGER_DEVICE_TYPE_MCU
            then pdi_mcu_open (host_ops k) (Some (uc\<lparr>uc_fd := - 1\<rparr>))
                   (Some (''/dev/pdm/mcu'' @ dec_digits (unat (of_int (pd_id d) :: u32)))) p
            else (- 1, Some (uc\<lparr>uc_fd := - 1\<rparr>), p\<lparr>ps_errno := ENODEV\<rparr>))"
  using host_free_fd_Some [of k "ps_sys p"]
  by (auto simp: host.led_open_by_name [OF assms(1)] host.mcu_open_by_name [OF assms(1)] host_open_ctl [OF assms(1)]
      assms(2) pdi_led_device_path_def pdi_mcu_device_path_def split: option.split)

text \<open>
  Setting a brightness through the library and reading the state back, on an online LED at rest:
  the state is the new one when the call succeeded and the old one when it failed, a brightness
  above the maximum fails with \<open>ERANGE\<close>, and reading changes nothing.
\<close>

theorem pdi_led_brightness:
  assumes "host_led_open fd n (ps_sys p)" and "ho_leds (ps_sys p) n = (s, i)"
    and "led_at_rest (led_shows (hk_led k)) t i (ho_hw (ps_sys p))" and "in_online i"
    and "pwm_errors_negative (hk_led k)"
    and "pdi_led_set_brightness (host_ops k) (Some \<lparr>lc_fd = fd\<rparr>) x b p = (ret, p1)"
  shows "pdi_led_get_state (host_ops k) (Some \<lparr>lc_fd = fd\<rparr>) (Some st) p1 =
       (0, Some (st\<lparr>ls_brightness := if ret = 0 then b else le_brightness i,
                    ls_max_brightness := le_max_brightness i,
                    ls_enabled := if ret = 0 \<and> b \<noteq> 0 then 1 else le_enabled i\<rparr>), p1) \<and>
     (ret = 0 \<longrightarrow> b \<le> le_max_brightness i) \<and>
     (le_max_brightness i < b \<longrightarrow> ret = - 1 \<and> ps_errno p1 = ERANGE) \<and>
     led_at_rest (led_shows (hk_led k)) t (snd (ho_leds (ps_sys p1) n)) (ho_hw (ps_sys p1))"
proof -
  define arg where "arg = rw_buf \<lparr>lb_index = x, lb_brightness = b\<rparr>"
  from leds.ioctl_spec [OF assms(3), of "hk_led_count k" "cs_client s" "LED_SET_BRIGHTNESS arg"]
  obtain r w' i' req' where step: "leds.ioctl_step (hk_led k) t (hk_led_count k) (cs_client s) (ho_hw (ps_sys p)) i
      (LED_SET_BRIGHTNESS arg) r w' i' req'" by blast
  note st = step [unfolded leds.ioctl_step_def]
  have i': "i' = i\<lparr>le_brightness := le_brightness i', le_enabled := le_enabled i'\<rparr>" using st by blast
  have io: "pdm_led_ioctl (pdm_led_ops (hk_led k)) (hk_led_count k) (Some (cs_client s)) (ho_hw (ps_sys p)) i
      (LED_SET_BRIGHTNESS arg) = Some (r, w', i', req')" using st by blast
  then have "pdm_led_set_brightness (pdm_led_ops (hk_led k)) (ho_hw (ps_sys p)) i arg = Some (r, w', i')"
    by (auto split: option.splits)
  then have r: "r \<le> 0" by (rule set_brightness_sign [OF assms(5,3)])
  define h1 where "h1 = (ps_sys p)\<lparr>ho_hw := w', ho_leds := (ho_leds (ps_sys p))(n := (s, i'))\<rparr>"
  have set: "ret = (if r < 0 then - 1 else 0)" "p1 = p\<lparr>ps_errno := if r < 0 then - r else ps_errno p, ps_sys := h1\<rparr>"
    using assms(6) led_request [OF assms(1,2) io]
    by (simp_all add: pdi_led_set_brightness_def arg_def h1_def split: prod.splits)
  have at: "led_at_rest (led_shows (hk_led k)) t i' w'" using st by blast
  have on: "in_online i'" and mx: "le_max_brightness i' = le_max_brightness i"
    by (subst i', simp add: assms(4)) (subst i', simp)
  have vals: "(le_brightness i', le_enabled i') =
      (if r = 0 then (b, if b \<noteq> 0 then 1 else le_enabled i) else (le_brightness i, le_enabled i))"
    and up: "r = 0 \<longrightarrow> b \<le> le_max_brightness i" and over: "le_max_brightness i < b \<longrightarrow> r = - ERANGE"
    using st by (simp_all add: arg_def)
  have h1: "host_led_open fd n (ps_sys p1)" "ho_leds (ps_sys p1) n = (s, i')" "ho_hw (ps_sys p1) = w'"
    "(ps_sys p1)\<lparr>ho_hw := w', ho_leds := (ho_leds (ps_sys p1))(n := (s, i'))\<rparr> = ps_sys p1"
    using assms(1,2) by (simp_all add: set(2) h1_def host_led_open_def)
  have get: "pdm_led_ioctl (pdm_led_ops (hk_led k)) (hk_led_count k) (Some (cs_client s)) (ho_hw (ps_sys p1)) i'
      (LED_GET_STATE (rw_buf st)) = Some (0, w', i', LED_GET_STATE (rw_buf (st\<lparr>ls_brightness := le_brightness i',
         ls_max_brightness := le_max_brightness i, ls_enabled := le_enabled i'\<rparr>)))"
    using get_state_online [OF at on] by (simp add: mx h1(3))
  have "pdi_led_get_state (host_ops k) (Some \<lparr>lc_fd = fd\<rparr>) (Some st) p1 =
      (0, Some (st\<lparr>ls_brightness := le_brightness i', ls_max_brightness := le_max_brightness i,
                   ls_enabled := le_enabled i'\<rparr>), p1)"
    using led_request [OF h1(1,2) get] h1(4) by (simp add: pdi_led_get_state_def)
  moreover have "ret = 0 \<longleftrightarrow> r = 0" using set(1) r by simp
  ultimately show ?thesis
    using vals up over at h1(2,3) set r by (auto split: if_splits)
qed

text \<open>
  C7. What an MCU's handler records is what discovery reports. After a command through the library
  to an MCU at rest, a lookup of its device by name gives the outcome: no error and the state bound
  after a success, and after a failure the error that \<open>errno\<close> has, the error state and one more
  error counted; a command that failed leaves the caller's struct alone.
\<close>

theorem pdi_mcu_error_reported:
  assumes "mcu_bus_laws (hk_mcu k)"
    and "host_mcu_open fd n (ps_sys p)" and "ho_mcus (ps_sys p) n = (s, j, i)"
    and "mcu_at_rest t (host_mcu_ctx (ps_sys p) n)"
    and "j < length (ho_devs (ps_sys p))" and "d = ho_devs (ps_sys p) ! j"
    and "pd_id_allocated d" and "pd_type d \<noteq> PDM_MANAGER_DEVICE_TYPE_INVALID" and "length (pd_name d) < 64"
    and "\<And>m. m < length (ho_devs (ps_sys p)) \<Longrightarrow> m \<noteq> j \<Longrightarrow> pd_name (ho_devs (ps_sys p) ! m) \<noteq> pd_name d"
    and "host_serves (cc_fd c) (ps_sys p)"
    and "pdi_mcu_command (host_ops k) (Some \<lparr>uc_fd = fd\<rparr>) (Some cmd) p = (ret, Some cmd', p1)"
  shows "\<exists>info. pdi_get_device_by_name (host_ops k) (Some c) (Some (pd_name d)) (Some old) p1 = (0, Some info, p1) \<and>
     di_type info = pd_type d \<and> di_index info = of_int (pd_id d) \<and>
     (if ret = 0
      then di_last_error info = 0 \<and> di_state info = PDM_MANAGER_DEVICE_STATE_BOUND \<and>
           di_error_count info = pd_error_count d \<and> mcu_command_reply_ok cmd cmd'
      else ret = - 1 \<and> di_last_error info = - ps_errno p1 \<and> 0 < ps_errno p1 \<and>
           di_state info = PDM_MANAGER_DEVICE_STATE_ERROR \<and> di_error_count info = pd_error_count d + 1 \<and> cmd' = cmd)"
proof -
  define devs where "devs = ho_devs (ps_sys p)"
  from mcus.ioctl_step [OF assms(4,1), of "hk_mcu_count k" "cs_client s" "MCU_COMMAND (rw_buf cmd)"]
  obtain r cx req' where io: "pdm_mcu_ioctl (pdm_mcu_ops (hk_mcu k)) (hk_mcu_count k) (Some (cs_client s))
        (host_mcu_ctx (ps_sys p) n) (MCU_COMMAND (rw_buf cmd)) = Some (r, cx, req')"
    and frame: "mcus.mcu_frame t (host_mcu_ctx (ps_sys p) n) cx"
    and reply: "mcu_reply_ok (mcu_view (host_mcu_ctx (ps_sys p) n)) (MCU_COMMAND (rw_buf cmd), r, req') (mcu_view cx)"
    by blast
  have dev: "cx_dev (host_mcu_ctx (ps_sys p) n) = d" using assms(3,6) by (simp add: host_mcu_ctx_def)
  have keep: "pd_name (cx_dev cx) = pd_name d" "pd_type (cx_dev cx) = pd_type d" "pd_id (cx_dev cx) = pd_id d"
    "pd_id_allocated (cx_dev cx) = pd_id_allocated d"
    using frame dev mcu_dev_identity_sel [of "cx_dev cx" d] by (simp_all add: mcus.mcu_frame_def)
  have rest: "mcu_at_rest t cx" using frame by (simp add: mcus.mcu_frame_def)
  from reply obtain arg' where req: "req' = MCU_COMMAND arg'" and r: "r \<le> 0"
    and view: "(pd_last_error (cx_dev cx), pd_error_count (cx_dev cx)) =
        (if r < 0 then (r, pd_error_count d + 1) else (0, pd_error_count d))"
    and cmd: "if r = 0 then mcu_command_reply_ok cmd (ub_val arg') else arg' = rw_buf cmd"
    by (auto simp: mcu_exchange_ok_def mcu_view_def mcu_after_def dev split: if_splits)
  have ret: "ret = (if r < 0 then - 1 else 0)" "cmd' = ub_val arg'"
    and p1: "p1 = p\<lparr>ps_errno := if r < 0 then - r else ps_errno p,
        ps_sys := (ps_sys p)\<lparr>ho_world := cx_world cx, ho_devs := devs[j := cx_dev cx],
          ho_mcus := (ho_mcus (ps_sys p))(n := (s, j, cx_inst cx))\<rparr>\<rparr>"
    using assms(12) mcu_request [OF assms(2,3) io] req
    by (simp_all add: pdi_mcu_command_def devs_def split: prod.splits)
  have state: "pd_state (cx_dev cx) = (if r < 0 then PDM_MANAGER_DEVICE_STATE_ERROR else PDM_MANAGER_DEVICE_STATE_BOUND)"
    using rest view r by (auto simp: mcu_at_rest_def split: if_splits)
  have "find (\<lambda>e. pdm_manager_device_visible (Some e) \<and> pd_name e = pd_name d) (devs[j := cx_dev cx]) = Some (cx_dev cx)"
    using assms(5,7,8,10) keep state
    by (intro find_updated) (auto simp: devs_def pdm_manager_device_visible.simps)
  then have "find (\<lambda>e. pd_name e = take 63 (pd_name d)) (visible_devices (ho_devs (ps_sys p1))) = Some (cx_dev cx)"
    using assms(9) by (simp add: p1 visible_devices_def find_filter)
  then have "pdi_get_device_by_name (host_ops k) (Some c) (Some (pd_name d)) (Some old) p1 =
      (0, Some (device_info_of (cx_dev cx)), p1)"
    using assms(11) by (subst host.get_by_name) (simp_all add: p1 host_serves_def)
  then show ?thesis
    using ret keep view state cmd r by (auto simp: p1)
qed

text \<open>A host with a LED and an MCU, each node of which the process has open.\<close>

definition example_kernel :: "(nat list, nat) pdi_kernel" where
  "example_kernel = \<lparr>hk_ida = list_ida, hk_led = example_hw_api, hk_mcu = example_mcu_api, hk_led_count = 1,
     hk_mcu_count = 1, hk_open_max = 16\<rparr>"

definition example_host :: "(nat list, nat) pdi_host" where
  "example_host = \<lparr>ho_nodes = [PDI_CTL_DEFAULT_DEVICE \<mapsto> NODE_CTL, ''/dev/pdm/led0'' \<mapsto> NODE_LED 0,
       ''/dev/pdm/mcu0'' \<mapsto> NODE_MCU 0],
     ho_files = [3 \<mapsto> NODE_CTL, 4 \<mapsto> NODE_LED 0, 5 \<mapsto> NODE_MCU 0],
     ho_devs = [example_device ''led@0'' 2 1 0, cx_dev (example_mcu_ctx PDM_MCU_BACKEND_UART)], ho_ctl_open = 1,
     ho_hw = example_hw, ho_leds = (\<lambda>_. (cdev_sys0\<lparr>cs_files := {4}\<rparr>, example_led)),
     ho_world = cx_world (example_mcu_ctx PDM_MCU_BACKEND_UART),
     ho_mcus = (\<lambda>_. (cdev_sys0\<lparr>cs_files := {5}\<rparr>, 1, cx_inst (example_mcu_ctx PDM_MCU_BACKEND_UART))), ho_hung = False\<rparr>"

definition example_process :: "(nat list, nat) host_process" where
  "example_process = \<lparr>ps_errno = 0, ps_sys = example_host\<rparr>"

lemma example_devices:
  "visible_devices (ho_devs example_host) = ho_devs example_host" "length (ho_devs example_host) = 2"
  "map pd_name (ho_devs example_host) = [''led@0'', ''mcu'']" "map pd_type (ho_devs example_host) = [2, 1]"
  by (simp_all add: example_host_def example_device_def example_mcu_ctx_def new_device_def pdm_device_alloc_def
      pdm_manager_device_visible.simps)

lemma example_serves: "host_serves 3 (ps_sys example_process)" "host_sound (ps_sys example_process)"
  by (simp_all add: host_serves_def host_sound_def example_process_def example_host_def PDI_CTL_DEFAULT_DEVICE_def)

theorem pdi_enumeration_witness:
  "fst (pdi_list_devices (host_ops example_kernel) (Some \<lparr>cc_fd = 3\<rparr>)
      (Some (replicate 4 pdm_manager_device_info_zero)) (Some 4) example_process) = 0"
  using pdi_enumeration [OF _ _ refl refl, of "\<lparr>cc_fd = 3\<rparr>" example_process 4
      "replicate 4 pdm_manager_device_info_zero" example_kernel] example_devices example_serves
  by (auto simp: example_process_def)

theorem pdi_open_by_name_witness:
  "fst (pdi_mcu_open_by_name (host_ops example_kernel) (Some \<lparr>uc_fd = 0\<rparr>) (Some ''led@0'') example_process) = - 1"
proof -
  have "find (\<lambda>d. pd_name d = ''led@0'') (ho_devs example_host) = Some (example_device ''led@0'' 2 1 0)"
    by (simp add: example_host_def example_device_def)
  then show ?thesis
    using pdi_open_by_name [OF example_serves(2) refl, where name = "''led@0''" and k = example_kernel
        and uc = "\<lparr>uc_fd = 0\<rparr>"]
      example_devices
    by (auto simp: example_process_def example_device_def)
qed

lemma example_led_open: "host_led_open 4 0 (ps_sys example_process)"
  "ho_leds (ps_sys example_process) 0 = (cdev_sys0\<lparr>cs_files := {4}\<rparr>, example_led)"
  "ho_hw (ps_sys example_process) = example_hw" "pwm_errors_negative example_hw_api" "in_online example_led"
  by (simp_all add: host_led_open_def example_process_def example_host_def pwm_errors_negative_def
      example_hw_api_def example_led_def)

theorem pdi_led_brightness_witness:
  "\<exists>ret p1. pdi_led_set_brightness (host_ops example_kernel) (Some \<lparr>lc_fd = 4\<rparr>) 0 300 example_process = (ret, p1) \<and>
     ret = - 1 \<and> ps_errno p1 = ERANGE"
proof -
  obtain ret p1 where eq: "pdi_led_set_brightness (host_ops example_kernel) (Some \<lparr>lc_fd = 4\<rparr>) 0 300 example_process = (ret, p1)"
    by fastforce
  have "led_at_rest (led_shows (hk_led example_kernel)) PDM_LED_BACKEND_GPIO example_led (ho_hw (ps_sys example_process))"
    using example_led_at_rest example_led_open(3) by (simp add: example_kernel_def)
  moreover have "pwm_errors_negative (hk_led example_kernel)" using example_led_open(4) by (simp add: example_kernel_def)
  ultimately show ?thesis
    using pdi_led_brightness [OF example_led_open(1,2) _ example_led_open(5) _ eq] eq by (simp add: example_led_def)
qed

lemma example_mcu_open: "host_mcu_open 5 0 (ps_sys example_process)"
  "host_mcu_ctx (ps_sys example_process) 0 = example_mcu_ctx PDM_MCU_BACKEND_UART"
  by (simp_all add: host_mcu_open_def example_process_def example_host_def host_mcu_ctx_def)

theorem pdi_mcu_error_reported_witness:
  "\<exists>ret cmd p1 info. pdi_mcu_command (host_ops example_kernel) (Some \<lparr>uc_fd = 5\<rparr>) (Some example_command) example_process =
       (ret, Some cmd, p1) \<and>
     pdi_get_device_by_name (host_ops example_kernel) (Some \<lparr>cc_fd = 3\<rparr>) (Some ''mcu'')
       (Some pdm_manager_device_info_zero) p1 = (0, Some info, p1) \<and> (ret = 0 \<longrightarrow> di_last_error info = 0)"
proof -
  obtain ret cmd p1 where eq: "pdi_mcu_command (host_ops example_kernel) (Some \<lparr>uc_fd = 5\<rparr>) (Some example_command)
      example_process = (ret, Some cmd, p1)"
    by (fastforce simp: pdi_mcu_command_def split: prod.splits)
  have laws: "mcu_bus_laws (hk_mcu example_kernel)" using example_mcu_laws by (simp add: example_kernel_def)
  have m: "ho_mcus (ps_sys example_process) 0 =
      (cdev_sys0\<lparr>cs_files := {5}\<rparr>, 1, cx_inst (example_mcu_ctx PDM_MCU_BACKEND_UART))"
    by (simp add: example_process_def example_host_def)
  have rest: "mcu_at_rest PDM_MCU_BACKEND_UART (host_mcu_ctx (ps_sys example_process) 0)"
    unfolding example_mcu_open(2) by (rule example_mcu_at_rest)
  let ?d = "cx_dev (example_mcu_ctx PDM_MCU_BACKEND_UART)"
  have d: "1 < length (ho_devs (ps_sys example_process))" "?d = ho_devs (ps_sys example_process) ! 1"
    "pd_id_allocated ?d" "pd_type ?d \<noteq> 0" "length (pd_name ?d) < 64" "pd_name ?d = ''mcu''"
    by (simp_all add: example_process_def example_host_def example_mcu_ctx_def new_device_def pdm_device_alloc_def)
  have other: "pd_name (ho_devs (ps_sys example_process) ! k) \<noteq> pd_name ?d"
    if "k < length (ho_devs (ps_sys example_process))" "k \<noteq> 1" for k
  proof -
    from that d(1) have "k = 0" by (simp add: example_process_def example_host_def)
    then show ?thesis using d(6) by (simp add: example_process_def example_host_def example_device_def)
  qed
  from pdi_mcu_error_reported [OF laws example_mcu_open(1) m rest d(1-5) other _ eq, of "\<lparr>cc_fd = 3\<rparr>"
      pdm_manager_device_info_zero] example_serves(1)
  show ?thesis using eq d(6) by (auto split: if_splits)
qed

end
