(* ===== verification/App_Led_Test.thy ===== *)
theory App_Led_Test
  imports Pdi_Host
begin

text \<open>
  The LED test program, \<open>src/apps/led_test/main.c\<close>: three tests over the PDI library, each of which opens
  the first LED, works on it and closes it. A run gives the exit code, the values that were shown, and the
  process. The fixed messages and the pauses are left out; locals that the code does not initialise
  are arguments.

  The theorems run the program over the library and the kernel modules together.
\<close>

section \<open>The program\<close>

datatype led_output = Led_info pdm_led_info | Led_state pdm_led_state | Current_brightness u32

type_synonym 's led_run = "int \<times> led_output list \<times> 's pdi_process"

text \<open>Each test opens the device, and closes it at \<open>cleanup\<close> whatever happened in between.\<close>

definition with_led ::
  "'s pdi_syscall_ops \<Rightarrow> pdi_led_context \<Rightarrow> (pdi_led_context option \<Rightarrow> 's pdi_process \<Rightarrow> 's led_run) \<Rightarrow>
     's pdi_process \<Rightarrow> 's led_run" where
  "with_led ops ctx body p =
     (let (ret, ctx, p) = pdi_led_open ops (Some ctx) (Some PDI_LED_DEFAULT_DEVICE) p
      in if ret < 0 then (ret, [], p)
         else let (ret, out, p) = body ctx p;
                  (_, _, p) = pdi_led_close ops ctx p
              in (ret, out, p))"

definition test_led_basic ::
  "'s pdi_syscall_ops \<Rightarrow> pdi_led_context \<Rightarrow> pdm_led_info \<Rightarrow> pdm_led_state \<Rightarrow> 's pdi_process \<Rightarrow> 's led_run" where
  "test_led_basic ops ctx info state =
     with_led ops ctx (\<lambda>ctx p.
       let (ret, info, p) = pdi_led_get_info ops ctx (Some info) p
       in if ret < 0 then (ret, [], p)
          else let (ret, state, p) = pdi_led_get_state ops ctx (Some (state\<lparr>ls_index := 0\<rparr>)) p
               in if ret < 0 then (ret, [Led_info (the info)], p)
                  else (0, [Led_info (the info), Led_state (the state)], p))"

primrec set_levels ::
  "'s pdi_syscall_ops \<Rightarrow> pdi_led_context option \<Rightarrow> u32 list \<Rightarrow> pdm_led_state \<Rightarrow> 's pdi_process \<Rightarrow> 's led_run" where
  "set_levels ops ctx [] state p = (0, [], p)"
| "set_levels ops ctx (brightness # levels) state p =
     (let (ret, p) = pdi_led_set_brightness ops ctx 0 brightness p
      in if ret < 0 then (ret, [], p)
         else let (ret, state, p) = pdi_led_get_state ops ctx (Some (state\<lparr>ls_index := 0\<rparr>)) p
              in if ret < 0 then (ret, [], p)
                 else let (ret, out, p) = set_levels ops ctx levels (the state) p
                      in (ret, Current_brightness (ls_brightness (the state)) # out, p))"

definition brightness_levels :: "u32 list" where
  "brightness_levels = [0, 64, 128, 192, 255]"

definition test_led_brightness ::
  "'s pdi_syscall_ops \<Rightarrow> pdi_led_context \<Rightarrow> pdm_led_state \<Rightarrow> 's pdi_process \<Rightarrow> 's led_run" where
  "test_led_brightness ops ctx state =
     with_led ops ctx (\<lambda>ctx p.
       let (ret, p) = pdi_led_enable ops ctx 0 p
       in if ret < 0 then (ret, [], p)
          else let (ret, out, p) = set_levels ops ctx brightness_levels state p
               in if ret < 0 then (ret, out, p)
                  else let (_, p) = pdi_led_disable ops ctx 0 p in (0, out, p))"

primrec toggle_cycles ::
  "'s pdi_syscall_ops \<Rightarrow> pdi_led_context option \<Rightarrow> nat \<Rightarrow> 's pdi_process \<Rightarrow> int \<times> 's pdi_process" where
  "toggle_cycles ops ctx 0 p = (0, p)"
| "toggle_cycles ops ctx (Suc n) p =
     (let (ret, p) = pdi_led_enable ops ctx 0 p
      in if ret < 0 then (ret, p)
         else let (ret, p) = pdi_led_disable ops ctx 0 p
              in if ret < 0 then (ret, p) else toggle_cycles ops ctx n p)"

definition test_led_toggle :: "'s pdi_syscall_ops \<Rightarrow> pdi_led_context \<Rightarrow> 's pdi_process \<Rightarrow> 's led_run" where
  "test_led_toggle ops ctx =
     with_led ops ctx (\<lambda>ctx p.
       let (ret, p) = pdi_led_set_brightness ops ctx 0 255 p
       in if ret < 0 then (ret, [], p)
          else let (ret, p) = toggle_cycles ops ctx 5 p in (if ret < 0 then ret else 0, [], p))"

definition led_test_main ::
  "'s pdi_syscall_ops \<Rightarrow> pdi_led_context \<Rightarrow> pdm_led_info \<Rightarrow> pdm_led_state \<Rightarrow> 's pdi_process \<Rightarrow> 's led_run" where
  "led_test_main ops ctx info state p =
     (let (ret, out, p) = test_led_basic ops ctx info state p
      in if ret < 0 then (1, out, p)
         else let (ret, out', p) = test_led_brightness ops ctx state p
              in if ret < 0 then (1, out @ out', p)
                 else let (ret, out'', p) = test_led_toggle ops ctx p
                      in (if ret < 0 then 1 else 0, out @ out' @ out'', p))"

section \<open>The descriptors of the process\<close>






section \<open>The LED behind the first node\<close>





















section \<open>Properties\<close>




definition led_state_zero :: pdm_led_state where
  "led_state_zero = \<lparr>ls_index = 0, ls_brightness = 0, ls_max_brightness = 0, ls_enabled = 0\<rparr>"

definition led_info_zero :: pdm_led_info where
  "led_info_zero = \<lparr>li_abi_version = 0, li_version_major = 0, li_version_minor = 0, li_version_patch = 0,
     li_open_count = 0, li_max_devices = 0\<rparr>"



lemma led_test_passes_here:
  "fst (led_test_main (host_ops example_kernel) \<lparr>lc_fd = 0\<rparr> led_info_zero led_state_zero example_process) = 0"
  by code_simp

end
