(* ===== verification/Kernel_Text.thy ===== *)
theory Kernel_Text
  imports Lpf_Base
begin

unbundle bit_operations_syntax

text \<open>
  The text functions of the kernel library that the diagnostic files use: \<open>sscanf\<close> with the
  conversions \<open>%Ns\<close>, \<open>%u\<close> and \<open>%x\<close> (\<open>lib/vsprintf.c\<close>), \<open>strchr\<close> and the padded conversions of
  \<open>seq_printf\<close>. A conversion of \<open>sscanf\<close> that meets the end of the text or no digit ends the scan;
  the result is the list of the values converted so far, whose length is the return value of the
  C function. A number that does not fit wraps.
\<close>

section \<open>Characters\<close>

definition char_code :: "char \<Rightarrow> nat" where
  "char_code c = of_char c"

definition is_space :: "char \<Rightarrow> bool" where
  "is_space c \<longleftrightarrow> 9 \<le> char_code c \<and> char_code c \<le> 13 \<or> char_code c = 32 \<or> char_code c = 160"

text \<open>The value of a digit; anything else has a value above each base.\<close>

definition digit_val :: "char \<Rightarrow> nat" where
  "digit_val c =
     (let v = char_code c
      in if 48 \<le> v \<and> v \<le> 57 then v - 48
         else if 97 \<le> v \<and> v \<le> 102 then v - 87
         else if 65 \<le> v \<and> v \<le> 70 then v - 55
         else 99)"

definition newline :: char where
  "newline = char_of (10 :: nat)"

text \<open>The C string in a buffer.\<close>

definition c_str :: "string \<Rightarrow> string" where
  "c_str buf = takeWhile (\<lambda>c. char_code c \<noteq> 0) buf"

section \<open>Scanning\<close>

definition skip_spaces :: "string \<Rightarrow> string" where
  "skip_spaces s = dropWhile is_space s"

text \<open>The digits of a number and what follows them.\<close>

definition skip_radix :: "nat \<Rightarrow> string \<Rightarrow> string" where
  "skip_radix base s =
     (if base = 16 \<and> 2 \<le> length s \<and> s ! 0 = CHR ''0'' \<and> (s ! 1 = CHR ''x'' \<or> s ! 1 = CHR ''X'')
      then drop 2 s else s)"

definition simple_strtoull :: "nat \<Rightarrow> string \<Rightarrow> u64 \<times> string" where
  "simple_strtoull base s =
     (let s = skip_radix base s; is_digit = (\<lambda>c. digit_val c < base)
      in (foldl (\<lambda>res c. res * of_nat base + of_nat (digit_val c)) 0 (takeWhile is_digit s), dropWhile is_digit s))"

datatype scan_item = SCAN_SPACE | SCAN_STRING nat | SCAN_UINT nat
datatype scan_value = SCANNED_STRING string | SCANNED_UINT u32

fun take_word :: "nat \<Rightarrow> string \<Rightarrow> string \<times> string" where
  "take_word n [] = ([], [])"
| "take_word 0 (c # s) = ([], c # s)"
| "take_word (Suc n) (c # s) =
     (if is_space c then ([], c # s) else (case take_word n s of (w, rest) \<Rightarrow> (c # w, rest)))"

fun sscanf :: "string \<Rightarrow> scan_item list \<Rightarrow> scan_value list" where
  "sscanf s [] = []"
| "sscanf s (SCAN_SPACE # fmt) = sscanf (skip_spaces s) fmt"
| "sscanf s (SCAN_STRING n # fmt) =
     (if s = [] then []
      else case take_word n (skip_spaces s) of (w, rest) \<Rightarrow> SCANNED_STRING w # sscanf rest fmt)"
| "sscanf s (SCAN_UINT base # fmt) =
     (if s = [] then []
      else case skip_spaces s of
          [] \<Rightarrow> []
        | c # s' \<Rightarrow>
            if base \<le> digit_val c then []
            else case simple_strtoull base (c # s') of (v, rest) \<Rightarrow> SCANNED_UINT (ucast v) # sscanf rest fmt)"

text \<open>\<open>strchr (s, c)\<close>: the text from the first \<open>c\<close> on, or \<open>None\<close>.\<close>

fun strchr :: "string \<Rightarrow> char \<Rightarrow> string option" where
  "strchr [] c = None"
| "strchr (d # s) c = (if d = c then Some (d # s) else strchr s c)"

section \<open>Printing\<close>

definition fmt_u :: "u32 \<Rightarrow> string" where
  "fmt_u v = dec_digits (unat v)"

definition pad_left :: "nat \<Rightarrow> string \<Rightarrow> string" where
  "pad_left n s = replicate (n - length s) CHR '' '' @ s"

definition pad_right :: "nat \<Rightarrow> string \<Rightarrow> string" where
  "pad_right n s = s @ replicate (n - length s) CHR '' ''"

definition hex_char :: "nat \<Rightarrow> char" where
  "hex_char d = (if d < 10 then char_of (48 + d) else char_of (87 + d))"

definition fmt_02x :: "u8 \<Rightarrow> string" where
  "fmt_02x b = [hex_char (unat b div 16), hex_char (unat b mod 16)]"

text \<open>\<open>0x%x\<close>.\<close>

fun hex_digits :: "nat \<Rightarrow> string" where
  "hex_digits n = (if n < 16 then [hex_char n] else hex_digits (n div 16) @ [hex_char (n mod 16)])"

declare hex_digits.simps [simp del]

section \<open>Reading back what was printed\<close>

lemma char_code_of [simp]: "n < 256 \<Longrightarrow> char_code (char_of n) = n"
  by (simp add: char_code_def)

lemma digit_val_dec_char [simp]: "d < 10 \<Longrightarrow> digit_val (dec_char d) = d"
  by (simp add: digit_val_def dec_char_def Let_def)

lemma digit_not_space: "digit_val c < 99 \<Longrightarrow> \<not> is_space c"
  by (auto simp: digit_val_def is_space_def Let_def split: if_splits)

lemma digit_val_space [simp]: "digit_val CHR '' '' = 99" "is_space CHR '' ''"
  by (simp_all add: digit_val_def is_space_def char_code_def)

lemma newline_space [simp]: "is_space newline" "digit_val newline = 99"
  by (simp_all add: newline_def is_space_def digit_val_def)

lemma dec_digits_digits: "c \<in> set (dec_digits n) \<Longrightarrow> digit_val c < 10"
proof (induction n rule: dec_digits.induct)
  case (1 n)
  then show ?case by (cases "n < 10") (auto simp: dec_digits.simps [of n])
qed

lemma dec_digits_ne [simp]: "dec_digits n \<noteq> []"
  by (subst dec_digits.simps) simp

text \<open>The value of a string of digits, before it is cut to the width of a word.\<close>

definition digits_val :: "nat \<Rightarrow> string \<Rightarrow> nat" where
  "digits_val base s = foldl (\<lambda>v c. v * base + digit_val c) 0 s"

lemma digits_val_append: "digits_val base (s @ [c]) = digits_val base s * base + digit_val c"
  by (simp add: digits_val_def)

lemma digits_val_dec [simp]: "digits_val 10 (dec_digits n) = n"
proof (induction n rule: dec_digits.induct)
  case (1 n)
  show ?case
  proof (cases "n < 10")
    case True
    then show ?thesis by (subst dec_digits.simps) (simp add: digits_val_def)
  next
    case False
    with 1 show ?thesis by (subst dec_digits.simps) (simp add: digits_val_append)
  qed
qed

lemma digit_val_hex_char: "d < 16 \<Longrightarrow> digit_val (hex_char d) = d"
  by (auto simp: digit_val_def hex_char_def Let_def)

lemma digits_val_hex [simp]: "digits_val 16 (hex_digits n) = n"
proof (induction n rule: hex_digits.induct)
  case (1 n)
  show ?case
  proof (cases "n < 16")
    case True
    then show ?thesis using digit_val_hex_char [of n] by (simp add: hex_digits.simps [of n] digits_val_def)
  next
    case False
    with 1 have "digits_val 16 (hex_digits n) = n div 16 * 16 + digit_val (hex_char (n mod 16))"
      by (simp add: hex_digits.simps [of n] digits_val_append)
    then show ?thesis by (simp add: digit_val_hex_char)
  qed
qed

lemma word_digits: "foldl (\<lambda>res c. res * of_nat base + of_nat (digit_val c)) (of_nat v) s =
    (of_nat (foldl (\<lambda>v c. v * base + digit_val c) v s) :: 'a :: len word)"
proof (induction s arbitrary: v)
  case (Cons c s)
  show ?case using Cons [of "v * base + digit_val c"] by simp
qed simp

lemma space_val: "is_space c \<Longrightarrow> digit_val c = 99"
  by (auto simp: digit_val_def is_space_def Let_def split: if_splits)

lemma skip_radix_digits:
  assumes "\<forall>c \<in> set ds. digit_val c < 99" and "rest = [] \<or> is_space (hd rest)"
  shows "skip_radix base (ds @ rest) = ds @ rest"
proof (cases ds)
  case Nil
  have "\<not> is_space CHR ''0''" by (simp add: is_space_def char_code_def)
  with assms(2) Nil show ?thesis by (cases rest) (auto simp: skip_radix_def)
next
  case (Cons c ds')
  have "digit_val CHR ''x'' = 99" "digit_val CHR ''X'' = 99" "\<not> is_space CHR ''x''" "\<not> is_space CHR ''X''"
    by (simp_all add: digit_val_def is_space_def char_code_def)
  with assms Cons show ?thesis by (cases ds'; cases rest) (auto simp: skip_radix_def)
qed

text \<open>A number is read up to the first character that is no digit, modulo the width of the word.\<close>

lemma strtoull_digits:
  assumes "\<forall>c \<in> set ds. digit_val c < base" and "rest = [] \<or> is_space (hd rest)" and "base \<le> 99"
  shows "simple_strtoull base (ds @ rest) = (of_nat (digits_val base ds), rest)"
proof -
  have "\<forall>c \<in> set ds. digit_val c < 99" using assms(1,3) by fastforce
  then have "skip_radix base (ds @ rest) = ds @ rest" using assms(2) by (rule skip_radix_digits)
  moreover have "takeWhile (\<lambda>c. digit_val c < base) (ds @ rest) = ds" "dropWhile (\<lambda>c. digit_val c < base) (ds @ rest) = rest"
    using assms space_val [of "hd rest"] by (cases rest; simp add: takeWhile_append2 dropWhile_append2)+
  ultimately show ?thesis
    using word_digits [of base 0 ds, where 'a = 64] by (simp add: simple_strtoull_def digits_val_def Let_def)
qed

definition spaces :: "string \<Rightarrow> bool" where
  "spaces ws \<longleftrightarrow> (\<forall>c \<in> set ws. is_space c)"

lemma skip_spaces_append: "spaces ws \<Longrightarrow> skip_spaces (ws @ s) = skip_spaces s"
  by (simp add: skip_spaces_def spaces_def dropWhile_append2)

lemma skip_spaces_all: "spaces ws \<Longrightarrow> skip_spaces ws = []"
  by (simp add: skip_spaces_def spaces_def)

lemma skip_spaces_id: "s = [] \<or> \<not> is_space (hd s) \<Longrightarrow> skip_spaces s = s"
  by (cases s) (simp_all add: skip_spaces_def)

lemma sscanf_uint_end [simp]: "sscanf [] (SCAN_UINT base # fmt) = []" "sscanf [] (SCAN_SPACE # SCAN_UINT base # fmt) = []"
  by (simp_all add: skip_spaces_def)

lemma scan_digits:
  assumes "spaces ws" and "ds \<noteq> []" and "\<forall>c \<in> set ds. digit_val c < base" and "rest = [] \<or> is_space (hd rest)"
    and "base \<le> 99"
  shows "sscanf (ws @ ds @ rest) (SCAN_UINT base # fmt) = SCANNED_UINT (of_nat (digits_val base ds)) # sscanf rest fmt"
proof -
  obtain c s where cs: "ds = c # s" using assms(2) by (cases ds) simp_all
  have c: "digit_val c < base" using assms(3) cs by simp
  then have "\<not> is_space c" using digit_not_space [of c] assms(5) by simp
  then have "skip_spaces (ws @ ds @ rest) = c # s @ rest"
    using skip_spaces_append [OF assms(1)] skip_spaces_id [of "c # s @ rest"] cs by simp
  moreover note strtoull_digits [OF assms(3-5)]
  moreover have "ucast (of_nat n :: u64) = (of_nat n :: u32)" for n
    by (simp add: unsigned_of_nat word_of_nat_eq_iff)
  ultimately show ?thesis using c cs by simp
qed

lemma scan_uint:
  assumes "spaces ws" and "rest = [] \<or> is_space (hd rest)"
  shows "sscanf (ws @ dec_digits n @ rest) (SCAN_UINT 10 # fmt) = SCANNED_UINT (of_nat n) # sscanf rest fmt"
  using scan_digits [OF assms(1), of "dec_digits n" 10 rest fmt] assms(2) dec_digits_digits [of _ n] by simp

text \<open>A word ends at a space.\<close>

lemma take_word_word:
  "length w \<le> n \<Longrightarrow> (\<forall>c \<in> set w. \<not> is_space c) \<Longrightarrow> rest = [] \<or> is_space (hd rest) \<Longrightarrow>
   take_word n (w @ rest) = (w, rest)"
proof (induction w arbitrary: n)
  case Nil
  then show ?case by (cases rest; cases n) simp_all
next
  case (Cons c w)
  then show ?case by (cases n) auto
qed

lemma scan_word:
  assumes "w \<noteq> []" and "length w \<le> n" and "\<forall>c \<in> set w. \<not> is_space c" and "rest = [] \<or> is_space (hd rest)"
    and "spaces ws"
  shows "sscanf (ws @ w @ rest) (SCAN_STRING n # fmt) = SCANNED_STRING w # sscanf rest fmt"
proof -
  have "skip_spaces (ws @ w @ rest) = w @ rest"
    using assms(1,3,5) skip_spaces_append [of ws "w @ rest"] skip_spaces_id [of "w @ rest"] by (cases w) simp_all
  then show ?thesis using assms(1) take_word_word [OF assms(2-4)] by simp
qed

lemma strchr_none [simp]: "strchr s c = None \<longleftrightarrow> c \<notin> set s"
  by (induction s) auto

lemma strchr_append: "c \<notin> set s \<Longrightarrow> strchr (s @ rest) c = strchr rest c"
  by (induction s) auto

lemma strchr_length: "strchr s c = Some r \<Longrightarrow> length r \<le> length s"
  by (induction s) (auto split: if_splits)

declare sscanf.simps(2-4) [simp del]

section \<open>Lines of a word and numbers\<close>

text \<open>\<open>command[count - 1] = '\0'\<close> when the last character is a newline.\<close>

definition strip_newline :: "string \<Rightarrow> string" where
  "strip_newline command =
     (if command \<noteq> [] \<and> command ! (length command - 1) = newline
      then command[length command - 1 := CHR 0x00] else command)"

definition yes_no :: "u32 \<Rightarrow> string" where
  "yes_no v = (if v \<noteq> 0 then ''yes'' else ''no'')"

text \<open>A line of a word and numbers, each after a space.\<close>

primrec args_text :: "u32 list \<Rightarrow> string" where
  "args_text [] = []"
| "args_text (v # args) = CHR '' '' # fmt_u v @ args_text args"

definition text_line :: "string \<Rightarrow> u32 list \<Rightarrow> string" where
  "text_line cmd args = cmd @ args_text args @ [newline]"

definition word_ok :: "string \<Rightarrow> bool" where
  "word_ok w \<longleftrightarrow> w \<noteq> [] \<and> length w \<le> 31 \<and> (\<forall>c \<in> set w. \<not> is_space c \<and> char_code c \<noteq> 0)"

lemma args_text_front: "args_text args = [] \<or> is_space (hd (args_text args)) \<and> digit_val (hd (args_text args)) = 99"
  by (cases args) simp_all

lemma nonzero_digit: "digit_val c < 10 \<Longrightarrow> char_code c \<noteq> 0"
  by (auto simp: digit_val_def Let_def split: if_splits)

lemma args_text_nonzero: "c \<in> set (args_text args) \<Longrightarrow> char_code c \<noteq> 0"
proof (induction args)
  case (Cons v args)
  have "char_code CHR '' '' \<noteq> 0" by (simp add: char_code_def)
  with Cons show ?case using nonzero_digit [OF dec_digits_digits] by (auto simp: fmt_u_def)
qed simp

lemma c_str_strip:
  assumes "\<forall>c \<in> set s. char_code c \<noteq> 0"
  shows "c_str (strip_newline (s @ [newline])) = s"
proof -
  have "(s @ [newline])[length s := CHR 0x00] = s @ [CHR 0x00]" by simp
  moreover have "char_code CHR 0x00 = 0" by (simp add: char_code_def)
  ultimately show ?thesis using assms by (simp add: strip_newline_def c_str_def)
qed

lemma c_str_line: "word_ok cmd \<Longrightarrow> c_str (strip_newline (text_line cmd args)) = cmd @ args_text args"
  using c_str_strip [of "cmd @ args_text args"] args_text_nonzero by (auto simp: text_line_def word_ok_def)

lemma scan_line_word:
  "word_ok cmd \<Longrightarrow>
   sscanf (cmd @ args_text args) (SCAN_STRING 31 # fmt) = SCANNED_STRING cmd # sscanf (args_text args) fmt"
  using scan_word [of cmd 31 "args_text args" "[]" fmt] args_text_front [of args] by (auto simp: word_ok_def spaces_def)

lemma scan_arg [simp]:
  "sscanf (args_text (v # args)) (SCAN_SPACE # SCAN_UINT 10 # fmt) = SCANNED_UINT v # sscanf (args_text args) fmt"
proof -
  have "skip_spaces (args_text (v # args)) = skip_spaces (fmt_u v @ args_text args)"
    by (simp add: skip_spaces_def)
  moreover obtain c s where cs: "fmt_u v = c # s" by (cases "fmt_u v") (simp_all add: fmt_u_def)
  moreover have "\<not> is_space c"
    using dec_digits_digits [of c "unat v"] cs by (intro digit_not_space) (simp add: fmt_u_def)
  ultimately have "skip_spaces (args_text (v # args)) = fmt_u v @ args_text args"
    using skip_spaces_id [of "fmt_u v @ args_text args"] by simp
  moreover have "args_text args = [] \<or> is_space (hd (args_text args))" using args_text_front [of args] by auto
  ultimately show ?thesis
    using scan_uint [of "[]" "args_text args" "unat v" fmt]
    by (simp add: fmt_u_def spaces_def sscanf.simps(2) del: args_text.simps)
qed

end
