(* ===== verification/Libc_Text.thy ===== *)
theory Libc_Text
  imports Kernel_Text
begin

text \<open>
  Reading text with the C library: \<open>fgets\<close>, \<open>strtoul\<close> and \<open>sscanf\<close>, as far as the user programs use them
  on the files under \<open>/proc\<close>. They differ from the functions of the kernel (\<open>Kernel_Text\<close>): a number may
  have a sign, and one that does not fit is the largest there is.
\<close>

section \<open>Lines\<close>

text \<open>
  \<open>fgets\<close> with a buffer of \<open>n\<close> bytes takes a line, or its next \<open>n - 1\<close> characters; all that it
  returns until the end of the file.
\<close>

fun take_line :: "nat \<Rightarrow> string \<Rightarrow> string \<times> string" where
  "take_line n [] = ([], [])"
| "take_line 0 (c # s) = ([], c # s)"
| "take_line (Suc n) (c # s) =
     (if c = newline then ([c], s) else (case take_line n s of (l, rest) \<Rightarrow> (c # l, rest)))"

lemma take_line_shorter: "length (snd (take_line n s)) \<le> length s"
  by (induction n s rule: take_line.induct) (auto split: prod.splits)

lemma take_line_less: "0 < n \<Longrightarrow> length (snd (take_line n (c # s))) \<le> length s"
  using take_line_shorter [of "n - 1" s] by (cases n) (auto split: prod.splits)

function fgets_lines :: "nat \<Rightarrow> string \<Rightarrow> string list" where
  "fgets_lines n [] = []"
| "fgets_lines n (c # s) =
     (if n < 2 then [] else fst (take_line (n - 1) (c # s)) # fgets_lines n (snd (take_line (n - 1) (c # s))))"
  by pat_completeness auto
termination
  by (relation "measure (\<lambda>(n, s). length s)") (simp_all add: take_line_less less_Suc_eq_le)

section \<open>Searching\<close>

text \<open>\<open>strrchr\<close> gives the text from the last \<open>c\<close> on; \<open>strstr\<close> is used as a test only.\<close>

fun strrchr :: "string \<Rightarrow> char \<Rightarrow> string option" where
  "strrchr [] c = None"
| "strrchr (d # s) c = (case strrchr s c of Some r \<Rightarrow> Some r | None \<Rightarrow> if d = c then Some (d # s) else None)"

fun strstr :: "string \<Rightarrow> string \<Rightarrow> bool" where
  "strstr [] pat \<longleftrightarrow> pat = []"
| "strstr (c # s) pat \<longleftrightarrow> take (length pat) (c # s) = pat \<or> strstr s pat"

definition c_tolower :: "char \<Rightarrow> char" where
  "c_tolower c = (if 65 \<le> char_code c \<and> char_code c \<le> 90 then char_of (char_code c + 32) else c)"

text \<open>\<open>strncmp (s, w, strlen (w)) == 0\<close>.\<close>

definition starts_with :: "string \<Rightarrow> string \<Rightarrow> bool" where
  "starts_with w s \<longleftrightarrow> take (length w) s = w"

section \<open>Numbers\<close>

definition c_space :: "char \<Rightarrow> bool" where
  "c_space c \<longleftrightarrow> 9 \<le> char_code c \<and> char_code c \<le> 13 \<or> char_code c = 32"

definition strtoul_digits :: "string \<Rightarrow> nat option" where
  "strtoul_digits s =
     (case takeWhile (\<lambda>c. digit_val c < 10) s of [] \<Rightarrow> None | ds \<Rightarrow> Some (digits_val 10 ds))"

definition text_of_lines :: "string list \<Rightarrow> string" where
  "text_of_lines ls = concat (map (\<lambda>l. l @ [newline]) ls)"

definition plain_line :: "string \<Rightarrow> bool" where
  "plain_line l \<longleftrightarrow> newline \<notin> set l \<and> length l < 255"

lemma take_line_plain: "newline \<notin> set l \<Longrightarrow> length l < n \<Longrightarrow> take_line n (l @ newline # rest) = (l @ [newline], rest)"
proof (induction l arbitrary: n)
  case Nil
  then show ?case by (cases n) auto
next
  case (Cons c l)
  then show ?case by (cases n) auto
qed

lemma fgets_text: "\<forall>l \<in> set ls. plain_line l \<Longrightarrow> fgets_lines 256 (text_of_lines ls) = map (\<lambda>l. l @ [newline]) ls"
proof (induction ls)
  case (Cons l ls)
  obtain c s where cs: "l @ newline # text_of_lines ls = c # s" by (cases l) auto
  have "take_line 255 (c # s) = (l @ [newline], text_of_lines ls)"
    using take_line_plain [of l 255 "text_of_lines ls"] Cons.prems by (simp add: cs plain_line_def)
  moreover have "fgets_lines 256 (text_of_lines (l # ls)) = fgets_lines 256 (c # s)"
    using cs by (simp add: text_of_lines_def)
  ultimately show ?case using Cons by simp
qed (simp add: text_of_lines_def)

lemma digit_not_c_space: "digit_val c < 99 \<Longrightarrow> \<not> c_space c"
  by (auto simp: digit_val_def c_space_def Let_def split: if_splits)

section \<open>Scanning\<close>

text \<open>
  The conversions of \<open>sscanf\<close>: white space, a character, \<open>%Ns\<close>, \<open>%lu\<close>, \<open>%ld\<close>, \<open>%llx\<close>, \<open>%d\<close>, and \<open>%*d\<close> or
  \<open>%*u\<close> and \<open>%*c\<close>, which assign nothing. The scan ends at the first that does not match; the number
  of values is what \<open>sscanf\<close> returns.
\<close>

datatype c_item = C_SPACE | C_LIT char | C_STR nat | C_ULONG | C_LONG | C_INT | C_HEX | C_SKIP_NUM | C_SKIP_CHAR

datatype c_value = CV_STR string | CV_NUM int

text \<open>A number: whether it has a minus, its digits as a number, and what follows.\<close>

definition c_digits :: "nat \<Rightarrow> string \<Rightarrow> (nat \<times> string) option" where
  "c_digits base s =
     (case takeWhile (\<lambda>c. digit_val c < base) s of
        [] \<Rightarrow> None
      | ds \<Rightarrow> Some (digits_val base ds, dropWhile (\<lambda>c. digit_val c < base) s))"

definition c_number :: "nat \<Rightarrow> string \<Rightarrow> (bool \<times> nat \<times> string) option" where
  "c_number base s =
     (let s = dropWhile c_space s;
          neg = (s \<noteq> [] \<and> hd s = CHR ''-'');
          s = (if neg \<or> s \<noteq> [] \<and> hd s = CHR ''+'' then tl s else s)
      in map_option (Pair neg) (c_digits base (skip_radix base s)))"

definition ulong_of :: "bool \<Rightarrow> nat \<Rightarrow> u64" where
  "ulong_of neg v = (if 2 ^ 64 \<le> v then - 1 else if neg then - of_nat v else of_nat v)"

definition long_of :: "bool \<Rightarrow> nat \<Rightarrow> int" where
  "long_of neg v = (if neg then max (- (2 ^ 63)) (- int v) else min (2 ^ 63 - 1) (int v))"

fun c_scan :: "c_item list \<Rightarrow> string \<Rightarrow> c_value list" where
  "c_scan [] s = []"
| "c_scan (C_SPACE # fmt) s = c_scan fmt (dropWhile c_space s)"
| "c_scan (C_LIT c # fmt) s = (if s \<noteq> [] \<and> hd s = c then c_scan fmt (tl s) else [])"
| "c_scan (C_STR n # fmt) s =
     (let s = dropWhile c_space s;
          w = take n (takeWhile (\<lambda>c. \<not> c_space c) s)
      in if w = [] then [] else CV_STR w # c_scan fmt (drop (length w) s))"
| "c_scan (C_ULONG # fmt) s =
     (case c_number 10 s of None \<Rightarrow> [] | Some (neg, v, rest) \<Rightarrow> CV_NUM (uint (ulong_of neg v)) # c_scan fmt rest)"
| "c_scan (C_LONG # fmt) s =
     (case c_number 10 s of None \<Rightarrow> [] | Some (neg, v, rest) \<Rightarrow> CV_NUM (long_of neg v) # c_scan fmt rest)"
| "c_scan (C_INT # fmt) s =
     (case c_number 10 s of
        None \<Rightarrow> []
      | Some (neg, v, rest) \<Rightarrow> CV_NUM (sint (word_of_int (long_of neg v) :: u32)) # c_scan fmt rest)"
| "c_scan (C_HEX # fmt) s =
     (case c_number 16 s of None \<Rightarrow> [] | Some (neg, v, rest) \<Rightarrow> CV_NUM (uint (ulong_of neg v)) # c_scan fmt rest)"
| "c_scan (C_SKIP_NUM # fmt) s = (case c_number 10 s of None \<Rightarrow> [] | Some (neg, v, rest) \<Rightarrow> c_scan fmt rest)"
| "c_scan (C_SKIP_CHAR # fmt) s = (if s = [] then [] else c_scan fmt (tl s))"

definition c_lits :: "string \<Rightarrow> c_item list" where
  "c_lits s = map C_LIT s"

text \<open>\<open>atoi\<close>, which is \<open>strtol\<close> cut to an \<open>int\<close>.\<close>

definition c_atoi :: "string \<Rightarrow> int" where
  "c_atoi s =
     (case c_number 10 s of None \<Rightarrow> 0 | Some (neg, v, rest) \<Rightarrow> sint (word_of_int (long_of neg v) :: u32))"

lemma c_scan_lits [simp]: "c_scan (c_lits w @ fmt) (w @ s) = c_scan fmt s"
  by (induction w) (simp_all add: c_lits_def)

lemma c_number_dec:
  assumes "\<forall>c \<in> set ws. c_space c" and "rest = [] \<or> digit_val (hd rest) = 99"
  shows "c_number 10 (ws @ dec_digits n @ rest) = Some (False, n, rest)"
proof -
  obtain c s where cs: "dec_digits n = c # s" by (cases "dec_digits n") auto
  have ds: "\<forall>c \<in> set (dec_digits n). digit_val c < 10" using dec_digits_digits by blast
  with cs have c: "digit_val c < 10" by simp
  then have sign: "c \<noteq> CHR ''-''" "c \<noteq> CHR ''+''" by (auto simp: digit_val_def char_code_def)
  have "dropWhile c_space (ws @ dec_digits n @ rest) = dec_digits n @ rest"
    using assms(1) digit_not_c_space [of c] c by (simp add: dropWhile_append2 cs)
  moreover have "takeWhile (\<lambda>c. digit_val c < 10) (dec_digits n @ rest) = dec_digits n"
    and "dropWhile (\<lambda>c. digit_val c < 10) (dec_digits n @ rest) = rest"
    using ds assms(2) by (cases rest; auto simp: takeWhile_append dropWhile_append)+
  moreover from this have "c_digits 10 (dec_digits n @ rest) = Some (n, rest)"
    by (simp add: c_digits_def cs) (simp add: cs [symmetric])
  ultimately show ?thesis using sign by (simp add: c_number_def Let_def cs skip_radix_def)
qed

lemma dropWhile_dec_digits [simp]: "dropWhile c_space (dec_digits n @ rest) = dec_digits n @ rest"
proof -
  obtain c s where cs: "dec_digits n = c # s" by (cases "dec_digits n") auto
  then have "digit_val c < 10" using dec_digits_digits [of c n] by simp
  then show ?thesis using digit_not_c_space [of c] by (simp add: cs)
qed

lemma ulong_small: "n < 2 ^ 64 \<Longrightarrow> uint (ulong_of False n) = int n"
  by (simp add: ulong_of_def unsigned_of_nat take_bit_nat_eq_self)

lemma c_word:
  assumes "\<forall>c \<in> set ws. c_space c" and "w \<noteq> []" and "\<forall>c \<in> set w. \<not> c_space c" and "length w \<le> n"
    and "rest = [] \<or> c_space (hd rest)"
  shows "c_scan (C_STR n # fmt) (ws @ w @ rest) = CV_STR w # c_scan fmt rest"
proof -
  have "dropWhile c_space (ws @ w @ rest) = w @ rest"
    using assms(1-3) by (cases w) (auto simp: dropWhile_append2)
  moreover have "takeWhile (\<lambda>c. \<not> c_space c) (w @ rest) = w"
    using assms(3,5) by (cases rest) (auto simp: takeWhile_append)
  moreover have "0 < n" using assms(2,4) by (cases w) auto
  ultimately show ?thesis using assms(2,4) by (simp add: Let_def)
qed

end
