(* ===== verification/App_Sys_Mem.thy ===== *)
theory App_Sys_Mem
  imports Libc_Text
begin

text \<open>
  The memory monitor, first half: what \<open>src/apps/memory_monitor/src/sys_mem.c\<close> collects about the memory of
  the system from \<open>/proc/meminfo\<close>, the device tree, \<open>/proc/iomem\<close> and \<open>/proc/zoneinfo\<close>, and what it
  computes from that. A file is its text, \<open>None\<close> when it cannot be opened; the structures a pointer
  leads to are the results.
\<close>

section \<open>System memory\<close>

record system_mem_info =
  si_total :: u64
  si_free :: u64
  si_available :: u64
  si_used :: u64
  si_buffers :: u64
  si_cached :: u64
  si_slab :: u64
  si_kernel_stack :: u64
  si_page_tables :: u64
  si_vmalloc_used :: u64

definition system_mem_info_zero :: system_mem_info where
  "system_mem_info_zero = \<lparr>si_total = 0, si_free = 0, si_available = 0, si_used = 0, si_buffers = 0, si_cached = 0,
     si_slab = 0, si_kernel_stack = 0, si_page_tables = 0, si_vmalloc_used = 0\<rparr>"

definition set_meminfo :: "string \<Rightarrow> u64 \<Rightarrow> system_mem_info \<Rightarrow> system_mem_info" where
  "set_meminfo key v info =
     (if key = ''MemTotal:'' then info\<lparr>si_total := v\<rparr>
      else if key = ''MemFree:'' then info\<lparr>si_free := v\<rparr>
      else if key = ''MemAvailable:'' then info\<lparr>si_available := v\<rparr>
      else if key = ''Buffers:'' then info\<lparr>si_buffers := v\<rparr>
      else if key = ''Cached:'' then info\<lparr>si_cached := v\<rparr>
      else if key = ''Slab:'' then info\<lparr>si_slab := v\<rparr>
      else if key = ''KernelStack:'' then info\<lparr>si_kernel_stack := v\<rparr>
      else if key = ''PageTables:'' then info\<lparr>si_page_tables := v\<rparr>
      else if key = ''VmallocUsed:'' then info\<lparr>si_vmalloc_used := v\<rparr>
      else info)"

definition meminfo_line :: "string \<Rightarrow> system_mem_info \<Rightarrow> system_mem_info" where
  "meminfo_line line info =
     (case c_scan ([C_STR 63, C_SPACE, C_ULONG, C_SPACE] @ c_lits ''kB'') line of
        [CV_STR key, CV_NUM v] \<Rightarrow> set_meminfo key (word_of_int v) info
      | _ \<Rightarrow> info)"

definition collect_system_memory :: "string option \<Rightarrow> bool \<Rightarrow> int \<times> system_mem_info option" where
  "collect_system_memory meminfo info =
     (if \<not> info then (- 1, None)
      else case meminfo of
        None \<Rightarrow> (- 1, Some system_mem_info_zero)
      | Some file \<Rightarrow>
          let i = fold meminfo_line (fgets_lines 256 file) system_mem_info_zero
          in (0, Some (i\<lparr>si_used := si_total i - si_free i\<rparr>)))"

record kernel_mem_info =
  ki_slab :: u64
  ki_kernel_stack :: u64
  ki_page_tables :: u64
  ki_vmalloc_used :: u64
  ki_total :: u64

definition collect_kernel_memory :: "bool \<Rightarrow> system_mem_info option \<Rightarrow> int \<times> kernel_mem_info option" where
  "collect_kernel_memory kern sys =
     (case sys of
        None \<Rightarrow> (- 1, None)
      | Some s \<Rightarrow>
          if \<not> kern then (- 1, None)
          else (0, Some \<lparr>ki_slab = si_slab s, ki_kernel_stack = si_kernel_stack s, ki_page_tables = si_page_tables s,
            ki_vmalloc_used = si_vmalloc_used s,
            ki_total = si_slab s + si_kernel_stack s + si_page_tables s + si_vmalloc_used s\<rparr>))"

section \<open>Reserved memory\<close>

abbreviation (input) MAX_RESERVED_REGIONS :: nat where "MAX_RESERVED_REGIONS \<equiv> 100"
abbreviation (input) MAX_NAME_LEN :: nat where "MAX_NAME_LEN \<equiv> 256"

record reserved_mem_region =
  rr_name :: string
  rr_start_addr :: u64
  rr_end_addr :: u64
  rr_size :: u64

text \<open>A \<open>reg\<close> property: address and size, big-endian, of 8 or of 4 bytes each.\<close>

definition be_reg64 :: "u8 list \<Rightarrow> nat \<Rightarrow> u64" where
  "be_reg64 buf off =
     push_bit 56 (ucast (buf ! off)) OR push_bit 48 (ucast (buf ! (off + 1))) OR
     push_bit 40 (ucast (buf ! (off + 2))) OR push_bit 32 (ucast (buf ! (off + 3))) OR
     push_bit 24 (ucast (buf ! (off + 4))) OR push_bit 16 (ucast (buf ! (off + 5))) OR
     push_bit 8 (ucast (buf ! (off + 6))) OR ucast (buf ! (off + 7))"

definition be_reg32 :: "u8 list \<Rightarrow> nat \<Rightarrow> u64" where
  "be_reg32 buf off =
     push_bit 24 (ucast (buf ! off)) OR push_bit 16 (ucast (buf ! (off + 1))) OR
     push_bit 8 (ucast (buf ! (off + 2))) OR ucast (buf ! (off + 3))"

definition parse_reg :: "u8 list \<Rightarrow> (u64 \<times> u64) option" where
  "parse_reg content =
     (let buf = take 16 content
      in if length buf = 16 then Some (be_reg64 buf 0, be_reg64 buf 8)
         else if length buf = 8 then Some (be_reg32 buf 0, be_reg32 buf 4)
         else None)"

definition dt_skipped :: "string \<Rightarrow> bool" where
  "dt_skipped name \<longleftrightarrow> name = [] \<or> hd name = CHR ''.'' \<or> hd name = CHR ''#'' \<or>
     name = ''name'' \<or> name = ''ranges'' \<or> name = ''phandle''"

text \<open>\<open>region->name\<close> is the first 255 characters, cut at the first \<open>@\<close>.\<close>

definition region_name :: "string \<Rightarrow> string" where
  "region_name name = takeWhile (\<lambda>c. c \<noteq> CHR ''@'') (take (MAX_NAME_LEN - 1) name)"

text \<open>An entry of the directory is its name and the content of its \<open>reg\<close>, if that can be opened.\<close>

definition dt_entry :: "string \<times> u8 list option \<Rightarrow> reserved_mem_region list \<Rightarrow> reserved_mem_region list" where
  "dt_entry e regions =
     (if MAX_RESERVED_REGIONS \<le> length regions \<or> dt_skipped (fst e) then regions
      else case snd e of
        None \<Rightarrow> regions
      | Some content \<Rightarrow>
          (case parse_reg content of
             None \<Rightarrow> regions
           | Some (addr, sz) \<Rightarrow>
               if sz = 0 then regions
               else regions @ [\<lparr>rr_name = region_name (fst e), rr_start_addr = addr,
                 rr_end_addr = addr + sz - 1, rr_size = sz\<rparr>]))"

definition iomem_line :: "string \<Rightarrow> reserved_mem_region list \<Rightarrow> reserved_mem_region list" where
  "iomem_line line regions =
     (if MAX_RESERVED_REGIONS \<le> length regions then regions
      else case strchr line (CHR '':'') of
        None \<Rightarrow> regions
      | Some colon \<Rightarrow>
          if \<not> strstr line ''Reserved'' then regions
          else case c_scan [C_HEX, C_LIT (CHR ''-''), C_HEX] line of
            [CV_NUM first_addr, CV_NUM last_addr] \<Rightarrow>
              let a = word_of_int first_addr; z = word_of_int last_addr
              in regions @ [\<lparr>rr_name = take (MAX_NAME_LEN - 1)
                     (takeWhile (\<lambda>c. c \<noteq> newline) (dropWhile (\<lambda>c. c = CHR '' '') (tl colon))),
                   rr_start_addr = a, rr_end_addr = z, rr_size = (z - a + 1) div 1024\<rparr>]
          | _ \<Rightarrow> regions)"

definition collect_reserved_memory ::
  "(string \<times> u8 list option) list option \<Rightarrow> string option \<Rightarrow> bool \<Rightarrow> int \<times> reserved_mem_region list option" where
  "collect_reserved_memory device_tree iomem reserved =
     (if \<not> reserved then (- 1, None)
      else let regions = (case device_tree of None \<Rightarrow> [] | Some entries \<Rightarrow> fold dt_entry entries [])
           in if regions \<noteq> [] then (0, Some regions)
              else case iomem of
                None \<Rightarrow> (- 1, Some regions)
              | Some file \<Rightarrow> (0, Some (fold iomem_line (fgets_lines 512 file) regions)))"

section \<open>Zones\<close>

abbreviation (input) MAX_ZONES :: nat where "MAX_ZONES \<equiv> 10"

record zone_info =
  zi_name :: string
  zi_free_pages :: u64
  zi_min :: u64
  zi_low :: u64
  zi_high :: u64
  zi_present :: u64

definition zone_info_zero :: zone_info where
  "zone_info_zero = \<lparr>zi_name = [], zi_free_pages = 0, zi_min = 0, zi_low = 0, zi_high = 0, zi_present = 0\<rparr>"

text \<open>
  The variable that \<open>sscanf\<close> fills is not initialised: \<open>junk\<close> is what it holds when there is no number.
\<close>

definition scan_pages :: "u64 \<Rightarrow> string \<Rightarrow> string \<Rightarrow> u64" where
  "scan_pages junk word line =
     (case c_scan ([C_SPACE] @ c_lits word @ [C_SPACE, C_ULONG]) line of
        [CV_NUM v] \<Rightarrow> word_of_int v
      | _ \<Rightarrow> junk)"

definition scan_zone_name :: "string \<Rightarrow> string" where
  "scan_zone_name line =
     (case c_scan (c_lits ''Node'' @ [C_SPACE, C_SKIP_NUM] @ c_lits '','' @ [C_SPACE] @ c_lits ''zone'' @ [C_SPACE, C_STR 63]) line of
        [CV_STR w] \<Rightarrow> w
      | _ \<Rightarrow> [])"

definition update_last :: "('a \<Rightarrow> 'a) \<Rightarrow> 'a list \<Rightarrow> 'a list" where
  "update_last f zs = (if zs = [] then [] else butlast zs @ [f (last zs)])"

text \<open>\<open>current_zone\<close> is the last zone of the list. A page is 4 kB.\<close>

definition zone_line :: "u64 \<Rightarrow> string \<Rightarrow> zone_info list \<Rightarrow> zone_info list" where
  "zone_line junk line zones =
     (if strstr line ''Node'' \<and> strstr line ''zone'' then
        (if length zones < MAX_ZONES then zones @ [zone_info_zero\<lparr>zi_name := scan_zone_name line\<rparr>] else zones)
      else if zones \<noteq> [] \<and> strstr line ''pages free'' then
        update_last (\<lambda>z. z\<lparr>zi_free_pages := scan_pages junk ''pages free'' line * 4\<rparr>) zones
      else if zones \<noteq> [] \<and> strstr line ''min'' then
        update_last (\<lambda>z. z\<lparr>zi_min := scan_pages junk ''min'' line * 4\<rparr>) zones
      else if zones \<noteq> [] \<and> strstr line ''low'' then
        update_last (\<lambda>z. z\<lparr>zi_low := scan_pages junk ''low'' line * 4\<rparr>) zones
      else if zones \<noteq> [] \<and> strstr line ''high'' then
        update_last (\<lambda>z. z\<lparr>zi_high := scan_pages junk ''high'' line * 4\<rparr>) zones
      else if zones \<noteq> [] \<and> strstr line ''present'' then
        update_last (\<lambda>z. z\<lparr>zi_present := scan_pages junk ''present'' line * 4\<rparr>) zones
      else zones)"

definition collect_zones_info :: "u64 \<Rightarrow> string option \<Rightarrow> bool \<Rightarrow> int \<times> zone_info list option" where
  "collect_zones_info junk zoneinfo zones =
     (if \<not> zones then (- 1, None)
      else case zoneinfo of
        None \<Rightarrow> (- 1, Some [])
      | Some file \<Rightarrow> (0, Some (fold (zone_line junk) (fgets_lines 256 file) [])))"

section \<open>Health and matrix\<close>

datatype mem_health_status = MEM_HEALTH_GOOD | MEM_HEALTH_WARNING | MEM_HEALTH_CRITICAL

record memory_health =
  mh_status :: mem_health_status
  mh_usage_percent :: int
  mh_available_percent :: int

definition percent_int :: "u64 \<Rightarrow> u64 \<Rightarrow> int" where
  "percent_int part whole = sint (ucast (part * 100 div whole) :: u32)"

definition calculate_memory_health :: "memory_health \<Rightarrow> system_mem_info \<Rightarrow> memory_health" where
  "calculate_memory_health health sys =
     (if si_total sys = 0 then health
      else let u = percent_int (si_used sys) (si_total sys)
           in \<lparr>mh_status = (if u < 70 then MEM_HEALTH_GOOD else if u < 85 then MEM_HEALTH_WARNING else MEM_HEALTH_CRITICAL),
               mh_usage_percent = u, mh_available_percent = percent_int (si_available sys) (si_total sys)\<rparr>)"

text \<open>A layer is its size and percentage; the labels are left out. Division by zero ends the program.\<close>

definition calculate_memory_matrix :: "system_mem_info \<Rightarrow> u64 \<Rightarrow> u64 \<Rightarrow> (u64 \<times> int) list option" where
  "calculate_memory_matrix sys kernel_total total_rss =
     (let whole = si_total sys;
          accounted = kernel_total + si_buffers sys + si_cached sys + total_rss + si_free sys;
          other = (if accounted < whole then whole - accounted else 0)
      in if whole = 0 then None
         else Some (map (\<lambda>v. (v, percent_int v whole))
           [kernel_total, si_buffers sys, si_cached sys, total_rss, other, si_free sys]))"

section \<open>Properties\<close>

text \<open>
  A line of \<open>/proc/meminfo\<close>: a key, white space, a number, and the rest of the line, which is empty
  (the \<open>HugePages_\<close> lines have no unit) or starts with white space (as in \<open>'' kB''\<close>).
\<close>

type_synonym meminfo_entry = "string \<times> string \<times> nat \<times> string"

definition meminfo_text :: "meminfo_entry \<Rightarrow> string" where
  "meminfo_text e = (case e of (key, ws, v, rest) \<Rightarrow> key @ ws @ dec_digits v @ rest)"

definition meminfo_entry_ok :: "meminfo_entry \<Rightarrow> bool" where
  "meminfo_entry_ok e =
     (case e of (key, ws, v, rest) \<Rightarrow>
        key \<noteq> [] \<and> (\<forall>c \<in> set key. \<not> c_space c) \<and> length key \<le> 63 \<and>
        ws \<noteq> [] \<and> (\<forall>c \<in> set ws. c_space c) \<and> v < 2 ^ 64 \<and>
        (rest = [] \<or> c_space (hd rest)) \<and> plain_line (meminfo_text e))"

definition last_value :: "string \<Rightarrow> meminfo_entry list \<Rightarrow> nat" where
  "last_value key es = (case find (\<lambda>(k, _). k = key) (rev es) of None \<Rightarrow> 0 | Some (_, _, v, _) \<Rightarrow> v)"

lemma c_scan_no_values: "c_scan (map C_LIT cs) s = []" "c_scan (C_SPACE # map C_LIT cs) s = []"
proof -
  show "c_scan (map C_LIT cs) s = []" for s by (induction cs arbitrary: s) auto
  then show "c_scan (C_SPACE # map C_LIT cs) s = []" by simp
qed

lemma c_space_no_digit: "c_space c \<Longrightarrow> digit_val c = 99"
  by (auto simp: c_space_def digit_val_def char_code_def)

lemma meminfo_line_entry:
  assumes "meminfo_entry_ok (key, ws, v, rest)"
  shows "meminfo_line (meminfo_text (key, ws, v, rest) @ [newline]) info = set_meminfo key (of_nat v) info"
proof -
  let ?fmt = "C_SPACE # c_lits ''kB''" and ?r = "rest @ [newline]"
  obtain c ws' where ws: "ws = c # ws'" using assms by (cases ws) (auto simp: meminfo_entry_ok_def)
  have "c_space newline" by (simp add: newline_def c_space_def char_code_def)
  then have r: "?r = [] \<or> digit_val (hd ?r) = 99"
    using assms c_space_no_digit by (cases rest) (auto simp: meminfo_entry_ok_def)
  have "c_scan (C_STR 63 # C_SPACE # C_ULONG # ?fmt) (key @ ws @ dec_digits v @ ?r) =
      CV_STR key # c_scan (C_SPACE # C_ULONG # ?fmt) (ws @ dec_digits v @ ?r)"
    using c_word [of "[]" key 63 "ws @ dec_digits v @ ?r"] assms by (simp add: meminfo_entry_ok_def ws)
  moreover have "dropWhile c_space (ws @ dec_digits v @ ?r) = dec_digits v @ ?r"
    using assms dropWhile_dec_digits by (simp add: meminfo_entry_ok_def dropWhile_append2)
  moreover have "c_number 10 (dec_digits v @ ?r) = Some (False, v, ?r)"
    using c_number_dec [of "[]" ?r v] r by simp
  moreover have "c_scan ?fmt ?r = []" by (simp only: c_lits_def c_scan_no_values)
  moreover have "uint (ulong_of False v) = int v" using assms by (simp add: meminfo_entry_ok_def ulong_small)
  ultimately have "c_scan (C_STR 63 # C_SPACE # C_ULONG # ?fmt) (key @ ws @ dec_digits v @ ?r) = [CV_STR key, CV_NUM (int v)]"
    by simp
  then show ?thesis by (simp add: meminfo_line_def meminfo_text_def)
qed

lemma fold_meminfo:
  assumes "\<And>k v info. sel (set_meminfo k v info) = (if k = key then v else sel info)"
  shows "sel (fold (\<lambda>(k, _, v, _). set_meminfo k (of_nat v)) es info) =
    (case find (\<lambda>(k, _). k = key) (rev es) of None \<Rightarrow> sel info | Some (_, _, v, _) \<Rightarrow> of_nat v)"
proof (induction es rule: rev_induct)
  case (snoc e es)
  obtain k ws v rest where e: "e = (k, ws, v, rest)" by (cases e)
  show ?case using snoc by (simp add: e assms)
qed simp

lemma fold_meminfo_lines:
  assumes "\<forall>e \<in> set es. meminfo_entry_ok e"
  shows "fold meminfo_line (map (\<lambda>l. l @ [newline]) (map meminfo_text es)) info =
    fold (\<lambda>(k, _, v, _). set_meminfo k (of_nat v)) es info"
  using assms
proof (induction es arbitrary: info)
  case (Cons e es)
  obtain k ws v rest where e: "e = (k, ws, v, rest)" by (cases e)
  show ?case using Cons meminfo_line_entry [of k ws v rest info] by (simp add: e)
qed simp

lemma collect_meminfo:
  assumes "\<forall>e \<in> set es. meminfo_entry_ok e"
  defines "i \<equiv> fold (\<lambda>(k, _, v, _). set_meminfo k (of_nat v)) es system_mem_info_zero"
  shows "collect_system_memory (Some (text_of_lines (map meminfo_text es))) True = (0, Some (i\<lparr>si_used := si_total i - si_free i\<rparr>))"
proof -
  have "\<forall>l \<in> set (map meminfo_text es). plain_line l" using assms(1) by (auto simp: meminfo_entry_ok_def)
  from fgets_text [OF this] show ?thesis
    by (simp add: collect_system_memory_def Let_def fold_meminfo_lines [OF assms(1)] i_def del: map_map)
qed

text \<open>
  C32. Whatever entries \<open>/proc/meminfo\<close> has, with a unit or without, and in which order, each number of the system memory is the
  last value under its key, or 0 when there is none, and the used memory is the total less the free.
\<close>

theorem meminfo_exact:
  assumes "\<forall>e \<in> set es. meminfo_entry_ok e"
  shows "\<exists>i. collect_system_memory (Some (text_of_lines (map meminfo_text es))) True = (0, Some i) \<and>
    si_total i = of_nat (last_value ''MemTotal:'' es) \<and> si_free i = of_nat (last_value ''MemFree:'' es) \<and>
    si_available i = of_nat (last_value ''MemAvailable:'' es) \<and> si_buffers i = of_nat (last_value ''Buffers:'' es) \<and>
    si_cached i = of_nat (last_value ''Cached:'' es) \<and> si_slab i = of_nat (last_value ''Slab:'' es) \<and>
    si_kernel_stack i = of_nat (last_value ''KernelStack:'' es) \<and>
    si_page_tables i = of_nat (last_value ''PageTables:'' es) \<and>
    si_vmalloc_used i = of_nat (last_value ''VmallocUsed:'' es) \<and> si_used i = si_total i - si_free i"
proof -
  let ?i = "fold (\<lambda>(k, _, v, _). set_meminfo k (of_nat v)) es system_mem_info_zero"
  have sel: "sel ?i = of_nat (last_value key es)"
    if "\<And>k v info. sel (set_meminfo k v info) = (if k = key then v else sel info)" "sel system_mem_info_zero = 0" for sel key
    using fold_meminfo [OF that(1), of es system_mem_info_zero] that(2)
    by (simp add: last_value_def split: option.splits)
  show ?thesis
    using collect_meminfo [OF assms] sel [of si_total "''MemTotal:''"] sel [of si_free "''MemFree:''"]
      sel [of si_available "''MemAvailable:''"] sel [of si_buffers "''Buffers:''"] sel [of si_cached "''Cached:''"]
      sel [of si_slab "''Slab:''"] sel [of si_kernel_stack "''KernelStack:''"] sel [of si_page_tables "''PageTables:''"]
      sel [of si_vmalloc_used "''VmallocUsed:''"]
    by (simp add: set_meminfo_def system_mem_info_zero_def)
qed

lemma meminfo_exact_witness:
  "\<exists>i. collect_system_memory (Some (text_of_lines (map meminfo_text
      [(''MemTotal:'', '' '', 2000, '' kB''), (''HugePages_Free:'', '' '', 7, []), (''MemFree:'', '' '', 500, '' kB'')]))) True = (0, Some i) \<and>
    si_total i = 2000 \<and> si_used i = 1500 \<and> si_cached i = 0"
proof -
  let ?es = "[(''MemTotal:'', '' '', 2000, '' kB''), (''HugePages_Free:'', '' '', 7, []), (''MemFree:'', '' '', 500, '' kB'')]"
  have "\<forall>e \<in> set ?es. meminfo_entry_ok e"
    by (simp add: meminfo_entry_ok_def plain_line_def meminfo_text_def newline_def dec_digits.simps dec_char_def
        c_space_def char_code_def char_of_eq_iff)
  from meminfo_exact [OF this] show ?thesis by (auto simp: last_value_def)
qed

text \<open>Percentages: small parts of a whole are exact.\<close>

lemma percent_int_exact:
  assumes "part \<le> whole" and "unat whole * 100 < 2 ^ 64" and "whole \<noteq> 0"
  shows "percent_int part whole = int (unat part * 100 div unat whole)"
proof -
  have w: "0 < unat whole" using assms(3) by (simp add: unat_gt_0)
  have le: "unat part \<le> unat whole" using assms(1) by (simp add: word_le_nat_alt)
  then have "unat part * 100 < 2 ^ 64" using assms(2) by linarith
  then have "unat (part * 100) = unat part * 100"
    by (subst unat_mult_lem [THEN iffD1]) simp_all
  then have u: "unat (part * 100 div whole) = unat part * 100 div unat whole" by (simp add: unat_div)
  have "unat part * 100 div unat whole \<le> 100"
    using le w by (metis div_le_mono div_mult_self1_is_m mult_le_mono1)
  then have "unat (part * 100 div whole) \<le> 100" by (simp only: u)
  then have "unat (ucast (part * 100 div whole) :: u32) = unat part * 100 div unat whole"
    using u by (simp add: unsigned_ucast_eq take_bit_nat_eq_self)
  moreover have "sint (x :: u32) = int (unat x)" if "unat x \<le> 100" for x
  proof -
    have b: "- (2 ^ 31) \<le> uint x" "uint x < 2 ^ 31"
      using that of_nat_mono [of "unat x" 100, where 'a = int] by (simp_all add: order_trans [of _ 0])
    have "sint (word_of_int (uint x) :: u32) = uint x"
      using b by (simp only: signed_of_int) (simp add: signed_take_bit_int_eq_self)
    then show ?thesis by simp
  qed
  ultimately show ?thesis
    using \<open>unat part * 100 div unat whole \<le> 100\<close> by (simp only: percent_int_def)
qed

text \<open>
  The health of the memory is decided by the used share, rounded down: good below 70 per cent of the
  total, critical from 85 per cent on, exactly, as long as the total is below \<open>2 ^ 64 / 100\<close> kB; without
  a total it stays what it was.
\<close>

theorem memory_health_exact:
  assumes "si_total sys \<noteq> 0" and "unat (si_total sys) * 100 < 2 ^ 64" and "si_used sys \<le> si_total sys"
  shows "mh_status (calculate_memory_health h sys) =
     (if unat (si_used sys) * 100 < 70 * unat (si_total sys) then MEM_HEALTH_GOOD
      else if unat (si_used sys) * 100 < 85 * unat (si_total sys) then MEM_HEALTH_WARNING
      else MEM_HEALTH_CRITICAL) \<and>
    mh_usage_percent (calculate_memory_health h sys) = int (unat (si_used sys) * 100 div unat (si_total sys))"
proof -
  have t: "0 < unat (si_total sys)" using assms(1) by (simp add: unat_gt_0)
  have d: "(x div unat (si_total sys) < k) = (x < k * unat (si_total sys))" for x k
    using t by (simp add: div_less_iff_less_mult)
  show ?thesis
    using assms(1) d by (simp add: calculate_memory_health_def Let_def percent_int_exact [OF assms(3,2,1)])
qed

lemma memory_health_exact_witness:
  "mh_status (calculate_memory_health h (system_mem_info_zero\<lparr>si_total := 1000, si_used := 849\<rparr>)) = MEM_HEALTH_WARNING"
  using memory_health_exact [of "system_mem_info_zero\<lparr>si_total := 1000, si_used := 849\<rparr>" h]
  by (simp add: word_le_nat_alt)

end
