(* ===== verification/App_User_Mem.thy ===== *)
theory App_User_Mem
  imports App_Sys_Mem "HOL-Library.Multiset"
begin

text \<open>
  The memory monitor, second half: what \<open>src/apps/memory_monitor/src/user_mem.c\<close> collects about processes and
  threads from \<open>/proc\<close>, and the run that puts everything together (\<open>main.c\<close>). \<open>proc_env\<close> has the names in
  the directories, in the order of \<open>readdir\<close>, and the content of the status files, \<open>None\<close> for what
  cannot be opened. \<open>qsort\<close> of the C library leaves the order of equal elements open, so it is an argument.
\<close>

section \<open>Processes\<close>

abbreviation (input) MAX_PROCESSES :: nat where "MAX_PROCESSES \<equiv> 1024"
abbreviation (input) MAX_THREADS :: nat where "MAX_THREADS \<equiv> 1024"

record process_mem_info =
  pi_pid :: int
  pi_name :: string
  pi_vm_rss :: u64
  pi_vm_size :: u64
  pi_vm_data :: u64
  pi_vm_stk :: u64
  pi_vm_exe :: u64
  pi_vm_lib :: u64

record proc_env =
  pe_proc :: "string list option"
  pe_status :: "int \<Rightarrow> string option"
  pe_task :: "int \<Rightarrow> string list option"
  pe_task_status :: "int \<Rightarrow> int \<Rightarrow> string option"

definition process_mem_info_zero :: process_mem_info where
  "process_mem_info_zero = \<lparr>pi_pid = 0, pi_name = [], pi_vm_rss = 0, pi_vm_size = 0, pi_vm_data = 0, pi_vm_stk = 0,
     pi_vm_exe = 0, pi_vm_lib = 0\<rparr>"

definition is_numeric :: "string \<Rightarrow> bool" where
  "is_numeric str \<longleftrightarrow> str \<noteq> [] \<and> (\<forall>c \<in> set str. digit_val c < 10)"

text \<open>A conversion that fails leaves the variable as it was.\<close>

definition scan_name :: "string \<Rightarrow> string \<Rightarrow> string" where
  "scan_name line old = (case c_scan (c_lits ''Name:'' @ [C_SPACE, C_STR 255]) line of [CV_STR w] \<Rightarrow> w | _ \<Rightarrow> old)"

definition scan_kb :: "string \<Rightarrow> string \<Rightarrow> u64 \<Rightarrow> u64" where
  "scan_kb key line old =
     (case c_scan (c_lits key @ [C_SPACE, C_ULONG, C_SPACE] @ c_lits ''kB'') line of
        [CV_NUM v] \<Rightarrow> word_of_int v
      | _ \<Rightarrow> old)"

definition process_line :: "string \<Rightarrow> process_mem_info \<Rightarrow> process_mem_info" where
  "process_line line p =
     (if starts_with ''Name:'' line then p\<lparr>pi_name := scan_name line (pi_name p)\<rparr>
      else if starts_with ''VmRSS:'' line then p\<lparr>pi_vm_rss := scan_kb ''VmRSS:'' line (pi_vm_rss p)\<rparr>
      else if starts_with ''VmSize:'' line then p\<lparr>pi_vm_size := scan_kb ''VmSize:'' line (pi_vm_size p)\<rparr>
      else if starts_with ''VmData:'' line then p\<lparr>pi_vm_data := scan_kb ''VmData:'' line (pi_vm_data p)\<rparr>
      else if starts_with ''VmStk:'' line then p\<lparr>pi_vm_stk := scan_kb ''VmStk:'' line (pi_vm_stk p)\<rparr>
      else if starts_with ''VmExe:'' line then p\<lparr>pi_vm_exe := scan_kb ''VmExe:'' line (pi_vm_exe p)\<rparr>
      else if starts_with ''VmLib:'' line then p\<lparr>pi_vm_lib := scan_kb ''VmLib:'' line (pi_vm_lib p)\<rparr>
      else p)"

definition read_process_status :: "proc_env \<Rightarrow> int \<Rightarrow> process_mem_info \<Rightarrow> int \<times> process_mem_info" where
  "read_process_status env pid proc =
     (case pe_status env pid of
        None \<Rightarrow> (- 1, proc)
      | Some file \<Rightarrow> (0, fold process_line (fgets_lines 256 file) (process_mem_info_zero\<lparr>pi_pid := pid, pi_name := pi_name proc\<rparr>)))"

text \<open>
  \<open>pp_processes\<close> are the first \<open>count\<close> entries of the array; \<open>pp_slot\<close> is the entry behind them, which a
  process that is not counted has written to.
\<close>

record processes_mem_info =
  pp_processes :: "process_mem_info list"
  pp_slot :: process_mem_info
  pp_total_rss :: u64
  pp_total_vsize :: u64

definition processes_zero :: processes_mem_info where
  "processes_zero = \<lparr>pp_processes = [], pp_slot = process_mem_info_zero, pp_total_rss = 0, pp_total_vsize = 0\<rparr>"

definition process_entry :: "proc_env \<Rightarrow> string \<Rightarrow> processes_mem_info \<Rightarrow> processes_mem_info" where
  "process_entry env d_name ps =
     (if MAX_PROCESSES \<le> length (pp_processes ps) \<or> \<not> is_numeric d_name then ps
      else case read_process_status env (c_atoi d_name) (pp_slot ps) of
        (ret, proc) \<Rightarrow>
          if ret = 0 \<and> 0 < pi_vm_rss proc
          then ps\<lparr>pp_processes := pp_processes ps @ [proc], pp_slot := process_mem_info_zero,
            pp_total_rss := pp_total_rss ps + pi_vm_rss proc, pp_total_vsize := pp_total_vsize ps + pi_vm_size proc\<rparr>
          else ps\<lparr>pp_slot := proc\<rparr>)"

definition collect_processes_memory :: "proc_env \<Rightarrow> bool \<Rightarrow> int \<times> processes_mem_info option" where
  "collect_processes_memory env processes =
     (if \<not> processes then (- 1, None)
      else case pe_proc env of
        None \<Rightarrow> (- 1, Some processes_zero)
      | Some names \<Rightarrow> (0, Some (fold (process_entry env) names processes_zero)))"

section \<open>Threads\<close>

record thread_mem_info =
  ti_pid :: int
  ti_tid :: int
  ti_proc_name :: string
  ti_thread_name :: string
  ti_vm_rss :: u64

definition thread_mem_info_zero :: thread_mem_info where
  "thread_mem_info_zero = \<lparr>ti_pid = 0, ti_tid = 0, ti_proc_name = [], ti_thread_name = [], ti_vm_rss = 0\<rparr>"

definition thread_line :: "string \<Rightarrow> thread_mem_info \<Rightarrow> thread_mem_info" where
  "thread_line line t =
     (if starts_with ''Name:'' line then t\<lparr>ti_thread_name := scan_name line (ti_thread_name t)\<rparr>
      else if starts_with ''VmRSS:'' line then t\<lparr>ti_vm_rss := scan_kb ''VmRSS:'' line (ti_vm_rss t)\<rparr>
      else t)"

definition read_thread_status :: "proc_env \<Rightarrow> int \<Rightarrow> int \<Rightarrow> thread_mem_info \<Rightarrow> string \<Rightarrow> int \<times> thread_mem_info" where
  "read_thread_status env pid tid thread proc_name =
     (case pe_task_status env pid tid of
        None \<Rightarrow> (- 1, thread)
      | Some file \<Rightarrow> (0, fold thread_line (fgets_lines 256 file)
          (thread\<lparr>ti_pid := pid, ti_tid := tid, ti_proc_name := take 255 proc_name, ti_vm_rss := 0\<rparr>)))"

text \<open>\<open>ts_proc_name\<close> is the buffer for the name of the process, which nothing initialises.\<close>

record threads_mem_info =
  ts_threads :: "thread_mem_info list"
  ts_slot :: thread_mem_info
  ts_proc_name :: string

definition thread_entry :: "proc_env \<Rightarrow> int \<Rightarrow> string \<Rightarrow> threads_mem_info \<Rightarrow> threads_mem_info" where
  "thread_entry env pid d_name ts =
     (if MAX_THREADS \<le> length (ts_threads ts) \<or> \<not> is_numeric d_name then ts
      else case read_thread_status env pid (c_atoi d_name) (ts_slot ts) (ts_proc_name ts) of
        (ret, thread) \<Rightarrow>
          if ret = 0 \<and> 0 < ti_vm_rss thread
          then ts\<lparr>ts_threads := ts_threads ts @ [thread], ts_slot := thread_mem_info_zero\<rparr>
          else ts\<lparr>ts_slot := thread\<rparr>)"

definition process_name :: "string option \<Rightarrow> string \<Rightarrow> string" where
  "process_name status old =
     (case status of
        None \<Rightarrow> old
      | Some file \<Rightarrow> (case find (starts_with ''Name:'') (fgets_lines 256 file) of Some line \<Rightarrow> scan_name line [] | None \<Rightarrow> []))"

definition thread_process :: "proc_env \<Rightarrow> string \<Rightarrow> threads_mem_info \<Rightarrow> threads_mem_info" where
  "thread_process env d_name ts =
     (if \<not> is_numeric d_name then ts
      else let pid = c_atoi d_name;
               ts = ts\<lparr>ts_proc_name := process_name (pe_status env pid) (ts_proc_name ts)\<rparr>
           in case pe_task env pid of
                None \<Rightarrow> ts
              | Some names \<Rightarrow> fold (thread_entry env pid) names ts)"

section \<open>Sorting\<close>

definition compare_rss :: "u64 \<Rightarrow> u64 \<Rightarrow> int" where
  "compare_rss a b = of_bool (a < b) - of_bool (b < a)"

definition compare_process_rss :: "process_mem_info \<Rightarrow> process_mem_info \<Rightarrow> int" where
  "compare_process_rss pa pb = compare_rss (pi_vm_rss pa) (pi_vm_rss pb)"

definition compare_thread_rss :: "thread_mem_info \<Rightarrow> thread_mem_info \<Rightarrow> int" where
  "compare_thread_rss ta tb = compare_rss (ti_vm_rss ta) (ti_vm_rss tb)"

type_synonym 'a c_qsort = "('a \<Rightarrow> 'a \<Rightarrow> int) \<Rightarrow> 'a list \<Rightarrow> 'a list"

definition sort_processes_by_rss ::
  "process_mem_info c_qsort \<Rightarrow> processes_mem_info option \<Rightarrow> processes_mem_info option" where
  "sort_processes_by_rss qsort processes =
     (case processes of
        None \<Rightarrow> None
      | Some ps \<Rightarrow>
          if length (pp_processes ps) = 0 then Some ps
          else Some (ps\<lparr>pp_processes := qsort compare_process_rss (pp_processes ps)\<rparr>))"

definition sort_threads_by_rss :: "thread_mem_info c_qsort \<Rightarrow> threads_mem_info option \<Rightarrow> threads_mem_info option" where
  "sort_threads_by_rss qsort threads =
     (case threads of
        None \<Rightarrow> None
      | Some ts \<Rightarrow>
          if length (ts_threads ts) = 0 then Some ts
          else Some (ts\<lparr>ts_threads := qsort compare_thread_rss (ts_threads ts)\<rparr>))"

text \<open>The result is \<open>count\<close>, which a negative limit becomes, and the entries of the array.\<close>

definition collect_threads_memory ::
  "thread_mem_info c_qsort \<Rightarrow> proc_env \<Rightarrow> string \<Rightarrow> bool \<Rightarrow> int \<Rightarrow> int \<times> (int \<times> thread_mem_info list) option" where
  "collect_threads_memory qsort env junk threads top_n =
     (if \<not> threads then (- 1, None)
      else case pe_proc env of
        None \<Rightarrow> (- 1, Some (0, []))
      | Some names \<Rightarrow>
          (case sort_threads_by_rss qsort (Some (fold (thread_process env) names
               \<lparr>ts_threads = [], ts_slot = thread_mem_info_zero, ts_proc_name = junk\<rparr>)) of
             None \<Rightarrow> (0, None)
           | Some ts \<Rightarrow> (0, Some (min (int (length (ts_threads ts))) top_n, ts_threads ts))))"

section \<open>Properties\<close>

subsection \<open>Processes\<close>

text \<open>
  The specification is about what the files say, not about how they are scanned. A line of a status
  file is a key, a colon, white space, and a text or a number of kB; a value is that of the last line with
  its key, and a name ends at its first white space.
\<close>

datatype status_value = SV_TEXT string | SV_KB nat

type_synonym status_entry = "string \<times> string \<times> status_value"

definition status_text :: "status_entry \<Rightarrow> string" where
  "status_text e =
     (case e of (key, ws, v) \<Rightarrow> key @ '':'' @ ws @ (case v of SV_TEXT s \<Rightarrow> s | SV_KB n \<Rightarrow> dec_digits n @ '' kB''))"

definition vm_keys :: "string list" where
  "vm_keys = [''VmRSS'', ''VmSize'', ''VmData'', ''VmStk'', ''VmExe'', ''VmLib'']"

definition status_entry_ok :: "status_entry \<Rightarrow> bool" where
  "status_entry_ok e =
     (case e of (key, ws, v) \<Rightarrow>
        CHR '':'' \<notin> set key \<and> (\<forall>c \<in> set ws. c_space c) \<and> plain_line (status_text e) \<and>
        (key = ''Name'' \<longrightarrow> (\<exists>s. v = SV_TEXT s \<and> s \<noteq> [] \<and> \<not> c_space (hd s))) \<and>
        (key \<in> set vm_keys \<longrightarrow> (\<exists>n < 2 ^ 64. v = SV_KB n)))"

definition status_ok :: "status_entry list \<Rightarrow> bool" where
  "status_ok es \<longleftrightarrow> (\<forall>e \<in> set es. status_entry_ok e) \<and> (\<exists>e \<in> set es. fst e = ''Name'')"

definition status_of :: "string \<Rightarrow> status_entry list \<Rightarrow> status_value option" where
  "status_of key es = map_option (snd \<circ> snd) (find (\<lambda>e. fst e = key) (rev es))"

definition status_kb :: "string \<Rightarrow> status_entry list \<Rightarrow> u64" where
  "status_kb key es = (case status_of key es of Some (SV_KB n) \<Rightarrow> of_nat n | _ \<Rightarrow> 0)"

definition status_name :: "status_entry list \<Rightarrow> string" where
  "status_name es = (case status_of ''Name'' es of Some (SV_TEXT s) \<Rightarrow> takeWhile (\<lambda>c. \<not> c_space c) s | _ \<Rightarrow> [])"

definition spec_process :: "int \<Rightarrow> status_entry list \<Rightarrow> process_mem_info" where
  "spec_process pid es =
     \<lparr>pi_pid = pid, pi_name = status_name es, pi_vm_rss = status_kb ''VmRSS'' es, pi_vm_size = status_kb ''VmSize'' es,
      pi_vm_data = status_kb ''VmData'' es, pi_vm_stk = status_kb ''VmStk'' es, pi_vm_exe = status_kb ''VmExe'' es,
      pi_vm_lib = status_kb ''VmLib'' es\<rparr>"

text \<open>What the directory lists: processes by their number, and other names.\<close>

datatype proc_dir_entry = PD_PID nat | PD_OTHER string

definition pd_name :: "proc_dir_entry \<Rightarrow> string" where
  "pd_name d = (case d of PD_PID n \<Rightarrow> dec_digits n | PD_OTHER s \<Rightarrow> s)"

definition pd_ok :: "proc_dir_entry \<Rightarrow> bool" where
  "pd_ok d = (case d of PD_PID n \<Rightarrow> n < 2 ^ 31 | PD_OTHER s \<Rightarrow> s = [] \<or> \<not> set s \<subseteq> set ''0123456789'')"

text \<open>The processes with a resident size, in the order of the directory.\<close>

definition resident_processes :: "(int \<Rightarrow> status_entry list option) \<Rightarrow> proc_dir_entry list \<Rightarrow> process_mem_info list" where
  "resident_processes st ds =
     concat (map (\<lambda>d. case d of
         PD_OTHER s \<Rightarrow> []
       | PD_PID n \<Rightarrow>
           (case st (int n) of
              None \<Rightarrow> []
            | Some es \<Rightarrow> if status_kb ''VmRSS'' es = 0 then [] else [spec_process (int n) es])) ds)"

definition status_files :: "proc_env \<Rightarrow> (int \<Rightarrow> status_entry list option) \<Rightarrow> bool" where
  "status_files env st \<longleftrightarrow>
     (\<forall>pid. pe_status env pid = map_option (\<lambda>es. text_of_lines (map status_text es)) (st pid)) \<and>
     (\<forall>pid es. st pid = Some es \<longrightarrow> status_ok es)"

text \<open>A line is recognised by its key.\<close>

lemma starts_with_key:
  "CHR '':'' \<notin> set w \<Longrightarrow> CHR '':'' \<notin> set k \<Longrightarrow> starts_with (w @ '':'') (k @ '':'' @ r) = (k = w)"
proof (induction w arbitrary: k)
  case Nil
  then show ?case by (cases k) (auto simp: starts_with_def)
next
  case (Cons c w)
  then show ?case by (cases k) (auto simp: starts_with_def)
qed

lemma scan_kb_entry:
  assumes "\<forall>c \<in> set ws. c_space c" and "n < 2 ^ 64"
  shows "scan_kb (w @ '':'') (w @ '':'' @ ws @ dec_digits n @ '' kB'' @ [newline]) old = of_nat n"
proof -
  let ?r = "'' kB'' @ [newline]"
  have r: "digit_val (hd ?r) = 99" by (simp add: digit_val_def char_code_def)
  have "dropWhile c_space (ws @ dec_digits n @ ?r) = dec_digits n @ ?r"
    using assms(1) dropWhile_dec_digits by (simp add: dropWhile_append2)
  moreover have "c_number 10 (dec_digits n @ ?r) = Some (False, n, ?r)"
    using c_number_dec [of "[]" ?r n] r by simp
  moreover have "c_scan (C_SPACE # c_lits ''kB'') ?r = []" by (simp only: c_lits_def c_scan_no_values)
  ultimately have "c_scan (c_lits (w @ '':'') @ [C_SPACE, C_ULONG, C_SPACE] @ c_lits ''kB'') ((w @ '':'') @ ws @ dec_digits n @ ?r) =
      [CV_NUM (int n)]"
    by (simp only: c_scan_lits append.simps c_scan.simps ulong_small [OF assms(2)] option.case prod.case)
  then show ?thesis by (simp add: scan_kb_def)
qed

lemma scan_name_entry:
  assumes "\<forall>c \<in> set ws. c_space c" and "s \<noteq> []" and "\<not> c_space (hd s)" and "length s < 255"
  shows "scan_name (''Name:'' @ ws @ s @ [newline]) old = takeWhile (\<lambda>c. \<not> c_space c) s"
proof -
  let ?w = "takeWhile (\<lambda>c. \<not> c_space c) s" and ?r = "dropWhile (\<lambda>c. \<not> c_space c) s @ [newline]"
  have "c_space newline" by (simp add: newline_def c_space_def char_code_def)
  then have r: "c_space (hd ?r)"
  proof (cases "dropWhile (\<lambda>c. \<not> c_space c) s")
    case (Cons c t)
    then show ?thesis using hd_dropWhile [of "\<lambda>c. \<not> c_space c" s] by simp
  qed (simp del: dropWhile_eq_Nil_conv)
  have w: "?w \<noteq> []" "\<forall>c \<in> set ?w. \<not> c_space c" "length ?w \<le> 255"
    using assms length_takeWhile_le [of "\<lambda>c. \<not> c_space c" s] by (cases s; auto dest: set_takeWhileD)+
  have "c_scan [C_STR 255] ([] @ ?w @ ?r) = [CV_STR ?w]"
    using c_word [of "[]" ?w 255 ?r "[]"] w r by simp
  moreover have "dropWhile c_space (ws @ s @ [newline]) = ?w @ ?r"
    using assms(1-3) by (cases s) (auto simp: dropWhile_append2)
  ultimately have "c_scan (c_lits ''Name:'' @ [C_SPACE, C_STR 255]) (''Name:'' @ ws @ s @ [newline]) = [CV_STR ?w]"
    by (simp only: c_scan_lits c_scan.simps append_Nil)
  then show ?thesis by (simp add: scan_name_def)
qed

text \<open>The effect of a line, and of a file.\<close>

definition set_status :: "status_entry \<Rightarrow> process_mem_info \<Rightarrow> process_mem_info" where
  "set_status e p =
     (case e of (key, ws, v) \<Rightarrow>
        let n = (case v of SV_KB n \<Rightarrow> of_nat n | SV_TEXT s \<Rightarrow> 0);
            w = (case v of SV_KB n \<Rightarrow> [] | SV_TEXT s \<Rightarrow> takeWhile (\<lambda>c. \<not> c_space c) s)
        in if key = ''Name'' then p\<lparr>pi_name := w\<rparr>
           else if key = ''VmRSS'' then p\<lparr>pi_vm_rss := n\<rparr>
           else if key = ''VmSize'' then p\<lparr>pi_vm_size := n\<rparr>
           else if key = ''VmData'' then p\<lparr>pi_vm_data := n\<rparr>
           else if key = ''VmStk'' then p\<lparr>pi_vm_stk := n\<rparr>
           else if key = ''VmExe'' then p\<lparr>pi_vm_exe := n\<rparr>
           else if key = ''VmLib'' then p\<lparr>pi_vm_lib := n\<rparr>
           else p)"

lemma process_line_entry:
  assumes "status_entry_ok e"
  shows "process_line (status_text e @ [newline]) p = set_status e p"
proof -
  obtain key ws v where e: "e = (key, ws, v)" by (cases e)
  define r where "r = ws @ (case v of SV_TEXT s \<Rightarrow> s | SV_KB n \<Rightarrow> dec_digits n @ '' kB'') @ [newline]"
  have line: "status_text e @ [newline] = key @ '':'' @ r" by (simp add: e status_text_def r_def)
  have colon: "CHR '':'' \<notin> set key" and ws: "\<forall>c \<in> set ws. c_space c" using assms by (simp_all add: e status_entry_ok_def)
  note pre = starts_with_key [OF _ colon, of _ r]
  have keys: "starts_with ''Name:'' (key @ '':'' @ r) = (key = ''Name'')" "starts_with ''VmRSS:'' (key @ '':'' @ r) = (key = ''VmRSS'')"
    "starts_with ''VmSize:'' (key @ '':'' @ r) = (key = ''VmSize'')" "starts_with ''VmData:'' (key @ '':'' @ r) = (key = ''VmData'')"
    "starts_with ''VmStk:'' (key @ '':'' @ r) = (key = ''VmStk'')" "starts_with ''VmExe:'' (key @ '':'' @ r) = (key = ''VmExe'')"
    "starts_with ''VmLib:'' (key @ '':'' @ r) = (key = ''VmLib'')"
    using pre [of "''Name''"] pre [of "''VmRSS''"] pre [of "''VmSize''"] pre [of "''VmData''"] pre [of "''VmStk''"]
      pre [of "''VmExe''"] pre [of "''VmLib''"] by simp_all
  show ?thesis
  proof (cases "key \<in> set vm_keys")
    case True
    then obtain n where n: "n < 2 ^ 64" "v = SV_KB n" using assms by (auto simp: e status_entry_ok_def)
    then have r: "r = ws @ dec_digits n @ '' kB'' @ [newline]" by (simp add: r_def)
    have "scan_kb (w @ '':'') (w @ '':'' @ r) old = of_nat n" for w old
      unfolding r by (rule scan_kb_entry [OF ws n(1)])
    from this [of "''VmRSS''"] this [of "''VmSize''"] this [of "''VmData''"] this [of "''VmStk''"] this [of "''VmExe''"]
      this [of "''VmLib''"] True show ?thesis
      unfolding line process_line_def keys by (auto simp: e set_status_def n(2) vm_keys_def)
  next
    case other: False
    show ?thesis
    proof (cases "key = ''Name''")
      case True
      then obtain s where s: "v = SV_TEXT s" "s \<noteq> []" "\<not> c_space (hd s)" using assms by (auto simp: e status_entry_ok_def)
      have "length s < 255" using assms by (simp add: e status_entry_ok_def plain_line_def status_text_def s(1))
      from scan_name_entry [OF ws s(2,3) this] True show ?thesis
        unfolding line process_line_def keys by (simp add: e set_status_def s(1) r_def)
    next
      case False
      with other show ?thesis unfolding line process_line_def keys by (simp add: e set_status_def vm_keys_def)
    qed
  qed
qed

lemma fold_status_lines:
  assumes "\<forall>e \<in> set es. status_entry_ok e"
  shows "fold process_line (fgets_lines 256 (text_of_lines (map status_text es))) p = fold set_status es p"
proof -
  have "\<forall>l \<in> set (map status_text es). plain_line l" using assms by (auto simp: status_entry_ok_def)
  moreover have "fold process_line (map (\<lambda>l. l @ [newline]) (map status_text es)) p = fold set_status es p"
    using assms by (induction es arbitrary: p) (simp_all add: process_line_entry)
  ultimately show ?thesis by (simp only: fgets_text)
qed

lemma fold_status:
  assumes "\<And>e p. sel (set_status e p) = (if fst e = key then f (snd (snd e)) else sel p)"
  shows "sel (fold set_status es p) = (case status_of key es of None \<Rightarrow> sel p | Some v \<Rightarrow> f v)"
  by (induction es rule: rev_induct) (simp_all add: status_of_def assms)

lemma status_name_found:
  assumes "status_ok es"
  shows "\<exists>s. status_of ''Name'' es = Some (SV_TEXT s)"
proof -
  have "find (\<lambda>e. fst e = ''Name'') (rev es) \<noteq> None" 
    using assms unfolding status_ok_def find_None_iff set_rev by blast
  then obtain e where f: "find (\<lambda>e. fst e = ''Name'') (rev es) = Some e" by blast
  then have "e \<in> set es" "fst e = ''Name''" by (auto simp: find_Some_iff) (metis nth_mem length_rev set_rev)
  with assms f show ?thesis by (cases e) (auto simp: status_ok_def status_entry_ok_def status_of_def)
qed

lemma read_status_spec:
  assumes "status_files env st" and "st pid = Some es"
  shows "read_process_status env pid slot = (0, spec_process pid es)"
proof -
  have ok: "status_ok es" and content: "pe_status env pid = Some (text_of_lines (map status_text es))"
    using assms by (auto simp: status_files_def)
  let ?p = "process_mem_info_zero\<lparr>pi_pid := pid, pi_name := pi_name slot\<rparr>"
  let ?q = "fold set_status es ?p" and ?kb = "\<lambda>v. case v of SV_KB n \<Rightarrow> (of_nat n :: u64) | SV_TEXT s \<Rightarrow> 0"
  have kb: "sel ?q = status_kb key es"
    if "\<And>e p. sel (set_status e p) = (if fst e = key then ?kb (snd (snd e)) else sel p)" "sel ?p = 0" for sel key
    unfolding fold_status [OF that(1)] status_kb_def using that(2) by (simp split: option.split status_value.split)
  have name: "pi_name ?q = status_name es"
    using status_name_found [OF ok]
      fold_status [of pi_name "''Name''" "\<lambda>v. case v of SV_KB n \<Rightarrow> [] | SV_TEXT s \<Rightarrow> takeWhile (\<lambda>c. \<not> c_space c) s" es ?p]
    by (auto simp: status_name_def set_status_def Let_def split: prod.splits)
  have pid: "pi_pid ?q = pid"
  proof -
    have "pi_pid (fold set_status es p) = pi_pid p" for p
      by (induction es arbitrary: p) (simp_all add: set_status_def Let_def split: prod.split)
    then show ?thesis by simp
  qed
  have "?q = spec_process pid es"
    using name pid kb [of pi_vm_rss "''VmRSS''"] kb [of pi_vm_size "''VmSize''"] kb [of pi_vm_data "''VmData''"]
      kb [of pi_vm_stk "''VmStk''"] kb [of pi_vm_exe "''VmExe''"] kb [of pi_vm_lib "''VmLib''"]
    by (simp add: spec_process_def process_mem_info.equality set_status_def Let_def process_mem_info_zero_def split: prod.split)
  then show ?thesis
    using content ok fold_status_lines [of es ?p] by (simp add: read_process_status_def status_ok_def)
qed

text \<open>A directory entry.\<close>

lemma is_numeric_pid: "is_numeric (dec_digits n)"
  using dec_digits_digits [of _ n] by (auto simp: is_numeric_def)

lemma c_atoi_pid: "n < 2 ^ 31 \<Longrightarrow> c_atoi (dec_digits n) = int n"
proof -
  assume n: "n < 2 ^ 31"
  have "sint (word_of_int (int n) :: u32) = int n"
    using n by (simp only: signed_of_int) (simp add: signed_take_bit_int_eq_self)
  then show ?thesis using n c_number_dec [of "[]" "[]" n] by (simp add: c_atoi_def long_of_def)
qed

lemma digit_char: "digit_val c < 10 \<Longrightarrow> c \<in> set ''0123456789''"
proof -
  assume "digit_val c < 10"
  then have "48 \<le> char_code c" "char_code c \<le> 57" by (auto simp: digit_val_def Let_def split: if_splits)
  then have "char_code c \<in> set [48..<58]" unfolding set_upt atLeastLessThan_iff by linarith
  then have "c \<in> set (map char_of [48..<58])" unfolding char_code_def set_map by (metis char_of_char image_eqI)
  moreover have "map char_of [48..<58] = ''0123456789''" by (simp add: upt_rec char_of_eq_iff)
  ultimately show ?thesis by (simp only:)
qed

lemma not_numeric_other: "pd_ok (PD_OTHER s) \<Longrightarrow> \<not> is_numeric s"
  using digit_char by (auto simp: pd_ok_def is_numeric_def)

lemma process_entry_spec:
  assumes "status_files env st" and "pd_ok d" and "length (pp_processes ps) \<le> MAX_PROCESSES"
  shows "\<exists>rs. pp_processes (process_entry env (pd_name d) ps) = pp_processes ps @ rs \<and>
      rs = take (MAX_PROCESSES - length (pp_processes ps)) (resident_processes st [d]) \<and>
      pp_total_rss (process_entry env (pd_name d) ps) = pp_total_rss ps + sum_list (map pi_vm_rss rs) \<and>
      pp_total_vsize (process_entry env (pd_name d) ps) = pp_total_vsize ps + sum_list (map pi_vm_size rs)"
proof (cases d)
  case (PD_OTHER s)
  with not_numeric_other assms(2) show ?thesis by (simp add: process_entry_def pd_name_def resident_processes_def)
next
  case (PD_PID n)
  with assms(2) have n: "c_atoi (dec_digits n) = int n" by (simp add: pd_ok_def c_atoi_pid)
  show ?thesis
  proof (cases "st (int n)")
    case None
    with assms(1) have "pe_status env (int n) = None" by (simp add: status_files_def)
    with None show ?thesis
      by (simp add: process_entry_def PD_PID pd_name_def n read_process_status_def resident_processes_def)
  next
    case (Some es)
    have "pi_vm_rss (spec_process (int n) es) = status_kb ''VmRSS'' es" by (simp add: spec_process_def)
    then show ?thesis
      by (simp add: process_entry_def PD_PID pd_name_def n read_status_spec [OF assms(1) Some] Some is_numeric_pid
          resident_processes_def take_Cons' word_gt_0)
  qed
qed

lemma fold_processes:
  assumes "status_files env st" and "\<forall>d \<in> set ds. pd_ok d" and "length (pp_processes ps) \<le> MAX_PROCESSES"
  shows "\<exists>qs. pp_processes (fold (process_entry env) (map pd_name ds) ps) = pp_processes ps @ qs \<and>
    qs = take (MAX_PROCESSES - length (pp_processes ps)) (resident_processes st ds) \<and>
    pp_total_rss (fold (process_entry env) (map pd_name ds) ps) = pp_total_rss ps + sum_list (map pi_vm_rss qs) \<and>
    pp_total_vsize (fold (process_entry env) (map pd_name ds) ps) = pp_total_vsize ps + sum_list (map pi_vm_size qs)"
  using assms(2,3)
proof (induction ds arbitrary: ps)
  case (Cons d ds)
  let ?ps = "process_entry env (pd_name d) ps"
  from process_entry_spec [OF assms(1), of d ps] Cons.prems obtain rs where rs: "pp_processes ?ps = pp_processes ps @ rs"
      "rs = take (MAX_PROCESSES - length (pp_processes ps)) (resident_processes st [d])"
      "pp_total_rss ?ps = pp_total_rss ps + sum_list (map pi_vm_rss rs)"
      "pp_total_vsize ?ps = pp_total_vsize ps + sum_list (map pi_vm_size rs)" by auto
  then have "length (pp_processes ?ps) \<le> MAX_PROCESSES" using Cons.prems by simp
  moreover have "MAX_PROCESSES - (a + min b (MAX_PROCESSES - a)) = MAX_PROCESSES - (a + b)" for a b :: nat by simp
  moreover have "resident_processes st (d # ds) = resident_processes st [d] @ resident_processes st ds"
    by (simp add: resident_processes_def)
  ultimately show ?case using Cons.IH [of ?ps] Cons.prems rs by (auto simp: add.assoc)
qed (simp add: resident_processes_def)

text \<open>
  C35. The processes that the monitor lists are the first 1024 of those in \<open>/proc\<close> with a resident size, in order;
  each has the number of its directory, the name and the six sizes that its status file gives under their keys, and
  no value of another process; and the totals are the sums over them. This holds when every status file has a line
  with a name: of a process without one, the name is that of a process read before it and not listed.
\<close>

theorem processes_exact:
  assumes "status_files env st" and "pe_proc env = Some (map pd_name ds)" and "\<forall>d \<in> set ds. pd_ok d"
  shows "\<exists>ps. collect_processes_memory env True = (0, Some ps) \<and>
    pp_processes ps = take MAX_PROCESSES (resident_processes st ds) \<and>
    pp_total_rss ps = sum_list (map pi_vm_rss (pp_processes ps)) \<and>
    pp_total_vsize ps = sum_list (map pi_vm_size (pp_processes ps))"
  using fold_processes [OF assms(1,3), of processes_zero] assms(2)
  by (simp add: collect_processes_memory_def processes_zero_def)

definition example_proc :: proc_env where
  "example_proc = \<lparr>pe_proc = Some [''.'', ''7'', ''8'', ''self''],
     pe_status = (\<lambda>pid. if pid = 7 then Some (text_of_lines [''Name: sh'', ''VmRSS: 12 kB'']) else None),
     pe_task = (\<lambda>pid. if pid = 7 then Some [''7''] else None),
     pe_task_status = (\<lambda>pid tid. Some (text_of_lines [''Name: sh'', ''VmRSS: 12 kB'']))\<rparr>"

lemma example_lines:
  "fgets_lines 256 (text_of_lines [''Name: sh'', ''VmRSS: 12 kB'']) = [''Name: sh'' @ [newline], ''VmRSS: 12 kB'' @ [newline]]"
  by (subst fgets_text) (simp_all add: plain_line_def newline_def char_of_eq_iff)

lemmas example_chars = c_lits_def c_space_def char_code_def newline_def starts_with_def digit_val_def

lemma example_atoi: "c_atoi ''7'' = 7" "c_atoi ''8'' = 8"
  by (simp_all add: c_atoi_def c_number_def c_digits_def skip_radix_def digits_val_def example_chars Let_def long_of_def)

lemma example_kb: "scan_kb ''VmRSS:'' (''VmRSS: 12 kB'' @ [newline]) 0 = 12"
  by (simp add: scan_kb_def c_number_def c_digits_def skip_radix_def digits_val_def example_chars Let_def ulong_of_def)

definition example_status :: "int \<Rightarrow> status_entry list option" where
  "example_status pid = (if pid = 7 then Some [(''Name'', '' '', SV_TEXT ''sh''), (''VmRSS'', '' '', SV_KB 12)] else None)"

definition example_dir :: "proc_dir_entry list" where
  "example_dir = [PD_OTHER ''.'', PD_PID 7, PD_PID 8, PD_OTHER ''self'']"

lemma example_status_digits: "dec_digits 7 = ''7''" "dec_digits 8 = ''8''" "dec_digits 12 = ''12''"
  by (simp_all add: dec_digits.simps dec_char_def char_of_eq_iff)

lemma example_files: "status_files example_proc example_status"
  by (auto simp: status_files_def example_proc_def example_status_def status_text_def example_status_digits status_ok_def
      status_entry_ok_def plain_line_def newline_def vm_keys_def c_space_def char_code_def char_of_eq_iff split: if_splits)

lemma example_dir_ok: "\<forall>d \<in> set example_dir. pd_ok d" "pe_proc example_proc = Some (map pd_name example_dir)"
  by (simp_all add: example_dir_def pd_ok_def example_proc_def pd_name_def example_status_digits)

lemma example_resident: "resident_processes example_status example_dir =
    [process_mem_info_zero\<lparr>pi_pid := 7, pi_name := ''sh'', pi_vm_rss := 12\<rparr>]"
  by (simp add: resident_processes_def example_dir_def example_status_def status_kb_def status_of_def spec_process_def
      status_name_def process_mem_info_zero_def c_space_def char_code_def)

lemma processes_exact_witness:
  "\<exists>ps. collect_processes_memory example_proc True = (0, Some ps) \<and>
     pp_processes ps = [process_mem_info_zero\<lparr>pi_pid := 7, pi_name := ''sh'', pi_vm_rss := 12\<rparr>] \<and> pp_total_rss ps = 12"
  using processes_exact [OF example_files example_dir_ok(2,1)] by (auto simp: example_resident)

subsection \<open>Threads\<close>

definition threads_kept :: "threads_mem_info \<Rightarrow> bool" where
  "threads_kept ts \<longleftrightarrow> (\<forall>t \<in> set (ts_threads ts). 0 < ti_vm_rss t) \<and> length (ts_threads ts) \<le> MAX_THREADS"

lemma fold_kept: "(\<And>d ts. P ts \<Longrightarrow> P (f d ts)) \<Longrightarrow> P ts \<Longrightarrow> P (fold f ds ts)"
  by (induction ds arbitrary: ts) auto

lemma thread_entry_kept: "threads_kept ts \<Longrightarrow> threads_kept (thread_entry env pid d ts)"
  by (auto simp: thread_entry_def threads_kept_def split: prod.split)

lemma thread_process_kept: "threads_kept ts \<Longrightarrow> threads_kept (thread_process env d ts)"
  by (auto simp: thread_process_def Let_def threads_kept_def [of "ts\<lparr>ts_proc_name := x\<rparr>" for x]
      threads_kept_def [of ts] intro!: fold_kept [where P = threads_kept] thread_entry_kept split: option.split)

text \<open>What \<open>qsort\<close> promises for a comparison by a key.\<close>

definition qsort_ok :: "'a c_qsort \<Rightarrow> bool" where
  "qsort_ok qsort \<longleftrightarrow> (\<forall>key xs. let cmp = (\<lambda>a b. compare_rss (key a) (key b))
     in mset (qsort cmp xs) = mset xs \<and> sorted_wrt (\<lambda>a b. cmp a b \<le> 0) (qsort cmp xs))"

lemma compare_rss_le [simp]: "compare_rss a b \<le> 0 \<longleftrightarrow> b \<le> a"
  by (auto simp: compare_rss_def)

lemma qsort_threads:
  assumes "qsort_ok qsort"
  shows "mset (qsort compare_thread_rss ts) = mset ts" "sorted_wrt (\<lambda>a b. ti_vm_rss b \<le> ti_vm_rss a) (qsort compare_thread_rss ts)"
proof -
  have key: "compare_thread_rss = (\<lambda>a b. compare_rss (ti_vm_rss a) (ti_vm_rss b))" by (simp add: fun_eq_iff compare_thread_rss_def)
  show "mset (qsort compare_thread_rss ts) = mset ts"
    "sorted_wrt (\<lambda>a b. ti_vm_rss b \<le> ti_vm_rss a) (qsort compare_thread_rss ts)"
    using assms unfolding key qsort_ok_def Let_def compare_rss_le by blast+
qed

text \<open>
  Whatever \<open>qsort\<close> does with equal elements, the threads shown are the largest: at most the number
  asked for and at most 1024, in descending order of their resident size, which is above 0, and no thread
  that was found and is not shown has more than one that is.
\<close>

theorem top_threads:
  assumes "qsort_ok qsort" and "0 \<le> top_n"
    and "collect_threads_memory qsort env junk True top_n = (0, Some (cnt, ts))" and "pe_proc env = Some names"
  shows "mset ts = mset (ts_threads (fold (thread_process env) names \<lparr>ts_threads = [], ts_slot = thread_mem_info_zero, ts_proc_name = junk\<rparr>)) \<and>
    0 \<le> cnt \<and> cnt = min (int (length ts)) top_n \<and> length ts \<le> MAX_THREADS \<and>
    sorted_wrt (\<lambda>a b. ti_vm_rss b \<le> ti_vm_rss a) (take (nat cnt) ts) \<and>
    (\<forall>t \<in> set (take (nat cnt) ts). 0 < ti_vm_rss t \<and> (\<forall>u \<in> set (drop (nat cnt) ts). ti_vm_rss u \<le> ti_vm_rss t))"
proof -
  let ?all = "ts_threads (fold (thread_process env) names \<lparr>ts_threads = [], ts_slot = thread_mem_info_zero, ts_proc_name = junk\<rparr>)"
  have "threads_kept (fold (thread_process env) names \<lparr>ts_threads = [], ts_slot = thread_mem_info_zero, ts_proc_name = junk\<rparr>)"
    by (rule fold_kept [where P = threads_kept]) (simp add: thread_process_kept, simp add: threads_kept_def)
  then have kept: "(\<forall>t \<in> set ?all. 0 < ti_vm_rss t) \<and> length ?all \<le> MAX_THREADS" by (simp add: threads_kept_def)
  have ts: "ts = (if ?all = [] then [] else qsort compare_thread_rss ?all)" "cnt = min (int (length ts)) top_n"
    using assms(3,4) by (auto simp: collect_threads_memory_def sort_threads_by_rss_def split: if_splits)
  have m: "mset ts = mset ?all" using qsort_threads(1) [OF assms(1)] ts(1) by simp
  have sorted: "sorted_wrt (\<lambda>a b. ti_vm_rss b \<le> ti_vm_rss a) (take (nat cnt) ts @ drop (nat cnt) ts)"
    using qsort_threads(2) [OF assms(1)] ts(1) by simp
  have "set ts = set ?all" "length ts = length ?all" using m by (metis set_mset_mset, metis size_mset)
  then have "length ts \<le> MAX_THREADS" "\<forall>t \<in> set ts. 0 < ti_vm_rss t" using kept by simp_all
  then show ?thesis
    using m ts(2) assms(2) sorted set_take_subset [of "nat cnt" ts] unfolding sorted_wrt_append by auto
qed

text \<open>Sorting by insertion keeps the promise.\<close>

fun c_insert :: "('a \<Rightarrow> 'a \<Rightarrow> int) \<Rightarrow> 'a \<Rightarrow> 'a list \<Rightarrow> 'a list" where
  "c_insert cmp x [] = [x]"
| "c_insert cmp x (y # ys) = (if cmp x y \<le> 0 then x # y # ys else y # c_insert cmp x ys)"

definition c_isort :: "'a c_qsort" where
  "c_isort cmp xs = foldr (c_insert cmp) xs []"

lemma mset_c_insert [simp]: "mset (c_insert cmp x ys) = add_mset x (mset ys)"
  by (induction ys) auto

lemma set_c_insert [simp]: "set (c_insert cmp x ys) = insert x (set ys)"
  by (induction ys) auto

lemma c_isort_ok: "qsort_ok c_isort"
proof -
  have sorted: "sorted_wrt (\<lambda>a b. key b \<le> key a) (c_insert (\<lambda>a b. compare_rss (key a) (key b)) x ys)"
    if "sorted_wrt (\<lambda>a b. key b \<le> key a) ys" for key :: "'a \<Rightarrow> u64" and x ys
    using that by (induction ys) (auto intro: order_trans)
  have "mset (c_isort cmp xs) = mset xs" for cmp and xs :: "'a list"
    by (induction xs) (simp_all add: c_isort_def)
  moreover have "sorted_wrt (\<lambda>a b. key b \<le> key a) (c_isort (\<lambda>a b. compare_rss (key a) (key b)) xs)"
    for key :: "'a \<Rightarrow> u64" and xs
    by (induction xs) (simp_all add: c_isort_def sorted)
  ultimately show ?thesis by (simp add: qsort_ok_def Let_def)
qed

lemma example_threads:
  "ts_threads (fold (thread_process example_proc) [''.'', ''7'', ''8'', ''self'']
     \<lparr>ts_threads = [], ts_slot = thread_mem_info_zero, ts_proc_name = junk\<rparr>) =
   [\<lparr>ti_pid = 7, ti_tid = 7, ti_proc_name = ''sh'', ti_thread_name = ''sh'', ti_vm_rss = 12\<rparr>]"
proof -
  have name: "scan_name (''Name: sh'' @ [newline]) x = ''sh''" for x
    by (simp add: scan_name_def example_chars Let_def)
  show ?thesis
    using name example_kb
    by (simp add: thread_process_def is_numeric_def example_atoi digit_val_def char_code_def Let_def example_proc_def
        process_name_def example_lines starts_with_def thread_entry_def read_thread_status_def thread_line_def
        thread_mem_info_zero_def)
qed

lemma collect_threads_returns:
  "pe_proc env = Some names \<Longrightarrow> \<exists>cnt ts. collect_threads_memory qsort env junk True top_n = (0, Some (cnt, ts))"
  by (auto simp: collect_threads_memory_def sort_threads_by_rss_def)

lemma top_threads_witness:
  "\<exists>cnt ts. collect_threads_memory c_isort example_proc [] True 5 = (0, Some (cnt, ts)) \<and> cnt = 1 \<and>
     map ti_tid (take (nat cnt) ts) = [7] \<and> (\<forall>t \<in> set (take (nat cnt) ts). 0 < ti_vm_rss t)"
proof -
  have names: "pe_proc example_proc = Some [''.'', ''7'', ''8'', ''self'']" by (simp add: example_proc_def)
  from collect_threads_returns [OF this] obtain cnt ts
    where run: "collect_threads_memory c_isort example_proc [] True 5 = (0, Some (cnt, ts))" by blast
  note facts = top_threads [OF c_isort_ok _ run names, unfolded example_threads]
  then have "mset ts = {#\<lparr>ti_pid = 7, ti_tid = 7, ti_proc_name = ''sh'', ti_thread_name = ''sh'', ti_vm_rss = 12\<rparr>#}" by simp
  then have "ts = [\<lparr>ti_pid = 7, ti_tid = 7, ti_proc_name = ''sh'', ti_thread_name = ''sh'', ti_vm_rss = 12\<rparr>]" by simp
  with facts run show ?thesis by auto
qed

end
