(* ===== verification/App_Monitor.thy ===== *)
theory App_Monitor
  imports App_User_Mem
begin

text \<open>
  A run of the memory monitor from the options on (\<open>src/apps/memory_monitor/main.c\<close>): everything is collected
  in order, and the health and the matrix of six layers are computed. \<open>monitor_env\<close> has the files; a run
  ends with an exit status, with the statistics that are displayed, or with a division by zero.
\<close>

section \<open>The run\<close>

record monitor_env =
  me_meminfo :: "string option"
  me_device_tree :: "(string \<times> u8 list option) list option"
  me_iomem :: "string option"
  me_zoneinfo :: "string option"
  me_procs :: proc_env

text \<open>What is not initialised on the stack, and the sorting of the C library.\<close>

record monitor_libc =
  ml_junk_pages :: u64
  ml_junk_name :: string
  ml_qsort_processes :: "process_mem_info c_qsort"
  ml_qsort_threads :: "thread_mem_info c_qsort"

record memory_statistics =
  mm_system :: system_mem_info
  mm_kernel :: kernel_mem_info
  mm_reserved :: "reserved_mem_region list"
  mm_zones :: "zone_info list"
  mm_processes :: processes_mem_info
  mm_threads :: "int \<times> thread_mem_info list"
  mm_matrix :: "(u64 \<times> int) list"
  mm_health :: memory_health

datatype monitor_result = MON_EXIT nat | MON_CRASH | MON_STATS memory_statistics

definition memory_health_zero :: memory_health where
  "memory_health_zero = \<lparr>mh_status = MEM_HEALTH_GOOD, mh_usage_percent = 0, mh_available_percent = 0\<rparr>"

definition some_or :: "'a \<Rightarrow> 'a option \<Rightarrow> 'a" where
  "some_or d x = (case x of None \<Rightarrow> d | Some y \<Rightarrow> y)"

definition monitor_run :: "monitor_libc \<Rightarrow> monitor_env \<Rightarrow> int \<Rightarrow> monitor_result" where
  "monitor_run libc env top_n_threads =
     (case collect_system_memory (me_meminfo env) True of (ret, sys) \<Rightarrow>
        if ret \<noteq> 0 then MON_EXIT 1
        else case collect_kernel_memory True sys of (ret, kern) \<Rightarrow>
          if ret \<noteq> 0 then MON_EXIT 1
          else
            let sys = some_or system_mem_info_zero sys;
                kern = the kern;
                reserved = some_or [] (snd (collect_reserved_memory (me_device_tree env) (me_iomem env) True));
                zones = some_or [] (snd (collect_zones_info (ml_junk_pages libc) (me_zoneinfo env) True))
            in case collect_processes_memory (me_procs env) True of (ret, procs) \<Rightarrow>
              if ret \<noteq> 0 then MON_EXIT 1
              else
                let procs = some_or processes_zero (sort_processes_by_rss (ml_qsort_processes libc) procs);
                    threads = some_or (0, []) (snd (collect_threads_memory (ml_qsort_threads libc) (me_procs env)
                      (ml_junk_name libc) True top_n_threads));
                    health = calculate_memory_health memory_health_zero sys
                in case calculate_memory_matrix sys (ki_total kern) (pp_total_rss procs) of
                     None \<Rightarrow> MON_CRASH
                   | Some matrix \<Rightarrow> MON_STATS \<lparr>mm_system = sys, mm_kernel = kern, mm_reserved = reserved, mm_zones = zones,
                       mm_processes = procs, mm_threads = threads, mm_matrix = matrix, mm_health = health\<rparr>)"

section \<open>Properties\<close>







lemma sorted_processes:
  "sort_processes_by_rss qsort (Some ps) = Some (ps\<lparr>pp_processes := if pp_processes ps = [] then [] else qsort compare_process_rss (pp_processes ps)\<rparr>)"
  by (simp add: sort_processes_by_rss_def)

text \<open>
  How a run ends: with exit status 1 exactly when \<open>/proc/meminfo\<close> or \<open>/proc\<close> cannot be opened, with
  a division by zero exactly when they can but no total above 0 was found, and with the
  statistics otherwise; that the reserved memory, the zones or the threads cannot be read does not matter.
\<close>

theorem monitor_outcome:
  "(monitor_run libc env n = MON_EXIT k) = (k = 1 \<and> (me_meminfo env = None \<or> pe_proc (me_procs env) = None)) \<and>
   (monitor_run libc env n = MON_CRASH) =
     (\<exists>sys. collect_system_memory (me_meminfo env) True = (0, Some sys) \<and> si_total sys = 0 \<and> pe_proc (me_procs env) \<noteq> None)"
proof (cases "me_meminfo env")
  case None
  then show ?thesis by (auto simp: monitor_run_def collect_system_memory_def)
next
  case (Some m)
  then obtain sys where sys: "collect_system_memory (me_meminfo env) True = (0, Some sys)"
    by (simp add: collect_system_memory_def Let_def)
  show ?thesis
    using Some sys
    by (cases "pe_proc (me_procs env)")
      (auto simp: monitor_run_def collect_kernel_memory_def collect_processes_memory_def some_or_def
        sorted_processes calculate_memory_matrix_def Let_def)
qed

text \<open>
  The layer of user space in the matrix of a run is the sum of the resident sizes of the first 1024
  processes that have one, whatever the order in which they are listed, if every status file gives a name.
\<close>

theorem monitor_user_layer:
  assumes "monitor_run libc env n = MON_STATS st"
    and "status_files (me_procs env) files" and "pe_proc (me_procs env) = Some (map pd_name ds)" and "\<forall>d \<in> set ds. pd_ok d"
  shows "fst (mm_matrix st ! 3) = sum_list (map pi_vm_rss (take MAX_PROCESSES (resident_processes files ds))) \<and>
    fst (mm_matrix st ! 0) = si_slab (mm_system st) + si_kernel_stack (mm_system st) + si_page_tables (mm_system st) +
      si_vmalloc_used (mm_system st)"
proof -
  let ?ps = "fold (process_entry (me_procs env)) (map pd_name ds) processes_zero"
  have total: "pp_total_rss ?ps = sum_list (map pi_vm_rss (take MAX_PROCESSES (resident_processes files ds)))"
    using fold_processes [OF assms(2,4), of processes_zero] by (simp add: processes_zero_def)
  obtain m where "me_meminfo env = Some m"
    using assms(1) by (cases "me_meminfo env") (auto simp: monitor_run_def collect_system_memory_def)
  then obtain sys where sys: "collect_system_memory (me_meminfo env) True = (0, Some sys)"
    by (simp add: collect_system_memory_def Let_def)
  with assms(1,3) total show ?thesis
    by (auto simp: monitor_run_def collect_kernel_memory_def collect_processes_memory_def some_or_def
        sorted_processes calculate_memory_matrix_def Let_def split: if_splits)
qed

definition example_monitor :: monitor_env where
  "example_monitor = \<lparr>me_meminfo = Some (text_of_lines (map meminfo_text [(''MemTotal:'', '' '', 2000, '' kB'')])),
     me_device_tree = None, me_iomem = None, me_zoneinfo = None, me_procs = example_proc\<rparr>"

definition example_libc :: monitor_libc where
  "example_libc = \<lparr>ml_junk_pages = 0, ml_junk_name = [], ml_qsort_processes = c_isort, ml_qsort_threads = c_isort\<rparr>"

lemma monitor_user_layer_witness:
  "\<exists>st. monitor_run example_libc example_monitor 5 = MON_STATS st \<and> fst (mm_matrix st ! 3) = 12"
proof -
  have entry: "\<forall>e \<in> set [(''MemTotal:'', '' '', 2000, '' kB'')]. meminfo_entry_ok e"
    by (simp add: meminfo_entry_ok_def plain_line_def meminfo_text_def newline_def dec_digits.simps dec_char_def
        c_space_def char_code_def char_of_eq_iff)
  obtain sys where sys: "collect_system_memory (me_meminfo example_monitor) True = (0, Some sys)" "si_total sys = 2000"
    using collect_meminfo [OF entry] by (simp add: example_monitor_def set_meminfo_def)
  have procs: "me_procs example_monitor = example_proc" by (simp add: example_monitor_def)
  obtain st where st: "monitor_run example_libc example_monitor 5 = MON_STATS st"
    using sys example_dir_ok(2)
    by (auto simp: procs monitor_run_def collect_kernel_memory_def collect_processes_memory_def some_or_def
        sorted_processes calculate_memory_matrix_def Let_def)
  with monitor_user_layer [OF st, of example_status example_dir] example_files example_dir_ok show ?thesis
    by (auto simp: procs example_resident)
qed

end
