(* ===== verification/App_Priority.thy ===== *)
theory App_Priority
  imports Libc_Text Complex_Main
begin

text \<open>
  The listing of threads with their priorities (\<open>src/apps/priority_dump/priority_dump.c\<close>). \<open>prio_env\<close> has the
  names in \<open>/proc\<close> and in the task directories, the \<open>stat\<close> files, what the scheduler answers, whether the
  array can be allocated with a given capacity, and what the variables on the stack hold before \<open>sscanf\<close>.
  The share of the processor is computed in floating point by \<open>share\<close>, an argument.
\<close>

section \<open>One thread\<close>

abbreviation (input) MAX_LINE :: nat where "MAX_LINE \<equiv> 1024"
abbreviation (input) MAX_COMM :: nat where "MAX_COMM \<equiv> 256"

abbreviation (input) SCHED_NORMAL :: int where "SCHED_NORMAL \<equiv> 0"
abbreviation (input) SCHED_FIFO :: int where "SCHED_FIFO \<equiv> 1"
abbreviation (input) SCHED_RR :: int where "SCHED_RR \<equiv> 2"
abbreviation (input) SCHED_BATCH :: int where "SCHED_BATCH \<equiv> 3"
abbreviation (input) SCHED_IDLE :: int where "SCHED_IDLE \<equiv> 5"
abbreviation (input) SCHED_DEADLINE :: int where "SCHED_DEADLINE \<equiv> 6"
abbreviation (input) SCHED_EXT :: int where "SCHED_EXT \<equiv> 7"

record thread_info =
  th_pid :: int
  th_comm :: string
  th_cpu :: int
  th_priority :: int
  th_nice :: int
  th_policy :: int
  th_utime :: u64
  th_stime :: u64
  th_cpu_usage :: real

definition thread_info_zero :: thread_info where
  "thread_info_zero = \<lparr>th_pid = 0, th_comm = [], th_cpu = 0, th_priority = 0, th_nice = 0, th_policy = 0,
     th_utime = 0, th_stime = 0, th_cpu_usage = 0\<rparr>"

definition get_policy_name :: "int \<Rightarrow> string" where
  "get_policy_name policy =
     (if policy = SCHED_NORMAL then ''SCHED_NORMAL''
      else if policy = SCHED_FIFO then ''SCHED_FIFO''
      else if policy = SCHED_RR then ''SCHED_RR''
      else if policy = SCHED_BATCH then ''SCHED_BATCH''
      else if policy = SCHED_IDLE then ''SCHED_IDLE''
      else if policy = SCHED_DEADLINE then ''SCHED_DEADLINE''
      else if policy = SCHED_EXT then ''SCHED_EXT''
      else ''UNKNOWN'')"

record prio_env =
  pr_proc :: "string list option"
  pr_task :: "int \<Rightarrow> string list option"
  pr_stat :: "int \<Rightarrow> string option"
  pr_scheduler :: "int \<Rightarrow> int"
  pr_param :: "int \<Rightarrow> int option"
  pr_alloc :: "nat \<Rightarrow> bool"
  pr_junk :: "int \<times> int \<times> int"

text \<open>The format after the closing parenthesis; \<open>skip_nums\<close> is that many times \<open>" %*d"\<close> or \<open>" %*u"\<close>.\<close>

definition skip_nums :: "nat \<Rightarrow> c_item list" where
  "skip_nums n = concat (replicate n [C_SPACE, C_SKIP_NUM])"

definition stat_format :: "c_item list" where
  "stat_format =
     [C_SPACE, C_SKIP_CHAR] @ skip_nums 10 @ [C_SPACE, C_ULONG, C_SPACE, C_ULONG] @ skip_nums 2 @
     [C_SPACE, C_LONG, C_SPACE, C_LONG] @ skip_nums 19 @ [C_SPACE, C_INT]"

text \<open>The value at a place of the result, or what the variable held.\<close>

definition scanned :: "c_value list \<Rightarrow> nat \<Rightarrow> int \<Rightarrow> int" where
  "scanned vs k old = (if k < length vs then (case vs ! k of CV_NUM v \<Rightarrow> v | _ \<Rightarrow> old) else old)"

definition cut_int :: "int \<Rightarrow> int" where
  "cut_int v = sint (word_of_int v :: u32)"

definition parse_stat :: "int \<times> int \<times> int \<Rightarrow> string \<Rightarrow> thread_info \<Rightarrow> int \<times> thread_info" where
  "parse_stat junk line info =
     (case strchr line CHR ''('' of
        None \<Rightarrow> (- 1, info)
      | Some p \<Rightarrow>
          (case strrchr p CHR '')'' of
             None \<Rightarrow> (- 1, info)
           | Some e \<Rightarrow>
               let len = length p - length e - 1;
                   comm = (if 0 < len \<and> len < MAX_COMM - 1 then take len (tl p) else []);
                   vs = c_scan stat_format (tl e)
               in case junk of (priority, nice, cpu) \<Rightarrow>
                 (0, info\<lparr>th_utime := word_of_int (scanned vs 0 (uint (th_utime info))),
                    th_stime := word_of_int (scanned vs 1 (uint (th_stime info))),
                    th_priority := cut_int (scanned vs 2 priority), th_nice := cut_int (scanned vs 3 nice),
                    th_cpu := scanned vs 4 cpu, th_comm := comm\<rparr>)))"

definition read_thread_stat :: "prio_env \<Rightarrow> int \<Rightarrow> thread_info \<Rightarrow> int \<times> thread_info" where
  "read_thread_stat env pid info =
     (case pr_stat env pid of
        None \<Rightarrow> (- 1, info)
      | Some file \<Rightarrow>
          if file = [] then (- 1, info)
          else parse_stat (pr_junk env) (fst (take_line (MAX_LINE - 1) file)) info)"

definition read_thread_sched :: "prio_env \<Rightarrow> int \<Rightarrow> thread_info \<Rightarrow> int \<times> thread_info" where
  "read_thread_sched env pid info =
     (let info = info\<lparr>th_policy := pr_scheduler env pid\<rparr>
      in if th_policy info < 0 then (- 1, info)
         else case pr_param env pid of
           None \<Rightarrow> (0, info)
         | Some sched_priority \<Rightarrow>
             if th_policy info = SCHED_FIFO \<or> th_policy info = SCHED_RR
             then (0, info\<lparr>th_priority := sched_priority\<rparr>) else (0, info))"

section \<open>All threads\<close>

definition starts_with_digit :: "string \<Rightarrow> bool" where
  "starts_with_digit name \<longleftrightarrow> name \<noteq> [] \<and> digit_val (hd name) < 10"

text \<open>The list with its capacity; \<open>None\<close> when the array could not grow, which ends the whole collection.\<close>

definition add_thread :: "prio_env \<Rightarrow> string \<Rightarrow> (nat \<times> thread_info list) option \<Rightarrow> (nat \<times> thread_info list) option" where
  "add_thread env d_name acc =
     (case acc of
        None \<Rightarrow> None
      | Some (capacity, threads) \<Rightarrow>
          if \<not> starts_with_digit d_name then acc
          else
            let tid = c_atoi d_name;
                full = (capacity \<le> length threads);
                capacity = (if full then capacity * 2 else capacity)
            in if full \<and> \<not> pr_alloc env capacity then None
               else case read_thread_stat env tid (thread_info_zero\<lparr>th_pid := tid\<rparr>) of (ret, info) \<Rightarrow>
                 if ret \<noteq> 0 then Some (capacity, threads)
                 else case read_thread_sched env tid info of (ret, info) \<Rightarrow>
                   if ret \<noteq> 0 then Some (capacity, threads) else Some (capacity, threads @ [info]))"

definition add_process :: "prio_env \<Rightarrow> string \<Rightarrow> (nat \<times> thread_info list) option \<Rightarrow> (nat \<times> thread_info list) option" where
  "add_process env d_name acc =
     (if acc = None \<or> \<not> starts_with_digit d_name then acc
      else case pr_task env (c_atoi d_name) of
        None \<Rightarrow> acc
      | Some names \<Rightarrow> fold (add_thread env) names acc)"

definition get_all_threads :: "prio_env \<Rightarrow> int \<times> thread_info list option" where
  "get_all_threads env =
     (if \<not> pr_alloc env 1024 then (- 1, None)
      else case pr_proc env of
        None \<Rightarrow> (- 1, None)
      | Some names \<Rightarrow>
          (case fold (add_process env) names (Some (1024, [])) of
             None \<Rightarrow> (- 1, None)
           | Some (capacity, threads) \<Rightarrow> (0, Some threads)))"

definition calculate_cpu_usage :: "(u64 \<Rightarrow> u64 \<Rightarrow> real) \<Rightarrow> thread_info list \<Rightarrow> thread_info list" where
  "calculate_cpu_usage share threads =
     (let total_time = foldl (\<lambda>t i. t + (th_utime i + th_stime i)) 0 threads
      in if 0 < total_time then map (\<lambda>i. i\<lparr>th_cpu_usage := share (th_utime i + th_stime i) total_time\<rparr>) threads
         else threads)"

definition compare_by_cpu_usage :: "thread_info \<Rightarrow> thread_info \<Rightarrow> int" where
  "compare_by_cpu_usage ta tb =
     (if th_cpu_usage ta < th_cpu_usage tb then 1 else if th_cpu_usage tb < th_cpu_usage ta then - 1 else 0)"

section \<open>Properties\<close>

text \<open>A line of a \<open>stat\<close> file.\<close>

definition num_fields :: "int list \<Rightarrow> string" where
  "num_fields fs = concat (map (\<lambda>i. CHR '' '' # dec_int i) fs)"

definition stat_text :: "nat \<Rightarrow> string \<Rightarrow> char \<Rightarrow> int list \<Rightarrow> string" where
  "stat_text pid comm st fs = dec_digits pid @ '' ('' @ comm @ '') '' @ [st] @ num_fields fs"

lemma c_number_dec_int:
  assumes "rest = [] \<or> digit_val (hd rest) = 99"
  shows "c_number 10 (CHR '' '' # dec_int i @ rest) = Some (i < 0, nat \<bar>i\<bar>, rest)"
proof (cases "i < 0")
  case False
  then show ?thesis using c_number_dec [of "'' ''" rest "nat i"] assms by (simp add: dec_int_def c_space_def char_code_def)
next
  case True
  let ?ds = "dec_digits (nat (- i))"
  have "c_number 10 ([] @ ?ds @ rest) = Some (False, nat (- i), rest)" by (rule c_number_dec) (use assms in simp_all)
  then have "c_digits 10 (skip_radix 10 (if ?ds @ rest \<noteq> [] \<and> (hd (?ds @ rest) = CHR ''-'' \<or> hd (?ds @ rest) = CHR ''+'')
      then tl (?ds @ rest) else ?ds @ rest)) = Some (nat (- i), rest)"
    by (auto simp: c_number_def Let_def split: if_splits)
  moreover have "hd (?ds @ rest) \<noteq> CHR ''-''" "hd (?ds @ rest) \<noteq> CHR ''+''"
    using dec_digits_digits [of "hd ?ds" "nat (- i)"] by (auto simp: digit_val_def char_code_def hd_append)
  ultimately show ?thesis using True
    by (simp add: c_number_def Let_def dec_int_def skip_radix_def c_space_def char_code_def)
qed

lemma num_fields_simps: "num_fields [] = []" "num_fields (i # fs) = CHR '' '' # dec_int i @ num_fields fs"
  by (simp_all add: num_fields_def)

definition fields_line :: "int list \<Rightarrow> string" where
  "fields_line fs = num_fields fs @ [newline]"

lemma c_number_space [simp]: "c_number b (dropWhile c_space s) = c_number b s"
  by (simp add: c_number_def)

lemma c_number_field: "c_number 10 (fields_line (i # fs)) = Some (i < 0, nat \<bar>i\<bar>, fields_line fs)"
proof -
  have "digit_val (hd (fields_line fs)) = 99"
    by (cases fs) (simp_all add: fields_line_def num_fields_simps)
  from c_number_dec_int [OF disjI2 [OF this]] show ?thesis by (simp add: fields_line_def num_fields_simps)
qed

lemma long_of_exact: "- (2 ^ 63) \<le> i \<Longrightarrow> i < 2 ^ 63 \<Longrightarrow> long_of (i < 0) (nat \<bar>i\<bar>) = i"
  by (auto simp: long_of_def)

lemma ulong_of_exact:
  assumes "0 \<le> i" and "i < 2 ^ 64"
  shows "uint (ulong_of False (nat i)) = i"
proof -
  have "int (nat i) < int (2 ^ 64)" using assms by simp
  then have "nat i < 2 ^ 64" by (simp only: of_nat_less_iff)
  from ulong_small [OF this] show ?thesis using assms(1) by simp
qed

lemma scan_fields:
  "c_scan (C_SPACE # C_SKIP_NUM # fmt) (fields_line (i # fs)) = c_scan fmt (fields_line fs)"
  "0 \<le> i \<Longrightarrow> i < 2 ^ 64 \<Longrightarrow> c_scan (C_SPACE # C_ULONG # fmt) (fields_line (i # fs)) = CV_NUM i # c_scan fmt (fields_line fs)"
  "- (2 ^ 63) \<le> i \<Longrightarrow> i < 2 ^ 63 \<Longrightarrow> c_scan (C_SPACE # C_LONG # fmt) (fields_line (i # fs)) = CV_NUM i # c_scan fmt (fields_line fs)"
  "- (2 ^ 31) \<le> i \<Longrightarrow> i < 2 ^ 31 \<Longrightarrow> c_scan (C_SPACE # C_INT # fmt) (fields_line (i # fs)) = CV_NUM i # c_scan fmt (fields_line fs)"
  by (simp_all add: c_number_field long_of_exact ulong_of_exact signed_of_int signed_take_bit_int_eq_self)

lemma scan_skip_nums:
  "n \<le> length fs \<Longrightarrow> c_scan (skip_nums n @ fmt) (fields_line fs) = c_scan fmt (fields_line (drop n fs))"
proof (induction n arbitrary: fs)
  case (Suc n)
  then obtain i gs where fs: "fs = i # gs" by (cases fs) auto
  then have "c_scan (skip_nums (Suc n) @ fmt) (fields_line fs) = c_scan (skip_nums n @ fmt) (fields_line gs)"
    by (simp add: skip_nums_def scan_fields(1) del: c_scan.simps)
  then show ?case using Suc fs by simp
qed (simp add: skip_nums_def)

lemma strrchr_last: "c \<notin> set s \<Longrightarrow> strrchr (xs @ c # s) c = Some (c # s)"
proof -
  assume c: "c \<notin> set s"
  then have "strrchr s c = None" by (induction s) auto
  then show ?thesis by (induction xs) auto
qed

text \<open>The fields of a line by the numbers that \<open>proc (5)\<close> gives them; the fourth is the first after the state.\<close>

definition stat_field :: "int list \<Rightarrow> nat \<Rightarrow> int" where
  "stat_field fs n = fs ! (n - 4)"

definition fits_int :: "int \<Rightarrow> bool" where
  "fits_int i \<longleftrightarrow> - (2 ^ 31) \<le> i \<and> i < 2 ^ 31"

definition stat_ok :: "int list \<Rightarrow> bool" where
  "stat_ok fs \<longleftrightarrow> 36 \<le> length fs \<and> (\<forall>n \<in> {14, 15}. 0 \<le> stat_field fs n \<and> stat_field fs n < 2 ^ 64) \<and>
     (\<forall>n \<in> {18, 19, 39}. fits_int (stat_field fs n))"

lemma cut_int_exact: "fits_int i \<Longrightarrow> cut_int i = i"
  by (simp add: cut_int_def fits_int_def signed_of_int signed_take_bit_int_eq_self)

lemma scan_stat:
  assumes "stat_ok fs" and "\<not> c_space st"
  shows "c_scan stat_format (CHR '' '' # st # fields_line fs) =
    [CV_NUM (stat_field fs 14), CV_NUM (stat_field fs 15), CV_NUM (stat_field fs 18), CV_NUM (stat_field fs 19), CV_NUM (stat_field fs 39)]"
proof -
  have space: "c_space CHR '' ''" by (simp add: c_space_def char_code_def)
  have len: "36 \<le> length fs" using assms(1) by (simp add: stat_ok_def)
  have parts: "drop 10 fs = stat_field fs 14 # stat_field fs 15 # drop 12 fs" "drop 14 fs = stat_field fs 18 # stat_field fs 19 # drop 16 fs"
    "drop 35 fs = stat_field fs 39 # drop 36 fs"
    using len Cons_nth_drop_Suc [of 10 fs] Cons_nth_drop_Suc [of 11 fs] Cons_nth_drop_Suc [of 14 fs]
      Cons_nth_drop_Suc [of 15 fs] Cons_nth_drop_Suc [of 35 fs] by (simp_all add: stat_field_def)
  have "c_scan stat_format (CHR '' '' # st # fields_line fs) =
      c_scan (skip_nums 10 @ [C_SPACE, C_ULONG, C_SPACE, C_ULONG] @ skip_nums 2 @
        [C_SPACE, C_LONG, C_SPACE, C_LONG] @ skip_nums 19 @ [C_SPACE, C_INT]) (fields_line fs)"
    using assms(2) space by (simp add: stat_format_def)
  also have "\<dots> = CV_NUM (stat_field fs 14) # CV_NUM (stat_field fs 15) #
      c_scan (skip_nums 2 @ [C_SPACE, C_LONG, C_SPACE, C_LONG] @ skip_nums 19 @ [C_SPACE, C_INT]) (fields_line (drop 12 fs))"
    using assms(1) len by (simp add: scan_skip_nums parts scan_fields stat_ok_def del: c_scan.simps)
  also have "c_scan (skip_nums 2 @ [C_SPACE, C_LONG, C_SPACE, C_LONG] @ skip_nums 19 @ [C_SPACE, C_INT]) (fields_line (drop 12 fs)) =
      CV_NUM (stat_field fs 18) # CV_NUM (stat_field fs 19) # c_scan (skip_nums 19 @ [C_SPACE, C_INT]) (fields_line (drop 16 fs))"
    using assms(1) len by (simp add: scan_skip_nums parts scan_fields stat_ok_def fits_int_def del: c_scan.simps)
  also have "c_scan (skip_nums 19 @ [C_SPACE, C_INT]) (fields_line (drop 16 fs)) = [CV_NUM (stat_field fs 39)]"
    using assms(1) len scan_fields(4) [of "stat_field fs 39" "[]" "drop 36 fs"]
    by (simp add: scan_skip_nums parts stat_ok_def fits_int_def del: c_scan.simps) simp
  finally show ?thesis .
qed

text \<open>
  C37. The name of a thread and the five numbers are read from its \<open>stat\<close> line exactly, whatever the name
  contains, parentheses and blanks included, as long as it has between 1 and 254 characters, the line fits
  the buffer and the numbers fit their types.
\<close>

theorem stat_exact:
  assumes "pr_stat env tid = Some (stat_text pid comm st fs @ [newline])"
    and "stat_ok fs" and "\<not> c_space st" and "st \<noteq> CHR '')''"
    and "newline \<notin> set comm" and "comm \<noteq> []" and "length comm < 255" and "length (stat_text pid comm st fs) < 1023"
  shows "read_thread_stat env tid info = (0, info\<lparr>th_comm := comm, th_utime := word_of_int (stat_field fs 14),
    th_stime := word_of_int (stat_field fs 15), th_priority := stat_field fs 18, th_nice := stat_field fs 19,
    th_cpu := stat_field fs 39\<rparr>)"
proof -
  have digits: "c \<notin> set (dec_digits n)" if "99 \<le> digit_val c" for c n
    using dec_digits_digits [of c n] that by auto
  have nums: "c \<notin> set (num_fields fs)" if "99 \<le> digit_val c" "c \<noteq> CHR '' ''" "c \<noteq> CHR ''-''" for c
    using digits [OF that(1)] that(2,3) by (auto simp: num_fields_def dec_int_def)
  have vals: "digit_val newline = 99" "digit_val CHR ''('' = 99" "digit_val CHR '')'' = 99"
    by (simp_all add: newline_def digit_val_def char_code_def)
  have other: "newline \<noteq> CHR '' ''" "newline \<noteq> CHR ''-''" "newline \<noteq> CHR ''(''" "newline \<noteq> CHR '')''"
    by (simp_all add: newline_def char_of_eq_iff)
  have "newline \<notin> set (stat_text pid comm st fs)"
    using assms(3,5) nums digits vals other newline_space by (auto simp: stat_text_def c_space_def newline_def char_code_def)
  then have line: "fst (take_line 1023 (stat_text pid comm st fs @ [newline])) = stat_text pid comm st fs @ [newline]"
    using take_line_plain [of "stat_text pid comm st fs" 1023 "[]"] assms(8) by simp
  have form: "stat_text pid comm st fs @ [newline] = (dec_digits pid @ '' '') @ CHR ''('' # comm @ CHR '')'' # CHR '' '' # st # fields_line fs"
    by (simp add: stat_text_def fields_line_def)
  have "strchr (stat_text pid comm st fs @ [newline]) CHR ''('' = Some (CHR ''('' # comm @ CHR '')'' # CHR '' '' # st # fields_line fs)"
    unfolding form using digits vals by (subst strchr_append) auto
  moreover have "CHR '')'' \<notin> set (CHR '' '' # st # fields_line fs)"
    using nums vals assms(4) other by (auto simp: fields_line_def)
  from strrchr_last [OF this, of "CHR ''('' # comm"]
  have "strrchr (CHR ''('' # comm @ CHR '')'' # CHR '' '' # st # fields_line fs) CHR '')'' = Some (CHR '')'' # CHR '' '' # st # fields_line fs)"
    by simp
  ultimately have "parse_stat (pr_junk env) (stat_text pid comm st fs @ [newline]) info = (0, info\<lparr>th_comm := comm,
      th_utime := word_of_int (stat_field fs 14), th_stime := word_of_int (stat_field fs 15), th_priority := stat_field fs 18,
      th_nice := stat_field fs 19, th_cpu := stat_field fs 39\<rparr>)"
    using scan_stat [OF assms(2,3)] assms(2,6,7)
    by (cases "pr_junk env") (simp add: parse_stat_def Let_def scanned_def cut_int_exact stat_ok_def)
  then show ?thesis using assms(1) line by (simp add: read_thread_stat_def)
qed

definition example_fields :: "int list" where
  "example_fields = [1, 1, 1, 0, - 1, 0, 0, 0, 0, 0, 50, 60, 0, 0, 20, - 5, 1, 0, 0, 0, 0, 0, 0,
     0, 0, 0, 0, 0, 0, 0, 0, 0, 0, 0, 0, 3]"

definition example_prio :: prio_env where
  "example_prio = \<lparr>pr_proc = Some [''7''], pr_task = (\<lambda>pid. Some [''7'']),
     pr_stat = (\<lambda>tid. if tid = 7 then Some (stat_text 7 ''a) b'' CHR ''S'' example_fields @ [newline]) else None),
     pr_scheduler = (\<lambda>tid. 1), pr_param = (\<lambda>tid. Some 40), pr_alloc = (\<lambda>n. True), pr_junk = (0, 0, 0)\<rparr>"

lemma example_stat:
  "read_thread_stat example_prio 7 info = (0, info\<lparr>th_comm := ''a) b'', th_utime := word_of_int (stat_field example_fields 14),
     th_stime := word_of_int (stat_field example_fields 15), th_priority := stat_field example_fields 18,
     th_nice := stat_field example_fields 19, th_cpu := stat_field example_fields 39\<rparr>) \<Longrightarrow>
   th_priority (snd (read_thread_stat example_prio 7 info)) = 20 \<and> th_nice (snd (read_thread_stat example_prio 7 info)) = - 5 \<and>
   th_cpu (snd (read_thread_stat example_prio 7 info)) = 3 \<and> th_utime (snd (read_thread_stat example_prio 7 info)) = 50"
  by (simp add: stat_field_def example_fields_def nth_append)

lemma stat_exact_witness:
  "th_comm (snd (read_thread_stat example_prio 7 thread_info_zero)) = ''a) b'' \<and>
   th_priority (snd (read_thread_stat example_prio 7 thread_info_zero)) = 20"
proof -
  have "stat_ok example_fields" by (simp add: stat_ok_def example_fields_def stat_field_def nth_append fits_int_def)
  moreover have "\<not> c_space CHR ''S''" by (simp add: c_space_def char_code_def)
  moreover have "newline \<notin> set ''a) b''" by (simp add: newline_def char_of_eq_iff)
  moreover have "length (stat_text 7 ''a) b'' CHR ''S'' example_fields) < 1023"
    by (simp add: stat_text_def example_fields_def num_fields_simps dec_int_def dec_digits.simps)
  moreover have "pr_stat example_prio 7 = Some (stat_text 7 ''a) b'' CHR ''S'' example_fields @ [newline])"
    by (simp add: example_prio_def)
  ultimately have "read_thread_stat example_prio 7 thread_info_zero =
    (0, thread_info_zero\<lparr>th_comm := ''a) b'', th_utime := word_of_int (stat_field example_fields 14),
     th_stime := word_of_int (stat_field example_fields 15), th_priority := stat_field example_fields 18,
     th_nice := stat_field example_fields 19, th_cpu := stat_field example_fields 39\<rparr>)"
    by (intro stat_exact [of example_prio 7 7 "''a) b''" "CHR ''S''"]) simp_all
  with example_stat [OF this] show ?thesis by simp
qed

text \<open>The threads that can be read, in the order of the directories.\<close>

definition thread_of :: "prio_env \<Rightarrow> string \<Rightarrow> thread_info list" where
  "thread_of env d_name =
     (if \<not> starts_with_digit d_name then []
      else case read_thread_stat env (c_atoi d_name) (thread_info_zero\<lparr>th_pid := c_atoi d_name\<rparr>) of (ret, info) \<Rightarrow>
        if ret \<noteq> 0 then []
        else case read_thread_sched env (c_atoi d_name) info of (ret, info) \<Rightarrow> if ret \<noteq> 0 then [] else [info])"

definition threads_of :: "prio_env \<Rightarrow> string \<Rightarrow> thread_info list" where
  "threads_of env d_name =
     (if \<not> starts_with_digit d_name then []
      else case pr_task env (c_atoi d_name) of None \<Rightarrow> [] | Some names \<Rightarrow> concat (map (thread_of env) names))"

text \<open>Growing may fail, but not lose or repeat an entry.\<close>

definition capacity_ok :: "nat \<Rightarrow> bool" where
  "capacity_ok c \<longleftrightarrow> (\<exists>k. c = 1024 * 2 ^ k)"

lemma capacity_ok_grow: "capacity_ok 1024" "capacity_ok c \<Longrightarrow> capacity_ok (c * 2)"
proof -
  show "capacity_ok 1024" unfolding capacity_ok_def by (rule exI [of _ 0]) simp
  assume "capacity_ok c"
  then obtain k where "c = 1024 * 2 ^ k" by (auto simp: capacity_ok_def)
  then have "c * 2 = 1024 * 2 ^ Suc k" by simp
  then show "capacity_ok (c * 2)" unfolding capacity_ok_def by blast
qed

definition grows :: "prio_env \<Rightarrow> (nat \<times> thread_info list) option \<Rightarrow> thread_info list \<Rightarrow> bool" where
  "grows env acc ts \<longleftrightarrow>
     (case acc of
        None \<Rightarrow> \<exists>c. capacity_ok c \<and> \<not> pr_alloc env c
      | Some (capacity, us) \<Rightarrow> us = ts \<and> capacity_ok capacity)"

lemma add_thread_grows: "grows env acc ts \<Longrightarrow> grows env (add_thread env d acc) (ts @ thread_of env d)"
proof (cases acc)
  case (Some a)
  assume "grows env acc ts"
  with Some obtain c where "acc = Some (c, ts)" "capacity_ok c" by (cases a) (auto simp: grows_def)
  with capacity_ok_grow(2) show ?thesis
    by (auto simp: add_thread_def thread_of_def grows_def Let_def split: prod.splits if_splits)
qed (simp add: add_thread_def grows_def)

lemma fold_grows:
  assumes "\<And>d acc ts. grows env acc ts \<Longrightarrow> grows env (f d acc) (ts @ g d)"
  shows "grows env acc ts \<Longrightarrow> grows env (fold f ds acc) (ts @ concat (map g ds))"
proof (induction ds arbitrary: acc ts)
  case (Cons d ds)
  from Cons.IH [OF assms [OF Cons.prems, of d]] show ?case by simp
qed simp

lemma add_process_grows: "grows env acc ts \<Longrightarrow> grows env (add_process env d acc) (ts @ threads_of env d)"
  using fold_grows [where env = env and f = "add_thread env" and acc = acc and ts = ts, OF add_thread_grows]
  by (cases acc) (auto simp: add_process_def threads_of_def split: option.splits, auto simp: grows_def)

text \<open>
  The list is complete or not returned at all: whenever the collection succeeds it has exactly the threads
  that can be read, in the order of the directories, however often the array had to grow; and it succeeds
  when \<open>/proc\<close> can be opened and memory is available.
\<close>

theorem threads_complete:
  assumes "pr_proc env = Some names"
  shows "(get_all_threads env = (0, Some (concat (map (threads_of env) names))) \<or> get_all_threads env = (- 1, None)) \<and>
    ((\<forall>k. pr_alloc env (1024 * 2 ^ k)) \<longrightarrow> get_all_threads env = (0, Some (concat (map (threads_of env) names))))"
proof -
  have "grows env (Some (1024, [])) []" by (simp add: grows_def capacity_ok_grow)
  from fold_grows [where ds = names, OF add_process_grows this]
  have "grows env (fold (add_process env) names (Some (1024, []))) (concat (map (threads_of env) names))" by simp
  moreover have "pr_alloc env c" if "\<forall>k. pr_alloc env (1024 * 2 ^ k)" and "capacity_ok c" for c
    using that by (auto simp: capacity_ok_def)
  ultimately show ?thesis using assms capacity_ok_grow(1) by (auto simp: get_all_threads_def grows_def split: option.splits)
qed

lemma threads_complete_witness:
  "get_all_threads example_prio = (0, Some (threads_of example_prio ''7''))"
  using threads_complete [of example_prio "[''7'']"] by (simp add: example_prio_def)

end
