(* ===== verification/App_Smart.thy ===== *)
theory App_Smart
  imports Libc_Text "HOL-Library.Sublist"
begin

text \<open>
  The eMMC health monitor (\<open>src/apps/smart_monitor\<close>): reading the EXT_CSD register of a card, choosing a
  vendor profile by the name of the product, and printing the register field by field. \<open>smart_env\<close> has
  what the system answers: which device can be opened, what the card sends, and the files of sysfs.
  The result of a run is its exit status and what it prints to \<open>stdout\<close>. A number printed with \<open>%.2f\<close> is
  the text that \<open>se_float\<close> gives for the value and the divisor.
\<close>

section \<open>Fields of EXT_CSD\<close>

abbreviation (input) EXT_CSD_REV :: nat where "EXT_CSD_REV \<equiv> 192"
abbreviation (input) EXT_CSD_DEVICE_TYPE :: nat where "EXT_CSD_DEVICE_TYPE \<equiv> 196"
abbreviation (input) EXT_CSD_PRE_EOL_INFO :: nat where "EXT_CSD_PRE_EOL_INFO \<equiv> 267"
abbreviation (input) EXT_CSD_DEVICE_LIFE_TIME_EST_TYP_A :: nat where "EXT_CSD_DEVICE_LIFE_TIME_EST_TYP_A \<equiv> 268"
abbreviation (input) EXT_CSD_DEVICE_LIFE_TIME_EST_TYP_B :: nat where "EXT_CSD_DEVICE_LIFE_TIME_EST_TYP_B \<equiv> 269"
abbreviation (input) EXT_CSD_SEC_CNT :: nat where "EXT_CSD_SEC_CNT \<equiv> 212"
abbreviation (input) EXT_CSD_BKOPS_STATUS :: nat where "EXT_CSD_BKOPS_STATUS \<equiv> 246"
abbreviation (input) EXT_CSD_BKOPS_EN :: nat where "EXT_CSD_BKOPS_EN \<equiv> 163"
abbreviation (input) EXT_CSD_BKOPS_SUPPORT :: nat where "EXT_CSD_BKOPS_SUPPORT \<equiv> 502"
abbreviation (input) EXT_CSD_CACHE_SIZE :: nat where "EXT_CSD_CACHE_SIZE \<equiv> 249"
abbreviation (input) EXT_CSD_CACHE_CTRL :: nat where "EXT_CSD_CACHE_CTRL \<equiv> 33"
abbreviation (input) EXT_CSD_FIRMWARE_VERSION :: nat where "EXT_CSD_FIRMWARE_VERSION \<equiv> 254"
abbreviation (input) EXT_CSD_BOOT_MULT :: nat where "EXT_CSD_BOOT_MULT \<equiv> 226"
abbreviation (input) EXT_CSD_RPMB_MULT :: nat where "EXT_CSD_RPMB_MULT \<equiv> 168"
abbreviation (input) EXT_CSD_HC_ERASE_GRP_SIZE :: nat where "EXT_CSD_HC_ERASE_GRP_SIZE \<equiv> 224"
abbreviation (input) EXT_CSD_ERASE_TIMEOUT_MULT :: nat where "EXT_CSD_ERASE_TIMEOUT_MULT \<equiv> 223"
abbreviation (input) EXT_CSD_TRIM_MULT :: nat where "EXT_CSD_TRIM_MULT \<equiv> 232"
abbreviation (input) EXT_CSD_CMDQ_SUPPORT :: nat where "EXT_CSD_CMDQ_SUPPORT \<equiv> 308"
abbreviation (input) EXT_CSD_CMDQ_DEPTH :: nat where "EXT_CSD_CMDQ_DEPTH \<equiv> 307"
abbreviation (input) EMMC_EXT_CSD_SIZE :: nat where "EMMC_EXT_CSD_SIZE \<equiv> 512"

record ext_csd_field =
  ef_name :: string
  ef_offset :: nat
  ef_size :: nat
  ef_description :: string

record smart_device_info =
  sd_block_name :: string
  sd_sysfs_name :: "string option"
  sd_manfid :: "string option"
  sd_cid :: "string option"
  sd_ext_csd :: "u8 list"

definition csd_field :: "string \<Rightarrow> nat \<Rightarrow> nat \<Rightarrow> string \<Rightarrow> ext_csd_field" where
  "csd_field name offset sz desc = \<lparr>ef_name = name, ef_offset = offset, ef_size = sz, ef_description = desc\<rparr>"

definition generic_fields :: "ext_csd_field list" where
  "generic_fields = [
     csd_field ''PRE_EOL_INFO'' EXT_CSD_PRE_EOL_INFO 1 ''Pre-EOL (End of Life) information'',
     csd_field ''DEVICE_LIFE_TIME_EST_TYP_A'' EXT_CSD_DEVICE_LIFE_TIME_EST_TYP_A 1 ''SLC/Enhanced area life time estimation'',
     csd_field ''DEVICE_LIFE_TIME_EST_TYP_B'' EXT_CSD_DEVICE_LIFE_TIME_EST_TYP_B 1 ''MLC/TLC user area life time estimation'',
     csd_field ''SEC_CNT'' EXT_CSD_SEC_CNT 4 ''Total sector count (x512B = capacity)'',
     csd_field ''BKOPS_STATUS'' EXT_CSD_BKOPS_STATUS 1 ''Background operations status'',
     csd_field ''BKOPS_EN'' EXT_CSD_BKOPS_EN 1 ''Background operations enable'',
     csd_field ''BKOPS_SUPPORT'' EXT_CSD_BKOPS_SUPPORT 1 ''Background operations support'',
     csd_field ''CACHE_SIZE'' EXT_CSD_CACHE_SIZE 4 ''Cache size (x512B)'',
     csd_field ''CACHE_CTRL'' EXT_CSD_CACHE_CTRL 1 ''Cache control (0=OFF, 1=ON)'',
     csd_field ''HC_ERASE_GRP_SIZE'' EXT_CSD_HC_ERASE_GRP_SIZE 1 ''High-capacity erase group size (x512KB)'',
     csd_field ''ERASE_TIMEOUT_MULT'' EXT_CSD_ERASE_TIMEOUT_MULT 1 ''Erase timeout multiplier'',
     csd_field ''TRIM_MULT'' EXT_CSD_TRIM_MULT 1 ''TRIM operation multiplier'',
     csd_field ''BOOT_MULT'' EXT_CSD_BOOT_MULT 1 ''Boot partition size multiplier (x128KB)'',
     csd_field ''RPMB_MULT'' EXT_CSD_RPMB_MULT 1 ''RPMB partition size multiplier (x128KB)'',
     csd_field ''CMDQ_SUPPORT'' EXT_CSD_CMDQ_SUPPORT 1 ''Command queue support'',
     csd_field ''CMDQ_DEPTH'' EXT_CSD_CMDQ_DEPTH 1 ''Command queue depth'',
     csd_field ''FIRMWARE_VERSION'' EXT_CSD_FIRMWARE_VERSION 8 ''Firmware version'',
     csd_field ''EXT_CSD_REV'' EXT_CSD_REV 1 ''Extended CSD revision'',
     csd_field ''DEVICE_TYPE'' EXT_CSD_DEVICE_TYPE 1 ''Device type (speed/voltage capabilities)'']"

section \<open>Descriptions\<close>

definition generic_pre_eol_desc :: "u8 \<Rightarrow> string" where
  "generic_pre_eol_desc value =
     (if value = 0x00 then ''Not defined''
      else if value = 0x01 then ''Normal''
      else if value = 0x02 then ''Warning''
      else if value = 0x03 then ''Urgent''
      else ''Reserved'')"

definition generic_life_time_desc :: "u8 \<Rightarrow> string" where
  "generic_life_time_desc value =
     (if value = 0x00 then ''Not defined''
      else if value = 0x01 then ''0% - 10% used''
      else if value = 0x02 then ''10% - 20% used''
      else if value = 0x03 then ''20% - 30% used''
      else if value = 0x04 then ''30% - 40% used''
      else if value = 0x05 then ''40% - 50% used''
      else if value = 0x06 then ''50% - 60% used''
      else if value = 0x07 then ''60% - 70% used''
      else if value = 0x08 then ''70% - 80% used''
      else if value = 0x09 then ''80% - 90% used''
      else if value = 0x0a then ''90% - 100% used''
      else if value = 0x0b then ''Exceeded lifetime''
      else ''Reserved'')"

definition generic_ext_csd_rev_desc :: "u8 \<Rightarrow> string" where
  "generic_ext_csd_rev_desc value =
     (if value = 5 then ''eMMC 4.41''
      else if value = 6 then ''eMMC 4.5''
      else if value = 7 then ''eMMC 5.0''
      else if value = 8 then ''eMMC 5.1''
      else ''Unknown'')"

definition generic_bkops_status_desc :: "u8 \<Rightarrow> string" where
  "generic_bkops_status_desc value =
     (let v = value AND 0x03
      in if v = 0 then ''No operations''
         else if v = 1 then ''Non-critical''
         else if v = 2 then ''Performance impacted''
         else if v = 3 then ''Critical''
         else ''Unknown'')"

definition generic_bkops_en_desc :: "u8 \<Rightarrow> string" where
  "generic_bkops_en_desc value =
     (if value AND 0x01 \<noteq> 0 then ''Manual enabled''
      else if value AND 0x02 \<noteq> 0 then ''Auto enabled''
      else ''Disabled'')"

definition generic_cache_ctrl_desc :: "u8 \<Rightarrow> string" where
  "generic_cache_ctrl_desc value = (if value AND 0x01 \<noteq> 0 then ''Enabled'' else ''Disabled'')"

definition generic_field_value_desc :: "nat \<Rightarrow> u8 \<Rightarrow> string" where
  "generic_field_value_desc offset value =
     (if offset = EXT_CSD_PRE_EOL_INFO then generic_pre_eol_desc value
      else if offset = EXT_CSD_DEVICE_LIFE_TIME_EST_TYP_A \<or> offset = EXT_CSD_DEVICE_LIFE_TIME_EST_TYP_B
      then generic_life_time_desc value
      else if offset = EXT_CSD_REV then generic_ext_csd_rev_desc value
      else if offset = EXT_CSD_BKOPS_STATUS then generic_bkops_status_desc value
      else if offset = EXT_CSD_BKOPS_EN then generic_bkops_en_desc value
      else if offset = EXT_CSD_CACHE_CTRL then generic_cache_ctrl_desc value
      else [])"

section \<open>Printing\<close>

definition fmt_08x :: "u32 \<Rightarrow> string" where
  "fmt_08x v = concat (map (\<lambda>k. fmt_02x (ucast (drop_bit (24 - 8 * k) v))) [0..<4])"

text \<open>\<open>fprintf (out, "  %-32s %-45s %s\\n", ...)\<close>, and \<open>snprintf\<close> into the 256 bytes of \<open>value_str\<close>.\<close>

definition csd_row :: "string \<Rightarrow> string \<Rightarrow> string \<Rightarrow> string" where
  "csd_row name value desc = ''  '' @ pad_right 32 name @ '' '' @ pad_right 45 value @ '' '' @ desc @ [newline]"

definition value_str :: "string \<Rightarrow> string" where
  "value_str s = take 255 s"

definition size_value :: "u8 \<Rightarrow> nat \<Rightarrow> string" where
  "size_value v unit_kb = value_str (''0x'' @ fmt_02x v @ '' ('' @ dec_digits (unat v * unit_kb) @ '' KB)'')"

definition csd_u32 :: "u8 list \<Rightarrow> nat \<Rightarrow> u32" where
  "csd_u32 csd offset =
     ucast (csd ! offset) OR push_bit 8 (ucast (csd ! (offset + 1))) OR
     push_bit 16 (ucast (csd ! (offset + 2))) OR push_bit 24 (ucast (csd ! (offset + 3)))"

definition print_one_field :: "(u32 \<Rightarrow> nat \<Rightarrow> string) \<Rightarrow> u8 list \<Rightarrow> ext_csd_field \<Rightarrow> string" where
  "print_one_field fmt_2f csd field =
     (if length csd < ef_offset field + ef_size field then csd_row (ef_name field) ''N/A'' (ef_description field)
      else if ef_size field = 1 then
        (let v = csd ! ef_offset field;
             desc = generic_field_value_desc (ef_offset field) v
         in csd_row (ef_name field)
              (if desc \<noteq> [] then value_str (''0x'' @ fmt_02x v @ '' ('' @ desc @ '')'')
               else if ef_offset field = EXT_CSD_BOOT_MULT then size_value v 128
               else if ef_offset field = EXT_CSD_RPMB_MULT then size_value v 128
               else if ef_offset field = EXT_CSD_HC_ERASE_GRP_SIZE then size_value v 512
               else value_str (''0x'' @ fmt_02x v))
              (ef_description field))
      else if ef_size field = 4 then
        (let v = csd_u32 csd (ef_offset field)
         in csd_row (ef_name field)
              (if ef_offset field = EXT_CSD_SEC_CNT then value_str (''0x'' @ fmt_08x v @ '' ('' @ fmt_2f v (10 ^ 9) @ '' GB)'')
               else if ef_offset field = EXT_CSD_CACHE_SIZE then value_str (''0x'' @ fmt_08x v @ '' ('' @ fmt_2f v (10 ^ 6) @ '' MB)'')
               else value_str (''0x'' @ fmt_08x v))
              (ef_description field))
      else if ef_size field = 8 then
        csd_row (ef_name field) (value_str (concat (map (\<lambda>k. fmt_02x (csd ! (ef_offset field + k))) [0..<8])))
          (ef_description field)
      else [])"

definition rule_79 :: string where
  "rule_79 = replicate 79 CHR ''='' @ [newline]"

definition section_header :: "string \<Rightarrow> string" where
  "section_header title =
     [newline] @ ''['' @ title @ '']'' @ [newline] @ csd_row ''REGISTER'' ''VALUE'' ''DESCRIPTION'' @
     csd_row (replicate 32 CHR ''-'') (replicate 45 CHR ''-'') (replicate 40 CHR ''-'')"

definition section_start :: "nat \<Rightarrow> string" where
  "section_start k =
     (if k = 0 then section_header ''Health Status''
      else if k = 3 then section_header ''Capacity''
      else if k = 4 then section_header ''Background Operations''
      else if k = 7 then section_header ''Cache''
      else if k = 9 then section_header ''Erase Performance''
      else if k = 12 then section_header ''Partition''
      else if k = 14 then section_header ''Performance Features''
      else if k = 16 then section_header ''Firmware & Version''
      else [])"

fun print_fields_from :: "(u32 \<Rightarrow> nat \<Rightarrow> string) \<Rightarrow> u8 list \<Rightarrow> nat \<Rightarrow> ext_csd_field list \<Rightarrow> string" where
  "print_fields_from fmt_2f csd k [] = []"
| "print_fields_from fmt_2f csd k (field # fs) =
     section_start k @ print_one_field fmt_2f csd field @ print_fields_from fmt_2f csd (Suc k) fs"

definition generic_print_fields :: "(u32 \<Rightarrow> nat \<Rightarrow> string) \<Rightarrow> smart_device_info \<Rightarrow> string \<Rightarrow> string" where
  "generic_print_fields fmt_2f info vendor_name =
     ''Vendor profile: '' @ vendor_name @ [newline] @
     ''SMART source  : JEDEC EXT_CSD standard fields'' @ [newline] @ [newline] @ rule_79 @
     print_fields_from fmt_2f (sd_ext_csd info) 0 generic_fields @ [newline] @ rule_79"

section \<open>Vendors\<close>

text \<open>
  The inner loop at one place of the haystack: \<open>Some True\<close> when the needle is used up, \<open>Some False\<close> when
  the haystack ends before it, \<open>None\<close> when two characters differ.
\<close>

fun casefold_at :: "string \<Rightarrow> string \<Rightarrow> bool option" where
  "casefold_at h [] = Some True"
| "casefold_at [] (n # ns) = Some False"
| "casefold_at (h # hs) (n # ns) = (if c_tolower h \<noteq> c_tolower n then None else casefold_at hs ns)"

fun casefold_scan :: "string \<Rightarrow> string \<Rightarrow> bool" where
  "casefold_scan [] needle \<longleftrightarrow> False"
| "casefold_scan (h # hs) needle \<longleftrightarrow>
     (case casefold_at (h # hs) needle of Some r \<Rightarrow> r | None \<Rightarrow> casefold_scan hs needle)"

definition contains_casefold :: "string option \<Rightarrow> string option \<Rightarrow> bool" where
  "contains_casefold haystack needle =
     (case (haystack, needle) of
        (Some h, Some n) \<Rightarrow> if n = [] then True else casefold_scan h n
      | _ \<Rightarrow> False)"

type_synonym float_text = "u32 \<Rightarrow> nat \<Rightarrow> string"

record smart_vendor =
  sv_name :: string
  sv_display_name :: string
  sv_match :: "smart_device_info option \<Rightarrow> bool"
  sv_print :: "float_text \<Rightarrow> smart_device_info \<Rightarrow> string"

definition longsys_match :: "smart_device_info option \<Rightarrow> bool" where
  "longsys_match info =
     (case info of
        None \<Rightarrow> False
      | Some i \<Rightarrow> contains_casefold (sd_sysfs_name i) (Some ''longsys'') \<or>
          contains_casefold (sd_sysfs_name i) (Some ''foresee'') \<or>
          contains_casefold (sd_sysfs_name i) (Some ''jiangbolong''))"

definition micron_match :: "smart_device_info option \<Rightarrow> bool" where
  "micron_match info = (case info of None \<Rightarrow> False | Some i \<Rightarrow> contains_casefold (sd_sysfs_name i) (Some ''micron''))"

definition samsung_match :: "smart_device_info option \<Rightarrow> bool" where
  "samsung_match info = (case info of None \<Rightarrow> False | Some i \<Rightarrow> contains_casefold (sd_sysfs_name i) (Some ''samsung''))"

definition generic_match :: "smart_device_info option \<Rightarrow> bool" where
  "generic_match info = True"

definition out_line :: "string \<Rightarrow> string" where
  "out_line s = s @ [newline]"

definition vendor_note :: "string \<Rightarrow> string" where
  "vendor_note vendor =
     out_line [] @ out_line ''NOTE:'' @
     out_line ''  Write Amplification Index (WAI) requires vendor-specific commands.'' @
     out_line ''  Standard JEDEC EXT_CSD does not provide host/NAND write statistics.'' @
     out_line (''  Contact '' @ vendor @ '' for vendor-specific command documentation.'') @
     out_line [] @
     out_line (''  '' @ vendor @ '' vendor-specific features:'') @
     out_line ''    - Currently using standard JEDEC fields only'' @
     out_line ''    - Vendor commands: Not implemented (require documentation)''"

definition longsys_print :: "float_text \<Rightarrow> smart_device_info \<Rightarrow> string" where
  "longsys_print fmt_2f info = generic_print_fields fmt_2f info ''Jiangbolong/Longsys eMMC'' @ vendor_note ''Longsys''"

definition micron_print :: "float_text \<Rightarrow> smart_device_info \<Rightarrow> string" where
  "micron_print fmt_2f info = generic_print_fields fmt_2f info ''Micron eMMC'' @ vendor_note ''Micron''"

definition samsung_print :: "float_text \<Rightarrow> smart_device_info \<Rightarrow> string" where
  "samsung_print fmt_2f info = generic_print_fields fmt_2f info ''Samsung eMMC'' @ vendor_note ''Samsung''"

definition generic_print :: "float_text \<Rightarrow> smart_device_info \<Rightarrow> string" where
  "generic_print fmt_2f info =
     generic_print_fields fmt_2f info ''Generic JEDEC eMMC'' @
     out_line [] @ out_line ''NOTE:'' @
     out_line ''  Using generic JEDEC EXT_CSD profile.'' @
     out_line ''  Vendor-specific features are not available.'' @
     out_line ''  Use --vendor option to select a specific vendor profile.''"

definition longsys_vendor :: smart_vendor where
  "longsys_vendor = \<lparr>sv_name = ''longsys'', sv_display_name = ''Jiangbolong/Longsys eMMC'',
     sv_match = longsys_match, sv_print = longsys_print\<rparr>"

definition micron_vendor :: smart_vendor where
  "micron_vendor = \<lparr>sv_name = ''micron'', sv_display_name = ''Micron eMMC'', sv_match = micron_match, sv_print = micron_print\<rparr>"

definition samsung_vendor :: smart_vendor where
  "samsung_vendor = \<lparr>sv_name = ''samsung'', sv_display_name = ''Samsung eMMC'',
     sv_match = samsung_match, sv_print = samsung_print\<rparr>"

definition generic_vendor :: smart_vendor where
  "generic_vendor = \<lparr>sv_name = ''generic'', sv_display_name = ''Generic JEDEC eMMC'',
     sv_match = generic_match, sv_print = generic_print\<rparr>"

definition vendor_table :: "smart_vendor list" where
  "vendor_table = [longsys_vendor, micron_vendor, samsung_vendor, generic_vendor]"

definition smart_vendor_find :: "string option \<Rightarrow> smart_device_info option \<Rightarrow> smart_vendor option" where
  "smart_vendor_find requested info =
     (if requested \<noteq> None \<and> requested \<noteq> Some ''auto'' then find (\<lambda>v. requested = Some (sv_name v)) vendor_table
      else case find (\<lambda>v. sv_match v info) vendor_table of
        Some v \<Rightarrow> Some v
      | None \<Rightarrow> if length vendor_table = 1 then Some (hd vendor_table) else None)"

section \<open>The program\<close>

record mmc_ioc_cmd =
  mi_write_flag :: bool
  mi_opcode :: u32
  mi_arg :: u32
  mi_flags :: u32
  mi_blksz :: nat
  mi_blocks :: nat

record smart_env =
  se_open :: "string \<Rightarrow> bool"
  se_ioctl :: "mmc_ioc_cmd \<Rightarrow> u8 list option"
  se_sysfs :: "string \<Rightarrow> string option"
  se_stdin :: string
  se_float :: float_text

abbreviation (input) DEVICE_PATH_MAX :: nat where "DEVICE_PATH_MAX \<equiv> 256"
abbreviation (input) SYSFS_VALUE_MAX :: nat where "SYSFS_VALUE_MAX \<equiv> 128"

definition build_device_path :: "string \<Rightarrow> nat \<Rightarrow> string option" where
  "build_device_path arg path_len =
     (let path = (if starts_with ''/dev/'' arg then arg else ''/dev/'' @ arg)
      in if path_len \<le> length path then None else Some path)"

definition block_name_from_path :: "string \<Rightarrow> string" where
  "block_name_from_path path = (case strrchr path CHR ''/'' of Some slash \<Rightarrow> tl slash | None \<Rightarrow> path)"

definition trimmed_char :: "char \<Rightarrow> bool" where
  "trimmed_char c \<longleftrightarrow> c = newline \<or> char_code c = 13 \<or> c = CHR '' '' \<or> char_code c = 9"

definition read_sysfs_value :: "(string \<Rightarrow> string option) \<Rightarrow> string \<Rightarrow> string \<Rightarrow> string \<Rightarrow> nat \<Rightarrow> int \<times> string" where
  "read_sysfs_value sysfs block_name file buf buf_len =
     (let path = ''/sys/block/'' @ block_name @ ''/device/'' @ file
      in if DEVICE_PATH_MAX \<le> length path then (- 1, buf)
         else case sysfs path of
           None \<Rightarrow> (- 1, buf)
         | Some content \<Rightarrow>
             if content = [] then (- 1, buf)
             else (0, rev (dropWhile trimmed_char (rev (c_str (fst (take_line (buf_len - 1) content)))))))"

definition read_ext_csd :: "(mmc_ioc_cmd \<Rightarrow> u8 list option) \<Rightarrow> int \<times> u8 list" where
  "read_ext_csd ioctl =
     (let zeros = replicate EMMC_EXT_CSD_SIZE 0
      in case ioctl \<lparr>mi_write_flag = False, mi_opcode = 8, mi_arg = 0,
             mi_flags = ((1 OR 4) OR 16) OR 32, mi_blksz = EMMC_EXT_CSD_SIZE, mi_blocks = 1\<rparr> of
           None \<Rightarrow> (- 1, zeros)
         | Some data \<Rightarrow> (0, take EMMC_EXT_CSD_SIZE data @ drop (length data) zeros))"

definition header_line :: "string \<Rightarrow> string option \<Rightarrow> string" where
  "header_line title v = (case v of Some t \<Rightarrow> if t \<noteq> [] then title @ t @ [newline] else [] | None \<Rightarrow> [])"

definition print_device_header :: "smart_device_info \<Rightarrow> string \<Rightarrow> string" where
  "print_device_header info device_path =
     ''Device        : '' @ device_path @ [newline] @
     ''Block name    : '' @ sd_block_name info @ [newline] @
     header_line ''Product name  : '' (sd_sysfs_name info) @
     header_line ''Manufacturer  : '' (sd_manfid info) @
     header_line ''CID           : '' (sd_cid info) @ [newline]"

definition prompt_text :: string where
  "prompt_text =
     out_line ''Auto-detection failed. Please select vendor manually:'' @ [newline] @
     concat (map (\<lambda>k. ''  ['' @ dec_digits (k + 1) @ ''] '' @ sv_display_name (vendor_table ! k) @ [newline]) [0..<length vendor_table]) @
     [newline] @ ''Enter selection (1-'' @ dec_digits (length vendor_table) @ ''): ''"

definition prompt_vendor_selection :: "string \<Rightarrow> smart_vendor option" where
  "prompt_vendor_selection stdin =
     (if stdin = [] then None
      else let choice = c_atoi (fst (take_line 15 stdin))
           in if choice < 1 \<or> int (length vendor_table) < choice then None
              else Some (vendor_table ! nat (choice - 1)))"

datatype smart_args = ARGS_STOP nat | ARGS_RUN string string

fun smart_parse_args :: "string list \<Rightarrow> string \<Rightarrow> string option \<Rightarrow> smart_args" where
  "smart_parse_args [] vendor_name device_arg =
     (case device_arg of None \<Rightarrow> ARGS_STOP 1 | Some d \<Rightarrow> ARGS_RUN vendor_name d)"
| "smart_parse_args (a # args) vendor_name device_arg =
     (if a = ''--vendor'' then
        (case args of [] \<Rightarrow> ARGS_STOP 1 | v # rest \<Rightarrow> smart_parse_args rest v device_arg)
      else if a = ''-h'' \<or> a = ''--help'' then ARGS_STOP 0
      else if device_arg = None then smart_parse_args args vendor_name (Some a)
      else ARGS_STOP 1)"

definition smart_info :: "smart_env \<Rightarrow> string \<Rightarrow> u8 list \<Rightarrow> smart_device_info" where
  "smart_info env device_path ext_csd =
     (let block = block_name_from_path device_path;
          value = (\<lambda>file. Some (snd (read_sysfs_value (se_sysfs env) block file [] SYSFS_VALUE_MAX)))
      in \<lparr>sd_block_name = block, sd_sysfs_name = value ''name'', sd_manfid = value ''manfid'', sd_cid = value ''cid'',
          sd_ext_csd = ext_csd\<rparr>)"

definition smart_report :: "smart_env \<Rightarrow> smart_device_info \<Rightarrow> string \<Rightarrow> smart_vendor \<Rightarrow> string" where
  "smart_report env info device_path vendor = print_device_header info device_path @ sv_print vendor (se_float env) info"

definition smart_main :: "smart_env \<Rightarrow> string list \<Rightarrow> nat \<times> string" where
  "smart_main env args =
     (case smart_parse_args args ''auto'' None of
        ARGS_STOP status \<Rightarrow> (status, [])
      | ARGS_RUN vendor_name device_arg \<Rightarrow>
          (case build_device_path device_arg DEVICE_PATH_MAX of
             None \<Rightarrow> (1, [])
           | Some device_path \<Rightarrow>
               if \<not> se_open env device_path then (1, [])
               else case read_ext_csd (se_ioctl env) of (ret, ext_csd) \<Rightarrow>
                 if ret < 0 then (1, [])
                 else let info = smart_info env device_path ext_csd
                   in case smart_vendor_find (Some vendor_name) (Some info) of
                        Some vendor \<Rightarrow> (0, smart_report env info device_path vendor)
                      | None \<Rightarrow>
                          if vendor_name \<noteq> ''auto'' then (1, [])
                          else case prompt_vendor_selection (se_stdin env) of
                            None \<Rightarrow> (1, prompt_text)
                          | Some vendor \<Rightarrow> (0, prompt_text @ smart_report env info device_path vendor)))"

section \<open>Properties\<close>

text \<open>The specification of the search: the needle is in the haystack but for the case of the letters.\<close>

definition names_vendor :: "string \<Rightarrow> string \<Rightarrow> bool" where
  "names_vendor w h \<longleftrightarrow> sublist (map c_tolower w) (map c_tolower h)"

lemma casefold_at_cases:
  "(casefold_at h n = Some True \<longleftrightarrow> prefix (map c_tolower n) (map c_tolower h)) \<and>
   (casefold_at h n = Some False \<longrightarrow> length h < length n)"
  by (induction h n rule: casefold_at.induct) auto

lemma sublist_longer: "length h < length n \<Longrightarrow> \<not> sublist n h"
  by (auto dest: sublist_length_le)

lemma casefold_scan_iff: "n \<noteq> [] \<Longrightarrow> casefold_scan h n \<longleftrightarrow> names_vendor n h"
proof (induction h)
  case (Cons c h)
  then show ?case
    using casefold_at_cases [of "c # h" n] sublist_longer [of "map c_tolower (c # h)" "map c_tolower n"]
    by (auto simp: names_vendor_def sublist_Cons_right split: option.splits)
qed (simp add: names_vendor_def)

lemma contains_casefold_iff: "contains_casefold (Some h) (Some n) \<longleftrightarrow> names_vendor n h"
  by (simp add: contains_casefold_def casefold_scan_iff) (simp add: names_vendor_def)

text \<open>
  C33. The vendor that is found automatically is the first of Longsys, Micron and Samsung one of whose names
  is in the product name, in capital or small letters, and the generic one when there is none; a vendor asked
  for by name is found exactly when it is in the table.
\<close>

theorem smart_vendor_auto:
  "smart_vendor_find (Some ''auto'') (Some (info\<lparr>sd_sysfs_name := Some h\<rparr>)) =
     Some (if names_vendor ''longsys'' h \<or> names_vendor ''foresee'' h \<or> names_vendor ''jiangbolong'' h then longsys_vendor
           else if names_vendor ''micron'' h then micron_vendor
           else if names_vendor ''samsung'' h then samsung_vendor
           else generic_vendor) \<and>
   map_option sv_name (smart_vendor_find (Some v) (Some info)) =
     (if v = ''auto'' then map_option sv_name (smart_vendor_find None (Some info))
      else if v \<in> {''longsys'', ''micron'', ''samsung'', ''generic''} then Some v else None)"
  by (auto simp: smart_vendor_find_def vendor_table_def longsys_vendor_def micron_vendor_def samsung_vendor_def
      generic_vendor_def longsys_match_def micron_match_def samsung_match_def generic_match_def contains_casefold_iff)

lemma smart_auto_found: "smart_vendor_find (Some ''auto'') info \<noteq> None"
  by (simp add: smart_vendor_find_def vendor_table_def generic_vendor_def generic_match_def)

lemma smart_found_iff:
  "smart_vendor_find (Some v) (Some info) = None \<longleftrightarrow> v \<notin> {''auto'', ''longsys'', ''micron'', ''samsung'', ''generic''}"
  by (auto simp: smart_vendor_find_def vendor_table_def longsys_vendor_def micron_vendor_def samsung_vendor_def
      generic_vendor_def generic_match_def)

text \<open>
  The program never asks the user, whatever is on its standard input, and succeeds exactly when the
  arguments name a device whose path fits, that can be opened and answers, and a vendor of the table or none.
\<close>

theorem smart_never_prompts:
  "smart_main (env\<lparr>se_stdin := input\<rparr>) args = smart_main env args \<and>
   fst (smart_main env args) =
     (case smart_parse_args args ''auto'' None of
        ARGS_STOP status \<Rightarrow> status
      | ARGS_RUN v d \<Rightarrow>
          (case build_device_path d DEVICE_PATH_MAX of
             None \<Rightarrow> 1
           | Some path \<Rightarrow>
               if se_open env path \<and> fst (read_ext_csd (se_ioctl env)) = 0 \<and>
                  v \<in> {''auto'', ''longsys'', ''micron'', ''samsung'', ''generic''} then 0 else 1))"
proof -
  have ret: "fst (read_ext_csd f) = 0 \<or> fst (read_ext_csd f) = - 1" for f
    by (simp add: read_ext_csd_def Let_def split: option.split)
  show ?thesis
  proof (cases "smart_parse_args args ''auto'' None")
    case (ARGS_RUN v d)
    show ?thesis
    proof (cases "build_device_path d DEVICE_PATH_MAX")
      case (Some path)
      let ?info = "smart_info env path (snd (read_ext_csd (se_ioctl env)))"
      have same: "smart_info (env\<lparr>se_stdin := input\<rparr>) = smart_info env" "smart_report (env\<lparr>se_stdin := input\<rparr>) = smart_report env"
        by (simp_all add: smart_info_def smart_report_def fun_eq_iff)
      from ARGS_RUN Some ret [of "se_ioctl env"] smart_auto_found [of "Some ?info"] smart_found_iff [of v ?info] same
      show ?thesis
        by (cases "smart_vendor_find (Some v) (Some ?info)"; cases "read_ext_csd (se_ioctl env)")
          (auto simp: smart_main_def Let_def)
    qed (simp add: smart_main_def ARGS_RUN)
  qed (simp add: smart_main_def)
qed

text \<open>The report as a table of sections.\<close>

definition smart_sections :: "(string \<times> ext_csd_field list) list" where
  "smart_sections =
     (let part = (\<lambda>a n. take n (drop a generic_fields))
      in [(''Health Status'', part 0 3), (''Capacity'', part 3 1), (''Background Operations'', part 4 3),
          (''Cache'', part 7 2), (''Erase Performance'', part 9 3), (''Partition'', part 12 2),
          (''Performance Features'', part 14 2), (''Firmware & Version'', part 16 3)])"

definition csd_bytes :: "u8 list \<Rightarrow> ext_csd_field \<Rightarrow> u8 list" where
  "csd_bytes csd f = take (ef_size f) (drop (ef_offset f) csd)"

definition csd_number :: "u8 list \<Rightarrow> ext_csd_field \<Rightarrow> nat" where
  "csd_number csd f = foldl (\<lambda>v b. 256 * v + unat b) 0 (if ef_size f = 4 then rev (csd_bytes csd f) else csd_bytes csd f)"

lemma take_four: "k + 4 \<le> length xs \<Longrightarrow> take 4 (drop k xs) = [xs ! k, xs ! (k + 1), xs ! (k + 2), xs ! (k + 3)]"
  by (intro nth_equalityI) (auto simp: less_Suc_eq numeral_eq_Suc)

lemma fmt_08x_u32:
  "k + 4 \<le> length csd \<Longrightarrow> fmt_08x (csd_u32 csd k) = concat (map fmt_02x (rev (take 4 (drop k csd))))"
proof -
  assume k: "k + 4 \<le> length csd"
  have high: "\<not> bit b n" if "8 \<le> n" for b :: u8 and n
    using bit_imp_le_length [of b n] that by auto
  have "ucast (csd_u32 csd k) = csd ! k" "ucast (drop_bit 8 (csd_u32 csd k)) = csd ! (k + 1)"
    "ucast (drop_bit 16 (csd_u32 csd k)) = csd ! (k + 2)" "ucast (drop_bit 24 (csd_u32 csd k)) = csd ! (k + 3)"
    by (auto intro!: bit_word_eqI simp: csd_u32_def bit_simps high)
  then show ?thesis using k by (simp add: fmt_08x_def upt_rec take_four)
qed

lemma digits_bytes: "digits_val 16 (concat (map fmt_02x bs)) = foldl (\<lambda>v b. 256 * v + unat b) 0 bs"
proof (induction bs rule: rev_induct)
  case (snoc b bs)
  have "unat b < 2 ^ LENGTH(8)" by (rule unsigned_less)
  then show ?case
    using snoc div_mult_mod_eq [of "unat b" 16] by (simp add: digits_val_def fmt_02x_def digit_val_hex_char)
qed (simp add: digits_val_def)

lemma generic_fields_ok:
  "f \<in> set generic_fields \<Longrightarrow> ef_offset f + ef_size f \<le> EMMC_EXT_CSD_SIZE \<and> ef_size f \<in> {1, 4, 8}"
  by (auto simp: generic_fields_def csd_field_def)

lemma print_one_value:
  assumes "length csd = EMMC_EXT_CSD_SIZE" and "f \<in> set generic_fields"
  shows "\<exists>note. print_one_field fmt_2f csd f = csd_row (ef_name f)
    ((if ef_size f = 8 then [] else ''0x'') @
     concat (map fmt_02x (if ef_size f = 4 then rev (csd_bytes csd f) else csd_bytes csd f)) @ note) (ef_description f)"
proof -
  have len: "length (fmt_02x b) = 2" for b by (simp add: fmt_02x_def)
  consider (one) "ef_size f = 1" | (four) "ef_size f = 4" | (eight) "ef_size f = 8"
    using generic_fields_ok [OF assms(2)] by auto
  then show ?thesis
  proof cases
    case one
    have "csd_bytes csd f = [csd ! ef_offset f]"
      using generic_fields_ok [OF assms(2)] assms(1) one by (simp add: csd_bytes_def take_Suc_conv_app_nth hd_drop_conv_nth)
    then show ?thesis using generic_fields_ok [OF assms(2)] assms(1) one
      by (auto simp: print_one_field_def Let_def value_str_def size_value_def len intro: exI [of _ "[]"])
  next
    case four
    let ?hex = "concat (map fmt_02x (rev (take 4 (drop (ef_offset f) csd))))"
    have "length ?hex = 8"
      using generic_fields_ok [OF assms(2)] assms(1) four by (simp add: take_four len)
    then show ?thesis using generic_fields_ok [OF assms(2)] assms(1) four
      by (auto simp: print_one_field_def Let_def value_str_def fmt_08x_u32 csd_bytes_def intro: exI [of _ "[]"])
  next
    case eight
    have "csd_bytes csd f = map (\<lambda>k. csd ! (ef_offset f + k)) [0..<8]"
      using generic_fields_ok [OF assms(2)] assms(1) eight by (auto simp: csd_bytes_def intro!: nth_equalityI)
    then show ?thesis using generic_fields_ok [OF assms(2)] assms(1) eight
      by (auto simp: print_one_field_def value_str_def upt_rec len intro: exI [of _ "[]"])
  qed
qed

text \<open>
  C34. The report shows every field of the table once, in eight sections, from a full register: the hexadecimal
  digits of a field are those of its bytes, the number of four bytes with the last byte first, and none is
  missing or cut off.
\<close>

theorem smart_report_values:
  assumes "length (sd_ext_csd info) = EMMC_EXT_CSD_SIZE"
  shows "generic_print_fields fmt_2f info vendor =
      ''Vendor profile: '' @ vendor @ [newline] @ ''SMART source  : JEDEC EXT_CSD standard fields'' @ [newline] @ [newline] @
      rule_79 @
      concat (map (\<lambda>(title, fs). section_header title @ concat (map (print_one_field fmt_2f (sd_ext_csd info)) fs)) smart_sections) @
      [newline] @ rule_79 \<and>
    concat (map snd smart_sections) = generic_fields \<and> distinct (map ef_name generic_fields) \<and>
    (\<forall>f \<in> set generic_fields. \<exists>digits note.
       print_one_field fmt_2f (sd_ext_csd info) f =
         csd_row (ef_name f) ((if ef_size f = 8 then [] else ''0x'') @ digits @ note) (ef_description f) \<and>
       length digits = 2 * ef_size f \<and> digits_val 16 digits = csd_number (sd_ext_csd info) f)"
proof (intro conjI ballI)
  show "concat (map snd smart_sections) = generic_fields" "distinct (map ef_name generic_fields)"
    by (simp_all add: smart_sections_def generic_fields_def csd_field_def Let_def)
  show "generic_print_fields fmt_2f info vendor =
      ''Vendor profile: '' @ vendor @ [newline] @ ''SMART source  : JEDEC EXT_CSD standard fields'' @ [newline] @ [newline] @
      rule_79 @
      concat (map (\<lambda>(title, fs). section_header title @ concat (map (print_one_field fmt_2f (sd_ext_csd info)) fs)) smart_sections) @
      [newline] @ rule_79"
    by (simp add: generic_print_fields_def smart_sections_def generic_fields_def section_start_def Let_def)
next
  fix f assume f: "f \<in> set generic_fields"
  let ?bs = "if ef_size f = 4 then rev (csd_bytes (sd_ext_csd info) f) else csd_bytes (sd_ext_csd info) f"
  have "length (concat (map fmt_02x bs)) = 2 * length bs" for bs by (induction bs) (simp_all add: fmt_02x_def)
  then have "length (concat (map fmt_02x ?bs)) = 2 * ef_size f"
    using generic_fields_ok [OF f] assms by (auto simp: csd_bytes_def min_def)
  moreover have "digits_val 16 (concat (map fmt_02x ?bs)) = csd_number (sd_ext_csd info) f"
    by (simp only: digits_bytes csd_number_def)
  ultimately show "\<exists>digits note.
       print_one_field fmt_2f (sd_ext_csd info) f =
         csd_row (ef_name f) ((if ef_size f = 8 then [] else ''0x'') @ digits @ note) (ef_description f) \<and>
       length digits = 2 * ef_size f \<and> digits_val 16 digits = csd_number (sd_ext_csd info) f"
    using print_one_value [OF assms f, of fmt_2f] by blast
qed

definition example_csd :: "u8 list" where
  "example_csd = (replicate EMMC_EXT_CSD_SIZE 0)[212 := 0, 213 := 0x20, 214 := 0x74, 215 := 1]"

lemma smart_report_values_witness:
  "\<exists>digits note. print_one_field (\<lambda>v d. []) example_csd (csd_field ''SEC_CNT'' 212 4 ''Total sector count (x512B = capacity)'') =
     csd_row ''SEC_CNT'' (''0x'' @ digits @ note) ''Total sector count (x512B = capacity)'' \<and> digits_val 16 digits = 24387584"
proof -
  let ?info = "\<lparr>sd_block_name = [], sd_sysfs_name = None, sd_manfid = None, sd_cid = None, sd_ext_csd = example_csd\<rparr>"
  let ?f = "csd_field ''SEC_CNT'' 212 4 ''Total sector count (x512B = capacity)''"
  have mem: "?f \<in> set generic_fields" by (simp add: generic_fields_def)
  have bytes: "take 4 (drop 212 example_csd) = [0, 0x20, 0x74, 1]"
    by (rule nth_equalityI) (auto simp: example_csd_def nth_list_update less_Suc_eq numeral_eq_Suc)
  have "length (sd_ext_csd ?info) = EMMC_EXT_CSD_SIZE" by (simp add: example_csd_def)
  from smart_report_values [OF this, of "\<lambda>v d. []" "[]"] mem
  have "\<exists>digits note. print_one_field (\<lambda>v d. []) example_csd ?f =
      csd_row (ef_name ?f) ((if ef_size ?f = 8 then [] else ''0x'') @ digits @ note) (ef_description ?f) \<and>
    digits_val 16 digits = csd_number example_csd ?f" by fastforce
  moreover have "csd_number example_csd ?f = 24387584" by (simp add: csd_number_def csd_bytes_def csd_field_def bytes)
  ultimately show ?thesis by (simp add: csd_field_def)
qed

text \<open>The ten steps of the life time are the tenth parts.\<close>

lemma life_time_steps:
  assumes "1 \<le> k" and "k \<le> 10"
  shows "generic_life_time_desc (of_nat k) = dec_digits (10 * (k - 1)) @ ''% - '' @ dec_digits (10 * k) @ ''% used''"
proof -
  have "k \<in> set [1..<11]" using assms by simp
  then consider "k = 1" | "k = 2" | "k = 3" | "k = 4" | "k = 5" | "k = 6" | "k = 7" | "k = 8" | "k = 9" | "k = 10"
    by (auto simp: upt_rec)
  moreover have "c = char_of n \<longleftrightarrow> take_bit 8 n = of_char c" for c and n :: nat
    by (subst eq_commute) (rule char_of_eq_iff)
  ultimately show ?thesis
    by cases (simp_all add: generic_life_time_desc_def dec_digits.simps dec_char_def)
qed

end
