(* ===== verification/Osal_Atomic.thy ===== *)
theory Osal_Atomic
  imports Lpf_Base
begin

text \<open>
  The atomic operations of both libraries: \<open>src/user/osal/include/osal/ipc/osal_atomic.h\<close> over the unsigned
  atomics of C11, \<open>src/kernel/include/osal/ipc/osal_atomic.h\<close> over \<open>atomic_t\<close>, a signed \<open>int\<close> that wraps. The
  32-bit and the 64-bit operations are one definition over the width. An operation gives the new value
  and its result. \<open>compare_exchange\<close> of the kernel module is two accesses, and what other threads do to the value
  in between is an argument.
\<close>

section \<open>The user library\<close>

definition user_atomic_fetch_add :: "'a::len word \<Rightarrow> 'a word \<Rightarrow> 'a word \<times> 'a word" where
  "user_atomic_fetch_add a value = (a + value, a)"

definition user_atomic_fetch_sub :: "'a::len word \<Rightarrow> 'a word \<Rightarrow> 'a word \<times> 'a word" where
  "user_atomic_fetch_sub a value = (a - value, a)"

definition user_atomic_inc :: "'a::len word \<Rightarrow> 'a word \<times> 'a word" where
  "user_atomic_inc a = (let (a', old) = user_atomic_fetch_add a 1 in (a', old + 1))"

definition user_atomic_dec :: "'a::len word \<Rightarrow> 'a word \<times> 'a word" where
  "user_atomic_dec a = (let (a', old) = user_atomic_fetch_sub a 1 in (a', old - 1))"

text \<open>The result is \<open>*expected\<close> after the call, and what the call returns.\<close>

definition user_compare_exchange :: "'a::len word \<Rightarrow> 'a word \<Rightarrow> 'a word \<Rightarrow> 'a word \<times> 'a word \<times> bool" where
  "user_compare_exchange a expected desired =
     (if a = expected then (desired, expected, True) else (a, a, False))"

definition user_compare_exchange_bool :: "u32 \<Rightarrow> bool \<Rightarrow> bool \<Rightarrow> u32 \<times> bool \<times> bool" where
  "user_compare_exchange_bool a expected desired =
     (let exp_val = (if expected then 1 else 0); des_val = (if desired then 1 else 0);
          (a', exp_val', result) = user_compare_exchange a exp_val des_val
      in (a', exp_val' \<noteq> 0, result))"

section \<open>The kernel module\<close>

text \<open>A value of \<open>int\<close> or \<open>s64\<close>: the sum of two of them wraps.\<close>

definition atomic_add_return :: "'a::len itself \<Rightarrow> int \<Rightarrow> int \<Rightarrow> int" where
  "atomic_add_return _ i k = signed_take_bit (LENGTH('a) - 1) (k + i)"

definition kernel_atomic_init :: "'a::len word \<Rightarrow> int" where
  "kernel_atomic_init value = sint value"

definition kernel_atomic_load :: "int \<Rightarrow> 'a::len word" where
  "kernel_atomic_load k = word_of_int k"

definition kernel_atomic_fetch_add :: "int \<Rightarrow> 'a::len word \<Rightarrow> int \<times> 'a word" where
  "kernel_atomic_fetch_add k value = (atomic_add_return TYPE('a) (sint value) k, word_of_int k)"

definition kernel_atomic_fetch_sub :: "int \<Rightarrow> 'a::len word \<Rightarrow> int \<times> 'a word" where
  "kernel_atomic_fetch_sub k value = (atomic_add_return TYPE('a) (- sint value) k, word_of_int k)"

definition kernel_atomic_inc :: "int \<Rightarrow> int \<times> 'a::len word" where
  "kernel_atomic_inc k = (let k' = atomic_add_return TYPE('a) 1 k in (k', word_of_int k'))"

definition kernel_atomic_dec :: "int \<Rightarrow> int \<times> 'a::len word" where
  "kernel_atomic_dec k = (let k' = atomic_add_return TYPE('a) (- 1) k in (k', word_of_int k'))"

definition kernel_compare_exchange ::
  "(int \<Rightarrow> int) \<Rightarrow> int \<Rightarrow> 'a::len word option \<Rightarrow> 'a word \<Rightarrow> int \<times> 'a word option \<times> bool" where
  "kernel_compare_exchange others k expected desired =
     (case expected of
        None \<Rightarrow> (k, None, False)
      | Some e \<Rightarrow>
          (if k = sint e then (sint desired, expected, True)
           else (let k' = others k in (k', Some (word_of_int k'), False))))"

definition kernel_compare_exchange_bool ::
  "(int \<Rightarrow> int) \<Rightarrow> int \<Rightarrow> bool option \<Rightarrow> bool \<Rightarrow> int \<times> bool option \<times> bool" where
  "kernel_compare_exchange_bool others k expected desired =
     (case expected of
        None \<Rightarrow> (k, None, False)
      | Some e \<Rightarrow>
          (let (k', e', ret) = kernel_compare_exchange others k (Some (if e then 1 else 0 :: u32)) (if desired then 1 else 0)
           in (k', map_option (\<lambda>v. v \<noteq> 0) e', ret)))"

section \<open>Properties\<close>

lemma signed_wrap: "signed_take_bit (LENGTH('a) - 1) i = sint (word_of_int i :: 'a::len word)"
  by (simp add: signed_of_int)

lemma sint_same [simp]: "sint a = sint b \<longleftrightarrow> a = (b :: 'a::len word)"
  by (metis signed_word_eqI)

lemma kernel_add: "atomic_add_return TYPE('a) i (sint a) = sint (a + word_of_int i :: 'a::len word)"
  unfolding atomic_add_return_def signed_wrap by simp

datatype 'w atomic_op =
    At_store 'w | At_load | At_add 'w | At_sub 'w | At_inc | At_dec | At_exchange 'w 'w

primrec user_atomic_step :: "'a::len word atomic_op \<Rightarrow> 'a word \<Rightarrow> 'a word \<times> 'a word \<times> bool" where
  "user_atomic_step (At_store v) a = (v, 0, True)"
| "user_atomic_step At_load a = (a, a, True)"
| "user_atomic_step (At_add v) a = (let (a', r) = user_atomic_fetch_add a v in (a', r, True))"
| "user_atomic_step (At_sub v) a = (let (a', r) = user_atomic_fetch_sub a v in (a', r, True))"
| "user_atomic_step At_inc a = (let (a', r) = user_atomic_inc a in (a', r, True))"
| "user_atomic_step At_dec a = (let (a', r) = user_atomic_dec a in (a', r, True))"
| "user_atomic_step (At_exchange e d) a = user_compare_exchange a e d"

primrec kernel_atomic_step :: "'a::len word atomic_op \<Rightarrow> int \<Rightarrow> int \<times> 'a word \<times> bool" where
  "kernel_atomic_step (At_store v) k = (kernel_atomic_init v, 0, True)"
| "kernel_atomic_step At_load k = (k, kernel_atomic_load k, True)"
| "kernel_atomic_step (At_add v) k = (let (k', r) = kernel_atomic_fetch_add k v in (k', r, True))"
| "kernel_atomic_step (At_sub v) k = (let (k', r) = kernel_atomic_fetch_sub k v in (k', r, True))"
| "kernel_atomic_step At_inc k = (let (k', r) = kernel_atomic_inc k in (k', r, True))"
| "kernel_atomic_step At_dec k = (let (k', r) = kernel_atomic_dec k in (k', r, True))"
| "kernel_atomic_step (At_exchange e d) k =
     (let (k', r, ok) = kernel_compare_exchange (\<lambda>k. k) k (Some e) d in (k', the r, ok))"

lemma atomic_step_agrees: "kernel_atomic_step p (sint a) = map_prod sint (\<lambda>r. r) (user_atomic_step p a)"
  by (cases p)
    (simp_all add: user_atomic_fetch_add_def user_atomic_fetch_sub_def user_atomic_inc_def user_atomic_dec_def
      user_compare_exchange_def kernel_atomic_init_def kernel_atomic_load_def kernel_atomic_fetch_add_def
      kernel_atomic_fetch_sub_def kernel_atomic_inc_def kernel_atomic_dec_def kernel_compare_exchange_def
      kernel_add Let_def)

primrec run_steps :: "('p \<Rightarrow> 's \<Rightarrow> 's \<times> 'r) \<Rightarrow> 'p list \<Rightarrow> 's \<Rightarrow> 's \<times> 'r list" where
  "run_steps f [] s = (s, [])"
| "run_steps f (p # ps) s = (let (s', r) = f p s; (s'', rs) = run_steps f ps s' in (s'', r # rs))"

lemma atomic_runs: "run_steps kernel_atomic_step ps (sint a) = map_prod sint (\<lambda>r. r) (run_steps user_atomic_step ps a)"
  by (induction ps arbitrary: a) (simp_all add: atomic_step_agrees split: prod.splits)

text \<open>
  C40. On any sequence of operations the signed counter of the kernel module and the unsigned one of the user library
  give the same results, at both widths. When other threads come between the two accesses of a failed exchange,
  the kernel module reports the later value, and it can fail while \<open>*expected\<close> stays as it was, which an
  exchange of the user library never does.
\<close>

theorem atomics_agree:
  "run_steps kernel_atomic_step ops (kernel_atomic_init a) =
     (case run_steps user_atomic_step ops a of (a', rs) \<Rightarrow> (sint a', rs)) \<and>
   snd (kernel_compare_exchange others (sint a) (Some e) d) =
     (if a = e then (Some e, True) else (Some (word_of_int (others (sint a))), False)) \<and>
   (snd (kernel_compare_exchange (\<lambda>_. sint e) (sint a) (Some e) d) = (Some e, False)) = (a \<noteq> e) \<and>
   snd (user_compare_exchange a e d) \<noteq> (e, False)"
  by (simp add: kernel_atomic_init_def atomic_runs kernel_compare_exchange_def user_compare_exchange_def Let_def
      split: prod.splits)

lemma bool_exchange_agrees:
  "a \<in> {0, 1} \<Longrightarrow> kernel_compare_exchange_bool (\<lambda>k. k) (sint a) (Some e) d =
     (case user_compare_exchange_bool a e d of (a', e', r) \<Rightarrow> (sint a', Some e', r))"
  by (auto simp: kernel_compare_exchange_bool_def user_compare_exchange_bool_def kernel_compare_exchange_def
      user_compare_exchange_def Let_def)

end
