(* ===== verification/Osal_Base.thy ===== *)
theory Osal_Base
  imports Lpf_Base
begin

text \<open>
  The status codes of the OSAL (\<open>osal_errno.h\<close> of the user library and of the kernel module): zero
  or a positive number, most of them an \<open>errno\<close> value.
\<close>

abbreviation (input) OSAL_SUCCESS :: int where "OSAL_SUCCESS \<equiv> 0"
abbreviation (input) OSAL_ERR_GENERIC :: int where "OSAL_ERR_GENERIC \<equiv> 5"
abbreviation (input) OSAL_ERR_WOULD_BLOCK :: int where "OSAL_ERR_WOULD_BLOCK \<equiv> 11"
abbreviation (input) OSAL_ERR_NO_MEMORY :: int where "OSAL_ERR_NO_MEMORY \<equiv> 12"
abbreviation (input) OSAL_ERR_INVALID_POINTER :: int where "OSAL_ERR_INVALID_POINTER \<equiv> 14"
abbreviation (input) OSAL_ERR_BUSY :: int where "OSAL_ERR_BUSY \<equiv> 16"
abbreviation (input) OSAL_ERR_INVALID_PARAM :: int where "OSAL_ERR_INVALID_PARAM \<equiv> 22"
abbreviation (input) OSAL_ERR_INVALID_SIZE :: int where "OSAL_ERR_INVALID_SIZE \<equiv> 22"
abbreviation (input) OSAL_ERR_INVALID_ID :: int where "OSAL_ERR_INVALID_ID \<equiv> 22"
abbreviation (input) OSAL_ERR_RESOURCE_LIMIT :: int where "OSAL_ERR_RESOURCE_LIMIT \<equiv> 24"
abbreviation (input) OSAL_ERR_INTERRUPTED :: int where "OSAL_ERR_INTERRUPTED \<equiv> 4"
abbreviation (input) OSAL_ERR_NOT_SUPPORTED :: int where "OSAL_ERR_NOT_SUPPORTED \<equiv> 95"
abbreviation (input) OSAL_ERR_TIMEOUT :: int where "OSAL_ERR_TIMEOUT \<equiv> 110"
abbreviation (input) OSAL_ERR_INVALID_STATE :: int where "OSAL_ERR_INVALID_STATE \<equiv> 0xCB"
abbreviation (input) OSAL_ERR_NO_FREE_IDS :: int where "OSAL_ERR_NO_FREE_IDS \<equiv> 0xCC"

section \<open>Counting threads\<close>

text \<open>The number of threads that stand at a place, when one of them moves.\<close>

definition threads_at :: "('p \<Rightarrow> bool) \<Rightarrow> (nat \<Rightarrow> 'p) \<Rightarrow> nat set" where
  "threads_at P f = {t. P (f t)}"

lemma threads_at_update:
  "threads_at P (f(t := x)) = (if P x then insert t (threads_at P f) else threads_at P f - {t})"
  by (auto simp: threads_at_def)

lemma finite_threads_at_update [simp]: "finite (threads_at P (f(t := x))) = finite (threads_at P f)"
  by (simp add: threads_at_update)

lemma card_threads_enter:
  "finite (threads_at P f) \<Longrightarrow> \<not> P (f t) \<Longrightarrow> P x \<Longrightarrow> card (threads_at P (f(t := x))) = Suc (card (threads_at P f))"
  by (simp add: threads_at_update) (simp add: threads_at_def)

lemma card_threads_leave:
  "finite (threads_at P f) \<Longrightarrow> P (f t) \<Longrightarrow> \<not> P x \<Longrightarrow> Suc (card (threads_at P (f(t := x)))) = card (threads_at P f)"
proof -
  assume a: "finite (threads_at P f)" "P (f t)" "\<not> P x"
  then have "t \<in> threads_at P f" by (simp add: threads_at_def)
  with a show ?thesis using card_Suc_Diff1 [of "threads_at P f" t] by (simp add: threads_at_update)
qed

lemma threads_at_stay: "P (f t) = P x \<Longrightarrow> threads_at P (f(t := x)) = threads_at P f"
  by (auto simp: threads_at_def)

end
