(* ===== verification/Osal_Crc.thy ===== *)
theory Osal_Crc
  imports Lpf_Base
begin

unbundle bit_operations_syntax

text \<open>
  The checksums of the OS abstraction layer. User space looks bytes up in tables
  (\<open>src/user/osal/src/osal_crc.c\<close>), the kernel module works bit by bit
  (\<open>src/kernel/osal/src/util/osal_crc.c\<close>). Both are modelled, the kernel's with the prefix
  \<open>kernel_\<close>; the theorems show that they compute the same values, and what the CRC-32 detects.

  The data is \<open>None\<close> for a \<open>NULL\<close> pointer, otherwise the bytes from it up to the length.
\<close>

type_synonym u16 = "16 word"

section \<open>The tables\<close>

definition crc16_ccitt_table :: "u16 list" where
  "crc16_ccitt_table = [
    0x0000, 0x1021, 0x2042, 0x3063, 0x4084, 0x50a5, 0x60c6, 0x70e7, 0x8108, 0x9129, 0xa14a, 0xb16b,
    0xc18c, 0xd1ad, 0xe1ce, 0xf1ef, 0x1231, 0x0210, 0x3273, 0x2252, 0x52b5, 0x4294, 0x72f7, 0x62d6,
    0x9339, 0x8318, 0xb37b, 0xa35a, 0xd3bd, 0xc39c, 0xf3ff, 0xe3de, 0x2462, 0x3443, 0x0420, 0x1401,
    0x64e6, 0x74c7, 0x44a4, 0x5485, 0xa56a, 0xb54b, 0x8528, 0x9509, 0xe5ee, 0xf5cf, 0xc5ac, 0xd58d,
    0x3653, 0x2672, 0x1611, 0x0630, 0x76d7, 0x66f6, 0x5695, 0x46b4, 0xb75b, 0xa77a, 0x9719, 0x8738,
    0xf7df, 0xe7fe, 0xd79d, 0xc7bc, 0x48c4, 0x58e5, 0x6886, 0x78a7, 0x0840, 0x1861, 0x2802, 0x3823,
    0xc9cc, 0xd9ed, 0xe98e, 0xf9af, 0x8948, 0x9969, 0xa90a, 0xb92b, 0x5af5, 0x4ad4, 0x7ab7, 0x6a96,
    0x1a71, 0x0a50, 0x3a33, 0x2a12, 0xdbfd, 0xcbdc, 0xfbbf, 0xeb9e, 0x9b79, 0x8b58, 0xbb3b, 0xab1a,
    0x6ca6, 0x7c87, 0x4ce4, 0x5cc5, 0x2c22, 0x3c03, 0x0c60, 0x1c41, 0xedae, 0xfd8f, 0xcdec, 0xddcd,
    0xad2a, 0xbd0b, 0x8d68, 0x9d49, 0x7e97, 0x6eb6, 0x5ed5, 0x4ef4, 0x3e13, 0x2e32, 0x1e51, 0x0e70,
    0xff9f, 0xefbe, 0xdfdd, 0xcffc, 0xbf1b, 0xaf3a, 0x9f59, 0x8f78, 0x9188, 0x81a9, 0xb1ca, 0xa1eb,
    0xd10c, 0xc12d, 0xf14e, 0xe16f, 0x1080, 0x00a1, 0x30c2, 0x20e3, 0x5004, 0x4025, 0x7046, 0x6067,
    0x83b9, 0x9398, 0xa3fb, 0xb3da, 0xc33d, 0xd31c, 0xe37f, 0xf35e, 0x02b1, 0x1290, 0x22f3, 0x32d2,
    0x4235, 0x5214, 0x6277, 0x7256, 0xb5ea, 0xa5cb, 0x95a8, 0x8589, 0xf56e, 0xe54f, 0xd52c, 0xc50d,
    0x34e2, 0x24c3, 0x14a0, 0x0481, 0x7466, 0x6447, 0x5424, 0x4405, 0xa7db, 0xb7fa, 0x8799, 0x97b8,
    0xe75f, 0xf77e, 0xc71d, 0xd73c, 0x26d3, 0x36f2, 0x0691, 0x16b0, 0x6657, 0x7676, 0x4615, 0x5634,
    0xd94c, 0xc96d, 0xf90e, 0xe92f, 0x99c8, 0x89e9, 0xb98a, 0xa9ab, 0x5844, 0x4865, 0x7806, 0x6827,
    0x18c0, 0x08e1, 0x3882, 0x28a3, 0xcb7d, 0xdb5c, 0xeb3f, 0xfb1e, 0x8bf9, 0x9bd8, 0xabbb, 0xbb9a,
    0x4a75, 0x5a54, 0x6a37, 0x7a16, 0x0af1, 0x1ad0, 0x2ab3, 0x3a92, 0xfd2e, 0xed0f, 0xdd6c, 0xcd4d,
    0xbdaa, 0xad8b, 0x9de8, 0x8dc9, 0x7c26, 0x6c07, 0x5c64, 0x4c45, 0x3ca2, 0x2c83, 0x1ce0, 0x0cc1,
    0xef1f, 0xff3e, 0xcf5d, 0xdf7c, 0xaf9b, 0xbfba, 0x8fd9, 0x9ff8, 0x6e17, 0x7e36, 0x4e55, 0x5e74,
    0x2e93, 0x3eb2, 0x0ed1, 0x1ef0]"

definition crc32_table :: "u32 list" where
  "crc32_table = [
    0x00000000, 0x77073096, 0xee0e612c, 0x990951ba, 0x076dc419, 0x706af48f, 0xe963a535, 0x9e6495a3,
    0x0edb8832, 0x79dcb8a4, 0xe0d5e91e, 0x97d2d988, 0x09b64c2b, 0x7eb17cbd, 0xe7b82d07, 0x90bf1d91,
    0x1db71064, 0x6ab020f2, 0xf3b97148, 0x84be41de, 0x1adad47d, 0x6ddde4eb, 0xf4d4b551, 0x83d385c7,
    0x136c9856, 0x646ba8c0, 0xfd62f97a, 0x8a65c9ec, 0x14015c4f, 0x63066cd9, 0xfa0f3d63, 0x8d080df5,
    0x3b6e20c8, 0x4c69105e, 0xd56041e4, 0xa2677172, 0x3c03e4d1, 0x4b04d447, 0xd20d85fd, 0xa50ab56b,
    0x35b5a8fa, 0x42b2986c, 0xdbbbc9d6, 0xacbcf940, 0x32d86ce3, 0x45df5c75, 0xdcd60dcf, 0xabd13d59,
    0x26d930ac, 0x51de003a, 0xc8d75180, 0xbfd06116, 0x21b4f4b5, 0x56b3c423, 0xcfba9599, 0xb8bda50f,
    0x2802b89e, 0x5f058808, 0xc60cd9b2, 0xb10be924, 0x2f6f7c87, 0x58684c11, 0xc1611dab, 0xb6662d3d,
    0x76dc4190, 0x01db7106, 0x98d220bc, 0xefd5102a, 0x71b18589, 0x06b6b51f, 0x9fbfe4a5, 0xe8b8d433,
    0x7807c9a2, 0x0f00f934, 0x9609a88e, 0xe10e9818, 0x7f6a0dbb, 0x086d3d2d, 0x91646c97, 0xe6635c01,
    0x6b6b51f4, 0x1c6c6162, 0x856530d8, 0xf262004e, 0x6c0695ed, 0x1b01a57b, 0x8208f4c1, 0xf50fc457,
    0x65b0d9c6, 0x12b7e950, 0x8bbeb8ea, 0xfcb9887c, 0x62dd1ddf, 0x15da2d49, 0x8cd37cf3, 0xfbd44c65,
    0x4db26158, 0x3ab551ce, 0xa3bc0074, 0xd4bb30e2, 0x4adfa541, 0x3dd895d7, 0xa4d1c46d, 0xd3d6f4fb,
    0x4369e96a, 0x346ed9fc, 0xad678846, 0xda60b8d0, 0x44042d73, 0x33031de5, 0xaa0a4c5f, 0xdd0d7cc9,
    0x5005713c, 0x270241aa, 0xbe0b1010, 0xc90c2086, 0x5768b525, 0x206f85b3, 0xb966d409, 0xce61e49f,
    0x5edef90e, 0x29d9c998, 0xb0d09822, 0xc7d7a8b4, 0x59b33d17, 0x2eb40d81, 0xb7bd5c3b, 0xc0ba6cad,
    0xedb88320, 0x9abfb3b6, 0x03b6e20c, 0x74b1d29a, 0xead54739, 0x9dd277af, 0x04db2615, 0x73dc1683,
    0xe3630b12, 0x94643b84, 0x0d6d6a3e, 0x7a6a5aa8, 0xe40ecf0b, 0x9309ff9d, 0x0a00ae27, 0x7d079eb1,
    0xf00f9344, 0x8708a3d2, 0x1e01f268, 0x6906c2fe, 0xf762575d, 0x806567cb, 0x196c3671, 0x6e6b06e7,
    0xfed41b76, 0x89d32be0, 0x10da7a5a, 0x67dd4acc, 0xf9b9df6f, 0x8ebeeff9, 0x17b7be43, 0x60b08ed5,
    0xd6d6a3e8, 0xa1d1937e, 0x38d8c2c4, 0x4fdff252, 0xd1bb67f1, 0xa6bc5767, 0x3fb506dd, 0x48b2364b,
    0xd80d2bda, 0xaf0a1b4c, 0x36034af6, 0x41047a60, 0xdf60efc3, 0xa867df55, 0x316e8eef, 0x4669be79,
    0xcb61b38c, 0xbc66831a, 0x256fd2a0, 0x5268e236, 0xcc0c7795, 0xbb0b4703, 0x220216b9, 0x5505262f,
    0xc5ba3bbe, 0xb2bd0b28, 0x2bb45a92, 0x5cb36a04, 0xc2d7ffa7, 0xb5d0cf31, 0x2cd99e8b, 0x5bdeae1d,
    0x9b64c2b0, 0xec63f226, 0x756aa39c, 0x026d930a, 0x9c0906a9, 0xeb0e363f, 0x72076785, 0x05005713,
    0x95bf4a82, 0xe2b87a14, 0x7bb12bae, 0x0cb61b38, 0x92d28e9b, 0xe5d5be0d, 0x7cdcefb7, 0x0bdbdf21,
    0x86d3d2d4, 0xf1d4e242, 0x68ddb3f8, 0x1fda836e, 0x81be16cd, 0xf6b9265b, 0x6fb077e1, 0x18b74777,
    0x88085ae6, 0xff0f6a70, 0x66063bca, 0x11010b5c, 0x8f659eff, 0xf862ae69, 0x616bffd3, 0x166ccf45,
    0xa00ae278, 0xd70dd2ee, 0x4e048354, 0x3903b3c2, 0xa7672661, 0xd06016f7, 0x4969474d, 0x3e6e77db,
    0xaed16a4a, 0xd9d65adc, 0x40df0b66, 0x37d83bf0, 0xa9bcae53, 0xdebb9ec5, 0x47b2cf7f, 0x30b5ffe9,
    0xbdbdf21c, 0xcabac28a, 0x53b39330, 0x24b4a3a6, 0xbad03605, 0xcdd70693, 0x54de5729, 0x23d967bf,
    0xb3667a2e, 0xc4614ab8, 0x5d681b02, 0x2a6f2b94, 0xb40bbe37, 0xc30c8ea1, 0x5a05df1b, 0x2d02ef8d]"

section \<open>User space\<close>

definition crc16_ccitt_step :: "u16 \<Rightarrow> u8 \<Rightarrow> u16" where
  "crc16_ccitt_step crc d = push_bit 8 crc XOR crc16_ccitt_table ! unat (drop_bit 8 crc XOR ucast d)"

definition osal_crc16_ccitt :: "u8 list option \<Rightarrow> u16" where
  "osal_crc16_ccitt data =
     (let crc = 0xFFFF in case data of None \<Rightarrow> crc | Some bytes \<Rightarrow> foldl crc16_ccitt_step crc bytes)"

definition osal_crc16_ccitt_update :: "u16 \<Rightarrow> u8 list option \<Rightarrow> u16" where
  "osal_crc16_ccitt_update crc data =
     (case data of None \<Rightarrow> crc | Some bytes \<Rightarrow> foldl crc16_ccitt_step crc bytes)"

definition modbus_bit :: "u16 \<Rightarrow> u16" where
  "modbus_bit crc = (if crc AND 1 \<noteq> 0 then drop_bit 1 crc XOR 0xA001 else drop_bit 1 crc)"

definition osal_crc16_modbus :: "u8 list option \<Rightarrow> u16" where
  "osal_crc16_modbus data =
     (let crc = 0xFFFF in case data of None \<Rightarrow> crc
      | Some bytes \<Rightarrow> foldl (\<lambda>crc d. (modbus_bit ^^ 8) (crc XOR ucast d)) crc bytes)"

definition crc32_step :: "u32 \<Rightarrow> u8 \<Rightarrow> u32" where
  "crc32_step crc d = drop_bit 8 crc XOR crc32_table ! unat ((crc XOR ucast d) AND 0xFF)"

definition osal_crc32 :: "u8 list option \<Rightarrow> u32" where
  "osal_crc32 data =
     (let crc = 0xFFFFFFFF in case data of None \<Rightarrow> 0
      | Some bytes \<Rightarrow> foldl crc32_step crc bytes XOR 0xFFFFFFFF)"

section \<open>The kernel module\<close>

definition ccitt_bit :: "u16 \<Rightarrow> u16" where
  "ccitt_bit crc = (if crc AND 0x8000 \<noteq> 0 then push_bit 1 crc XOR 0x1021 else push_bit 1 crc)"

definition kernel_osal_crc16_ccitt_update :: "u16 \<Rightarrow> u8 list option \<Rightarrow> u16" where
  "kernel_osal_crc16_ccitt_update crc data =
     (case data of None \<Rightarrow> crc
      | Some bytes \<Rightarrow> foldl (\<lambda>crc d. (ccitt_bit ^^ 8) (crc XOR push_bit 8 (ucast d))) crc bytes)"

definition kernel_osal_crc16_ccitt :: "u8 list option \<Rightarrow> u16" where
  "kernel_osal_crc16_ccitt data =
     (case data of None \<Rightarrow> 0xFFFF | Some _ \<Rightarrow> kernel_osal_crc16_ccitt_update 0xFFFF data)"

definition kernel_osal_crc16_modbus :: "u8 list option \<Rightarrow> u16" where
  "kernel_osal_crc16_modbus data =
     (let crc = 0xFFFF in case data of None \<Rightarrow> crc
      | Some bytes \<Rightarrow> foldl (\<lambda>crc d. (modbus_bit ^^ 8) (crc XOR ucast d)) crc bytes)"

definition crc32_bit :: "u32 \<Rightarrow> u32" where
  "crc32_bit crc = (if crc AND 1 \<noteq> 0 then drop_bit 1 crc XOR 0xEDB88320 else drop_bit 1 crc)"

definition kernel_osal_crc32 :: "u8 list option \<Rightarrow> u32" where
  "kernel_osal_crc32 data =
     (let crc = 0xFFFFFFFF in case data of None \<Rightarrow> crc
      | Some bytes \<Rightarrow> NOT (foldl (\<lambda>crc d. (crc32_bit ^^ 8) (crc XOR ucast d)) crc bytes))"

section \<open>The tables are right\<close>

lemma crc32_bit_alt: "crc32_bit c = (if bit c 0 then drop_bit 1 c XOR 0xEDB88320 else drop_bit 1 c)"
  by (simp add: crc32_bit_def and_one_eq mod_2_eq_odd bit_0)

lemma ccitt_bit_alt: "ccitt_bit c = (if bit c 15 then push_bit 1 c XOR 0x1021 else push_bit 1 c)"
  using bit_iff_and_push_bit_not_eq_0 [of c 15] by (simp add: ccitt_bit_def push_bit_eq_mult)

lemmas crc32_bit_num = crc32_bit_alt [of "numeral n" for n] crc32_bit_alt [of 0] crc32_bit_alt [of 1]
lemmas ccitt_bit_num = ccitt_bit_alt [of "numeral n" for n] ccitt_bit_alt [of 0] ccitt_bit_alt [of 1]

lemma eight_times: "(f ^^ 8) c = f (f (f (f (f (f (f (f c)))))))"
  by (simp add: eval_nat_numeral)

lemma crc32_rows_0: "map (\<lambda>n. (crc32_bit ^^ 8) (of_nat n)) [0..<64] = take 64 (drop 0 crc32_table)"
  unfolding crc32_table_def by (simp add: upt_rec [of 0] upt_rec [of "Suc 0"] flip: numeral_2_eq_2) (simp add: eight_times crc32_bit_num)

lemma crc32_rows_1: "map (\<lambda>n. (crc32_bit ^^ 8) (of_nat n)) [64..<128] = take 64 (drop 64 crc32_table)"
  unfolding crc32_table_def by (simp add: eight_times crc32_bit_num)

lemma crc32_rows_2: "map (\<lambda>n. (crc32_bit ^^ 8) (of_nat n)) [128..<192] = take 64 (drop 128 crc32_table)"
  unfolding crc32_table_def by (simp add: eight_times crc32_bit_num)

lemma crc32_rows_3: "map (\<lambda>n. (crc32_bit ^^ 8) (of_nat n)) [192..<256] = take 64 (drop 192 crc32_table)"
  unfolding crc32_table_def by (simp add: eight_times crc32_bit_num)

lemma ccitt_rows_0: "map (\<lambda>n. (ccitt_bit ^^ 8) (push_bit 8 (of_nat n))) [0..<64] = take 64 (drop 0 crc16_ccitt_table)"
  unfolding crc16_ccitt_table_def by (simp add: upt_rec [of 0] upt_rec [of "Suc 0"] flip: numeral_2_eq_2) (simp add: eight_times ccitt_bit_num)

lemma ccitt_rows_1: "map (\<lambda>n. (ccitt_bit ^^ 8) (push_bit 8 (of_nat n))) [64..<128] = take 64 (drop 64 crc16_ccitt_table)"
  unfolding crc16_ccitt_table_def by (simp add: eight_times ccitt_bit_num)

lemma ccitt_rows_2: "map (\<lambda>n. (ccitt_bit ^^ 8) (push_bit 8 (of_nat n))) [128..<192] = take 64 (drop 128 crc16_ccitt_table)"
  unfolding crc16_ccitt_table_def by (simp add: eight_times ccitt_bit_num)

lemma ccitt_rows_3: "map (\<lambda>n. (ccitt_bit ^^ 8) (push_bit 8 (of_nat n))) [192..<256] = take 64 (drop 192 crc16_ccitt_table)"
  unfolding crc16_ccitt_table_def by (simp add: eight_times ccitt_bit_num)

text \<open>The entry of each byte.\<close>

lemma nth_row:
  assumes "map f [k..<k + m] = take m (drop k tab)" and "k \<le> n" and "n < k + m" and "k + m \<le> length tab"
  shows "tab ! n = f n"
proof -
  have "map f [k..<k + m] ! (n - k) = take m (drop k tab) ! (n - k)" by (simp only: assms(1))
  then show ?thesis using assms(2-) by simp
qed

lemma nth_rows:
  assumes "map f [0..<64] = take 64 (drop 0 tab)" "map f [64..<128] = take 64 (drop 64 tab)"
    "map f [128..<192] = take 64 (drop 128 tab)" "map f [192..<256] = take 64 (drop 192 tab)"
    and "length tab = 256" and "n < 256"
  shows "tab ! n = f n"
proof -
  consider "n < 64" | "64 \<le> n" "n < 128" | "128 \<le> n" "n < 192" | "192 \<le> n" using assms(6) by linarith
  then show ?thesis
    using nth_row [of f 0 64 tab n] nth_row [of f 64 64 tab n] nth_row [of f 128 64 tab n] nth_row [of f 192 64 tab n] assms
    by cases simp_all
qed

lemma length_tables: "length crc32_table = 256" "length crc16_ccitt_table = 256"
  by (simp_all add: crc32_table_def crc16_ccitt_table_def)

lemma crc32_entry: "n < 256 \<Longrightarrow> crc32_table ! n = (crc32_bit ^^ 8) (of_nat n)"
  by (rule nth_rows [OF crc32_rows_0 crc32_rows_1 crc32_rows_2 crc32_rows_3 length_tables(1)])

lemma ccitt_entry: "n < 256 \<Longrightarrow> crc16_ccitt_table ! n = (ccitt_bit ^^ 8) (push_bit 8 (of_nat n))"
  by (rule nth_rows [OF ccitt_rows_0 ccitt_rows_1 ccitt_rows_2 ccitt_rows_3 length_tables(2)])

section \<open>A byte at a time is eight bits at a time\<close>

lemma crc32_bit_xor: "crc32_bit (x XOR y) = crc32_bit x XOR crc32_bit y"
  by (simp add: crc32_bit_alt bit_xor_iff drop_bit_xor ac_simps)

lemma ccitt_bit_xor: "ccitt_bit (x XOR y) = ccitt_bit x XOR ccitt_bit y"
  by (simp add: ccitt_bit_alt bit_xor_iff push_bit_xor ac_simps)

lemma funpow_xor:
  fixes f :: "'a :: len word \<Rightarrow> 'a word"
  assumes "\<And>x y. f (x XOR y) = f x XOR f y"
  shows "(f ^^ n) (x XOR y) = (f ^^ n) x XOR (f ^^ n) y"
  by (induction n) (simp_all add: assms)

text \<open>Bits that only move do not meet the polynomial.\<close>

lemma crc32_bit_push:
  assumes "0 < m" and "m \<le> 32" and "\<not> bit x (32 - m)"
  shows "crc32_bit (push_bit m x) = push_bit (m - 1) x"
proof (rule bit_word_eqI)
  fix k assume k: "k < LENGTH(32)"
  have "drop_bit 1 (push_bit m x) = push_bit (m - 1) x"
  proof (rule bit_word_eqI)
    fix j assume "j < LENGTH(32)"
    moreover from this have "bit x (Suc j - m) \<Longrightarrow> j < 31 \<or> j < m - 1" using assms by (cases "j = 31") auto
    ultimately show "bit (drop_bit 1 (push_bit m x)) j = bit (push_bit (m - 1) x) j"
      using assms(1) by (auto simp: bit_drop_bit_eq bit_push_bit_iff)
  qed
  then show "bit (crc32_bit (push_bit m x)) k = bit (push_bit (m - 1) x) k"
    using assms(1) by (simp add: crc32_bit_alt bit_push_bit_iff)
qed

lemma crc32_shift_out:
  assumes "n \<le> 8" and "take_bit 24 x = x"
  shows "(crc32_bit ^^ n) (push_bit n x) = x"
  using assms(1)
proof (induction n)
  case (Suc n)
  have "\<not> 31 - n < 24" using Suc.prems by simp
  then have "\<not> bit x (31 - n)" using bit_take_bit_iff [of 24 x "31 - n"] assms(2) by simp
  then have "crc32_bit (push_bit (Suc n) x) = push_bit n x" using Suc.prems crc32_bit_push [of "Suc n" x] by simp
  with Suc show ?case by (simp only: funpow_Suc_right o_def)
qed simp

lemma ccitt_shift_out:
  assumes "n \<le> 8" and "take_bit 8 x = x"
  shows "(ccitt_bit ^^ n) x = push_bit n x"
  using assms
proof (induction n)
  case (Suc n)
  have "\<not> 15 - n < 8" using Suc.prems by simp
  then have "\<not> bit x (15 - n)" using Suc.prems bit_take_bit_iff [of 8 x "15 - n"] by simp
  with Suc show ?case by (simp add: ccitt_bit_alt bit_push_bit_iff)
qed simp

lemma take_bit_ucast: "take_bit 8 (ucast (d :: u8) :: 'a :: len word) = ucast d"
  by (rule bit_word_eqI) (auto simp: bit_take_bit_iff bit_ucast_iff dest: bit_imp_le_length)

lemma unat_lt_256:
  assumes "take_bit 8 x = (x :: 'a :: len word)"
  shows "unat x < 256"
proof -
  have "unat x = take_bit 8 (unat x)" using assms unsigned_take_bit_eq [of 8 x, where 'a = nat] by simp
  then show ?thesis using take_bit_nat_less_exp [of 8 "unat x"] by simp
qed

lemma crc32_step_bits: "crc32_step crc d = (crc32_bit ^^ 8) (crc XOR ucast d)"
proof -
  define x where "x = crc XOR (ucast d :: u32)"
  have low: "take_bit 8 (take_bit 8 x) = take_bit 8 x" by simp
  have split: "x = take_bit 8 x XOR push_bit 8 (drop_bit 8 x)"
    by (rule bit_word_eqI) (auto simp: bit_xor_iff bit_take_bit_iff bit_push_bit_iff bit_drop_bit_eq)
  have high: "take_bit 24 (drop_bit 8 x) = drop_bit 8 x"
    by (rule bit_word_eqI) (auto simp: bit_take_bit_iff bit_drop_bit_eq dest: bit_imp_le_length)
  have "drop_bit 8 (ucast d :: u32) = 0"
    by (rule bit_word_eqI) (auto simp: bit_drop_bit_eq bit_ucast_iff dest: bit_imp_le_length)
  then have crc: "drop_bit 8 x = drop_bit 8 crc" by (simp add: x_def drop_bit_xor)
  have "(crc32_bit ^^ 8) x = (crc32_bit ^^ 8) (take_bit 8 x) XOR (crc32_bit ^^ 8) (push_bit 8 (drop_bit 8 x))"
    by (subst split) (rule funpow_xor [OF crc32_bit_xor])
  also have "\<dots> = crc32_table ! unat (take_bit 8 x) XOR drop_bit 8 crc"
    using crc32_entry [OF unat_lt_256 [OF low]] crc32_shift_out [OF _ high, of 8] by (simp add: crc)
  finally show ?thesis
    by (simp add: crc32_step_def x_def [symmetric] xor.commute take_bit_eq_mask mask_eq_exp_minus_1)
qed

lemma crc16_ccitt_step_bits: "crc16_ccitt_step crc d = (ccitt_bit ^^ 8) (crc XOR push_bit 8 (ucast d))"
proof -
  define x where "x = crc XOR push_bit 8 (ucast d :: u16)"
  have split: "x = take_bit 8 x XOR push_bit 8 (drop_bit 8 x)"
    by (rule bit_word_eqI) (auto simp: bit_xor_iff bit_take_bit_iff bit_push_bit_iff bit_drop_bit_eq)
  have high: "take_bit 8 (drop_bit 8 x) = drop_bit 8 x"
    by (rule bit_word_eqI) (auto simp: bit_take_bit_iff bit_drop_bit_eq dest: bit_imp_le_length)
  have "drop_bit 8 (push_bit 8 (ucast d :: u16)) = ucast d"
    by (rule bit_word_eqI) (auto simp: bit_drop_bit_eq bit_push_bit_iff bit_ucast_iff dest: bit_imp_le_length)
  then have index: "drop_bit 8 x = drop_bit 8 crc XOR ucast d" by (simp add: x_def drop_bit_xor)
  have "push_bit 8 (take_bit 8 x) = push_bit 8 crc"
    by (rule bit_word_eqI) (auto simp: x_def bit_xor_iff bit_take_bit_iff bit_push_bit_iff)
  then have low: "(ccitt_bit ^^ 8) (take_bit 8 x) = push_bit 8 crc" by (simp add: ccitt_shift_out)
  have "(ccitt_bit ^^ 8) x = (ccitt_bit ^^ 8) (take_bit 8 x) XOR (ccitt_bit ^^ 8) (push_bit 8 (drop_bit 8 x))"
    by (subst split) (rule funpow_xor [OF ccitt_bit_xor])
  also have "\<dots> = push_bit 8 crc XOR crc16_ccitt_table ! unat (drop_bit 8 x)"
    using ccitt_entry [OF unat_lt_256 [OF high]] by (simp add: low)
  finally show ?thesis by (simp add: crc16_ccitt_step_def x_def [symmetric] index)
qed

section \<open>What a CRC-32 detects\<close>

text \<open>A step can be undone: its highest bit tells the bit that left.\<close>

lemma word_xor_cancel:
  fixes x y z :: "'a :: len word"
  shows "x XOR y = z XOR y \<longleftrightarrow> x = z"
proof
  assume "x XOR y = z XOR y"
  then have "(x XOR y) XOR y = (z XOR y) XOR y" by simp
  then show "x = z" by (simp only: xor.assoc xor_self_eq xor.right_neutral)
qed simp

lemma inj_crc32_bit: "inj crc32_bit"
proof (rule injI)
  fix x y assume eq: "crc32_bit x = crc32_bit y"
  have top: "bit (crc32_bit z) 31 = bit z 0" for z
  proof -
    have "\<not> bit z 32" using bit_imp_le_length [of z 32] by auto
    moreover have "bit (0xEDB88320 :: u32) 31" by simp
    ultimately show ?thesis by (cases "bit z 0") (simp_all add: crc32_bit_alt bit_xor_iff bit_drop_bit_eq)
  qed
  have zero: "bit x 0 = bit y 0" using top [of x] top [of y] eq by simp
  then have "drop_bit 1 x = drop_bit 1 y"
    using eq by (cases "bit y 0") (simp_all add: crc32_bit_alt word_xor_cancel)
  then have "bit x (Suc k) = bit y (Suc k)" for k
    using bit_drop_bit_eq [of 1 x] bit_drop_bit_eq [of 1 y] by (metis add_Suc comp_apply plus_1_eq_Suc)
  with zero show "x = y" by (intro bit_word_eqI) (metis not0_implies_Suc)
qed

lemma inj_funpow:
  fixes f :: "'a \<Rightarrow> 'a"
  assumes "inj f"
  shows "inj (f ^^ n)"
proof (induction n)
  case (Suc n)
  then show ?case unfolding funpow.simps by (rule inj_compose [OF assms])
qed simp

text \<open>
  The bits of the data in the order in which the CRC takes them, the least significant bit of each byte
  first, and one step for a bit.
\<close>

definition data_bits :: "u8 list \<Rightarrow> bool list" where
  "data_bits data = concat (map (\<lambda>d. map (bit d) [0..<8]) data)"

definition crc32_take_bit :: "u32 \<Rightarrow> bool \<Rightarrow> u32" where
  "crc32_take_bit c b = crc32_bit (c XOR of_bool b)"

lemma length_data_bits: "length (data_bits data) = 8 * length data"
  by (induction data) (simp_all add: data_bits_def)

lemma data_bits_inject: "length as = length bs \<Longrightarrow> data_bits as = data_bits bs \<Longrightarrow> as = bs"
proof (induction as bs rule: list_induct2)
  case (Cons a as b bs)
  then have "map (bit a) [0..<8] = map (bit b) [0..<8]" and rest: "data_bits as = data_bits bs"
    by (simp_all add: data_bits_def)
  then have "\<forall>k<8. bit a k = bit b k" by (auto simp: map_eq_conv)
  then have "a = b" by (intro bit_word_eqI) simp
  with Cons.IH [OF rest] show ?case by simp
qed simp

text \<open>Up to 32 bits, the state takes them in as one number.\<close>

lemma bits_number:
  "bit (horner_sum of_bool 2 bs :: u32) k \<longleftrightarrow> k < 32 \<and> k < length bs \<and> bs ! k"
  by (auto simp: bit_horner_sum_bit_iff)

lemma crc32_bit_double: "length bs < 32 \<Longrightarrow>
  crc32_bit (push_bit 1 (horner_sum of_bool 2 bs)) = horner_sum of_bool 2 bs"
  using crc32_bit_push [of 1 "horner_sum of_bool 2 bs"] bits_number [of bs 31] by simp

lemma horner_Cons: "(horner_sum of_bool 2 (b # bs) :: u32) = of_bool b XOR push_bit 1 (horner_sum of_bool 2 bs)"
proof (rule bit_word_eqI)
  fix k assume "k < LENGTH(32)"
  then show "bit (horner_sum of_bool 2 (b # bs) :: u32) k = bit (of_bool b XOR push_bit 1 (horner_sum of_bool 2 bs) :: u32) k"
    unfolding bits_number bit_xor_iff bit_push_bit_iff bit_of_bool_iff by (cases k) auto
qed

lemma crc32_bits_number:
  "length bs \<le> 32 \<Longrightarrow> foldl crc32_take_bit c bs = (crc32_bit ^^ length bs) (c XOR horner_sum of_bool 2 bs)"
proof (induction bs arbitrary: c)
  case (Cons b bs)
  have "foldl crc32_take_bit (crc32_take_bit c b) bs =
      (crc32_bit ^^ length bs) (crc32_bit (c XOR of_bool b) XOR horner_sum of_bool 2 bs)"
    using Cons.IH [of "crc32_take_bit c b"] Cons.prems
    by (simp add: crc32_take_bit_def [of c b])
  also have "crc32_bit (c XOR of_bool b) XOR horner_sum of_bool 2 bs =
      crc32_bit ((c XOR of_bool b) XOR push_bit 1 (horner_sum of_bool 2 bs))"
    unfolding crc32_bit_xor [of "c XOR of_bool b"] using Cons.prems crc32_bit_double [of bs] by (simp only: length_Cons Suc_le_eq)
  finally show ?case by (simp only: foldl.simps horner_Cons funpow_Suc_right o_def xor.assoc length_Cons)
qed simp

lemma byte_number: "horner_sum of_bool 2 (map (bit (d :: u8)) [0..<8]) = (ucast d :: u32)"
proof (rule bit_word_eqI)
  fix k
  have "bit d k \<Longrightarrow> k < 8" using bit_imp_le_length [of d k] by simp
  then show "bit (horner_sum of_bool 2 (map (bit d) [0..<8]) :: u32) k = bit (ucast d :: u32) k"
    unfolding bits_number bit_ucast_iff by auto
qed

lemma crc32_steps_bits: "foldl crc32_step c data = foldl crc32_take_bit c (data_bits data)"
proof (induction data arbitrary: c)
  case (Cons d data)
  have "foldl crc32_take_bit c (map (bit d) [0..<8]) = crc32_step c d"
    using crc32_bits_number [of "map (bit d) [0..<8]" c] by (simp add: crc32_step_bits byte_number del: upt_Suc)
  with Cons show ?case by (simp add: data_bits_def)
qed (simp add: data_bits_def)

lemma crc32_take_bits_inj: "foldl crc32_take_bit c bs = foldl crc32_take_bit d bs \<Longrightarrow> c = d"
proof (induction bs arbitrary: c d)
  case (Cons b bs)
  then have "crc32_take_bit c b = crc32_take_bit d b" by simp
  then show ?case using inj_crc32_bit by (simp add: crc32_take_bit_def inj_eq word_xor_cancel)
qed simp

lemma crc32_burst_inject:
  assumes "length as = length bs" and "length bs \<le> 32" and "foldl crc32_take_bit c as = foldl crc32_take_bit c bs"
  shows "as = bs"
proof (rule nth_equalityI)
  have "c XOR horner_sum of_bool 2 as = c XOR horner_sum of_bool 2 bs"
    using assms inj_funpow [OF inj_crc32_bit, of "length bs"] by (simp add: crc32_bits_number inj_eq)
  then have "(horner_sum of_bool 2 as :: u32) = horner_sum of_bool 2 bs"
    by (simp only: xor.commute [of c] word_xor_cancel)
  then show "as ! k = bs ! k" if "k < length as" for k
    using bits_number [of as k] bits_number [of bs k] that assms(1,2) by simp
qed (rule assms(1))

text \<open>Two lists that differ inside a window only, cut at the window.\<close>

lemma window_parts:
  assumes "length as = length bs" and "\<And>i. i < length bs \<Longrightarrow> as ! i \<noteq> bs ! i \<Longrightarrow> k \<le> i \<and> i < k + n"
  shows "take k as = take k bs" and "drop n (drop k as) = drop n (drop k bs)"
proof -
  show "take k as = take k bs" 
  proof (rule nth_equalityI)
    fix i assume "i < length (take k as)"
    then show "take k as ! i = take k bs ! i" using assms(1) assms(2) [of i] by auto
  qed (simp add: assms(1))
  show "drop n (drop k as) = drop n (drop k bs)"
  proof (rule nth_equalityI)
    fix i assume "i < length (drop n (drop k as))"
    then show "drop n (drop k as) ! i = drop n (drop k bs) ! i"
      using assms(1) assms(2) [of "i + (k + n)"] by (cases "as ! (i + (k + n)) = bs ! (i + (k + n))") (simp_all add: less_diff_conv ac_simps)
  qed (simp add: assms(1))
qed

section \<open>Properties\<close>

text \<open>
  C18. User space and the kernel module compute the same checksums of the same data, so every entry
  of the two tables is right, and a CRC-16 computed in pieces is that of the whole. Only for a \<open>NULL\<close>
  pointer do they differ: the CRC-32 is 0 in user space and all ones in the kernel.
\<close>

theorem crc_kernel_user_agree:
  "osal_crc16_ccitt data = kernel_osal_crc16_ccitt data \<and>
   osal_crc16_ccitt_update crc data = kernel_osal_crc16_ccitt_update crc data \<and>
   osal_crc16_ccitt_update (osal_crc16_ccitt (Some first)) (Some rest) = osal_crc16_ccitt (Some (first @ rest)) \<and>
   osal_crc16_modbus data = kernel_osal_crc16_modbus data \<and>
   osal_crc32 (Some bytes) = kernel_osal_crc32 (Some bytes) \<and>
   osal_crc32 None = 0 \<and> kernel_osal_crc32 None = 0xFFFFFFFF"
proof -
  have ccitt: "crc16_ccitt_step = (\<lambda>crc d. (ccitt_bit ^^ 8) (crc XOR push_bit 8 (ucast d)))"
    by (intro ext) (rule crc16_ccitt_step_bits)
  have crc32: "crc32_step = (\<lambda>crc d. (crc32_bit ^^ 8) (crc XOR ucast d))"
    by (intro ext) (rule crc32_step_bits)
  have "(0xFFFFFFFF :: u32) = - 1" by simp
  then have all_ones: "x XOR 0xFFFFFFFF = NOT x" for x :: u32 by (simp only: bit.xor_one_right)
  show ?thesis
    by (cases data) (simp_all add: osal_crc16_ccitt_def kernel_osal_crc16_ccitt_def osal_crc16_ccitt_update_def
        kernel_osal_crc16_ccitt_update_def osal_crc16_modbus_def kernel_osal_crc16_modbus_def osal_crc32_def
        kernel_osal_crc32_def ccitt crc32 all_ones)
qed

text \<open>
  C19. The CRC-32 detects every error burst of up to 32 bits: when data of the same length differ, and
  only in bits that lie within 32 bits in a row, wherever these are in the data and however they
  straddle its bytes, the checksums differ. The bits of a byte count from the least significant one.
\<close>

theorem crc32_detects_burst:
  assumes "length data = length changed" and "data \<noteq> changed"
    and "\<And>i. i < 8 * length changed \<Longrightarrow> data_bits data ! i \<noteq> data_bits changed ! i \<Longrightarrow> k \<le> i \<and> i < k + 32"
  shows "osal_crc32 (Some data) \<noteq> osal_crc32 (Some changed)"
proof
  assume "osal_crc32 (Some data) = osal_crc32 (Some changed)"
  then have "foldl crc32_step 0xFFFFFFFF data = foldl crc32_step 0xFFFFFFFF changed"
    by (simp only: osal_crc32_def option.case Let_def word_xor_cancel)
  then have eq: "foldl crc32_take_bit 0xFFFFFFFF (data_bits data) = foldl crc32_take_bit 0xFFFFFFFF (data_bits changed)"
    by (simp only: crc32_steps_bits)
  let ?c = "foldl crc32_take_bit 0xFFFFFFFF (take k (data_bits changed))"
  have split: "bs = take k bs @ take 32 (drop k bs) @ drop 32 (drop k bs)" for bs :: "bool list"
    by (simp only: append_take_drop_id)
  have len: "length (data_bits data) = length (data_bits changed)" using assms(1) by (simp add: length_data_bits)
  note w = window_parts [OF len assms(3), unfolded length_data_bits]
  have "foldl crc32_take_bit ?c (take 32 (drop k (data_bits data)) @ drop 32 (drop k (data_bits changed))) =
      foldl crc32_take_bit ?c (take 32 (drop k (data_bits changed)) @ drop 32 (drop k (data_bits changed)))"
    using eq w split by (metis foldl_append)
  then have "foldl crc32_take_bit ?c (take 32 (drop k (data_bits data))) =
      foldl crc32_take_bit ?c (take 32 (drop k (data_bits changed)))"
    by (simp only: foldl_append) (rule crc32_take_bits_inj)
  then have "take 32 (drop k (data_bits data)) = take 32 (drop k (data_bits changed))"
    by (rule crc32_burst_inject [rotated 2]) (simp_all add: len)
  with w split have "data_bits data = data_bits changed" by metis
  with assms(1,2) show False using data_bits_inject by blast
qed

text \<open>A burst of 32 bits over five bytes, from bit 4 of the second on.\<close>

lemma crc32_detects_burst_witness:
  "osal_crc32 (Some [1, 0x10, 0, 0, 0, 0x08, 5]) \<noteq> osal_crc32 (Some [1, 0, 0, 0, 0, 0, 5])"
proof (rule crc32_detects_burst [of _ _ 12])
  fix i assume "i < 8 * length [1, 0, 0, 0, 0, 0, 5 :: u8]"
  then have "i \<in> set [0..<56]" by simp
  then show "data_bits [1, 0x10, 0, 0, 0, 0x08, 5] ! i \<noteq> data_bits [1, 0, 0, 0, 0, 0, 5] ! i \<Longrightarrow> 12 \<le> i \<and> i < 12 + 32"
    by (simp add: data_bits_def upt_rec) auto
qed simp_all

end
