(* ===== verification/Osal_File.thy ===== *)
theory Osal_File
  imports Lpf_Base
begin

unbundle bit_operations_syntax

text \<open>
  Files in the user library, \<open>src/user/osal/src/sys/osal_file.c\<close>: the flags and modes of the library are
  translated to those of the system, and the flags of an open file back. The system calls are arguments;
  the constants of the system are those of Linux.
\<close>

section \<open>Flags\<close>

abbreviation (input) OSAL_O_RDONLY :: u32 where "OSAL_O_RDONLY \<equiv> 0x0000"
abbreviation (input) OSAL_O_WRONLY :: u32 where "OSAL_O_WRONLY \<equiv> 0x0001"
abbreviation (input) OSAL_O_RDWR :: u32 where "OSAL_O_RDWR \<equiv> 0x0002"
abbreviation (input) OSAL_O_CREAT :: u32 where "OSAL_O_CREAT \<equiv> 0x0040"
abbreviation (input) OSAL_O_EXCL :: u32 where "OSAL_O_EXCL \<equiv> 0x0080"
abbreviation (input) OSAL_O_TRUNC :: u32 where "OSAL_O_TRUNC \<equiv> 0x0200"
abbreviation (input) OSAL_O_APPEND :: u32 where "OSAL_O_APPEND \<equiv> 0x0400"
abbreviation (input) OSAL_O_NONBLOCK :: u32 where "OSAL_O_NONBLOCK \<equiv> 0x0800"
abbreviation (input) OSAL_O_NOCTTY :: u32 where "OSAL_O_NOCTTY \<equiv> 0x8000"

abbreviation (input) O_ACCMODE :: u32 where "O_ACCMODE \<equiv> 0x0003"
abbreviation (input) O_CREAT :: u32 where "O_CREAT \<equiv> 0x0040"
abbreviation (input) O_EXCL :: u32 where "O_EXCL \<equiv> 0x0080"
abbreviation (input) O_NOCTTY :: u32 where "O_NOCTTY \<equiv> 0x0100"
abbreviation (input) O_TRUNC :: u32 where "O_TRUNC \<equiv> 0x0200"
abbreviation (input) O_APPEND :: u32 where "O_APPEND \<equiv> 0x0400"
abbreviation (input) O_NONBLOCK :: u32 where "O_NONBLOCK \<equiv> 0x0800"

text \<open>\<open>if (flags & src) result |= dst\<close>.\<close>

definition flag_if :: "u32 \<Rightarrow> u32 \<Rightarrow> u32 \<Rightarrow> u32 \<Rightarrow> u32" where
  "flag_if flags src dst result = (if flags AND src \<noteq> 0 then result OR dst else result)"

definition access_mode :: "u32 \<Rightarrow> u32" where
  "access_mode flags =
     (if flags AND 0x0003 = OSAL_O_RDONLY then 0
      else if flags AND 0x0003 = OSAL_O_WRONLY then 1
      else if flags AND 0x0003 = OSAL_O_RDWR then 2
      else 0)"

definition osal_flags_to_posix :: "u32 \<Rightarrow> u32" where
  "osal_flags_to_posix flags =
     flag_if flags OSAL_O_NOCTTY O_NOCTTY (flag_if flags OSAL_O_NONBLOCK O_NONBLOCK
     (flag_if flags OSAL_O_APPEND O_APPEND (flag_if flags OSAL_O_TRUNC O_TRUNC
     (flag_if flags OSAL_O_EXCL O_EXCL (flag_if flags OSAL_O_CREAT O_CREAT (access_mode flags))))))"

definition posix_flags_to_osal :: "u32 \<Rightarrow> u32" where
  "posix_flags_to_osal flags =
     flag_if flags O_NOCTTY OSAL_O_NOCTTY (flag_if flags O_NONBLOCK OSAL_O_NONBLOCK
     (flag_if flags O_APPEND OSAL_O_APPEND (flag_if flags O_TRUNC OSAL_O_TRUNC
     (flag_if flags O_EXCL OSAL_O_EXCL (flag_if flags O_CREAT OSAL_O_CREAT (access_mode flags))))))"

definition osal_mode_to_posix :: "u32 \<Rightarrow> u32" where
  "osal_mode_to_posix mode =
     flag_if mode 0x0001 0x0001 (flag_if mode 0x0002 0x0002 (flag_if mode 0x0004 0x0004
     (flag_if mode 0x0008 0x0008 (flag_if mode 0x0010 0x0010 (flag_if mode 0x0020 0x0020
     (flag_if mode 0x0040 0x0040 (flag_if mode 0x0080 0x0080 (flag_if mode 0x0100 0x0100 0))))))))"

section \<open>Operations\<close>

definition user_open :: "(string \<Rightarrow> u32 \<Rightarrow> u32 \<Rightarrow> int) \<Rightarrow> string \<Rightarrow> u32 \<Rightarrow> u32 \<Rightarrow> int" where
  "user_open sys_open pathname flags mode = sys_open pathname (osal_flags_to_posix flags) (osal_mode_to_posix mode)"

abbreviation (input) F_GETFD :: int where "F_GETFD \<equiv> 1"
abbreviation (input) F_SETFD :: int where "F_SETFD \<equiv> 2"
abbreviation (input) F_GETFL :: int where "F_GETFL \<equiv> 3"
abbreviation (input) F_SETFL :: int where "F_SETFL \<equiv> 4"

definition user_fcntl :: "(int \<Rightarrow> int \<Rightarrow> u32 \<Rightarrow> int) \<Rightarrow> int \<Rightarrow> int \<Rightarrow> u32 \<Rightarrow> int" where
  "user_fcntl sys_fcntl fd cmd arg =
     (if cmd = F_GETFL then
        (let result = sys_fcntl fd F_GETFL 0
         in if 0 \<le> result then sint (posix_flags_to_osal (word_of_int result)) else result)
      else if cmd = F_SETFL then sys_fcntl fd F_SETFL (osal_flags_to_posix arg)
      else if cmd = F_GETFD then sys_fcntl fd F_GETFD 0
      else if cmd = F_SETFD then sys_fcntl fd F_SETFD arg
      else sys_fcntl fd cmd arg)"

section \<open>Properties\<close>

lemma and_flag: "i < 32 \<Longrightarrow> (flags :: u32) AND 2 ^ i \<noteq> 0 \<longleftrightarrow> bit flags i"
  by (simp add: and_exp_eq_0_iff_not_bit)

lemma bit_flag_if:
  assumes "i < 32" and "j < 32"
  shows "bit (flag_if flags (2 ^ i) (2 ^ j) r) n \<longleftrightarrow> bit r n \<or> bit flags i \<and> n = j"
  using and_flag [OF assms(1), of flags] assms(2) by (auto simp: flag_if_def bit_simps)

lemma flag_powers:
  "flag_if f 0x1 0x1 = flag_if f (2 ^ 0) (2 ^ 0)" "flag_if f 0x2 0x2 = flag_if f (2 ^ 1) (2 ^ 1)"
  "flag_if f 0x4 0x4 = flag_if f (2 ^ 2) (2 ^ 2)" "flag_if f 0x8 0x8 = flag_if f (2 ^ 3) (2 ^ 3)"
  "flag_if f 0x10 0x10 = flag_if f (2 ^ 4) (2 ^ 4)" "flag_if f 0x20 0x20 = flag_if f (2 ^ 5) (2 ^ 5)"
  "flag_if f 0x40 0x40 = flag_if f (2 ^ 6) (2 ^ 6)" "flag_if f 0x80 0x80 = flag_if f (2 ^ 7) (2 ^ 7)"
  "flag_if f 0x100 0x100 = flag_if f (2 ^ 8) (2 ^ 8)"
  "flag_if f 0x200 0x200 = flag_if f (2 ^ 9) (2 ^ 9)" "flag_if f 0x400 0x400 = flag_if f (2 ^ 10) (2 ^ 10)"
  "flag_if f 0x800 0x800 = flag_if f (2 ^ 11) (2 ^ 11)"
  "flag_if f 0x8000 0x100 = flag_if f (2 ^ 15) (2 ^ 8)" "flag_if f 0x100 0x8000 = flag_if f (2 ^ 8) (2 ^ 15)"
  by simp_all

lemma access_mode_low: "access_mode f = (if f AND 3 = 3 then 0 else f AND 3)"
proof -
  have "f AND 3 = take_bit 2 f" by (simp add: take_bit_eq_mask mask_eq_exp_minus_1)
  then have "unat (f AND 3) < 4" by (simp add: unsigned_take_bit_eq take_bit_nat_less_exp [of 2, simplified])
  then obtain k where k: "f AND 3 = of_nat k" "k < 4" by (intro that [of "unat (f AND 3)"]) simp_all
  then consider "k = 0" | "k = 1" | "k = 2" | "k = 3" by linarith
  then show ?thesis using k(1) by cases (simp_all add: access_mode_def)
qed

lemma bit_access_mode: "bit (access_mode f) n \<longleftrightarrow> f AND 3 \<noteq> 3 \<and> bit f n \<and> n < 2"
proof -
  have "bit (3 :: u32) n \<longleftrightarrow> n < 2" using bit_mask_iff [of 2 n, where ?'a = u32] by (auto simp: mask_eq_exp_minus_1)
  then show ?thesis by (auto simp: access_mode_low bit_and_iff)
qed

lemma bit_to_posix:
  "bit (osal_flags_to_posix f) n \<longleftrightarrow> f AND 3 \<noteq> 3 \<and> bit f n \<and> n < 2 \<or> bit f n \<and> n \<in> {6, 7, 9, 10, 11} \<or> bit f 15 \<and> n = 8"
  unfolding osal_flags_to_posix_def flag_powers by (simp only: bit_flag_if bit_access_mode) auto

lemma bit_to_osal:
  "bit (posix_flags_to_osal f) n \<longleftrightarrow> f AND 3 \<noteq> 3 \<and> bit f n \<and> n < 2 \<or> bit f n \<and> n \<in> {6, 7, 9, 10, 11} \<or> bit f 8 \<and> n = 15"
  unfolding posix_flags_to_osal_def flag_powers by (simp only: bit_flag_if bit_access_mode) auto

definition OSAL_FLAGS :: u32 where "OSAL_FLAGS = 0x8EC3"
definition POSIX_FLAGS :: u32 where "POSIX_FLAGS = 0x0FC3"

lemma known_flags:
  "OSAL_FLAGS = 2 ^ 0 OR 2 ^ 1 OR 2 ^ 6 OR 2 ^ 7 OR 2 ^ 9 OR 2 ^ 10 OR 2 ^ 11 OR 2 ^ 15"
  "POSIX_FLAGS = 2 ^ 0 OR 2 ^ 1 OR 2 ^ 6 OR 2 ^ 7 OR 2 ^ 8 OR 2 ^ 9 OR 2 ^ 10 OR 2 ^ 11"
  by (simp_all add: OSAL_FLAGS_def POSIX_FLAGS_def)

lemma bit_known:
  "bit OSAL_FLAGS n \<longleftrightarrow> n < 2 \<or> n \<in> {6, 7, 9, 10, 11, 15}" "bit POSIX_FLAGS n \<longleftrightarrow> n < 2 \<or> n \<in> {6, 7, 8, 9, 10, 11}"
  unfolding known_flags by (simp_all only: bit_or_iff bit_exp_iff possible_bit_word insert_iff empty_iff, simp_all, presburger+)

lemma low_bits: "(f :: u32) AND 3 = g AND 3 \<longleftrightarrow> (\<forall>n < 2. bit f n = bit g n)"
proof -
  have "bit (3 :: u32) n \<longleftrightarrow> n < 2" for n using bit_mask_iff [of 2 n, where ?'a = u32] by (auto simp: mask_eq_exp_minus_1)
  then show ?thesis by (auto simp: bit_eq_iff bit_and_iff)
qed

lemma low_to_posix: "f AND 3 \<noteq> 3 \<Longrightarrow> osal_flags_to_posix f AND 3 = f AND 3"
  by (subst low_bits) (simp add: bit_to_posix)

lemma low_to_osal: "f AND 3 \<noteq> 3 \<Longrightarrow> posix_flags_to_osal f AND 3 = f AND 3"
  by (subst low_bits) (simp add: bit_to_osal)

lemma flags_there_and_back:
  assumes "f AND 3 \<noteq> 3"
  shows "posix_flags_to_osal (osal_flags_to_posix f) = f AND OSAL_FLAGS"
    and "osal_flags_to_posix (posix_flags_to_osal f) = f AND POSIX_FLAGS"
proof -
  show "posix_flags_to_osal (osal_flags_to_posix f) = f AND OSAL_FLAGS"
    by (rule bit_word_eqI) (use assms in \<open>auto simp: bit_to_osal bit_to_posix bit_and_iff bit_known low_to_posix\<close>)
  show "osal_flags_to_posix (posix_flags_to_osal f) = f AND POSIX_FLAGS"
    by (rule bit_word_eqI) (use assms in \<open>auto simp: bit_to_osal bit_to_posix bit_and_iff bit_known low_to_osal\<close>)
qed

lemma bit_to_mode: "bit (osal_mode_to_posix m) n \<longleftrightarrow> bit m n \<and> n \<in> {0, 1, 2, 3, 4, 5, 6, 7, 8}"
proof -
  have "bit (osal_mode_to_posix m) n \<longleftrightarrow> (((((((((bit (0 :: u32) n \<or> bit m 8 \<and> n = 8) \<or> bit m 7 \<and> n = 7) \<or> bit m 6 \<and> n = 6) \<or>
      bit m 5 \<and> n = 5) \<or> bit m 4 \<and> n = 4) \<or> bit m 3 \<and> n = 3) \<or> bit m 2 \<and> n = 2) \<or> bit m 1 \<and> n = 1) \<or> bit m 0 \<and> n = 0)"
    unfolding osal_mode_to_posix_def flag_powers by (simp only: bit_flag_if)
  then show ?thesis by auto
qed

text \<open>
  Translating flags to the system and back gives the flags again, without those the library does not
  know, and so does translating in the other direction; the bits of a mode are the nine permissions.
  Writing back the flags that were read from a file therefore clears every flag that the library does not know.
\<close>

theorem file_flags_roundtrip:
  assumes "f AND 3 \<noteq> 3"
  shows "posix_flags_to_osal (osal_flags_to_posix f) = f AND OSAL_FLAGS \<and>
    osal_flags_to_posix (posix_flags_to_osal f) = f AND POSIX_FLAGS \<and>
    osal_mode_to_posix m = m AND 0x1FF \<and>
    (sys_fcntl fd F_GETFL 0 = uint f \<longrightarrow>
       user_fcntl sys_fcntl fd F_SETFL (word_of_int (user_fcntl sys_fcntl fd F_GETFL 0)) =
       sys_fcntl fd F_SETFL (f AND POSIX_FLAGS))"
proof -
  have mask: "bit (0x1FF :: u32) n \<longleftrightarrow> n < 9" for n
    using bit_mask_iff [of 9 n, where ?'a = u32] by (auto simp: mask_eq_exp_minus_1)
  have "n < 9 \<longleftrightarrow> n \<in> {0, 1, 2, 3, 4, 5, 6, 7, 8 :: nat}" for n by auto
  then have "osal_mode_to_posix m = m AND 0x1FF"
    by (intro bit_word_eqI) (simp only: bit_to_mode bit_and_iff mask)
  then show ?thesis using flags_there_and_back [OF assms] by (simp add: user_fcntl_def)
qed

lemma file_flags_roundtrip_witness:
  "posix_flags_to_osal (osal_flags_to_posix (OSAL_O_RDWR OR OSAL_O_CREAT OR OSAL_O_NOCTTY)) = OSAL_O_RDWR OR OSAL_O_CREAT OR OSAL_O_NOCTTY"
  using file_flags_roundtrip [of "OSAL_O_RDWR OR OSAL_O_CREAT OR OSAL_O_NOCTTY" 0 "\<lambda>fd cmd arg. 0" 0] by (simp add: OSAL_FLAGS_def)

end
