(* ===== verification/Osal_Flock.thy ===== *)
theory Osal_Flock
  imports Osal_Base "HOL-Library.Signed_Division"
begin

text \<open>
  The file locks of the user library, \<open>src/user/osal/src/lib/osal_flock.c\<close>, over the locks of \<open>fcntl\<close>:
  several processes with handles on files. POSIX gives these locks to a process, not to a descriptor,
  and closing any descriptor of a file drops the locks of the process on it.
\<close>

section \<open>The kernel's side\<close>

datatype flock_type = OSAL_FLOCK_SHARED | OSAL_FLOCK_EXCLUSIVE

record osal_flock =
  fl_fd :: nat
  fl_lock_file :: string
  fl_current_type :: flock_type
  fl_is_locked :: bool

text \<open>
  Processes, descriptors and addresses are numbers, a file is its path. \<open>fs_locks\<close> is the lock of a process
  on a whole file.
\<close>

record flock_sys =
  fs_fds :: "nat \<Rightarrow> nat \<Rightarrow> string option"
  fs_locks :: "string \<Rightarrow> nat \<Rightarrow> flock_type option"
  fs_handles :: "nat \<Rightarrow> nat \<Rightarrow> osal_flock option"

definition locks_conflict :: "flock_type \<Rightarrow> flock_type \<Rightarrow> bool" where
  "locks_conflict a b \<longleftrightarrow> a = OSAL_FLOCK_EXCLUSIVE \<or> b = OSAL_FLOCK_EXCLUSIVE"

text \<open>
  The lock table is a list of processes with locks on the file, so that conflicts can be computed:
  \<open>procs\<close> are the processes of the system.
\<close>

definition lock_blocked :: "nat list \<Rightarrow> nat \<Rightarrow> string \<Rightarrow> flock_type \<Rightarrow> flock_sys \<Rightarrow> bool" where
  "lock_blocked procs p path ty s \<longleftrightarrow>
     list_ex (\<lambda>q. q \<noteq> p \<and> (case fs_locks s path q of None \<Rightarrow> False | Some b \<Rightarrow> locks_conflict ty b)) procs"

definition set_lock :: "nat \<Rightarrow> string \<Rightarrow> flock_type option \<Rightarrow> flock_sys \<Rightarrow> flock_sys" where
  "set_lock p path l s = s\<lparr>fs_locks := (fs_locks s)(path := (fs_locks s path)(p := l))\<rparr>"

definition close_fd :: "nat \<Rightarrow> nat \<Rightarrow> flock_sys \<Rightarrow> flock_sys" where
  "close_fd p fd s =
     (case fs_fds s p fd of
        None \<Rightarrow> s
      | Some path \<Rightarrow> set_lock p path None (s\<lparr>fs_fds := (fs_fds s)(p := (fs_fds s p)(fd := None))\<rparr>))"

text \<open>
  \<open>fcntl\<close> with \<open>F_SETLK\<close> and \<open>F_SETLKW\<close>: \<open>fail\<close> is an error other than a conflict. Waiting for a lock
  that is never given up has the result \<open>None\<close>.
\<close>

definition flock_do_lock ::
  "bool \<Rightarrow> nat list \<Rightarrow> nat \<Rightarrow> nat \<Rightarrow> flock_type \<Rightarrow> bool \<Rightarrow> flock_sys \<Rightarrow> (int \<times> flock_sys) option" where
  "flock_do_lock fail procs p fd ty wait s =
     (case fs_fds s p fd of
        None \<Rightarrow> Some (OSAL_ERR_GENERIC, s)
      | Some path \<Rightarrow>
          if fail then Some (OSAL_ERR_GENERIC, s)
          else if lock_blocked procs p path ty s then (if wait then None else Some (OSAL_ERR_BUSY, s))
          else Some (OSAL_SUCCESS, set_lock p path (Some ty) s))"

definition flock_do_unlock :: "bool \<Rightarrow> nat \<Rightarrow> nat \<Rightarrow> flock_sys \<Rightarrow> int \<times> flock_sys" where
  "flock_do_unlock fail p fd s =
     (case fs_fds s p fd of
        None \<Rightarrow> (OSAL_ERR_GENERIC, s)
      | Some path \<Rightarrow> if fail then (OSAL_ERR_GENERIC, s) else (OSAL_SUCCESS, set_lock p path None s))"

section \<open>Operations\<close>

definition put_flock :: "nat \<Rightarrow> nat \<Rightarrow> osal_flock option \<Rightarrow> flock_sys \<Rightarrow> flock_sys" where
  "put_flock p a h s = s\<lparr>fs_handles := (fs_handles s)(p := (fs_handles s p)(a := h))\<rparr>"

text \<open>
  The answers of \<open>malloc\<close> and \<open>open\<close> are the address and the descriptor. A null pointer is \<open>None\<close>. The
  path in the handle is cut to 255 characters, the one that is opened is not.
\<close>

definition osal_flock_create ::
  "nat option \<Rightarrow> nat option \<Rightarrow> nat \<Rightarrow> string option \<Rightarrow> bool \<Rightarrow> flock_sys \<Rightarrow> int \<times> nat option \<times> flock_sys" where
  "osal_flock_create malloc fd_opened p lock_file out s =
     (case lock_file of
        None \<Rightarrow> (OSAL_ERR_INVALID_POINTER, None, s)
      | Some path \<Rightarrow>
          if \<not> out then (OSAL_ERR_INVALID_POINTER, None, s)
          else case malloc of
            None \<Rightarrow> (OSAL_ERR_NO_MEMORY, None, s)
          | Some a \<Rightarrow>
              (case fd_opened of
                 None \<Rightarrow> (OSAL_ERR_GENERIC, None, s)
               | Some fd \<Rightarrow>
                   (OSAL_SUCCESS, Some a,
                    put_flock p a (Some \<lparr>fl_fd = fd, fl_lock_file = strscpy 256 path,
                        fl_current_type = OSAL_FLOCK_SHARED, fl_is_locked = False\<rparr>)
                      (s\<lparr>fs_fds := (fs_fds s)(p := (fs_fds s p)(fd \<mapsto> path))\<rparr>))))"

definition flock_at :: "nat \<Rightarrow> nat \<Rightarrow> flock_sys \<Rightarrow> osal_flock" where
  "flock_at p a s = the (fs_handles s p a)"

definition osal_flock_unlock :: "bool \<Rightarrow> nat \<Rightarrow> nat option \<Rightarrow> flock_sys \<Rightarrow> int \<times> flock_sys" where
  "osal_flock_unlock fail p flock s =
     (case flock of
        None \<Rightarrow> (OSAL_ERR_INVALID_POINTER, s)
      | Some a \<Rightarrow>
          let h = flock_at p a s in
          if \<not> fl_is_locked h then (OSAL_SUCCESS, s)
          else case flock_do_unlock fail p (fl_fd h) s of (ret, s) \<Rightarrow>
            (ret, if ret = OSAL_SUCCESS then put_flock p a (Some (h\<lparr>fl_is_locked := False\<rparr>)) s else s))"

definition osal_flock_destroy :: "bool \<Rightarrow> nat \<Rightarrow> nat option \<Rightarrow> flock_sys \<Rightarrow> int \<times> flock_sys" where
  "osal_flock_destroy fail p flock s =
     (case flock of
        None \<Rightarrow> (OSAL_ERR_INVALID_POINTER, s)
      | Some a \<Rightarrow>
          let s1 = (if fl_is_locked (flock_at p a s) then snd (osal_flock_unlock fail p (Some a) s) else s);
              s2 = close_fd p (fl_fd (flock_at p a s1)) s1
          in (OSAL_SUCCESS, put_flock p a None s2))"

definition flock_lock_with ::
  "bool \<Rightarrow> bool \<Rightarrow> nat list \<Rightarrow> nat \<Rightarrow> nat option \<Rightarrow> flock_type \<Rightarrow> flock_sys \<Rightarrow> (int \<times> flock_sys) option" where
  "flock_lock_with wait fail procs p flock ty s =
     (case flock of
        None \<Rightarrow> Some (OSAL_ERR_INVALID_POINTER, s)
      | Some a \<Rightarrow>
          let h = flock_at p a s in
          map_option (\<lambda>(ret, s).
              (ret, if ret = OSAL_SUCCESS
                    then put_flock p a (Some (h\<lparr>fl_is_locked := True, fl_current_type := ty\<rparr>)) s else s))
            (flock_do_lock fail procs p (fl_fd h) ty wait s))"

definition osal_flock_lock ::
  "bool \<Rightarrow> nat list \<Rightarrow> nat \<Rightarrow> nat option \<Rightarrow> flock_type \<Rightarrow> flock_sys \<Rightarrow> (int \<times> flock_sys) option" where
  "osal_flock_lock = flock_lock_with True"

definition osal_flock_try_lock ::
  "bool \<Rightarrow> nat list \<Rightarrow> nat \<Rightarrow> nat option \<Rightarrow> flock_type \<Rightarrow> flock_sys \<Rightarrow> (int \<times> flock_sys) option" where
  "osal_flock_try_lock = flock_lock_with False"

text \<open>
  The loop of the lock with a limit. A round is what \<open>osal_flock_try_lock\<close> returned and the clock, seconds
  and nanoseconds, after it; a list that is too short gives \<open>None\<close>. Division cuts towards zero, as in C.
\<close>

definition flock_elapsed_ms :: "int \<times> int \<Rightarrow> int \<times> int \<Rightarrow> u64" where
  "flock_elapsed_ms start now =
     of_int ((fst now - fst start) * 1000 + (snd now - snd start) sdiv 1000000)"

fun flock_timed_loop :: "int \<times> int \<Rightarrow> u32 \<Rightarrow> (int \<times> (int \<times> int)) list \<Rightarrow> int option" where
  "flock_timed_loop start timeout_ms [] = None"
| "flock_timed_loop start timeout_ms ((ret, now) # rounds) =
     (if ret = OSAL_SUCCESS then Some OSAL_SUCCESS
      else if ret \<noteq> OSAL_ERR_BUSY then Some ret
      else if ucast timeout_ms \<le> flock_elapsed_ms start now then Some OSAL_ERR_TIMEOUT
      else flock_timed_loop start timeout_ms rounds)"

definition osal_flock_timed_lock ::
  "nat option \<Rightarrow> u32 \<Rightarrow> int \<times> int \<Rightarrow> (int \<times> (int \<times> int)) list \<Rightarrow> int option" where
  "osal_flock_timed_lock flock timeout_ms start rounds =
     (if flock = None then Some OSAL_ERR_INVALID_POINTER
      else if timeout_ms = 0 then (case rounds of [] \<Rightarrow> None | (ret, _) # _ \<Rightarrow> Some ret)
      else flock_timed_loop start timeout_ms rounds)"

section \<open>Time\<close>

definition clock_ns :: "int \<times> int \<Rightarrow> int" where
  "clock_ns t = fst t * 1000000000 + snd t"

definition clock_ok :: "int \<times> int \<Rightarrow> bool" where
  "clock_ok t \<longleftrightarrow> 0 \<le> fst t \<and> fst t < 2 ^ 50 \<and> 0 \<le> snd t \<and> snd t < 1000000000"

text \<open>What is taken as the time that passed is less than a millisecond away from it.\<close>

lemma elapsed_exact:
  assumes "clock_ok start" and "clock_ok now" and "clock_ns start \<le> clock_ns now"
  shows "\<exists>e. flock_elapsed_ms start now = of_int e \<and> 0 \<le> e \<and> e < 2 ^ 63 \<and>
     \<bar>e * 1000000 - (clock_ns now - clock_ns start)\<bar> < 1000000"
proof -
  define ds dn where "ds = fst now - fst start" and "dn = snd now - snd start"
  have dn: "- 1000000000 < dn" "dn < 1000000000" and d: "0 \<le> ds * 1000000000 + dn" "ds < 2 ^ 50"
    using assms by (auto simp: clock_ok_def clock_ns_def ds_def dn_def)
  have q: "\<bar>(dn sdiv 1000000) * 1000000 - dn\<bar> < 1000000 \<and> \<bar>dn sdiv 1000000\<bar> < 1000"
  proof (cases "0 \<le> dn")
    case True
    then have "dn sdiv 1000000 = dn div 1000000" by (simp add: signed_divide_int_def sgn_if)
    moreover have "dn = dn div 1000000 * 1000000 + dn mod 1000000" "0 \<le> dn mod 1000000" "dn mod 1000000 < 1000000"
      by simp_all
    ultimately show ?thesis using True dn by linarith
  next
    case False
    then have "dn sdiv 1000000 = - ((- dn) div 1000000)" by (simp add: signed_divide_int_def sgn_if)
    moreover have "- dn = (- dn) div 1000000 * 1000000 + (- dn) mod 1000000"
      "0 \<le> (- dn) mod 1000000" "(- dn) mod 1000000 < 1000000"
      by simp_all
    ultimately show ?thesis using False dn by linarith
  qed
  have "flock_elapsed_ms start now = of_int (ds * 1000 + dn sdiv 1000000)"
    by (simp add: flock_elapsed_ms_def ds_def dn_def)
  moreover have "clock_ns now - clock_ns start = ds * 1000000000 + dn"
    by (simp add: clock_ns_def ds_def dn_def)
  ultimately show ?thesis
    using d q by (intro exI [of _ "ds * 1000 + dn sdiv 1000000"]) auto
qed

text \<open>The rounds of the loop are later and later.\<close>

fun rounds_ok :: "int \<times> int \<Rightarrow> (int \<times> (int \<times> int)) list \<Rightarrow> bool" where
  "rounds_ok start [] \<longleftrightarrow> True"
| "rounds_ok start ((ret, now) # rounds) \<longleftrightarrow>
     clock_ok now \<and> clock_ns start \<le> clock_ns now \<and> rounds_ok start rounds"

definition passed :: "int \<times> int \<Rightarrow> int \<times> (int \<times> int) \<Rightarrow> int" where
  "passed start round = clock_ns (snd round) - clock_ns start"

lemma elapsed_compare:
  fixes timeout_ms :: u32
  assumes "clock_ok start" and "clock_ok now" and "clock_ns start \<le> clock_ns now"
  shows "int (unat timeout_ms) * 1000000 \<le> clock_ns now - clock_ns start \<Longrightarrow> ucast timeout_ms \<le> flock_elapsed_ms start now"
    and "ucast timeout_ms \<le> flock_elapsed_ms start now \<Longrightarrow>
      (int (unat timeout_ms) - 1) * 1000000 < clock_ns now - clock_ns start"
proof -
  obtain e where e: "flock_elapsed_ms start now = of_int e" "0 \<le> e" "e < 2 ^ 63"
    "\<bar>e * 1000000 - (clock_ns now - clock_ns start)\<bar> < 1000000"
    using elapsed_exact [OF assms] by blast
  have "uint (of_int e :: u64) = e" using e(2,3) by (simp add: uint_word_of_int)
  moreover have "uint (ucast timeout_ms :: u64) = uint timeout_ms"
  proof -
    have "uint timeout_ms < 2 ^ 64" by (rule order_less_le_trans [OF uint_lt2p]) simp
    then have "take_bit 64 (uint timeout_ms) = uint timeout_ms" by (intro take_bit_int_eq_self) simp_all
    then show ?thesis by (simp add: unsigned_ucast_eq)
  qed
  ultimately have "(ucast timeout_ms \<le> flock_elapsed_ms start now) = (int (unat timeout_ms) \<le> e)"
    by (simp add: e(1) word_le_def)
  with e(4) show "int (unat timeout_ms) * 1000000 \<le> clock_ns now - clock_ns start \<Longrightarrow> ucast timeout_ms \<le> flock_elapsed_ms start now"
    and "ucast timeout_ms \<le> flock_elapsed_ms start now \<Longrightarrow>
      (int (unat timeout_ms) - 1) * 1000000 < clock_ns now - clock_ns start"
    by auto
qed

lemma timed_loop_spec:
  assumes "clock_ok start" and "rounds_ok start rounds"
    and "\<exists>r \<in> set rounds. int (unat timeout_ms) * 1000000 \<le> passed start r"
  shows "\<exists>k r. k < length rounds \<and> flock_timed_loop start timeout_ms rounds = Some r \<and>
     (\<forall>j < k. fst (rounds ! j) = OSAL_ERR_BUSY \<and> passed start (rounds ! j) < int (unat timeout_ms) * 1000000) \<and>
     (if fst (rounds ! k) = OSAL_ERR_BUSY
      then r = OSAL_ERR_TIMEOUT \<and> (int (unat timeout_ms) - 1) * 1000000 < passed start (rounds ! k)
      else r = fst (rounds ! k))"
  using assms(2,3)
proof (induction rounds)
  case (Cons x rounds)
  obtain ret now where x: "x = (ret, now)" by (cases x)
  have ok: "clock_ok now" "clock_ns start \<le> clock_ns now" using Cons.prems(1) by (simp_all add: x)
  note cmp = elapsed_compare [OF assms(1) ok, of timeout_ms]
  show ?case
  proof (cases "ret = OSAL_ERR_BUSY \<and> \<not> ucast timeout_ms \<le> flock_elapsed_ms start now")
    case False
    then show ?thesis using cmp(2)
      by (intro exI [of _ 0] exI [of _ "if ret = OSAL_ERR_BUSY then OSAL_ERR_TIMEOUT else ret"]) (auto simp: x passed_def)
  next
    case True
    then have "\<not> int (unat timeout_ms) * 1000000 \<le> clock_ns now - clock_ns start" using cmp(1) by blast
    then have early: "passed start x < int (unat timeout_ms) * 1000000" by (simp add: x passed_def)
    then have "\<exists>r \<in> set rounds. int (unat timeout_ms) * 1000000 \<le> passed start r" using Cons.prems(2) by auto
    then obtain k r where k: "k < length rounds" "flock_timed_loop start timeout_ms rounds = Some r"
      "\<forall>j < k. fst (rounds ! j) = OSAL_ERR_BUSY \<and> passed start (rounds ! j) < int (unat timeout_ms) * 1000000"
      "if fst (rounds ! k) = OSAL_ERR_BUSY
       then r = OSAL_ERR_TIMEOUT \<and> (int (unat timeout_ms) - 1) * 1000000 < passed start (rounds ! k)
       else r = fst (rounds ! k)"
      using Cons.IH Cons.prems(1) by (auto simp: x)
    have "\<forall>j < Suc k. fst ((x # rounds) ! j) = OSAL_ERR_BUSY \<and> passed start ((x # rounds) ! j) < int (unat timeout_ms) * 1000000"
      using k(3) early True by (auto simp: x nth_Cons split: nat.splits)
    moreover have "flock_timed_loop start timeout_ms (x # rounds) = Some r" using k(2) True by (simp add: x)
    ultimately show ?thesis using k(1,4) by (intro exI [of _ "Suc k"] exI [of _ r]) (auto split: if_splits)
  qed
qed simp

text \<open>
  Locking with a limit returns as soon as a try does not find the lock busy, and otherwise with a
  time-out in the first round that begins when the limit has passed, or less than a millisecond
  before, but not earlier.
\<close>

theorem flock_timed_lock_returns:
  assumes "timeout_ms \<noteq> 0" and "clock_ok start" and "rounds_ok start rounds"
    and "\<exists>r \<in> set rounds. int (unat timeout_ms) * 1000000 \<le> passed start r"
  shows "\<exists>k r. k < length rounds \<and> osal_flock_timed_lock (Some a) timeout_ms start rounds = Some r \<and>
     (\<forall>j < k. fst (rounds ! j) = OSAL_ERR_BUSY \<and> passed start (rounds ! j) < int (unat timeout_ms) * 1000000) \<and>
     (if fst (rounds ! k) = OSAL_ERR_BUSY
      then r = OSAL_ERR_TIMEOUT \<and> (int (unat timeout_ms) - 1) * 1000000 < passed start (rounds ! k)
      else r = fst (rounds ! k))"
  using timed_loop_spec [OF assms(2-4)] assms(1) by (simp add: osal_flock_timed_lock_def)

text \<open>A limit of two milliseconds that is noticed 1.5 milliseconds after the start.\<close>

lemma flock_timed_lock_returns_witness:
  "osal_flock_timed_lock (Some 5) 2 (0, 999000000) [(16, (1, 1000000))] = Some 110"
  using flock_timed_lock_returns [of 2 "(0, 999000000)" "[(16, (1, 1000000))]" 5]
  by (simp add: clock_ok_def clock_ns_def passed_def)

end
