(* ===== verification/Osal_Flock_Procs.thy ===== *)
theory Osal_Flock_Procs
  imports Osal_Flock
begin

text \<open>
  Several processes with file locks: when a lock that the library says is held really is, and when not.
\<close>

section \<open>Processes\<close>

text \<open>
  A call of a process, with the answers of the C library and the kernel; the last is the end of the
  process, which closes all its descriptors.
\<close>

datatype flock_call =
    FL_CREATE "nat option" "nat option" "string option" bool
  | FL_DESTROY bool "nat option"
  | FL_LOCK bool "nat option" flock_type
  | FL_TRY_LOCK bool "nat option" flock_type
  | FL_UNLOCK bool "nat option"
  | FL_EXIT

definition flock_exit :: "nat \<Rightarrow> flock_sys \<Rightarrow> flock_sys" where
  "flock_exit p s = s\<lparr>fs_fds := (fs_fds s)(p := (\<lambda>_. None)), fs_locks := (\<lambda>path. (fs_locks s path)(p := None)),
     fs_handles := (fs_handles s)(p := (\<lambda>_. None))\<rparr>"

definition flock_do :: "nat list \<Rightarrow> nat \<Rightarrow> flock_call \<Rightarrow> flock_sys \<Rightarrow> (int \<times> flock_sys) option" where
  "flock_do procs p c s =
     (case c of
        FL_CREATE m fd path out \<Rightarrow> (case osal_flock_create m fd p path out s of (r, _, s') \<Rightarrow> Some (r, s'))
      | FL_DESTROY fail a \<Rightarrow> Some (osal_flock_destroy fail p a s)
      | FL_LOCK fail a ty \<Rightarrow> osal_flock_lock fail procs p a ty s
      | FL_TRY_LOCK fail a ty \<Rightarrow> osal_flock_try_lock fail procs p a ty s
      | FL_UNLOCK fail a \<Rightarrow> Some (osal_flock_unlock fail p a s)
      | FL_EXIT \<Rightarrow> Some (OSAL_SUCCESS, flock_exit p s))"

text \<open>
  What a process may do: use a handle it has; \<open>malloc\<close> and \<open>open\<close> answer what is free; and, the one
  condition of its own, have no file open twice.
\<close>

definition flock_may :: "nat \<Rightarrow> flock_call \<Rightarrow> flock_sys \<Rightarrow> bool" where
  "flock_may p c s \<longleftrightarrow>
     (case c of
        FL_CREATE m fd path out \<Rightarrow>
          (\<forall>a. m = Some a \<longrightarrow> fs_handles s p a = None) \<and> (\<forall>f. fd = Some f \<longrightarrow> fs_fds s p f = None) \<and>
          (\<forall>f. path \<noteq> None \<longrightarrow> fs_fds s p f \<noteq> path)
      | FL_DESTROY fail a \<Rightarrow> (\<forall>x. a = Some x \<longrightarrow> fs_handles s p x \<noteq> None)
      | FL_LOCK fail a ty \<Rightarrow> (\<forall>x. a = Some x \<longrightarrow> fs_handles s p x \<noteq> None)
      | FL_TRY_LOCK fail a ty \<Rightarrow> (\<forall>x. a = Some x \<longrightarrow> fs_handles s p x \<noteq> None)
      | FL_UNLOCK fail a \<Rightarrow> (\<forall>x. a = Some x \<longrightarrow> fs_handles s p x \<noteq> None)
      | FL_EXIT \<Rightarrow> True)"

definition flock_start :: flock_sys where
  "flock_start = \<lparr>fs_fds = (\<lambda>_ _. None), fs_locks = (\<lambda>_ _. None), fs_handles = (\<lambda>_ _. None)\<rparr>"

inductive flock_reachable :: "nat list \<Rightarrow> flock_sys \<Rightarrow> bool" for procs where
  fk_start: "flock_reachable procs flock_start"
| fk_call: "flock_reachable procs s \<Longrightarrow> p \<in> set procs \<Longrightarrow> flock_may p c s \<Longrightarrow>
     flock_do procs p c s = Some (r, s') \<Longrightarrow> flock_reachable procs s'"

text \<open>
  Each handle has its own descriptor and file, what it says of its lock is so, and the locks of two
  processes on a file do not conflict.
\<close>

definition handle_ok :: "flock_sys \<Rightarrow> nat \<Rightarrow> osal_flock \<Rightarrow> bool" where
  "handle_ok s p h \<longleftrightarrow> (\<exists>path. fs_fds s p (fl_fd h) = Some path \<and>
     (fl_is_locked h \<longrightarrow> fs_locks s path p = Some (fl_current_type h)))"

definition flock_inv :: "nat list \<Rightarrow> flock_sys \<Rightarrow> bool" where
  "flock_inv procs s \<longleftrightarrow>
     (\<forall>p a h. fs_handles s p a = Some h \<longrightarrow> handle_ok s p h) \<and>
     (\<forall>p a b g h. fs_handles s p a = Some g \<longrightarrow> fs_handles s p b = Some h \<longrightarrow> fl_fd g = fl_fd h \<longrightarrow> a = b) \<and>
     (\<forall>p f g path. fs_fds s p f = Some path \<longrightarrow> fs_fds s p g = Some path \<longrightarrow> f = g) \<and>
     (\<forall>path p ty. fs_locks s path p = Some ty \<longrightarrow> p \<in> set procs) \<and>
     (\<forall>path p q x y. p \<noteq> q \<longrightarrow> fs_locks s path p = Some x \<longrightarrow> fs_locks s path q = Some y \<longrightarrow> \<not> locks_conflict x y)"

lemma flock_inv_start: "flock_inv procs flock_start"
  by (simp add: flock_inv_def flock_start_def)

lemma flock_inv_handle:
  assumes "flock_inv procs s" and "fs_handles s p a = Some h"
  obtains path where "fs_fds s p (fl_fd h) = Some path"
    and "fl_is_locked h \<Longrightarrow> fs_locks s path p = Some (fl_current_type h)"
proof -
  have "handle_ok s p h" using assms unfolding flock_inv_def by blast
  then show ?thesis using that by (auto simp: handle_ok_def)
qed

lemma flock_inv_facts:
  assumes "flock_inv procs s"
  shows "fs_handles s p a = Some g \<Longrightarrow> fs_handles s p b = Some h \<Longrightarrow> fl_fd g = fl_fd h \<Longrightarrow> a = b"
    and "fs_fds s p i = Some path \<Longrightarrow> fs_fds s p j = Some path \<Longrightarrow> i = j"
    and "fs_locks s path p = Some ty \<Longrightarrow> p \<in> set procs"
    and "p \<noteq> q \<Longrightarrow> fs_locks s path p = Some x \<Longrightarrow> fs_locks s path q = Some y \<Longrightarrow> \<not> locks_conflict x y"
  using assms unfolding flock_inv_def by blast+

lemma flock_invI:
  assumes "\<And>p a h. fs_handles s p a = Some h \<Longrightarrow> handle_ok s p h"
    and "\<And>p a b g h. fs_handles s p a = Some g \<Longrightarrow> fs_handles s p b = Some h \<Longrightarrow> fl_fd g = fl_fd h \<Longrightarrow> a = b"
    and "\<And>p i j path. fs_fds s p i = Some path \<Longrightarrow> fs_fds s p j = Some path \<Longrightarrow> i = j"
    and "\<And>path p ty. fs_locks s path p = Some ty \<Longrightarrow> p \<in> set procs"
    and "\<And>path p q x y. p \<noteq> q \<Longrightarrow> fs_locks s path p = Some x \<Longrightarrow> fs_locks s path q = Some y \<Longrightarrow> \<not> locks_conflict x y"
  shows "flock_inv procs s"
  using assms unfolding flock_inv_def by blast

lemma other_handle_path:
  assumes inv: "flock_inv procs s" and "fs_handles s p a = Some h" and "fs_handles s p b = Some g" and "a \<noteq> b"
    and "fs_fds s p (fl_fd h) = Some path"
  shows "fs_fds s p (fl_fd g) \<noteq> Some path"
  using assms unfolding flock_inv_def by metis

text \<open>A change of the lock of one process on one file, together with the handle that stands for it.\<close>

lemma flock_inv_relock:
  assumes inv: "flock_inv procs s" and h: "fs_handles s p a = Some h" and path: "fs_fds s p (fl_fd h) = Some path"
    and fd: "fl_fd h' = fl_fd h" and p: "p \<in> set procs"
    and l: "l = (if fl_is_locked h' then Some (fl_current_type h') else None)"
    and free: "\<And>ty. l = Some ty \<Longrightarrow> \<not> lock_blocked procs p path ty s"
  shows "flock_inv procs (put_flock p a (Some h') (set_lock p path l s))"
proof -
  let ?s = "put_flock p a (Some h') (set_lock p path l s)"
  have fds: "fs_fds ?s = fs_fds s" by (simp add: put_flock_def set_lock_def)
  have locks: "fs_locks ?s f q = (if f = path \<and> q = p then l else fs_locks s f q)" for f q
    by (simp add: put_flock_def set_lock_def)
  have hs: "fs_handles ?s q b = (if q = p \<and> b = a then Some h' else fs_handles s q b)" for q b
    by (simp add: put_flock_def set_lock_def)
  have 1: "handle_ok ?s q g" if g: "fs_handles ?s q b = Some g" for q b g
  proof (cases "q = p \<and> b = a")
    case True
    then have "g = h'" "q = p" using g hs [of p a] by auto
    moreover have "fs_locks ?s path p = l" using locks [of path p] by simp
    ultimately show ?thesis using path fd l unfolding handle_ok_def fds by auto
  next
    case False
    then have old: "fs_handles s q b = Some g" using g by (auto simp: hs split: if_splits)
    then obtain f where f: "fs_fds s q (fl_fd g) = Some f" "fl_is_locked g \<Longrightarrow> fs_locks s f q = Some (fl_current_type g)"
      using flock_inv_handle [OF inv] by metis
    have "\<not> (f = path \<and> q = p)" using other_handle_path [OF inv h, of b g] old path f(1) False by auto
    then show ?thesis using f by (auto simp: handle_ok_def fds locks)
  qed
  have 2: "b = c" if "fs_handles ?s q b = Some g" "fs_handles ?s q c = Some k" "fl_fd g = fl_fd k" for q b c g k
    using h fd that flock_inv_facts(1) [OF inv] by (auto simp: hs split: if_splits)
  have 4: "q \<in> set procs" if "fs_locks ?s f q = Some ty" for f q ty
    using p that flock_inv_facts(3) [OF inv, of f q ty] by (auto simp: locks split: if_splits)
  have 5: "\<not> locks_conflict x y"
    if "q \<noteq> r" "fs_locks ?s f q = Some x" "fs_locks ?s f r = Some y" for f q r x y
  proof -
    have new: "\<not> locks_conflict x y" if "l = Some x" "r \<noteq> p" "fs_locks s path r = Some y" for x y r
    proof -
      have "r \<in> set procs" using flock_inv_facts(3) [OF inv that(3)] .
      then show ?thesis using free [OF that(1)] that(2,3) by (auto simp: lock_blocked_def list_ex_iff)
    qed
    have sym: "locks_conflict x y = locks_conflict y x" by (auto simp: locks_conflict_def)
    show ?thesis
      using that new [of x r y] new [of y q x] sym flock_inv_facts(4) [OF inv, of q r f x y]
      by (auto simp: locks split: if_splits)
  qed
  show ?thesis
    by (rule flock_invI) (fact 1 2 4 5 | simp only: fds, fact flock_inv_facts(2) [OF inv])+
qed

lemma flock_inv_lock:
  assumes inv: "flock_inv procs s" and p: "p \<in> set procs" and a: "\<And>x. flock = Some x \<Longrightarrow> fs_handles s p x \<noteq> None"
    and c: "flock_lock_with wait fail procs p flock ty s = Some (r, s')"
  shows "flock_inv procs s'"
proof (cases flock)
  case None
  with c inv show ?thesis by (simp add: flock_lock_with_def)
next
  case (Some x)
  then obtain h where h: "fs_handles s p x = Some h" using a by auto
  obtain path where path: "fs_fds s p (fl_fd h) = Some path" using flock_inv_handle [OF inv h] by metis
  have "s' = s \<or> (\<not> lock_blocked procs p path ty s \<and>
      s' = put_flock p x (Some (h\<lparr>fl_is_locked := True, fl_current_type := ty\<rparr>)) (set_lock p path (Some ty) s))"
    using c by (auto simp: flock_lock_with_def Some flock_at_def h flock_do_lock_def path split: if_splits)
  then show ?thesis
    using inv flock_inv_relock [OF inv h path _ p, of "h\<lparr>fl_is_locked := True, fl_current_type := ty\<rparr>" "Some ty"] by auto
qed

lemma flock_inv_unlock:
  assumes inv: "flock_inv procs s" and p: "p \<in> set procs" and a: "\<And>x. flock = Some x \<Longrightarrow> fs_handles s p x \<noteq> None"
    and c: "osal_flock_unlock fail p flock s = (r, s')"
  shows "flock_inv procs s'"
proof (cases flock)
  case None
  with c inv show ?thesis by (simp add: osal_flock_unlock_def)
next
  case (Some x)
  then obtain h where h: "fs_handles s p x = Some h" using a by auto
  obtain path where path: "fs_fds s p (fl_fd h) = Some path" using flock_inv_handle [OF inv h] by metis
  have "s' = s \<or> s' = put_flock p x (Some (h\<lparr>fl_is_locked := False\<rparr>)) (set_lock p path None s)"
    using c by (auto simp: osal_flock_unlock_def Some flock_at_def h flock_do_unlock_def path Let_def split: if_splits)
  then show ?thesis
    using inv flock_inv_relock [OF inv h path _ p, of "h\<lparr>fl_is_locked := False\<rparr>" None] by auto
qed

text \<open>Closing the descriptor of a handle that is thrown away.\<close>

lemma flock_inv_close:
  assumes inv: "flock_inv procs s" and h: "fs_handles s p a = Some h"
  shows "flock_inv procs (put_flock p a None (close_fd p (fl_fd h) s))"
proof -
  obtain path where path: "fs_fds s p (fl_fd h) = Some path" using flock_inv_handle [OF inv h] by metis
  let ?s = "put_flock p a None (close_fd p (fl_fd h) s)"
  have fds: "fs_fds ?s q f = (if q = p \<and> f = fl_fd h then None else fs_fds s q f)" for q f
    by (simp add: put_flock_def close_fd_def path set_lock_def)
  have locks: "fs_locks ?s f q = (if f = path \<and> q = p then None else fs_locks s f q)" for f q
    by (simp add: put_flock_def close_fd_def path set_lock_def)
  have hs: "fs_handles ?s q b = (if q = p \<and> b = a then None else fs_handles s q b)" for q b
    by (simp add: put_flock_def close_fd_def path set_lock_def)
  have "handle_ok ?s q g" if g: "fs_handles ?s q b = Some g" for q b g
  proof -
    have old: "fs_handles s q b = Some g" "\<not> (q = p \<and> b = a)" using g by (auto simp: hs split: if_splits)
    then obtain f where f: "fs_fds s q (fl_fd g) = Some f" "fl_is_locked g \<Longrightarrow> fs_locks s f q = Some (fl_current_type g)"
      using flock_inv_handle [OF inv] by metis
    have "\<not> (f = path \<and> q = p)" "\<not> (q = p \<and> fl_fd g = fl_fd h)"
      using other_handle_path [OF inv h, of b g] old path f(1) by auto
    then show ?thesis using f by (auto simp: handle_ok_def fds locks)
  qed
  then show ?thesis using inv unfolding flock_inv_def fds locks hs by (auto split: if_splits)
qed

lemma unlock_keeps:
  assumes "fs_handles s p a = Some h"
  shows "\<exists>g. fs_handles (snd (osal_flock_unlock fail p (Some a) s)) p a = Some g \<and> fl_fd g = fl_fd h"
  using assms
  by (auto simp: osal_flock_unlock_def flock_do_unlock_def flock_at_def Let_def put_flock_def set_lock_def
      split: option.splits)

lemma flock_inv_destroy:
  assumes inv: "flock_inv procs s" and p: "p \<in> set procs" and a: "\<And>x. flock = Some x \<Longrightarrow> fs_handles s p x \<noteq> None"
    and c: "osal_flock_destroy fail p flock s = (r, s')"
  shows "flock_inv procs s'"
proof (cases flock)
  case None
  with c inv show ?thesis by (simp add: osal_flock_destroy_def)
next
  case (Some x)
  then obtain h where h: "fs_handles s p x = Some h" using a by auto
  define s1 where "s1 = (if fl_is_locked (flock_at p x s) then snd (osal_flock_unlock fail p (Some x) s) else s)"
  have "flock_inv procs s1"
    using inv flock_inv_unlock [OF inv p, of "Some x" fail] h by (auto simp: s1_def prod_eq_iff)
  moreover obtain g where "fs_handles s1 p x = Some g" using unlock_keeps [OF h, of fail] h
    by (cases "fl_is_locked (flock_at p x s)") (auto simp: s1_def)
  moreover from this have "s' = put_flock p x None (close_fd p (fl_fd g) s1)"
    using c by (simp add: osal_flock_destroy_def Some Let_def s1_def [symmetric] flock_at_def [of p x s1])
  ultimately show ?thesis by (simp add: flock_inv_close)
qed

lemma flock_inv_create:
  assumes inv: "flock_inv procs s" and may: "flock_may p (FL_CREATE m fd path out) s"
    and c: "osal_flock_create m fd p path out s = (r, ptr, s')"
  shows "flock_inv procs s'"
proof (cases "\<exists>f a d. path = Some f \<and> out \<and> m = Some a \<and> fd = Some d")
  case False
  then have "s' = s" using c by (auto simp: osal_flock_create_def split: option.splits if_splits)
  with inv show ?thesis by simp
next
  case True
  then obtain f a d where eq: "path = Some f" "out" "m = Some a" "fd = Some d" by blast
  define h where "h = \<lparr>fl_fd = d, fl_lock_file = strscpy 256 f, fl_current_type = OSAL_FLOCK_SHARED, fl_is_locked = False\<rparr>"
  have new: "fs_handles s p a = None" "fs_fds s p d = None" "\<And>g. fs_fds s p g \<noteq> Some f"
    using may by (auto simp: flock_may_def eq)
  have s': "s' = put_flock p a (Some h) (s\<lparr>fs_fds := (fs_fds s)(p := (fs_fds s p)(d \<mapsto> f))\<rparr>)"
    using c by (simp add: osal_flock_create_def eq h_def)
  have fds: "fs_fds s' q g = (if q = p \<and> g = d then Some f else fs_fds s q g)" for q g by (simp add: s' put_flock_def)
  have locks: "fs_locks s' = fs_locks s" by (simp add: s' put_flock_def)
  have hs: "fs_handles s' q b = (if q = p \<and> b = a then Some h else fs_handles s q b)" for q b
    by (simp add: s' put_flock_def)
  have old: "fs_fds s q (fl_fd g) \<noteq> None \<and> handle_ok s' q g" if g: "fs_handles s q b = Some g" for q b g
  proof -
    obtain k where k: "fs_fds s q (fl_fd g) = Some k" "fl_is_locked g \<Longrightarrow> fs_locks s k q = Some (fl_current_type g)"
      using flock_inv_handle [OF inv g] by metis
    then have "\<not> (q = p \<and> fl_fd g = d)" using new(2) by auto
    then have "fs_fds s' q (fl_fd g) = Some k" using k(1) fds [of q "fl_fd g"] by auto
    with k show ?thesis unfolding handle_ok_def locks by auto
  qed
  have "fs_fds s' p (fl_fd h) = Some f" using fds [of p d] by (simp add: h_def)
  then have "handle_ok s' p h" by (simp add: handle_ok_def h_def)
  then have 1: "handle_ok s' q g" if "fs_handles s' q b = Some g" for q b g
    using old that by (auto simp: hs split: if_splits)
  have 2: "b = c" if "fs_handles s' q b = Some g" "fs_handles s' q c = Some k" "fl_fd g = fl_fd k" for q b c g k
  proof -
    have o: "g' \<noteq> h \<and> fl_fd g' \<noteq> fl_fd h" if "fs_handles s p x = Some g'" for x g'
      using old [OF that] new(2) by (auto simp: h_def)
    have "fs_handles s q b = Some g \<and> fs_handles s q c = Some k \<or> q = p \<and> b = a \<and> c = a
      \<or> q = p \<and> g = h \<and> fs_handles s p c = Some k \<or> q = p \<and> k = h \<and> fs_handles s p b = Some g"
      using that(1,2) by (auto simp: hs split: if_splits)
    then show ?thesis using flock_inv_facts(1) [OF inv, of q b g c k] that(3) o by metis
  qed
  have 3: "g = k" if "fs_fds s' q g = Some x" "fs_fds s' q k = Some x" for q g k x
    using that new(3) flock_inv_facts(2) [OF inv, of q g x k] by (auto simp: fds split: if_splits)
  show ?thesis
    by (rule flock_invI) (fact 1 2 3 | simp only: locks, fact flock_inv_facts(3,4) [OF inv])+
qed

lemma flock_inv_exit:
  assumes "flock_inv procs s"
  shows "flock_inv procs (flock_exit p s)"
proof -
  have "handle_ok (flock_exit p s) q g" if "fs_handles (flock_exit p s) q b = Some g" for q b g
  proof -
    have "q \<noteq> p" "fs_handles s q b = Some g" using that by (auto simp: flock_exit_def split: if_splits)
    moreover from this have "handle_ok s q g" using assms unfolding flock_inv_def by blast
    ultimately show ?thesis by (auto simp: handle_ok_def flock_exit_def)
  qed
  then show ?thesis using assms unfolding flock_inv_def by (auto simp: flock_exit_def split: if_splits)
qed

lemma flock_inv_do:
  assumes inv: "flock_inv procs s" and p: "p \<in> set procs" and may: "flock_may p c s"
    and c: "flock_do procs p c s = Some (r, s')"
  shows "flock_inv procs s'"
proof (cases c)
  case (FL_CREATE m fd path out)
  then show ?thesis
    using c may by (auto simp: flock_do_def intro: flock_inv_create [OF inv] split: prod.splits)
next
  case (FL_DESTROY fail a)
  then show ?thesis using c may by (auto simp: flock_do_def flock_may_def intro: flock_inv_destroy [OF inv p])
next
  case (FL_LOCK fail a ty)
  then show ?thesis
    using c may by (auto simp: flock_do_def flock_may_def osal_flock_lock_def intro: flock_inv_lock [OF inv p])
next
  case (FL_TRY_LOCK fail a ty)
  then show ?thesis
    using c may by (auto simp: flock_do_def flock_may_def osal_flock_try_lock_def intro: flock_inv_lock [OF inv p])
next
  case (FL_UNLOCK fail a)
  then show ?thesis using c may by (auto simp: flock_do_def flock_may_def intro: flock_inv_unlock [OF inv p])
next
  case FL_EXIT
  then show ?thesis using c flock_inv_exit [OF inv] by (auto simp: flock_do_def)
qed

lemma flock_reachable_inv: "flock_reachable procs s \<Longrightarrow> flock_inv procs s"
  by (induction rule: flock_reachable.induct) (auto intro: flock_inv_start flock_inv_do)

section \<open>Properties\<close>

text \<open>
  C30. As long as no process opens a lock file twice, what a handle says of its lock is so in the kernel,
  and of two processes whose handles on a file both say that they are locked neither has it
  exclusively; a process that ends keeps nothing.
\<close>

theorem flock_exclusion:
  assumes "flock_reachable procs s"
    and "fs_handles s p a = Some h" and "fl_is_locked h" and "fs_fds s p (fl_fd h) = Some path"
  shows "fs_locks s path p = Some (fl_current_type h) \<and>
    (\<forall>q b g. q \<noteq> p \<and> fs_handles s q b = Some g \<and> fl_is_locked g \<and> fs_fds s q (fl_fd g) = Some path \<longrightarrow>
       fl_current_type h = OSAL_FLOCK_SHARED \<and> fl_current_type g = OSAL_FLOCK_SHARED)"
proof -
  have inv: "flock_inv procs s" using assms(1) by (rule flock_reachable_inv)
  have held: "fs_locks s path q = Some (fl_current_type g)"
    if "fs_handles s q b = Some g" "fl_is_locked g" "fs_fds s q (fl_fd g) = Some path" for q b g
    using flock_inv_handle [OF inv that(1)] that(2,3) by (metis option.inject)
  have "\<not> locks_conflict (fl_current_type h) (fl_current_type g)"
    if "q \<noteq> p" "fs_handles s q b = Some g" "fl_is_locked g" "fs_fds s q (fl_fd g) = Some path" for q b g
    using flock_inv_facts(4) [OF inv _ held [OF assms(2-4)] held [OF that(2-4)]] that(1) by blast
  then show ?thesis using held [OF assms(2-4)] by (auto simp: locks_conflict_def) (metis flock_type.exhaust)+
qed

text \<open>Process 1 creates a handle and locks it.\<close>

definition locked_once :: flock_sys where
  "locked_once =
     (let s = snd (snd (osal_flock_create (Some 9) (Some 3) 1 (Some ''lock'') True flock_start))
      in snd (the (osal_flock_lock False [1, 2] 1 (Some 9) OSAL_FLOCK_EXCLUSIVE s)))"

lemma locked_once_reachable: "flock_reachable [1, 2] locked_once"
proof -
  define s where "s = snd (snd (osal_flock_create (Some 9) (Some 3) 1 (Some ''lock'') True flock_start))"
  have "flock_reachable [1, 2] s"
    by (rule fk_call [OF fk_start, of 1 _ "FL_CREATE (Some 9) (Some 3) (Some ''lock'') True" 0])
      (simp_all add: s_def flock_do_def osal_flock_create_def flock_may_def flock_start_def)
  then show ?thesis
    by (rule fk_call [of _ _ 1 "FL_LOCK False (Some 9) OSAL_FLOCK_EXCLUSIVE" 0])
      (simp_all add: s_def locked_once_def flock_do_def osal_flock_create_def flock_may_def flock_start_def
        osal_flock_lock_def flock_lock_with_def flock_at_def put_flock_def flock_do_lock_def lock_blocked_def set_lock_def)
qed

lemma flock_exclusion_witness: "fs_locks locked_once ''lock'' 1 = Some OSAL_FLOCK_EXCLUSIVE"
proof -
  obtain h where "fs_handles locked_once 1 9 = Some h" "fl_is_locked h" "fs_fds locked_once 1 (fl_fd h) = Some ''lock''"
    "fl_current_type h = OSAL_FLOCK_EXCLUSIVE"
    by (simp add: locked_once_def osal_flock_create_def flock_start_def osal_flock_lock_def flock_lock_with_def
        flock_at_def put_flock_def flock_do_lock_def lock_blocked_def set_lock_def)
  then show ?thesis using flock_exclusion [OF locked_once_reachable, of 1 9 h "''lock''"] by simp
qed

text \<open>A list of calls, each by a process.\<close>

fun flock_session :: "nat list \<Rightarrow> (nat \<times> flock_call) list \<Rightarrow> flock_sys \<Rightarrow> (int list \<times> flock_sys) option" where
  "flock_session procs [] s = Some ([], s)"
| "flock_session procs ((p, c) # cs) s =
     (case flock_do procs p c s of
        None \<Rightarrow> None
      | Some (r, s') \<Rightarrow> map_option (\<lambda>(rs, t). (r # rs, t)) (flock_session procs cs s'))"

text \<open>
  With a second handle on a file the lock of the first is lost: when the second is destroyed, the
  lock is free for another process, while the first handle says, and \<open>osal_flock_unlock\<close>
  believes, that it is held. Before that, both handles of the process get the exclusive lock.
\<close>

theorem flock_second_handle:
  "\<exists>s h g. flock_session [1, 2]
      [(1, FL_CREATE (Some 9) (Some 3) (Some path) True), (1, FL_CREATE (Some 8) (Some 4) (Some path) True),
       (1, FL_LOCK False (Some 9) OSAL_FLOCK_EXCLUSIVE), (1, FL_TRY_LOCK False (Some 8) OSAL_FLOCK_EXCLUSIVE),
       (1, FL_DESTROY False (Some 8)),
       (2, FL_CREATE (Some 7) (Some 3) (Some path) True), (2, FL_TRY_LOCK False (Some 7) OSAL_FLOCK_EXCLUSIVE)]
      flock_start = Some ([0, 0, 0, 0, 0, 0, 0], s) \<and>
    fs_handles s 1 9 = Some h \<and> fl_is_locked h \<and> fl_current_type h = OSAL_FLOCK_EXCLUSIVE \<and>
    fs_handles s 2 7 = Some g \<and> fl_is_locked g \<and> fl_current_type g = OSAL_FLOCK_EXCLUSIVE"
  by (simp add: flock_do_def osal_flock_create_def flock_start_def osal_flock_lock_def osal_flock_try_lock_def
      flock_lock_with_def flock_at_def put_flock_def flock_do_lock_def lock_blocked_def set_lock_def
      osal_flock_destroy_def osal_flock_unlock_def flock_do_unlock_def close_fd_def Let_def)

end
