(* ===== verification/Osal_Heap.thy ===== *)
theory Osal_Heap
  imports Osal_Base
begin

text \<open>
  What the two heaps of the OSAL promise, the one of the kernel module (\<open>Osal_Heap_Kernel\<close>) and the one
  of the user library (\<open>Osal_Heap_User\<close>).

  Both put a header with the size and a magic number in front of each block and count the bytes in
  use. The memory is a function from the pointers that were handed out to the block behind them; a
  pointer keeps its last header after it was freed, until the address is handed out again. What
  \<open>kmalloc\<close> or \<open>malloc\<close> answers is an argument: the address and what the new memory holds, or
  nothing. A null pointer is \<open>None\<close>.
\<close>

section \<open>Blocks\<close>

record heap_block =
  hb_size :: u32
  hb_magic :: u32
  hb_bytes :: "u8 list"

definition no_block :: heap_block where
  "no_block = \<lparr>hb_size = 0, hb_magic = 0, hb_bytes = []\<rparr>"

text \<open>The memory with the counters of the module.\<close>

record heap_sys =
  hp_mem :: "nat \<Rightarrow> heap_block"
  hp_live :: "nat set"
  hp_current :: u32
  hp_peak :: u32
  hp_threshold :: u32
  hp_alert :: bool

type_synonym heap_answer = "(nat \<times> u8 list) option"

text \<open>A block is made of new memory; what the client writes into its block is its own affair.\<close>

definition heap_store :: "nat \<Rightarrow> nat \<Rightarrow> u8 \<Rightarrow> heap_sys \<Rightarrow> heap_sys" where
  "heap_store p k b s = s\<lparr>hp_mem := (hp_mem s)(p := (hp_mem s p)\<lparr>hb_bytes := (hb_bytes (hp_mem s p))[k := b]\<rparr>)\<rparr>"

section \<open>The specification\<close>

text \<open>The blocks in use and their contents.\<close>

type_synonym heap_view = "nat \<Rightarrow> u8 list option"

definition heap_view_of :: "heap_sys \<Rightarrow> heap_view" where
  "heap_view_of s p = (if p \<in> hp_live s then Some (hb_bytes (hp_mem s p)) else None)"

definition view_total :: "heap_view \<Rightarrow> nat" where
  "view_total v = (\<Sum>p \<in> dom v. length (the (v p)))"

datatype heap_call = HEAP_MALLOC u32 heap_answer | HEAP_FREE "nat option"
  | HEAP_REALLOC "nat option" u32 heap_answer | HEAP_STORE nat nat u8

text \<open>
  A call is sound when the pointer it gives is in use, a new block does not overlap, has the size
  asked for together with the header, and the bytes in use stay below \<open>2 ^ 32\<close>.
\<close>

definition answer_ok :: "heap_view \<Rightarrow> u32 \<Rightarrow> heap_answer \<Rightarrow> bool" where
  "answer_ok v n ans \<longleftrightarrow> view_total v + unat n < 2 ^ 32 \<and>
     (case ans of None \<Rightarrow> True | Some (a, bs) \<Rightarrow> a \<notin> dom v \<and> length bs = unat n)"

fun call_ok :: "heap_view \<Rightarrow> heap_call \<Rightarrow> bool" where
  "call_ok v (HEAP_MALLOC n ans) \<longleftrightarrow> answer_ok v n ans"
| "call_ok v (HEAP_FREE p) \<longleftrightarrow> (case p of None \<Rightarrow> True | Some a \<Rightarrow> a \<in> dom v)"
| "call_ok v (HEAP_REALLOC p n ans) \<longleftrightarrow> (case p of None \<Rightarrow> True | Some a \<Rightarrow> a \<in> dom v) \<and> answer_ok v n ans"
| "call_ok v (HEAP_STORE p k b) \<longleftrightarrow> (case v p of None \<Rightarrow> False | Some bs \<Rightarrow> k < length bs)"

definition alloc_spec :: "(u8 list \<Rightarrow> u8 list) \<Rightarrow> u32 \<Rightarrow> heap_answer \<Rightarrow> heap_view \<Rightarrow> nat option \<times> heap_view" where
  "alloc_spec f n ans v =
     (case ans of
        None \<Rightarrow> (None, v)
      | Some (a, bs) \<Rightarrow> if n \<le> 0xFFFFFFF7 then (Some a, v(a \<mapsto> f bs)) else (None, v))"

text \<open>A block that is moved keeps what fits of its content; the rest is what the new memory held.\<close>

definition moved :: "u8 list \<Rightarrow> u8 list \<Rightarrow> u8 list" where
  "moved old new = take (length new) old @ drop (length old) new"

fun heap_spec :: "heap_call \<Rightarrow> heap_view \<Rightarrow> nat option \<times> heap_view" where
  "heap_spec (HEAP_MALLOC n ans) v = alloc_spec id n ans v"
| "heap_spec (HEAP_FREE p) v = (None, case p of None \<Rightarrow> v | Some a \<Rightarrow> v(a := None))"
| "heap_spec (HEAP_REALLOC None n ans) v = alloc_spec id n ans v"
| "heap_spec (HEAP_REALLOC (Some a) n ans) v =
     (if n = 0 then (None, v(a := None))
      else case alloc_spec (moved (the (v a))) n ans v of
          (None, v) \<Rightarrow> (None, v)
        | (Some new, v) \<Rightarrow> (Some new, v(a := None)))"
| "heap_spec (HEAP_STORE p k b) v = (None, v(p := map_option (\<lambda>bs. bs[k := b]) (v p)))"

fun heap_spec_session :: "heap_call list \<Rightarrow> heap_view \<Rightarrow> nat option list \<times> heap_view" where
  "heap_spec_session [] v = ([], v)"
| "heap_spec_session (c # cs) v =
     (case heap_spec c v of (r, v) \<Rightarrow> (case heap_spec_session cs v of (rs, v) \<Rightarrow> (r # rs, v)))"

fun session_ok :: "heap_view \<Rightarrow> heap_call list \<Rightarrow> bool" where
  "session_ok v [] \<longleftrightarrow> True"
| "session_ok v (c # cs) \<longleftrightarrow> call_ok v c \<and> session_ok (snd (heap_spec c v)) cs"

text \<open>Memory is copied from one block to another.\<close>

definition heap_copy :: "nat \<Rightarrow> nat \<Rightarrow> nat \<Rightarrow> heap_sys \<Rightarrow> heap_sys" where
  "heap_copy dst src n s =
     s\<lparr>hp_mem := (hp_mem s)(dst := (hp_mem s dst)
         \<lparr>hb_bytes := take n (hb_bytes (hp_mem s src)) @ drop n (hb_bytes (hp_mem s dst))\<rparr>)\<rparr>"

text \<open>A session of a client; \<open>None\<close> is the end of the program.\<close>

fun heap_step :: "(u32 \<Rightarrow> heap_answer \<Rightarrow> heap_sys \<Rightarrow> nat option \<times> heap_sys) \<Rightarrow>
    (nat option \<Rightarrow> heap_sys \<Rightarrow> heap_sys option) \<Rightarrow>
    (nat option \<Rightarrow> u32 \<Rightarrow> heap_answer \<Rightarrow> heap_sys \<Rightarrow> (nat option \<times> heap_sys) option) \<Rightarrow>
    heap_call \<Rightarrow> heap_sys \<Rightarrow> (nat option \<times> heap_sys) option" where
  "heap_step malloc free realloc (HEAP_MALLOC n ans) s = Some (malloc n ans s)"
| "heap_step malloc free realloc (HEAP_FREE p) s = map_option (Pair None) (free p s)"
| "heap_step malloc free realloc (HEAP_REALLOC p n ans) s = realloc p n ans s"
| "heap_step malloc free realloc (HEAP_STORE p k b) s = Some (None, heap_store p k b s)"

fun heap_session :: "(heap_call \<Rightarrow> heap_sys \<Rightarrow> (nat option \<times> heap_sys) option) \<Rightarrow>
    heap_call list \<Rightarrow> heap_sys \<Rightarrow> (nat option list \<times> heap_sys) option" where
  "heap_session step [] s = Some ([], s)"
| "heap_session step (c # cs) s =
     (case step c s of None \<Rightarrow> None
      | Some (r, s) \<Rightarrow> (case heap_session step cs s of None \<Rightarrow> None | Some (rs, s) \<Rightarrow> Some (r # rs, s)))"

section \<open>The contract\<close>

text \<open>
  The state is sound when the blocks in use carry the magic number and their size, and the counter
  is the sum of the sizes, below its peak.
\<close>

definition heap_ok :: "u32 \<Rightarrow> heap_sys \<Rightarrow> bool" where
  "heap_ok magic s \<longleftrightarrow> finite (hp_live s) \<and>
     (\<forall>p \<in> hp_live s. hb_magic (hp_mem s p) = magic \<and> length (hb_bytes (hp_mem s p)) = unat (hb_size (hp_mem s p))) \<and>
     unat (hp_current s) = view_total (heap_view_of s) \<and> hp_current s \<le> hp_peak s"

section \<open>Views and their totals\<close>

lemma dom_view [simp]: "dom (heap_view_of s) = hp_live s"
  by (auto simp: heap_view_of_def dom_def)

lemma view_live [simp]: "p \<in> hp_live s \<Longrightarrow> heap_view_of s p = Some (hb_bytes (hp_mem s p))"
  by (simp add: heap_view_of_def)

lemma view_total_insert:
  "finite (dom v) \<Longrightarrow> a \<notin> dom v \<Longrightarrow> view_total (v(a \<mapsto> bs)) = view_total v + length bs"
  unfolding view_total_def by (auto intro!: sum.cong)

lemma view_total_remove:
  "finite (dom v) \<Longrightarrow> v a = Some bs \<Longrightarrow> view_total v = view_total (v(a := None)) + length bs"
  using view_total_insert [of "v(a := None)" a bs] by (simp add: fun_upd_idem)

lemma view_total_same: "finite (dom v) \<Longrightarrow> v a = Some bs \<Longrightarrow> length cs = length bs \<Longrightarrow> view_total (v(a \<mapsto> cs)) = view_total v"
  using view_total_insert [of "v(a := None)" a cs] view_total_remove [of v a bs] by simp

lemma view_total_empty [simp]: "view_total Map.empty = 0"
  by (simp add: view_total_def)

lemma view_total_single [simp]: "view_total [a \<mapsto> bs] = length bs"
  using view_total_insert [of Map.empty a bs] by simp

lemma view_total_two [simp]: "a \<noteq> b \<Longrightarrow> view_total [a \<mapsto> bs, b \<mapsto> cs] = length bs + length cs"
  using view_total_insert [of "[a \<mapsto> bs]" b cs] by simp

definition heap_demo :: "heap_call list" where
  "heap_demo = [HEAP_MALLOC 2 (Some (8, [1, 2])), HEAP_STORE 8 0 7, HEAP_REALLOC (Some 8) 3 (Some (64, [4, 5, 6])),
     HEAP_MALLOC 1 None, HEAP_FREE (Some 64)]"

lemma heap_demo_ok: "session_ok Map.empty heap_demo"
  by (simp add: heap_demo_def answer_ok_def alloc_spec_def moved_def)

text \<open>The state after each kind of change, given by its fields.\<close>

lemma heap_grow:
  assumes ok: "heap_ok magic s" and ans: "answer_ok (heap_view_of s) n (Some (a, bs))"
    and mem: "hp_mem t = (hp_mem s)(a := \<lparr>hb_size = n, hb_magic = magic, hb_bytes = bs\<rparr>)"
    and live: "hp_live t = insert a (hp_live s)" and cur: "hp_current t = hp_current s + n" "hp_current t \<le> hp_peak t"
  shows "heap_ok magic t" and "heap_view_of t = (heap_view_of s)(a \<mapsto> bs)"
proof -
  show view: "heap_view_of t = (heap_view_of s)(a \<mapsto> bs)"
    by (auto simp: heap_view_of_def mem live fun_eq_iff)
  have "unat (hp_current s + n) = unat (hp_current s) + unat n"
    using ok ans by (intro unat_add_lem [THEN iffD1]) (simp add: heap_ok_def answer_ok_def)
  then show "heap_ok magic t"
    using ok ans cur by (auto simp: heap_ok_def answer_ok_def mem live view view_total_insert)
qed

lemma heap_shrink:
  assumes ok: "heap_ok magic s" and a: "a \<in> hp_live s"
    and mem: "\<forall>p. p \<noteq> a \<longrightarrow> hp_mem t p = hp_mem s p"
    and live: "hp_live t = hp_live s - {a}"
    and cur: "hp_current t = hp_current s - hb_size (hp_mem s a)" "hp_peak t = hp_peak s"
  shows "heap_ok magic t" and "heap_view_of t = (heap_view_of s)(a := None)" and "hb_size (hp_mem s a) \<le> hp_current s"
proof -
  show view: "heap_view_of t = (heap_view_of s)(a := None)"
    using mem by (auto simp: heap_view_of_def live fun_eq_iff)
  have total: "view_total (heap_view_of s) = view_total (heap_view_of t) + unat (hb_size (hp_mem s a))"
    using view_total_remove [of "heap_view_of s" a] ok a by (simp add: heap_ok_def view)
  then show le: "hb_size (hp_mem s a) \<le> hp_current s"
    using ok by (simp add: heap_ok_def word_le_nat_alt)
  have "unat (hp_current t) = unat (hp_current s) - unat (hb_size (hp_mem s a))"
    using le by (simp add: cur unat_sub word_le_nat_alt)
  moreover have "hp_current t \<le> hp_current s"
    using le by (simp add: cur word_sub_le_iff)
  ultimately show "heap_ok magic t"
    using ok total mem by (auto simp: heap_ok_def live cur(2))
qed

lemma heap_same:
  assumes ok: "heap_ok magic s" and a: "a \<in> hp_live s"
    and mem: "hp_mem t = (hp_mem s)(a := (hp_mem s a)\<lparr>hb_bytes := cs\<rparr>)" "length cs = length (hb_bytes (hp_mem s a))"
    and same: "hp_live t = hp_live s" "hp_current t = hp_current s" "hp_peak t = hp_peak s"
  shows "heap_ok magic t" and "heap_view_of t = (heap_view_of s)(a \<mapsto> cs)"
proof -
  show view: "heap_view_of t = (heap_view_of s)(a \<mapsto> cs)"
    using a by (auto simp: heap_view_of_def mem same fun_eq_iff)
  show "heap_ok magic t"
    using ok a mem(2) view_total_same [of "heap_view_of s" a _ cs] by (auto simp: heap_ok_def view mem(1) same)
qed

section \<open>Percentages on words\<close>

lemma word_percent:
  fixes x y :: u32
  assumes "unat x * 100 < 2 ^ 32"
  shows "(t \<le> x * 100 div y) \<longleftrightarrow> unat t \<le> unat x * 100 div unat y"
proof -
  have "unat (x * 100) = unat x * 100"
    using unat_mult_lem [of x 100] assms by simp
  then show ?thesis by (simp add: word_le_nat_alt unat_div)
qed

lemma percent_exact: "0 < y \<Longrightarrow> t \<le> x * 100 div y \<longleftrightarrow> t * y \<le> x * 100" for t x y :: nat
  by (simp add: less_eq_div_iff_mult_less_eq)

section \<open>The interface\<close>

text \<open>
  What allocating and freeing promise; then what moving a block promises on top of it. A session of
  sound calls sees the specification.
\<close>

locale osal_heap_core =
  fixes malloc :: "u32 \<Rightarrow> heap_answer \<Rightarrow> heap_sys \<Rightarrow> nat option \<times> heap_sys"
    and free :: "nat option \<Rightarrow> heap_sys \<Rightarrow> heap_sys option"
    and magic :: u32
  assumes malloc_law: "heap_ok magic s \<Longrightarrow> answer_ok (heap_view_of s) n ans \<Longrightarrow> malloc n ans s = (r, s') \<Longrightarrow>
      heap_ok magic s' \<and> (r, heap_view_of s') = alloc_spec id n ans (heap_view_of s)"
    and malloc_keeps: "malloc n ans s = (r, s') \<Longrightarrow> p \<in> hp_live s \<Longrightarrow> answer_ok (heap_view_of s) n ans \<Longrightarrow> hp_mem s' p = hp_mem s p"
    and free_null: "free None s = Some s"
    and free_law: "heap_ok magic s \<Longrightarrow> a \<in> hp_live s \<Longrightarrow>
      \<exists>s'. free (Some a) s = Some s' \<and> heap_ok magic s' \<and> heap_view_of s' = (heap_view_of s)(a := None)"
begin

text \<open>The way both heaps move a block.\<close>

lemma move_law:
  assumes ok: "heap_ok magic s" and a: "a \<in> hp_live s" and ans: "answer_ok (heap_view_of s) n ans"
    and new: "malloc n ans s = (Some b, t)" and k: "k = min (unat (hb_size (hp_mem s a))) (unat n)"
    and n: "n \<noteq> 0"
  shows "\<exists>s'. free (Some a) (heap_copy b a k t) = Some s' \<and> heap_ok magic s' \<and>
     (Some b, heap_view_of s') = heap_spec (HEAP_REALLOC (Some a) n ans) (heap_view_of s)"
proof -
  from malloc_law [OF ok ans new] have t: "heap_ok magic t"
    and spec: "(Some b, heap_view_of t) = alloc_spec id n ans (heap_view_of s)" by auto
  from spec obtain bs where bs: "ans = Some (b, bs)" "n \<le> 0xFFFFFFF7" and view: "heap_view_of t = (heap_view_of s)(b \<mapsto> bs)"
    by (auto simp: alloc_spec_def split: option.splits if_splits)
  from ans have fresh: "b \<notin> hp_live s" and len: "length bs = unat n" by (auto simp: bs answer_ok_def)
  with a have ne: "b \<noteq> a" by auto
  from arg_cong [OF view, of dom] have live: "hp_live t = insert b (hp_live s)" by simp
  have old: "hp_mem t a = hp_mem s a" using malloc_keeps [OF new a ans] .
  from fun_cong [OF view, of b] have tb: "hb_bytes (hp_mem t b) = bs" by (simp add: live)
  let ?cs = "take k (hb_bytes (hp_mem s a)) @ drop k bs"
  have size: "length (hb_bytes (hp_mem s a)) = unat (hb_size (hp_mem s a))" using ok a by (simp add: heap_ok_def)
  have cs: "?cs = moved (hb_bytes (hp_mem s a)) bs" by (simp add: moved_def k size len min_def)
  have "length ?cs = length (hb_bytes (hp_mem t b))" by (simp add: tb k size len)
  then have copy: "heap_ok magic (heap_copy b a k t)" "heap_view_of (heap_copy b a k t) = (heap_view_of t)(b \<mapsto> ?cs)"
    using heap_same [OF t, of b "heap_copy b a k t" ?cs] by (simp_all add: live heap_copy_def tb old)
  have "a \<in> hp_live (heap_copy b a k t)" using a by (simp add: heap_copy_def live)
  from free_law [OF copy(1) this] obtain s' where
    s': "free (Some a) (heap_copy b a k t) = Some s'" "heap_ok magic s'" "heap_view_of s' = ((heap_view_of t)(b \<mapsto> ?cs))(a := None)"
    by (auto simp: copy(2))
  then show ?thesis using a n bs by (auto simp: alloc_spec_def view cs)
qed

end

locale osal_heap = osal_heap_core +
  fixes realloc :: "nat option \<Rightarrow> u32 \<Rightarrow> heap_answer \<Rightarrow> heap_sys \<Rightarrow> (nat option \<times> heap_sys) option"
  assumes realloc_law: "heap_ok magic s \<Longrightarrow> call_ok (heap_view_of s) (HEAP_REALLOC p n ans) \<Longrightarrow>
      \<exists>r s'. realloc p n ans s = Some (r, s') \<and> heap_ok magic s' \<and>
        (r, heap_view_of s') = heap_spec (HEAP_REALLOC p n ans) (heap_view_of s)"
begin

lemma step_law:
  assumes "heap_ok magic s" and "call_ok (heap_view_of s) c"
  shows "\<exists>s'. heap_step malloc free realloc c s = Some (fst (heap_spec c (heap_view_of s)), s') \<and> heap_ok magic s' \<and>
     heap_view_of s' = snd (heap_spec c (heap_view_of s))"
proof (cases c)
  case (HEAP_MALLOC n ans)
  with malloc_law [OF assms(1)] assms(2) show ?thesis by (cases "malloc n ans s") (fastforce simp: prod_eq_iff)
next
  case (HEAP_FREE p)
  then show ?thesis using assms free_null free_law by (cases p) auto
next
  case (HEAP_REALLOC p n ans)
  with realloc_law [OF assms(1), of p n ans] assms(2) show ?thesis by (auto dest: sym simp del: heap_spec.simps)
next
  case (HEAP_STORE p k b)
  with assms(2) have live: "p \<in> hp_live s" "k < length (hb_bytes (hp_mem s p))"
    by (auto simp: heap_view_of_def split: if_splits)
  with heap_same [OF assms(1) live(1), of "heap_store p k b s"] HEAP_STORE show ?thesis
    by (simp add: heap_store_def)
qed

lemma session_refines:
  assumes "heap_ok magic s" and "session_ok (heap_view_of s) cs"
  shows "\<exists>s'. heap_session (heap_step malloc free realloc) cs s =
       Some (fst (heap_spec_session cs (heap_view_of s)), s') \<and> heap_ok magic s' \<and>
     heap_view_of s' = snd (heap_spec_session cs (heap_view_of s))"
  using assms
proof (induction cs arbitrary: s)
  case (Cons c cs)
  from step_law [OF Cons.prems(1)] Cons.prems(2) obtain s1 where
    one: "heap_step malloc free realloc c s = Some (fst (heap_spec c (heap_view_of s)), s1)" "heap_ok magic s1"
      "heap_view_of s1 = snd (heap_spec c (heap_view_of s))" by auto
  from Cons.IH [OF one(2)] Cons.prems(2) one(3) show ?case
    by (auto simp: one(1) case_prod_unfold)
qed simp

end

end
