(* ===== verification/Osal_Heap_Kernel.thy ===== *)
theory Osal_Heap_Kernel
  imports Osal_Heap
begin

text \<open>
  The heap of the kernel module, \<open>src/kernel/osal/src/lib/osal_heap.c\<close>: an implementation of the
  contract of \<open>Osal_Heap\<close> over \<open>kmalloc\<close>. A block with a wrong magic number is reported and left
  alone. The lines the module logs are not modelled.
\<close>

abbreviation (input) OSAL_HEAP_MAGIC :: u32 where "OSAL_HEAP_MAGIC \<equiv> 0x4f53414c"
abbreviation (input) OSAL_HEAP_PERCENT_MAX :: u32 where "OSAL_HEAP_PERCENT_MAX \<equiv> 100"
abbreviation (input) OSAL_HEAP_THRESHOLD_DEFAULT :: u32 where "OSAL_HEAP_THRESHOLD_DEFAULT \<equiv> 80"
abbreviation (input) HEAP_HEADER_SIZE :: u32 where "HEAP_HEADER_SIZE \<equiv> 8"

definition kernel_heap_init :: heap_sys where
  "kernel_heap_init = \<lparr>hp_mem = (\<lambda>_. no_block), hp_live = {}, hp_current = 0, hp_peak = 0,
     hp_threshold = OSAL_HEAP_THRESHOLD_DEFAULT, hp_alert = False\<rparr>"

section \<open>Operations\<close>

definition kernel_heap_add_usage :: "u32 \<Rightarrow> heap_sys \<Rightarrow> heap_sys" where
  "kernel_heap_add_usage n s =
     (let s = s\<lparr>hp_current := hp_current s + n\<rparr>
      in if hp_peak s < hp_current s then s\<lparr>hp_peak := hp_current s\<rparr> else s)"

definition kernel_heap_sub_usage :: "u32 \<Rightarrow> heap_sys \<Rightarrow> heap_sys" where
  "kernel_heap_sub_usage n s =
     (if hp_current s < n then s\<lparr>hp_current := 0\<rparr> else s\<lparr>hp_current := hp_current s - n\<rparr>)"

definition kernel_malloc :: "u32 \<Rightarrow> heap_answer \<Rightarrow> heap_sys \<Rightarrow> nat option \<times> heap_sys" where
  "kernel_malloc n ans s =
     (if 0xFFFFFFFF - HEAP_HEADER_SIZE < n then (None, s)
      else case ans of
          None \<Rightarrow> (None, s)
        | Some (a, bs) \<Rightarrow>
            let s = s\<lparr>hp_mem := (hp_mem s)(a := \<lparr>hb_size = n, hb_magic = OSAL_HEAP_MAGIC, hb_bytes = bs\<rparr>),
                      hp_live := insert a (hp_live s)\<rparr>
            in (Some a, kernel_heap_add_usage n s))"

definition heap_fill :: "nat \<Rightarrow> u8 \<Rightarrow> nat \<Rightarrow> heap_sys \<Rightarrow> heap_sys" where
  "heap_fill p b n s =
     s\<lparr>hp_mem := (hp_mem s)(p := (hp_mem s p)\<lparr>hb_bytes := replicate n b @ drop n (hb_bytes (hp_mem s p))\<rparr>)\<rparr>"

definition kernel_zalloc :: "u32 \<Rightarrow> heap_answer \<Rightarrow> heap_sys \<Rightarrow> nat option \<times> heap_sys" where
  "kernel_zalloc n ans s =
     (case kernel_malloc n ans s of
        (None, s) \<Rightarrow> (None, s)
      | (Some p, s) \<Rightarrow> (Some p, heap_fill p 0 (unat n) s))"

definition kernel_free :: "nat option \<Rightarrow> heap_sys \<Rightarrow> heap_sys" where
  "kernel_free p s =
     (case p of
        None \<Rightarrow> s
      | Some a \<Rightarrow>
          if hb_magic (hp_mem s a) \<noteq> OSAL_HEAP_MAGIC then s
          else let s = s\<lparr>hp_mem := (hp_mem s)(a := (hp_mem s a)\<lparr>hb_magic := 0\<rparr>)\<rparr>;
                   s = kernel_heap_sub_usage (hb_size (hp_mem s a)) s
               in s\<lparr>hp_live := hp_live s - {a}\<rparr>)"

definition kernel_realloc :: "nat option \<Rightarrow> u32 \<Rightarrow> heap_answer \<Rightarrow> heap_sys \<Rightarrow> nat option \<times> heap_sys" where
  "kernel_realloc p n ans s =
     (case p of
        None \<Rightarrow> kernel_malloc n ans s
      | Some a \<Rightarrow>
          if n = 0 then (None, kernel_free (Some a) s)
          else if hb_magic (hp_mem s a) \<noteq> OSAL_HEAP_MAGIC then (None, s)
          else case kernel_malloc n ans s of
              (None, s) \<Rightarrow> (None, s)
            | (Some new, s) \<Rightarrow>
                let s = heap_copy new a (unat (min (hb_size (hp_mem s a)) n)) s
                in (Some new, kernel_free (Some a) s))"

text \<open>The flags tell which of the pointers for the results are not null.\<close>

definition kernel_heap_get_info :: "bool \<Rightarrow> bool \<Rightarrow> heap_sys \<Rightarrow> int \<times> (u32 \<times> u32) option" where
  "kernel_heap_get_info free_bytes total_bytes s =
     (if \<not> free_bytes \<or> \<not> total_bytes then (OSAL_ERR_INVALID_POINTER, None)
      else (OSAL_SUCCESS,
        Some (if hp_current s < hp_peak s then hp_peak s - hp_current s else 0, hp_peak s)))"

definition kernel_heap_set_threshold :: "u32 \<Rightarrow> heap_sys \<Rightarrow> int \<times> heap_sys" where
  "kernel_heap_set_threshold percent s =
     (if OSAL_HEAP_PERCENT_MAX < percent then (OSAL_ERR_INVALID_SIZE, s)
      else (OSAL_SUCCESS, s\<lparr>hp_threshold := percent\<rparr>))"

definition kernel_heap_check_threshold :: "bool \<Rightarrow> heap_sys \<Rightarrow> int \<times> bool option \<times> heap_sys" where
  "kernel_heap_check_threshold exceeded s =
     (if \<not> exceeded then (OSAL_ERR_INVALID_POINTER, None, s)
      else let usage_percent = (if hp_peak s = 0 then 0 else hp_current s * 100 div hp_peak s);
               exceeded = (hp_threshold s \<le> usage_percent)
           in (OSAL_SUCCESS, Some exceeded,
                if exceeded \<and> \<not> hp_alert s then s\<lparr>hp_alert := True\<rparr>
                else if \<not> exceeded then s\<lparr>hp_alert := False\<rparr> else s))"

definition kernel_heap_get_stats :: "bool \<Rightarrow> bool \<Rightarrow> heap_sys \<Rightarrow> int \<times> (u32 \<times> u32) option" where
  "kernel_heap_get_stats current_bytes peak_bytes s =
     (if \<not> current_bytes \<or> \<not> peak_bytes then (OSAL_ERR_INVALID_POINTER, None)
      else (OSAL_SUCCESS, Some (hp_current s, hp_peak s)))"

section \<open>The contract\<close>

lemma kernel_add_fields [simp]:
  "hp_mem (kernel_heap_add_usage n s) = hp_mem s" "hp_live (kernel_heap_add_usage n s) = hp_live s"
  "hp_current (kernel_heap_add_usage n s) = hp_current s + n"
  "hp_current s + n \<le> hp_peak (kernel_heap_add_usage n s)"
  by (auto simp: kernel_heap_add_usage_def Let_def)

lemma kernel_sub_fields [simp]:
  "hp_mem (kernel_heap_sub_usage n s) = hp_mem s" "hp_live (kernel_heap_sub_usage n s) = hp_live s"
  "hp_peak (kernel_heap_sub_usage n s) = hp_peak s"
  "n \<le> hp_current s \<Longrightarrow> hp_current (kernel_heap_sub_usage n s) = hp_current s - n"
  by (auto simp: kernel_heap_sub_usage_def)

lemma kernel_malloc_law:
  assumes ok: "heap_ok OSAL_HEAP_MAGIC s" and ans: "answer_ok (heap_view_of s) n ans" and r: "kernel_malloc n ans s = (r, s')"
  shows "heap_ok OSAL_HEAP_MAGIC s' \<and> (r, heap_view_of s') = alloc_spec id n ans (heap_view_of s)"
proof (cases "n \<le> 0xFFFFFFF7 \<and> ans \<noteq> None")
  case True
  then obtain a bs where a: "ans = Some (a, bs)" and n: "\<not> 0xFFFFFFFF - HEAP_HEADER_SIZE < n" by force
  define s0 where "s0 = s\<lparr>hp_mem := (hp_mem s)(a := \<lparr>hb_size = n, hb_magic = OSAL_HEAP_MAGIC, hb_bytes = bs\<rparr>), hp_live := insert a (hp_live s)\<rparr>"
  from r a n have s': "r = Some a" "s' = kernel_heap_add_usage n s0"
    by (simp_all add: kernel_malloc_def Let_def s0_def)
  have "heap_ok OSAL_HEAP_MAGIC s'" "heap_view_of s' = (heap_view_of s)(a \<mapsto> bs)"
    by (rule heap_grow [OF ok ans [unfolded a]]; (simp only: s'(2) kernel_add_fields)?; simp add: s0_def)+
  with a True s'(1) show ?thesis by (simp add: alloc_spec_def)
next
  case False
  with ok r show ?thesis by (auto simp: kernel_malloc_def alloc_spec_def not_le split: option.splits)
qed

lemma kernel_free_law:
  assumes ok: "heap_ok OSAL_HEAP_MAGIC s" and a: "a \<in> hp_live s"
  shows "heap_ok OSAL_HEAP_MAGIC (kernel_free (Some a) s) \<and>
    heap_view_of (kernel_free (Some a) s) = (heap_view_of s)(a := None)"
proof -
  have magic: "hb_magic (hp_mem s a) = OSAL_HEAP_MAGIC" using ok a by (simp add: heap_ok_def)
  have le: "hb_size (hp_mem s a) \<le> hp_current s"
    by (rule heap_shrink(3) [OF ok a, of "s\<lparr>hp_live := hp_live s - {a}, hp_current := hp_current s - hb_size (hp_mem s a)\<rparr>"]) simp_all
  show ?thesis
    using heap_shrink(1,2) [OF ok a, of "kernel_free (Some a) s"] le by (simp add: kernel_free_def Let_def magic)
qed

interpretation kernel_core: osal_heap_core kernel_malloc "\<lambda>p s. Some (kernel_free p s)" OSAL_HEAP_MAGIC
proof unfold_locales
  show "hp_mem s' p = hp_mem s p"
    if "kernel_malloc n ans s = (r, s')" "p \<in> hp_live s" "answer_ok (heap_view_of s) n ans" for n ans s r s' p
    using that by (auto simp: kernel_malloc_def Let_def answer_ok_def split: if_splits option.splits prod.splits)
qed (use kernel_malloc_law kernel_free_law in \<open>auto simp: kernel_free_def\<close>)

lemma kernel_realloc_law:
  assumes ok: "heap_ok OSAL_HEAP_MAGIC s" and c: "call_ok (heap_view_of s) (HEAP_REALLOC p n ans)"
    and r: "kernel_realloc p n ans s = (r, s')"
  shows "heap_ok OSAL_HEAP_MAGIC s' \<and> (r, heap_view_of s') = heap_spec (HEAP_REALLOC p n ans) (heap_view_of s)"
proof (cases p)
  case None
  with c r kernel_malloc_law [OF ok] show ?thesis by (auto simp: kernel_realloc_def)
next
  case (Some a)
  with c have a: "a \<in> hp_live s" and ans: "answer_ok (heap_view_of s) n ans" by auto
  from ok a have magic: "hb_magic (hp_mem s a) = OSAL_HEAP_MAGIC" by (simp add: heap_ok_def)
  obtain q t where m: "kernel_malloc n ans s = (q, t)" by force
  have keep: "hp_mem t a = hp_mem s a" by (rule kernel_core.malloc_keeps [OF m a ans])
  show ?thesis
  proof (cases "n = 0")
    case True
    with r Some kernel_free_law [OF ok a] show ?thesis by (auto simp: kernel_realloc_def)
  next
    case n: False
    show ?thesis
    proof (cases q)
      case None
      with kernel_malloc_law [OF ok ans m] n r Some magic m show ?thesis
        by (auto simp: kernel_realloc_def alloc_spec_def split: option.splits if_splits)
    next
      case (Some b)
      define k where "k = unat (min (hb_size (hp_mem s a)) n)"
      then have "k = min (unat (hb_size (hp_mem s a))) (unat n)" by (simp add: min_def word_le_nat_alt)
      note moved = kernel_core.move_law [OF ok a ans m [unfolded Some] this n]
      have eq: "kernel_realloc p n ans s = (Some b, kernel_free (Some a) (heap_copy b a k t))"
        by (simp add: kernel_realloc_def \<open>p = Some a\<close> n magic m Some keep k_def)
      with r have "r = Some b" "s' = kernel_free (Some a) (heap_copy b a k t)" by simp_all
      with moved \<open>p = Some a\<close> show ?thesis by simp
    qed
  qed
qed

interpretation kernel_heap: osal_heap kernel_malloc "\<lambda>p s. Some (kernel_free p s)" OSAL_HEAP_MAGIC
    "\<lambda>p n ans s. Some (kernel_realloc p n ans s)"
proof unfold_locales
  fix s p n ans
  assume "heap_ok OSAL_HEAP_MAGIC s" and "call_ok (heap_view_of s) (HEAP_REALLOC p n ans)"
  moreover obtain r s' where "kernel_realloc p n ans s = (r, s')" by force
  ultimately show "\<exists>r s'. Some (kernel_realloc p n ans s) = Some (r, s') \<and> heap_ok OSAL_HEAP_MAGIC s' \<and>
      (r, heap_view_of s') = heap_spec (HEAP_REALLOC p n ans) (heap_view_of s)"
    using kernel_realloc_law by metis
qed

lemma kernel_init_ok: "heap_ok OSAL_HEAP_MAGIC kernel_heap_init" "heap_view_of kernel_heap_init = Map.empty"
  by (auto simp: heap_ok_def kernel_heap_init_def heap_view_of_def view_total_def fun_eq_iff)

text \<open>
  A client of the kernel heap that only gives it pointers it holds sees the specification: every
  call answers as specified, each block keeps what was stored in it whatever else is allocated, moved
  or freed, and the bytes in use are counted exactly, so that they are zero once all is freed.
\<close>
theorem kernel_heap_session:
  assumes "session_ok Map.empty cs"
  shows "\<exists>s. heap_session (heap_step kernel_malloc (\<lambda>p s. Some (kernel_free p s)) (\<lambda>p n ans s. Some (kernel_realloc p n ans s)))
        cs kernel_heap_init = Some (fst (heap_spec_session cs Map.empty), s) \<and>
     heap_view_of s = snd (heap_spec_session cs Map.empty) \<and>
     kernel_heap_get_stats True True s = (OSAL_SUCCESS, Some (hp_current s, hp_peak s)) \<and>
     unat (hp_current s) = view_total (snd (heap_spec_session cs Map.empty)) \<and> hp_current s \<le> hp_peak s"
  using kernel_heap.session_refines [OF kernel_init_ok(1), of cs] assms
  by (auto simp: kernel_init_ok(2) heap_ok_def kernel_heap_get_stats_def)

lemma kernel_heap_session_witness:
  "\<exists>s. heap_session (heap_step kernel_malloc (\<lambda>p s. Some (kernel_free p s)) (\<lambda>p n ans s. Some (kernel_realloc p n ans s)))
        heap_demo kernel_heap_init = Some ([Some 8, None, Some 64, None, None], s) \<and>
     heap_view_of s = Map.empty \<and> hp_current s = 0"
  using kernel_heap_session [OF heap_demo_ok]
  by (auto simp: heap_demo_def alloc_spec_def moved_def word_unat_eq_iff fun_upd_idem)

section \<open>Zeroed memory and freeing twice\<close>

lemma kernel_zalloc_zero:
  assumes ok: "heap_ok OSAL_HEAP_MAGIC s" and ans: "answer_ok (heap_view_of s) n ans" and r: "kernel_zalloc n ans s = (Some p, s')"
  shows "heap_ok OSAL_HEAP_MAGIC s' \<and> heap_view_of s' = (heap_view_of s)(p \<mapsto> replicate (unat n) 0)"
proof -
  obtain t where t: "kernel_malloc n ans s = (Some p, t)" "s' = heap_fill p 0 (unat n) t"
    using r by (auto simp: kernel_zalloc_def split: prod.splits option.splits)
  with kernel_malloc_law [OF ok ans t(1)] ans obtain bs where
    m: "heap_ok OSAL_HEAP_MAGIC t" "heap_view_of t = (heap_view_of s)(p \<mapsto> bs)" "length bs = unat n"
    by (auto simp: alloc_spec_def answer_ok_def split: option.splits if_splits)
  have live: "p \<in> hp_live t" using arg_cong [OF m(2), of dom] by simp
  with fun_cong [OF m(2), of p] have "hb_bytes (hp_mem t p) = bs" by simp
  then show ?thesis
    using heap_same [OF m(1) live, of s' "replicate (unat n) 0"] m(2,3) by (simp add: t(2) heap_fill_def)
qed

text \<open>
  Freeing a block twice with the kernel heap is the same as freeing it once, as long as the freed
  memory still holds the header: the magic number is gone, and the accounting is not touched again.
\<close>
theorem kernel_double_free: "kernel_free (Some a) (kernel_free (Some a) s) = kernel_free (Some a) s"
  by (cases "hb_magic (hp_mem s a) = OSAL_HEAP_MAGIC") (simp_all add: kernel_free_def Let_def)

section \<open>The threshold\<close>

text \<open>
  The kernel heap reports that the threshold is exceeded exactly when the bytes in use are at
  least that percentage of the peak, while the bytes in use stay below 42949673; at that number the
  product wraps, and even a heap at its peak is reported to be below the default threshold.
\<close>
theorem kernel_threshold_exact:
  "(unat (hp_current s) * 100 < 2 ^ 32 \<and> hp_peak s \<noteq> 0 \<longrightarrow>
     (\<exists>t. kernel_heap_check_threshold True s =
        (OSAL_SUCCESS, Some (unat (hp_threshold s) * unat (hp_peak s) \<le> unat (hp_current s) * 100), t) \<and>
        (hp_alert t \<longleftrightarrow> unat (hp_threshold s) * unat (hp_peak s) \<le> unat (hp_current s) * 100))) \<and>
   (\<exists>t. kernel_heap_check_threshold True (kernel_heap_init\<lparr>hp_current := 42949673, hp_peak := 42949673\<rparr>) =
        (OSAL_SUCCESS, Some False, t))"
proof (intro conjI impI)
  assume a: "unat (hp_current s) * 100 < 2 ^ 32 \<and> hp_peak s \<noteq> 0"
  then have "0 < unat (hp_peak s)" by (simp add: unat_gt_0)
  with a have "hp_threshold s \<le> hp_current s * 100 div hp_peak s \<longleftrightarrow>
      unat (hp_threshold s) * unat (hp_peak s) \<le> unat (hp_current s) * 100"
    by (simp add: word_percent percent_exact)
  with a show "\<exists>t. kernel_heap_check_threshold True s =
        (OSAL_SUCCESS, Some (unat (hp_threshold s) * unat (hp_peak s) \<le> unat (hp_current s) * 100), t) \<and>
        (hp_alert t \<longleftrightarrow> unat (hp_threshold s) * unat (hp_peak s) \<le> unat (hp_current s) * 100)"
    by (simp add: kernel_heap_check_threshold_def Let_def)
next
  show "\<exists>t. kernel_heap_check_threshold True (kernel_heap_init\<lparr>hp_current := 42949673, hp_peak := 42949673\<rparr>) =
        (OSAL_SUCCESS, Some False, t)"
    by (simp add: kernel_heap_check_threshold_def kernel_heap_init_def Let_def)
qed

lemma kernel_threshold_exact_witness:
  "\<exists>t. kernel_heap_check_threshold True (kernel_heap_init\<lparr>hp_current := 80, hp_peak := 100\<rparr>) = (OSAL_SUCCESS, Some True, t) \<and> hp_alert t"
  using kernel_threshold_exact [of "kernel_heap_init\<lparr>hp_current := 80, hp_peak := 100\<rparr>"]
  by (simp add: kernel_heap_init_def)

end
