(* ===== verification/Osal_Heap_User.thy ===== *)
theory Osal_Heap_User
  imports Osal_Heap Libc_Text
begin

text \<open>
  The heap of the user library, \<open>src/user/osal/src/lib/osal_heap.c\<close>: an implementation of the
  contract of \<open>Osal_Heap\<close> over \<open>malloc\<close>. A block with a wrong magic number ends the program, which is
  \<open>None\<close> (the build without \<open>OSAL_HEAP_CORRUPTION_CONTINUE\<close>). What \<open>/proc/self/status\<close> holds is an
  argument, \<open>None\<close> when it cannot be opened. The lines the library prints are not modelled.
\<close>

abbreviation (input) MEM_BLOCK_MAGIC :: u32 where "MEM_BLOCK_MAGIC \<equiv> 0xDEADBEEF"
abbreviation (input) MEM_BLOCK_HEADER_SIZE :: u32 where "MEM_BLOCK_HEADER_SIZE \<equiv> 8"
abbreviation (input) OSAL_HEAP_PERCENT_MAX :: u32 where "OSAL_HEAP_PERCENT_MAX \<equiv> 0x64"
abbreviation (input) OSAL_HEAP_PERCENT_MULTIPLIER :: u32 where "OSAL_HEAP_PERCENT_MULTIPLIER \<equiv> 0x64"
abbreviation (input) OSAL_BYTES_PER_KB :: u32 where "OSAL_BYTES_PER_KB \<equiv> 0x400"
abbreviation (input) OSAL_HEAP_LINE_BUFFER_SIZE :: nat where "OSAL_HEAP_LINE_BUFFER_SIZE \<equiv> 0x100"
abbreviation (input) OSAL_HEAP_THRESHOLD_DEFAULT :: u32 where "OSAL_HEAP_THRESHOLD_DEFAULT \<equiv> 0x50"

definition OS_HeapInit :: "heap_sys \<Rightarrow> heap_sys" where
  "OS_HeapInit s = s\<lparr>hp_threshold := OSAL_HEAP_THRESHOLD_DEFAULT, hp_peak := 0, hp_current := 0, hp_alert := False\<rparr>"

section \<open>Reading /proc/self/status\<close>

text \<open>
  \<open>sscanf (line, "%*s %u", &value)\<close> of the C library: a word is skipped, then the number is read as
  \<open>strtoul\<close> reads it, with a sign and no value above \<open>2 ^ 64 - 1\<close>, and cut to 32 bits. The value stays
  as it is when there is no word or no number.
\<close>

definition scan_u :: "string \<Rightarrow> u32 \<Rightarrow> u32" where
  "scan_u s old =
     (let neg = (s \<noteq> [] \<and> hd s = CHR ''-''); signed = (neg \<or> s \<noteq> [] \<and> hd s = CHR ''+'')
      in case strtoul_digits (if signed then tl s else s) of
           None \<Rightarrow> old
         | Some v \<Rightarrow> if 2 ^ 64 \<le> v then - 1 else if neg then - of_nat v else of_nat v)"

definition scan_word_u :: "string \<Rightarrow> u32 \<Rightarrow> u32" where
  "scan_word_u line old =
     (let s = dropWhile c_space line
      in if s = [] then old
         else scan_u (dropWhile c_space (dropWhile (\<lambda>c. \<not> c_space c) s)) old)"

definition read_memory_from_proc :: "string \<Rightarrow> string option \<Rightarrow> u32" where
  "read_memory_from_proc field status =
     (case status of
        None \<Rightarrow> 0
      | Some content \<Rightarrow>
          (case find (\<lambda>line. take (length field) line = field) (fgets_lines OSAL_HEAP_LINE_BUFFER_SIZE content) of
             None \<Rightarrow> 0
           | Some line \<Rightarrow> scan_word_u line 0) * OSAL_BYTES_PER_KB)"

section \<open>Operations\<close>

text \<open>The two files are what the two readings of \<open>/proc/self/status\<close> find.\<close>

definition osal_heap_get_info :: "string option \<Rightarrow> string option \<Rightarrow> bool \<Rightarrow> bool \<Rightarrow> heap_sys \<Rightarrow> int \<times> (u32 \<times> u32) option \<times> heap_sys" where
  "osal_heap_get_info status1 status2 free_bytes total_bytes s =
     (if \<not> free_bytes \<or> \<not> total_bytes then (OSAL_ERR_INVALID_POINTER, None, s)
      else let vm_rss = read_memory_from_proc ''VmRSS:'' status1;
               vm_peak = read_memory_from_proc ''VmPeak:'' status2;
               (vm_rss, vm_peak, s) =
                 (if vm_rss = 0 \<and> vm_peak = 0 then (hp_current s, hp_peak s, s)
                  else (vm_rss, vm_peak, s\<lparr>hp_current := vm_rss, hp_peak := if hp_peak s < vm_rss then vm_rss else hp_peak s\<rparr>))
           in (OSAL_SUCCESS, Some (if vm_rss < vm_peak then vm_peak - vm_rss else 0, vm_peak), s))"

definition osal_heap_set_threshold :: "u32 \<Rightarrow> heap_sys \<Rightarrow> int \<times> heap_sys" where
  "osal_heap_set_threshold percent s =
     (if OSAL_HEAP_PERCENT_MAX < percent then (OSAL_ERR_INVALID_SIZE, s)
      else (OSAL_SUCCESS, s\<lparr>hp_threshold := percent\<rparr>))"

definition osal_heap_check_threshold :: "string option \<Rightarrow> string option \<Rightarrow> bool \<Rightarrow> heap_sys \<Rightarrow> int \<times> bool option \<times> heap_sys" where
  "osal_heap_check_threshold status1 status2 exceeded s =
     (if \<not> exceeded then (OSAL_ERR_INVALID_POINTER, None, s)
      else case osal_heap_get_info status1 status2 True True s of (_, info, s) \<Rightarrow>
        let (free_bytes, total_bytes) = the info
        in if total_bytes = 0 then (OSAL_SUCCESS, Some False, s)
           else let usage_percent = (total_bytes - free_bytes) * OSAL_HEAP_PERCENT_MULTIPLIER div total_bytes;
                    exceeded = (hp_threshold s \<le> usage_percent)
                in (OSAL_SUCCESS, Some exceeded,
                     if exceeded \<and> \<not> hp_alert s then s\<lparr>hp_alert := True\<rparr>
                     else if \<not> exceeded then s\<lparr>hp_alert := False\<rparr> else s))"

definition osal_heap_get_stats :: "bool \<Rightarrow> bool \<Rightarrow> heap_sys \<Rightarrow> int \<times> (u32 \<times> u32) option" where
  "osal_heap_get_stats current peak s =
     (if \<not> current \<or> \<not> peak then (OSAL_ERR_INVALID_POINTER, None)
      else (OSAL_SUCCESS, Some (hp_current s, hp_peak s)))"

definition osal_malloc :: "u32 \<Rightarrow> heap_answer \<Rightarrow> heap_sys \<Rightarrow> nat option \<times> heap_sys" where
  "osal_malloc n ans s =
     (if 0xFFFFFFFF - MEM_BLOCK_HEADER_SIZE < n then (None, s)
      else case ans of
          None \<Rightarrow> (None, s)
        | Some (a, bs) \<Rightarrow>
            let s = s\<lparr>hp_mem := (hp_mem s)(a := \<lparr>hb_size = n, hb_magic = MEM_BLOCK_MAGIC, hb_bytes = bs\<rparr>),
                      hp_live := insert a (hp_live s)\<rparr>;
                s = s\<lparr>hp_current := hp_current s + n\<rparr>;
                s = (if hp_peak s < hp_current s then s\<lparr>hp_peak := hp_current s\<rparr> else s)
            in (Some a, s))"

definition osal_free :: "nat option \<Rightarrow> heap_sys \<Rightarrow> heap_sys option" where
  "osal_free p s =
     (case p of
        None \<Rightarrow> Some s
      | Some a \<Rightarrow>
          let header = hp_mem s a
          in if MEM_BLOCK_MAGIC \<noteq> hb_magic header then None
             else let s = (if hp_current s < hb_size header then s\<lparr>hp_current := 0\<rparr>
                           else s\<lparr>hp_current := hp_current s - hb_size header\<rparr>);
                      s = s\<lparr>hp_mem := (hp_mem s)(a := header\<lparr>hb_magic := 0\<rparr>)\<rparr>
                  in Some (s\<lparr>hp_live := hp_live s - {a}\<rparr>))"

definition osal_realloc :: "nat option \<Rightarrow> u32 \<Rightarrow> heap_answer \<Rightarrow> heap_sys \<Rightarrow> (nat option \<times> heap_sys) option" where
  "osal_realloc p n ans s =
     (case p of
        None \<Rightarrow> Some (osal_malloc n ans s)
      | Some a \<Rightarrow>
          if n = 0 then map_option (Pair None) (osal_free (Some a) s)
          else if MEM_BLOCK_MAGIC \<noteq> hb_magic (hp_mem s a) then Some (None, s)
          else let old_size = hb_size (hp_mem s a)
               in case osal_malloc n ans s of
                    (None, s) \<Rightarrow> Some (None, s)
                  | (Some new, s) \<Rightarrow>
                      let s = heap_copy new a (unat (if old_size < n then old_size else n)) s
                      in map_option (Pair (Some new)) (osal_free (Some a) s))"

section \<open>The contract\<close>

lemma user_malloc_law:
  assumes ok: "heap_ok MEM_BLOCK_MAGIC s" and ans: "answer_ok (heap_view_of s) n ans" and r: "osal_malloc n ans s = (r, s')"
  shows "heap_ok MEM_BLOCK_MAGIC s' \<and> (r, heap_view_of s') = alloc_spec id n ans (heap_view_of s)"
proof (cases "n \<le> 0xFFFFFFF7 \<and> ans \<noteq> None")
  case True
  then obtain a bs where a: "ans = Some (a, bs)" and n: "\<not> 0xFFFFFFFF - MEM_BLOCK_HEADER_SIZE < n" by force
  from r a n have s': "r = Some a" "hp_live s' = insert a (hp_live s)" "hp_current s' = hp_current s + n"
      "hp_mem s' = (hp_mem s)(a := \<lparr>hb_size = n, hb_magic = MEM_BLOCK_MAGIC, hb_bytes = bs\<rparr>)" "hp_current s' \<le> hp_peak s'"
    by (cases "hp_peak s < hp_current s + n"; auto simp: osal_malloc_def Let_def)+
  show ?thesis using heap_grow [OF ok ans [unfolded a] s'(4,2,3,5)] a True s'(1) by (simp add: alloc_spec_def)
next
  case False
  with ok r show ?thesis by (auto simp: osal_malloc_def alloc_spec_def not_le split: option.splits)
qed

lemma user_free_law:
  assumes ok: "heap_ok MEM_BLOCK_MAGIC s" and a: "a \<in> hp_live s"
  shows "\<exists>s'. osal_free (Some a) s = Some s' \<and> heap_ok MEM_BLOCK_MAGIC s' \<and> heap_view_of s' = (heap_view_of s)(a := None)"
proof -
  have magic: "hb_magic (hp_mem s a) = MEM_BLOCK_MAGIC" using ok a by (simp add: heap_ok_def)
  have le: "hb_size (hp_mem s a) \<le> hp_current s"
    by (rule heap_shrink(3) [OF ok a, of "s\<lparr>hp_live := hp_live s - {a}, hp_current := hp_current s - hb_size (hp_mem s a)\<rparr>"]) simp_all
  then have "\<not> hp_current s < hb_size (hp_mem s a)" by (simp add: not_less)
  note le = this
  define s' where "s' = the (osal_free (Some a) s)"
  then have s': "osal_free (Some a) s = Some s'" "\<forall>p. p \<noteq> a \<longrightarrow> hp_mem s' p = hp_mem s p" "hp_live s' = hp_live s - {a}"
      "hp_current s' = hp_current s - hb_size (hp_mem s a)" "hp_peak s' = hp_peak s"
    using le by (simp_all add: osal_free_def Let_def magic)
  with heap_shrink(1,2) [OF ok a s'(2-5)] show ?thesis by blast
qed

interpretation user_core: osal_heap_core osal_malloc osal_free MEM_BLOCK_MAGIC
proof unfold_locales
  show "hp_mem s' p = hp_mem s p"
    if "osal_malloc n ans s = (r, s')" "p \<in> hp_live s" "answer_ok (heap_view_of s) n ans" for n ans s r s' p
    using that by (auto simp: osal_malloc_def Let_def answer_ok_def split: if_splits option.splits prod.splits)
qed (use user_malloc_law user_free_law in \<open>auto simp: osal_free_def\<close>)

lemma user_realloc_law:
  assumes ok: "heap_ok MEM_BLOCK_MAGIC s" and c: "call_ok (heap_view_of s) (HEAP_REALLOC p n ans)"
  shows "\<exists>r s'. osal_realloc p n ans s = Some (r, s') \<and> heap_ok MEM_BLOCK_MAGIC s' \<and>
     (r, heap_view_of s') = heap_spec (HEAP_REALLOC p n ans) (heap_view_of s)"
proof (cases p)
  case None
  with c have "answer_ok (heap_view_of s) n ans" by simp
  from user_malloc_law [OF ok this, of "fst (osal_malloc n ans s)" "snd (osal_malloc n ans s)"] None show ?thesis
    by (auto simp: osal_realloc_def intro!: exI [of _ "fst (osal_malloc n ans s)"] exI [of _ "snd (osal_malloc n ans s)"])
next
  case (Some a)
  with c have a: "a \<in> hp_live s" and ans: "answer_ok (heap_view_of s) n ans" by auto
  from ok a have magic: "hb_magic (hp_mem s a) = MEM_BLOCK_MAGIC" by (simp add: heap_ok_def)
  obtain q t where m: "osal_malloc n ans s = (q, t)" by force
  show ?thesis
  proof (cases "n = 0 \<or> q = None")
    case True
    with Some user_free_law [OF ok a] user_malloc_law [OF ok ans m] magic m show ?thesis
      by (auto simp: osal_realloc_def alloc_spec_def split: option.splits if_splits)
  next
    case False
    then obtain b where n: "n \<noteq> 0" and b: "q = Some b" by auto
    define k where "k = unat (if hb_size (hp_mem s a) < n then hb_size (hp_mem s a) else n)"
    then have "k = min (unat (hb_size (hp_mem s a))) (unat n)" by (simp add: min_def word_less_nat_alt)
    note moved = user_core.move_law [OF ok a ans m [unfolded b] this n]
    have "osal_realloc p n ans s = map_option (Pair (Some b)) (osal_free (Some a) (heap_copy b a k t))"
      by (simp add: osal_realloc_def Some n magic m b k_def Let_def)
    with moved Some show ?thesis by auto
  qed
qed

interpretation user_heap: osal_heap osal_malloc osal_free MEM_BLOCK_MAGIC osal_realloc
  by unfold_locales (rule user_realloc_law)

lemma user_init_ok:
  "hp_live s = {} \<Longrightarrow> heap_ok MEM_BLOCK_MAGIC (OS_HeapInit s)" "hp_live s = {} \<Longrightarrow> heap_view_of (OS_HeapInit s) = Map.empty"
  by (auto simp: heap_ok_def OS_HeapInit_def heap_view_of_def view_total_def fun_eq_iff)

definition user_heap_start :: heap_sys where
  "user_heap_start = \<lparr>hp_mem = (\<lambda>_. no_block), hp_live = {}, hp_current = 0, hp_peak = 0,
     hp_threshold = OSAL_HEAP_THRESHOLD_DEFAULT, hp_alert = False\<rparr>"

text \<open>A pointer that was freed, and not handed out again, ends the program when it is freed again.\<close>

lemma user_double_free: "osal_free (Some a) s = Some s' \<Longrightarrow> osal_free (Some a) s' = None"
  by (auto simp: osal_free_def Let_def split: if_splits)

section \<open>What the reading of /proc finds\<close>

lemma scan_u_digits:
  assumes "n < 2 ^ 64" and "rest = [] \<or> digit_val (hd rest) = 99"
  shows "scan_u (dec_digits n @ rest) old = of_nat n"
proof -
  have ds: "\<forall>c \<in> set (dec_digits n). digit_val c < 10" using dec_digits_digits by blast
  then have tw: "takeWhile (\<lambda>c. digit_val c < 10) (dec_digits n @ rest) = dec_digits n"
    using assms(2) by (cases rest) (auto simp: takeWhile_append)
  obtain c s where cs: "dec_digits n = c # s" by (cases "dec_digits n") auto
  with ds have "digit_val c < 10" by simp
  then have "c \<noteq> CHR ''-''" "c \<noteq> CHR ''+''" by (auto simp: digit_val_def char_code_def)
  moreover have "strtoul_digits (c # s @ rest) = Some n"
    using tw cs digits_val_dec [of n] by (simp add: strtoul_digits_def)
  ultimately show ?thesis using assms(1) by (simp add: scan_u_def cs Let_def)
qed

lemma proc_line_value:
  assumes "\<forall>l \<in> set before \<union> set after. plain_line l" and "\<forall>l \<in> set before. take (length field) (l @ [newline]) \<noteq> field"
    and "field \<noteq> []" and "\<forall>c \<in> set field. \<not> c_space c \<and> c \<noteq> newline"
    and "ws \<noteq> []" and "\<forall>c \<in> set ws. c_space c \<and> c \<noteq> newline" and "n < 2 ^ 64"
    and "plain_line (field @ ws @ dec_digits n @ '' kB'')"
  shows "read_memory_from_proc field (Some (text_of_lines (before @ (field @ ws @ dec_digits n @ '' kB'') # after))) =
    of_nat (n * 1024)"
proof -
  let ?line = "field @ ws @ dec_digits n @ '' kB'' @ [newline]"
  let ?p = "\<lambda>line. take (length field) line = field"
  have lines: "fgets_lines 256 (text_of_lines (before @ (field @ ws @ dec_digits n @ '' kB'') # after)) =
      map (\<lambda>l. l @ [newline]) before @ ?line # map (\<lambda>l. l @ [newline]) after"
    using fgets_text [of "before @ (field @ ws @ dec_digits n @ '' kB'') # after"] assms(1,8) by auto
  have "find ?p (map (\<lambda>l. l @ [newline]) before @ ?line # map (\<lambda>l. l @ [newline]) after) = Some ?line"
    using assms(2) by (induction before) auto
  moreover have "scan_word_u ?line 0 = of_nat n"
  proof -
    have "dropWhile c_space ?line = ?line" using assms(3,4) by (cases field) auto
    moreover have "dropWhile (\<lambda>c. \<not> c_space c) ?line = ws @ dec_digits n @ '' kB'' @ [newline]"
      using assms(4,5,6) by (cases ws) (auto simp: dropWhile_append2)
    moreover have "dropWhile c_space (ws @ dec_digits n @ '' kB'' @ [newline]) = dec_digits n @ '' kB'' @ [newline]"
    proof -
      obtain c s where cs: "dec_digits n = c # s" by (cases "dec_digits n") auto
      have "digit_val c < 10" using dec_digits_digits [of c n] cs by simp
      then show ?thesis using digit_not_c_space [of c] assms(6) by (auto simp: cs dropWhile_append2)
    qed
    moreover have "?line \<noteq> []" using assms(3) by simp
    ultimately show ?thesis using assms(7) by (simp add: scan_word_u_def Let_def scan_u_digits)
  qed
  ultimately show ?thesis by (simp add: read_memory_from_proc_def lines)
qed

text \<open>
  When the status file has the line of the field, however it is indented and whatever precedes it,
  the value in bytes is that of the line times 1024, modulo \<open>2 ^ 32\<close>: sizes from 4 GiB on wrap, and a
  process of exactly 4 GiB counts as one that uses nothing.
\<close>
theorem proc_status_value:
  assumes "\<forall>l \<in> set before \<union> set after. plain_line l" and "\<forall>l \<in> set before. take (length field) (l @ [newline]) \<noteq> field"
    and "field \<noteq> []" and "\<forall>c \<in> set field. \<not> c_space c \<and> c \<noteq> newline"
    and "ws \<noteq> []" and "\<forall>c \<in> set ws. c_space c \<and> c \<noteq> newline" and "n < 2 ^ 64"
    and "plain_line (field @ ws @ dec_digits n @ '' kB'')"
  shows "read_memory_from_proc field (Some (text_of_lines (before @ (field @ ws @ dec_digits n @ '' kB'') # after))) =
    of_nat (n * 1024)"
  by (rule proc_line_value [OF assms])

lemma newline_code: "newline = CHR 0x0A"
  by (simp add: newline_def char_of_eq_iff)

lemma proc_status_value_witness:
  "read_memory_from_proc ''VmRSS:'' (Some (text_of_lines ([''Name: init''] @ (''VmRSS:'' @ '' '' @ dec_digits 4194304 @ '' kB'') # []))) = 0"
proof -
  have "dec_digits 4194304 = ''4194304''" by (simp add: dec_digits.simps dec_char_def char_of_eq_iff)
  then show ?thesis
    using proc_status_value [of "[''Name: init'']" "[]" "''VmRSS:''" "'' ''" 4194304]
    by (simp add: plain_line_def newline_code c_space_def char_code_def)
qed

definition one_field :: "string \<Rightarrow> nat \<Rightarrow> string option" where
  "one_field field n = Some (text_of_lines [field @ '' '' @ dec_digits n @ '' kB''])"

lemma one_field_value:
  assumes "field = ''VmRSS:'' \<or> field = ''VmPeak:''" and "n < 1000000"
  shows "read_memory_from_proc field (one_field field n) = of_nat (n * 1024)"
proof -
  have "set (dec_digits n) \<subseteq> {c. digit_val c < 10}" using dec_digits_digits by blast
  then have "newline \<notin> set (dec_digits n)" using newline_space(2) by force
  moreover have "length (dec_digits n) < 240"
    using length_dec_digits [of n 5] assms(2) by simp
  ultimately show ?thesis
    using proc_line_value [of "[]" "[]" field "'' ''" n] assms
    by (auto simp: one_field_def plain_line_def newline_code c_space_def char_code_def)
qed

section \<open>Accounting and threshold\<close>

lemma view_current [simp]: "heap_view_of (s\<lparr>hp_current := c, hp_peak := m\<rparr>) = heap_view_of s"
  by (simp add: heap_view_of_def fun_eq_iff)

text \<open>
  Asking the user heap for information replaces its count of the bytes in use by the resident size
  of the process: unless the two happen to agree, the accounting is wrong from then on.
\<close>
theorem get_info_breaks_accounting:
  "let r = read_memory_from_proc ''VmRSS:'' st1 in
   r \<noteq> 0 \<longrightarrow> hp_current (snd (snd (osal_heap_get_info st1 st2 True True s))) = r \<and>
     (unat r \<noteq> view_total (heap_view_of s) \<longrightarrow> \<not> heap_ok MEM_BLOCK_MAGIC (snd (snd (osal_heap_get_info st1 st2 True True s))))"
  by (auto simp: osal_heap_get_info_def Let_def heap_ok_def)

lemma get_info_breaks_accounting_witness:
  "\<not> heap_ok MEM_BLOCK_MAGIC (snd (snd (osal_heap_get_info (one_field ''VmRSS:'' 4) None True True user_heap_start)))"
proof -
  have "heap_view_of user_heap_start = Map.empty" by (simp add: heap_view_of_def user_heap_start_def fun_eq_iff)
  then show ?thesis
    using get_info_breaks_accounting [of "one_field ''VmRSS:'' 4" None user_heap_start] one_field_value [of "''VmRSS:''" 4]
    by (simp add: Let_def)
qed

text \<open>
  The user heap compares the resident size with the peak of the virtual size: it reports that the
  threshold is exceeded exactly when the one is at least that percentage of the other, as long as the
  resident size is below 42949673 bytes. A process of 41944 kB, all of it resident, is reported to be
  below the default threshold.
\<close>
theorem user_threshold_exact:
  "let r = read_memory_from_proc ''VmRSS:'' st1; p = read_memory_from_proc ''VmPeak:'' st2 in
   (p \<noteq> 0 \<and> r \<le> p \<and> unat r * 100 < 2 ^ 32 \<longrightarrow>
     fst (snd (osal_heap_check_threshold st1 st2 True s)) = Some (unat (hp_threshold s) * unat p \<le> unat r * 100)) \<and>
   (r = 41944 * 1024 \<and> p = 41944 * 1024 \<and> hp_threshold s = OSAL_HEAP_THRESHOLD_DEFAULT \<longrightarrow>
     fst (snd (osal_heap_check_threshold st1 st2 True s)) = Some False)"
proof -
  define r where "r = read_memory_from_proc ''VmRSS:'' st1"
  define p where "p = read_memory_from_proc ''VmPeak:'' st2"
  have used: "p - (if r < p then p - r else 0) = r" if "r \<le> p"
    using that by auto
  have main: "fst (snd (osal_heap_check_threshold st1 st2 True s)) = Some (hp_threshold s \<le> r * 100 div p)"
    if "p \<noteq> 0" "r \<le> p"
    using that used by (simp add: osal_heap_check_threshold_def osal_heap_get_info_def Let_def r_def p_def)
  show ?thesis
    unfolding Let_def r_def [symmetric] p_def [symmetric]
  proof (intro conjI impI)
    assume a: "p \<noteq> 0 \<and> r \<le> p \<and> unat r * 100 < 2 ^ 32"
    then have "0 < unat p" by (simp add: unat_gt_0)
    with a show "fst (snd (osal_heap_check_threshold st1 st2 True s)) = Some (unat (hp_threshold s) * unat p \<le> unat r * 100)"
      by (simp add: main word_percent percent_exact)
  next
    assume "r = 41944 * 1024 \<and> p = 41944 * 1024 \<and> hp_threshold s = OSAL_HEAP_THRESHOLD_DEFAULT"
    with main show "fst (snd (osal_heap_check_threshold st1 st2 True s)) = Some False" by simp
  qed
qed

lemma user_threshold_exact_witness:
  "fst (snd (osal_heap_check_threshold (one_field ''VmRSS:'' 80) (one_field ''VmPeak:'' 100) True user_heap_start)) = Some True"
  using user_threshold_exact [of "one_field ''VmRSS:'' 80" "one_field ''VmPeak:'' 100" user_heap_start]
    one_field_value [of "''VmRSS:''" 80] one_field_value [of "''VmPeak:''" 100]
  by (simp add: user_heap_start_def Let_def)

section \<open>Sessions\<close>

text \<open>
  A session of a client with every operation of the heap. The two files of \<open>UH_INFO\<close> and \<open>UH_CHECK\<close> are
  what \<open>/proc/self/status\<close> holds at the two readings; the truth values say which result pointers are given.
\<close>

datatype user_heap_call =
  UH_BLOCK heap_call | UH_INFO "string option" "string option" bool bool
  | UH_CHECK "string option" "string option" bool | UH_THRESHOLD u32 | UH_STATS bool bool

datatype user_heap_answer =
  UH_POINTER "nat option" | UH_SIZES int "(u32 \<times> u32) option" | UH_EXCEEDED int "bool option" | UH_STATUS int

definition user_heap_do :: "user_heap_call \<Rightarrow> heap_sys \<Rightarrow> (user_heap_answer \<times> heap_sys) option" where
  "user_heap_do c s =
     (case c of
        UH_BLOCK b \<Rightarrow> map_option (\<lambda>(r, s). (UH_POINTER r, s)) (heap_step osal_malloc osal_free osal_realloc b s)
      | UH_INFO st1 st2 f t \<Rightarrow> (case osal_heap_get_info st1 st2 f t s of (r, sizes, s) \<Rightarrow> Some (UH_SIZES r sizes, s))
      | UH_CHECK st1 st2 e \<Rightarrow> (case osal_heap_check_threshold st1 st2 e s of (r, x, s) \<Rightarrow> Some (UH_EXCEEDED r x, s))
      | UH_THRESHOLD percent \<Rightarrow> (case osal_heap_set_threshold percent s of (r, s) \<Rightarrow> Some (UH_STATUS r, s))
      | UH_STATS c p \<Rightarrow> (case osal_heap_get_stats c p s of (r, sizes) \<Rightarrow> Some (UH_SIZES r sizes, s)))"

fun user_heap_run :: "user_heap_call list \<Rightarrow> heap_sys \<Rightarrow> (user_heap_answer list \<times> heap_sys) option" where
  "user_heap_run [] s = Some ([], s)"
| "user_heap_run (c # cs) s =
     (case user_heap_do c s of
        None \<Rightarrow> None
      | Some (r, s) \<Rightarrow> map_option (\<lambda>(rs, s). (r # rs, s)) (user_heap_run cs s))"

text \<open>
  The calls of a session that concern blocks, the pointers among its answers, and the resident size
  that a call takes over as the bytes in use, when its readings of the status file find anything.
\<close>

fun block_calls :: "user_heap_call list \<Rightarrow> heap_call list" where
  "block_calls [] = []"
| "block_calls (UH_BLOCK b # cs) = b # block_calls cs"
| "block_calls (_ # cs) = block_calls cs"

fun pointer_answers :: "user_heap_answer list \<Rightarrow> nat option list" where
  "pointer_answers [] = []"
| "pointer_answers (UH_POINTER r # rs) = r # pointer_answers rs"
| "pointer_answers (_ # rs) = pointer_answers rs"

definition size_read :: "string option \<Rightarrow> string option \<Rightarrow> u32 option" where
  "size_read st1 st2 =
     (let r = read_memory_from_proc ''VmRSS:'' st1
      in if r = 0 \<and> read_memory_from_proc ''VmPeak:'' st2 = 0 then None else Some r)"

fun size_taken_over :: "user_heap_call \<Rightarrow> u32 option" where
  "size_taken_over (UH_INFO st1 st2 f t) = (if f \<and> t then size_read st1 st2 else None)"
| "size_taken_over (UH_CHECK st1 st2 e) = (if e then size_read st1 st2 else None)"
| "size_taken_over _ = None"

text \<open>The blocks are sound whatever the counters say.\<close>

definition same_blocks :: "heap_sys \<Rightarrow> heap_sys \<Rightarrow> bool" where
  "same_blocks s t \<longleftrightarrow> hp_mem s = hp_mem t \<and> hp_live s = hp_live t"

definition blocks_ok :: "heap_sys \<Rightarrow> bool" where
  "blocks_ok s \<longleftrightarrow> (\<exists>t. same_blocks s t \<and> heap_ok MEM_BLOCK_MAGIC t)"

lemma same_blocks_refl [simp]: "same_blocks s s"
  by (simp add: same_blocks_def)

lemma same_blocks_view: "same_blocks s t \<Longrightarrow> heap_view_of s = heap_view_of t"
  by (simp add: same_blocks_def heap_view_of_def fun_eq_iff)

lemma same_blocks_malloc:
  "same_blocks s t \<Longrightarrow> rel_prod (=) same_blocks (osal_malloc n ans s) (osal_malloc n ans t)"
  by (auto simp: osal_malloc_def same_blocks_def Let_def split: option.splits)

lemma same_blocks_free: "same_blocks s t \<Longrightarrow> rel_option same_blocks (osal_free p s) (osal_free p t)"
  by (auto simp: osal_free_def same_blocks_def Let_def split: option.splits)

lemma same_blocks_copy: "same_blocks s t \<Longrightarrow> same_blocks (heap_copy a b k s) (heap_copy a b k t)"
  by (simp add: same_blocks_def heap_copy_def)

lemma same_blocks_realloc:
  assumes "same_blocks s t"
  shows "rel_option (rel_prod (=) same_blocks) (osal_realloc p n ans s) (osal_realloc p n ans t)"
proof (cases p)
  case None
  with same_blocks_malloc [OF assms, of n ans] show ?thesis by (simp add: osal_realloc_def)
next
  case (Some a)
  have free: "rel_option (rel_prod (=) same_blocks) (map_option (Pair r) (osal_free q u)) (map_option (Pair r) (osal_free q v))"
    if "same_blocks u v" for r :: "nat option" and q u v
    using same_blocks_free [OF that, of q] by (auto simp: option.rel_map elim: option.rel_mono_strong)
  obtain r u where u: "osal_malloc n ans s = (r, u)" by force
  obtain v where v: "osal_malloc n ans t = (r, v)" "same_blocks u v"
    using same_blocks_malloc [OF assms, of n ans] u by (cases "osal_malloc n ans t") simp
  have mem: "hp_mem s = hp_mem t" using assms by (simp add: same_blocks_def)
  show ?thesis
  proof (cases r)
    case None
    with Some free [OF assms] assms v(2) show ?thesis by (simp add: osal_realloc_def u v(1) mem rel_prod_conv)
  next
    case (Some b)
    with \<open>p = Some a\<close> free [OF assms] free [OF same_blocks_copy [OF v(2)]] assms show ?thesis
      by (simp add: osal_realloc_def u v(1) mem Let_def rel_prod_conv)
  qed
qed

lemma same_blocks_step:
  "same_blocks s t \<Longrightarrow> rel_option (rel_prod (=) same_blocks)
    (heap_step osal_malloc osal_free osal_realloc c s) (heap_step osal_malloc osal_free osal_realloc c t)"
proof (cases c)
  case (HEAP_MALLOC n ans)
  then show "same_blocks s t \<Longrightarrow> ?thesis" using same_blocks_malloc [of s t n ans] by simp
next
  case (HEAP_FREE p)
  then show "same_blocks s t \<Longrightarrow> ?thesis" using same_blocks_free [of s t p] by (auto simp: option.rel_map elim: option.rel_mono_strong)
next
  case (HEAP_STORE p k b)
  then show "same_blocks s t \<Longrightarrow> ?thesis" by (simp add: same_blocks_def heap_store_def)
qed (simp add: same_blocks_realloc)

lemma heap_ok_blocks: "heap_ok MEM_BLOCK_MAGIC s \<Longrightarrow> blocks_ok s"
  using same_blocks_refl unfolding blocks_ok_def by blast

lemma blocks_ok_same: "blocks_ok s \<Longrightarrow> same_blocks s' s \<Longrightarrow> blocks_ok s'"
  by (auto simp: blocks_ok_def same_blocks_def)

lemma block_step:
  assumes "blocks_ok s" and "call_ok (heap_view_of s) b"
  shows "\<exists>s'. user_heap_do (UH_BLOCK b) s = Some (UH_POINTER (fst (heap_spec b (heap_view_of s))), s') \<and> blocks_ok s' \<and>
    heap_view_of s' = snd (heap_spec b (heap_view_of s)) \<and> (heap_ok MEM_BLOCK_MAGIC s \<longrightarrow> heap_ok MEM_BLOCK_MAGIC s')"
proof -
  from assms(1) obtain t where t: "same_blocks s t" "heap_ok MEM_BLOCK_MAGIC t" by (auto simp: blocks_ok_def)
  note view = same_blocks_view [OF t(1)]
  from user_heap.step_law [OF t(2)] assms(2) obtain t' where
    t': "heap_step osal_malloc osal_free osal_realloc b t = Some (fst (heap_spec b (heap_view_of s)), t')"
      "heap_ok MEM_BLOCK_MAGIC t'" "heap_view_of t' = snd (heap_spec b (heap_view_of s))"
    unfolding view by blast
  with same_blocks_step [OF t(1), of b] obtain s' where
    s': "heap_step osal_malloc osal_free osal_realloc b s = Some (fst (heap_spec b (heap_view_of s)), s')" "same_blocks s' t'"
    by (auto simp: option_rel_Some2 rel_prod_sel)
  have "heap_ok MEM_BLOCK_MAGIC s'" if "heap_ok MEM_BLOCK_MAGIC s"
    using user_heap.step_law [OF that assms(2)] s'(1) by auto
  moreover have "blocks_ok s'" using t'(2) s'(2) by (auto simp: blocks_ok_def)
  ultimately show ?thesis using s' same_blocks_view [OF s'(2)] t'(3) by (simp add: user_heap_do_def)
qed

lemma get_info_step:
  assumes "osal_heap_get_info st1 st2 f t s = (r, sizes, s')"
  shows "same_blocks s' s" and "hp_alert s' = hp_alert s" and "hp_threshold s' = hp_threshold s"
    and "(if f \<and> t then size_read st1 st2 else None) = None \<Longrightarrow> s' = s"
    and "(if f \<and> t then size_read st1 st2 else None) = Some k \<Longrightarrow> hp_current s' = k"
  using assms by (auto simp: osal_heap_get_info_def same_blocks_def size_read_def Let_def split: if_splits)

lemma heap_view_alert [simp]:
  "heap_view_of (s\<lparr>hp_alert := a\<rparr>) = heap_view_of s" "heap_view_of (s\<lparr>hp_threshold := n\<rparr>) = heap_view_of s"
  by (simp_all add: heap_view_of_def fun_eq_iff)

lemma heap_ok_alert [simp]: "heap_ok m (s\<lparr>hp_alert := a\<rparr>) = heap_ok m s" "heap_ok m (s\<lparr>hp_threshold := n\<rparr>) = heap_ok m s"
  by (simp_all add: heap_ok_def)

lemma check_step:
  assumes "osal_heap_check_threshold st1 st2 e s = (r, x, s')"
  shows "same_blocks s' s"
    and "(if e then size_read st1 st2 else None) = None \<Longrightarrow> heap_ok MEM_BLOCK_MAGIC s \<Longrightarrow> heap_ok MEM_BLOCK_MAGIC s'"
    and "(if e then size_read st1 st2 else None) = Some k \<Longrightarrow> hp_current s' = k"
proof -
  obtain q sizes u where u: "osal_heap_get_info st1 st2 True True s = (q, sizes, u)" by (cases "osal_heap_get_info st1 st2 True True s")
  have "s' = s \<and> \<not> e \<or> e \<and> (\<exists>a. s' = u\<lparr>hp_alert := a\<rparr>)"
  proof (cases e)
    case True
    have "s' = u \<or> (\<exists>a. s' = u\<lparr>hp_alert := a\<rparr>)"
      using assms True by (auto simp: osal_heap_check_threshold_def u Let_def split: prod.splits if_splits)
    moreover have "u = u\<lparr>hp_alert := hp_alert u\<rparr>" by simp
    ultimately show ?thesis using True by metis
  qed (use assms in \<open>simp add: osal_heap_check_threshold_def\<close>)
  then show "same_blocks s' s"
    and "(if e then size_read st1 st2 else None) = None \<Longrightarrow> heap_ok MEM_BLOCK_MAGIC s \<Longrightarrow> heap_ok MEM_BLOCK_MAGIC s'"
    and "(if e then size_read st1 st2 else None) = Some k \<Longrightarrow> hp_current s' = k"
    using get_info_step(1,4,5) [OF u] by (auto simp: same_blocks_def split: if_splits)
qed

lemma other_step:
  assumes "blocks_ok s" and "\<forall>b. c \<noteq> UH_BLOCK b"
  shows "\<exists>r s'. user_heap_do c s = Some (r, s') \<and> (\<forall>p. r \<noteq> UH_POINTER p) \<and> blocks_ok s' \<and>
    heap_view_of s' = heap_view_of s \<and>
    (size_taken_over c = None \<and> heap_ok MEM_BLOCK_MAGIC s \<longrightarrow> heap_ok MEM_BLOCK_MAGIC s') \<and>
    (\<forall>k. size_taken_over c = Some k \<longrightarrow> hp_current s' = k)"
proof -
  have "\<exists>r s'. user_heap_do c s = Some (r, s') \<and> (\<forall>p. r \<noteq> UH_POINTER p) \<and> same_blocks s' s \<and>
    (size_taken_over c = None \<and> heap_ok MEM_BLOCK_MAGIC s \<longrightarrow> heap_ok MEM_BLOCK_MAGIC s') \<and>
    (\<forall>k. size_taken_over c = Some k \<longrightarrow> hp_current s' = k)"
  proof (cases c)
    case (UH_INFO st1 st2 f t)
    obtain r sizes s' where "osal_heap_get_info st1 st2 f t s = (r, sizes, s')" by (cases "osal_heap_get_info st1 st2 f t s")
    from this get_info_step(1,4,5) [OF this] UH_INFO show ?thesis by (auto simp: user_heap_do_def)
  next
    case (UH_CHECK st1 st2 e)
    obtain r x s' where "osal_heap_check_threshold st1 st2 e s = (r, x, s')" by (cases "osal_heap_check_threshold st1 st2 e s")
    from this check_step [OF this] UH_CHECK show ?thesis by (auto simp: user_heap_do_def)
  qed (use assms(2) in \<open>auto simp: user_heap_do_def osal_heap_set_threshold_def osal_heap_get_stats_def same_blocks_def\<close>)
  then show ?thesis using blocks_ok_same [OF assms(1)] same_blocks_view by fastforce
qed

lemma user_session_steps:
  assumes "blocks_ok s" and "session_ok (heap_view_of s) (block_calls cs)"
  shows "\<exists>answers s'. user_heap_run cs s = Some (answers, s') \<and> blocks_ok s' \<and>
    pointer_answers answers = fst (heap_spec_session (block_calls cs) (heap_view_of s)) \<and>
    heap_view_of s' = snd (heap_spec_session (block_calls cs) (heap_view_of s)) \<and>
    ((\<forall>c \<in> set cs. size_taken_over c = None) \<and> heap_ok MEM_BLOCK_MAGIC s \<longrightarrow> heap_ok MEM_BLOCK_MAGIC s') \<and>
    (\<forall>k. cs \<noteq> [] \<and> size_taken_over (last cs) = Some k \<longrightarrow> hp_current s' = k)"
  using assms
proof (induction cs arbitrary: s)
  case (Cons c cs)
  show ?case
  proof (cases "\<exists>b. c = UH_BLOCK b")
    case True
    then obtain b where b: "c = UH_BLOCK b" by blast
    with block_step [OF Cons.prems(1), of b] Cons.prems(2) obtain s1 where
      s1: "user_heap_do c s = Some (UH_POINTER (fst (heap_spec b (heap_view_of s))), s1)" "blocks_ok s1"
        "heap_view_of s1 = snd (heap_spec b (heap_view_of s))" "heap_ok MEM_BLOCK_MAGIC s \<longrightarrow> heap_ok MEM_BLOCK_MAGIC s1"
      by auto
    with Cons.IH [OF s1(2)] Cons.prems(2) show ?thesis by (auto simp: b case_prod_unfold)
  next
    case False
    with other_step [OF Cons.prems(1), of c] obtain r s1 where
      s1: "user_heap_do c s = Some (r, s1)" "\<forall>p. r \<noteq> UH_POINTER p" "blocks_ok s1" "heap_view_of s1 = heap_view_of s"
        "size_taken_over c = None \<and> heap_ok MEM_BLOCK_MAGIC s \<longrightarrow> heap_ok MEM_BLOCK_MAGIC s1"
        "\<forall>k. size_taken_over c = Some k \<longrightarrow> hp_current s1 = k"
      by blast
    have calls: "block_calls (c # cs) = block_calls cs" using False by (cases c) auto
    have answers: "pointer_answers (r # rs) = pointer_answers rs" for rs using s1(2) by (cases r) auto
    from Cons.IH [OF s1(3)] Cons.prems(2) obtain rs s2 where s2: "user_heap_run cs s1 = Some (rs, s2)" "blocks_ok s2"
        "pointer_answers rs = fst (heap_spec_session (block_calls cs) (heap_view_of s))"
        "heap_view_of s2 = snd (heap_spec_session (block_calls cs) (heap_view_of s))"
        "(\<forall>c \<in> set cs. size_taken_over c = None) \<and> heap_ok MEM_BLOCK_MAGIC s1 \<longrightarrow> heap_ok MEM_BLOCK_MAGIC s2"
        "\<forall>k. cs \<noteq> [] \<and> size_taken_over (last cs) = Some k \<longrightarrow> hp_current s2 = k"
      by (auto simp: calls s1(4))
    have "cs = [] \<Longrightarrow> s2 = s1" using s2(1) by simp
    with s1 s2 show ?thesis by (auto simp: calls answers)
  qed
qed simp

text \<open>
  C22. A client that gives the user heap only pointers it holds is never aborted, and sees the specification
  of its blocks: every allocation, release and move answers as specified, and each block keeps what was stored
  in it, whatever calls of \<open>osal_heap_get_info\<close>, \<open>osal_heap_check_threshold\<close>, \<open>osal_heap_set_threshold\<close> and
  \<open>osal_heap_get_stats\<close> come in between. The bytes in use are counted exactly as long as none of the first two
  found anything in \<open>/proc/self/status\<close>; a call that did takes the resident size of the process
  over as the bytes in use.
\<close>

theorem user_heap_session:
  assumes "hp_live s = {}" and "session_ok Map.empty (block_calls cs)"
  shows "\<exists>answers s'. user_heap_run cs (OS_HeapInit s) = Some (answers, s') \<and>
    pointer_answers answers = fst (heap_spec_session (block_calls cs) Map.empty) \<and>
    heap_view_of s' = snd (heap_spec_session (block_calls cs) Map.empty) \<and>
    ((\<forall>c \<in> set cs. size_taken_over c = None) \<longrightarrow>
      unat (hp_current s') = view_total (snd (heap_spec_session (block_calls cs) Map.empty)) \<and> hp_current s' \<le> hp_peak s') \<and>
    (\<forall>k. cs \<noteq> [] \<and> size_taken_over (last cs) = Some k \<longrightarrow> hp_current s' = k)"
proof -
  note init = user_init_ok [OF assms(1)]
  have "session_ok (heap_view_of (OS_HeapInit s)) (block_calls cs)" using assms(2) by (simp add: init(2))
  from user_session_steps [OF heap_ok_blocks [OF init(1)] this] init(1) show ?thesis
    by (auto simp: init(2) heap_ok_def)
qed

text \<open>The same blocks twice: once with calls that find no status file, once with one that does.\<close>

lemma user_heap_session_witness:
  "(\<exists>answers s'. user_heap_run (UH_STATS True True # UH_CHECK None None True # map UH_BLOCK heap_demo) (OS_HeapInit user_heap_start) =
      Some (answers, s') \<and> pointer_answers answers = [Some 8, None, Some 64, None, None] \<and>
      heap_view_of s' = Map.empty \<and> hp_current s' = 0) \<and>
   (\<exists>answers s'. user_heap_run (map UH_BLOCK heap_demo @ [UH_INFO (one_field ''VmRSS:'' 4) None True True]) (OS_HeapInit user_heap_start) =
      Some (answers, s') \<and> heap_view_of s' = Map.empty \<and> hp_current s' = 4096)"
proof -
  have live: "hp_live user_heap_start = {}" by (simp add: user_heap_start_def)
  have calls: "block_calls (map UH_BLOCK bs @ [UH_INFO st1 st2 f t]) = bs" "block_calls (map UH_BLOCK bs) = bs" for bs st1 st2 f t
    by (induction bs) simp_all
  have none: "size_taken_over c = None" if "c \<in> set (map UH_BLOCK bs)" for c bs using that by auto
  have size: "size_read None None = None" "size_read (one_field ''VmRSS:'' 4) None = Some 4096"
    using one_field_value [of "''VmRSS:''" 4] by (simp_all add: size_read_def read_memory_from_proc_def)
  have spec: "heap_spec_session heap_demo Map.empty = ([Some 8, None, Some 64, None, None], Map.empty)"
    by (simp add: heap_demo_def alloc_spec_def moved_def fun_upd_idem)
  have a: "block_calls (UH_STATS True True # UH_CHECK None None True # map UH_BLOCK heap_demo) = heap_demo"
    "\<forall>c \<in> set (UH_STATS True True # UH_CHECK None None True # map UH_BLOCK heap_demo). size_taken_over c = None"
    by (auto simp: calls size)
  have b: "size_taken_over (last (map UH_BLOCK heap_demo @ [UH_INFO (one_field ''VmRSS:'' 4) None True True])) = Some 4096"
    by (simp add: size)
  show ?thesis
  proof (rule conjI)
    show "\<exists>answers s'. user_heap_run (UH_STATS True True # UH_CHECK None None True # map UH_BLOCK heap_demo) (OS_HeapInit user_heap_start) =
        Some (answers, s') \<and> pointer_answers answers = [Some 8, None, Some 64, None, None] \<and>
        heap_view_of s' = Map.empty \<and> hp_current s' = 0"
      using user_heap_session [OF live, of "UH_STATS True True # UH_CHECK None None True # map UH_BLOCK heap_demo"] a heap_demo_ok
      unfolding a(1) spec by (auto simp: word_unat_eq_iff view_total_def simp del: user_heap_run.simps)
    show "\<exists>answers s'. user_heap_run (map UH_BLOCK heap_demo @ [UH_INFO (one_field ''VmRSS:'' 4) None True True]) (OS_HeapInit user_heap_start) =
        Some (answers, s') \<and> heap_view_of s' = Map.empty \<and> hp_current s' = 4096"
      using user_heap_session [OF live, of "map UH_BLOCK heap_demo @ [UH_INFO (one_field ''VmRSS:'' 4) None True True]"] b heap_demo_ok
      unfolding calls spec by (auto simp del: user_heap_run.simps)
  qed
qed

end
