(* ===== verification/Osal_Kernel_Sem.thy ===== *)
theory Osal_Kernel_Sem
  imports Osal_Base
begin

text \<open>
  The counting semaphore of the kernel module, \<open>src/kernel/osal/src/ipc/osal_semaphore.c\<close>: a kernel
  semaphore beside a copy of its value in an atomic counter. Every operation changes the two one
  after the other, so the second half of this theory lets other threads run in between.
\<close>

section \<open>Operations\<close>

text \<open>
  \<open>struct semaphore\<close> is its count, an \<open>unsigned int\<close>; the copy is an \<open>atomic_t\<close>, 32 bits that wrap and
  are read as a signed number. A null pointer is \<open>None\<close>. An operation that has to sleep for ever has
  the result \<open>None\<close>.
\<close>

record osal_sem =
  sm_count :: u32
  sm_value :: u32

abbreviation (input) ETIME :: int where "ETIME \<equiv> 62"

definition INT_MAX :: u32 where
  "INT_MAX = 0x7FFFFFFF"

text \<open>\<open>atomic_dec_if_positive\<close> on 32 bits: the wrapped difference is kept when it is not negative.\<close>

definition atomic_dec_if_positive32 :: "u32 \<Rightarrow> u32" where
  "atomic_dec_if_positive32 c = (let dec = c - 1 in if sint dec < 0 then c else dec)"

definition osal_sem_value_dec :: "osal_sem \<Rightarrow> osal_sem" where
  "osal_sem_value_dec sem = sem\<lparr>sm_value := atomic_dec_if_positive32 (sm_value sem)\<rparr>"

definition osal_sem_init :: "osal_sem option \<Rightarrow> int \<Rightarrow> u32 \<Rightarrow> int \<times> osal_sem option" where
  "osal_sem_init sem pshared v =
     (case sem of
        None \<Rightarrow> (OSAL_ERR_INVALID_POINTER, sem)
      | Some _ \<Rightarrow>
          if pshared \<noteq> 0 then (OSAL_ERR_NOT_SUPPORTED, sem)
          else if INT_MAX < v then (OSAL_ERR_INVALID_SIZE, sem)
          else (OSAL_SUCCESS, Some \<lparr>sm_count = v, sm_value = v\<rparr>))"

definition osal_sem_destroy :: "osal_sem option \<Rightarrow> int" where
  "osal_sem_destroy x = (case x of None \<Rightarrow> OSAL_ERR_INVALID_POINTER | Some _ \<Rightarrow> OSAL_SUCCESS)"

text \<open>
  \<open>down\<close> takes one when there is one. What ends a sleep when there is none: a signal, the end of the
  time, or nothing.
\<close>

datatype sleep_end = BY_SIGNAL | BY_TIMEOUT | NEVER

definition sem_down :: "osal_sem \<Rightarrow> osal_sem option" where
  "sem_down sem = (if sm_count sem = 0 then None else Some (sem\<lparr>sm_count := sm_count sem - 1\<rparr>))"

definition sem_up :: "osal_sem \<Rightarrow> osal_sem" where
  "sem_up sem = sem\<lparr>sm_count := sm_count sem + 1\<rparr>"

text \<open>\<open>down_interruptible\<close> and \<open>down_timeout\<close>: 0 or an errno; \<open>down_timeout\<close> is not ended by signals.\<close>

definition down_interruptible :: "sleep_end \<Rightarrow> osal_sem \<Rightarrow> (int \<times> osal_sem) option" where
  "down_interruptible e sem =
     (case sem_down sem of
        Some sem' \<Rightarrow> Some (0, sem')
      | None \<Rightarrow> (if e = BY_SIGNAL then Some (- EINTR, sem) else None))"

definition down_timeout :: "osal_sem \<Rightarrow> int \<times> osal_sem" where
  "down_timeout sem = (case sem_down sem of Some sem' \<Rightarrow> (0, sem') | None \<Rightarrow> (- ETIME, sem))"

definition osal_sem_wait :: "sleep_end \<Rightarrow> osal_sem option \<Rightarrow> (int \<times> osal_sem option) option" where
  "osal_sem_wait e sem =
     (case sem of
        None \<Rightarrow> Some (OSAL_ERR_INVALID_POINTER, sem)
      | Some s \<Rightarrow>
          (case down_interruptible e s of
             None \<Rightarrow> None
           | Some (ret, s) \<Rightarrow>
               if ret \<noteq> 0 then Some (OSAL_ERR_INTERRUPTED, Some s)
               else Some (OSAL_SUCCESS, Some (osal_sem_value_dec s))))"

definition osal_sem_try_wait :: "osal_sem option \<Rightarrow> int \<times> osal_sem option" where
  "osal_sem_try_wait sem =
     (case sem of
        None \<Rightarrow> (OSAL_ERR_INVALID_POINTER, sem)
      | Some s \<Rightarrow>
          (case sem_down s of
             None \<Rightarrow> (OSAL_ERR_BUSY, sem)
           | Some s \<Rightarrow> (OSAL_SUCCESS, Some (osal_sem_value_dec s))))"

definition osal_sem_timed_wait :: "u32 \<Rightarrow> osal_sem option \<Rightarrow> int \<times> osal_sem option" where
  "osal_sem_timed_wait timeout_ms sem =
     (case sem of
        None \<Rightarrow> (OSAL_ERR_INVALID_POINTER, sem)
      | Some s \<Rightarrow>
          if timeout_ms = 0 then osal_sem_try_wait sem
          else case down_timeout s of (ret, s) \<Rightarrow>
            if ret = - ETIME then (OSAL_ERR_TIMEOUT, Some s)
            else if ret \<noteq> 0 then (OSAL_ERR_GENERIC, Some s)
            else (OSAL_SUCCESS, Some (osal_sem_value_dec s)))"

definition osal_sem_value_inc :: "osal_sem \<Rightarrow> osal_sem" where
  "osal_sem_value_inc sem = sem\<lparr>sm_value := sm_value sem + 1\<rparr>"

definition osal_sem_post :: "osal_sem option \<Rightarrow> int \<times> osal_sem option" where
  "osal_sem_post sem =
     (case sem of
        None \<Rightarrow> (OSAL_ERR_INVALID_POINTER, sem)
      | Some s \<Rightarrow> (OSAL_SUCCESS, Some (osal_sem_value_inc (sem_up s))))"

definition osal_sem_get_value :: "bool \<Rightarrow> osal_sem option \<Rightarrow> int \<times> int option" where
  "osal_sem_get_value v sem =
     (case sem of
        None \<Rightarrow> (OSAL_ERR_INVALID_POINTER, None)
      | Some s \<Rightarrow> if \<not> v then (OSAL_ERR_INVALID_POINTER, None) else (OSAL_SUCCESS, Some (sint (sm_value s))))"

section \<open>One call at a time\<close>

datatype sem_call = SEM_WAIT sleep_end | SEM_TRY_WAIT | SEM_TIMED_WAIT u32 | SEM_POST

definition sem_do :: "sem_call \<Rightarrow> osal_sem \<Rightarrow> (int \<times> osal_sem option) option" where
  "sem_do c s =
     (case c of
        SEM_WAIT e \<Rightarrow> osal_sem_wait e (Some s)
      | SEM_TRY_WAIT \<Rightarrow> Some (osal_sem_try_wait (Some s))
      | SEM_TIMED_WAIT ms \<Rightarrow> Some (osal_sem_timed_wait ms (Some s))
      | SEM_POST \<Rightarrow> Some (osal_sem_post (Some s)))"

text \<open>What a session answers, and the semaphore it leaves; \<open>None\<close> when a call sleeps for ever.\<close>

fun sem_session :: "sem_call list \<Rightarrow> osal_sem \<Rightarrow> (int list \<times> osal_sem) option" where
  "sem_session [] s = Some ([], s)"
| "sem_session (c # cs) s =
     (case sem_do c s of
        Some (r, Some s') \<Rightarrow> map_option (\<lambda>(rs, t). (r # rs, t)) (sem_session cs s')
      | _ \<Rightarrow> None)"

text \<open>The specification is a number.\<close>

definition spec_sem_do :: "sem_call \<Rightarrow> nat \<Rightarrow> (int \<times> nat) option" where
  "spec_sem_do c n =
     (case c of
        SEM_POST \<Rightarrow> Some (OSAL_SUCCESS, n + 1)
      | SEM_TRY_WAIT \<Rightarrow> Some (if n = 0 then (OSAL_ERR_BUSY, 0) else (OSAL_SUCCESS, n - 1))
      | SEM_TIMED_WAIT ms \<Rightarrow>
          Some (if n = 0 then (if ms = 0 then OSAL_ERR_BUSY else OSAL_ERR_TIMEOUT, 0) else (OSAL_SUCCESS, n - 1))
      | SEM_WAIT e \<Rightarrow>
          if n \<noteq> 0 then Some (OSAL_SUCCESS, n - 1)
          else if e = BY_SIGNAL then Some (OSAL_ERR_INTERRUPTED, 0) else None)"

fun spec_sem_session :: "sem_call list \<Rightarrow> nat \<Rightarrow> (int list \<times> nat) option" where
  "spec_sem_session [] n = Some ([], n)"
| "spec_sem_session (c # cs) n =
     (case spec_sem_do c n of
        Some (r, n') \<Rightarrow> map_option (\<lambda>(rs, t). (r # rs, t)) (spec_sem_session cs n')
      | None \<Rightarrow> None)"

text \<open>The number never passes \<open>INT_MAX\<close> during the session.\<close>

fun sem_within :: "sem_call list \<Rightarrow> nat \<Rightarrow> bool" where
  "sem_within [] n \<longleftrightarrow> n \<le> unat INT_MAX"
| "sem_within (c # cs) n \<longleftrightarrow> n \<le> unat INT_MAX \<and>
     (case spec_sem_do c n of Some (r, n') \<Rightarrow> sem_within cs n' | None \<Rightarrow> True)"

definition sem_of :: "nat \<Rightarrow> osal_sem" where
  "sem_of n = \<lparr>sm_count = of_nat n, sm_value = of_nat n\<rparr>"

lemma unat_INT_MAX: "unat INT_MAX = 2 ^ 31 - 1"
  by (simp add: INT_MAX_def)

lemma sint_count: "n < 2 ^ 31 \<Longrightarrow> sint (of_nat n :: u32) = int n"
  by (simp add: signed_of_nat signed_take_bit_int_eq_self)

lemma count_zero: "n < 2 ^ 32 \<Longrightarrow> ((of_nat n :: u32) = 0) = (n = 0)"
  by (auto simp: word_of_nat_eq_0_iff dest: nat_dvd_not_less [rotated])

lemma dec32_count: "n < 2 ^ 31 \<Longrightarrow> atomic_dec_if_positive32 (of_nat n) = of_nat (n - 1)"
proof (cases n)
  case (Suc k)
  moreover assume "n < 2 ^ 31"
  ultimately show ?thesis using sint_count [of k] by (simp add: atomic_dec_if_positive32_def)
qed (simp add: atomic_dec_if_positive32_def)

lemma sem_down_of: "n < 2 ^ 31 \<Longrightarrow> sem_down \<lparr>sm_count = of_nat n, sm_value = v\<rparr> =
    (if n = 0 then None else Some \<lparr>sm_count = of_nat (n - 1), sm_value = v\<rparr>)"
  by (simp add: sem_down_def count_zero of_nat_diff)

lemma sem_do_spec:
  "n \<le> unat INT_MAX \<Longrightarrow> sem_do c (sem_of n) = map_option (\<lambda>(r, n). (r, Some (sem_of n))) (spec_sem_do c n)"
  using count_zero [of n] sem_down_of [of n "of_nat n"] dec32_count [of n]
  by (cases c)
    (auto simp: sem_do_def spec_sem_do_def sem_of_def osal_sem_wait_def osal_sem_try_wait_def unat_INT_MAX
      osal_sem_timed_wait_def osal_sem_post_def down_interruptible_def down_timeout_def sem_up_def
      osal_sem_value_dec_def osal_sem_value_inc_def add.commute)

lemma sem_session_spec:
  "sem_within cs n \<Longrightarrow> sem_session cs (sem_of n) = map_option (\<lambda>(rs, n). (rs, sem_of n)) (spec_sem_session cs n)"
proof (induction cs arbitrary: n)
  case (Cons c cs)
  then show ?case
    by (cases "spec_sem_do c n") (auto simp: sem_do_spec option.map_comp comp_def case_prod_unfold)
qed simp

lemma spec_session_within:
  "sem_within cs n \<Longrightarrow> spec_sem_session cs n = Some (rs, m) \<Longrightarrow> m \<le> unat INT_MAX"
proof (induction cs arbitrary: n rs)
  case (Cons c cs)
  then show ?case by (auto split: option.splits prod.splits)
qed simp

lemma get_value_sem_of: "n \<le> unat INT_MAX \<Longrightarrow> osal_sem_get_value True (Some (sem_of n)) = (OSAL_SUCCESS, Some (int n))"
  by (simp add: osal_sem_get_value_def sem_of_def sint_count unat_INT_MAX)

text \<open>
  C29. Used by one thread at a time, a semaphore with \<open>n\<close> free places answers every list of calls as the
  number \<open>n\<close> does, sleeps for ever exactly when the number says so, and \<open>osal_sem_get_value\<close> reports the
  number, as long as the number never passes \<open>INT_MAX\<close>. There the copy wraps: a post with \<open>INT_MAX\<close>
  free places succeeds, and the value reported after it is the least \<open>int\<close>.
\<close>

theorem sem_session_refines:
  assumes "osal_sem_init (Some s) pshared v = (r, Some t)" and "r = OSAL_SUCCESS"
  shows "(sem_within cs (unat v) \<longrightarrow>
      map_option (\<lambda>(rs, u). (rs, osal_sem_get_value True (Some u))) (sem_session cs t) =
      map_option (\<lambda>(rs, n). (rs, (OSAL_SUCCESS, Some (int n)))) (spec_sem_session cs (unat v))) \<and>
    (v = INT_MAX \<longrightarrow>
      map_option (\<lambda>(rs, u). (rs, osal_sem_get_value True (Some u))) (sem_session [SEM_POST] t) =
      Some ([OSAL_SUCCESS], (OSAL_SUCCESS, Some (- (2 ^ 31)))))"
proof -
  have t: "t = sem_of (unat v)"
    using assms by (auto simp: osal_sem_init_def sem_of_def split: if_splits)
  have "map_option (\<lambda>(rs, u). (rs, osal_sem_get_value True (Some u))) (sem_session cs t) =
      map_option (\<lambda>(rs, n). (rs, (OSAL_SUCCESS, Some (int n)))) (spec_sem_session cs (unat v))"
    if "sem_within cs (unat v)"
    using spec_session_within [OF that]
    by (cases "spec_sem_session cs (unat v)") (auto simp: t sem_session_spec [OF that] get_value_sem_of)
  moreover have "map_option (\<lambda>(rs, u). (rs, osal_sem_get_value True (Some u))) (sem_session [SEM_POST] t) =
      Some ([OSAL_SUCCESS], (OSAL_SUCCESS, Some (- (2 ^ 31))))" if "v = INT_MAX"
    by (simp add: t that sem_do_def osal_sem_post_def sem_up_def osal_sem_value_inc_def sem_of_def
        osal_sem_get_value_def INT_MAX_def)
  ultimately show ?thesis by blast
qed

lemma sem_session_refines_witness:
  "map_option (\<lambda>(rs, u). (rs, osal_sem_get_value True (Some u)))
     (sem_session [SEM_TRY_WAIT, SEM_TIMED_WAIT 5, SEM_WAIT BY_SIGNAL, SEM_POST] (sem_of 1)) =
   Some ([0, 110, 4, 0], 0, Some 1)"
  using sem_session_refines [of "sem_of 0" 0 1 0 "sem_of 1" "[SEM_TRY_WAIT, SEM_TIMED_WAIT 5, SEM_WAIT BY_SIGNAL, SEM_POST]"]
  by (simp add: osal_sem_init_def sem_of_def INT_MAX_def spec_sem_do_def)

section \<open>Several threads\<close>

text \<open>
  A post is \<open>up\<close>, then the increment of the copy; a wait that got a place is \<open>down\<close>, then the decrement.
  Threads differ in nothing but where they stand, so the state counts those that stand between the
  two halves of a post and of a wait.
\<close>

record sem_sys =
  ss_sem :: osal_sem
  ss_posting :: nat
  ss_taking :: nat

inductive sem_step :: "sem_sys \<Rightarrow> sem_sys \<Rightarrow> bool" where
  post_up: "sem_step s (s\<lparr>ss_sem := sem_up (ss_sem s), ss_posting := ss_posting s + 1\<rparr>)"
| post_inc: "0 < ss_posting s \<Longrightarrow>
     sem_step s (s\<lparr>ss_sem := osal_sem_value_inc (ss_sem s), ss_posting := ss_posting s - 1\<rparr>)"
| wait_down: "sem_down (ss_sem s) = Some sem \<Longrightarrow>
     sem_step s (s\<lparr>ss_sem := sem, ss_taking := ss_taking s + 1\<rparr>)"
| wait_dec: "0 < ss_taking s \<Longrightarrow>
     sem_step s (s\<lparr>ss_sem := osal_sem_value_dec (ss_sem s), ss_taking := ss_taking s - 1\<rparr>)"

definition sem_rest :: "osal_sem \<Rightarrow> sem_sys" where
  "sem_rest sem = \<lparr>ss_sem = sem, ss_posting = 0, ss_taking = 0\<rparr>"

text \<open>A call by one thread is its two halves in a row.\<close>

lemma post_steps: "osal_sem_post (Some sem) = (r, Some sem') \<Longrightarrow> sem_step\<^sup>*\<^sup>* (sem_rest sem) (sem_rest sem')"
proof -
  assume "osal_sem_post (Some sem) = (r, Some sem')"
  then have sem': "sem' = osal_sem_value_inc (sem_up sem)" by (simp add: osal_sem_post_def)
  have "sem_step (sem_rest sem) \<lparr>ss_sem = sem_up sem, ss_posting = 1, ss_taking = 0\<rparr>"
    using post_up [of "sem_rest sem"] by (simp add: sem_rest_def)
  moreover have "sem_step \<lparr>ss_sem = sem_up sem, ss_posting = 1, ss_taking = 0\<rparr> (sem_rest sem')"
    using post_inc [of "\<lparr>ss_sem = sem_up sem, ss_posting = 1, ss_taking = 0\<rparr>"] by (simp add: sem_rest_def sem')
  ultimately show ?thesis by (blast intro: converse_rtranclp_into_rtranclp)
qed

lemma try_wait_steps: "osal_sem_try_wait (Some sem) = (r, Some sem') \<Longrightarrow> sem_step\<^sup>*\<^sup>* (sem_rest sem) (sem_rest sem')"
proof -
  assume a: "osal_sem_try_wait (Some sem) = (r, Some sem')"
  show ?thesis
  proof (cases "sem_down sem")
    case None
    with a show ?thesis by (simp add: osal_sem_try_wait_def)
  next
    case (Some t)
    with a have sem': "sem' = osal_sem_value_dec t" by (simp add: osal_sem_try_wait_def)
    have "sem_step (sem_rest sem) \<lparr>ss_sem = t, ss_posting = 0, ss_taking = 1\<rparr>"
      using wait_down [of "sem_rest sem" t] Some by (simp add: sem_rest_def)
    moreover have "sem_step \<lparr>ss_sem = t, ss_posting = 0, ss_taking = 1\<rparr> (sem_rest sem')"
      using wait_dec [of "\<lparr>ss_sem = t, ss_posting = 0, ss_taking = 1\<rparr>"] by (simp add: sem_rest_def sem')
    ultimately show ?thesis by (blast intro: converse_rtranclp_into_rtranclp)
  qed
qed

text \<open>
  A waiter that overtakes the posting thread finds the copy at zero and leaves it there; the
  increment then counts a place that is gone.
\<close>

abbreviation (input) sem_at :: "nat \<Rightarrow> nat \<Rightarrow> nat \<Rightarrow> nat \<Rightarrow> sem_sys" where
  "sem_at c v p t \<equiv> \<lparr>ss_sem = \<lparr>sm_count = of_nat c, sm_value = of_nat v\<rparr>, ss_posting = p, ss_taking = t\<rparr>"

lemma sem_ups: "sem_step\<^sup>*\<^sup>* (sem_at c v p t) (sem_at (c + k) v (p + k) t)"
proof (induction k)
  case (Suc k)
  have "sem_step (sem_at (c + k) v (p + k) t) (sem_at (c + Suc k) v (p + Suc k) t)"
    using post_up [of "sem_at (c + k) v (p + k) t"] by (simp add: sem_up_def algebra_simps)
  with Suc show ?case by (rule rtranclp.rtrancl_into_rtrancl)
qed simp

lemma sem_incs: "sem_step\<^sup>*\<^sup>* (sem_at c v (p + k) t) (sem_at c (v + k) p t)"
proof (induction k arbitrary: v)
  case (Suc k)
  have "sem_step (sem_at c v (p + Suc k) t) (sem_at c (v + 1) (p + k) t)"
    using post_inc [of "sem_at c v (p + Suc k) t"] by (simp add: osal_sem_value_inc_def algebra_simps)
  from converse_rtranclp_into_rtranclp [OF this Suc] show ?case by (simp add: algebra_simps)
qed simp

lemma sem_take: "c < 2 ^ 31 \<Longrightarrow> v < 2 ^ 31 \<Longrightarrow> 0 < c \<Longrightarrow>
  sem_step\<^sup>*\<^sup>* (sem_at c v p t) (sem_at (c - 1) (v - 1) p t)"
proof -
  assume a: "c < 2 ^ 31" "v < 2 ^ 31" "0 < c"
  then have "sem_step (sem_at c v p t) (sem_at (c - 1) v p (t + 1))"
    using wait_down [of "sem_at c v p t"] sem_down_of [of c "of_nat v"] by simp
  moreover have "sem_step (sem_at (c - 1) v p (t + 1)) (sem_at (c - 1) (v - 1) p t)"
    using wait_dec [of "sem_at (c - 1) v p (t + 1)"] a(2) by (simp add: osal_sem_value_dec_def dec32_count)
  ultimately show ?thesis by (blast intro: converse_rtranclp_into_rtranclp)
qed

lemma sem_takes: "c + k < 2 ^ 31 \<Longrightarrow> v < 2 ^ 31 \<Longrightarrow> sem_step\<^sup>*\<^sup>* (sem_at (c + k) v p t) (sem_at c (v - k) p t)"
proof (induction k arbitrary: v)
  case (Suc k)
  have "sem_step\<^sup>*\<^sup>* (sem_at (c + Suc k) v p t) (sem_at (c + k) (v - 1) p t)"
    using sem_take [of "c + Suc k" v p t] Suc.prems by simp
  also have "sem_step\<^sup>*\<^sup>* (sem_at (c + k) (v - 1) p t) (sem_at c (v - 1 - k) p t)"
    using Suc.IH [of "v - 1"] Suc.prems by simp
  finally show ?case by simp
qed simp

text \<open>
  What \<open>osal_sem_get_value\<close> may report of a semaphore that several threads use, when no call is under
  way: any number from the number of free places up to \<open>INT_MAX\<close>, however the semaphore was initialised.
\<close>

theorem sem_value_drifts:
  assumes "n \<le> unat INT_MAX" and "c \<le> v" and "v \<le> unat INT_MAX"
  shows "\<exists>t. sem_step\<^sup>*\<^sup>* (sem_rest (sem_of n)) (sem_rest t) \<and> sm_count t = of_nat c \<and>
    osal_sem_get_value True (Some t) = (OSAL_SUCCESS, Some (int v))"
proof -
  define k where "k = v - c"
  note b = assms [unfolded unat_INT_MAX]
  have "sem_step\<^sup>*\<^sup>* (sem_at n n 0 0) (sem_at 0 0 0 0)"
    using sem_takes [of 0 n n 0 0] b(1) by simp
  also have "sem_step\<^sup>*\<^sup>* (sem_at 0 0 0 0) (sem_at k 0 k 0)" using sem_ups [of 0 0 0 0 k] by simp
  also have "sem_step\<^sup>*\<^sup>* (sem_at k 0 k 0) (sem_at 0 0 k 0)" using sem_takes [of 0 k 0 k 0] b(3) by (simp add: k_def)
  also have "sem_step\<^sup>*\<^sup>* (sem_at 0 0 k 0) (sem_at 0 k 0 0)" using sem_incs [of 0 0 0 k 0] by simp
  also have "sem_step\<^sup>*\<^sup>* (sem_at 0 k 0 0) (sem_at c k c 0)" using sem_ups [of 0 k 0 0 c] by simp
  also have "sem_step\<^sup>*\<^sup>* (sem_at c k c 0) (sem_at c (k + c) 0 0)" using sem_incs [of c k 0 c 0] by simp
  finally have "sem_step\<^sup>*\<^sup>* (sem_rest (sem_of n)) (sem_rest \<lparr>sm_count = of_nat c, sm_value = of_nat v\<rparr>)"
    using b(2) by (simp add: sem_rest_def sem_of_def k_def)
  then show ?thesis using b(3) sint_count [of v]
    by (intro exI [of _ "\<lparr>sm_count = of_nat c, sm_value = of_nat v\<rparr>"]) (simp add: osal_sem_get_value_def)
qed

end
