(* ===== verification/Osal_Kernel_Cond.thy ===== *)
theory Osal_Kernel_Cond
  imports Osal_Kernel_Sem
begin

text \<open>
  The mutex and the condition variable of the kernel module,
  \<open>src/kernel/osal/src/ipc/osal_mutex.c\<close> and \<open>osal_cond.c\<close>. A condition variable is a counter and a wait
  queue: a waiter remembers the counter before it lets the mutex go, puts itself on the queue, and
  sleeps until it is woken and the counter has another value. The mutex comes first, then the calls
  on a condition one at a time, then threads that run in between each other.
\<close>

section \<open>Mutex\<close>

text \<open>
  A mutex is held or not; a null pointer is \<open>None\<close>. Locking a mutex that is held and never let go has
  the result \<open>None\<close>. The attributes are not used by \<open>osal_mutex_init\<close>.
\<close>

definition osal_mutex_init :: "bool option \<Rightarrow> int \<times> bool option" where
  "osal_mutex_init mutex =
     (case mutex of None \<Rightarrow> (OSAL_ERR_INVALID_POINTER, None) | Some _ \<Rightarrow> (OSAL_SUCCESS, Some False))"

definition osal_mutex_destroy :: "bool option \<Rightarrow> int" where
  "osal_mutex_destroy x = (case x of None \<Rightarrow> OSAL_ERR_INVALID_POINTER | Some _ \<Rightarrow> OSAL_SUCCESS)"

definition osal_mutex_lock :: "bool option \<Rightarrow> (int \<times> bool option) option" where
  "osal_mutex_lock mutex =
     (case mutex of
        None \<Rightarrow> Some (OSAL_ERR_INVALID_POINTER, None)
      | Some held \<Rightarrow> if held then None else Some (OSAL_SUCCESS, Some True))"

definition osal_mutex_try_lock :: "bool option \<Rightarrow> int \<times> bool option" where
  "osal_mutex_try_lock mutex =
     (case mutex of
        None \<Rightarrow> (OSAL_ERR_INVALID_POINTER, None)
      | Some held \<Rightarrow> if held then (- EBUSY, Some True) else (OSAL_SUCCESS, Some True))"

definition osal_mutex_unlock :: "bool option \<Rightarrow> int \<times> bool option" where
  "osal_mutex_unlock mutex =
     (case mutex of None \<Rightarrow> (OSAL_ERR_INVALID_POINTER, None) | Some _ \<Rightarrow> (OSAL_SUCCESS, Some False))"

text \<open>
  Locking with a time limit tries once a jiffy. The list says what each try found: whether the mutex
  was held, and the jiffies when the limit was looked at. The result \<open>None\<close> is a list that is too
  short.
\<close>

definition time_after_eq :: "u64 \<Rightarrow> u64 \<Rightarrow> bool" where
  "time_after_eq a b \<longleftrightarrow> 0 \<le> sint (a - b)"

fun timed_lock_loop :: "u64 \<Rightarrow> (bool \<times> u64) list \<Rightarrow> int option" where
  "timed_lock_loop timeout [] = None"
| "timed_lock_loop timeout ((held, now) # tries) =
     (if \<not> held then Some OSAL_SUCCESS
      else if time_after_eq now timeout then Some (- ETIMEDOUT)
      else timed_lock_loop timeout tries)"

definition osal_mutex_timed_lock ::
  "(u32 \<Rightarrow> u64) \<Rightarrow> u64 \<Rightarrow> bool option \<Rightarrow> u32 \<Rightarrow> (bool \<times> u64) list \<Rightarrow> int option" where
  "osal_mutex_timed_lock msecs_to_jiffies jiffies mutex timeout_ms tries =
     (if mutex = None then Some OSAL_ERR_INVALID_POINTER
      else timed_lock_loop (jiffies + msecs_to_jiffies timeout_ms) tries)"

record osal_mutex_attr =
  ma_type :: int
  ma_protocol :: int

definition osal_mutex_attr_init :: "osal_mutex_attr option \<Rightarrow> int \<times> osal_mutex_attr option" where
  "osal_mutex_attr_init attr =
     (case attr of
        None \<Rightarrow> (OSAL_ERR_INVALID_POINTER, None)
      | Some a \<Rightarrow> (OSAL_SUCCESS, Some \<lparr>ma_type = 0, ma_protocol = 0\<rparr>))"

definition osal_mutex_attr_destroy :: "osal_mutex_attr option \<Rightarrow> int" where
  "osal_mutex_attr_destroy x = (case x of None \<Rightarrow> OSAL_ERR_INVALID_POINTER | Some _ \<Rightarrow> OSAL_SUCCESS)"

definition osal_mutex_attr_set_type :: "int \<Rightarrow> osal_mutex_attr option \<Rightarrow> int \<times> osal_mutex_attr option" where
  "osal_mutex_attr_set_type ty attr =
     (case attr of
        None \<Rightarrow> (OSAL_ERR_INVALID_POINTER, None)
      | Some a \<Rightarrow>
          if ty \<noteq> 0 \<and> ty \<noteq> 1 then (OSAL_ERR_INVALID_PARAM, attr)
          else (OSAL_SUCCESS, Some (a\<lparr>ma_type := ty\<rparr>)))"

definition osal_mutex_attr_set_protocol :: "int \<Rightarrow> osal_mutex_attr option \<Rightarrow> int \<times> osal_mutex_attr option" where
  "osal_mutex_attr_set_protocol protocol attr =
     (case attr of
        None \<Rightarrow> (OSAL_ERR_INVALID_POINTER, None)
      | Some a \<Rightarrow> (OSAL_SUCCESS, Some (a\<lparr>ma_protocol := protocol\<rparr>)))"

definition osal_mutex_attr_get_type :: "bool \<Rightarrow> osal_mutex_attr option \<Rightarrow> int \<times> int option" where
  "osal_mutex_attr_get_type ty attr =
     (case attr of
        None \<Rightarrow> (OSAL_ERR_INVALID_POINTER, None)
      | Some a \<Rightarrow> if \<not> ty then (OSAL_ERR_INVALID_POINTER, None) else (OSAL_SUCCESS, Some (ma_type a)))"

text \<open>
  The same in unbounded time: the first try that finds the mutex free or is at the limit decides.
\<close>

definition spec_timed_lock :: "nat \<Rightarrow> (bool \<times> nat) list \<Rightarrow> int option" where
  "spec_timed_lock m tries =
     (case dropWhile (\<lambda>(held, d). held \<and> d < m) tries of
        [] \<Rightarrow> None
      | (held, d) # _ \<Rightarrow> Some (if held then - ETIMEDOUT else OSAL_SUCCESS))"

lemma sint_diff:
  assumes "m < 2 ^ 62" and "d < 2 ^ 62"
  shows "sint ((of_nat d :: u64) - of_nat m) = int d - int m"
proof -
  have "sint (word_of_int x :: u64) = x" if "- (2 ^ 63) \<le> x" "x < 2 ^ 63" for x
    using that by (simp add: signed_of_int signed_take_bit_int_eq_self)
  from this [of "int d - int m"] show ?thesis using assms by simp
qed

lemma time_after_eq_offset:
  assumes "m < 2 ^ 62" and "d < 2 ^ 62"
  shows "time_after_eq (j + of_nat d) (j + of_nat m) = (m \<le> d)"
  using sint_diff [OF assms] by (simp add: time_after_eq_def)

text \<open>The tries are at least one jiffy apart, and not ages after the first.\<close>

fun jiffies_pass :: "nat \<Rightarrow> (bool \<times> nat) list \<Rightarrow> bool" where
  "jiffies_pass k [] \<longleftrightarrow> True"
| "jiffies_pass k ((held, d) # tries) \<longleftrightarrow> k \<le> d \<and> d < 2 ^ 62 \<and> jiffies_pass (Suc k) tries"

lemma timed_lock_loop_spec:
  assumes "m < 2 ^ 62"
  shows "jiffies_pass k tries \<Longrightarrow>
    timed_lock_loop (j + of_nat m) (map (\<lambda>(held, d). (held, j + of_nat d)) tries) = spec_timed_lock m tries"
proof (induction k tries rule: jiffies_pass.induct)
  case (2 k held d tries)
  with time_after_eq_offset [OF assms, of d j] show ?case by (auto simp: spec_timed_lock_def)
qed (simp add: spec_timed_lock_def)

lemma spec_timed_lock_returns:
  "jiffies_pass k tries \<Longrightarrow> k \<le> m \<Longrightarrow> m < k + length tries \<Longrightarrow> spec_timed_lock m tries \<noteq> None"
proof (induction k tries rule: jiffies_pass.induct)
  case (2 k held d tries)
  then show ?case by (cases "k = m") (auto simp: spec_timed_lock_def)
qed simp

text \<open>
  Locking with a limit of \<open>m\<close> jiffies returns after at most \<open>m + 1\<close> tries, whenever the jiffies
  wrap: with success at the first try that finds the mutex free before or when the limit is noticed,
  otherwise with \<open>- ETIMEDOUT\<close> at the first try at or after the limit. \<open>msecs_to_jiffies\<close> stays below
  \<open>2 ^ 62\<close>, and a sleep of one jiffy takes at least that long.
\<close>

theorem mutex_timed_lock_returns:
  assumes "msecs_to_jiffies timeout_ms = of_nat m" and "m < 2 ^ 62"
    and "jiffies_pass 0 tries" and "m < length tries"
  shows "osal_mutex_timed_lock msecs_to_jiffies j (Some h) timeout_ms
      (map (\<lambda>(held, d). (held, j + of_nat d)) tries) = spec_timed_lock m tries \<and>
    spec_timed_lock m tries \<noteq> None"
  using timed_lock_loop_spec [OF assms(2,3), of j] spec_timed_lock_returns [OF assms(3)] assms(1,4)
  by (simp add: osal_mutex_timed_lock_def)

lemma mutex_timed_lock_returns_witness:
  "osal_mutex_timed_lock (\<lambda>ms. 2) (- 1) (Some True) 8 [(True, - 1), (True, 0), (True, 4)] = Some (- 110) \<and>
   osal_mutex_timed_lock (\<lambda>ms. 2) (- 1) (Some True) 8 [(True, - 1), (False, 0), (True, 4)] = Some 0"
  using mutex_timed_lock_returns [of "\<lambda>ms. 2" 8 2 "[(True, 0), (True, 1), (True, 5)]" "- 1" True]
    mutex_timed_lock_returns [of "\<lambda>ms. 2" 8 2 "[(True, 0), (False, 1), (True, 5)]" "- 1" True]
  by (simp add: spec_timed_lock_def)

section \<open>Condition variable\<close>

text \<open>
  The counter is an \<open>atomic_t\<close>, so it wraps. An entry of the wait queue is a thread and whether it
  waits exclusively; \<open>wait_event_interruptible\<close> and its variant with a limit wait non-exclusively.
  A wake-up takes the threads it wakes off the queue: every non-exclusive one, and exclusive ones
  until \<open>nr\<close> of them are woken; \<open>nr = 0\<close> stands for all.
\<close>

record osal_cond =
  co_waitq :: "(nat \<times> bool) list"
  co_generation :: u32

fun wake_up :: "nat \<Rightarrow> (nat \<times> bool) list \<Rightarrow> (nat \<times> bool) list" where
  "wake_up nr [] = []"
| "wake_up nr ((t, exclusive) # q) =
     (if exclusive \<and> nr = 1 then q else wake_up (if exclusive then nr - 1 else nr) q)"

definition prepare_to_wait :: "nat \<Rightarrow> osal_cond \<Rightarrow> osal_cond" where
  "prepare_to_wait t c =
     (if t \<in> fst ` set (co_waitq c) then c else c\<lparr>co_waitq := (t, False) # co_waitq c\<rparr>)"

definition finish_wait :: "nat \<Rightarrow> osal_cond \<Rightarrow> osal_cond" where
  "finish_wait t c = c\<lparr>co_waitq := filter (\<lambda>e. fst e \<noteq> t) (co_waitq c)\<rparr>"

abbreviation (input) ERESTARTSYS :: int where "ERESTARTSYS \<equiv> 512"

definition osal_cond_init :: "osal_cond option \<Rightarrow> int \<times> osal_cond option" where
  "osal_cond_init cond =
     (case cond of
        None \<Rightarrow> (OSAL_ERR_INVALID_POINTER, None)
      | Some _ \<Rightarrow> (OSAL_SUCCESS, Some \<lparr>co_waitq = [], co_generation = 0\<rparr>))"

definition osal_cond_destroy :: "osal_cond option \<Rightarrow> int" where
  "osal_cond_destroy x = (case x of None \<Rightarrow> OSAL_ERR_INVALID_POINTER | Some _ \<Rightarrow> OSAL_SUCCESS)"

text \<open>
  One look at the condition of \<open>wait_event_interruptible\<close> and of its variant with a limit, and what
  ended the sleep before it, if anything did: the condition decides first, then a signal or the end
  of the time. The variant with a limit returns at least 1 when the condition holds. \<open>None\<close> is
  to sleep on.
\<close>

definition cond_wait_event :: "bool \<Rightarrow> sleep_end \<Rightarrow> u32 \<Rightarrow> osal_cond \<Rightarrow> int option" where
  "cond_wait_event timed e generation cond =
     (if co_generation cond \<noteq> generation then Some (if timed then 1 else 0)
      else case e of
        BY_SIGNAL \<Rightarrow> Some (- ERESTARTSYS)
      | BY_TIMEOUT \<Rightarrow> (if timed then Some 0 else None)
      | NEVER \<Rightarrow> None)"

definition cond_wait_status :: "bool \<Rightarrow> int \<Rightarrow> int" where
  "cond_wait_status timed ret =
     (if ret = 0 \<and> timed then OSAL_ERR_TIMEOUT
      else if ret < 0 then OSAL_ERR_INTERRUPTED
      else OSAL_SUCCESS)"

text \<open>
  One call as a whole. \<open>others\<close> is what other threads do to the condition and the mutex during the
  sleep; a wait that never ends, for the counter or for the mutex, has the result \<open>None\<close>.
\<close>

definition osal_cond_wait_common ::
  "(osal_cond \<times> bool \<Rightarrow> osal_cond \<times> bool) \<Rightarrow> sleep_end \<Rightarrow> bool \<Rightarrow>
   osal_cond option \<Rightarrow> bool option \<Rightarrow> (int \<times> osal_cond option \<times> bool option) option" where
  "osal_cond_wait_common others e timed cond mutex =
     (case (cond, mutex) of
        (Some c, Some h) \<Rightarrow>
          (let generation = co_generation c
           in case others (c, False) of (c', h') \<Rightarrow>
             (case cond_wait_event timed e generation c' of
                None \<Rightarrow> None
              | Some ret \<Rightarrow>
                  map_option (\<lambda>(_, m). (cond_wait_status timed ret, Some c', m)) (osal_mutex_lock (Some h'))))
      | _ \<Rightarrow> Some (OSAL_ERR_INVALID_POINTER, cond, mutex))"

definition osal_cond_wait ::
  "(osal_cond \<times> bool \<Rightarrow> osal_cond \<times> bool) \<Rightarrow> sleep_end \<Rightarrow>
   osal_cond option \<Rightarrow> bool option \<Rightarrow> (int \<times> osal_cond option \<times> bool option) option" where
  "osal_cond_wait others e cond mutex = osal_cond_wait_common others e False cond mutex"

text \<open>The limit only decides when the time ends, so both branches of the code are this one.\<close>

definition osal_cond_timed_wait ::
  "(osal_cond \<times> bool \<Rightarrow> osal_cond \<times> bool) \<Rightarrow> sleep_end \<Rightarrow>
   osal_cond option \<Rightarrow> bool option \<Rightarrow> (int \<times> osal_cond option \<times> bool option) option" where
  "osal_cond_timed_wait others e cond mutex = osal_cond_wait_common others e True cond mutex"

text \<open>
  Signal and broadcast are two actions, in this order: the increment of the counter, and a wake-up of
  one or of all. Other threads can run between the two.
\<close>

datatype cond_action = COND_INC | COND_WAKE nat

definition cond_do :: "cond_action \<Rightarrow> osal_cond \<Rightarrow> osal_cond" where
  "cond_do a c =
     (case a of
        COND_INC \<Rightarrow> c\<lparr>co_generation := co_generation c + 1\<rparr>
      | COND_WAKE nr \<Rightarrow> c\<lparr>co_waitq := wake_up nr (co_waitq c)\<rparr>)"

definition cond_signal_actions :: "cond_action list" where
  "cond_signal_actions = [COND_INC, COND_WAKE 1]"

definition cond_broadcast_actions :: "cond_action list" where
  "cond_broadcast_actions = [COND_INC, COND_WAKE 0]"

definition osal_cond_signal :: "osal_cond option \<Rightarrow> int \<times> osal_cond option" where
  "osal_cond_signal cond =
     (case cond of
        None \<Rightarrow> (OSAL_ERR_INVALID_POINTER, None)
      | Some c \<Rightarrow> (OSAL_SUCCESS, Some (fold cond_do cond_signal_actions c)))"

definition osal_cond_broadcast :: "osal_cond option \<Rightarrow> int \<times> osal_cond option" where
  "osal_cond_broadcast cond =
     (case cond of
        None \<Rightarrow> (OSAL_ERR_INVALID_POINTER, None)
      | Some c \<Rightarrow> (OSAL_SUCCESS, Some (fold cond_do cond_broadcast_actions c)))"

section \<open>Threads\<close>

text \<open>
  Where a thread stands: outside; inside the section of the mutex; after reading the counter with the
  mutex still held; after the unlock, before the first look at the condition; before putting itself
  on the queue; on the queue, before the next look; asleep; done with the sleep, with its return value
  but without the mutex; back with the mutex and the status. \<open>cy_calls\<close> holds what the signals and
  broadcasts under way still have to do. \<open>cy_signals\<close> counts the increments, and \<open>cy_mark\<close> is that count
  when the thread read the counter; the code has neither.
\<close>

datatype cond_pc =
  CW_OUT | CW_INSIDE | CW_READ bool u32 | CW_CHECK bool u32 | CW_PREPARE bool u32 | CW_QUEUED bool u32 |
  CW_SLEEP bool u32 | CW_WOKEN bool int | CW_BACK int

record cond_sys =
  cy_cond :: osal_cond
  cy_mutex :: bool
  cy_pc :: "nat \<Rightarrow> cond_pc"
  cy_calls :: "nat \<Rightarrow> cond_action list"
  cy_signals :: nat
  cy_mark :: "nat \<Rightarrow> nat"

text \<open>
  A thread asleep goes on when it is off the queue, or when a signal or the end of its time wakes it;
  \<open>intr\<close> says whether these two happen.
\<close>

inductive cond_step :: "bool \<Rightarrow> cond_sys \<Rightarrow> cond_sys \<Rightarrow> bool" for intr where
  cs_lock: "cy_pc s t = CW_OUT \<Longrightarrow> osal_mutex_lock (Some (cy_mutex s)) = Some (r, Some h) \<Longrightarrow>
     cond_step intr s (s\<lparr>cy_mutex := h, cy_pc := (cy_pc s)(t := CW_INSIDE)\<rparr>)"
| cs_unlock: "cy_pc s t = CW_INSIDE \<Longrightarrow>
     cond_step intr s (s\<lparr>cy_mutex := False, cy_pc := (cy_pc s)(t := CW_OUT)\<rparr>)"
| cs_read: "cy_pc s t = CW_INSIDE \<Longrightarrow>
     cond_step intr s (s\<lparr>cy_pc := (cy_pc s)(t := CW_READ timed (co_generation (cy_cond s))),
                    cy_mark := (cy_mark s)(t := cy_signals s)\<rparr>)"
| cs_release: "cy_pc s t = CW_READ timed g \<Longrightarrow>
     cond_step intr s (s\<lparr>cy_mutex := False, cy_pc := (cy_pc s)(t := CW_CHECK timed g)\<rparr>)"
| cs_check: "cy_pc s t = CW_CHECK timed g \<Longrightarrow> e \<noteq> BY_SIGNAL \<Longrightarrow> e \<noteq> NEVER \<longrightarrow> intr \<Longrightarrow>
     cond_step intr s (s\<lparr>cy_pc := (cy_pc s)(t := case cond_wait_event timed e g (cy_cond s) of
        Some ret \<Rightarrow> CW_WOKEN timed ret | None \<Rightarrow> CW_PREPARE timed g)\<rparr>)"
| cs_prepare: "cy_pc s t = CW_PREPARE timed g \<Longrightarrow>
     cond_step intr s (s\<lparr>cy_cond := prepare_to_wait t (cy_cond s), cy_pc := (cy_pc s)(t := CW_QUEUED timed g)\<rparr>)"
| cs_schedule: "cy_pc s t = CW_QUEUED timed g \<Longrightarrow> cond_wait_event timed e g (cy_cond s) = None \<Longrightarrow>
     cond_step intr s (s\<lparr>cy_pc := (cy_pc s)(t := CW_SLEEP timed g)\<rparr>)"
| cs_finish: "cy_pc s t = CW_QUEUED timed g \<Longrightarrow> cond_wait_event timed e g (cy_cond s) = Some ret \<Longrightarrow> e \<noteq> NEVER \<longrightarrow> intr \<Longrightarrow>
     cond_step intr s (s\<lparr>cy_cond := finish_wait t (cy_cond s), cy_pc := (cy_pc s)(t := CW_WOKEN timed ret)\<rparr>)"
| cs_wake: "cy_pc s t = CW_SLEEP timed g \<Longrightarrow> t \<notin> fst ` set (co_waitq (cy_cond s)) \<or> intr \<Longrightarrow>
     cond_step intr s (s\<lparr>cy_pc := (cy_pc s)(t := CW_PREPARE timed g)\<rparr>)"
| cs_relock: "cy_pc s t = CW_WOKEN timed ret \<Longrightarrow> osal_mutex_lock (Some (cy_mutex s)) = Some (r, Some h) \<Longrightarrow>
     cond_step intr s (s\<lparr>cy_mutex := h, cy_pc := (cy_pc s)(t := CW_BACK (cond_wait_status timed ret))\<rparr>)"
| cs_return: "cy_pc s t = CW_BACK st \<Longrightarrow> cond_step intr s (s\<lparr>cy_pc := (cy_pc s)(t := CW_INSIDE)\<rparr>)"
| cs_signal: "cy_calls s k = [] \<Longrightarrow>
     cond_step intr s (s\<lparr>cy_calls := (cy_calls s)(k := cond_signal_actions)\<rparr>)"
| cs_broadcast: "cy_calls s k = [] \<Longrightarrow>
     cond_step intr s (s\<lparr>cy_calls := (cy_calls s)(k := cond_broadcast_actions)\<rparr>)"
| cs_action: "cy_calls s k = a # as \<Longrightarrow>
     cond_step intr s (s\<lparr>cy_cond := cond_do a (cy_cond s), cy_calls := (cy_calls s)(k := as),
                    cy_signals := (if a = COND_INC then cy_signals s + 1 else cy_signals s)\<rparr>)"

definition cond_start :: cond_sys where
  "cond_start = \<lparr>cy_cond = \<lparr>co_waitq = [], co_generation = 0\<rparr>, cy_mutex = False, cy_pc = (\<lambda>_. CW_OUT),
     cy_calls = (\<lambda>_. []), cy_signals = 0, cy_mark = (\<lambda>_. 0)\<rparr>"

fun cond_holds :: "cond_pc \<Rightarrow> bool" where
  "cond_holds CW_INSIDE \<longleftrightarrow> True"
| "cond_holds (CW_READ timed g) \<longleftrightarrow> True"
| "cond_holds (CW_BACK st) \<longleftrightarrow> True"
| "cond_holds _ \<longleftrightarrow> False"

text \<open>What a thread remembers fits the signals so far.\<close>

fun cond_pc_ok :: "nat \<Rightarrow> nat \<Rightarrow> cond_pc \<Rightarrow> bool" where
  "cond_pc_ok n m (CW_READ timed g) \<longleftrightarrow> g = of_nat m"
| "cond_pc_ok n m (CW_CHECK timed g) \<longleftrightarrow> g = of_nat m"
| "cond_pc_ok n m (CW_PREPARE timed g) \<longleftrightarrow> g = of_nat m"
| "cond_pc_ok n m (CW_QUEUED timed g) \<longleftrightarrow> g = of_nat m"
| "cond_pc_ok n m (CW_SLEEP timed g) \<longleftrightarrow> g = of_nat m"
| "cond_pc_ok n m (CW_WOKEN timed ret) \<longleftrightarrow> (cond_wait_status timed ret = OSAL_SUCCESS \<longrightarrow> m < n)"
| "cond_pc_ok n m (CW_BACK st) \<longleftrightarrow> (st = OSAL_SUCCESS \<longrightarrow> m < n)"
| "cond_pc_ok n m _ \<longleftrightarrow> True"

text \<open>
  The mutex and what the threads remember; then the queue: its entries are not exclusive, a call is
  at its start, between its two actions or over, and a thread asleep on the queue whose counter has
  moved on waits for a call that has yet to wake it.
\<close>

definition cond_inv :: "cond_sys \<Rightarrow> bool" where
  "cond_inv s \<longleftrightarrow> co_generation (cy_cond s) = of_nat (cy_signals s) \<and>
     (\<forall>t. cy_mark s t \<le> cy_signals s \<and> cond_pc_ok (cy_signals s) (cy_mark s t) (cy_pc s t)) \<and>
     (\<forall>t. cond_holds (cy_pc s t) \<longrightarrow> cy_mutex s) \<and>
     (\<forall>t u. cond_holds (cy_pc s t) \<longrightarrow> cond_holds (cy_pc s u) \<longrightarrow> t = u)"

definition cond_wake_pending :: "(nat \<Rightarrow> cond_action list) \<Rightarrow> bool" where
  "cond_wake_pending calls \<longleftrightarrow> (\<exists>k nr. calls k = [COND_WAKE nr])"

definition cond_queue_inv :: "cond_sys \<Rightarrow> bool" where
  "cond_queue_inv s \<longleftrightarrow>
     (\<forall>e\<in>set (co_waitq (cy_cond s)). \<not> snd e) \<and>
     (\<forall>k. cy_calls s k = [] \<or> (\<exists>nr. cy_calls s k = [COND_INC, COND_WAKE nr]) \<or> (\<exists>nr. cy_calls s k = [COND_WAKE nr])) \<and>
     (\<forall>t timed g. cy_pc s t = CW_SLEEP timed g \<longrightarrow> t \<in> fst ` set (co_waitq (cy_cond s)) \<longrightarrow>
        co_generation (cy_cond s) \<noteq> g \<longrightarrow> cond_wake_pending (cy_calls s))"

lemma cond_inv_start: "cond_inv cond_start"
  by (simp add: cond_inv_def cond_start_def)

lemma cond_pc_ok_more: "cond_pc_ok n m p \<Longrightarrow> cond_pc_ok (Suc n) m p"
  by (induction n m p rule: cond_pc_ok.induct) auto

lemma wait_event_signalled:
  assumes "cond_wait_event timed e (of_nat m) c = Some ret" and "co_generation c = of_nat n" and "m \<le> n"
    and "cond_wait_status timed ret = OSAL_SUCCESS"
  shows "m < n"
proof (rule ccontr)
  assume "\<not> m < n"
  with assms(3) have "m = n" by simp
  with assms(1,2,4) show False
    by (auto simp: cond_wait_event_def cond_wait_status_def split: sleep_end.splits if_splits)
qed

lemma cond_inv_holder:
  assumes "cond_inv s" and "cond_holds (cy_pc s t)"
  shows "cy_mutex s" and "u \<noteq> t \<Longrightarrow> \<not> cond_holds (cy_pc s u)"
  using assms by (auto simp: cond_inv_def)

text \<open>A step that moves one thread between places without the mutex.\<close>

lemma cond_inv_move:
  assumes "cond_inv s" and "\<not> cond_holds (cy_pc s t)" and "\<not> cond_holds p"
    and "cond_pc_ok (cy_signals s) (cy_mark s t) p" and "co_generation c = co_generation (cy_cond s)"
  shows "cond_inv (s\<lparr>cy_cond := c, cy_pc := (cy_pc s)(t := p)\<rparr>)"
  using assms by (auto simp: cond_inv_def)

lemma cond_inv_wait_result:
  assumes "cond_inv s" and "g = of_nat (cy_mark s t)" and "cond_wait_event timed e g (cy_cond s) = Some ret"
  shows "cond_pc_ok (cy_signals s) (cy_mark s t) (CW_WOKEN timed ret)"
  using wait_event_signalled [of timed e "cy_mark s t" "cy_cond s" ret "cy_signals s"] assms
  by (auto simp: cond_inv_def)

lemma cond_inv_at: "cond_inv s \<Longrightarrow> cy_pc s t = p \<Longrightarrow> cond_pc_ok (cy_signals s) (cy_mark s t) p"
  by (auto simp: cond_inv_def)

lemma co_generation_queue [simp]:
  "co_generation (prepare_to_wait t c) = co_generation c" "co_generation (finish_wait t c) = co_generation c"
  by (simp_all add: prepare_to_wait_def finish_wait_def)

lemma cond_step_inv: "cond_step intr s t \<Longrightarrow> cond_inv s \<Longrightarrow> cond_inv t"
proof (induction rule: cond_step.induct)
  case (cs_check s t timed g e)
  from cond_inv_at [OF cs_check.prems cs_check.hyps(1)] have g: "g = of_nat (cy_mark s t)" by simp
  show ?case
  proof (cases "cond_wait_event timed e g (cy_cond s)")
    case None
    with cs_check g cond_inv_move [of s t "CW_PREPARE timed g" "cy_cond s"] show ?thesis by simp
  next
    case (Some ret)
    with cs_check cond_inv_wait_result [OF cs_check.prems g Some]
      cond_inv_move [of s t "CW_WOKEN timed ret" "cy_cond s"] show ?thesis by simp
  qed
next
  case (cs_finish s t timed g e ret)
  from cond_inv_at [OF cs_finish.prems cs_finish.hyps(1)] have g: "g = of_nat (cy_mark s t)" by simp
  from cs_finish cond_inv_wait_result [OF cs_finish.prems g cs_finish.hyps(2)]
  show ?case by (intro cond_inv_move) simp_all
next
  case (cs_relock s t timed ret r h)
  from cond_inv_at [OF cs_relock.prems cs_relock.hyps(1)] cs_relock show ?case
    by (auto simp: cond_inv_def osal_mutex_lock_def split: if_splits)
next
  case (cs_action s k a as)
  then show ?case by (cases a) (auto simp: cond_inv_def cond_do_def intro: cond_pc_ok_more le_SucI)
next
  case (cs_unlock s t)
  then have "\<not> cond_holds (cy_pc s u)" if "u \<noteq> t" for u using that by (auto simp: cond_inv_def)
  with cs_unlock show ?case by (auto simp: cond_inv_def)
next
  case (cs_release s t timed g)
  then have "\<not> cond_holds (cy_pc s u)" if "u \<noteq> t" for u using that by (auto simp: cond_inv_def)
  moreover have "cond_pc_ok (cy_signals s) (cy_mark s t) (CW_READ timed g)"
    using cond_inv_at cs_release by blast
  ultimately show ?case using cs_release by (auto simp: cond_inv_def)
next
  case (cs_read s t timed)
  then have "cond_holds (cy_pc s t)" by simp
  with cond_inv_holder [OF cs_read.prems this] cs_read show ?case by (auto simp: cond_inv_def)
next
  case (cs_return s t st)
  then have "cond_holds (cy_pc s t)" by simp
  with cond_inv_holder [OF cs_return.prems this] cs_return show ?case by (auto simp: cond_inv_def)
next
  case (cs_prepare s t timed g)
  from cond_inv_at [OF cs_prepare.prems cs_prepare.hyps] cs_prepare show ?case
    by (intro cond_inv_move) simp_all
next
  case (cs_schedule s t timed g e)
  from cond_inv_at [OF cs_schedule.prems cs_schedule.hyps(1)] cs_schedule
    cond_inv_move [of s t "CW_SLEEP timed g" "cy_cond s"] show ?case by simp
next
  case (cs_wake s t timed g)
  from cond_inv_at [OF cs_wake.prems cs_wake.hyps(1)] cs_wake
    cond_inv_move [of s t "CW_PREPARE timed g" "cy_cond s"] show ?case by simp
qed (auto simp: cond_inv_def osal_mutex_lock_def split: if_splits)

lemma cond_steps_inv: "(cond_step intr)\<^sup>*\<^sup>* cond_start s \<Longrightarrow> cond_inv s"
  by (induction rule: rtranclp_induct) (auto intro: cond_inv_start cond_step_inv)

text \<open>A wake-up of one wakes every waiter: all of them are on the queue non-exclusively.\<close>

lemma wake_up_all: "\<forall>e\<in>set q. \<not> snd e \<Longrightarrow> wake_up nr q = []"
  by (induction nr q rule: wake_up.induct) auto

lemma prepare_to_wait_entries:
  "fst ` set (co_waitq (prepare_to_wait t c)) = insert t (fst ` set (co_waitq c))"
  "\<forall>e\<in>set (co_waitq c). \<not> snd e \<Longrightarrow> \<forall>e\<in>set (co_waitq (prepare_to_wait t c)). \<not> snd e"
  by (auto simp: prepare_to_wait_def)

lemma finish_wait_entries:
  "fst ` set (co_waitq (finish_wait t c)) = fst ` set (co_waitq c) - {t}"
  "set (co_waitq (finish_wait t c)) \<subseteq> set (co_waitq c)"
  by (auto simp: finish_wait_def)

lemma cond_queue_start: "cond_queue_inv cond_start"
  by (simp add: cond_queue_inv_def cond_start_def)

text \<open>A step that leaves the calls alone, and puts no thread to sleep on a counter that has moved on.\<close>

lemma cond_queue_move:
  assumes "cond_queue_inv s" and "cy_calls s' = cy_calls s"
    and "co_generation (cy_cond s') = co_generation (cy_cond s)"
    and "\<forall>e\<in>set (co_waitq (cy_cond s')). \<not> snd e"
    and "\<And>u timed g. cy_pc s' u = CW_SLEEP timed g \<Longrightarrow> u \<in> fst ` set (co_waitq (cy_cond s')) \<Longrightarrow>
      co_generation (cy_cond s) \<noteq> g \<Longrightarrow>
      cy_pc s u = CW_SLEEP timed g \<and> u \<in> fst ` set (co_waitq (cy_cond s))"
  shows "cond_queue_inv s'"
  using assms unfolding cond_queue_inv_def by metis

lemma cond_queue_entries: "cond_queue_inv s \<Longrightarrow> \<forall>e\<in>set (co_waitq (cy_cond s)). \<not> snd e"
  by (simp add: cond_queue_inv_def)

lemma cond_wait_event_sleep: "cond_wait_event timed e g c = None \<Longrightarrow> co_generation c = g"
  by (auto simp: cond_wait_event_def split: if_splits)

lemma cond_queue_call:
  assumes "cond_queue_inv s" and "cy_calls s k = []" and "p = [COND_INC, COND_WAKE nr]"
  shows "cond_queue_inv (s\<lparr>cy_calls := (cy_calls s)(k := p)\<rparr>)"
proof -
  have "cond_wake_pending ((cy_calls s)(k := p))" if "cond_wake_pending (cy_calls s)"
    using that assms(2) unfolding cond_wake_pending_def by (metis fun_upd_other list.distinct(1))
  with assms show ?thesis by (auto simp: cond_queue_inv_def)
qed

lemma cond_queue_action:
  assumes "cond_queue_inv s" and "cy_calls s k = a # as"
  shows "cond_queue_inv (s\<lparr>cy_cond := cond_do a (cy_cond s), cy_calls := (cy_calls s)(k := as), cy_signals := n\<rparr>)"
proof (cases a)
  case COND_INC
  with assms obtain nr where as: "as = [COND_WAKE nr]" unfolding cond_queue_inv_def by (metis list.distinct(1) list.inject cond_action.distinct(1))
  have "cond_wake_pending ((cy_calls s)(k := as))"
    using as unfolding cond_wake_pending_def by (intro exI [of _ k] exI [of _ nr]) simp
  with assms as COND_INC show ?thesis by (simp add: cond_queue_inv_def cond_do_def)
next
  case (COND_WAKE nr)
  with assms have as: "as = []" unfolding cond_queue_inv_def by (metis list.distinct(1) list.inject cond_action.distinct(1))
  with assms COND_WAKE wake_up_all [OF cond_queue_entries [OF assms(1)], of nr] show ?thesis
    by (simp add: cond_queue_inv_def cond_do_def)
qed

lemma cond_step_queue_inv: "cond_step intr s t \<Longrightarrow> cond_queue_inv s \<Longrightarrow> cond_queue_inv t"
proof (induction rule: cond_step.induct)
  case (cs_prepare s t timed g)
  show ?case
    using cs_prepare prepare_to_wait_entries(2) [OF cond_queue_entries [OF cs_prepare.prems], of t]
    by (intro cond_queue_move [OF cs_prepare.prems]) (auto simp: prepare_to_wait_entries(1) split: if_splits)
next
  case (cs_finish s t timed g e ret)
  then show ?case using cond_queue_entries [OF cs_finish.prems]
    by (intro cond_queue_move [OF cs_finish.prems])
      (auto simp: finish_wait_entries finish_wait_def split: if_splits)
next
  case (cs_schedule s t timed g e)
  with cond_wait_event_sleep [OF cs_schedule.hyps(2)] show ?case
    by (intro cond_queue_move [OF cs_schedule.prems]) (auto simp: cond_queue_entries split: if_splits)
next
  case (cs_check s t timed g e)
  then show ?case
    by (intro cond_queue_move [OF cs_check.prems])
      (auto simp: cond_queue_entries split: if_splits option.splits)
next
  case (cs_signal s k)
  then show ?case by (intro cond_queue_call) (auto simp: cond_signal_actions_def)
next
  case (cs_broadcast s k)
  then show ?case by (intro cond_queue_call) (auto simp: cond_broadcast_actions_def)
next
  case (cs_action s k a as)
  then show ?case by (rule cond_queue_action [rotated])
qed (rule cond_queue_move, assumption, auto simp: cond_queue_entries split: if_splits)+

lemma cond_steps_queue_inv: "(cond_step intr)\<^sup>*\<^sup>* cond_start s \<Longrightarrow> cond_queue_inv s"
  by (induction rule: rtranclp_induct) (auto intro: cond_queue_start cond_step_queue_inv)

text \<open>A thread asleep off the queue, with the counter moved on, returns from the sleep by itself.\<close>

lemma cond_sleeper_returns:
  assumes "cy_pc s t = CW_SLEEP timed g" and "t \<notin> fst ` set (co_waitq (cy_cond s))"
    and "co_generation (cy_cond s) \<noteq> g"
  shows "(cond_step False)\<^sup>*\<^sup>* s (s\<lparr>cy_pc := (cy_pc s)(t := CW_WOKEN timed (if timed then 1 else 0))\<rparr>)"
proof -
  let ?a = "s\<lparr>cy_pc := (cy_pc s)(t := CW_PREPARE timed g)\<rparr>"
  let ?c = "prepare_to_wait t (cy_cond s)"
  let ?b = "s\<lparr>cy_cond := ?c, cy_pc := (cy_pc s)(t := CW_QUEUED timed g)\<rparr>"
  have "cond_step False s ?a" using assms by (intro cs_wake) auto
  moreover have "cond_step False ?a ?b" using cs_prepare [of ?a t timed g False] by simp
  moreover have "cond_step False ?b (s\<lparr>cy_cond := finish_wait t ?c, cy_pc := (cy_pc s)(t := CW_WOKEN timed (if timed then 1 else 0))\<rparr>)"
    using cs_finish [of ?b t timed g NEVER "if timed then 1 else 0" False] assms(3) by (simp add: cond_wait_event_def)
  ultimately have r: "(cond_step False)\<^sup>*\<^sup>* s (s\<lparr>cy_cond := finish_wait t ?c,
      cy_pc := (cy_pc s)(t := CW_WOKEN timed (if timed then 1 else 0))\<rparr>)"
    by (meson converse_rtranclp_into_rtranclp rtranclp.rtrancl_refl)
  have "\<forall>e\<in>set (co_waitq (cy_cond s)). fst e \<noteq> t" using assms(2) by auto
  then have "filter (\<lambda>e. fst e \<noteq> t) (co_waitq (cy_cond s)) = co_waitq (cy_cond s)" by (simp add: filter_id_conv)
  then have "finish_wait t ?c = cy_cond s" using assms(2) by (simp add: finish_wait_def prepare_to_wait_def)
  with r show ?thesis by simp
qed

lemma word_of_nat_differ:
  assumes "m \<le> n"
  shows "((of_nat n :: u32) \<noteq> of_nat m) = (\<not> 2 ^ 32 dvd n - m)"
proof -
  have "((of_nat n :: u32) = of_nat m) = ((of_nat (n - m) :: u32) = 0)" using assms by (simp add: of_nat_diff)
  also have "\<dots> = (2 ^ 32 dvd n - m)" by (simp add: word_of_nat_eq_0_iff)
  finally show ?thesis by simp
qed

lemma cond_differs:
  assumes "cond_inv s" and "cy_pc s t = CW_SLEEP timed g"
  shows "(co_generation (cy_cond s) \<noteq> g) = (\<not> 2 ^ 32 dvd cy_signals s - cy_mark s t)"
proof -
  have "cy_mark s t \<le> cy_signals s" "co_generation (cy_cond s) = of_nat (cy_signals s)"
    using assms(1) by (simp_all add: cond_inv_def)
  moreover have "g = of_nat (cy_mark s t)" using cond_inv_at [OF assms] by simp
  ultimately show ?thesis using word_of_nat_differ by simp
qed

lemma cond_sleeper_woken:
  assumes "cond_queue_inv s" and "cy_pc s t = CW_SLEEP timed g" and "co_generation (cy_cond s) \<noteq> g"
  shows "\<exists>s' ret. (cond_step False)\<^sup>*\<^sup>* s s' \<and> cy_signals s' = cy_signals s \<and>
    cy_pc s' = (cy_pc s)(t := CW_WOKEN timed ret) \<and> cond_wait_status timed ret = OSAL_SUCCESS"
proof -
  let ?r = "if timed then 1 else 0"
  have ok: "cond_wait_status timed ?r = OSAL_SUCCESS" by (simp add: cond_wait_status_def)
  show ?thesis
  proof (cases "t \<in> fst ` set (co_waitq (cy_cond s))")
    case False
    with cond_sleeper_returns [OF assms(2) False assms(3)] ok show ?thesis by fastforce
  next
    case True
    with assms obtain k nr where k: "cy_calls s k = [COND_WAKE nr]"
      unfolding cond_queue_inv_def cond_wake_pending_def by blast
    let ?a = "s\<lparr>cy_cond := cond_do (COND_WAKE nr) (cy_cond s), cy_calls := (cy_calls s)(k := [])\<rparr>"
    have a: "cond_step False s ?a" using cs_action [OF k, of False] by simp
    have "co_waitq (cy_cond ?a) = []"
      using wake_up_all [OF cond_queue_entries [OF assms(1)]] by (simp add: cond_do_def)
    with cond_sleeper_returns [of ?a t timed g] assms(2,3)
    have "(cond_step False)\<^sup>*\<^sup>* ?a (?a\<lparr>cy_pc := (cy_pc ?a)(t := CW_WOKEN timed ?r)\<rparr>)"
      by (simp add: cond_do_def)
    with a have "(cond_step False)\<^sup>*\<^sup>* s (?a\<lparr>cy_pc := (cy_pc ?a)(t := CW_WOKEN timed ?r)\<rparr>)"
      by (rule converse_rtranclp_into_rtranclp)
    then show ?thesis using ok by (intro exI conjI) (assumption, simp_all)
  qed
qed

text \<open>
  C27. No wake-up is lost. A thread asleep on the queue after signals or broadcasts, other than a
  multiple of \<open>2 ^ 32\<close> of them, since it read the counter with the mutex still held, waits for a call that has incremented
  the counter and is about to wake it. So every thread asleep after such a number of them gets out of the
  sleep with success, without a further signal or broadcast, with no interrupt and before its time is over, by its own
  steps and at most the wake-up under way. A wait that returns success was signalled, and it returns with the mutex, alone.
\<close>

theorem cond_no_lost_wakeup:
  assumes "(cond_step True)\<^sup>*\<^sup>* cond_start s"
  shows "(cy_pc s t = CW_SLEEP timed g \<longrightarrow> t \<in> fst ` set (co_waitq (cy_cond s)) \<longrightarrow>
      2 ^ 32 dvd cy_signals s - cy_mark s t \<or> (\<exists>k nr. cy_calls s k = [COND_WAKE nr])) \<and>
    (cy_pc s t = CW_SLEEP timed g \<longrightarrow> \<not> 2 ^ 32 dvd cy_signals s - cy_mark s t \<longrightarrow>
      (\<exists>s' ret. (cond_step False)\<^sup>*\<^sup>* s s' \<and> cy_signals s' = cy_signals s \<and>
        cy_pc s' = (cy_pc s)(t := CW_WOKEN timed ret) \<and> cond_wait_status timed ret = OSAL_SUCCESS)) \<and>
    (cy_pc s t = CW_BACK OSAL_SUCCESS \<longrightarrow> cy_mark s t < cy_signals s) \<and>
    (cond_holds (cy_pc s t) \<longrightarrow> cy_mutex s \<and> (\<forall>u. cond_holds (cy_pc s u) \<longrightarrow> u = t))"
proof -
  have inv: "cond_inv s" and queue: "cond_queue_inv s"
    using assms by (rule cond_steps_inv, rule cond_steps_queue_inv)
  have pend: "2 ^ 32 dvd cy_signals s - cy_mark s t \<or> (\<exists>k nr. cy_calls s k = [COND_WAKE nr])"
    if "cy_pc s t = CW_SLEEP timed g" "t \<in> fst ` set (co_waitq (cy_cond s))"
    using that queue cond_differs [OF inv that(1)] unfolding cond_queue_inv_def cond_wake_pending_def by blast
  moreover have "\<exists>s' ret. (cond_step False)\<^sup>*\<^sup>* s s' \<and> cy_signals s' = cy_signals s \<and>
        cy_pc s' = (cy_pc s)(t := CW_WOKEN timed ret) \<and> cond_wait_status timed ret = OSAL_SUCCESS"
    if "cy_pc s t = CW_SLEEP timed g" "\<not> 2 ^ 32 dvd cy_signals s - cy_mark s t"
    using cond_sleeper_woken [OF queue that(1)] cond_differs [OF inv that(1)] that(2) by blast
  moreover have "cy_mark s t < cy_signals s" if "cy_pc s t = CW_BACK OSAL_SUCCESS"
    using cond_inv_at [OF inv that] by simp
  moreover have "cy_mutex s \<and> (\<forall>u. cond_holds (cy_pc s u) \<longrightarrow> u = t)" if "cond_holds (cy_pc s t)"
    using inv that by (auto simp: cond_inv_def)
  ultimately show ?thesis by blast
qed

text \<open>A thread that goes to sleep, and a broadcast between its two actions.\<close>

definition cond_example :: cond_sys where
  "cond_example = cond_start\<lparr>cy_cond := \<lparr>co_waitq = [(3, False)], co_generation = 1\<rparr>,
     cy_pc := (\<lambda>_. CW_OUT)(3 := CW_SLEEP True 0), cy_calls := (\<lambda>_. [])(5 := [COND_WAKE 0]), cy_signals := 1\<rparr>"

lemma cond_run: "(cond_step True)\<^sup>*\<^sup>* cond_start cond_example"
proof -
  let ?at = "\<lambda>p m q. cond_start\<lparr>cy_cond := \<lparr>co_waitq = q, co_generation = 0\<rparr>, cy_mutex := m, cy_pc := (\<lambda>_. CW_OUT)(3 := p)\<rparr>"
  note d = cond_start_def fun_upd_idem osal_mutex_lock_def cond_wait_event_def prepare_to_wait_def
  have "cond_step True cond_start (?at CW_INSIDE True [])" using cs_lock [of cond_start 3 0 True True] by (simp add: d)
  moreover have "cond_step True (?at CW_INSIDE True []) (?at (CW_READ True 0) True [])"
    using cs_read [of "?at CW_INSIDE True []" 3 True True] by (simp add: d)
  moreover have "cond_step True (?at (CW_READ True 0) True []) (?at (CW_CHECK True 0) False [])"
    using cs_release [of "?at (CW_READ True 0) True []" 3 True 0 True] by (simp add: d)
  moreover have "cond_step True (?at (CW_CHECK True 0) False []) (?at (CW_PREPARE True 0) False [])"
    using cs_check [of "?at (CW_CHECK True 0) False []" 3 True 0 NEVER True] by (simp add: d)
  moreover have "cond_step True (?at (CW_PREPARE True 0) False []) (?at (CW_QUEUED True 0) False [(3, False)])"
    using cs_prepare [of "?at (CW_PREPARE True 0) False []" 3 True 0 True] by (simp add: d)
  moreover have "cond_step True (?at (CW_QUEUED True 0) False [(3, False)]) (?at (CW_SLEEP True 0) False [(3, False)])"
    using cs_schedule [of "?at (CW_QUEUED True 0) False [(3, False)]" 3 True 0 NEVER True] by (simp add: d)
  moreover have "cond_step True (?at (CW_SLEEP True 0) False [(3, False)])
      (?at (CW_SLEEP True 0) False [(3, False)]\<lparr>cy_calls := (\<lambda>_. [])(5 := cond_broadcast_actions)\<rparr>)" (is "cond_step _ _ ?b")
    using cs_broadcast [of "?at (CW_SLEEP True 0) False [(3, False)]" 5 True] by (simp add: d)
  moreover have "cond_step True ?b cond_example"
    using cs_action [of ?b 5 COND_INC "[COND_WAKE 0]" True]
    by (simp add: d cond_broadcast_actions_def cond_example_def cond_do_def)
  ultimately show ?thesis by (meson converse_rtranclp_into_rtranclp rtranclp.rtrancl_refl)
qed

lemma cond_no_lost_wakeup_witness:
  "\<exists>s' ret. (cond_step False)\<^sup>*\<^sup>* cond_example s' \<and> cy_pc s' 3 = CW_WOKEN True ret \<and> cond_wait_status True ret = OSAL_SUCCESS"
proof -
  have "cy_pc cond_example 3 = CW_SLEEP True 0" "cy_signals cond_example - cy_mark cond_example 3 = 1"
    by (simp_all add: cond_example_def cond_start_def)
  with cond_no_lost_wakeup [OF cond_run, of 3 True 0] show ?thesis by auto
qed

end
