(* ===== verification/Osal_Kernel_Rwlock.thy ===== *)
theory Osal_Kernel_Rwlock
  imports Osal_Base
begin

text \<open>
  The reader-writer lock of the kernel module, \<open>src/kernel/osal/src/ipc/osal_rwlock.c\<close>. It has one unlock
  for both modes and tells them apart by a flag that a writer sets after it got the lock, so that
  threads may run between the two.
\<close>

section \<open>Operations\<close>

text \<open>\<open>struct rw_semaphore\<close>: how many readers hold it, and whether a writer does.\<close>

record rw_semaphore =
  rs_readers :: nat
  rs_writer :: bool

record osal_rwlock =
  rw_sem :: rw_semaphore
  rw_writer :: int

definition down_read :: "rw_semaphore \<Rightarrow> rw_semaphore option" where
  "down_read r = (if rs_writer r then None else Some (r\<lparr>rs_readers := rs_readers r + 1\<rparr>))"

definition down_write :: "rw_semaphore \<Rightarrow> rw_semaphore option" where
  "down_write r = (if rs_writer r \<or> 0 < rs_readers r then None else Some (r\<lparr>rs_writer := True\<rparr>))"

definition up_read :: "rw_semaphore \<Rightarrow> rw_semaphore" where
  "up_read r = r\<lparr>rs_readers := rs_readers r - 1\<rparr>"

definition up_write :: "rw_semaphore \<Rightarrow> rw_semaphore" where
  "up_write r = r\<lparr>rs_writer := False\<rparr>"

definition osal_rwlock_init :: "osal_rwlock option \<Rightarrow> int \<times> osal_rwlock option" where
  "osal_rwlock_init l =
     (case l of
        None \<Rightarrow> (OSAL_ERR_INVALID_POINTER, None)
      | Some _ \<Rightarrow> (OSAL_SUCCESS, Some \<lparr>rw_sem = \<lparr>rs_readers = 0, rs_writer = False\<rparr>, rw_writer = 0\<rparr>))"

definition osal_rwlock_destroy :: "osal_rwlock option \<Rightarrow> int" where
  "osal_rwlock_destroy x = (case x of None \<Rightarrow> OSAL_ERR_INVALID_POINTER | Some _ \<Rightarrow> OSAL_SUCCESS)"

text \<open>The two halves of taking and releasing the lock.\<close>

definition rwlock_down_read :: "osal_rwlock \<Rightarrow> osal_rwlock option" where
  "rwlock_down_read l = map_option (\<lambda>r. l\<lparr>rw_sem := r\<rparr>) (down_read (rw_sem l))"

definition rwlock_down_write :: "osal_rwlock \<Rightarrow> osal_rwlock option" where
  "rwlock_down_write l = map_option (\<lambda>r. l\<lparr>rw_sem := r\<rparr>) (down_write (rw_sem l))"

definition rwlock_set_writer :: "osal_rwlock \<Rightarrow> osal_rwlock" where
  "rwlock_set_writer l = l\<lparr>rw_writer := 1\<rparr>"

definition rwlock_xchg_writer :: "osal_rwlock \<Rightarrow> int \<times> osal_rwlock" where
  "rwlock_xchg_writer l = (rw_writer l, l\<lparr>rw_writer := 0\<rparr>)"

definition rwlock_up :: "int \<Rightarrow> osal_rwlock \<Rightarrow> osal_rwlock" where
  "rwlock_up old l = l\<lparr>rw_sem := (if old \<noteq> 0 then up_write else up_read) (rw_sem l)\<rparr>"

text \<open>A call that waits for a holder that never lets go has the result \<open>None\<close>.\<close>

definition osal_rwlock_read_lock :: "osal_rwlock option \<Rightarrow> (int \<times> osal_rwlock option) option" where
  "osal_rwlock_read_lock l =
     (case l of
        None \<Rightarrow> Some (OSAL_ERR_INVALID_POINTER, None)
      | Some l \<Rightarrow> map_option (\<lambda>l'. (OSAL_SUCCESS, Some l')) (rwlock_down_read l))"

definition osal_rwlock_write_lock :: "osal_rwlock option \<Rightarrow> (int \<times> osal_rwlock option) option" where
  "osal_rwlock_write_lock l =
     (case l of
        None \<Rightarrow> Some (OSAL_ERR_INVALID_POINTER, None)
      | Some l \<Rightarrow> map_option (\<lambda>l'. (OSAL_SUCCESS, Some (rwlock_set_writer l'))) (rwlock_down_write l))"

definition osal_rwlock_try_read_lock :: "osal_rwlock option \<Rightarrow> int \<times> osal_rwlock option" where
  "osal_rwlock_try_read_lock l =
     (case l of
        None \<Rightarrow> (OSAL_ERR_INVALID_POINTER, None)
      | Some l \<Rightarrow> (case rwlock_down_read l of
            None \<Rightarrow> (OSAL_ERR_BUSY, Some l)
          | Some l' \<Rightarrow> (OSAL_SUCCESS, Some l')))"

definition osal_rwlock_try_write_lock :: "osal_rwlock option \<Rightarrow> int \<times> osal_rwlock option" where
  "osal_rwlock_try_write_lock l =
     (case l of
        None \<Rightarrow> (OSAL_ERR_INVALID_POINTER, None)
      | Some l \<Rightarrow> (case rwlock_down_write l of
            None \<Rightarrow> (OSAL_ERR_BUSY, Some l)
          | Some l' \<Rightarrow> (OSAL_SUCCESS, Some (rwlock_set_writer l'))))"

definition osal_rwlock_unlock :: "osal_rwlock option \<Rightarrow> int \<times> osal_rwlock option" where
  "osal_rwlock_unlock l =
     (case l of
        None \<Rightarrow> (OSAL_ERR_INVALID_POINTER, None)
      | Some l \<Rightarrow> (case rwlock_xchg_writer l of (old, l') \<Rightarrow> (OSAL_SUCCESS, Some (rwlock_up old l'))))"

section \<open>Threads\<close>

text \<open>
  Where a thread stands. A thread that is leaving still knows the mode in which it held the lock,
  which the code does not, and what the exchange of the flag told the code.
\<close>

datatype rw_mode = RW_READ | RW_WRITE

datatype rw_pc = RW_OUT | RW_READING | RW_ENTERING | RW_WRITING | RW_LEAVING rw_mode int

record rw_sys =
  ry_lock :: osal_rwlock
  ry_pc :: "nat \<Rightarrow> rw_pc"

inductive rw_step :: "rw_sys \<Rightarrow> rw_sys \<Rightarrow> bool" where
  take_read: "ry_pc s t = RW_OUT \<Longrightarrow> rwlock_down_read (ry_lock s) = Some l \<Longrightarrow>
     rw_step s (s\<lparr>ry_lock := l, ry_pc := (ry_pc s)(t := RW_READING)\<rparr>)"
| take_write: "ry_pc s t = RW_OUT \<Longrightarrow> rwlock_down_write (ry_lock s) = Some l \<Longrightarrow>
     rw_step s (s\<lparr>ry_lock := l, ry_pc := (ry_pc s)(t := RW_ENTERING)\<rparr>)"
| set_writer: "ry_pc s t = RW_ENTERING \<Longrightarrow>
     rw_step s (s\<lparr>ry_lock := rwlock_set_writer (ry_lock s), ry_pc := (ry_pc s)(t := RW_WRITING)\<rparr>)"
| leave_read: "ry_pc s t = RW_READING \<Longrightarrow> rwlock_xchg_writer (ry_lock s) = (old, l) \<Longrightarrow>
     rw_step s (s\<lparr>ry_lock := l, ry_pc := (ry_pc s)(t := RW_LEAVING RW_READ old)\<rparr>)"
| leave_write: "ry_pc s t = RW_WRITING \<Longrightarrow> rwlock_xchg_writer (ry_lock s) = (old, l) \<Longrightarrow>
     rw_step s (s\<lparr>ry_lock := l, ry_pc := (ry_pc s)(t := RW_LEAVING RW_WRITE old)\<rparr>)"
| up: "ry_pc s t = RW_LEAVING m old \<Longrightarrow>
     rw_step s (s\<lparr>ry_lock := rwlock_up old (ry_lock s), ry_pc := (ry_pc s)(t := RW_OUT)\<rparr>)"

inductive_cases rw_stepE: "rw_step s t"

definition rw_start :: rw_sys where
  "rw_start = \<lparr>ry_lock = the (snd (osal_rwlock_init (Some undefined))), ry_pc = (\<lambda>_. RW_OUT)\<rparr>"

fun rw_reads :: "rw_pc \<Rightarrow> bool" where
  "rw_reads RW_READING \<longleftrightarrow> True"
| "rw_reads (RW_LEAVING m old) \<longleftrightarrow> m = RW_READ"
| "rw_reads _ \<longleftrightarrow> False"

fun rw_writes :: "rw_pc \<Rightarrow> bool" where
  "rw_writes RW_ENTERING \<longleftrightarrow> True"
| "rw_writes RW_WRITING \<longleftrightarrow> True"
| "rw_writes (RW_LEAVING m old) \<longleftrightarrow> m = RW_WRITE"
| "rw_writes _ \<longleftrightarrow> False"

definition rw_flag_ok :: "rw_pc \<Rightarrow> bool" where
  "rw_flag_ok p \<longleftrightarrow> (\<forall>m old. p = RW_LEAVING m old \<longrightarrow> (old \<noteq> 0) = (m = RW_WRITE))"

text \<open>
  The semaphore counts the threads that hold it, writing excludes everything else, and the flag is
  set when a writer is past setting it and has not left.
\<close>

definition rw_inv :: "rw_sys \<Rightarrow> bool" where
  "rw_inv s \<longleftrightarrow>
     finite (threads_at rw_reads (ry_pc s)) \<and>
     rs_readers (rw_sem (ry_lock s)) = card (threads_at rw_reads (ry_pc s)) \<and>
     rs_writer (rw_sem (ry_lock s)) = (\<exists>t. rw_writes (ry_pc s t)) \<and>
     (\<forall>t u. rw_writes (ry_pc s t) \<longrightarrow> rw_writes (ry_pc s u) \<longrightarrow> t = u) \<and>
     (rs_writer (rw_sem (ry_lock s)) \<longrightarrow> rs_readers (rw_sem (ry_lock s)) = 0) \<and>
     (rw_writer (ry_lock s) \<noteq> 0) = (\<exists>t. ry_pc s t = RW_WRITING) \<and>
     (\<forall>t. rw_flag_ok (ry_pc s t))"

lemma rw_inv_start: "rw_inv rw_start"
  by (auto simp: rw_inv_def rw_start_def osal_rwlock_init_def threads_at_def rw_flag_ok_def)

lemma rw_inv_no_reader:
  assumes "rw_inv s" and "rw_writes (ry_pc s t)"
  shows "\<not> rw_reads (ry_pc s u)"
proof -
  have "threads_at rw_reads (ry_pc s) = {}" using assms by (auto simp: rw_inv_def)
  then show ?thesis by (auto simp: threads_at_def)
qed

lemma rw_not_writing: "\<not> rw_writes p \<Longrightarrow> p \<noteq> RW_WRITING"
  by auto

lemma rw_inv_writer:
  assumes "rw_inv s" and "rw_writes (ry_pc s t)"
  shows "rs_writer (rw_sem (ry_lock s))" and "rs_readers (rw_sem (ry_lock s)) = 0"
    and "threads_at rw_reads (ry_pc s) = {}" and "u \<noteq> t \<Longrightarrow> \<not> rw_writes (ry_pc s u)"
    and "(rw_writer (ry_lock s) \<noteq> 0) = (ry_pc s t = RW_WRITING)"
proof -
  show w: "rs_writer (rw_sem (ry_lock s))" and "rs_readers (rw_sem (ry_lock s)) = 0"
    and "threads_at rw_reads (ry_pc s) = {}"
    using assms by (auto simp: rw_inv_def)
  show o: "\<not> rw_writes (ry_pc s u)" if "u \<noteq> t" for u using assms that by (auto simp: rw_inv_def)
  have "(\<exists>u. ry_pc s u = RW_WRITING) = (ry_pc s t = RW_WRITING)" using o rw_not_writing by metis
  then show "(rw_writer (ry_lock s) \<noteq> 0) = (ry_pc s t = RW_WRITING)" using assms by (simp add: rw_inv_def)
qed

lemma rw_inv_reader: "rw_inv s \<Longrightarrow> rw_reads (ry_pc s t) \<Longrightarrow> \<not> rw_writes (ry_pc s u)"
  using rw_inv_writer(3) [of s u] by (auto simp: threads_at_def)

text \<open>When the only thread that may write moves on.\<close>

lemma rw_inv_writer_moves:
  assumes "rw_inv s" and "rw_writes (ry_pc s t)" and "rs_readers (rw_sem l) = 0"
    and "rs_writer (rw_sem l) = rw_writes p" and "\<not> rw_reads p" and "(rw_writer l \<noteq> 0) = (p = RW_WRITING)"
    and "rw_flag_ok p"
  shows "rw_inv (s\<lparr>ry_lock := l, ry_pc := (ry_pc s)(t := p)\<rparr>)"
proof -
  note w = rw_inv_writer [OF assms(1,2)]
  have "\<not> rw_reads (ry_pc s t)" using w(3) by (auto simp: threads_at_def)
  then have "threads_at rw_reads ((ry_pc s)(t := p)) = {}" using w(3) assms(5) by (simp add: threads_at_stay)
  moreover have "(\<exists>u. rw_writes (((ry_pc s)(t := p)) u)) = rw_writes p" using w(4) by (metis fun_upd_apply)
  moreover have "(\<exists>u. ((ry_pc s)(t := p)) u = RW_WRITING) = (p = RW_WRITING)"
    using w(4) rw_not_writing by (metis fun_upd_apply)
  moreover have "\<forall>u v. rw_writes (((ry_pc s)(t := p)) u) \<longrightarrow> rw_writes (((ry_pc s)(t := p)) v) \<longrightarrow> u = v"
    using w(4) by (metis fun_upd_apply)
  moreover have "\<forall>u. rw_flag_ok (((ry_pc s)(t := p)) u)" using assms(1,7) by (simp add: rw_inv_def)
  ultimately show ?thesis using assms(3,4,6) unfolding rw_inv_def by (simp del: fun_upd_apply)
qed

lemma rw_inv_read:
  assumes inv: "rw_inv s" and pc: "ry_pc s t = RW_OUT" and l: "rwlock_down_read (ry_lock s) = Some l"
  shows "rw_inv (s\<lparr>ry_lock := l, ry_pc := (ry_pc s)(t := RW_READING)\<rparr>)"
proof -
  from l have w: "\<not> rs_writer (rw_sem (ry_lock s))"
    and l': "l = (ry_lock s)\<lparr>rw_sem := (rw_sem (ry_lock s))\<lparr>rs_readers := rs_readers (rw_sem (ry_lock s)) + 1\<rparr>\<rparr>"
    by (auto simp: rwlock_down_read_def down_read_def split: if_splits)
  from w inv have n: "\<not> rw_writes (ry_pc s u)" for u by (auto simp: rw_inv_def)
  with inv pc w show ?thesis
    by (simp add: rw_inv_def l' card_threads_enter rw_flag_ok_def rw_not_writing)
qed

lemma rw_inv_write:
  assumes inv: "rw_inv s" and pc: "ry_pc s t = RW_OUT" and l: "rwlock_down_write (ry_lock s) = Some l"
  shows "rw_inv (s\<lparr>ry_lock := l, ry_pc := (ry_pc s)(t := RW_ENTERING)\<rparr>)"
proof -
  from l have w: "\<not> rs_writer (rw_sem (ry_lock s))" "rs_readers (rw_sem (ry_lock s)) = 0"
    and l': "l = (ry_lock s)\<lparr>rw_sem := (rw_sem (ry_lock s))\<lparr>rs_writer := True\<rparr>\<rparr>"
    by (auto simp: rwlock_down_write_def down_write_def split: if_splits)
  from w inv have n: "\<not> rw_writes (ry_pc s u)" for u by (auto simp: rw_inv_def)
  with inv pc w show ?thesis
    by (simp add: rw_inv_def l' threads_at_stay rw_flag_ok_def rw_not_writing)
qed

lemma rw_inv_set_writer:
  assumes inv: "rw_inv s" and pc: "ry_pc s t = RW_ENTERING"
  shows "rw_inv (s\<lparr>ry_lock := rwlock_set_writer (ry_lock s), ry_pc := (ry_pc s)(t := RW_WRITING)\<rparr>)"
proof -
  have t: "rw_writes (ry_pc s t)" using pc by simp
  show ?thesis
    using rw_inv_writer [OF inv t] by (intro rw_inv_writer_moves [OF inv t]) (simp_all add: rwlock_set_writer_def rw_flag_ok_def)
qed

lemma rw_inv_leave_read:
  assumes inv: "rw_inv s" and pc: "ry_pc s t = RW_READING" and l: "rwlock_xchg_writer (ry_lock s) = (old, l)"
  shows "rw_inv (s\<lparr>ry_lock := l, ry_pc := (ry_pc s)(t := RW_LEAVING RW_READ old)\<rparr>)"
proof -
  have n: "\<not> rw_writes (ry_pc s u)" for u using rw_inv_reader [OF inv, of t] pc by simp
  then have "rw_writer (ry_lock s) = 0" using inv by (auto simp: rw_inv_def dest: rw_not_writing)
  then show ?thesis
    using inv pc l n by (auto simp: rw_inv_def rwlock_xchg_writer_def threads_at_stay rw_flag_ok_def)
qed

lemma rw_inv_leave_write:
  assumes inv: "rw_inv s" and pc: "ry_pc s t = RW_WRITING" and l: "rwlock_xchg_writer (ry_lock s) = (old, l)"
  shows "rw_inv (s\<lparr>ry_lock := l, ry_pc := (ry_pc s)(t := RW_LEAVING RW_WRITE old)\<rparr>)"
proof -
  have t: "rw_writes (ry_pc s t)" using pc by simp
  show ?thesis
    using rw_inv_writer [OF inv t] pc l
    by (intro rw_inv_writer_moves [OF inv t]) (auto simp: rwlock_xchg_writer_def rw_flag_ok_def)
qed

lemma rw_leaving_old: "rw_inv s \<Longrightarrow> ry_pc s t = RW_LEAVING m old \<Longrightarrow> (old \<noteq> 0) = (m = RW_WRITE)"
proof -
  assume "rw_inv s" "ry_pc s t = RW_LEAVING m old"
  moreover have "rw_flag_ok (ry_pc s t)" using \<open>rw_inv s\<close> unfolding rw_inv_def by blast
  ultimately show ?thesis by (simp add: rw_flag_ok_def)
qed

lemma rw_inv_up:
  assumes inv: "rw_inv s" and pc: "ry_pc s t = RW_LEAVING m old"
  shows "rw_inv (s\<lparr>ry_lock := rwlock_up old (ry_lock s), ry_pc := (ry_pc s)(t := RW_OUT)\<rparr>)"
proof (cases m)
  case RW_READ
  have "Suc (card (threads_at rw_reads ((ry_pc s)(t := RW_OUT)))) = card (threads_at rw_reads (ry_pc s))"
    using inv pc RW_READ by (intro card_threads_leave) (auto simp: rw_inv_def)
  moreover have n: "\<not> rw_writes (ry_pc s u)" for u using rw_inv_reader [OF inv, of t] pc RW_READ by simp
  moreover have "old = 0" using rw_leaving_old [OF inv pc] RW_READ by simp
  ultimately show ?thesis
    using inv pc by (simp add: rw_inv_def rwlock_up_def up_read_def rw_flag_ok_def rw_not_writing)
next
  case RW_WRITE
  have t: "rw_writes (ry_pc s t)" using pc RW_WRITE by simp
  show ?thesis
    using rw_inv_writer [OF inv t] rw_leaving_old [OF inv pc] pc RW_WRITE
    by (intro rw_inv_writer_moves [OF inv t]) (auto simp: rwlock_up_def up_write_def rw_flag_ok_def)
qed

lemma rw_step_inv: "rw_step s t \<Longrightarrow> rw_inv s \<Longrightarrow> rw_inv t"
  by (induction rule: rw_step.induct)
    (blast intro: rw_inv_read rw_inv_write rw_inv_set_writer rw_inv_leave_read rw_inv_leave_write rw_inv_up)+

lemma rw_steps_inv: "rw_step\<^sup>*\<^sup>* rw_start s \<Longrightarrow> rw_inv s"
  by (induction rule: rtranclp_induct) (auto intro: rw_inv_start rw_step_inv)

text \<open>
  C28. In every interleaving of threads that unlock what they locked, a thread that may write is alone
  among those that hold the lock, and every unlock releases the mode in which its thread held
  the lock, although the only thing it looks at is the flag.
\<close>

theorem rwlock_exclusion:
  assumes "rw_step\<^sup>*\<^sup>* rw_start s"
  shows "(rw_writes (ry_pc s t) \<longrightarrow> (\<forall>u. rw_writes (ry_pc s u) \<or> rw_reads (ry_pc s u) \<longrightarrow> u = t)) \<and>
     (ry_pc s t = RW_LEAVING m old \<longrightarrow>
        rwlock_up old (ry_lock s) = (ry_lock s)\<lparr>rw_sem := (if m = RW_WRITE then up_write else up_read) (rw_sem (ry_lock s))\<rparr>)"
proof -
  have inv: "rw_inv s" using assms by (rule rw_steps_inv)
  have "u = t" if "rw_writes (ry_pc s t)" "rw_writes (ry_pc s u) \<or> rw_reads (ry_pc s u)" for u
    using rw_inv_writer(3,4) [OF inv that(1)] that(2) by (auto simp: threads_at_def)
  then show ?thesis using rw_leaving_old [OF inv] by (auto simp: rwlock_up_def)
qed

lemma rw_writer_reached:
  "rw_step\<^sup>*\<^sup>* rw_start \<lparr>ry_lock = \<lparr>rw_sem = \<lparr>rs_readers = 0, rs_writer = True\<rparr>, rw_writer = 0\<rparr>, ry_pc = (\<lambda>_. RW_OUT)(4 := RW_ENTERING)\<rparr>"
proof -
  have "rwlock_down_write (ry_lock rw_start) = Some \<lparr>rw_sem = \<lparr>rs_readers = 0, rs_writer = True\<rparr>, rw_writer = 0\<rparr>"
    by (simp add: rw_start_def osal_rwlock_init_def rwlock_down_write_def down_write_def)
  from rw_step.take_write [OF _ this, of 4] show ?thesis by (intro r_into_rtranclp) (simp add: rw_start_def)
qed

lemma rwlock_exclusion_witness:
  "rw_reads (((\<lambda>_. RW_OUT)(4 := RW_ENTERING)) (5 :: nat)) = False"
  using conjunct1 [OF rwlock_exclusion [OF rw_writer_reached, of 4]] by simp

end
