(* ===== verification/Osal_Kernel_Thread.thy ===== *)
theory Osal_Kernel_Thread
  imports Osal_Base
begin

text \<open>
  The threads of the kernel module, \<open>src/kernel/osal/src/sys/osal_thread.c\<close>: a structure over a kernel
  thread that a joiner, a detacher or the thread itself frees. The first part has the operations, the
  second lets the thread and its owner run in any order.
\<close>

section \<open>Operations\<close>

text \<open>
  \<open>th_lock\<close> and \<open>th_done\<close> are the mutex and the completion. The registry is the list of the structures in
  it, \<open>node\<close>; pointers to functions and data are numbers.
\<close>

record osal_thread =
  th_task :: nat
  th_done :: bool
  th_lock :: bool
  th_start_routine :: nat
  th_arg :: nat
  th_retval :: nat
  th_detached :: bool
  th_joined :: bool
  th_completed :: bool

record osal_thread_attr =
  at_stack_size :: u64
  at_detach_state :: int
  at_sched_policy :: int
  at_sched_priority :: int
  at_name :: string

abbreviation (input) OSAL_THREAD_CREATE_JOINABLE :: int where "OSAL_THREAD_CREATE_JOINABLE \<equiv> 0"
abbreviation (input) OSAL_THREAD_CREATE_DETACHED :: int where "OSAL_THREAD_CREATE_DETACHED \<equiv> 1"
abbreviation (input) OSAL_SCHED_OTHER :: int where "OSAL_SCHED_OTHER \<equiv> 0"
abbreviation (input) OS_MAX_API_NAME :: nat where "OS_MAX_API_NAME \<equiv> 20"

record thread_mod =
  tm_heap :: "nat \<Rightarrow> osal_thread option"
  tm_registry :: "nat list"

definition osal_thread_errno_to_status :: "int \<Rightarrow> int" where
  "osal_thread_errno_to_status ret =
     (if 0 \<le> ret then OSAL_SUCCESS
      else let err = - ret in
        if err = ENOMEM then OSAL_ERR_NO_MEMORY
        else if err = EINVAL then OSAL_ERR_INVALID_PARAM
        else if err = EBUSY then OSAL_ERR_BUSY
        else if err = EINTR then OSAL_ERR_INTERRUPTED
        else OSAL_ERR_GENERIC)"

definition osal_thread_find_current_locked :: "nat \<Rightarrow> thread_mod \<Rightarrow> nat option" where
  "osal_thread_find_current_locked cur m =
     find (\<lambda>a. map_option th_task (tm_heap m a) = Some cur) (tm_registry m)"

definition osal_thread_find_current :: "nat \<Rightarrow> thread_mod \<Rightarrow> nat option" where
  "osal_thread_find_current cur m = osal_thread_find_current_locked cur m"

definition osal_thread_self :: "nat \<Rightarrow> thread_mod \<Rightarrow> nat option" where
  "osal_thread_self cur m = osal_thread_find_current cur m"

definition osal_thread_unregister :: "nat \<Rightarrow> thread_mod \<Rightarrow> thread_mod" where
  "osal_thread_unregister a m = m\<lparr>tm_registry := remove1 a (tm_registry m)\<rparr>"

text \<open>What happens under the mutex of the structure.\<close>

definition thread_set_complete :: "nat \<Rightarrow> osal_thread \<Rightarrow> osal_thread" where
  "thread_set_complete retval th = th\<lparr>th_retval := retval, th_completed := True, th_done := True\<rparr>"

definition thread_frees_itself :: "osal_thread \<Rightarrow> bool" where
  "thread_frees_itself th \<longleftrightarrow> th_detached th \<and> \<not> th_joined th"

definition thread_claim_join :: "osal_thread \<Rightarrow> osal_thread option" where
  "thread_claim_join th = (if th_detached th \<or> th_joined th then None else Some (th\<lparr>th_joined := True\<rparr>))"

definition thread_claim_detach :: "osal_thread \<Rightarrow> (bool \<times> osal_thread) option" where
  "thread_claim_detach th = (if th_joined th then None else Some (th_completed th, th\<lparr>th_detached := True\<rparr>))"

definition thread_may_cancel :: "osal_thread \<Rightarrow> bool" where
  "thread_may_cancel th \<longleftrightarrow> \<not> (th_detached th \<or> th_joined th)"

definition thread_kfree :: "nat \<Rightarrow> thread_mod \<Rightarrow> thread_mod" where
  "thread_kfree a m = m\<lparr>tm_heap := (tm_heap m)(a := None)\<rparr>"

definition thread_put :: "nat \<Rightarrow> osal_thread \<Rightarrow> thread_mod \<Rightarrow> thread_mod" where
  "thread_put a th m = m\<lparr>tm_heap := (tm_heap m)(a \<mapsto> th)\<rparr>"

definition osal_thread_complete :: "nat \<Rightarrow> nat \<Rightarrow> thread_mod \<Rightarrow> bool \<times> thread_mod" where
  "osal_thread_complete a retval m =
     (let m = osal_thread_unregister a m;
          th = thread_set_complete retval (the (tm_heap m a))
      in (thread_frees_itself th, thread_put a th m))"

definition osal_thread_trampoline :: "nat \<Rightarrow> nat \<Rightarrow> thread_mod \<Rightarrow> thread_mod" where
  "osal_thread_trampoline a retval m =
     (case osal_thread_complete a retval m of (free_thread, m) \<Rightarrow> if free_thread then thread_kfree a m else m)"

definition osal_thread_exit :: "nat \<Rightarrow> nat \<Rightarrow> thread_mod \<Rightarrow> thread_mod" where
  "osal_thread_exit cur retval m =
     (case osal_thread_find_current_locked cur m of
        None \<Rightarrow> m
      | Some a \<Rightarrow> (case osal_thread_complete a retval m of (free_thread, m) \<Rightarrow> if free_thread then thread_kfree a m else m))"

text \<open>
  \<open>kzalloc\<close> answers an address, \<open>kthread_create\<close> a task or a negative errno. The name the thread gets is
  part of the result.
\<close>

definition osal_thread_create ::
  "nat option \<Rightarrow> int + nat \<Rightarrow> bool \<Rightarrow> osal_thread_attr option \<Rightarrow> nat option \<Rightarrow> nat \<Rightarrow> thread_mod \<Rightarrow>
   int \<times> (nat \<times> string) option \<times> thread_mod" where
  "osal_thread_create kzalloc kthread_create thread attr start_routine arg m =
     (case start_routine of
        None \<Rightarrow> (OSAL_ERR_INVALID_POINTER, None, m)
      | Some routine \<Rightarrow>
          if \<not> thread then (OSAL_ERR_INVALID_POINTER, None, m)
          else case kzalloc of
            None \<Rightarrow> (OSAL_ERR_NO_MEMORY, None, m)
          | Some ctx \<Rightarrow>
              (case kthread_create of
                 Inl ret \<Rightarrow> (osal_thread_errno_to_status ret, None, m)
               | Inr task \<Rightarrow>
                   let det = (case attr of None \<Rightarrow> False | Some a \<Rightarrow> at_detach_state a = OSAL_THREAD_CREATE_DETACHED);
                       name = (case attr of
                           Some a \<Rightarrow> if at_name a \<noteq> [] then at_name a else ''osal_thread''
                         | None \<Rightarrow> ''osal_thread'');
                       th = \<lparr>th_task = task, th_done = False, th_lock = False, th_start_routine = routine,
                         th_arg = arg, th_retval = 0, th_detached = det, th_joined = False, th_completed = False\<rparr>
                   in (OSAL_SUCCESS, Some (ctx, name),
                       thread_put ctx th m\<lparr>tm_registry := tm_registry m @ [ctx]\<rparr>)))"

text \<open>
  \<open>others\<close> is what happens while the caller waits; the wait ends when the thread is done, and a wait
  that does not end has the result \<open>None\<close>. The second component says what \<open>retval\<close> was given.
\<close>

definition osal_thread_join ::
  "(thread_mod \<Rightarrow> thread_mod) \<Rightarrow> nat option \<Rightarrow> thread_mod \<Rightarrow> (int \<times> nat option \<times> thread_mod) option" where
  "osal_thread_join others thread m =
     (case thread of
        None \<Rightarrow> Some (OSAL_ERR_INVALID_POINTER, None, m)
      | Some a \<Rightarrow>
          (case thread_claim_join (the (tm_heap m a)) of
             None \<Rightarrow> Some (OSAL_ERR_INVALID_STATE, None, m)
           | Some th \<Rightarrow>
               let m = others (thread_put a th m);
                   th = the (tm_heap m a)
               in if \<not> th_done th then None
                  else Some (OSAL_SUCCESS, Some (th_retval th), thread_kfree a m)))"

definition osal_thread_detach :: "nat option \<Rightarrow> thread_mod \<Rightarrow> int \<times> thread_mod" where
  "osal_thread_detach thread m =
     (case thread of
        None \<Rightarrow> (OSAL_ERR_INVALID_POINTER, m)
      | Some a \<Rightarrow>
          (case thread_claim_detach (the (tm_heap m a)) of
             None \<Rightarrow> (OSAL_ERR_INVALID_STATE, m)
           | Some (free_thread, th) \<Rightarrow>
               (OSAL_SUCCESS, if free_thread then thread_kfree a (thread_put a th m) else thread_put a th m)))"

text \<open>\<open>kthread_stop\<close> waits for the end of the task and returns what its function did.\<close>

definition osal_thread_cancel ::
  "(thread_mod \<Rightarrow> int \<times> thread_mod) \<Rightarrow> nat option \<Rightarrow> thread_mod \<Rightarrow> (int \<times> thread_mod) option" where
  "osal_thread_cancel kthread_stop thread m =
     (case thread of
        None \<Rightarrow> Some (OSAL_ERR_INVALID_POINTER, m)
      | Some a \<Rightarrow>
          if th_task (the (tm_heap m a)) = 0 then Some (OSAL_ERR_INVALID_POINTER, m)
          else if \<not> thread_may_cancel (the (tm_heap m a)) then Some (OSAL_ERR_INVALID_STATE, m)
          else case kthread_stop m of (ret, m) \<Rightarrow>
            if th_done (the (tm_heap m a)) then Some (osal_thread_errno_to_status ret, m) else None)"

definition osal_thread_equal :: "nat option \<Rightarrow> nat option \<Rightarrow> bool" where
  "osal_thread_equal thread1 thread2 \<longleftrightarrow> thread1 = thread2"

definition osal_thread_should_stop :: "bool \<Rightarrow> int" where
  "osal_thread_should_stop kthread_should_stop = (if kthread_should_stop then 1 else 0)"

section \<open>Attributes\<close>

definition osal_thread_attr_init :: "osal_thread_attr option \<Rightarrow> int \<times> osal_thread_attr option" where
  "osal_thread_attr_init attr =
     (case attr of
        None \<Rightarrow> (OSAL_ERR_INVALID_POINTER, None)
      | Some _ \<Rightarrow> (OSAL_SUCCESS, Some \<lparr>at_stack_size = 0, at_detach_state = OSAL_THREAD_CREATE_JOINABLE,
          at_sched_policy = OSAL_SCHED_OTHER, at_sched_priority = 0, at_name = []\<rparr>))"

definition osal_thread_attr_destroy :: "osal_thread_attr option \<Rightarrow> int" where
  "osal_thread_attr_destroy x = (case x of None \<Rightarrow> OSAL_ERR_INVALID_POINTER | Some _ \<Rightarrow> OSAL_SUCCESS)"

text \<open>The setters with nothing to check, then those that check, then the getters.\<close>

definition attr_update ::
  "(osal_thread_attr \<Rightarrow> osal_thread_attr) \<Rightarrow> osal_thread_attr option \<Rightarrow> int \<times> osal_thread_attr option" where
  "attr_update f attr =
     (case attr of None \<Rightarrow> (OSAL_ERR_INVALID_POINTER, None) | Some a \<Rightarrow> (OSAL_SUCCESS, Some (f a)))"

definition osal_thread_attr_set_stack_size :: "u64 \<Rightarrow> osal_thread_attr option \<Rightarrow> int \<times> osal_thread_attr option" where
  "osal_thread_attr_set_stack_size stacksize = attr_update (\<lambda>a. a\<lparr>at_stack_size := stacksize\<rparr>)"

definition osal_thread_attr_set_sched_policy :: "int \<Rightarrow> osal_thread_attr option \<Rightarrow> int \<times> osal_thread_attr option" where
  "osal_thread_attr_set_sched_policy policy = attr_update (\<lambda>a. a\<lparr>at_sched_policy := policy\<rparr>)"

definition osal_thread_attr_set_sched_param :: "int option \<Rightarrow> osal_thread_attr option \<Rightarrow> int \<times> osal_thread_attr option" where
  "osal_thread_attr_set_sched_param param attr =
     (case param of
        None \<Rightarrow> (OSAL_ERR_INVALID_POINTER, attr)
      | Some priority \<Rightarrow> attr_update (\<lambda>a. a\<lparr>at_sched_priority := priority\<rparr>) attr)"

definition osal_thread_attr_set_name :: "string option \<Rightarrow> osal_thread_attr option \<Rightarrow> int \<times> osal_thread_attr option" where
  "osal_thread_attr_set_name name attr =
     (case name of
        None \<Rightarrow> (OSAL_ERR_INVALID_POINTER, attr)
      | Some n \<Rightarrow> attr_update (\<lambda>a. a\<lparr>at_name := strscpy (OS_MAX_API_NAME + 1) n\<rparr>) attr)"

definition osal_thread_attr_set_detach_state :: "int \<Rightarrow> osal_thread_attr option \<Rightarrow> int \<times> osal_thread_attr option" where
  "osal_thread_attr_set_detach_state detachstate attr =
     (case attr of
        None \<Rightarrow> (OSAL_ERR_INVALID_POINTER, None)
      | Some a \<Rightarrow>
          if detachstate \<noteq> OSAL_THREAD_CREATE_JOINABLE \<and> detachstate \<noteq> OSAL_THREAD_CREATE_DETACHED
          then (OSAL_ERR_INVALID_PARAM, attr)
          else (OSAL_SUCCESS, Some (a\<lparr>at_detach_state := detachstate\<rparr>)))"

definition osal_thread_attr_get_stack_size :: "bool \<Rightarrow> osal_thread_attr option \<Rightarrow> int \<times> u64 option" where
  "osal_thread_attr_get_stack_size stacksize attr =
     (case attr of
        None \<Rightarrow> (OSAL_ERR_INVALID_POINTER, None)
      | Some a \<Rightarrow> if \<not> stacksize then (OSAL_ERR_INVALID_POINTER, None) else (OSAL_SUCCESS, Some (at_stack_size a)))"

definition osal_thread_attr_get_detach_state :: "bool \<Rightarrow> osal_thread_attr option \<Rightarrow> int \<times> int option" where
  "osal_thread_attr_get_detach_state detachstate attr =
     (case attr of
        None \<Rightarrow> (OSAL_ERR_INVALID_POINTER, None)
      | Some a \<Rightarrow> if \<not> detachstate then (OSAL_ERR_INVALID_POINTER, None) else (OSAL_SUCCESS, Some (at_detach_state a)))"

end
