(* ===== verification/Osal_Kernel_Thread_Life.thy ===== *)
theory Osal_Kernel_Thread_Life
  imports Osal_Kernel_Thread
begin

text \<open>
  One thread of the kernel module and its owner, who may cancel it and then joins or detaches it once,
  in every order of their steps: who frees the structure, and what can go wrong.
\<close>

section \<open>Steps\<close>

text \<open>
  Where the thread stands in \<open>osal_thread_trampoline\<close>: the kernel has not called it yet; in the routine
  of the caller; in \<open>osal_thread_complete\<close> after unregistering, with the value to return; with the mutex
  held; after \<open>complete_all\<close>, with the mutex still held; after the mutex with the decision whether to
  free; gone, and whether the routine ever ran.
\<close>

datatype worker_pc =
  W_NEW | W_RUN | W_LOCKING nat | W_HOLDING nat | W_COMPLETED | W_UNLOCKED bool | W_GONE bool

text \<open>
  Where the owner stands: idle, waiting in \<open>osal_thread_join\<close>, done with it, about to free in
  \<open>osal_thread_detach\<close>, done with it, in \<open>kthread_stop\<close>, and in the wait that follows it in
  \<open>osal_thread_cancel\<close>.
\<close>

datatype owner_pc = O_IDLE | O_JOINING | O_JOINED nat | O_DETACHING | O_DETACHED | O_STOPPING | O_WAITING

text \<open>
  \<open>tl_freed\<close> counts the calls of \<open>kfree\<close>, \<open>tl_returned\<close> is what the routine returned, and \<open>tl_stopped_dead\<close>
  says that \<open>kthread_stop\<close> was given a task that was gone.
\<close>

record thread_life =
  tl_thread :: osal_thread
  tl_worker :: worker_pc
  tl_owner :: owner_pc
  tl_should_stop :: bool
  tl_freed :: nat
  tl_returned :: "nat option"
  tl_stopped_dead :: bool

text \<open>A kernel thread that is stopped before it first runs never calls its function.\<close>

inductive life_step :: "thread_life \<Rightarrow> thread_life \<Rightarrow> bool" where
  w_start: "tl_worker s = W_NEW \<Longrightarrow> \<not> tl_should_stop s \<Longrightarrow> life_step s (s\<lparr>tl_worker := W_RUN\<rparr>)"
| w_never: "tl_worker s = W_NEW \<Longrightarrow> tl_should_stop s \<Longrightarrow> life_step s (s\<lparr>tl_worker := W_GONE False\<rparr>)"
| w_return: "tl_worker s = W_RUN \<Longrightarrow> life_step s (s\<lparr>tl_worker := W_LOCKING v, tl_returned := Some v\<rparr>)"
| w_lock: "tl_worker s = W_LOCKING v \<Longrightarrow> \<not> th_lock (tl_thread s) \<Longrightarrow>
     life_step s (s\<lparr>tl_worker := W_HOLDING v, tl_thread := (tl_thread s)\<lparr>th_lock := True\<rparr>\<rparr>)"
| w_complete: "tl_worker s = W_HOLDING v \<Longrightarrow>
     life_step s (s\<lparr>tl_worker := W_COMPLETED, tl_thread := thread_set_complete v (tl_thread s)\<rparr>)"
| w_unlock: "tl_worker s = W_COMPLETED \<Longrightarrow>
     life_step s (s\<lparr>tl_worker := W_UNLOCKED (thread_frees_itself (tl_thread s)),
       tl_thread := (tl_thread s)\<lparr>th_lock := False\<rparr>\<rparr>)"
| w_free: "tl_worker s = W_UNLOCKED True \<Longrightarrow>
     life_step s (s\<lparr>tl_worker := W_GONE True, tl_freed := tl_freed s + 1\<rparr>)"
| w_exit: "tl_worker s = W_UNLOCKED False \<Longrightarrow> life_step s (s\<lparr>tl_worker := W_GONE True\<rparr>)"
| o_join: "tl_owner s = O_IDLE \<Longrightarrow> \<not> th_lock (tl_thread s) \<Longrightarrow> thread_claim_join (tl_thread s) = Some th \<Longrightarrow>
     life_step s (s\<lparr>tl_owner := O_JOINING, tl_thread := th\<rparr>)"
| o_joined: "tl_owner s = O_JOINING \<Longrightarrow> th_done (tl_thread s) \<Longrightarrow>
     life_step s (s\<lparr>tl_owner := O_JOINED (th_retval (tl_thread s)), tl_freed := tl_freed s + 1\<rparr>)"
| o_detach: "tl_owner s = O_IDLE \<Longrightarrow> \<not> th_lock (tl_thread s) \<Longrightarrow>
     thread_claim_detach (tl_thread s) = Some (free_thread, th) \<Longrightarrow>
     life_step s (s\<lparr>tl_owner := if free_thread then O_DETACHING else O_DETACHED, tl_thread := th\<rparr>)"
| o_detached: "tl_owner s = O_DETACHING \<Longrightarrow>
     life_step s (s\<lparr>tl_owner := O_DETACHED, tl_freed := tl_freed s + 1\<rparr>)"
| o_cancel: "tl_owner s = O_IDLE \<Longrightarrow> \<not> th_lock (tl_thread s) \<Longrightarrow> thread_may_cancel (tl_thread s) \<Longrightarrow>
     life_step s (s\<lparr>tl_owner := O_STOPPING, tl_should_stop := True,
       tl_stopped_dead := tl_stopped_dead s \<or> (\<exists>r. tl_worker s = W_GONE r)\<rparr>)"
| o_stopped: "tl_owner s = O_STOPPING \<Longrightarrow> tl_worker s = W_GONE r \<Longrightarrow> life_step s (s\<lparr>tl_owner := O_WAITING\<rparr>)"
| o_cancelled: "tl_owner s = O_WAITING \<Longrightarrow> th_done (tl_thread s) \<Longrightarrow> life_step s (s\<lparr>tl_owner := O_IDLE\<rparr>)"

inductive_cases life_stepE: "life_step s t"

text \<open>The state after \<open>osal_thread_create\<close> of a joinable thread.\<close>

definition life_start :: "osal_thread \<Rightarrow> thread_life" where
  "life_start th = \<lparr>tl_thread = th, tl_worker = W_NEW, tl_owner = O_IDLE, tl_should_stop = False,
     tl_freed = 0, tl_returned = None, tl_stopped_dead = False\<rparr>"

definition thread_fresh :: "osal_thread \<Rightarrow> bool" where
  "thread_fresh th \<longleftrightarrow> \<not> th_done th \<and> \<not> th_lock th \<and> \<not> th_detached th \<and> \<not> th_joined th \<and> \<not> th_completed th"

section \<open>Invariant\<close>

fun worker_finished :: "worker_pc \<Rightarrow> bool" where
  "worker_finished W_COMPLETED \<longleftrightarrow> True"
| "worker_finished (W_UNLOCKED f) \<longleftrightarrow> True"
| "worker_finished (W_GONE b) \<longleftrightarrow> b"
| "worker_finished _ \<longleftrightarrow> False"

definition life_inv :: "thread_life \<Rightarrow> bool" where
  "life_inv s \<longleftrightarrow>
     (let th = tl_thread s; w = tl_worker s; ow = tl_owner s in
      th_done th = worker_finished w \<and> th_completed th = worker_finished w \<and>
      th_lock th = (w = W_COMPLETED \<or> (\<exists>v. w = W_HOLDING v)) \<and>
      th_joined th = (ow = O_JOINING \<or> (\<exists>v. ow = O_JOINED v)) \<and>
      th_detached th = (ow = O_DETACHING \<or> ow = O_DETACHED) \<and>
      (worker_finished w \<longrightarrow> tl_returned s = Some (th_retval th)) \<and>
      (\<forall>v. w = W_LOCKING v \<or> w = W_HOLDING v \<longrightarrow> tl_returned s = Some v) \<and>
      (\<forall>v. ow = O_JOINED v \<longrightarrow> worker_finished w \<and> tl_returned s = Some v) \<and>
      (ow = O_DETACHING \<longrightarrow> w = W_UNLOCKED False \<or> w = W_GONE True) \<and>
      (w = W_UNLOCKED True \<longrightarrow> ow = O_DETACHED) \<and>
      (w = W_GONE False \<longrightarrow> ow = O_STOPPING \<or> ow = O_WAITING) \<and>
      (ow = O_WAITING \<longrightarrow> (\<exists>r. w = W_GONE r)) \<and>
      (w = W_NEW \<and> tl_should_stop s \<longrightarrow> ow = O_STOPPING) \<and>
      (w = W_NEW \<or> w = W_RUN \<or> w = W_GONE False \<longrightarrow> tl_returned s = None) \<and>
      tl_freed s = (case ow of
          O_JOINED v \<Rightarrow> 1
        | O_DETACHED \<Rightarrow> (if w = W_UNLOCKED False \<or> w = W_GONE True then 1 else 0)
        | _ \<Rightarrow> 0))"

lemmas life_defs = life_inv_def thread_set_complete_def thread_frees_itself_def
  thread_claim_join_def thread_claim_detach_def thread_may_cancel_def

lemma life_inv_start: "thread_fresh th \<Longrightarrow> life_inv (life_start th)"
  by (simp add: life_defs life_start_def thread_fresh_def)

lemma life_step_inv: "life_step s t \<Longrightarrow> life_inv s \<Longrightarrow> life_inv t"
proof (induction rule: life_step.induct)
  case (o_detach s free_thread th)
  then show ?case by (cases "tl_worker s") (auto simp: life_defs Let_def)
qed (auto simp: life_defs Let_def split: owner_pc.splits)

lemma life_steps_inv: "life_step\<^sup>*\<^sup>* (life_start th) s \<Longrightarrow> thread_fresh th \<Longrightarrow> life_inv s"
  by (induction rule: rtranclp_induct) (auto intro: life_inv_start life_step_inv)

section \<open>Properties\<close>

text \<open>Where a thread still uses its structure.\<close>

fun worker_uses :: "worker_pc \<Rightarrow> bool" where
  "worker_uses (W_UNLOCKED f) \<longleftrightarrow> f"
| "worker_uses (W_GONE b) \<longleftrightarrow> False"
| "worker_uses _ \<longleftrightarrow> True"

text \<open>
  C25. The structure of a thread is freed once at most, and exactly once when the thread is gone and its
  owner is done; a join returns what the routine returned. While the thread still uses it, it is
  freed in one situation only: the owner joined, and the thread is between \<open>complete_all\<close> and letting
  the mutex go.
\<close>

theorem thread_lifetime:
  assumes "thread_fresh th" and "life_step\<^sup>*\<^sup>* (life_start th) s"
  shows "tl_freed s \<le> 1 \<and>
    (tl_worker s = W_GONE r \<and> (tl_owner s = O_DETACHED \<or> tl_owner s = O_JOINED v) \<longrightarrow> tl_freed s = 1) \<and>
    (tl_owner s = O_JOINED v \<longrightarrow> tl_returned s = Some v) \<and>
    (0 < tl_freed s \<and> worker_uses (tl_worker s) \<longrightarrow> tl_worker s = W_COMPLETED \<and> (\<exists>v. tl_owner s = O_JOINED v))"
proof -
  have inv: "life_inv s" using assms life_steps_inv by blast
  then have "tl_freed s \<le> 1" by (cases "tl_owner s") (simp_all add: life_inv_def Let_def)
  moreover have "tl_freed s = 1"
    if "tl_worker s = W_GONE r" "tl_owner s = O_DETACHED \<or> tl_owner s = O_JOINED v"
    using inv that by (cases r) (auto simp: life_inv_def Let_def)
  moreover have "tl_returned s = Some v" if "tl_owner s = O_JOINED v"
    using inv that by (auto simp: life_inv_def Let_def)
  moreover have "tl_worker s = W_COMPLETED \<and> (\<exists>v. tl_owner s = O_JOINED v)"
    if "0 < tl_freed s" "worker_uses (tl_worker s)"
    using inv that by (cases "tl_owner s"; cases "tl_worker s") (auto simp: life_inv_def Let_def)
  ultimately show ?thesis by blast
qed

text \<open>The owner joins, the thread runs to \<open>complete_all\<close>, the owner goes on.\<close>

lemma join_overtakes:
  assumes "thread_fresh th"
  shows "\<exists>s. life_step\<^sup>*\<^sup>* (life_start th) s \<and> tl_owner s = O_JOINED v \<and> tl_freed s = 1 \<and> tl_worker s = W_COMPLETED"
proof -
  let ?th = "th\<lparr>th_joined := True\<rparr>"
  have "life_step (life_start th) ((life_start ?th)\<lparr>tl_owner := O_JOINING\<rparr>)" (is "life_step _ ?a")
    using o_join [of "life_start th" ?th] assms by (simp add: life_start_def thread_fresh_def thread_claim_join_def)
  moreover have "life_step ?a (?a\<lparr>tl_worker := W_RUN\<rparr>)" (is "life_step _ ?b")
    using w_start [of ?a] by (simp add: life_start_def)
  moreover have "life_step ?b (?b\<lparr>tl_worker := W_LOCKING v, tl_returned := Some v\<rparr>)" (is "life_step _ ?c")
    using w_return [of ?b v] by simp
  moreover have "life_step ?c (?c\<lparr>tl_worker := W_HOLDING v, tl_thread := ?th\<lparr>th_lock := True\<rparr>\<rparr>)" (is "life_step _ ?d")
    using w_lock [of ?c v] assms by (simp add: life_start_def thread_fresh_def)
  moreover have "life_step ?d (?d\<lparr>tl_worker := W_COMPLETED, tl_thread := thread_set_complete v (?th\<lparr>th_lock := True\<rparr>)\<rparr>)" (is "life_step _ ?e")
    using w_complete [of ?d v] by simp
  moreover have "life_step ?e (?e\<lparr>tl_owner := O_JOINED v, tl_freed := 1\<rparr>)"
    using o_joined [of ?e] by (simp add: life_start_def thread_set_complete_def)
  ultimately have "life_step\<^sup>*\<^sup>* (life_start th) (?e\<lparr>tl_owner := O_JOINED v, tl_freed := 1\<rparr>)" by simp
  then show ?thesis by (intro exI conjI) (assumption, simp_all)
qed

text \<open>
  The one situation does happen: a join can free the structure, and return, while the thread has
  still to read its flags and to unlock the mutex inside it.
\<close>

theorem thread_join_race:
  assumes "thread_fresh th"
  shows "\<exists>s. life_step\<^sup>*\<^sup>* (life_start th) s \<and> tl_owner s = O_JOINED v \<and> 0 < tl_freed s \<and> worker_uses (tl_worker s)"
proof -
  obtain s where "life_step\<^sup>*\<^sup>* (life_start th) s \<and> tl_owner s = O_JOINED v \<and> tl_freed s = 1 \<and> tl_worker s = W_COMPLETED"
    using join_overtakes [OF assms] by blast
  then show ?thesis by (intro exI [of _ s]) simp
qed

definition some_thread :: osal_thread where
  "some_thread = \<lparr>th_task = 7, th_done = False, th_lock = False, th_start_routine = 1, th_arg = 2, th_retval = 0,
     th_detached = False, th_joined = False, th_completed = False\<rparr>"

lemma some_thread_fresh: "thread_fresh some_thread"
  by (simp add: thread_fresh_def some_thread_def)

lemma thread_join_race_witness:
  "\<exists>s. life_step\<^sup>*\<^sup>* (life_start some_thread) s \<and> tl_owner s = O_JOINED 5 \<and> 0 < tl_freed s \<and> worker_uses (tl_worker s)"
  using thread_join_race [OF some_thread_fresh] .

lemma thread_lifetime_witness:
  "\<exists>s. life_step\<^sup>*\<^sup>* (life_start some_thread) s \<and> tl_freed s = 1 \<and> tl_returned s = Some 5"
proof -
  obtain s where s: "life_step\<^sup>*\<^sup>* (life_start some_thread) s" "tl_owner s = O_JOINED 5" "tl_freed s = 1"
    using join_overtakes [OF some_thread_fresh] by blast
  then show ?thesis using thread_lifetime [OF some_thread_fresh s(1), of True 5] by blast
qed

section \<open>Cancelling\<close>

text \<open>The \<open>n\<close>th state after the cancellation of a thread that the kernel had not run.\<close>

definition cancel_hangs_at :: "nat \<Rightarrow> thread_life \<Rightarrow> bool" where
  "cancel_hangs_at n s \<longleftrightarrow>
     \<not> th_done (tl_thread s) \<and> tl_should_stop s \<and> tl_returned s = None \<and> tl_freed s = 0 \<and>
     (n = 0 \<and> tl_worker s = W_NEW \<and> tl_owner s = O_STOPPING \<or>
      n = 1 \<and> tl_worker s = W_GONE False \<and> tl_owner s = O_STOPPING \<or>
      n = 2 \<and> tl_worker s = W_GONE False \<and> tl_owner s = O_WAITING)"

lemma cancel_hangs_step: "cancel_hangs_at n s \<Longrightarrow> life_step s t \<Longrightarrow> cancel_hangs_at (Suc n) t"
  by (auto simp: cancel_hangs_at_def elim!: life_stepE)

lemma cancel_hangs_end: "cancel_hangs_at n s \<Longrightarrow> (\<forall>t. \<not> life_step s t) = (n = 2)"
proof -
  assume a: "cancel_hangs_at n s"
  have "\<exists>t. life_step s t" if "n = 0" using w_never [of s] a that by (auto simp: cancel_hangs_at_def)
  moreover have "\<exists>t. life_step s t" if "n = 1" using o_stopped [of s False] a that by (auto simp: cancel_hangs_at_def)
  moreover have "\<not> life_step s t" if "n = 2" for t using a that by (auto simp: cancel_hangs_at_def elim!: life_stepE)
  moreover have "n \<le> 2" using a by (auto simp: cancel_hangs_at_def)
  ultimately show ?thesis by (metis One_nat_def Suc_1 le_SucE le_zero_eq)
qed

lemma cancel_hangs_steps: "cancel_hangs_at 0 s \<Longrightarrow> (life_step ^^ n) s t \<Longrightarrow> cancel_hangs_at n t"
  by (induction n arbitrary: t) (auto intro: cancel_hangs_step)

lemma cancel_hangs_start:
  assumes "life_inv s" and "tl_worker s = W_NEW" and "tl_owner s = O_IDLE"
    and "life_step s t" and "tl_owner t = O_STOPPING"
  shows "cancel_hangs_at 0 t"
  using assms(4) by cases (use assms in \<open>auto simp: cancel_hangs_at_def life_inv_def Let_def split: if_splits\<close>)

text \<open>
  C26. Cancelling a thread that the kernel has not run yet never returns, whatever the two did before:
  the routine is skipped, so nothing completes the thread. Every run goes on for two steps, to a
  state in which no step is left and the owner waits; the routine never ran and the structure is not freed.
\<close>

theorem thread_cancel_hangs:
  assumes "thread_fresh th" and "life_step\<^sup>*\<^sup>* (life_start th) s"
    and "tl_worker s = W_NEW" and "tl_owner s = O_IDLE"
    and "life_step s t" and "tl_owner t = O_STOPPING" and "(life_step ^^ n) t u"
  shows "n \<le> 2 \<and> (tl_owner u = O_STOPPING \<or> tl_owner u = O_WAITING) \<and> tl_returned u = None \<and> tl_freed u = 0 \<and>
    (\<forall>v. \<not> life_step u v) = (n = 2) \<and> (n = 2 \<longrightarrow> tl_owner u = O_WAITING)"
proof -
  have "cancel_hangs_at n u"
    using cancel_hangs_steps [OF cancel_hangs_start [OF life_steps_inv [OF assms(2,1)] assms(3-6)] assms(7)] .
  with cancel_hangs_end [OF this] show ?thesis by (auto simp: cancel_hangs_at_def)
qed

lemma thread_cancel_hangs_witness:
  "\<exists>u. life_step\<^sup>*\<^sup>* (life_start some_thread) u \<and> tl_owner u = O_WAITING \<and> tl_returned u = None \<and> (\<forall>v. \<not> life_step u v)"
proof -
  let ?s = "life_start some_thread"
  let ?a = "?s\<lparr>tl_owner := O_STOPPING, tl_should_stop := True\<rparr>"
  let ?b = "?a\<lparr>tl_worker := W_GONE False\<rparr>"
  let ?c = "?b\<lparr>tl_owner := O_WAITING\<rparr>"
  have a: "life_step ?s ?a"
    using o_cancel [of ?s] by (simp add: life_start_def thread_may_cancel_def some_thread_def)
  have b: "life_step ?a ?b" using w_never [of ?a] by (simp add: life_start_def)
  have c: "life_step ?b ?c" using o_stopped [of ?b False] by simp
  have r: "life_step\<^sup>*\<^sup>* ?s ?c" 
    by (rule converse_rtranclp_into_rtranclp [OF a converse_rtranclp_into_rtranclp [OF b r_into_rtranclp [of life_step, OF c]]])
  have "(life_step OO life_step) ?a ?c" using b c by (rule relcomppI)
  then have "(life_step ^^ 2) ?a ?c" by (simp add: numeral_2_eq_2 eq_OO)
  with thread_cancel_hangs [OF some_thread_fresh rtranclp.rtrancl_refl _ _ a, of 2 ?c] r
  show ?thesis by (intro exI [of _ ?c]) (simp add: life_start_def)
qed

end
