(* ===== verification/Osal_Log.thy ===== *)
theory Osal_Log
  imports Osal_Base Kernel_Text Libc_Text
begin

text \<open>
  The log of the user library, \<open>src/user/osal/src/util/osal_log.c\<close>: levels, sampling and filter,
  the console, the file with its rotation and the remote server.

  \<open>log_sys\<close> has the variables of the file and what the calls act on: the files by name, what was
  written to the console and sent, and the sockets and compiled filters that were not released yet.
  \<open>log_env\<close> tells what the system does: which files can be opened, whether the directory can be
  changed, what the regular expressions match and which addresses are valid. A formatted message is
  the text that \<open>printf\<close> makes of the format and its arguments; a null format is \<open>None\<close>. The calls are
  those of one thread: the two mutexes and the atomic variables are what makes each of them take
  effect at once. What is printed to \<open>stderr\<close> is not modelled.
\<close>

section \<open>Data\<close>

datatype log_state = LOG_STATE_UNINITIALIZED | LOG_STATE_INITIALIZING | LOG_STATE_READY

abbreviation (input) LOG_LEVEL_DEBUG :: int where "LOG_LEVEL_DEBUG \<equiv> 0"
abbreviation (input) LOG_LEVEL_INFO :: int where "LOG_LEVEL_INFO \<equiv> 1"
abbreviation (input) LOG_LEVEL_FATAL :: int where "LOG_LEVEL_FATAL \<equiv> 4"
abbreviation (input) OSAL_LOG_FILE_MAX_SIZE :: u32 where "OSAL_LOG_FILE_MAX_SIZE \<equiv> 0xA * 1024 * 1024"
abbreviation (input) OSAL_LOG_FILE_BACKUP_COUNT :: u32 where "OSAL_LOG_FILE_BACKUP_COUNT \<equiv> 0x5"
abbreviation (input) OSAL_LOG_PATH_SIZE :: nat where "OSAL_LOG_PATH_SIZE \<equiv> 0x100"
abbreviation (input) OSAL_LOG_MESSAGE_SIZE :: nat where "OSAL_LOG_MESSAGE_SIZE \<equiv> 0x400"
abbreviation (input) OSAL_LOG_MAX_KV_PAIRS :: nat where "OSAL_LOG_MAX_KV_PAIRS \<equiv> 0x8"

type_synonym log_files = "string \<Rightarrow> string option"

text \<open>
  What \<open>write\<close> is given: the characters of the buffer, and how many bytes behind the buffer are
  written with them.
\<close>

type_synonym console_write = "string \<times> nat"

record log_sys =
  log_state :: log_state
  log_level :: int
  log_file :: "string option"
  log_path :: string
  log_max_size :: u32
  log_max_files :: u32
  log_filter_regex :: string
  log_filter_enabled :: bool
  log_sampling_rate :: u32
  log_counter :: u64
  log_remote_socket :: int
  log_remote_addr :: "nat \<times> nat"
  log_remote_enabled :: bool
  log_total :: u64
  log_dropped :: u64
  log_fs :: log_files
  log_console :: "console_write list"
  log_sent :: "((nat \<times> nat) \<times> string) list"
  log_sockets :: "int set"
  log_regexes :: nat

record log_env =
  le_fopen :: "string \<Rightarrow> bool"
  le_writable :: bool
  le_regcomp :: "string \<Rightarrow> bool"
  le_regexec :: "string \<Rightarrow> string \<Rightarrow> bool"
  le_inet_pton :: "string \<Rightarrow> nat option"

definition log_sys_start :: "log_files \<Rightarrow> log_sys" where
  "log_sys_start fs = \<lparr>log_state = LOG_STATE_UNINITIALIZED, log_level = LOG_LEVEL_INFO, log_file = None, log_path = [],
     log_max_size = OSAL_LOG_FILE_MAX_SIZE, log_max_files = OSAL_LOG_FILE_BACKUP_COUNT, log_filter_regex = [],
     log_filter_enabled = False, log_sampling_rate = 1, log_counter = 0, log_remote_socket = - 1, log_remote_addr = (0, 0),
     log_remote_enabled = False, log_total = 0, log_dropped = 0, log_fs = fs, log_console = [], log_sent = [],
     log_sockets = {}, log_regexes = 0\<rparr>"

definition log_level_names :: "string list" where
  "log_level_names = [''DEBUG'', ''INFO'', ''WARN'', ''ERROR'', ''FATAL'']"

definition log_level_colors :: "string list" where
  "log_level_colors = map (\<lambda>s. CHR 0x1B # s) [''[36m'', ''[32m'', ''[33m'', ''[31m'', ''[35m'']"

definition color_reset :: string where
  "color_reset = CHR 0x1B # ''[0m''"

section \<open>Files\<close>

text \<open>\<open>fopen (name, "a")\<close>, \<open>fprintf\<close>, \<open>rename\<close> and \<open>remove\<close>.\<close>

definition fopen_append :: "string \<Rightarrow> log_files \<Rightarrow> log_files" where
  "fopen_append nm fs = (case fs nm of None \<Rightarrow> fs(nm \<mapsto> []) | Some _ \<Rightarrow> fs)"

definition file_put :: "string \<Rightarrow> log_sys \<Rightarrow> log_sys" where
  "file_put txt s =
     (case log_file s of
        None \<Rightarrow> s
      | Some nm \<Rightarrow> s\<lparr>log_fs := (log_fs s)(nm \<mapsto> (case log_fs s nm of None \<Rightarrow> [] | Some c \<Rightarrow> c) @ txt)\<rparr>)"

definition file_rename :: "log_env \<Rightarrow> string \<Rightarrow> string \<Rightarrow> log_files \<Rightarrow> log_files" where
  "file_rename env old new fs =
     (if le_writable env \<and> fs old \<noteq> None \<and> old \<noteq> new then fs(new := fs old, old := None) else fs)"

definition file_remove :: "log_env \<Rightarrow> string \<Rightarrow> log_files \<Rightarrow> log_files" where
  "file_remove env nm fs = (if le_writable env then fs(nm := None) else fs)"

text \<open>\<open>write\<close> of the length that \<open>snprintf\<close> returned, from a buffer of \<open>n\<close> bytes.\<close>

definition console_put :: "nat \<Rightarrow> string \<Rightarrow> log_sys \<Rightarrow> log_sys" where
  "console_put n txt s =
     s\<lparr>log_console := log_console s @
         [if length txt < n then (txt, 0) else (take (n - 1) txt @ [CHR 0x00], length txt - n)]\<rparr>"

section \<open>Init and shutdown\<close>

definition log_is_ready :: "log_sys \<Rightarrow> bool" where
  "log_is_ready s \<longleftrightarrow> log_state s = LOG_STATE_READY"

definition reset_log_config_unlocked :: "log_sys \<Rightarrow> log_sys" where
  "reset_log_config_unlocked s = s\<lparr>log_filter_enabled := False, log_sampling_rate := 1, log_counter := 0, log_total := 0,
     log_dropped := 0, log_max_size := OSAL_LOG_FILE_MAX_SIZE, log_max_files := OSAL_LOG_FILE_BACKUP_COUNT,
     log_remote_socket := - 1, log_remote_enabled := False, log_remote_addr := (0, 0)\<rparr>"

definition osal_log_set_level :: "int \<Rightarrow> log_sys \<Rightarrow> log_sys" where
  "osal_log_set_level level s =
     (if LOG_LEVEL_DEBUG \<le> level \<and> level \<le> LOG_LEVEL_FATAL then s\<lparr>log_level := level\<rparr> else s)"

definition osal_log_init :: "log_env \<Rightarrow> string option \<Rightarrow> int \<Rightarrow> log_sys \<Rightarrow> int \<times> log_sys" where
  "osal_log_init env log_file_path level s =
     (if log_state s \<noteq> LOG_STATE_UNINITIALIZED then (OSAL_ERR_INVALID_STATE, s)
      else let s = s\<lparr>log_state := LOG_STATE_INITIALIZING\<rparr>;
               s = (if LOG_LEVEL_DEBUG \<le> level \<and> level \<le> LOG_LEVEL_FATAL then s\<lparr>log_level := level\<rparr> else s);
               s = reset_log_config_unlocked s;
               s = s\<lparr>log_path := []\<rparr>
           in case log_file_path of
                None \<Rightarrow> (OSAL_SUCCESS, s\<lparr>log_state := LOG_STATE_READY\<rparr>)
              | Some path \<Rightarrow>
                  if le_fopen env path
                  then (OSAL_SUCCESS, s\<lparr>log_path := strscpy OSAL_LOG_PATH_SIZE path, log_file := Some path,
                          log_fs := fopen_append path (log_fs s), log_state := LOG_STATE_READY\<rparr>)
                  else (OSAL_ERR_GENERIC, s\<lparr>log_file := None, log_state := LOG_STATE_UNINITIALIZED\<rparr>))"

definition osal_log_shutdown :: "log_sys \<Rightarrow> log_sys" where
  "osal_log_shutdown s =
     (let old_state = log_state s; s = s\<lparr>log_state := LOG_STATE_UNINITIALIZED\<rparr>
      in if old_state = LOG_STATE_UNINITIALIZED then s
         else let s = s\<lparr>log_file := None, log_path := []\<rparr>;
                  s = (if log_remote_enabled s \<and> 0 \<le> log_remote_socket s
                       then s\<lparr>log_sockets := log_sockets s - {log_remote_socket s}, log_remote_socket := - 1, log_remote_enabled := False\<rparr>
                       else s);
                  s = (if log_filter_enabled s then s\<lparr>log_regexes := log_regexes s - 1\<rparr> else s)
              in (reset_log_config_unlocked s)\<lparr>log_level := LOG_LEVEL_INFO\<rparr>)"

section \<open>Configuration\<close>

definition osal_log_set_filter :: "log_env \<Rightarrow> string option \<Rightarrow> log_sys \<Rightarrow> int \<times> log_sys" where
  "osal_log_set_filter env pattern s =
     (case pattern of
        None \<Rightarrow>
          (OSAL_SUCCESS, if log_filter_enabled s then s\<lparr>log_regexes := log_regexes s - 1, log_filter_enabled := False\<rparr> else s)
      | Some p \<Rightarrow>
          if \<not> le_regcomp env p then (OSAL_ERR_GENERIC, s)
          else let s = s\<lparr>log_regexes := log_regexes s + 1\<rparr>;
                   s = (if log_filter_enabled s then s\<lparr>log_regexes := log_regexes s - 1\<rparr> else s)
               in (OSAL_SUCCESS, s\<lparr>log_filter_regex := p, log_filter_enabled := True\<rparr>))"

definition osal_log_set_sampling :: "u32 \<Rightarrow> log_sys \<Rightarrow> log_sys" where
  "osal_log_set_sampling rate s = (if 0 < rate then s\<lparr>log_sampling_rate := rate\<rparr> else s)"

text \<open>The descriptor that \<open>socket\<close> returned is an argument, negative when it failed.\<close>

definition osal_log_set_remote :: "log_env \<Rightarrow> int \<Rightarrow> string option \<Rightarrow> 16 word \<Rightarrow> log_sys \<Rightarrow> int \<times> log_sys" where
  "osal_log_set_remote env sock host port s =
     (case host of
        None \<Rightarrow> (OSAL_ERR_INVALID_SIZE, s)
      | Some h \<Rightarrow>
          if port = 0 then (OSAL_ERR_INVALID_SIZE, s)
          else if sock < 0 then (OSAL_ERR_GENERIC, s)
          else let s = s\<lparr>log_sockets := insert sock (log_sockets s)\<rparr>
               in case le_inet_pton env h of
                    None \<Rightarrow> (OSAL_ERR_GENERIC, s\<lparr>log_sockets := log_sockets s - {sock}\<rparr>)
                  | Some ip \<Rightarrow>
                      let s = (if log_remote_enabled s \<and> 0 \<le> log_remote_socket s
                               then s\<lparr>log_sockets := log_sockets s - {log_remote_socket s}\<rparr> else s)
                      in (OSAL_SUCCESS, s\<lparr>log_remote_socket := sock, log_remote_addr := (ip, unat port), log_remote_enabled := True\<rparr>))"

definition osal_log_disable_remote :: "log_sys \<Rightarrow> log_sys" where
  "osal_log_disable_remote s =
     (let s = (if log_remote_enabled s \<and> 0 \<le> log_remote_socket s
               then s\<lparr>log_sockets := log_sockets s - {log_remote_socket s}, log_remote_socket := - 1\<rparr> else s)
      in s\<lparr>log_remote_enabled := False\<rparr>)"

definition osal_log_get_stats :: "log_sys \<Rightarrow> u64 \<times> u64" where
  "osal_log_get_stats s = (log_total s, log_dropped s)"

definition osal_log_set_max_file_size :: "u32 \<Rightarrow> log_sys \<Rightarrow> log_sys" where
  "osal_log_set_max_file_size size_bytes s = (if 0 < size_bytes then s\<lparr>log_max_size := size_bytes\<rparr> else s)"

definition osal_log_set_max_files :: "u32 \<Rightarrow> log_sys \<Rightarrow> log_sys" where
  "osal_log_set_max_files max_files s = (if 0 < max_files then s\<lparr>log_max_files := max_files\<rparr> else s)"

section \<open>Rotation\<close>

text \<open>The names fit their buffers: a path has at most 255 characters and a number ten.\<close>

definition backup_name :: "string \<Rightarrow> nat \<Rightarrow> string" where
  "backup_name path i = path @ ''.'' @ dec_digits i"

primrec rotate_backups :: "log_env \<Rightarrow> string \<Rightarrow> nat \<Rightarrow> log_files \<Rightarrow> log_files" where
  "rotate_backups env path 0 fs = fs"
| "rotate_backups env path (Suc i) fs =
     rotate_backups env path i (file_rename env (backup_name path i) (backup_name path (Suc i)) fs)"

definition rotation_mark :: string where
  "rotation_mark = ''[LOG ROTATION] Log file rotated'' @ [newline]"

definition rotate_log_file :: "log_env \<Rightarrow> log_sys \<Rightarrow> log_sys" where
  "rotate_log_file env s =
     (if log_path s = [] then s
      else let max_files = log_max_files s; path = log_path s;
               s = s\<lparr>log_file := None\<rparr>;
               s = s\<lparr>log_fs := file_remove env (backup_name path (unat max_files)) (log_fs s)\<rparr>;
               s = s\<lparr>log_fs := rotate_backups env path (unat (max_files - 1)) (log_fs s)\<rparr>;
               s = s\<lparr>log_fs := file_rename env path (backup_name path 1) (log_fs s)\<rparr>
           in if le_fopen env path
              then file_put rotation_mark (s\<lparr>log_file := Some path, log_fs := fopen_append path (log_fs s)\<rparr>)
              else s)"

definition check_and_rotate_log :: "log_env \<Rightarrow> log_sys \<Rightarrow> log_sys" where
  "check_and_rotate_log env s =
     (case log_file s of
        None \<Rightarrow> s
      | Some nm \<Rightarrow>
          if log_path s = [] then s
          else if unat (log_max_size s) < (case log_fs s nm of None \<Rightarrow> 0 | Some c \<Rightarrow> length c) then rotate_log_file env s
          else s)"

section \<open>Logging\<close>

definition should_log_message :: "log_env \<Rightarrow> string \<Rightarrow> log_sys \<Rightarrow> bool \<times> log_sys" where
  "should_log_message env message s =
     (let s = s\<lparr>log_counter := log_counter s + 1\<rparr>
      in if 1 < log_sampling_rate s \<and> log_counter s mod ucast (log_sampling_rate s) \<noteq> 0
         then (False, s\<lparr>log_dropped := log_dropped s + 1\<rparr>)
         else if log_filter_enabled s \<and> \<not> le_regexec env (log_filter_regex s) message
         then (False, s\<lparr>log_dropped := log_dropped s + 1\<rparr>)
         else (True, s\<lparr>log_total := log_total s + 1\<rparr>))"

definition send_remote_log :: "string \<Rightarrow> log_sys \<Rightarrow> log_sys" where
  "send_remote_log log_message s =
     (if \<not> log_remote_enabled s \<or> log_remote_socket s < 0 then s
      else s\<lparr>log_sent := log_sent s @ [(log_remote_addr s, log_message)]\<rparr>)"

definition extract_filename :: "string option \<Rightarrow> string" where
  "extract_filename path =
     (case path of
        None \<Rightarrow> ''unknown''
      | Some p \<Rightarrow> (case strrchr p CHR ''/'' of Some f \<Rightarrow> tl f | None \<Rightarrow> p))"

definition level_name :: "int \<Rightarrow> string" where
  "level_name level = log_level_names ! nat level"

definition log_line :: "int \<Rightarrow> string \<Rightarrow> int \<Rightarrow> string \<Rightarrow> string" where
  "log_line level filename line message =
     ''['' @ level_name level @ ''] '' @ filename @ '':'' @ dec_int line @ '' - '' @ message"

definition log_internal_ex :: "log_env \<Rightarrow> int \<Rightarrow> string option \<Rightarrow> int \<Rightarrow> string option \<Rightarrow> log_sys \<Rightarrow> log_sys" where
  "log_internal_ex env level file line formatted s =
     (let filename = extract_filename file
      in if \<not> log_is_ready s \<or> formatted = None \<or> level < log_level s then s
         else let message = take (OSAL_LOG_MESSAGE_SIZE - 1) (the formatted)
              in case should_log_message env message s of (log_it, s) \<Rightarrow>
                 if \<not> log_it then s
                 else let s = check_and_rotate_log env s;
                          full_log = take (OSAL_LOG_MESSAGE_SIZE + 255) (log_line level filename line message);
                          s = console_put (OSAL_LOG_MESSAGE_SIZE + 512)
                                (log_level_colors ! nat level @ ''['' @ level_name level @ ''] '' @ filename @ '':'' @ dec_int line @
                                 color_reset @ '' - '' @ message @ [newline]) s;
                          s = file_put (full_log @ [newline]) s
                      in send_remote_log full_log s)"

definition log_internal :: "log_env \<Rightarrow> int \<Rightarrow> string option \<Rightarrow> log_sys \<Rightarrow> log_sys" where
  "log_internal env level formatted s =
     (if \<not> log_is_ready s \<or> formatted = None \<or> level < log_level s then s
      else let message = take (OSAL_LOG_MESSAGE_SIZE - 1) (the formatted);
               s = check_and_rotate_log env s;
               s = console_put (OSAL_LOG_MESSAGE_SIZE + 256)
                     (log_level_colors ! nat level @ ''['' @ level_name level @ '']'' @ color_reset @ '' - '' @ message @ [newline]) s
           in file_put (''['' @ level_name level @ ''] - '' @ message @ [newline]) s)"

definition osal_log :: "log_env \<Rightarrow> int \<Rightarrow> string option \<Rightarrow> log_sys \<Rightarrow> log_sys" where
  "osal_log env level formatted s =
     (if level < LOG_LEVEL_DEBUG \<or> LOG_LEVEL_FATAL < level \<or> formatted = None then s
      else log_internal env level formatted s)"

definition osal_log_emit :: "log_env \<Rightarrow> int \<Rightarrow> string option \<Rightarrow> int \<Rightarrow> string option \<Rightarrow> log_sys \<Rightarrow> log_sys" where
  "osal_log_emit env level file line formatted s =
     (if level < LOG_LEVEL_DEBUG \<or> LOG_LEVEL_FATAL < level \<or> formatted = None then s
      else log_internal_ex env level file line formatted s)"

definition osal_printf :: "string option \<Rightarrow> log_sys \<Rightarrow> log_sys" where
  "osal_printf formatted s =
     (case formatted of
        None \<Rightarrow> s
      | Some txt \<Rightarrow> if txt = [] then s else console_put OSAL_LOG_MESSAGE_SIZE txt s)"

text \<open>
  The pairs are printed one behind the other into a buffer of 512 bytes. \<open>before\<close> is what stays in front
  of the offset; a pair that does not fit is cut, and the next one starts where it started. The second
  value is the content of the buffer.
\<close>

fun kv_text :: "(string option \<times> string option) list \<Rightarrow> string \<Rightarrow> string \<Rightarrow> string" where
  "kv_text [] before buf = buf"
| "kv_text ((Some key, Some val) # kvs) before buf =
     (let piece = '' '' @ key @ ''='' @ val
      in if length before + length piece < 512 then kv_text kvs (before @ piece) (before @ piece)
         else kv_text kvs before (before @ take (511 - length before) piece))"
| "kv_text (_ # kvs) before buf = kv_text kvs before buf"

definition osal_log_structured ::
  "log_env \<Rightarrow> int \<Rightarrow> string option \<Rightarrow> (string option \<times> string option) list option \<Rightarrow> log_sys \<Rightarrow> log_sys"
where
  "osal_log_structured env level message kv_pairs s =
     (if level < LOG_LEVEL_DEBUG \<or> LOG_LEVEL_FATAL < level \<or> message = None \<or> \<not> log_is_ready s \<or> level < log_level s then s
      else let kv_buffer = (case kv_pairs of None \<Rightarrow> [] | Some kvs \<Rightarrow> kv_text (take OSAL_LOG_MAX_KV_PAIRS kvs) [] []);
               full_message = take (OSAL_LOG_MESSAGE_SIZE - 1) (the message @ kv_buffer)
           in case should_log_message env full_message s of (log_it, s) \<Rightarrow>
              if \<not> log_it then s
              else let s = check_and_rotate_log env s;
                       s = console_put (OSAL_LOG_MESSAGE_SIZE + 256)
                             (log_level_colors ! nat level @ ''['' @ level_name level @ '']'' @ color_reset @ '' - '' @ full_message @ [newline]) s;
                       s = file_put (''['' @ level_name level @ ''] - '' @ full_message @ [newline]) s
                   in send_remote_log (take (OSAL_LOG_MESSAGE_SIZE + 255) (''['' @ level_name level @ ''] - '' @ full_message)) s)"

section \<open>What the parts leave alone\<close>

lemma file_put_same [simp]:
  "log_state (file_put txt s) = log_state s"
  "log_level (file_put txt s) = log_level s"
  "log_path (file_put txt s) = log_path s"
  "log_max_size (file_put txt s) = log_max_size s"
  "log_max_files (file_put txt s) = log_max_files s"
  "log_filter_regex (file_put txt s) = log_filter_regex s"
  "log_filter_enabled (file_put txt s) = log_filter_enabled s"
  "log_sampling_rate (file_put txt s) = log_sampling_rate s"
  "log_remote_socket (file_put txt s) = log_remote_socket s"
  "log_remote_addr (file_put txt s) = log_remote_addr s"
  "log_remote_enabled (file_put txt s) = log_remote_enabled s"
  "log_sockets (file_put txt s) = log_sockets s"
  "log_regexes (file_put txt s) = log_regexes s"
  "log_counter (file_put txt s) = log_counter s"
  "log_total (file_put txt s) = log_total s"
  "log_dropped (file_put txt s) = log_dropped s"
  "log_console (file_put txt s) = log_console s"
  "log_sent (file_put txt s) = log_sent s"
  "log_file (file_put txt s) = log_file s"
  by (simp_all add: file_put_def split: option.split)

lemma console_put_same [simp]:
  "log_state (console_put n txt s) = log_state s"
  "log_level (console_put n txt s) = log_level s"
  "log_path (console_put n txt s) = log_path s"
  "log_max_size (console_put n txt s) = log_max_size s"
  "log_max_files (console_put n txt s) = log_max_files s"
  "log_filter_regex (console_put n txt s) = log_filter_regex s"
  "log_filter_enabled (console_put n txt s) = log_filter_enabled s"
  "log_sampling_rate (console_put n txt s) = log_sampling_rate s"
  "log_remote_socket (console_put n txt s) = log_remote_socket s"
  "log_remote_addr (console_put n txt s) = log_remote_addr s"
  "log_remote_enabled (console_put n txt s) = log_remote_enabled s"
  "log_sockets (console_put n txt s) = log_sockets s"
  "log_regexes (console_put n txt s) = log_regexes s"
  "log_counter (console_put n txt s) = log_counter s"
  "log_total (console_put n txt s) = log_total s"
  "log_dropped (console_put n txt s) = log_dropped s"
  "log_sent (console_put n txt s) = log_sent s"
  "log_file (console_put n txt s) = log_file s"
  "log_fs (console_put n txt s) = log_fs s"
  by (simp_all add: console_put_def)

lemma rotate_same [simp]:
  "log_state (rotate_log_file env s) = log_state s"
  "log_level (rotate_log_file env s) = log_level s"
  "log_path (rotate_log_file env s) = log_path s"
  "log_max_size (rotate_log_file env s) = log_max_size s"
  "log_max_files (rotate_log_file env s) = log_max_files s"
  "log_filter_regex (rotate_log_file env s) = log_filter_regex s"
  "log_filter_enabled (rotate_log_file env s) = log_filter_enabled s"
  "log_sampling_rate (rotate_log_file env s) = log_sampling_rate s"
  "log_remote_socket (rotate_log_file env s) = log_remote_socket s"
  "log_remote_addr (rotate_log_file env s) = log_remote_addr s"
  "log_remote_enabled (rotate_log_file env s) = log_remote_enabled s"
  "log_sockets (rotate_log_file env s) = log_sockets s"
  "log_regexes (rotate_log_file env s) = log_regexes s"
  "log_counter (rotate_log_file env s) = log_counter s"
  "log_total (rotate_log_file env s) = log_total s"
  "log_dropped (rotate_log_file env s) = log_dropped s"
  "log_console (rotate_log_file env s) = log_console s"
  "log_sent (rotate_log_file env s) = log_sent s"
  by (simp_all add: rotate_log_file_def Let_def)

lemma check_rotate_same [simp]:
  "log_state (check_and_rotate_log env s) = log_state s"
  "log_level (check_and_rotate_log env s) = log_level s"
  "log_path (check_and_rotate_log env s) = log_path s"
  "log_max_size (check_and_rotate_log env s) = log_max_size s"
  "log_max_files (check_and_rotate_log env s) = log_max_files s"
  "log_filter_regex (check_and_rotate_log env s) = log_filter_regex s"
  "log_filter_enabled (check_and_rotate_log env s) = log_filter_enabled s"
  "log_sampling_rate (check_and_rotate_log env s) = log_sampling_rate s"
  "log_remote_socket (check_and_rotate_log env s) = log_remote_socket s"
  "log_remote_addr (check_and_rotate_log env s) = log_remote_addr s"
  "log_remote_enabled (check_and_rotate_log env s) = log_remote_enabled s"
  "log_sockets (check_and_rotate_log env s) = log_sockets s"
  "log_regexes (check_and_rotate_log env s) = log_regexes s"
  "log_counter (check_and_rotate_log env s) = log_counter s"
  "log_total (check_and_rotate_log env s) = log_total s"
  "log_dropped (check_and_rotate_log env s) = log_dropped s"
  "log_console (check_and_rotate_log env s) = log_console s"
  "log_sent (check_and_rotate_log env s) = log_sent s"
  by (simp_all add: check_and_rotate_log_def split: option.split)

lemma send_same [simp]:
  "log_state (send_remote_log txt s) = log_state s"
  "log_level (send_remote_log txt s) = log_level s"
  "log_path (send_remote_log txt s) = log_path s"
  "log_max_size (send_remote_log txt s) = log_max_size s"
  "log_max_files (send_remote_log txt s) = log_max_files s"
  "log_filter_regex (send_remote_log txt s) = log_filter_regex s"
  "log_filter_enabled (send_remote_log txt s) = log_filter_enabled s"
  "log_sampling_rate (send_remote_log txt s) = log_sampling_rate s"
  "log_remote_socket (send_remote_log txt s) = log_remote_socket s"
  "log_remote_addr (send_remote_log txt s) = log_remote_addr s"
  "log_remote_enabled (send_remote_log txt s) = log_remote_enabled s"
  "log_sockets (send_remote_log txt s) = log_sockets s"
  "log_regexes (send_remote_log txt s) = log_regexes s"
  "log_counter (send_remote_log txt s) = log_counter s"
  "log_total (send_remote_log txt s) = log_total s"
  "log_dropped (send_remote_log txt s) = log_dropped s"
  "log_console (send_remote_log txt s) = log_console s"
  "log_file (send_remote_log txt s) = log_file s"
  "log_fs (send_remote_log txt s) = log_fs s"
  by (simp_all add: send_remote_log_def)

lemma should_log_same [simp]:
  "log_state (snd (should_log_message env txt s)) = log_state s"
  "log_level (snd (should_log_message env txt s)) = log_level s"
  "log_path (snd (should_log_message env txt s)) = log_path s"
  "log_max_size (snd (should_log_message env txt s)) = log_max_size s"
  "log_max_files (snd (should_log_message env txt s)) = log_max_files s"
  "log_filter_regex (snd (should_log_message env txt s)) = log_filter_regex s"
  "log_filter_enabled (snd (should_log_message env txt s)) = log_filter_enabled s"
  "log_sampling_rate (snd (should_log_message env txt s)) = log_sampling_rate s"
  "log_remote_socket (snd (should_log_message env txt s)) = log_remote_socket s"
  "log_remote_addr (snd (should_log_message env txt s)) = log_remote_addr s"
  "log_remote_enabled (snd (should_log_message env txt s)) = log_remote_enabled s"
  "log_sockets (snd (should_log_message env txt s)) = log_sockets s"
  "log_regexes (snd (should_log_message env txt s)) = log_regexes s"
  "log_console (snd (should_log_message env txt s)) = log_console s"
  "log_sent (snd (should_log_message env txt s)) = log_sent s"
  "log_file (snd (should_log_message env txt s)) = log_file s"
  "log_fs (snd (should_log_message env txt s)) = log_fs s"
  by (simp_all add: should_log_message_def Let_def)

end
