(* ===== verification/Osal_Log_Life.thy ===== *)
theory Osal_Log_Life
  imports Osal_Log
begin

text \<open>
  Sessions of the user log: between init and shutdown nothing is leaked, what is logged is counted, and
  sampling takes exactly each \<open>n\<close>-th message.
\<close>

section \<open>Sessions\<close>

datatype log_call = LOG_SET_LEVEL int | LOG_SET_FILTER "string option" | LOG_SET_SAMPLING u32
  | LOG_SET_REMOTE int "string option" "16 word" | LOG_DISABLE_REMOTE | LOG_SET_MAX_SIZE u32 | LOG_SET_MAX_FILES u32
  | LOG_PLAIN int "string option" | LOG_EMIT int "string option" int "string option"
  | LOG_STRUCTURED int "string option" "(string option \<times> string option) list option" | LOG_PRINTF "string option"

fun log_step :: "log_env \<Rightarrow> log_call \<Rightarrow> log_sys \<Rightarrow> log_sys" where
  "log_step env (LOG_SET_LEVEL level) s = osal_log_set_level level s"
| "log_step env (LOG_SET_FILTER p) s = snd (osal_log_set_filter env p s)"
| "log_step env (LOG_SET_SAMPLING r) s = osal_log_set_sampling r s"
| "log_step env (LOG_SET_REMOTE sock host port) s = snd (osal_log_set_remote env sock host port s)"
| "log_step env LOG_DISABLE_REMOTE s = osal_log_disable_remote s"
| "log_step env (LOG_SET_MAX_SIZE n) s = osal_log_set_max_file_size n s"
| "log_step env (LOG_SET_MAX_FILES n) s = osal_log_set_max_files n s"
| "log_step env (LOG_PLAIN level txt) s = osal_log env level txt s"
| "log_step env (LOG_EMIT level file line txt) s = osal_log_emit env level file line txt s"
| "log_step env (LOG_STRUCTURED level msg kvs) s = osal_log_structured env level msg kvs s"
| "log_step env (LOG_PRINTF txt) s = osal_printf txt s"

fun log_session :: "log_env \<Rightarrow> log_call list \<Rightarrow> log_sys \<Rightarrow> log_sys" where
  "log_session env [] s = s"
| "log_session env (c # cs) s = log_session env cs (log_step env c s)"

text \<open>\<open>socket\<close> returns a descriptor that is not open.\<close>

fun sockets_fresh :: "log_env \<Rightarrow> log_call list \<Rightarrow> log_sys \<Rightarrow> bool" where
  "sockets_fresh env [] s \<longleftrightarrow> True"
| "sockets_fresh env (c # cs) s \<longleftrightarrow>
     (case c of LOG_SET_REMOTE sock host port \<Rightarrow> sock \<notin> log_sockets s | _ \<Rightarrow> True) \<and> sockets_fresh env cs (log_step env c s)"

section \<open>Resources\<close>

text \<open>
  Beside the sockets and filters that were open before, the one socket and the one filter that are open
  are those in use.
\<close>

definition log_owned :: "int set \<Rightarrow> nat \<Rightarrow> log_sys \<Rightarrow> bool" where
  "log_owned before n s \<longleftrightarrow> log_state s = LOG_STATE_READY \<and>
     (log_remote_enabled s \<longrightarrow> 0 \<le> log_remote_socket s \<and> log_remote_socket s \<notin> before) \<and>
     log_sockets s = before \<union> (if log_remote_enabled s then {log_remote_socket s} else {}) \<and>
     log_regexes s = n + (if log_filter_enabled s then 1 else 0)"

text \<open>The parts of the state that this is about, which logging leaves alone.\<close>

definition log_resources :: "log_sys \<Rightarrow> log_state \<times> bool \<times> int \<times> int set \<times> bool \<times> nat" where
  "log_resources s = (log_state s, log_remote_enabled s, log_remote_socket s, log_sockets s, log_filter_enabled s, log_regexes s)"

lemma owned_resources: "log_resources t = log_resources s \<Longrightarrow> log_owned before n t = log_owned before n s"
  by (auto simp: log_resources_def log_owned_def)

lemma resources_parts [simp]:
  "log_resources (file_put txt s) = log_resources s" "log_resources (console_put n txt s) = log_resources s"
  "log_resources (check_and_rotate_log env s) = log_resources s" "log_resources (send_remote_log txt s) = log_resources s"
  "log_resources (snd (should_log_message env txt s)) = log_resources s"
  by (simp_all add: log_resources_def)

lemma resources_logging [simp]:
  "log_resources (osal_log env level txt s) = log_resources s"
  "log_resources (osal_log_emit env level file line txt s) = log_resources s"
  "log_resources (osal_log_structured env level msg kvs s) = log_resources s"
  "log_resources (osal_printf txt s) = log_resources s"
proof -
  note defs = osal_log_def log_internal_def osal_log_emit_def log_internal_ex_def osal_log_structured_def osal_printf_def Let_def
  show "log_resources (osal_log env level txt s) = log_resources s" "log_resources (osal_printf txt s) = log_resources s"
    by (simp_all add: defs split: option.split)
  show "log_resources (osal_log_emit env level file line txt s) = log_resources s"
    by (simp add: defs case_prod_unfold)
  show "log_resources (osal_log_structured env level msg kvs s) = log_resources s"
    by (simp add: defs case_prod_unfold)
qed

lemma step_owned:
  assumes "log_owned before n s" and "case c of LOG_SET_REMOTE sock host port \<Rightarrow> sock \<notin> log_sockets s | _ \<Rightarrow> True"
  shows "log_owned before n (log_step env c s)"
proof (cases c)
  case (LOG_SET_FILTER p)
  with assms show ?thesis by (cases "log_filter_enabled s"; cases p; auto simp: osal_log_set_filter_def log_owned_def Let_def)
next
  case (LOG_SET_REMOTE sock host port)
  with assms show ?thesis
    by (auto simp: osal_log_set_remote_def log_owned_def Let_def split: option.split if_splits)
next
  case LOG_DISABLE_REMOTE
  with assms show ?thesis by (auto simp: osal_log_disable_remote_def log_owned_def Let_def)
next
  case (LOG_PLAIN level msg)
  with assms show ?thesis using owned_resources [OF resources_logging(1)] by simp
next
  case (LOG_EMIT level fl line msg)
  with assms show ?thesis using owned_resources [OF resources_logging(2)] by simp
next
  case (LOG_STRUCTURED level msg kvs)
  with assms show ?thesis using owned_resources [OF resources_logging(3)] by simp
next
  case (LOG_PRINTF msg)
  with assms show ?thesis using owned_resources [OF resources_logging(4)] by simp
qed (use assms in \<open>simp_all add: log_owned_def osal_log_set_level_def osal_log_set_sampling_def
  osal_log_set_max_file_size_def osal_log_set_max_files_def\<close>)

lemma session_owned: "log_owned before n s \<Longrightarrow> sockets_fresh env cs s \<Longrightarrow> log_owned before n (log_session env cs s)"
  by (induction cs arbitrary: s) (auto intro: step_owned)

text \<open>
  What a run of the log leaves: the variables of a fresh program, but for the text of the last pattern;
  the files and the output; and the sockets and filters that were open before the run.
\<close>

definition log_left :: "log_sys \<Rightarrow> log_sys \<Rightarrow> bool" where
  "log_left s t \<longleftrightarrow>
     t = (log_sys_start (log_fs t))\<lparr>log_console := log_console t, log_sent := log_sent t, log_filter_regex := log_filter_regex t,
           log_sockets := log_sockets s, log_regexes := log_regexes s\<rparr>"

lemma left_sockets: "log_left s t \<Longrightarrow> log_sockets t = log_sockets s" "log_left s t \<Longrightarrow> log_regexes t = log_regexes s"
  "log_left s t \<Longrightarrow> log_remote_enabled t = False" "log_left s t \<Longrightarrow> log_filter_enabled t = False"
  unfolding log_left_def
  by (drule arg_cong [of _ _ log_sockets], simp, drule arg_cong [of _ _ log_regexes], simp,
      drule arg_cong [of _ _ log_remote_enabled], simp add: log_sys_start_def,
      drule arg_cong [of _ _ log_filter_enabled], simp add: log_sys_start_def)

text \<open>
  C23. Init, any calls, shutdown, from any state in which the log is shut down and after any calls made before
  init: each socket opened and each filter compiled since init is closed and freed, and every variable
  is that of a fresh program, but for the text of the last pattern. A server or filter set before init is not
  released by it: it is switched off and stays open for good. A second init in between is refused and changes
  nothing, and an init whose file cannot be opened leaves the log shut down in the same way, but for the level.
\<close>
theorem log_lifecycle:
  assumes "log_state s = LOG_STATE_UNINITIALIZED"
    and "sockets_fresh env cs (snd (osal_log_init env path level s))"
  shows "(fst (osal_log_init env path level s) = OSAL_SUCCESS \<longrightarrow>
       log_left s (osal_log_shutdown (log_session env cs (snd (osal_log_init env path level s)))) \<and>
       osal_log_init env path' level' (log_session env cs (snd (osal_log_init env path level s))) =
         (OSAL_ERR_INVALID_STATE, log_session env cs (snd (osal_log_init env path level s)))) \<and>
     (fst (osal_log_init env path level s) \<noteq> OSAL_SUCCESS \<longrightarrow>
       log_left s ((snd (osal_log_init env path level s))\<lparr>log_level := LOG_LEVEL_INFO\<rparr>))"
proof -
  define s1 where "s1 = snd (osal_log_init env path level s)"
  let ?own = "log_owned (log_sockets s) (log_regexes s)"
  note defs = osal_log_init_def log_sys_start_def reset_log_config_unlocked_def Let_def
  have init: "?own s1" if "fst (osal_log_init env path level s) = OSAL_SUCCESS"
    using that assms(1) unfolding s1_def
    by (cases path; cases "le_fopen env (the path)") (simp_all add: defs log_owned_def)
  have fail: "log_left s (s1\<lparr>log_level := LOG_LEVEL_INFO\<rparr>)"
    if "fst (osal_log_init env path level s) \<noteq> OSAL_SUCCESS"
    using that assms(1) unfolding s1_def
    by (cases path; cases "le_fopen env (the path)") (auto simp: defs log_left_def intro!: log_sys.equality)
  have refused: "osal_log_init env path' level' t = (OSAL_ERR_INVALID_STATE, t)" if "?own t" for t
    using that by (simp add: osal_log_init_def log_owned_def)
  have down: "log_left s (osal_log_shutdown t)" if "?own t" for t
    using that
    by (auto simp: log_left_def osal_log_shutdown_def log_owned_def reset_log_config_unlocked_def log_sys_start_def Let_def
        intro!: log_sys.equality)
  show ?thesis
    using session_owned [OF init assms(2) [folded s1_def]] fail refused down unfolding s1_def [symmetric] by blast
qed

definition plain_env :: log_env where
  "plain_env = \<lparr>le_fopen = (\<lambda>_. True), le_writable = True, le_regcomp = (\<lambda>_. True), le_regexec = (\<lambda>_ _. True), le_inet_pton = (\<lambda>_. Some 7)\<rparr>"

text \<open>A server set before init, on the socket 3, stays open; those set after it are closed.\<close>

lemma log_lifecycle_witness:
  "log_sockets (osal_log_shutdown (log_session plain_env [LOG_SET_REMOTE 4 (Some ''h'') 514, LOG_SET_REMOTE 5 (Some ''h'') 514,
       LOG_SET_FILTER (Some ''x''), LOG_EMIT 2 None 1 (Some ''hi'')]
     (snd (osal_log_init plain_env (Some ''log'') 0
       (log_session plain_env [LOG_SET_REMOTE 3 (Some ''h'') 514] (log_sys_start Map.empty)))))) = {3}"
proof -
  let ?cs = "[LOG_SET_REMOTE 4 (Some ''h'') 514, LOG_SET_REMOTE 5 (Some ''h'') 514, LOG_SET_FILTER (Some ''x''), LOG_EMIT 2 None 1 (Some ''hi'')]"
  define s where "s = log_session plain_env [LOG_SET_REMOTE 3 (Some ''h'') 514] (log_sys_start Map.empty)"
  have s: "log_state s = LOG_STATE_UNINITIALIZED" "log_sockets s = {3}"
    by (simp_all add: s_def osal_log_set_remote_def log_sys_start_def plain_env_def Let_def)
  have "fst (osal_log_init plain_env (Some ''log'') 0 s) = OSAL_SUCCESS"
    by (simp add: osal_log_init_def s plain_env_def Let_def)
  moreover have "sockets_fresh plain_env ?cs (snd (osal_log_init plain_env (Some ''log'') 0 s))"
    by (simp add: osal_log_init_def s plain_env_def reset_log_config_unlocked_def osal_log_set_remote_def Let_def)
  ultimately have "log_left s (osal_log_shutdown (log_session plain_env ?cs (snd (osal_log_init plain_env (Some ''log'') 0 s))))"
    using log_lifecycle [OF s(1), of plain_env ?cs "Some ''log''" 0] by blast
  from left_sockets(1) [OF this] show ?thesis unfolding s_def [symmetric] by (simp add: s)
qed

section \<open>Counting and sampling\<close>

lemma should_log_cases:
  "should_log_message env txt s =
     (if (1 < log_sampling_rate s \<and> (log_counter s + 1) mod ucast (log_sampling_rate s) \<noteq> 0) \<or>
         (log_filter_enabled s \<and> \<not> le_regexec env (log_filter_regex s) txt)
      then (False, s\<lparr>log_counter := log_counter s + 1, log_dropped := log_dropped s + 1\<rparr>)
      else (True, s\<lparr>log_counter := log_counter s + 1, log_total := log_total s + 1\<rparr>))"
  by (simp add: should_log_message_def Let_def)

text \<open>A message that passes the level: counted once, and either dropped or written to the console once.\<close>

lemma emit_counts:
  assumes "log_is_ready s" and "LOG_LEVEL_DEBUG \<le> level" "level \<le> LOG_LEVEL_FATAL" "log_level s \<le> level"
    and s': "s' = osal_log_emit env level file line (Some txt) s"
    and keep: "keep \<longleftrightarrow> fst (should_log_message env (take 1023 txt) s)"
  shows "log_counter s' = log_counter s + 1" and "log_total s' = log_total s + (if keep then 1 else 0)"
    and "log_dropped s' = log_dropped s + (if keep then 0 else 1)"
    and "length (log_console s') = length (log_console s) + (if keep then 1 else 0)"
    and "log_state s' = log_state s" "log_level s' = log_level s" "log_sampling_rate s' = log_sampling_rate s"
      "log_filter_enabled s' = log_filter_enabled s"
proof -
  have "length (log_console (send_remote_log t u)) = length (log_console u)" for t u
    by (simp add: send_remote_log_def)
  moreover have "log_console (file_put t u) = log_console u" for t u by simp
  moreover have "length (log_console (console_put n t u)) = length (log_console u) + 1" for n t u
    by (simp add: console_put_def)
  ultimately show "log_counter s' = log_counter s + 1" "log_total s' = log_total s + (if keep then 1 else 0)"
    "log_dropped s' = log_dropped s + (if keep then 0 else 1)"
    "length (log_console s') = length (log_console s) + (if keep then 1 else 0)"
    "log_state s' = log_state s" "log_level s' = log_level s" "log_sampling_rate s' = log_sampling_rate s"
    "log_filter_enabled s' = log_filter_enabled s"
    using assms by (simp_all add: osal_log_emit_def log_internal_ex_def Let_def should_log_cases)
qed

lemma sampled:
  fixes r :: u32
  assumes "0 < r" and "k + 1 < 2 ^ 64"
  shows "(of_nat k + 1) mod ucast r = (0 :: u64) \<longleftrightarrow> (k + 1) mod unat r = 0"
proof -
  have "unat (ucast r :: u64) = unat r" by (simp add: unsigned_ucast_eq take_bit_nat_eq_self_iff order.strict_trans [OF unsigned_less])
  moreover have "unat (of_nat (k + 1) :: u64) = k + 1"
    using assms(2) take_bit_nat_eq_self [of "k + 1" 64] unfolding unsigned_of_nat by simp
  then have "unat (of_nat k + 1 :: u64) = k + 1" by (simp add: add.commute)
  ultimately show ?thesis by (simp add: word_unat_eq_iff unat_mod)
qed

type_synonym log_message = "int \<times> string option \<times> int \<times> string"

definition emit_all :: "log_message list \<Rightarrow> log_call list" where
  "emit_all = map (\<lambda>(level, file, line, txt). LOG_EMIT level file line (Some txt))"

lemma sampling_from:
  assumes "log_is_ready s" and "\<not> log_filter_enabled s" and "0 < log_sampling_rate s"
    and "\<forall>(level, file, line, txt) \<in> set msgs. log_level s \<le> level \<and> LOG_LEVEL_DEBUG \<le> level \<and> level \<le> LOG_LEVEL_FATAL"
    and "k + length msgs < 2 ^ 64" and "log_counter s = of_nat k" "log_total s = of_nat (k div unat (log_sampling_rate s))"
    "log_dropped s = of_nat (k - k div unat (log_sampling_rate s))"
  shows "let t = log_session env (emit_all msgs) s; n = k + length msgs; r = unat (log_sampling_rate s)
    in log_counter t = of_nat n \<and> log_total t = of_nat (n div r) \<and> log_dropped t = of_nat (n - n div r) \<and>
      length (log_console t) = length (log_console s) + (n div r - k div r)"
  using assms
proof (induction msgs arbitrary: s k)
  case Nil
  then show ?case by (simp add: emit_all_def)
next
  case (Cons m msgs)
  obtain level fl line msg where m: "m = (level, fl, line, msg)" by (metis prod_cases4)
  define r where "r = unat (log_sampling_rate s)"
  have r: "0 < r" using Cons.prems(3) by (simp add: r_def unat_gt_0)
  define s' where "s' = osal_log_emit env level fl line (Some msg) s"
  define keep where "keep = fst (should_log_message env (take 1023 msg) s)"
  have lvl: "LOG_LEVEL_DEBUG \<le> level" "level \<le> LOG_LEVEL_FATAL" "log_level s \<le> level" using Cons.prems(4) by (auto simp: m)
  note c = emit_counts [OF Cons.prems(1) lvl s'_def keep_def]
  have k: "Suc k < 2 ^ 64" using Cons.prems(5) by simp
  have keep: "keep \<longleftrightarrow> Suc k mod r = 0"
  proof (cases "r = 1")
    case True
    then have "\<not> 1 < log_sampling_rate s" by (simp add: r_def word_less_nat_alt)
    with True Cons.prems(2) show ?thesis by (simp add: keep_def should_log_cases)
  next
    case False
    with r have "1 < log_sampling_rate s" by (simp add: r_def word_less_nat_alt)
    then show ?thesis
      using sampled [OF Cons.prems(3), of k] k Cons.prems(2,6) by (simp add: keep_def should_log_cases r_def)
  qed
  have step: "Suc k div r = k div r + (if keep then 1 else 0)" using keep by (simp add: div_Suc)
  have le: "k div r \<le> k" "Suc k div r \<le> Suc k" by (simp_all add: div_le_dividend)
  have drop: "Suc k - Suc k div r = (k - k div r) + (if keep then 0 else 1)" using step le by (simp split: if_splits)
  have IH: "let t = log_session env (emit_all msgs) s'; n = Suc k + length msgs; r = unat (log_sampling_rate s')
    in log_counter t = of_nat n \<and> log_total t = of_nat (n div r) \<and> log_dropped t = of_nat (n - n div r) \<and>
      length (log_console t) = length (log_console s') + (n div r - Suc k div r)"
  proof (rule Cons.IH)
    show "log_total s' = of_nat (Suc k div unat (log_sampling_rate s'))"
      using c(2) Cons.prems(7) by (simp add: c(7) step [folded r_def] flip: r_def)
    show "log_dropped s' = of_nat (Suc k - Suc k div unat (log_sampling_rate s'))"
      unfolding c(3,7) Cons.prems(8) r_def [symmetric] drop
      by (cases keep) (simp_all only: of_nat_add if_True if_False of_nat_0 of_nat_1 add_0_right)
  qed (use Cons.prems c in \<open>auto simp: log_is_ready_def\<close>)
  have mono: "Suc k div r \<le> (Suc k + length msgs) div r" by (simp add: div_le_mono)
  have "log_session env (emit_all (m # msgs)) s = log_session env (emit_all msgs) s'"
    by (simp add: emit_all_def m s'_def)
  then show ?case using IH c(4,7) step mono by (auto simp: Let_def r_def [symmetric] split: if_splits)
qed

text \<open>
  With a sampling rate \<open>r\<close> and no filter, of \<open>n\<close> messages that pass the level after the log was set
  up exactly \<open>n div r\<close> are logged, each with one write to the console, and the statistics count them and
  the others as dropped.
\<close>
theorem sampling_exact:
  assumes "log_is_ready s" and "\<not> log_filter_enabled s" and "0 < log_sampling_rate s"
    and "\<forall>(level, file, line, txt) \<in> set msgs. log_level s \<le> level \<and> LOG_LEVEL_DEBUG \<le> level \<and> level \<le> LOG_LEVEL_FATAL"
    and "length msgs < 2 ^ 64" and "log_counter s = 0" "osal_log_get_stats s = (0, 0)"
  shows "let t = log_session env (emit_all msgs) s; n = length msgs; r = unat (log_sampling_rate s)
    in osal_log_get_stats t = (of_nat (n div r), of_nat (n - n div r)) \<and> length (log_console t) = length (log_console s) + n div r"
  using sampling_from [OF assms(1-4), of 0 env] assms(5-7) by (simp add: Let_def osal_log_get_stats_def)

lemma sampling_exact_witness:
  "osal_log_get_stats (log_session plain_env (emit_all (replicate 7 (3, Some ''a/b.c'', 12, ''x'')))
     (osal_log_set_sampling 3 (snd (osal_log_init plain_env None 0 (log_sys_start Map.empty))))) = (2, 5)"
  using sampling_exact [of "osal_log_set_sampling 3 (snd (osal_log_init plain_env None 0 (log_sys_start Map.empty)))"
      "replicate 7 (3, Some ''a/b.c'', 12, ''x'')" plain_env]
  by (simp add: Let_def osal_log_init_def log_sys_start_def reset_log_config_unlocked_def osal_log_set_sampling_def
      log_is_ready_def osal_log_get_stats_def)

section \<open>What reaches the console\<close>

lemma level_name_length: "LOG_LEVEL_DEBUG \<le> level \<Longrightarrow> level \<le> LOG_LEVEL_FATAL \<Longrightarrow> length (level_name level) \<le> 5"
  "LOG_LEVEL_DEBUG \<le> level \<Longrightarrow> level \<le> LOG_LEVEL_FATAL \<Longrightarrow> length (log_level_colors ! nat level) = 5"
proof -
  assume "LOG_LEVEL_DEBUG \<le> level" "level \<le> LOG_LEVEL_FATAL"
  then have "nat level \<in> {0, 1, 2, 3, 4}" by auto
  then show "length (level_name level) \<le> 5" "length (log_level_colors ! nat level) = 5"
    by (auto simp: level_name_def log_level_names_def log_level_colors_def)
qed

lemma dec_int_length: "- (2 ^ 31) \<le> i \<Longrightarrow> i < 2 ^ 31 \<Longrightarrow> length (dec_int i) \<le> 11"
proof -
  assume "- (2 ^ 31) \<le> i" "i < 2 ^ 31"
  then have "nat i < 10 ^ Suc 9" "nat (- i) < 10 ^ Suc 9" by auto
  from this [THEN length_dec_digits] show ?thesis by (simp add: dec_int_def)
qed

lemma console_put_within: "length txt < n \<Longrightarrow> log_console (console_put n txt s) = log_console s @ [(txt, 0)]"
  by (simp add: console_put_def)

lemma send_console [simp]: "log_console (send_remote_log txt s) = log_console s"
  by (simp add: send_remote_log_def)

text \<open>
  The logging functions never write more to the console than they formatted, as long as the name of
  the source file is shorter than 480 characters. \<open>osal_printf\<close> does: of a text of more than 1024
  characters the bytes behind its buffer are written out as well.
\<close>
theorem console_overread:
  assumes "\<forall>w \<in> set (log_console s). snd w = 0"
  shows "(\<forall>w \<in> set (log_console (osal_log env level formatted s)). snd w = 0) \<and>
    (\<forall>w \<in> set (log_console (osal_log_structured env level formatted kvs s)). snd w = 0) \<and>
    (length (extract_filename file) < 480 \<and> - (2 ^ 31) \<le> line \<and> line < 2 ^ 31 \<longrightarrow>
       (\<forall>w \<in> set (log_console (osal_log_emit env level file line formatted s)). snd w = 0)) \<and>
    (\<forall>txt. 1024 \<le> length txt \<longrightarrow> snd (last (log_console (osal_printf (Some txt) s))) = length txt - 1024)"
proof (intro conjI impI allI)
  show "\<forall>w \<in> set (log_console (osal_log env level formatted s)). snd w = 0"
    using assms level_name_length [of level]
    by (auto simp: osal_log_def log_internal_def Let_def console_put_within color_reset_def)
  show "\<forall>w \<in> set (log_console (osal_log_structured env level formatted kvs s)). snd w = 0"
    using assms level_name_length [of level]
    by (auto simp: osal_log_structured_def Let_def console_put_within color_reset_def should_log_cases)
  show "\<forall>w \<in> set (log_console (osal_log_emit env level file line formatted s)). snd w = 0"
    if "length (extract_filename file) < 480 \<and> - (2 ^ 31) \<le> line \<and> line < 2 ^ 31"
    using assms level_name_length [of level] dec_int_length [of line] that
    by (auto simp: osal_log_emit_def log_internal_ex_def Let_def console_put_within color_reset_def should_log_cases)
  show "snd (last (log_console (osal_printf (Some msg) s))) = length msg - 1024" if "1024 \<le> length msg" for msg
    using that by (auto simp: osal_printf_def console_put_def)
qed

lemma console_overread_witness:
  "snd (last (log_console (osal_printf (Some (replicate 1500 CHR ''x'')) (log_sys_start Map.empty)))) = 476"
  using console_overread [of "log_sys_start Map.empty"] by (simp add: log_sys_start_def)

end
