(* ===== verification/Osal_Log_Rotate.thy ===== *)
theory Osal_Log_Rotate
  imports Osal_Log_Life
begin

text \<open>
  The files of the user log: what a rotation does to the backups, and that a run of logging keeps the
  file and its backups as a queue of bounded length and size.
\<close>

section \<open>Names\<close>

lemma backup_name_inj [simp]: "backup_name path i = backup_name path j \<longleftrightarrow> i = j"
proof
  assume "backup_name path i = backup_name path j"
  then have "digits_val 10 (dec_digits i) = digits_val 10 (dec_digits j)" by (simp add: backup_name_def)
  then show "i = j" by simp
qed simp

lemma backup_name_other [simp]: "backup_name path i \<noteq> path" "path \<noteq> backup_name path i"
proof -
  have "length (backup_name path i) \<noteq> length path" by (simp add: backup_name_def)
  then show "backup_name path i \<noteq> path" "path \<noteq> backup_name path i" by metis+
qed

section \<open>One rotation\<close>

text \<open>The backups, newest first: the files \<open>path.1\<close>, \<open>path.2\<close> and so on.\<close>

definition backups :: "string \<Rightarrow> string list \<Rightarrow> log_files \<Rightarrow> bool" where
  "backups path bs fs \<longleftrightarrow> (\<forall>i. fs (backup_name path i) =
     (if 1 \<le> i \<and> i \<le> length bs then Some (bs ! (i - 1)) else None))"

lemma rotate_other:
  "(\<forall>i. nm \<noteq> backup_name path i) \<Longrightarrow> rotate_backups env path n fs nm = fs nm"
  by (induction n arbitrary: fs) (auto simp: file_rename_def)

lemma rotate_shift:
  assumes "le_writable env" and "fs (backup_name path 0) = None"
    and "\<forall>j. 1 \<le> j \<and> j < n \<and> fs (backup_name path j) = None \<longrightarrow> fs (backup_name path (Suc j)) = None"
  shows "rotate_backups env path n fs (backup_name path 0) = None \<and>
    (\<forall>j. 2 \<le> j \<and> j \<le> n \<longrightarrow> rotate_backups env path n fs (backup_name path j) = fs (backup_name path (j - 1))) \<and>
    (\<forall>j. n < j \<longrightarrow> rotate_backups env path n fs (backup_name path j) = fs (backup_name path j))"
  using assms(2,3)
proof (induction n arbitrary: fs)
  case (Suc n)
  define g where "g = file_rename env (backup_name path n) (backup_name path (Suc n)) fs"
  have g: "g (backup_name path j) = (if fs (backup_name path n) = None then fs (backup_name path j)
      else if j = Suc n then fs (backup_name path n) else if j = n then None else fs (backup_name path j))" for j
    using assms(1) by (simp add: g_def file_rename_def)
  have "g (backup_name path 0) = None" using Suc.prems(1) by (simp add: g)
  moreover have "\<forall>j. 1 \<le> j \<and> j < n \<and> g (backup_name path j) = None \<longrightarrow> g (backup_name path (Suc j)) = None"
    using Suc.prems(2) by (auto simp: g)
  ultimately have IH: "rotate_backups env path n g (backup_name path 0) = None"
      "\<And>j. 2 \<le> j \<Longrightarrow> j \<le> n \<Longrightarrow> rotate_backups env path n g (backup_name path j) = g (backup_name path (j - 1))"
      "\<And>j. n < j \<Longrightarrow> rotate_backups env path n g (backup_name path j) = g (backup_name path j)"
    using Suc.IH [of g] by auto
  have step: "rotate_backups env path (Suc n) fs = rotate_backups env path n g" by (simp add: g_def)
  have "rotate_backups env path n g (backup_name path j) = fs (backup_name path (j - 1))" if j: "2 \<le> j" "j \<le> Suc n" for j
  proof (cases "j = Suc n")
    case False
    with j have "j - 1 < n" "j \<le> n" by auto
    then show ?thesis using IH(2) [of j] j(1) by (simp add: g)
  next
    case True
    then have "fs (backup_name path n) = None \<Longrightarrow> fs (backup_name path (Suc n)) = None" using Suc.prems(2) j by auto
    then show ?thesis using IH(3) [of j] True by (simp add: g)
  qed
  moreover have "rotate_backups env path n g (backup_name path j) = fs (backup_name path j)" if "Suc n < j" for j
    using IH(3) [of j] that by (simp add: g)
  ultimately show ?case using IH(1) by (simp only: step) blast
qed simp

definition kept_backups :: "u32 \<Rightarrow> nat" where
  "kept_backups m = max 1 (unat m - 1)"

lemma rotate_queue:
  assumes env: "le_writable env" "le_fopen env path" and path: "log_path s = path" "path \<noteq> []" and m: "log_max_files s \<noteq> 0"
    and cur: "log_fs s path = Some cur" and bs: "backups path bs (log_fs s)" "length bs \<le> kept_backups (log_max_files s)"
  shows "log_file (rotate_log_file env s) = Some path \<and> log_fs (rotate_log_file env s) path = Some rotation_mark \<and>
    backups path (take (kept_backups (log_max_files s)) (cur # bs)) (log_fs (rotate_log_file env s))"
proof -
  define n where "n = unat (log_max_files s) - 1"
  have n: "unat (log_max_files s - 1) = n" "unat (log_max_files s) = Suc n"
    using m unat_minus_one [of "log_max_files s"] by (simp_all add: n_def unat_gt_0)
  have keep: "kept_backups (log_max_files s) = max 1 n" by (simp add: kept_backups_def n)
  define f1 where "f1 = file_remove env (backup_name path (Suc n)) (log_fs s)"
  define f2 where "f2 = rotate_backups env path n f1"
  define f3 where "f3 = file_rename env path (backup_name path 1) f2"
  have f1: "f1 path = Some cur" "f1 (backup_name path i) = (if i = Suc n then None else log_fs s (backup_name path i))" for i
    using env(1) cur by (simp_all add: f1_def file_remove_def)
  have at: "log_fs s (backup_name path i) = (if 1 \<le> i \<and> i \<le> length bs then Some (bs ! (i - 1)) else None)" for i
    using bs(1) unfolding backups_def by blast
  have f2p: "f2 path = Some cur" unfolding f2_def using f1(1) by (subst rotate_other) simp_all
  have len: "length bs \<le> max 1 n" using bs(2) by (simp add: keep)
  have shift: "f2 (backup_name path 0) = None"
      "\<And>j. 2 \<le> j \<Longrightarrow> j \<le> n \<Longrightarrow> f2 (backup_name path j) = f1 (backup_name path (j - 1))"
      "\<And>j. n < j \<Longrightarrow> f2 (backup_name path j) = f1 (backup_name path j)"
    unfolding f2_def using rotate_shift [OF env(1), of f1 path n] by (auto simp: f1(2) at)
  have f3: "f3 path = None" "f3 (backup_name path 1) = Some cur" "\<And>i. i \<noteq> 1 \<Longrightarrow> f3 (backup_name path i) = f2 (backup_name path i)"
    using env(1) f2p by (simp_all add: f3_def file_rename_def)
  have queue: "f3 (backup_name path i) =
      (if 1 \<le> i \<and> i \<le> length (take (max 1 n) (cur # bs)) then Some (take (max 1 n) (cur # bs) ! (i - 1)) else None)" for i
  proof -
    consider "i = 0" | "i = 1" | "2 \<le> i" "i \<le> n" | "2 \<le> i" "n < i" by linarith
    then show ?thesis
    proof cases
      case 3
      then obtain j where j: "i = Suc (Suc j)" using le_Suc_ex [of 2 i] by auto
      with 3 have "f3 (backup_name path i) = (if Suc j \<le> length bs then Some (bs ! j) else None)"
        using f3(3) [of i] shift(2) [of i] by (simp add: f1(2) at)
      with 3 show ?thesis by (auto simp: j max_def)
    next
      case 4
      then have "\<not> i \<le> length bs" using len by (auto simp: max_def split: if_splits)
      with 4 have "f3 (backup_name path i) = None" using f3(3) [of i] shift(3) [of i] by (simp add: f1(2) at)
      with 4 show ?thesis by (auto simp: max_def)
    qed (use f3 shift(1) in \<open>simp_all add: max_def\<close>)
  qed
  have fs: "log_fs (rotate_log_file env s) = f3(path \<mapsto> rotation_mark)" "log_file (rotate_log_file env s) = Some path"
    using env(2) path by (simp_all add: rotate_log_file_def Let_def n f1_def [symmetric] f2_def [symmetric] f3_def [unfolded One_nat_def, symmetric]
        file_put_def fopen_append_def f3(1))
  show ?thesis using queue by (simp add: fs backups_def keep)
qed

section \<open>A run of logging\<close>

text \<open>The specification: the file and its backups are a queue; a line that finds the file full starts a new one.\<close>

definition queue_log :: "nat \<Rightarrow> nat \<Rightarrow> string \<times> string list \<Rightarrow> string \<Rightarrow> string \<times> string list" where
  "queue_log max_size keep = (\<lambda>(cur, bs) line.
     if max_size < length cur then (rotation_mark @ line, take keep (cur # bs)) else (cur @ line, bs))"

definition log_entry :: "log_message \<Rightarrow> string" where
  "log_entry = (\<lambda>(level, file, line, txt). take 1279 (log_line level (extract_filename file) line (take 1023 txt)) @ [newline])"

text \<open>A log that writes each message to its file.\<close>

definition logs_all :: "log_env \<Rightarrow> string \<Rightarrow> log_sys \<Rightarrow> bool" where
  "logs_all env path s \<longleftrightarrow> log_is_ready s \<and> \<not> log_filter_enabled s \<and> log_sampling_rate s = 1 \<and> log_max_files s \<noteq> 0 \<and>
     log_file s = Some path \<and> log_path s = path \<and> path \<noteq> [] \<and> le_writable env \<and> le_fopen env path"

lemma emit_file:
  assumes "logs_all env path s" and "LOG_LEVEL_DEBUG \<le> level" "level \<le> LOG_LEVEL_FATAL" "log_level s \<le> level"
    and cur: "log_fs s path = Some cur" and bs: "backups path bs (log_fs s)" "length bs \<le> kept_backups (log_max_files s)"
    and s': "s' = osal_log_emit env level file line (Some msg) s"
    and q: "(cur', bs') = queue_log (unat (log_max_size s)) (kept_backups (log_max_files s)) (cur, bs) (log_entry (level, file, line, msg))"
  shows "logs_all env path s' \<and> log_fs s' path = Some cur' \<and> backups path bs' (log_fs s') \<and>
    length bs' \<le> kept_backups (log_max_files s) \<and> log_max_size s' = log_max_size s \<and> log_max_files s' = log_max_files s \<and>
    log_level s' = log_level s"
proof -
  define t where "t = snd (should_log_message env (take 1023 msg) s)"
  have kept: "should_log_message env (take 1023 msg) s = (True, t)"
    using assms(1) by (simp add: t_def should_log_cases logs_all_def)
  have t: "log_fs t = log_fs s" "log_file t = log_file s" "log_path t = log_path s" "log_max_files t = log_max_files s"
      "log_max_size t = log_max_size s" by (simp_all add: t_def)
  define u where "u = check_and_rotate_log env t"
  have u: "log_file u = Some path \<and> (\<exists>c. log_fs u path = Some c \<and> c @ log_entry (level, file, line, msg) = cur') \<and>
      backups path bs' (log_fs u) \<and> length bs' \<le> kept_backups (log_max_files s)"
  proof (cases "unat (log_max_size s) < length cur")
    case True
    then have "u = rotate_log_file env t" using assms(1) cur by (simp add: u_def check_and_rotate_log_def t logs_all_def)
    with True q rotate_queue [of env path t cur bs] assms(1) cur bs show ?thesis
      by (auto simp: logs_all_def t queue_log_def)
  next
    case False
    then have "u = t" using assms(1) cur by (simp add: u_def check_and_rotate_log_def t logs_all_def)
    with False q assms(1) cur bs show ?thesis by (auto simp: logs_all_def t queue_log_def)
  qed
  then obtain c where c: "log_fs u path = Some c" "c @ log_entry (level, file, line, msg) = cur'" by blast
  have "log_fs s' = (log_fs u)(path \<mapsto> cur') \<and> log_file s' = Some path"
    using assms(1-4) u c
    by (auto simp: s' osal_log_emit_def log_internal_ex_def Let_def kept u_def [symmetric] logs_all_def file_put_def log_entry_def)
  moreover have "log_state s' = log_state s" "log_path s' = log_path s" "log_max_files s' = log_max_files s"
      "log_max_size s' = log_max_size s" "log_level s' = log_level s" "log_sampling_rate s' = log_sampling_rate s"
      "log_filter_enabled s' = log_filter_enabled s"
    by (simp_all add: s' osal_log_emit_def log_internal_ex_def Let_def case_prod_unfold)
  ultimately show ?thesis using assms(1) u by (simp add: logs_all_def log_is_ready_def backups_def)
qed

text \<open>The size of the queue: each file holds at most the limit, the mark and one line.\<close>

lemma entry_length: "length (log_entry m) \<le> 1280"
  by (cases m) (simp add: log_entry_def)

lemma mark_length: "length rotation_mark = 32"
  by (simp add: rotation_mark_def)

definition queue_bound :: "nat \<Rightarrow> string \<times> string list \<Rightarrow> bool" where
  "queue_bound b = (\<lambda>(cur, bs). length cur \<le> b \<and> (\<forall>f \<in> set bs. length f \<le> b))"

lemma queue_bound_step:
  assumes "queue_bound b q" and "max_size + 1312 \<le> b" and "length line \<le> 1280"
  shows "queue_bound b (queue_log max_size keep q line)"
proof -
  obtain cur bs where q: "q = (cur, bs)" by force
  have "\<forall>f \<in> set (take keep (cur # bs)). length f \<le> b"
    using assms(1) set_take_subset [of keep "cur # bs"] by (auto simp: queue_bound_def q)
  then show ?thesis using assms by (auto simp: queue_bound_def queue_log_def q mark_length)
qed

lemma queue_bound_run:
  "queue_bound b q \<Longrightarrow> max_size + 1312 \<le> b \<Longrightarrow> queue_bound b (foldl (queue_log max_size keep) q (map log_entry msgs))"
proof (induction msgs arbitrary: q)
  case (Cons m msgs)
  from Cons.IH [OF queue_bound_step [OF Cons.prems entry_length] Cons.prems(2)] show ?case by simp
qed simp

lemma run_refines:
  assumes "logs_all env path s" and "\<forall>(level, file, line, txt) \<in> set msgs. log_level s \<le> level \<and> LOG_LEVEL_DEBUG \<le> level \<and> level \<le> LOG_LEVEL_FATAL"
    and "log_fs s path = Some cur" and "backups path bs (log_fs s)" and "length bs \<le> kept_backups (log_max_files s)"
  shows "\<exists>cur' bs'. (cur', bs') = foldl (queue_log (unat (log_max_size s)) (kept_backups (log_max_files s))) (cur, bs) (map log_entry msgs) \<and>
    log_fs (log_session env (emit_all msgs) s) path = Some cur' \<and> backups path bs' (log_fs (log_session env (emit_all msgs) s)) \<and>
    length bs' \<le> kept_backups (log_max_files s)"
  using assms
proof (induction msgs arbitrary: s cur bs)
  case Nil
  then show ?case by (simp add: emit_all_def)
next
  case (Cons m msgs)
  obtain level fl line msg where m: "m = (level, fl, line, msg)" by (metis prod_cases4)
  have lvl: "LOG_LEVEL_DEBUG \<le> level" "level \<le> LOG_LEVEL_FATAL" "log_level s \<le> level" using Cons.prems(2) by (auto simp: m)
  obtain c1 b1 where q: "(c1, b1) = queue_log (unat (log_max_size s)) (kept_backups (log_max_files s)) (cur, bs) (log_entry m)"
    by (metis prod.exhaust)
  define s1 where "s1 = osal_log_emit env level fl line (Some msg) s"
  note one = emit_file [OF Cons.prems(1) lvl Cons.prems(3-5) s1_def q [unfolded m]]
  have "\<forall>(level, file, line, txt) \<in> set msgs. log_level s1 \<le> level \<and> LOG_LEVEL_DEBUG \<le> level \<and> level \<le> LOG_LEVEL_FATAL"
    using Cons.prems(2) one by auto
  from Cons.IH [OF _ this, of c1 b1] one q show ?case
    by (simp add: emit_all_def m s1_def [symmetric])
qed

text \<open>
  C24. While every message is logged, the log file and its backups are a queue: each line is appended to
  the file, and a line that finds more than the maximal size starts a new file and moves the others one
  place on. With a maximum of \<open>m\<close> backups, only \<open>max 1 (m - 1)\<close> are kept.
\<close>
theorem log_rotation_queue:
  assumes "logs_all env path s" and "\<forall>(level, file, line, txt) \<in> set msgs. log_level s \<le> level \<and> LOG_LEVEL_DEBUG \<le> level \<and> level \<le> LOG_LEVEL_FATAL"
    and "log_fs s path = Some cur" and "backups path bs (log_fs s)" and "length bs \<le> max 1 (unat (log_max_files s) - 1)"
  shows "\<exists>cur' bs'. (cur', bs') = foldl (queue_log (unat (log_max_size s)) (max 1 (unat (log_max_files s) - 1))) (cur, bs) (map log_entry msgs) \<and>
    log_fs (log_session env (emit_all msgs) s) path = Some cur' \<and> backups path bs' (log_fs (log_session env (emit_all msgs) s)) \<and>
    length bs' \<le> max 1 (unat (log_max_files s) - 1)"
  using run_refines [OF assms(1-4)] assms(5) by (simp add: kept_backups_def)

definition full_log :: log_sys where
  "full_log = (log_sys_start [''log'' \<mapsto> replicate 20 CHR ''a''])\<lparr>log_state := LOG_STATE_READY, log_file := Some ''log'', log_path := ''log'',
     log_max_size := 10, log_max_files := 2\<rparr>"

lemma full_log:
  "logs_all plain_env ''log'' full_log" "log_fs full_log ''log'' = Some (replicate 20 CHR ''a'')" "backups ''log'' [] (log_fs full_log)"
  "log_level full_log = 1" "unat (log_max_size full_log) = 10" "unat (log_max_files full_log) = 2"
proof -
  have "backup_name ''log'' i \<noteq> ''log''" for i by simp
  then show "backups ''log'' [] (log_fs full_log)" by (auto simp: backups_def full_log_def log_sys_start_def)
qed (simp_all add: full_log_def log_sys_start_def logs_all_def log_is_ready_def plain_env_def)

lemma log_rotation_queue_witness:
  "log_fs (log_session plain_env (emit_all [(3, Some ''a/b.c'', 12, ''x'')]) full_log) (backup_name ''log'' 1) = Some (replicate 20 CHR ''a'')"
proof -
  from log_rotation_queue [OF full_log(1), of "[(3, Some ''a/b.c'', 12, ''x'')]" _ "[]"] full_log
  obtain bs' where "bs' = [replicate 20 CHR ''a'']" "backups ''log'' bs' (log_fs (log_session plain_env (emit_all [(3, Some ''a/b.c'', 12, ''x'')]) full_log))"
    by (auto simp: queue_log_def)
  then show ?thesis unfolding backups_def by simp
qed

text \<open>
  The space on the disk is bounded: in a run in which every message is logged no file ever holds more
  than the maximal size and 1312 characters, or what it held before, and there are at most
  \<open>max 1 (m - 1)\<close> backups.
\<close>
theorem log_space_bounded:
  assumes "logs_all env path s" and "\<forall>(level, file, line, txt) \<in> set msgs. log_level s \<le> level \<and> LOG_LEVEL_DEBUG \<le> level \<and> level \<le> LOG_LEVEL_FATAL"
    and "log_fs s path = Some cur" and "backups path bs (log_fs s)" and "length bs \<le> max 1 (unat (log_max_files s) - 1)"
    and "\<forall>f \<in> set (cur # bs). length f \<le> unat (log_max_size s) + 1312"
  shows "\<exists>cur' bs'. log_fs (log_session env (emit_all msgs) s) path = Some cur' \<and>
    backups path bs' (log_fs (log_session env (emit_all msgs) s)) \<and> length bs' \<le> max 1 (unat (log_max_files s) - 1) \<and>
    (\<forall>f \<in> set (cur' # bs'). length f \<le> unat (log_max_size s) + 1312)"
proof -
  from run_refines [OF assms(1-4)] assms(5) obtain cur' bs' where
    q: "(cur', bs') = foldl (queue_log (unat (log_max_size s)) (kept_backups (log_max_files s))) (cur, bs) (map log_entry msgs)"
    and r: "log_fs (log_session env (emit_all msgs) s) path = Some cur'" "backups path bs' (log_fs (log_session env (emit_all msgs) s))"
      "length bs' \<le> kept_backups (log_max_files s)"
    by (auto simp: kept_backups_def)
  have "queue_bound (unat (log_max_size s) + 1312) (cur, bs)" using assms(6) by (simp add: queue_bound_def)
  from queue_bound_run [OF this order_refl, of "kept_backups (log_max_files s)" msgs] q
  have "queue_bound (unat (log_max_size s) + 1312) (cur', bs')" by simp
  with r show ?thesis by (auto simp: queue_bound_def kept_backups_def)
qed

lemma log_space_bounded_witness:
  "\<exists>cur'. log_fs (log_session plain_env (emit_all (replicate 9 (3, Some ''a/b.c'', 12, ''x''))) full_log) ''log'' = Some cur' \<and> length cur' \<le> 1322"
  using log_space_bounded [OF full_log(1), of "replicate 9 (3, Some ''a/b.c'', 12, ''x'')" _ "[]"] full_log by auto

end
