(* ===== verification/Osal_Log_Kernel.thy ===== *)
theory Osal_Log_Kernel
  imports Osal_Log_Rotate
begin

text \<open>
  The log of the kernel module, \<open>src/kernel/osal/src/util/osal_log.c\<close>: the interface of the user log over
  \<open>printk\<close>, with a level and two counters; the calls for files, sampling, filter and server do nothing.
  The state has what \<open>printk\<close> was given, without the level prefix, which is kept beside it.
\<close>

abbreviation (input) KERNEL_LOG_MESSAGE_SIZE :: nat where "KERNEL_LOG_MESSAGE_SIZE \<equiv> 0x200"
abbreviation (input) OSAL_ERR_NOT_SUPPORTED :: int where "OSAL_ERR_NOT_SUPPORTED \<equiv> 95"

datatype kern_level = KERN_DEBUG | KERN_INFO | KERN_WARNING | KERN_ERR

record kernel_log =
  kl_level :: int
  kl_total :: u64
  kl_dropped :: u64
  kl_printk :: "(kern_level \<times> string) list"

definition kernel_log_start :: kernel_log where
  "kernel_log_start = \<lparr>kl_level = LOG_LEVEL_INFO, kl_total = 0, kl_dropped = 0, kl_printk = []\<rparr>"

definition printk :: "kern_level \<Rightarrow> string \<Rightarrow> kernel_log \<Rightarrow> kernel_log" where
  "printk prefix txt s = s\<lparr>kl_printk := kl_printk s @ [(prefix, txt)]\<rparr>"

definition kernel_log_level_name :: "int \<Rightarrow> string" where
  "kernel_log_level_name level =
     (if level = 0 then ''DEBUG'' else if level = 1 then ''INFO'' else if level = 2 then ''WARN''
      else if level = 3 then ''ERROR'' else if level = 4 then ''FATAL'' else ''UNKNOWN'')"

definition kernel_log_level_prefix :: "int \<Rightarrow> kern_level" where
  "kernel_log_level_prefix level =
     (if level = 0 then KERN_DEBUG else if level = 1 then KERN_INFO else if level = 2 then KERN_WARNING
      else if level = 3 \<or> level = 4 then KERN_ERR else KERN_INFO)"

definition kernel_log_basename :: "string option \<Rightarrow> string" where
  "kernel_log_basename path =
     (case path of None \<Rightarrow> [] | Some p \<Rightarrow> (case strrchr p CHR ''/'' of Some nm \<Rightarrow> tl nm | None \<Rightarrow> p))"

definition kernel_log_init :: "string option \<Rightarrow> int \<Rightarrow> kernel_log \<Rightarrow> int \<times> kernel_log" where
  "kernel_log_init log_file_path level s = (OSAL_SUCCESS, s\<lparr>kl_level := level\<rparr>)"

definition kernel_log_shutdown :: "kernel_log \<Rightarrow> kernel_log" where
  "kernel_log_shutdown s = s"

definition kernel_log_set_level :: "int \<Rightarrow> kernel_log \<Rightarrow> kernel_log" where
  "kernel_log_set_level level s = s\<lparr>kl_level := level\<rparr>"

definition kernel_log_set_max_file_size :: "u32 \<Rightarrow> kernel_log \<Rightarrow> kernel_log" where
  "kernel_log_set_max_file_size n s = s"

definition kernel_log_set_max_files :: "u32 \<Rightarrow> kernel_log \<Rightarrow> kernel_log" where
  "kernel_log_set_max_files n s = s"

definition kernel_log_set_filter :: "string option \<Rightarrow> kernel_log \<Rightarrow> int \<times> kernel_log" where
  "kernel_log_set_filter pattern s = (OSAL_ERR_NOT_SUPPORTED, s)"

definition kernel_log_set_sampling :: "u32 \<Rightarrow> kernel_log \<Rightarrow> kernel_log" where
  "kernel_log_set_sampling rate s = s"

definition kernel_log_set_remote :: "string option \<Rightarrow> 16 word \<Rightarrow> kernel_log \<Rightarrow> int \<times> kernel_log" where
  "kernel_log_set_remote host port s = (OSAL_ERR_NOT_SUPPORTED, s)"

definition kernel_log_disable_remote :: "kernel_log \<Rightarrow> kernel_log" where
  "kernel_log_disable_remote s = s"

definition kernel_osal_log :: "int \<Rightarrow> string \<Rightarrow> kernel_log \<Rightarrow> kernel_log" where
  "kernel_osal_log level formatted s =
     (if level < kl_level s then s\<lparr>kl_dropped := kl_dropped s + 1\<rparr>
      else let message = take (KERNEL_LOG_MESSAGE_SIZE - 1) formatted
           in printk (kernel_log_level_prefix level)
                (''['' @ kernel_log_level_name level @ ''] - '' @ message @ [newline]) (s\<lparr>kl_total := kl_total s + 1\<rparr>))"

fun kernel_log_pairs :: "int \<Rightarrow> (string option \<times> string option) list \<Rightarrow> kernel_log \<Rightarrow> kernel_log" where
  "kernel_log_pairs level [] s = s"
| "kernel_log_pairs level ((key, val) # kvs) s =
     kernel_log_pairs level kvs
       (case key of None \<Rightarrow> s
        | Some k \<Rightarrow> kernel_osal_log level (k @ ''='' @ (case val of None \<Rightarrow> [] | Some v \<Rightarrow> v)) s)"

definition kernel_log_structured :: "int \<Rightarrow> string option \<Rightarrow> (string option \<times> string option) list \<Rightarrow> kernel_log \<Rightarrow> kernel_log" where
  "kernel_log_structured level message kv_pairs s =
     kernel_log_pairs level kv_pairs
       (kernel_osal_log level (''message='' @ (case message of None \<Rightarrow> [] | Some m \<Rightarrow> m)) s)"

definition kernel_printf :: "string \<Rightarrow> kernel_log \<Rightarrow> kernel_log" where
  "kernel_printf formatted s = printk KERN_INFO (take (KERNEL_LOG_MESSAGE_SIZE - 1) formatted) s"

definition kernel_log_get_stats :: "kernel_log \<Rightarrow> u64 \<times> u64" where
  "kernel_log_get_stats s = (kl_total s, kl_dropped s)"

definition kernel_log_emit :: "int \<Rightarrow> string option \<Rightarrow> int \<Rightarrow> string \<Rightarrow> kernel_log \<Rightarrow> kernel_log" where
  "kernel_log_emit level file line formatted s =
     (let filename = kernel_log_basename file
      in if level < kl_level s then s\<lparr>kl_dropped := kl_dropped s + 1\<rparr>
         else let message = take (KERNEL_LOG_MESSAGE_SIZE - 1) formatted
              in printk (kernel_log_level_prefix level)
                   (''['' @ kernel_log_level_name level @ ''] '' @ filename @ '':'' @ dec_int line @ '' - '' @ message @ [newline])
                   (s\<lparr>kl_total := kl_total s + 1\<rparr>))"

section \<open>The two logs agree\<close>

text \<open>What the kernel log gives to \<open>printk\<close> and counts.\<close>

fun kernel_emit_all :: "log_message list \<Rightarrow> kernel_log \<Rightarrow> kernel_log" where
  "kernel_emit_all [] s = s"
| "kernel_emit_all ((level, file, line, msg) # msgs) s = kernel_emit_all msgs (kernel_log_emit level file line msg s)"

lemma level_names_agree: "LOG_LEVEL_DEBUG \<le> level \<Longrightarrow> level \<le> LOG_LEVEL_FATAL \<Longrightarrow> kernel_log_level_name level = level_name level"
proof -
  assume "LOG_LEVEL_DEBUG \<le> level" "level \<le> LOG_LEVEL_FATAL"
  then have "level = 0 \<or> level = 1 \<or> level = 2 \<or> level = 3 \<or> level = 4" by auto
  then show ?thesis by (auto simp: kernel_log_level_name_def level_name_def log_level_names_def)
qed

text \<open>A message that both accept alike: a level of the interface, a file name, and a short text.\<close>

definition small_message :: "log_message \<Rightarrow> bool" where
  "small_message = (\<lambda>(level, file, line, msg). LOG_LEVEL_DEBUG \<le> level \<and> level \<le> LOG_LEVEL_FATAL \<and> file \<noteq> None \<and>
     length (extract_filename file) < 240 \<and> - (2 ^ 31) \<le> line \<and> line < 2 ^ 31 \<and> length msg < 512)"

lemma kernel_line_agrees:
  assumes "small_message (level, fl, line, msg)"
  shows "kernel_log_emit level fl line msg s =
    (if level < kl_level s then s\<lparr>kl_dropped := kl_dropped s + 1\<rparr>
     else printk (kernel_log_level_prefix level) (log_entry (level, fl, line, msg)) (s\<lparr>kl_total := kl_total s + 1\<rparr>))"
proof -
  from assms obtain p where p: "fl = Some p" and lvl: "LOG_LEVEL_DEBUG \<le> level" "level \<le> LOG_LEVEL_FATAL"
    by (auto simp: small_message_def)
  have "length (level_name level) \<le> 5" "length (dec_int line) \<le> 11"
    using level_name_length [OF lvl] dec_int_length [of line] assms by (auto simp: small_message_def)
  then have "length (log_line level (extract_filename fl) line msg) \<le> 1279"
    using assms by (simp add: log_line_def small_message_def)
  moreover have "kernel_log_basename fl = extract_filename fl"
    by (simp add: p kernel_log_basename_def extract_filename_def)
  ultimately show ?thesis
    using assms by (simp add: kernel_log_emit_def Let_def level_names_agree [OF lvl] log_entry_def log_line_def small_message_def)
qed

lemma kernel_emit_run:
  assumes "\<forall>m \<in> set msgs. small_message m"
  shows "map snd (kl_printk (kernel_emit_all msgs s)) = map snd (kl_printk s) @ map log_entry (filter (\<lambda>m. kl_level s \<le> fst m) msgs) \<and>
    kl_total (kernel_emit_all msgs s) + kl_dropped (kernel_emit_all msgs s) = kl_total s + kl_dropped s + of_nat (length msgs)"
  using assms
proof (induction msgs arbitrary: s)
  case (Cons m msgs)
  obtain level fl line msg where m: "m = (level, fl, line, msg)" by (metis prod_cases4)
  with Cons.prems have small: "small_message (level, fl, line, msg)" by simp
  show ?case
    using Cons.IH [of "kernel_log_emit level fl line msg s"] Cons.prems
    by (auto simp: m kernel_line_agrees [OF small] printk_def)
qed simp

lemma emit_below: "level < log_level s \<Longrightarrow> osal_log_emit env level file line (Some msg) s = s"
  by (simp add: osal_log_emit_def log_internal_ex_def Let_def)

lemma emit_level: "log_level (osal_log_emit env level file line txt s) = log_level s"
  by (simp add: osal_log_emit_def log_internal_ex_def Let_def case_prod_unfold)

lemma emit_all_filter:
  "log_session env (emit_all msgs) s = log_session env (emit_all (filter (\<lambda>m. log_level s \<le> fst m) msgs)) s"
proof (induction msgs arbitrary: s)
  case (Cons m msgs)
  obtain level fl line msg where m: "m = (level, fl, line, msg)" by (metis prod_cases4)
  have IH: "log_session env (emit_all msgs) (osal_log_emit env level fl line (Some msg) s) =
      log_session env (emit_all (filter (\<lambda>m. log_level s \<le> fst m) msgs)) (osal_log_emit env level fl line (Some msg) s)"
    using Cons.IH [of "osal_log_emit env level fl line (Some msg) s"] by (simp add: emit_level)
  show ?case
  proof (cases "log_level s \<le> level")
    case True
    with IH show ?thesis by (simp add: m emit_all_def)
  next
    case False
    with Cons.IH [of s] show ?thesis by (simp add: m emit_all_def emit_below)
  qed
qed (simp add: emit_all_def)

lemma queue_not_full:
  "length cur + 1280 * length msgs < max_size \<Longrightarrow>
   foldl (queue_log max_size keep) (cur, bs) (map log_entry msgs) = (cur @ concat (map log_entry msgs), bs)"
proof (induction msgs arbitrary: cur)
  case (Cons m msgs)
  have "length (cur @ log_entry m) + 1280 * length msgs < max_size" using Cons.prems entry_length [of m] by simp
  from Cons.IH [OF this] Cons.prems show ?case by (simp add: queue_log_def)
qed simp

text \<open>
  The two logs agree: for messages of the same levels with short texts the kernel module gives
  \<open>printk\<close> exactly the lines that the user library writes to its file, in the same order, both leave out
  those below the level, and the statistics of the kernel log count each message once.
\<close>
theorem kernel_user_log_agree:
  assumes "\<forall>m \<in> set msgs. small_message m" and "logs_all env path s" and "log_level s = level" and "LOG_LEVEL_DEBUG \<le> level"
    and "log_fs s path = Some []" and "backups path [] (log_fs s)"
    and "1280 * length msgs < unat (log_max_size s)"
  shows "log_fs (log_session env (emit_all msgs) s) path =
      Some (concat (map snd (kl_printk (kernel_emit_all msgs (kernel_log_start\<lparr>kl_level := level\<rparr>))))) \<and>
    fst (kernel_log_get_stats (kernel_emit_all msgs (kernel_log_start\<lparr>kl_level := level\<rparr>))) +
      snd (kernel_log_get_stats (kernel_emit_all msgs (kernel_log_start\<lparr>kl_level := level\<rparr>))) = of_nat (length msgs)"
proof -
  define ms where "ms = filter (\<lambda>m. log_level s \<le> fst m) msgs"
  have "\<forall>(level, file, line, txt) \<in> set ms. log_level s \<le> level \<and> LOG_LEVEL_DEBUG \<le> level \<and> level \<le> LOG_LEVEL_FATAL"
    using assms(1) by (auto simp: ms_def small_message_def)
  from run_refines [OF assms(2) this assms(5,6)] obtain cur' bs' where
    q: "(cur', bs') = foldl (queue_log (unat (log_max_size s)) (kept_backups (log_max_files s))) ([], []) (map log_entry ms)"
    and r: "log_fs (log_session env (emit_all ms) s) path = Some cur'" by auto
  have "length ms \<le> length msgs" by (simp add: ms_def)
  then have "foldl (queue_log (unat (log_max_size s)) (kept_backups (log_max_files s))) ([], []) (map log_entry ms) =
      ([] @ concat (map log_entry ms), [])"
    using assms(7) by (intro queue_not_full) simp
  with q have "cur' = concat (map log_entry ms)" by simp
  moreover have "log_session env (emit_all msgs) s = log_session env (emit_all ms) s"
    unfolding ms_def by (rule emit_all_filter)
  ultimately show ?thesis
    using r kernel_emit_run [OF assms(1), of "kernel_log_start\<lparr>kl_level := level\<rparr>"] assms(3)
    by (simp add: ms_def kernel_log_start_def kernel_log_get_stats_def)
qed

lemma kernel_user_log_agree_witness:
  "log_fs (log_session plain_env (emit_all [(3, Some ''a/b.c'', 12, ''x''), (0, Some ''d.c'', 1, ''y'')])
     ((log_sys_start [''log'' \<mapsto> []])\<lparr>log_state := LOG_STATE_READY, log_file := Some ''log'', log_path := ''log''\<rparr>)) ''log'' =
   Some (concat (map snd (kl_printk (kernel_emit_all [(3, Some ''a/b.c'', 12, ''x''), (0, Some ''d.c'', 1, ''y'')]
     (kernel_log_start\<lparr>kl_level := 1\<rparr>)))))"
proof -
  define s where "s = (log_sys_start [''log'' \<mapsto> []])\<lparr>log_state := LOG_STATE_READY, log_file := Some ''log'', log_path := ''log''\<rparr>"
  have "backup_name ''log'' i \<noteq> ''log''" for i by simp
  then have "backups ''log'' [] (log_fs s)" by (auto simp: backups_def s_def log_sys_start_def)
  moreover have "logs_all plain_env ''log'' s" "log_level s = 1" "log_fs s ''log'' = Some []" "unat (log_max_size s) = 10485760"
    by (simp_all add: s_def log_sys_start_def logs_all_def log_is_ready_def plain_env_def)
  moreover have "\<forall>m \<in> set [(3, Some ''a/b.c'', 12, ''x''), (0, Some ''d.c'', 1, ''y'')]. small_message m"
    by (simp add: small_message_def extract_filename_def)
  ultimately show ?thesis
    using kernel_user_log_agree [of "[(3, Some ''a/b.c'', 12, ''x''), (0, Some ''d.c'', 1, ''y'')]" plain_env "''log''" s 1]
    unfolding s_def [symmetric] by simp
qed

end
