(* ===== verification/Osal_Select.thy ===== *)
theory Osal_Select
  imports Lpf_Base
begin

unbundle bit_operations_syntax

text \<open>
  Descriptor sets and \<open>select\<close> in the user library, \<open>src/user/osal/src/sys/osal_select.c\<close>. A set is an array of
  words of 32 bits, which the library hands to the system by casting the pointer; \<open>fd_set\<close> of a 64-bit Linux
  is an array of words of 64 bits, so that the cast joins two words each (little endian). The system call is
  an argument.
\<close>

section \<open>Descriptor sets\<close>

abbreviation (input) OSAL_FD_SETSIZE :: int where "OSAL_FD_SETSIZE \<equiv> 0x400"
abbreviation (input) OSAL_FD_BITS_PER_WORD :: nat where "OSAL_FD_BITS_PER_WORD \<equiv> 0x20"

record osal_fd_set_t = fds_bits :: "u32 list"

definition osal_fd_zero :: "osal_fd_set_t \<Rightarrow> osal_fd_set_t" where
  "osal_fd_zero fds = fds\<lparr>fds_bits := replicate 32 0\<rparr>"

definition osal_fd_set :: "int \<Rightarrow> osal_fd_set_t \<Rightarrow> osal_fd_set_t" where
  "osal_fd_set fd fds =
     (if 0 \<le> fd \<and> fd < OSAL_FD_SETSIZE then
        (let i = nat fd div OSAL_FD_BITS_PER_WORD
         in fds\<lparr>fds_bits := (fds_bits fds)[i := fds_bits fds ! i OR push_bit (nat fd mod OSAL_FD_BITS_PER_WORD) 1]\<rparr>)
      else fds)"

definition osal_fd_clr :: "int \<Rightarrow> osal_fd_set_t \<Rightarrow> osal_fd_set_t" where
  "osal_fd_clr fd fds =
     (if 0 \<le> fd \<and> fd < OSAL_FD_SETSIZE then
        (let i = nat fd div OSAL_FD_BITS_PER_WORD
         in fds\<lparr>fds_bits := (fds_bits fds)[i := fds_bits fds ! i AND NOT (push_bit (nat fd mod OSAL_FD_BITS_PER_WORD) 1)]\<rparr>)
      else fds)"

definition osal_fd_isset :: "int \<Rightarrow> osal_fd_set_t \<Rightarrow> int" where
  "osal_fd_isset fd fds =
     (if 0 \<le> fd \<and> fd < OSAL_FD_SETSIZE then
        (if fds_bits fds ! (nat fd div OSAL_FD_BITS_PER_WORD) AND push_bit (nat fd mod OSAL_FD_BITS_PER_WORD) 1 \<noteq> 0
         then 1 else 0)
      else 0)"

text \<open>The array of the type has 32 words.\<close>

definition fd_set_ok :: "osal_fd_set_t \<Rightarrow> bool" where
  "fd_set_ok fds \<longleftrightarrow> length (fds_bits fds) = 32"

definition fd_members :: "osal_fd_set_t \<Rightarrow> int set" where
  "fd_members fds = {fd. osal_fd_isset fd fds \<noteq> 0}"

section \<open>The cast to the words of the system\<close>

fun posix_words :: "u32 list \<Rightarrow> u64 list" where
  "posix_words (lo # hi # ws) = (ucast lo OR push_bit 32 (ucast hi)) # posix_words ws"
| "posix_words ws = []"

fun osal_words :: "u64 list \<Rightarrow> u32 list" where
  "osal_words [] = []"
| "osal_words (w # ws) = ucast w # ucast (drop_bit 32 w) # osal_words ws"

text \<open>\<open>FD_ISSET\<close> of the system.\<close>

definition posix_isset :: "nat \<Rightarrow> u64 list \<Rightarrow> bool" where
  "posix_isset fd ws = bit (ws ! (fd div 64)) (fd mod 64)"

section \<open>Waiting\<close>

record osal_timeval_t =
  tv_sec :: "32 word"
  tv_usec :: "32 word"

type_synonym select_call =
  "int \<Rightarrow> u64 list option \<Rightarrow> u64 list option \<Rightarrow> u64 list option \<Rightarrow> (int \<times> int) option \<Rightarrow>
     int \<times> u64 list option \<times> u64 list option \<times> u64 list option \<times> int \<times> int"

definition to_posix_set :: "osal_fd_set_t option \<Rightarrow> u64 list option" where
  "to_posix_set = map_option (\<lambda>s. posix_words (fds_bits s))"

definition from_posix_set :: "u64 list option \<Rightarrow> osal_fd_set_t option" where
  "from_posix_set = map_option (\<lambda>ws. \<lparr>fds_bits = osal_words ws\<rparr>)"

definition osal_select ::
  "select_call \<Rightarrow> int \<Rightarrow> osal_fd_set_t option \<Rightarrow> osal_fd_set_t option \<Rightarrow> osal_fd_set_t option \<Rightarrow> osal_timeval_t option \<Rightarrow>
     int \<times> osal_fd_set_t option \<times> osal_fd_set_t option \<times> osal_fd_set_t option \<times> osal_timeval_t option" where
  "osal_select sys_select nfds readfds writefds exceptfds timeout =
     (let ptv = map_option (\<lambda>t. (sint (tv_sec t), sint (tv_usec t))) timeout;
          (result, r, w, e, sec, usec) =
            sys_select nfds (to_posix_set readfds) (to_posix_set writefds) (to_posix_set exceptfds) ptv
      in (result, from_posix_set r, from_posix_set w, from_posix_set e,
          map_option (\<lambda>t. \<lparr>tv_sec = word_of_int sec, tv_usec = word_of_int usec\<rparr>) timeout))"

section \<open>Properties\<close>

lemma fd_bit [simp]: "n < 32 \<Longrightarrow> (w :: u32) AND 2 ^ n = 0 \<longleftrightarrow> \<not> bit w n"
  by (simp add: and_exp_eq_0_iff_not_bit)

lemma isset_bit:
  "osal_fd_isset fd s = (if 0 \<le> fd \<and> fd < 1024 \<and> bit (fds_bits s ! (nat fd div 32)) (nat fd mod 32) then 1 else 0)"
  by (simp add: osal_fd_isset_def)

lemma mem_fd: "fd \<in> fd_members s \<longleftrightarrow> 0 \<le> fd \<and> fd < 1024 \<and> bit (fds_bits s ! (nat fd div 32)) (nat fd mod 32)"
  by (simp add: fd_members_def isset_bit)

lemma same_place: "0 \<le> fd \<Longrightarrow> 0 \<le> fd' \<Longrightarrow> nat fd div 32 = nat fd' div 32 \<Longrightarrow> nat fd mod 32 = nat fd' mod 32 \<Longrightarrow> fd = fd'"
  by (metis div_mult_mod_eq eq_nat_nat_iff)

lemma fd_in_range: "0 \<le> fd \<Longrightarrow> fd < 1024 \<Longrightarrow> nat fd div 32 < 32"
  by simp

lemma bit_one_at: "n < 32 \<Longrightarrow> bit ((2 :: u32) ^ n) m \<longleftrightarrow> m = n"
  by (auto simp: bit_exp_iff)

lemma zero_members: "fd_members (osal_fd_zero s) = {}"
  by (auto simp: mem_fd osal_fd_zero_def)

lemma set_members: "fd_set_ok s \<Longrightarrow> fd_members (osal_fd_set fd s) = (if 0 \<le> fd \<and> fd < 1024 then insert fd (fd_members s) else fd_members s)"
  by (auto simp: mem_fd osal_fd_set_def fd_set_ok_def Let_def nth_list_update bit_or_iff bit_one_at dest: same_place
      split: if_splits)

lemma clr_members: "fd_set_ok s \<Longrightarrow> fd_members (osal_fd_clr fd s) = fd_members s - {fd}"
  by (auto simp: mem_fd osal_fd_clr_def fd_set_ok_def Let_def nth_list_update bit_and_iff bit_not_iff bit_one_at
      dest: same_place split: if_splits)

lemma length_posix_words: "length (posix_words ws) = length ws div 2"
  by (induction ws rule: posix_words.induct) auto

lemma join_bits:
  "n < 64 \<Longrightarrow> bit (ucast (lo :: u32) OR push_bit 32 (ucast (hi :: u32)) :: u64) n \<longleftrightarrow> (if n < 32 then bit lo n else bit hi (n - 32))"
proof -
  assume "n < 64"
  moreover have "\<not> bit lo n" if "32 \<le> n" using that by (auto dest: bit_imp_le_length)
  ultimately show ?thesis by (auto simp: bit_or_iff bit_push_bit_iff bit_ucast_iff)
qed

lemma osal_words_posix: "even (length ws) \<Longrightarrow> osal_words (posix_words ws) = ws"
proof (induction ws rule: posix_words.induct)
  case (1 lo hi ws)
  have "ucast (ucast lo OR push_bit 32 (ucast hi) :: u64) = lo"
    by (rule bit_word_eqI) (simp add: bit_ucast_iff join_bits)
  moreover have "ucast (drop_bit 32 (ucast lo OR push_bit 32 (ucast hi) :: u64)) = hi"
    by (rule bit_word_eqI) (simp only: bit_ucast_iff bit_drop_bit_eq comp_def join_bits, simp add: join_bits)
  ultimately show ?case using 1 by simp
qed auto

lemma posix_words_nth:
  "i < length ws div 2 \<Longrightarrow> n < 64 \<Longrightarrow> bit (posix_words ws ! i) n \<longleftrightarrow> bit (ws ! (2 * i + n div 32)) (n mod 32)"
proof (induction ws arbitrary: i rule: posix_words.induct)
  case (1 lo hi ws)
  show ?case
  proof (cases i)
    case 0
    show ?thesis
    proof (cases "n < 32")
      case False
      then obtain k where "n = 32 + k" "k < 32" using 1(3) le_Suc_ex [of 32 n] by auto
      then show ?thesis using 0 1(3) by (simp add: join_bits)
    qed (use 0 1(3) in \<open>simp add: join_bits\<close>)
  next
    case (Suc j)
    then show ?thesis using 1 by simp
  qed
qed auto

lemma posix_isset_bit: "fd_set_ok s \<Longrightarrow> n < 1024 \<Longrightarrow> posix_isset n (posix_words (fds_bits s)) \<longleftrightarrow> int n \<in> fd_members s"
proof -
  assume n: "fd_set_ok s" "n < 1024"
  have m: "n mod 64 = 32 * (n div 32 mod 2) + n mod 32" using mod_mult2_eq [of n 32 2] by simp
  have "n div 64 = n div 32 div 2" using div_mult2_eq [of n 32 2] by simp
  then have "2 * (n div 64) + n mod 64 div 32 = n div 32" using m by simp
  moreover have "n mod 64 mod 32 = n mod 32" using m by simp
  moreover have "n div 64 < 16" using n(2) by simp
  ultimately show ?thesis using n by (simp add: posix_isset_def mem_fd fd_set_ok_def posix_words_nth)
qed

datatype fd_op = Fd_zero | Fd_add int | Fd_remove int

primrec fd_step :: "fd_op \<Rightarrow> osal_fd_set_t \<Rightarrow> osal_fd_set_t" where
  "fd_step Fd_zero s = osal_fd_zero s"
| "fd_step (Fd_add fd) s = osal_fd_set fd s"
| "fd_step (Fd_remove fd) s = osal_fd_clr fd s"

primrec fd_spec :: "fd_op \<Rightarrow> int set \<Rightarrow> int set" where
  "fd_spec Fd_zero m = {}"
| "fd_spec (Fd_add fd) m = (if 0 \<le> fd \<and> fd < 1024 then insert fd m else m)"
| "fd_spec (Fd_remove fd) m = m - {fd}"

lemma fd_step_ok [simp]: "fd_set_ok s \<Longrightarrow> fd_set_ok (fd_step p s)"
  by (cases p) (simp_all add: fd_set_ok_def osal_fd_zero_def osal_fd_set_def osal_fd_clr_def Let_def)

lemma fd_step_spec: "fd_set_ok s \<Longrightarrow> fd_members (fd_step p s) = fd_spec p (fd_members s)"
  by (cases p) (simp_all add: zero_members set_members clr_members)

lemma fd_steps: "fd_set_ok s \<Longrightarrow> fd_set_ok (fold fd_step ps s) \<and> fd_members (fold fd_step ps s) = fold fd_spec ps (fd_members s)"
  by (induction ps arbitrary: s) (simp_all add: fd_step_spec)

text \<open>
  C39. Whatever is done to a descriptor set, it keeps its 32 words; it is the set of the descriptors that
  were added and not removed, those that are negative or beyond 1023 left alone; and the system, which reads
  the same memory as words of 64 bits, finds the same descriptors in it.
\<close>

theorem fd_set_type:
  assumes "fd_set_ok s"
  shows "fd_set_ok (fold fd_step ops s) \<and>
    fd_members (fold fd_step ops s) = fold fd_spec ops (fd_members s) \<and>
    {fd. 0 \<le> fd \<and> fd < 1024 \<and> posix_isset (nat fd) (posix_words (fds_bits (fold fd_step ops s)))} =
      fold fd_spec ops (fd_members s)"
proof -
  have ok: "fd_set_ok (fold fd_step ops s)" "fd_members (fold fd_step ops s) = fold fd_spec ops (fd_members s)"
    using fd_steps [OF assms] by simp_all
  have "{fd. 0 \<le> fd \<and> fd < 1024 \<and> posix_isset (nat fd) (posix_words (fds_bits (fold fd_step ops s)))} =
      fd_members (fold fd_step ops s)"
    using posix_isset_bit [OF ok(1)] by (auto simp: mem_fd)
  then show ?thesis using ok by simp
qed

lemma fd_set_type_witness:
  "fd_members (fold fd_step [Fd_zero, Fd_add 3, Fd_add 1023, Fd_add 1024, Fd_add (- 1), Fd_remove 3] \<lparr>fds_bits = replicate 32 7\<rparr>) = {1023}"
proof -
  have "fd_set_ok \<lparr>fds_bits = replicate 32 7\<rparr>" by (simp add: fd_set_ok_def)
  then have "fd_members (fold fd_step [Fd_zero, Fd_add 3, Fd_add 1023, Fd_add 1024, Fd_add (- 1), Fd_remove 3] \<lparr>fds_bits = replicate 32 7\<rparr>) =
      {1023, 3} - {3}"
    using fd_set_type [THEN conjunct2, THEN conjunct1,
        of "\<lparr>fds_bits = replicate 32 7\<rparr>" "[Fd_zero, Fd_add 3, Fd_add 1023, Fd_add 1024, Fd_add (- 1), Fd_remove 3]"]
    by simp
  also have "\<dots> = {1023}" by auto
  finally show ?thesis .
qed

text \<open>
  A call that answers with the sets and the remaining time of the system: what the caller finds in its sets
  afterwards is what the system put there, and the remaining time is exact, since it does not exceed the
  time that was given.
\<close>

theorem select_exact:
  assumes "sys_select nfds (to_posix_set r) (to_posix_set w) (to_posix_set e) (Some (sint (tv_sec t), sint (tv_usec t))) =
      (n, to_posix_set r', to_posix_set w', to_posix_set e', sec, usec)"
    and "pred_option fd_set_ok r'" and "pred_option fd_set_ok w'" and "pred_option fd_set_ok e'"
    and "0 \<le> sec" and "sec \<le> sint (tv_sec t)" and "0 \<le> usec" and "usec < 1000000"
  shows "\<exists>rest. osal_select sys_select nfds r w e (Some t) = (n, r', w', e', Some rest) \<and>
      sint (tv_sec rest) = sec \<and> sint (tv_usec rest) = usec"
proof -
  have same: "from_posix_set (to_posix_set s) = s" if "pred_option fd_set_ok s" for s
    using that by (cases s) (simp_all add: from_posix_set_def to_posix_set_def fd_set_ok_def osal_words_posix)
  have "sec < 2 ^ 31" using assms(6) sint_lt [of "tv_sec t"] by simp
  then have "sint (word_of_int sec :: 32 word) = sec" "sint (word_of_int usec :: 32 word) = usec"
    using assms(5,7,8) by (simp_all add: signed_of_int signed_take_bit_int_eq_self_iff)
  then show ?thesis using assms(1) same assms(2-4) by (simp add: osal_select_def Let_def)
qed

lemma select_exact_witness:
  "\<exists>rest. osal_select (\<lambda>nfds r w e t. (1, r, w, e, 4, 999999)) 4 (Some (osal_fd_set 3 (osal_fd_zero \<lparr>fds_bits = []\<rparr>))) None None
       (Some \<lparr>tv_sec = 5, tv_usec = 0\<rparr>) =
     (1, Some (osal_fd_set 3 (osal_fd_zero \<lparr>fds_bits = []\<rparr>)), None, None, Some rest) \<and> sint (tv_sec rest) = 4 \<and> sint (tv_usec rest) = 999999"
proof -
  have "fd_set_ok (osal_fd_set 3 (osal_fd_zero \<lparr>fds_bits = []\<rparr>))" by (simp add: fd_set_ok_def osal_fd_set_def osal_fd_zero_def Let_def)
  then show ?thesis
    by (intro select_exact) (simp_all add: to_posix_set_def)
qed

end
