(* ===== verification/Osal_Shm_Cache.thy ===== *)
theory Osal_Shm_Cache
  imports Osal_Base Osal_Crc "HOL-Library.Multiset"
begin

unbundle bit_operations_syntax

text \<open>
  The cache in shared memory, \<open>src/user/osal/src/ipc/osal_shm_cache.c\<close>: a table of 16 descriptors,
  each with a file descriptor and a mapping of a shared memory object, which holds a header with a
  mutex and the entries.

  The system \<open>cache_sys\<close> has the table of the process and what the system calls act on: the names of
  the objects, the objects themselves by their address, the open file descriptors and the mappings.
  An object may be mapped more than once; all mappings see the same memory. The outcome of each
  system call is part of \<open>cache_os\<close>. A call that waits for a locked mutex is \<open>None\<close>.
\<close>

section \<open>Data\<close>

abbreviation (input) MAX_CACHES :: nat where "MAX_CACHES \<equiv> 16"
abbreviation (input) SHM_CACHE_MAGIC :: u32 where "SHM_CACHE_MAGIC \<equiv> 0x43414348"
abbreviation (input) SHM_CACHE_VERSION :: u32 where "SHM_CACHE_VERSION \<equiv> 1"
abbreviation (input) OSAL_SHM_CACHE_MAX_DATA_SIZE :: nat where "OSAL_SHM_CACHE_MAX_DATA_SIZE \<equiv> 256"

datatype osal_cache_status = OSAL_CACHE_STATUS_INVALID | OSAL_CACHE_STATUS_FRESH | OSAL_CACHE_STATUS_STALE

record osal_cache_entry =
  ce_entry_id :: u32
  ce_data :: "u8 list"
  ce_data_len :: u32
  ce_timestamp_us :: u64
  ce_data_validity_ms :: u32
  ce_status :: osal_cache_status
  ce_valid :: bool
  ce_update_count :: u32
  ce_read_count :: u32
  ce_checksum :: u32

record osal_cache_result =
  cr_entry_id :: u32
  cr_data :: "u8 list"
  cr_data_len :: u32
  cr_timestamp_us :: u64
  cr_age_ms :: u32
  cr_status :: osal_cache_status
  cr_checksum :: u32

text \<open>The mutex is the boolean of whether somebody holds it. Sizes are those of a 64-bit platform.\<close>

record shm_cache_header =
  ch_magic :: u32
  ch_version :: u32
  ch_max_entries :: u32
  ch_entry_size :: u32
  ch_mutex :: bool
  ch_entries :: "osal_cache_entry list"

abbreviation (input) CACHE_HEADER_SIZE :: nat where "CACHE_HEADER_SIZE \<equiv> 56"
abbreviation (input) CACHE_ENTRY_SIZE :: nat where "CACHE_ENTRY_SIZE \<equiv> 296"

record cache_descriptor =
  ds_in_use :: bool
  ds_name :: string
  ds_shm_fd :: int
  ds_shm_ptr :: nat
  ds_shm_size :: nat
  ds_header :: nat

definition cache_descriptor_zero :: cache_descriptor where
  "cache_descriptor_zero = \<lparr>ds_in_use = False, ds_name = [], ds_shm_fd = 0, ds_shm_ptr = 0, ds_shm_size = 0,
     ds_header = 0\<rparr>"

record cache_sys =
  sy_table :: "cache_descriptor list"
  sy_table_mutex :: bool
  sy_names :: "string \<Rightarrow> nat option"
  sy_objects :: "nat \<Rightarrow> shm_cache_header"
  sy_sizes :: "nat \<Rightarrow> nat"
  sy_fds :: "int \<Rightarrow> nat option"
  sy_maps :: "nat multiset"

text \<open>
  What the system calls of one library call give: the descriptor that \<open>shm_open\<close> returns or a
  negative number, the address of an object it creates, and whether the others succeed.
\<close>

record cache_os =
  co_fd :: int
  co_object :: nat
  co_ftruncate :: bool
  co_fstat :: bool
  co_mmap :: bool

section \<open>System calls\<close>

definition cache_entry_zero :: osal_cache_entry where
  "cache_entry_zero = \<lparr>ce_entry_id = 0, ce_data = replicate OSAL_SHM_CACHE_MAX_DATA_SIZE 0, ce_data_len = 0,
     ce_timestamp_us = 0, ce_data_validity_ms = 0, ce_status = OSAL_CACHE_STATUS_INVALID, ce_valid = False,
     ce_update_count = 0, ce_read_count = 0, ce_checksum = 0\<rparr>"

definition shm_empty :: shm_cache_header where
  "shm_empty = \<lparr>ch_magic = 0, ch_version = 0, ch_max_entries = 0, ch_entry_size = 0, ch_mutex = False, ch_entries = []\<rparr>"

definition shm_open :: "cache_os \<Rightarrow> string \<Rightarrow> bool \<Rightarrow> cache_sys \<Rightarrow> int \<times> cache_sys" where
  "shm_open os name creat s =
     (if co_fd os < 0 then (- 1, s)
      else case sy_names s name of
          Some ob \<Rightarrow> (co_fd os, s\<lparr>sy_fds := (sy_fds s)(co_fd os \<mapsto> ob)\<rparr>)
        | None \<Rightarrow>
            if creat
            then (co_fd os, s\<lparr>sy_names := (sy_names s)(name \<mapsto> co_object os),
                              sy_objects := (sy_objects s)(co_object os := shm_empty),
                              sy_sizes := (sy_sizes s)(co_object os := 0),
                              sy_fds := (sy_fds s)(co_fd os \<mapsto> co_object os)\<rparr>)
            else (- 1, s))"

definition shm_close :: "int \<Rightarrow> cache_sys \<Rightarrow> cache_sys" where
  "shm_close fd s = s\<lparr>sy_fds := (sy_fds s)(fd := None)\<rparr>"

definition shm_unlink :: "string \<Rightarrow> cache_sys \<Rightarrow> cache_sys" where
  "shm_unlink name s = s\<lparr>sy_names := (sy_names s)(name := None)\<rparr>"

definition shm_mmap :: "int \<Rightarrow> cache_sys \<Rightarrow> nat \<times> cache_sys" where
  "shm_mmap fd s = (let ob = the (sy_fds s fd) in (ob, s\<lparr>sy_maps := add_mset ob (sy_maps s)\<rparr>))"

definition shm_munmap :: "nat \<Rightarrow> cache_sys \<Rightarrow> cache_sys" where
  "shm_munmap ob s = s\<lparr>sy_maps := sy_maps s - {#ob#}\<rparr>"

definition table_lock :: "cache_sys \<Rightarrow> cache_sys option" where
  "table_lock s = (if sy_table_mutex s then None else Some (s\<lparr>sy_table_mutex := True\<rparr>))"

definition table_unlock :: "cache_sys \<Rightarrow> cache_sys" where
  "table_unlock s = s\<lparr>sy_table_mutex := False\<rparr>"

definition update_object :: "nat \<Rightarrow> (shm_cache_header \<Rightarrow> shm_cache_header) \<Rightarrow> cache_sys \<Rightarrow> cache_sys" where
  "update_object ob f s = s\<lparr>sy_objects := (sy_objects s)(ob := f (sy_objects s ob))\<rparr>"

definition header_lock :: "nat \<Rightarrow> cache_sys \<Rightarrow> cache_sys option" where
  "header_lock ob s =
     (if ch_mutex (sy_objects s ob) then None else Some (update_object ob (\<lambda>h. h\<lparr>ch_mutex := True\<rparr>) s))"

definition header_unlock :: "nat \<Rightarrow> cache_sys \<Rightarrow> cache_sys" where
  "header_unlock ob s = update_object ob (\<lambda>h. h\<lparr>ch_mutex := False\<rparr>) s"

definition update_entry :: "nat \<Rightarrow> nat \<Rightarrow> (osal_cache_entry \<Rightarrow> osal_cache_entry) \<Rightarrow> cache_sys \<Rightarrow> cache_sys" where
  "update_entry ob i f s = update_object ob (\<lambda>h. h\<lparr>ch_entries := (ch_entries h)[i := f (ch_entries h ! i)]\<rparr>) s"

section \<open>Operations\<close>

text \<open>The byte-wise loop is the bit loop of the kernel's CRC, with the branch made a mask.\<close>

definition cache_crc_bit :: "u32 \<Rightarrow> u32" where
  "cache_crc_bit crc = drop_bit 1 crc XOR (0xEDB88320 AND - (crc AND 1))"

definition calculate_crc32 :: "u8 list \<Rightarrow> u32 \<Rightarrow> u32" where
  "calculate_crc32 data len =
     NOT (foldl (\<lambda>crc d. (cache_crc_bit ^^ 8) (crc XOR ucast d)) 0xFFFFFFFF (take (unat len) data))"

fun find_free_slot :: "cache_descriptor list \<Rightarrow> nat \<Rightarrow> int" where
  "find_free_slot [] i = - 1"
| "find_free_slot (d # ds) i = (if \<not> ds_in_use d then int i else find_free_slot ds (i + 1))"

definition find_free_cache_slot :: "cache_sys \<Rightarrow> int" where
  "find_free_cache_slot s = find_free_slot (sy_table s) 0"

definition cache_header_init :: "u32 \<Rightarrow> shm_cache_header" where
  "cache_header_init max_entries = \<lparr>ch_magic = SHM_CACHE_MAGIC, ch_version = SHM_CACHE_VERSION,
     ch_max_entries = max_entries, ch_entry_size = of_nat CACHE_ENTRY_SIZE, ch_mutex = False,
     ch_entries = map (\<lambda>i. cache_entry_zero\<lparr>ce_entry_id := of_nat i, ce_status := OSAL_CACHE_STATUS_INVALID,
                             ce_valid := False\<rparr>) [0..<unat max_entries]\<rparr>"

definition cache_descriptor_fill :: "string \<Rightarrow> int \<Rightarrow> nat \<Rightarrow> nat \<Rightarrow> cache_descriptor" where
  "cache_descriptor_fill name shm_fd shm_ptr shm_size =
     \<lparr>ds_in_use = True, ds_name = strscpy 64 name, ds_shm_fd = shm_fd, ds_shm_ptr = shm_ptr,
      ds_shm_size = shm_size, ds_header = shm_ptr\<rparr>"

text \<open>The result: the return value, what \<open>*cache_id\<close> holds, and the system.\<close>

definition osal_cache_create ::
  "cache_os \<Rightarrow> cache_sys \<Rightarrow> string option \<Rightarrow> u32 \<Rightarrow> u32 option \<Rightarrow> (int \<times> u32 option \<times> cache_sys) option" where
  "osal_cache_create os s name max_entries cache_id =
     (if name = None \<or> max_entries = 0 \<or> cache_id = None then Some (OSAL_ERR_INVALID_PARAM, cache_id, s)
      else case table_lock s of None \<Rightarrow> None | Some s \<Rightarrow>
        let slot = find_free_cache_slot s
        in if slot < 0 then Some (OSAL_ERR_NO_FREE_IDS, cache_id, table_unlock s)
           else
             let shm_size = CACHE_HEADER_SIZE + unat max_entries * CACHE_ENTRY_SIZE;
                 (shm_fd, s) = shm_open os (the name) True s
             in if shm_fd < 0 then Some (OSAL_ERR_GENERIC, cache_id, table_unlock s)
                else if \<not> co_ftruncate os
                then Some (OSAL_ERR_GENERIC, cache_id, table_unlock (shm_unlink (the name) (shm_close shm_fd s)))
                else
                  let s = s\<lparr>sy_sizes := (sy_sizes s)(the (sy_fds s shm_fd) := shm_size)\<rparr>
                  in if \<not> co_mmap os
                     then Some (OSAL_ERR_GENERIC, cache_id, table_unlock (shm_unlink (the name) (shm_close shm_fd s)))
                     else
                       let (shm_ptr, s) = shm_mmap shm_fd s;
                           s = update_object shm_ptr (\<lambda>_. cache_header_init max_entries) s;
                           s = s\<lparr>sy_table := (sy_table s)
                                   [nat slot := cache_descriptor_fill (the name) shm_fd shm_ptr shm_size]\<rparr>
                       in Some (OSAL_SUCCESS, Some (of_int slot), table_unlock s))"

definition osal_cache_open ::
  "cache_os \<Rightarrow> cache_sys \<Rightarrow> string option \<Rightarrow> u32 option \<Rightarrow> (int \<times> u32 option \<times> cache_sys) option" where
  "osal_cache_open os s name cache_id =
     (if name = None \<or> cache_id = None then Some (OSAL_ERR_INVALID_PARAM, cache_id, s)
      else case table_lock s of None \<Rightarrow> None | Some s \<Rightarrow>
        let slot = find_free_cache_slot s
        in if slot < 0 then Some (OSAL_ERR_NO_FREE_IDS, cache_id, table_unlock s)
           else
             let (shm_fd, s) = shm_open os (the name) False s
             in if shm_fd < 0 then Some (OSAL_ERR_GENERIC, cache_id, table_unlock s)
                else if \<not> co_fstat os then Some (OSAL_ERR_GENERIC, cache_id, table_unlock (shm_close shm_fd s))
                else if \<not> co_mmap os then Some (OSAL_ERR_GENERIC, cache_id, table_unlock (shm_close shm_fd s))
                else
                  let st_size = sy_sizes s (the (sy_fds s shm_fd));
                      (shm_ptr, s) = shm_mmap shm_fd s
                  in if ch_magic (sy_objects s shm_ptr) \<noteq> SHM_CACHE_MAGIC
                     then Some (OSAL_ERR_GENERIC, cache_id, table_unlock (shm_close shm_fd (shm_munmap shm_ptr s)))
                     else
                       let s = s\<lparr>sy_table := (sy_table s)
                                   [nat slot := cache_descriptor_fill (the name) shm_fd shm_ptr st_size]\<rparr>
                       in Some (OSAL_SUCCESS, Some (of_int slot), table_unlock s))"

definition osal_cache_delete :: "cache_sys \<Rightarrow> u32 \<Rightarrow> (int \<times> cache_sys) option" where
  "osal_cache_delete s cache_id =
     (if of_nat MAX_CACHES \<le> cache_id then Some (OSAL_ERR_INVALID_ID, s)
      else case table_lock s of None \<Rightarrow> None | Some s \<Rightarrow>
        let cache = sy_table s ! unat cache_id
        in if \<not> ds_in_use cache then Some (OSAL_ERR_INVALID_ID, table_unlock s)
           else
             let s = shm_munmap (ds_shm_ptr cache) s;
                 s = shm_close (ds_shm_fd cache) s;
                 s = shm_unlink (ds_name cache) s;
                 s = s\<lparr>sy_table := (sy_table s)[unat cache_id := cache_descriptor_zero]\<rparr>
             in Some (OSAL_SUCCESS, table_unlock s))"

text \<open>\<open>now\<close> is what the monotonic clock reads; \<open>data\<close> has at least \<open>data_len\<close> bytes.\<close>

definition osal_cache_write ::
  "cache_sys \<Rightarrow> u64 \<Rightarrow> u32 \<Rightarrow> u32 \<Rightarrow> u8 list option \<Rightarrow> u32 \<Rightarrow> u32 \<Rightarrow> (int \<times> cache_sys) option" where
  "osal_cache_write s now cache_id entry_id data data_len data_validity_ms =
     (if of_nat MAX_CACHES \<le> cache_id \<or> data = None \<or> data_len = 0 \<or>
         of_nat OSAL_SHM_CACHE_MAX_DATA_SIZE < data_len
      then Some (OSAL_ERR_INVALID_PARAM, s)
      else
        let cache = sy_table s ! unat cache_id
        in if \<not> ds_in_use cache then Some (OSAL_ERR_INVALID_ID, s)
           else if ch_max_entries (sy_objects s (ds_header cache)) \<le> entry_id then Some (OSAL_ERR_INVALID_PARAM, s)
           else case header_lock (ds_header cache) s of None \<Rightarrow> None | Some s \<Rightarrow>
             let s = update_entry (ds_header cache) (unat entry_id)
                       (\<lambda>e. e\<lparr>ce_data := take (unat data_len) (the data) @ drop (unat data_len) (ce_data e),
                              ce_data_len := data_len, ce_timestamp_us := now,
                              ce_data_validity_ms := data_validity_ms, ce_status := OSAL_CACHE_STATUS_FRESH,
                              ce_valid := True, ce_update_count := ce_update_count e + 1,
                              ce_checksum := calculate_crc32 (the data) data_len\<rparr>) s
             in Some (OSAL_SUCCESS, header_unlock (ds_header cache) s))"

definition entry_age_ms :: "u64 \<Rightarrow> osal_cache_entry \<Rightarrow> u32" where
  "entry_age_ms now e = ucast ((now - ce_timestamp_us e) div 1000)"

definition osal_cache_read ::
  "cache_sys \<Rightarrow> u64 \<Rightarrow> u32 \<Rightarrow> u32 \<Rightarrow> osal_cache_result option \<Rightarrow>
   (int \<times> osal_cache_result option \<times> cache_sys) option" where
  "osal_cache_read s now cache_id entry_id result =
     (if of_nat MAX_CACHES \<le> cache_id \<or> result = None then Some (OSAL_ERR_INVALID_PARAM, result, s)
      else
        let cache = sy_table s ! unat cache_id
        in if \<not> ds_in_use cache then Some (OSAL_ERR_INVALID_ID, result, s)
           else if ch_max_entries (sy_objects s (ds_header cache)) \<le> entry_id
           then Some (OSAL_ERR_INVALID_PARAM, result, s)
           else case header_lock (ds_header cache) s of None \<Rightarrow> None | Some s \<Rightarrow>
             let e = ch_entries (sy_objects s (ds_header cache)) ! unat entry_id
             in if \<not> ce_valid e then Some (OSAL_ERR_GENERIC, result, header_unlock (ds_header cache) s)
                else
                  let age_ms = entry_age_ms now e;
                      status = (if ce_status e = OSAL_CACHE_STATUS_INVALID then OSAL_CACHE_STATUS_INVALID
                                else if age_ms < ce_data_validity_ms e then OSAL_CACHE_STATUS_FRESH
                                else OSAL_CACHE_STATUS_STALE);
                      result = (the result)\<lparr>cr_entry_id := entry_id,
                        cr_data := take (unat (ce_data_len e)) (ce_data e)
                                     @ drop (unat (ce_data_len e)) (cr_data (the result)),
                        cr_data_len := ce_data_len e, cr_timestamp_us := ce_timestamp_us e,
                        cr_age_ms := age_ms, cr_status := status, cr_checksum := ce_checksum e\<rparr>;
                      s = update_entry (ds_header cache) (unat entry_id)
                            (\<lambda>e. e\<lparr>ce_read_count := ce_read_count e + 1\<rparr>) s
                  in Some (OSAL_SUCCESS, Some result, header_unlock (ds_header cache) s))"

definition osal_cache_invalidate :: "cache_sys \<Rightarrow> u32 \<Rightarrow> u32 \<Rightarrow> (int \<times> cache_sys) option" where
  "osal_cache_invalidate s cache_id entry_id =
     (if of_nat MAX_CACHES \<le> cache_id then Some (OSAL_ERR_INVALID_PARAM, s)
      else
        let cache = sy_table s ! unat cache_id
        in if \<not> ds_in_use cache then Some (OSAL_ERR_INVALID_ID, s)
           else if ch_max_entries (sy_objects s (ds_header cache)) \<le> entry_id then Some (OSAL_ERR_INVALID_PARAM, s)
           else case header_lock (ds_header cache) s of None \<Rightarrow> None | Some s \<Rightarrow>
             let e = ch_entries (sy_objects s (ds_header cache)) ! unat entry_id;
                 s = (if ce_valid e
                      then update_entry (ds_header cache) (unat entry_id)
                             (\<lambda>e. e\<lparr>ce_status := OSAL_CACHE_STATUS_STALE\<rparr>) s
                      else s)
             in Some (OSAL_SUCCESS, header_unlock (ds_header cache) s))"

fun invalidate_loop :: "cache_sys \<Rightarrow> u32 \<Rightarrow> u32 list \<Rightarrow> cache_sys option" where
  "invalidate_loop s cache_id [] = Some s"
| "invalidate_loop s cache_id (i # is) =
     (case osal_cache_invalidate s cache_id i of None \<Rightarrow> None | Some (_, s) \<Rightarrow> invalidate_loop s cache_id is)"

definition osal_cache_invalidate_batch ::
  "cache_sys \<Rightarrow> u32 \<Rightarrow> u32 list option \<Rightarrow> u32 \<Rightarrow> (int \<times> cache_sys) option" where
  "osal_cache_invalidate_batch s cache_id entry_ids id_count =
     (if entry_ids = None \<or> id_count = 0 then Some (OSAL_ERR_INVALID_PARAM, s)
      else map_option (\<lambda>s. (OSAL_SUCCESS, s)) (invalidate_loop s cache_id (take (unat id_count) (the entry_ids))))"

text \<open>The loop over the entries, with the counts of valid, fresh and stale ones so far.\<close>

fun stats_loop :: "u64 \<Rightarrow> osal_cache_entry list \<Rightarrow> u32 \<times> u32 \<times> u32 \<Rightarrow> u32 \<times> u32 \<times> u32" where
  "stats_loop now [] counts = counts"
| "stats_loop now (e # es) (valid, fresh, stale) =
     stats_loop now es
       (if \<not> ce_valid e then (valid, fresh, stale)
        else if ce_status e = OSAL_CACHE_STATUS_INVALID then (valid + 1, fresh, stale)
        else if entry_age_ms now e < ce_data_validity_ms e then (valid + 1, fresh + 1, stale)
        else (valid + 1, fresh, stale + 1))"

text \<open>The counts that the call hands out: total, valid, fresh and stale.\<close>

definition osal_cache_get_stats ::
  "cache_sys \<Rightarrow> u64 \<Rightarrow> u32 \<Rightarrow> u32 \<times> u32 \<times> u32 \<times> u32 \<Rightarrow> (int \<times> (u32 \<times> u32 \<times> u32 \<times> u32) \<times> cache_sys) option" where
  "osal_cache_get_stats s now cache_id counts =
     (if of_nat MAX_CACHES \<le> cache_id then Some (OSAL_ERR_INVALID_PARAM, counts, s)
      else
        let cache = sy_table s ! unat cache_id
        in if \<not> ds_in_use cache then Some (OSAL_ERR_INVALID_ID, counts, s)
           else case header_lock (ds_header cache) s of None \<Rightarrow> None | Some s \<Rightarrow>
             let h = sy_objects s (ds_header cache);
                 (valid, fresh, stale) = stats_loop now (take (unat (ch_max_entries h)) (ch_entries h)) (0, 0, 0)
             in Some (OSAL_SUCCESS, (ch_max_entries h, valid, fresh, stale), header_unlock (ds_header cache) s))"

section \<open>The specification\<close>

text \<open>
  A cache is a map from entry numbers to what was written last: data, time and validity. The header
  is well-formed when its mutex is free and each entry is either untouched or carries data with its
  own checksum.
\<close>

type_synonym cache_map = "nat \<Rightarrow> (u8 list \<times> u64 \<times> u32) option"

definition entry_value :: "osal_cache_entry \<Rightarrow> (u8 list \<times> u64 \<times> u32) option" where
  "entry_value e =
     (if ce_valid e then Some (take (unat (ce_data_len e)) (ce_data e), ce_timestamp_us e, ce_data_validity_ms e)
      else None)"

definition cache_map_of :: "shm_cache_header \<Rightarrow> cache_map" where
  "cache_map_of h i = (if i < length (ch_entries h) then entry_value (ch_entries h ! i) else None)"

definition entry_ok :: "osal_cache_entry \<Rightarrow> bool" where
  "entry_ok e \<longleftrightarrow> length (ce_data e) = OSAL_SHM_CACHE_MAX_DATA_SIZE \<and>
     (ce_valid e \<longrightarrow> 0 < ce_data_len e \<and> ce_data_len e \<le> of_nat OSAL_SHM_CACHE_MAX_DATA_SIZE \<and>
        ce_status e \<noteq> OSAL_CACHE_STATUS_INVALID \<and>
        ce_checksum e = osal_crc32 (Some (take (unat (ce_data_len e)) (ce_data e))))"

definition header_ok :: "shm_cache_header \<Rightarrow> bool" where
  "header_ok h \<longleftrightarrow> ch_magic h = SHM_CACHE_MAGIC \<and> \<not> ch_mutex h \<and>
     length (ch_entries h) = unat (ch_max_entries h) \<and> (\<forall>e \<in> set (ch_entries h). entry_ok e)"

definition value_fresh :: "u64 \<Rightarrow> u8 list \<times> u64 \<times> u32 \<Rightarrow> bool" where
  "value_fresh now v = (case v of (_, t, validity) \<Rightarrow> (ucast ((now - t) div 1000) :: u32) < validity)"

text \<open>A request with the time it is made at, and what comes back of it.\<close>

datatype cache_request = CACHE_WRITE u32 "u8 list" u32 | CACHE_READ u32 osal_cache_result
  | CACHE_INVALIDATE u32 | CACHE_STATS

datatype cache_reply = CACHE_DONE int | CACHE_RESULT int osal_cache_result
  | CACHE_COUNTS int "u32 \<times> u32 \<times> u32 \<times> u32"

fun cache_call :: "u32 \<Rightarrow> cache_sys \<Rightarrow> u64 \<times> cache_request \<Rightarrow> (cache_reply \<times> cache_sys) option" where
  "cache_call c s (now, CACHE_WRITE i data v) =
     map_option (\<lambda>(r, s). (CACHE_DONE r, s)) (osal_cache_write s now c i (Some data) (of_nat (length data)) v)"
| "cache_call c s (now, CACHE_READ i result) =
     map_option (\<lambda>(r, res, s). (CACHE_RESULT r (the res), s)) (osal_cache_read s now c i (Some result))"
| "cache_call c s (now, CACHE_INVALIDATE i) =
     map_option (\<lambda>(r, s). (CACHE_DONE r, s)) (osal_cache_invalidate s c i)"
| "cache_call c s (now, CACHE_STATS) =
     map_option (\<lambda>(r, counts, s). (CACHE_COUNTS r counts, s)) (osal_cache_get_stats s now c (0, 0, 0, 0))"

fun cache_session ::
  "u32 \<Rightarrow> cache_sys \<Rightarrow> (u64 \<times> cache_request) list \<Rightarrow> (cache_reply list \<times> cache_sys) option" where
  "cache_session c s [] = Some ([], s)"
| "cache_session c s (q # qs) =
     (case cache_call c s q of None \<Rightarrow> None
      | Some (a, s) \<Rightarrow> (case cache_session c s qs of None \<Rightarrow> None | Some (as, s) \<Rightarrow> Some (a # as, s)))"

text \<open>
  What a request answers and does to the map, when there are \<open>n\<close> entries. Invalidating does nothing
  to it.
\<close>

fun cache_spec :: "nat \<Rightarrow> cache_map \<Rightarrow> u64 \<times> cache_request \<Rightarrow> cache_reply \<times> cache_map" where
  "cache_spec n m (now, CACHE_WRITE i data v) =
     (if data = [] \<or> OSAL_SHM_CACHE_MAX_DATA_SIZE < length data \<or> n \<le> unat i then (CACHE_DONE OSAL_ERR_INVALID_PARAM, m)
      else (CACHE_DONE OSAL_SUCCESS, m(unat i \<mapsto> (data, now, v))))"
| "cache_spec n m (now, CACHE_READ i old) =
     (if n \<le> unat i then (CACHE_RESULT OSAL_ERR_INVALID_PARAM old, m)
      else case m (unat i) of
          None \<Rightarrow> (CACHE_RESULT OSAL_ERR_GENERIC old, m)
        | Some (data, t, v) \<Rightarrow>
            (CACHE_RESULT OSAL_SUCCESS (old\<lparr>cr_entry_id := i, cr_data := data @ drop (length data) (cr_data old),
               cr_data_len := of_nat (length data), cr_timestamp_us := t, cr_age_ms := ucast ((now - t) div 1000),
               cr_status := if value_fresh now (data, t, v) then OSAL_CACHE_STATUS_FRESH else OSAL_CACHE_STATUS_STALE,
               cr_checksum := osal_crc32 (Some data)\<rparr>), m))"
| "cache_spec n m (now, CACHE_INVALIDATE i) =
     (CACHE_DONE (if n \<le> unat i then OSAL_ERR_INVALID_PARAM else OSAL_SUCCESS), m)"
| "cache_spec n m (now, CACHE_STATS) =
     (let vs = List.map_filter m [0..<n]; fresh = length (filter (value_fresh now) vs)
      in (CACHE_COUNTS OSAL_SUCCESS (of_nat n, of_nat (length vs), of_nat fresh, of_nat (length vs - fresh)), m))"

fun cache_spec_session :: "nat \<Rightarrow> cache_map \<Rightarrow> (u64 \<times> cache_request) list \<Rightarrow> cache_reply list \<times> cache_map" where
  "cache_spec_session n m [] = ([], m)"
| "cache_spec_session n m (q # qs) =
     (case cache_spec n m q of (a, m) \<Rightarrow> (case cache_spec_session n m qs of (as, m) \<Rightarrow> (a # as, m)))"

section \<open>The operations meet it\<close>

lemma cache_crc_bit: "cache_crc_bit = crc32_bit"
  by (rule ext) (simp add: cache_crc_bit_def crc32_bit_alt and_one_eq mod_2_eq_odd bit_0)

lemma calculate_crc32: "calculate_crc32 data len = osal_crc32 (Some (take (unat len) data))"
proof -
  have crc32: "crc32_step = (\<lambda>crc d. (crc32_bit ^^ 8) (crc XOR ucast d))"
    by (intro ext) (rule crc32_step_bits)
  have "(0xFFFFFFFF :: u32) = - 1" by simp
  then have all_ones: "x XOR 0xFFFFFFFF = NOT x" for x :: u32 by (simp only: bit.xor_one_right)
  show ?thesis by (simp add: calculate_crc32_def osal_crc32_def cache_crc_bit crc32 all_ones)
qed

definition cache_at :: "u32 \<Rightarrow> cache_sys \<Rightarrow> shm_cache_header" where
  "cache_at c s = sy_objects s (ds_header (sy_table s ! unat c))"

definition cache_ready :: "u32 \<Rightarrow> cache_sys \<Rightarrow> bool" where
  "cache_ready c s \<longleftrightarrow> c < of_nat MAX_CACHES \<and> ds_in_use (sy_table s ! unat c) \<and> header_ok (cache_at c s)"

lemma header_unlocked: "\<not> ch_mutex h \<Longrightarrow> h\<lparr>ch_mutex := False\<rparr> = h"
  by simp

lemma locked_entry:
  assumes "\<not> ch_mutex (sy_objects s ob)"
  shows "header_lock ob s = Some (update_object ob (\<lambda>h. h\<lparr>ch_mutex := True\<rparr>) s)"
    and "header_unlock ob (update_entry ob i f (update_object ob (\<lambda>h. h\<lparr>ch_mutex := True\<rparr>) s)) = update_entry ob i f s"
    and "header_unlock ob (update_object ob (\<lambda>h. h\<lparr>ch_mutex := True\<rparr>) s) = s"
  using assms by (simp_all add: header_lock_def header_unlock_def update_entry_def update_object_def header_unlocked)

lemma update_object_sel [simp]:
  "sy_objects (update_object ob f s) ob' = (if ob' = ob then f (sy_objects s ob) else sy_objects s ob')"
  "sy_table (update_object ob f s) = sy_table s"
  by (simp_all add: update_object_def)

lemma update_entry_sel [simp]:
  "sy_table (update_entry ob i f s) = sy_table s"
  "ch_entries (sy_objects (update_entry ob i f s) ob) =
     (ch_entries (sy_objects s ob))[i := f (ch_entries (sy_objects s ob) ! i)]"
  "ch_max_entries (sy_objects (update_entry ob i f s) ob) = ch_max_entries (sy_objects s ob)"
  by (simp_all add: update_entry_def)

text \<open>Changing one entry of a ready cache.\<close>

lemma ready_update:
  assumes "cache_ready c s" and "i < unat (ch_max_entries (cache_at c s))"
    and "entry_ok (f (ch_entries (cache_at c s) ! i))"
  defines "s' \<equiv> update_entry (ds_header (sy_table s ! unat c)) i f s"
  shows "cache_ready c s'" and "ch_max_entries (cache_at c s') = ch_max_entries (cache_at c s)"
    and "cache_map_of (cache_at c s') = (cache_map_of (cache_at c s))(i := entry_value (f (ch_entries (cache_at c s) ! i)))"
  using assms
  by (auto simp: cache_ready_def header_ok_def cache_at_def update_entry_def cache_map_of_def fun_eq_iff nth_list_update
      dest!: set_update_subset_insert [THEN subsetD])

lemma ready_range:
  assumes "cache_ready c s"
  shows "\<not> of_nat MAX_CACHES \<le> c" and "ds_in_use (sy_table s ! unat c)"
    and "\<not> ch_mutex (sy_objects s (ds_header (sy_table s ! unat c)))"
  using assms by (auto simp: cache_ready_def header_ok_def cache_at_def)

lemma write_spec:
  assumes ready: "cache_ready c s" and "length data < 2 ^ 32"
  defines "ob \<equiv> ds_header (sy_table s ! unat c)"
  shows "osal_cache_write s now c i (Some data) (of_nat (length data)) v =
     (if data = [] \<or> OSAL_SHM_CACHE_MAX_DATA_SIZE < length data \<or> unat (ch_max_entries (cache_at c s)) \<le> unat i
      then Some (OSAL_ERR_INVALID_PARAM, s)
      else Some (OSAL_SUCCESS, update_entry ob (unat i)
             (\<lambda>e. e\<lparr>ce_data := data @ drop (length data) (ce_data e), ce_data_len := of_nat (length data),
                ce_timestamp_us := now, ce_data_validity_ms := v, ce_status := OSAL_CACHE_STATUS_FRESH, ce_valid := True,
                ce_update_count := ce_update_count e + 1, ce_checksum := osal_crc32 (Some data)\<rparr>) s))"
proof -
  have len: "unat (of_nat (length data) :: u32) = length data" using assms(2) by (simp add: unat_of_nat)
  then have zero: "(of_nat (length data) :: u32) = 0 \<longleftrightarrow> data = []" by (metis length_0_conv unat_eq_0)
  have big: "of_nat OSAL_SHM_CACHE_MAX_DATA_SIZE < (of_nat (length data) :: u32) \<longleftrightarrow>
      OSAL_SHM_CACHE_MAX_DATA_SIZE < length data"
    using len by (simp add: word_less_nat_alt)
  show ?thesis
    using ready_range [OF ready] len zero big
    by (simp add: osal_cache_write_def ob_def locked_entry calculate_crc32 Let_def word_le_nat_alt cache_at_def)
qed

lemma entry_written:
  assumes "length (ce_data e) = OSAL_SHM_CACHE_MAX_DATA_SIZE" and "data \<noteq> []" and "length data \<le> OSAL_SHM_CACHE_MAX_DATA_SIZE"
    and "e' = e\<lparr>ce_data := data @ drop (length data) (ce_data e), ce_data_len := of_nat (length data),
                ce_timestamp_us := now, ce_data_validity_ms := v, ce_status := OSAL_CACHE_STATUS_FRESH, ce_valid := True,
                ce_update_count := k, ce_checksum := osal_crc32 (Some data)\<rparr>"
  shows "entry_ok e'" and "entry_value e' = Some (data, now, v)"
proof -
  have len: "unat (of_nat (length data) :: u32) = length data" using assms(3) by (simp add: unat_of_nat)
  then have "(of_nat (length data) :: u32) \<le> of_nat OSAL_SHM_CACHE_MAX_DATA_SIZE" "0 < (of_nat (length data) :: u32)"
    using assms(2,3) by (simp_all add: word_le_nat_alt word_less_nat_alt)
  with len show "entry_ok e'" and "entry_value e' = Some (data, now, v)"
    using assms(1,3) by (simp_all add: assms(4) entry_ok_def entry_value_def)
qed

lemma ready_entry:
  assumes "cache_ready c s" and "i < unat (ch_max_entries (cache_at c s))"
  shows "entry_ok (ch_entries (cache_at c s) ! i)"
    and "cache_map_of (cache_at c s) i = entry_value (ch_entries (cache_at c s) ! i)"
  using assms by (simp_all add: cache_ready_def header_ok_def cache_map_of_def)

lemma stats_spec:
  assumes "\<forall>e \<in> set es. entry_ok e"
  defines "vs \<equiv> List.map_filter entry_value es"
  shows "stats_loop now es (a, b, d) =
     (a + of_nat (length vs), b + of_nat (length (filter (value_fresh now) vs)),
      d + of_nat (length vs - length (filter (value_fresh now) vs)))"
  using assms(1) unfolding vs_def
proof (induction es arbitrary: a b d)
  case (Cons e es)
  define ws where "ws = List.map_filter entry_value es"
  have le: "length (filter (value_fresh now) ws) \<le> length ws" by simp
  note IH = Cons.IH [folded ws_def]
  show ?case
  proof (cases "ce_valid e")
    case False
    then have "entry_value e = None" by (simp add: entry_value_def)
    with False IH Cons.prems show ?thesis by (simp add: List.map_filter_simps ws_def [symmetric])
  next
    case True
    then obtain val where val: "entry_value e = Some val" and
      fresh: "value_fresh now val \<longleftrightarrow> entry_age_ms now e < ce_data_validity_ms e"
      by (simp add: entry_value_def value_fresh_def entry_age_ms_def)
    have "ce_status e \<noteq> OSAL_CACHE_STATUS_INVALID" using True Cons.prems by (simp add: entry_ok_def)
    with True IH Cons.prems le show ?thesis
      by (simp add: List.map_filter_simps ws_def [symmetric] val fresh Suc_diff_le add.assoc)
  qed
qed (simp add: List.map_filter_simps)

lemma map_filter_cong:
  "(\<And>x. x \<in> set xs \<Longrightarrow> f x = g x) \<Longrightarrow> List.map_filter f xs = List.map_filter g xs"
  by (induction xs) (auto simp: List.map_filter_simps split: option.split)

lemma map_filter_map: "List.map_filter f (map g xs) = List.map_filter (\<lambda>x. f (g x)) xs"
  by (induction xs) (auto simp: List.map_filter_simps split: option.split)

lemma map_filter_entries:
  assumes "cache_ready c s"
  shows "List.map_filter (cache_map_of (cache_at c s)) [0..<unat (ch_max_entries (cache_at c s))] =
     List.map_filter entry_value (ch_entries (cache_at c s))"
proof -
  let ?es = "ch_entries (cache_at c s)"
  have len: "length ?es = unat (ch_max_entries (cache_at c s))" using assms by (simp add: cache_ready_def header_ok_def)
  have "List.map_filter entry_value ?es = List.map_filter entry_value (map ((!) ?es) [0..<length ?es])"
    by (simp only: map_nth)
  also have "\<dots> = List.map_filter (\<lambda>i. entry_value (?es ! i)) [0..<length ?es]" by (rule map_filter_map)
  also have "\<dots> = List.map_filter (cache_map_of (cache_at c s)) [0..<length ?es]"
    by (rule map_filter_cong) (simp add: cache_map_of_def)
  finally show ?thesis by (simp add: len)
qed

fun request_small :: "u64 \<times> cache_request \<Rightarrow> bool" where
  "request_small (now, CACHE_WRITE i data v) \<longleftrightarrow> length data < 2 ^ 32"
| "request_small _ \<longleftrightarrow> True"

lemma read_spec:
  fixes i :: u32
  assumes ready: "cache_ready c s"
  defines "ob \<equiv> ds_header (sy_table s ! unat c)" and "e \<equiv> ch_entries (cache_at c s) ! unat i"
  shows "osal_cache_read s now c i (Some old) =
     (if unat (ch_max_entries (cache_at c s)) \<le> unat i then Some (OSAL_ERR_INVALID_PARAM, Some old, s)
      else if \<not> ce_valid e then Some (OSAL_ERR_GENERIC, Some old, s)
      else Some (OSAL_SUCCESS, Some (old\<lparr>cr_entry_id := i,
               cr_data := take (unat (ce_data_len e)) (ce_data e) @ drop (unat (ce_data_len e)) (cr_data old),
               cr_data_len := ce_data_len e, cr_timestamp_us := ce_timestamp_us e, cr_age_ms := entry_age_ms now e,
               cr_status := if ce_status e = OSAL_CACHE_STATUS_INVALID then OSAL_CACHE_STATUS_INVALID
                 else if entry_age_ms now e < ce_data_validity_ms e then OSAL_CACHE_STATUS_FRESH
                 else OSAL_CACHE_STATUS_STALE, cr_checksum := ce_checksum e\<rparr>),
             update_entry ob (unat i) (\<lambda>e. e\<lparr>ce_read_count := ce_read_count e + 1\<rparr>) s))"
  using ready_range [OF ready]
  by (simp add: osal_cache_read_def ob_def e_def locked_entry Let_def word_le_nat_alt cache_at_def)

lemma invalidate_spec:
  assumes ready: "cache_ready c s"
  defines "ob \<equiv> ds_header (sy_table s ! unat c)"
  shows "osal_cache_invalidate s c i =
     (if unat (ch_max_entries (cache_at c s)) \<le> unat i then Some (OSAL_ERR_INVALID_PARAM, s)
      else Some (OSAL_SUCCESS, if ce_valid (ch_entries (cache_at c s) ! unat i)
             then update_entry ob (unat i) (\<lambda>e. e\<lparr>ce_status := OSAL_CACHE_STATUS_STALE\<rparr>) s else s))"
  using ready_range [OF ready]
  by (simp add: osal_cache_invalidate_def ob_def locked_entry Let_def word_le_nat_alt cache_at_def)

lemma get_stats_spec:
  assumes ready: "cache_ready c s"
  shows "osal_cache_get_stats s now c counts =
     (case stats_loop now (ch_entries (cache_at c s)) (0, 0, 0) of
        (a, b, d) \<Rightarrow> Some (OSAL_SUCCESS, (ch_max_entries (cache_at c s), a, b, d), s))"
proof -
  have "length (ch_entries (cache_at c s)) = unat (ch_max_entries (cache_at c s))"
    using ready by (simp add: cache_ready_def header_ok_def)
  then show ?thesis
    using ready_range [OF ready]
    by (simp add: osal_cache_get_stats_def locked_entry Let_def cache_at_def case_prod_unfold)
qed

definition cache_step_ok :: "u32 \<Rightarrow> cache_sys \<Rightarrow> u64 \<times> cache_request \<Rightarrow> cache_sys \<Rightarrow> bool" where
  "cache_step_ok c s q s' \<longleftrightarrow>
     cache_call c s q = Some (fst (cache_spec (unat (ch_max_entries (cache_at c s))) (cache_map_of (cache_at c s)) q), s') \<and>
     cache_ready c s' \<and> ch_max_entries (cache_at c s') = ch_max_entries (cache_at c s) \<and>
     cache_map_of (cache_at c s') =
       snd (cache_spec (unat (ch_max_entries (cache_at c s))) (cache_map_of (cache_at c s)) q)"

lemma write_step:
  assumes ready: "cache_ready c s" and small: "length data < 2 ^ 32"
  shows "\<exists>s'. cache_step_ok c s (now, CACHE_WRITE i data v) s'"
proof (cases "data = [] \<or> OSAL_SHM_CACHE_MAX_DATA_SIZE < length data \<or> unat (ch_max_entries (cache_at c s)) \<le> unat i")
  case True
  then have "cache_step_ok c s (now, CACHE_WRITE i data v) s"
    using write_spec [OF assms, where now = now and i = i and v = v] ready by (simp add: cache_step_ok_def)
  then show ?thesis ..
next
  case False
  define F where "F = (\<lambda>e :: osal_cache_entry. e\<lparr>ce_data := data @ drop (length data) (ce_data e), ce_data_len := of_nat (length data),
                ce_timestamp_us := now, ce_data_validity_ms := v, ce_status := OSAL_CACHE_STATUS_FRESH, ce_valid := True,
                ce_update_count := ce_update_count e + 1, ce_checksum := osal_crc32 (Some data)\<rparr>)"
  let ?e = "ch_entries (cache_at c s) ! unat i"
  have i: "unat i < unat (ch_max_entries (cache_at c s))" using False by simp
  have "length (ce_data ?e) = OSAL_SHM_CACHE_MAX_DATA_SIZE" using ready_entry(1) [OF ready i] by (simp add: entry_ok_def)
  with False have F: "entry_ok (F ?e)" "entry_value (F ?e) = Some (data, now, v)"
    using entry_written [where e = ?e and e' = "F ?e" and data = data and now = now and v = v and k = "ce_update_count ?e + 1"] by (simp_all add: F_def)
  note up = ready_update [OF ready i, of F, OF F(1)]
  show ?thesis
    using write_spec [OF assms, where now = now and i = i and v = v, folded F_def] up False F(2)
    by (intro exI [of _ "update_entry (ds_header (sy_table s ! unat c)) (unat i) F s"]) (simp add: cache_step_ok_def)
qed

lemma read_step:
  assumes ready: "cache_ready c s"
  shows "\<exists>s'. cache_step_ok c s (now, CACHE_READ i old) s'"
proof (cases "unat (ch_max_entries (cache_at c s)) \<le> unat i")
  case True
  then have "cache_step_ok c s (now, CACHE_READ i old) s"
    using read_spec [OF ready, where i = i and now = now and old = old] ready by (simp add: cache_step_ok_def)
  then show ?thesis ..
next
  case False
  define e where "e = ch_entries (cache_at c s) ! unat i"
  have i: "unat i < unat (ch_max_entries (cache_at c s))" using False by simp
  note e = ready_entry [OF ready i, folded e_def]
  show ?thesis
  proof (cases "ce_valid e")
    case invalid: False
    then have "cache_step_ok c s (now, CACHE_READ i old) s"
      using read_spec [OF ready, where i = i and now = now and old = old, folded e_def] ready False e(2)
      by (simp add: cache_step_ok_def entry_value_def)
    then show ?thesis ..
  next
    case True
    define F where "F = (\<lambda>e :: osal_cache_entry. e\<lparr>ce_read_count := ce_read_count e + 1\<rparr>)"
    have F: "entry_ok (F e)" "entry_value (F e) = entry_value e" using e(1) by (simp_all add: F_def entry_ok_def entry_value_def)
    note up = ready_update [OF ready i, of F, folded e_def, OF F(1)]
    have same: "(cache_map_of (cache_at c s))(unat i := entry_value e) = cache_map_of (cache_at c s)"
      using e(2) by (simp add: fun_upd_idem)
    have ok: "ce_status e \<noteq> OSAL_CACHE_STATUS_INVALID" "length (ce_data e) = 256" "ce_data_len e \<le> 256"
      "ce_checksum e = osal_crc32 (Some (take (unat (ce_data_len e)) (ce_data e)))"
      using e(1) True by (simp_all add: entry_ok_def)
    have len: "length (take (unat (ce_data_len e)) (ce_data e)) = unat (ce_data_len e)"
      using ok(2,3) by (simp add: word_le_nat_alt)
    define s' where "s' = update_entry (ds_header (sy_table s ! unat c)) (unat i) F s"
    have after: "cache_ready c s'" "ch_max_entries (cache_at c s') = ch_max_entries (cache_at c s)"
      "cache_map_of (cache_at c s') = cache_map_of (cache_at c s)"
      using up same F(2) by (simp_all add: s'_def)
    have "cache_step_ok c s (now, CACHE_READ i old) s'"
      using read_spec [OF ready, where i = i and now = now and old = old, folded e_def F_def] after False True e(2) ok len
      by (simp add: s'_def cache_step_ok_def entry_value_def value_fresh_def entry_age_ms_def)
    then show ?thesis ..
  qed
qed

lemma invalidate_step:
  assumes ready: "cache_ready c s"
  shows "\<exists>s'. cache_step_ok c s (now, CACHE_INVALIDATE i) s'"
proof (cases "unat i < unat (ch_max_entries (cache_at c s)) \<and> ce_valid (ch_entries (cache_at c s) ! unat i)")
  case False
  then have "cache_step_ok c s (now, CACHE_INVALIDATE i) s"
    using invalidate_spec [OF ready, of i] ready by (auto simp: cache_step_ok_def)
  then show ?thesis ..
next
  case True
  define e where "e = ch_entries (cache_at c s) ! unat i"
  define F where "F = (\<lambda>e :: osal_cache_entry. e\<lparr>ce_status := OSAL_CACHE_STATUS_STALE\<rparr>)"
  have i: "unat i < unat (ch_max_entries (cache_at c s))" using True by simp
  note e = ready_entry [OF ready i, folded e_def]
  have F: "entry_ok (F e)" "entry_value (F e) = entry_value e" using e(1) by (simp_all add: F_def entry_ok_def entry_value_def)
  note up = ready_update [OF ready i, of F, folded e_def, OF F(1)]
  have same: "(cache_map_of (cache_at c s))(unat i := entry_value e) = cache_map_of (cache_at c s)"
    using e(2) by (simp add: fun_upd_idem)
  show ?thesis
    using invalidate_spec [OF ready, of i, folded F_def] up True
    by (intro exI [of _ "update_entry (ds_header (sy_table s ! unat c)) (unat i) F s"])
      (simp add: cache_step_ok_def F(2) same)
qed

lemma call_step:
  assumes "cache_ready c s" and "request_small q"
  shows "\<exists>s'. cache_step_ok c s q s'"
proof -
  obtain now r where q: "q = (now, r)" by fastforce
  show ?thesis
  proof (cases r)
    case CACHE_STATS
    have "\<forall>e \<in> set (ch_entries (cache_at c s)). entry_ok e" using assms(1) by (simp add: cache_ready_def header_ok_def)
    then have "cache_step_ok c s (now, CACHE_STATS) s"
      using get_stats_spec [OF assms(1), of now "(0, 0, 0, 0)"] assms(1)
      by (simp add: cache_step_ok_def stats_spec map_filter_entries Let_def)
    then show ?thesis using q CACHE_STATS by blast
  qed (use assms q write_step read_step invalidate_step in auto)
qed

lemma session_steps:
  assumes "cache_ready c s" and "\<forall>q \<in> set qs. request_small q"
    and "cache_spec_session (unat (ch_max_entries (cache_at c s))) (cache_map_of (cache_at c s)) qs = (as, m)"
  shows "\<exists>s'. cache_session c s qs = Some (as, s') \<and> cache_ready c s' \<and> cache_map_of (cache_at c s') = m \<and>
     ch_max_entries (cache_at c s') = ch_max_entries (cache_at c s)"
  using assms
proof (induction qs arbitrary: s as m)
  case (Cons q qs)
  from call_step [OF Cons.prems(1), of q] Cons.prems(2) obtain s1 where one: "cache_step_ok c s q s1" by auto
  note st = one [unfolded cache_step_ok_def]
  obtain as' m' where rest: "cache_spec_session (unat (ch_max_entries (cache_at c s1))) (cache_map_of (cache_at c s1)) qs = (as', m')"
    by fastforce
  from Cons.IH [OF _ _ rest] st Cons.prems(2) obtain s2 where two: "cache_session c s1 qs = Some (as', s2)"
    "cache_ready c s2" "cache_map_of (cache_at c s2) = m'" "ch_max_entries (cache_at c s2) = ch_max_entries (cache_at c s1)"
    by auto
  have "as = fst (cache_spec (unat (ch_max_entries (cache_at c s))) (cache_map_of (cache_at c s)) q) # as'" "m = m'"
    using Cons.prems(3) st rest by (simp_all add: case_prod_unfold)
  with st two show ?case by simp
qed simp

section \<open>Creating, opening and deleting\<close>

lemma find_free_slot_range:
  "find_free_slot ds k = - 1 \<or> (int k \<le> find_free_slot ds k \<and> nat (find_free_slot ds k) - k < length ds \<and>
     \<not> ds_in_use (ds ! (nat (find_free_slot ds k) - k)))"
  by (induction ds k rule: find_free_slot.induct) (auto simp: nth_Cons' Suc_diff_Suc)

lemma find_free_cache_slot_range:
  assumes "\<not> find_free_cache_slot s < 0" and "length (sy_table s) = MAX_CACHES"
  shows "nat (find_free_cache_slot s) < MAX_CACHES" and "\<not> ds_in_use (sy_table s ! nat (find_free_cache_slot s))"
    and "unat (of_int (find_free_cache_slot s) :: u32) = nat (find_free_cache_slot s)"
proof -
  show less: "nat (find_free_cache_slot s) < MAX_CACHES" and "\<not> ds_in_use (sy_table s ! nat (find_free_cache_slot s))"
    using find_free_slot_range [of "sy_table s" 0] assms by (auto simp: find_free_cache_slot_def)
  then show "unat (of_int (find_free_cache_slot s) :: u32) = nat (find_free_cache_slot s)"
    using assms(1) by (simp add: unsigned_of_int take_bit_int_eq_self)
qed

lemma header_init_ok:
  "header_ok (cache_header_init n)" "cache_map_of (cache_header_init n) i = None"
  "ch_max_entries (cache_header_init n) = n" "ch_magic (cache_header_init n) = SHM_CACHE_MAGIC"
  by (auto simp: header_ok_def cache_header_init_def entry_ok_def cache_entry_zero_def cache_map_of_def entry_value_def)

text \<open>The object behind the name: the one that is there, or the one that is made.\<close>

definition named_object :: "cache_os \<Rightarrow> cache_sys \<Rightarrow> string \<Rightarrow> nat" where
  "named_object os s name = (case sy_names s name of Some ob \<Rightarrow> ob | None \<Rightarrow> co_object os)"

text \<open>The system after \<open>shm_open\<close> with \<open>O_CREAT\<close>.\<close>

lemma shm_open_create:
  fixes name :: string and s :: cache_sys
  assumes "\<not> co_fd os < 0"
  defines "s1 \<equiv> snd (shm_open os name True s)"
  shows "shm_open os name True s = (co_fd os, s1)" and "sy_table s1 = sy_table s"
    and "sy_maps s1 = sy_maps s" and "sy_fds s1 = (sy_fds s)(co_fd os \<mapsto> named_object os s name)"
    and "sy_names s1 = (sy_names s)(name \<mapsto> named_object os s name)"
    and "ob \<noteq> named_object os s name \<Longrightarrow> sy_objects s1 ob = sy_objects s ob"
  using assms(1) by (cases "sy_names s name"; simp add: s1_def shm_open_def named_object_def fun_upd_idem)+

lemma create_ok:
  fixes name :: string
  assumes "\<not> sy_table_mutex s" and "n \<noteq> 0" and "\<not> find_free_cache_slot s < 0" and "0 \<le> co_fd os"
    and "co_ftruncate os" and "co_mmap os"
  defines "ob \<equiv> named_object os s name" and "k \<equiv> nat (find_free_cache_slot s)"
  shows "\<exists>s'. osal_cache_create os s (Some name) n (Some x) = Some (0, Some (of_int (find_free_cache_slot s)), s') \<and>
      sy_table s' = (sy_table s)[k := cache_descriptor_fill name (co_fd os) ob (56 + unat n * 296)] \<and>
      sy_fds s' = (sy_fds s)(co_fd os \<mapsto> ob) \<and> sy_maps s' = add_mset ob (sy_maps s) \<and>
      sy_objects s' ob = cache_header_init n \<and> (\<forall>other. other \<noteq> ob \<longrightarrow> sy_objects s' other = sy_objects s other) \<and>
      sy_names s' = (sy_names s)(name \<mapsto> ob) \<and> \<not> sy_table_mutex s'"
proof -
  define s0 where "s0 = s\<lparr>sy_table_mutex := True\<rparr>"
  have s0: "table_lock s = Some s0" "find_free_cache_slot s0 = find_free_cache_slot s" "sy_names s0 = sy_names s"
    "sy_table s0 = sy_table s" "sy_fds s0 = sy_fds s" "sy_maps s0 = sy_maps s" "sy_objects s0 = sy_objects s"
    using assms(1) by (simp_all add: s0_def table_lock_def find_free_cache_slot_def)
  have ob: "named_object os s0 name = ob" by (simp add: ob_def named_object_def s0)
  have "\<not> co_fd os < 0" using assms(4) by simp
  note o1 = shm_open_create [OF this, where name = name and s = s0, unfolded ob]
  define s1 where "s1 = snd (shm_open os name True s0)"
  note opened = o1(1) [folded s1_def] and s1 = o1(2-6) [folded s1_def]
  show ?thesis
    using assms(2-6) s1
    by (simp add: osal_cache_create_def s0 opened Let_def shm_mmap_def update_object_def table_unlock_def k_def)
qed

lemma create_fails:
  assumes "\<not> sy_table_mutex s" and "n \<noteq> 0" and "sy_fds s (co_fd os) = None"
    and "find_free_cache_slot s < 0 \<or> co_fd os < 0 \<or> \<not> co_ftruncate os \<or> \<not> co_mmap os"
  shows "\<exists>r s'. osal_cache_create os s (Some name) n (Some x) = Some (r, Some x, s') \<and> r \<noteq> 0 \<and>
      sy_table s' = sy_table s \<and> sy_fds s' = sy_fds s \<and> sy_maps s' = sy_maps s \<and> \<not> sy_table_mutex s'"
proof -
  define s0 where "s0 = s\<lparr>sy_table_mutex := True\<rparr>"
  have s0: "table_lock s = Some s0" "find_free_cache_slot s0 = find_free_cache_slot s" "sy_names s0 = sy_names s"
    "sy_table s0 = sy_table s" "sy_fds s0 = sy_fds s" "sy_maps s0 = sy_maps s" "sy_objects s0 = sy_objects s"
    using assms(1) by (simp_all add: s0_def table_lock_def find_free_cache_slot_def)
  show ?thesis
  proof (cases "find_free_cache_slot s < 0 \<or> co_fd os < 0")
    case True
    then show ?thesis using assms(2)
      by (auto simp: osal_cache_create_def s0 Let_def shm_open_def table_unlock_def)
  next
    case False
    have "\<not> co_fd os < 0" using False by simp
    note o1 = shm_open_create [OF this, where name = name and s = s0]
    define s1 where "s1 = snd (shm_open os name True s0)"
    note opened = o1(1) [folded s1_def] and s1 = o1(2-4) [folded s1_def]
    have fds: "(sy_fds s)(co_fd os := None) = sy_fds s" using assms(3) by (simp add: fun_upd_idem)
    show ?thesis
    proof (cases "co_ftruncate os")
      case True
      with False assms(2,4) s1 show ?thesis
        by (simp add: osal_cache_create_def s0 opened Let_def shm_close_def shm_unlink_def table_unlock_def fds)
    next
      case f: False
      with False assms(2) s1 show ?thesis
        by (simp add: osal_cache_create_def s0 opened Let_def shm_close_def shm_unlink_def table_unlock_def fds)
    qed
  qed
qed

lemma open_ok:
  assumes "osal_cache_open os s (Some name) (Some x) = Some (0, c, s')" and "length (sy_table s) = MAX_CACHES"
    and "\<not> sy_table_mutex s"
  defines "k \<equiv> nat (find_free_cache_slot s)"
  shows "\<exists>ob size. sy_names s name = Some ob \<and> c = Some (of_int (find_free_cache_slot s)) \<and> \<not> find_free_cache_slot s < 0 \<and>
      sy_table s' = (sy_table s)[k := cache_descriptor_fill name (co_fd os) ob size] \<and>
      sy_objects s' = sy_objects s \<and> \<not> sy_table_mutex s'"
proof -
  define s0 where "s0 = s\<lparr>sy_table_mutex := True\<rparr>"
  have s0: "table_lock s = Some s0" "find_free_cache_slot s0 = find_free_cache_slot s" "sy_names s0 = sy_names s"
    "sy_table s0 = sy_table s" "sy_fds s0 = sy_fds s" "sy_maps s0 = sy_maps s" "sy_objects s0 = sy_objects s"
    using assms(3) by (simp_all add: s0_def table_lock_def find_free_cache_slot_def)
  have slot: "\<not> find_free_cache_slot s < 0" using assms(1) by (auto simp: osal_cache_open_def s0)
  have fd: "\<not> fst (shm_open os name False s0) < 0"
    using assms(1) slot by (auto simp: osal_cache_open_def s0 Let_def split_beta)
  then obtain ob where ob: "sy_names s name = Some ob" and fd': "\<not> co_fd os < 0" by (auto simp: shm_open_def s0 split: if_splits option.splits)
  then have opened: "shm_open os name False s0 = (co_fd os, s0\<lparr>sy_fds := (sy_fds s)(co_fd os \<mapsto> ob)\<rparr>)"
    by (simp add: shm_open_def s0)
  have st: "co_fstat os" using assms(1) slot fd' by (cases "co_fstat os") (simp_all add: osal_cache_open_def s0 opened Let_def)
  have mm: "co_mmap os" using assms(1) slot fd' st by (cases "co_mmap os") (simp_all add: osal_cache_open_def s0 opened Let_def)
  have mg: "ch_magic (sy_objects s ob) = SHM_CACHE_MAGIC" using assms(1) slot fd' st mm
    by (cases "ch_magic (sy_objects s ob) = SHM_CACHE_MAGIC") (simp_all add: osal_cache_open_def s0 opened Let_def shm_mmap_def)
  show ?thesis
    using assms(1) slot fd' st mm mg ob by (auto simp: osal_cache_open_def s0 opened Let_def shm_mmap_def k_def table_unlock_def)
qed


lemma delete_ready:
  assumes "cache_ready c s" and "\<not> sy_table_mutex s"
  defines "d \<equiv> sy_table s ! unat c"
  shows "osal_cache_delete s c = Some (0, s\<lparr>sy_table := (sy_table s)[unat c := cache_descriptor_zero],
     sy_maps := sy_maps s - {#ds_shm_ptr d#}, sy_fds := (sy_fds s)(ds_shm_fd d := None),
     sy_names := (sy_names s)(ds_name d := None)\<rparr>)"
  using ready_range [OF assms(1)] assms(2)
  by (simp add: osal_cache_delete_def table_lock_def table_unlock_def shm_munmap_def shm_close_def shm_unlink_def
      Let_def d_def)

text \<open>What no request on a cache changes: everything outside the objects.\<close>

abbreviation (input) cache_outside where
  "cache_outside s \<equiv> (sy_table s, sy_table_mutex s, sy_names s, sy_fds s, sy_maps s)"

lemma update_entry_outside [simp]:
  "sy_table_mutex (update_entry ob i f s) = sy_table_mutex s" "sy_names (update_entry ob i f s) = sy_names s"
  "sy_fds (update_entry ob i f s) = sy_fds s" "sy_maps (update_entry ob i f s) = sy_maps s"
  by (simp_all add: update_entry_def update_object_def)

lemma cache_call_outside:
  assumes "cache_ready c s" and "request_small q" and "cache_call c s q = Some (a, s')"
  shows "cache_outside s' = cache_outside s"
proof -
  obtain now r where q: "q = (now, r)" by fastforce
  show ?thesis
  proof (cases r)
    case (CACHE_WRITE i data v)
    with assms q show ?thesis by (auto simp: write_spec split: if_splits)
  next
    case (CACHE_READ i old)
    with assms q show ?thesis by (auto simp: read_spec split: if_splits)
  next
    case (CACHE_INVALIDATE i)
    with assms q show ?thesis by (auto simp: invalidate_spec split: if_splits)
  next
    case CACHE_STATS
    with assms q show ?thesis by (auto simp: get_stats_spec)
  qed
qed

lemma cache_session_outside:
  assumes "cache_ready c s" and "\<forall>q \<in> set qs. request_small q" and "cache_session c s qs = Some (as, s')"
  shows "cache_outside s' = cache_outside s"
  using assms
proof (induction qs arbitrary: s as)
  case (Cons q qs)
  from call_step [OF Cons.prems(1), of q] Cons.prems(2) obtain s1 where one: "cache_step_ok c s q s1" by auto
  note st = one [unfolded cache_step_ok_def]
  from st Cons.prems(3) obtain as' where rest: "cache_session c s1 qs = Some (as', s')" by (auto split: option.splits)
  have "cache_outside s1 = cache_outside s" using cache_call_outside [OF Cons.prems(1)] Cons.prems(2) st by (metis list.set_intros(1))
  with Cons.IH [OF _ _ rest] st Cons.prems(2) show ?case by simp
qed simp

section \<open>A system with one cache\<close>

definition one_cache_sys :: cache_sys where
  "one_cache_sys = \<lparr>sy_table = cache_descriptor_fill ''c'' 3 0 648 # replicate 15 cache_descriptor_zero,
     sy_table_mutex = False, sy_names = [''c'' \<mapsto> 0], sy_objects = (\<lambda>_. cache_header_init 2), sy_sizes = (\<lambda>_. 648),
     sy_fds = [3 \<mapsto> 0], sy_maps = {#0#}\<rparr>"

definition all_calls_succeed :: "int \<Rightarrow> nat \<Rightarrow> cache_os" where
  "all_calls_succeed fd ob = \<lparr>co_fd = fd, co_object = ob, co_ftruncate = True, co_fstat = True, co_mmap = True\<rparr>"

definition no_result :: osal_cache_result where
  "no_result = \<lparr>cr_entry_id = 0, cr_data = [], cr_data_len = 0, cr_timestamp_us = 0, cr_age_ms = 0,
     cr_status = OSAL_CACHE_STATUS_INVALID, cr_checksum = 0\<rparr>"

lemma one_cache_at: "cache_at 0 one_cache_sys = cache_header_init 2"
  by (simp add: cache_at_def one_cache_sys_def)

lemma one_cache_ready: "cache_ready 0 one_cache_sys"
  by (simp add: cache_ready_def one_cache_at header_init_ok) (simp add: one_cache_sys_def cache_descriptor_fill_def)

lemma one_cache_map: "cache_map_of (cache_at 0 one_cache_sys) = (\<lambda>_. None)"
  by (rule ext) (simp add: one_cache_at header_init_ok)

section \<open>Properties\<close>

text \<open>
  Marking an entry as stale has no effect that a user of the cache can see: every list of
  requests gets the same answers as if the entry had not been marked. The state that
  \<open>osal_cache_invalidate\<close> sets is only compared with \<open>INVALID\<close>; whether data is fresh is decided by its age
  alone.
\<close>

theorem cache_invalidate_ineffective:
  assumes "cache_ready c s" and "osal_cache_invalidate s c i = Some (r, s')" and "\<forall>q \<in> set qs. request_small q"
  shows "\<exists>answers t t'. cache_session c s qs = Some (answers, t) \<and> cache_session c s' qs = Some (answers, t')"
proof -
  from invalidate_step [OF assms(1), of now i for now :: u64] assms(2) have s': "cache_ready c s'"
    "ch_max_entries (cache_at c s') = ch_max_entries (cache_at c s)"
    "cache_map_of (cache_at c s') = cache_map_of (cache_at c s)" by (auto simp: cache_step_ok_def)
  obtain answers m where
    "cache_spec_session (unat (ch_max_entries (cache_at c s))) (cache_map_of (cache_at c s)) qs = (answers, m)" by fastforce
  then show ?thesis using session_steps [OF assms(1,3)] session_steps [OF s'(1) assms(3)] s'(2,3) by metis
qed

theorem cache_invalidate_ineffective_witness:
  "\<exists>r s' answers t t'. osal_cache_invalidate one_cache_sys 0 1 = Some (r, s') \<and>
     cache_session 0 one_cache_sys [(1000, CACHE_READ 1 no_result)] = Some (answers, t) \<and>
     cache_session 0 s' [(1000, CACHE_READ 1 no_result)] = Some (answers, t')"
proof -
  obtain r s' where inv: "osal_cache_invalidate one_cache_sys 0 1 = Some (r, s')"
    using invalidate_spec [OF one_cache_ready] by (metis surj_pair)
  have "\<forall>q \<in> set [(1000, CACHE_READ 1 no_result)]. request_small q" by simp
  from cache_invalidate_ineffective [OF one_cache_ready inv this] inv show ?thesis by blast
qed

text \<open>
  C20. A cache answers any list of requests as the map from entry numbers to the data written last:
  no call blocks, the mutex is free afterwards, a read gives back exactly the data with its age and
  the CRC-32 of the data, fresh or stale by the age that fits 32 bits of milliseconds, the counts are
  those of the map, and a request for an entry that does not exist is refused. Marking entries as stale is
  not among the things that count: against \<open>osal_shm_cache.h\<close>, \<open>osal_cache_invalidate\<close> changes no answer of
  a later session, and data that was fresh before it is still read as \<open>FRESH\<close> after it.
\<close>

theorem cache_session_refines:
  assumes "cache_ready c s" and "\<forall>q \<in> set qs. request_small q"
    and "cache_spec_session (unat (ch_max_entries (cache_at c s))) (cache_map_of (cache_at c s)) qs = (answers, m)"
  shows "(\<exists>s'. cache_session c s qs = Some (answers, s') \<and> cache_ready c s' \<and> cache_map_of (cache_at c s') = m) \<and>
    (\<forall>i r si. osal_cache_invalidate s c i = Some (r, si) \<longrightarrow> (\<exists>t. cache_session c si qs = Some (answers, t)))"
proof -
  obtain s' where "cache_session c s qs = Some (answers, s')" "cache_ready c s'" "cache_map_of (cache_at c s') = m"
    using session_steps [OF assms] by blast
  then show ?thesis using cache_invalidate_ineffective [OF assms(1) _ assms(2)] by force
qed

theorem cache_session_refines_witness:
  "\<exists>s'. cache_session 0 one_cache_sys [(1000, CACHE_WRITE 1 [7, 8] 5), (4500, CACHE_READ 1 no_result),
      (6000, CACHE_STATS), (6000, CACHE_READ 0 no_result), (6000, CACHE_READ 2 no_result)] =
     Some ([CACHE_DONE 0,
        CACHE_RESULT 0 \<lparr>cr_entry_id = 1, cr_data = [7, 8], cr_data_len = 2, cr_timestamp_us = 1000, cr_age_ms = 3,
          cr_status = OSAL_CACHE_STATUS_FRESH, cr_checksum = osal_crc32 (Some [7, 8])\<rparr>,
        CACHE_COUNTS 0 (2, 1, 0, 1), CACHE_RESULT 5 no_result, CACHE_RESULT 22 no_result], s') \<and>
     cache_ready 0 s' \<and> cache_map_of (cache_at 0 s') = (\<lambda>_. None)(1 \<mapsto> ([7, 8], 1000, 5))"
proof -
  have range: "[0..<2] = [0, Suc 0]" by (simp add: upt_rec)
  show ?thesis
    by (rule conjunct1 [OF cache_session_refines [OF one_cache_ready]])
      (simp_all add: one_cache_map, simp add: one_cache_at header_init_ok no_result_def value_fresh_def
        range List.map_filter_simps)
qed

text \<open>
  C21. Creating a cache either fails, with the identifier, the table, the descriptors and the
  mappings as before, or gives a free slot of the table with an empty cache of \<open>n\<close> entries. After any
  use of it, deleting it gives the descriptor and the mapping back. The name it removes is the stored
  copy, cut to 63 characters: a longer name stays bound to its object.
\<close>

theorem cache_lifecycle:
  assumes "length (sy_table s) = MAX_CACHES" and "\<not> sy_table_mutex s" and "n \<noteq> 0"
    and "sy_fds s (co_fd os) = None" and "osal_cache_create os s (Some name) n (Some x) = Some (r, c, s1)"
  shows "(r \<noteq> 0 \<and> c = Some x \<and> sy_table s1 = sy_table s \<and> sy_fds s1 = sy_fds s \<and> sy_maps s1 = sy_maps s) \<or>
     (r = 0 \<and> (\<exists>i. c = Some i \<and> \<not> ds_in_use (sy_table s ! unat i) \<and> cache_ready i s1 \<and>
        ch_max_entries (cache_at i s1) = n \<and> cache_map_of (cache_at i s1) = (\<lambda>_. None) \<and>
        (\<forall>qs answers s2. (\<forall>q \<in> set qs. request_small q) \<longrightarrow> cache_session i s1 qs = Some (answers, s2) \<longrightarrow>
           (\<exists>s3. osal_cache_delete s2 i = Some (0, s3) \<and>
              sy_table s3 = (sy_table s)[unat i := cache_descriptor_zero] \<and>
              sy_fds s3 = sy_fds s \<and> sy_maps s3 = sy_maps s \<and> sy_names s3 (strscpy 64 name) = None \<and>
              (64 \<le> length name \<longrightarrow> sy_names s3 name = Some (named_object os s name))))))"
proof (cases "find_free_cache_slot s < 0 \<or> co_fd os < 0 \<or> \<not> co_ftruncate os \<or> \<not> co_mmap os")
  case True
  then show ?thesis using create_fails [of s n os name x] assms by auto
next
  case False
  let ?ob = "named_object os s name" and ?k = "nat (find_free_cache_slot s)" and ?i = "of_int (find_free_cache_slot s) :: u32"
  note k = find_free_cache_slot_range [OF _ assms(1)]
  have slot: "\<not> find_free_cache_slot s < 0" using False by simp
  from create_ok [of s n os name x] False assms have c: "r = 0" "c = Some ?i"
    "sy_table s1 = (sy_table s)[?k := cache_descriptor_fill name (co_fd os) ?ob (56 + unat n * 296)]"
    "sy_fds s1 = (sy_fds s)(co_fd os \<mapsto> ?ob)" "sy_maps s1 = add_mset ?ob (sy_maps s)"
    "sy_objects s1 ?ob = cache_header_init n" "sy_names s1 = (sy_names s)(name \<mapsto> ?ob)" "\<not> sy_table_mutex s1" by auto
  have d: "sy_table s1 ! ?k = cache_descriptor_fill name (co_fd os) ?ob (56 + unat n * 296)"
    using k(1) [OF slot] assms(1) c(3) by simp
  have at: "cache_at ?i s1 = cache_header_init n"
    using d c(6) k(3) [OF slot] by (simp add: cache_at_def cache_descriptor_fill_def)
  have ready: "cache_ready ?i s1"
    using d at k [OF slot] by (simp add: cache_ready_def header_init_ok cache_descriptor_fill_def word_less_nat_alt)
  have del: "\<exists>s3. osal_cache_delete s2 ?i = Some (0, s3) \<and>
      sy_table s3 = (sy_table s)[unat ?i := cache_descriptor_zero] \<and>
      sy_fds s3 = sy_fds s \<and> sy_maps s3 = sy_maps s \<and> sy_names s3 (strscpy 64 name) = None \<and>
      (64 \<le> length name \<longrightarrow> sy_names s3 name = Some ?ob)"
    if qs: "\<forall>q \<in> set qs. request_small q" "cache_session ?i s1 qs = Some (answers, s2)" for qs answers s2
  proof -
    from cache_session_outside [OF ready qs] have o2: "sy_table s2 = sy_table s1" "\<not> sy_table_mutex s2"
      "sy_names s2 = sy_names s1" "sy_fds s2 = sy_fds s1" "sy_maps s2 = sy_maps s1" using c(8) by simp_all
    obtain as m where "cache_spec_session (unat (ch_max_entries (cache_at ?i s1))) (cache_map_of (cache_at ?i s1)) qs = (as, m)"
      by fastforce
    from session_steps [OF ready qs(1) this] qs(2) have "cache_ready ?i s2" by auto
    moreover have "64 \<le> length name \<Longrightarrow> name \<noteq> strscpy 64 name"
      using length_strscpy [of 64 name] by (metis linorder_not_le zero_less_numeral)
    ultimately show ?thesis using delete_ready [OF _ o2(2), of ?i] o2 d c(3-5,7) k(3) [OF slot] assms(4)
      by (simp add: cache_descriptor_fill_def fun_upd_idem)
  qed
  show ?thesis using c(1,2) k(2,3) [OF slot] ready at del by (auto simp: header_init_ok)
qed

theorem cache_lifecycle_witness:
  "\<exists>s1 s3. osal_cache_create (all_calls_succeed 4 1) one_cache_sys (Some ''d'') 3 (Some 9) = Some (0, Some 1, s1) \<and>
     cache_ready 1 s1 \<and> ch_max_entries (cache_at 1 s1) = 3 \<and>
     osal_cache_delete s1 1 = Some (0, s3) \<and> sy_fds s3 = sy_fds one_cache_sys \<and> sy_maps s3 = sy_maps one_cache_sys"
proof -
  let ?os = "all_calls_succeed 4 1"
  have slot: "find_free_cache_slot one_cache_sys = 1"
    by (simp add: find_free_cache_slot_def one_cache_sys_def cache_descriptor_fill_def cache_descriptor_zero_def numeral_eq_Suc)
  have pre: "length (sy_table one_cache_sys) = MAX_CACHES" "\<not> sy_table_mutex one_cache_sys"
    "sy_fds one_cache_sys (co_fd ?os) = None" "0 \<le> co_fd ?os" "co_ftruncate ?os" "co_mmap ?os" "(3 :: u32) \<noteq> 0"
    by (simp_all add: one_cache_sys_def all_calls_succeed_def)
  from slot have "\<not> find_free_cache_slot one_cache_sys < 0" by simp
  from create_ok [OF pre(2,7) this pre(4-6), of "''d''" 9] slot
  obtain s1 where new: "osal_cache_create ?os one_cache_sys (Some ''d'') 3 (Some 9) = Some (0, Some 1, s1)" by auto
  from cache_lifecycle [OF pre(1,2,7,3) new] have ok: "cache_ready 1 s1" "ch_max_entries (cache_at 1 s1) = 3"
    and del: "\<forall>qs. (\<forall>q \<in> set qs. request_small q) \<longrightarrow> (\<forall>answers s2. cache_session 1 s1 qs = Some (answers, s2) \<longrightarrow>
       (\<exists>s3. osal_cache_delete s2 1 = Some (0, s3) \<and> sy_table s3 = (sy_table one_cache_sys)[Suc 0 := cache_descriptor_zero] \<and>
          sy_fds s3 = sy_fds one_cache_sys \<and> sy_maps s3 = sy_maps one_cache_sys \<and> sy_names s3 ''d'' = None))"
    by simp_all
  from del [rule_format, of "[]" "[]" s1] obtain s3 where "osal_cache_delete s1 1 = Some (0, s3)"
    "sy_fds s3 = sy_fds one_cache_sys" "sy_maps s3 = sy_maps one_cache_sys" by auto
  with new ok show ?thesis by blast
qed

end
