(* ===== verification/Osal_Shm_High.thy ===== *)
theory Osal_Shm_High
  imports Osal_Base
begin

text \<open>
  Shared memory by handles, \<open>src/user/osal/src/ipc/osal_shm_highlevel.c\<close>: a table of 32 descriptors with
  their sizes, whose index is the handle. The system calls are arguments; the state has the
  descriptors that are open in the process.
\<close>

section \<open>The table\<close>

abbreviation (input) MAX_SHM_HANDLES :: nat where "MAX_SHM_HANDLES \<equiv> 32"
abbreviation (input) OSAL_SHM_CREATE :: u32 where "OSAL_SHM_CREATE \<equiv> 1"
abbreviation (input) OSAL_SHM_RDWR :: u32 where "OSAL_SHM_RDWR \<equiv> 2"
abbreviation (input) OSAL_SHM_RDONLY :: u32 where "OSAL_SHM_RDONLY \<equiv> 4"

record shm_context =
  sx_fd :: int
  sx_size :: u64

record shm_proc =
  sp_table :: "shm_context list"
  sp_initialized :: bool
  sp_fds :: "int set"

text \<open>Static memory is zero; the standard descriptors and others may be open.\<close>

definition shm_proc_start :: "int set \<Rightarrow> shm_proc" where
  "shm_proc_start fds = \<lparr>sp_table = replicate MAX_SHM_HANDLES \<lparr>sx_fd = 0, sx_size = 0\<rparr>,
     sp_initialized = False, sp_fds = fds\<rparr>"

definition init_shm_table :: "shm_proc \<Rightarrow> shm_proc" where
  "init_shm_table s =
     (if sp_initialized s then s
      else s\<lparr>sp_table := replicate MAX_SHM_HANDLES \<lparr>sx_fd = - 1, sx_size = 0\<rparr>, sp_initialized := True\<rparr>)"

fun free_handle :: "nat \<Rightarrow> shm_context list \<Rightarrow> int" where
  "free_handle i [] = - 1"
| "free_handle i (c # cs) = (if sx_fd c = - 1 then int i else free_handle (Suc i) cs)"

definition alloc_shm_handle :: "int \<Rightarrow> u64 \<Rightarrow> shm_proc \<Rightarrow> int \<times> shm_proc" where
  "alloc_shm_handle fd sz s =
     (let s = init_shm_table s;
          i = free_handle 0 (sp_table s)
      in (i, if i < 0 then s else s\<lparr>sp_table := (sp_table s)[nat i := \<lparr>sx_fd = fd, sx_size = sz\<rparr>]\<rparr>))"

definition free_shm_handle :: "int \<Rightarrow> shm_proc \<Rightarrow> shm_proc" where
  "free_shm_handle handle s =
     (if 0 \<le> handle \<and> handle < int MAX_SHM_HANDLES
      then s\<lparr>sp_table := (sp_table s)[nat handle := \<lparr>sx_fd = - 1, sx_size = 0\<rparr>]\<rparr> else s)"

definition get_shm_context :: "int \<Rightarrow> shm_proc \<Rightarrow> shm_context option" where
  "get_shm_context handle s =
     (if 0 \<le> handle \<and> handle < int MAX_SHM_HANDLES \<and> sx_fd (sp_table s ! nat handle) \<noteq> - 1
      then Some (sp_table s ! nat handle) else None)"

section \<open>Operations\<close>

definition shm_oflag_rdwr :: "u32 \<Rightarrow> bool" where
  "shm_oflag_rdwr flags \<longleftrightarrow> flags AND OSAL_SHM_RDWR \<noteq> 0 \<or> flags AND OSAL_SHM_RDONLY = 0"

text \<open>
  \<open>shm_open\<close> gets the name, whether to create, and whether for writing, and answers a descriptor;
  \<open>ftruncate\<close> answers whether it worked. The last component is the new handle.
\<close>

definition osal_shm_create ::
  "(string \<Rightarrow> bool \<Rightarrow> bool \<Rightarrow> int option) \<Rightarrow> bool \<Rightarrow> string option \<Rightarrow> u64 \<Rightarrow> u32 \<Rightarrow> bool \<Rightarrow> shm_proc \<Rightarrow>
   int \<times> shm_proc \<times> int option" where
  "osal_shm_create shm_open ftruncate name sz flags shm s =
     (case name of
        None \<Rightarrow> (OSAL_ERR_INVALID_PARAM, s, None)
      | Some n \<Rightarrow>
          if \<not> shm then (OSAL_ERR_INVALID_PARAM, s, None)
          else case shm_open n (flags AND OSAL_SHM_CREATE \<noteq> 0) (shm_oflag_rdwr flags) of
            None \<Rightarrow> (OSAL_ERR_GENERIC, s, None)
          | Some fd \<Rightarrow>
              let s = s\<lparr>sp_fds := insert fd (sp_fds s)\<rparr> in
              if flags AND OSAL_SHM_CREATE \<noteq> 0 \<and> \<not> ftruncate
              then (OSAL_ERR_GENERIC, s\<lparr>sp_fds := sp_fds s - {fd}\<rparr>, None)
              else case alloc_shm_handle fd sz s of (handle, s) \<Rightarrow>
                if handle < 0 then (OSAL_ERR_NO_MEMORY, s\<lparr>sp_fds := sp_fds s - {fd}\<rparr>, None)
                else (OSAL_SUCCESS, s, Some handle))"

text \<open>\<open>mmap\<close> gets the length, whether for writing, the descriptor and the offset.\<close>

definition osal_shm_map ::
  "(u64 \<Rightarrow> bool \<Rightarrow> int \<Rightarrow> int \<Rightarrow> nat option) \<Rightarrow> int \<Rightarrow> int \<Rightarrow> u64 \<Rightarrow> u32 \<Rightarrow> bool \<Rightarrow> shm_proc \<Rightarrow> int \<times> nat option" where
  "osal_shm_map mmap shm off len flags addr s =
     (if \<not> addr then (OSAL_ERR_INVALID_PARAM, None)
      else case get_shm_context shm s of
        None \<Rightarrow> (OSAL_ERR_INVALID_PARAM, None)
      | Some ctx \<Rightarrow>
          (case mmap (if len = 0 then sx_size ctx else len) (shm_oflag_rdwr flags) (sx_fd ctx) off of
             None \<Rightarrow> (OSAL_ERR_GENERIC, None)
           | Some a \<Rightarrow> (OSAL_SUCCESS, Some a)))"

definition osal_shm_unmap :: "(nat \<Rightarrow> u64 \<Rightarrow> bool) \<Rightarrow> nat option \<Rightarrow> u64 \<Rightarrow> int" where
  "osal_shm_unmap munmap addr len =
     (case addr of
        None \<Rightarrow> OSAL_ERR_INVALID_PARAM
      | Some a \<Rightarrow> if munmap a len then OSAL_SUCCESS else OSAL_ERR_GENERIC)"

definition osal_shm_close :: "int \<Rightarrow> shm_proc \<Rightarrow> int \<times> shm_proc" where
  "osal_shm_close shm s =
     (case get_shm_context shm s of
        None \<Rightarrow> (OSAL_ERR_INVALID_PARAM, s)
      | Some ctx \<Rightarrow> (OSAL_SUCCESS, free_shm_handle shm (s\<lparr>sp_fds := sp_fds s - {sx_fd ctx}\<rparr>)))"

definition osal_shm_remove :: "(string \<Rightarrow> bool) \<Rightarrow> string option \<Rightarrow> int" where
  "osal_shm_remove shm_unlink name =
     (case name of
        None \<Rightarrow> OSAL_ERR_INVALID_PARAM
      | Some n \<Rightarrow> if shm_unlink n then OSAL_SUCCESS else OSAL_ERR_GENERIC)"

section \<open>Sessions\<close>

text \<open>
  The descriptors of the table, by handle: the specification is a partial map from the 32 handles
  to descriptors with sizes.
\<close>

definition shm_view :: "shm_proc \<Rightarrow> nat \<Rightarrow> shm_context option" where
  "shm_view s h = (if h < MAX_SHM_HANDLES then get_shm_context (int h) (init_shm_table s) else None)"

datatype shm_call = SHM_CREATE "int option" bool string u64 u32 | SHM_CLOSE int

definition shm_do :: "shm_call \<Rightarrow> shm_proc \<Rightarrow> int \<times> shm_proc" where
  "shm_do c s =
     (case c of
        SHM_CREATE fd tr n sz flags \<Rightarrow>
          (case osal_shm_create (\<lambda>_ _ _. fd) tr (Some n) sz flags True s of (r, s, _) \<Rightarrow> (r, s))
      | SHM_CLOSE h \<Rightarrow> osal_shm_close h s)"

fun shm_run :: "shm_call list \<Rightarrow> shm_proc \<Rightarrow> shm_proc" where
  "shm_run [] s = s"
| "shm_run (c # cs) s = shm_run cs (snd (shm_do c s))"

text \<open>\<open>shm_open\<close> answers descriptors that are not open.\<close>

fun shm_fresh :: "shm_call list \<Rightarrow> shm_proc \<Rightarrow> bool" where
  "shm_fresh [] s \<longleftrightarrow> True"
| "shm_fresh (c # cs) s \<longleftrightarrow>
     (case c of SHM_CREATE (Some fd) tr n sz flags \<Rightarrow> 0 \<le> fd \<and> fd \<notin> sp_fds s | _ \<Rightarrow> True) \<and>
     shm_fresh cs (snd (shm_do c s))"

definition shm_table_fds :: "shm_proc \<Rightarrow> int set" where
  "shm_table_fds s = {fd. fd \<noteq> - 1 \<and> (\<exists>i < MAX_SHM_HANDLES. sx_fd (sp_table s ! i) = fd)}"

text \<open>
  Once the table is initialised: the descriptors in it are open, each is in it once, and the open
  descriptors are those and the ones from before.
\<close>

definition shm_inv :: "int set \<Rightarrow> shm_proc \<Rightarrow> bool" where
  "shm_inv old s \<longleftrightarrow> sp_initialized s \<and> length (sp_table s) = MAX_SHM_HANDLES \<and>
     (\<forall>i < MAX_SHM_HANDLES. \<forall>j < MAX_SHM_HANDLES. sx_fd (sp_table s ! i) \<noteq> - 1 \<longrightarrow>
        sx_fd (sp_table s ! i) = sx_fd (sp_table s ! j) \<longrightarrow> i = j) \<and>
     shm_table_fds s \<inter> old = {} \<and> sp_fds s = old \<union> shm_table_fds s"

lemma free_handle_found:
  "free_handle k cs = r \<Longrightarrow> r \<noteq> - 1 \<Longrightarrow>
    int k \<le> r \<and> nat r - k < length cs \<and> sx_fd (cs ! (nat r - k)) = - 1"
proof (induction k cs rule: free_handle.induct)
  case (2 i c cs)
  show ?case
  proof (cases "sx_fd c = - 1")
    case False
    with 2 have "int (Suc i) \<le> r \<and> nat r - Suc i < length cs \<and> sx_fd (cs ! (nat r - Suc i)) = - 1" by simp
    moreover from this have "nat r - i = Suc (nat r - Suc i)" by linarith
    ultimately show ?thesis by auto
  qed (use 2 in auto)
qed simp

lemma free_handle_full: "free_handle k cs = - 1 \<Longrightarrow> \<forall>c \<in> set cs. sx_fd c \<noteq> - 1"
  by (induction k cs rule: free_handle.induct) (auto split: if_splits)

lemma shm_inv_put:
  assumes inv: "shm_inv old s" and i: "i < MAX_SHM_HANDLES" and free: "sx_fd (sp_table s ! i) = - 1"
    and fd: "fd \<noteq> - 1" "fd \<notin> sp_fds s"
  shows "shm_inv old (s\<lparr>sp_fds := insert fd (sp_fds s), sp_table := (sp_table s)[i := \<lparr>sx_fd = fd, sx_size = sz\<rparr>]\<rparr>)"
proof -
  let ?t = "(sp_table s)[i := \<lparr>sx_fd = fd, sx_size = sz\<rparr>]"
  have len: "length (sp_table s) = MAX_SHM_HANDLES" using inv by (simp add: shm_inv_def)
  have at: "sx_fd (?t ! j) = (if j = i then fd else sx_fd (sp_table s ! j))" if "j < MAX_SHM_HANDLES" for j
    using that len by (simp add: nth_list_update)
  have new: "sx_fd (sp_table s ! j) \<noteq> fd" if "j < MAX_SHM_HANDLES" for j
    using inv fd that by (auto simp: shm_inv_def shm_table_fds_def)
  have fds: "shm_table_fds (s\<lparr>sp_fds := insert fd (sp_fds s), sp_table := ?t\<rparr>) = insert fd (shm_table_fds s)"
    using at i fd free by (auto simp: shm_table_fds_def)
  show ?thesis
    unfolding shm_inv_def fds using inv fd at new by (auto simp: shm_inv_def len)
qed

lemma shm_inv_drop:
  assumes inv: "shm_inv old s" and i: "i < MAX_SHM_HANDLES" and used: "sx_fd (sp_table s ! i) \<noteq> - 1"
  shows "shm_inv old (s\<lparr>sp_fds := sp_fds s - {sx_fd (sp_table s ! i)}, sp_table := (sp_table s)[i := \<lparr>sx_fd = - 1, sx_size = 0\<rparr>]\<rparr>)"
proof -
  let ?t = "(sp_table s)[i := \<lparr>sx_fd = - 1, sx_size = 0\<rparr>]"
  let ?fd = "sx_fd (sp_table s ! i)"
  have len: "length (sp_table s) = MAX_SHM_HANDLES" using inv by (simp add: shm_inv_def)
  have at: "sx_fd (?t ! j) = (if j = i then - 1 else sx_fd (sp_table s ! j))" if "j < MAX_SHM_HANDLES" for j
    using that len by (simp add: nth_list_update)
  have one: "sx_fd (sp_table s ! j) \<noteq> ?fd" if "j < MAX_SHM_HANDLES" "j \<noteq> i" for j
    using inv used i that unfolding shm_inv_def by metis
  have fds: "shm_table_fds (s\<lparr>sp_fds := sp_fds s - {?fd}, sp_table := ?t\<rparr>) = shm_table_fds s - {?fd}"
    using at one by (auto simp: shm_table_fds_def) (metis)+
  have "?fd \<notin> old" using inv used i by (auto simp: shm_inv_def shm_table_fds_def)
  then show ?thesis
    unfolding shm_inv_def fds using inv at by (auto simp: shm_inv_def len)
qed

lemma create_result:
  assumes inv: "shm_inv old s" and new: "fd \<notin> sp_fds s" "fd \<noteq> - 1"
    and c: "osal_shm_create (\<lambda>_ _ _. Some fd) tr (Some n) sz flags True s = (r, s', h)"
  shows "shm_inv old s' \<and> (r \<noteq> OSAL_SUCCESS \<longrightarrow> sp_fds s' = sp_fds s)"
proof -
  let ?s = "s\<lparr>sp_fds := insert fd (sp_fds s)\<rparr>"
  have init: "init_shm_table ?s = ?s" using inv by (simp add: init_shm_table_def shm_inv_def)
  have undo: "?s\<lparr>sp_fds := sp_fds ?s - {fd}\<rparr> = s" using new by simp
  define i where "i = free_handle 0 (sp_table s)"
  show ?thesis
  proof (cases "flags AND OSAL_SHM_CREATE \<noteq> 0 \<and> \<not> tr \<or> i < 0")
    case True
    then have "s' = s \<and> r \<noteq> OSAL_SUCCESS"
      using c undo by (auto simp: osal_shm_create_def alloc_shm_handle_def init Let_def i_def split: if_splits)
    with inv show ?thesis by simp
  next
    case False
    then have f: "i \<noteq> - 1" "0 \<le> i" by auto
    have "nat i < MAX_SHM_HANDLES \<and> sx_fd (sp_table s ! nat i) = - 1"
      using free_handle_found [OF i_def [symmetric] f(1)] inv by (simp add: shm_inv_def)
    moreover have "r = OSAL_SUCCESS \<and> s' = ?s\<lparr>sp_table := (sp_table s)[nat i := \<lparr>sx_fd = fd, sx_size = sz\<rparr>]\<rparr>"
      using c False f by (auto simp: osal_shm_create_def alloc_shm_handle_def init Let_def i_def)
    ultimately show ?thesis using shm_inv_put [OF inv _ _ new(2,1), of "nat i" sz] by simp
  qed
qed

lemma shm_do_inv:
  assumes inv: "shm_inv old s" and fresh: "shm_fresh [c] s"
  shows "shm_inv old (snd (shm_do c s))"
proof (cases c)
  case (SHM_CREATE fd tr n sz flags)
  show ?thesis
  proof (cases fd)
    case None
    then show ?thesis using inv by (simp add: shm_do_def SHM_CREATE osal_shm_create_def)
  next
    case (Some d)
    then have new: "d \<notin> sp_fds s" "d \<noteq> - 1" using fresh by (auto simp: SHM_CREATE)
    obtain r s' h where c: "osal_shm_create (\<lambda>_ _ _. Some d) tr (Some n) sz flags True s = (r, s', h)"
      by (metis prod_cases3)
    then show ?thesis using create_result [OF inv new c] by (simp add: shm_do_def SHM_CREATE Some)
  qed
next
  case (SHM_CLOSE h)
  show ?thesis
  proof (cases "get_shm_context h s")
    case None
    then show ?thesis using inv by (simp add: shm_do_def SHM_CLOSE osal_shm_close_def)
  next
    case (Some ctx)
    then have h: "nat h < MAX_SHM_HANDLES" "0 \<le> h" "h < int MAX_SHM_HANDLES" "sx_fd (sp_table s ! nat h) \<noteq> - 1"
      "ctx = sp_table s ! nat h"
      by (auto simp: get_shm_context_def split: if_splits)
    then show ?thesis
      using shm_inv_drop [OF inv h(1,4)] Some by (simp add: shm_do_def SHM_CLOSE osal_shm_close_def free_shm_handle_def)
  qed
qed

lemma shm_run_inv: "shm_inv old s \<Longrightarrow> shm_fresh cs s \<Longrightarrow> shm_inv old (shm_run cs s)"
proof (induction cs arbitrary: s)
  case (Cons c cs)
  have "shm_fresh [c] s" and "shm_fresh cs (snd (shm_do c s))" using Cons.prems(2) by simp_all
  then show ?case using Cons.IH shm_do_inv [OF Cons.prems(1)] by simp
qed simp

text \<open>The first create that succeeds initialises the table.\<close>

lemma first_create:
  assumes "osal_shm_create (\<lambda>_ _ _. Some fd) tr (Some n) sz flags True (shm_proc_start old) = (r, s', h)"
    and "0 \<le> fd" and "fd \<notin> old" and "r = OSAL_SUCCESS"
  shows "shm_inv old s' \<and> h = Some 0"
proof -
  let ?t = "replicate MAX_SHM_HANDLES \<lparr>sx_fd = - 1, sx_size = (0 :: u64)\<rparr>"
  have z: "free_handle 0 ?t = 0" by (simp add: numeral_eq_Suc)
  have s': "h = Some 0 \<and> s' = \<lparr>sp_table = ?t[0 := \<lparr>sx_fd = fd, sx_size = sz\<rparr>], sp_initialized = True, sp_fds = insert fd old\<rparr>"
    using assms z by (auto simp: osal_shm_create_def alloc_shm_handle_def init_shm_table_def shm_proc_start_def Let_def
        split: if_splits)
  have "shm_inv old \<lparr>sp_table = ?t, sp_initialized = True, sp_fds = old\<rparr>"
    by (auto simp: shm_inv_def shm_table_fds_def)
  from shm_inv_put [OF this, of 0 fd sz] assms(2,3) s' show ?thesis by simp
qed

text \<open>
  C31. From the first successful create on, no descriptor of shared memory is leaked, closed twice or
  shared by two handles: whatever is created and closed, with the failures of the system and of a
  full table, the descriptors open in the process are those from before and those of the handles in
  the table, each in one place.
\<close>

theorem shm_no_leak:
  assumes "osal_shm_create (\<lambda>_ _ _. Some fd) tr (Some n) sz flags True (shm_proc_start old) = (OSAL_SUCCESS, s, h)"
    and "0 \<le> fd" and "fd \<notin> old" and "shm_fresh cs s" and "t = shm_run cs s"
  shows "sp_fds t = old \<union> shm_table_fds t \<and> shm_table_fds t \<inter> old = {} \<and>
    (\<forall>i < MAX_SHM_HANDLES. \<forall>j < MAX_SHM_HANDLES. sx_fd (sp_table t ! i) \<noteq> - 1 \<longrightarrow>
       sx_fd (sp_table t ! i) = sx_fd (sp_table t ! j) \<longrightarrow> i = j)"
proof -
  have "shm_inv old s" using first_create [OF assms(1-3)] by simp
  then have "shm_inv old t" using shm_run_inv [OF _ assms(4)] assms(5) by simp
  then show ?thesis by (simp add: shm_inv_def)
qed

lemma shm_no_leak_witness:
  "\<exists>s. osal_shm_create (\<lambda>_ _ _. Some 3) True (Some ''/m'') 64 1 True (shm_proc_start {0, 1, 2}) = (OSAL_SUCCESS, s, Some 0) \<and>
     sp_fds (shm_run [SHM_CLOSE 0] s) = {0, 1, 2} \<union> shm_table_fds (shm_run [SHM_CLOSE 0] s)"
proof -
  obtain r s h where c: "osal_shm_create (\<lambda>_ _ _. Some 3) True (Some ''/m'') 64 1 True (shm_proc_start {0, 1, 2}) = (r, s, h)"
    by (metis prod_cases3)
  then have r: "r = OSAL_SUCCESS \<and> h = Some 0"
    by (auto simp: osal_shm_create_def alloc_shm_handle_def init_shm_table_def shm_proc_start_def Let_def numeral_eq_Suc
        split: if_splits)
  with c have "osal_shm_create (\<lambda>_ _ _. Some 3) True (Some ''/m'') 64 1 True (shm_proc_start {0, 1, 2}) = (OSAL_SUCCESS, s, h)"
    by simp
  from shm_no_leak [OF this, of "[SHM_CLOSE 0]"] c r show ?thesis by auto
qed

text \<open>
  Before the first create the table is all zeros, so every handle stands for descriptor 0, and
  closing one closes the standard input.
\<close>

lemma close_before_create:
  "0 \<le> h \<Longrightarrow> h < 32 \<Longrightarrow> osal_shm_close h (shm_proc_start old) =
    (OSAL_SUCCESS, (shm_proc_start old)\<lparr>sp_fds := old - {0},
       sp_table := (replicate MAX_SHM_HANDLES \<lparr>sx_fd = 0, sx_size = 0\<rparr>)[nat h := \<lparr>sx_fd = - 1, sx_size = 0\<rparr>]\<rparr>)"
  by (simp add: osal_shm_close_def get_shm_context_def shm_proc_start_def free_shm_handle_def)

end
