(* ===== verification/Osal_Time.thy ===== *)
theory Osal_Time
  imports Osal_Flock
begin

text \<open>
  Time in the OSAL: what the sleeping functions of the user library
  (\<open>src/user/osal/src/sys/osal_time.c\<close>) and of the kernel module
  (\<open>src/kernel/osal/src/sys/osal_time.c\<close>) ask the system for, what the clocks read, and the deadlines
  of the locks with a limit (\<open>osal_mutex.c\<close>, \<open>osal_semaphore.c\<close>, \<open>osal_cond.c\<close> of the user library).
\<close>

section \<open>Sleeping\<close>

text \<open>
  What the system is asked for: to sleep some nanoseconds at least, and for \<open>usleep_range\<close> the upper
  bound in microseconds. The kernel module first.
\<close>

datatype sleep_request =
    NO_SLEEP
  | MSLEEP u32
  | UDELAY u32
  | USLEEP_RANGE u32 u32
  | POSIX_USLEEP u32
  | POSIX_SLEEP u32
  | POSIX_NANOSLEEP u64 u64

definition U32_MAX :: u64 where
  "U32_MAX = 0xFFFFFFFF"

definition kernel_msleep :: "u32 \<Rightarrow> int \<times> sleep_request" where
  "kernel_msleep msec = (OSAL_SUCCESS, MSLEEP msec)"

definition kernel_usleep :: "u32 \<Rightarrow> int \<times> sleep_request" where
  "kernel_usleep usec =
     (if usec = 0 then (OSAL_SUCCESS, NO_SLEEP)
      else (OSAL_SUCCESS, if usec < 10 then UDELAY usec else USLEEP_RANGE usec (usec + min (usec div 8) 1000)))"

definition kernel_sleep :: "u32 \<Rightarrow> int \<times> sleep_request" where
  "kernel_sleep sec =
     (let msec = (ucast sec :: u64) * 1000
      in if U32_MAX < msec then (OSAL_ERR_INVALID_SIZE, NO_SLEEP) else kernel_msleep (ucast msec))"

definition kernel_nanosleep :: "u64 \<Rightarrow> int \<times> sleep_request" where
  "kernel_nanosleep nsec =
     (let usec = (nsec + 1000 - 1) div 1000
      in if U32_MAX < usec then (OSAL_ERR_INVALID_SIZE, NO_SLEEP) else kernel_usleep (ucast usec))"

text \<open>The user library; \<open>ok\<close> is whether the system slept to the end.\<close>

definition user_msleep :: "bool \<Rightarrow> u32 \<Rightarrow> int \<times> sleep_request" where
  "user_msleep ok msec = (if ok then OSAL_SUCCESS else OSAL_ERR_GENERIC, POSIX_USLEEP (msec * 1000))"

definition user_usleep :: "bool \<Rightarrow> u32 \<Rightarrow> int \<times> sleep_request" where
  "user_usleep ok usec = (if ok then OSAL_SUCCESS else OSAL_ERR_GENERIC, POSIX_USLEEP usec)"

definition user_sleep :: "bool \<Rightarrow> u32 \<Rightarrow> int \<times> sleep_request" where
  "user_sleep ok sec = (if ok then OSAL_SUCCESS else OSAL_ERR_GENERIC, POSIX_SLEEP sec)"

definition user_nanosleep :: "bool \<Rightarrow> u64 \<Rightarrow> int \<times> sleep_request" where
  "user_nanosleep ok nsec =
     (if ok then OSAL_SUCCESS else OSAL_ERR_GENERIC, POSIX_NANOSLEEP (nsec div 1000000000) (nsec mod 1000000000))"

text \<open>The least number of nanoseconds a request stands for.\<close>

fun request_ns :: "sleep_request \<Rightarrow> nat" where
  "request_ns NO_SLEEP = 0"
| "request_ns (MSLEEP ms) = unat ms * 1000000"
| "request_ns (UDELAY us) = unat us * 1000"
| "request_ns (USLEEP_RANGE us us') = unat us * 1000"
| "request_ns (POSIX_USLEEP us) = unat us * 1000"
| "request_ns (POSIX_SLEEP s) = unat s * 1000000000"
| "request_ns (POSIX_NANOSLEEP s ns) = unat s * 1000000000 + unat ns"

lemma unat_u32_max: "unat U32_MAX = 4294967295"
  by (simp add: U32_MAX_def)

lemma unat_ucast_u32: "unat (w :: u64) < 2 ^ 32 \<Longrightarrow> unat (ucast w :: u32) = unat w"
  by (simp add: unsigned_ucast_eq take_bit_nat_eq_self)

lemma unat_ucast_u64: "unat (ucast (w :: u32) :: u64) = unat w"
proof -
  have "unat w < 2 ^ LENGTH(32)" by (rule unsigned_less)
  then have "take_bit 64 (unat w) = unat w" by (intro take_bit_nat_eq_self) simp
  then show ?thesis by (simp add: unsigned_ucast_eq)
qed

lemma kernel_usleep_ns: "request_ns (snd (kernel_usleep us)) = unat us * 1000" "fst (kernel_usleep us) = OSAL_SUCCESS"
  by (simp_all add: kernel_usleep_def)

lemma kernel_sleep_ns:
  "kernel_sleep sec =
     (if 4294967 < unat sec then (OSAL_ERR_INVALID_SIZE, NO_SLEEP) else (OSAL_SUCCESS, MSLEEP (of_nat (unat sec * 1000))))"
proof -
  have s: "unat sec < 2 ^ LENGTH(32)" by (rule unsigned_less)
  have m: "unat ((ucast sec :: u64) * 1000) = unat sec * 1000"
    using s by (subst unat_mult_lem [THEN iffD1]) (simp_all add: unat_ucast_u64)
  have "(U32_MAX < (ucast sec :: u64) * 1000) = (4294967 < unat sec)"
    by (simp add: word_less_nat_alt m unat_u32_max) linarith
  moreover have "(ucast ((ucast sec :: u64) * 1000) :: u32) = of_nat (unat sec * 1000)"
    by (simp add: word_unat_eq_iff unsigned_ucast_eq unsigned_of_nat m del: of_nat_mult)
  ultimately show ?thesis by (simp add: kernel_sleep_def kernel_msleep_def Let_def)
qed

lemma kernel_nanosleep_ns:
  assumes "unat nsec < 2 ^ 64 - 999"
  shows "fst (kernel_nanosleep nsec) = (if 4294967295000 < unat nsec then OSAL_ERR_INVALID_SIZE else OSAL_SUCCESS)"
    and "unat nsec \<le> 4294967295000 \<Longrightarrow> request_ns (snd (kernel_nanosleep nsec)) = (unat nsec + 999) div 1000 * 1000"
proof -
  have "nsec + 1000 - 1 = nsec + 999" by simp
  moreover have "unat (nsec + 999) = unat nsec + 999"
    using assms by (subst unat_add_lem [THEN iffD1]) simp_all
  ultimately have "unat (nsec + 1000 - 1) = unat nsec + 999" by (simp only:)
  then have u: "unat ((nsec + 1000 - 1) div 1000) = (unat nsec + 999) div 1000"
    unfolding unat_div by simp
  have lt: "(U32_MAX < (nsec + 1000 - 1) div 1000) = (4294967295000 < unat nsec)"
    unfolding word_less_nat_alt u unat_u32_max by linarith
  show "fst (kernel_nanosleep nsec) = (if 4294967295000 < unat nsec then OSAL_ERR_INVALID_SIZE else OSAL_SUCCESS)"
    unfolding kernel_nanosleep_def Let_def lt using kernel_usleep_ns(2) by simp
  show "request_ns (snd (kernel_nanosleep nsec)) = (unat nsec + 999) div 1000 * 1000" if "unat nsec \<le> 4294967295000"
  proof -
    have "unat ((nsec + 1000 - 1) div 1000) < 2 ^ 32" using that unfolding u by (simp add: less_mult_imp_div_less)
    from unat_ucast_u32 [OF this] show ?thesis
      using that unfolding kernel_nanosleep_def Let_def lt u by (simp add: kernel_usleep_ns)
  qed
qed

lemma kernel_nanosleep_refuses: "4294967295000 < unat nsec \<Longrightarrow> unat nsec < 2 ^ 64 - 999 \<Longrightarrow> request_ns (snd (kernel_nanosleep nsec)) = 0"
  using kernel_nanosleep_ns(1) [of nsec] kernel_usleep_ns(2)
  by (auto simp: kernel_nanosleep_def Let_def split: if_splits)

lemma kernel_nanosleep_wraps:
  assumes big: "2 ^ 64 - 999 \<le> unat nsec"
  shows "kernel_nanosleep nsec = (OSAL_SUCCESS, NO_SLEEP)"
proof -
  have "unat nsec < 2 ^ LENGTH(64)" by (rule unsigned_less)
  then have "unat (nsec + 999) = unat nsec + 999 - 2 ^ 64" using big by (simp add: unat_word_ariths mod_if)
  moreover have "nsec + 1000 - 1 = nsec + 999" by simp
  ultimately have "unat (nsec + 1000 - 1) = unat nsec + 999 - 2 ^ 64" by (simp only:)
  moreover have "unat nsec + 999 - 2 ^ 64 < 1000" using \<open>unat nsec < 2 ^ LENGTH(64)\<close> by simp
  ultimately have "unat ((nsec + 1000 - 1) div 1000) = 0" unfolding unat_div by (simp only: div_less unat_numeral) simp
  then have "(nsec + 1000 - 1) div 1000 = 0" by (simp only: unat_eq_0)
  then show ?thesis unfolding kernel_nanosleep_def Let_def by (simp only:) (simp add: U32_MAX_def kernel_usleep_def)
qed

lemma user_nanosleep_ns: "request_ns (snd (user_nanosleep ok nsec)) = unat nsec"
proof -
  have "unat nsec div 1000000000 * 1000000000 + unat nsec mod 1000000000 = unat nsec" by simp
  then show ?thesis by (simp add: user_nanosleep_def unat_div unat_mod)
qed

lemma user_msleep_ns:
  "request_ns (snd (user_msleep ok msec)) = (unat msec * 1000) mod 2 ^ 32 * 1000"
  by (simp add: user_msleep_def unat_word_ariths)

text \<open>
  How long the sleeping functions ask the system to sleep. Both libraries ask for the whole time or
  report an error, with two exceptions: the user library sleeps for the milliseconds modulo
  \<open>2 ^ 32\<close> microseconds, and the kernel module does not sleep at all, and reports success, when
  rounding the nanoseconds up wraps. The kernel module rounds nanoseconds up to microseconds and
  refuses what does not fit its 32 bits.
\<close>

theorem sleep_requests:
  "request_ns (snd (user_nanosleep ok nsec)) = unat nsec \<and>
   request_ns (snd (user_msleep ok msec)) = (unat msec * 1000) mod 2 ^ 32 * 1000 \<and>
   request_ns (snd (kernel_msleep msec)) = unat msec * 1000000 \<and>
   (fst (kernel_sleep sec), request_ns (snd (kernel_sleep sec))) =
     (if 4294967 < unat sec then (OSAL_ERR_INVALID_SIZE, 0) else (OSAL_SUCCESS, unat sec * 1000000000)) \<and>
   (fst (kernel_nanosleep nsec), request_ns (snd (kernel_nanosleep nsec))) =
     (if 2 ^ 64 - 999 \<le> unat nsec then (OSAL_SUCCESS, 0)
      else if 4294967295000 < unat nsec then (OSAL_ERR_INVALID_SIZE, 0)
      else (OSAL_SUCCESS, (unat nsec + 999) div 1000 * 1000))"
proof (intro conjI)
  show "(fst (kernel_nanosleep nsec), request_ns (snd (kernel_nanosleep nsec))) =
     (if 2 ^ 64 - 999 \<le> unat nsec then (OSAL_SUCCESS, 0)
      else if 4294967295000 < unat nsec then (OSAL_ERR_INVALID_SIZE, 0)
      else (OSAL_SUCCESS, (unat nsec + 999) div 1000 * 1000))"
    using kernel_nanosleep_wraps [of nsec] kernel_nanosleep_ns [of nsec] kernel_nanosleep_refuses [of nsec] by simp
next
  show "(fst (kernel_sleep sec), request_ns (snd (kernel_sleep sec))) =
     (if 4294967 < unat sec then (OSAL_ERR_INVALID_SIZE, 0) else (OSAL_SUCCESS, unat sec * 1000000000))"
    unfolding kernel_sleep_ns by (simp add: unsigned_of_nat take_bit_nat_eq_self del: of_nat_mult)
qed (simp_all add: user_nanosleep_ns user_msleep_ns kernel_msleep_def)

section \<open>Clocks\<close>

text \<open>
  The user library reads a clock as seconds and nanoseconds, or fails to; the kernel module reads
  nanoseconds. The results are signed 64-bit numbers.
\<close>

definition user_get_monotonic_time :: "(int \<times> int) option \<Rightarrow> int" where
  "user_get_monotonic_time ts =
     (case ts of None \<Rightarrow> - 1 | Some t \<Rightarrow> fst t * 1000000 + snd t sdiv 1000)"

definition user_get_boot_time :: "(int \<times> int) option \<Rightarrow> int" where
  "user_get_boot_time ts =
     (case ts of None \<Rightarrow> - 1 | Some t \<Rightarrow> fst t * 1000000 + snd t sdiv 1000)"

definition user_get_highres_time :: "(int \<times> int) option \<Rightarrow> int" where
  "user_get_highres_time ts =
     (case ts of None \<Rightarrow> - 1 | Some t \<Rightarrow> fst t * 1000000000 + snd t)"

definition kernel_get_monotonic_time :: "u64 \<Rightarrow> int" where
  "kernel_get_monotonic_time ktime_get_ns = sint (ktime_get_ns div 1000)"

definition kernel_get_boot_time :: "u64 \<Rightarrow> int" where
  "kernel_get_boot_time ktime_get_boottime_ns = sint (ktime_get_boottime_ns div 1000)"

definition kernel_get_highres_time :: "u64 \<Rightarrow> int" where
  "kernel_get_highres_time ktime_get_ns = sint ktime_get_ns"

definition user_get_tick_count :: "int \<times> int \<Rightarrow> u32" where
  "user_get_tick_count ts =
     (let sec_ms = (of_int (fst ts) :: u64) * 1000;
          nsec_ms = of_int (snd ts sdiv 1000000)
      in ucast (sec_ms + nsec_ms))"

definition user_get_local_time :: "bool \<Rightarrow> int \<times> int \<Rightarrow> int \<times> (int \<times> int) option" where
  "user_get_local_time time_struct tv =
     (if \<not> time_struct then (OSAL_ERR_INVALID_POINTER, None) else (OSAL_SUCCESS, Some tv))"

section \<open>Deadlines\<close>

text \<open>The last point in time of a lock with a limit, from the clock and the limit.\<close>

definition deadline :: "int \<times> int \<Rightarrow> u32 \<Rightarrow> int \<times> int" where
  "deadline ts timeout_ms =
     (let sec = fst ts + int (unat (timeout_ms div 1000));
          nsec = snd ts + int (unat ((timeout_ms mod 1000) * 1000000))
      in if 1000000000 \<le> nsec then (sec + 1, nsec - 1000000000) else (sec, nsec))"

definition user_mutex_timed_lock :: "bool \<Rightarrow> (int \<times> int) option \<Rightarrow> (int \<times> int \<Rightarrow> int) \<Rightarrow> u32 \<Rightarrow> int" where
  "user_mutex_timed_lock mutex clock pthread_mutex_timedlock timeout_ms =
     (if \<not> mutex then - 1
      else case clock of None \<Rightarrow> - 1 | Some ts \<Rightarrow> pthread_mutex_timedlock (deadline ts timeout_ms))"

definition user_sem_timed_wait ::
  "bool \<Rightarrow> (int \<times> int) option \<Rightarrow> int \<Rightarrow> (int \<times> int \<Rightarrow> int) \<Rightarrow> u32 \<Rightarrow> int" where
  "user_sem_timed_wait sem clock sem_trywait sem_timedwait timeout_ms =
     (if \<not> sem then - 1
      else if timeout_ms = 0 then sem_trywait
      else case clock of None \<Rightarrow> - 1 | Some ts \<Rightarrow> sem_timedwait (deadline ts timeout_ms))"

definition user_cond_timed_wait ::
  "bool \<Rightarrow> bool \<Rightarrow> (int \<times> int) option \<Rightarrow> (int \<times> int \<Rightarrow> int) \<Rightarrow> u32 \<Rightarrow> int" where
  "user_cond_timed_wait cond mutex clock pthread_cond_timedwait timeout_ms =
     (if \<not> cond \<or> \<not> mutex then - 1
      else case clock of None \<Rightarrow> - 1 | Some ts \<Rightarrow> pthread_cond_timedwait (deadline ts timeout_ms))"

lemma deadline_exact:
  assumes "0 \<le> snd ts" and "snd ts < 1000000000"
  shows "clock_ns (deadline ts timeout_ms) = clock_ns ts + int (unat timeout_ms) * 1000000"
    and "0 \<le> snd (deadline ts timeout_ms)" and "snd (deadline ts timeout_ms) < 1000000000"
proof -
  have m: "unat ((timeout_ms mod 1000) * 1000000) = unat timeout_ms mod 1000 * 1000000"
    by (subst unat_mult_lem [THEN iffD1]) (simp_all add: unat_mod)
  have "unat timeout_ms = unat timeout_ms div 1000 * 1000 + unat timeout_ms mod 1000" by simp
  then have d: "int (unat timeout_ms) = int (unat timeout_ms div 1000) * 1000 + int (unat timeout_ms mod 1000)"
    by linarith
  have less: "int (unat timeout_ms mod 1000) * 1000000 \<le> 999000000" "0 \<le> int (unat timeout_ms mod 1000)"
    using mod_less_divisor [of 1000 "unat timeout_ms"] by linarith+
  show "clock_ns (deadline ts timeout_ms) = clock_ns ts + int (unat timeout_ms) * 1000000"
    using d by (simp add: deadline_def clock_ns_def Let_def m unat_div)
  show "0 \<le> snd (deadline ts timeout_ms)" and "snd (deadline ts timeout_ms) < 1000000000"
    using assms less unfolding deadline_def Let_def m of_nat_mult of_nat_numeral by (simp_all split: if_splits)
qed

text \<open>
  The deadline of a lock with a limit is the clock plus the limit, exactly and in the form the
  system wants, for all three kinds of lock of the user library, and the clock that is not read lets
  them fail.
\<close>

theorem deadlines_exact:
  assumes "0 \<le> snd ts" and "snd ts < 1000000000"
  shows "clock_ns (deadline ts timeout_ms) = clock_ns ts + int (unat timeout_ms) * 1000000 \<and>
    0 \<le> snd (deadline ts timeout_ms) \<and> snd (deadline ts timeout_ms) < 1000000000 \<and>
    user_mutex_timed_lock True (Some ts) f timeout_ms = f (deadline ts timeout_ms) \<and>
    user_cond_timed_wait True True (Some ts) f timeout_ms = f (deadline ts timeout_ms) \<and>
    user_sem_timed_wait True (Some ts) r f timeout_ms = (if timeout_ms = 0 then r else f (deadline ts timeout_ms))"
  using deadline_exact [OF assms, of timeout_ms]
  by (simp add: user_mutex_timed_lock_def user_cond_timed_wait_def user_sem_timed_wait_def)

lemma deadlines_exact_witness: "clock_ns (deadline (5, 999000000) 2500) = 8499000000"
  using deadlines_exact [of "(5, 999000000)" 2500 "\<lambda>_. 0" 0] by (simp add: clock_ns_def)

lemma nsec_sdiv: "0 \<le> ns \<Longrightarrow> 0 < k \<Longrightarrow> (ns :: int) sdiv k = ns div k"
  by (simp add: signed_divide_int_def sgn_if)

lemma sint_small: "0 \<le> x \<Longrightarrow> x < 2 ^ 63 \<Longrightarrow> sint (word_of_int x :: u64) = x"
  by (simp add: signed_of_int signed_take_bit_int_eq_self)

lemma uint_div_small:
  assumes "0 \<le> x" and "x < 2 ^ 63" and "1 < k" and "k < 2 ^ 32"
  shows "(word_of_int x :: u64) div word_of_int k = word_of_int (x div k)"
proof -
  have "uint ((word_of_int x :: u64) div word_of_int k) = x div k"
    using assms by (simp add: uint_div uint_word_of_int)
  then show ?thesis by (metis word_of_int_uint)
qed

lemma clock_parts:
  assumes "clock_ok t" and "0 < k" and "k * m = 1000000000"
  shows "fst t * m + snd t sdiv k = clock_ns t div k"
proof -
  have "clock_ns t = snd t + (fst t * m) * k"
    using assms(3) by (simp add: clock_ns_def mult.assoc mult.commute [of m k])
  then have "clock_ns t div k = fst t * m + snd t div k" using assms(2) by simp
  then show ?thesis using assms by (simp add: nsec_sdiv clock_ok_def)
qed

text \<open>
  Both libraries read the same clock: the user library from seconds and nanoseconds, the kernel module
  from nanoseconds, with the same result for the next 292 years; the tick count of the user
  library is the milliseconds modulo \<open>2 ^ 32\<close>.
\<close>

theorem clock_readings_agree:
  assumes "clock_ok t" and "clock_ns t < 2 ^ 63"
  shows "kernel_get_monotonic_time (word_of_int (clock_ns t)) = user_get_monotonic_time (Some t) \<and>
    kernel_get_boot_time (word_of_int (clock_ns t)) = user_get_boot_time (Some t) \<and>
    kernel_get_highres_time (word_of_int (clock_ns t)) = user_get_highres_time (Some t) \<and>
    user_get_monotonic_time (Some t) = clock_ns t div 1000 \<and>
    uint (user_get_tick_count t) = clock_ns t div 1000000 mod 2 ^ 32"
proof -
  have pos: "0 \<le> clock_ns t" using assms(1) by (simp add: clock_ok_def clock_ns_def)
  have us: "fst t * 1000000 + snd t sdiv 1000 = clock_ns t div 1000" using clock_parts [OF assms(1), of 1000 1000000] by simp
  have ms: "fst t * 1000 + snd t sdiv 1000000 = clock_ns t div 1000000" using clock_parts [OF assms(1), of 1000000 1000] by simp
  have "(word_of_int (clock_ns t) :: u64) div 1000 = word_of_int (clock_ns t div 1000)"
    using uint_div_small [OF pos assms(2), of 1000] by simp
  moreover have "sint (word_of_int (clock_ns t div 1000) :: u64) = clock_ns t div 1000"
    using pos assms(2) by (intro sint_small) (simp_all add: pos_imp_zdiv_nonneg_iff)
  moreover have "sint (word_of_int (clock_ns t) :: u64) = clock_ns t" using pos assms(2) by (rule sint_small)
  moreover have "uint (user_get_tick_count t) = clock_ns t div 1000000 mod 2 ^ 32"
  proof -
    have "(of_int (fst t) :: u64) * 1000 + of_int (snd t sdiv 1000000) = word_of_int (clock_ns t div 1000000)"
      unfolding ms [symmetric] by simp
    then have "uint (user_get_tick_count t) = take_bit 32 (uint (word_of_int (clock_ns t div 1000000) :: u64))"
      by (simp add: user_get_tick_count_def Let_def unsigned_ucast_eq)
    then show ?thesis by (simp add: unsigned_of_int take_bit_eq_mod mod_mod_cancel)
  qed
  ultimately show ?thesis
    by (simp add: kernel_get_monotonic_time_def kernel_get_boot_time_def kernel_get_highres_time_def
        user_get_monotonic_time_def user_get_boot_time_def user_get_highres_time_def us clock_ns_def)
qed

lemma clock_readings_agree_witness: "user_get_monotonic_time (Some (5, 999000000)) = 5999000"
  using clock_readings_agree [of "(5, 999000000)"] by (simp add: clock_ok_def clock_ns_def)

end
