(* ===== verification/Pdm_Diag_Files.thy ===== *)
theory Pdm_Diag_Files
  imports Osal_Heap_Kernel
begin

text \<open>
  What the two kinds of text files of the module share, those under \<open>/proc\<close> (\<open>Pdm_Proc\<close>) and those in
  debugfs (\<open>Pdm_Debugfs\<close>): the files the kernel keeps, and the contract of registering and
  unregistering them.

  A file has a number of its own, the directory and the name it stands under, its mode, and the
  address of the entry it was created with. The entries are structs of the drivers; they are found by
  their address.
\<close>

section \<open>Files\<close>

record diag_file =
  df_id :: nat
  df_dir :: string
  df_name :: string
  df_mode :: nat
  df_data :: nat

definition remove_file :: "nat \<Rightarrow> diag_file list \<Rightarrow> diag_file list" where
  "remove_file i fs = filter (\<lambda>f. df_id f \<noteq> i) fs"

definition remove_dir :: "string \<Rightarrow> diag_file list \<Rightarrow> diag_file list" where
  "remove_dir d fs = filter (\<lambda>f. df_dir f \<noteq> d) fs"

definition dir_size :: "string \<Rightarrow> diag_file list \<Rightarrow> nat" where
  "dir_size d fs = length (filter (\<lambda>f. df_dir f = d) fs)"

text \<open>The files are those of the entries that hold a file, one each.\<close>

definition files_ok :: "(nat \<Rightarrow> nat option) \<Rightarrow> diag_file list \<Rightarrow> nat \<Rightarrow> bool" where
  "files_ok reg fs next_id \<longleftrightarrow> distinct (map df_id fs) \<and> distinct (map df_data fs) \<and>
     (\<forall>f \<in> set fs. df_id f < next_id \<and> reg (df_data f) = Some (df_id f)) \<and>
     (\<forall>a i. reg a = Some i \<longrightarrow> (\<exists>f \<in> set fs. df_data f = a \<and> df_id f = i))"

lemma files_ok_add:
  assumes "files_ok reg fs n" and "reg a = None" and "df_id f = n" and "df_data f = a"
  shows "files_ok (reg(a := Some n)) (fs @ [f]) (Suc n)"
proof -
  have "\<forall>g \<in> set fs. df_id g \<noteq> n \<and> df_data g \<noteq> a \<and> df_id g < Suc n" using assms by (fastforce simp: files_ok_def)
  with assms show ?thesis by (auto simp: files_ok_def)
qed

lemma files_ok_remove:
  assumes "files_ok reg fs n" and "reg a = Some i"
  shows "files_ok (reg(a := None)) (remove_file i fs) n" and "set (remove_file i fs) = {f \<in> set fs. df_data f \<noteq> a}"
proof -
  obtain f where f: "f \<in> set fs" "df_data f = a" "df_id f = i" using assms unfolding files_ok_def by metis
  have "df_id g = i \<longleftrightarrow> df_data g = a" if "g \<in> set fs" for g
    using f that assms by (auto simp: files_ok_def distinct_map dest: inj_onD)
  then show same: "set (remove_file i fs) = {f \<in> set fs. df_data f \<noteq> a}" by (auto simp: remove_file_def)
  have "distinct (map df_id (remove_file i fs)) \<and> distinct (map df_data (remove_file i fs))"
    using assms by (simp add: files_ok_def remove_file_def distinct_map_filter)
  moreover have "\<exists>g \<in> set (remove_file i fs). df_data g = b \<and> df_id g = j" if "b \<noteq> a" "reg b = Some j" for b j
    using assms(1) that unfolding files_ok_def same by blast
  ultimately show "files_ok (reg(a := None)) (remove_file i fs) n"
    using assms(1) unfolding files_ok_def by (auto simp: same)
qed

lemma dir_size_add [simp]: "dir_size d (fs @ [f]) = dir_size d fs + (if df_dir f = d then 1 else 0)"
  by (simp add: dir_size_def)

lemma dir_size_zero: "dir_size d fs = 0 \<longleftrightarrow> (\<forall>f \<in> set fs. df_dir f \<noteq> d)"
  by (auto simp: dir_size_def filter_empty_conv)

lemma remove_file_split:
  assumes "files_ok reg fs n" and "f \<in> set fs"
  shows "\<exists>xs ys. fs = xs @ f # ys \<and> remove_file (df_id f) fs = xs @ ys"
proof -
  from assms obtain xs ys where fs: "fs = xs @ f # ys" by (auto simp: in_set_conv_decomp)
  with assms(1) have "distinct (map df_id (xs @ f # ys))" by (simp add: files_ok_def)
  then have "\<forall>g \<in> set xs \<union> set ys. df_id g \<noteq> df_id f" by (auto simp: image_iff)
  then have "remove_file (df_id f) fs = xs @ ys" by (auto simp: remove_file_def fs filter_id_conv)
  with fs show ?thesis by blast
qed

lemma dir_size_remove:
  "files_ok reg fs n \<Longrightarrow> f \<in> set fs \<Longrightarrow>
   dir_size d (remove_file (df_id f) fs) = dir_size d fs - (if df_dir f = d then 1 else 0)"
  using remove_file_split [of reg fs n f] by (auto simp: dir_size_def)

lemma length_remove_file: "files_ok reg fs n \<Longrightarrow> f \<in> set fs \<Longrightarrow> length (remove_file (df_id f) fs) = length fs - 1"
  using remove_file_split [of reg fs n f] by auto

lemma remove_empty_dir: "dir_size d fs = 0 \<Longrightarrow> remove_dir d fs = fs"
  by (simp add: dir_size_zero remove_dir_def filter_id_conv)

lemma dir_size_le: "dir_size d fs \<le> length fs"
  by (simp add: dir_size_def)

section \<open>The interface\<close>

text \<open>
  Registering puts a file there, or changes nothing that can be seen, as when it fails; unregistering
  takes it away. \<open>view\<close> has the name and the handler of each file, by the address of its entry.
\<close>

datatype ('e, 'w) file_call = FILE_REGISTER 'e nat string 'w | FILE_UNREGISTER nat

fun file_session :: "('e \<Rightarrow> nat \<Rightarrow> string \<Rightarrow> 'w \<Rightarrow> 's \<Rightarrow> int \<times> 's) \<Rightarrow> (nat \<Rightarrow> 's \<Rightarrow> 's) \<Rightarrow>
    ('e, 'w) file_call list \<Rightarrow> 's \<Rightarrow> 's" where
  "file_session reg unreg [] s = s"
| "file_session reg unreg (FILE_REGISTER e a n w # cs) s = file_session reg unreg cs (snd (reg e a n w s))"
| "file_session reg unreg (FILE_UNREGISTER a # cs) s = file_session reg unreg cs (unreg a s)"

text \<open>An entry is registered only when it is not registered; these may be.\<close>

fun register_once :: "nat set \<Rightarrow> ('e, 'w) file_call list \<Rightarrow> bool" where
  "register_once A [] \<longleftrightarrow> True"
| "register_once A (FILE_REGISTER e a n w # cs) \<longleftrightarrow> a \<notin> A \<and> register_once (insert a A) cs"
| "register_once A (FILE_UNREGISTER a # cs) \<longleftrightarrow> register_once (A - {a}) cs"

fun still_registered :: "nat set \<Rightarrow> ('e, 'w) file_call list \<Rightarrow> nat set" where
  "still_registered A [] = A"
| "still_registered A (FILE_REGISTER e a n w # cs) = still_registered (insert a A) cs"
| "still_registered A (FILE_UNREGISTER a # cs) = still_registered (A - {a}) cs"

locale diag_files =
  fixes reg :: "'e \<Rightarrow> nat \<Rightarrow> string \<Rightarrow> 'w \<Rightarrow> 's \<Rightarrow> int \<times> 's"
    and unreg :: "nat \<Rightarrow> 's \<Rightarrow> 's"
    and view :: "'s \<Rightarrow> nat \<Rightarrow> (string \<times> 'w) option"
    and ok :: "'s \<Rightarrow> bool"
    and size_of :: "'s \<Rightarrow> nat"
  assumes register_law: "ok s \<Longrightarrow> view s a = None \<Longrightarrow> size_of s + 1 < 2 ^ 32 \<Longrightarrow> reg e a n w s = (r, s') \<Longrightarrow>
      ok s' \<and> size_of s' \<le> size_of s + 1 \<and> (view s' = view s \<or> r = 0 \<and> view s' = (view s)(a \<mapsto> (n, w)))"
    and unregister_law: "ok s \<Longrightarrow> ok (unreg a s) \<and> size_of (unreg a s) \<le> size_of s \<and>
      view (unreg a s) = (view s)(a := None)"
begin

lemma session_ok:
  "ok s \<Longrightarrow> dom (view s) \<subseteq> A \<Longrightarrow> register_once A cs \<Longrightarrow> size_of s + length cs < 2 ^ 32 \<Longrightarrow>
   ok (file_session reg unreg cs s) \<and> dom (view (file_session reg unreg cs s)) \<subseteq> still_registered A cs"
proof (induction cs arbitrary: s A)
  case (Cons c cs)
  show ?case
  proof (cases c)
    case (FILE_REGISTER e a n w)
    obtain r s' where r: "reg e a n w s = (r, s')" by force
    have "view s a = None" using Cons.prems FILE_REGISTER by auto
    from register_law [OF Cons.prems(1) this _ r] Cons.prems(4)
    have s': "ok s'" "size_of s' \<le> size_of s + 1" "dom (view s') \<subseteq> insert a (dom (view s))" by auto
    moreover have "dom (view s') \<subseteq> insert a A" using s'(3) Cons.prems(2) by blast
    ultimately show ?thesis using Cons.IH [of s' "insert a A"] Cons.prems FILE_REGISTER r by simp
  next
    case (FILE_UNREGISTER a)
    note law = unregister_law [OF Cons.prems(1), of a]
    then have "dom (view (unreg a s)) \<subseteq> A - {a}" using Cons.prems(2) by auto
    from Cons.IH [OF _ this] law Cons.prems(3,4) FILE_UNREGISTER show ?thesis by simp
  qed
qed simp

end

section \<open>The buffer of a write\<close>

text \<open>
  The characters at a user address with \<open>copy_from_user\<close>, which may fail.
\<close>

definition osal_copy_from_user :: "bool \<Rightarrow> string user_buf \<Rightarrow> int \<times> string" where
  "osal_copy_from_user to from =
     (if \<not> to then (OSAL_ERR_INVALID_POINTER, [])
      else case copy_from_user from of None \<Rightarrow> (OSAL_ERR_INVALID_POINTER, []) | Some s \<Rightarrow> (OSAL_SUCCESS, s))"

end
