(* ===== verification/Pdm_Proc.thy ===== *)
theory Pdm_Proc
  imports Pdm_Diag_Files
begin

text \<open>
  The files under \<open>/proc/pdm\<close>, \<open>src/kernel/pdm/diag/pdm_proc.c\<close>: registering and unregistering an entry,
  with the directory that exists as long as someone uses it, and the operations of an open file.

  \<open>proc_sys\<close> has the variables of the file, the entries of the drivers by address, and the files the
  kernel keeps with the number of the next one. A handler is a value of the type \<open>'f\<close>; what it does is
  an argument of \<open>pdm_proc_write\<close>. What \<open>proc_mkdir\<close> and \<open>proc_create_data\<close> answer is an argument.
\<close>

abbreviation (input) PDM_PROC_ROOT_NAME :: string where "PDM_PROC_ROOT_NAME \<equiv> ''pdm''"
abbreviation (input) PDM_PROC_WRITE_MAX_SIZE :: nat where "PDM_PROC_WRITE_MAX_SIZE \<equiv> 256"

section \<open>Data\<close>

record 'f pdm_proc_entry =
  pe_name :: "string option"
  pe_show :: "'f option"
  pe_write :: "'f option"
  pe_data :: "nat option"
  pe_entry :: "nat option"

record 'f proc_sys =
  px_lock_ready :: bool
  px_root :: bool
  px_users :: u32
  px_entries :: "nat \<Rightarrow> 'f pdm_proc_entry"
  px_dir :: bool
  px_files :: "diag_file list"
  px_next :: nat

record proc_os =
  po_mkdir :: bool
  po_create :: bool

definition pdm_proc_entry_zero :: "'f pdm_proc_entry" where
  "pdm_proc_entry_zero = \<lparr>pe_name = None, pe_show = None, pe_write = None, pe_data = None, pe_entry = None\<rparr>"

definition put_proc_entry :: "nat \<Rightarrow> 'f pdm_proc_entry \<Rightarrow> 'f proc_sys \<Rightarrow> 'f proc_sys" where
  "put_proc_entry a e s = s\<lparr>px_entries := (px_entries s)(a := e)\<rparr>"

section \<open>Registering\<close>

text \<open>\<open>osal_mutex_init\<close> of the kernel only fails on a null pointer, which the lock is not.\<close>

definition pdm_proc_root_init :: "proc_os \<Rightarrow> 'f proc_sys \<Rightarrow> int \<times> 'f proc_sys" where
  "pdm_proc_root_init os s =
     (let s = s\<lparr>px_lock_ready := True\<rparr>
      in if \<not> px_root s \<and> \<not> po_mkdir os then (- ENOMEM, s)
         else let s = (if px_root s then s else s\<lparr>px_root := True, px_dir := True\<rparr>)
              in (0, s\<lparr>px_users := px_users s + 1\<rparr>))"

definition pdm_proc_root_deinit :: "'f proc_sys \<Rightarrow> 'f proc_sys" where
  "pdm_proc_root_deinit s =
     (if \<not> px_lock_ready s then s
      else let s = (if 0 < px_users s then s\<lparr>px_users := px_users s - 1\<rparr> else s)
           in if px_users s = 0 \<and> px_root s
              then s\<lparr>px_dir := False, px_files := remove_dir PDM_PROC_ROOT_NAME (px_files s), px_root := False\<rparr>
              else s)"

text \<open>A null pointer for the entry, the name or the handlers is \<open>None\<close>.\<close>

definition pdm_proc_register ::
  "proc_os \<Rightarrow> nat option \<Rightarrow> string option \<Rightarrow> 'f option \<Rightarrow> 'f option \<Rightarrow> nat option \<Rightarrow> 'f proc_sys \<Rightarrow> int \<times> 'f proc_sys"
where
  "pdm_proc_register os entry nm show_fn write_fn data s =
     (if entry = None \<or> nm = None \<or> show_fn = None then (- EINVAL, s)
      else let a = the entry
           in case pdm_proc_root_init os s of (ret, s) \<Rightarrow>
              if ret \<noteq> 0 then (ret, s)
              else let e = pdm_proc_entry_zero\<lparr>pe_name := nm, pe_show := show_fn, pe_write := write_fn, pe_data := data\<rparr>;
                       mode = (if write_fn \<noteq> None then 420 else 292)
                   in if po_create os
                      then (0, put_proc_entry a (e\<lparr>pe_entry := Some (px_next s)\<rparr>)
                          (s\<lparr>px_files := px_files s @ [\<lparr>df_id = px_next s, df_dir = PDM_PROC_ROOT_NAME,
                               df_name = the nm, df_mode = mode, df_data = a\<rparr>],
                             px_next := px_next s + 1\<rparr>))
                      else (- ENOMEM, put_proc_entry a pdm_proc_entry_zero (pdm_proc_root_deinit s)))"

definition pdm_proc_unregister :: "nat option \<Rightarrow> 'f proc_sys \<Rightarrow> 'f proc_sys" where
  "pdm_proc_unregister entry s =
     (case entry of
        None \<Rightarrow> s
      | Some a \<Rightarrow>
          (case pe_entry (px_entries s a) of
             None \<Rightarrow> s
           | Some i \<Rightarrow>
               pdm_proc_root_deinit
                 (put_proc_entry a pdm_proc_entry_zero (s\<lparr>px_files := remove_file i (px_files s)\<rparr>))))"

section \<open>An open file\<close>

text \<open>
  Opening gives \<open>single_open\<close> the handler for reading. A write copies the line into memory of the
  kernel's heap, hands it to the handler with its length and frees it. The position may be null.
\<close>

definition pdm_proc_open :: "'f pdm_proc_entry option \<Rightarrow> int + 'f \<times> nat option" where
  "pdm_proc_open entry =
     (case entry of
        None \<Rightarrow> Inl (- EINVAL)
      | Some e \<Rightarrow> (case pe_show e of None \<Rightarrow> Inl (- EINVAL) | Some f \<Rightarrow> Inr (f, pe_data e)))"

definition pdm_proc_write ::
  "('f \<Rightarrow> string \<Rightarrow> nat \<Rightarrow> nat option \<Rightarrow> 's \<Rightarrow> int \<times> 's) \<Rightarrow> 'f pdm_proc_entry option \<Rightarrow> heap_answer \<Rightarrow>
    string user_buf \<Rightarrow> nat \<Rightarrow> nat option \<Rightarrow> heap_sys \<Rightarrow> 's \<Rightarrow> int \<times> nat option \<times> heap_sys \<times> 's"
where
  "pdm_proc_write call entry ans buffer cnt ppos hp s =
     (case Option.bind entry pe_write of
        None \<Rightarrow> (- EOPNOTSUPP, ppos, hp, s)
      | Some f \<Rightarrow>
          if cnt = 0 then (0, ppos, hp, s)
          else if PDM_PROC_WRITE_MAX_SIZE < cnt then (- E2BIG, ppos, hp, s)
          else case kernel_malloc (of_nat (cnt + 1)) ans hp of
              (None, hp) \<Rightarrow> (- ENOMEM, ppos, hp, s)
            | (Some p, hp) \<Rightarrow>
                (case osal_copy_from_user True buffer of (status, command) \<Rightarrow>
                 if status \<noteq> OSAL_SUCCESS then (- EFAULT, ppos, kernel_free (Some p) hp, s)
                 else case call f command cnt (pe_data (the entry)) s of (ret, s) \<Rightarrow>
                   let hp = kernel_free (Some p) hp
                   in if ret \<noteq> 0 then (ret, ppos, hp, s)
                      else (int cnt, map_option (\<lambda>pos. pos + cnt) ppos, hp, s)))"

section \<open>The directory is there as long as it is used\<close>

text \<open>The count of users is the number of files, and the directory exists exactly when there are any.\<close>

definition proc_ok :: "'f proc_sys \<Rightarrow> bool" where
  "proc_ok s \<longleftrightarrow> files_ok (\<lambda>a. pe_entry (px_entries s a)) (px_files s) (px_next s) \<and>
     (\<forall>f \<in> set (px_files s). df_dir f = PDM_PROC_ROOT_NAME \<and>
        pe_name (px_entries s (df_data f)) = Some (df_name f) \<and> pe_show (px_entries s (df_data f)) \<noteq> None) \<and>
     unat (px_users s) = length (px_files s) \<and>
     (px_root s \<longleftrightarrow> px_files s \<noteq> []) \<and> (px_dir s \<longleftrightarrow> px_files s \<noteq> []) \<and>
     (px_files s \<noteq> [] \<longrightarrow> px_lock_ready s)"

text \<open>What is registered: the name and the two handlers of the file.\<close>

definition proc_view :: "'f proc_sys \<Rightarrow> nat \<Rightarrow> (string \<times> 'f \<times> 'f option) option" where
  "proc_view s a =
     (let e = px_entries s a
      in if pe_entry e = None then None else Some (the (pe_name e), the (pe_show e), pe_write e))"

lemma proc_reg: "px_entries s = (px_entries t)(a := e) \<Longrightarrow>
    (\<lambda>b. pe_entry (px_entries s b)) = (\<lambda>b. pe_entry (px_entries t b))(a := pe_entry e)"
  by (simp add: fun_eq_iff)

lemma proc_register_created:
  assumes ok: "proc_ok s" and free: "pe_entry (px_entries s a) = None" and room: "length (px_files s) + 1 < 2 ^ 32"
    and made: "po_create os" "px_root s \<or> po_mkdir os"
    and r: "pdm_proc_register os (Some a) (Some nm) (Some sh) wr data s = (r, s')"
  shows "r = 0 \<and> proc_ok s' \<and> length (px_files s') = length (px_files s) + 1 \<and>
    proc_view s' = (proc_view s)(a \<mapsto> (nm, sh, wr))"
proof -
  let ?f = "\<lparr>df_id = px_next s, df_dir = PDM_PROC_ROOT_NAME, df_name = nm, df_mode = if wr \<noteq> None then 420 else 292, df_data = a\<rparr>"
  have f: "r = 0" "px_files s' = px_files s @ [?f]" "px_next s' = Suc (px_next s)" "px_users s' = px_users s + 1"
      "px_root s'" "px_dir s'" "px_lock_ready s'"
      "px_entries s' = (px_entries s)(a := \<lparr>pe_name = Some nm, pe_show = Some sh, pe_write = wr, pe_data = data, pe_entry = Some (px_next s)\<rparr>)"
    using r made ok
    by (auto simp: pdm_proc_register_def pdm_proc_root_init_def Let_def put_proc_entry_def pdm_proc_entry_zero_def proc_ok_def)
  have "files_ok (\<lambda>b. pe_entry (px_entries s' b)) (px_files s') (px_next s')"
    using files_ok_add [of "\<lambda>b. pe_entry (px_entries s b)" "px_files s" "px_next s" a ?f] ok free
    by (simp add: f(2,3) proc_reg [OF f(8)] proc_ok_def)
  moreover have "df_data g \<noteq> a" if "g \<in> set (px_files s)" for g
    using that ok free by (auto simp: proc_ok_def files_ok_def)
  moreover have "unat (px_users s + 1) = length (px_files s) + 1"
    using ok room by (subst unat_add_lem [THEN iffD1]) (simp_all add: proc_ok_def)
  ultimately have "proc_ok s'" using ok f by (auto simp: proc_ok_def)
  moreover have "proc_view s' = (proc_view s)(a \<mapsto> (nm, sh, wr))"
    by (simp add: proc_view_def f(8) fun_eq_iff Let_def)
  ultimately show ?thesis using f by simp
qed

lemma proc_register_failed:
  assumes ok: "proc_ok s" and free: "pe_entry (px_entries s a) = None" and room: "length (px_files s) + 1 < 2 ^ 32"
    and made: "\<not> po_create os \<or> \<not> (px_root s \<or> po_mkdir os)"
    and r: "pdm_proc_register os (Some a) (Some nm) (Some sh) wr data s = (r, s')"
  shows "r = - ENOMEM \<and> proc_ok s' \<and> px_files s' = px_files s \<and> proc_view s' = proc_view s"
proof (cases "px_root s \<or> po_mkdir os")
  case False
  with r have "r = - ENOMEM" "s' = s\<lparr>px_lock_ready := True\<rparr>"
    by (simp_all add: pdm_proc_register_def pdm_proc_root_init_def Let_def)
  with ok show ?thesis by (simp add: proc_ok_def proc_view_def fun_eq_iff)
next
  case True
  have less: "unat (px_users s) < 2 ^ 32 - 1" using ok room by (simp add: proc_ok_def)
  then have inc: "unat (px_users s + 1) = unat (px_users s) + 1"
    by (subst unat_add_lem [THEN iffD1]) simp_all
  have empty: "remove_dir ''pdm'' (px_files s) = px_files s" if "px_users s = 0"
    using that ok by (simp add: proc_ok_def remove_dir_def)
  define t where "t = snd (pdm_proc_root_init os s)"
  have t: "pdm_proc_root_init os s = (0, t)" "px_users t = px_users s + 1" "px_root t" "px_lock_ready t" "px_files t = px_files s"
      "px_next t = px_next s" "px_entries t = px_entries s" "px_users s \<noteq> 0 \<longrightarrow> px_dir t"
    using True ok by (auto simp: t_def pdm_proc_root_init_def Let_def proc_ok_def)
  have "0 < px_users t" using inc t(2) by (simp add: word_gt_0 flip: unat_eq_0)
  with t empty have d: "px_files (pdm_proc_root_deinit t) = px_files s" "px_next (pdm_proc_root_deinit t) = px_next s"
      "px_users (pdm_proc_root_deinit t) = px_users s" "px_root (pdm_proc_root_deinit t) \<longleftrightarrow> px_users s \<noteq> 0"
      "px_dir (pdm_proc_root_deinit t) \<longleftrightarrow> px_users s \<noteq> 0" "px_lock_ready (pdm_proc_root_deinit t)"
      "px_entries (pdm_proc_root_deinit t) = px_entries s"
    by (simp_all add: pdm_proc_root_deinit_def Let_def)
  have "r = - ENOMEM" "s' = put_proc_entry a pdm_proc_entry_zero (pdm_proc_root_deinit t)"
    using r True made t(1) by (auto simp: pdm_proc_register_def Let_def)
  with d have f: "r = - ENOMEM" "px_files s' = px_files s" "px_next s' = px_next s" "px_users s' = px_users s"
      "px_root s' \<longleftrightarrow> px_users s \<noteq> 0" "px_dir s' \<longleftrightarrow> px_users s \<noteq> 0" "px_lock_ready s'"
      "px_entries s' = (px_entries s)(a := pdm_proc_entry_zero)"
    by (simp_all add: put_proc_entry_def)
  have "px_users s = 0 \<longleftrightarrow> px_files s = []"
    using ok by (auto simp: proc_ok_def unat_eq_0)
  moreover have "(\<lambda>b. pe_entry (px_entries s' b)) = (\<lambda>b. pe_entry (px_entries s b))"
    using free by (simp add: f(8) fun_eq_iff pdm_proc_entry_zero_def)
  moreover have "df_data g \<noteq> a" if "g \<in> set (px_files s)" for g
    using that ok free by (auto simp: proc_ok_def files_ok_def)
  ultimately have "proc_ok s'" using ok f by (auto simp: proc_ok_def)
  moreover have "proc_view s' = proc_view s"
    using free by (simp add: proc_view_def f(8) fun_eq_iff pdm_proc_entry_zero_def)
  ultimately show ?thesis using f by simp
qed

lemma proc_unregister_law:
  assumes ok: "proc_ok s"
  shows "proc_ok (pdm_proc_unregister (Some a) s) \<and> length (px_files (pdm_proc_unregister (Some a) s)) \<le> length (px_files s) \<and>
    proc_view (pdm_proc_unregister (Some a) s) = (proc_view s)(a := None)"
proof (cases "pe_entry (px_entries s a)")
  case None
  then have "proc_view s a = None" by (simp add: proc_view_def)
  with None ok show ?thesis by (simp add: pdm_proc_unregister_def fun_upd_idem)
next
  case (Some i)
  define s' where "s' = pdm_proc_unregister (Some a) s"
  from ok Some obtain g where g: "g \<in> set (px_files s)" "df_data g = a" "df_id g = i"
    unfolding proc_ok_def files_ok_def by metis
  let ?fs = "remove_file i (px_files s)"
  have size: "length ?fs = length (px_files s) - 1"
    using length_remove_file ok g unfolding proc_ok_def by metis
  have pos: "0 < px_users s" using ok g(1) by (auto simp: proc_ok_def word_gt_0 unat_eq_0 [symmetric])
  then have dec: "unat (px_users s - 1) = length (px_files s) - 1"
    using ok unat_minus_one [of "px_users s"] by (simp add: proc_ok_def word_gt_0)
  have zero: "px_users s - 1 = 0 \<longleftrightarrow> ?fs = []"
    using dec size by (metis length_0_conv unat_eq_0)
  have f: "px_files s' = ?fs" "px_next s' = px_next s" "px_users s' = px_users s - 1"
      "px_root s' \<longleftrightarrow> ?fs \<noteq> []" "px_dir s' \<longleftrightarrow> ?fs \<noteq> []" "px_lock_ready s'"
      "px_entries s' = (px_entries s)(a := pdm_proc_entry_zero)"
    using ok pos zero Some g(1)
    by (auto simp: s'_def pdm_proc_unregister_def pdm_proc_root_deinit_def Let_def put_proc_entry_def proc_ok_def remove_dir_def)
  have "files_ok (\<lambda>b. pe_entry (px_entries s' b)) ?fs (px_next s')"
    using files_ok_remove(1) [of "\<lambda>b. pe_entry (px_entries s b)" "px_files s" "px_next s" a i] ok Some
    by (simp add: f(2) proc_reg [OF f(7)] proc_ok_def pdm_proc_entry_zero_def)
  moreover have "set ?fs = {f \<in> set (px_files s). df_data f \<noteq> a}"
    using files_ok_remove(2) [of "\<lambda>b. pe_entry (px_entries s b)" "px_files s" "px_next s" a i] ok Some
    by (simp add: proc_ok_def)
  ultimately have "proc_ok s'" using ok f dec size by (auto simp: proc_ok_def)
  moreover have "proc_view s' = (proc_view s)(a := None)"
    by (simp add: proc_view_def f(7) fun_eq_iff Let_def pdm_proc_entry_zero_def)
  ultimately show ?thesis using f(1) size by (simp add: s'_def)
qed

interpretation proc_files: diag_files
    "\<lambda>os a nm (sh, wr) s. pdm_proc_register os (Some a) (Some nm) (Some sh) wr None s"
    "\<lambda>a s. pdm_proc_unregister (Some a) s" proc_view proc_ok "\<lambda>s. length (px_files s)"
proof unfold_locales
  fix s :: "'f proc_sys" and a os nm r s' and w :: "'f \<times> 'f option"
  assume ok: "proc_ok s" and free: "proc_view s a = None" and room: "length (px_files s) + 1 < 2 ^ 32"
    and r: "(case w of (sh, wr) \<Rightarrow> \<lambda>s. pdm_proc_register os (Some a) (Some nm) (Some sh) wr None s) s = (r, s')"
  obtain sh wr where w: "w = (sh, wr)" by force
  have "pe_entry (px_entries s a) = None" using free by (simp add: proc_view_def Let_def split: if_splits)
  with proc_register_created [OF ok _ room, of a os nm sh wr None r s']
    proc_register_failed [OF ok _ room, of a os nm sh wr None r s'] r
  show "proc_ok s' \<and> length (px_files s') \<le> length (px_files s) + 1 \<and>
      (proc_view s' = proc_view s \<or> r = 0 \<and> proc_view s' = (proc_view s)(a \<mapsto> (nm, w)))"
    by (cases "po_create os \<and> (px_root s \<or> po_mkdir os)") (auto simp: w)
qed (rule proc_unregister_law)

end
