(* ===== verification/Pdm_Debugfs.thy ===== *)
theory Pdm_Debugfs
  imports Pdm_Proc
begin

text \<open>
  The files in debugfs, \<open>src/kernel/pdm/diag/pdm_debugfs.c\<close>: each entry stands in a directory that is
  found by its name, made when it is first needed and removed with its last file; the structs of the
  directories stay in the list.

  \<open>debugfs_sys\<close> has the variables of the file, the entries of the drivers by address, and the files the
  kernel keeps. A directory struct is known by its position in the list, which only grows. What
  \<open>osal_zalloc\<close>, \<open>debugfs_create_dir\<close> and \<open>debugfs_create_file\<close> answer is an argument.
\<close>

abbreviation (input) PDM_DEBUGFS_ROOT_NAME_LEN :: nat where "PDM_DEBUGFS_ROOT_NAME_LEN \<equiv> 64"
abbreviation (input) PDM_DEBUGFS_WRITE_MAX_SIZE :: nat where "PDM_DEBUGFS_WRITE_MAX_SIZE \<equiv> 256"

section \<open>Data\<close>

record 'f pdm_debugfs_entry =
  de_root_name :: string
  de_name :: "string option"
  de_write :: "'f option"
  de_data :: "nat option"
  de_entry :: "nat option"

record pdm_debugfs_root =
  dr_name :: string
  dr_root :: bool
  dr_users :: u32
  dr_available :: bool

record 'f debugfs_sys =
  dg_lock_ready :: bool
  dg_roots :: "pdm_debugfs_root list"
  dg_entries :: "nat \<Rightarrow> 'f pdm_debugfs_entry"
  dg_files :: "diag_file list"
  dg_next :: nat

text \<open>A dentry, a null pointer, or the pointer that stands for an error.\<close>

datatype dentry_answer = DENTRY | DENTRY_NULL | DENTRY_ERR nat

definition dentry_error :: "dentry_answer \<Rightarrow> int" where
  "dentry_error d = (case d of DENTRY \<Rightarrow> 0 | DENTRY_NULL \<Rightarrow> - ENOMEM | DENTRY_ERR e \<Rightarrow> - int (Suc e))"

record debugfs_os =
  do_zalloc :: bool
  do_create_dir :: dentry_answer
  do_create_file :: dentry_answer

definition pdm_debugfs_entry_zero :: "'f pdm_debugfs_entry" where
  "pdm_debugfs_entry_zero = \<lparr>de_root_name = [], de_name = None, de_write = None, de_data = None, de_entry = None\<rparr>"

definition put_debugfs_entry :: "nat \<Rightarrow> 'f pdm_debugfs_entry \<Rightarrow> 'f debugfs_sys \<Rightarrow> 'f debugfs_sys" where
  "put_debugfs_entry a e s = s\<lparr>dg_entries := (dg_entries s)(a := e)\<rparr>"

definition put_root :: "nat \<Rightarrow> pdm_debugfs_root \<Rightarrow> 'f debugfs_sys \<Rightarrow> 'f debugfs_sys" where
  "put_root i r s = s\<lparr>dg_roots := (dg_roots s)[i := r]\<rparr>"

section \<open>Directories\<close>

fun pdm_debugfs_find_root_locked :: "pdm_debugfs_root list \<Rightarrow> string \<Rightarrow> nat option" where
  "pdm_debugfs_find_root_locked [] root_name = None"
| "pdm_debugfs_find_root_locked (r # rs) root_name =
     (if dr_name r = root_name then Some 0 else map_option Suc (pdm_debugfs_find_root_locked rs root_name))"

definition pdm_debugfs_root_get ::
  "debugfs_os \<Rightarrow> string option \<Rightarrow> bool \<Rightarrow> 'f debugfs_sys \<Rightarrow> int \<times> nat option \<times> 'f debugfs_sys"
where
  "pdm_debugfs_root_get os root_name root_out s =
     (if root_name = None \<or> \<not> root_out \<or> root_name = Some [] then (- EINVAL, None, s)
      else let s = s\<lparr>dg_lock_ready := True\<rparr>;
               (root, s) =
                 (case pdm_debugfs_find_root_locked (dg_roots s) (the root_name) of
                    Some i \<Rightarrow> (Some i, s)
                  | None \<Rightarrow>
                      if do_zalloc os
                      then (Some (length (dg_roots s)),
                            s\<lparr>dg_roots := dg_roots s @ [\<lparr>dr_name = strscpy PDM_DEBUGFS_ROOT_NAME_LEN (the root_name),
                                dr_root = False, dr_users = 0, dr_available = True\<rparr>]\<rparr>)
                      else (None, s))
           in case root of
                None \<Rightarrow> (- ENOMEM, None, s)
              | Some i \<Rightarrow>
                  let r = dg_roots s ! i
                  in if \<not> dr_available r then (- ENODEV, None, s)
                     else if \<not> dr_root r \<and> do_create_dir os \<noteq> DENTRY
                     then (dentry_error (do_create_dir os), None, put_root i (r\<lparr>dr_available := False\<rparr>) s)
                     else (0, Some i, put_root i (r\<lparr>dr_root := True, dr_users := dr_users r + 1\<rparr>) s))"

definition pdm_debugfs_root_put :: "string option \<Rightarrow> 'f debugfs_sys \<Rightarrow> 'f debugfs_sys" where
  "pdm_debugfs_root_put root_name s =
     (if root_name = None \<or> \<not> dg_lock_ready s then s
      else case pdm_debugfs_find_root_locked (dg_roots s) (the root_name) of
             None \<Rightarrow> s
           | Some i \<Rightarrow>
               let r = dg_roots s ! i;
                   r = (if 0 < dr_users r then r\<lparr>dr_users := dr_users r - 1\<rparr> else r)
               in if dr_users r = 0 \<and> dr_root r
                  then put_root i (r\<lparr>dr_root := False\<rparr>) (s\<lparr>dg_files := remove_dir (dr_name r) (dg_files s)\<rparr>)
                  else put_root i r s)"

section \<open>Registering\<close>

definition pdm_debugfs_register ::
  "debugfs_os \<Rightarrow> nat option \<Rightarrow> string option \<Rightarrow> string option \<Rightarrow> 'f option \<Rightarrow> nat option \<Rightarrow> 'f debugfs_sys \<Rightarrow>
    int \<times> 'f debugfs_sys"
where
  "pdm_debugfs_register os entry root_name nm write_fn data s =
     (if entry = None \<or> root_name = None \<or> nm = None \<or> write_fn = None then (- EINVAL, s)
      else let a = the entry;
               s = put_debugfs_entry a pdm_debugfs_entry_zero s
           in case pdm_debugfs_root_get os root_name True s of (ret, root, s) \<Rightarrow>
              if ret = - ENODEV then (0, s)
              else if ret \<noteq> 0 then (ret, s)
              else let e = pdm_debugfs_entry_zero\<lparr>de_root_name := strscpy PDM_DEBUGFS_ROOT_NAME_LEN (the root_name),
                             de_name := nm, de_write := write_fn, de_data := data\<rparr>
                   in if do_create_file os = DENTRY
                      then (0, put_debugfs_entry a (e\<lparr>de_entry := Some (dg_next s)\<rparr>)
                          (s\<lparr>dg_files := dg_files s @ [\<lparr>df_id = dg_next s, df_dir = dr_name (dg_roots s ! the root),
                               df_name = the nm, df_mode = 128, df_data = a\<rparr>],
                             dg_next := dg_next s + 1\<rparr>))
                      else (dentry_error (do_create_file os),
                          put_debugfs_entry a pdm_debugfs_entry_zero (pdm_debugfs_root_put root_name s)))"

definition pdm_debugfs_unregister :: "nat option \<Rightarrow> 'f debugfs_sys \<Rightarrow> 'f debugfs_sys" where
  "pdm_debugfs_unregister entry s =
     (case entry of
        None \<Rightarrow> s
      | Some a \<Rightarrow>
          (case de_entry (dg_entries s a) of
             None \<Rightarrow> s
           | Some i \<Rightarrow>
               let root_name = strscpy PDM_DEBUGFS_ROOT_NAME_LEN (de_root_name (dg_entries s a));
                   s = s\<lparr>dg_files := remove_file i (dg_files s)\<rparr>
               in pdm_debugfs_root_put (Some root_name) (put_debugfs_entry a pdm_debugfs_entry_zero s)))"

section \<open>An open file\<close>

text \<open>\<open>debugfs_create_file\<close> leaves the entry in the inode; opening copies it to the open file.\<close>

definition pdm_debugfs_open :: "'f pdm_debugfs_entry option \<Rightarrow> int \<times> 'f pdm_debugfs_entry option" where
  "pdm_debugfs_open i_private = (0, i_private)"

definition pdm_debugfs_write ::
  "('f \<Rightarrow> string \<Rightarrow> nat \<Rightarrow> nat option \<Rightarrow> 's \<Rightarrow> int \<times> 's) \<Rightarrow> 'f pdm_debugfs_entry option \<Rightarrow> heap_answer \<Rightarrow>
    string user_buf \<Rightarrow> nat \<Rightarrow> nat option \<Rightarrow> heap_sys \<Rightarrow> 's \<Rightarrow> int \<times> nat option \<times> heap_sys \<times> 's"
where
  "pdm_debugfs_write call entry ans buffer cnt ppos hp s =
     (case Option.bind entry de_write of
        None \<Rightarrow> (- EOPNOTSUPP, ppos, hp, s)
      | Some f \<Rightarrow>
          if cnt = 0 then (0, ppos, hp, s)
          else if PDM_DEBUGFS_WRITE_MAX_SIZE < cnt then (- E2BIG, ppos, hp, s)
          else case kernel_malloc (of_nat (cnt + 1)) ans hp of
              (None, hp) \<Rightarrow> (- ENOMEM, ppos, hp, s)
            | (Some p, hp) \<Rightarrow>
                (case osal_copy_from_user True buffer of (status, command) \<Rightarrow>
                 if status \<noteq> OSAL_SUCCESS then (- EFAULT, ppos, kernel_free (Some p) hp, s)
                 else case call f command cnt (de_data (the entry)) s of (ret, s) \<Rightarrow>
                   let hp = kernel_free (Some p) hp
                   in if ret \<noteq> 0 then (ret, ppos, hp, s)
                      else (int cnt, map_option (\<lambda>pos. pos + cnt) ppos, hp, s)))"

section \<open>Directories are there as long as they are used\<close>

definition root_ok :: "diag_file list \<Rightarrow> pdm_debugfs_root \<Rightarrow> bool" where
  "root_ok fs r \<longleftrightarrow> length (dr_name r) < 64 \<and> unat (dr_users r) = dir_size (dr_name r) fs \<and>
     (dr_root r \<longleftrightarrow> dir_size (dr_name r) fs \<noteq> 0)"

definition roots_ok :: "diag_file list \<Rightarrow> pdm_debugfs_root list \<Rightarrow> bool" where
  "roots_ok fs rs \<longleftrightarrow> distinct (map dr_name rs) \<and> (\<forall>r \<in> set rs. root_ok fs r) \<and>
     (\<forall>f \<in> set fs. df_dir f \<in> set (map dr_name rs))"

definition debugfs_ok :: "'f debugfs_sys \<Rightarrow> bool" where
  "debugfs_ok s \<longleftrightarrow> files_ok (\<lambda>a. de_entry (dg_entries s a)) (dg_files s) (dg_next s) \<and>
     (\<forall>f \<in> set (dg_files s). de_root_name (dg_entries s (df_data f)) = df_dir f \<and>
        de_name (dg_entries s (df_data f)) = Some (df_name f) \<and> de_write (dg_entries s (df_data f)) \<noteq> None) \<and>
     roots_ok (dg_files s) (dg_roots s) \<and> (dg_roots s \<noteq> [] \<longrightarrow> dg_lock_ready s)"

definition debugfs_view :: "'f debugfs_sys \<Rightarrow> nat \<Rightarrow> (string \<times> 'f) option" where
  "debugfs_view s a =
     (let e = dg_entries s a in if de_entry e = None then None else Some (the (de_name e), the (de_write e)))"

lemma find_root_some:
  "pdm_debugfs_find_root_locked rs nm = Some i \<Longrightarrow> i < length rs \<and> dr_name (rs ! i) = nm"
  by (induction rs arbitrary: i) (auto split: if_splits)

lemma find_root_none: "pdm_debugfs_find_root_locked rs nm = None \<longleftrightarrow> nm \<notin> set (map dr_name rs)"
  by (induction rs) auto

lemma find_root_at:
  "distinct (map dr_name rs) \<Longrightarrow> i < length rs \<Longrightarrow> pdm_debugfs_find_root_locked rs (dr_name (rs ! i)) = Some i"
proof (induction rs arbitrary: i)
  case (Cons r rs)
  then show ?case using nth_mem [of "i - 1" rs] by (cases i) (auto simp: image_iff)
qed simp

lemma roots_ok_append:
  "roots_ok fs rs \<Longrightarrow> nm \<notin> set (map dr_name rs) \<Longrightarrow> length nm < 64 \<Longrightarrow>
   roots_ok fs (rs @ [\<lparr>dr_name = nm, dr_root = False, dr_users = 0, dr_available = True\<rparr>])"
  by (auto simp: roots_ok_def root_ok_def dir_size_zero)

lemma root_names:
  "i < length rs \<Longrightarrow> dr_name r = dr_name (rs ! i) \<Longrightarrow> map dr_name (rs[i := r]) = map dr_name rs"
  by (simp add: map_update list_update_same_conv)

lemma roots_ok_update:
  assumes "roots_ok fs rs" and i: "i < length rs" and nm: "dr_name r = dr_name (rs ! i)" and r: "root_ok fs' r"
    and others: "\<forall>d. d \<noteq> dr_name r \<longrightarrow> dir_size d fs' = dir_size d fs" and fs': "set fs' \<subseteq> set fs \<union> {f. df_dir f = dr_name r}"
  shows "roots_ok fs' (rs[i := r])"
proof -
  note names = root_names [OF i nm]
  have "root_ok fs' q" if q: "q \<in> set (rs[i := r])" for q
  proof -
    from q obtain j where j: "j < length rs" "q = rs[i := r] ! j" by (auto simp: in_set_conv_nth)
    show ?thesis
    proof (cases "j = i")
      case True
      with j r show ?thesis by simp
    next
      case False
      with j have q': "q = rs ! j" by simp
      have "dr_name (rs ! j) \<noteq> dr_name (rs ! i)"
        using assms(1) False i j(1) nth_eq_iff_index_eq [of "map dr_name rs" j i] by (auto simp: roots_ok_def)
      with others nm have "dir_size (dr_name q) fs' = dir_size (dr_name q) fs" by (simp add: q')
      moreover have "root_ok fs q" using assms(1) j(1) by (simp add: q' roots_ok_def)
      ultimately show ?thesis by (simp add: root_ok_def)
    qed
  qed
  moreover have "df_dir f \<in> set (map dr_name rs)" if "f \<in> set fs'" for f
    using that fs' assms(1) i nm by (auto simp: roots_ok_def)
  ultimately show ?thesis using assms(1) unfolding roots_ok_def names by blast
qed

lemma root_get_fields:
  "pdm_debugfs_root_get os nm out s = (ret, root, t) \<Longrightarrow>
   dg_files t = dg_files s \<and> dg_entries t = dg_entries s \<and> dg_next t = dg_next s"
  by (auto simp: pdm_debugfs_root_get_def Let_def put_root_def split: if_splits option.splits)

text \<open>A directory that is handed out is counted once more; otherwise nothing that counts has changed.\<close>

lemma root_get_law:
  assumes ok: "roots_ok fs (dg_roots s)" and nm: "nm \<noteq> []" "length nm < 64"
    and get: "pdm_debugfs_root_get os (Some nm) True s = (ret, root, t)"
  shows "dg_lock_ready t \<and> (ret \<noteq> 0 \<longrightarrow> roots_ok fs (dg_roots t)) \<and>
    (ret = 0 \<longrightarrow> (\<exists>i rs. root = Some i \<and> roots_ok fs rs \<and> i < length rs \<and> dr_name (rs ! i) = nm \<and>
       dg_roots t = rs[i := (rs ! i)\<lparr>dr_root := True, dr_users := dr_users (rs ! i) + 1\<rparr>]))"
proof -
  define found where "found = pdm_debugfs_find_root_locked (dg_roots s) nm"
  show ?thesis
  proof (cases "found = None \<and> \<not> do_zalloc os")
    case True
    with get nm ok show ?thesis
      by (auto simp: pdm_debugfs_root_get_def Let_def found_def)
  next
    case False
    define rs where "rs = (if found = None then dg_roots s @ [\<lparr>dr_name = nm, dr_root = False, dr_users = 0, dr_available = True\<rparr>] else dg_roots s)"
    define i where "i = (case found of None \<Rightarrow> length (dg_roots s) | Some i \<Rightarrow> i)"
    have rs: "roots_ok fs rs" "i < length rs" "dr_name (rs ! i) = nm"
      using ok roots_ok_append [OF ok _ nm(2)] find_root_some [of "dg_roots s" nm] find_root_none [of "dg_roots s" nm]
      by (auto simp: rs_def i_def found_def split: option.splits)
    define u where "u = s\<lparr>dg_lock_ready := True, dg_roots := rs\<rparr>"
    have "pdm_debugfs_root_get os (Some nm) True s =
        (if \<not> dr_available (rs ! i) then (- ENODEV, None, u)
         else if \<not> dr_root (rs ! i) \<and> do_create_dir os \<noteq> DENTRY
         then (dentry_error (do_create_dir os), None, put_root i ((rs ! i)\<lparr>dr_available := False\<rparr>) u)
         else (0, Some i, put_root i ((rs ! i)\<lparr>dr_root := True, dr_users := dr_users (rs ! i) + 1\<rparr>) u))"
      using nm False by (cases found) (simp_all add: pdm_debugfs_root_get_def Let_def found_def rs_def i_def u_def)
    moreover have "roots_ok fs (rs[i := (rs ! i)\<lparr>dr_available := False\<rparr>])"
    proof (rule roots_ok_update [OF rs(1,2)])
      show "root_ok fs ((rs ! i)\<lparr>dr_available := False\<rparr>)"
        using rs(1) nth_mem [OF rs(2)] by (auto simp: roots_ok_def root_ok_def)
    qed auto
    moreover have "do_create_dir os \<noteq> DENTRY \<Longrightarrow> dentry_error (do_create_dir os) \<noteq> 0"
      by (auto simp: dentry_error_def split: dentry_answer.splits)
    ultimately show ?thesis
      using get rs by (auto simp: put_root_def u_def split: if_splits)
  qed
qed

text \<open>Giving a directory back undoes the count, and removes it when it was the last.\<close>

lemma root_put_law:
  assumes ok: "distinct (map dr_name (dg_roots s))" and i: "i < length (dg_roots s)" and r: "r = dg_roots s ! i" "dr_users r \<noteq> 0"
    and rest: "dr_root r" "dg_lock_ready s" and size: "unat (dr_users r) = dir_size (dr_name r) (dg_files s) + 1"
  shows "pdm_debugfs_root_put (Some (dr_name r)) s =
    put_root i (r\<lparr>dr_users := dr_users r - 1, dr_root := dr_users r \<noteq> 1\<rparr>) s"
proof -
  have gone: "remove_dir (dr_name r) (dg_files s) = dg_files s" if "dr_users r = 1"
    using that size by (intro remove_empty_dir) simp
  have "pdm_debugfs_find_root_locked (dg_roots s) (dr_name r) = Some i"
    using find_root_at [OF ok i] by (simp add: r)
  then have "pdm_debugfs_root_put (Some (dr_name r)) s =
      (if dr_users r - 1 = 0 then put_root i (r\<lparr>dr_users := dr_users r - 1, dr_root := False\<rparr>)
           (s\<lparr>dg_files := remove_dir (dr_name r) (dg_files s)\<rparr>)
       else put_root i (r\<lparr>dr_users := dr_users r - 1\<rparr>) s)"
    using rest r by (simp add: pdm_debugfs_root_put_def Let_def word_gt_0)
  moreover have "dr_users r - 1 = 0 \<longleftrightarrow> dr_users r = 1" by auto
  moreover have "r\<lparr>dr_users := u, dr_root := True\<rparr> = r\<lparr>dr_users := u\<rparr>" for u using rest(1) by simp
  ultimately show ?thesis using gone by (simp add: put_root_def)
qed

lemma debugfs_reg: "dg_entries s = (dg_entries t)(a := e) \<Longrightarrow>
    (\<lambda>b. de_entry (dg_entries s b)) = (\<lambda>b. de_entry (dg_entries t b))(a := de_entry e)"
  by (simp add: fun_eq_iff)

lemma no_file: "debugfs_ok s \<Longrightarrow> de_entry (dg_entries s a) = None \<Longrightarrow> f \<in> set (dg_files s) \<Longrightarrow> df_data f \<noteq> a"
  by (auto simp: debugfs_ok_def files_ok_def)

text \<open>A state that differs in the directories, and in entries without a file.\<close>

lemma debugfs_ok_roots:
  assumes ok: "debugfs_ok s" and same: "dg_files t = dg_files s" "dg_next t = dg_next s" "dg_lock_ready t"
    and entries: "dg_entries t = (dg_entries s)(a := e)" "de_entry e = None" "de_entry (dg_entries s a) = None"
    and roots: "roots_ok (dg_files s) (dg_roots t)"
  shows "debugfs_ok t \<and> debugfs_view t = debugfs_view s"
proof
  have "(\<lambda>b. de_entry (dg_entries t b)) = (\<lambda>b. de_entry (dg_entries s b))"
    using entries by (simp add: fun_eq_iff)
  then show "debugfs_ok t" using ok no_file [OF ok entries(3)] by (auto simp: debugfs_ok_def same roots entries(1))
  show "debugfs_view t = debugfs_view s" using entries by (simp add: debugfs_view_def fun_eq_iff)
qed

lemma debugfs_register_law:
  assumes ok: "debugfs_ok s" and free: "de_entry (dg_entries s a) = None" and room: "length (dg_files s) + 1 < 2 ^ 32"
    and root: "root_name \<noteq> []" "length root_name < 64"
    and r: "pdm_debugfs_register os (Some a) (Some root_name) (Some nm) (Some wr) data s = (r, s')"
  shows "debugfs_ok s' \<and> (dg_files s' = dg_files s \<and> debugfs_view s' = debugfs_view s \<or>
     r = 0 \<and> length (dg_files s') = length (dg_files s) + 1 \<and> debugfs_view s' = (debugfs_view s)(a \<mapsto> (nm, wr)))"
proof -
  define s0 where "s0 = put_debugfs_entry a pdm_debugfs_entry_zero s"
  obtain ret q t where get: "pdm_debugfs_root_get os (Some root_name) True s0 = (ret, q, t)" by (metis prod_cases3)
  have roots0: "roots_ok (dg_files s) (dg_roots s0)" using ok by (simp add: s0_def put_debugfs_entry_def debugfs_ok_def)
  note law = root_get_law [OF roots0 root get]
  have t: "dg_files t = dg_files s" "dg_next t = dg_next s" "dg_entries t = (dg_entries s)(a := pdm_debugfs_entry_zero)"
    using root_get_fields [OF get] by (simp_all add: s0_def put_debugfs_entry_def)
  have zero: "de_entry pdm_debugfs_entry_zero = None" by (simp add: pdm_debugfs_entry_zero_def)
  define made where "made = put_debugfs_entry a (pdm_debugfs_entry_zero\<lparr>de_root_name := root_name,
      de_name := Some nm, de_write := Some wr, de_data := data, de_entry := Some (dg_next t)\<rparr>)
    (t\<lparr>dg_files := dg_files t @ [\<lparr>df_id = dg_next t, df_dir = dr_name (dg_roots t ! the q), df_name = nm, df_mode = 128, df_data = a\<rparr>],
       dg_next := Suc (dg_next t)\<rparr>)"
  have reg: "(r, s') = (if ret = - ENODEV then (0, t) else if ret \<noteq> 0 then (ret, t)
      else if do_create_file os = DENTRY then (0, made)
      else (dentry_error (do_create_file os), put_debugfs_entry a pdm_debugfs_entry_zero (pdm_debugfs_root_put (Some root_name) t)))"
    unfolding r [symmetric] using root by (simp add: pdm_debugfs_register_def Let_def s0_def [symmetric] get made_def)
  show ?thesis
  proof (cases "ret = 0")
    case False
    then have "s' = t" using reg by (auto split: if_splits)
    with debugfs_ok_roots [OF ok t(1,2) _ t(3) zero free] law False show ?thesis by (simp add: t(1))
  next
    case True
    with law obtain i rs where i: "q = Some i" "roots_ok (dg_files s) rs" "i < length rs" "dr_name (rs ! i) = root_name"
      and rts: "dg_roots t = rs[i := (rs ! i)\<lparr>dr_root := True, dr_users := dr_users (rs ! i) + 1\<rparr>]" and lock: "dg_lock_ready t"
      by blast
    have users: "unat (dr_users (rs ! i)) = dir_size root_name (dg_files s)"
      "dr_root (rs ! i) \<longleftrightarrow> dir_size root_name (dg_files s) \<noteq> 0"
      using i(2) nth_mem [OF i(3)] i(4) by (auto simp: roots_ok_def root_ok_def)
    have inc: "unat (dr_users (rs ! i) + 1) = dir_size root_name (dg_files s) + 1"
      using dir_size_le [of root_name "dg_files s"] room
      by (subst unat_add_lem [THEN iffD1]) (simp_all add: users)
    show ?thesis
    proof (cases "do_create_file os = DENTRY")
      case created: True
      let ?f = "\<lparr>df_id = dg_next s, df_dir = root_name, df_name = nm, df_mode = 128, df_data = a\<rparr>"
      have dir: "dr_name (dg_roots t ! i) = root_name" using i(3,4) by (simp add: rts)
      have s': "r = 0" "dg_files s' = dg_files s @ [?f]" "dg_next s' = Suc (dg_next s)" "dg_roots s' = dg_roots t" "dg_lock_ready s'"
          "dg_entries s' = (dg_entries s)(a := \<lparr>de_root_name = root_name, de_name = Some nm, de_write = Some wr, de_data = data, de_entry = Some (dg_next s)\<rparr>)"
        using reg True created dir t lock
        by (simp_all add: made_def i(1) put_debugfs_entry_def pdm_debugfs_entry_zero_def)
      have "roots_ok (dg_files s') (dg_roots s')"
        unfolding s'(4) rts
        by (rule roots_ok_update [OF i(2,3)]) (use root inc i(4) in \<open>auto simp: s'(2) root_ok_def\<close>)
      moreover have "files_ok (\<lambda>b. de_entry (dg_entries s' b)) (dg_files s') (dg_next s')"
        using files_ok_add [of "\<lambda>b. de_entry (dg_entries s b)" "dg_files s" "dg_next s" a ?f] ok free
        by (simp add: s'(2,3) debugfs_reg [OF s'(6)] debugfs_ok_def)
      ultimately have "debugfs_ok s'" using ok no_file [OF ok free] s' by (auto simp: debugfs_ok_def)
      moreover have "debugfs_view s' = (debugfs_view s)(a \<mapsto> (nm, wr))"
        by (simp add: debugfs_view_def s'(6) fun_eq_iff Let_def)
      ultimately show ?thesis using s' by simp
    next
      case failed: False
      define p where "p = (rs ! i)\<lparr>dr_root := True, dr_users := dr_users (rs ! i) + 1\<rparr>"
      have "distinct (map dr_name (dg_roots t))"
        using i(2,3) root_names [OF i(3), of p] by (simp add: rts roots_ok_def p_def)
      from root_put_law [OF this, of i p] i(3,4) lock inc
      have "pdm_debugfs_root_put (Some root_name) t = put_root i (p\<lparr>dr_users := dr_users (rs ! i), dr_root := dr_users (rs ! i) \<noteq> 0\<rparr>) t"
        by (simp add: p_def rts t(1) flip: unat_eq_0)
      then have s': "s' = put_debugfs_entry a pdm_debugfs_entry_zero
          (put_root i (p\<lparr>dr_users := dr_users (rs ! i), dr_root := dr_users (rs ! i) \<noteq> 0\<rparr>) t)"
        using reg True failed by simp
      have "roots_ok (dg_files s) (rs[i := p\<lparr>dr_users := dr_users (rs ! i), dr_root := dr_users (rs ! i) \<noteq> 0\<rparr>])"
        by (rule roots_ok_update [OF i(2,3)]) (use users i(4) root in \<open>auto simp: p_def root_ok_def unat_eq_0 [symmetric]\<close>)
      then have "roots_ok (dg_files s) (dg_roots s')" by (simp add: s' put_debugfs_entry_def put_root_def rts)
      with debugfs_ok_roots [OF ok _ _ _ _ zero free, of s'] t lock show ?thesis
        by (simp add: s' put_debugfs_entry_def put_root_def)
    qed
  qed
qed

lemma debugfs_unregister_law:
  assumes ok: "debugfs_ok s"
  shows "debugfs_ok (pdm_debugfs_unregister (Some a) s) \<and>
    length (dg_files (pdm_debugfs_unregister (Some a) s)) \<le> length (dg_files s) \<and>
    debugfs_view (pdm_debugfs_unregister (Some a) s) = (debugfs_view s)(a := None)"
proof (cases "de_entry (dg_entries s a)")
  case None
  then have "debugfs_view s a = None" by (simp add: debugfs_view_def)
  with None ok show ?thesis by (simp add: pdm_debugfs_unregister_def fun_upd_idem)
next
  case (Some k)
  have files: "files_ok (\<lambda>a. de_entry (dg_entries s a)) (dg_files s) (dg_next s)" and roots: "roots_ok (dg_files s) (dg_roots s)"
    using ok by (simp_all add: debugfs_ok_def)
  from files Some obtain g where g: "g \<in> set (dg_files s)" "df_data g = a" "df_id g = k"
    unfolding files_ok_def by metis
  let ?fs = "remove_file k (dg_files s)"
  from roots g(1) obtain i where i: "i < length (dg_roots s)" "dr_name (dg_roots s ! i) = df_dir g"
    unfolding roots_ok_def by (metis in_set_conv_nth length_map nth_map)
  define p where "p = dg_roots s ! i"
  have p: "length (dr_name p) < 64" "unat (dr_users p) = dir_size (dr_name p) (dg_files s)"
      "dr_root p \<longleftrightarrow> dir_size (dr_name p) (dg_files s) \<noteq> 0" "dr_name p = df_dir g"
    using roots nth_mem [OF i(1)] i(2) by (auto simp: p_def roots_ok_def root_ok_def)
  have some: "dir_size (dr_name p) (dg_files s) \<noteq> 0" using g(1) p(4) by (auto simp: dir_size_zero)
  have size: "dir_size (dr_name p) ?fs = dir_size (dr_name p) (dg_files s) - 1"
    using dir_size_remove [OF files g(1), of "dr_name p"] p(4) g(3) by simp
  define t where "t = put_debugfs_entry a pdm_debugfs_entry_zero (s\<lparr>dg_files := ?fs\<rparr>)"
  have t: "dg_files t = ?fs" "dg_roots t = dg_roots s" "dg_next t = dg_next s" "dg_lock_ready t"
      "dg_entries t = (dg_entries s)(a := pdm_debugfs_entry_zero)"
    using ok i(1) by (auto simp: t_def put_debugfs_entry_def debugfs_ok_def)
  have "pdm_debugfs_unregister (Some a) s = pdm_debugfs_root_put (Some (dr_name p)) t"
    using Some p(1,4) ok g(1,2)
    by (auto simp: pdm_debugfs_unregister_def Let_def t_def debugfs_ok_def)
  also have "\<dots> = put_root i (p\<lparr>dr_users := dr_users p - 1, dr_root := dr_users p \<noteq> 1\<rparr>) t"
    using roots i(1) p some size
    by (intro root_put_law) (auto simp: t roots_ok_def p_def [symmetric] simp flip: unat_eq_0)
  finally have s': "pdm_debugfs_unregister (Some a) s = put_root i (p\<lparr>dr_users := dr_users p - 1, dr_root := dr_users p \<noteq> 1\<rparr>) t" .
  have dec: "unat (dr_users p - 1) = dir_size (dr_name p) ?fs"
    using unat_minus_one [of "dr_users p"] p(2) some size by (auto simp flip: unat_eq_0)
  have "roots_ok ?fs ((dg_roots s)[i := p\<lparr>dr_users := dr_users p - 1, dr_root := dr_users p \<noteq> 1\<rparr>])"
  proof (rule roots_ok_update [OF roots i(1)])
    have "dr_users p = 1 \<longleftrightarrow> dr_users p - 1 = 0" by auto
    also have "\<dots> \<longleftrightarrow> dir_size (dr_name p) ?fs = 0" using dec by (simp flip: unat_eq_0)
    finally show "root_ok ?fs (p\<lparr>dr_users := dr_users p - 1, dr_root := dr_users p \<noteq> 1\<rparr>)"
      using p(1) dec by (simp add: root_ok_def)
  qed (use dir_size_remove [OF files g(1)] g(3) p(4) i(2) files_ok_remove(2) [OF files Some] in \<open>auto simp: p_def\<close>)
  moreover have "files_ok (\<lambda>b. de_entry (dg_entries t b)) ?fs (dg_next t)"
    using files_ok_remove(1) [OF files Some] by (simp add: t(3) debugfs_reg [OF t(5)] pdm_debugfs_entry_zero_def)
  ultimately have "debugfs_ok (pdm_debugfs_unregister (Some a) s)"
    using ok t files_ok_remove(2) [OF files Some] by (auto simp: s' debugfs_ok_def put_root_def)
  moreover have "debugfs_view (pdm_debugfs_unregister (Some a) s) = (debugfs_view s)(a := None)"
    by (simp add: s' debugfs_view_def put_root_def t(5) fun_eq_iff Let_def pdm_debugfs_entry_zero_def)
  ultimately show ?thesis using length_remove_file [OF files g(1)] g(3) by (simp add: s' put_root_def t(1))
qed

text \<open>The module uses one directory.\<close>

interpretation debugfs_files: diag_files
    "\<lambda>os a nm wr s. pdm_debugfs_register os (Some a) (Some ''pdm'') (Some nm) (Some wr) None s"
    "\<lambda>a s. pdm_debugfs_unregister (Some a) s" debugfs_view debugfs_ok "\<lambda>s. length (dg_files s)"
proof unfold_locales
  fix s :: "'f debugfs_sys" and a os nm w r s'
  assume ok: "debugfs_ok s" and free: "debugfs_view s a = None" and room: "length (dg_files s) + 1 < 2 ^ 32"
    and r: "pdm_debugfs_register os (Some a) (Some ''pdm'') (Some nm) (Some w) None s = (r, s')"
  have "de_entry (dg_entries s a) = None" using free by (simp add: debugfs_view_def Let_def split: if_splits)
  from debugfs_register_law [OF ok this room _ _ r]
  show "debugfs_ok s' \<and> length (dg_files s') \<le> length (dg_files s) + 1 \<and>
      (debugfs_view s' = debugfs_view s \<or> r = 0 \<and> debugfs_view s' = (debugfs_view s)(a \<mapsto> (nm, w)))"
    by auto
qed (rule debugfs_unregister_law)

section \<open>Sessions\<close>

definition proc_init :: "'f proc_sys" where
  "proc_init = \<lparr>px_lock_ready = False, px_root = False, px_users = 0, px_entries = (\<lambda>_. pdm_proc_entry_zero), px_dir = False,
     px_files = [], px_next = 0\<rparr>"

definition debugfs_init :: "'f debugfs_sys" where
  "debugfs_init = \<lparr>dg_lock_ready = False, dg_roots = [], dg_entries = (\<lambda>_. pdm_debugfs_entry_zero), dg_files = [], dg_next = 0\<rparr>"

lemma proc_init_ok: "proc_ok proc_init" "dom (proc_view proc_init) = {}"
  by (simp_all add: proc_init_def proc_ok_def files_ok_def pdm_proc_entry_zero_def proc_view_def fun_eq_iff)

lemma debugfs_init_ok: "debugfs_ok debugfs_init" "dom (debugfs_view debugfs_init) = {}"
  by (simp_all add: debugfs_init_def debugfs_ok_def roots_ok_def files_ok_def pdm_debugfs_entry_zero_def debugfs_view_def fun_eq_iff)

text \<open>No entry holds a file, so there is none.\<close>

lemma proc_closed: "proc_ok s \<Longrightarrow> proc_view s = Map.empty \<Longrightarrow> px_files s = [] \<and> \<not> px_dir s \<and> \<not> px_root s \<and> px_users s = 0"
proof -
  assume ok: "proc_ok s" and none: "proc_view s = Map.empty"
  have "pe_entry (px_entries s a) = None" for a using fun_cong [OF none, of a] by (simp add: proc_view_def Let_def split: if_splits)
  then have "px_files s = []" using ok by (cases "px_files s") (auto simp: proc_ok_def files_ok_def)
  with ok show ?thesis by (simp add: proc_ok_def unat_eq_0)
qed

lemma debugfs_closed: "debugfs_ok s \<Longrightarrow> debugfs_view s = Map.empty \<Longrightarrow>
    dg_files s = [] \<and> (\<forall>r \<in> set (dg_roots s). \<not> dr_root r \<and> dr_users r = 0)"
proof -
  assume ok: "debugfs_ok s" and none: "debugfs_view s = Map.empty"
  have "de_entry (dg_entries s a) = None" for a using fun_cong [OF none, of a] by (simp add: debugfs_view_def Let_def split: if_splits)
  then have "dg_files s = []" using ok by (cases "dg_files s") (auto simp: debugfs_ok_def files_ok_def)
  with ok show ?thesis by (auto simp: debugfs_ok_def roots_ok_def root_ok_def dir_size_def unat_eq_0)
qed

text \<open>
  Whatever the drivers register and unregister in \<open>/proc\<close>, and whichever calls of the kernel
  fail: the files are those of the registered entries under their names, the users of the directory
  are counted exactly, it exists as long as there is a file, and nothing is left when the last entry
  was unregistered.
\<close>
theorem proc_files_session:
  fixes cs :: "(proc_os, 'f \<times> 'f option) file_call list"
  assumes "register_once {} cs" and "length cs < 2 ^ 32"
  shows "let s = file_session (\<lambda>os a nm (sh, wr) s. pdm_proc_register os (Some a) (Some nm) (Some sh) wr None s)
           (\<lambda>a s. pdm_proc_unregister (Some a) s) cs proc_init
         in proc_ok s \<and> dom (proc_view s) \<subseteq> still_registered {} cs \<and>
            (still_registered {} cs = {} \<longrightarrow> px_files s = [] \<and> \<not> px_dir s \<and> \<not> px_root s \<and> px_users s = 0)"
proof -
  have "length (px_files (proc_init :: 'f proc_sys)) = 0" by (simp add: proc_init_def)
  with assms have main: "proc_ok (file_session (\<lambda>os a nm (sh, wr) s. pdm_proc_register os (Some a) (Some nm) (Some sh) wr None s)
           (\<lambda>a s. pdm_proc_unregister (Some a) s) cs proc_init) \<and>
      dom (proc_view (file_session (\<lambda>os a nm (sh, wr) s. pdm_proc_register os (Some a) (Some nm) (Some sh) wr None s)
           (\<lambda>a s. pdm_proc_unregister (Some a) s) cs proc_init)) \<subseteq> still_registered {} cs"
    by (intro proc_files.session_ok) (simp_all add: proc_init_ok del: dom_eq_empty_conv)
  then have "still_registered {} cs = {} \<Longrightarrow> proc_view (file_session (\<lambda>os a nm (sh, wr) s. pdm_proc_register os (Some a) (Some nm) (Some sh) wr None s)
           (\<lambda>a s. pdm_proc_unregister (Some a) s) cs proc_init) = Map.empty" by auto
  with main proc_closed show ?thesis unfolding Let_def by blast
qed

lemma proc_files_session_witness:
  "px_files (file_session (\<lambda>os a nm (sh, wr) s. pdm_proc_register os (Some a) (Some nm) (Some sh) wr None s)
     (\<lambda>a s. pdm_proc_unregister (Some a) s)
     [FILE_REGISTER \<lparr>po_mkdir = True, po_create = True\<rparr> 7 ''led'' (True, None),
      FILE_REGISTER \<lparr>po_mkdir = True, po_create = False\<rparr> 9 ''mcu'' (False, None), FILE_UNREGISTER 9, FILE_UNREGISTER 7] proc_init) = []"
  using proc_files_session [of "[FILE_REGISTER \<lparr>po_mkdir = True, po_create = True\<rparr> 7 ''led'' (True, None),
      FILE_REGISTER \<lparr>po_mkdir = True, po_create = False\<rparr> 9 ''mcu'' (False, None), FILE_UNREGISTER 9, FILE_UNREGISTER 7]"]
  by (simp add: Let_def)

text \<open>
  The same of the files in debugfs: every directory struct counts the files of its directory, the
  directory exists exactly as long as it has one, and nothing is left when the last entry was
  unregistered, whichever calls of the kernel failed.
\<close>
theorem debugfs_files_session:
  fixes cs :: "(debugfs_os, 'f) file_call list"
  assumes "register_once {} cs" and "length cs < 2 ^ 32"
  shows "let s = file_session (\<lambda>os a nm wr s. pdm_debugfs_register os (Some a) (Some ''pdm'') (Some nm) (Some wr) None s)
           (\<lambda>a s. pdm_debugfs_unregister (Some a) s) cs debugfs_init
         in debugfs_ok s \<and> dom (debugfs_view s) \<subseteq> still_registered {} cs \<and>
            (still_registered {} cs = {} \<longrightarrow> dg_files s = [] \<and> (\<forall>r \<in> set (dg_roots s). \<not> dr_root r \<and> dr_users r = 0))"
proof -
  have "length (dg_files (debugfs_init :: 'f debugfs_sys)) = 0" by (simp add: debugfs_init_def)
  with assms have main: "debugfs_ok (file_session (\<lambda>os a nm wr s. pdm_debugfs_register os (Some a) (Some ''pdm'') (Some nm) (Some wr) None s)
           (\<lambda>a s. pdm_debugfs_unregister (Some a) s) cs debugfs_init) \<and>
      dom (debugfs_view (file_session (\<lambda>os a nm wr s. pdm_debugfs_register os (Some a) (Some ''pdm'') (Some nm) (Some wr) None s)
           (\<lambda>a s. pdm_debugfs_unregister (Some a) s) cs debugfs_init)) \<subseteq> still_registered {} cs"
    by (intro debugfs_files.session_ok) (simp_all add: debugfs_init_ok del: dom_eq_empty_conv)
  then have "still_registered {} cs = {} \<Longrightarrow> debugfs_view (file_session (\<lambda>os a nm wr s. pdm_debugfs_register os (Some a) (Some ''pdm'') (Some nm) (Some wr) None s)
           (\<lambda>a s. pdm_debugfs_unregister (Some a) s) cs debugfs_init) = Map.empty" by auto
  with main debugfs_closed show ?thesis unfolding Let_def by blast
qed

lemma debugfs_files_session_witness:
  "dg_files (file_session (\<lambda>os a nm wr s. pdm_debugfs_register os (Some a) (Some ''pdm'') (Some nm) (Some wr) None s)
     (\<lambda>a s. pdm_debugfs_unregister (Some a) s)
     [FILE_REGISTER \<lparr>do_zalloc = True, do_create_dir = DENTRY, do_create_file = DENTRY\<rparr> 7 ''led_control'' True,
      FILE_UNREGISTER 7] debugfs_init) = []"
  using debugfs_files_session [of "[FILE_REGISTER \<lparr>do_zalloc = True, do_create_dir = DENTRY, do_create_file = DENTRY\<rparr> 7 ''led_control'' True,
      FILE_UNREGISTER 7]"]
  by (simp add: Let_def)

end
