(* ===== verification/Pdm_Diag.thy ===== *)
theory Pdm_Diag
  imports Pdm_Debugfs Pdm_Bus Kernel_Text
begin

text \<open>
  Registering the text files of the LED and MCU drivers together with the drivers themselves
  (\<open>pdm_led_diag_init\<close>, \<open>pdm_led_driver_init\<close> and their counterparts, in \<open>pdm_led_diag.c\<close>,
  \<open>pdm_led.c\<close>, \<open>pdm_mcu_diag.c\<close> and \<open>pdm_mcu.c\<close>), the attributes of a device in sysfs
  (\<open>src/kernel/pdm/diag/pdm_sysfs.c\<close>), and what a write to one of the files leaves behind.

  The variables \<open>g_led_proc\<close>, \<open>g_led_debugfs\<close>, \<open>g_mcu_proc\<close> and \<open>g_mcu_debugfs\<close> are entries with an
  address each. The pointer to the device count is kept by the drivers' own states (\<open>Pdm_Led_Diag\<close>,
  \<open>Pdm_Mcu_Diag\<close>), which also have the handlers.
\<close>

datatype diag_handler = LED_PROC_SHOW | LED_PROC_WRITE | LED_DEBUGFS_WRITE | MCU_PROC_SHOW | MCU_PROC_WRITE | MCU_DEBUGFS_WRITE

abbreviation (input) LED_ENTRY :: nat where "LED_ENTRY \<equiv> 0"
abbreviation (input) MCU_ENTRY :: nat where "MCU_ENTRY \<equiv> 1"

record 'w diag_sys =
  ds_proc :: "diag_handler proc_sys"
  ds_debugfs :: "diag_handler debugfs_sys"
  ds_led_driver :: "'w pdm_driver"
  ds_led_registered :: bool
  ds_mcu_driver :: "'w pdm_driver"
  ds_mcu_registered :: bool

text \<open>What the kernel answers: to \<open>driver_register\<close>, and to the calls for the files.\<close>

record diag_os =
  dx_driver_register :: int
  dx_proc :: proc_os
  dx_debugfs :: debugfs_os

section \<open>Operations\<close>

definition pdm_led_diag_init :: "diag_os \<Rightarrow> 'w diag_sys \<Rightarrow> int \<times> 'w diag_sys" where
  "pdm_led_diag_init os s =
     (case pdm_proc_register (dx_proc os) (Some LED_ENTRY) (Some ''led'') (Some LED_PROC_SHOW) (Some LED_PROC_WRITE) None
        (ds_proc s) of (ret, p) \<Rightarrow>
      let s = s\<lparr>ds_proc := p\<rparr>
      in if ret \<noteq> 0 then (ret, s)
         else case pdm_debugfs_register (dx_debugfs os) (Some LED_ENTRY) (Some ''pdm'') (Some ''led_control'')
                (Some LED_DEBUGFS_WRITE) None (ds_debugfs s) of (ret, d) \<Rightarrow> (0, s\<lparr>ds_debugfs := d\<rparr>))"

definition pdm_led_diag_exit :: "'w diag_sys \<Rightarrow> 'w diag_sys" where
  "pdm_led_diag_exit s =
     (let s = s\<lparr>ds_debugfs := pdm_debugfs_unregister (Some LED_ENTRY) (ds_debugfs s)\<rparr>
      in s\<lparr>ds_proc := pdm_proc_unregister (Some LED_ENTRY) (ds_proc s)\<rparr>)"

definition pdm_led_driver_init :: "diag_os \<Rightarrow> nat \<Rightarrow> 'w diag_sys \<Rightarrow> int \<times> 'w diag_sys" where
  "pdm_led_driver_init os this_module s =
     (case pdm_bus_register_driver (dx_driver_register os) this_module (Some (ds_led_driver s)) of (ret, drv) \<Rightarrow>
      let s = s\<lparr>ds_led_driver := the drv\<rparr>
      in if ret \<noteq> 0 then (ret, s)
         else case pdm_led_diag_init os (s\<lparr>ds_led_registered := True\<rparr>) of (ret, s) \<Rightarrow>
           if ret \<noteq> 0 then (ret, s\<lparr>ds_led_registered := False\<rparr>) else (0, s))"

definition pdm_led_driver_exit :: "'w diag_sys \<Rightarrow> 'w diag_sys" where
  "pdm_led_driver_exit s = (pdm_led_diag_exit s)\<lparr>ds_led_registered := False\<rparr>"

definition pdm_mcu_diag_init :: "diag_os \<Rightarrow> 'w diag_sys \<Rightarrow> int \<times> 'w diag_sys" where
  "pdm_mcu_diag_init os s =
     (case pdm_proc_register (dx_proc os) (Some MCU_ENTRY) (Some ''mcu'') (Some MCU_PROC_SHOW) (Some MCU_PROC_WRITE) None
        (ds_proc s) of (ret, p) \<Rightarrow>
      let s = s\<lparr>ds_proc := p\<rparr>
      in if ret \<noteq> 0 then (ret, s)
         else case pdm_debugfs_register (dx_debugfs os) (Some MCU_ENTRY) (Some ''pdm'') (Some ''mcu_control'')
                (Some MCU_DEBUGFS_WRITE) None (ds_debugfs s) of (ret, d) \<Rightarrow> (0, s\<lparr>ds_debugfs := d\<rparr>))"

definition pdm_mcu_diag_exit :: "'w diag_sys \<Rightarrow> 'w diag_sys" where
  "pdm_mcu_diag_exit s =
     (let s = s\<lparr>ds_debugfs := pdm_debugfs_unregister (Some MCU_ENTRY) (ds_debugfs s)\<rparr>
      in s\<lparr>ds_proc := pdm_proc_unregister (Some MCU_ENTRY) (ds_proc s)\<rparr>)"

definition pdm_mcu_driver_init :: "diag_os \<Rightarrow> nat \<Rightarrow> 'w diag_sys \<Rightarrow> int \<times> 'w diag_sys" where
  "pdm_mcu_driver_init os this_module s =
     (case pdm_bus_register_driver (dx_driver_register os) this_module (Some (ds_mcu_driver s)) of (ret, drv) \<Rightarrow>
      let s = s\<lparr>ds_mcu_driver := the drv\<rparr>
      in if ret \<noteq> 0 then (ret, s)
         else case pdm_mcu_diag_init os (s\<lparr>ds_mcu_registered := True\<rparr>) of (ret, s) \<Rightarrow>
           if ret \<noteq> 0 then (ret, s\<lparr>ds_mcu_registered := False\<rparr>) else (0, s))"

definition pdm_mcu_driver_exit :: "'w diag_sys \<Rightarrow> 'w diag_sys" where
  "pdm_mcu_driver_exit s = (pdm_mcu_diag_exit s)\<lparr>ds_mcu_registered := False\<rparr>"

section \<open>The files come and go with the drivers\<close>

definition diag_ok :: "nat \<Rightarrow> 'w diag_sys \<Rightarrow> bool" where
  "diag_ok n s \<longleftrightarrow> proc_ok (ds_proc s) \<and> debugfs_ok (ds_debugfs s) \<and> length (px_files (ds_proc s)) \<le> n \<and>
     length (dg_files (ds_debugfs s)) \<le> n \<and> n < 9"

text \<open>What of a driver's files is there.\<close>

definition diag_files_of :: "'w diag_sys \<Rightarrow> nat \<Rightarrow> (string \<times> diag_handler \<times> diag_handler option) option \<times> (string \<times> diag_handler) option" where
  "diag_files_of s a = (proc_view (ds_proc s) a, debugfs_view (ds_debugfs s) a)"

text \<open>One step for both drivers: the two registrations at an address that has no files, and taking them back.\<close>

lemma diag_register:
  assumes ok: "diag_ok n s" and free: "diag_files_of s a = (None, None)" and room: "Suc n < 9"
    and p: "pdm_proc_register os1 (Some a) (Some nm) (Some sh) wr None (ds_proc s) = (r, p)"
    and d: "pdm_debugfs_register os2 (Some a) (Some ''pdm'') (Some nm2) (Some wr2) None (ds_debugfs s) = (r2, d)"
  shows "diag_ok (Suc n) (s\<lparr>ds_proc := p, ds_debugfs := d\<rparr>) \<and> diag_ok (Suc n) (s\<lparr>ds_proc := p\<rparr>) \<and>
    proc_view p = (if r = 0 then (proc_view (ds_proc s))(a \<mapsto> (nm, sh, wr)) else proc_view (ds_proc s)) \<and>
    (\<forall>b. b \<noteq> a \<longrightarrow> debugfs_view d b = debugfs_view (ds_debugfs s) b)"
proof -
  have e: "pe_entry (px_entries (ds_proc s) a) = None" "de_entry (dg_entries (ds_debugfs s) a) = None"
    using free by (auto simp: diag_files_of_def proc_view_def debugfs_view_def Let_def split: if_splits)
  have "debugfs_ok d \<and> length (dg_files d) \<le> Suc n \<and> (\<forall>b. b \<noteq> a \<longrightarrow> debugfs_view d b = debugfs_view (ds_debugfs s) b)"
    using debugfs_register_law [OF _ e(2) _ _ _ d] ok by (auto simp: diag_ok_def)
  moreover have "proc_ok p \<and> length (px_files p) \<le> Suc n \<and>
      proc_view p = (if r = 0 then (proc_view (ds_proc s))(a \<mapsto> (nm, sh, wr)) else proc_view (ds_proc s))"
    using proc_register_created [OF _ e(1) _ _ _ p] proc_register_failed [OF _ e(1) _ _ p] ok
    by (cases "po_create os1 \<and> (px_root (ds_proc s) \<or> po_mkdir os1)") (auto simp: diag_ok_def)
  ultimately show ?thesis using ok room by (simp add: diag_ok_def)
qed

lemma diag_unregister:
  assumes "diag_ok n s"
  shows "diag_ok n (s\<lparr>ds_proc := pdm_proc_unregister (Some a) (ds_proc s), ds_debugfs := pdm_debugfs_unregister (Some a) (ds_debugfs s)\<rparr>)"
    and "proc_view (pdm_proc_unregister (Some a) (ds_proc s)) = (proc_view (ds_proc s))(a := None)"
    and "debugfs_view (pdm_debugfs_unregister (Some a) (ds_debugfs s)) = (debugfs_view (ds_debugfs s))(a := None)"
  using proc_unregister_law [of "ds_proc s" a] debugfs_unregister_law [of "ds_debugfs s" a] assms
  by (auto simp: diag_ok_def)

text \<open>An init that fails adds nothing; one that succeeds puts the proc file there.\<close>

definition diag_init_result ::
  "nat \<Rightarrow> (string \<times> diag_handler \<times> diag_handler option) \<Rightarrow> 'w diag_sys \<Rightarrow> int \<times> 'w diag_sys \<Rightarrow> bool"
where
  "diag_init_result a file s res \<longleftrightarrow>
     proc_view (ds_proc (snd res)) = (if fst res = 0 then (proc_view (ds_proc s))(a \<mapsto> file) else proc_view (ds_proc s)) \<and>
     (\<forall>b. b \<noteq> a \<or> fst res \<noteq> 0 \<longrightarrow> debugfs_view (ds_debugfs (snd res)) b = debugfs_view (ds_debugfs s) b)"

lemma led_init_law:
  assumes ok: "diag_ok n s" and free: "diag_files_of s LED_ENTRY = (None, None)" and room: "Suc n < 9" and off: "\<not> ds_led_registered s"
    and r: "pdm_led_driver_init os m s = (r, s')"
  shows "diag_ok (Suc n) s' \<and> diag_init_result LED_ENTRY (''led'', LED_PROC_SHOW, Some LED_PROC_WRITE) s (r, s') \<and>
    (ds_led_registered s' \<longleftrightarrow> r = 0) \<and> ds_mcu_registered s' = ds_mcu_registered s"
proof -
  obtain q drv where bus: "pdm_bus_register_driver (dx_driver_register os) m (Some (ds_led_driver s)) = (q, drv)" by force
  obtain rp p where p: "pdm_proc_register (dx_proc os) (Some LED_ENTRY) (Some ''led'') (Some LED_PROC_SHOW) (Some LED_PROC_WRITE) None (ds_proc s) = (rp, p)" by force
  obtain rd d where d: "pdm_debugfs_register (dx_debugfs os) (Some LED_ENTRY) (Some ''pdm'') (Some ''led_control'') (Some LED_DEBUGFS_WRITE) None (ds_debugfs s) = (rd, d)" by force
  from diag_register [OF ok free room p d] r bus p d off ok room show ?thesis
    by (auto simp: pdm_led_driver_init_def pdm_led_diag_init_def diag_init_result_def Let_def diag_ok_def split: if_splits)
qed

lemma mcu_init_law:
  assumes ok: "diag_ok n s" and free: "diag_files_of s MCU_ENTRY = (None, None)" and room: "Suc n < 9" and off: "\<not> ds_mcu_registered s"
    and r: "pdm_mcu_driver_init os m s = (r, s')"
  shows "diag_ok (Suc n) s' \<and> diag_init_result MCU_ENTRY (''mcu'', MCU_PROC_SHOW, Some MCU_PROC_WRITE) s (r, s') \<and>
    (ds_mcu_registered s' \<longleftrightarrow> r = 0) \<and> ds_led_registered s' = ds_led_registered s"
proof -
  obtain q drv where bus: "pdm_bus_register_driver (dx_driver_register os) m (Some (ds_mcu_driver s)) = (q, drv)" by force
  obtain rp p where p: "pdm_proc_register (dx_proc os) (Some MCU_ENTRY) (Some ''mcu'') (Some MCU_PROC_SHOW) (Some MCU_PROC_WRITE) None (ds_proc s) = (rp, p)" by force
  obtain rd d where d: "pdm_debugfs_register (dx_debugfs os) (Some MCU_ENTRY) (Some ''pdm'') (Some ''mcu_control'') (Some MCU_DEBUGFS_WRITE) None (ds_debugfs s) = (rd, d)" by force
  from diag_register [OF ok free room p d] r bus p d off ok room show ?thesis
    by (auto simp: pdm_mcu_driver_init_def pdm_mcu_diag_init_def diag_init_result_def Let_def diag_ok_def split: if_splits)
qed

lemma led_exit_law:
  assumes "diag_ok n s"
  shows "diag_ok n (pdm_led_driver_exit s) \<and> \<not> ds_led_registered (pdm_led_driver_exit s) \<and>
    ds_mcu_registered (pdm_led_driver_exit s) = ds_mcu_registered s \<and>
    diag_files_of (pdm_led_driver_exit s) = (diag_files_of s)(LED_ENTRY := (None, None))"
  using diag_unregister [OF assms, of LED_ENTRY]
  by (auto simp: pdm_led_driver_exit_def pdm_led_diag_exit_def Let_def diag_files_of_def diag_ok_def fun_eq_iff)

lemma mcu_exit_law:
  assumes "diag_ok n s"
  shows "diag_ok n (pdm_mcu_driver_exit s) \<and> \<not> ds_mcu_registered (pdm_mcu_driver_exit s) \<and>
    ds_led_registered (pdm_mcu_driver_exit s) = ds_led_registered s \<and>
    diag_files_of (pdm_mcu_driver_exit s) = (diag_files_of s)(MCU_ENTRY := (None, None))"
  using diag_unregister [OF assms, of MCU_ENTRY]
  by (auto simp: pdm_mcu_driver_exit_def pdm_mcu_diag_exit_def Let_def diag_files_of_def diag_ok_def fun_eq_iff)

text \<open>
  The start: nothing is registered and there are no files. Here the LED driver comes up
  first; any order of the entries is in \<open>Pdm_Module_Load\<close>.
\<close>

definition diag_start :: "'w pdm_driver \<Rightarrow> 'w pdm_driver \<Rightarrow> 'w diag_sys" where
  "diag_start led mcu = \<lparr>ds_proc = proc_init, ds_debugfs = debugfs_init, ds_led_driver = led, ds_led_registered = False,
     ds_mcu_driver = mcu, ds_mcu_registered = False\<rparr>"

definition nothing_left :: "'w diag_sys \<Rightarrow> bool" where
  "nothing_left s \<longleftrightarrow> px_files (ds_proc s) = [] \<and> \<not> px_dir (ds_proc s) \<and> px_users (ds_proc s) = 0 \<and>
     dg_files (ds_debugfs s) = [] \<and> (\<forall>r \<in> set (dg_roots (ds_debugfs s)). \<not> dr_root r \<and> dr_users r = 0) \<and>
     \<not> ds_led_registered s \<and> \<not> ds_mcu_registered s"

lemma nothing_left:
  assumes "diag_ok n s" and "\<And>a. diag_files_of s a = (None, None)" and "\<not> ds_led_registered s" "\<not> ds_mcu_registered s"
  shows "nothing_left s"
proof -
  have "proc_view (ds_proc s) = Map.empty" "debugfs_view (ds_debugfs s) = Map.empty"
    using assms(2) by (simp_all add: diag_files_of_def fun_eq_iff)
  with proc_closed debugfs_closed assms show ?thesis unfolding nothing_left_def diag_ok_def by blast
qed

text \<open>
  Bringing up the LED and the MCU driver with their text files, whichever calls of the kernel fail:
  when the first fails, nothing is left; when the second fails, the files and the registration of the
  first are all there is; when both succeed, both proc files are there with their handlers, and exiting
  in reverse order leaves neither a file nor a directory nor a registered driver.
\<close>
theorem drivers_come_and_go:
  assumes "pdm_led_driver_init os m (diag_start led mcu) = (r1, s1)" and "pdm_mcu_driver_init os' m s1 = (r2, s2)"
  shows "(r1 \<noteq> 0 \<longrightarrow> nothing_left s1) \<and>
    (r1 = 0 \<and> r2 \<noteq> 0 \<longrightarrow> nothing_left (pdm_led_driver_exit s2) \<and> \<not> ds_mcu_registered s2 \<and>
       (\<forall>a. diag_files_of s2 a = diag_files_of s1 a)) \<and>
    (r1 = 0 \<and> r2 = 0 \<longrightarrow> proc_view (ds_proc s2) = [LED_ENTRY \<mapsto> (''led'', LED_PROC_SHOW, Some LED_PROC_WRITE),
         MCU_ENTRY \<mapsto> (''mcu'', MCU_PROC_SHOW, Some MCU_PROC_WRITE)] \<and>
       nothing_left (pdm_led_driver_exit (pdm_mcu_driver_exit s2)))"
proof -
  define s0 where "s0 = diag_start led mcu"
  have ok0: "diag_ok 0 s0" using proc_init_ok(1) debugfs_init_ok(1)
    by (simp add: s0_def diag_start_def diag_ok_def) (simp add: proc_init_def debugfs_init_def)
  have none: "proc_view (ds_proc s0) = Map.empty" "debugfs_view (ds_debugfs s0) = Map.empty"
    using proc_init_ok(2) debugfs_init_ok(2) by (simp_all add: s0_def diag_start_def)
  then have free: "diag_files_of s0 a = (None, None)" for a by (simp add: diag_files_of_def)
  have off: "\<not> ds_led_registered s0" "\<not> ds_mcu_registered s0" by (simp_all add: s0_def diag_start_def)
  note one = led_init_law [OF ok0 free _ off(1) assms(1) [folded s0_def], simplified]
  then have "\<not> ds_mcu_registered s1" "diag_files_of s1 MCU_ENTRY = (None, None)"
    using off none by (auto simp: diag_init_result_def diag_files_of_def)
  note two = mcu_init_law [OF one [THEN conjunct1] this(2) _ this(1) assms(2), simplified]
  have "r1 \<noteq> 0 \<longrightarrow> nothing_left s1"
    using one none off by (auto intro!: nothing_left simp: diag_init_result_def diag_files_of_def)
  moreover have "nothing_left (pdm_led_driver_exit s2)" if "r1 = 0" "r2 \<noteq> 0"
    using led_exit_law [of "Suc (Suc 0)" s2] one two none off that
    by (intro nothing_left [of "Suc (Suc 0)"]) (auto simp: diag_init_result_def diag_files_of_def fun_eq_iff)
  moreover have "\<forall>a. diag_files_of s2 a = diag_files_of s1 a" if "r2 \<noteq> 0"
    using two that by (auto simp: diag_init_result_def diag_files_of_def)
  moreover have "nothing_left (pdm_led_driver_exit (pdm_mcu_driver_exit s2))" if "r1 = 0" "r2 = 0"
    using mcu_exit_law [of "Suc (Suc 0)" s2] led_exit_law [of "Suc (Suc 0)" "pdm_mcu_driver_exit s2"] one two none off that
    by (intro nothing_left [of "Suc (Suc 0)"]) (auto simp: diag_init_result_def diag_files_of_def fun_eq_iff)
  moreover have "proc_view (ds_proc s2) = [LED_ENTRY \<mapsto> (''led'', LED_PROC_SHOW, Some LED_PROC_WRITE),
         MCU_ENTRY \<mapsto> (''mcu'', MCU_PROC_SHOW, Some MCU_PROC_WRITE)]" if "r1 = 0" "r2 = 0"
    using one two none that by (simp add: diag_init_result_def)
  ultimately show ?thesis using two by blast
qed

definition bare_driver :: "unit pdm_driver" where
  "bare_driver = \<lparr>dv_name = Some ''pdm-led'', dv_of_match_table = None, dv_alias_of_match_table = None, dv_owner = 0,
     dv_on_pdm_bus = False, dv_device_type = 1, dv_capabilities = 0, dv_match = None, dv_probe = None, dv_remove = None,
     dv_suspend = None, dv_resume = None\<rparr>"

definition kernel_agrees :: diag_os where
  "kernel_agrees = \<lparr>dx_driver_register = 0, dx_proc = \<lparr>po_mkdir = True, po_create = True\<rparr>,
     dx_debugfs = \<lparr>do_zalloc = True, do_create_dir = DENTRY, do_create_file = DENTRY\<rparr>\<rparr>"

lemma drivers_come_and_go_witness:
  "nothing_left (pdm_led_driver_exit (pdm_mcu_driver_exit (snd (pdm_mcu_driver_init kernel_agrees 1
     (snd (pdm_led_driver_init kernel_agrees 1 (diag_start bare_driver bare_driver)))))))"
proof -
  have "fst (pdm_led_driver_init kernel_agrees 1 (diag_start bare_driver bare_driver)) = 0"
    "fst (pdm_mcu_driver_init kernel_agrees 1 (snd (pdm_led_driver_init kernel_agrees 1 (diag_start bare_driver bare_driver)))) = 0"
    by code_simp+
  then show ?thesis
    using drivers_come_and_go [of kernel_agrees 1 bare_driver bare_driver, OF prod.collapse [symmetric] prod.collapse [symmetric]]
    by blast
qed

section \<open>A directory that could not be made\<close>

text \<open>
  When debugfs refuses the directory once, every later entry of that directory is reported as
  registered although it gets no file, even when the kernel would now agree.
\<close>
theorem debugfs_silently_off:
  assumes "debugfs_ok s" and "''pdm'' \<notin> set (map dr_name (dg_roots s))" and "do_zalloc os" and "do_create_dir os \<noteq> DENTRY"
    and "pdm_debugfs_register os (Some a) (Some ''pdm'') (Some nm) (Some wr) data s = (r, t)"
    and "pdm_debugfs_register os' (Some b) (Some ''pdm'') (Some nm') (Some wr') data' t = (r', u)"
  shows "r = (if dentry_error (do_create_dir os) = - ENODEV then 0 else dentry_error (do_create_dir os)) \<and>
    r' = 0 \<and> dg_files u = dg_files s \<and> de_entry (dg_entries u b) = None"
proof -
  let ?p = "\<lparr>dr_name = ''pdm'', dr_root = False, dr_users = 0, dr_available = False\<rparr>"
  have new: "pdm_debugfs_find_root_locked (dg_roots s) ''pdm'' = None" using assms(2) find_root_none by blast
  have e: "dentry_error (do_create_dir os) \<noteq> 0" using assms(4) by (auto simp: dentry_error_def split: dentry_answer.splits)
  have t: "r = (if dentry_error (do_create_dir os) = - ENODEV then 0 else dentry_error (do_create_dir os))"
      "dg_roots t = dg_roots s @ [?p]" "dg_files t = dg_files s"
    using assms(3-5) new e
    by (auto simp: pdm_debugfs_register_def pdm_debugfs_root_get_def Let_def put_debugfs_entry_def put_root_def split: if_splits)
  have "distinct (map dr_name (dg_roots t))" using assms(1,2) by (auto simp: t(2) debugfs_ok_def roots_ok_def)
  then have "pdm_debugfs_find_root_locked (dg_roots t) ''pdm'' = Some (length (dg_roots s))"
    using find_root_at [of "dg_roots t" "length (dg_roots s)"] by (simp add: t(2))
  with assms(6) have "r' = 0 \<and> dg_files u = dg_files s \<and> de_entry (dg_entries u b) = None"
    by (auto simp: pdm_debugfs_register_def pdm_debugfs_root_get_def Let_def put_debugfs_entry_def put_root_def t(2,3)
        pdm_debugfs_entry_zero_def)
  with t(1) show ?thesis by blast
qed

lemma debugfs_silently_off_witness:
  "fst (pdm_debugfs_register \<lparr>do_zalloc = True, do_create_dir = DENTRY, do_create_file = DENTRY\<rparr> (Some 1) (Some ''pdm'') (Some ''mcu_control'')
     (Some MCU_DEBUGFS_WRITE) None (snd (pdm_debugfs_register \<lparr>do_zalloc = True, do_create_dir = DENTRY_ERR 16, do_create_file = DENTRY\<rparr>
       (Some 0) (Some ''pdm'') (Some ''led_control'') (Some LED_DEBUGFS_WRITE) None debugfs_init))) = 0"
proof -
  have "''pdm'' \<notin> set (map dr_name (dg_roots (debugfs_init :: diag_handler debugfs_sys)))" by (simp add: debugfs_init_def)
  from debugfs_silently_off [OF debugfs_init_ok(1) this _ _ prod.collapse [symmetric] prod.collapse [symmetric],
      of "\<lparr>do_zalloc = True, do_create_dir = DENTRY_ERR 16, do_create_file = DENTRY\<rparr>"]
  show ?thesis by simp
qed

section \<open>Writing to a file\<close>

text \<open>A write in debugfs is a write in \<open>/proc\<close> to the entry with the same handler.\<close>

lemma debugfs_write_same:
  "pdm_debugfs_write call e ans buffer cnt ppos hp s =
   pdm_proc_write call (map_option (\<lambda>e. pdm_proc_entry_zero\<lparr>pe_write := de_write e, pe_data := de_data e\<rparr>) e) ans buffer cnt ppos hp s"
  by (cases e; cases "de_write (the e)") (simp_all add: pdm_debugfs_write_def pdm_proc_write_def pdm_proc_entry_zero_def split: option.split prod.split)

text \<open>
  A write to a text file of either kind, whatever it is given and whatever the handler does, leaves
  the heap of the module with the blocks it had; the answer is the number of characters or an error, and
  the position moves, by that number, only when the handler accepted the line. A line of more than 256
  characters never reaches the handler.
\<close>
theorem file_write_releases:
  assumes "heap_ok OSAL_HEAP_MAGIC hp" and "answer_ok (heap_view_of hp) (of_nat (cnt + 1)) ans"
    and "pdm_proc_write call pe ans buffer cnt ppos hp s = (r, ppos', hp', s')"
    and "pdm_debugfs_write call de ans buffer cnt ppos hp s = (q, qpos', hq', t')"
  shows "heap_ok OSAL_HEAP_MAGIC hp' \<and> heap_view_of hp' = heap_view_of hp \<and>
    heap_ok OSAL_HEAP_MAGIC hq' \<and> heap_view_of hq' = heap_view_of hp \<and>
    (ppos' \<noteq> ppos \<longrightarrow> r = int cnt \<and> ppos' = map_option (\<lambda>p. p + cnt) ppos \<and> 
       (\<exists>f line. Option.bind pe pe_write = Some f \<and> copy_from_user buffer = Some line \<and> fst (call f line cnt (pe_data (the pe)) s) = 0)) \<and>
    (256 < cnt \<longrightarrow> s' = s \<and> t' = s \<and> r \<in> {- E2BIG, - EOPNOTSUPP} \<and> q \<in> {- E2BIG, - EOPNOTSUPP})"
proof -
  have one: "heap_ok OSAL_HEAP_MAGIC hp' \<and> heap_view_of hp' = heap_view_of hp \<and>
    (ppos' \<noteq> ppos \<longrightarrow> r = int cnt \<and> ppos' = map_option (\<lambda>p. p + cnt) ppos \<and> 
       (\<exists>f line. Option.bind pe pe_write = Some f \<and> copy_from_user buffer = Some line \<and> fst (call f line cnt (pe_data (the pe)) s) = 0)) \<and>
    (256 < cnt \<longrightarrow> s' = s \<and> r \<in> {- E2BIG, - EOPNOTSUPP})"
    if w: "pdm_proc_write call pe ans buffer cnt ppos hp s = (r, ppos', hp', s')" for pe r ppos' hp' s'
  proof (cases "Option.bind pe pe_write = None \<or> cnt = 0 \<or> 256 < cnt")
    case True
    with w assms(1) show ?thesis by (auto simp: pdm_proc_write_def split: option.splits if_splits)
  next
    case False
    then obtain f where f: "Option.bind pe pe_write = Some f" and cnt: "cnt \<noteq> 0" "\<not> 256 < cnt" by auto
    obtain b hp1 where m: "kernel_malloc (of_nat (cnt + 1)) ans hp = (b, hp1)" by force
    note law = kernel_malloc_law [OF assms(1,2) m]
    show ?thesis
    proof (cases b)
      case None
      with law have "heap_view_of hp1 = heap_view_of hp" by (auto simp: alloc_spec_def split: option.splits if_splits)
      with w f cnt m None law show ?thesis by (auto simp: pdm_proc_write_def)
    next
      case (Some p)
      with law obtain bs where v: "heap_view_of hp1 = (heap_view_of hp)(p \<mapsto> bs)" and fresh: "p \<notin> hp_live hp"
        using assms(2) by (auto simp: alloc_spec_def answer_ok_def split: option.splits if_splits)
      from arg_cong [OF v, of dom] have "p \<in> hp_live hp1" by simp
      from kernel_free_law [OF law [THEN conjunct1] this] fresh
      have free: "heap_ok OSAL_HEAP_MAGIC (kernel_free (Some p) hp1)" "heap_view_of (kernel_free (Some p) hp1) = heap_view_of hp"
        by (simp_all add: v heap_view_of_def fun_eq_iff)
      obtain status line where c: "osal_copy_from_user True buffer = (status, line)" by force
      obtain ret u where call: "call f line cnt (pe_data (the pe)) s = (ret, u)" by force
      have "(r, ppos', hp', s') = (if status \<noteq> OSAL_SUCCESS then (- EFAULT, ppos, kernel_free (Some p) hp1, s)
          else if ret \<noteq> 0 then (ret, ppos, kernel_free (Some p) hp1, u)
          else (int cnt, map_option (\<lambda>pos. pos + cnt) ppos, kernel_free (Some p) hp1, u))"
        unfolding w [symmetric] using cnt by (simp add: pdm_proc_write_def f m [simplified] Some c call Let_def)
      moreover have "copy_from_user buffer = Some line" if "status = OSAL_SUCCESS"
        using c that by (auto simp: osal_copy_from_user_def split: option.splits)
      ultimately show ?thesis using free cnt call f by (auto split: if_splits)
    qed
  qed
  from one [OF assms(3)] one [OF assms(4) [unfolded debugfs_write_same]] show ?thesis by blast
qed

lemma file_write_releases_witness:
  "let hp = kernel_heap_init; e = pdm_proc_entry_zero\<lparr>pe_write := Some LED_PROC_WRITE\<rparr>;
       (r, pos, hp', s) = pdm_proc_write (\<lambda>f line cnt data s. (0, line # s)) (Some e) (Some (5, [1, 2, 3]))
          (rw_buf ''on'') 2 (Some 0) hp []
   in r = 2 \<and> pos = Some 2 \<and> s = [''on''] \<and> heap_view_of hp' = heap_view_of hp"
proof -
  define e where "e = (pdm_proc_entry_zero :: diag_handler pdm_proc_entry)\<lparr>pe_write := Some LED_PROC_WRITE\<rparr>"
  define d where "d = (pdm_debugfs_entry_zero :: diag_handler pdm_debugfs_entry)\<lparr>de_write := Some LED_DEBUGFS_WRITE\<rparr>"
  obtain r pos hp' s' where w: "pdm_proc_write (\<lambda>f line cnt data s. (0, line # s)) (Some e) (Some (5, [1, 2, 3]))
      (rw_buf ''on'') 2 (Some 0) kernel_heap_init [] = (r, pos, hp', s')" by (metis prod_cases4)
  obtain q qpos hq' t' where v: "pdm_debugfs_write (\<lambda>f line cnt data s. (0, line # s)) (Some d) (Some (5, [1, 2, 3]))
      (rw_buf ''on'') 2 (Some 0) kernel_heap_init [] = (q, qpos, hq', t')" by (metis prod_cases4)
  have "answer_ok (heap_view_of kernel_heap_init) (of_nat (2 + 1)) (Some (5, [1, 2, 3]))"
    by (simp add: kernel_init_ok(2) answer_ok_def)
  from file_write_releases [OF kernel_init_ok(1) this w v]
  have "heap_view_of hp' = heap_view_of kernel_heap_init" by simp
  moreover have "r = 2 \<and> pos = Some 2 \<and> s' = [''on'']"
    using w by (auto simp: e_def pdm_proc_write_def osal_copy_from_user_def Let_def kernel_malloc_def split: if_splits)
  ultimately show ?thesis by (simp add: Let_def w e_def [symmetric])
qed

section \<open>Attributes of a device\<close>

text \<open>\<open>sysfs_emit\<close> writes at most a page, with its NUL.\<close>

definition pdm_compat_sysfs_emit :: "string \<Rightarrow> string" where
  "pdm_compat_sysfs_emit s = take 4095 s"

definition pdm_name_show :: "pdm_device \<Rightarrow> string" where
  "pdm_name_show d = pdm_compat_sysfs_emit (pd_name d @ [newline])"

definition compatible_show :: "pdm_device \<Rightarrow> string" where
  "compatible_show d = pdm_compat_sysfs_emit ((case pd_compatible d of Some c \<Rightarrow> c | None \<Rightarrow> []) @ [newline])"

definition pdm_id_show :: "pdm_device \<Rightarrow> string" where
  "pdm_id_show d = pdm_compat_sysfs_emit (dec_int (pd_id d) @ [newline])"

definition pdm_type_show :: "pdm_device \<Rightarrow> string" where
  "pdm_type_show d = pdm_compat_sysfs_emit (fmt_u (pd_type d) @ [newline])"

definition capabilities_show :: "pdm_device \<Rightarrow> string" where
  "capabilities_show d = pdm_compat_sysfs_emit (''0x'' @ hex_digits (unat (pd_capabilities d)) @ [newline])"

definition pdm_driver_show :: "pdm_device \<Rightarrow> string" where
  "pdm_driver_show d = pdm_compat_sysfs_emit ((case pd_driver d of Some n \<Rightarrow> n | None \<Rightarrow> []) @ [newline])"

definition pdm_device_attrs :: "(string \<times> (pdm_device \<Rightarrow> string)) list" where
  "pdm_device_attrs = [(''pdm_name'', pdm_name_show), (''compatible'', compatible_show), (''pdm_id'', pdm_id_show),
     (''pdm_type'', pdm_type_show), (''capabilities'', capabilities_show), (''pdm_driver'', pdm_driver_show)]"

lemma hex_digits_length: "n < 16 ^ Suc k \<Longrightarrow> length (hex_digits n) \<le> Suc k"
proof (induction k arbitrary: n)
  case (Suc k)
  have "n div 16 < 16 ^ Suc k" using Suc.prems by (simp add: less_mult_imp_div_less)
  with Suc.IH [of "n div 16"] show ?case by (simp add: hex_digits.simps [of n])
qed (simp add: hex_digits.simps)

text \<open>The numbers that the attributes show are read back exactly.\<close>

lemma sysfs_numbers:
  "pdm_type_show d = dec_digits (unat (pd_type d)) @ [newline] \<and> digits_val 10 (butlast (pdm_type_show d)) = unat (pd_type d)"
  "digits_val 16 (butlast (drop 2 (capabilities_show d))) = unat (pd_capabilities d)"
proof -
  have "unat (pd_type d) < 2 ^ LENGTH(32)" by (rule unsigned_less)
  then have "length (dec_digits (unat (pd_type d))) \<le> Suc 9"
    by (intro length_dec_digits) simp
  then show "pdm_type_show d = dec_digits (unat (pd_type d)) @ [newline] \<and> digits_val 10 (butlast (pdm_type_show d)) = unat (pd_type d)"
    by (simp add: pdm_type_show_def pdm_compat_sysfs_emit_def fmt_u_def butlast_append)
  have "unat (pd_capabilities d) < 2 ^ LENGTH(64)" by (rule unsigned_less)
  then have "length (hex_digits (unat (pd_capabilities d))) \<le> Suc 15"
    by (intro hex_digits_length) simp
  then show "digits_val 16 (butlast (drop 2 (capabilities_show d))) = unat (pd_capabilities d)"
    by (simp add: capabilities_show_def pdm_compat_sysfs_emit_def butlast_append)
qed

end
