(* ===== verification/Pdm_Enumerate.thy ===== *)
theory Pdm_Enumerate
  imports Pdm_Device
begin

text \<open>
  The two enumerators that put devices on the PDM bus: the device-tree enumerator
  \<open>src/kernel/pdm/bus/pdm_of_bus.c\<close> and the synthetic devices
  \<open>src/kernel/pdm/drivers/mock/pdm_mock_devices.c\<close>, with \<open>pdm_device_unregister\<close> of
  \<open>pdm_device.c\<close>.

  A registered device is known by its name, which is unique on the bus (\<open>device_add\<close> refuses a name
  that is taken, \<open>device_add_laws\<close>); the lists of the enumerators hold names in place of pointers.
  The answers of the allocators and of the driver core are the argument \<open>enum_env\<close>. What the driver
  core does with a new device, matching and probing it, is \<open>Pdm_Bus\<close>.
\<close>

section \<open>State\<close>

record 'ida enum_sys =
  en_als :: "'ida pdm_id_allocator list"
  en_bus :: "pdm_device list"
  en_parents :: "string list"

record 'ida enum_env =
  ee_ida_api :: "'ida ida_api"
  ee_ctrl_alloc :: bool
  ee_dev_alloc :: "nat \<Rightarrow> bool"
  ee_entry_alloc :: "nat \<Rightarrow> bool"
  ee_set_name :: "string \<Rightarrow> int"
  ee_add :: "string list \<Rightarrow> string \<Rightarrow> int"

definition device_add_laws :: "'ida enum_env \<Rightarrow> bool" where
  "device_add_laws env \<longleftrightarrow> (\<forall>names name. ee_add env names name = 0 \<longrightarrow> name \<notin> set names)"

abbreviation bus_names :: "'ida enum_sys \<Rightarrow> string list" where
  "bus_names s \<equiv> map pd_name (en_bus s)"

text \<open>
  \<open>device_unregister\<close> takes the device off the bus; dropping the last reference runs
  \<open>pdm_device_release\<close>.
\<close>

fun pdm_device_unregister :: "'ida enum_env \<Rightarrow> 'ida enum_sys \<Rightarrow> string option \<Rightarrow> 'ida enum_sys" where
  "pdm_device_unregister env s None = s"
| "pdm_device_unregister env s (Some name) =
     (case find (\<lambda>d. pd_name d = name) (en_bus s) of
        None \<Rightarrow> s
      | Some d \<Rightarrow> s\<lparr>en_bus := filter (\<lambda>e. pd_name e \<noteq> name) (en_bus s),
                   en_als := pdm_device_release (ee_ida_api env) (en_als s) d\<rparr>)"

section \<open>The device-tree enumerator\<close>

abbreviation (input) PDM_BUS_DEVICE_NAME_LEN :: nat where "PDM_BUS_DEVICE_NAME_LEN \<equiv> 96"

record pdm_of_bus =
  oc_devices :: "string list"
  oc_device_count :: int

fun of_unregister_loop ::
  "'ida enum_env \<Rightarrow> 'ida enum_sys \<Rightarrow> int \<Rightarrow> string list \<Rightarrow> 'ida enum_sys \<times> int" where
  "of_unregister_loop env s count [] = (s, count)"
| "of_unregister_loop env s count (e # es) =
     of_unregister_loop env (pdm_device_unregister env s (Some e)) (count - 1) es"

definition pdm_of_bus_unregister_devices ::
  "'ida enum_env \<Rightarrow> 'ida enum_sys \<Rightarrow> pdm_of_bus \<Rightarrow> 'ida enum_sys \<times> pdm_of_bus" where
  "pdm_of_bus_unregister_devices env s ctrl =
     (case of_unregister_loop env s (oc_device_count ctrl) (oc_devices ctrl) of
        (s', count) \<Rightarrow> (s', \<lparr>oc_devices = [], oc_device_count = count\<rparr>))"

text \<open>\<open>(int)reg\<close> reads the 32-bit register value as a signed number.\<close>

definition pdm_of_bus_child_id :: "dt_node \<Rightarrow> int" where
  "pdm_of_bus_child_id child =
     (case dt_u32 child ''pdm,id'' of
        Some reg \<Rightarrow> sint reg
      | None \<Rightarrow> (case dt_u32 child ''reg'' of Some reg \<Rightarrow> sint reg | None \<Rightarrow> -1))"

definition of_child_name :: "string \<Rightarrow> dt_node \<Rightarrow> int \<Rightarrow> nat \<Rightarrow> string" where
  "of_child_name bus child device_id auto_name_id =
     strscpy PDM_BUS_DEVICE_NAME_LEN
       (if 0 \<le> device_id then bus @ ''.'' @ dt_name child @ ''.'' @ dec_int device_id
        else bus @ ''.'' @ dt_name child @ ''.auto'' @ dec_digits auto_name_id)"

definition of_child_device :: "nat \<Rightarrow> dt_node \<Rightarrow> string \<Rightarrow> pdm_device" where
  "of_child_device pdev child compatible =
     the (pdm_device_set_requested_id
       (Some ((the (pdm_device_alloc True))\<lparr>pd_parent := Some pdev, pd_of_node := Some child,
                                            pd_compatible := Some compatible\<rparr>))
       (pdm_of_bus_child_id child))"

text \<open>
  The loop over the available children. \<open>i\<close> counts the children seen, for the allocators' answers;
  the result is the return value, the system and the controller's list.
\<close>

fun pdm_of_bus_probe_loop ::
  "'ida enum_env \<Rightarrow> string \<Rightarrow> nat \<Rightarrow> nat \<Rightarrow> nat \<Rightarrow> 'ida enum_sys \<Rightarrow> pdm_of_bus \<Rightarrow> dt_node list \<Rightarrow>
   int \<times> 'ida enum_sys \<times> pdm_of_bus" where
  "pdm_of_bus_probe_loop env bus pdev i auto s ctrl [] = (0, s, ctrl)"
| "pdm_of_bus_probe_loop env bus pdev i auto s ctrl (child # children) =
     (case dt_str child ''compatible'' of
        None \<Rightarrow> pdm_of_bus_probe_loop env bus pdev (Suc i) auto s ctrl children
      | Some compatible \<Rightarrow>
          case pdm_device_alloc (ee_dev_alloc env i) of
            None \<Rightarrow> (- ENOMEM, s, ctrl)
          | Some d0 \<Rightarrow>
              if \<not> ee_entry_alloc env i then
                (- ENOMEM, s\<lparr>en_als := pdm_device_release (ee_ida_api env) (en_als s) d0\<rparr>, ctrl)
              else
                let device_id = pdm_of_bus_child_id child;
                    d = of_child_device pdev child compatible;
                    name = of_child_name bus child device_id auto;
                    auto' = (if 0 \<le> device_id then auto else Suc auto)
                in case pdm_device_register (ee_ida_api env) (ee_set_name env name)
                          (ee_add env (bus_names s) name) (en_als s) (Some d) (Some name) of
                     (ret, als', dev') \<Rightarrow>
                       if ret \<noteq> 0 then (ret, s\<lparr>en_als := als'\<rparr>, ctrl)
                       else pdm_of_bus_probe_loop env bus pdev (Suc i) auto'
                              (s\<lparr>en_als := als', en_bus := en_bus s @ [the dev']\<rparr>)
                              \<lparr>oc_devices = oc_devices ctrl @ [name],
                               oc_device_count = oc_device_count ctrl + 1\<rparr> children)"

definition pdm_of_bus_probe ::
  "'ida enum_env \<Rightarrow> string \<Rightarrow> nat \<Rightarrow> 'ida enum_sys \<Rightarrow> dt_node list \<Rightarrow>
   int \<times> 'ida enum_sys \<times> pdm_of_bus option" where
  "pdm_of_bus_probe env bus pdev s children =
     (if \<not> ee_ctrl_alloc env then (- ENOMEM, s, None)
      else case pdm_of_bus_probe_loop env bus pdev 0 0 s \<lparr>oc_devices = [], oc_device_count = 0\<rparr> children of
             (ret, s1, ctrl) \<Rightarrow>
               if ret \<noteq> 0 then
                 (case pdm_of_bus_unregister_devices env s1 ctrl of (s2, ctrl2) \<Rightarrow> (ret, s2, Some ctrl2))
               else (0, s1, Some ctrl))"

definition pdm_of_bus_remove ::
  "'ida enum_env \<Rightarrow> 'ida enum_sys \<Rightarrow> pdm_of_bus option \<Rightarrow> 'ida enum_sys \<times> pdm_of_bus option" where
  "pdm_of_bus_remove env s ctrl =
     (case ctrl of
        None \<Rightarrow> (s, None)
      | Some c \<Rightarrow> (case pdm_of_bus_unregister_devices env s c of (s', c') \<Rightarrow> (s', Some c')))"

section \<open>Synthetic devices\<close>

record pdm_mock_device_desc =
  md_name :: string
  md_compatible :: string
  md_id :: int

record pdm_mock_device_entry =
  me_pdm_dev :: "string option"
  me_parent :: string
  me_parent_registered :: bool

definition pdm_mock_device_descs :: "pdm_mock_device_desc list" where
  "pdm_mock_device_descs = [\<lparr>md_name = ''led'', md_compatible = ''pdm,led'', md_id = 0\<rparr>]"

definition pdm_mock_device_entry_zero :: pdm_mock_device_entry where
  "pdm_mock_device_entry_zero = \<lparr>me_pdm_dev = None, me_parent = [], me_parent_registered = False\<rparr>"

definition pdm_mock_parent_release :: "pdm_mock_device_entry \<Rightarrow> pdm_mock_device_entry" where
  "pdm_mock_parent_release e = e\<lparr>me_parent_registered := False\<rparr>"

definition mock_parent_unregister :: "'ida enum_sys \<Rightarrow> pdm_mock_device_entry \<Rightarrow> 'ida enum_sys" where
  "mock_parent_unregister s e = s\<lparr>en_parents := filter (\<lambda>p. p \<noteq> me_parent e) (en_parents s)\<rparr>"

definition pdm_mock_unregister_one ::
  "'ida enum_env \<Rightarrow> 'ida enum_sys \<Rightarrow> pdm_mock_device_entry \<Rightarrow> 'ida enum_sys \<times> pdm_mock_device_entry" where
  "pdm_mock_unregister_one env s e =
     (let (s1, e1) = (if me_pdm_dev e \<noteq> None
                      then (pdm_device_unregister env s (me_pdm_dev e), e\<lparr>me_pdm_dev := None\<rparr>)
                      else (s, e))
      in if me_parent_registered e1
         then (mock_parent_unregister s1 e1, (pdm_mock_parent_release e1)\<lparr>me_parent_registered := False\<rparr>)
         else (s1, e1))"

definition mock_parent_name :: "pdm_mock_device_desc \<Rightarrow> string" where
  "mock_parent_name desc = ''pdm-mock-'' @ md_name desc @ dec_int (md_id desc)"

definition pdm_mock_register_parent ::
  "'ida enum_env \<Rightarrow> 'ida enum_sys \<Rightarrow> pdm_mock_device_entry \<Rightarrow> pdm_mock_device_desc \<Rightarrow>
   int \<times> 'ida enum_sys \<times> pdm_mock_device_entry" where
  "pdm_mock_register_parent env s e desc =
     (let name = mock_parent_name desc; ret = ee_set_name env name
      in if ret \<noteq> 0 then (ret, s, pdm_mock_parent_release e)
         else let ret = ee_add env (en_parents s) name
              in if ret \<noteq> 0 then (ret, s, pdm_mock_parent_release (e\<lparr>me_parent := name\<rparr>))
                 else (0, s\<lparr>en_parents := en_parents s @ [name]\<rparr>,
                       e\<lparr>me_parent := name, me_parent_registered := True\<rparr>))"

definition mock_device :: "nat \<Rightarrow> pdm_mock_device_desc \<Rightarrow> pdm_device" where
  "mock_device parent desc =
     the (pdm_device_set_requested_id
       (Some ((the (pdm_device_alloc True))\<lparr>pd_parent := Some parent,
                                            pd_compatible := Some (md_compatible desc)\<rparr>))
       (md_id desc))"

definition mock_device_name :: "pdm_mock_device_desc \<Rightarrow> string" where
  "mock_device_name desc =
     strscpy 64 (mock_parent_name desc @ ''.'' @ md_name desc @ ''.'' @ dec_int (md_id desc))"

definition pdm_mock_register_one ::
  "'ida enum_env \<Rightarrow> nat \<Rightarrow> 'ida enum_sys \<Rightarrow> pdm_mock_device_entry \<Rightarrow> pdm_mock_device_desc \<Rightarrow>
   int \<times> 'ida enum_sys \<times> pdm_mock_device_entry" where
  "pdm_mock_register_one env i s e desc =
     (case pdm_mock_register_parent env s e desc of (ret, s1, e1) \<Rightarrow>
        if ret \<noteq> 0 then (ret, s1, e1)
        else case pdm_device_alloc (ee_dev_alloc env i) of
               None \<Rightarrow> (- ENOMEM, mock_parent_unregister s1 e1, pdm_mock_parent_release e1)
             | Some _ \<Rightarrow>
                 let name = mock_device_name desc
                 in case pdm_device_register (ee_ida_api env) (ee_set_name env name)
                           (ee_add env (bus_names s1) name) (en_als s1) (Some (mock_device i desc)) (Some name) of
                      (ret, als', dev') \<Rightarrow>
                        let s2 = s1\<lparr>en_als := als'\<rparr>
                        in if ret \<noteq> 0 then (ret, mock_parent_unregister s2 e1, pdm_mock_parent_release e1)
                           else (0, s2\<lparr>en_bus := en_bus s2 @ [the dev']\<rparr>, e1\<lparr>me_pdm_dev := Some name\<rparr>))"

text \<open>
  The static array of entries is a list; \<open>i\<close> is the index of the loop. The unwinding loop goes from
  the last entry registered down to the first.
\<close>

fun mock_unregister_down ::
  "'ida enum_env \<Rightarrow> 'ida enum_sys \<Rightarrow> pdm_mock_device_entry list \<Rightarrow> nat \<Rightarrow>
   'ida enum_sys \<times> pdm_mock_device_entry list" where
  "mock_unregister_down env s es 0 = (s, es)"
| "mock_unregister_down env s es (Suc i) =
     (case pdm_mock_unregister_one env s (es ! i) of
        (s', e') \<Rightarrow> mock_unregister_down env s' (es[i := e']) i)"

fun mock_register_up ::
  "'ida enum_env \<Rightarrow> nat \<Rightarrow> 'ida enum_sys \<Rightarrow> pdm_mock_device_entry list \<Rightarrow> pdm_mock_device_desc list \<Rightarrow>
   int \<times> nat \<times> 'ida enum_sys \<times> pdm_mock_device_entry list" where
  "mock_register_up env i s es [] = (0, i, s, es)"
| "mock_register_up env i s es (desc # descs) =
     (case pdm_mock_register_one env i s (es ! i) desc of
        (ret, s', e') \<Rightarrow>
          if ret \<noteq> 0 then (ret, i, s', es[i := e'])
          else mock_register_up env (Suc i) s' (es[i := e']) descs)"

definition pdm_mock_devices_init ::
  "'ida enum_env \<Rightarrow> 'ida enum_sys \<Rightarrow> pdm_mock_device_entry list \<Rightarrow>
   int \<times> 'ida enum_sys \<times> pdm_mock_device_entry list" where
  "pdm_mock_devices_init env s es =
     (case mock_register_up env 0 s es pdm_mock_device_descs of
        (ret, i, s1, es1) \<Rightarrow>
          if ret \<noteq> 0 then (case mock_unregister_down env s1 es1 i of (s2, es2) \<Rightarrow> (ret, s2, es2))
          else (0, s1, es1))"

definition pdm_mock_devices_exit ::
  "'ida enum_env \<Rightarrow> 'ida enum_sys \<Rightarrow> pdm_mock_device_entry list \<Rightarrow>
   'ida enum_sys \<times> pdm_mock_device_entry list" where
  "pdm_mock_devices_exit env s es = mock_unregister_down env s es (length es)"

section \<open>What the enumerators leave on the bus\<close>

text \<open>The devices a device tree describes: one per child that has a compatible string.\<close>

fun of_devices :: "string \<Rightarrow> nat \<Rightarrow> nat \<Rightarrow> dt_node list \<Rightarrow> pdm_device list" where
  "of_devices bus pdev auto [] = []"
| "of_devices bus pdev auto (child # children) =
     (case dt_str child ''compatible'' of
        None \<Rightarrow> of_devices bus pdev auto children
      | Some compatible \<Rightarrow>
          (of_child_device pdev child compatible)
             \<lparr>pd_name := of_child_name bus child (pdm_of_bus_child_id child) auto\<rparr>
          # of_devices bus pdev (if 0 \<le> pdm_of_bus_child_id child then auto else Suc auto) children)"

lemma alloc_unallocated [simp]: "pdm_device_alloc ok = Some d \<Longrightarrow> \<not> pd_id_allocated d"
  by (auto simp: pdm_device_alloc_def split: if_splits)

lemma release_unallocated [simp]: "\<not> pd_id_allocated d \<Longrightarrow> pdm_device_release api als d = als"
  by (simp add: pdm_device_release_def)

lemma of_child_device_unallocated [simp]: "\<not> pd_id_allocated (of_child_device pdev child compatible)"
  by (simp add: of_child_device_def pdm_device_alloc_def Let_def)

lemma mock_device_unallocated [simp]: "\<not> pd_id_allocated (mock_device parent desc)"
  by (simp add: mock_device_def pdm_device_alloc_def Let_def)

lemma register_unallocated:
  assumes "pdm_device_register api r1 r2 als (Some d) (Some name) = (ret, als', dev')"
    and "\<not> pd_id_allocated d"
  shows "als' = als \<and> (if ret = 0 then r2 = 0 \<and> dev' = Some (d\<lparr>pd_name := name\<rparr>) else dev' = None)"
  using assms by (auto split: if_splits)

text \<open>\<open>fresh_devices s new\<close>: new devices may follow those on the bus.\<close>

definition fresh_devices :: "pdm_device list \<Rightarrow> pdm_device list \<Rightarrow> bool" where
  "fresh_devices old new \<longleftrightarrow> distinct (map pd_name new) \<and> set (map pd_name new) \<inter> set (map pd_name old) = {} \<and>
     (\<forall>d \<in> set new. \<not> pd_id_allocated d)"

lemma fresh_devices_Cons:
  assumes "fresh_devices (old @ [d]) new" and "pd_name d \<notin> set (map pd_name old)" and "\<not> pd_id_allocated d"
  shows "fresh_devices old (d # new)"
  using assms by (auto simp: fresh_devices_def)

lemma find_fresh:
  assumes "pd_name d \<notin> pd_name ` set old"
  shows "find (\<lambda>e. pd_name e = pd_name d) (old @ d # new) = Some d"
  using assms by (induction old) auto

lemma filter_fresh:
  assumes "fresh_devices old (d # new)"
  shows "filter (\<lambda>e. pd_name e \<noteq> pd_name d) (old @ d # new) = old @ new"
proof -
  have "\<forall>e \<in> set old. pd_name e \<noteq> pd_name d" "\<forall>e \<in> set new. pd_name e \<noteq> pd_name d"
    using assms unfolding fresh_devices_def by (metis disjoint_iff distinct.simps(2) image_eqI list.set_intros(1)
        list.set_map list.simps(9))+
  then have "filter (\<lambda>e. pd_name e \<noteq> pd_name d) old = old" "filter (\<lambda>e. pd_name e \<noteq> pd_name d) new = new"
    by (simp_all add: filter_id_conv)
  then show ?thesis by simp
qed

lemma unregister_fresh:
  assumes "fresh_devices old (d # new)" and "en_bus s = old @ d # new"
  shows "pdm_device_unregister env s (Some (pd_name d)) = s\<lparr>en_bus := old @ new\<rparr>"
proof -
  have "find (\<lambda>e. pd_name e = pd_name d) (en_bus s) = Some d"
    unfolding assms(2) by (rule find_fresh) (use assms(1) in \<open>auto simp: fresh_devices_def\<close>)
  with assms filter_fresh [OF assms(1)] show ?thesis by (simp add: fresh_devices_def)
qed

lemma of_unregister_loop_fresh:
  assumes "fresh_devices old new" and "en_bus s = old @ new"
  shows "of_unregister_loop env s count (map pd_name new) =
     (s\<lparr>en_bus := old\<rparr>, count - int (length new))"
  using assms
proof (induction new arbitrary: s count)
  case (Cons d new)
  have "fresh_devices old new" using Cons.prems(1) by (auto simp: fresh_devices_def)
  with Cons.IH [of "s\<lparr>en_bus := old @ new\<rparr>" "count - 1"] unregister_fresh [OF Cons.prems]
  show ?case by simp
qed simp

lemma of_probe_loop:
  assumes laws: "device_add_laws env"
    and "pdm_of_bus_probe_loop env bus pdev i auto s ctrl children = (ret, s', ctrl')"
  shows "\<exists>new. s' = s\<lparr>en_bus := en_bus s @ new\<rparr> \<and> fresh_devices (en_bus s) new \<and>
     ctrl' = \<lparr>oc_devices = oc_devices ctrl @ map pd_name new,
              oc_device_count = oc_device_count ctrl + int (length new)\<rparr> \<and>
     (ret = 0 \<longrightarrow> new = of_devices bus pdev auto children)"
  using assms(2)
proof (induction children arbitrary: i auto s ctrl)
  case Nil
  then show ?case by (intro exI [of _ "[]"]) (simp add: fresh_devices_def)
next
  case (Cons child children)
  let ?id = "pdm_of_bus_child_id child"
  let ?name = "of_child_name bus child ?id auto"
  let ?auto = "if 0 \<le> ?id then auto else Suc auto"
  show ?case
  proof (cases "dt_str child ''compatible''")
    case None
    with Cons.IH [of "Suc i" auto s ctrl] Cons.prems show ?thesis by simp
  next
    case (Some compatible)
    let ?d = "of_child_device pdev child compatible"
    obtain r als' dev' where reg: "pdm_device_register (ee_ida_api env) (ee_set_name env ?name)
        (ee_add env (bus_names s) ?name) (en_als s) (Some ?d) (Some ?name) = (r, als', dev')"
      using prod_cases3 by blast
    note r = register_unallocated [OF reg of_child_device_unallocated]
    show ?thesis
    proof (cases "pdm_device_alloc (ee_dev_alloc env i) \<noteq> None \<and> ee_entry_alloc env i \<and> r = 0")
      case False
      then have "s' = s" "ctrl' = ctrl" "ret \<noteq> 0"
        using Cons.prems Some reg r
        by (auto simp: Let_def simp del: pdm_device_register.simps split: option.splits if_splits)
      then show ?thesis by (intro exI [of _ "[]"]) (simp add: fresh_devices_def)
    next
      case True
      let ?e = "?d\<lparr>pd_name := ?name\<rparr>"
      let ?s = "s\<lparr>en_bus := en_bus s @ [?e]\<rparr>"
      let ?ctrl = "\<lparr>oc_devices = oc_devices ctrl @ [?name], oc_device_count = oc_device_count ctrl + 1\<rparr>"
      have "pdm_of_bus_probe_loop env bus pdev (Suc i) ?auto ?s ?ctrl children = (ret, s', ctrl')"
        using Cons.prems Some reg r True by (auto simp: Let_def simp del: pdm_device_register.simps)
      from Cons.IH [OF this] obtain new where new: "s' = ?s\<lparr>en_bus := en_bus ?s @ new\<rparr>"
        "fresh_devices (en_bus ?s) new"
        "ctrl' = \<lparr>oc_devices = oc_devices ?ctrl @ map pd_name new,
                  oc_device_count = oc_device_count ?ctrl + int (length new)\<rparr>"
        "ret = 0 \<longrightarrow> new = of_devices bus pdev ?auto children" by blast
      have "ee_add env (bus_names s) ?name = 0" using r True by simp
      then have "?name \<notin> set (bus_names s)" using laws unfolding device_add_laws_def by blast
      then have "fresh_devices (en_bus s) (?e # new)"
        using new(2) by (intro fresh_devices_Cons) simp_all
      with new Some show ?thesis by (intro exI [of _ "?e # new"]) simp
    qed
  qed
qed

text \<open>One synthetic device: registering it, and taking it away again.\<close>

definition mock_idle :: "pdm_mock_device_entry \<Rightarrow> bool" where
  "mock_idle e \<longleftrightarrow> me_pdm_dev e = None \<and> \<not> me_parent_registered e"

lemma mock_register_parent:
  assumes laws: "device_add_laws env" and idle: "mock_idle e"
    and call: "pdm_mock_register_parent env s e desc = (ret, s1, e1)"
  shows "if ret = 0
     then s1 = s\<lparr>en_parents := en_parents s @ [mock_parent_name desc]\<rparr> \<and>
          e1 = e\<lparr>me_parent := mock_parent_name desc, me_parent_registered := True\<rparr> \<and>
          mock_parent_name desc \<notin> set (en_parents s)
     else s1 = s \<and> mock_idle e1"
  using call laws idle
  by (auto simp: pdm_mock_register_parent_def Let_def mock_idle_def pdm_mock_parent_release_def
      device_add_laws_def split: if_splits)

lemma parent_gone:
  "p \<notin> set ps \<Longrightarrow> filter (\<lambda>q. q \<noteq> p) (ps @ [p]) = ps"
  by (simp add: filter_id_conv) (metis)

lemma mock_register_one:
  assumes laws: "device_add_laws env" and idle: "mock_idle e"
    and call: "pdm_mock_register_one env i s e desc = (ret, s', e')"
  shows "if ret = 0
     then (\<exists>e0. mock_idle e0 \<and> pdm_mock_unregister_one env s' e' = (s, e0))
     else s' = s \<and> mock_idle e'"
proof -
  obtain r1 s1 e1 where par: "pdm_mock_register_parent env s e desc = (r1, s1, e1)" using prod_cases3 by blast
  note p = mock_register_parent [OF laws idle par]
  show ?thesis
  proof (cases "r1 = 0")
    case False
    with call par p show ?thesis by (auto simp: pdm_mock_register_one_def)
  next
    case True
    let ?name = "mock_device_name desc"
    let ?d = "mock_device i desc"
    have s1: "s1 = s\<lparr>en_parents := en_parents s @ [mock_parent_name desc]\<rparr>"
      and e1: "e1 = e\<lparr>me_parent := mock_parent_name desc, me_parent_registered := True\<rparr>"
      and new: "mock_parent_name desc \<notin> set (en_parents s)" using p True by simp_all
    have undo: "mock_parent_unregister s1 e1 = s"
      unfolding mock_parent_unregister_def using s1 e1 parent_gone [OF new] by simp
    obtain r2 als' dev' where reg: "pdm_device_register (ee_ida_api env) (ee_set_name env ?name)
        (ee_add env (bus_names s1) ?name) (en_als s1) (Some ?d) (Some ?name) = (r2, als', dev')"
      using prod_cases3 by blast
    note r2 = register_unallocated [OF reg mock_device_unallocated]
    show ?thesis
    proof (cases "pdm_device_alloc (ee_dev_alloc env i) \<noteq> None \<and> r2 = 0")
      case False
      with call par \<open>r1 = 0\<close> reg r2 undo idle e1 show ?thesis
        by (auto simp: pdm_mock_register_one_def Let_def mock_idle_def pdm_mock_parent_release_def
            simp del: pdm_device_register.simps split: option.splits if_splits)
    next
      case ok: True
      let ?dn = "?d\<lparr>pd_name := ?name\<rparr>"
      have res: "ret = 0" "s' = s1\<lparr>en_bus := en_bus s @ [?dn]\<rparr>" "e' = e1\<lparr>me_pdm_dev := Some ?name\<rparr>"
        using call par \<open>r1 = 0\<close> reg r2 ok s1
        by (auto simp: pdm_mock_register_one_def Let_def simp del: pdm_device_register.simps)
      have "ee_add env (bus_names s1) ?name = 0" using r2 ok by simp
      then have "?name \<notin> set (bus_names s1)" using laws unfolding device_add_laws_def by blast
      then have "fresh_devices (en_bus s) [?dn]" using s1 by (simp add: fresh_devices_def)
      moreover have "en_bus s' = en_bus s @ ?dn # []" using res by simp
      ultimately have "pdm_device_unregister env s' (Some ?name) = s1"
        using unregister_fresh [of "en_bus s" ?dn "[]" s' env] res s1 by simp
      with res(1,3) e1 undo show ?thesis
        by (simp add: pdm_mock_unregister_one_def mock_idle_def pdm_mock_parent_release_def
            mock_parent_unregister_def)
    qed
  qed
qed

text \<open>All synthetic devices: an index loop up that a loop down undoes.\<close>

lemma mock_unregister_length: "length (snd (mock_unregister_down env s es i)) = length es"
  by (induction env s es i rule: mock_unregister_down.induct) (simp_all split: prod.split)

lemma mock_devices_init:
  assumes laws: "device_add_laws env" and "length es = 1" and idle: "mock_idle (es ! 0)"
    and call: "pdm_mock_devices_init env s es = (ret, s', es')"
  shows "length es' = 1 \<and>
     (if ret = 0 then (\<exists>es0. length es0 = 1 \<and> mock_idle (es0 ! 0) \<and> pdm_mock_devices_exit env s' es' = (s, es0))
      else s' = s \<and> mock_idle (es' ! 0))"
proof -
  obtain e where es: "es = [e]" using assms(2) by (auto simp: length_Suc_conv)
  obtain r s1 e1 where one: "pdm_mock_register_one env 0 s e (hd pdm_mock_device_descs) = (r, s1, e1)"
    using prod_cases3 by blast
  note m = mock_register_one [OF laws _ one]
  have init: "pdm_mock_devices_init env s es = (r, s1, [e1])"
    using one by (simp add: pdm_mock_devices_init_def es pdm_mock_device_descs_def)
  show ?thesis
  proof (cases "r = 0")
    case True
    with m idle es obtain e0 where "mock_idle e0" "pdm_mock_unregister_one env s1 e1 = (s, e0)" by auto
    with init call True show ?thesis by (auto simp: pdm_mock_devices_exit_def)
  next
    case False
    with m idle es init call show ?thesis by auto
  qed
qed

section \<open>Properties\<close>

text \<open>
  C14. Enumerating a device tree is all or nothing. On success the bus has gained one device for each
  child with a compatible string, in tree order, with the documented name, the child's \<open>pdm,id\<close> or
  \<open>reg\<close> as requested id, and the controller lists exactly these; removing the controller takes them
  off again. On failure at any child the bus is as before.
\<close>

theorem of_bus_probe_all_or_nothing:
  assumes "device_add_laws env" and "pdm_of_bus_probe env bus pdev s children = (ret, s', ctrl)"
  shows "(ret = 0 \<longrightarrow> (\<exists>c. ctrl = Some c \<and> s' = s\<lparr>en_bus := en_bus s @ of_devices bus pdev 0 children\<rparr> \<and>
            oc_devices c = map pd_name (of_devices bus pdev 0 children) \<and>
            oc_device_count c = int (length (oc_devices c)) \<and>
            pdm_of_bus_remove env s' ctrl = (s, Some \<lparr>oc_devices = [], oc_device_count = 0\<rparr>))) \<and>
         (ret \<noteq> 0 \<longrightarrow> s' = s \<and> (ee_ctrl_alloc env \<longrightarrow> ctrl = Some \<lparr>oc_devices = [], oc_device_count = 0\<rparr>))"
proof (cases "ee_ctrl_alloc env")
  case False
  with assms(2) show ?thesis by (simp add: pdm_of_bus_probe_def)
next
  case True
  obtain r s1 c1 where loop: "pdm_of_bus_probe_loop env bus pdev 0 0 s \<lparr>oc_devices = [], oc_device_count = 0\<rparr>
      children = (r, s1, c1)" using prod_cases3 by blast
  from of_probe_loop [OF assms(1) loop] obtain new where new: "s1 = s\<lparr>en_bus := en_bus s @ new\<rparr>"
    "fresh_devices (en_bus s) new" "c1 = \<lparr>oc_devices = map pd_name new, oc_device_count = int (length new)\<rparr>"
    "r = 0 \<longrightarrow> new = of_devices bus pdev 0 children" by auto
  have undo: "pdm_of_bus_unregister_devices env s1 c1 = (s, \<lparr>oc_devices = [], oc_device_count = 0\<rparr>)"
    using of_unregister_loop_fresh [OF new(2), of s1 env] new(1,3)
    by (simp add: pdm_of_bus_unregister_devices_def)
  show ?thesis
  proof (cases "r = 0")
    case True
    with loop \<open>ee_ctrl_alloc env\<close> assms(2) have "ret = 0" "s' = s1" "ctrl = Some c1"
      by (auto simp: pdm_of_bus_probe_def)
    with new undo True show ?thesis by (simp add: pdm_of_bus_remove_def)
  next
    case False
    with loop \<open>ee_ctrl_alloc env\<close> assms(2) undo show ?thesis by (auto simp: pdm_of_bus_probe_def)
  qed
qed

text \<open>A tree with a LED that has a register, a child to skip and an MCU without an id.\<close>

definition dt_child :: "string \<Rightarrow> string option \<Rightarrow> u32 option \<Rightarrow> dt_node" where
  "dt_child name compatible reg = \<lparr>dt_name = name,
     dt_u32 = (\<lambda>p. if p = ''reg'' then reg else None),
     dt_str = (\<lambda>p. if p = ''compatible'' then compatible else None), dt_bool = (\<lambda>_. False)\<rparr>"

definition enum_env_ok :: "nat list enum_env" where
  "enum_env_ok = \<lparr>ee_ida_api = list_ida, ee_ctrl_alloc = True, ee_dev_alloc = (\<lambda>_. True),
     ee_entry_alloc = (\<lambda>_. True), ee_set_name = (\<lambda>_. 0),
     ee_add = (\<lambda>names name. if name \<in> set names then -17 else 0)\<rparr>"

lemma enum_env_ok_laws: "device_add_laws enum_env_ok"
  by (auto simp: device_add_laws_def enum_env_ok_def split: if_splits)

definition enum_sys0 :: "nat list enum_sys" where
  "enum_sys0 = \<lparr>en_als = pdm_id_allocators [], en_bus = [], en_parents = []\<rparr>"

definition example_tree :: "dt_node list" where
  "example_tree = [dt_child ''led'' (Some ''pdm,led'') (Some 3), dt_child ''memory'' None None,
     dt_child ''mcu'' (Some ''pdm,mcu-can'') None]"

definition example_of_probe :: "int \<times> nat list enum_sys \<times> pdm_of_bus option" where
  "example_of_probe = pdm_of_bus_probe enum_env_ok ''pdm-bus'' 1 enum_sys0 example_tree"

lemma example_digits: "dec_int 3 = ''3''" "dec_int 0 = ''0''" "dec_digits 0 = ''0''"
  by code_simp+

lemma example_of_probe_ret: "fst example_of_probe = 0"
  by (simp add: example_of_probe_def pdm_of_bus_probe_def enum_env_ok_def example_tree_def dt_child_def
      enum_sys0_def pdm_device_alloc_def of_child_name_def pdm_of_bus_child_id_def Let_def
      example_digits)

theorem of_bus_probe_all_or_nothing_witness:
  "bus_names (fst (snd example_of_probe)) = [''pdm-bus.led.3'', ''pdm-bus.mcu.auto0'']"
proof -
  have "pdm_of_bus_probe enum_env_ok ''pdm-bus'' 1 enum_sys0 example_tree =
      (0, fst (snd example_of_probe), snd (snd example_of_probe))"
    using example_of_probe_ret by (metis example_of_probe_def prod.collapse)
  from of_bus_probe_all_or_nothing [OF enum_env_ok_laws this] show ?thesis
    by (auto simp: enum_sys0_def example_tree_def dt_child_def of_child_name_def pdm_of_bus_child_id_def example_digits)
qed

end
