(* ===== verification/Pdm_Errors.thy ===== *)
theory Pdm_Errors
  imports Pdm_Device
begin

text \<open>
  The error history of a device. \<open>pdm_device_record_error_type\<close> keeps a ring of eight records and
  counts consecutive equal errors in place. Its specification is the run-length encoding of the
  recorded errors: read backwards from the write index, the ring holds the latest eight runs.
\<close>

section \<open>Specification: runs of equal errors, the latest first\<close>

type_synonym run = "int \<times> u32 \<times> nat"

fun push_error :: "run list \<Rightarrow> int \<times> u32 \<Rightarrow> run list" where
  "push_error [] (e, ty) = [(e, ty, 1)]"
| "push_error ((c, t, n) # rs) (e, ty) =
     (if c = e \<and> t = ty then (c, t, Suc n) # rs else (e, ty, 1) # (c, t, n) # rs)"

definition runs :: "(int \<times> u32) list \<Rightarrow> run list" where
  "runs es = foldl push_error [] es"

section \<open>The ring, read backwards\<close>

definition ring_at :: "pdm_device \<Rightarrow> nat \<Rightarrow> pdm_error_record" where
  "ring_at d k = pd_errors d ! ((pd_error_write_index d + 8 - k) mod 8)"

definition shows_run :: "pdm_error_record \<Rightarrow> run \<Rightarrow> bool" where
  "shows_run rec r \<longleftrightarrow> er_code rec = fst r \<and> er_type rec = fst (snd r) \<and> er_count rec = of_nat (snd (snd r))"

definition history_ok :: "pdm_device \<Rightarrow> run list \<Rightarrow> bool" where
  "history_ok d rs \<longleftrightarrow> pd_error_write_index d < 8 \<and> length (pd_errors d) = 8 \<and>
     (\<forall>k < length rs. k < 8 \<longrightarrow> shows_run (ring_at d k) (rs ! k)) \<and>
     (rs = [] \<longrightarrow> er_code (ring_at d 0) = 0)"

lemma ring_at_0: "pd_error_write_index d < 8 \<Longrightarrow> ring_at d 0 = pd_errors d ! pd_error_write_index d"
  by (simp add: ring_at_def)

lemma history_ok_init:
  "pdm_device_alloc True = Some d \<Longrightarrow> history_ok d []"
  by (auto simp: history_ok_def pdm_device_alloc_def ring_at_def pdm_error_record_zero_def)

lemma mod_eight_neq: "i < 8 \<Longrightarrow> 0 < k \<Longrightarrow> k < 8 \<Longrightarrow> (i + 8 - k) mod 8 \<noteq> (i :: nat)"
  by (cases "k \<le> i") (auto simp: mod_if)

text \<open>An error equal to the latest one is counted in its slot.\<close>

lemma record_same:
  assumes "er_code (pd_errors d ! pd_error_write_index d) = e"
    and "er_type (pd_errors d ! pd_error_write_index d) = ty" and "e \<noteq> 0"
    and "pdm_device_record_error_type now (Some d) e ty = Some d'"
  shows "pd_error_write_index d' = pd_error_write_index d \<and>
         pd_errors d' = (pd_errors d)[pd_error_write_index d :=
           (pd_errors d ! pd_error_write_index d)
             \<lparr>er_count := er_count (pd_errors d ! pd_error_write_index d) + 1, er_time := now\<rparr>]"
  using assms by (auto simp: Let_def)

text \<open>Any other error opens the next slot.\<close>

lemma record_new:
  assumes "\<not> (er_code (pd_errors d ! pd_error_write_index d) = e \<and>
              er_type (pd_errors d ! pd_error_write_index d) = ty)" and "e \<noteq> 0"
    and "pdm_device_record_error_type now (Some d) e ty = Some d'"
  shows "pd_error_write_index d' = Suc (pd_error_write_index d) mod 8 \<and>
         pd_errors d' = (pd_errors d)[Suc (pd_error_write_index d) mod 8 :=
           \<lparr>er_code = e, er_type = ty, er_time = now, er_count = 1\<rparr>]"
proof -
  from assms(1) show ?thesis
    using assms(2,3) by (simp only: pdm_device_record_error_type.simps Let_def if_False
        option.inject Suc_eq_plus1) auto
qed

lemma history_ok_same:
  assumes ok: "history_ok d ((e, ty, n) # rs)" and "e \<noteq> 0"
    and call: "pdm_device_record_error_type now (Some d) e ty = Some d'"
  shows "history_ok d' ((e, ty, Suc n) # rs)"
proof -
  have idx: "pd_error_write_index d < 8" "length (pd_errors d) = 8"
    using ok by (simp_all add: history_ok_def)
  have top: "shows_run (pd_errors d ! pd_error_write_index d) (e, ty, n)"
    using ok idx by (auto simp: history_ok_def ring_at_0)
  then have "er_code (pd_errors d ! pd_error_write_index d) = e"
      "er_type (pd_errors d ! pd_error_write_index d) = ty"
    by (simp_all add: shows_run_def)
  note d' = record_same [OF this assms(2) call]
  have "ring_at d' k = ring_at d k" if "0 < k" "k < 8" for k
    using d' mod_eight_neq [OF idx(1) that] by (simp add: ring_at_def)
  moreover have "shows_run (ring_at d' 0) (e, ty, Suc n)"
    using d' idx top by (simp add: ring_at_def shows_run_def)
  ultimately have "shows_run (ring_at d' k) (((e, ty, Suc n) # rs) ! k)"
    if "k < Suc (length rs)" "k < 8" for k
    using ok that by (cases k) (auto simp: history_ok_def)
  then show ?thesis using d' idx by (simp add: history_ok_def)
qed

lemma history_ok_new:
  assumes ok: "history_ok d rs" and "e \<noteq> 0"
    and new: "rs = [] \<or> (fst (hd rs), fst (snd (hd rs))) \<noteq> (e, ty)"
    and call: "pdm_device_record_error_type now (Some d) e ty = Some d'"
  shows "history_ok d' ((e, ty, 1) # rs)"
proof -
  have idx: "pd_error_write_index d < 8" "length (pd_errors d) = 8"
    using ok by (simp_all add: history_ok_def)
  have "\<not> (er_code (pd_errors d ! pd_error_write_index d) = e \<and>
           er_type (pd_errors d ! pd_error_write_index d) = ty)"
  proof (cases rs)
    case Nil
    with ok idx assms(2) show ?thesis by (auto simp: history_ok_def ring_at_0)
  next
    case (Cons r rs')
    with ok idx have "shows_run (pd_errors d ! pd_error_write_index d) r"
      by (auto simp: history_ok_def ring_at_0)
    with new Cons show ?thesis by (auto simp: shows_run_def)
  qed
  note d' = record_new [OF this assms(2) call]
  have "ring_at d' (Suc k) = ring_at d k" if "Suc k < 8" for k
  proof -
    have "(Suc (pd_error_write_index d) mod 8 + 8 - Suc k) mod 8 \<noteq> Suc (pd_error_write_index d) mod 8"
      using mod_eight_neq [of "Suc (pd_error_write_index d) mod 8" "Suc k"] that by simp
    moreover have "(Suc (pd_error_write_index d) mod 8 + 8 - Suc k) mod 8 =
        (pd_error_write_index d + 8 - k) mod 8"
      using mod_eight_diff [OF idx(1), of k] that by simp
    ultimately show ?thesis
      unfolding ring_at_def using d' by (metis nth_list_update_neq)
  qed
  moreover have "shows_run (ring_at d' 0) (e, ty, 1)"
    using d' idx by (simp add: ring_at_def shows_run_def)
  ultimately have "shows_run (ring_at d' k) (((e, ty, 1) # rs) ! k)"
    if "k < Suc (length rs)" "k < 8" for k
    using ok that by (cases k) (auto simp: history_ok_def)
  then show ?thesis using d' idx by (simp add: history_ok_def)
qed

lemma history_ok_push:
  assumes "history_ok d rs" and "e \<noteq> 0"
    and "pdm_device_record_error_type now (Some d) e ty = Some d'"
  shows "history_ok d' (push_error rs (e, ty))"
proof (cases rs)
  case Nil
  with assms history_ok_new [of d rs e ty now d'] show ?thesis by simp
next
  case (Cons r rs')
  obtain c t n where r: "r = (c, t, n)" by (cases r)
  show ?thesis
  proof (cases "c = e \<and> t = ty")
    case True
    with assms Cons r history_ok_same show ?thesis by auto
  next
    case False
    with assms Cons r history_ok_new [of d rs e ty now d'] show ?thesis by auto
  qed
qed

section \<open>Recording a sequence of errors\<close>

text \<open>Each error comes with the time \<open>ktime_get_ns\<close> returns for it.\<close>

fun record_all :: "pdm_device \<Rightarrow> (u64 \<times> int \<times> u32) list \<Rightarrow> pdm_device" where
  "record_all d [] = d"
| "record_all d ((now, e, ty) # es) =
     record_all (the (pdm_device_record_error_type now (Some d) e ty)) es"

lemma record_returns:
  obtains d' where "pdm_device_record_error_type now (Some d) e ty = Some d'"
  by (cases "e = 0") (simp_all add: Let_def)

lemma history_ok_record_all:
  assumes "history_ok d rs" and "\<forall>(now, e, ty) \<in> set es. e \<noteq> 0"
  shows "history_ok (record_all d es) (foldl push_error rs (map snd es))"
  using assms
proof (induction es arbitrary: d rs)
  case Nil
  then show ?case by simp
next
  case (Cons x es)
  obtain now e ty where x: "x = (now, e, ty)" by (cases x)
  obtain d' where d': "pdm_device_record_error_type now (Some d) e ty = Some d'"
    by (rule record_returns)
  have "history_ok d' (push_error rs (e, ty))"
    using Cons.prems x by (intro history_ok_push [OF _ _ d']) auto
  with Cons x d' show ?case by simp
qed

lemma record_counters:
  assumes "e \<noteq> 0" and "pdm_device_record_error_type now (Some d) e ty = Some d'"
  shows "pd_last_error d' = e \<and> pd_error_count d' = pd_error_count d + 1 \<and>
         pd_total_error_count d' = pd_total_error_count d + 1 \<and>
         pd_state d' = PDM_MANAGER_DEVICE_STATE_ERROR"
  using assms by (auto simp: Let_def split: if_splits)

lemma record_all_counters:
  assumes "\<forall>(now, e, ty) \<in> set es. e \<noteq> 0"
  shows "pd_error_count (record_all d es) = pd_error_count d + of_nat (length es) \<and>
         (es \<noteq> [] \<longrightarrow> pd_last_error (record_all d es) = fst (snd (last es)) \<and>
            pd_state (record_all d es) = PDM_MANAGER_DEVICE_STATE_ERROR)"
  using assms
proof (induction es arbitrary: d)
  case Nil
  then show ?case by simp
next
  case (Cons x es)
  obtain now e ty where x: "x = (now, e, ty)" by (cases x)
  obtain d' where d': "pdm_device_record_error_type now (Some d) e ty = Some d'"
    by (rule record_returns)
  have "e \<noteq> 0" using Cons.prems x by auto
  note now = record_counters [OF this d']
  have IH: "pd_error_count (record_all d' es) = pd_error_count d' + of_nat (length es) \<and>
         (es \<noteq> [] \<longrightarrow> pd_last_error (record_all d' es) = fst (snd (last es)) \<and>
            pd_state (record_all d' es) = PDM_MANAGER_DEVICE_STATE_ERROR)"
    using Cons by auto
  show ?case
    using IH now d' x by (cases "es = []") (auto simp: algebra_simps)
qed

section \<open>Properties\<close>

text \<open>
  C16. The ring implements the run-length encoding: after any sequence of errors on a new device,
  the slot \<open>k\<close> places behind the write index holds the code, the type and the length of the
  \<open>k\<close>-th latest run, for each of the latest eight.
\<close>

theorem error_history_refines:
  assumes "pdm_device_alloc True = Some d" and "\<forall>(now, e, ty) \<in> set es. e \<noteq> 0"
    and "k < 8" and "k < length (runs (map snd es))"
  shows "shows_run (ring_at (record_all d es) k) (runs (map snd es) ! k)"
  using history_ok_record_all [OF history_ok_init [OF assms(1)] assms(2)] assms(3,4)
  by (simp add: history_ok_def runs_def)

theorem error_history_refines_witness:
  "shows_run (ring_at (record_all (the (pdm_device_alloc True))
      [(1, -5, 1), (2, -5, 1), (3, -110, 1)]) 1) (-5, 1, 2)"
proof -
  have "pdm_device_alloc True = Some (the (pdm_device_alloc True))"
    by (simp add: pdm_device_alloc_def)
  note ref = error_history_refines [OF this, of "[(1, -5, 1), (2, -5, 1), (3, -110, 1)]" 1]
  show ?thesis using ref by (simp add: runs_def numeral_2_eq_2 del: record_all.simps)
qed

text \<open>
  Every recorded error is counted (modulo the 32-bit counter), the last one is kept, and the
  device is in the error state.
\<close>

lemma error_counters_exact:
  assumes "pdm_device_alloc True = Some d" and "es \<noteq> []" and "\<forall>(now, e, ty) \<in> set es. e \<noteq> 0"
  shows "pd_error_count (record_all d es) = of_nat (length es) \<and>
         pd_last_error (record_all d es) = fst (snd (last es)) \<and>
         pd_state (record_all d es) = PDM_MANAGER_DEVICE_STATE_ERROR"
  using record_all_counters [OF assms(3), of d] assms(1,2) by (auto simp: pdm_device_alloc_def)

lemma error_counters_exact_witness:
  "pd_error_count (record_all (the (pdm_device_alloc True)) [(1, -5, 1), (2, -110, 2)]) = 2"
proof -
  have "pdm_device_alloc True = Some (the (pdm_device_alloc True))"
    by (simp add: pdm_device_alloc_def)
  from error_counters_exact [OF this, of "[(1, -5, 1), (2, -110, 2)]"] show ?thesis
    by (simp del: record_all.simps)
qed

end
