(* ===== verification/Pdm_Led_Driver.thy ===== *)
theory Pdm_Led_Driver
  imports Pdm_Led
begin

unbundle bit_operations_syntax

text \<open>
  Probe and remove of the LED driver, the second half of \<open>src/kernel/pdm/drivers/led/pdm_led.c\<close>, and
  the driver as the bus sees it.

  \<open>led_sys\<close> is everything the driver changes: the LED hardware, the minor numbers, the references
  its clients hold on PDM devices, the device counter, and the memory of the instances by address,
  each with its client and the files open on it. What the kernel answers (the address \<open>kzalloc\<close>
  returns, the results of \<open>dev_set_name\<close> and \<open>cdev_device_add\<close>, the address of a device) is the
  argument \<open>led_env\<close>.
\<close>

section \<open>State\<close>

record led_client =
  lc_inst :: pdm_led_instance
  lc_client :: pdm_cdev
  lc_files :: "nat set"

record 'ida led_sys =
  lg_hw :: led_hw
  lg_ida :: "'ida"
  lg_refs :: nat
  lg_count :: int
  lg_insts :: "nat \<Rightarrow> led_client option"

record 'ida led_env =
  ev_ida_api :: "'ida ida_api"
  ev_hw_api :: led_hw_api
  ev_backends :: "(unit, pdm_led_backend_type) pdm_backend_entry list"
  ev_dev_addr :: "pdm_device \<Rightarrow> nat"
  ev_kzalloc :: "'ida led_sys \<Rightarrow> nat option"
  ev_set_name_ret :: "string \<Rightarrow> int"
  ev_add_ret :: "string \<Rightarrow> int"

text \<open>\<open>kzalloc\<close> clears the memory.\<close>

definition pdm_led_instance_zero :: "nat \<Rightarrow> pdm_led_instance" where
  "pdm_led_instance_zero dev = \<lparr>in_lock = False, in_online = False, le_pdm_dev = dev, le_ops = None,
     le_brightness = 0, le_max_brightness = 0, le_enabled = 0, le_hw = None\<rparr>"

definition fresh_cdev_sys :: "'ida led_sys \<Rightarrow> 'ida cdev_sys" where
  "fresh_cdev_sys w = \<lparr>cs_ida = lg_ida w, cs_client = pdm_cdev_zero, cs_pdm_refs = lg_refs w,
     cs_files = {}, cs_freed = False\<rparr>"

definition client_cdev_sys :: "'ida led_sys \<Rightarrow> led_client \<Rightarrow> 'ida cdev_sys" where
  "client_cdev_sys w c = \<lparr>cs_ida = lg_ida w, cs_client = lc_client c, cs_pdm_refs = lg_refs w,
     cs_files = lc_files c, cs_freed = False\<rparr>"

section \<open>Probe\<close>

definition pdm_led_select_ops ::
  "(unit, pdm_led_backend_type) pdm_backend_entry list \<Rightarrow> string option \<Rightarrow> pdm_led_backend_type option" where
  "pdm_led_select_ops entries compatible =
     (if pdm_led_is_generic_compatible compatible then Some PDM_LED_BACKEND_MEMORY
      else case pdm_backend_find entries PDM_LED_DEVICE_TYPE PDM_BACKEND_CLASS_CONTROL compatible of
             Some e \<Rightarrow> be_ops e
           | None \<Rightarrow> Some PDM_LED_BACKEND_MEMORY)"

definition pdm_led_nodename :: "int \<Rightarrow> string" where
  "pdm_led_nodename nid = strscpy 32 (''led'' @ dec_int nid)"

text \<open>
  The error exits free the instance, which then never becomes part of \<open>lg_insts\<close>. A registered
  backend has operations (\<open>pdm_backend_entries_init\<close> refuses others), so \<open>inst->ops\<close> is set; the
  probe relies on it, and on the backend having a cleanup.
\<close>

definition pdm_led_probe ::
  "'ida led_env \<Rightarrow> 'ida led_sys \<Rightarrow> pdm_device \<Rightarrow> int \<times> 'ida led_sys \<times> pdm_device" where
  "pdm_led_probe env w d =
     (case ev_kzalloc env w of
        None \<Rightarrow> (- ENOMEM, w, d)
      | Some addr \<Rightarrow>
          let inst = pdm_driver_init (pdm_led_instance_zero (ev_dev_addr env d));
              inst = inst\<lparr>le_ops := pdm_led_select_ops (ev_backends env) (pd_compatible d)\<rparr>;
              ops_of = pdm_led_ops (ev_hw_api env);
              ops = ops_of (the (le_ops inst))
          in case pdm_led_read_dt_config (pd_of_node d) inst of (ret, inst) \<Rightarrow>
             if ret \<noteq> 0 then (ret, w, d) else
             case lo_setup ops (lg_hw w) inst of (ret, hw, inst) \<Rightarrow>
             if ret \<noteq> 0 then (ret, w\<lparr>lg_hw := hw\<rparr>, d) else
             case pdm_led_apply_locked ops_of hw inst of (ret, hw, inst) \<Rightarrow>
             if ret \<noteq> 0 then
               (case the (lo_cleanup ops) hw inst of (hw, inst) \<Rightarrow> (ret, w\<lparr>lg_hw := hw\<rparr>, d)) else
             case pdm_cdev_register (ev_ida_api env) (ev_set_name_ret env (pdm_led_nodename (pd_id d)))
                    (ev_add_ret env (pdm_led_nodename (pd_id d))) (fresh_cdev_sys w) (Some ''pdm-led'')
                    (Some (pdm_led_nodename (pd_id d))) (Some 0) True of (ret, cs) \<Rightarrow>
             if ret \<noteq> 0 then
               (case the (lo_cleanup ops) hw inst of (hw, inst) \<Rightarrow>
                  (ret, w\<lparr>lg_hw := hw, lg_ida := cs_ida cs, lg_refs := cs_pdm_refs cs\<rparr>, d))
             else
               (0, w\<lparr>lg_hw := hw, lg_ida := cs_ida cs, lg_refs := cs_pdm_refs cs,
                     lg_count := pdm_driver_count_inc (lg_count w),
                     lg_insts := (lg_insts w)(addr :=
                       Some \<lparr>lc_inst = inst, lc_client = cs_client cs, lc_files = {}\<rparr>)\<rparr>,
                d\<lparr>pd_capabilities := pd_capabilities d OR lo_capability ops, pd_drvdata := Some addr\<rparr>))"

section \<open>Remove\<close>

text \<open>
  \<open>pdm_driver_shutdown\<close> waits until the handler that holds the mutex, if there is one, has released
  it; the call goes on from there.
\<close>

definition pdm_led_remove ::
  "'ida led_env \<Rightarrow> 'ida led_sys \<Rightarrow> pdm_device \<Rightarrow> 'ida led_sys \<times> pdm_device" where
  "pdm_led_remove env w d =
     (case pd_drvdata d of
        None \<Rightarrow> (w, d)
      | Some addr \<Rightarrow>
          let c = the (lg_insts w addr);
              w1 = w\<lparr>lg_count := pdm_driver_count_dec (lg_count w)\<rparr>;
              d1 = d\<lparr>pd_drvdata := None\<rparr>;
              inst = the (pdm_driver_shutdown (mutex_unlock (lc_inst c)));
              (hw, inst) = (case le_ops inst of
                   None \<Rightarrow> (lg_hw w1, inst)
                 | Some t \<Rightarrow> (case lo_cleanup (pdm_led_ops (ev_hw_api env) t) of
                       None \<Rightarrow> (lg_hw w1, inst)
                     | Some cleanup_fn \<Rightarrow> cleanup_fn (lg_hw w1) inst));
              inst = mutex_unlock inst;
              cs = pdm_cdev_unregister (ev_ida_api env) (client_cdev_sys w1 c)
          in (w1\<lparr>lg_hw := hw, lg_ida := cs_ida cs, lg_refs := cs_pdm_refs cs,
                 lg_insts := (lg_insts w1)(addr :=
                   if cs_freed cs then None
                   else Some \<lparr>lc_inst = inst, lc_client = cs_client cs, lc_files = cs_files cs\<rparr>)\<rparr>, d1))"

definition pdm_led_of_match :: "string list" where
  "pdm_led_of_match = [''pdm,led'', ''pdm,led-gpio'', ''pdm,led-pwm'', ''vendor,pdm-led'',
     ''vendor,pdm-led-gpio'', ''vendor,pdm-led-pwm'', []]"

definition pdm_led_driver :: "'ida led_env \<Rightarrow> 'ida led_sys pdm_driver" where
  "pdm_led_driver env = \<lparr>dv_name = Some ''pdm-led'', dv_of_match_table = Some pdm_led_of_match,
     dv_alias_of_match_table = None, dv_owner = 0, dv_on_pdm_bus = False,
     dv_device_type = PDM_LED_DEVICE_TYPE, dv_capabilities = PDM_LED_CAP_USER_IOCTL,
     dv_match = Some (pdm_led_match (ev_backends env)), dv_probe = Some (pdm_led_probe env),
     dv_remove = Some (pdm_led_remove env), dv_suspend = None, dv_resume = None\<rparr>"

text \<open>The entries of \<open>pdm_led_gpio.c\<close> and \<open>pdm_led_pwm.c\<close> in the backend section.\<close>

definition pdm_led_gpio_entry :: "('w, pdm_led_backend_type) pdm_backend_entry" where
  "pdm_led_gpio_entry = \<lparr>be_name = Some ''led_gpio'', be_device_type = PDM_LED_DEVICE_TYPE,
     be_class = PDM_BACKEND_CLASS_CONTROL,
     be_matches = Some [''pdm,led-gpio'', ''vendor,pdm-led-gpio'', []],
     be_ops = Some PDM_LED_BACKEND_GPIO, be_init = None, be_exit = None\<rparr>"

definition pdm_led_pwm_entry :: "('w, pdm_led_backend_type) pdm_backend_entry" where
  "pdm_led_pwm_entry = \<lparr>be_name = Some ''led_pwm'', be_device_type = PDM_LED_DEVICE_TYPE,
     be_class = PDM_BACKEND_CLASS_CONTROL,
     be_matches = Some [''pdm,led-pwm'', ''vendor,pdm-led-pwm'', []],
     be_ops = Some PDM_LED_BACKEND_PWM, be_init = None, be_exit = None\<rparr>"

definition pdm_led_backend_entries :: "('w, pdm_led_backend_type) pdm_backend_entry list" where
  "pdm_led_backend_entries = [pdm_led_gpio_entry, pdm_led_pwm_entry]"

section \<open>The driver keeps the bus's contract\<close>

lemma led_probe_device:
  assumes "pdm_led_probe env w d = (ret, w', d')"
  shows "(ret \<noteq> 0 \<longrightarrow> d' = d) \<and>
    (\<exists>caps addr. d' = d \<or> d' = d\<lparr>pd_capabilities := caps, pd_drvdata := addr\<rparr>)"
  using assms by (auto simp: pdm_led_probe_def Let_def split: option.splits prod.splits if_splits)

lemma led_remove_device:
  "pdm_led_remove env w d = (w', d') \<Longrightarrow> d' = d \<or> d' = d\<lparr>pd_drvdata := None\<rparr>"
  by (auto simp: pdm_led_remove_def Let_def split: option.splits prod.splits)

interpretation led_drv: pdm_driver_contract "pdm_led_probe env" "pdm_led_remove env"
  by unfold_locales
     (auto simp: bus_view_def dest!: led_probe_device led_remove_device)

section \<open>What probe and remove do to the resources\<close>

lemma led_res_None: "le_hw i = None \<Longrightarrow> led_res t i = {#}"
  by (cases t) simp_all

lemma dt_config_fields:
  assumes "pdm_led_read_dt_config node i = (ret, i')"
  shows "le_ops i' = le_ops i \<and> le_hw i' = le_hw i \<and> in_lock i' = in_lock i \<and> in_online i' = in_online i"
  using assms by (auto simp: pdm_led_read_dt_config_def Let_def split: if_splits option.splits)

text \<open>The stages of a probe: what each produced, and which exit it took.\<close>

definition probe_inst :: "'ida led_env \<Rightarrow> pdm_device \<Rightarrow> pdm_led_instance" where
  "probe_inst env d = (pdm_driver_init (pdm_led_instance_zero (ev_dev_addr env d)))
     \<lparr>le_ops := pdm_led_select_ops (ev_backends env) (pd_compatible d)\<rparr>"

lemma probe_inst_fields [simp]:
  "le_ops (probe_inst env d) = pdm_led_select_ops (ev_backends env) (pd_compatible d)"
  "le_hw (probe_inst env d) = None" "\<not> in_lock (probe_inst env d)" "in_online (probe_inst env d)"
  by (simp_all add: probe_inst_def pdm_led_instance_zero_def pdm_driver_init_def)

lemma probe_cases:
  assumes "pdm_led_probe env w d = (ret, w', d')"
  defines "t \<equiv> the (pdm_led_select_ops (ev_backends env) (pd_compatible d))"
    and "api \<equiv> ev_hw_api env" and "name \<equiv> pdm_led_nodename (pd_id d)"
  obtains (early) "ret \<noteq> 0" "w' = w" "d' = d"
    | (setup_err) i1 hw i2 where "pdm_led_read_dt_config (pd_of_node d) (probe_inst env d) = (0, i1)"
        "lo_setup (pdm_led_ops api t) (lg_hw w) i1 = (ret, hw, i2)" "ret \<noteq> 0" "w' = w\<lparr>lg_hw := hw\<rparr>" "d' = d"
    | (apply_err) i1 hw i2 hw2 i3 hw3 i4 where
        "pdm_led_read_dt_config (pd_of_node d) (probe_inst env d) = (0, i1)"
        "lo_setup (pdm_led_ops api t) (lg_hw w) i1 = (0, hw, i2)"
        "pdm_led_apply_locked (pdm_led_ops api) hw i2 = (ret, hw2, i3)" "ret \<noteq> 0"
        "led_cleanup_of api t hw2 i3 = (hw3, i4)" "w' = w\<lparr>lg_hw := hw3\<rparr>" "d' = d"
    | (registered) i1 hw i2 hw2 i3 cs where
        "pdm_led_read_dt_config (pd_of_node d) (probe_inst env d) = (0, i1)"
        "lo_setup (pdm_led_ops api t) (lg_hw w) i1 = (0, hw, i2)"
        "pdm_led_apply_locked (pdm_led_ops api) hw i2 = (0, hw2, i3)"
        "pdm_cdev_register (ev_ida_api env) (ev_set_name_ret env name) (ev_add_ret env name)
           (fresh_cdev_sys w) (Some ''pdm-led'') (Some name) (Some 0) True = (ret, cs)"
        "ret \<noteq> 0 \<Longrightarrow> d' = d \<and> w' = w\<lparr>lg_hw := fst (led_cleanup_of api t hw2 i3), lg_ida := cs_ida cs,
                                      lg_refs := cs_pdm_refs cs\<rparr>"
        "ret = 0 \<Longrightarrow> \<exists>addr. ev_kzalloc env w = Some addr \<and>
           w' = w\<lparr>lg_hw := hw2, lg_ida := cs_ida cs, lg_refs := cs_pdm_refs cs, lg_count := lg_count w + 1,
                  lg_insts := (lg_insts w)(addr := Some \<lparr>lc_inst = i3, lc_client = cs_client cs, lc_files = {}\<rparr>)\<rparr> \<and>
           d' = d\<lparr>pd_capabilities := pd_capabilities d OR lo_capability (pdm_led_ops api t),
                  pd_drvdata := Some addr\<rparr>"
proof (cases "ev_kzalloc env w")
  case None
  with assms(1) show thesis by (intro early) (simp_all add: pdm_led_probe_def)
next
  case (Some addr)
  obtain r1 i1 where dt: "pdm_led_read_dt_config (pd_of_node d) (probe_inst env d) = (r1, i1)" by fastforce
  obtain r2 hw i2 where set: "lo_setup (pdm_led_ops api t) (lg_hw w) i1 = (r2, hw, i2)" using prod_cases3 by blast
  obtain r3 hw2 i3 where ap: "pdm_led_apply_locked (pdm_led_ops api) hw i2 = (r3, hw2, i3)" using prod_cases3 by blast
  obtain hw3 i4 where cl: "led_cleanup_of api t hw2 i3 = (hw3, i4)" by fastforce
  obtain r4 cs where reg: "pdm_cdev_register (ev_ida_api env) (ev_set_name_ret env name) (ev_add_ret env name)
           (fresh_cdev_sys w) (Some ''pdm-led'') (Some name) (Some 0) True = (r4, cs)" by fastforce
  have eq: "pdm_led_probe env w d =
     (if r1 \<noteq> 0 then (r1, w, d) else if r2 \<noteq> 0 then (r2, w\<lparr>lg_hw := hw\<rparr>, d)
      else if r3 \<noteq> 0 then (r3, w\<lparr>lg_hw := hw3\<rparr>, d)
      else if r4 \<noteq> 0 then (r4, w\<lparr>lg_hw := hw3, lg_ida := cs_ida cs, lg_refs := cs_pdm_refs cs\<rparr>, d)
      else (0, w\<lparr>lg_hw := hw2, lg_ida := cs_ida cs, lg_refs := cs_pdm_refs cs, lg_count := lg_count w + 1,
                  lg_insts := (lg_insts w)(addr := Some \<lparr>lc_inst = i3, lc_client = cs_client cs, lc_files = {}\<rparr>)\<rparr>,
            d\<lparr>pd_capabilities := pd_capabilities d OR lo_capability (pdm_led_ops api t), pd_drvdata := Some addr\<rparr>))"
    using Some dt set ap cl reg
    by (simp add: pdm_led_probe_def Let_def probe_inst_def [symmetric] t_def [symmetric] api_def [symmetric]
        name_def [symmetric] leds.cleanup_op pdm_driver_count_inc_def)
  show thesis
  proof (cases "r1 = 0"; cases "r2 = 0"; cases "r3 = 0")
    assume r: "r1 = 0" "r2 = 0" "r3 = 0"
    with dt set ap reg cl Some eq assms(1) show thesis
      by (intro registered [of i1 hw i2 hw2 i3 cs]) (simp_all split: if_splits)
  qed (use eq assms(1) dt set ap cl early setup_err apply_err in simp_all)
qed

lemma backend_laws:
  "led_backend (lo_setup (pdm_led_ops api t)) (led_cleanup_of api t) (led_apply_of api t) lw_held
     (led_res t) (led_shows api t)"
  by (rule leds.backend)

lemmas backend_setup_held = led_backend.setup_held [OF backend_laws]
lemmas backend_setup_failed = led_backend.setup_failed [OF backend_laws]
lemmas backend_setup_frame = led_backend.setup_frame [OF backend_laws]
lemmas backend_cleanup_held = led_backend.cleanup_held [OF backend_laws]
lemmas backend_undo = led_backend.setup_apply_cleanup [OF backend_laws]

text \<open>The apply of the probe, through the pointer that the probe has set.\<close>

lemma probe_apply:
  assumes "pdm_led_apply_locked (pdm_led_ops api) hw i = (ret, hw', i')"
  obtains "le_ops i = None" "ret \<noteq> 0" "hw' = hw" "i' = i"
  | t where "le_ops i = Some t" "led_apply_of api t hw i = (ret, hw', i')"
  using assms by (cases "le_ops i") (auto simp: pdm_led_apply_locked_def leds.apply_op)

lemma hw_update_fields:
  "i2 = i1\<lparr>le_hw := h\<rparr> \<Longrightarrow> le_ops i2 = le_ops i1 \<and> in_lock i2 = in_lock i1 \<and> in_online i2 = in_online i1 \<and>
     led_config_ok i2 = led_config_ok i1"
  by (simp add: led_config_ok_def)

lemma led_hw_same:
  "i2 = i1\<lparr>le_brightness := b, le_enabled := e\<rparr> \<Longrightarrow> le_hw i2 = le_hw i1"
  by simp

lemma setup_ops:
  assumes "pdm_led_read_dt_config node (probe_inst env d) = (r, i1)"
    and "lo_setup (pdm_led_ops api t) hw i1 = (r2, hw', i2)"
  shows "le_ops i2 = pdm_led_select_ops (ev_backends env) (pd_compatible d) \<and> \<not> in_lock i2 \<and> in_online i2 \<and>
         led_res t i1 = {#}"
proof -
  have "le_ops i1 = pdm_led_select_ops (ev_backends env) (pd_compatible d)" "le_hw i1 = None"
    "\<not> in_lock i1" "in_online i1"
    using dt_config_fields [OF assms(1)] by simp_all
  moreover note hw_update_fields [OF backend_setup_frame [OF assms(2)]]
  ultimately show ?thesis by (simp add: led_res_None)
qed

lemma probe_undone:
  assumes "pdm_led_read_dt_config node (probe_inst env d) = (0, i1)"
    and "t = the (pdm_led_select_ops (ev_backends env) (pd_compatible d))"
    and "lo_setup (pdm_led_ops api t) hw i1 = (0, hw1, i2)"
    and "pdm_led_apply_locked (pdm_led_ops api) hw1 i2 = (ret, hw2, i3)"
  shows "lw_held (fst (led_cleanup_of api t hw2 i3)) = lw_held hw"
proof -
  obtain hw3 i4 where cl: "led_cleanup_of api t hw2 i3 = (hw3, i4)" by fastforce
  note ops = setup_ops [OF assms(1,3)]
  from assms(4) show ?thesis
  proof (cases rule: probe_apply)
    case 1
    have "lw_held hw1 = lw_held hw + led_res t i2" using ops backend_setup_held [OF assms(3)] by simp
    with 1 backend_cleanup_held [OF cl] cl show ?thesis by simp
  next
    case (2 u)
    with ops have "pdm_led_select_ops (ev_backends env) (pd_compatible d) = Some u" by simp
    with assms(2) have "u = t" by simp
    with 2 have "led_apply_of api t hw1 i2 = (ret, hw2, i3)" by simp
    with backend_undo [OF _ assms(3) this cl] ops cl show ?thesis by simp
  qed
qed

lemma probe_ok:
  assumes "ida_laws (ev_ida_api env) ids" and "pdm_led_probe env w d = (0, w', d')"
  shows "\<exists>addr c t. ev_kzalloc env w = Some addr \<and> lg_insts w' = (lg_insts w)(addr \<mapsto> c) \<and>
     pdm_led_select_ops (ev_backends env) (pd_compatible d) = Some t \<and>
     led_at_rest (led_shows (ev_hw_api env)) t (lc_inst c) (lg_hw w') \<and> in_online (lc_inst c) \<and>
     lw_held (lg_hw w') = lw_held (lg_hw w) + led_res t (lc_inst c) \<and>
     cd_registered (lc_client c) \<and> cd_refs (lc_client c) = 1 \<and> cd_release (lc_client c) \<and>
     cd_pdm_dev (lc_client c) \<and> lc_files c = {} \<and> 0 \<le> cd_minor (lc_client c) \<and>
     nat (cd_minor (lc_client c)) \<notin> ids (lg_ida w) \<and>
     ids (lg_ida w') = insert (nat (cd_minor (lc_client c))) (ids (lg_ida w)) \<and>
     lg_count w' = lg_count w + 1 \<and> lg_refs w' = lg_refs w + 1 \<and>
     d' = d\<lparr>pd_capabilities := pd_capabilities d OR lo_capability (pdm_led_ops (ev_hw_api env) t),
            pd_drvdata := Some addr\<rparr>"
  using assms(2)
proof (cases rule: probe_cases)
  case (registered i1 hw i2 hw2 i3 cs)
  let ?api = "ev_hw_api env"
  note ops = setup_ops [OF registered(1,2)]
  note reg = register_ok_ids [OF assms(1) registered(4)]
  from registered(3) show ?thesis
  proof (cases rule: probe_apply)
    case (2 t)
    then have sel: "pdm_led_select_ops (ev_backends env) (pd_compatible d) = Some t" using ops by simp
    have ap: "led_apply_of ?api t hw i2 = (0, hw2, i3)" using 2 by simp
    have i3: "i3 = i2" "lw_held hw2 = lw_held hw" "led_shows ?api t i2 hw2"
      using leds.apply_frame [OF ap] leds.apply_ok [OF ap] by simp_all
    have held: "lw_held hw = lw_held (lg_hw w) + led_res t i2"
      using backend_setup_held [OF registered(2)] ops sel by simp
    have "led_config_ok i1"
      using registered(1) by (auto simp: pdm_led_read_dt_config_def Let_def led_config_ok_def not_less
        split: if_splits option.splits)
    with hw_update_fields [OF backend_setup_frame [OF registered(2)]] have "led_config_ok i2" by simp
    then have "led_at_rest (led_shows ?api) t i2 hw2" using ops sel i3 by (simp add: led_at_rest_def)
    note rest = this
    from registered(6) obtain addr where fin: "ev_kzalloc env w = Some addr"
      "w' = w\<lparr>lg_hw := hw2, lg_ida := cs_ida cs, lg_refs := cs_pdm_refs cs, lg_count := lg_count w + 1,
          lg_insts := (lg_insts w)(addr := Some \<lparr>lc_inst = i3, lc_client = cs_client cs, lc_files = {}\<rparr>)\<rparr>"
      "d' = d\<lparr>pd_capabilities := pd_capabilities d OR lo_capability (pdm_led_ops ?api t), pd_drvdata := Some addr\<rparr>"
      using sel by auto
    show ?thesis
      by (rule exI [of _ addr], rule exI [of _ "\<lparr>lc_inst = i3, lc_client = cs_client cs, lc_files = {}\<rparr>"],
          rule exI [of _ t]) (use fin sel rest i3 held ops reg in \<open>simp add: fresh_cdev_sys_def\<close>)
  qed simp
qed simp_all

text \<open>Removing an instance at rest whose node no file holds open.\<close>

lemma remove_ok:
  assumes laws: "ida_laws (ev_ida_api env) ids"
    and rest: "led_at_rest m t (lc_inst c) hw" and drv: "pd_drvdata d = Some addr"
    and mem: "lg_insts w addr = Some c" and hw: "hw = lg_hw w"
    and node: "cd_registered (lc_client c)" "cd_refs (lc_client c) = 1" "cd_release (lc_client c)"
      "cd_pdm_dev (lc_client c)" "0 \<le> cd_minor (lc_client c)"
    and call: "pdm_led_remove env w d = (w', d')"
  shows "lw_held (lg_hw w') = lw_held (lg_hw w) - led_res t (lc_inst c) \<and>
     ids (lg_ida w') = ids (lg_ida w) - {nat (cd_minor (lc_client c))} \<and>
     lg_refs w' = lg_refs w - 1 \<and> lg_count w' = pdm_driver_count_dec (lg_count w) \<and>
     lg_insts w' = (lg_insts w)(addr := None) \<and> d' = d\<lparr>pd_drvdata := None\<rparr>"
proof -
  let ?i = "(lc_inst c)\<lparr>in_lock := True, in_online := False\<rparr>"
  let ?cs = "client_cdev_sys (w\<lparr>lg_count := pdm_driver_count_dec (lg_count w)\<rparr>) c"
  have shut: "pdm_driver_shutdown (mutex_unlock (lc_inst c)) = Some ?i"
    using rest by (simp add: mutex_unlock_def led_at_rest_def)
  obtain hw1 i1 where cl: "led_cleanup_of (ev_hw_api env) t (lg_hw w) ?i = (hw1, i1)" by fastforce
  have held: "lw_held hw1 = lw_held (lg_hw w) - led_res t (lc_inst c)"
    using backend_cleanup_held [OF cl] led_backend.res_fields [OF backend_laws [of "ev_hw_api env" t],
        of ?i "lc_inst c"] by simp
  note unreg = unregister_closed [OF laws, of ?cs]
  have "le_ops ?i = Some t" using rest by (simp add: led_at_rest_def)
  then have "w' = w\<lparr>lg_count := pdm_driver_count_dec (lg_count w), lg_hw := hw1,
      lg_ida := cs_ida (pdm_cdev_unregister (ev_ida_api env) ?cs),
      lg_refs := cs_pdm_refs (pdm_cdev_unregister (ev_ida_api env) ?cs),
      lg_insts := (lg_insts w)(addr := None)\<rparr>" "d' = d\<lparr>pd_drvdata := None\<rparr>"
    using call drv mem shut cl unreg node
    by (simp_all add: pdm_led_remove_def Let_def leds.cleanup_op client_cdev_sys_def)
  with held unreg node show ?thesis by (simp add: client_cdev_sys_def)
qed

section \<open>Properties\<close>

text \<open>
  C10. A LED probe that fails, wherever it fails, gives everything back: the GPIO lines and PWM
  channels held, the minor numbers, the references on PDM devices, the device counter and the
  instances are those of before, and the device is unchanged.
\<close>

theorem led_probe_failure:
  assumes "ida_laws (ev_ida_api env) ids" and "pdm_led_probe env w d = (ret, w', d')" and "ret \<noteq> 0"
  shows "lw_held (lg_hw w') = lw_held (lg_hw w) \<and> ids (lg_ida w') = ids (lg_ida w) \<and>
         lg_refs w' = lg_refs w \<and> lg_count w' = lg_count w \<and> lg_insts w' = lg_insts w \<and> d' = d"
  using assms(2)
proof (cases rule: probe_cases)
  case early
  then show ?thesis by simp
next
  case (setup_err i1 hw i2)
  have "i2 = i1" using backend_setup_failed [OF setup_err(2,3)] .
  with backend_setup_held [OF setup_err(2)] setup_ops [OF setup_err(1,2)] setup_err(4,5)
  show ?thesis by simp
next
  case (apply_err i1 hw i2 hw2 i3 hw3 i4)
  with probe_undone [OF apply_err(1) refl apply_err(2,3)] show ?thesis by simp
next
  case (registered i1 hw i2 hw2 i3 cs)
  note reg = register_failure [OF assms(1) registered(4) assms(3)]
  from registered(5) assms(3) probe_undone [OF registered(1) refl registered(2,3)] reg
  show ?thesis by (simp add: fresh_cdev_sys_def)
qed

text \<open>
  A LED probe that succeeds leaves an instance that is online and at rest, with the backend that
  the compatible string selects, its hardware showing its configuration, holding exactly the
  resource of that backend; it has a registered node of its own with a minor number not in use
  before, and the device points to it and has gained the backend's capability.
\<close>

theorem led_probe_success:
  assumes "ida_laws (ev_ida_api env) ids" and "pdm_led_probe env w d = (0, w', d')"
  shows "\<exists>addr c t. ev_kzalloc env w = Some addr \<and> lg_insts w' = (lg_insts w)(addr \<mapsto> c) \<and>
     pdm_led_select_ops (ev_backends env) (pd_compatible d) = Some t \<and>
     led_at_rest (led_shows (ev_hw_api env)) t (lc_inst c) (lg_hw w') \<and> in_online (lc_inst c) \<and>
     lw_held (lg_hw w') = lw_held (lg_hw w) + led_res t (lc_inst c) \<and>
     cd_registered (lc_client c) \<and> cd_refs (lc_client c) = 1 \<and> cd_release (lc_client c) \<and>
     cd_pdm_dev (lc_client c) \<and> lc_files c = {} \<and> 0 \<le> cd_minor (lc_client c) \<and>
     nat (cd_minor (lc_client c)) \<notin> ids (lg_ida w) \<and>
     ids (lg_ida w') = insert (nat (cd_minor (lc_client c))) (ids (lg_ida w)) \<and>
     lg_count w' = lg_count w + 1 \<and> lg_refs w' = lg_refs w + 1 \<and>
     d' = d\<lparr>pd_capabilities := pd_capabilities d OR lo_capability (pdm_led_ops (ev_hw_api env) t),
            pd_drvdata := Some addr\<rparr>"
  by (rule probe_ok [OF assms])

text \<open>
  C11. Probe, any session of requests, remove: afterwards every line or channel, minor number,
  reference, counter and piece of memory is as it was before the probe.
\<close>

theorem led_lifecycle:
  assumes "ida_laws (ev_ida_api env) ids" and "pdm_led_probe env w d = (0, w1, d1)"
    and "ev_kzalloc env w = Some addr" and "lg_insts w addr = None" and "0 \<le> lg_count w"
    and "lg_insts w1 addr = Some c"
    and "led_session (pdm_led_ops (ev_hw_api env)) (lg_count w1) (lc_client c) (lg_hw w1) (lc_inst c) reqs
           = Some (tr, hw, i)"
    and "pdm_led_remove env
           (w1\<lparr>lg_hw := hw, lg_insts := (lg_insts w1)(addr \<mapsto> c\<lparr>lc_inst := i\<rparr>)\<rparr>) d1 = (w2, d2)"
  shows "lw_held (lg_hw w2) = lw_held (lg_hw w) \<and> ids (lg_ida w2) = ids (lg_ida w) \<and>
     lg_refs w2 = lg_refs w \<and> lg_count w2 = lg_count w \<and> lg_insts w2 = lg_insts w \<and> pd_drvdata d2 = None"
proof -
  let ?api = "ev_hw_api env"
  obtain t where ok: "lg_insts w1 = (lg_insts w)(addr \<mapsto> c)"
    "led_at_rest (led_shows ?api) t (lc_inst c) (lg_hw w1)"
    "lw_held (lg_hw w1) = lw_held (lg_hw w) + led_res t (lc_inst c)"
    "cd_registered (lc_client c)" "cd_refs (lc_client c) = 1" "cd_release (lc_client c)"
    "cd_pdm_dev (lc_client c)" "0 \<le> cd_minor (lc_client c)"
    "nat (cd_minor (lc_client c)) \<notin> ids (lg_ida w)"
    "ids (lg_ida w1) = insert (nat (cd_minor (lc_client c))) (ids (lg_ida w))"
    "lg_count w1 = lg_count w + 1" "lg_refs w1 = lg_refs w + 1" "pd_drvdata d1 = Some addr"
    using probe_ok [OF assms(1,2)] assms(3,6) by auto
  from leds.session_spec [OF ok(2), of "lg_count w1" "lc_client c" reqs] assms(7)
  have ses: "led_at_rest (led_shows ?api) t i hw" "lw_held hw = lw_held (lg_hw w1)"
    "le_hw i = le_hw (lc_inst c)"
    by (auto intro: led_hw_same)
  have res: "led_res t i = led_res t (lc_inst c)"
    by (rule led_backend.res_fields [OF backend_laws]) (rule ses(3))
  have "lw_held (lg_hw w2) = lw_held hw - led_res t i \<and>
     ids (lg_ida w2) = ids (lg_ida w1) - {nat (cd_minor (lc_client c))} \<and>
     lg_refs w2 = lg_refs w1 - 1 \<and> lg_count w2 = pdm_driver_count_dec (lg_count w1) \<and>
     lg_insts w2 = (lg_insts w1)(addr := None) \<and> d2 = d1\<lparr>pd_drvdata := None\<rparr>"
    using remove_ok [OF assms(1), of "led_shows ?api" t "c\<lparr>lc_inst := i\<rparr>" hw d1 addr
        "w1\<lparr>lg_hw := hw, lg_insts := (lg_insts w1)(addr \<mapsto> c\<lparr>lc_inst := i\<rparr>)\<rparr>" w2 d2] ses(1) ok assms(8)
    by simp
  with ok ses res assms(4,5) show ?thesis
    by (auto simp: pdm_driver_count_dec_def atomic_dec_if_positive_def)
qed

text \<open>
  Probing a LED through the bus is all or nothing for discovery. On success the device is bound,
  has no error, has an id of its type that nobody held (the requested one, if it asked), and is
  visible; on failure the ids in use are those of before, the device is unbound with the id it
  requested, and it is not visible: the error recorded on the way cannot be read through the
  manager.
\<close>

theorem led_bus_probe:
  assumes "ida_laws api ids" and "als_names als" and "unbound d"
    and "0 \<le> snd (als_view ids als 2)"
    and "pdm_bus_device_probe api now als w (Some d) (Some (pdm_led_driver env)) = (ret, als', w', Some d')"
  shows "if ret = 0
     then pdm_manager_device_visible (Some d') \<and> pd_state d' = PDM_MANAGER_DEVICE_STATE_BOUND \<and>
       pd_last_error d' = 0 \<and> pd_type d' = PDM_LED_DEVICE_TYPE \<and>
       (0 \<le> pd_requested_id d \<longrightarrow> pd_id d' = pd_requested_id d) \<and>
       nat (pd_id d') \<notin> fst (als_view ids als 2) \<and> nat (pd_id d') \<in> fst (als_view ids als' 2)
     else unbound d' \<and> \<not> pdm_manager_device_visible (Some d') \<and>
       pd_requested_id d' = pd_requested_id d \<and> als_view ids als' = als_view ids als"
proof -
  have drv: "dv_probe (pdm_led_driver env) = Some (pdm_led_probe env)"
    "unat (dv_device_type (pdm_led_driver env)) = 2" "dv_device_type (pdm_led_driver env) = 2"
    by (simp_all add: pdm_led_driver_def)
  show ?thesis
  proof (cases "ret = 0")
    case True
    note r = led_drv.bus_probe_ok [OF assms(1-3) drv(1) assms(5) [unfolded True]]
    show ?thesis unfolding True using r unfolding drv(2) unfolding drv(3) by (simp only: simp_thms if_True) blast
  next
    case False
    note r = led_drv.bus_probe_failed [OF assms(1-3) _ drv(1) assms(5) False]
    show ?thesis using r assms(4) False unfolding drv(2) unfolding drv(3) by (simp only: simp_thms if_False)
  qed
qed

section \<open>Witnesses\<close>

text \<open>A GPIO LED with id 0; the node registration fails with \<open>-EIO\<close> in \<open>led_env_bad\<close>.\<close>

definition led_env_ok :: "nat list led_env" where
  "led_env_ok = \<lparr>ev_ida_api = list_ida, ev_hw_api = example_hw_api, ev_backends = pdm_led_backend_entries,
     ev_dev_addr = (\<lambda>_. 0), ev_kzalloc = (\<lambda>_. Some 5), ev_set_name_ret = (\<lambda>_. 0), ev_add_ret = (\<lambda>_. 0)\<rparr>"

definition led_env_bad :: "nat list led_env" where
  "led_env_bad = led_env_ok\<lparr>ev_add_ret := (\<lambda>_. - EIO)\<rparr>"

definition led_sys0 :: "nat list led_sys" where
  "led_sys0 = \<lparr>lg_hw = example_hw\<lparr>lw_held := {#}\<rparr>, lg_ida = [], lg_refs = 0, lg_count = 0, lg_insts = (\<lambda>_. None)\<rparr>"

definition gpio_led_device :: pdm_device where
  "gpio_led_device = new_device\<lparr>pd_name := ''led0'', pd_id := 0, pd_id_allocated := True, pd_type := 2,
     pd_compatible := Some ''pdm,led-gpio''\<rparr>"

lemma led0_nodename: "pdm_led_nodename 0 = ''led0''"
proof -
  have "dec_digits 0 = ''0''" by code_simp
  then show ?thesis by (simp add: pdm_led_nodename_def dec_int_def)
qed

lemmas led_probe_eval = pdm_led_probe_def led_env_ok_def led_env_bad_def led_sys0_def gpio_led_device_def
  new_device_def pdm_device_alloc_def pdm_led_select_ops_def pdm_led_is_generic_compatible_def
  pdm_led_backend_entries_def pdm_led_gpio_entry_def pdm_led_read_dt_config_def Let_def pdm_led_gpio_ops_def
  pdm_led_gpio_setup_def gpiod_get_def example_hw_api_def pdm_led_apply_locked_def pdm_led_gpio_apply_def
  gpiod_set_value_def pdm_led_instance_zero_def pdm_driver_init_def pdm_cdev_register_def
  fresh_cdev_sys_def list_ida_def led0_nodename

lemma led_probe_bad_eq:
  "pdm_led_probe led_env_bad led_sys0 gpio_led_device =
     (- EIO, fst (snd (pdm_led_probe led_env_bad led_sys0 gpio_led_device)),
             snd (snd (pdm_led_probe led_env_bad led_sys0 gpio_led_device)))"
proof -
  have "fst (pdm_led_probe led_env_bad led_sys0 gpio_led_device) = - EIO"
    by (simp add: led_probe_eval pdm_led_gpio_cleanup_def gpiod_put_def)
  then show ?thesis by (metis prod.collapse)
qed

theorem led_probe_failure_witness:
  "lw_held (lg_hw (fst (snd (pdm_led_probe led_env_bad led_sys0 gpio_led_device)))) = {#}"
proof -
  have "ida_laws (ev_ida_api led_env_bad) set"
    by (simp add: led_env_bad_def led_env_ok_def list_ida_laws)
  from led_probe_failure [OF this led_probe_bad_eq] show ?thesis by (simp add: led_sys0_def)
qed

definition led_probed :: "nat list led_sys \<times> pdm_device" where
  "led_probed = snd (pdm_led_probe led_env_ok led_sys0 gpio_led_device)"

lemma led_probe_ok_eq:
  "pdm_led_probe led_env_ok led_sys0 gpio_led_device = (0, fst led_probed, snd led_probed)"
proof -
  have "fst (pdm_led_probe led_env_ok led_sys0 gpio_led_device) = 0"
    by (simp add: led_probe_eval)
  then show ?thesis by (metis led_probed_def prod.collapse)
qed

lemma led_env_ok_laws: "ida_laws (ev_ida_api led_env_ok) set"
  by (simp add: led_env_ok_def list_ida_laws)

theorem led_probe_success_witness:
  "\<exists>c. lg_insts (fst led_probed) 5 = Some c \<and> in_online (lc_inst c) \<and> pd_drvdata (snd led_probed) = Some 5"
  using led_probe_success [OF led_env_ok_laws led_probe_ok_eq] by (auto simp: led_env_ok_def)

definition led_probed_client :: led_client where
  "led_probed_client = the (lg_insts (fst led_probed) 5)"

lemma led_probed_client_eq: "lg_insts (fst led_probed) 5 = Some led_probed_client"
  by (simp add: led_probed_client_def led_probed_def led_probe_eval)

definition led_removed :: "nat list led_sys \<times> pdm_device" where
  "led_removed = pdm_led_remove led_env_ok
     ((fst led_probed)\<lparr>lg_hw := lg_hw (fst led_probed),
        lg_insts := (lg_insts (fst led_probed))(5 \<mapsto> led_probed_client\<lparr>lc_inst := lc_inst led_probed_client\<rparr>)\<rparr>)
     (snd led_probed)"

theorem led_lifecycle_witness:
  "lw_held (lg_hw (fst led_removed)) = {#} \<and> lg_insts (fst led_removed) 5 = None"
proof -
  have "ev_kzalloc led_env_ok led_sys0 = Some 5" "lg_insts led_sys0 5 = None" "0 \<le> lg_count led_sys0"
    by (simp_all add: led_env_ok_def led_sys0_def)
  moreover have "led_session (pdm_led_ops (ev_hw_api led_env_ok)) (lg_count (fst led_probed))
      (lc_client led_probed_client) (lg_hw (fst led_probed)) (lc_inst led_probed_client) [] =
      Some ([], lg_hw (fst led_probed), lc_inst led_probed_client)" by simp
  ultimately have "lw_held (lg_hw (fst led_removed)) = lw_held (lg_hw led_sys0) \<and>
      lg_insts (fst led_removed) = lg_insts led_sys0"
    using led_lifecycle [OF led_env_ok_laws led_probe_ok_eq _ _ _ led_probed_client_eq,
        of "[]" _ _ _ "fst led_removed" "snd led_removed"] by (simp add: led_removed_def)
  then show ?thesis by (simp add: led_sys0_def)
qed

lemma bus_probe_device:
  assumes "pdm_bus_device_probe api now als w (Some d) (Some drv) = (ret, als', w', dev)"
  shows "\<exists>d'. dev = Some d'"
proof -
  obtain r1 als1 d1 where b: "pdm_device_bind api als (Some d) (dv_device_type drv) (dv_capabilities drv)
      = (r1, als1, Some d1)" using bind_returns_device by metis
  have err: "\<exists>d'. pdm_device_record_error now (Some d2) r = Some d'" for d2 r
    using record_error_some by blast
  have un: "\<exists>als2 d'. pdm_device_unbind api als1 (Some d2) = (als2, Some d')" for d2
    by (cases "pd_id_allocated d2") simp_all
  show ?thesis
  proof (cases "dv_probe drv")
    case (Some probe)
    obtain r2 w2 d2 where p: "probe w d1 = (r2, w2, d2)" using prod_cases3 by blast
    obtain d3 where d3: "pdm_device_record_error now (Some d2) r2 = Some d3" using err by blast
    obtain als3 d4 where d4: "pdm_device_unbind api als1 (Some d3) = (als3, Some d4)" using un by blast
    obtain d5 where d5: "pdm_device_record_error now (Some d1) r1 = Some d5" using err by blast
    show ?thesis using assms Some b p d3 d4 d5
      by (auto simp del: pdm_device_bind.simps pdm_device_unbind.simps split: if_splits) metis
  qed (use assms in auto)
qed

definition led_bus_bad :: "int \<times> nat list pdm_id_allocator list \<times> nat list led_sys \<times> pdm_device option" where
  "led_bus_bad = pdm_bus_device_probe list_ida 7 (pdm_id_allocators []) led_sys0
     (Some (new_device\<lparr>pd_compatible := Some ''pdm,led-gpio'', pd_requested_id := 0, pd_id := 0\<rparr>))
     (Some (pdm_led_driver led_env_bad))"

theorem led_bus_probe_witness:
  "\<exists>als' w' d'. led_bus_bad = (- EIO, als', w', Some d') \<and> unbound d' \<and>
     \<not> pdm_manager_device_visible (Some d')"
proof -
  have names: "als_names (pdm_id_allocators ([] :: nat list))"
    by (simp add: als_names_def pdm_id_allocators_def)
  have un: "unbound (new_device\<lparr>pd_compatible := Some ''pdm,led-gpio'', pd_requested_id := 0, pd_id := 0\<rparr>)"
    by (simp add: unbound_def new_device_def pdm_device_alloc_def)
  have ret: "fst led_bus_bad = - EIO"
    by (simp add: led_bus_bad_def led_probe_eval pdm_led_driver_def pdm_led_gpio_cleanup_def gpiod_put_def
        pdm_id_alloc_def pdm_id_get_allocator_def pdm_id_allocators_def pdm_device_set_state_def
        split: prod.split)
  obtain als' w' dev where eq: "led_bus_bad = (- EIO, als', w', dev)"
    using ret by (metis prod.collapse)
  from bus_probe_device [OF eq [unfolded led_bus_bad_def]] obtain d' where "dev = Some d'" ..
  with eq led_bus_probe [OF list_ida_laws names un, of 7 led_sys0 led_env_bad "- EIO" als' w' d']
  show ?thesis by (simp add: led_bus_bad_def als_view_def pdm_id_allocators_def)
qed

end
