(* ===== verification/Pdm_Led_Diag.thy ===== *)
theory Pdm_Led_Diag
  imports Kernel_Text Pdm_Led_Driver
begin

unbundle bit_operations_syntax

text \<open>
  The text interface of the LED driver, \<open>src/kernel/pdm/drivers/led/pdm_led_diag.c\<close>: what a line
  written to \<open>/proc/pdm/led\<close> or to \<open>led_control\<close> in debugfs does, and what reading the proc file
  shows.

  The operations work on the state \<open>led_sys\<close> of the driver. The devices bound to it, as
  \<open>driver_for_each_device\<close> visits them, are the list of the addresses of their instances; it is \<open>None\<close>
  while the driver is not registered. A line is the buffer of \<open>count\<close> characters before the NUL that
  the caller adds. \<open>None\<close> as a result means that the call waits for the mutex of an instance. The last
  component of a result is what was logged.
\<close>

section \<open>Finding an instance\<close>

record led_find_ctx =
  lf_target_index :: u32
  lf_current_index :: u32
  lf_result :: "nat option"

definition pdm_led_match_by_index :: "nat \<Rightarrow> led_find_ctx \<Rightarrow> int \<times> led_find_ctx" where
  "pdm_led_match_by_index inst ctx =
     (if lf_current_index ctx = lf_target_index ctx then (1, ctx\<lparr>lf_result := Some inst\<rparr>)
      else (0, ctx\<lparr>lf_current_index := lf_current_index ctx + 1\<rparr>))"

definition pdm_led_find_instance :: "nat list option \<Rightarrow> u32 \<Rightarrow> nat option" where
  "pdm_led_find_instance drv index =
     (case drv of
        None \<Rightarrow> None
      | Some devs \<Rightarrow> lf_result (snd (bus_for_each pdm_led_match_by_index devs
          \<lparr>lf_target_index = index, lf_current_index = 0, lf_result = None\<rparr>)))"

text \<open>The instance at an address, and writing it back.\<close>

definition led_inst_at :: "'ida led_sys \<Rightarrow> nat \<Rightarrow> pdm_led_instance" where
  "led_inst_at w a = lc_inst (the (lg_insts w a))"

definition put_led_inst :: "'ida led_sys \<Rightarrow> nat \<Rightarrow> pdm_led_instance \<Rightarrow> 'ida led_sys" where
  "put_led_inst w a inst = w\<lparr>lg_insts := (lg_insts w)(a := map_option (\<lambda>c. c\<lparr>lc_inst := inst\<rparr>) (lg_insts w a))\<rparr>"

section \<open>Reading the proc file\<close>

definition led_ops_name :: "led_hw_api \<Rightarrow> pdm_led_instance \<Rightarrow> string" where
  "led_ops_name api inst = (case le_ops inst of Some t \<Rightarrow> lo_name (pdm_led_ops api t) | None \<Rightarrow> ''none'')"

definition led_show_header :: "u32 \<Rightarrow> string" where
  "led_show_header cnt = ''PDM LED Module'' @ [newline] @ ''ABI Version:    0x00010000'' @ [newline] @
     ''Module Version: 1.0.0'' @ [newline] @ ''Device Count:   '' @ fmt_u cnt @ [newline, newline]"

definition led_show_table :: string where
  "led_show_table = ''LED Devices:'' @ [newline] @ ''  ID  Brightness  Max  Enabled  Backend'' @ [newline] @
     ''  --  ----------  ---  -------  -------'' @ [newline]"

definition led_show_usage :: string where
  "led_show_usage = [newline] @ ''Usage:'' @ [newline] @
     ''  cat /proc/pdm/led          - Show this information'' @ [newline] @
     ''  echo \"help\" > /proc/pdm/led - Show available commands'' @ [newline]"

text \<open>The row of one index: the text and the state after it.\<close>

definition led_show_row ::
  "led_hw_api \<Rightarrow> nat list option \<Rightarrow> 'ida led_sys \<Rightarrow> u32 \<Rightarrow> (string \<times> 'ida led_sys) option" where
  "led_show_row api drv w i =
     (case pdm_led_find_instance drv i of
        None \<Rightarrow> Some (''  '' @ pad_left 2 (fmt_u i) @ ''  <not found>'' @ [newline], w)
      | Some a \<Rightarrow>
          (case pdm_driver_claim (led_inst_at w a) of
             None \<Rightarrow> None
           | Some (ret, inst) \<Rightarrow>
               if ret = 0
               then Some (''  '' @ pad_left 2 (fmt_u i) @ ''  '' @ pad_left 10 (fmt_u (le_brightness inst)) @ ''  '' @
                      pad_left 3 (fmt_u (le_max_brightness inst)) @ ''  '' @ pad_left 7 (yes_no (le_enabled inst)) @
                      ''  '' @ led_ops_name api inst @ [newline],
                      put_led_inst w a (pdm_driver_release inst))
               else Some (''  '' @ pad_left 2 (fmt_u i) @ ''  <busy>'' @ [newline], put_led_inst w a inst)))"

fun led_show_rows ::
  "led_hw_api \<Rightarrow> nat list option \<Rightarrow> 'ida led_sys \<Rightarrow> u32 list \<Rightarrow> (string \<times> 'ida led_sys) option" where
  "led_show_rows api drv w [] = Some ([], w)"
| "led_show_rows api drv w (i # is) =
     (case led_show_row api drv w i of
        None \<Rightarrow> None
      | Some (row, w) \<Rightarrow>
          (case led_show_rows api drv w is of None \<Rightarrow> None | Some (rows, w) \<Rightarrow> Some (row @ rows, w)))"

definition pdm_led_proc_show ::
  "led_hw_api \<Rightarrow> nat list option \<Rightarrow> 'ida led_sys \<Rightarrow> (int \<times> string \<times> 'ida led_sys) option" where
  "pdm_led_proc_show api drv w =
     (let cnt = pdm_driver_count_get (lg_count w)
      in if cnt = 0
         then Some (0, led_show_header cnt @ ''No LED devices registered'' @ [newline], w)
         else case led_show_rows api drv w (map of_nat [0..<unat cnt]) of
             None \<Rightarrow> None
           | Some (rows, w) \<Rightarrow> Some (0, led_show_header cnt @ led_show_table @ rows @ led_show_usage, w))"

section \<open>Writing a line\<close>

definition led_help :: "string list" where
  "led_help = [''Available commands:'', ''  get <index>               - Get LED state'',
     ''  set <index> <brightness>  - Set brightness (0-255)'', ''  enable <index>            - Enable LED'',
     ''  disable <index>           - Disable LED'', ''  help                      - Show this help'']"

definition led_apply ::
  "led_hw_api \<Rightarrow> led_hw \<Rightarrow> pdm_led_instance \<Rightarrow> int \<times> led_hw \<times> pdm_led_instance" where
  "led_apply api hw inst = the (lo_apply (pdm_led_ops api (the (le_ops inst)))) hw inst"

text \<open>The command on the claimed instance; the value is there when the line had three words.\<close>

definition led_set_value ::
  "led_hw_api \<Rightarrow> led_hw \<Rightarrow> pdm_led_instance \<Rightarrow> u32 \<Rightarrow> int \<times> led_hw \<times> pdm_led_instance" where
  "led_set_value api hw inst value =
     (let inst = inst\<lparr>le_brightness := value\<rparr>;
          inst = (if 0 < value then inst\<lparr>le_enabled := 1\<rparr> else inst)
      in led_apply api hw inst)"

definition led_proc_command ::
  "led_hw_api \<Rightarrow> led_hw \<Rightarrow> pdm_led_instance \<Rightarrow> string \<Rightarrow> u32 \<Rightarrow> u32 option \<Rightarrow>
   int \<times> led_hw \<times> pdm_led_instance \<times> string list" where
  "led_proc_command api hw inst cmd index value =
     (if cmd = ''get'' then
        (0, hw, inst, [''LED '' @ fmt_u index @ '': brightness='' @ fmt_u (le_brightness inst) @ ''/'' @
           fmt_u (le_max_brightness inst) @ '' enabled='' @ yes_no (le_enabled inst)])
      else if cmd = ''set'' then
        (case value of
           None \<Rightarrow> (- EINVAL, hw, inst, [''Missing brightness value''])
         | Some v \<Rightarrow>
             if le_max_brightness inst < v then
               (- ERANGE, hw, inst, [''Brightness '' @ fmt_u v @ '' exceeds maximum '' @ fmt_u (le_max_brightness inst)])
             else (case led_set_value api hw inst v of (ret, hw, inst) \<Rightarrow>
               (ret, hw, inst, if ret = 0 then [''LED '' @ fmt_u index @ '' brightness set to '' @ fmt_u v] else [])))
      else if cmd = ''enable'' then
        (case led_apply api hw (inst\<lparr>le_enabled := 1\<rparr>) of (ret, hw, inst) \<Rightarrow>
           (ret, hw, inst, if ret = 0 then [''LED '' @ fmt_u index @ '' enabled''] else []))
      else if cmd = ''disable'' then
        (case led_apply api hw (inst\<lparr>le_enabled := 0\<rparr>) of (ret, hw, inst) \<Rightarrow>
           (ret, hw, inst, if ret = 0 then [''LED '' @ fmt_u index @ '' disabled''] else []))
      else (- EINVAL, hw, inst, [''Unknown command '' @ [char_of (39 :: nat)] @ cmd @ [char_of (39 :: nat)] @ ''. Use '' @
              [char_of (39 :: nat)] @ ''help'' @ [char_of (39 :: nat)] @ '' for usage.'']))"

definition led_debugfs_command ::
  "led_hw_api \<Rightarrow> led_hw \<Rightarrow> pdm_led_instance \<Rightarrow> string \<Rightarrow> u32 option \<Rightarrow> int \<times> led_hw \<times> pdm_led_instance" where
  "led_debugfs_command api hw inst cmd value =
     (if cmd = ''brightness'' then
        (case value of
           None \<Rightarrow> (- EINVAL, hw, inst)
         | Some v \<Rightarrow> if le_max_brightness inst < v then (- ERANGE, hw, inst) else led_set_value api hw inst v)
      else if cmd = ''enable'' then led_apply api hw (inst\<lparr>le_enabled := 1\<rparr>)
      else if cmd = ''disable'' then led_apply api hw (inst\<lparr>le_enabled := 0\<rparr>)
      else if cmd = ''toggle'' then
        led_apply api hw (inst\<lparr>le_enabled := if le_enabled inst = 0 then 1 else 0\<rparr>)
      else (- EINVAL, hw, inst))"

text \<open>\<open>sscanf (command, "%31s %u %u", cmd, &index, &value)\<close>; \<open>None\<close> when fewer than two are found.\<close>

definition scan_led_line :: "string \<Rightarrow> (string \<times> u32 \<times> u32 option) option" where
  "scan_led_line command =
     (case sscanf (c_str command) [SCAN_STRING 31, SCAN_SPACE, SCAN_UINT 10, SCAN_SPACE, SCAN_UINT 10] of
        [SCANNED_STRING cmd, SCANNED_UINT index] \<Rightarrow> Some (cmd, index, None)
      | [SCANNED_STRING cmd, SCANNED_UINT index, SCANNED_UINT value] \<Rightarrow> Some (cmd, index, Some value)
      | _ \<Rightarrow> None)"

definition pdm_led_proc_write ::
  "led_hw_api \<Rightarrow> nat list option \<Rightarrow> 'ida led_sys \<Rightarrow> string \<Rightarrow> (int \<times> 'ida led_sys \<times> string list) option" where
  "pdm_led_proc_write api drv w command0 =
     (let command = strip_newline command0
      in if take 4 (c_str command) = ''help'' then Some (0, w, led_help)
         else case scan_led_line command of
             None \<Rightarrow> Some (- EINVAL, w, [''Invalid command format. Use '' @ [char_of (39 :: nat)] @ ''help'' @
                       [char_of (39 :: nat)] @ '' for usage.''])
           | Some (cmd, index, value) \<Rightarrow>
               (case pdm_led_find_instance drv index of
                  None \<Rightarrow> Some (- ENODEV, w, [''LED device '' @ fmt_u index @ '' not found''])
                | Some a \<Rightarrow>
                    (case pdm_driver_claim (led_inst_at w a) of
                       None \<Rightarrow> None
                     | Some (ret, inst) \<Rightarrow>
                         if ret \<noteq> 0
                         then Some (ret, put_led_inst w a inst, [''LED device '' @ fmt_u index @ '' is busy''])
                         else case led_proc_command api (lg_hw w) inst cmd index value of
                             (ret, hw, inst, log) \<Rightarrow>
                               Some (ret, put_led_inst (w\<lparr>lg_hw := hw\<rparr>) a (pdm_driver_release inst), log))))"

definition pdm_led_debugfs_write ::
  "led_hw_api \<Rightarrow> nat list option \<Rightarrow> 'ida led_sys \<Rightarrow> string \<Rightarrow> (int \<times> 'ida led_sys \<times> string list) option" where
  "pdm_led_debugfs_write api drv w command0 =
     (case scan_led_line (strip_newline command0) of
        None \<Rightarrow> Some (- EINVAL, w, [''Invalid command format''])
      | Some (cmd, index, value) \<Rightarrow>
          (case pdm_led_find_instance drv index of
             None \<Rightarrow> Some (- ENODEV, w, [''LED device '' @ fmt_u index @ '' not found''])
           | Some a \<Rightarrow>
               (case pdm_driver_claim (led_inst_at w a) of
                  None \<Rightarrow> None
                | Some (ret, inst) \<Rightarrow>
                    if ret \<noteq> 0 then Some (ret, put_led_inst w a inst, [])
                    else case led_debugfs_command api (lg_hw w) inst cmd value of
                        (ret, hw, inst) \<Rightarrow>
                          Some (ret, put_led_inst (w\<lparr>lg_hw := hw\<rparr>) a (pdm_driver_release inst), []))))"


section \<open>Lines as they are meant\<close>

text \<open>The driver's device list is visited in order; the index wraps only after \<open>2 ^ 32\<close> devices.\<close>

lemma find_from:
  "unat k + length ds \<le> 2 ^ 32 \<Longrightarrow> unat k \<le> unat i \<Longrightarrow>
   lf_result (snd (bus_for_each pdm_led_match_by_index ds \<lparr>lf_target_index = i, lf_current_index = k, lf_result = None\<rparr>)) =
     (if unat i < unat k + length ds then Some (ds ! (unat i - unat k)) else None)"
proof (induction ds arbitrary: k)
  case (Cons d ds)
  show ?case
  proof (cases "k = i")
    case True
    then show ?thesis by (simp add: pdm_led_match_by_index_def)
  next
    case False
    then have less: "unat k < unat i" using Cons.prems(2) using False by (simp add: word_unat_eq_iff)
    then have "unat (k + 1) = Suc (unat k)" using unat_Suc_less [of k i] by (simp add: word_less_nat_alt)
    then show ?thesis using Cons.IH [of "k + 1"] Cons.prems less False
      by (auto simp: pdm_led_match_by_index_def nth_Cons' Suc_diff_Suc)
  qed
qed simp

lemma led_find_instance:
  assumes "length devs \<le> 2 ^ 32"
  shows "pdm_led_find_instance (Some devs) i = (if unat i < length devs then Some (devs ! unat i) else None)"
  using find_from [of 0 devs i] assms by (simp add: pdm_led_find_instance_def)

lemma scan_led_line:
  assumes "word_ok cmd"
  shows "scan_led_line (strip_newline (text_line cmd [i])) = Some (cmd, i, None)"
    and "scan_led_line (strip_newline (text_line cmd [i, v])) = Some (cmd, i, Some v)"
  by (simp_all add: scan_led_line_def c_str_line [OF assms] scan_line_word [OF assms] del: args_text.simps(2))


section \<open>The text interface and the ioctls\<close>

datatype led_text_command = LED_TEXT_SET u32 | LED_TEXT_ENABLE | LED_TEXT_DISABLE

fun led_proc_line :: "u32 \<Rightarrow> led_text_command \<Rightarrow> string" where
  "led_proc_line i (LED_TEXT_SET v) = text_line ''set'' [i, v]"
| "led_proc_line i LED_TEXT_ENABLE = text_line ''enable'' [i]"
| "led_proc_line i LED_TEXT_DISABLE = text_line ''disable'' [i]"

fun led_debugfs_line :: "u32 \<Rightarrow> led_text_command \<Rightarrow> string" where
  "led_debugfs_line i (LED_TEXT_SET v) = text_line ''brightness'' [i, v]"
| "led_debugfs_line i LED_TEXT_ENABLE = text_line ''enable'' [i]"
| "led_debugfs_line i LED_TEXT_DISABLE = text_line ''disable'' [i]"

text \<open>The ioctl that means the same, and whether its value is refused before anything is done.\<close>

fun led_text_request :: "u32 \<Rightarrow> led_text_command \<Rightarrow> pdm_led_request" where
  "led_text_request i (LED_TEXT_SET v) = LED_SET_BRIGHTNESS (rw_buf \<lparr>lb_index = i, lb_brightness = v\<rparr>)"
| "led_text_request i LED_TEXT_ENABLE = LED_ENABLE (rw_buf i)"
| "led_text_request i LED_TEXT_DISABLE = LED_DISABLE (rw_buf i)"

fun led_text_refused :: "pdm_led_instance \<Rightarrow> led_text_command \<Rightarrow> bool" where
  "led_text_refused inst (LED_TEXT_SET v) \<longleftrightarrow> le_max_brightness inst < v"
| "led_text_refused inst _ \<longleftrightarrow> False"

lemma led_words [simp]:
  "word_ok ''set''" "word_ok ''enable''" "word_ok ''disable''" "word_ok ''brightness''" "word_ok ''get''" "word_ok ''toggle''"
  by (simp_all add: word_ok_def is_space_def char_code_def)

lemma led_put_inst:
  "lg_insts w a = Some c \<Longrightarrow>
   put_led_inst (w\<lparr>lg_hw := hw\<rparr>) a inst = w\<lparr>lg_hw := hw, lg_insts := (lg_insts w)(a \<mapsto> c\<lparr>lc_inst := inst\<rparr>)\<rparr>"
  by (simp add: put_led_inst_def)

text \<open>A line that is no request for help, on an instance that can be claimed.\<close>

lemma proc_write_line:
  assumes "word_ok cmd" and "take 4 (cmd @ args_text args) \<noteq> ''help''"
    and "scan_led_line (strip_newline (text_line cmd args)) = Some (cmd, i, value)"
    and "pdm_led_find_instance drv i = Some a" and "lg_insts w a = Some c"
    and "\<not> in_lock (lc_inst c)" and "in_online (lc_inst c)"
    and "led_proc_command api (lg_hw w) ((lc_inst c)\<lparr>in_lock := True\<rparr>) cmd i value = (ret, hw, inst\<lparr>in_lock := True\<rparr>, log)"
    and "\<not> in_lock inst"
  shows "pdm_led_proc_write api drv w (text_line cmd args) =
     Some (ret, w\<lparr>lg_hw := hw, lg_insts := (lg_insts w)(a \<mapsto> c\<lparr>lc_inst := inst\<rparr>)\<rparr>, log)"
  using assms
  by (simp add: pdm_led_proc_write_def Let_def c_str_line led_inst_at_def led_put_inst pdm_driver_release_def mutex_unlock_def
      leds.unlocked_update)

lemma debugfs_write_line:
  assumes "word_ok cmd"
    and "scan_led_line (strip_newline (text_line cmd args)) = Some (cmd, i, value)"
    and "pdm_led_find_instance drv i = Some a" and "lg_insts w a = Some c"
    and "\<not> in_lock (lc_inst c)" and "in_online (lc_inst c)"
    and "led_debugfs_command api (lg_hw w) ((lc_inst c)\<lparr>in_lock := True\<rparr>) cmd value = (ret, hw, inst\<lparr>in_lock := True\<rparr>)"
    and "\<not> in_lock inst"
  shows "pdm_led_debugfs_write api drv w (text_line cmd args) =
     Some (ret, w\<lparr>lg_hw := hw, lg_insts := (lg_insts w)(a \<mapsto> c\<lparr>lc_inst := inst\<rparr>)\<rparr>, [])"
  using assms
  by (simp add: pdm_led_debugfs_write_def led_inst_at_def led_put_inst pdm_driver_release_def mutex_unlock_def
      leds.unlocked_update)

text \<open>Applying new values under the lock, as the ioctls and the text commands both do.\<close>

lemma led_apply_same:
  fixes b e :: u32
  assumes "led_at_rest (led_shows api) t inst hw"
  defines "j \<equiv> inst\<lparr>in_lock := True, le_brightness := b, le_enabled := e\<rparr>"
  shows "\<exists>ret hw'. pdm_led_apply_locked (pdm_led_ops api) hw j = (ret, hw', j) \<and> led_apply api hw j = (ret, hw', j)"
proof -
  have t: "le_ops j = Some t" using assms(1) by (simp add: j_def led_at_rest_def)
  obtain ret hw' j' where ap: "led_apply_of api t hw j = (ret, hw', j')" using prod_cases3 by blast
  then have "j' = j" using leds.apply_frame by blast
  with t ap show ?thesis by (simp add: pdm_led_apply_locked_def led_apply_def leds.apply_op)
qed

text \<open>
  A text command does what the ioctl of the same meaning does to the hardware, with the same
  return value, whether it comes through \<open>/proc\<close> or debugfs; and if it succeeds it leaves the same
  instance. If the hardware refuses it, the ioctl puts the old brightness and enable flag back, while the
  text command leaves the new ones in the instance, which then no longer tell what the LED shows.
\<close>

theorem led_text_like_ioctl:
  assumes "length devs \<le> 2 ^ 32" and "unat i < length devs" and "lg_insts w (devs ! unat i) = Some c"
    and "led_at_rest (led_shows api) t (lc_inst c) (lg_hw w)" and "in_online (lc_inst c)"
    and "led_request_effect (led_text_request i cmd) (le_brightness (lc_inst c), le_enabled (lc_inst c)) = (b, e)"
  shows "\<exists>ret hw log. let new = (lc_inst c)\<lparr>le_brightness := b, le_enabled := e\<rparr>;
         after = w\<lparr>lg_hw := hw, lg_insts := (lg_insts w)(devs ! unat i \<mapsto>
           c\<lparr>lc_inst := if led_text_refused (lc_inst c) cmd then lc_inst c else new\<rparr>)\<rparr>
       in pdm_led_ioctl (pdm_led_ops api) cnt (Some client) (lg_hw w) (lc_inst c) (led_text_request i cmd) =
            Some (ret, hw, if ret = 0 then new else lc_inst c, led_text_request i cmd) \<and>
          pdm_led_proc_write api (Some devs) w (led_proc_line i cmd) = Some (ret, after, log) \<and>
          pdm_led_debugfs_write api (Some devs) w (led_debugfs_line i cmd) = Some (ret, after, [])"
proof -
  let ?a = "devs ! unat i" and ?inst = "lc_inst c"
  have find: "pdm_led_find_instance (Some devs) i = Some ?a" using led_find_instance [OF assms(1)] assms(2) by simp
  have free: "\<not> in_lock ?inst" using assms(4) by (simp add: led_at_rest_def)
  note proc = proc_write_line [OF _ _ _ find assms(3) free assms(5)]
  note debugfs = debugfs_write_line [OF _ _ find assms(3) free assms(5)]
  from led_apply_same [OF assms(4), where b = b and e = e] obtain ret hw where
    ap: "pdm_led_apply_locked (pdm_led_ops api) (lg_hw w) (?inst\<lparr>in_lock := True, le_brightness := b, le_enabled := e\<rparr>) =
          (ret, hw, ?inst\<lparr>in_lock := True, le_brightness := b, le_enabled := e\<rparr>)"
      "led_apply api (lg_hw w) (?inst\<lparr>in_lock := True, le_brightness := b, le_enabled := e\<rparr>) =
          (ret, hw, ?inst\<lparr>in_lock := True, le_brightness := b, le_enabled := e\<rparr>)" by blast
  show ?thesis
  proof (cases cmd)
    case (LED_TEXT_SET v)
    show ?thesis
    proof (cases "le_max_brightness ?inst < v")
      case True
      have "led_proc_command api (lg_hw w) (?inst\<lparr>in_lock := True\<rparr>) ''set'' i (Some v) =
          (- ERANGE, lg_hw w, ?inst\<lparr>in_lock := True\<rparr>, [''Brightness '' @ fmt_u v @ '' exceeds maximum '' @
             fmt_u (le_max_brightness ?inst)])"
        "led_debugfs_command api (lg_hw w) (?inst\<lparr>in_lock := True\<rparr>) ''brightness'' (Some v) =
          (- ERANGE, lg_hw w, ?inst\<lparr>in_lock := True\<rparr>)"
        using True by (simp_all add: led_proc_command_def led_debugfs_command_def)
      from proc [OF _ _ scan_led_line(2) this(1) free] debugfs [OF _ scan_led_line(2) this(2) free] True
      show ?thesis by (simp add: LED_TEXT_SET leds.range_error Let_def)
    next
      case False
      have be: "b = v" "e = (if v = 0 then le_enabled ?inst else 1)" using assms(6) by (auto simp: LED_TEXT_SET)
      have set: "led_set_value api (lg_hw w) (?inst\<lparr>in_lock := True\<rparr>) v =
          (ret, hw, ?inst\<lparr>in_lock := True, le_brightness := b, le_enabled := e\<rparr>)"
        using ap(2) by (cases "v = 0") (simp_all add: led_set_value_def be word_neq_0_conv Let_def)
      have ioctl: "pdm_led_set_brightness (pdm_led_ops api) (lg_hw w) ?inst (rw_buf \<lparr>lb_index = i, lb_brightness = v\<rparr>) =
          Some (ret, hw, if ret = 0 then ?inst\<lparr>le_brightness := b, le_enabled := e\<rparr> else ?inst)"
        using ap(1) False free assms(5)
        by (cases "v = 0") (simp_all add: pdm_led_set_brightness_def be Let_def pdm_driver_release_def mutex_unlock_def
            leds.unlocked_update)
      from proc [OF _ _ scan_led_line(2), where inst = "?inst\<lparr>le_brightness := b, le_enabled := e\<rparr>"]
        debugfs [OF _ scan_led_line(2), where inst = "?inst\<lparr>le_brightness := b, le_enabled := e\<rparr>"]
      show ?thesis using set ioctl free False
        by (simp add: LED_TEXT_SET led_proc_command_def led_debugfs_command_def Let_def)
    qed
  next
    case LED_TEXT_ENABLE
    have be: "b = le_brightness ?inst" "e = 1" using assms(6) by (simp_all add: LED_TEXT_ENABLE)
    have ioctl: "pdm_led_set_enabled (pdm_led_ops api) (lg_hw w) ?inst (rw_buf i) True =
        Some (ret, hw, if ret = 0 then ?inst\<lparr>le_brightness := b, le_enabled := e\<rparr> else ?inst)"
      using ap(1) free assms(5)
      by (simp add: pdm_led_set_enabled_def be Let_def pdm_driver_release_def mutex_unlock_def leds.unlocked_update)
    from proc [OF _ _ scan_led_line(1), where inst = "?inst\<lparr>le_brightness := b, le_enabled := e\<rparr>"]
      debugfs [OF _ scan_led_line(1), where inst = "?inst\<lparr>le_brightness := b, le_enabled := e\<rparr>"]
    show ?thesis using ap(2) ioctl free
      by (simp add: LED_TEXT_ENABLE led_proc_command_def led_debugfs_command_def Let_def be)
  next
    case LED_TEXT_DISABLE
    have be: "b = le_brightness ?inst" "e = 0" using assms(6) by (simp_all add: LED_TEXT_DISABLE)
    have ioctl: "pdm_led_set_enabled (pdm_led_ops api) (lg_hw w) ?inst (rw_buf i) False =
        Some (ret, hw, if ret = 0 then ?inst\<lparr>le_brightness := b, le_enabled := e\<rparr> else ?inst)"
      using ap(1) free assms(5)
      by (simp add: pdm_led_set_enabled_def be Let_def pdm_driver_release_def mutex_unlock_def leds.unlocked_update)
    from proc [OF _ _ scan_led_line(1), where inst = "?inst\<lparr>le_brightness := b, le_enabled := e\<rparr>"]
      debugfs [OF _ scan_led_line(1), where inst = "?inst\<lparr>le_brightness := b, le_enabled := e\<rparr>"]
    show ?thesis using ap(2) ioctl free
      by (simp add: LED_TEXT_DISABLE led_proc_command_def led_debugfs_command_def Let_def be)
  qed
qed


text \<open>A PWM LED at 51 of 255, whose controller refuses every change.\<close>

definition stuck_pwm_api :: led_hw_api where
  "stuck_pwm_api = example_hw_api\<lparr>ha_pwm_apply := (\<lambda>_ _ _. - EIO)\<rparr>"

definition stuck_led_sys :: "nat list led_sys" where
  "stuck_led_sys = led_sys0\<lparr>lg_hw := example_hw\<lparr>lw_pwm := (\<lambda>_. \<lparr>ps_period = 1000, ps_duty_cycle = 200, ps_enabled = True\<rparr>)\<rparr>,
     lg_count := 1, lg_insts := [5 \<mapsto> \<lparr>lc_inst = example_pwm_led, lc_client = pdm_cdev_zero, lc_files = {}\<rparr>]\<rparr>"

theorem led_text_like_ioctl_witness:
  "\<exists>w log. pdm_led_proc_write stuck_pwm_api (Some [5]) stuck_led_sys (''set 0 7'' @ [newline]) = Some (- EIO, w, log) \<and>
     le_brightness (led_inst_at w 5) = 7 \<and>
     pdm_led_ioctl (pdm_led_ops stuck_pwm_api) 1 (Some pdm_cdev_zero) (lg_hw stuck_led_sys) example_pwm_led
       (LED_SET_BRIGHTNESS (rw_buf \<lparr>lb_index = 0, lb_brightness = 7\<rparr>)) =
       Some (- EIO, lg_hw w, example_pwm_led, LED_SET_BRIGHTNESS (rw_buf \<lparr>lb_index = 0, lb_brightness = 7\<rparr>))"
proof -
  have rest: "led_at_rest (led_shows stuck_pwm_api) PDM_LED_BACKEND_PWM example_pwm_led (lg_hw stuck_led_sys)"
    by (simp add: led_at_rest_def led_config_ok_def example_pwm_led_def example_led_def stuck_led_sys_def led_lit_def
        stuck_pwm_api_def example_hw_api_def)
  have fails: "fst (the (pdm_led_ioctl (pdm_led_ops stuck_pwm_api) 1 (Some pdm_cdev_zero) (lg_hw stuck_led_sys) example_pwm_led
       (LED_SET_BRIGHTNESS (rw_buf \<lparr>lb_index = 0, lb_brightness = 7\<rparr>)))) = - EIO"
    by (simp add: pdm_led_set_brightness_def example_pwm_led_def example_led_def pdm_led_apply_locked_def
        pdm_led_pwm_ops_def pdm_led_pwm_apply_def stuck_pwm_api_def example_hw_api_def pwm_set_relative_duty_cycle_def
        pwm_apply_def Let_def)
  have line: "text_line ''set'' [0, 7] = ''set 0 7'' @ [newline]"
    by (simp add: text_line_def fmt_u_def dec_digits.simps dec_char_def char_of_eq_iff)
  have "lg_insts stuck_led_sys 5 = Some \<lparr>lc_inst = example_pwm_led, lc_client = pdm_cdev_zero, lc_files = {}\<rparr>"
    by (simp add: stuck_led_sys_def)
  from led_text_like_ioctl [of "[5]" 0 stuck_led_sys _ stuck_pwm_api PDM_LED_BACKEND_PWM "LED_TEXT_SET 7" 7 1 1 pdm_cdev_zero]
    this rest fails
  show ?thesis by (auto simp: line Let_def led_inst_at_def example_pwm_led_def example_led_def)
qed


section \<open>What reading shows\<close>

definition led_row_text :: "led_hw_api \<Rightarrow> u32 \<Rightarrow> pdm_led_instance option \<Rightarrow> string" where
  "led_row_text api i entry = ''  '' @ pad_left 2 (fmt_u i) @
     (case entry of
        None \<Rightarrow> ''  <not found>''
      | Some inst \<Rightarrow>
          if in_online inst
          then ''  '' @ pad_left 10 (fmt_u (le_brightness inst)) @ ''  '' @ pad_left 3 (fmt_u (le_max_brightness inst)) @
               ''  '' @ pad_left 7 (yes_no (le_enabled inst)) @ ''  '' @ led_ops_name api inst
          else ''  <busy>'') @ [newline]"

lemma led_show_row:
  assumes "length devs \<le> 2 ^ 32"
    and "\<forall>a \<in> set devs. \<exists>c. lg_insts w a = Some c \<and> \<not> in_lock (lc_inst c)"
  shows "led_show_row api (Some devs) w i = Some (led_row_text api i
     (if unat i < length devs then Some (led_inst_at w (devs ! unat i)) else None), w)"
proof (cases "unat i < length devs")
  case True
  with assms(2) obtain c where c: "lg_insts w (devs ! unat i) = Some c" "\<not> in_lock (lc_inst c)" by force
  then have same: "(lg_insts w)(devs ! unat i \<mapsto> c\<lparr>lc_inst := lc_inst c\<rparr>) = lg_insts w"
    by (simp add: fun_upd_idem)
  show ?thesis
    using True c same led_find_instance [OF assms(1), of i]
    by (cases "in_online (lc_inst c)") (simp_all add: led_show_row_def led_row_text_def led_inst_at_def put_led_inst_def
        pdm_driver_release_def mutex_unlock_def leds.unlocked_update led_ops_name_def)
qed (use led_find_instance [OF assms(1), of i] in \<open>simp add: led_show_row_def led_row_text_def\<close>)

lemma led_show_rows:
  assumes "length devs \<le> 2 ^ 32"
    and "\<forall>a \<in> set devs. \<exists>c. lg_insts w a = Some c \<and> \<not> in_lock (lc_inst c)"
  shows "led_show_rows api (Some devs) w is = Some (concat (map (\<lambda>i. led_row_text api i
     (if unat i < length devs then Some (led_inst_at w (devs ! unat i)) else None)) is), w)"
  by (induction "is") (simp_all add: led_show_row [OF assms])

text \<open>
  Reading the file changes nothing, and its table has one row per counted device, in the order of
  the bus: the brightness, the maximum, whether it is enabled and the backend of a device that is online;
  a row is \<open><not found>\<close> exactly when fewer devices are bound than counted.
\<close>

theorem led_show_lists:
  assumes "length devs \<le> 2 ^ 32" and "lg_count w = int n" and "0 < n" and "n < 2 ^ 32"
    and "\<forall>a \<in> set devs. \<exists>c. lg_insts w a = Some c \<and> \<not> in_lock (lc_inst c)"
  shows "pdm_led_proc_show api (Some devs) w = Some (0, led_show_header (of_nat n) @ led_show_table @
     concat (map (\<lambda>k. led_row_text api (of_nat k) (if k < length devs then Some (led_inst_at w (devs ! k)) else None))
       [0..<n]) @ led_show_usage, w)"
proof -
  have n: "unat (of_nat n :: u32) = n" using assms(4) by (simp add: unat_of_nat)
  then have ne: "(of_nat n :: u32) \<noteq> 0" using assms(3) by (metis neq0_conv unat_0)
  have rows: "map (\<lambda>x. led_row_text api (of_nat x) (if unat (of_nat x :: u32) < length devs
        then Some (led_inst_at w (devs ! unat (of_nat x :: u32))) else None)) [0..<n] =
      map (\<lambda>k. led_row_text api (of_nat k) (if k < length devs then Some (led_inst_at w (devs ! k)) else None)) [0..<n]"
    using assms(4) by (intro map_cong) (simp_all add: unat_of_nat)
  show ?thesis
    using assms(2) n ne by (simp add: pdm_led_proc_show_def led_show_rows [OF assms(1,5)] pdm_driver_count_get_def
        Let_def comp_def rows)
qed

theorem led_show_lists_witness:
  "pdm_led_proc_show example_hw_api (Some [5]) stuck_led_sys = Some (0, led_show_header 1 @ led_show_table @
     ''   0          51  255      yes  pwm'' @ [newline] @ led_show_usage, stuck_led_sys)"
proof -
  have num: "fmt_u 0 = ''0''" "fmt_u 51 = ''51''" "fmt_u 255 = ''255''"
    by (simp_all add: fmt_u_def dec_digits.simps dec_char_def char_of_eq_iff)
  have pads: "replicate 8 CHR '' '' = ''        ''" "replicate 4 CHR '' '' = ''    ''"
    by (simp_all add: numeral_eq_Suc)
  have row: "led_row_text example_hw_api 0 (Some example_pwm_led) = ''   0          51  255      yes  pwm'' @ [newline]"
    by (simp add: led_row_text_def example_pwm_led_def example_led_def num pads pad_left_def yes_no_def led_ops_name_def
        pdm_led_pwm_ops_def)
  show ?thesis
    using led_show_lists [of "[5]" stuck_led_sys 1 example_hw_api] row
    by (simp add: stuck_led_sys_def led_inst_at_def example_pwm_led_def example_led_def)
qed

end
