(* ===== verification/Pdm_Mcu_Driver.thy ===== *)
theory Pdm_Mcu_Driver
  imports Pdm_Mcu Pdm_Enumerate
begin

unbundle bit_operations_syntax

text \<open>
  Probe and remove of the MCU driver, the driver as the bus sees it, and the bus devices that the
  I2C, SPI and serial drivers put on the PDM bus: the second half of
  \<open>src/kernel/pdm/drivers/mcu/pdm_mcu.c\<close> and the probe and remove functions of \<open>pdm_mcu_i2c.c\<close>,
  \<open>pdm_mcu_spi.c\<close> and \<open>pdm_mcu_uart_serdev.c\<close>.

  \<open>mcu_sys\<close> is what the driver changes: the buses with the bus devices, the minor numbers, the
  references on PDM devices, the device counter and the instances by address.
\<close>

section \<open>State\<close>

record mcu_client =
  ec_inst :: pdm_mcu_instance
  ec_client :: pdm_cdev
  ec_files :: "nat set"

record ('ida, 'e) mcu_sys =
  mg_world :: "'e mcu_world"
  mg_ida :: "'ida"
  mg_refs :: nat
  mg_count :: int
  mg_insts :: "nat \<Rightarrow> mcu_client option"

record ('ida, 'e) mcu_env =
  vm_ida_api :: "'ida ida_api"
  vm_api :: "'e mcu_api"
  vm_backends :: "(unit, pdm_mcu_backend_type) pdm_backend_entry list"
  vm_kzalloc :: "('ida, 'e) mcu_sys \<Rightarrow> nat option"
  vm_set_name_ret :: "string \<Rightarrow> int"
  vm_add_ret :: "string \<Rightarrow> int"

definition pdm_mcu_instance_zero :: "nat \<Rightarrow> pdm_mcu_instance" where
  "pdm_mcu_instance_zero addr = \<lparr>in_lock = False, in_online = False, mu_addr = addr, mu_ops = None,
     mu_state = PDM_MCU_STATE_UNINITIALIZED, mu_last_error = 0,
     mu_uart = \<lparr>ua_serdev = None, ua_bus_dev = None, ua_rx_fifo = [], ua_baudrate = 0, ua_rx_timeout_ms = 0\<rparr>,
     mu_can = \<lparr>ca_sock = None, ca_netdev = None, ca_rx_timeout_ms = 0, ca_extended_id = False\<rparr>,
     mu_i2c = \<lparr>px_client = None, px_rx_timeout_ms = 0, px_command_bytes = 0\<rparr>,
     mu_spi = \<lparr>px_client = None, px_rx_timeout_ms = 0, px_command_bytes = 0\<rparr>\<rparr>"

definition mcu_fresh_cdev :: "('ida, 'e) mcu_sys \<Rightarrow> 'ida cdev_sys" where
  "mcu_fresh_cdev w = \<lparr>cs_ida = mg_ida w, cs_client = pdm_cdev_zero, cs_pdm_refs = mg_refs w,
     cs_files = {}, cs_freed = False\<rparr>"

definition mcu_client_cdev :: "('ida, 'e) mcu_sys \<Rightarrow> mcu_client \<Rightarrow> 'ida cdev_sys" where
  "mcu_client_cdev w c = \<lparr>cs_ida = mg_ida w, cs_client = ec_client c, cs_pdm_refs = mg_refs w,
     cs_files = ec_files c, cs_freed = False\<rparr>"

section \<open>Probe and remove\<close>

definition pdm_mcu_nodename :: "int \<Rightarrow> string" where
  "pdm_mcu_nodename nid = strscpy 32 (''mcu'' @ dec_int nid)"

definition pdm_mcu_probe ::
  "('ida, 'e) mcu_env \<Rightarrow> ('ida, 'e) mcu_sys \<Rightarrow> pdm_device \<Rightarrow> int \<times> ('ida, 'e) mcu_sys \<times> pdm_device" where
  "pdm_mcu_probe env w d =
     (case vm_kzalloc env w of
        None \<Rightarrow> (- ENOMEM, w, d)
      | Some addr \<Rightarrow>
          let inst = pdm_driver_init (pdm_mcu_instance_zero addr)
          in case pdm_backend_find (vm_backends env) PDM_MCU_DEVICE_TYPE PDM_BACKEND_CLASS_TRANSPORT
                    (pd_compatible d) of
             None \<Rightarrow> (- ENODEV, w, d)
           | Some entry \<Rightarrow>
             let inst = inst\<lparr>mu_ops := be_ops entry, mu_state := PDM_MCU_STATE_READY\<rparr>;
                 ops = pdm_mcu_ops (vm_api env) (the (mu_ops inst))
             in case to_setup ops (mg_world w) d inst of (ret, bus, inst) \<Rightarrow>
             if ret \<noteq> 0 then (ret, w\<lparr>mg_world := bus\<rparr>, d) else
             case pdm_cdev_register (vm_ida_api env) (vm_set_name_ret env (pdm_mcu_nodename (pd_id d)))
                    (vm_add_ret env (pdm_mcu_nodename (pd_id d))) (mcu_fresh_cdev w) (Some ''pdm-mcu'')
                    (Some (pdm_mcu_nodename (pd_id d))) (Some 0) True of (ret, cs) \<Rightarrow>
             if ret \<noteq> 0 then
               (case the (to_cleanup ops) bus d inst of (bus, inst) \<Rightarrow>
                  (ret, w\<lparr>mg_world := bus, mg_ida := cs_ida cs, mg_refs := cs_pdm_refs cs\<rparr>, d))
             else
               (0, w\<lparr>mg_world := bus, mg_ida := cs_ida cs, mg_refs := cs_pdm_refs cs,
                     mg_count := pdm_driver_count_inc (mg_count w),
                     mg_insts := (mg_insts w)(addr :=
                       Some \<lparr>ec_inst = inst, ec_client = cs_client cs, ec_files = {}\<rparr>)\<rparr>,
                d\<lparr>pd_capabilities := pd_capabilities d OR to_capability ops, pd_drvdata := Some addr\<rparr>))"

text \<open>\<open>pdm_driver_shutdown\<close> waits for a handler that holds the mutex; the call goes on from there.\<close>

definition pdm_mcu_remove ::
  "('ida, 'e) mcu_env \<Rightarrow> ('ida, 'e) mcu_sys \<Rightarrow> pdm_device \<Rightarrow> ('ida, 'e) mcu_sys \<times> pdm_device" where
  "pdm_mcu_remove env w d =
     (case pd_drvdata d of
        None \<Rightarrow> (w, d)
      | Some addr \<Rightarrow>
          let c = the (mg_insts w addr);
              w1 = w\<lparr>mg_count := pdm_driver_count_dec (mg_count w)\<rparr>;
              d1 = d\<lparr>pd_drvdata := None\<rparr>;
              inst = the (pdm_driver_shutdown (mutex_unlock (ec_inst c)));
              inst = inst\<lparr>mu_state := PDM_MCU_STATE_OFFLINE\<rparr>;
              (bus, inst) = (case mu_ops inst of
                   None \<Rightarrow> (mg_world w1, inst)
                 | Some t \<Rightarrow> (case to_cleanup (pdm_mcu_ops (vm_api env) t) of
                       None \<Rightarrow> (mg_world w1, inst)
                     | Some cleanup_fn \<Rightarrow> cleanup_fn (mg_world w1) d1 inst));
              inst = mutex_unlock inst;
              cs = pdm_cdev_unregister (vm_ida_api env) (mcu_client_cdev w1 c)
          in (w1\<lparr>mg_world := bus, mg_ida := cs_ida cs, mg_refs := cs_pdm_refs cs,
                 mg_insts := (mg_insts w1)(addr :=
                   if cs_freed cs then None
                   else Some \<lparr>ec_inst = inst, ec_client = cs_client cs, ec_files = cs_files cs\<rparr>)\<rparr>, d1))"

definition pdm_mcu_of_match :: "string list" where
  "pdm_mcu_of_match = [''pdm,mcu-uart'', ''pdm,mcu-can'', ''pdm,mcu-i2c'', ''pdm,mcu-spi'',
     ''vendor,pdm-mcu-uart'', ''vendor,pdm-mcu-can'', ''vendor,pdm-mcu-i2c'', ''vendor,pdm-mcu-spi'', []]"

definition pdm_mcu_driver :: "('ida, 'e) mcu_env \<Rightarrow> ('ida, 'e) mcu_sys pdm_driver" where
  "pdm_mcu_driver env = \<lparr>dv_name = Some ''pdm-mcu'', dv_of_match_table = Some pdm_mcu_of_match,
     dv_alias_of_match_table = None, dv_owner = 0, dv_on_pdm_bus = False,
     dv_device_type = PDM_MCU_DEVICE_TYPE, dv_capabilities = PDM_MCU_CAP_USER_IOCTL,
     dv_match = Some pdm_mcu_match, dv_probe = Some (pdm_mcu_probe env),
     dv_remove = Some (pdm_mcu_remove env), dv_suspend = None, dv_resume = None\<rparr>"

section \<open>Bus devices\<close>

text \<open>The parent device of a bus device: its address, name and device-tree node.\<close>

record mcu_parent =
  pa_addr :: nat
  pa_name :: string
  pa_of_node :: "dt_node option"

abbreviation (input) PDM_MCU_BUS_DEVICE_NAME_LEN :: nat where "PDM_MCU_BUS_DEVICE_NAME_LEN \<equiv> 96"

definition set_bus_dev :: "'e mcu_world \<Rightarrow> nat \<Rightarrow> pdm_mcu_bus_device \<Rightarrow> 'e mcu_world" where
  "set_bus_dev w a bd = w\<lparr>mw_bus_devs := (mw_bus_devs w)(a := bd)\<rparr>"

definition pdm_mcu_bus_device_name :: "mcu_parent \<Rightarrow> int \<Rightarrow> string" where
  "pdm_mcu_bus_device_name parent nid =
     strscpy PDM_MCU_BUS_DEVICE_NAME_LEN
       (if 0 \<le> nid then pa_name parent @ ''.pdm-mcu.'' @ dec_int nid else pa_name parent @ ''.pdm-mcu'')"

definition pdm_mcu_register_bus_device ::
  "'ida enum_env \<Rightarrow> mcu_parent option \<Rightarrow> pdm_mcu_backend_type \<Rightarrow> nat option \<Rightarrow> 'ida enum_sys \<Rightarrow>
   'e mcu_world \<Rightarrow> int \<times> 'ida enum_sys \<times> 'e mcu_world" where
  "pdm_mcu_register_bus_device env parent ty bus_dev s w =
     (case (parent, bus_dev) of
        (Some p, Some a) \<Rightarrow>
          let compatible = (case pa_of_node p of
                 None \<Rightarrow> pdm_mcu_default_compatible ty
               | Some np \<Rightarrow> (case dt_str np ''compatible'' of
                     Some c \<Rightarrow> c | None \<Rightarrow> pdm_mcu_default_compatible ty))
          in (case pdm_device_alloc (ee_dev_alloc env 0) of
                None \<Rightarrow> (- ENOMEM, s, w)
              | Some d0 \<Rightarrow>
                  let nid = pdm_mcu_bus_device_id (pa_of_node p);
                      d = the (pdm_device_set_requested_id
                        (Some (d0\<lparr>pd_parent := Some (pa_addr p), pd_of_node := pa_of_node p,
                                  pd_compatible := Some compatible, pd_config_data := Some a\<rparr>)) nid);
                      name = pdm_mcu_bus_device_name p nid;
                      w1 = set_bus_dev w a ((mw_bus_devs w a)\<lparr>bd_type := ty, bd_pdm_dev := Some name\<rparr>)
                  in case pdm_device_register (ee_ida_api env) (ee_set_name env name)
                            (ee_add env (bus_names s) name) (en_als s) (Some d) (Some name) of
                       (ret, als, dev) \<Rightarrow>
                         if ret \<noteq> 0 then
                           (ret, s\<lparr>en_als := als\<rparr>,
                            set_bus_dev w1 a ((mw_bus_devs w1 a)\<lparr>bd_pdm_dev := None\<rparr>))
                         else (0, s\<lparr>en_als := als, en_bus := en_bus s @ [the dev]\<rparr>, w1))
      | _ \<Rightarrow> (- EINVAL, s, w))"

definition pdm_mcu_unregister_bus_device ::
  "'ida enum_env \<Rightarrow> nat option \<Rightarrow> 'ida enum_sys \<Rightarrow> 'e mcu_world \<Rightarrow> 'ida enum_sys \<times> 'e mcu_world" where
  "pdm_mcu_unregister_bus_device env bus_dev s w =
     (case bus_dev of
        None \<Rightarrow> (s, w)
      | Some a \<Rightarrow>
          if bd_pdm_dev (mw_bus_devs w a) = None then (s, w)
          else (pdm_device_unregister env s (bd_pdm_dev (mw_bus_devs w a)),
                set_bus_dev w a ((mw_bus_devs w a)\<lparr>bd_pdm_dev := None, bd_inst := None\<rparr>)))"

text \<open>
  The drivers of the three buses. \<open>alloc\<close> is what \<open>devm_kzalloc\<close> returns; the result ends with the
  driver data of the client.
\<close>

definition bus_device_zero :: pdm_mcu_bus_device where
  "bus_device_zero = \<lparr>bd_type = PDM_MCU_BACKEND_UART, bd_pdm_dev = None, bd_inst = None, bd_bus = None\<rparr>"

definition pdm_mcu_i2c_probe ::
  "'ida enum_env \<Rightarrow> nat option \<Rightarrow> mcu_parent \<Rightarrow> 'ida enum_sys \<Rightarrow> 'e mcu_world \<Rightarrow>
   int \<times> 'ida enum_sys \<times> 'e mcu_world \<times> nat option" where
  "pdm_mcu_i2c_probe env alloc client s w =
     (case alloc of
        None \<Rightarrow> (- ENOMEM, s, w, None)
      | Some a \<Rightarrow>
          (case pdm_mcu_register_bus_device env (Some client) PDM_MCU_BACKEND_I2C (Some a) s
                  (set_bus_dev w a (bus_device_zero\<lparr>bd_bus := Some (pa_addr client)\<rparr>)) of
             (ret, s', w') \<Rightarrow> (ret, s', w', Some a)))"

definition pdm_mcu_i2c_remove ::
  "'ida enum_env \<Rightarrow> nat option \<Rightarrow> 'ida enum_sys \<Rightarrow> 'e mcu_world \<Rightarrow>
   'ida enum_sys \<times> 'e mcu_world \<times> nat option" where
  "pdm_mcu_i2c_remove env bus_dev s w =
     (case pdm_mcu_unregister_bus_device env bus_dev s w of (s', w') \<Rightarrow> (s', w', None))"

definition pdm_mcu_spi_probe ::
  "'ida enum_env \<Rightarrow> nat option \<Rightarrow> mcu_parent \<Rightarrow> 'ida enum_sys \<Rightarrow> 'e mcu_world \<Rightarrow>
   int \<times> 'ida enum_sys \<times> 'e mcu_world \<times> nat option" where
  "pdm_mcu_spi_probe env alloc client s w =
     (case alloc of
        None \<Rightarrow> (- ENOMEM, s, w, None)
      | Some a \<Rightarrow>
          (case pdm_mcu_register_bus_device env (Some client) PDM_MCU_BACKEND_SPI (Some a) s
                  (set_bus_dev w a (bus_device_zero\<lparr>bd_bus := Some (pa_addr client)\<rparr>)) of
             (ret, s', w') \<Rightarrow> (ret, s', w', Some a)))"

definition pdm_mcu_spi_remove ::
  "'ida enum_env \<Rightarrow> nat option \<Rightarrow> 'ida enum_sys \<Rightarrow> 'e mcu_world \<Rightarrow>
   'ida enum_sys \<times> 'e mcu_world \<times> nat option" where
  "pdm_mcu_spi_remove env bus_dev s w =
     (case pdm_mcu_unregister_bus_device env bus_dev s w of (s', w') \<Rightarrow> (s', w', None))"

definition pdm_mcu_serdev_probe ::
  "'ida enum_env \<Rightarrow> nat option \<Rightarrow> mcu_parent \<Rightarrow> 'ida enum_sys \<Rightarrow> 'e mcu_world \<Rightarrow>
   int \<times> 'ida enum_sys \<times> 'e mcu_world \<times> nat option" where
  "pdm_mcu_serdev_probe env alloc serdev s w =
     (case alloc of
        None \<Rightarrow> (- ENOMEM, s, w, None)
      | Some a \<Rightarrow>
          (case pdm_mcu_register_bus_device env (Some serdev) PDM_MCU_BACKEND_UART (Some a) s
                  (set_bus_dev w a (bus_device_zero\<lparr>bd_bus := Some (pa_addr serdev)\<rparr>)) of
             (ret, s', w') \<Rightarrow> (ret, s', w', Some a)))"

definition pdm_mcu_serdev_remove ::
  "'ida enum_env \<Rightarrow> nat option \<Rightarrow> 'ida enum_sys \<Rightarrow> 'e mcu_world \<Rightarrow>
   'ida enum_sys \<times> 'e mcu_world \<times> nat option" where
  "pdm_mcu_serdev_remove env bus_dev s w =
     (case pdm_mcu_unregister_bus_device env bus_dev s w of (s', w') \<Rightarrow> (s', w', None))"

section \<open>The driver keeps the bus's contract\<close>

lemma mcu_probe_device:
  assumes "pdm_mcu_probe env w d = (ret, w', d')"
  shows "(ret \<noteq> 0 \<longrightarrow> d' = d) \<and>
    (\<exists>caps addr. d' = d \<or> d' = d\<lparr>pd_capabilities := caps, pd_drvdata := addr\<rparr>)"
  using assms by (auto simp: pdm_mcu_probe_def Let_def split: option.splits prod.splits if_splits)

lemma mcu_remove_device:
  "pdm_mcu_remove env w d = (w', d') \<Longrightarrow> d' = d \<or> d' = d\<lparr>pd_drvdata := None\<rparr>"
  by (auto simp: pdm_mcu_remove_def Let_def split: option.splits prod.splits)

interpretation mcu_drv: pdm_driver_contract "pdm_mcu_probe env" "pdm_mcu_remove env"
  by unfold_locales
     (auto simp: bus_view_def dest!: mcu_probe_device mcu_remove_device)

section \<open>What probe and remove do to the resources\<close>

lemmas transport_setup_frame = mcu_transport.setup_frame [OF mcus.transport]
lemmas transport_setup_held = mcu_transport.setup_held [OF mcus.transport]
lemmas transport_cleanup_held = mcu_transport.cleanup_held [OF mcus.transport]
lemmas transport_undo = mcu_transport.setup_cleanup [OF mcus.transport]

definition probe_mcu :: "nat \<Rightarrow> pdm_mcu_backend_type option \<Rightarrow> pdm_mcu_instance" where
  "probe_mcu addr t = (pdm_driver_init (pdm_mcu_instance_zero addr))
     \<lparr>mu_ops := t, mu_state := PDM_MCU_STATE_READY\<rparr>"

lemma probe_mcu_facts [simp]:
  "mcu_res u (probe_mcu addr t) = {#}" "in_online (probe_mcu addr t)" "\<not> in_lock (probe_mcu addr t)"
  "mu_ops (probe_mcu addr t) = t" "mu_last_error (probe_mcu addr t) = 0"
  "mu_state (probe_mcu addr t) = PDM_MCU_STATE_READY" "mu_addr (probe_mcu addr t) = addr"
  by (cases u; simp add: probe_mcu_def pdm_driver_init_def pdm_mcu_instance_zero_def can_res_def uart_res_def)+

text \<open>The exits of a probe.\<close>

lemma mcu_probe_cases:
  assumes "pdm_mcu_probe env w d = (ret, w', d')"
  defines "api \<equiv> vm_api env" and "name \<equiv> pdm_mcu_nodename (pd_id d)"
  obtains (early) "ret \<noteq> 0" "w' = w" "d' = d"
    | (setup_err) addr t bus i where
        "to_setup (pdm_mcu_ops api (the t)) (mg_world w) d (probe_mcu addr t) = (ret, bus, i)" "ret \<noteq> 0"
        "w' = w\<lparr>mg_world := bus\<rparr>" "d' = d"
    | (registered) addr entry t bus i cs where "vm_kzalloc env w = Some addr"
        "pdm_backend_find (vm_backends env) PDM_MCU_DEVICE_TYPE PDM_BACKEND_CLASS_TRANSPORT (pd_compatible d)
           = Some entry" "be_ops entry = t"
        "to_setup (pdm_mcu_ops api (the t)) (mg_world w) d (probe_mcu addr t) = (0, bus, i)"
        "pdm_cdev_register (vm_ida_api env) (vm_set_name_ret env name) (vm_add_ret env name)
           (mcu_fresh_cdev w) (Some ''pdm-mcu'') (Some name) (Some 0) True = (ret, cs)"
        "ret \<noteq> 0 \<Longrightarrow> d' = d \<and> w' = w\<lparr>mg_world := fst (mcu_cleanup_of api (the t) bus d i),
           mg_ida := cs_ida cs, mg_refs := cs_pdm_refs cs\<rparr>"
        "ret = 0 \<Longrightarrow> w' = w\<lparr>mg_world := bus, mg_ida := cs_ida cs, mg_refs := cs_pdm_refs cs,
             mg_count := mg_count w + 1,
             mg_insts := (mg_insts w)(addr := Some \<lparr>ec_inst = i, ec_client = cs_client cs, ec_files = {}\<rparr>)\<rparr> \<and>
           d' = d\<lparr>pd_capabilities := pd_capabilities d OR to_capability (pdm_mcu_ops api (the t)),
                  pd_drvdata := Some addr\<rparr>"
proof (cases "vm_kzalloc env w")
  case None
  with assms(1) show thesis by (intro early) (simp_all add: pdm_mcu_probe_def)
next
  case (Some addr)
  show thesis
  proof (cases "pdm_backend_find (vm_backends env) PDM_MCU_DEVICE_TYPE PDM_BACKEND_CLASS_TRANSPORT (pd_compatible d)")
    case None
    with assms(1) Some show thesis by (intro early) (simp_all add: pdm_mcu_probe_def)
  next
    case (Some entry)
    define t where "t = be_ops entry"
    obtain r1 bus i where set: "to_setup (pdm_mcu_ops api (the t)) (mg_world w) d (probe_mcu addr t) = (r1, bus, i)"
      using prod_cases3 by blast
    obtain bus2 i2 where cl: "mcu_cleanup_of api (the t) bus d i = (bus2, i2)" by fastforce
    obtain r2 cs where reg: "pdm_cdev_register (vm_ida_api env) (vm_set_name_ret env name) (vm_add_ret env name)
           (mcu_fresh_cdev w) (Some ''pdm-mcu'') (Some name) (Some 0) True = (r2, cs)" by fastforce
    have eq: "pdm_mcu_probe env w d =
       (if r1 \<noteq> 0 then (r1, w\<lparr>mg_world := bus\<rparr>, d)
        else if r2 \<noteq> 0 then (r2, w\<lparr>mg_world := bus2, mg_ida := cs_ida cs, mg_refs := cs_pdm_refs cs\<rparr>, d)
        else (0, w\<lparr>mg_world := bus, mg_ida := cs_ida cs, mg_refs := cs_pdm_refs cs, mg_count := mg_count w + 1,
             mg_insts := (mg_insts w)(addr := Some \<lparr>ec_inst = i, ec_client = cs_client cs, ec_files = {}\<rparr>)\<rparr>,
           d\<lparr>pd_capabilities := pd_capabilities d OR to_capability (pdm_mcu_ops api (the t)), pd_drvdata := Some addr\<rparr>))"
      using Some \<open>vm_kzalloc env w = Some addr\<close> set cl reg
      by (simp add: pdm_mcu_probe_def Let_def probe_mcu_def [symmetric] t_def [symmetric] api_def [symmetric]
          name_def [symmetric] mcus.cleanup_op pdm_driver_count_inc_def)
    show thesis
    proof (cases "r1 = 0")
      case False
      with eq assms(1) set show thesis by (intro setup_err [of t addr bus i]) simp_all
    next
      case True
      with eq assms(1) set reg cl \<open>vm_kzalloc env w = Some addr\<close> Some t_def show thesis
        by (intro registered [of addr entry t bus i cs]) (simp_all split: if_splits)
    qed
  qed
qed

lemma backend_find_member: "pdm_backend_find es ty cls c = Some e \<Longrightarrow> e \<in> set es"
  by (induction es) (auto split: if_splits)

lemma mcu_probe_undone:
  assumes "to_setup (pdm_mcu_ops api t) bus d (probe_mcu addr u) = (0, bus1, i)"
  shows "mw_held (fst (mcu_cleanup_of api t bus1 d i)) = mw_held bus"
proof -
  obtain bus2 i2 where cl: "mcu_cleanup_of api t bus1 d i = (bus2, i2)" by fastforce
  from transport_undo [OF assms _ cl] cl show ?thesis by simp
qed

lemma mcu_probe_ok:
  assumes "ida_laws (vm_ida_api env) ids" and "pdm_mcu_probe env w d = (0, w', d')"
    and "\<forall>e \<in> set (vm_backends env). be_ops e \<noteq> None"
  shows "\<exists>addr c t. vm_kzalloc env w = Some addr \<and> mg_insts w' = (mg_insts w)(addr \<mapsto> c) \<and>
     \<not> in_lock (ec_inst c) \<and> in_online (ec_inst c) \<and> mu_ops (ec_inst c) = Some t \<and>
     mu_state (ec_inst c) = PDM_MCU_STATE_READY \<and> mu_last_error (ec_inst c) = 0 \<and>
     mw_held (mg_world w') = mw_held (mg_world w) + mcu_res t (ec_inst c) \<and>
     cd_registered (ec_client c) \<and> cd_refs (ec_client c) = 1 \<and> cd_release (ec_client c) \<and>
     cd_pdm_dev (ec_client c) \<and> ec_files c = {} \<and> 0 \<le> cd_minor (ec_client c) \<and>
     nat (cd_minor (ec_client c)) \<notin> ids (mg_ida w) \<and>
     ids (mg_ida w') = insert (nat (cd_minor (ec_client c))) (ids (mg_ida w)) \<and>
     mg_count w' = mg_count w + 1 \<and> mg_refs w' = mg_refs w + 1 \<and>
     d' = d\<lparr>pd_capabilities := pd_capabilities d OR to_capability (pdm_mcu_ops (vm_api env) t),
            pd_drvdata := Some addr\<rparr>"
  using assms(2)
proof (cases rule: mcu_probe_cases)
  case (registered addr entry t bus i cs)
  note reg = register_ok_ids [OF assms(1) registered(5)]
  from registered(2) have "entry \<in> set (vm_backends env)" by (rule backend_find_member)
  with assms(3) registered(3) obtain u where u: "t = Some u" by auto
  have held: "mw_held bus = mw_held (mg_world w) + mcu_res u i"
    using transport_setup_held [OF registered(4)] u by simp
  have core: "mcu_core i = mcu_core (probe_mcu addr t)" using transport_setup_frame [OF registered(4)] .
  then have i: "\<not> in_lock i" "in_online i" "mu_ops i = Some u" "mu_state i = PDM_MCU_STATE_READY"
    "mu_last_error i = 0" using u by (simp_all add: mcu_core_def)
  from registered(7) u have fin:
    "w' = w\<lparr>mg_world := bus, mg_ida := cs_ida cs, mg_refs := cs_pdm_refs cs, mg_count := mg_count w + 1,
       mg_insts := (mg_insts w)(addr := Some \<lparr>ec_inst = i, ec_client = cs_client cs, ec_files = {}\<rparr>)\<rparr>"
    "d' = d\<lparr>pd_capabilities := pd_capabilities d OR to_capability (pdm_mcu_ops (vm_api env) u), pd_drvdata := Some addr\<rparr>"
    by simp_all
  show ?thesis
    by (rule exI [of _ addr], rule exI [of _ "\<lparr>ec_inst = i, ec_client = cs_client cs, ec_files = {}\<rparr>"],
        rule exI [of _ u]) (use fin held i reg registered(1) in \<open>simp add: mcu_fresh_cdev_def\<close>)
qed simp_all

text \<open>Removing an instance at rest whose node no file holds open.\<close>

lemma mcu_remove_ok:
  assumes laws: "ida_laws (vm_ida_api env) ids" and drv: "pd_drvdata d = Some addr"
    and mem: "mg_insts w addr = Some c" and t: "mu_ops (ec_inst c) = Some t"
    and node: "cd_registered (ec_client c)" "cd_refs (ec_client c) = 1" "cd_release (ec_client c)"
      "cd_pdm_dev (ec_client c)" "0 \<le> cd_minor (ec_client c)"
    and call: "pdm_mcu_remove env w d = (w', d')"
  shows "mw_held (mg_world w') = mw_held (mg_world w) - mcu_res t (ec_inst c) \<and>
     ids (mg_ida w') = ids (mg_ida w) - {nat (cd_minor (ec_client c))} \<and>
     mg_refs w' = mg_refs w - 1 \<and> mg_count w' = pdm_driver_count_dec (mg_count w) \<and>
     mg_insts w' = (mg_insts w)(addr := None) \<and> d' = d\<lparr>pd_drvdata := None\<rparr>"
proof -
  let ?i = "(ec_inst c)\<lparr>in_lock := True, in_online := False, mu_state := PDM_MCU_STATE_OFFLINE\<rparr>"
  let ?cs = "mcu_client_cdev (w\<lparr>mg_count := pdm_driver_count_dec (mg_count w)\<rparr>) c"
  have shut: "pdm_driver_shutdown (mutex_unlock (ec_inst c)) = Some ((ec_inst c)\<lparr>in_lock := True, in_online := False\<rparr>)"
    by (simp add: mutex_unlock_def)
  obtain bus i where cl: "mcu_cleanup_of (vm_api env) t (mg_world w) (d\<lparr>pd_drvdata := None\<rparr>) ?i = (bus, i)"
    by fastforce
  have "mcu_res t ?i = mcu_res t (ec_inst c)"
    by (cases t) (simp_all add: can_res_def uart_res_def)
  with transport_cleanup_held [OF cl] have held: "mw_held bus = mw_held (mg_world w) - mcu_res t (ec_inst c)"
    by simp
  note unreg = unregister_closed [OF laws, of ?cs]
  have "w' = w\<lparr>mg_count := pdm_driver_count_dec (mg_count w), mg_world := bus,
      mg_ida := cs_ida (pdm_cdev_unregister (vm_ida_api env) ?cs),
      mg_refs := cs_pdm_refs (pdm_cdev_unregister (vm_ida_api env) ?cs),
      mg_insts := (mg_insts w)(addr := None)\<rparr>" "d' = d\<lparr>pd_drvdata := None\<rparr>"
    using call drv mem t shut cl unreg node
    by (simp_all add: pdm_mcu_remove_def Let_def mcus.cleanup_op mcu_client_cdev_def)
  with held unreg node show ?thesis by (simp add: mcu_client_cdev_def)
qed

lemma find_append_fresh: "\<forall>x \<in> set xs. \<not> P x \<Longrightarrow> find P (xs @ ys) = find P ys"
  by (induction xs) auto

section \<open>Properties\<close>

text \<open>
  An MCU probe that fails, at the backend search, in the transport or at the registration of
  the node, gives everything back: sockets, network devices and serial ports, minor numbers,
  references, the counter and the instances are those of before, and the device is unchanged.
\<close>

theorem mcu_probe_failure:
  assumes "ida_laws (vm_ida_api env) ids" and "pdm_mcu_probe env w d = (ret, w', d')" and "ret \<noteq> 0"
  shows "mw_held (mg_world w') = mw_held (mg_world w) \<and> ids (mg_ida w') = ids (mg_ida w) \<and>
         mg_refs w' = mg_refs w \<and> mg_count w' = mg_count w \<and> mg_insts w' = mg_insts w \<and> d' = d"
  using assms(2)
proof (cases rule: mcu_probe_cases)
  case early
  then show ?thesis by simp
next
  case (setup_err addr t bus i)
  with transport_setup_held [OF setup_err(1)] show ?thesis by simp
next
  case (registered addr entry t bus i cs)
  note reg = register_failure [OF assms(1) registered(5) assms(3)]
  from registered(6) assms(3) mcu_probe_undone [OF registered(4)] reg
  show ?thesis by (simp add: mcu_fresh_cdev_def)
qed

text \<open>
  C5. The life of an MCU: once the bus has bound the device it probed, the MCU is at rest, so it
  answers every session of requests; removing it afterwards leaves every resource, minor number,
  reference, counter and piece of memory as it was before the probe.
\<close>

theorem mcu_lifecycle:
  assumes "ida_laws (vm_ida_api env) ids" and "mcu_bus_laws (vm_api env)"
    and "\<forall>e \<in> set (vm_backends env). be_ops e \<noteq> None"
    and "pdm_mcu_probe env w d = (0, w1, d1)"
    and "vm_kzalloc env w = Some addr" and "mg_insts w addr = None" and "0 \<le> mg_count w"
    and "mg_insts w1 addr = Some c"
    and "bound = \<lparr>cx_world = mg_world w1, cx_dev = d1\<lparr>pd_state := PDM_MANAGER_DEVICE_STATE_BOUND,
           pd_last_error := 0\<rparr>, cx_inst = ec_inst c\<rparr>"
  shows "\<exists>tr cx. mcu_session (pdm_mcu_ops (vm_api env)) (mg_count w1) (ec_client c) bound reqs = Some (tr, cx) \<and>
     mcu_trace_ok (0, pd_error_count d1) tr (mcu_view cx) \<and>
     (\<exists>w2 d2. pdm_mcu_remove env (w1\<lparr>mg_world := cx_world cx,
           mg_insts := (mg_insts w1)(addr \<mapsto> c\<lparr>ec_inst := cx_inst cx\<rparr>)\<rparr>) (cx_dev cx) = (w2, d2) \<and>
        mw_held (mg_world w2) = mw_held (mg_world w) \<and> ids (mg_ida w2) = ids (mg_ida w) \<and>
        mg_refs w2 = mg_refs w \<and> mg_count w2 = mg_count w \<and> mg_insts w2 = mg_insts w \<and> pd_drvdata d2 = None)"
proof -
  obtain t where ok: "mg_insts w1 = (mg_insts w)(addr \<mapsto> c)"
    "\<not> in_lock (ec_inst c)" "in_online (ec_inst c)" "mu_ops (ec_inst c) = Some t"
    "mu_state (ec_inst c) = PDM_MCU_STATE_READY" "mu_last_error (ec_inst c) = 0"
    "mw_held (mg_world w1) = mw_held (mg_world w) + mcu_res t (ec_inst c)"
    "cd_registered (ec_client c)" "cd_refs (ec_client c) = 1" "cd_release (ec_client c)"
    "cd_pdm_dev (ec_client c)" "0 \<le> cd_minor (ec_client c)"
    "nat (cd_minor (ec_client c)) \<notin> ids (mg_ida w)"
    "ids (mg_ida w1) = insert (nat (cd_minor (ec_client c))) (ids (mg_ida w))"
    "mg_count w1 = mg_count w + 1" "mg_refs w1 = mg_refs w + 1" "pd_drvdata d1 = Some addr"
    using mcu_probe_ok [OF assms(1,4,3)] assms(5,8) by auto
  have rest: "mcu_at_rest t bound" using ok by (simp add: assms(9) mcu_at_rest_def)
  obtain tr cx where ses:
    "mcu_session (pdm_mcu_ops (vm_api env)) (mg_count w1) (ec_client c) bound reqs = Some (tr, cx)"
    "mcu_at_rest t cx" "mw_held (cx_world cx) = mw_held (mg_world w1)"
    "mcu_res t (cx_inst cx) = mcu_res t (ec_inst c)" "pd_drvdata (cx_dev cx) = Some addr"
    "mcu_trace_ok (0, pd_error_count d1) tr (mcu_view cx)"
    using mcus.session_spec [OF rest assms(2), of "mg_count w1" "ec_client c" reqs] ok
    unfolding mcus.mcu_frame_def by (auto simp: assms(9) mcu_view_def dest: mcu_dev_identity_sel)
  let ?w = "w1\<lparr>mg_world := cx_world cx, mg_insts := (mg_insts w1)(addr \<mapsto> c\<lparr>ec_inst := cx_inst cx\<rparr>)\<rparr>"
  obtain w2 d2 where rm: "pdm_mcu_remove env ?w (cx_dev cx) = (w2, d2)" by fastforce
  have "mw_held (mg_world w2) = mw_held (cx_world cx) - mcu_res t (cx_inst cx) \<and>
     ids (mg_ida w2) = ids (mg_ida w1) - {nat (cd_minor (ec_client c))} \<and>
     mg_refs w2 = mg_refs w1 - 1 \<and> mg_count w2 = pdm_driver_count_dec (mg_count w1) \<and>
     mg_insts w2 = (mg_insts w1)(addr := None) \<and> d2 = (cx_dev cx)\<lparr>pd_drvdata := None\<rparr>"
    using mcu_remove_ok [OF assms(1) ses(5) _ _ _ _ _ _ _ rm, of "c\<lparr>ec_inst := cx_inst cx\<rparr>" t] ses(2) ok
    by (simp add: mcu_at_rest_def)
  with ok ses(3,4) assms(6,7) have "mw_held (mg_world w2) = mw_held (mg_world w) \<and> ids (mg_ida w2) = ids (mg_ida w) \<and>
      mg_refs w2 = mg_refs w \<and> mg_count w2 = mg_count w \<and> mg_insts w2 = mg_insts w \<and> pd_drvdata d2 = None"
    by (auto simp: pdm_driver_count_dec_def atomic_dec_if_positive_def)
  with ses(1,6) rm show ?thesis by blast
qed

text \<open>
  Registering the bus device of an MCU either puts exactly one device on the bus, with the name
  that the bus device remembers, its parent and its bus device as configuration, so that
  unregistering gives back the bus of before; or leaves the bus alone and remembers no device.
\<close>

theorem mcu_bus_device_registered:
  assumes laws: "device_add_laws env"
    and call: "pdm_mcu_register_bus_device env (Some p) ty (Some a) s w = (ret, s', w')"
    and fresh: "bd_pdm_dev (mw_bus_devs w a) = None"
  shows "if ret = 0
     then \<exists>d. en_bus s' = en_bus s @ [d] \<and> pd_name d = pdm_mcu_bus_device_name p (pd_requested_id d) \<and>
       pd_requested_id d = pdm_mcu_bus_device_id (pa_of_node p) \<and> pd_parent d = Some (pa_addr p) \<and>
       pd_config_data d = Some a \<and> bd_type (mw_bus_devs w' a) = ty \<and>
       bd_pdm_dev (mw_bus_devs w' a) = Some (pd_name d) \<and>
       en_bus (fst (pdm_mcu_unregister_bus_device env (Some a) s' w')) = en_bus s
     else en_bus s' = en_bus s \<and> bd_pdm_dev (mw_bus_devs w' a) = None"
proof (cases "pdm_device_alloc (ee_dev_alloc env 0)")
  case None
  with call fresh show ?thesis
    by (auto simp: pdm_mcu_register_bus_device_def Let_def split: option.splits)
next
  case (Some d0)
  let ?id = "pdm_mcu_bus_device_id (pa_of_node p)"
  let ?name = "pdm_mcu_bus_device_name p ?id"
  let ?c = "case pa_of_node p of None \<Rightarrow> pdm_mcu_default_compatible ty
     | Some np \<Rightarrow> (case dt_str np ''compatible'' of Some c \<Rightarrow> c | None \<Rightarrow> pdm_mcu_default_compatible ty)"
  define d where "d = the (pdm_device_set_requested_id (Some (d0\<lparr>pd_parent := Some (pa_addr p),
      pd_of_node := pa_of_node p, pd_compatible := Some ?c, pd_config_data := Some a\<rparr>)) ?id)"
  have d: "pd_requested_id d = ?id" "pd_parent d = Some (pa_addr p)" "pd_config_data d = Some a"
    by (simp_all add: d_def Let_def)
  obtain r als dev where reg: "pdm_device_register (ee_ida_api env) (ee_set_name env ?name)
      (ee_add env (bus_names s) ?name) (en_als s) (Some d) (Some ?name) = (r, als, dev)"
    using prod_cases3 by blast
  let ?w = "set_bus_dev w a ((mw_bus_devs w a)\<lparr>bd_type := ty, bd_pdm_dev := Some ?name\<rparr>)"
  have eq: "(ret, s', w') =
      (if r \<noteq> 0 then (r, s\<lparr>en_als := als\<rparr>, set_bus_dev ?w a ((mw_bus_devs ?w a)\<lparr>bd_pdm_dev := None\<rparr>))
       else (0, s\<lparr>en_als := als, en_bus := en_bus s @ [the dev]\<rparr>, ?w))"
    using call [symmetric] Some reg unfolding d_def
    by (simp only: pdm_mcu_register_bus_device_def prod.case option.case Let_def)
  show ?thesis
  proof (cases "r = 0")
    case False
    with eq show ?thesis by (simp add: set_bus_dev_def)
  next
    case True
    with reg have dev: "dev = Some (d\<lparr>pd_name := ?name\<rparr>)" "ee_add env (bus_names s) ?name = 0"
      by (auto split: if_splits)
    with laws have "?name \<notin> set (bus_names s)" unfolding device_add_laws_def by blast
    then have other: "\<forall>e \<in> set (en_bus s). pd_name e \<noteq> ?name" by force
    have "find (\<lambda>e. pd_name e = ?name) (en_bus s @ [d\<lparr>pd_name := ?name\<rparr>]) = Some (d\<lparr>pd_name := ?name\<rparr>)"
      by (subst find_append_fresh) (use other in simp_all)
    moreover have "filter (\<lambda>e. pd_name e \<noteq> ?name) (en_bus s) = en_bus s"
      using other by (simp add: filter_id_conv)
    ultimately show ?thesis using eq True dev d
      by (simp add: set_bus_dev_def pdm_mcu_unregister_bus_device_def)
  qed
qed

section \<open>Witnesses\<close>

text \<open>An MCU on I2C with the bus device at address 0; the registration of the node can fail.\<close>

definition mcu_env_ok :: "(nat list, nat) mcu_env" where
  "mcu_env_ok = \<lparr>vm_ida_api = list_ida, vm_api = example_mcu_api, vm_backends =
       [pdm_mcu_can_entry, pdm_mcu_i2c_entry (\<lambda>u. (0, u)) (\<lambda>u. u)],
     vm_kzalloc = (\<lambda>_. Some 9), vm_set_name_ret = (\<lambda>_. 0), vm_add_ret = (\<lambda>_. 0)\<rparr>"

definition mcu_env_bad :: "(nat list, nat) mcu_env" where
  "mcu_env_bad = mcu_env_ok\<lparr>vm_add_ret := (\<lambda>_. - EIO)\<rparr>"

definition mcu_sys0 :: "(nat list, nat) mcu_sys" where
  "mcu_sys0 = \<lparr>mg_world = \<lparr>mw_ext = 0, mw_held = {#}, mw_bus_devs = (\<lambda>_.
       \<lparr>bd_type = PDM_MCU_BACKEND_I2C, bd_pdm_dev = Some ''mcu'', bd_inst = None, bd_bus = Some 5\<rparr>)\<rparr>,
     mg_ida = [], mg_refs = 0, mg_count = 0, mg_insts = (\<lambda>_. None)\<rparr>"

definition mcu_device :: pdm_device where
  "mcu_device = new_device\<lparr>pd_name := ''mcu'', pd_id := 0, pd_id_allocated := True, pd_type := 1,
     pd_compatible := Some ''pdm,mcu-i2c'', pd_config_data := Some 0\<rparr>"

lemma mcu0_nodename: "pdm_mcu_nodename 0 = ''mcu0''"
proof -
  have "dec_digits 0 = ''0''" by code_simp
  then show ?thesis by (simp add: pdm_mcu_nodename_def dec_int_def)
qed

lemmas mcu_probe_eval = pdm_mcu_probe_def mcu_env_ok_def mcu_env_bad_def mcu_sys0_def mcu_device_def
  new_device_def pdm_device_alloc_def pdm_mcu_can_entry_def pdm_mcu_i2c_entry_def Let_def
  pdm_mcu_i2c_ops_def pdm_mcu_i2c_setup_def bus_dev_of_def pdm_mcu_instance_zero_def pdm_driver_init_def
  pdm_cdev_register_def mcu_fresh_cdev_def list_ida_def mcu0_nodename

lemma mcu_env_laws: "ida_laws (vm_ida_api mcu_env_ok) set" "ida_laws (vm_ida_api mcu_env_bad) set"
  "mcu_bus_laws (vm_api mcu_env_ok)" "\<forall>e \<in> set (vm_backends mcu_env_ok). be_ops e \<noteq> None"
  by (simp_all add: mcu_env_bad_def mcu_env_ok_def list_ida_laws example_mcu_laws pdm_mcu_can_entry_def
      pdm_mcu_i2c_entry_def)

definition mcu_bad_probe :: "int \<times> (nat list, nat) mcu_sys \<times> pdm_device" where
  "mcu_bad_probe = pdm_mcu_probe mcu_env_bad mcu_sys0 mcu_device"

lemma mcu_bad_probe_eq:
  "pdm_mcu_probe mcu_env_bad mcu_sys0 mcu_device = (- EIO, fst (snd mcu_bad_probe), snd (snd mcu_bad_probe))"
proof -
  have "fst mcu_bad_probe = - EIO"
    by (simp add: mcu_bad_probe_def mcu_probe_eval pdm_mcu_i2c_cleanup_def)
  then show ?thesis by (metis mcu_bad_probe_def prod.collapse)
qed

theorem mcu_probe_failure_witness:
  "mg_ida (fst (snd mcu_bad_probe)) = [] \<and> snd (snd mcu_bad_probe) = mcu_device"
  using mcu_probe_failure [OF mcu_env_laws(2) mcu_bad_probe_eq] by (simp add: mcu_sys0_def)

definition mcu_probed :: "(nat list, nat) mcu_sys \<times> pdm_device" where
  "mcu_probed = snd (pdm_mcu_probe mcu_env_ok mcu_sys0 mcu_device)"

lemma mcu_probed_eq:
  "pdm_mcu_probe mcu_env_ok mcu_sys0 mcu_device = (0, fst mcu_probed, snd mcu_probed)"
proof -
  have "fst (pdm_mcu_probe mcu_env_ok mcu_sys0 mcu_device) = 0" by (simp add: mcu_probe_eval)
  then show ?thesis by (metis mcu_probed_def prod.collapse)
qed

definition mcu_probed_client :: mcu_client where
  "mcu_probed_client = the (mg_insts (fst mcu_probed) 9)"

lemma mcu_probed_client_eq: "mg_insts (fst mcu_probed) 9 = Some mcu_probed_client"
  by (simp add: mcu_probed_client_def mcu_probed_def mcu_probe_eval)

theorem mcu_lifecycle_witness:
  "\<exists>tr cx w2 d2. mcu_session (pdm_mcu_ops example_mcu_api) 1 (ec_client mcu_probed_client)
      \<lparr>cx_world = mg_world (fst mcu_probed), cx_dev = (snd mcu_probed)
          \<lparr>pd_state := PDM_MANAGER_DEVICE_STATE_BOUND, pd_last_error := 0\<rparr>,
        cx_inst = ec_inst mcu_probed_client\<rparr> [MCU_RESET (rw_buf 0)] = Some (tr, cx) \<and>
     pdm_mcu_remove mcu_env_ok ((fst mcu_probed)\<lparr>mg_world := cx_world cx,
        mg_insts := (mg_insts (fst mcu_probed))(9 \<mapsto> mcu_probed_client\<lparr>ec_inst := cx_inst cx\<rparr>)\<rparr>)
        (cx_dev cx) = (w2, d2) \<and> mw_held (mg_world w2) = {#}"
proof -
  have facts: "vm_kzalloc mcu_env_ok mcu_sys0 = Some 9" "mg_insts mcu_sys0 9 = None" "0 \<le> mg_count mcu_sys0"
    "mw_held (mg_world mcu_sys0) = {#}" "vm_api mcu_env_ok = example_mcu_api" "mg_count (fst mcu_probed) = 1"
    by (simp_all add: mcu_env_ok_def mcu_sys0_def mcu_probed_def mcu_probe_eval pdm_driver_count_inc_def)
  from mcu_lifecycle [OF mcu_env_laws(1,3,4) mcu_probed_eq facts(1-3) mcu_probed_client_eq refl,
      of "[MCU_RESET (rw_buf 0)]"]
  show ?thesis unfolding facts(4-6) by blast
qed

theorem mcu_bus_device_registered_witness:
  "\<exists>d. en_bus (fst (snd (pdm_mcu_register_bus_device enum_env_ok
       (Some \<lparr>pa_addr = 3, pa_name = ''i2c-1'', pa_of_node = None\<rparr>) PDM_MCU_BACKEND_I2C (Some 0) enum_sys0
       \<lparr>mw_ext = (), mw_held = {#}, mw_bus_devs = (\<lambda>_. bus_device_zero)\<rparr>))) = [d] \<and>
     pd_name d = ''i2c-1.pdm-mcu'' \<and> pd_config_data d = Some 0"
proof -
  let ?p = "\<lparr>pa_addr = 3, pa_name = ''i2c-1'', pa_of_node = None\<rparr>"
  let ?w = "\<lparr>mw_ext = (), mw_held = {#}, mw_bus_devs = (\<lambda>_. bus_device_zero)\<rparr>"
  let ?r = "pdm_mcu_register_bus_device enum_env_ok (Some ?p) PDM_MCU_BACKEND_I2C (Some 0) enum_sys0 ?w"
  have "fst ?r = 0"
    by (simp add: pdm_mcu_register_bus_device_def pdm_mcu_bus_device_id_def enum_env_ok_def enum_sys0_def
        pdm_device_alloc_def Let_def split: prod.split)
  then have eq: "?r = (0, fst (snd ?r), snd (snd ?r))" by (metis prod.collapse)
  from mcu_bus_device_registered [OF enum_env_ok_laws eq] obtain d where
    "en_bus (fst (snd ?r)) = en_bus enum_sys0 @ [d]" "pd_name d = pdm_mcu_bus_device_name ?p (- 1)"
    "pd_config_data d = Some 0"
    by (auto simp: bus_device_zero_def pdm_mcu_bus_device_id_def)
  then show ?thesis by (simp add: enum_sys0_def pdm_mcu_bus_device_name_def)
qed

end
