(* ===== verification/Pdm_Mcu_Diag.thy ===== *)
theory Pdm_Mcu_Diag
  imports Kernel_Text Pdm_Mcu_Driver "HOL-Library.Signed_Division"
begin

unbundle bit_operations_syntax

text \<open>
  The text interface of the MCU driver, \<open>src/kernel/pdm/drivers/mcu/pdm_mcu_diag.c\<close>: the lines written
  to \<open>/proc/pdm/mcu\<close> and to \<open>mcu_control\<close> in debugfs, and what reading the proc file shows.

  The operations work on the state \<open>mcu_sys\<close> of the driver, with the devices bound to it as the list of
  the addresses of their instances. \<open>None\<close> as a result means that the call waits for the mutex of an
  instance. The version and status structs start with whatever the stack holds, which is an argument.
  \<open>%s\<close> with the version string prints up to its first NUL, or all 32 bytes when it has none (the
  kernel then reads on behind the struct).
\<close>

section \<open>Names and instances\<close>

definition pdm_mcu_state_str :: "u32 \<Rightarrow> string" where
  "pdm_mcu_state_str st =
     (if st = PDM_MCU_STATE_UNINITIALIZED then ''UNINITIALIZED''
      else if st = PDM_MCU_STATE_INIT then ''INIT''
      else if st = PDM_MCU_STATE_READY then ''READY''
      else if st = PDM_MCU_STATE_BUSY then ''BUSY''
      else if st = PDM_MCU_STATE_ERROR then ''ERROR''
      else if st = PDM_MCU_STATE_OFFLINE then ''OFFLINE''
      else ''UNKNOWN'')"

record mcu_find_ctx =
  mf_target_index :: u32
  mf_current_index :: u32
  mf_result :: "nat option"

definition pdm_mcu_match_by_index :: "nat \<Rightarrow> mcu_find_ctx \<Rightarrow> int \<times> mcu_find_ctx" where
  "pdm_mcu_match_by_index inst ctx =
     (if mf_current_index ctx = mf_target_index ctx then (1, ctx\<lparr>mf_result := Some inst\<rparr>)
      else (0, ctx\<lparr>mf_current_index := mf_current_index ctx + 1\<rparr>))"

definition pdm_mcu_find_instance :: "nat list option \<Rightarrow> u32 \<Rightarrow> nat option" where
  "pdm_mcu_find_instance drv index =
     (case drv of
        None \<Rightarrow> None
      | Some devs \<Rightarrow> mf_result (snd (bus_for_each pdm_mcu_match_by_index devs
          \<lparr>mf_target_index = index, mf_current_index = 0, mf_result = None\<rparr>)))"

definition mcu_inst_at :: "('ida, 'e) mcu_sys \<Rightarrow> nat \<Rightarrow> pdm_mcu_instance" where
  "mcu_inst_at w a = ec_inst (the (mg_insts w a))"

definition put_mcu_inst :: "('ida, 'e) mcu_sys \<Rightarrow> nat \<Rightarrow> pdm_mcu_instance \<Rightarrow> ('ida, 'e) mcu_sys" where
  "put_mcu_inst w a inst = w\<lparr>mg_insts := (mg_insts w)(a := map_option (\<lambda>c. c\<lparr>ec_inst := inst\<rparr>) (mg_insts w a))\<rparr>"

definition mcu_ops_name :: "'e mcu_api \<Rightarrow> pdm_mcu_instance \<Rightarrow> string" where
  "mcu_ops_name api inst = (case mu_ops inst of Some t \<Rightarrow> to_name (pdm_mcu_ops api t) | None \<Rightarrow> ''none'')"

section \<open>Reading the proc file\<close>

text \<open>Division and remainder of C, which cut towards zero; the degree sign is two bytes of UTF-8.\<close>

definition degree_celsius :: string where
  "degree_celsius = [char_of (194 :: nat), char_of (176 :: nat), CHR ''C'']"

definition temp_whole :: "int \<Rightarrow> int" where
  "temp_whole milli = milli sdiv 1000"

definition temp_frac :: "int \<Rightarrow> int" where
  "temp_frac milli = \<bar>milli smod 1000\<bar> sdiv 100"

definition mcu_show_header :: "u32 \<Rightarrow> string" where
  "mcu_show_header cnt = ''PDM MCU Module'' @ [newline] @ ''ABI Version:    0x00010000'' @ [newline] @
     ''Module Version: 1.0.0'' @ [newline] @ ''Device Count:   '' @ fmt_u cnt @ [newline, newline]"

definition mcu_show_table :: string where
  "mcu_show_table = ''MCU Devices:'' @ [newline] @
     ''  ID  State       Online  Uptime    Temp      Voltage  Transport'' @ [newline] @
     ''  --  ----------  ------  --------  --------  -------  ---------'' @ [newline]"

definition mcu_show_usage :: string where
  "mcu_show_usage = [newline] @ ''Usage:'' @ [newline] @
     ''  cat /proc/pdm/mcu          - Show this information'' @ [newline] @
     ''  echo \"help\" > /proc/pdm/mcu - Show available commands'' @ [newline]"

definition mcu_status_row :: "'e mcu_api \<Rightarrow> u32 \<Rightarrow> pdm_mcu_status \<Rightarrow> pdm_mcu_instance \<Rightarrow> string" where
  "mcu_status_row api i status inst = ''  '' @ pad_left 2 (fmt_u i) @ ''  '' @
     pad_right 10 (pdm_mcu_state_str (ms_state status)) @ ''  '' @ pad_right 6 (yes_no (ms_online status)) @ ''  '' @
     pad_left 5 (fmt_u (ms_uptime_sec status)) @ ''s     '' @ pad_left 3 (dec_int (temp_whole (ms_temperature status))) @
     ''.'' @ dec_int (temp_frac (ms_temperature status)) @ degree_celsius @ ''   '' @
     pad_left 4 (fmt_u (ms_voltage_mv status)) @ ''mV   '' @ mcu_ops_name api inst @ [newline]"

definition mcu_state_row :: "'e mcu_api \<Rightarrow> u32 \<Rightarrow> pdm_mcu_instance \<Rightarrow> string" where
  "mcu_state_row api i inst = ''  '' @ pad_left 2 (fmt_u i) @ ''  '' @
     pad_right 10 (pdm_mcu_state_str (mu_state inst)) @ ''  '' @
     pad_right 6 (if in_online inst then ''yes'' else ''no'') @
     ''  ---       ---       ---      '' @ mcu_ops_name api inst @ [newline]"

definition mcu_show_row ::
  "'e mcu_api \<Rightarrow> pdm_mcu_status \<Rightarrow> nat list option \<Rightarrow> ('ida, 'e) mcu_sys \<Rightarrow> u32 \<Rightarrow>
   (string \<times> ('ida, 'e) mcu_sys) option" where
  "mcu_show_row api stack drv w i =
     (case pdm_mcu_find_instance drv i of
        None \<Rightarrow> Some (''  '' @ pad_left 2 (fmt_u i) @ ''  <not found>'' @ [newline], w)
      | Some a \<Rightarrow>
          (case pdm_driver_claim (mcu_inst_at w a) of
             None \<Rightarrow> None
           | Some (ret, inst) \<Rightarrow>
               if ret \<noteq> 0 then Some (''  '' @ pad_left 2 (fmt_u i) @ ''  <busy>'' @ [newline], put_mcu_inst w a inst)
               else
                 (case pdm_mcu_protocol_get_status (pdm_mcu_ops api (the (mu_ops inst))) (mg_world w) inst
                         (stack\<lparr>ms_index := i\<rparr>) of
                    None \<Rightarrow> None
                  | Some (ret, world, inst, status) \<Rightarrow>
                      Some (if ret = 0 then mcu_status_row api i status inst else mcu_state_row api i inst,
                            put_mcu_inst (w\<lparr>mg_world := world\<rparr>) a (pdm_driver_release inst)))))"

fun mcu_show_rows ::
  "'e mcu_api \<Rightarrow> pdm_mcu_status \<Rightarrow> nat list option \<Rightarrow> ('ida, 'e) mcu_sys \<Rightarrow> u32 list \<Rightarrow>
   (string \<times> ('ida, 'e) mcu_sys) option" where
  "mcu_show_rows api stack drv w [] = Some ([], w)"
| "mcu_show_rows api stack drv w (i # is) =
     (case mcu_show_row api stack drv w i of
        None \<Rightarrow> None
      | Some (row, w) \<Rightarrow>
          (case mcu_show_rows api stack drv w is of None \<Rightarrow> None | Some (rows, w) \<Rightarrow> Some (row @ rows, w)))"

definition pdm_mcu_proc_show ::
  "'e mcu_api \<Rightarrow> pdm_mcu_status \<Rightarrow> nat list option \<Rightarrow> ('ida, 'e) mcu_sys \<Rightarrow>
   (int \<times> string \<times> ('ida, 'e) mcu_sys) option" where
  "pdm_mcu_proc_show api stack drv w =
     (let cnt = pdm_driver_count_get (mg_count w)
      in if cnt = 0
         then Some (0, mcu_show_header cnt @ ''No MCU devices registered'' @ [newline], w)
         else case mcu_show_rows api stack drv w (map of_nat [0..<unat cnt]) of
             None \<Rightarrow> None
           | Some (rows, w) \<Rightarrow> Some (0, mcu_show_header cnt @ mcu_show_table @ rows @ mcu_show_usage, w))"

section \<open>Writing to the proc file\<close>

definition quoted :: "string \<Rightarrow> string" where
  "quoted s = [char_of (39 :: nat)] @ s @ [char_of (39 :: nat)]"

definition mcu_help :: "string list" where
  "mcu_help = [''Available commands:'', ''  version <index>  - Get MCU firmware version'',
     ''  status <index>   - Get MCU status'', ''  reset <index>    - Reset MCU'',
     ''  help             - Show this help'']"

text \<open>\<open>sscanf (command, "%31s %u", cmd, &index)\<close>; \<open>None\<close> when fewer than two are found.\<close>

definition scan_mcu_line :: "string \<Rightarrow> (string \<times> u32) option" where
  "scan_mcu_line command =
     (case sscanf (c_str command) [SCAN_STRING 31, SCAN_SPACE, SCAN_UINT 10] of
        [SCANNED_STRING cmd, SCANNED_UINT index] \<Rightarrow> Some (cmd, index)
      | _ \<Rightarrow> None)"

definition version_text :: "u8 list \<Rightarrow> string" where
  "version_text bs = map (\<lambda>b. char_of (unat b)) (takeWhile (\<lambda>b. b \<noteq> 0) bs)"

definition mcu_proc_command ::
  "'e pdm_mcu_transport_ops \<Rightarrow> pdm_mcu_version \<Rightarrow> pdm_mcu_status \<Rightarrow> 'e mcu_world \<Rightarrow> pdm_mcu_instance \<Rightarrow>
   string \<Rightarrow> u32 \<Rightarrow> (int \<times> 'e mcu_world \<times> pdm_mcu_instance \<times> string list) option" where
  "mcu_proc_command ops vstack sstack w inst cmd index =
     (if cmd = ''version'' then
        (case pdm_mcu_protocol_get_version ops w inst (vstack\<lparr>mv_index := index\<rparr>) of
           None \<Rightarrow> None
         | Some (ret, w, inst, v) \<Rightarrow> Some (ret, w, inst,
             if ret = 0 then [''MCU '' @ fmt_u index @ '' version: '' @ fmt_u (ucast (mv_major v)) @ ''.'' @
               fmt_u (ucast (mv_minor v)) @ ''.'' @ fmt_u (ucast (mv_patch v)) @ ''.'' @ fmt_u (ucast (mv_build v)) @
               '' ('' @ version_text (mv_string v) @ '')''] else []))
      else if cmd = ''status'' then
        (case pdm_mcu_protocol_get_status ops w inst (sstack\<lparr>ms_index := index\<rparr>) of
           None \<Rightarrow> None
         | Some (ret, w, inst, st) \<Rightarrow> Some (ret, w, inst,
             if ret = 0 then [''MCU '' @ fmt_u index @ '': state='' @ pdm_mcu_state_str (ms_state st) @ '' online='' @
               yes_no (ms_online st) @ '' uptime='' @ fmt_u (ms_uptime_sec st) @ ''s temp='' @
               dec_int (temp_whole (ms_temperature st)) @ ''.'' @ dec_int (temp_frac (ms_temperature st)) @
               degree_celsius @ '' voltage='' @ fmt_u (ms_voltage_mv st) @ ''mV''] else []))
      else if cmd = ''reset'' then
        (case pdm_mcu_protocol_reset ops w inst index of
           None \<Rightarrow> None
         | Some (ret, w, inst) \<Rightarrow>
             Some (ret, w, inst, if ret = 0 then [''MCU '' @ fmt_u index @ '' reset successful''] else []))
      else Some (- EINVAL, w, inst, [''Unknown command '' @ quoted cmd @ ''. Use '' @ quoted ''help'' @ '' for usage.'']))"

definition pdm_mcu_proc_write ::
  "'e mcu_api \<Rightarrow> pdm_mcu_version \<Rightarrow> pdm_mcu_status \<Rightarrow> nat list option \<Rightarrow> ('ida, 'e) mcu_sys \<Rightarrow> string \<Rightarrow>
   (int \<times> ('ida, 'e) mcu_sys \<times> string list) option" where
  "pdm_mcu_proc_write api vstack sstack drv w command0 =
     (let command = strip_newline command0
      in if take 4 (c_str command) = ''help'' then Some (0, w, mcu_help)
         else case scan_mcu_line command of
             None \<Rightarrow> Some (- EINVAL, w, [''Invalid command format. Use '' @ quoted ''help'' @ '' for usage.''])
           | Some (cmd, index) \<Rightarrow>
               (case pdm_mcu_find_instance drv index of
                  None \<Rightarrow> Some (- ENODEV, w, [''MCU device '' @ fmt_u index @ '' not found''])
                | Some a \<Rightarrow>
                    (case pdm_driver_claim (mcu_inst_at w a) of
                       None \<Rightarrow> None
                     | Some (ret, inst) \<Rightarrow>
                         if ret \<noteq> 0
                         then Some (ret, put_mcu_inst w a inst, [''MCU device '' @ fmt_u index @ '' is busy''])
                         else
                           (case mcu_proc_command (pdm_mcu_ops api (the (mu_ops inst))) vstack sstack (mg_world w) inst
                                   cmd index of
                              None \<Rightarrow> None
                            | Some (ret, world, inst, log) \<Rightarrow>
                                Some (ret, put_mcu_inst (w\<lparr>mg_world := world\<rparr>) a (pdm_driver_release inst), log)))))"

section \<open>Writing to the debugfs file\<close>

text \<open>The loop over the data bytes: \<open>p\<close>, and the bytes so far, of which there is room for 16.\<close>

function parse_hex_bytes :: "string option \<Rightarrow> u8 list \<Rightarrow> u8 list" where
  "parse_hex_bytes None tx = tx"
| "parse_hex_bytes (Some p) tx =
     (if length tx < 16
      then case sscanf p [SCAN_UINT 16] of
          [SCANNED_UINT byte] \<Rightarrow> parse_hex_bytes (strchr (tl p) CHR '' '') (tx @ [ucast byte])
        | _ \<Rightarrow> tx
      else tx)"
  by pat_completeness auto

termination
  by (relation "measure (\<lambda>(p, tx). 16 - length tx)") auto

text \<open>\<open>strchr (p, ' ')\<close>, twice, to skip the command and the index.\<close>

definition skip_two_words :: "string \<Rightarrow> string option" where
  "skip_two_words command =
     (case strchr command CHR '' '' of None \<Rightarrow> None | Some p \<Rightarrow> strchr (tl p) CHR '' '')"

definition mcu_response_text :: "pdm_mcu_command \<Rightarrow> string" where
  "mcu_response_text c =
     ''  Response: '' @ concat (map (\<lambda>b. fmt_02x b @ '' '') (take (min (unat (mc_actual_rx_len c)) 32) (mc_rx_data c)))"

definition mcu_text_struct :: "u32 \<Rightarrow> u32 \<Rightarrow> u8 list \<Rightarrow> pdm_mcu_command" where
  "mcu_text_struct index command_id tx_data = \<lparr>mc_index = index, mc_command = command_id,
     mc_flags = PDM_MCU_CMD_F_NEED_RESPONSE, mc_tx_len = of_nat (length tx_data),
     mc_rx_len = of_nat PDM_MCU_MAX_TRANSFER_SIZE, mc_actual_rx_len = 0,
     mc_tx_data = tx_data @ replicate (PDM_MCU_MAX_TRANSFER_SIZE - length tx_data) 0,
     mc_rx_data = replicate PDM_MCU_MAX_TRANSFER_SIZE 0\<rparr>"

definition mcu_debugfs_command ::
  "'e pdm_mcu_transport_ops \<Rightarrow> 'e mcu_world \<Rightarrow> pdm_mcu_instance \<Rightarrow> string \<Rightarrow> u32 \<Rightarrow> string \<Rightarrow>
   (int \<times> 'e mcu_world \<times> pdm_mcu_instance \<times> string list) option" where
  "mcu_debugfs_command ops w inst cmd index command =
     (if cmd = ''reset'' then
        (case pdm_mcu_protocol_reset ops w inst index of None \<Rightarrow> None | Some (ret, w, inst) \<Rightarrow> Some (ret, w, inst, []))
      else if cmd = ''command'' then
        (case skip_two_words command of
           None \<Rightarrow> Some (- EINVAL, w, inst, [])
         | Some p \<Rightarrow>
             (case sscanf p [SCAN_UINT 10] of
                [SCANNED_UINT command_id] \<Rightarrow>
                  let tx_data = parse_hex_bytes (strchr p CHR '' '') []
                  in (case pdm_mcu_protocol_command ops w inst (mcu_text_struct index command_id tx_data) of
                        None \<Rightarrow> None
                      | Some (ret, w, inst, c) \<Rightarrow> Some (ret, w, inst,
                          if ret \<noteq> 0 then []
                          else [''MCU '' @ fmt_u index @ '' command 0x'' @ hex_digits (unat command_id) @ '': sent '' @
                                 fmt_u (of_nat (length tx_data)) @ '' bytes, received '' @ fmt_u (mc_actual_rx_len c) @
                                 '' bytes''] @
                               (if 0 < mc_actual_rx_len c then [mcu_response_text c] else [])))
              | _ \<Rightarrow> Some (- EINVAL, w, inst, [])))
      else Some (- EINVAL, w, inst, []))"

definition pdm_mcu_debugfs_write ::
  "'e mcu_api \<Rightarrow> nat list option \<Rightarrow> ('ida, 'e) mcu_sys \<Rightarrow> string \<Rightarrow>
   (int \<times> ('ida, 'e) mcu_sys \<times> string list) option" where
  "pdm_mcu_debugfs_write api drv w command0 =
     (let command = strip_newline command0
      in case scan_mcu_line command of
           None \<Rightarrow> Some (- EINVAL, w, [''Invalid command format''])
         | Some (cmd, index) \<Rightarrow>
             (case pdm_mcu_find_instance drv index of
                None \<Rightarrow> Some (- ENODEV, w, [''MCU device '' @ fmt_u index @ '' not found''])
              | Some a \<Rightarrow>
                  (case pdm_driver_claim (mcu_inst_at w a) of
                     None \<Rightarrow> None
                   | Some (ret, inst) \<Rightarrow>
                       if ret \<noteq> 0 then Some (ret, put_mcu_inst w a inst, [])
                       else
                         (case mcu_debugfs_command (pdm_mcu_ops api (the (mu_ops inst))) (mg_world w) inst cmd index
                                 (c_str command) of
                            None \<Rightarrow> None
                          | Some (ret, world, inst, log) \<Rightarrow>
                              Some (ret, put_mcu_inst (w\<lparr>mg_world := world\<rparr>) a (pdm_driver_release inst), log)))))"


section \<open>Lines as they are meant\<close>

lemma mcu_find_from:
  "unat k + length ds \<le> 2 ^ 32 \<Longrightarrow> unat k \<le> unat i \<Longrightarrow>
   mf_result (snd (bus_for_each pdm_mcu_match_by_index ds \<lparr>mf_target_index = i, mf_current_index = k, mf_result = None\<rparr>)) =
     (if unat i < unat k + length ds then Some (ds ! (unat i - unat k)) else None)"
proof (induction ds arbitrary: k)
  case (Cons d ds)
  show ?case
  proof (cases "k = i")
    case True
    then show ?thesis by (simp add: pdm_mcu_match_by_index_def)
  next
    case False
    then have less: "unat k < unat i" using Cons.prems(2) False by (simp add: word_unat_eq_iff)
    then have "unat (k + 1) = Suc (unat k)" using unat_Suc_less [of k i] by (simp add: word_less_nat_alt)
    then show ?thesis using Cons.IH [of "k + 1"] Cons.prems less False
      by (auto simp: pdm_mcu_match_by_index_def nth_Cons' Suc_diff_Suc)
  qed
qed simp

lemma mcu_find_instance:
  assumes "length devs \<le> 2 ^ 32"
  shows "pdm_mcu_find_instance (Some devs) i = (if unat i < length devs then Some (devs ! unat i) else None)"
  using mcu_find_from [of 0 devs i] assms by (simp add: pdm_mcu_find_instance_def)

text \<open>Data bytes as two hexadecimal digits each.\<close>

primrec hex_args :: "u8 list \<Rightarrow> string" where
  "hex_args [] = []"
| "hex_args (b # bs) = CHR '' '' # fmt_02x b @ hex_args bs"

definition mcu_command_line :: "u32 \<Rightarrow> u32 \<Rightarrow> u8 list \<Rightarrow> string" where
  "mcu_command_line i c bs = ''command'' @ args_text [i, c] @ hex_args bs @ [newline]"

text \<open>The decimal digits of a number, read as hexadecimal ones.\<close>

definition misread :: "u32 \<Rightarrow> u8" where
  "misread c = of_nat (digits_val 16 (fmt_u c))"

lemma fmt_02x_digits:
  "\<forall>c \<in> set (fmt_02x b). digit_val c < 16" "digits_val 16 (fmt_02x b) = unat b" "fmt_02x b \<noteq> []"
proof -
  have "unat b < 2 ^ LENGTH(8)" by (rule unsigned_less)
  then have "unat b div 16 < 16" by (simp add: less_mult_imp_div_less)
  then show "\<forall>c \<in> set (fmt_02x b). digit_val c < 16" "digits_val 16 (fmt_02x b) = unat b" "fmt_02x b \<noteq> []"
    by (simp_all add: fmt_02x_def digits_val_def digit_val_hex_char)
qed

lemma hex_args_front: "hex_args bs = [] \<or> is_space (hd (hex_args bs))"
  by (cases bs) simp_all

lemma no_space: "\<forall>c \<in> set ds. digit_val c < 99 \<Longrightarrow> CHR '' '' \<notin> set ds"
  using digit_val_space(1) by fastforce

lemma one_space: "spaces [CHR '' '']"
  by (simp add: spaces_def)

text \<open>A number in the line and what the scan goes on with.\<close>

lemma scan_hex_number:
  assumes "ds \<noteq> []" and "\<forall>c \<in> set ds. digit_val c < 16" and "rest = [] \<or> is_space (hd rest)"
  shows "sscanf (CHR '' '' # ds @ rest) [SCAN_UINT 16] = [SCANNED_UINT (of_nat (digits_val 16 ds))]"
  using scan_digits [OF one_space assms, of "[]"] by simp

lemma strchr_after:
  assumes "\<forall>c \<in> set ds. digit_val c < 99"
  shows "strchr (ds @ hex_args bs) CHR '' '' = (if bs = [] then None else Some (hex_args bs))"
  using strchr_append [OF no_space [OF assms], of "hex_args bs"] by (cases bs) simp_all

lemma parse_hex_args:
  "parse_hex_bytes (if bs = [] then None else Some (hex_args bs)) tx = tx @ take (16 - length tx) bs"
proof (induction bs arbitrary: tx)
  case (Cons b bs)
  have "sscanf (hex_args (b # bs)) [SCAN_UINT 16] = [SCANNED_UINT (of_nat (unat b))]"
    using scan_hex_number [OF fmt_02x_digits(3,1), of "hex_args bs" b] hex_args_front fmt_02x_digits(2) [of b] by simp
  moreover have "\<forall>c \<in> set (fmt_02x b). digit_val c < 99" using fmt_02x_digits(1) [of b] by fastforce
  moreover have "ucast (ucast b :: u32) = b" by (rule bit_word_eqI) (auto simp: bit_simps)
  ultimately show ?case
    using Cons [of "tx @ [b]"] strchr_after [of "fmt_02x b" bs] by (simp add: take_Cons')
qed simp


lemma c_str_command_line:
  "c_str (strip_newline (mcu_command_line i c bs)) = ''command'' @ args_text [i, c] @ hex_args bs"
proof -
  have "char_code d \<noteq> 0" if "d \<in> set (hex_args bs)" for d
    using that
  proof (induction bs)
    case (Cons b bs)
    have "char_code CHR '' '' \<noteq> 0" by (simp add: char_code_def)
    moreover have "char_code d \<noteq> 0" if "d \<in> set (fmt_02x b)"
      using fmt_02x_digits(1) [of b] that by (auto simp: digit_val_def Let_def split: if_splits)
    ultimately show ?case using Cons by auto
  qed simp
  moreover have "\<forall>d \<in> set ''command''. char_code d \<noteq> 0" by (simp add: char_code_def)
  ultimately have "\<forall>d \<in> set (''command'' @ args_text [i, c] @ hex_args bs). char_code d \<noteq> 0"
    using args_text_nonzero by (auto simp del: args_text.simps)
  from c_str_strip [OF this] show ?thesis by (simp add: mcu_command_line_def)
qed

lemma fmt_u_digits: "\<forall>c \<in> set (fmt_u v). digit_val c < 10" "fmt_u v \<noteq> []"
  using dec_digits_digits by (auto simp: fmt_u_def)

lemma scan_command_line: "scan_mcu_line (strip_newline (mcu_command_line i c bs)) = Some (''command'', i)"
proof -
  let ?rest = "CHR '' '' # fmt_u c @ hex_args bs"
  have word: "word_ok ''command''" by (simp add: word_ok_def is_space_def char_code_def)
  have "sscanf (''command'' @ CHR '' '' # fmt_u i @ ?rest) (SCAN_STRING 31 # fmt) =
      SCANNED_STRING ''command'' # sscanf (CHR '' '' # fmt_u i @ ?rest) fmt" for fmt
    using scan_word [of "''command''" 31 "CHR '' '' # fmt_u i @ ?rest" "[]" fmt] word by (simp add: word_ok_def spaces_def)
  moreover have "sscanf (CHR '' '' # fmt_u i @ ?rest) [SCAN_SPACE, SCAN_UINT 10] = [SCANNED_UINT i]"
  proof -
    have "skip_spaces (CHR '' '' # fmt_u i @ ?rest) = skip_spaces (fmt_u i @ ?rest)" by (simp add: skip_spaces_def)
    also have "\<dots> = fmt_u i @ ?rest"
      using fmt_u_digits [of i] digit_not_space by (intro skip_spaces_id) (cases "fmt_u i"; force)
    finally show ?thesis
      using scan_uint [of "[]" ?rest "unat i" "[]"] by (simp add: sscanf.simps(2) fmt_u_def spaces_def)
  qed
  ultimately show ?thesis by (simp add: scan_mcu_line_def c_str_command_line)
qed

lemma command_line_parsed:
  "skip_two_words (c_str (strip_newline (mcu_command_line i c bs))) = Some (CHR '' '' # fmt_u c @ hex_args bs)"
  "sscanf (CHR '' '' # fmt_u c @ hex_args bs) [SCAN_UINT 10] = [SCANNED_UINT c]"
  "parse_hex_bytes (strchr (CHR '' '' # fmt_u c @ hex_args bs) CHR '' '') [] = take 16 (misread c # bs)"
proof -
  let ?rest = "CHR '' '' # fmt_u c @ hex_args bs"
  have "CHR '' '' \<notin> set ''command''" by simp
  from strchr_append [OF this, of "CHR '' '' # fmt_u i @ ?rest"]
  have "strchr (c_str (strip_newline (mcu_command_line i c bs))) CHR '' '' = Some (CHR '' '' # fmt_u i @ ?rest)"
    by (simp add: c_str_command_line)
  moreover have digits: "\<forall>d \<in> set (fmt_u v). digit_val d < 99" for v
    using fmt_u_digits(1) [of v] by fastforce
  ultimately show "skip_two_words (c_str (strip_newline (mcu_command_line i c bs))) = Some ?rest"
    using strchr_append [OF no_space [OF digits], of i ?rest] by (simp add: skip_two_words_def)
  show "sscanf ?rest [SCAN_UINT 10] = [SCANNED_UINT c]"
    using scan_uint [OF one_space, of "hex_args bs" "unat c" "[]"] hex_args_front by (simp add: fmt_u_def)
  have "sscanf ?rest [SCAN_UINT 16] = [SCANNED_UINT (of_nat (digits_val 16 (fmt_u c)))]"
    using fmt_u_digits [of c] hex_args_front by (intro scan_hex_number) auto
  moreover have "ucast (of_nat n :: u32) = (of_nat n :: u8)" for n
    by (simp add: unsigned_of_nat word_of_nat_eq_iff)
  ultimately show "parse_hex_bytes (strchr ?rest CHR '' '') [] = take 16 (misread c # bs)"
    using strchr_after [OF digits, of c bs] parse_hex_args [of bs "[misread c]"] by (simp add: misread_def)
qed

text \<open>
  A command given as text never sends the data that was given: the parser takes the command number
  for the first data byte, reading its decimal digits as hexadecimal ones, so that the MCU gets one byte
  more than meant and at most 15 of the given ones. Over CAN the command is never sent, because it asks
  for an answer of 256 bytes.
\<close>

theorem mcu_text_command_bytes:
  assumes "length devs \<le> 2 ^ 32" and "unat i < length devs" and "mg_insts w (devs ! unat i) = Some c"
    and "\<not> in_lock (ec_inst c)" and "in_online (ec_inst c)" and "mu_ops (ec_inst c) = Some t"
  shows "map_option (\<lambda>(ret, s, _). (ret, s)) (pdm_mcu_debugfs_write api (Some devs) w (mcu_command_line i n bs)) =
      map_option (\<lambda>(ret, world, inst, _). (ret, w\<lparr>mg_world := world,
          mg_insts := (mg_insts w)(devs ! unat i \<mapsto> c\<lparr>ec_inst := pdm_driver_release inst\<rparr>)\<rparr>))
        (pdm_mcu_protocol_command (pdm_mcu_ops api t) (mg_world w) ((ec_inst c)\<lparr>in_lock := True\<rparr>)
          (mcu_text_struct i n (take 16 (misread n # bs)))) \<and>
     (t = PDM_MCU_BACKEND_CAN \<longrightarrow>
        pdm_mcu_debugfs_write api (Some devs) w (mcu_command_line i n bs) = Some (- EMSGSIZE, w, []))"
proof -
  let ?a = "devs ! unat i" and ?inst = "(ec_inst c)\<lparr>in_lock := True\<rparr>"
  define tx where "tx = take 16 (misread n # bs)"
  let ?cmd = "mcu_text_struct i n tx"
  have find: "pdm_mcu_find_instance (Some devs) i = Some ?a" using mcu_find_instance [OF assms(1)] assms(2) by simp
  have eq: "pdm_mcu_debugfs_write api (Some devs) w (mcu_command_line i n bs) =
      (case mcu_debugfs_command (pdm_mcu_ops api t) (mg_world w) ?inst ''command'' i
          (c_str (strip_newline (mcu_command_line i n bs))) of
         None \<Rightarrow> None
       | Some (ret, world, inst, log) \<Rightarrow>
           Some (ret, put_mcu_inst (w\<lparr>mg_world := world\<rparr>) ?a (pdm_driver_release inst), log))"
    using assms(3-6) find by (simp add: pdm_mcu_debugfs_write_def scan_command_line mcu_inst_at_def)
  define p where "p = CHR '' '' # fmt_u n @ hex_args bs"
  note parsed = command_line_parsed [where c = n and bs = bs, folded p_def tx_def]
  have cmd: "mcu_debugfs_command (pdm_mcu_ops api t) (mg_world w) ?inst ''command'' i
      (c_str (strip_newline (mcu_command_line i n bs))) =
      (case pdm_mcu_protocol_command (pdm_mcu_ops api t) (mg_world w) ?inst ?cmd of
         None \<Rightarrow> None
       | Some (ret, w, inst, c) \<Rightarrow> Some (ret, w, inst, if ret \<noteq> 0 then []
            else [''MCU '' @ fmt_u i @ '' command 0x'' @ hex_digits (unat n) @ '': sent '' @
                fmt_u (of_nat (length tx)) @ '' bytes, received '' @ fmt_u (mc_actual_rx_len c) @
                '' bytes''] @ (if 0 < mc_actual_rx_len c then [mcu_response_text c] else [])))"
    by (simp add: mcu_debugfs_command_def parsed Let_def)
  have can: "pdm_mcu_protocol_command (pdm_mcu_ops api PDM_MCU_BACKEND_CAN) v j (mcu_text_struct i n tx) =
      Some (- EMSGSIZE, v, j, mcu_text_struct i n tx)" for v j tx
    by (simp add: pdm_mcu_protocol_command_def mcu_text_struct_def pdm_mcu_protocol_xfer_def pdm_mcu_can_ops_def
        pdm_mcu_protocol_max_rx_def)
  show ?thesis
  proof (cases "pdm_mcu_protocol_command (pdm_mcu_ops api t) (mg_world w) ?inst ?cmd")
    case None
    moreover from None can have "t \<noteq> PDM_MCU_BACKEND_CAN" by auto
    ultimately show ?thesis unfolding eq cmd tx_def [symmetric] by simp
  next
    case (Some r)
    obtain ret world inst cmd' where r: "r = (ret, world, inst, cmd')" by (cases r)
    have put: "put_mcu_inst (w\<lparr>mg_world := world\<rparr>) ?a j = w\<lparr>mg_world := world,
        mg_insts := (mg_insts w)(?a \<mapsto> c\<lparr>ec_inst := j\<rparr>)\<rparr>" for world j
      using assms(3) by (simp add: put_mcu_inst_def)
    have same: "w\<lparr>mg_insts := (mg_insts w)(?a \<mapsto> c\<lparr>ec_inst := pdm_driver_release ?inst\<rparr>)\<rparr> = w"
      using assms(3,4) by (simp add: pdm_driver_release_def mutex_unlock_def fun_upd_idem)
    show ?thesis
    proof (cases "t = PDM_MCU_BACKEND_CAN")
      case True
      have "pdm_mcu_protocol_command (pdm_mcu_ops api t) (mg_world w) ?inst ?cmd = Some (- EMSGSIZE, mg_world w, ?inst, ?cmd)"
        unfolding True by (rule can)
      moreover from this have "pdm_mcu_debugfs_write api (Some devs) w (mcu_command_line i n bs) = Some (- EMSGSIZE, w, [])"
        unfolding eq cmd by (simp add: put same)
      ultimately show ?thesis unfolding tx_def [symmetric] using same by simp
    next
      case False
      then show ?thesis unfolding eq cmd tx_def [symmetric] Some r by (simp add: put)
    qed
  qed
qed


text \<open>The text commands that ask for something an ioctl asks for too, and their ioctls.\<close>

datatype mcu_text_command = MCU_TEXT_VERSION | MCU_TEXT_STATUS | MCU_TEXT_RESET

fun mcu_text_word :: "mcu_text_command \<Rightarrow> string" where
  "mcu_text_word MCU_TEXT_VERSION = ''version''"
| "mcu_text_word MCU_TEXT_STATUS = ''status''"
| "mcu_text_word MCU_TEXT_RESET = ''reset''"

fun mcu_text_request :: "pdm_mcu_version \<Rightarrow> pdm_mcu_status \<Rightarrow> u32 \<Rightarrow> mcu_text_command \<Rightarrow> pdm_mcu_request" where
  "mcu_text_request vs ss i MCU_TEXT_VERSION = MCU_GET_VERSION (rw_buf (vs\<lparr>mv_index := i\<rparr>))"
| "mcu_text_request vs ss i MCU_TEXT_STATUS = MCU_GET_STATUS (rw_buf (ss\<lparr>ms_index := i\<rparr>))"
| "mcu_text_request vs ss i MCU_TEXT_RESET = MCU_RESET (rw_buf i)"

lemma mcu_words [simp]: "word_ok (mcu_text_word cmd)"
  by (cases cmd) (simp_all add: word_ok_def is_space_def char_code_def)

lemma scan_mcu_line:
  assumes "word_ok cmd"
  shows "scan_mcu_line (strip_newline (text_line cmd [i])) = Some (cmd, i)"
  by (simp add: scan_mcu_line_def c_str_line [OF assms] scan_line_word [OF assms] del: args_text.simps(2))

lemma mcu_proc_line:
  assumes "pdm_mcu_find_instance drv i = Some a" and "mg_insts w a = Some c"
    and "\<not> in_lock (ec_inst c)" and "in_online (ec_inst c)" and "mu_ops (ec_inst c) = Some t"
    and "mcu_proc_command (pdm_mcu_ops api t) vs ss (mg_world w) ((ec_inst c)\<lparr>in_lock := True\<rparr>) (mcu_text_word cmd) i =
          Some (ret, world, inst, log)"
  shows "pdm_mcu_proc_write api vs ss drv w (text_line (mcu_text_word cmd) [i]) =
     Some (ret, w\<lparr>mg_world := world, mg_insts := (mg_insts w)(a \<mapsto> c\<lparr>ec_inst := pdm_driver_release inst\<rparr>)\<rparr>, log)"
proof -
  have "take 4 (mcu_text_word cmd @ args_text [i]) \<noteq> ''help''" by (cases cmd) simp_all
  then show ?thesis
    using assms
    by (simp add: pdm_mcu_proc_write_def Let_def c_str_line scan_mcu_line mcu_inst_at_def put_mcu_inst_def del: take_append)
qed

lemma core_update:
  assumes "mcu_core inst = mcu_core (j\<lparr>in_lock := True\<rparr>)"
  shows "pdm_driver_release (inst\<lparr>mu_state := s, mu_last_error := e\<rparr>)\<lparr>mu_state := mu_state j, mu_last_error := mu_last_error j\<rparr> =
     pdm_driver_release inst"
  using assms by (simp add: mcu_core_def pdm_driver_release_def mutex_unlock_def)

text \<open>
  Asking an MCU for its version or status or resetting it by text is the same exchange as the ioctl,
  with the same result and the same answer on the wire. But only the ioctl records the outcome: after the
  text command the state and last error of the instance are the old ones, and so is what discovery
  reports of the device, even when the MCU does not answer.
\<close>

theorem mcu_text_like_ioctl:
  assumes "mcu_bus_laws api" and "length devs \<le> 2 ^ 32" and "unat i < length devs"
    and "mg_insts w (devs ! unat i) = Some c" and "\<not> in_lock (ec_inst c)" and "in_online (ec_inst c)"
    and "mu_ops (ec_inst c) = Some t"
  shows "\<exists>ret cx req log.
     pdm_mcu_ioctl (pdm_mcu_ops api) cnt (Some client) \<lparr>cx_world = mg_world w, cx_dev = d, cx_inst = ec_inst c\<rparr>
         (mcu_text_request vs ss i cmd) = Some (ret, cx, req) \<and>
     pd_last_error (cx_dev cx) = (if ret < 0 then ret else 0) \<and>
     pdm_mcu_proc_write api vs ss (Some devs) w (text_line (mcu_text_word cmd) [i]) =
       Some (ret, w\<lparr>mg_world := cx_world cx, mg_insts := (mg_insts w)(devs ! unat i \<mapsto> c\<lparr>ec_inst :=
         (cx_inst cx)\<lparr>mu_state := mu_state (ec_inst c), mu_last_error := mu_last_error (ec_inst c)\<rparr>\<rparr>)\<rparr>, log)"
proof -
  let ?j = "(ec_inst c)\<lparr>in_lock := True\<rparr>" and ?ops = "pdm_mcu_ops api t"
  have find: "pdm_mcu_find_instance (Some devs) i = Some (devs ! unat i)"
    using mcu_find_instance [OF assms(2)] assms(3) by simp
  note line = mcu_proc_line [OF find assms(4-7), where cmd = cmd and vs = vs and ss = ss and api = api]
  show ?thesis
  proof (cases cmd)
    case MCU_TEXT_VERSION
    from mcus.get_version_spec [OF assms(1), of t "mg_world w" ?j "vs\<lparr>mv_index := i\<rparr>"]
    obtain ret w' inst v where x: "pdm_mcu_protocol_get_version ?ops (mg_world w) ?j (vs\<lparr>mv_index := i\<rparr>) = Some (ret, w', inst, v)"
      "ret \<le> 0" "mcu_core inst = mcu_core ?j" by (auto simp: mcus.keeps_def)
    then have "\<exists>log. mcu_proc_command ?ops vs ss (mg_world w) ?j (mcu_text_word cmd) i = Some (ret, w', inst, log)"
      using MCU_TEXT_VERSION by (simp add: mcu_proc_command_def)
    then obtain log where "mcu_proc_command ?ops vs ss (mg_world w) ?j (mcu_text_word cmd) i = Some (ret, w', inst, log)" ..
    note pr = line [OF this]
    show ?thesis
      using assms(5-7) x(1,2) core_update [OF x(3)] pr
      by (cases "ret = 0") (simp_all add: MCU_TEXT_VERSION pdm_mcu_get_version_def pdm_mcu_claim_device_def pdm_mcu_release_device_def
          pdm_mcu_update_state_locked_def Let_def)
  next
    case MCU_TEXT_STATUS
    from mcus.get_status_spec [OF assms(1), of t "mg_world w" ?j "ss\<lparr>ms_index := i\<rparr>"]
    obtain ret w' inst v where x: "pdm_mcu_protocol_get_status ?ops (mg_world w) ?j (ss\<lparr>ms_index := i\<rparr>) = Some (ret, w', inst, v)"
      "ret \<le> 0" "mcu_core inst = mcu_core ?j" by (auto simp: mcus.keeps_def)
    then have "\<exists>log. mcu_proc_command ?ops vs ss (mg_world w) ?j (mcu_text_word cmd) i = Some (ret, w', inst, log)"
      using MCU_TEXT_STATUS by (simp add: mcu_proc_command_def)
    then obtain log where "mcu_proc_command ?ops vs ss (mg_world w) ?j (mcu_text_word cmd) i = Some (ret, w', inst, log)" ..
    note pr = line [OF this]
    show ?thesis
      using assms(5-7) x(1,2) core_update [OF x(3)] pr
      by (cases "ret = 0") (simp_all add: MCU_TEXT_STATUS pdm_mcu_get_status_def pdm_mcu_claim_device_def pdm_mcu_release_device_def
          pdm_mcu_update_state_locked_def Let_def)
  next
    case MCU_TEXT_RESET
    from mcus.reset_spec [OF assms(1), of t "mg_world w" ?j i]
    obtain ret w' inst where x: "pdm_mcu_protocol_reset ?ops (mg_world w) ?j i = Some (ret, w', inst)"
      "ret \<le> 0" "mcu_core inst = mcu_core ?j" by (auto simp: mcus.keeps_def)
    have "mcu_proc_command ?ops vs ss (mg_world w) ?j (mcu_text_word cmd) i = Some (ret, w', inst,
        if ret = 0 then [''MCU '' @ fmt_u i @ '' reset successful''] else [])"
      using MCU_TEXT_RESET x(1) by (simp add: mcu_proc_command_def)
    note pr = line [OF this]
    show ?thesis
      using assms(5-7) x(1,2) core_update [OF x(3)] pr
      by (simp add: MCU_TEXT_RESET pdm_mcu_reset_def pdm_mcu_claim_device_def pdm_mcu_release_device_def
          pdm_mcu_update_state_locked_def Let_def)
  qed
qed


text \<open>A driver with one MCU, whose instance is at address 1.\<close>

definition one_mcu_sys :: "pdm_mcu_backend_type \<Rightarrow> (nat list, nat) mcu_sys" where
  "one_mcu_sys t = \<lparr>mg_world = cx_world (example_mcu_ctx t), mg_ida = [0], mg_refs = 1, mg_count = 1,
     mg_insts = [1 \<mapsto> \<lparr>ec_inst = cx_inst (example_mcu_ctx t), ec_client = pdm_cdev_zero, ec_files = {}\<rparr>]\<rparr>"

lemma one_mcu:
  "mg_insts (one_mcu_sys t) 1 = Some \<lparr>ec_inst = cx_inst (example_mcu_ctx t), ec_client = pdm_cdev_zero, ec_files = {}\<rparr>"
  "\<not> in_lock (cx_inst (example_mcu_ctx t))" "in_online (cx_inst (example_mcu_ctx t))"
  "mu_ops (cx_inst (example_mcu_ctx t)) = Some t"
  by (simp_all add: one_mcu_sys_def example_mcu_ctx_def)

lemma one_mcu_sel: "ec_inst \<lparr>ec_inst = i, ec_client = c, ec_files = f\<rparr> = i"
  by simp

lemma fmt_u_16: "fmt_u 16 = ''16''" "fmt_u 0 = ''0''"
  by (simp_all add: fmt_u_def dec_digits.simps dec_char_def char_of_eq_iff)

lemma line_16: "mcu_command_line 0 16 [5] = ''command 0 16 05'' @ [newline]"
  by (simp add: mcu_command_line_def fmt_u_16 fmt_02x_def hex_char_def char_of_eq_iff)

lemma misread_16: "misread 16 = 0x16"
  by (simp add: misread_def fmt_u_16 digits_val_def digit_val_def char_code_def)

theorem mcu_text_command_bytes_witness:
  "pdm_mcu_debugfs_write example_mcu_api (Some [1]) (one_mcu_sys PDM_MCU_BACKEND_CAN) (''command 0 16 05'' @ [newline]) =
     Some (- EMSGSIZE, one_mcu_sys PDM_MCU_BACKEND_CAN, []) \<and>
   map_option fst (pdm_mcu_debugfs_write example_mcu_api (Some [1]) (one_mcu_sys PDM_MCU_BACKEND_UART)
       (''command 0 16 05'' @ [newline])) =
     map_option fst (pdm_mcu_protocol_command (pdm_mcu_uart_ops example_mcu_api) (mg_world (one_mcu_sys PDM_MCU_BACKEND_UART))
       ((cx_inst (example_mcu_ctx PDM_MCU_BACKEND_UART))\<lparr>in_lock := True\<rparr>) (mcu_text_struct 0 16 [0x16, 5]))"
proof -
  have eq: "map_option (\<lambda>(ret, s, _). (ret, s)) x = map_option (\<lambda>(ret, world, inst, _). (ret, g world inst)) y \<Longrightarrow>
      map_option fst x = map_option fst y" for x :: "(int \<times> 's \<times> 'l) option" and y :: "(int \<times> 'w \<times> 'i \<times> 'c) option" and g
    by (cases x; cases y) auto
  have pre: "length [1 :: nat] \<le> 2 ^ 32" "unat (0 :: u32) < length [1 :: nat]" "[1 :: nat] ! unat (0 :: u32) = 1" by simp_all
  note can = mcu_text_command_bytes [OF pre(1,2), unfolded pre(3), OF one_mcu(1) [of PDM_MCU_BACKEND_CAN], unfolded one_mcu_sel,
      OF one_mcu(2-4) [of PDM_MCU_BACKEND_CAN], where api = example_mcu_api and n = 16 and bs = "[5]", unfolded line_16]
  note uart = mcu_text_command_bytes [OF pre(1,2), unfolded pre(3), OF one_mcu(1) [of PDM_MCU_BACKEND_UART], unfolded one_mcu_sel,
      OF one_mcu(2-4) [of PDM_MCU_BACKEND_UART], where api = example_mcu_api and n = 16 and bs = "[5]", unfolded line_16]
  from can [THEN conjunct2] eq [OF uart [THEN conjunct1]]
  show ?thesis by (simp add: misread_16)
qed

theorem mcu_text_like_ioctl_witness:
  "\<exists>ret w log. pdm_mcu_proc_write example_mcu_api example_version example_status (Some [1])
       (one_mcu_sys PDM_MCU_BACKEND_CAN) (''reset 0'' @ [newline]) = Some (ret, w, log) \<and>
     map_option fst (pdm_mcu_ioctl (pdm_mcu_ops example_mcu_api) 1 (Some pdm_cdev_zero)
       (example_mcu_ctx PDM_MCU_BACKEND_CAN) (MCU_RESET (rw_buf 0))) = Some ret"
proof -
  let ?cx = "example_mcu_ctx PDM_MCU_BACKEND_CAN"
  have cx: "\<lparr>cx_world = mg_world (one_mcu_sys t), cx_dev = cx_dev (example_mcu_ctx t), cx_inst = cx_inst (example_mcu_ctx t)\<rparr> =
      example_mcu_ctx t" for t by (simp add: one_mcu_sys_def)
  have line: "text_line ''reset'' [0] = ''reset 0'' @ [newline]" by (simp add: text_line_def fmt_u_16)
  from mcu_text_like_ioctl [of example_mcu_api "[1]" 0 "one_mcu_sys PDM_MCU_BACKEND_CAN" _ PDM_MCU_BACKEND_CAN 1 pdm_cdev_zero
      "cx_dev ?cx" example_version example_status MCU_TEXT_RESET, OF example_mcu_laws] one_mcu [of PDM_MCU_BACKEND_CAN]
  show ?thesis by (auto simp: cx line)
qed

end
