(* ===== verification/Pdm_Module.thy ===== *)
theory Pdm_Module
  imports Pdm_Registry Pdm_Enumerate
begin

text \<open>
  Bringing the module up and down: \<open>src/kernel/pdm/pdm.c\<close>, \<open>pdm_bus_init\<close> and \<open>pdm_bus_exit\<close> of
  \<open>pdm_bus.c\<close>, \<open>pdm_of_bus_init\<close> and \<open>pdm_of_bus_exit\<close> of \<open>pdm_of_bus.c\<close>, \<open>pdm_cdev_init\<close> and
  \<open>pdm_cdev_exit\<close> of \<open>pdm_cdev.c\<close>.

  The registrations the kernel holds for the module are a list, the latest first; what each
  registration call returns is the argument \<open>mo_ret\<close>. The entries of the two linker sections are
  arguments too, with the state \<open>'w\<close> they work on.
\<close>

section \<open>State\<close>

datatype kernel_reg = REG_BUS | REG_OF_DRIVER | REG_MISC | REG_CHRDEV | REG_CLASS

record ('ida, 'w) pdm_module =
  pm_enum :: "'ida enum_sys"
  pm_regs :: "kernel_reg list"
  pm_cdev_ida :: "'ida"
  pm_backends :: nat
  pm_drivers :: nat
  pm_mock :: "pdm_mock_device_entry list"
  pm_world :: "'w"

record ('ida, 'w, 'ops) module_env =
  mo_enum :: "'ida enum_env"
  mo_ret :: "kernel_reg \<Rightarrow> int"
  mo_backends :: "('w, 'ops) pdm_backend_entry list"
  mo_drivers :: "'w pdm_driver_entry list"

definition kernel_register ::
  "('ida, 'w, 'ops) module_env \<Rightarrow> kernel_reg \<Rightarrow> ('ida, 'w) pdm_module \<Rightarrow> int \<times> ('ida, 'w) pdm_module" where
  "kernel_register env r m =
     (let ret = mo_ret env r in if ret = 0 then (0, m\<lparr>pm_regs := r # pm_regs m\<rparr>) else (ret, m))"

definition kernel_unregister :: "kernel_reg \<Rightarrow> ('ida, 'w) pdm_module \<Rightarrow> ('ida, 'w) pdm_module" where
  "kernel_unregister r m = m\<lparr>pm_regs := remove1 r (pm_regs m)\<rparr>"

section \<open>The subsystems\<close>

definition pdm_device_ids_init ::
  "('ida, 'w, 'ops) module_env \<Rightarrow> ('ida, 'w) pdm_module \<Rightarrow> int \<times> ('ida, 'w) pdm_module" where
  "pdm_device_ids_init env m =
     (case pdm_id_init (ee_ida_api (mo_enum env)) (en_als (pm_enum m)) of
        (ret, als) \<Rightarrow> (ret, m\<lparr>pm_enum := (pm_enum m)\<lparr>en_als := als\<rparr>\<rparr>))"

definition pdm_device_ids_destroy ::
  "('ida, 'w, 'ops) module_env \<Rightarrow> ('ida, 'w) pdm_module \<Rightarrow> ('ida, 'w) pdm_module" where
  "pdm_device_ids_destroy env m =
     m\<lparr>pm_enum := (pm_enum m)\<lparr>en_als := pdm_id_destroy (ee_ida_api (mo_enum env)) (en_als (pm_enum m))\<rparr>\<rparr>"

definition pdm_of_bus_init ::
  "('ida, 'w, 'ops) module_env \<Rightarrow> ('ida, 'w) pdm_module \<Rightarrow> int \<times> ('ida, 'w) pdm_module" where
  "pdm_of_bus_init env m =
     (case kernel_register env REG_OF_DRIVER m of (ret, m1) \<Rightarrow> if ret \<noteq> 0 then (ret, m1) else (0, m1))"

definition pdm_of_bus_exit :: "('ida, 'w) pdm_module \<Rightarrow> ('ida, 'w) pdm_module" where
  "pdm_of_bus_exit m = kernel_unregister REG_OF_DRIVER m"

definition pdm_bus_init ::
  "('ida, 'w, 'ops) module_env \<Rightarrow> ('ida, 'w) pdm_module \<Rightarrow> int \<times> ('ida, 'w) pdm_module" where
  "pdm_bus_init env m =
     (case kernel_register env REG_BUS m of (ret, m1) \<Rightarrow>
        if ret < 0 then (ret, m1)
        else case pdm_of_bus_init env m1 of (ret, m2) \<Rightarrow>
          if ret \<noteq> 0 then (ret, kernel_unregister REG_BUS m2) else (0, m2))"

definition pdm_bus_exit :: "('ida, 'w) pdm_module \<Rightarrow> ('ida, 'w) pdm_module" where
  "pdm_bus_exit m = kernel_unregister REG_BUS (pdm_of_bus_exit m)"

definition pdm_cdev_init ::
  "('ida, 'w, 'ops) module_env \<Rightarrow> ('ida, 'w) pdm_module \<Rightarrow> int \<times> ('ida, 'w) pdm_module" where
  "pdm_cdev_init env m =
     (case kernel_register env REG_MISC m of (ret, m1) \<Rightarrow>
        if ret \<noteq> 0 then (ret, m1)
        else case kernel_register env REG_CHRDEV m1 of (ret, m2) \<Rightarrow>
          if ret \<noteq> 0 then (ret, kernel_unregister REG_MISC m2)
          else case kernel_register env REG_CLASS m2 of (ret, m3) \<Rightarrow>
            if ret \<noteq> 0 then (ret, kernel_unregister REG_MISC (kernel_unregister REG_CHRDEV m3))
            else (0, m3))"

definition pdm_cdev_exit ::
  "('ida, 'w, 'ops) module_env \<Rightarrow> ('ida, 'w) pdm_module \<Rightarrow> ('ida, 'w) pdm_module" where
  "pdm_cdev_exit env m =
     (let m1 = kernel_unregister REG_CHRDEV (kernel_unregister REG_CLASS m);
          m2 = m1\<lparr>pm_cdev_ida := ida_destroy (ee_ida_api (mo_enum env)) (pm_cdev_ida m1)\<rparr>
      in kernel_unregister REG_MISC m2)"

definition module_backends_init ::
  "('ida, 'w, 'ops) module_env \<Rightarrow> ('ida, 'w) pdm_module \<Rightarrow> int \<times> ('ida, 'w) pdm_module" where
  "module_backends_init env m =
     (case pdm_backend_entries_init (mo_backends env) (pm_world m) of
        (ret, n, w) \<Rightarrow> (ret, m\<lparr>pm_backends := n, pm_world := w\<rparr>))"

definition module_backends_exit ::
  "('ida, 'w, 'ops) module_env \<Rightarrow> ('ida, 'w) pdm_module \<Rightarrow> ('ida, 'w) pdm_module" where
  "module_backends_exit env m =
     (case pdm_backend_entries_exit (mo_backends env) (pm_backends m) (pm_world m) of
        (n, w) \<Rightarrow> m\<lparr>pm_backends := n, pm_world := w\<rparr>)"

definition module_drivers_init ::
  "('ida, 'w, 'ops) module_env \<Rightarrow> ('ida, 'w) pdm_module \<Rightarrow> int \<times> ('ida, 'w) pdm_module" where
  "module_drivers_init env m =
     (case pdm_driver_entries_init (mo_drivers env) (pm_world m) of
        (ret, n, w) \<Rightarrow> (ret, m\<lparr>pm_drivers := n, pm_world := w\<rparr>))"

definition module_drivers_exit ::
  "('ida, 'w, 'ops) module_env \<Rightarrow> ('ida, 'w) pdm_module \<Rightarrow> ('ida, 'w) pdm_module" where
  "module_drivers_exit env m =
     (case pdm_driver_entries_exit (mo_drivers env) (pm_drivers m) (pm_world m) of
        (n, w) \<Rightarrow> m\<lparr>pm_drivers := n, pm_world := w\<rparr>)"

definition module_mock_init ::
  "('ida, 'w, 'ops) module_env \<Rightarrow> ('ida, 'w) pdm_module \<Rightarrow> int \<times> ('ida, 'w) pdm_module" where
  "module_mock_init env m =
     (case pdm_mock_devices_init (mo_enum env) (pm_enum m) (pm_mock m) of
        (ret, s, es) \<Rightarrow> (ret, m\<lparr>pm_enum := s, pm_mock := es\<rparr>))"

definition module_mock_exit ::
  "('ida, 'w, 'ops) module_env \<Rightarrow> ('ida, 'w) pdm_module \<Rightarrow> ('ida, 'w) pdm_module" where
  "module_mock_exit env m =
     (case pdm_mock_devices_exit (mo_enum env) (pm_enum m) (pm_mock m) of
        (s, es) \<Rightarrow> m\<lparr>pm_enum := s, pm_mock := es\<rparr>)"

section \<open>The module\<close>

text \<open>The labels of the error path, each falling through to the next.\<close>

definition err_id where "err_id env m = pdm_device_ids_destroy env m"
definition err_bus where "err_bus env m = err_id env (pdm_bus_exit m)"
definition err_cdev where "err_cdev env m = err_bus env (pdm_cdev_exit env m)"
definition err_backends where "err_backends env m = err_cdev env (module_backends_exit env m)"
definition err_drivers where "err_drivers env m = err_backends env (module_drivers_exit env m)"

definition pdm_module_init ::
  "('ida, 'w, 'ops) module_env \<Rightarrow> ('ida, 'w) pdm_module \<Rightarrow> int \<times> ('ida, 'w) pdm_module" where
  "pdm_module_init env m0 =
     (case pdm_device_ids_init env m0 of (ret, m) \<Rightarrow>
      if ret \<noteq> 0 then (ret, m)
      else case pdm_bus_init env m of (ret, m) \<Rightarrow>
      if ret \<noteq> 0 then (ret, err_id env m)
      else case pdm_cdev_init env m of (ret, m) \<Rightarrow>
      if ret \<noteq> 0 then (ret, err_bus env m)
      else case module_backends_init env m of (ret, m) \<Rightarrow>
      if ret \<noteq> 0 then (ret, err_cdev env m)
      else case module_drivers_init env m of (ret, m) \<Rightarrow>
      if ret \<noteq> 0 then (ret, err_backends env m)
      else case module_mock_init env m of (ret, m) \<Rightarrow>
      if ret \<noteq> 0 then (ret, err_drivers env m) else (0, m))"

definition pdm_module_exit ::
  "('ida, 'w, 'ops) module_env \<Rightarrow> ('ida, 'w) pdm_module \<Rightarrow> ('ida, 'w) pdm_module" where
  "pdm_module_exit env m =
     (let m1 = module_mock_exit env m;
          m2 = module_backends_exit env m1;
          m3 = module_drivers_exit env m2;
          m4 = pdm_cdev_exit env m3;
          m5 = pdm_bus_exit m4
      in pdm_device_ids_destroy env m5)"

section \<open>Every stage is undone by its exit\<close>

text \<open>
  What the module has set up: registrations, entries initialised, what \<open>view\<close> shows of the state they
  work on, devices and their parents.
\<close>

definition module_setup ::
  "('w \<Rightarrow> 'v) \<Rightarrow> ('ida, 'w) pdm_module \<Rightarrow> kernel_reg list \<times> nat \<times> nat \<times> 'v \<times> pdm_device list \<times> string list" where
  "module_setup view m =
     (pm_regs m, pm_backends m, pm_drivers m, view (pm_world m), en_bus (pm_enum m), en_parents (pm_enum m))"

lemma ids_init_setup:
  "pdm_device_ids_init env m = (ret, m') \<Longrightarrow>
   ret = 0 \<and> module_setup view m' = module_setup view m \<and> pm_world m' = pm_world m \<and> pm_mock m' = pm_mock m"
  by (auto simp: pdm_device_ids_init_def pdm_id_init_def module_setup_def)

lemma ids_destroy_setup [simp]: "module_setup view (pdm_device_ids_destroy env m) = module_setup view m"
  by (simp add: pdm_device_ids_destroy_def module_setup_def)

lemma bus_init_setup:
  assumes "mo_ret env REG_BUS \<le> 0" and "pdm_bus_init env m = (ret, m')"
  shows "if ret = 0 then m' = m\<lparr>pm_regs := REG_OF_DRIVER # REG_BUS # pm_regs m\<rparr> else m' = m"
  using assms
  by (auto simp: pdm_bus_init_def pdm_of_bus_init_def kernel_register_def kernel_unregister_def Let_def
      split: if_splits)

lemma cdev_init_setup:
  assumes "pdm_cdev_init env m = (ret, m')"
  shows "if ret = 0 then m' = m\<lparr>pm_regs := REG_CLASS # REG_CHRDEV # REG_MISC # pm_regs m\<rparr> else m' = m"
  using assms
  by (auto simp: pdm_cdev_init_def kernel_register_def kernel_unregister_def Let_def split: if_splits)

lemma entries_failure_none:
  "pdm_backend_entries_init es w = (ret, n, w') \<Longrightarrow> ret \<noteq> 0 \<Longrightarrow> n = 0"
  "pdm_driver_entries_init ds w = (ret, n, w') \<Longrightarrow> ret \<noteq> 0 \<Longrightarrow> n = 0"
  by (auto simp: pdm_backend_entries_init_def pdm_driver_entries_init_def Let_def split: prod.splits if_splits)

lemma mock_init_setup:
  assumes "device_add_laws (mo_enum env)" and "length (pm_mock m) = 1" "mock_idle (pm_mock m ! 0)"
    and "module_mock_init env m = (ret, m')"
  shows "if ret = 0
     then (\<exists>s es es0. m' = m\<lparr>pm_enum := s, pm_mock := es\<rparr> \<and>
            pdm_mock_devices_exit (mo_enum env) s es = (pm_enum m, es0))
     else (\<exists>es. m' = m\<lparr>pm_mock := es\<rparr>)"
proof -
  obtain r s es where run: "pdm_mock_devices_init (mo_enum env) (pm_enum m) (pm_mock m) = (r, s, es)"
    using prod_cases3 by blast
  then have m': "ret = r" "m' = m\<lparr>pm_enum := s, pm_mock := es\<rparr>"
    using assms(4) by (auto simp: module_mock_init_def)
  from mock_devices_init [OF assms(1-3) run] show ?thesis
    unfolding m' by (cases "r = 0") auto
qed

text \<open>The registrations of a module that is up, the latest first.\<close>

abbreviation (input) all_regs :: "kernel_reg list" where
  "all_regs \<equiv> [REG_CLASS, REG_CHRDEV, REG_MISC, REG_OF_DRIVER, REG_BUS]"

text \<open>What each label of the error path leaves behind.\<close>

lemma err_bus_setup:
  assumes "pm_regs m = REG_OF_DRIVER # REG_BUS # rs"
  shows "module_setup view (err_bus env m) = module_setup view (m\<lparr>pm_regs := rs\<rparr>)"
  using assms
  by (simp add: err_bus_def err_id_def pdm_bus_exit_def pdm_of_bus_exit_def kernel_unregister_def
      module_setup_def pdm_device_ids_destroy_def)

lemma err_cdev_setup:
  assumes "pm_regs m = all_regs @ rs"
  shows "module_setup view (err_cdev env m) = module_setup view (m\<lparr>pm_regs := rs\<rparr>)"
  using assms
  by (simp add: err_cdev_def err_bus_def err_id_def pdm_cdev_exit_def pdm_bus_exit_def pdm_of_bus_exit_def
      kernel_unregister_def module_setup_def pdm_device_ids_destroy_def Let_def)

lemma err_backends_setup:
  assumes "pm_regs m = all_regs @ rs"
  shows "module_setup view (err_backends env m) = module_setup view (m\<lparr>pm_regs := rs, pm_backends := 0,
     pm_world := pdm_backend_entries_exit_count (mo_backends env) (pm_backends m) (pm_world m)\<rparr>)"
  using err_cdev_setup [of "module_backends_exit env m" rs view env] assms
  by (simp add: err_backends_def module_backends_exit_def pdm_backend_entries_exit_def module_setup_def)

lemma err_drivers_setup:
  assumes "pm_regs m = all_regs @ rs"
  shows "module_setup view (err_drivers env m) = module_setup view (m\<lparr>pm_regs := rs, pm_backends := 0, pm_drivers := 0,
     pm_world := pdm_backend_entries_exit_count (mo_backends env) (pm_backends m)
       (pdm_driver_entries_exit_count (mo_drivers env) (pm_drivers m) (pm_world m))\<rparr>)"
  using err_backends_setup [of "module_drivers_exit env m" rs view env] assms
  by (simp add: err_drivers_def module_drivers_exit_def pdm_driver_entries_exit_def module_setup_def)

lemma module_exit_setup:
  assumes "pm_regs m = all_regs @ rs"
  shows "module_setup view (pdm_module_exit env m) = module_setup view
    ((module_mock_exit env m)\<lparr>pm_regs := rs, pm_backends := 0, pm_drivers := 0,
     pm_world := pdm_driver_entries_exit_count (mo_drivers env) (pm_drivers m)
       (pdm_backend_entries_exit_count (mo_backends env) (pm_backends m) (pm_world m))\<rparr>)"
  using assms
  by (simp add: pdm_module_exit_def pdm_cdev_exit_def pdm_bus_exit_def pdm_of_bus_exit_def
      kernel_unregister_def module_setup_def pdm_device_ids_destroy_def module_mock_exit_def
      module_backends_exit_def module_drivers_exit_def pdm_driver_entries_exit_def
      pdm_backend_entries_exit_def Let_def split: prod.split)

section \<open>The error path and unloading\<close>

text \<open>What is assumed of the kernel: \<open>bus_register\<close> returns 0 or a negative code, \<open>device_add\<close> keeps its laws.\<close>

definition module_env_ok :: "('ida, 'w, 'ops) module_env \<Rightarrow> bool" where
  "module_env_ok env \<longleftrightarrow> device_add_laws (mo_enum env) \<and> mo_ret env REG_BUS \<le> 0"

text \<open>The module before it is loaded.\<close>

definition module_unloaded :: "('ida, 'w) pdm_module \<Rightarrow> bool" where
  "module_unloaded m \<longleftrightarrow> pm_backends m = 0 \<and> pm_drivers m = 0 \<and> length (pm_mock m) = 1 \<and> mock_idle (pm_mock m ! 0)"

text \<open>
  What the entries of the two sections do from the world \<open>w0\<close>, as far as \<open>view\<close> shows it: a backend
  registry that fails has undone its part; the exits undo what the drivers' registry, failing or
  not, and the backends' left, in the order of the error path, and in that of unloading.
\<close>

definition entries_unwind :: "('w \<Rightarrow> 'v) \<Rightarrow> ('ida, 'w, 'ops) module_env \<Rightarrow> 'w \<Rightarrow> bool" where
  "entries_unwind view env w0 \<longleftrightarrow>
     (\<forall>r n w. pdm_backend_entries_init (mo_backends env) w0 = (r, n, w) \<longrightarrow>
        (r \<noteq> 0 \<longrightarrow> view w = view w0) \<and>
        (\<forall>q k v. r = 0 \<longrightarrow> pdm_driver_entries_init (mo_drivers env) w = (q, k, v) \<longrightarrow>
           view (pdm_backend_entries_exit_count (mo_backends env) n
             (pdm_driver_entries_exit_count (mo_drivers env) k v)) = view w0 \<and>
           view (pdm_driver_entries_exit_count (mo_drivers env) k
             (pdm_backend_entries_exit_count (mo_backends env) n v)) = view w0))"

lemma module_load_unload:
  assumes "module_env_ok env" and "module_unloaded m0" and "entries_unwind view env (pm_world m0)"
    and "pdm_module_init env m0 = (ret, m')"
  shows "module_setup view (if ret \<noteq> 0 then m' else pdm_module_exit env m') = module_setup view m0"
proof -
  have env: "device_add_laws (mo_enum env)" "mo_ret env REG_BUS \<le> 0"
    using assms(1) by (simp_all add: module_env_ok_def)
  obtain r1 m1 where s1: "pdm_device_ids_init env m0 = (r1, m1)" by fastforce
  note i1 = ids_init_setup [OF s1, of view]
  then have off: "pm_backends m1 = 0" "pm_drivers m1 = 0" "length (pm_mock m1) = 1" "mock_idle (pm_mock m1 ! 0)"
    using assms(2) by (simp_all add: module_setup_def module_unloaded_def)
  obtain r2 m2 where s2: "pdm_bus_init env m1 = (r2, m2)" by fastforce
  note i2 = bus_init_setup [OF env(2) s2]
  obtain r3 m3 where s3: "pdm_cdev_init env m2 = (r3, m3)" by fastforce
  note i3 = cdev_init_setup [OF s3]
  obtain r4 n w where b: "pdm_backend_entries_init (mo_backends env) (pm_world m1) = (r4, n, w)"
    using prod_cases3 by blast
  define m4 where "m4 = m1\<lparr>pm_regs := all_regs @ pm_regs m1, pm_backends := n, pm_world := w\<rparr>"
  obtain r5 k v where d: "pdm_driver_entries_init (mo_drivers env) w = (r5, k, v)"
    using prod_cases3 by blast
  define m5 where "m5 = m4\<lparr>pm_drivers := k, pm_world := v\<rparr>"
  obtain r6 m6 where s6: "module_mock_init env m5 = (r6, m6)" by fastforce
  have m3: "m3 = m1\<lparr>pm_regs := all_regs @ pm_regs m1\<rparr>" if "r2 = 0" "r3 = 0" using i2 i3 that by simp
  have s4: "module_backends_init env m3 = (r4, m4)" if "r2 = 0" "r3 = 0"
    using m3 [OF that] b by (simp add: module_backends_init_def m4_def)
  have s5: "module_drivers_init env m4 = (r5, m5)"
    using d by (simp add: module_drivers_init_def m4_def m5_def)
  have eq: "pdm_module_init env m0 =
     (if r2 \<noteq> 0 then (r2, err_id env m2) else if r3 \<noteq> 0 then (r3, err_bus env m3)
      else if r4 \<noteq> 0 then (r4, err_cdev env m4) else if r5 \<noteq> 0 then (r5, err_backends env m5)
      else if r6 \<noteq> 0 then (r6, err_drivers env m6) else (0, m6))"
    using s1 s2 s3 s4 s5 s6 i1 by (simp add: pdm_module_init_def)
  have un: "r4 \<noteq> 0 \<Longrightarrow> view w = view (pm_world m1)"
    "r4 = 0 \<Longrightarrow> view (pdm_backend_entries_exit_count (mo_backends env) n
             (pdm_driver_entries_exit_count (mo_drivers env) k v)) = view (pm_world m1)"
    "r4 = 0 \<Longrightarrow> view (pdm_driver_entries_exit_count (mo_drivers env) k
             (pdm_backend_entries_exit_count (mo_backends env) n v)) = view (pm_world m1)"
    using assms(3) b d i1 by (auto simp: entries_unwind_def)
  note none = entries_failure_none(1) [OF b] entries_failure_none(2) [OF d]
  have same: "pm_mock m5 = pm_mock m1" "pm_enum m5 = pm_enum m1" by (simp_all add: m5_def m4_def)
  have mock: "if r6 = 0 then (\<exists>s es es0. m6 = m5\<lparr>pm_enum := s, pm_mock := es\<rparr> \<and>
            pdm_mock_devices_exit (mo_enum env) s es = (pm_enum m1, es0)) else (\<exists>es. m6 = m5\<lparr>pm_mock := es\<rparr>)"
    using mock_init_setup [OF env(1) off(3,4) [folded same(1)] s6] unfolding same .
  consider "r2 \<noteq> 0" | "r2 = 0" "r3 \<noteq> 0" | "r2 = 0" "r3 = 0" "r4 \<noteq> 0"
    | "r2 = 0" "r3 = 0" "r4 = 0" "r5 \<noteq> 0" | "r2 = 0" "r3 = 0" "r4 = 0" "r5 = 0" "r6 \<noteq> 0"
    | "r2 = 0" "r3 = 0" "r4 = 0" "r5 = 0" "r6 = 0" by blast
  then have "module_setup view (if ret \<noteq> 0 then m' else pdm_module_exit env m') = module_setup view m1"
  proof cases
    case 1
    with eq assms(4) i2 show ?thesis by (auto simp: err_id_def)
  next
    case 2
    with eq assms(4) i2 i3 show ?thesis
      using err_bus_setup [of m3 "pm_regs m1" view env] by (auto simp: module_setup_def)
  next
    case 3
    with eq assms(4) show ?thesis
      using err_cdev_setup [of m4 "pm_regs m1" view env] un(1) none(1) off by (simp add: module_setup_def m4_def)
  next
    case 4
    with eq assms(4) show ?thesis
      using err_backends_setup [of m5 "pm_regs m1" view env] un(2) none(2) off
      by (simp add: module_setup_def m5_def m4_def)
  next
    case 5
    with eq assms(4) mock show ?thesis
      using err_drivers_setup [of m6 "pm_regs m1" view env] un(2) off
      by (auto simp: module_setup_def m5_def m4_def)
  next
    case 6
    with eq assms(4) mock show ?thesis
      using module_exit_setup [of m6 "pm_regs m1" view env] un(3) off
      by (auto simp: module_setup_def module_mock_exit_def m5_def m4_def)
  qed
  with i1 show ?thesis by simp
qed

text \<open>Entries that clean up exactly, with exits that commute, are such entries.\<close>

lemma undoable_entries_unwind:
  assumes "undoable backend_valid backend_start backend_stop (mo_backends env)"
    and "undoable driver_valid driver_start driver_stop (mo_drivers env)"
    and "\<And>n k w. pdm_driver_entries_exit_count (mo_drivers env) k
           (pdm_backend_entries_exit_count (mo_backends env) n w) =
         pdm_backend_entries_exit_count (mo_backends env) n
           (pdm_driver_entries_exit_count (mo_drivers env) k w)"
  shows "entries_unwind (\<lambda>w. w) env w0"
  unfolding entries_unwind_def
proof (intro allI impI conjI)
  fix r n w assume b: "pdm_backend_entries_init (mo_backends env) w0 = (r, n, w)"
  show "w = w0" if "r \<noteq> 0" using backends.init_failure_restores [OF assms(1) b that] by simp
  fix q k v assume z: "r = 0" and d: "pdm_driver_entries_init (mo_drivers env) w = (q, k, v)"
  have "pdm_driver_entries_exit_count (mo_drivers env) k v = w"
    using drivers.init_failure_restores [OF assms(2) d] drivers.exit_restores [OF assms(2)] d
    by (cases "q = 0") auto
  then show "pdm_backend_entries_exit_count (mo_backends env) n (pdm_driver_entries_exit_count (mo_drivers env) k v) = w0"
    using backends.exit_restores [OF assms(1)] b z by auto
  then show "pdm_driver_entries_exit_count (mo_drivers env) k (pdm_backend_entries_exit_count (mo_backends env) n v) = w0"
    by (simp only: assms(3))
qed

text \<open>
  Unloading leads back to the state before loading, when the exits of the backend entries and
  those of the driver entries commute. The hypothesis is needed: the module stops the backends
  before the drivers, although it started them first.
\<close>

theorem module_exit_restores:
  assumes "module_env_ok env" and "module_unloaded m0" and "pdm_module_init env m0 = (0, m)"
    and "undoable backend_valid backend_start backend_stop (mo_backends env)"
    and "undoable driver_valid driver_start driver_stop (mo_drivers env)"
    and "\<And>n k w. pdm_driver_entries_exit_count (mo_drivers env) k
           (pdm_backend_entries_exit_count (mo_backends env) n w) =
         pdm_backend_entries_exit_count (mo_backends env) n
           (pdm_driver_entries_exit_count (mo_drivers env) k w)"
  shows "module_setup (\<lambda>w. w) (pdm_module_exit env m) = module_setup (\<lambda>w. w) m0"
  using module_load_unload [OF assms(1,2) undoable_entries_unwind [OF assms(4-6)] assms(3)] by simp

text \<open>A module without entries.\<close>

definition module_env_good :: "(nat list, unit, unit) module_env" where
  "module_env_good = \<lparr>mo_enum = enum_env_ok, mo_ret = (\<lambda>_. 0), mo_backends = [], mo_drivers = []\<rparr>"

definition module0 :: "'w \<Rightarrow> (nat list, 'w) pdm_module" where
  "module0 w = \<lparr>pm_enum = enum_sys0, pm_regs = [], pm_cdev_ida = [], pm_backends = 0, pm_drivers = 0,
     pm_mock = [pdm_mock_device_entry_zero], pm_world = w\<rparr>"

lemma module_examples: "module_env_ok module_env_good" "module_unloaded (module0 w)"
  by (simp_all add: module_env_ok_def module_env_good_def enum_env_ok_laws
      module_unloaded_def module0_def mock_idle_def pdm_mock_device_entry_zero_def)

lemma module_good_ret: "fst (pdm_module_init module_env_good (module0 ())) = 0"
  by (simp add: pdm_module_init_def pdm_device_ids_init_def pdm_id_init_def pdm_bus_init_def
      pdm_of_bus_init_def pdm_cdev_init_def kernel_register_def module_env_good_def Let_def
      module_backends_init_def pdm_backend_entries_init_def module_drivers_init_def
      pdm_driver_entries_init_def module_mock_init_def pdm_mock_devices_init_def pdm_mock_device_descs_def
      pdm_mock_register_one_def pdm_mock_register_parent_def enum_env_ok_def module0_def enum_sys0_def
      pdm_device_alloc_def split: prod.split)

theorem module_exit_restores_witness:
  "en_bus (pm_enum (pdm_module_exit module_env_good (snd (pdm_module_init module_env_good (module0 ()))))) = []"
proof -
  have "pdm_module_init module_env_good (module0 ()) = (0, snd (pdm_module_init module_env_good (module0 ())))"
    using module_good_ret by (metis prod.collapse)
  from module_exit_restores [OF module_examples this] show ?thesis
    by (simp add: module_env_good_def module_setup_def module0_def enum_sys0_def undoable_def)
qed

end
