(* ===== verification/Pdm_Module_Load.thy ===== *)
theory Pdm_Module_Load
  imports Pdm_Module Pdm_Diag Pdm_Mcu_Ops Pdm_Led_Driver
begin

text \<open>
  Loading and unloading the module with the entries the source has: the backends of the LED and MCU
  drivers (\<open>pdm_led_gpio.c\<close>, \<open>pdm_led_pwm.c\<close>, \<open>pdm_mcu_can.c\<close>, \<open>pdm_mcu_i2c.c\<close>, \<open>pdm_mcu_spi.c\<close>,
  \<open>pdm_mcu_uart.c\<close>) and the two drivers themselves (\<open>pdm_led.c\<close>, \<open>pdm_mcu.c\<close>).

  The world of the entries is what the drivers and their text files keep (\<open>Pdm_Diag\<close>) and the drivers
  that are registered with the serdev, I2C and SPI buses of the kernel, the latest first. Which
  backends are configured, and in which order the linker puts the entries, is left open.
\<close>

section \<open>State\<close>

record 'p load_world =
  lw_diag :: "'p diag_sys"
  lw_bus_drivers :: "pdm_mcu_backend_type list"

text \<open>
  What the kernel answers: to the registration of a driver with a bus, and to what a driver of the PDM
  bus asks for; whether \<open>CONFIG_PDM_MCU_UART_SERDEV\<close> replaces the weak functions of \<open>pdm_mcu_uart.c\<close>;
  the address of the module.
\<close>

record load_os =
  lo_bus_driver :: "pdm_mcu_backend_type \<Rightarrow> int"
  lo_led :: diag_os
  lo_mcu :: diag_os
  lo_serdev :: bool
  lo_this_module :: nat

section \<open>The entries of the backends\<close>

definition bus_driver_register :: "load_os \<Rightarrow> pdm_mcu_backend_type \<Rightarrow> 'p load_world \<Rightarrow> int \<times> 'p load_world" where
  "bus_driver_register os t w =
     (let ret = lo_bus_driver os t in if ret = 0 then (0, w\<lparr>lw_bus_drivers := t # lw_bus_drivers w\<rparr>) else (ret, w))"

definition bus_driver_unregister :: "pdm_mcu_backend_type \<Rightarrow> 'p load_world \<Rightarrow> 'p load_world" where
  "bus_driver_unregister t w = w\<lparr>lw_bus_drivers := remove1 t (lw_bus_drivers w)\<rparr>"

definition pdm_mcu_i2c_driver_register :: "load_os \<Rightarrow> 'p load_world \<Rightarrow> int \<times> 'p load_world" where
  "pdm_mcu_i2c_driver_register os w = bus_driver_register os PDM_MCU_BACKEND_I2C w"

definition pdm_mcu_i2c_driver_unregister :: "'p load_world \<Rightarrow> 'p load_world" where
  "pdm_mcu_i2c_driver_unregister w = bus_driver_unregister PDM_MCU_BACKEND_I2C w"

definition pdm_mcu_spi_driver_register :: "load_os \<Rightarrow> 'p load_world \<Rightarrow> int \<times> 'p load_world" where
  "pdm_mcu_spi_driver_register os w = bus_driver_register os PDM_MCU_BACKEND_SPI w"

definition pdm_mcu_spi_driver_unregister :: "'p load_world \<Rightarrow> 'p load_world" where
  "pdm_mcu_spi_driver_unregister w = bus_driver_unregister PDM_MCU_BACKEND_SPI w"

definition pdm_mcu_uart_driver_register :: "load_os \<Rightarrow> 'p load_world \<Rightarrow> int \<times> 'p load_world" where
  "pdm_mcu_uart_driver_register os w =
     (if lo_serdev os then bus_driver_register os PDM_MCU_BACKEND_UART w else (0, w))"

definition pdm_mcu_uart_driver_unregister :: "load_os \<Rightarrow> 'p load_world \<Rightarrow> 'p load_world" where
  "pdm_mcu_uart_driver_unregister os w =
     (if lo_serdev os then bus_driver_unregister PDM_MCU_BACKEND_UART w else w)"

text \<open>The section holds entries of both kinds; their operations are behind a \<open>void *\<close>.\<close>

datatype backend_ops = LED_OPS pdm_led_backend_type | MCU_OPS pdm_mcu_backend_type

definition in_section :: "('o \<Rightarrow> 'q) \<Rightarrow> ('w, 'o) pdm_backend_entry \<Rightarrow> ('w, 'q) pdm_backend_entry" where
  "in_section f e = \<lparr>be_name = be_name e, be_device_type = be_device_type e, be_class = be_class e,
     be_matches = be_matches e, be_ops = map_option f (be_ops e), be_init = be_init e, be_exit = be_exit e\<rparr>"

definition pdm_backend_section :: "load_os \<Rightarrow> ('p load_world, backend_ops) pdm_backend_entry list" where
  "pdm_backend_section os =
     [in_section MCU_OPS (pdm_mcu_uart_entry (pdm_mcu_uart_driver_register os) (pdm_mcu_uart_driver_unregister os)),
      in_section MCU_OPS pdm_mcu_can_entry,
      in_section MCU_OPS (pdm_mcu_i2c_entry (pdm_mcu_i2c_driver_register os) pdm_mcu_i2c_driver_unregister),
      in_section MCU_OPS (pdm_mcu_spi_entry (pdm_mcu_spi_driver_register os) pdm_mcu_spi_driver_unregister),
      in_section LED_OPS pdm_led_gpio_entry,
      in_section LED_OPS pdm_led_pwm_entry]"

lemmas section_entries = pdm_backend_section_def in_section_def pdm_mcu_uart_entry_def pdm_mcu_can_entry_def
  pdm_mcu_i2c_entry_def pdm_mcu_spi_entry_def pdm_led_gpio_entry_def pdm_led_pwm_entry_def
  pdm_mcu_uart_driver_register_def pdm_mcu_uart_driver_unregister_def pdm_mcu_i2c_driver_register_def
  pdm_mcu_i2c_driver_unregister_def pdm_mcu_spi_driver_register_def pdm_mcu_spi_driver_unregister_def
  bus_driver_register_def bus_driver_unregister_def Let_def

section \<open>The entries of the drivers\<close>

datatype pdm_bus_driver = LED_DRIVER | MCU_DRIVER

fun driver_init :: "load_os \<Rightarrow> pdm_bus_driver \<Rightarrow> 'p diag_sys \<Rightarrow> int \<times> 'p diag_sys" where
  "driver_init os LED_DRIVER s = pdm_led_driver_init (lo_led os) (lo_this_module os) s"
| "driver_init os MCU_DRIVER s = pdm_mcu_driver_init (lo_mcu os) (lo_this_module os) s"

fun driver_exit :: "pdm_bus_driver \<Rightarrow> 'p diag_sys \<Rightarrow> 'p diag_sys" where
  "driver_exit LED_DRIVER s = pdm_led_driver_exit s"
| "driver_exit MCU_DRIVER s = pdm_mcu_driver_exit s"

definition pdm_driver_entry_of :: "load_os \<Rightarrow> pdm_bus_driver \<Rightarrow> 'p load_world pdm_driver_entry" where
  "pdm_driver_entry_of os d =
     \<lparr>dn_name = Some (case d of LED_DRIVER \<Rightarrow> ''led'' | MCU_DRIVER \<Rightarrow> ''mcu''),
      dn_init = Some (\<lambda>w. case driver_init os d (lw_diag w) of (ret, s) \<Rightarrow> (ret, w\<lparr>lw_diag := s\<rparr>)),
      dn_exit = Some (\<lambda>w. w\<lparr>lw_diag := driver_exit d (lw_diag w)\<rparr>)\<rparr>"

section \<open>The backends clean up\<close>

lemma section_undoable:
  assumes "set es \<subseteq> set (pdm_backend_section os)"
  shows "undoable backend_valid backend_start backend_stop es"
proof -
  have "undoable backend_valid backend_start backend_stop (pdm_backend_section os)"
    by (auto simp: undoable_def section_entries backend_start_def backend_stop_def split: if_splits)
  with assms show ?thesis unfolding undoable_def by blast
qed

text \<open>They work on the registrations with the buses and on nothing else.\<close>

lemma section_start_diag:
  assumes "e \<in> set (pdm_backend_section os)" and "backend_start e w = (r, w')"
  shows "lw_diag w' = lw_diag w"
  using assms by (auto simp: section_entries backend_start_def split: if_splits)

lemma section_stop:
  assumes "e \<in> set (pdm_backend_section os)" and "lw_bus_drivers w = lw_bus_drivers v"
  shows "lw_bus_drivers (backend_stop e w) = lw_bus_drivers (backend_stop e v) \<and> lw_diag (backend_stop e v) = lw_diag v"
  using assms by (auto simp: section_entries backend_stop_def)

lemma section_init_diag:
  assumes "set es \<subseteq> set (pdm_backend_section os)"
  shows "start_all backend_valid backend_start es k w = (r, n, w') \<Longrightarrow> lw_diag w' = lw_diag w"
  using assms
proof (induction es arbitrary: k w)
  case (Cons e es)
  obtain q v where s: "backend_start e w = (q, v)" by force
  with Cons.prems section_start_diag [of e os w q v] Cons.IH [of "Suc k" v] show ?case
    by (auto split: if_splits)
qed simp

lemma section_stop_all:
  assumes "set es \<subseteq> set (pdm_backend_section os)" and "lw_bus_drivers w = lw_bus_drivers v"
  shows "lw_bus_drivers (foldr backend_stop es w) = lw_bus_drivers (foldr backend_stop es v) \<and>
    lw_diag (foldr backend_stop es v) = lw_diag v"
  using assms(1)
proof (induction es)
  case (Cons e es)
  then show ?case
    using section_stop [of e os "foldr backend_stop es w" "foldr backend_stop es v"] by simp
qed (simp add: assms(2))

lemma section_init:
  assumes "set es \<subseteq> set (pdm_backend_section os)" and "pdm_backend_entries_init es w = (r, n, w')"
  shows "n \<le> length es \<and> (r \<noteq> 0 \<longrightarrow> w' = w) \<and> (r = 0 \<longrightarrow> lw_diag w' = lw_diag w)"
proof -
  obtain q m v where run: "start_all backend_valid backend_start es 0 w = (q, m, v)" using prod_cases3 by blast
  note start = section_init_diag [OF assms(1) run] backends.start_all_count [OF run]
  note undone = backends.init_failure_restores [OF section_undoable [OF assms(1)] assms(2)]
  show ?thesis
    using assms(2) run start undone by (auto simp: backends.init_entries_start split: if_splits)
qed

text \<open>The exits of the backends on a world whose files and drivers have changed meanwhile.\<close>

lemma section_exit:
  assumes "set es \<subseteq> set (pdm_backend_section os)" and "pdm_backend_entries_init es w = (0, n, w')"
    and "lw_bus_drivers v = lw_bus_drivers w'"
  shows "lw_bus_drivers (pdm_backend_entries_exit_count es n v) = lw_bus_drivers w \<and>
    lw_diag (pdm_backend_entries_exit_count es n v) = lw_diag v"
proof -
  have n: "n = length es" and undone: "pdm_backend_entries_exit_count es n w' = w"
    using backends.exit_restores [OF section_undoable [OF assms(1)] assms(2)] by auto
  show ?thesis
    using section_stop_all [OF assms(1), of v w'] section_stop_all [OF assms(1), of w' v] assms(3) undone
    by (simp add: backends.exit_count_stop_all n stop_all_def)
qed

section \<open>The drivers clean up\<close>

text \<open>What a driver has in the kernel: its two files, and its registration with the PDM bus.\<close>

fun entry_address :: "pdm_bus_driver \<Rightarrow> nat" where
  "entry_address LED_DRIVER = LED_ENTRY"
| "entry_address MCU_DRIVER = MCU_ENTRY"

lemma entry_address_inj [simp]: "entry_address c = entry_address d \<longleftrightarrow> c = d"
  by (cases c; cases d) simp_all

definition driver_registered :: "'p diag_sys \<Rightarrow> nat \<Rightarrow> bool" where
  "driver_registered s a \<longleftrightarrow> (a = LED_ENTRY \<and> ds_led_registered s) \<or> (a = MCU_ENTRY \<and> ds_mcu_registered s)"

definition driver_slot where
  "driver_slot s a = (diag_files_of s a, driver_registered s a)"

abbreviation (input) slot_off where "slot_off \<equiv> ((None, None), False)"

lemma driver_init_law:
  assumes "diag_ok n s" and "driver_slot s (entry_address d) = slot_off" and "Suc n < 9" and "driver_init os d s = (r, s')"
  shows "diag_ok (Suc n) s' \<and> (\<forall>a. a \<noteq> entry_address d \<or> r \<noteq> 0 \<longrightarrow> driver_slot s' a = driver_slot s a)"
proof (cases d)
  case LED_DRIVER
  have reg: "\<not> ds_led_registered s" and free: "diag_files_of s LED_ENTRY = (None, None)"
    using assms(2) LED_DRIVER by (simp_all add: driver_slot_def driver_registered_def)
  have "diag_ok (Suc n) s' \<and> diag_init_result LED_ENTRY (''led'', LED_PROC_SHOW, Some LED_PROC_WRITE) s (r, s') \<and>
      (ds_led_registered s' \<longleftrightarrow> r = 0) \<and> ds_mcu_registered s' = ds_mcu_registered s"
    using assms(1,3,4) reg free LED_DRIVER by (intro led_init_law) simp_all
  then show ?thesis using reg LED_DRIVER
    by (auto simp: driver_slot_def driver_registered_def diag_init_result_def diag_files_of_def)
next
  case MCU_DRIVER
  have reg: "\<not> ds_mcu_registered s" and free: "diag_files_of s MCU_ENTRY = (None, None)"
    using assms(2) MCU_DRIVER by (simp_all add: driver_slot_def driver_registered_def)
  have "diag_ok (Suc n) s' \<and> diag_init_result MCU_ENTRY (''mcu'', MCU_PROC_SHOW, Some MCU_PROC_WRITE) s (r, s') \<and>
      (ds_mcu_registered s' \<longleftrightarrow> r = 0) \<and> ds_led_registered s' = ds_led_registered s"
    using assms(1,3,4) reg free MCU_DRIVER by (intro mcu_init_law) simp_all
  then show ?thesis using reg MCU_DRIVER
    by (auto simp: driver_slot_def driver_registered_def diag_init_result_def diag_files_of_def)
qed

lemma driver_exit_law:
  assumes "diag_ok n s"
  shows "diag_ok n (driver_exit d s) \<and> driver_slot (driver_exit d s) = (driver_slot s)(entry_address d := slot_off)"
  using led_exit_law [OF assms] mcu_exit_law [OF assms]
  by (cases d) (auto simp: driver_slot_def driver_registered_def fun_eq_iff)

text \<open>
  The registry brings up any of the drivers, in any order: those after the first that fails stay
  down, and so does this one. The entries of the drivers do not touch the buses.
\<close>

lemma driver_entry_steps [simp]:
  "driver_valid (pdm_driver_entry_of os d)"
  "driver_start (pdm_driver_entry_of os d) w = (case driver_init os d (lw_diag w) of (ret, s) \<Rightarrow> (ret, w\<lparr>lw_diag := s\<rparr>))"
  "driver_stop (pdm_driver_entry_of os d) w = w\<lparr>lw_diag := driver_exit d (lw_diag w)\<rparr>"
  by (simp_all add: pdm_driver_entry_of_def driver_valid_def driver_start_def driver_stop_def)

lemma drivers_start:
  assumes "start_all driver_valid driver_start (map (pdm_driver_entry_of os) ds) k w = (r, m, w')"
    and "distinct ds" and "\<forall>d \<in> set ds. driver_slot (lw_diag w) (entry_address d) = slot_off"
    and "diag_ok n (lw_diag w)" and "n + length ds < 9"
  shows "k \<le> m \<and> diag_ok (n + length ds) (lw_diag w') \<and> lw_bus_drivers w' = lw_bus_drivers w \<and>
    (\<forall>a. a \<notin> entry_address ` set (take (m - k) ds) \<longrightarrow> driver_slot (lw_diag w') a = driver_slot (lw_diag w) a)"
  using assms
proof (induction ds arbitrary: k w n)
  case (Cons d ds)
  obtain q s where i: "driver_init os d (lw_diag w) = (q, s)" by force
  have law: "diag_ok (Suc n) s" "a \<noteq> entry_address d \<Longrightarrow> driver_slot s a = driver_slot (lw_diag w) a"
    "q \<noteq> 0 \<Longrightarrow> driver_slot s a = driver_slot (lw_diag w) a" for a
    using driver_init_law [OF _ _ _ i, of n] Cons.prems by auto
  show ?case
  proof (cases "q = 0")
    case True
    let ?w = "w\<lparr>lw_diag := s\<rparr>"
    have rest: "start_all driver_valid driver_start (map (pdm_driver_entry_of os) ds) (Suc k) ?w = (r, m, w')"
      using Cons.prems(1) i True by simp
    have "driver_slot s (entry_address c) = slot_off" if "c \<in> set ds" for c
      using law(2) [of "entry_address c"] Cons.prems(2,3) that by fastforce
    then have "\<forall>c \<in> set ds. driver_slot (lw_diag ?w) (entry_address c) = slot_off" by simp
    note ih = Cons.IH [OF rest _ this, of "Suc n"]
    have "Suc k \<le> m" using ih law(1) Cons.prems by simp
    then have "m - k = Suc (m - Suc k)" by simp
    with ih law Cons.prems show ?thesis by simp
  next
    case False
    with Cons.prems i have "m = k" "w' = w\<lparr>lw_diag := s\<rparr>" by auto
    moreover have "diag_ok (n + length (d # ds)) s" using law(1) Cons.prems(5) by (simp add: diag_ok_def)
    ultimately show ?thesis using law False by simp
  qed
qed simp

lemma drivers_stop:
  assumes "diag_ok n (lw_diag w)"
  shows "diag_ok n (lw_diag (foldr driver_stop (map (pdm_driver_entry_of os) ds) w)) \<and>
    lw_bus_drivers (foldr driver_stop (map (pdm_driver_entry_of os) ds) w) = lw_bus_drivers w \<and>
    driver_slot (lw_diag (foldr driver_stop (map (pdm_driver_entry_of os) ds) w)) a =
      (if a \<in> entry_address ` set ds then slot_off else driver_slot (lw_diag w) a)"
proof (induction ds)
  case (Cons d ds)
  with driver_exit_law [of n "lw_diag (foldr driver_stop (map (pdm_driver_entry_of os) ds) w)" d]
  show ?case by simp
qed (simp add: assms)

text \<open>
  After the registry of the drivers, failing or not, their exits leave nothing of them, also when
  the buses have changed meanwhile.
\<close>

lemma nothing_left_slots:
  assumes "diag_ok n s" and "\<And>a. driver_slot s a = slot_off"
  shows "nothing_left s"
proof (rule nothing_left [OF assms(1)])
  show "diag_files_of s a = (None, None)" for a using assms(2) [of a] by (simp add: driver_slot_def)
  show "\<not> ds_led_registered s" "\<not> ds_mcu_registered s"
    using assms(2) [of LED_ENTRY] assms(2) [of MCU_ENTRY] by (auto simp: driver_slot_def driver_registered_def)
qed

lemma drivers_init:
  assumes "distinct ds" and "lw_diag w = diag_start led mcu"
    and "pdm_driver_entries_init (map (pdm_driver_entry_of os) ds) w = (q, k, v)" and "lw_diag x = lw_diag v"
  shows "lw_bus_drivers v = lw_bus_drivers w \<and>
    lw_bus_drivers (pdm_driver_entries_exit_count (map (pdm_driver_entry_of os) ds) k x) = lw_bus_drivers x \<and>
    nothing_left (lw_diag (pdm_driver_entries_exit_count (map (pdm_driver_entry_of os) ds) k x))"
proof -
  let ?es = "map (pdm_driver_entry_of os) ds"
  obtain r m w' where run: "start_all driver_valid driver_start ?es 0 w = (r, m, w')" using prod_cases3 by blast
  have ok: "diag_ok 0 (lw_diag w)"
    using proc_init_ok(1) debugfs_init_ok(1) unfolding assms(2)
    by (simp add: diag_start_def diag_ok_def) (simp add: proc_init_def debugfs_init_def)
  have off: "driver_slot (lw_diag w) a = slot_off" for a
    unfolding assms(2)
    by (simp add: proc_init_ok(2) [unfolded dom_eq_empty_conv] debugfs_init_ok(2) [unfolded dom_eq_empty_conv] diag_start_def driver_slot_def diag_files_of_def driver_registered_def)
  have "set ds \<subseteq> {LED_DRIVER, MCU_DRIVER}" using pdm_bus_driver.exhaust by auto
  then have "card (set ds) \<le> card {LED_DRIVER, MCU_DRIVER}" by (intro card_mono) simp_all
  then have "length ds \<le> 2" using distinct_card [OF assms(1)] by simp
  then have started: "diag_ok (length ds) (lw_diag w')" "lw_bus_drivers w' = lw_bus_drivers w"
    "\<And>a. a \<notin> entry_address ` set (take m ds) \<Longrightarrow> driver_slot (lw_diag w') a = slot_off"
    using drivers_start [OF run assms(1) _ ok] off by simp_all
  have m: "m \<le> length ?es" using drivers.start_all_count [OF run] by simp
  have stop: "nothing_left (lw_diag (pdm_driver_entries_exit_count ?es m y)) \<and>
      lw_bus_drivers (pdm_driver_entries_exit_count ?es m y) = lw_bus_drivers y" if "lw_diag y = lw_diag w'" for y
    using drivers_stop [of "length ds" y os "take m ds"] started that
    by (auto simp: drivers.exit_count_stop_all [OF m] stop_all_def take_map intro!: nothing_left_slots)
  show ?thesis
  proof (cases "r = 0")
    case True
    with assms(3) run have "k = m" "v = w'" by (auto simp: drivers.init_entries_start)
    with stop [of x] started assms(4) show ?thesis by simp
  next
    case False
    with assms(3) run have "k = 0" "v = pdm_driver_entries_exit_count ?es m w'"
      by (auto simp: drivers.init_entries_start)
    with stop [of w'] started assms(4) show ?thesis by simp
  qed
qed

section \<open>Loading and unloading\<close>

text \<open>Nothing of the module is left in the kernel, as it was in \<open>m0\<close>.\<close>

definition module_gone :: "('ida, 'p load_world) pdm_module \<Rightarrow> ('ida, 'p load_world) pdm_module \<Rightarrow> bool" where
  "module_gone m0 m \<longleftrightarrow> pm_regs m = pm_regs m0 \<and> pm_backends m = 0 \<and> pm_drivers m = 0 \<and>
     en_bus (pm_enum m) = en_bus (pm_enum m0) \<and> en_parents (pm_enum m) = en_parents (pm_enum m0) \<and>
     lw_bus_drivers (pm_world m) = lw_bus_drivers (pm_world m0) \<and> nothing_left (lw_diag (pm_world m))"

text \<open>The entries of the source clean up in the sense of the module.\<close>

lemma source_entries_unwind:
  assumes "set (mo_backends env) \<subseteq> set (pdm_backend_section os)"
    and "mo_drivers env = map (pdm_driver_entry_of os) ds" "distinct ds"
    and "lw_diag w0 = diag_start led mcu"
  shows "entries_unwind (\<lambda>w. (lw_bus_drivers w, nothing_left (lw_diag w))) env w0"
  unfolding entries_unwind_def
proof (intro allI impI)
  fix r n w assume b: "pdm_backend_entries_init (mo_backends env) w0 = (r, n, w)"
  have fresh: "nothing_left (lw_diag w0)"
    unfolding assms(4) by (simp add: nothing_left_def diag_start_def proc_init_def debugfs_init_def)
  let ?b = "pdm_backend_entries_exit_count (mo_backends env) n"
  note init = section_init [OF assms(1) b]
  have drv: "(lw_bus_drivers (?b (pdm_driver_entries_exit_count (mo_drivers env) k v)),
        nothing_left (lw_diag (?b (pdm_driver_entries_exit_count (mo_drivers env) k v)))) =
          (lw_bus_drivers w0, nothing_left (lw_diag w0)) \<and>
      (lw_bus_drivers (pdm_driver_entries_exit_count (mo_drivers env) k (?b v)),
        nothing_left (lw_diag (pdm_driver_entries_exit_count (mo_drivers env) k (?b v)))) =
          (lw_bus_drivers w0, nothing_left (lw_diag w0))"
    if "r = 0" and d: "pdm_driver_entries_init (mo_drivers env) w = (q, k, v)" for q k v
  proof -
    have "lw_diag w = diag_start led mcu" using init that assms(4) by simp
    note drv = drivers_init [OF assms(3) this d [unfolded assms(2)], folded assms(2)]
    let ?v = "pdm_driver_entries_exit_count (mo_drivers env) k v"
    have d1: "lw_bus_drivers v = lw_bus_drivers w" "lw_bus_drivers ?v = lw_bus_drivers v" "nothing_left (lw_diag ?v)"
      using drv [OF refl] by simp_all
    have b1: "lw_bus_drivers (?b x) = lw_bus_drivers w0 \<and> lw_diag (?b x) = lw_diag x" if "lw_bus_drivers x = lw_bus_drivers w" for x
      using section_exit [OF assms(1) b [unfolded \<open>r = 0\<close>] that] by simp
    from b1 [OF d1(1)] have b2: "lw_bus_drivers (?b v) = lw_bus_drivers w0" "lw_diag (?b v) = lw_diag v" by simp_all
    from b1 [of ?v] d1 b2 drv [OF b2(2)] fresh show ?thesis by simp
  qed
  show "(r \<noteq> 0 \<longrightarrow> (lw_bus_drivers w, nothing_left (lw_diag w)) = (lw_bus_drivers w0, nothing_left (lw_diag w0))) \<and>
        (\<forall>q k v. r = 0 \<longrightarrow> pdm_driver_entries_init (mo_drivers env) w = (q, k, v) \<longrightarrow>
           (lw_bus_drivers (?b (pdm_driver_entries_exit_count (mo_drivers env) k v)),
            nothing_left (lw_diag (?b (pdm_driver_entries_exit_count (mo_drivers env) k v)))) =
              (lw_bus_drivers w0, nothing_left (lw_diag w0)) \<and>
           (lw_bus_drivers (pdm_driver_entries_exit_count (mo_drivers env) k (?b v)),
            nothing_left (lw_diag (pdm_driver_entries_exit_count (mo_drivers env) k (?b v)))) =
              (lw_bus_drivers w0, nothing_left (lw_diag w0)))"
    using drv init by blast
qed

text \<open>
  C12. Loading the module is all or nothing, with the backend and driver entries of the source, whichever
  of the backends are configured and in whatever order the linker puts the entries: when any of its
  stages fails, at any entry and at any call of the kernel within it, every registration with the
  kernel is undone, no entry counts as initialised, the drivers of the serdev, I2C and SPI buses are
  those from before, no driver is on the PDM bus and none of the text files or their directories is
  there, and no synthetic device is left. When it succeeds, unloading leaves exactly as little, although
  it stops the backends before the drivers.
\<close>

theorem module_init_unwinds:
  assumes "module_env_ok env" and "module_unloaded m0"
    and "set (mo_backends env) \<subseteq> set (pdm_backend_section os)"
    and "mo_drivers env = map (pdm_driver_entry_of os) ds" and "distinct ds"
    and "lw_diag (pm_world m0) = diag_start led mcu"
    and "pdm_module_init env m0 = (ret, m')"
  shows "module_gone m0 (if ret \<noteq> 0 then m' else pdm_module_exit env m')"
proof -
  have "nothing_left (lw_diag (pm_world m0))"
    unfolding assms(6) by (simp add: nothing_left_def diag_start_def proc_init_def debugfs_init_def)
  with module_load_unload [OF assms(1,2) source_entries_unwind [OF assms(3-6)] assms(7)] assms(2)
  show ?thesis unfolding module_gone_def module_unloaded_def module_setup_def by (cases "ret = 0") auto
qed

text \<open>
  All entries, in the order of the Makefile. The files of the LED driver cannot be made, so its init
  fails after four backends and the MCU driver are up.
\<close>

definition load_answers :: load_os where
  "load_answers = \<lparr>lo_bus_driver = (\<lambda>_. 0), lo_led = kernel_agrees\<lparr>dx_proc := \<lparr>po_mkdir = True, po_create = False\<rparr>\<rparr>,
     lo_mcu = kernel_agrees, lo_serdev = True, lo_this_module = 1\<rparr>"

definition load_env :: "(nat list, unit load_world, backend_ops) module_env" where
  "load_env = \<lparr>mo_enum = enum_env_ok, mo_ret = (\<lambda>_. 0), mo_backends = pdm_backend_section load_answers,
     mo_drivers = map (pdm_driver_entry_of load_answers) [MCU_DRIVER, LED_DRIVER]\<rparr>"

definition load_start :: "(nat list, unit load_world) pdm_module" where
  "load_start = module0 \<lparr>lw_diag = diag_start bare_driver bare_driver, lw_bus_drivers = []\<rparr>"

theorem module_init_unwinds_witness:
  "fst (pdm_module_init load_env load_start) = - ENOMEM \<and>
   module_gone load_start (snd (pdm_module_init load_env load_start))"
proof -
  have ret: "fst (pdm_module_init load_env load_start) = - ENOMEM"
    by code_simp
  then have "pdm_module_init load_env load_start = (- ENOMEM, snd (pdm_module_init load_env load_start))"
    by (metis prod.collapse)
  from module_init_unwinds [OF _ _ _ _ _ _ this, of load_answers "[MCU_DRIVER, LED_DRIVER]" bare_driver bare_driver]
  have "module_gone load_start (snd (pdm_module_init load_env load_start))"
    using module_examples(2) by (simp add: load_env_def load_start_def module_env_ok_def enum_env_ok_laws module0_def module_unloaded_def)
  with ret show ?thesis by blast
qed

end
