(* ===== verification/Spec2Isabelle.thy ===== *)
theory Spec2Isabelle
  imports
    App_Led_Test
    App_Monitor
    App_Priority
    App_Smart
    App_Sys_Mem
    App_User_Mem
    Kernel_Text
    Libc_Text
    Lpf_Base
    Osal_Atomic
    Osal_Base
    Osal_Crc
    Osal_File
    Osal_Flock
    Osal_Flock_Procs
    Osal_Heap
    Osal_Heap_Kernel
    Osal_Heap_User
    Osal_Kernel_Cond
    Osal_Kernel_Rwlock
    Osal_Kernel_Sem
    Osal_Kernel_Thread
    Osal_Kernel_Thread_Life
    Osal_Log
    Osal_Log_Kernel
    Osal_Log_Life
    Osal_Log_Rotate
    Osal_Select
    Osal_Shm_Cache
    Osal_Shm_High
    Osal_Time
    Pdi
    Pdi_Host
    Pdm_Bus
    Pdm_Cdev
    Pdm_Debugfs
    Pdm_Device
    Pdm_Diag
    Pdm_Diag_Files
    Pdm_Enumerate
    Pdm_Errors
    Pdm_Ids
    Pdm_Instance
    Pdm_Led
    Pdm_Led_Backend
    Pdm_Led_Diag
    Pdm_Led_Driver
    Pdm_Manager
    Pdm_Mcu
    Pdm_Mcu_Diag
    Pdm_Mcu_Driver
    Pdm_Mcu_Ops
    Pdm_Mcu_Protocol
    Pdm_Mcu_Transport
    Pdm_Mcu_Wire
    Pdm_Module
    Pdm_Module_Load
    Pdm_Proc
    Pdm_Registry
    Pdm_Uapi
begin

text \<open>
  A model of LPF (Linux Peripheral Framework): a Linux kernel module, the Peripheral Device Manager
  (PDM), that puts LEDs and microcontrollers (MCUs) on a bus of its own and offers them to user
  space; a C library (PDI) over its device nodes; and the OS abstraction layer (OSAL) under both.

  \<^bold>\<open>How the parts interact.\<close> A bus enumerator (\<open>bus/pdm_of_bus.c\<close>, \<open>drivers/mock\<close>) and the I2C, SPI
  and serial drivers of the MCU create PDM devices (\<open>bus/pdm_device.c\<close>). The bus (\<open>bus/pdm_bus.c\<close>) binds
  each to the LED or the MCU driver. A probe builds an instance with a lock and an online flag
  (\<open>registry/pdm_driver.h\<close>), picks a backend or a transport from a linker section (\<open>registry/\<close>), and
  registers a character device (\<open>bus/pdm_cdev.c\<close>) whose ioctl handler goes through the instance.
  \<open>/dev/pdm_manager\<close> lists the devices. The library (\<open>src/user/pdi\<close>) opens these nodes and calls their
  ioctls. Text files in proc, debugfs and sysfs (\<open>diag/\<close>, \<open>pdm_led_diag.c\<close>, \<open>pdm_mcu_diag.c\<close>) are a
  second way to the same instances. The OSAL (\<open>src/kernel/osal\<close>, \<open>src/user/osal\<close>) has heaps, logs,
  checksums, locks, threads and shared memory, and is used by all of the above.

  \<^bold>\<open>Conventions.\<close> \<open>Lpf_Base\<close> holds them. A return code is an \<open>int\<close>, the machine integers are words, a
  string is the characters before the NUL, a null pointer is \<open>None\<close>. An operation takes the state of
  the system it works on and returns it updated; a handler that waits for a mutex nobody will release
  has the result \<open>None\<close>. What is not under \<open>src/\<close> (the kernel, the C library, the buses and the
  devices on them) is an argument: a record of answers (\<open>mcu_api\<close>, \<open>module_env\<close>, \<open>debugfs_os\<close>,
  \<open>log_env\<close>), and its documented behaviour stands in named hypotheses (an IDA allocates a free id, a
  transfer leaves the instance alone). Where several parts share a contract it is a locale, and each
  provider interprets it on its own definitions: id allocators, LED backends (\<open>led_backend\<close>), MCU
  transports (\<open>mcu_transport\<close>), heaps (\<open>osal_heap\<close>), text files (\<open>diag_files\<close>).

  \<^bold>\<open>The PDM module.\<close>
    \<^item> \<open>Pdm_Uapi\<close> is the ioctl ABI (\<open>src/uapi/pdm\<close>): structs as records, command numbers.
    \<^item> \<open>Pdm_Device\<close>, \<open>Pdm_Ids\<close>, \<open>Pdm_Errors\<close>: the device, its instance id and the ring of error
      records. Two bound devices of a type never share an id; the ring holds the last runs of the
      run-length encoding of everything recorded.
    \<^item> \<open>Pdm_Registry\<close>, \<open>Pdm_Bus\<close>, \<open>Pdm_Module\<close>, \<open>Pdm_Enumerate\<close>: the linker sections, matching, probe
      and remove of the bus, loading the module, creating devices. Whatever fails, what was set up is
      undone, in reverse order. \<open>Pdm_Module_Load\<close> loads and unloads the module with the entries that the
      source puts into the two sections.
    \<^item> \<open>Pdm_Instance\<close>: claim, release and shutdown of an instance, and the interleavings of threads
      over them as an inductive step relation. Nothing uses an instance after its cleanup.
    \<^item> \<open>Pdm_Cdev\<close>, \<open>Pdm_Manager\<close>: the life of a device node, and discovery.
    \<^item> \<open>Pdm_Led_Backend\<close>, \<open>Pdm_Led\<close>, \<open>Pdm_Led_Driver\<close>: three backends over the state of the hardware, the
      handlers, and probe and remove. Any list of requests refines an abstract LED (brightness and
      enable flag); a failed probe and a full life leave every resource as before.
    \<^item> \<open>Pdm_Mcu_Transport\<close>, \<open>Pdm_Mcu_Ops\<close>, \<open>Pdm_Mcu_Wire\<close>, \<open>Pdm_Mcu_Protocol\<close>, \<open>Pdm_Mcu\<close>, \<open>Pdm_Mcu_Driver\<close>:
      the same for MCUs over CAN, I2C, SPI and UART, down to the bytes on the wire. The loop that
      waits for UART bytes is driven by a list of events of the port, one for each turn, and is shown
      to return.
    \<^item> \<open>Kernel_Text\<close>, \<open>Pdm_Led_Diag\<close>, \<open>Pdm_Mcu_Diag\<close>, \<open>Pdm_Diag_Files\<close>, \<open>Pdm_Proc\<close>, \<open>Pdm_Debugfs\<close>, \<open>Pdm_Diag\<close>:
      the text interface, its parsers over \<open>sscanf\<close>, and the registration of its files.

  \<^bold>\<open>The PDI library.\<close> \<open>Pdi\<close> is the library over a table of system calls. \<open>Pdi_Host\<close> puts the table of the
  kernel modules under it, with a POSIX table of descriptors, so that its theorems speak about the
  library and the module together: enumeration, opening by name, what is set is what is read back,
  what failed is what discovery reports. \<open>node_path_agrees\<close> below relates the two names of a node.

  \<^bold>\<open>The OSAL.\<close>
    \<^item> \<open>Osal_Crc\<close>: the table-driven checksums of user space are the bitwise ones of the kernel module.
    \<^item> \<open>Osal_Heap\<close> with \<open>Osal_Heap_Kernel\<close> and \<open>Osal_Heap_User\<close>: contents of blocks, accounting, threshold, and
      what asking the user heap for information does to its accounting.
    \<^item> \<open>Osal_Shm_Cache\<close>: the cache in shared memory refines a map. \<open>Osal_Shm_High\<close>: the table of handles of
      shared memory leaks no descriptor.
    \<^item> \<open>Osal_Log\<close>, \<open>Osal_Log_Life\<close>, \<open>Osal_Log_Rotate\<close>, \<open>Osal_Log_Kernel\<close>: the two logs; the file and its
      backups are a queue of bounded size.
    \<^item> \<open>Osal_Kernel_Sem\<close>, \<open>Osal_Kernel_Rwlock\<close>, \<open>Osal_Kernel_Cond\<close>: the locks of the kernel module over the
      primitives of the kernel. Each call is cut where another thread can come between; step relations
      over program counters show exclusion and, with the wait queue, that no signal is lost.
    \<^item> \<open>Osal_Kernel_Thread\<close>, \<open>Osal_Kernel_Thread_Life\<close>: the operations on a thread, and the race between the
      end of a thread and the call that joins, detaches or cancels it.
    \<^item> \<open>Osal_Flock\<close>, \<open>Osal_Flock_Procs\<close>: locks on files, in one process and between several.
    \<^item> \<open>Osal_File\<close>, \<open>Osal_Select\<close>, \<open>Osal_Atomic\<close>: flags of files, descriptor sets as words of 32 and of 64
      bits, and the atomic operations of both libraries.
    \<^item> \<open>Osal_Time\<close>: sleeping, clocks and deadlines of both libraries, down to the nanosecond.

  \<^bold>\<open>The applications\<close> (\<open>src/apps\<close>). \<open>Libc_Text\<close> has \<open>fgets\<close>, \<open>atoi\<close> and an interpreter for the formats that the
  sources give to \<open>sscanf\<close>; a file is its text.
    \<^item> \<open>App_Sys_Mem\<close>, \<open>App_User_Mem\<close>, \<open>App_Monitor\<close>: the memory monitor, from the files in proc to the matrix
      of six layers. What is shown is what the files say, and the layers make up the memory.
    \<^item> \<open>App_Smart\<close>: the eMMC health monitor, from its arguments to the characters of its report.
    \<^item> \<open>App_Priority\<close>: the thread listing; the format for \<open>stat\<close> picks the documented fields whatever the name
      of the thread contains.
    \<^item> \<open>App_Led_Test\<close>: the LED test program, run over the PDI library and the kernel modules.

  \<^bold>\<open>Bounds.\<close> Widths are those of the code: ids and counters wrap where C wraps. Sizes of structs, where
  they matter, are those of a 64-bit little-endian host. Recursions are structural or have a measure;
  loops that depend on the outside (UART, locks with a time limit) recurse over the list of what the
  outside does, and a theorem says how much of it is enough.

  \<^bold>\<open>Not modelled.\<close> Messages to the kernel log other than those of \<open>osal_log.c\<close>, since no later behaviour
  depends on them. The memory model of the processor: an atomic operation is one step, and threads
  interleave between the operations of a lock. The parts of the OSAL of user space that only pass their arguments on to the
  C library, and the output functions of the applications. The tests, and the vendored kconfig
  tool under \<open>src/scripts\<close>.
\<close>

section \<open>Node paths: the library opens what the drivers register\<close>

lemma node_name_length:
  assumes "0 \<le> nid" and "nid < 2 ^ 31"
  shows "dec_int nid = dec_digits (unat (of_int nid :: u32))" and "length (dec_int nid) \<le> 10"
proof -
  have u: "unat (of_int nid :: u32) = nat nid"
    using assms by (simp add: unsigned_of_int take_bit_int_eq_self)
  then show eq: "dec_int nid = dec_digits (unat (of_int nid :: u32))" using assms(1) by (simp add: dec_int_def)
  have "nat nid < 10 ^ Suc 9" using assms by simp
  then show "length (dec_int nid) \<le> 10" using length_dec_digits [of "nat nid" 9] eq u by simp
qed

lemma registered_nodename:
  assumes "pdm_cdev_register api 0 0 s name (Some node) fops rel = (0, t)"
  shows "cd_nodename (cs_client t) = strscpy 64 node"
  using assms by (auto simp: pdm_cdev_register_def Let_def split: if_splits prod.splits)

text \<open>
  C9. The path under which the kernel shows a LED or an MCU with id \<open>nid\<close> is the path that the
  library makes from the index which discovery reports for it.
\<close>

theorem node_path_agrees:
  assumes "0 \<le> nid" and "nid < 2 ^ 31"
    and "pdm_cdev_register api 0 0 s (Some ''pdm-led'') (Some (pdm_led_nodename nid)) (Some 0) True = (0, t)"
    and "pdm_cdev_register api 0 0 s' (Some ''pdm-mcu'') (Some (pdm_mcu_nodename nid)) (Some 0) True = (0, t')"
  shows "''/dev/'' @ pdm_cdev_devnode (cs_client t) = pdi_led_device_path (of_int nid) \<and>
     ''/dev/'' @ pdm_cdev_devnode (cs_client t') = pdi_mcu_device_path (of_int nid)"
  using node_name_length [OF assms(1,2)] registered_nodename [OF assms(3)] registered_nodename [OF assms(4)]
  by (simp add: pdm_cdev_devnode_def pdm_led_nodename_def pdm_mcu_nodename_def pdi_led_device_path_def
      pdi_mcu_device_path_def)

theorem node_path_agrees_witness:
  "''/dev/'' @ pdm_cdev_devnode (cs_client (snd (pdm_cdev_register list_ida 0 0 cdev_sys0 (Some ''pdm-led'')
      (Some (pdm_led_nodename 3)) (Some 0) True))) = pdi_led_device_path 3"
proof -
  have "fst (pdm_cdev_register list_ida 0 0 cdev_sys0 (Some name) (Some node) (Some 0) True) = 0"
    if "CHR ''/'' \<notin> set node" for name node
    using that by (simp add: pdm_cdev_register_def list_ida_def cdev_sys0_def Let_def)
  moreover have "CHR ''/'' \<notin> set (pdm_led_nodename 3)" "CHR ''/'' \<notin> set (pdm_mcu_nodename 3)"
    by code_simp+
  ultimately obtain t t' where
    led: "pdm_cdev_register list_ida 0 0 cdev_sys0 (Some ''pdm-led'') (Some (pdm_led_nodename 3)) (Some 0) True = (0, t)" and
    mcu: "pdm_cdev_register list_ida 0 0 cdev_sys0 (Some ''pdm-mcu'') (Some (pdm_mcu_nodename 3)) (Some 0) True = (0, t')"
    by (metis prod.collapse)
  show ?thesis using node_path_agrees [OF _ _ led mcu] led by simp
qed

end
